(* ===== verification/Sna_Prelude.thy ===== *)
theory Sna_Prelude
  imports Main "HOL-Library.Word" "HOL-Library.Monad_Syntax"
begin

text \<open>
  Shared vocabulary of the development: the widths of the C integers the sources use,
  blocks of memory with checked reads and writes, NUL-terminated strings, and the list
  lemmas the components share.

  Every operation of the program that can touch memory out of range, read storage that was
  never written or stop in a failed assertion returns an \<open>option\<close>; \<^term>\<open>None\<close> is that
  fault. A component shows that its invariant excludes the fault before its functional
  lemmas are stated, so that a caller never has to argue about it again.
\<close>

unbundle bit_operations_syntax

section \<open>Types\<close>

type_synonym byte = "8 word"
type_synonym u16 = "16 word"
type_synonym u32 = "32 word"

named_theorems mem_simps \<open>checked memory accesses that stay in range\<close>
named_theorems fault_free \<open>operations that cannot fault under the invariant\<close>

section \<open>Byte order\<close>

text \<open>The conversions of a little-endian host, the machine the development is about.\<close>

definition htons :: "u16 \<Rightarrow> u16" where
  "htons x = push_bit 8 x OR drop_bit 8 x"

definition ntohs :: "u16 \<Rightarrow> u16" where
  "ntohs x = htons x"

definition htonl :: "u32 \<Rightarrow> u32" where
  "htonl w = push_bit 24 (take_bit 8 w) OR push_bit 16 (take_bit 8 (drop_bit 8 w))
             OR push_bit 8 (take_bit 8 (drop_bit 16 w)) OR drop_bit 24 w"

section \<open>Memory blocks\<close>

text \<open>
  A block is a list of cells. \<^term>\<open>peek\<close> and \<^term>\<open>poke\<close> are \<^verbatim>\<open>p[i]\<close> and
  \<^verbatim>\<open>p[i] = v\<close>: outside the block they fault.
\<close>

definition peek :: "'a list \<Rightarrow> nat \<Rightarrow> 'a option" where
  "peek m i = (if i < length m then Some (m ! i) else None)"

definition poke :: "'a list \<Rightarrow> nat \<Rightarrow> 'a \<Rightarrow> 'a list option" where
  "poke m i v = (if i < length m then Some (m[i := v]) else None)"

text \<open>\<^verbatim>\<open>memcpy(&m[i], vs, length vs)\<close>.\<close>

definition poke_block :: "'a list \<Rightarrow> nat \<Rightarrow> 'a list \<Rightarrow> 'a list option" where
  "poke_block m i vs =
     (if i + length vs \<le> length m
      then Some (take i m @ vs @ drop (i + length vs) m) else None)"

lemma peek_Some_iff: "peek m i = Some v \<longleftrightarrow> i < length m \<and> m ! i = v"
  by (simp add: peek_def)

lemma peek_in [mem_simps]: "i < length m \<Longrightarrow> peek m i = Some (m ! i)"
  by (simp add: peek_def)

lemma poke_Some_iff: "poke m i v = Some m' \<longleftrightarrow> i < length m \<and> m' = m[i := v]"
  by (auto simp: poke_def)

lemma poke_in [mem_simps]: "i < length m \<Longrightarrow> poke m i v = Some (m[i := v])"
  by (simp add: poke_def)

lemma poke_block_in [mem_simps]:
  "i + length vs \<le> length m \<Longrightarrow>
   poke_block m i vs = Some (take i m @ vs @ drop (i + length vs) m)"
  by (simp add: poke_block_def)

lemma length_poke_block: "poke_block m i vs = Some m' \<Longrightarrow> length m' = length m"
  by (auto simp: poke_block_def split: if_splits)

lemma take_poke_block:
  "poke_block m i vs = Some m' \<Longrightarrow> take (i + length vs) m' = take i m @ vs"
  by (auto simp: poke_block_def split: if_splits)

section \<open>NUL-terminated strings\<close>

text \<open>
  \<^term>\<open>c_string m\<close> is the string a pointer to the block \<open>m\<close> denotes: the cells before the
  first zero, and a fault when the block holds no zero (\<^verbatim>\<open>strlen\<close> would run past it).
\<close>

definition c_string :: "byte list \<Rightarrow> byte list option" where
  "c_string m = (if 0 \<in> set m then Some (takeWhile (\<lambda>b. b \<noteq> 0) m) else None)"

lemma c_string_append: "0 \<notin> set s \<Longrightarrow> c_string (s @ 0 # r) = Some s"
  by (induction s) (auto simp: c_string_def)

lemma c_string_no_nul: "c_string m = Some s \<Longrightarrow> 0 \<notin> set s"
  by (auto simp: c_string_def dest: set_takeWhileD split: if_splits)

lemma c_string_decomp: "c_string m = Some s \<Longrightarrow> \<exists>r. m = s @ 0 # r"
proof (induction m arbitrary: s)
  case Nil
  then show ?case by (simp add: c_string_def)
next
  case (Cons b m)
  then show ?case
    by (cases "b = 0") (auto simp: c_string_def split: if_splits)
qed

section \<open>Character classes\<close>

text \<open>\<^verbatim>\<open>isspace\<close> in the C locale.\<close>

definition is_space :: "char \<Rightarrow> bool" where
  "is_space c \<longleftrightarrow> (let n = of_char c :: nat in n = 32 \<or> 9 \<le> n \<and> n \<le> 13)"

section \<open>Numbers in strings\<close>

definition digit_val :: "char \<Rightarrow> nat option" where
  "digit_val c = (let n = of_char c :: nat in
     if 48 \<le> n \<and> n \<le> 57 then Some (n - 48)
     else if 97 \<le> n \<and> n \<le> 122 then Some (n - 87)
     else if 65 \<le> n \<and> n \<le> 90 then Some (n - 55)
     else None)"

definition is_digit :: "nat \<Rightarrow> char \<Rightarrow> bool" where
  "is_digit base c = (case digit_val c of Some d \<Rightarrow> d < base | None \<Rightarrow> False)"

definition digits_val :: "nat \<Rightarrow> string \<Rightarrow> nat" where
  "digits_val base ds = foldl (\<lambda>a c. a * base + the (digit_val c)) 0 ds"

text \<open>\<^verbatim>\<open>strtol(s, &tail, 0)\<close>: the value, clamped to \<^verbatim>\<open>long\<close>, and the tail.\<close>

definition clamp_long :: "int \<Rightarrow> int" where
  "clamp_long v = max (- (2 ^ 63)) (min (2 ^ 63 - 1) v)"

definition strtol_sign :: "string \<Rightarrow> bool \<times> string" where
  "strtol_sign s = (case s of
     [] \<Rightarrow> (False, [])
   | c # r \<Rightarrow> if c = CHR ''-'' then (True, r) else if c = CHR ''+'' then (False, r) else (False, s))"

definition strtol_prefix :: "string \<Rightarrow> nat \<times> string" where
  "strtol_prefix s =
     (if 3 \<le> length s \<and> s ! 0 = CHR ''0'' \<and> (s ! 1 = CHR ''x'' \<or> s ! 1 = CHR ''X'')
         \<and> is_digit 16 (s ! 2) then (16, drop 2 s)
      else if 1 \<le> length s \<and> s ! 0 = CHR ''0'' then (8, s)
      else (10, s))"

definition strtol0 :: "string \<Rightarrow> int \<times> string" where
  "strtol0 s =
     (let (neg, r) = strtol_sign (dropWhile is_space s);
          (base, r) = strtol_prefix r;
          ds = takeWhile (is_digit base) r
      in if ds = [] then (0, s)
         else (clamp_long (if neg then - int (digits_val base ds) else int (digits_val base ds)),
               dropWhile (is_digit base) r))"

text \<open>\<^verbatim>\<open>atoi(s)\<close>: \<^verbatim>\<open>(int) strtol(s, NULL, 10)\<close>.\<close>

definition atoi :: "string \<Rightarrow> int" where
  "atoi s =
     (let (neg, r) = strtol_sign (dropWhile is_space s);
          n = int (digits_val 10 (takeWhile (is_digit 10) r))
      in sint (word_of_int (clamp_long (if neg then - n else n)) :: u32))"

section \<open>Formatted output\<close>

text \<open>\<^verbatim>\<open>%d\<close> of a number that is not negative.\<close>

fun decimal :: "nat \<Rightarrow> byte list" where
  "decimal n = (if n < 10 then [of_nat (48 + n)] else decimal (n div 10) @ [of_nat (48 + n mod 10)])"

declare decimal.simps [simp del]

text \<open>The field widths \<^verbatim>\<open>%ns\<close> and \<^verbatim>\<open>%-ns\<close>.\<close>

definition pad_left :: "nat \<Rightarrow> byte list \<Rightarrow> byte list" where
  "pad_left n s = replicate (n - length s) 0x20 @ s"

definition pad_right :: "nat \<Rightarrow> byte list \<Rightarrow> byte list" where
  "pad_right n s = s @ replicate (n - length s) 0x20"

text \<open>The conversion \<^verbatim>\<open>%0nX\<close> of a number that is not negative.\<close>

fun hex_digits :: "nat \<Rightarrow> string" where
  "hex_digits n = (if n < 16 then [] else hex_digits (n div 16)) @ [''0123456789ABCDEF'' ! (n mod 16)]"

declare hex_digits.simps [simp del]

definition hex_field :: "nat \<Rightarrow> nat \<Rightarrow> string" where
  "hex_field w n = replicate (w - length (hex_digits n)) CHR ''0'' @ hex_digits n"

text \<open>The last \<open>k\<close> digits, which are the whole field when the number has no more.\<close>

fun hex_fixed :: "nat \<Rightarrow> nat \<Rightarrow> string" where
  "hex_fixed 0 n = []"
| "hex_fixed (Suc k) n = hex_fixed k (n div 16) @ [''0123456789ABCDEF'' ! (n mod 16)]"

lemma length_hex_fixed [simp]: "length (hex_fixed k n) = k"
  by (induction k n rule: hex_fixed.induct) simp_all

lemma hex_fixed_0: "hex_fixed k 0 = replicate k CHR ''0''"
  by (induction k) (simp_all add: replicate_append_same)

lemma hex_field_fixed: "n < 16 ^ k \<Longrightarrow> 0 < k \<Longrightarrow> hex_field k n = hex_fixed k n"
proof (induction k arbitrary: n)
  case (Suc k)
  show ?case
  proof (cases "n < 16")
    case True
    then show ?thesis by (simp add: hex_field_def hex_digits.simps [of n] hex_fixed_0)
  next
    case False
    then have k: "0 < k" using Suc.prems(1) by (cases k) auto
    moreover have "n div 16 < 16 ^ k" using Suc.prems(1) by (simp add: less_mult_imp_div_less mult.commute)
    ultimately have "hex_field k (n div 16) = hex_fixed k (n div 16)" using Suc.IH by blast
    then show ?thesis using False by (simp add: hex_field_def hex_digits.simps [of n])
  qed
qed simp

lemma length_decimal: "n < 10 ^ k \<Longrightarrow> 0 < k \<Longrightarrow> length (decimal n) \<le> k"
proof (induction k arbitrary: n)
  case (Suc k)
  show ?case
  proof (cases "n < 10")
    case True
    then show ?thesis by (subst decimal.simps) simp
  next
    case False
    then have "0 < k" using Suc.prems(1) by (cases k) auto
    moreover have "n div 10 < 10 ^ k" using Suc.prems(1) by (simp add: less_mult_imp_div_less mult.commute)
    ultimately show ?thesis using Suc.IH [of "n div 10"] False by (subst decimal.simps) simp
  qed
qed simp

section \<open>List lemmas\<close>

lemma list_update_take_snoc:
  "i < length xs \<Longrightarrow> take (Suc i) (xs[i := v]) = take i xs @ [v]"
  by (simp add: take_Suc_conv_app_nth)

lemma takeWhile_id: "(\<And>x. x \<in> set xs \<Longrightarrow> P x) \<Longrightarrow> takeWhile P xs = xs"
  by (simp add: takeWhile_eq_all_conv)

lemma last_notin_butlast: "distinct xs \<Longrightarrow> last xs \<notin> set (butlast xs)"
  by (cases xs rule: rev_cases) auto

lemma hd_notin_tl: "distinct xs \<Longrightarrow> hd xs \<notin> set (tl xs)"
  by (cases xs) auto

end
