(* ===== verification/Tn_Clients.thy ===== *)
theory Tn_Clients
  imports Sna_Prelude
begin

text \<open>
  The list of permitted clients (\<^verbatim>\<open>tnX_build_addr_list\<close> and \<^verbatim>\<open>tnX_valid_client\<close> of
  \<^verbatim>\<open>libtnX/libtnX.c\<close>): entries \<^verbatim>\<open>address/bits\<close> are turned into address and mask pairs,
  and a client is admitted when one pair matches it. \<^verbatim>\<open>inet_aton\<close> is a parameter: a partial
  function from strings to addresses in network byte order. The host is a little-endian LP64
  machine, so \<^verbatim>\<open>unsigned long\<close> has 64 bits and \<^verbatim>\<open>htonl\<close> reverses the bytes.
\<close>

section \<open>Library functions the code uses\<close>

type_synonym u64 = "64 word"

section \<open>The list of permitted clients\<close>

record clientaddr =
  ca_address :: u64
  ca_mask :: u64

text \<open>
  \<^verbatim>\<open>0xFFFFFFFF << 32-mask\<close>: the left operand is a 32-bit \<^verbatim>\<open>unsigned int\<close>, so a shift
  count of 32 or more is undefined.
\<close>

definition prefix_mask :: "u64 \<Rightarrow> u32 option" where
  "prefix_mask bits =
     (let n = unat (32 - bits) in if n < 32 then Some (push_bit n 0xFFFFFFFF) else None)"

text \<open>
  The loop over the configured entries. The result pairs the list built so far (\<^verbatim>\<open>NULL\<close>,
  the empty list, after an entry in error) with the entries as the loop leaves them: the slash
  of each entry it reached is overwritten by a NUL.
\<close>

fun build_addr_loop ::
  "(string \<Rightarrow> u32 option) \<Rightarrow> string list \<Rightarrow> clientaddr list
    \<Rightarrow> (clientaddr list \<times> string list) option" where
  "build_addr_loop inet_aton [] result = Some (result, [])"
| "build_addr_loop inet_aton (s # iter) result =
     (if CHR ''/'' \<notin> set s then Some ([], s # iter)
      else
        let addr = takeWhile (\<lambda>c. c \<noteq> CHR ''/'') s;
            slash = drop (length addr + 1) s
        in case inet_aton addr of
             None \<Rightarrow> Some ([], addr # iter)
           | Some tempaddr \<Rightarrow>
               let (v, tail) = strtol0 slash
               in if tail \<noteq> [] then Some ([], addr # iter)
                  else do {
                    m \<leftarrow> prefix_mask (word_of_int v);
                    (res, iter') \<leftarrow> build_addr_loop inet_aton iter
                      (result @ [\<lparr>ca_address = ucast tempaddr, ca_mask = ucast (htonl m)\<rparr>]);
                    Some (res, addr # iter')
                  })"

text \<open>Without a configured entry the list admits the local host only.\<close>

definition tnX_build_addr_list ::
  "(string \<Rightarrow> u32 option) \<Rightarrow> string list \<Rightarrow> (clientaddr list \<times> string list) option" where
  "tnX_build_addr_list inet_aton addrlist =
     (if addrlist = [] then do {
        tempaddr \<leftarrow> inet_aton ''127.0.0.1'';
        Some ([\<lparr>ca_address = ucast tempaddr, ca_mask = 0xFFFFFFFF\<rparr>], [])
      } else build_addr_loop inet_aton addrlist [])"

fun tnX_valid_client :: "clientaddr list \<Rightarrow> u64 \<Rightarrow> bool" where
  "tnX_valid_client [] client = False"
| "tnX_valid_client (data # iter) client =
     (if ca_address data AND ca_mask data = client AND ca_mask data then True
      else tnX_valid_client iter client)"

section \<open>Masks select prefixes\<close>

text \<open>The two addresses, in network byte order, agree in their first \<open>n\<close> bits.\<close>

definition same_prefix :: "nat \<Rightarrow> u32 \<Rightarrow> u32 \<Rightarrow> bool" where
  "same_prefix n a b \<longleftrightarrow> drop_bit (32 - n) (htonl a) = drop_bit (32 - n) (htonl b)"

text \<open>The two-digit decimal numeral of a prefix length.\<close>

definition dec2 :: "nat \<Rightarrow> string" where
  "dec2 n = (if n < 10 then [] else [''0123456789'' ! (n div 10)]) @ [''0123456789'' ! (n mod 10)]"

lemma bit_htonl:
  "bit (htonl w) n \<longleftrightarrow> n < 32 \<and>
     bit w (if n < 8 then n + 24 else if n < 16 then n + 8 else if n < 24 then n - 8 else n - 24)"
proof -
  consider "n < 8" | "8 \<le> n" "n < 16" | "16 \<le> n" "n < 24" | "24 \<le> n" "n < 32" | "32 \<le> n"
    by linarith
  then show ?thesis
    by cases (auto simp: htonl_def bit_simps add.commute dest: bit_imp_le_length)
qed

lemma htonl_and: "htonl (a AND b) = htonl a AND htonl b"
  by (rule bit_word_eqI) (simp add: bit_htonl bit_and_iff)

lemma htonl_htonl: "htonl (htonl a) = a"
  by (rule bit_word_eqI) (auto simp: bit_htonl)

lemma htonl_eq_iff: "htonl a = htonl b \<longleftrightarrow> a = b"
  by (metis htonl_htonl)

lemma mask_and_eq_iff:
  fixes a b :: u32
  shows "a AND NOT (mask k) = b AND NOT (mask k) \<longleftrightarrow> drop_bit k a = drop_bit k b"
proof
  assume eq: "a AND NOT (mask k) = b AND NOT (mask k)"
  show "drop_bit k a = drop_bit k b"
  proof (rule bit_word_eqI)
    fix i assume i: "i < LENGTH(32)"
    from eq have "bit (a AND NOT (mask k)) (k + i) = bit (b AND NOT (mask k)) (k + i)"
      by simp
    then show "bit (drop_bit k a) i = bit (drop_bit k b) i"
      by (auto simp: bit_simps dest: bit_imp_le_length)
  qed
next
  assume eq: "drop_bit k a = drop_bit k b"
  show "a AND NOT (mask k) = b AND NOT (mask k)"
  proof (rule bit_word_eqI)
    fix i assume "i < LENGTH(32)"
    from eq have "bit (drop_bit k a) (i - k) = bit (drop_bit k b) (i - k)" by simp
    then show "bit (a AND NOT (mask k)) i = bit (b AND NOT (mask k)) i"
      by (auto simp: bit_simps)
  qed
qed

lemma ones32: "(0xFFFFFFFF :: u32) = - 1"
  by simp

lemma prefix_mask_ok:
  assumes "1 \<le> n" "n \<le> 32"
  shows "prefix_mask (word_of_nat n) = Some (NOT (mask (32 - n)))"
proof -
  have "(32 :: u64) - word_of_nat n = word_of_nat (32 - n)"
    using assms by (simp add: of_nat_diff)
  then have "unat ((32 :: u64) - word_of_nat n) = take_bit 64 (32 - n)"
    by (simp only: unsigned_of_nat) simp
  then have "unat ((32 :: u64) - word_of_nat n) = 32 - n"
    using assms by (simp add: take_bit_nat_eq_self)
  moreover have "push_bit (32 - n) (0xFFFFFFFF :: u32) = NOT (mask (32 - n))"
    unfolding ones32 by (rule push_bit_minus_one_eq_not_mask)
  ultimately show ?thesis using assms by (simp add: prefix_mask_def Let_def)
qed

lemma dec2_strtol0:
  assumes "1 \<le> n" "n \<le> 32"
  shows "strtol0 (dec2 n) = (int n, [])"
proof -
  have "n \<in> set [1..<33]" using assms by simp
  then show ?thesis
    by (simp add: upt_rec)
       (elim disjE; simp add: dec2_def strtol0_def strtol_sign_def strtol_prefix_def is_space_def
        is_digit_def digit_val_def digits_val_def clamp_long_def)
qed

section \<open>Admission\<close>

text \<open>
  A configured entry is an address, its prefix length and the value \<^verbatim>\<open>inet_aton\<close> gives it.
\<close>

type_synonym entry = "string \<times> nat \<times> u32"

definition entry_text :: "entry \<Rightarrow> string" where
  "entry_text e = (case e of (a, n, ip) \<Rightarrow> a @ CHR ''/'' # dec2 n)"

definition entry_ok :: "(string \<Rightarrow> u32 option) \<Rightarrow> entry \<Rightarrow> bool" where
  "entry_ok inet_aton e = (case e of (a, n, ip) \<Rightarrow>
     inet_aton a = Some ip \<and> CHR ''/'' \<notin> set a \<and> 1 \<le> n \<and> n \<le> 32)"

definition entry_addr :: "entry \<Rightarrow> clientaddr" where
  "entry_addr e = (case e of (a, n, ip) \<Rightarrow>
     \<lparr>ca_address = ucast ip, ca_mask = ucast (htonl (NOT (mask (32 - n))))\<rparr>)"

definition entry_admits :: "u32 \<Rightarrow> entry \<Rightarrow> bool" where
  "entry_admits client e = (case e of (a, n, ip) \<Rightarrow> same_prefix n ip client)"

lemma takeWhile_slash:
  "CHR ''/'' \<notin> set a \<Longrightarrow> takeWhile (\<lambda>c. c \<noteq> CHR ''/'') (a @ CHR ''/'' # r) = a"
  by (simp add: takeWhile_append takeWhile_id)

lemma build_addr_loop_ok:
  "list_all (entry_ok inet_aton) es \<Longrightarrow>
   build_addr_loop inet_aton (map entry_text es) acc = Some (acc @ map entry_addr es, map fst es)"
proof (induction es arbitrary: acc)
  case Nil
  then show ?case by simp
next
  case (Cons e es)
  obtain a n ip where e: "e = (a, n, ip)" by (cases e)
  with Cons.prems have ok: "inet_aton a = Some ip" "CHR ''/'' \<notin> set a" "1 \<le> n" "n \<le> 32"
    by (auto simp: entry_ok_def)
  from Cons.prems have "list_all (entry_ok inet_aton) es" by simp
  note IH = Cons.IH [OF this, of "acc @ [entry_addr e]"]
  show ?case
    using ok IH
    by (simp add: e entry_text_def takeWhile_slash dec2_strtol0 prefix_mask_ok entry_addr_def)
qed

lemma ucast_and_eq_iff:
  fixes a b m :: u32
  shows "(ucast a :: u64) AND ucast m = ucast b AND ucast m \<longleftrightarrow> a AND m = b AND m"
proof -
  have "(ucast v :: u64) = ucast w \<longleftrightarrow> v = w" for v w :: u32
    using bit_imp_le_length [of v] bit_imp_le_length [of w]
    by (fastforce simp: bit_eq_iff [of v] bit_eq_iff [of "ucast v :: u64"] bit_simps)
  then show ?thesis by (simp flip: unsigned_and_eq)
qed

lemma entry_matches:
  assumes "entry_ok inet_aton e"
  shows "ca_address (entry_addr e) AND ca_mask (entry_addr e) = ucast client AND ca_mask (entry_addr e)
         \<longleftrightarrow> entry_admits client e"
proof -
  obtain a n ip where e: "e = (a, n, ip)" by (cases e)
  let ?m = "NOT (mask (32 - n)) :: u32"
  have "ip AND htonl ?m = client AND htonl ?m \<longleftrightarrow> htonl ip AND ?m = htonl client AND ?m"
    by (metis htonl_and htonl_htonl)
  then show ?thesis
    by (simp add: e entry_addr_def entry_admits_def same_prefix_def ucast_and_eq_iff mask_and_eq_iff)
qed

lemma valid_client_entries:
  "list_all (entry_ok inet_aton) es \<Longrightarrow>
   tnX_valid_client (map entry_addr es) (ucast client) = list_ex (entry_admits client) es"
  by (induction es) (auto simp: entry_matches)

text \<open>
  C32. A list of well-formed entries \<^verbatim>\<open>address/bits\<close> with 1 to 32 bits is built without a fault,
  and a client is admitted exactly when its address agrees with the address of some entry in
  as many leading bits as the entry says.
\<close>

theorem permitted_clients:
  assumes "es \<noteq> []" and "list_all (entry_ok inet_aton) es"
  shows "\<exists>addrs. tnX_build_addr_list inet_aton (map entry_text es) = Some (addrs, map fst es)
    \<and> (\<forall>client. tnX_valid_client addrs (ucast client) = list_ex (entry_admits client) es)"
  using assms build_addr_loop_ok [OF assms(2), of "[]"] valid_client_entries [OF assms(2)]
  by (auto simp: tnX_build_addr_list_def)

definition aton_sample :: "string \<Rightarrow> u32 option" where
  "aton_sample s = (if s = ''10.0.0.0'' then Some 0x0000000A
                    else if s = ''127.0.0.1'' then Some 0x0100007F else None)"

theorem permitted_clients_witness:
  "\<exists>addrs. tnX_build_addr_list aton_sample [''10.0.0.0/8''] = Some (addrs, [''10.0.0.0''])
     \<and> tnX_valid_client addrs 0x0305070A \<and> \<not> tnX_valid_client addrs 0x0305070B"
proof -
  let ?es = "[(''10.0.0.0'', 8 :: nat, 0x0000000A :: u32)]"
  have ok: "list_all (entry_ok aton_sample) ?es"
    by (simp add: entry_ok_def aton_sample_def)
  from permitted_clients [OF _ ok] obtain addrs
    where b: "tnX_build_addr_list aton_sample (map entry_text ?es) = Some (addrs, map fst ?es)"
      and v: "\<And>client. tnX_valid_client addrs (ucast client) = list_ex (entry_admits client) ?es"
    by auto
  from v [of "0x0305070A"] v [of "0x0305070B"]
  have "tnX_valid_client addrs 0x0305070A \<and> \<not> tnX_valid_client addrs 0x0305070B"
    by (simp add: entry_admits_def same_prefix_def htonl_def)
  with b show ?thesis by (simp add: entry_text_def dec2_def)
qed

text \<open>
  The entries \<^verbatim>\<open>tnX_build_addr_list\<close> refuses: no slash, an address \<^verbatim>\<open>inet_aton\<close> refuses, or
  characters after the number.
\<close>

definition entry_bad :: "(string \<Rightarrow> u32 option) \<Rightarrow> string \<Rightarrow> bool" where
  "entry_bad inet_aton s \<longleftrightarrow>
     CHR ''/'' \<notin> set s
     \<or> inet_aton (takeWhile (\<lambda>c. c \<noteq> CHR ''/'') s) = None
     \<or> snd (strtol0 (drop (length (takeWhile (\<lambda>c. c \<noteq> CHR ''/'') s) + 1) s)) \<noteq> []"

lemma build_addr_loop_bad:
  "entry_bad inet_aton s \<Longrightarrow> \<exists>left. build_addr_loop inet_aton (s # iter) acc = Some ([], left)"
  by (auto simp: entry_bad_def Let_def split: option.splits prod.splits)

lemma build_addr_loop_append:
  "list_all (entry_ok inet_aton) es \<Longrightarrow>
   build_addr_loop inet_aton (map entry_text es @ rest) acc =
     Option.bind (build_addr_loop inet_aton rest (acc @ map entry_addr es))
       (\<lambda>(res, left). Some (res, map fst es @ left))"
proof (induction es arbitrary: acc)
  case Nil
  then show ?case by (simp split: bind_splits)
next
  case (Cons e es)
  obtain a n ip where e: "e = (a, n, ip)" by (cases e)
  with Cons.prems have ok: "inet_aton a = Some ip" "CHR ''/'' \<notin> set a" "1 \<le> n" "n \<le> 32"
    by (auto simp: entry_ok_def)
  from Cons.prems have "list_all (entry_ok inet_aton) es" by simp
  note IH = Cons.IH [OF this, of "acc @ [entry_addr e]"]
  show ?case
    using ok IH
    by (simp add: e entry_text_def takeWhile_slash dec2_strtol0 prefix_mask_ok entry_addr_def
        split: bind_splits prod.splits)
qed

text \<open>
  One entry in error after any number of well-formed ones empties the whole list: nobody is
  admitted, whatever the other entries say.
\<close>

theorem bad_entry_admits_nobody:
  assumes "list_all (entry_ok inet_aton) es" and "entry_bad inet_aton s"
  shows "\<exists>addrs left. tnX_build_addr_list inet_aton (map entry_text es @ s # rest) = Some (addrs, left)
    \<and> (\<forall>client. \<not> tnX_valid_client addrs client)"
proof -
  from build_addr_loop_bad [OF assms(2), of rest "map entry_addr es"] obtain left
    where "build_addr_loop inet_aton (s # rest) (map entry_addr es) = Some ([], left)" by blast
  then show ?thesis
    by (simp add: tnX_build_addr_list_def build_addr_loop_append [OF assms(1)] del: build_addr_loop.simps)
qed

theorem bad_entry_admits_nobody_witness:
  "\<exists>addrs left. tnX_build_addr_list aton_sample [''10.0.0.0/8'', ''127.0.0.1'', ''10.0.0.0/8'']
      = Some (addrs, left) \<and> (\<forall>client. \<not> tnX_valid_client addrs client)"
  using bad_entry_admits_nobody
    [of aton_sample "[(''10.0.0.0'', 8, 0x0000000A)]" "''127.0.0.1''" "[''10.0.0.0/8'']"]
  by (simp add: entry_ok_def entry_bad_def aton_sample_def entry_text_def dec2_def)

text \<open>
  A prefix length of zero shifts a 32-bit value by 32 places, which is undefined: the entry
  \<^verbatim>\<open>0.0.0.0/0\<close>, meant to admit everybody, has no defined meaning.
\<close>

theorem zero_prefix_undefined:
  assumes "inet_aton a = Some ip" and "CHR ''/'' \<notin> set a"
  shows "tnX_build_addr_list inet_aton ((a @ ''/0'') # rest) = None"
  using assms
  by (simp add: tnX_build_addr_list_def takeWhile_slash strtol0_def strtol_sign_def is_space_def
      strtol_prefix_def is_digit_def digit_val_def digits_val_def clamp_long_def prefix_mask_def)

theorem zero_prefix_undefined_witness:
  "tnX_build_addr_list aton_sample [''10.0.0.0/0''] = None"
  using zero_prefix_undefined [of aton_sample "''10.0.0.0''" "0x0000000A" "[]"]
  by (simp add: aton_sample_def)

end
