(* ===== verification/Tn_Table.thy ===== *)
theory Tn_Table
  imports Sna_Prelude
begin

text \<open>
  Lookup in the 256-entry translation tables of \<^verbatim>\<open>libtnX/transmaps.h\<close>. A table is kept the way
  the file lays it out, as rows of eight entries; \<^term>\<open>table_at t c\<close> is the C expression
  \<^verbatim>\<open>t[c]\<close>, and reading outside the table is a fault. The last section shows when one table
  inverts another, from an evaluation of one table on the entries of the other.
\<close>

type_synonym charmap_table = "byte list list"

fun row_cell :: "'a list \<Rightarrow> nat \<Rightarrow> 'a option" where
  "row_cell [] j = None"
| "row_cell (x # xs) j = (if j = 0 then Some x else row_cell xs (j - 1))"

fun table_cell :: "'a list list \<Rightarrow> nat \<Rightarrow> nat \<Rightarrow> 'a option" where
  "table_cell [] i j = None"
| "table_cell (r # rs) i j = (if i = 0 then row_cell r j else table_cell rs (i - 1) j)"

definition table_at :: "'a list list \<Rightarrow> byte \<Rightarrow> 'a option" where
  "table_at t c = table_cell t (unat c div 8) (unat c mod 8)"

definition table_shape :: "'a list list \<Rightarrow> bool" where
  "table_shape t \<longleftrightarrow> length t = 32 \<and> list_all (\<lambda>r. length r = 8) t"

section \<open>Evaluation\<close>

text \<open>
  Rewrite rules that walk down a literal table without simplifying its entries, so that a
  whole table is evaluated in the time of its lookups.
\<close>

named_theorems table_eval \<open>evaluation of lookups in literal tables\<close>

lemma row_cell_eval [table_eval]:
  "row_cell (x # xs) 0 = Some x"
  "row_cell (x # xs) (Suc n) = row_cell xs n"
  "row_cell (x # xs) (numeral k) = row_cell xs (pred_numeral k)"
  "row_cell (x # xs) 1 = row_cell xs 0"
  by (simp_all add: numeral_eq_Suc)

lemma table_cell_eval [table_eval]:
  "table_cell (r # rs) 0 j = row_cell r j"
  "table_cell (r # rs) (Suc n) j = table_cell rs n j"
  "table_cell (r # rs) (numeral k) j = table_cell rs (pred_numeral k) j"
  "table_cell (r # rs) 1 j = table_cell rs 0 j"
  by (simp_all add: numeral_eq_Suc)

lemma table_at_eval [table_eval]:
  "table_at t (numeral k) =
     table_cell t (unat (numeral k :: byte) div 8) (unat (numeral k :: byte) mod 8)"
  "table_at t 0 = table_cell t 0 0"
  "table_at t 1 = table_cell t 0 1"
  by (simp_all add: table_at_def)

declare row_cell.simps [simp del] table_cell.simps [simp del]

lemma row_cell_weak_cong: "i = j \<Longrightarrow> row_cell r i = row_cell r j"
  by simp

lemma table_cell_weak_cong: "i = j \<Longrightarrow> k = l \<Longrightarrow> table_cell t i k = table_cell t j l"
  by simp

lemma table_at_weak_cong: "c = d \<Longrightarrow> table_at t c = table_at t d"
  by simp

lemmas table_congs = row_cell_weak_cong table_cell_weak_cong table_at_weak_cong

section \<open>Inverse tables\<close>

definition all_bytes :: "byte list" where
  "all_bytes =
   [0, 1, 2, 3, 4, 5, 6, 7, 8, 9, 10, 11, 12, 13, 14, 15,
    16, 17, 18, 19, 20, 21, 22, 23, 24, 25, 26, 27, 28, 29, 30, 31,
    32, 33, 34, 35, 36, 37, 38, 39, 40, 41, 42, 43, 44, 45, 46, 47,
    48, 49, 50, 51, 52, 53, 54, 55, 56, 57, 58, 59, 60, 61, 62, 63,
    64, 65, 66, 67, 68, 69, 70, 71, 72, 73, 74, 75, 76, 77, 78, 79,
    80, 81, 82, 83, 84, 85, 86, 87, 88, 89, 90, 91, 92, 93, 94, 95,
    96, 97, 98, 99, 100, 101, 102, 103, 104, 105, 106, 107, 108, 109, 110, 111,
    112, 113, 114, 115, 116, 117, 118, 119, 120, 121, 122, 123, 124, 125, 126, 127,
    128, 129, 130, 131, 132, 133, 134, 135, 136, 137, 138, 139, 140, 141, 142, 143,
    144, 145, 146, 147, 148, 149, 150, 151, 152, 153, 154, 155, 156, 157, 158, 159,
    160, 161, 162, 163, 164, 165, 166, 167, 168, 169, 170, 171, 172, 173, 174, 175,
    176, 177, 178, 179, 180, 181, 182, 183, 184, 185, 186, 187, 188, 189, 190, 191,
    192, 193, 194, 195, 196, 197, 198, 199, 200, 201, 202, 203, 204, 205, 206, 207,
    208, 209, 210, 211, 212, 213, 214, 215, 216, 217, 218, 219, 220, 221, 222, 223,
    224, 225, 226, 227, 228, 229, 230, 231, 232, 233, 234, 235, 236, 237, 238, 239,
    240, 241, 242, 243, 244, 245, 246, 247, 248, 249, 250, 251, 252, 253, 254, 255]"

text \<open>\<open>l\<close> maps the entries of \<open>r\<close>, read in order, to 0, 1, ..., 255.\<close>

definition undoes :: "charmap_table \<Rightarrow> charmap_table \<Rightarrow> bool" where
  "undoes l r \<longleftrightarrow> map (table_at l) (concat r) = map Some all_bytes"

lemma all_bytes_eq: "all_bytes = map word_of_nat [0..<256]"
  by (simp add: all_bytes_def upt_rec)

lemma row_cell_peek: "row_cell r j = peek r j"
  by (induction r j rule: row_cell.induct)
     (auto simp: peek_def row_cell.simps nth_Cons' dest: gr0_implies_Suc)

lemma table_cell_rows:
  "table_cell t i j = (if i < length t then peek (t ! i) j else None)"
  by (induction t i j rule: table_cell.induct)
     (auto simp: table_cell.simps row_cell_peek nth_Cons' dest: gr0_implies_Suc)

lemma concat_nth_rows:
  "list_all (\<lambda>r. length r = 8) t \<Longrightarrow> i < length t \<Longrightarrow> j < 8 \<Longrightarrow>
   concat t ! (8 * i + j) = t ! i ! j"
  by (induction t arbitrary: i) (auto simp: nth_append nth_Cons split: nat.splits)

lemma length_concat_rows: "list_all (\<lambda>r. length r = 8) t \<Longrightarrow> length (concat t) = 8 * length t"
  by (induction t) auto

lemma unat_byte_less: "unat (c :: byte) < 256"
  by (rule order.strict_trans2 [OF unsigned_less]) simp

lemma table_at_concat:
  assumes "table_shape t"
  shows "table_at t c = Some (concat t ! unat c)"
proof -
  have i: "unat c div 8 < 32" using unat_byte_less [of c] by simp
  have "concat t ! (8 * (unat c div 8) + unat c mod 8) = t ! (unat c div 8) ! (unat c mod 8)"
    by (rule concat_nth_rows) (use assms i in \<open>auto simp: table_shape_def\<close>)
  moreover have "length (t ! (unat c div 8)) = 8"
    using assms i by (auto simp: table_shape_def list_all_length)
  ultimately show ?thesis
    using assms i by (simp add: table_at_def table_cell_rows table_shape_def peek_def)
qed

lemma undoes_at:
  assumes "table_shape r" "undoes l r"
  shows "\<exists>v. table_at r c = Some v \<and> table_at l v = Some c"
proof -
  have n: "unat c < length (concat r)"
    using assms(1) unat_byte_less [of c] by (simp add: table_shape_def length_concat_rows)
  have "table_at l (concat r ! unat c) = map (table_at l) (concat r) ! unat c"
    using n by (simp add: nth_map)
  also have "\<dots> = Some c"
    using assms(2) unat_byte_less [of c] by (simp add: undoes_def all_bytes_eq)
  finally show ?thesis using table_at_concat [OF assms(1)] by blast
qed

end
