(* ===== verification/Tn_Transmaps1.thy ===== *)
theory Tn_Transmaps1
  imports Tn_Table
begin

text \<open>
  The translation tables of \<^verbatim>\<open>libtnX/transmaps.h\<close>, from IBM037 to IBM500, and that the two
  tables of each code page undo each other.
\<close>

definition iso_8859_1_to_ibm037 :: charmap_table where
  "iso_8859_1_to_ibm037 =
   [[0, 1, 2, 3, 55, 45, 46, 47],
    [22, 5, 37, 11, 12, 13, 14, 15],
    [16, 17, 18, 19, 60, 61, 50, 38],
    [24, 25, 63, 39, 28, 29, 30, 31],
    [64, 90, 127, 123, 91, 108, 80, 125],
    [77, 93, 92, 78, 107, 96, 75, 97],
    [240, 241, 242, 243, 244, 245, 246, 247],
    [248, 249, 122, 94, 76, 126, 110, 111],
    [124, 193, 194, 195, 196, 197, 198, 199],
    [200, 201, 209, 210, 211, 212, 213, 214],
    [215, 216, 217, 226, 227, 228, 229, 230],
    [231, 232, 233, 186, 224, 187, 176, 109],
    [121, 129, 130, 131, 132, 133, 134, 135],
    [136, 137, 145, 146, 147, 148, 149, 150],
    [151, 152, 153, 162, 163, 164, 165, 166],
    [167, 168, 169, 192, 79, 208, 161, 7],
    [32, 33, 34, 35, 36, 21, 6, 23],
    [40, 41, 42, 43, 44, 9, 10, 27],
    [48, 49, 26, 51, 52, 53, 54, 8],
    [56, 57, 58, 59, 4, 20, 62, 255],
    [65, 170, 74, 177, 159, 178, 106, 181],
    [189, 180, 154, 138, 95, 202, 175, 188],
    [144, 143, 234, 250, 190, 160, 182, 179],
    [157, 218, 155, 139, 183, 184, 185, 171],
    [100, 101, 98, 102, 99, 103, 158, 104],
    [116, 113, 114, 115, 120, 117, 118, 119],
    [172, 105, 237, 238, 235, 239, 236, 191],
    [128, 253, 254, 251, 252, 173, 174, 89],
    [68, 69, 66, 70, 67, 71, 156, 72],
    [84, 81, 82, 83, 88, 85, 86, 87],
    [140, 73, 205, 206, 203, 207, 204, 225],
    [112, 221, 222, 219, 220, 141, 142, 223]]"

definition ibm037_to_iso_8859_1 :: charmap_table where
  "ibm037_to_iso_8859_1 =
   [[0, 1, 2, 3, 156, 9, 134, 127],
    [151, 141, 142, 11, 12, 13, 14, 15],
    [16, 17, 18, 19, 157, 133, 8, 135],
    [24, 25, 146, 143, 28, 29, 30, 31],
    [128, 129, 130, 131, 132, 10, 23, 27],
    [136, 137, 138, 139, 140, 5, 6, 7],
    [144, 145, 22, 147, 148, 149, 150, 4],
    [152, 153, 154, 155, 20, 21, 158, 26],
    [32, 160, 226, 228, 224, 225, 227, 229],
    [231, 241, 162, 46, 60, 40, 43, 124],
    [38, 233, 234, 235, 232, 237, 238, 239],
    [236, 223, 33, 36, 42, 41, 59, 172],
    [45, 47, 194, 196, 192, 193, 195, 197],
    [199, 209, 166, 44, 37, 95, 62, 63],
    [248, 201, 202, 203, 200, 205, 206, 207],
    [204, 96, 58, 35, 64, 39, 61, 34],
    [216, 97, 98, 99, 100, 101, 102, 103],
    [104, 105, 171, 187, 240, 253, 254, 177],
    [176, 106, 107, 108, 109, 110, 111, 112],
    [113, 114, 170, 186, 230, 184, 198, 164],
    [181, 126, 115, 116, 117, 118, 119, 120],
    [121, 122, 161, 191, 208, 221, 222, 174],
    [94, 163, 165, 183, 169, 167, 182, 188],
    [189, 190, 91, 93, 175, 168, 180, 215],
    [123, 65, 66, 67, 68, 69, 70, 71],
    [72, 73, 173, 244, 246, 242, 243, 245],
    [125, 74, 75, 76, 77, 78, 79, 80],
    [81, 82, 185, 251, 252, 249, 250, 255],
    [92, 247, 83, 84, 85, 86, 87, 88],
    [89, 90, 178, 212, 214, 210, 211, 213],
    [48, 49, 50, 51, 52, 53, 54, 55],
    [56, 57, 179, 219, 220, 217, 218, 159]]"

definition iso_8859_1_to_ibm256 :: charmap_table where
  "iso_8859_1_to_ibm256 =
   [[0, 1, 2, 3, 55, 45, 46, 47],
    [22, 5, 37, 11, 12, 13, 14, 15],
    [16, 17, 18, 19, 60, 61, 50, 38],
    [24, 25, 63, 39, 28, 29, 30, 31],
    [64, 79, 127, 123, 91, 108, 80, 125],
    [77, 93, 92, 78, 107, 96, 75, 97],
    [240, 241, 242, 243, 244, 245, 246, 247],
    [248, 249, 122, 94, 76, 126, 110, 111],
    [124, 193, 194, 195, 196, 197, 198, 199],
    [200, 201, 209, 210, 211, 212, 213, 214],
    [215, 216, 217, 226, 227, 228, 229, 230],
    [231, 232, 233, 74, 224, 90, 95, 109],
    [121, 129, 130, 131, 132, 133, 134, 135],
    [136, 137, 145, 146, 147, 148, 149, 150],
    [151, 152, 153, 162, 163, 164, 165, 166],
    [167, 168, 169, 192, 187, 208, 161, 7],
    [32, 33, 34, 35, 36, 21, 6, 23],
    [40, 41, 42, 43, 44, 9, 10, 27],
    [48, 49, 26, 51, 52, 53, 54, 8],
    [56, 57, 58, 59, 4, 20, 62, 255],
    [65, 170, 176, 177, 159, 178, 106, 181],
    [189, 180, 154, 138, 186, 202, 175, 179],
    [144, 143, 234, 250, 190, 160, 182, 188],
    [157, 218, 155, 139, 183, 184, 185, 171],
    [100, 101, 98, 102, 99, 103, 158, 104],
    [116, 113, 114, 115, 120, 117, 118, 119],
    [172, 105, 237, 238, 235, 239, 236, 225],
    [128, 253, 254, 251, 252, 173, 174, 89],
    [68, 69, 66, 70, 67, 71, 156, 72],
    [84, 81, 82, 83, 88, 85, 86, 87],
    [140, 73, 205, 206, 203, 207, 204, 191],
    [112, 221, 222, 219, 220, 141, 142, 223]]"

definition ibm256_to_iso_8859_1 :: charmap_table where
  "ibm256_to_iso_8859_1 =
   [[0, 1, 2, 3, 156, 9, 134, 127],
    [151, 141, 142, 11, 12, 13, 14, 15],
    [16, 17, 18, 19, 157, 133, 8, 135],
    [24, 25, 146, 143, 28, 29, 30, 31],
    [128, 129, 130, 131, 132, 10, 23, 27],
    [136, 137, 138, 139, 140, 5, 6, 7],
    [144, 145, 22, 147, 148, 149, 150, 4],
    [152, 153, 154, 155, 20, 21, 158, 26],
    [32, 160, 226, 228, 224, 225, 227, 229],
    [231, 241, 91, 46, 60, 40, 43, 33],
    [38, 233, 234, 235, 232, 237, 238, 239],
    [236, 223, 93, 36, 42, 41, 59, 94],
    [45, 47, 194, 196, 192, 193, 195, 197],
    [199, 209, 166, 44, 37, 95, 62, 63],
    [248, 201, 202, 203, 200, 205, 206, 207],
    [204, 96, 58, 35, 64, 39, 61, 34],
    [216, 97, 98, 99, 100, 101, 102, 103],
    [104, 105, 171, 187, 240, 253, 254, 177],
    [176, 106, 107, 108, 109, 110, 111, 112],
    [113, 114, 170, 186, 230, 184, 198, 164],
    [181, 126, 115, 116, 117, 118, 119, 120],
    [121, 122, 161, 191, 208, 221, 222, 174],
    [162, 163, 165, 175, 169, 167, 182, 188],
    [189, 190, 172, 124, 183, 168, 180, 247],
    [123, 65, 66, 67, 68, 69, 70, 71],
    [72, 73, 173, 244, 246, 242, 243, 245],
    [125, 74, 75, 76, 77, 78, 79, 80],
    [81, 82, 185, 251, 252, 249, 250, 255],
    [92, 215, 83, 84, 85, 86, 87, 88],
    [89, 90, 178, 212, 214, 210, 211, 213],
    [48, 49, 50, 51, 52, 53, 54, 55],
    [56, 57, 179, 219, 220, 217, 218, 159]]"

definition iso_8859_1_to_ibm273 :: charmap_table where
  "iso_8859_1_to_ibm273 =
   [[0, 1, 2, 3, 55, 45, 46, 47],
    [22, 5, 37, 11, 12, 13, 14, 15],
    [16, 17, 18, 19, 60, 61, 50, 38],
    [24, 25, 63, 39, 28, 29, 30, 31],
    [64, 79, 127, 123, 91, 108, 80, 125],
    [77, 93, 92, 78, 107, 96, 75, 97],
    [240, 241, 242, 243, 244, 245, 246, 247],
    [248, 249, 122, 94, 76, 126, 110, 111],
    [181, 193, 194, 195, 196, 197, 198, 199],
    [200, 201, 209, 210, 211, 212, 213, 214],
    [215, 216, 217, 226, 227, 228, 229, 230],
    [231, 232, 233, 99, 236, 252, 95, 109],
    [121, 129, 130, 131, 132, 133, 134, 135],
    [136, 137, 145, 146, 147, 148, 149, 150],
    [151, 152, 153, 162, 163, 164, 165, 166],
    [167, 168, 169, 67, 187, 220, 89, 7],
    [32, 33, 34, 35, 36, 21, 6, 23],
    [40, 41, 42, 43, 44, 9, 10, 27],
    [48, 49, 26, 51, 52, 53, 54, 8],
    [56, 57, 58, 59, 4, 20, 62, 255],
    [65, 170, 176, 177, 159, 178, 204, 124],
    [189, 180, 154, 138, 186, 202, 175, 188],
    [144, 143, 234, 250, 190, 160, 182, 179],
    [157, 218, 155, 139, 183, 184, 185, 171],
    [100, 101, 98, 102, 74, 103, 158, 104],
    [116, 113, 114, 115, 120, 117, 118, 119],
    [172, 105, 237, 238, 235, 239, 224, 191],
    [128, 253, 254, 251, 90, 173, 174, 161],
    [68, 69, 66, 70, 192, 71, 156, 72],
    [84, 81, 82, 83, 88, 85, 86, 87],
    [140, 73, 205, 206, 203, 207, 106, 225],
    [112, 221, 222, 219, 208, 141, 142, 223]]"

definition ibm273_to_iso_8859_1 :: charmap_table where
  "ibm273_to_iso_8859_1 =
   [[0, 1, 2, 3, 156, 9, 134, 127],
    [151, 141, 142, 11, 12, 13, 14, 15],
    [16, 17, 18, 19, 157, 133, 8, 135],
    [24, 25, 146, 143, 28, 29, 30, 31],
    [128, 129, 130, 131, 132, 10, 23, 27],
    [136, 137, 138, 139, 140, 5, 6, 7],
    [144, 145, 22, 147, 148, 149, 150, 4],
    [152, 153, 154, 155, 20, 21, 158, 26],
    [32, 160, 226, 123, 224, 225, 227, 229],
    [231, 241, 196, 46, 60, 40, 43, 33],
    [38, 233, 234, 235, 232, 237, 238, 239],
    [236, 126, 220, 36, 42, 41, 59, 94],
    [45, 47, 194, 91, 192, 193, 195, 197],
    [199, 209, 246, 44, 37, 95, 62, 63],
    [248, 201, 202, 203, 200, 205, 206, 207],
    [204, 96, 58, 35, 167, 39, 61, 34],
    [216, 97, 98, 99, 100, 101, 102, 103],
    [104, 105, 171, 187, 240, 253, 254, 177],
    [176, 106, 107, 108, 109, 110, 111, 112],
    [113, 114, 170, 186, 230, 184, 198, 164],
    [181, 223, 115, 116, 117, 118, 119, 120],
    [121, 122, 161, 191, 208, 221, 222, 174],
    [162, 163, 165, 183, 169, 64, 182, 188],
    [189, 190, 172, 124, 175, 168, 180, 215],
    [228, 65, 66, 67, 68, 69, 70, 71],
    [72, 73, 173, 244, 166, 242, 243, 245],
    [252, 74, 75, 76, 77, 78, 79, 80],
    [81, 82, 185, 251, 125, 249, 250, 255],
    [214, 247, 83, 84, 85, 86, 87, 88],
    [89, 90, 178, 212, 92, 210, 211, 213],
    [48, 49, 50, 51, 52, 53, 54, 55],
    [56, 57, 179, 219, 93, 217, 218, 159]]"

definition iso_8859_1_to_ibm277 :: charmap_table where
  "iso_8859_1_to_ibm277 =
   [[0, 1, 2, 3, 55, 45, 46, 47],
    [22, 5, 37, 11, 12, 13, 14, 15],
    [16, 17, 18, 19, 60, 61, 50, 38],
    [24, 25, 63, 39, 28, 29, 30, 31],
    [64, 79, 127, 74, 103, 108, 80, 125],
    [77, 93, 92, 78, 107, 96, 75, 97],
    [240, 241, 242, 243, 244, 245, 246, 247],
    [248, 249, 122, 94, 76, 126, 110, 111],
    [128, 193, 194, 195, 196, 197, 198, 199],
    [200, 201, 209, 210, 211, 212, 213, 214],
    [215, 216, 217, 226, 227, 228, 229, 230],
    [231, 232, 233, 158, 224, 159, 95, 109],
    [121, 129, 130, 131, 132, 133, 134, 135],
    [136, 137, 145, 146, 147, 148, 149, 150],
    [151, 152, 153, 162, 163, 164, 165, 166],
    [167, 168, 169, 156, 187, 71, 220, 7],
    [32, 33, 34, 35, 36, 21, 6, 23],
    [40, 41, 42, 43, 44, 9, 10, 27],
    [48, 49, 26, 51, 52, 53, 54, 8],
    [56, 57, 58, 59, 4, 20, 62, 255],
    [65, 170, 176, 177, 90, 178, 112, 181],
    [189, 180, 154, 138, 186, 202, 175, 188],
    [144, 143, 234, 250, 190, 160, 182, 179],
    [157, 218, 155, 139, 183, 184, 185, 171],
    [100, 101, 98, 102, 99, 91, 123, 104],
    [116, 113, 114, 115, 120, 117, 118, 119],
    [172, 105, 237, 238, 235, 239, 236, 191],
    [124, 253, 254, 251, 252, 173, 174, 89],
    [68, 69, 66, 70, 67, 208, 192, 72],
    [84, 81, 82, 83, 88, 85, 86, 87],
    [140, 73, 205, 206, 203, 207, 204, 225],
    [106, 221, 222, 219, 161, 141, 142, 223]]"

definition ibm277_to_iso_8859_1 :: charmap_table where
  "ibm277_to_iso_8859_1 =
   [[0, 1, 2, 3, 156, 9, 134, 127],
    [151, 141, 142, 11, 12, 13, 14, 15],
    [16, 17, 18, 19, 157, 133, 8, 135],
    [24, 25, 146, 143, 28, 29, 30, 31],
    [128, 129, 130, 131, 132, 10, 23, 27],
    [136, 137, 138, 139, 140, 5, 6, 7],
    [144, 145, 22, 147, 148, 149, 150, 4],
    [152, 153, 154, 155, 20, 21, 158, 26],
    [32, 160, 226, 228, 224, 225, 227, 125],
    [231, 241, 35, 46, 60, 40, 43, 33],
    [38, 233, 234, 235, 232, 237, 238, 239],
    [236, 223, 164, 197, 42, 41, 59, 94],
    [45, 47, 194, 196, 192, 193, 195, 36],
    [199, 209, 248, 44, 37, 95, 62, 63],
    [166, 201, 202, 203, 200, 205, 206, 207],
    [204, 96, 58, 198, 216, 39, 61, 34],
    [64, 97, 98, 99, 100, 101, 102, 103],
    [104, 105, 171, 187, 240, 253, 254, 177],
    [176, 106, 107, 108, 109, 110, 111, 112],
    [113, 114, 170, 186, 123, 184, 91, 93],
    [181, 252, 115, 116, 117, 118, 119, 120],
    [121, 122, 161, 191, 208, 221, 222, 174],
    [162, 163, 165, 183, 169, 167, 182, 188],
    [189, 190, 172, 124, 175, 168, 180, 215],
    [230, 65, 66, 67, 68, 69, 70, 71],
    [72, 73, 173, 244, 246, 242, 243, 245],
    [229, 74, 75, 76, 77, 78, 79, 80],
    [81, 82, 185, 251, 126, 249, 250, 255],
    [92, 247, 83, 84, 85, 86, 87, 88],
    [89, 90, 178, 212, 214, 210, 211, 213],
    [48, 49, 50, 51, 52, 53, 54, 55],
    [56, 57, 179, 219, 220, 217, 218, 159]]"

definition iso_8859_1_to_ibm278 :: charmap_table where
  "iso_8859_1_to_ibm278 =
   [[0, 1, 2, 3, 55, 45, 46, 47],
    [22, 5, 37, 11, 12, 13, 14, 15],
    [16, 17, 18, 19, 60, 61, 50, 38],
    [24, 25, 63, 39, 28, 29, 30, 31],
    [64, 79, 127, 99, 103, 108, 80, 125],
    [77, 93, 92, 78, 107, 96, 75, 97],
    [240, 241, 242, 243, 244, 245, 246, 247],
    [248, 249, 122, 94, 76, 126, 110, 111],
    [236, 193, 194, 195, 196, 197, 198, 199],
    [200, 201, 209, 210, 211, 212, 213, 214],
    [215, 216, 217, 226, 227, 228, 229, 230],
    [231, 232, 233, 181, 224, 159, 95, 109],
    [81, 129, 130, 131, 132, 133, 134, 135],
    [136, 137, 145, 146, 147, 148, 149, 150],
    [151, 152, 153, 162, 163, 164, 165, 166],
    [167, 168, 169, 67, 187, 71, 220, 7],
    [32, 33, 34, 35, 36, 21, 6, 23],
    [40, 41, 42, 43, 44, 9, 10, 27],
    [48, 49, 26, 51, 52, 53, 54, 8],
    [56, 57, 58, 59, 4, 20, 62, 255],
    [65, 170, 176, 177, 90, 178, 204, 74],
    [189, 180, 154, 138, 186, 202, 175, 188],
    [144, 143, 234, 250, 190, 160, 182, 179],
    [157, 218, 155, 139, 183, 184, 185, 171],
    [100, 101, 98, 102, 123, 91, 158, 104],
    [116, 113, 114, 115, 120, 117, 118, 119],
    [172, 105, 237, 238, 235, 239, 124, 191],
    [128, 253, 254, 251, 252, 173, 174, 89],
    [68, 69, 66, 70, 192, 208, 156, 72],
    [84, 121, 82, 83, 88, 85, 86, 87],
    [140, 73, 205, 206, 203, 207, 106, 225],
    [112, 221, 222, 219, 161, 141, 142, 223]]"

definition ibm278_to_iso_8859_1 :: charmap_table where
  "ibm278_to_iso_8859_1 =
   [[0, 1, 2, 3, 156, 9, 134, 127],
    [151, 141, 142, 11, 12, 13, 14, 15],
    [16, 17, 18, 19, 157, 133, 8, 135],
    [24, 25, 146, 143, 28, 29, 30, 31],
    [128, 129, 130, 131, 132, 10, 23, 27],
    [136, 137, 138, 139, 140, 5, 6, 7],
    [144, 145, 22, 147, 148, 149, 150, 4],
    [152, 153, 154, 155, 20, 21, 158, 26],
    [32, 160, 226, 123, 224, 225, 227, 125],
    [231, 241, 167, 46, 60, 40, 43, 33],
    [38, 96, 234, 235, 232, 237, 238, 239],
    [236, 223, 164, 197, 42, 41, 59, 94],
    [45, 47, 194, 35, 192, 193, 195, 36],
    [199, 209, 246, 44, 37, 95, 62, 63],
    [248, 201, 202, 203, 200, 205, 206, 207],
    [204, 233, 58, 196, 214, 39, 61, 34],
    [216, 97, 98, 99, 100, 101, 102, 103],
    [104, 105, 171, 187, 240, 253, 254, 177],
    [176, 106, 107, 108, 109, 110, 111, 112],
    [113, 114, 170, 186, 230, 184, 198, 93],
    [181, 252, 115, 116, 117, 118, 119, 120],
    [121, 122, 161, 191, 208, 221, 222, 174],
    [162, 163, 165, 183, 169, 91, 182, 188],
    [189, 190, 172, 124, 175, 168, 180, 215],
    [228, 65, 66, 67, 68, 69, 70, 71],
    [72, 73, 173, 244, 166, 242, 243, 245],
    [229, 74, 75, 76, 77, 78, 79, 80],
    [81, 82, 185, 251, 126, 249, 250, 255],
    [92, 247, 83, 84, 85, 86, 87, 88],
    [89, 90, 178, 212, 64, 210, 211, 213],
    [48, 49, 50, 51, 52, 53, 54, 55],
    [56, 57, 179, 219, 220, 217, 218, 159]]"

definition iso_8859_1_to_ibm280 :: charmap_table where
  "iso_8859_1_to_ibm280 =
   [[0, 1, 2, 3, 55, 45, 46, 47],
    [22, 5, 37, 11, 12, 13, 14, 15],
    [16, 17, 18, 19, 60, 61, 50, 38],
    [24, 25, 63, 39, 28, 29, 30, 31],
    [64, 79, 127, 177, 91, 108, 80, 125],
    [77, 93, 92, 78, 107, 96, 75, 97],
    [240, 241, 242, 243, 244, 245, 246, 247],
    [248, 249, 122, 94, 76, 126, 110, 111],
    [181, 193, 194, 195, 196, 197, 198, 199],
    [200, 201, 209, 210, 211, 212, 213, 214],
    [215, 216, 217, 226, 227, 228, 229, 230],
    [231, 232, 233, 144, 72, 81, 95, 109],
    [221, 129, 130, 131, 132, 133, 134, 135],
    [136, 137, 145, 146, 147, 148, 149, 150],
    [151, 152, 153, 162, 163, 164, 165, 166],
    [167, 168, 169, 68, 187, 84, 88, 7],
    [32, 33, 34, 35, 36, 21, 6, 23],
    [40, 41, 42, 43, 44, 9, 10, 27],
    [48, 49, 26, 51, 52, 53, 54, 8],
    [56, 57, 58, 59, 4, 20, 62, 255],
    [65, 170, 176, 123, 159, 178, 205, 124],
    [189, 180, 154, 138, 186, 202, 175, 188],
    [74, 143, 234, 250, 190, 160, 182, 179],
    [157, 218, 155, 139, 183, 184, 185, 171],
    [100, 101, 98, 102, 99, 103, 158, 104],
    [116, 113, 114, 115, 120, 117, 118, 119],
    [172, 105, 237, 238, 235, 239, 236, 191],
    [128, 253, 254, 251, 252, 173, 174, 89],
    [192, 69, 66, 70, 67, 71, 156, 224],
    [208, 90, 82, 83, 161, 85, 86, 87],
    [140, 73, 106, 206, 203, 207, 204, 225],
    [112, 121, 222, 219, 220, 141, 142, 223]]"

definition ibm280_to_iso_8859_1 :: charmap_table where
  "ibm280_to_iso_8859_1 =
   [[0, 1, 2, 3, 156, 9, 134, 127],
    [151, 141, 142, 11, 12, 13, 14, 15],
    [16, 17, 18, 19, 157, 133, 8, 135],
    [24, 25, 146, 143, 28, 29, 30, 31],
    [128, 129, 130, 131, 132, 10, 23, 27],
    [136, 137, 138, 139, 140, 5, 6, 7],
    [144, 145, 22, 147, 148, 149, 150, 4],
    [152, 153, 154, 155, 20, 21, 158, 26],
    [32, 160, 226, 228, 123, 225, 227, 229],
    [92, 241, 176, 46, 60, 40, 43, 33],
    [38, 93, 234, 235, 125, 237, 238, 239],
    [126, 223, 233, 36, 42, 41, 59, 94],
    [45, 47, 194, 196, 192, 193, 195, 197],
    [199, 209, 242, 44, 37, 95, 62, 63],
    [248, 201, 202, 203, 200, 205, 206, 207],
    [204, 249, 58, 163, 167, 39, 61, 34],
    [216, 97, 98, 99, 100, 101, 102, 103],
    [104, 105, 171, 187, 240, 253, 254, 177],
    [91, 106, 107, 108, 109, 110, 111, 112],
    [113, 114, 170, 186, 230, 184, 198, 164],
    [181, 236, 115, 116, 117, 118, 119, 120],
    [121, 122, 161, 191, 208, 221, 222, 174],
    [162, 35, 165, 183, 169, 64, 182, 188],
    [189, 190, 172, 124, 175, 168, 180, 215],
    [224, 65, 66, 67, 68, 69, 70, 71],
    [72, 73, 173, 244, 246, 166, 243, 245],
    [232, 74, 75, 76, 77, 78, 79, 80],
    [81, 82, 185, 251, 252, 96, 250, 255],
    [231, 247, 83, 84, 85, 86, 87, 88],
    [89, 90, 178, 212, 214, 210, 211, 213],
    [48, 49, 50, 51, 52, 53, 54, 55],
    [56, 57, 179, 219, 220, 217, 218, 159]]"

definition iso_8859_1_to_ibm284 :: charmap_table where
  "iso_8859_1_to_ibm284 =
   [[0, 1, 2, 3, 55, 45, 46, 47],
    [22, 5, 37, 11, 12, 13, 14, 15],
    [16, 17, 18, 19, 60, 61, 50, 38],
    [24, 25, 63, 39, 28, 29, 30, 31],
    [64, 187, 127, 105, 91, 108, 80, 125],
    [77, 93, 92, 78, 107, 96, 75, 97],
    [240, 241, 242, 243, 244, 245, 246, 247],
    [248, 249, 122, 94, 76, 126, 110, 111],
    [124, 193, 194, 195, 196, 197, 198, 199],
    [200, 201, 209, 210, 211, 212, 213, 214],
    [215, 216, 217, 226, 227, 228, 229, 230],
    [231, 232, 233, 74, 224, 90, 186, 109],
    [121, 129, 130, 131, 132, 133, 134, 135],
    [136, 137, 145, 146, 147, 148, 149, 150],
    [151, 152, 153, 162, 163, 164, 165, 166],
    [167, 168, 169, 192, 79, 208, 189, 7],
    [32, 33, 34, 35, 36, 21, 6, 23],
    [40, 41, 42, 43, 44, 9, 10, 27],
    [48, 49, 26, 51, 52, 53, 54, 8],
    [56, 57, 58, 59, 4, 20, 62, 255],
    [65, 170, 176, 177, 159, 178, 73, 181],
    [161, 180, 154, 138, 95, 202, 175, 188],
    [144, 143, 234, 250, 190, 160, 182, 179],
    [157, 218, 155, 139, 183, 184, 185, 171],
    [100, 101, 98, 102, 99, 103, 158, 104],
    [116, 113, 114, 115, 120, 117, 118, 119],
    [172, 123, 237, 238, 235, 239, 236, 191],
    [128, 253, 254, 251, 252, 173, 174, 89],
    [68, 69, 66, 70, 67, 71, 156, 72],
    [84, 81, 82, 83, 88, 85, 86, 87],
    [140, 106, 205, 206, 203, 207, 204, 225],
    [112, 221, 222, 219, 220, 141, 142, 223]]"

definition ibm284_to_iso_8859_1 :: charmap_table where
  "ibm284_to_iso_8859_1 =
   [[0, 1, 2, 3, 156, 9, 134, 127],
    [151, 141, 142, 11, 12, 13, 14, 15],
    [16, 17, 18, 19, 157, 133, 8, 135],
    [24, 25, 146, 143, 28, 29, 30, 31],
    [128, 129, 130, 131, 132, 10, 23, 27],
    [136, 137, 138, 139, 140, 5, 6, 7],
    [144, 145, 22, 147, 148, 149, 150, 4],
    [152, 153, 154, 155, 20, 21, 158, 26],
    [32, 160, 226, 228, 224, 225, 227, 229],
    [231, 166, 91, 46, 60, 40, 43, 124],
    [38, 233, 234, 235, 232, 237, 238, 239],
    [236, 223, 93, 36, 42, 41, 59, 172],
    [45, 47, 194, 196, 192, 193, 195, 197],
    [199, 35, 241, 44, 37, 95, 62, 63],
    [248, 201, 202, 203, 200, 205, 206, 207],
    [204, 96, 58, 209, 64, 39, 61, 34],
    [216, 97, 98, 99, 100, 101, 102, 103],
    [104, 105, 171, 187, 240, 253, 254, 177],
    [176, 106, 107, 108, 109, 110, 111, 112],
    [113, 114, 170, 186, 230, 184, 198, 164],
    [181, 168, 115, 116, 117, 118, 119, 120],
    [121, 122, 161, 191, 208, 221, 222, 174],
    [162, 163, 165, 183, 169, 167, 182, 188],
    [189, 190, 94, 33, 175, 126, 180, 215],
    [123, 65, 66, 67, 68, 69, 70, 71],
    [72, 73, 173, 244, 246, 242, 243, 245],
    [125, 74, 75, 76, 77, 78, 79, 80],
    [81, 82, 185, 251, 252, 249, 250, 255],
    [92, 247, 83, 84, 85, 86, 87, 88],
    [89, 90, 178, 212, 214, 210, 211, 213],
    [48, 49, 50, 51, 52, 53, 54, 55],
    [56, 57, 179, 219, 220, 217, 218, 159]]"

definition iso_8859_1_to_ibm285 :: charmap_table where
  "iso_8859_1_to_ibm285 =
   [[0, 1, 2, 3, 55, 45, 46, 47],
    [22, 5, 37, 11, 12, 13, 14, 15],
    [16, 17, 18, 19, 60, 61, 50, 38],
    [24, 25, 63, 39, 28, 29, 30, 31],
    [64, 90, 127, 123, 74, 108, 80, 125],
    [77, 93, 92, 78, 107, 96, 75, 97],
    [240, 241, 242, 243, 244, 245, 246, 247],
    [248, 249, 122, 94, 76, 126, 110, 111],
    [124, 193, 194, 195, 196, 197, 198, 199],
    [200, 201, 209, 210, 211, 212, 213, 214],
    [215, 216, 217, 226, 227, 228, 229, 230],
    [231, 232, 233, 177, 224, 187, 186, 109],
    [121, 129, 130, 131, 132, 133, 134, 135],
    [136, 137, 145, 146, 147, 148, 149, 150],
    [151, 152, 153, 162, 163, 164, 165, 166],
    [167, 168, 169, 192, 79, 208, 188, 7],
    [32, 33, 34, 35, 36, 21, 6, 23],
    [40, 41, 42, 43, 44, 9, 10, 27],
    [48, 49, 26, 51, 52, 53, 54, 8],
    [56, 57, 58, 59, 4, 20, 62, 255],
    [65, 170, 176, 91, 159, 178, 106, 181],
    [189, 180, 154, 138, 95, 202, 175, 161],
    [144, 143, 234, 250, 190, 160, 182, 179],
    [157, 218, 155, 139, 183, 184, 185, 171],
    [100, 101, 98, 102, 99, 103, 158, 104],
    [116, 113, 114, 115, 120, 117, 118, 119],
    [172, 105, 237, 238, 235, 239, 236, 191],
    [128, 253, 254, 251, 252, 173, 174, 89],
    [68, 69, 66, 70, 67, 71, 156, 72],
    [84, 81, 82, 83, 88, 85, 86, 87],
    [140, 73, 205, 206, 203, 207, 204, 225],
    [112, 221, 222, 219, 220, 141, 142, 223]]"

definition ibm285_to_iso_8859_1 :: charmap_table where
  "ibm285_to_iso_8859_1 =
   [[0, 1, 2, 3, 156, 9, 134, 127],
    [151, 141, 142, 11, 12, 13, 14, 15],
    [16, 17, 18, 19, 157, 133, 8, 135],
    [24, 25, 146, 143, 28, 29, 30, 31],
    [128, 129, 130, 131, 132, 10, 23, 27],
    [136, 137, 138, 139, 140, 5, 6, 7],
    [144, 145, 22, 147, 148, 149, 150, 4],
    [152, 153, 154, 155, 20, 21, 158, 26],
    [32, 160, 226, 228, 224, 225, 227, 229],
    [231, 241, 36, 46, 60, 40, 43, 124],
    [38, 233, 234, 235, 232, 237, 238, 239],
    [236, 223, 33, 163, 42, 41, 59, 172],
    [45, 47, 194, 196, 192, 193, 195, 197],
    [199, 209, 166, 44, 37, 95, 62, 63],
    [248, 201, 202, 203, 200, 205, 206, 207],
    [204, 96, 58, 35, 64, 39, 61, 34],
    [216, 97, 98, 99, 100, 101, 102, 103],
    [104, 105, 171, 187, 240, 253, 254, 177],
    [176, 106, 107, 108, 109, 110, 111, 112],
    [113, 114, 170, 186, 230, 184, 198, 164],
    [181, 175, 115, 116, 117, 118, 119, 120],
    [121, 122, 161, 191, 208, 221, 222, 174],
    [162, 91, 165, 183, 169, 167, 182, 188],
    [189, 190, 94, 93, 126, 168, 180, 215],
    [123, 65, 66, 67, 68, 69, 70, 71],
    [72, 73, 173, 244, 246, 242, 243, 245],
    [125, 74, 75, 76, 77, 78, 79, 80],
    [81, 82, 185, 251, 252, 249, 250, 255],
    [92, 247, 83, 84, 85, 86, 87, 88],
    [89, 90, 178, 212, 214, 210, 211, 213],
    [48, 49, 50, 51, 52, 53, 54, 55],
    [56, 57, 179, 219, 220, 217, 218, 159]]"

definition iso_8859_1_to_ibm297 :: charmap_table where
  "iso_8859_1_to_ibm297 =
   [[0, 1, 2, 3, 55, 45, 46, 47],
    [22, 5, 37, 11, 12, 13, 14, 15],
    [16, 17, 18, 19, 60, 61, 50, 38],
    [24, 25, 63, 39, 28, 29, 30, 31],
    [64, 79, 127, 177, 91, 108, 80, 125],
    [77, 93, 92, 78, 107, 96, 75, 97],
    [240, 241, 242, 243, 244, 245, 246, 247],
    [248, 249, 122, 94, 76, 126, 110, 111],
    [68, 193, 194, 195, 196, 197, 198, 199],
    [200, 201, 209, 210, 211, 212, 213, 214],
    [215, 216, 217, 226, 227, 228, 229, 230],
    [231, 232, 233, 144, 72, 181, 95, 109],
    [160, 129, 130, 131, 132, 133, 134, 135],
    [136, 137, 145, 146, 147, 148, 149, 150],
    [151, 152, 153, 162, 163, 164, 165, 166],
    [167, 168, 169, 81, 187, 84, 189, 7],
    [32, 33, 34, 35, 36, 21, 6, 23],
    [40, 41, 42, 43, 44, 9, 10, 27],
    [48, 49, 26, 51, 52, 53, 54, 8],
    [56, 57, 58, 59, 4, 20, 62, 255],
    [65, 170, 176, 123, 159, 178, 221, 90],
    [161, 180, 154, 138, 186, 202, 175, 188],
    [74, 143, 234, 250, 190, 121, 182, 179],
    [157, 218, 155, 139, 183, 184, 185, 171],
    [100, 101, 98, 102, 99, 103, 158, 104],
    [116, 113, 114, 115, 120, 117, 118, 119],
    [172, 105, 237, 238, 235, 239, 236, 191],
    [128, 253, 254, 251, 252, 173, 174, 89],
    [124, 69, 66, 70, 67, 71, 156, 224],
    [208, 192, 82, 83, 88, 85, 86, 87],
    [140, 73, 205, 206, 203, 207, 204, 225],
    [112, 106, 222, 219, 220, 141, 142, 223]]"

definition ibm297_to_iso_8859_1 :: charmap_table where
  "ibm297_to_iso_8859_1 =
   [[0, 1, 2, 3, 156, 9, 134, 127],
    [151, 141, 142, 11, 12, 13, 14, 15],
    [16, 17, 18, 19, 157, 133, 8, 135],
    [24, 25, 146, 143, 28, 29, 30, 31],
    [128, 129, 130, 131, 132, 10, 23, 27],
    [136, 137, 138, 139, 140, 5, 6, 7],
    [144, 145, 22, 147, 148, 149, 150, 4],
    [152, 153, 154, 155, 20, 21, 158, 26],
    [32, 160, 226, 228, 64, 225, 227, 229],
    [92, 241, 176, 46, 60, 40, 43, 33],
    [38, 123, 234, 235, 125, 237, 238, 239],
    [236, 223, 167, 36, 42, 41, 59, 94],
    [45, 47, 194, 196, 192, 193, 195, 197],
    [199, 209, 249, 44, 37, 95, 62, 63],
    [248, 201, 202, 203, 200, 205, 206, 207],
    [204, 181, 58, 163, 224, 39, 61, 34],
    [216, 97, 98, 99, 100, 101, 102, 103],
    [104, 105, 171, 187, 240, 253, 254, 177],
    [91, 106, 107, 108, 109, 110, 111, 112],
    [113, 114, 170, 186, 230, 184, 198, 164],
    [96, 168, 115, 116, 117, 118, 119, 120],
    [121, 122, 161, 191, 208, 221, 222, 174],
    [162, 35, 165, 183, 169, 93, 182, 188],
    [189, 190, 172, 124, 175, 126, 180, 215],
    [233, 65, 66, 67, 68, 69, 70, 71],
    [72, 73, 173, 244, 246, 242, 243, 245],
    [232, 74, 75, 76, 77, 78, 79, 80],
    [81, 82, 185, 251, 252, 166, 250, 255],
    [231, 247, 83, 84, 85, 86, 87, 88],
    [89, 90, 178, 212, 214, 210, 211, 213],
    [48, 49, 50, 51, 52, 53, 54, 55],
    [56, 57, 179, 219, 220, 217, 218, 159]]"

definition iso_8859_1_to_ibm500 :: charmap_table where
  "iso_8859_1_to_ibm500 =
   [[0, 1, 2, 3, 55, 45, 46, 47],
    [22, 5, 37, 11, 12, 13, 14, 15],
    [16, 17, 18, 19, 60, 61, 50, 38],
    [24, 25, 63, 39, 28, 29, 30, 31],
    [64, 79, 127, 123, 91, 108, 80, 125],
    [77, 93, 92, 78, 107, 96, 75, 97],
    [240, 241, 242, 243, 244, 245, 246, 247],
    [248, 249, 122, 94, 76, 126, 110, 111],
    [124, 193, 194, 195, 196, 197, 198, 199],
    [200, 201, 209, 210, 211, 212, 213, 214],
    [215, 216, 217, 226, 227, 228, 229, 230],
    [231, 232, 233, 74, 224, 90, 95, 109],
    [121, 129, 130, 131, 132, 133, 134, 135],
    [136, 137, 145, 146, 147, 148, 149, 150],
    [151, 152, 153, 162, 163, 164, 165, 166],
    [167, 168, 169, 192, 187, 208, 161, 7],
    [32, 33, 34, 35, 36, 21, 6, 23],
    [40, 41, 42, 43, 44, 9, 10, 27],
    [48, 49, 26, 51, 52, 53, 54, 8],
    [56, 57, 58, 59, 4, 20, 62, 255],
    [65, 170, 176, 177, 159, 178, 106, 181],
    [189, 180, 154, 138, 186, 202, 175, 188],
    [144, 143, 234, 250, 190, 160, 182, 179],
    [157, 218, 155, 139, 183, 184, 185, 171],
    [100, 101, 98, 102, 99, 103, 158, 104],
    [116, 113, 114, 115, 120, 117, 118, 119],
    [172, 105, 237, 238, 235, 239, 236, 191],
    [128, 253, 254, 251, 252, 173, 174, 89],
    [68, 69, 66, 70, 67, 71, 156, 72],
    [84, 81, 82, 83, 88, 85, 86, 87],
    [140, 73, 205, 206, 203, 207, 204, 225],
    [112, 221, 222, 219, 220, 141, 142, 223]]"

definition ibm500_to_iso_8859_1 :: charmap_table where
  "ibm500_to_iso_8859_1 =
   [[0, 1, 2, 3, 156, 9, 134, 127],
    [151, 141, 142, 11, 12, 13, 14, 15],
    [16, 17, 18, 19, 157, 133, 8, 135],
    [24, 25, 146, 143, 28, 29, 30, 31],
    [128, 129, 130, 131, 132, 10, 23, 27],
    [136, 137, 138, 139, 140, 5, 6, 7],
    [144, 145, 22, 147, 148, 149, 150, 4],
    [152, 153, 154, 155, 20, 21, 158, 26],
    [32, 160, 226, 228, 224, 225, 227, 229],
    [231, 241, 91, 46, 60, 40, 43, 33],
    [38, 233, 234, 235, 232, 237, 238, 239],
    [236, 223, 93, 36, 42, 41, 59, 94],
    [45, 47, 194, 196, 192, 193, 195, 197],
    [199, 209, 166, 44, 37, 95, 62, 63],
    [248, 201, 202, 203, 200, 205, 206, 207],
    [204, 96, 58, 35, 64, 39, 61, 34],
    [216, 97, 98, 99, 100, 101, 102, 103],
    [104, 105, 171, 187, 240, 253, 254, 177],
    [176, 106, 107, 108, 109, 110, 111, 112],
    [113, 114, 170, 186, 230, 184, 198, 164],
    [181, 126, 115, 116, 117, 118, 119, 120],
    [121, 122, 161, 191, 208, 221, 222, 174],
    [162, 163, 165, 183, 169, 167, 182, 188],
    [189, 190, 172, 124, 175, 168, 180, 215],
    [123, 65, 66, 67, 68, 69, 70, 71],
    [72, 73, 173, 244, 246, 242, 243, 245],
    [125, 74, 75, 76, 77, 78, 79, 80],
    [81, 82, 185, 251, 252, 249, 250, 255],
    [92, 247, 83, 84, 85, 86, 87, 88],
    [89, 90, 178, 212, 214, 210, 211, 213],
    [48, 49, 50, 51, 52, 53, 54, 55],
    [56, 57, 179, 219, 220, 217, 218, 159]]"

lemmas transmaps1_defs =
  iso_8859_1_to_ibm037_def ibm037_to_iso_8859_1_def
  iso_8859_1_to_ibm256_def ibm256_to_iso_8859_1_def
  iso_8859_1_to_ibm273_def ibm273_to_iso_8859_1_def
  iso_8859_1_to_ibm277_def ibm277_to_iso_8859_1_def
  iso_8859_1_to_ibm278_def ibm278_to_iso_8859_1_def
  iso_8859_1_to_ibm280_def ibm280_to_iso_8859_1_def
  iso_8859_1_to_ibm284_def ibm284_to_iso_8859_1_def
  iso_8859_1_to_ibm285_def ibm285_to_iso_8859_1_def
  iso_8859_1_to_ibm297_def ibm297_to_iso_8859_1_def
  iso_8859_1_to_ibm500_def ibm500_to_iso_8859_1_def

lemma transmaps1_shape:
  "table_shape iso_8859_1_to_ibm037" "table_shape ibm037_to_iso_8859_1"
  "table_shape iso_8859_1_to_ibm256" "table_shape ibm256_to_iso_8859_1"
  "table_shape iso_8859_1_to_ibm273" "table_shape ibm273_to_iso_8859_1"
  "table_shape iso_8859_1_to_ibm277" "table_shape ibm277_to_iso_8859_1"
  "table_shape iso_8859_1_to_ibm278" "table_shape ibm278_to_iso_8859_1"
  "table_shape iso_8859_1_to_ibm280" "table_shape ibm280_to_iso_8859_1"
  "table_shape iso_8859_1_to_ibm284" "table_shape ibm284_to_iso_8859_1"
  "table_shape iso_8859_1_to_ibm285" "table_shape ibm285_to_iso_8859_1"
  "table_shape iso_8859_1_to_ibm297" "table_shape ibm297_to_iso_8859_1"
  "table_shape iso_8859_1_to_ibm500" "table_shape ibm500_to_iso_8859_1"
  by (simp_all add: table_shape_def transmaps1_defs)

lemma ibm037_undoes:
  "undoes ibm037_to_iso_8859_1 iso_8859_1_to_ibm037"
  "undoes iso_8859_1_to_ibm037 ibm037_to_iso_8859_1"
  by (simp_all add: undoes_def iso_8859_1_to_ibm037_def
      ibm037_to_iso_8859_1_def all_bytes_def table_eval cong: table_congs)

lemma ibm256_undoes:
  "undoes ibm256_to_iso_8859_1 iso_8859_1_to_ibm256"
  "undoes iso_8859_1_to_ibm256 ibm256_to_iso_8859_1"
  by (simp_all add: undoes_def iso_8859_1_to_ibm256_def
      ibm256_to_iso_8859_1_def all_bytes_def table_eval cong: table_congs)

lemma ibm273_undoes:
  "undoes ibm273_to_iso_8859_1 iso_8859_1_to_ibm273"
  "undoes iso_8859_1_to_ibm273 ibm273_to_iso_8859_1"
  by (simp_all add: undoes_def iso_8859_1_to_ibm273_def
      ibm273_to_iso_8859_1_def all_bytes_def table_eval cong: table_congs)

lemma ibm277_undoes:
  "undoes ibm277_to_iso_8859_1 iso_8859_1_to_ibm277"
  "undoes iso_8859_1_to_ibm277 ibm277_to_iso_8859_1"
  by (simp_all add: undoes_def iso_8859_1_to_ibm277_def
      ibm277_to_iso_8859_1_def all_bytes_def table_eval cong: table_congs)

lemma ibm278_undoes:
  "undoes ibm278_to_iso_8859_1 iso_8859_1_to_ibm278"
  "undoes iso_8859_1_to_ibm278 ibm278_to_iso_8859_1"
  by (simp_all add: undoes_def iso_8859_1_to_ibm278_def
      ibm278_to_iso_8859_1_def all_bytes_def table_eval cong: table_congs)

lemma ibm280_undoes:
  "undoes ibm280_to_iso_8859_1 iso_8859_1_to_ibm280"
  "undoes iso_8859_1_to_ibm280 ibm280_to_iso_8859_1"
  by (simp_all add: undoes_def iso_8859_1_to_ibm280_def
      ibm280_to_iso_8859_1_def all_bytes_def table_eval cong: table_congs)

lemma ibm284_undoes:
  "undoes ibm284_to_iso_8859_1 iso_8859_1_to_ibm284"
  "undoes iso_8859_1_to_ibm284 ibm284_to_iso_8859_1"
  by (simp_all add: undoes_def iso_8859_1_to_ibm284_def
      ibm284_to_iso_8859_1_def all_bytes_def table_eval cong: table_congs)

lemma ibm285_undoes:
  "undoes ibm285_to_iso_8859_1 iso_8859_1_to_ibm285"
  "undoes iso_8859_1_to_ibm285 ibm285_to_iso_8859_1"
  by (simp_all add: undoes_def iso_8859_1_to_ibm285_def
      ibm285_to_iso_8859_1_def all_bytes_def table_eval cong: table_congs)

lemma ibm297_undoes:
  "undoes ibm297_to_iso_8859_1 iso_8859_1_to_ibm297"
  "undoes iso_8859_1_to_ibm297 ibm297_to_iso_8859_1"
  by (simp_all add: undoes_def iso_8859_1_to_ibm297_def
      ibm297_to_iso_8859_1_def all_bytes_def table_eval cong: table_congs)

lemma ibm500_undoes:
  "undoes ibm500_to_iso_8859_1 iso_8859_1_to_ibm500"
  "undoes iso_8859_1_to_ibm500 ibm500_to_iso_8859_1"
  by (simp_all add: undoes_def iso_8859_1_to_ibm500_def
      ibm500_to_iso_8859_1_def all_bytes_def table_eval cong: table_congs)

lemma transmaps1_fixed:
  "table_at ibm037_to_iso_8859_1 0 = Some 0" "table_at ibm037_to_iso_8859_1 28 = Some 28"
  "table_at ibm256_to_iso_8859_1 0 = Some 0" "table_at ibm256_to_iso_8859_1 28 = Some 28"
  "table_at ibm273_to_iso_8859_1 0 = Some 0" "table_at ibm273_to_iso_8859_1 28 = Some 28"
  "table_at ibm277_to_iso_8859_1 0 = Some 0" "table_at ibm277_to_iso_8859_1 28 = Some 28"
  "table_at ibm278_to_iso_8859_1 0 = Some 0" "table_at ibm278_to_iso_8859_1 28 = Some 28"
  "table_at ibm280_to_iso_8859_1 0 = Some 0" "table_at ibm280_to_iso_8859_1 28 = Some 28"
  "table_at ibm284_to_iso_8859_1 0 = Some 0" "table_at ibm284_to_iso_8859_1 28 = Some 28"
  "table_at ibm285_to_iso_8859_1 0 = Some 0" "table_at ibm285_to_iso_8859_1 28 = Some 28"
  "table_at ibm297_to_iso_8859_1 0 = Some 0" "table_at ibm297_to_iso_8859_1 28 = Some 28"
  "table_at ibm500_to_iso_8859_1 0 = Some 0" "table_at ibm500_to_iso_8859_1 28 = Some 28"
  unfolding transmaps1_defs by (simp_all add: table_eval cong: table_congs)

end
