(* ===== verification/Tn_Transmaps2.thy ===== *)
theory Tn_Transmaps2
  imports Tn_Table
begin

text \<open>
  The translation tables of \<^verbatim>\<open>libtnX/transmaps.h\<close>, from IBM871 to IBM290, and that the two
  tables of each code page undo each other.
\<close>

definition iso_8859_1_to_ibm871 :: charmap_table where
  "iso_8859_1_to_ibm871 =
   [[0, 1, 2, 3, 55, 45, 46, 47],
    [22, 5, 37, 11, 12, 13, 14, 15],
    [16, 17, 18, 19, 60, 61, 50, 38],
    [24, 25, 63, 39, 28, 29, 30, 31],
    [64, 79, 127, 123, 91, 108, 80, 125],
    [77, 93, 92, 78, 107, 96, 75, 97],
    [240, 241, 242, 243, 244, 245, 246, 247],
    [248, 249, 122, 94, 76, 126, 110, 111],
    [172, 193, 194, 195, 196, 197, 198, 199],
    [200, 201, 209, 210, 211, 212, 213, 214],
    [215, 216, 217, 226, 227, 228, 229, 230],
    [231, 232, 233, 174, 190, 158, 236, 109],
    [140, 129, 130, 131, 132, 133, 134, 135],
    [136, 137, 145, 146, 147, 148, 149, 150],
    [151, 152, 153, 162, 163, 164, 165, 166],
    [167, 168, 169, 142, 187, 156, 204, 7],
    [32, 33, 34, 35, 36, 21, 6, 23],
    [40, 41, 42, 43, 44, 9, 10, 27],
    [48, 49, 26, 51, 52, 53, 54, 8],
    [56, 57, 58, 59, 4, 20, 62, 255],
    [65, 170, 176, 177, 159, 178, 106, 181],
    [189, 180, 154, 138, 186, 202, 175, 188],
    [144, 143, 234, 250, 224, 160, 182, 179],
    [157, 218, 155, 139, 183, 184, 185, 171],
    [100, 101, 98, 102, 99, 103, 90, 104],
    [116, 113, 114, 115, 120, 117, 118, 119],
    [124, 105, 237, 238, 235, 239, 95, 191],
    [128, 253, 254, 251, 252, 173, 192, 89],
    [68, 69, 66, 70, 67, 71, 208, 72],
    [84, 81, 82, 83, 88, 85, 86, 87],
    [121, 73, 205, 206, 203, 207, 161, 225],
    [112, 221, 222, 219, 220, 141, 74, 223]]"

definition ibm871_to_iso_8859_1 :: charmap_table where
  "ibm871_to_iso_8859_1 =
   [[0, 1, 2, 3, 156, 9, 134, 127],
    [151, 141, 142, 11, 12, 13, 14, 15],
    [16, 17, 18, 19, 157, 133, 8, 135],
    [24, 25, 146, 143, 28, 29, 30, 31],
    [128, 129, 130, 131, 132, 10, 23, 27],
    [136, 137, 138, 139, 140, 5, 6, 7],
    [144, 145, 22, 147, 148, 149, 150, 4],
    [152, 153, 154, 155, 20, 21, 158, 26],
    [32, 160, 226, 228, 224, 225, 227, 229],
    [231, 241, 254, 46, 60, 40, 43, 33],
    [38, 233, 234, 235, 232, 237, 238, 239],
    [236, 223, 198, 36, 42, 41, 59, 214],
    [45, 47, 194, 196, 192, 193, 195, 197],
    [199, 209, 166, 44, 37, 95, 62, 63],
    [248, 201, 202, 203, 200, 205, 206, 207],
    [204, 240, 58, 35, 208, 39, 61, 34],
    [216, 97, 98, 99, 100, 101, 102, 103],
    [104, 105, 171, 187, 96, 253, 123, 177],
    [176, 106, 107, 108, 109, 110, 111, 112],
    [113, 114, 170, 186, 125, 184, 93, 164],
    [181, 246, 115, 116, 117, 118, 119, 120],
    [121, 122, 161, 191, 64, 221, 91, 174],
    [162, 163, 165, 183, 169, 167, 182, 188],
    [189, 190, 172, 124, 175, 168, 92, 215],
    [222, 65, 66, 67, 68, 69, 70, 71],
    [72, 73, 173, 244, 126, 242, 243, 245],
    [230, 74, 75, 76, 77, 78, 79, 80],
    [81, 82, 185, 251, 252, 249, 250, 255],
    [180, 247, 83, 84, 85, 86, 87, 88],
    [89, 90, 178, 212, 94, 210, 211, 213],
    [48, 49, 50, 51, 52, 53, 54, 55],
    [56, 57, 179, 219, 220, 217, 218, 159]]"

definition iso_8859_2_to_ibm870 :: charmap_table where
  "iso_8859_2_to_ibm870 =
   [[0, 1, 2, 3, 55, 45, 46, 47],
    [22, 5, 37, 11, 12, 13, 14, 15],
    [16, 17, 18, 19, 60, 61, 50, 38],
    [24, 25, 63, 39, 28, 29, 30, 31],
    [64, 79, 127, 123, 91, 108, 80, 125],
    [77, 93, 92, 78, 107, 96, 75, 97],
    [240, 241, 242, 243, 244, 245, 246, 247],
    [248, 249, 122, 94, 76, 126, 110, 111],
    [124, 193, 194, 195, 196, 197, 198, 199],
    [200, 201, 209, 210, 211, 212, 213, 214],
    [215, 216, 217, 226, 227, 228, 229, 230],
    [231, 232, 233, 74, 224, 90, 95, 109],
    [121, 129, 130, 131, 132, 133, 134, 135],
    [136, 137, 145, 146, 147, 148, 149, 150],
    [151, 152, 153, 162, 163, 164, 165, 166],
    [167, 168, 169, 192, 106, 208, 161, 7],
    [32, 33, 34, 35, 36, 21, 6, 23],
    [40, 41, 42, 43, 44, 9, 10, 27],
    [48, 49, 26, 51, 52, 53, 54, 8],
    [56, 57, 58, 59, 4, 20, 62, 255],
    [65, 177, 128, 82, 159, 119, 170, 181],
    [189, 188, 118, 253, 186, 202, 185, 180],
    [144, 160, 158, 154, 190, 87, 138, 112],
    [157, 156, 143, 221, 184, 100, 183, 178],
    [237, 101, 66, 68, 99, 120, 105, 104],
    [103, 113, 102, 115, 218, 117, 114, 250],
    [172, 187, 171, 238, 235, 239, 236, 191],
    [174, 116, 254, 251, 252, 173, 86, 89],
    [205, 69, 98, 70, 67, 88, 73, 72],
    [71, 81, 175, 83, 223, 85, 179, 234],
    [140, 155, 139, 206, 203, 207, 204, 225],
    [142, 84, 222, 219, 220, 141, 176, 182]]"

definition ibm870_to_iso_8859_2 :: charmap_table where
  "ibm870_to_iso_8859_2 =
   [[0, 1, 2, 3, 156, 9, 134, 127],
    [151, 141, 142, 11, 12, 13, 14, 15],
    [16, 17, 18, 19, 157, 133, 8, 135],
    [24, 25, 146, 143, 28, 29, 30, 31],
    [128, 129, 130, 131, 132, 10, 23, 27],
    [136, 137, 138, 139, 140, 5, 6, 7],
    [144, 145, 22, 147, 148, 149, 150, 4],
    [152, 153, 154, 155, 20, 21, 158, 26],
    [32, 160, 194, 228, 195, 225, 227, 232],
    [231, 230, 91, 46, 60, 40, 43, 33],
    [38, 233, 163, 235, 249, 237, 222, 181],
    [229, 223, 93, 36, 42, 41, 59, 94],
    [45, 47, 226, 196, 189, 193, 202, 200],
    [199, 198, 124, 44, 37, 95, 62, 63],
    [183, 201, 206, 203, 217, 205, 170, 165],
    [197, 96, 58, 35, 64, 39, 61, 34],
    [162, 97, 98, 99, 100, 101, 102, 103],
    [104, 105, 182, 242, 240, 253, 248, 186],
    [176, 106, 107, 108, 109, 110, 111, 112],
    [113, 114, 179, 241, 185, 184, 178, 164],
    [177, 126, 115, 116, 117, 118, 119, 120],
    [121, 122, 166, 210, 208, 221, 216, 234],
    [254, 161, 191, 238, 175, 167, 255, 190],
    [188, 174, 172, 209, 169, 168, 180, 215],
    [123, 65, 66, 67, 68, 69, 70, 71],
    [72, 73, 173, 244, 246, 224, 243, 245],
    [125, 74, 75, 76, 77, 78, 79, 80],
    [81, 82, 204, 251, 252, 187, 250, 236],
    [92, 247, 83, 84, 85, 86, 87, 88],
    [89, 90, 239, 212, 214, 192, 211, 213],
    [48, 49, 50, 51, 52, 53, 54, 55],
    [56, 57, 207, 219, 220, 171, 218, 159]]"

definition iso_8859_3_to_ibm905 :: charmap_table where
  "iso_8859_3_to_ibm905 =
   [[0, 1, 2, 3, 55, 45, 46, 47],
    [22, 5, 37, 11, 12, 13, 14, 15],
    [16, 17, 18, 19, 60, 61, 50, 38],
    [24, 25, 63, 39, 28, 29, 30, 31],
    [64, 79, 252, 236, 185, 108, 80, 125],
    [77, 93, 92, 78, 107, 96, 75, 97],
    [240, 241, 242, 243, 244, 245, 246, 247],
    [248, 249, 122, 94, 76, 126, 110, 111],
    [175, 193, 194, 195, 196, 197, 198, 199],
    [200, 201, 209, 210, 211, 212, 213, 214],
    [215, 216, 217, 226, 227, 228, 229, 230],
    [231, 232, 233, 104, 220, 182, 95, 109],
    [218, 129, 130, 131, 132, 133, 134, 135],
    [136, 137, 145, 146, 147, 148, 149, 150],
    [151, 152, 153, 162, 163, 164, 165, 166],
    [167, 168, 169, 72, 143, 179, 204, 7],
    [32, 33, 34, 35, 36, 21, 6, 23],
    [40, 41, 42, 43, 44, 9, 10, 27],
    [48, 49, 26, 51, 52, 53, 54, 8],
    [56, 57, 58, 59, 4, 20, 62, 255],
    [65, 170, 128, 177, 159, 142, 186, 181],
    [189, 91, 124, 90, 188, 202, 174, 180],
    [144, 138, 234, 250, 190, 160, 154, 176],
    [157, 121, 106, 208, 156, 184, 158, 178],
    [100, 101, 98, 102, 99, 103, 171, 74],
    [116, 113, 114, 115, 120, 117, 118, 119],
    [70, 105, 237, 238, 235, 239, 123, 191],
    [187, 253, 254, 251, 127, 173, 172, 89],
    [68, 69, 66, 223, 67, 71, 139, 192],
    [84, 81, 82, 83, 88, 85, 86, 87],
    [183, 73, 205, 206, 203, 207, 161, 225],
    [155, 221, 222, 219, 224, 141, 140, 112]]"

definition ibm905_to_iso_8859_3 :: charmap_table where
  "ibm905_to_iso_8859_3 =
   [[0, 1, 2, 3, 156, 9, 134, 127],
    [151, 141, 142, 11, 12, 13, 14, 15],
    [16, 17, 18, 19, 157, 133, 8, 135],
    [24, 25, 146, 143, 28, 29, 30, 31],
    [128, 129, 130, 131, 132, 10, 23, 27],
    [136, 137, 138, 139, 140, 5, 6, 7],
    [144, 145, 22, 147, 148, 149, 150, 4],
    [152, 153, 154, 155, 20, 21, 158, 26],
    [32, 160, 226, 228, 224, 225, 208, 229],
    [123, 241, 199, 46, 60, 40, 43, 33],
    [38, 233, 234, 235, 232, 237, 238, 239],
    [236, 223, 171, 169, 42, 41, 59, 94],
    [45, 47, 194, 196, 192, 193, 195, 197],
    [91, 209, 186, 44, 37, 95, 62, 63],
    [255, 201, 202, 203, 200, 205, 206, 207],
    [204, 185, 58, 214, 170, 39, 61, 220],
    [162, 97, 98, 99, 100, 101, 102, 103],
    [104, 105, 177, 230, 254, 253, 165, 124],
    [176, 106, 107, 108, 109, 110, 111, 112],
    [113, 114, 182, 248, 188, 184, 190, 164],
    [181, 246, 115, 116, 117, 118, 119, 120],
    [121, 122, 161, 198, 222, 221, 174, 64],
    [183, 163, 191, 125, 175, 167, 93, 240],
    [189, 36, 166, 216, 172, 168, 180, 215],
    [231, 65, 66, 67, 68, 69, 70, 71],
    [72, 73, 173, 244, 126, 242, 243, 245],
    [187, 74, 75, 76, 77, 78, 79, 80],
    [81, 82, 96, 251, 92, 249, 250, 227],
    [252, 247, 83, 84, 85, 86, 87, 88],
    [89, 90, 178, 212, 35, 210, 211, 213],
    [48, 49, 50, 51, 52, 53, 54, 55],
    [56, 57, 179, 219, 34, 217, 218, 159]]"

definition iso_8859_5_to_ibm880 :: charmap_table where
  "iso_8859_5_to_ibm880 =
   [[0, 1, 2, 3, 55, 45, 46, 47],
    [22, 5, 37, 11, 12, 13, 14, 15],
    [16, 17, 18, 19, 60, 61, 50, 38],
    [24, 25, 63, 39, 28, 29, 30, 31],
    [64, 79, 127, 123, 91, 108, 80, 125],
    [77, 93, 92, 78, 107, 96, 75, 97],
    [240, 241, 242, 243, 244, 245, 246, 247],
    [248, 249, 122, 94, 76, 126, 110, 111],
    [124, 193, 194, 195, 196, 197, 198, 199],
    [200, 201, 209, 210, 211, 212, 213, 214],
    [215, 216, 217, 226, 227, 228, 229, 230],
    [231, 232, 233, 74, 224, 90, 95, 109],
    [100, 129, 130, 131, 132, 133, 134, 135],
    [136, 137, 145, 146, 147, 148, 149, 150],
    [151, 152, 153, 162, 163, 164, 165, 166],
    [167, 168, 169, 161, 69, 115, 121, 7],
    [32, 33, 34, 35, 36, 21, 6, 23],
    [40, 41, 42, 43, 44, 9, 10, 27],
    [48, 49, 26, 51, 52, 53, 54, 8],
    [56, 57, 58, 59, 4, 20, 62, 255],
    [192, 99, 89, 98, 208, 101, 102, 103],
    [104, 105, 112, 113, 114, 65, 116, 117],
    [185, 186, 237, 191, 188, 189, 236, 250],
    [203, 204, 205, 206, 207, 218, 219, 220],
    [222, 223, 234, 235, 190, 202, 187, 254],
    [251, 253, 87, 239, 238, 252, 184, 221],
    [119, 120, 175, 141, 138, 139, 174, 178],
    [143, 144, 154, 155, 156, 157, 158, 159],
    [170, 171, 172, 173, 140, 142, 128, 182],
    [179, 181, 183, 177, 176, 180, 118, 160],
    [88, 68, 66, 67, 106, 70, 71, 72],
    [73, 81, 82, 83, 84, 225, 85, 86]]"

definition ibm880_to_iso_8859_5 :: charmap_table where
  "ibm880_to_iso_8859_5 =
   [[0, 1, 2, 3, 156, 9, 134, 127],
    [151, 141, 142, 11, 12, 13, 14, 15],
    [16, 17, 18, 19, 157, 133, 8, 135],
    [24, 25, 146, 143, 28, 29, 30, 31],
    [128, 129, 130, 131, 132, 10, 23, 27],
    [136, 137, 138, 139, 140, 5, 6, 7],
    [144, 145, 22, 147, 148, 149, 150, 4],
    [152, 153, 154, 155, 20, 21, 158, 26],
    [32, 173, 242, 243, 241, 124, 245, 246],
    [247, 248, 91, 46, 60, 40, 43, 33],
    [38, 249, 250, 251, 252, 254, 255, 202],
    [240, 162, 93, 36, 42, 41, 59, 94],
    [45, 47, 163, 161, 96, 165, 166, 167],
    [168, 169, 244, 44, 37, 95, 62, 63],
    [170, 171, 172, 125, 174, 175, 238, 208],
    [209, 126, 58, 35, 64, 39, 61, 34],
    [230, 97, 98, 99, 100, 101, 102, 103],
    [104, 105, 212, 213, 228, 211, 229, 216],
    [217, 106, 107, 108, 109, 110, 111, 112],
    [113, 114, 218, 219, 220, 221, 222, 223],
    [239, 123, 115, 116, 117, 118, 119, 120],
    [121, 122, 224, 225, 226, 227, 214, 210],
    [236, 235, 215, 232, 237, 233, 231, 234],
    [206, 176, 177, 198, 180, 181, 196, 179],
    [160, 65, 66, 67, 68, 69, 70, 71],
    [72, 73, 197, 184, 185, 186, 187, 188],
    [164, 74, 75, 76, 77, 78, 79, 80],
    [81, 82, 189, 190, 191, 207, 192, 193],
    [92, 253, 83, 84, 85, 86, 87, 88],
    [89, 90, 194, 195, 182, 178, 204, 203],
    [48, 49, 50, 51, 52, 53, 54, 55],
    [56, 57, 183, 200, 205, 201, 199, 159]]"

definition iso_8859_6_to_ibm420 :: charmap_table where
  "iso_8859_6_to_ibm420 =
   [[0, 1, 2, 3, 55, 45, 46, 47],
    [22, 5, 37, 11, 12, 13, 14, 15],
    [16, 17, 18, 19, 60, 61, 50, 38],
    [24, 25, 63, 39, 28, 29, 30, 31],
    [64, 90, 127, 123, 91, 108, 80, 125],
    [77, 93, 92, 78, 107, 96, 75, 97],
    [240, 241, 242, 243, 244, 245, 246, 247],
    [248, 249, 122, 94, 76, 126, 110, 111],
    [124, 193, 194, 195, 196, 197, 198, 199],
    [200, 201, 209, 210, 211, 212, 213, 214],
    [215, 216, 217, 226, 227, 228, 229, 230],
    [231, 232, 233, 100, 138, 205, 155, 109],
    [104, 129, 130, 131, 132, 133, 134, 135],
    [136, 137, 145, 146, 147, 148, 149, 150],
    [151, 152, 153, 162, 163, 164, 165, 166],
    [167, 168, 169, 83, 79, 204, 203, 7],
    [32, 33, 34, 35, 36, 21, 6, 23],
    [40, 41, 42, 43, 44, 9, 10, 27],
    [48, 49, 26, 51, 52, 53, 54, 8],
    [56, 57, 58, 59, 4, 20, 62, 255],
    [65, 161, 89, 72, 74, 102, 157, 120],
    [172, 224, 170, 225, 121, 202, 174, 84],
    [176, 160, 178, 179, 180, 181, 182, 183],
    [184, 185, 186, 192, 188, 87, 190, 208],
    [106, 70, 71, 73, 82, 69, 85, 86],
    [88, 98, 99, 101, 103, 105, 113, 115],
    [116, 117, 118, 119, 128, 139, 141, 143],
    [144, 154, 158, 219, 234, 221, 222, 223],
    [68, 171, 173, 175, 177, 187, 189, 191],
    [207, 218, 220, 235, 236, 237, 238, 239],
    [81, 66, 112, 142, 95, 67, 140, 156],
    [206, 114, 250, 251, 252, 253, 254, 159]]"

definition ibm420_to_iso_8859_6 :: charmap_table where
  "ibm420_to_iso_8859_6 =
   [[0, 1, 2, 3, 156, 9, 134, 127],
    [151, 141, 142, 11, 12, 13, 14, 15],
    [16, 17, 18, 19, 157, 133, 8, 135],
    [24, 25, 146, 143, 28, 29, 30, 31],
    [128, 129, 130, 131, 132, 10, 23, 27],
    [136, 137, 138, 139, 140, 5, 6, 7],
    [144, 145, 22, 147, 148, 149, 150, 4],
    [152, 153, 154, 155, 20, 21, 158, 26],
    [32, 160, 241, 245, 224, 197, 193, 194],
    [163, 195, 164, 46, 60, 40, 43, 124],
    [38, 240, 196, 123, 175, 198, 199, 189],
    [200, 162, 33, 36, 42, 41, 59, 244],
    [45, 47, 201, 202, 91, 203, 165, 204],
    [96, 205, 192, 44, 37, 95, 62, 63],
    [242, 206, 249, 207, 208, 209, 210, 211],
    [167, 172, 58, 35, 64, 39, 61, 34],
    [212, 97, 98, 99, 100, 101, 102, 103],
    [104, 105, 92, 213, 246, 214, 243, 215],
    [216, 106, 107, 108, 109, 110, 111, 112],
    [113, 114, 217, 94, 247, 166, 218, 255],
    [177, 161, 115, 116, 117, 118, 119, 120],
    [121, 122, 170, 225, 168, 226, 174, 227],
    [176, 228, 178, 179, 180, 181, 182, 183],
    [184, 185, 186, 229, 188, 230, 190, 231],
    [187, 65, 66, 67, 68, 69, 70, 71],
    [72, 73, 173, 126, 125, 93, 248, 232],
    [191, 74, 75, 76, 77, 78, 79, 80],
    [81, 82, 233, 219, 234, 221, 222, 223],
    [169, 171, 83, 84, 85, 86, 87, 88],
    [89, 90, 220, 235, 236, 237, 238, 239],
    [48, 49, 50, 51, 52, 53, 54, 55],
    [56, 57, 250, 251, 252, 253, 254, 159]]"

definition iso_8859_7_to_ibm875 :: charmap_table where
  "iso_8859_7_to_ibm875 =
   [[0, 1, 2, 3, 55, 45, 46, 47],
    [22, 5, 37, 11, 12, 13, 14, 15],
    [16, 17, 18, 19, 60, 61, 50, 38],
    [24, 25, 63, 39, 28, 29, 30, 31],
    [64, 79, 127, 123, 91, 108, 80, 125],
    [77, 93, 92, 78, 107, 96, 75, 97],
    [240, 241, 242, 243, 244, 245, 246, 247],
    [248, 249, 122, 94, 76, 126, 110, 111],
    [124, 193, 194, 195, 196, 197, 198, 199],
    [200, 201, 209, 210, 211, 212, 213, 214],
    [215, 216, 217, 226, 227, 228, 229, 230],
    [231, 232, 233, 74, 224, 90, 95, 109],
    [121, 129, 130, 131, 132, 133, 134, 135],
    [136, 137, 145, 146, 147, 148, 149, 150],
    [151, 152, 153, 162, 163, 164, 165, 166],
    [167, 168, 169, 192, 220, 208, 161, 7],
    [32, 33, 34, 35, 36, 21, 6, 23],
    [40, 41, 42, 43, 44, 9, 10, 27],
    [48, 49, 26, 51, 52, 53, 54, 8],
    [56, 57, 58, 59, 4, 20, 62, 255],
    [253, 225, 222, 176, 206, 252, 223, 235],
    [112, 251, 237, 238, 239, 202, 106, 207],
    [144, 218, 234, 250, 160, 128, 113, 221],
    [114, 115, 117, 254, 118, 219, 119, 120],
    [180, 65, 66, 67, 68, 69, 70, 71],
    [72, 73, 81, 82, 83, 84, 85, 86],
    [87, 88, 116, 89, 98, 99, 100, 101],
    [102, 103, 104, 105, 177, 178, 179, 181],
    [184, 138, 139, 140, 141, 142, 143, 154],
    [155, 156, 157, 158, 159, 170, 171, 172],
    [173, 174, 186, 175, 187, 188, 189, 190],
    [191, 203, 204, 205, 182, 183, 185, 236]]"

definition ibm875_to_iso_8859_7 :: charmap_table where
  "ibm875_to_iso_8859_7 =
   [[0, 1, 2, 3, 156, 9, 134, 127],
    [151, 141, 142, 11, 12, 13, 14, 15],
    [16, 17, 18, 19, 157, 133, 8, 135],
    [24, 25, 146, 143, 28, 29, 30, 31],
    [128, 129, 130, 131, 132, 10, 23, 27],
    [136, 137, 138, 139, 140, 5, 6, 7],
    [144, 145, 22, 147, 148, 149, 150, 4],
    [152, 153, 154, 155, 20, 21, 158, 26],
    [32, 193, 194, 195, 196, 197, 198, 199],
    [200, 201, 91, 46, 60, 40, 43, 33],
    [38, 202, 203, 204, 205, 206, 207, 208],
    [209, 211, 93, 36, 42, 41, 59, 94],
    [45, 47, 212, 213, 214, 215, 216, 217],
    [218, 219, 174, 44, 37, 95, 62, 63],
    [168, 182, 184, 185, 210, 186, 188, 190],
    [191, 96, 58, 35, 64, 39, 61, 34],
    [181, 97, 98, 99, 100, 101, 102, 103],
    [104, 105, 225, 226, 227, 228, 229, 230],
    [176, 106, 107, 108, 109, 110, 111, 112],
    [113, 114, 231, 232, 233, 234, 235, 236],
    [180, 126, 115, 116, 117, 118, 119, 120],
    [121, 122, 237, 238, 239, 240, 241, 243],
    [163, 220, 221, 222, 192, 223, 252, 253],
    [224, 254, 242, 244, 245, 246, 247, 248],
    [123, 65, 66, 67, 68, 69, 70, 71],
    [72, 73, 173, 249, 250, 251, 164, 175],
    [125, 74, 75, 76, 77, 78, 79, 80],
    [81, 82, 177, 189, 124, 183, 162, 166],
    [92, 161, 83, 84, 85, 86, 87, 88],
    [89, 90, 178, 167, 255, 170, 171, 172],
    [48, 49, 50, 51, 52, 53, 54, 55],
    [56, 57, 179, 169, 165, 160, 187, 159]]"

definition iso_8859_8_to_ibm424 :: charmap_table where
  "iso_8859_8_to_ibm424 =
   [[0, 1, 2, 3, 55, 45, 46, 47],
    [22, 5, 37, 11, 12, 13, 14, 15],
    [16, 17, 18, 19, 60, 61, 50, 38],
    [24, 25, 63, 39, 28, 29, 30, 31],
    [64, 90, 127, 123, 91, 108, 80, 125],
    [77, 93, 92, 78, 107, 96, 75, 97],
    [240, 241, 242, 243, 244, 245, 246, 247],
    [248, 249, 122, 94, 76, 126, 110, 111],
    [124, 193, 194, 195, 196, 197, 198, 199],
    [200, 201, 209, 210, 211, 212, 213, 214],
    [215, 216, 217, 226, 227, 228, 229, 230],
    [231, 232, 233, 186, 224, 187, 176, 109],
    [121, 129, 130, 131, 132, 133, 134, 135],
    [136, 137, 145, 146, 147, 148, 149, 150],
    [151, 152, 153, 162, 163, 164, 165, 166],
    [167, 168, 169, 192, 79, 208, 161, 7],
    [32, 33, 34, 35, 36, 21, 6, 23],
    [40, 41, 42, 43, 44, 9, 10, 27],
    [48, 49, 26, 51, 52, 53, 54, 8],
    [56, 57, 58, 59, 4, 20, 62, 255],
    [116, 158, 74, 177, 159, 178, 106, 181],
    [189, 180, 191, 138, 95, 202, 175, 188],
    [144, 120, 234, 250, 190, 160, 182, 179],
    [157, 218, 225, 139, 183, 184, 185, 170],
    [142, 171, 172, 235, 236, 237, 238, 239],
    [155, 119, 173, 203, 204, 205, 206, 207],
    [143, 115, 140, 141, 174, 114, 128, 156],
    [112, 118, 154, 219, 220, 221, 222, 223],
    [65, 66, 67, 68, 69, 70, 71, 72],
    [73, 81, 82, 83, 84, 85, 86, 87],
    [88, 89, 98, 99, 100, 101, 102, 103],
    [104, 105, 113, 251, 252, 253, 254, 117]]"

definition ibm424_to_iso_8859_8 :: charmap_table where
  "ibm424_to_iso_8859_8 =
   [[0, 1, 2, 3, 156, 9, 134, 127],
    [151, 141, 142, 11, 12, 13, 14, 15],
    [16, 17, 18, 19, 157, 133, 8, 135],
    [24, 25, 146, 143, 28, 29, 30, 31],
    [128, 129, 130, 131, 132, 10, 23, 27],
    [136, 137, 138, 139, 140, 5, 6, 7],
    [144, 145, 22, 147, 148, 149, 150, 4],
    [152, 153, 154, 155, 20, 21, 158, 26],
    [32, 224, 225, 226, 227, 228, 229, 230],
    [231, 232, 162, 46, 60, 40, 43, 124],
    [38, 233, 234, 235, 236, 237, 238, 239],
    [240, 241, 33, 36, 42, 41, 59, 172],
    [45, 47, 242, 243, 244, 245, 246, 247],
    [248, 249, 166, 44, 37, 95, 62, 63],
    [216, 250, 213, 209, 160, 255, 217, 201],
    [177, 96, 58, 35, 64, 39, 61, 34],
    [214, 97, 98, 99, 100, 101, 102, 103],
    [104, 105, 171, 187, 210, 211, 192, 208],
    [176, 106, 107, 108, 109, 110, 111, 112],
    [113, 114, 218, 200, 215, 184, 161, 164],
    [181, 126, 115, 116, 117, 118, 119, 120],
    [121, 122, 191, 193, 194, 202, 212, 174],
    [94, 163, 165, 183, 169, 167, 182, 188],
    [189, 190, 91, 93, 175, 168, 180, 170],
    [123, 65, 66, 67, 68, 69, 70, 71],
    [72, 73, 173, 203, 204, 205, 206, 207],
    [125, 74, 75, 76, 77, 78, 79, 80],
    [81, 82, 185, 219, 220, 221, 222, 223],
    [92, 186, 83, 84, 85, 86, 87, 88],
    [89, 90, 178, 195, 196, 197, 198, 199],
    [48, 49, 50, 51, 52, 53, 54, 55],
    [56, 57, 179, 251, 252, 253, 254, 159]]"

definition iso_8859_9_to_ibm1026 :: charmap_table where
  "iso_8859_9_to_ibm1026 =
   [[0, 1, 2, 3, 55, 45, 46, 47],
    [22, 5, 37, 11, 12, 13, 14, 15],
    [16, 17, 18, 19, 60, 61, 50, 38],
    [24, 25, 63, 39, 28, 29, 30, 31],
    [64, 79, 252, 236, 173, 108, 80, 125],
    [77, 93, 92, 78, 107, 96, 75, 97],
    [240, 241, 242, 243, 244, 245, 246, 247],
    [248, 249, 122, 94, 76, 126, 110, 111],
    [174, 193, 194, 195, 196, 197, 198, 199],
    [200, 201, 209, 210, 211, 212, 213, 214],
    [215, 216, 217, 226, 227, 228, 229, 230],
    [231, 232, 233, 104, 220, 172, 95, 109],
    [141, 129, 130, 131, 132, 133, 134, 135],
    [136, 137, 145, 146, 147, 148, 149, 150],
    [151, 152, 153, 162, 163, 164, 165, 166],
    [167, 168, 169, 72, 187, 140, 204, 7],
    [32, 33, 34, 35, 36, 21, 6, 23],
    [40, 41, 42, 43, 44, 9, 10, 27],
    [48, 49, 26, 51, 52, 53, 54, 8],
    [56, 57, 58, 59, 4, 20, 62, 255],
    [65, 170, 176, 177, 159, 178, 142, 181],
    [189, 180, 154, 138, 186, 202, 175, 157],
    [144, 143, 234, 250, 190, 160, 182, 179],
    [82, 218, 155, 139, 183, 184, 185, 171],
    [100, 101, 98, 102, 99, 103, 158, 74],
    [116, 113, 114, 115, 120, 117, 118, 119],
    [90, 105, 237, 238, 235, 239, 123, 191],
    [128, 253, 254, 251, 127, 91, 124, 89],
    [68, 69, 66, 70, 67, 71, 156, 192],
    [84, 81, 87, 83, 88, 85, 86, 188],
    [208, 73, 205, 206, 203, 207, 161, 225],
    [112, 221, 222, 219, 224, 121, 106, 223]]"

definition ibm1026_to_iso_8859_9 :: charmap_table where
  "ibm1026_to_iso_8859_9 =
   [[0, 1, 2, 3, 156, 9, 134, 127],
    [151, 141, 142, 11, 12, 13, 14, 15],
    [16, 17, 18, 19, 157, 133, 8, 135],
    [24, 25, 146, 143, 28, 29, 30, 31],
    [128, 129, 130, 131, 132, 10, 23, 27],
    [136, 137, 138, 139, 140, 5, 6, 7],
    [144, 145, 22, 147, 148, 149, 150, 4],
    [152, 153, 154, 155, 20, 21, 158, 26],
    [32, 160, 226, 228, 224, 225, 227, 229],
    [123, 241, 199, 46, 60, 40, 43, 33],
    [38, 233, 184, 235, 232, 237, 238, 234],
    [236, 223, 208, 221, 42, 41, 59, 94],
    [45, 47, 194, 196, 192, 193, 195, 197],
    [91, 209, 254, 44, 37, 95, 62, 63],
    [248, 201, 202, 203, 200, 205, 206, 207],
    [204, 253, 58, 214, 222, 39, 61, 220],
    [216, 97, 98, 99, 100, 101, 102, 103],
    [104, 105, 171, 187, 125, 96, 166, 177],
    [176, 106, 107, 108, 109, 110, 111, 112],
    [113, 114, 170, 186, 230, 175, 198, 164],
    [181, 246, 115, 116, 117, 118, 119, 120],
    [121, 122, 161, 191, 93, 36, 64, 174],
    [162, 163, 165, 183, 169, 167, 182, 188],
    [189, 190, 172, 124, 239, 168, 180, 215],
    [231, 65, 66, 67, 68, 69, 70, 71],
    [72, 73, 173, 244, 126, 242, 243, 245],
    [240, 74, 75, 76, 77, 78, 79, 80],
    [81, 82, 185, 251, 92, 249, 250, 255],
    [252, 247, 83, 84, 85, 86, 87, 88],
    [89, 90, 178, 212, 35, 210, 211, 213],
    [48, 49, 50, 51, 52, 53, 54, 55],
    [56, 57, 179, 219, 34, 217, 218, 159]]"

definition jis_x0201_to_ibm290 :: charmap_table where
  "jis_x0201_to_ibm290 =
   [[0, 1, 2, 3, 55, 45, 46, 47],
    [22, 5, 37, 11, 12, 13, 14, 15],
    [16, 17, 18, 19, 60, 61, 50, 38],
    [24, 25, 63, 39, 28, 29, 30, 31],
    [64, 90, 127, 123, 224, 108, 80, 125],
    [77, 93, 92, 78, 107, 96, 75, 97],
    [240, 241, 242, 243, 244, 245, 246, 247],
    [248, 249, 122, 94, 76, 126, 110, 111],
    [124, 193, 194, 195, 196, 197, 198, 199],
    [200, 201, 209, 210, 211, 212, 213, 214],
    [215, 216, 217, 226, 227, 228, 229, 230],
    [231, 232, 233, 218, 91, 185, 155, 109],
    [121, 178, 98, 99, 100, 101, 102, 103],
    [104, 105, 106, 219, 221, 95, 203, 181],
    [112, 113, 114, 115, 116, 117, 118, 119],
    [120, 220, 184, 179, 79, 222, 161, 7],
    [32, 33, 34, 35, 36, 21, 6, 23],
    [40, 41, 42, 43, 44, 9, 10, 27],
    [48, 49, 26, 51, 52, 53, 54, 8],
    [56, 57, 58, 59, 4, 20, 62, 255],
    [160, 65, 66, 67, 68, 69, 70, 71],
    [72, 73, 81, 82, 83, 84, 85, 86],
    [88, 129, 130, 131, 132, 133, 134, 135],
    [136, 137, 138, 140, 141, 142, 143, 144],
    [145, 146, 147, 148, 149, 150, 151, 152],
    [153, 154, 157, 158, 159, 162, 163, 164],
    [165, 166, 167, 168, 169, 170, 172, 173],
    [174, 175, 186, 187, 188, 189, 190, 191],
    [180, 225, 128, 183, 139, 171, 87, 176],
    [89, 177, 234, 235, 236, 237, 238, 239],
    [223, 192, 74, 205, 206, 207, 208, 156],
    [182, 202, 250, 251, 252, 253, 254, 204]]"

definition ibm290_to_jis_x0201 :: charmap_table where
  "ibm290_to_jis_x0201 =
   [[0, 1, 2, 3, 156, 9, 134, 127],
    [151, 141, 142, 11, 12, 13, 14, 15],
    [16, 17, 18, 19, 157, 133, 8, 135],
    [24, 25, 146, 143, 28, 29, 30, 31],
    [128, 129, 130, 131, 132, 10, 23, 27],
    [136, 137, 138, 139, 140, 5, 6, 7],
    [144, 145, 22, 147, 148, 149, 150, 4],
    [152, 153, 154, 155, 20, 21, 158, 26],
    [32, 161, 162, 163, 164, 165, 166, 167],
    [168, 169, 242, 46, 60, 40, 43, 124],
    [38, 170, 171, 172, 173, 174, 175, 230],
    [176, 232, 33, 92, 42, 41, 59, 109],
    [45, 47, 98, 99, 100, 101, 102, 103],
    [104, 105, 106, 44, 37, 95, 62, 63],
    [112, 113, 114, 115, 116, 117, 118, 119],
    [120, 96, 58, 35, 64, 39, 61, 34],
    [226, 177, 178, 179, 180, 181, 182, 183],
    [184, 185, 186, 228, 187, 188, 189, 190],
    [191, 192, 193, 194, 195, 196, 197, 198],
    [199, 200, 201, 94, 247, 202, 203, 204],
    [160, 126, 205, 206, 207, 208, 209, 210],
    [211, 212, 213, 229, 214, 215, 216, 217],
    [231, 233, 97, 123, 224, 111, 248, 227],
    [122, 93, 218, 219, 220, 221, 222, 223],
    [241, 65, 66, 67, 68, 69, 70, 71],
    [72, 73, 249, 110, 255, 243, 244, 245],
    [246, 74, 75, 76, 77, 78, 79, 80],
    [81, 82, 91, 107, 121, 108, 125, 240],
    [36, 225, 83, 84, 85, 86, 87, 88],
    [89, 90, 234, 235, 236, 237, 238, 239],
    [48, 49, 50, 51, 52, 53, 54, 55],
    [56, 57, 250, 251, 252, 253, 254, 159]]"

lemmas transmaps2_defs =
  iso_8859_1_to_ibm871_def ibm871_to_iso_8859_1_def
  iso_8859_2_to_ibm870_def ibm870_to_iso_8859_2_def
  iso_8859_3_to_ibm905_def ibm905_to_iso_8859_3_def
  iso_8859_5_to_ibm880_def ibm880_to_iso_8859_5_def
  iso_8859_6_to_ibm420_def ibm420_to_iso_8859_6_def
  iso_8859_7_to_ibm875_def ibm875_to_iso_8859_7_def
  iso_8859_8_to_ibm424_def ibm424_to_iso_8859_8_def
  iso_8859_9_to_ibm1026_def ibm1026_to_iso_8859_9_def
  jis_x0201_to_ibm290_def ibm290_to_jis_x0201_def

lemma transmaps2_shape:
  "table_shape iso_8859_1_to_ibm871" "table_shape ibm871_to_iso_8859_1"
  "table_shape iso_8859_2_to_ibm870" "table_shape ibm870_to_iso_8859_2"
  "table_shape iso_8859_3_to_ibm905" "table_shape ibm905_to_iso_8859_3"
  "table_shape iso_8859_5_to_ibm880" "table_shape ibm880_to_iso_8859_5"
  "table_shape iso_8859_6_to_ibm420" "table_shape ibm420_to_iso_8859_6"
  "table_shape iso_8859_7_to_ibm875" "table_shape ibm875_to_iso_8859_7"
  "table_shape iso_8859_8_to_ibm424" "table_shape ibm424_to_iso_8859_8"
  "table_shape iso_8859_9_to_ibm1026" "table_shape ibm1026_to_iso_8859_9"
  "table_shape jis_x0201_to_ibm290" "table_shape ibm290_to_jis_x0201"
  by (simp_all add: table_shape_def transmaps2_defs)

lemma ibm871_undoes:
  "undoes ibm871_to_iso_8859_1 iso_8859_1_to_ibm871"
  "undoes iso_8859_1_to_ibm871 ibm871_to_iso_8859_1"
  by (simp_all add: undoes_def iso_8859_1_to_ibm871_def
      ibm871_to_iso_8859_1_def all_bytes_def table_eval cong: table_congs)

lemma ibm870_undoes:
  "undoes ibm870_to_iso_8859_2 iso_8859_2_to_ibm870"
  "undoes iso_8859_2_to_ibm870 ibm870_to_iso_8859_2"
  by (simp_all add: undoes_def iso_8859_2_to_ibm870_def
      ibm870_to_iso_8859_2_def all_bytes_def table_eval cong: table_congs)

lemma ibm905_undoes:
  "undoes ibm905_to_iso_8859_3 iso_8859_3_to_ibm905"
  "undoes iso_8859_3_to_ibm905 ibm905_to_iso_8859_3"
  by (simp_all add: undoes_def iso_8859_3_to_ibm905_def
      ibm905_to_iso_8859_3_def all_bytes_def table_eval cong: table_congs)

lemma ibm880_undoes:
  "undoes ibm880_to_iso_8859_5 iso_8859_5_to_ibm880"
  "undoes iso_8859_5_to_ibm880 ibm880_to_iso_8859_5"
  by (simp_all add: undoes_def iso_8859_5_to_ibm880_def
      ibm880_to_iso_8859_5_def all_bytes_def table_eval cong: table_congs)

lemma ibm420_undoes:
  "undoes ibm420_to_iso_8859_6 iso_8859_6_to_ibm420"
  "undoes iso_8859_6_to_ibm420 ibm420_to_iso_8859_6"
  by (simp_all add: undoes_def iso_8859_6_to_ibm420_def
      ibm420_to_iso_8859_6_def all_bytes_def table_eval cong: table_congs)

lemma ibm875_undoes:
  "undoes ibm875_to_iso_8859_7 iso_8859_7_to_ibm875"
  "undoes iso_8859_7_to_ibm875 ibm875_to_iso_8859_7"
  by (simp_all add: undoes_def iso_8859_7_to_ibm875_def
      ibm875_to_iso_8859_7_def all_bytes_def table_eval cong: table_congs)

lemma ibm424_undoes:
  "undoes ibm424_to_iso_8859_8 iso_8859_8_to_ibm424"
  "undoes iso_8859_8_to_ibm424 ibm424_to_iso_8859_8"
  by (simp_all add: undoes_def iso_8859_8_to_ibm424_def
      ibm424_to_iso_8859_8_def all_bytes_def table_eval cong: table_congs)

lemma ibm1026_undoes:
  "undoes ibm1026_to_iso_8859_9 iso_8859_9_to_ibm1026"
  "undoes iso_8859_9_to_ibm1026 ibm1026_to_iso_8859_9"
  by (simp_all add: undoes_def iso_8859_9_to_ibm1026_def
      ibm1026_to_iso_8859_9_def all_bytes_def table_eval cong: table_congs)

lemma ibm290_undoes:
  "undoes ibm290_to_jis_x0201 jis_x0201_to_ibm290"
  "undoes jis_x0201_to_ibm290 ibm290_to_jis_x0201"
  by (simp_all add: undoes_def jis_x0201_to_ibm290_def
      ibm290_to_jis_x0201_def all_bytes_def table_eval cong: table_congs)

lemma transmaps2_fixed:
  "table_at ibm871_to_iso_8859_1 0 = Some 0" "table_at ibm871_to_iso_8859_1 28 = Some 28"
  "table_at ibm870_to_iso_8859_2 0 = Some 0" "table_at ibm870_to_iso_8859_2 28 = Some 28"
  "table_at ibm905_to_iso_8859_3 0 = Some 0" "table_at ibm905_to_iso_8859_3 28 = Some 28"
  "table_at ibm880_to_iso_8859_5 0 = Some 0" "table_at ibm880_to_iso_8859_5 28 = Some 28"
  "table_at ibm420_to_iso_8859_6 0 = Some 0" "table_at ibm420_to_iso_8859_6 28 = Some 28"
  "table_at ibm875_to_iso_8859_7 0 = Some 0" "table_at ibm875_to_iso_8859_7 28 = Some 28"
  "table_at ibm424_to_iso_8859_8 0 = Some 0" "table_at ibm424_to_iso_8859_8 28 = Some 28"
  "table_at ibm1026_to_iso_8859_9 0 = Some 0" "table_at ibm1026_to_iso_8859_9 28 = Some 28"
  "table_at ibm290_to_jis_x0201 0 = Some 0" "table_at ibm290_to_jis_x0201 28 = Some 28"
  unfolding transmaps2_defs by (simp_all add: table_eval cong: table_congs)

end
