(* ===== verification/Tn_Charmap.thy ===== *)
theory Tn_Charmap
  imports Tn_Transmaps1 Tn_Transmaps2
begin

text \<open>
  Code-page translation of libtnX (\<^verbatim>\<open>tnX_char_map_new\<close>, \<^verbatim>\<open>tnX_char_map_to_remote\<close>,
  \<^verbatim>\<open>tnX_char_map_to_local\<close> of \<^verbatim>\<open>libtnX/libtnX.c\<close>, the map index of
  \<^verbatim>\<open>libtnX/transmaps.h\<close>). What a client may assume of a code page is the locale
  \<open>code_page\<close>; each of the nineteen maps of the index provides it.
\<close>

record tnXchar_map =
  cm_name :: string
  to_remote_map :: charmap_table
  to_local_map :: charmap_table

definition tnX_transmaps :: "tnXchar_map list" where
  "tnX_transmaps =
  [\<lparr>cm_name = ''37'', to_remote_map = iso_8859_1_to_ibm037,
      to_local_map = ibm037_to_iso_8859_1\<rparr>,
   \<lparr>cm_name = ''256'', to_remote_map = iso_8859_1_to_ibm256,
      to_local_map = ibm256_to_iso_8859_1\<rparr>,
   \<lparr>cm_name = ''273'', to_remote_map = iso_8859_1_to_ibm273,
      to_local_map = ibm273_to_iso_8859_1\<rparr>,
   \<lparr>cm_name = ''277'', to_remote_map = iso_8859_1_to_ibm277,
      to_local_map = ibm277_to_iso_8859_1\<rparr>,
   \<lparr>cm_name = ''278'', to_remote_map = iso_8859_1_to_ibm278,
      to_local_map = ibm278_to_iso_8859_1\<rparr>,
   \<lparr>cm_name = ''280'', to_remote_map = iso_8859_1_to_ibm280,
      to_local_map = ibm280_to_iso_8859_1\<rparr>,
   \<lparr>cm_name = ''284'', to_remote_map = iso_8859_1_to_ibm284,
      to_local_map = ibm284_to_iso_8859_1\<rparr>,
   \<lparr>cm_name = ''285'', to_remote_map = iso_8859_1_to_ibm285,
      to_local_map = ibm285_to_iso_8859_1\<rparr>,
   \<lparr>cm_name = ''297'', to_remote_map = iso_8859_1_to_ibm297,
      to_local_map = ibm297_to_iso_8859_1\<rparr>,
   \<lparr>cm_name = ''500'', to_remote_map = iso_8859_1_to_ibm500,
      to_local_map = ibm500_to_iso_8859_1\<rparr>,
   \<lparr>cm_name = ''871'', to_remote_map = iso_8859_1_to_ibm871,
      to_local_map = ibm871_to_iso_8859_1\<rparr>,
   \<lparr>cm_name = ''870'', to_remote_map = iso_8859_2_to_ibm870,
      to_local_map = ibm870_to_iso_8859_2\<rparr>,
   \<lparr>cm_name = ''905'', to_remote_map = iso_8859_3_to_ibm905,
      to_local_map = ibm905_to_iso_8859_3\<rparr>,
   \<lparr>cm_name = ''880'', to_remote_map = iso_8859_5_to_ibm880,
      to_local_map = ibm880_to_iso_8859_5\<rparr>,
   \<lparr>cm_name = ''420'', to_remote_map = iso_8859_6_to_ibm420,
      to_local_map = ibm420_to_iso_8859_6\<rparr>,
   \<lparr>cm_name = ''875'', to_remote_map = iso_8859_7_to_ibm875,
      to_local_map = ibm875_to_iso_8859_7\<rparr>,
   \<lparr>cm_name = ''424'', to_remote_map = iso_8859_8_to_ibm424,
      to_local_map = ibm424_to_iso_8859_8\<rparr>,
   \<lparr>cm_name = ''1026'', to_remote_map = iso_8859_9_to_ibm1026,
      to_local_map = ibm1026_to_iso_8859_9\<rparr>,
   \<lparr>cm_name = ''290'', to_remote_map = jis_x0201_to_ibm290,
      to_local_map = ibm290_to_jis_x0201\<rparr>]"

definition tnX_char_map_to_remote :: "tnXchar_map \<Rightarrow> byte \<Rightarrow> byte option" where
  "tnX_char_map_to_remote cmap ascii = table_at (to_remote_map cmap) ascii"

text \<open>\<^verbatim>\<open>0x1C\<close> (DUP) is shown as an asterisk and NUL as a blank.\<close>

definition tnX_char_map_to_local :: "tnXchar_map \<Rightarrow> byte \<Rightarrow> byte option" where
  "tnX_char_map_to_local cmap ebcdic =
     (if ebcdic = 0x1C then Some 0x2A
      else if ebcdic = 0 then Some 0x20
      else table_at (to_local_map cmap) ebcdic)"

text \<open>The scan of the index up to its terminator; \<^term>\<open>None\<close> is the NULL result.\<close>

fun char_map_scan :: "tnXchar_map list \<Rightarrow> string \<Rightarrow> tnXchar_map option" where
  "char_map_scan [] name = None"
| "char_map_scan (t # ts) name = (if cm_name t = name then Some t else char_map_scan ts name)"

definition tnX_char_map_new :: "string \<Rightarrow> tnXchar_map option" where
  "tnX_char_map_new name = char_map_scan tnX_transmaps name"

section \<open>The interface\<close>

locale code_page =
  fixes enc dec :: "byte \<Rightarrow> byte option"
  assumes dec_enc: "\<exists>e. enc c = Some e \<and> dec e = Some c"
    and enc_dec: "\<exists>c. dec e = Some c \<and> enc c = Some e"
begin

lemma enc_inj: "enc c = enc d \<Longrightarrow> c = d"
  using dec_enc [of c] dec_enc [of d] by auto

lemma dec_inj: "dec e = dec f \<Longrightarrow> e = f"
  using enc_dec [of e] enc_dec [of f] by auto

lemma enc_surj: "\<exists>c. enc c = Some e"
  using enc_dec [of e] by blast

definition enc_text :: "byte list \<Rightarrow> byte list option" where
  "enc_text s = those (map enc s)"

definition dec_text :: "byte list \<Rightarrow> byte list option" where
  "dec_text s = those (map dec s)"

lemma text_round_trip: "\<exists>e. enc_text s = Some e \<and> dec_text e = Some s \<and> length e = length s"
proof (induction s)
  case Nil
  then show ?case by (simp add: enc_text_def dec_text_def)
next
  case (Cons c s)
  from dec_enc [of c] Cons show ?case
    by (force simp: enc_text_def dec_text_def)
qed

end

section \<open>The maps of the index are code pages\<close>

definition charmap_ok :: "tnXchar_map \<Rightarrow> bool" where
  "charmap_ok m \<longleftrightarrow>
     table_shape (to_remote_map m) \<and> table_shape (to_local_map m)
     \<and> undoes (to_local_map m) (to_remote_map m) \<and> undoes (to_remote_map m) (to_local_map m)
     \<and> table_at (to_local_map m) 0 = Some 0 \<and> table_at (to_local_map m) 0x1C = Some 0x1C"

lemma charmap_ok_code_page:
  "charmap_ok m \<Longrightarrow> code_page (table_at (to_remote_map m)) (table_at (to_local_map m))"
  by unfold_locales (use undoes_at in \<open>auto simp: charmap_ok_def\<close>)

lemmas transmaps_undoes =
  ibm037_undoes ibm256_undoes ibm273_undoes ibm277_undoes ibm278_undoes
  ibm280_undoes ibm284_undoes ibm285_undoes ibm297_undoes ibm500_undoes
  ibm871_undoes ibm870_undoes ibm905_undoes ibm880_undoes ibm420_undoes
  ibm875_undoes ibm424_undoes ibm1026_undoes ibm290_undoes

lemma transmaps_ok: "m \<in> set tnX_transmaps \<Longrightarrow> charmap_ok m"
  by (auto simp: charmap_ok_def tnX_transmaps_def transmaps1_shape transmaps2_shape
      transmaps1_fixed transmaps2_fixed transmaps_undoes)

interpretation ibm037: code_page
  "table_at iso_8859_1_to_ibm037" "table_at ibm037_to_iso_8859_1"
  using charmap_ok_code_page [of "hd tnX_transmaps"] transmaps_ok [of "hd tnX_transmaps"]
  by (simp add: tnX_transmaps_def)

lemma char_map_scan_Some: "char_map_scan ts n = Some m \<Longrightarrow> m \<in> set ts \<and> cm_name m = n"
  by (induction ts) (auto split: if_splits)

lemma char_map_new_ok: "tnX_char_map_new n = Some m \<Longrightarrow> charmap_ok m"
  using char_map_scan_Some transmaps_ok by (auto simp: tnX_char_map_new_def)

section \<open>Translation through a map\<close>

text \<open>
  What the display shows of a byte that went out and came back: the byte itself, except that
  NUL shows as a blank and DUP (0x1C) as an asterisk.
\<close>

definition displayed :: "byte \<Rightarrow> byte" where
  "displayed c = (if c = 0 then 0x20 else if c = 0x1C then 0x2A else c)"

lemma char_map_there_and_back:
  assumes "tnX_char_map_new name = Some m"
  shows "\<exists>e. tnX_char_map_to_remote m c = Some e \<and> tnX_char_map_to_local m e = Some (displayed c)"
proof -
  note ok = char_map_new_ok [OF assms]
  from code_page.dec_enc [OF charmap_ok_code_page [OF ok], of c] obtain e
    where e: "table_at (to_remote_map m) c = Some e" "table_at (to_local_map m) e = Some c" by blast
  moreover have "e = 0 \<longleftrightarrow> c = 0" "e = 0x1C \<longleftrightarrow> c = 0x1C"
    using ok e code_page.dec_inj [OF charmap_ok_code_page [OF ok]]
    unfolding charmap_ok_def by (metis option.inject)+
  ultimately show ?thesis
    by (simp add: tnX_char_map_to_remote_def tnX_char_map_to_local_def displayed_def)
qed

text \<open>
  C39. For every code page the gateway knows, translating a local character to the host's code
  and back succeeds and gives the character again, with the two documented substitutions.
\<close>

theorem char_map_round_trip:
  assumes "tnX_char_map_new name = Some m"
  shows "\<exists>e. tnX_char_map_to_remote m c = Some e \<and> tnX_char_map_to_local m e = Some (displayed c)"
  by (rule char_map_there_and_back [OF assms])

theorem char_map_round_trip_witness:
  "\<exists>m. tnX_char_map_new ''37'' = Some m \<and>
     (\<exists>e. tnX_char_map_to_remote m 0x41 = Some e \<and> tnX_char_map_to_local m e = Some 0x41)"
proof -
  have "tnX_char_map_new ''37'' = Some (hd tnX_transmaps)"
    by (simp add: tnX_char_map_new_def tnX_transmaps_def)
  from char_map_round_trip [OF this, of "0x41"] this show ?thesis
    by (simp add: displayed_def)
qed

text \<open>
  For every code page, each host code other than NUL and DUP is the image of exactly the
  local character it is translated to, so no two characters are confused on the host side.
\<close>

theorem char_map_remote_bijective:
  assumes "tnX_char_map_new name = Some m"
  shows "bij (\<lambda>c. the (tnX_char_map_to_remote m c))
    \<and> (\<forall>e c. e \<noteq> 0 \<longrightarrow> e \<noteq> 0x1C \<longrightarrow>
         (tnX_char_map_to_local m e = Some c \<longleftrightarrow> tnX_char_map_to_remote m c = Some e))"
proof -
  note cp = charmap_ok_code_page [OF char_map_new_ok [OF assms]]
  have "inj (\<lambda>c. the (table_at (to_remote_map m) c))"
  proof (rule injI)
    fix c d
    assume "the (table_at (to_remote_map m) c) = the (table_at (to_remote_map m) d)"
    then show "c = d"
      using code_page.dec_enc [OF cp, of c] code_page.dec_enc [OF cp, of d]
      by (auto simp: code_page.enc_inj [OF cp])
  qed
  moreover have "surj (\<lambda>c. the (table_at (to_remote_map m) c))"
    unfolding surj_def using code_page.enc_surj [OF cp] by (metis option.sel)
  moreover have "table_at (to_local_map m) e = Some c \<longleftrightarrow> table_at (to_remote_map m) c = Some e"
    for c e
    using code_page.dec_enc [OF cp, of c] code_page.enc_dec [OF cp, of e] by auto
  ultimately show ?thesis
    by (auto simp: bij_def tnX_char_map_to_remote_def tnX_char_map_to_local_def)
qed

theorem char_map_remote_bijective_witness:
  "tnX_char_map_new ''500'' = Some (tnX_transmaps ! 9)
   \<and> bij (\<lambda>c. the (tnX_char_map_to_remote (tnX_transmaps ! 9) c))"
proof -
  have "tnX_char_map_new ''500'' = Some (tnX_transmaps ! 9)"
    by (simp add: tnX_char_map_new_def tnX_transmaps_def)
  from char_map_remote_bijective [OF this] this show ?thesis by blast
qed

end
