(* ===== verification/Tn_Buffer.thy ===== *)
theory Tn_Buffer
  imports Sna_Prelude
begin

text \<open>
  The growable byte buffer of libtnX (\<^verbatim>\<open>libtnX/tnX_buffer.c\<close>, \<^verbatim>\<open>tnXbuff\<close> of
  \<^verbatim>\<open>libtnX/libtnX.h\<close>): every packet, record and sub-negotiation of the gateway is built
  in one. The interface the rest of libtnX relies on is the locale \<open>byte_buffer\<close>; the
  buffer is shown to provide it.
\<close>

section \<open>The buffer\<close>

text \<open>
  \<open>tb_data\<close> is the block \<^verbatim>\<open>data\<close> points to (\<^term>\<open>None\<close> for the NULL pointer); a cell is
  \<^term>\<open>None\<close> until it is written, as \<^verbatim>\<open>g_malloc\<close> leaves the contents indeterminate.
  Lengths are mathematical naturals; the C \<^verbatim>\<open>int\<close> fields agree with them below two
  gigabytes, where \<^verbatim>\<open>g_malloc\<close> ends the program.
\<close>

record tnXbuff =
  tb_data :: "byte option list option"
  tb_len :: nat
  tb_allocated :: nat

definition BUFFER_DELTA :: nat where
  "BUFFER_DELTA = 128"

definition tnX_buffer_init :: tnXbuff where
  "tnX_buffer_init = \<lparr>tb_data = None, tb_len = 0, tb_allocated = 0\<rparr>"

definition tnX_buffer_free :: "tnXbuff \<Rightarrow> tnXbuff" where
  "tnX_buffer_free buff = buff\<lparr>tb_data := None, tb_len := 0, tb_allocated := 0\<rparr>"

text \<open>The reallocation of \<^verbatim>\<open>tnX_buffer_append_byte\<close>; \<^verbatim>\<open>g_realloc\<close> keeps the old cells.\<close>

definition g_realloc :: "byte option list \<Rightarrow> nat \<Rightarrow> byte option list" where
  "g_realloc m n = take n m @ replicate (n - length m) None"

definition tnX_buffer_grow :: "tnXbuff \<Rightarrow> tnXbuff" where
  "tnX_buffer_grow buff =
     (if tb_len buff + 1 \<ge> tb_allocated buff then
        (case tb_data buff of
           None \<Rightarrow> buff\<lparr>tb_allocated := BUFFER_DELTA,
                          tb_data := Some (replicate BUFFER_DELTA None)\<rparr>
         | Some m \<Rightarrow> buff\<lparr>tb_allocated := tb_allocated buff + BUFFER_DELTA,
                           tb_data := Some (g_realloc m (tb_allocated buff + BUFFER_DELTA))\<rparr>)
      else buff)"

text \<open>The assertion \<^verbatim>\<open>data != NULL\<close> and the store \<^verbatim>\<open>data[len++] = b\<close> fault when they fail.\<close>

definition tnX_buffer_append_byte :: "tnXbuff \<Rightarrow> byte \<Rightarrow> tnXbuff option" where
  "tnX_buffer_append_byte buff b = do {
     let buff = tnX_buffer_grow buff;
     m \<leftarrow> tb_data buff;
     m \<leftarrow> poke m (tb_len buff) (Some b);
     Some (buff\<lparr>tb_data := Some m, tb_len := tb_len buff + 1\<rparr>)
   }"

text \<open>
  \<^verbatim>\<open>while (len--) append_byte(buff, *data++)\<close>: reading past the end of \<open>data\<close> faults, which is
  also what a negative \<open>len\<close> ends in.
\<close>

fun tnX_buffer_append_data :: "tnXbuff \<Rightarrow> byte list \<Rightarrow> int \<Rightarrow> tnXbuff option" where
  "tnX_buffer_append_data buff data len =
     (if len = 0 then Some buff
      else (case data of
              [] \<Rightarrow> None
            | b # bs \<Rightarrow> do {
                buff \<leftarrow> tnX_buffer_append_byte buff b;
                tnX_buffer_append_data buff bs (len - 1)
              }))"

text \<open>\<^verbatim>\<open>tnX_buffer_length\<close>, and the bytes \<^verbatim>\<open>tnX_buffer_data\<close> points to.\<close>

definition tnX_buffer_length :: "tnXbuff \<Rightarrow> nat" where
  "tnX_buffer_length buff = tb_len buff"

definition tnX_buffer_data :: "tnXbuff \<Rightarrow> byte option list" where
  "tnX_buffer_data buff = (case tb_data buff of None \<Rightarrow> [Some 0] | Some m \<Rightarrow> m)"

section \<open>The interface\<close>

text \<open>
  A growable byte sequence: an empty buffer, an append that cannot fault under the invariant,
  and the bytes it holds.
\<close>

locale byte_buffer =
  fixes emp :: 'b
    and app :: "'b \<Rightarrow> byte \<Rightarrow> 'b option"
    and bytes :: "'b \<Rightarrow> byte list"
    and inv :: "'b \<Rightarrow> bool"
  assumes inv_emp: "inv emp"
    and bytes_emp: "bytes emp = []"
    and app_total: "inv b \<Longrightarrow> \<exists>b'. app b x = Some b'"
    and app_inv: "inv b \<Longrightarrow> app b x = Some b' \<Longrightarrow> inv b'"
    and app_bytes: "inv b \<Longrightarrow> app b x = Some b' \<Longrightarrow> bytes b' = bytes b @ [x]"
begin

primrec app_all :: "'b \<Rightarrow> byte list \<Rightarrow> 'b option" where
  "app_all b [] = Some b"
| "app_all b (x # xs) = Option.bind (app b x) (\<lambda>b'. app_all b' xs)"

lemma app_ok: "inv b \<Longrightarrow> \<exists>b'. app b x = Some b' \<and> inv b' \<and> bytes b' = bytes b @ [x]"
  using app_total app_inv app_bytes by blast

lemma app_all_ok:
  "inv b \<Longrightarrow> \<exists>b'. app_all b xs = Some b' \<and> inv b' \<and> bytes b' = bytes b @ xs"
proof (induction xs arbitrary: b)
  case Nil
  then show ?case by simp
next
  case (Cons x xs)
  from app_ok [OF Cons.prems] obtain b1
    where b1: "app b x = Some b1" "inv b1" "bytes b1 = bytes b @ [x]" by blast
  from Cons.IH [OF b1(2)] b1 show ?case by auto
qed

lemma app_all_from_emp: "\<exists>b'. app_all emp xs = Some b' \<and> inv b' \<and> bytes b' = xs"
  using app_all_ok [OF inv_emp, of xs] by (simp add: bytes_emp)

lemma app_all_append:
  "app_all b (xs @ ys) = Option.bind (app_all b xs) (\<lambda>b'. app_all b' ys)"
  by (induction xs arbitrary: b) (auto split: bind_splits)

end

section \<open>Invariant and memory safety\<close>

text \<open>
  The block has exactly the allocated size, the first \<open>len\<close> cells are written, and there is
  always a spare cell behind them (the code grows one cell early).
\<close>

definition buff_inv :: "tnXbuff \<Rightarrow> bool" where
  "buff_inv buff \<longleftrightarrow>
     (case tb_data buff of
        None \<Rightarrow> tb_len buff = 0 \<and> tb_allocated buff = 0
      | Some m \<Rightarrow> length m = tb_allocated buff \<and> tb_len buff < tb_allocated buff \<and>
                  None \<notin> set (take (tb_len buff) m))"

definition buff_bytes :: "tnXbuff \<Rightarrow> byte list" where
  "buff_bytes buff =
     (case tb_data buff of None \<Rightarrow> [] | Some m \<Rightarrow> map the (take (tb_len buff) m))"

lemma buff_inv_init [simp, intro]: "buff_inv tnX_buffer_init"
  by (simp add: buff_inv_def tnX_buffer_init_def)

lemma buff_bytes_init [simp]: "buff_bytes tnX_buffer_init = []"
  by (simp add: buff_bytes_def tnX_buffer_init_def)

lemma tnX_buffer_free_eq: "tnX_buffer_free buff = tnX_buffer_init"
  by (cases buff) (simp add: tnX_buffer_free_def tnX_buffer_init_def)

lemma length_buff_bytes: "buff_inv buff \<Longrightarrow> length (buff_bytes buff) = tnX_buffer_length buff"
  by (auto simp: buff_inv_def buff_bytes_def tnX_buffer_length_def split: option.splits)

lemma tnX_buffer_grow_room:
  assumes "buff_inv buff"
  shows "\<exists>m. tb_data (tnX_buffer_grow buff) = Some m
           \<and> tb_len (tnX_buffer_grow buff) = tb_len buff
           \<and> length m = tb_allocated (tnX_buffer_grow buff)
           \<and> tb_len buff + 1 < length m
           \<and> map the (take (tb_len buff) m) = buff_bytes buff
           \<and> None \<notin> set (take (tb_len buff) m)"
  using assms
  by (auto simp: buff_inv_def buff_bytes_def tnX_buffer_grow_def g_realloc_def BUFFER_DELTA_def
      split: option.splits)

lemma tnX_buffer_append_byte_ok:
  assumes "buff_inv buff"
  shows "\<exists>buff'. tnX_buffer_append_byte buff b = Some buff' \<and> buff_inv buff'
           \<and> buff_bytes buff' = buff_bytes buff @ [b]"
proof -
  from tnX_buffer_grow_room [OF assms] obtain m
    where m: "tb_data (tnX_buffer_grow buff) = Some m"
      "tb_len (tnX_buffer_grow buff) = tb_len buff"
      "length m = tb_allocated (tnX_buffer_grow buff)"
      "tb_len buff + 1 < length m"
      "map the (take (tb_len buff) m) = buff_bytes buff"
      "None \<notin> set (take (tb_len buff) m)" by blast
  from m(1,2,4) have "tnX_buffer_append_byte buff b =
      Some ((tnX_buffer_grow buff)\<lparr>tb_data := Some (m[tb_len buff := Some b]),
                                   tb_len := tb_len buff + 1\<rparr>)"
    by (simp add: tnX_buffer_append_byte_def mem_simps)
  moreover have "take (Suc (tb_len buff)) (m[tb_len buff := Some b]) =
      take (tb_len buff) m @ [Some b]"
    using m(4) by (simp add: list_update_take_snoc)
  ultimately show ?thesis
    using m by (auto simp: buff_inv_def buff_bytes_def)
qed

interpretation tnXbuff: byte_buffer tnX_buffer_init tnX_buffer_append_byte buff_bytes buff_inv
proof (unfold_locales, goal_cases)
  case (3 b x)
  then show ?case using tnX_buffer_append_byte_ok by blast
next
  case (4 b x b')
  then show ?case using tnX_buffer_append_byte_ok [of b x] by auto
next
  case (5 b x b')
  then show ?case using tnX_buffer_append_byte_ok [of b x] by auto
qed simp_all

lemma tnX_buffer_append_data_eq:
  "0 \<le> len \<Longrightarrow> nat len \<le> length data \<Longrightarrow>
   tnX_buffer_append_data buff data len = tnXbuff.app_all buff (take (nat len) data)"
proof (induction data arbitrary: buff len)
  case Nil
  then show ?case by simp
next
  case (Cons b data)
  show ?case
  proof (cases "len = 0")
    case True
    then show ?thesis by simp
  next
    case False
    with Cons.prems have "nat len = Suc (nat (len - 1))" "0 \<le> len - 1"
      "nat (len - 1) \<le> length data" by auto
    with False Cons.IH [of "len - 1"] show ?thesis
      by (auto split: bind_splits)
  qed
qed

text \<open>
  Appending a block of data to a well-formed buffer touches no memory outside the buffer,
  however often the buffer has to grow, keeps what it held and adds exactly the given bytes.
\<close>

theorem buffer_append_data_safe:
  assumes "buff_inv buff" and "0 \<le> len" and "nat len \<le> length data"
  shows "\<exists>buff'. tnX_buffer_append_data buff data len = Some buff' \<and> buff_inv buff'
    \<and> buff_bytes buff' = buff_bytes buff @ take (nat len) data
    \<and> tnX_buffer_length buff' = tnX_buffer_length buff + nat len"
proof -
  from tnXbuff.app_all_ok [OF assms(1), of "take (nat len) data"] obtain buff'
    where b: "tnXbuff.app_all buff (take (nat len) data) = Some buff'" "buff_inv buff'"
      "buff_bytes buff' = buff_bytes buff @ take (nat len) data" by blast
  then have "tnX_buffer_length buff' = tnX_buffer_length buff + nat len"
    using length_buff_bytes [OF assms(1)] length_buff_bytes [OF b(2)] assms(3) by simp
  with b tnX_buffer_append_data_eq [OF assms(2,3)] show ?thesis by auto
qed

theorem buffer_append_data_safe_witness:
  "\<exists>buff'. tnX_buffer_append_data tnX_buffer_init (replicate 1000 7) 1000 = Some buff' \<and> buff_inv buff'
    \<and> tnX_buffer_length buff' = 1000"
  using buffer_append_data_safe [OF buff_inv_init, of 1000 "replicate 1000 7"]
  by (auto simp: tnX_buffer_length_def tnX_buffer_init_def)

end
