(* ===== verification/Tn_Record.thy ===== *)
theory Tn_Record
  imports Tn_Buffer
begin

text \<open>
  Records and the circular doubly linked list they wait in (\<^verbatim>\<open>libtnX/tnX_record.c\<close>,
  \<^verbatim>\<open>tnXrec\<close> of \<^verbatim>\<open>libtnX/libtnX.h\<close>). The records live in an explicit heap, because every
  list operation rewires the neighbours of the record it is given; a null or dangling pointer
  that is followed is a fault. The list is shown to implement a queue: the locale
  \<open>record_queue\<close> is what the stream relies on.
\<close>

section \<open>The heap of records\<close>

type_synonym addr = nat
type_synonym ptr = "addr option"

record tnXrec =
  r_prev :: ptr
  r_next :: ptr
  r_data :: tnXbuff
  r_cur_pos :: int

type_synonym rec_heap = "addr \<rightharpoonup> tnXrec"

definition load :: "rec_heap \<Rightarrow> ptr \<Rightarrow> tnXrec option" where
  "load h p = Option.bind p h"

definition store :: "rec_heap \<Rightarrow> ptr \<Rightarrow> (tnXrec \<Rightarrow> tnXrec) \<Rightarrow> rec_heap option" where
  "store h p f = do { a \<leftarrow> p; r \<leftarrow> h a; Some (h(a \<mapsto> f r)) }"

text \<open>
  \<^verbatim>\<open>tnX_record_new\<close>; the caller supplies the address the allocator chose, which must be free.
\<close>

definition tnX_record_new :: "rec_heap \<Rightarrow> addr \<Rightarrow> (ptr \<times> rec_heap) option" where
  "tnX_record_new h a =
     (if h a \<noteq> None then None
      else Some (Some a, h(a \<mapsto> \<lparr>r_prev = None, r_next = None, r_data = tnX_buffer_init,
                                r_cur_pos = 0\<rparr>)))"

definition tnX_record_destroy :: "rec_heap \<Rightarrow> ptr \<Rightarrow> rec_heap option" where
  "tnX_record_destroy h this =
     (case this of
        None \<Rightarrow> Some h
      | Some a \<Rightarrow> do { r \<leftarrow> h a; Some (h(a := None)) })"

definition tnX_record_append_byte :: "rec_heap \<Rightarrow> ptr \<Rightarrow> byte \<Rightarrow> rec_heap option" where
  "tnX_record_append_byte h this c = do {
     r \<leftarrow> load h this;
     d \<leftarrow> tnX_buffer_append_byte (r_data r) c;
     store h this (\<lambda>r. r\<lparr>r_data := d\<rparr>)
   }"

text \<open>The failed assertion and a read of a cell never written are faults.\<close>

definition tnX_record_get_byte :: "rec_heap \<Rightarrow> ptr \<Rightarrow> (byte \<times> rec_heap) option" where
  "tnX_record_get_byte h this = do {
     h \<leftarrow> store h this (\<lambda>r. r\<lparr>r_cur_pos := r_cur_pos r + 1\<rparr>);
     r \<leftarrow> load h this;
     if r_cur_pos r \<le> int (tnX_buffer_length (r_data r)) \<and> 0 < r_cur_pos r then do {
       cell \<leftarrow> peek (tnX_buffer_data (r_data r)) (nat (r_cur_pos r - 1));
       b \<leftarrow> cell;
       Some (b, h)
     } else None
   }"

section \<open>List operations\<close>

definition tnX_record_list_add :: "rec_heap \<Rightarrow> ptr \<Rightarrow> ptr \<Rightarrow> (ptr \<times> rec_heap) option" where
  "tnX_record_list_add h list record =
     (if list = None then do {
        h \<leftarrow> store h record (\<lambda>r. r\<lparr>r_prev := record\<rparr>);
        h \<leftarrow> store h record (\<lambda>r. r\<lparr>r_next := record\<rparr>);
        Some (record, h)
      } else do {
        h \<leftarrow> store h record (\<lambda>r. r\<lparr>r_next := list\<rparr>);
        l \<leftarrow> load h list;
        h \<leftarrow> store h record (\<lambda>r. r\<lparr>r_prev := r_prev l\<rparr>);
        r \<leftarrow> load h record;
        h \<leftarrow> store h (r_prev r) (\<lambda>p. p\<lparr>r_next := record\<rparr>);
        r \<leftarrow> load h record;
        h \<leftarrow> store h (r_next r) (\<lambda>n. n\<lparr>r_prev := record\<rparr>);
        Some (list, h)
      })"

definition tnX_record_list_remove :: "rec_heap \<Rightarrow> ptr \<Rightarrow> ptr \<Rightarrow> (ptr \<times> rec_heap) option" where
  "tnX_record_list_remove h list record =
     (if list = None then Some (None, h)
      else do {
        l \<leftarrow> load h list;
        if r_next l = list then do {
          h \<leftarrow> store h record (\<lambda>r. r\<lparr>r_next := None\<rparr>);
          h \<leftarrow> store h record (\<lambda>r. r\<lparr>r_prev := None\<rparr>);
          Some (None, h)
        } else do {
          let list = (if list = record then r_next l else list);
          r \<leftarrow> load h record;
          h \<leftarrow> store h (r_next r) (\<lambda>n. n\<lparr>r_prev := r_prev r\<rparr>);
          r \<leftarrow> load h record;
          h \<leftarrow> store h (r_prev r) (\<lambda>p. p\<lparr>r_next := r_next r\<rparr>);
          h \<leftarrow> store h record (\<lambda>r. r\<lparr>r_prev := None\<rparr>);
          h \<leftarrow> store h record (\<lambda>r. r\<lparr>r_next := None\<rparr>);
          Some (list, h)
        }
      })"

text \<open>The \<^verbatim>\<open>do ... while\<close> of \<^verbatim>\<open>tnX_record_list_destroy\<close>; \<^term>\<open>None\<close> also when it never ends.\<close>

partial_function (option) list_destroy_loop ::
  "rec_heap \<Rightarrow> ptr \<Rightarrow> ptr \<Rightarrow> rec_heap option" where
  "list_destroy_loop h iter list = do {
     r \<leftarrow> load h iter;
     h \<leftarrow> tnX_record_destroy h iter;
     if r_next r \<noteq> list then list_destroy_loop h (r_next r) list else Some h
   }"

definition tnX_record_list_destroy :: "rec_heap \<Rightarrow> ptr \<Rightarrow> (ptr \<times> rec_heap) option" where
  "tnX_record_list_destroy h list =
     (if list = None then Some (None, h)
      else do { h \<leftarrow> list_destroy_loop h list list; Some (None, h) })"

section \<open>Rings\<close>

text \<open>
  \<open>path\<close>: each address of the list is linked to the one after it, in both directions. A ring
  is a path that returns to its start; the pointer the program keeps is the first address.
\<close>

definition nxt :: "rec_heap \<Rightarrow> addr \<Rightarrow> ptr" where
  "nxt h a = Option.bind (h a) r_next"

definition prv :: "rec_heap \<Rightarrow> addr \<Rightarrow> ptr" where
  "prv h a = Option.bind (h a) r_prev"

fun path :: "rec_heap \<Rightarrow> addr list \<Rightarrow> bool" where
  "path h (a # b # xs) = (nxt h a = Some b \<and> prv h b = Some a \<and> path h (b # xs))"
| "path h _ = True"

definition ring :: "rec_heap \<Rightarrow> addr list \<Rightarrow> bool" where
  "ring h xs \<longleftrightarrow> distinct xs \<and> set xs \<subseteq> dom h \<and> (xs = [] \<or> path h (xs @ [hd xs]))"

definition ring_ptr :: "addr list \<Rightarrow> ptr" where
  "ring_ptr xs = (case xs of [] \<Rightarrow> None | x # _ \<Rightarrow> Some x)"

lemma path_append: "path h (xs @ y # zs) \<longleftrightarrow> path h (xs @ [y]) \<and> path h (y # zs)"
  by (induction h xs rule: path.induct) (cases zs; auto)+

lemma path_cong:
  "(\<And>a. a \<in> set (butlast xs) \<Longrightarrow> nxt h' a = nxt h a) \<Longrightarrow>
   (\<And>a. a \<in> set (tl xs) \<Longrightarrow> prv h' a = prv h a) \<Longrightarrow> path h' xs = path h xs"
  by (induction h xs rule: path.induct) auto

lemma path_snoc:
  "xs \<noteq> [] \<Longrightarrow> path h (xs @ [y]) \<longleftrightarrow> path h xs \<and> nxt h (last xs) = Some y \<and> prv h y = Some (last xs)"
  using path_append [of h _ "last xs" "[y]"] by (cases xs rule: rev_cases) auto

lemma path_split: "ys \<noteq> [] \<Longrightarrow> path h (xs @ ys) \<longleftrightarrow> path h (xs @ [hd ys]) \<and> path h ys"
  using path_append [of h xs "hd ys" "tl ys"] by simp

lemma ring_rotate: "ring h (xs @ ys) = ring h (ys @ xs)"
proof (cases "xs = [] \<or> ys = []")
  case False
  then have "path h (xs @ ys @ [hd xs]) = path h (ys @ xs @ [hd ys])"
    using path_split [of "ys @ [hd xs]" h xs] path_split [of "xs @ [hd ys]" h ys] by auto
  with False show ?thesis by (auto simp: ring_def)
qed auto

lemma ring_linear:
  "xs \<noteq> [] \<Longrightarrow> ring h xs \<longleftrightarrow>
     distinct xs \<and> set xs \<subseteq> dom h \<and> path h xs \<and> nxt h (last xs) = Some (hd xs) \<and> prv h (hd xs) = Some (last xs)"
  by (auto simp: ring_def path_snoc)

section \<open>Stores\<close>

text \<open>A store to an allocated record, as an update of the heap that never faults.\<close>

definition upd :: "rec_heap \<Rightarrow> addr \<Rightarrow> (tnXrec \<Rightarrow> tnXrec) \<Rightarrow> rec_heap" where
  "upd h a f = h(a := map_option f (h a))"

named_theorems heap_simps \<open>loads, stores and links after stores\<close>

lemma store_upd [heap_simps]: "a \<in> dom h \<Longrightarrow> store h (Some a) f = Some (upd h a f)"
  by (auto simp: store_def upd_def)

lemma load_dom [heap_simps]: "a \<in> dom h \<Longrightarrow> load h (Some a) = Some (the (h a))"
  by (auto simp: load_def)

lemma dom_upd [heap_simps]: "dom (upd h a f) = dom h"
  by (auto simp: upd_def dom_def split: if_splits)

lemma upd_other: "b \<noteq> a \<Longrightarrow> upd h a f b = h b"
  by (simp add: upd_def)

lemma next_the [heap_simps]: "a \<in> dom h \<Longrightarrow> r_next (the (h a)) = nxt h a"
  by (auto simp: nxt_def)

lemma prev_the [heap_simps]: "a \<in> dom h \<Longrightarrow> r_prev (the (h a)) = prv h a"
  by (auto simp: prv_def)

lemma nxt_upd [heap_simps]:
  "nxt (upd h a (\<lambda>r. r\<lparr>r_next := p\<rparr>)) b = (if b = a \<and> a \<in> dom h then p else nxt h b)"
  "nxt (upd h a (\<lambda>r. r\<lparr>r_prev := p\<rparr>)) b = nxt h b"
  by (cases "h a"; simp add: nxt_def upd_def dom_def)+

lemma prv_upd [heap_simps]:
  "prv (upd h a (\<lambda>r. r\<lparr>r_prev := p\<rparr>)) b = (if b = a \<and> a \<in> dom h then p else prv h b)"
  "prv (upd h a (\<lambda>r. r\<lparr>r_next := p\<rparr>)) b = prv h b"
  by (cases "h a"; simp add: prv_def upd_def dom_def)+

text \<open>What the list operations leave alone: the payload of every record.\<close>

definition payload :: "rec_heap \<Rightarrow> addr \<Rightarrow> (tnXbuff \<times> int) option" where
  "payload h a = map_option (\<lambda>r. (r_data r, r_cur_pos r)) (h a)"

lemma payload_upd [heap_simps]:
  "payload (upd h a (\<lambda>r. r\<lparr>r_next := p\<rparr>)) = payload h"
  "payload (upd h a (\<lambda>r. r\<lparr>r_prev := p\<rparr>)) = payload h"
  by (auto simp: payload_def upd_def fun_eq_iff option.map_comp comp_def)

section \<open>The list is a queue\<close>

lemma ring_mem: "ring h xs \<Longrightarrow> a \<in> set xs \<Longrightarrow> a \<in> dom h"
  by (auto simp: ring_def)

lemma ring_next: "ring h (x # y # ys) \<Longrightarrow> nxt h x = Some y \<and> x \<noteq> y"
  by (simp add: ring_def)

lemma list_add_ring:
  assumes "ring h xs" "r \<in> dom h" "r \<notin> set xs"
  shows "\<exists>h'. tnX_record_list_add h (ring_ptr xs) (Some r) = Some (ring_ptr (xs @ [r]), h')
    \<and> ring h' (xs @ [r]) \<and> payload h' = payload h \<and> dom h' = dom h
    \<and> (\<forall>a. a \<notin> set xs \<longrightarrow> a \<noteq> r \<longrightarrow> h' a = h a)"
proof (cases "xs = []")
  case True
  with assms(2) show ?thesis
    by (auto simp: tnX_record_list_add_def ring_ptr_def ring_def heap_simps upd_other)
next
  case False
  then obtain x ys where xs: "xs = x # ys" by (cases xs) auto
  let ?l = "last xs"
  have mem: "?l \<in> set xs" "x \<in> set xs" using xs by auto
  with assms have d: "?l \<in> dom h" "x \<in> dom h" "?l \<noteq> r" "x \<noteq> r" by (auto simp: ring_def)
  from assms(1) False xs have links: "distinct xs" "path h xs" "nxt h ?l = Some x" "prv h x = Some ?l"
    by (auto simp: ring_linear)
  let ?h = "upd (upd (upd (upd h r (\<lambda>r. r\<lparr>r_next := Some x\<rparr>)) r (\<lambda>r. r\<lparr>r_prev := Some ?l\<rparr>))
              ?l (\<lambda>p. p\<lparr>r_next := Some r\<rparr>)) x (\<lambda>n. n\<lparr>r_prev := Some r\<rparr>)"
  have run: "tnX_record_list_add h (Some x) (Some r) = Some (Some x, ?h)"
    using assms(2) d links by (simp add: tnX_record_list_add_def heap_simps)
  have "path ?h xs = path h xs"
    by (rule path_cong)
       (use assms d links xs last_notin_butlast [OF links(1)] in
         \<open>auto simp: heap_simps dest: in_set_butlastD\<close>)
  moreover have "set xs \<subseteq> dom h" "hd xs = x" using assms(1) xs by (auto simp: ring_def)
  ultimately have "ring ?h (xs @ [r])"
    using assms(2,3) d links False by (simp add: ring_linear path_snoc heap_simps)
  moreover have "payload ?h = payload h" "dom ?h = dom h" by (simp_all add: heap_simps)
  moreover have "\<forall>a. a \<notin> set xs \<longrightarrow> a \<noteq> r \<longrightarrow> ?h a = h a"
    using mem by (metis upd_other)
  ultimately show ?thesis using run by (auto simp: xs ring_ptr_def)
qed

text \<open>
  Removing a record wherever it stands. The ring is first turned so that the record comes first;
  what is left starts behind it.
\<close>

lemma unlink_ring:
  assumes "ring h (r # zs)" "zs \<noteq> []"
  defines "h' \<equiv> upd (upd (upd (upd h (hd zs) (\<lambda>n. n\<lparr>r_prev := Some (last zs)\<rparr>))
                 (last zs) (\<lambda>p. p\<lparr>r_next := Some (hd zs)\<rparr>))
                 r (\<lambda>r. r\<lparr>r_prev := None\<rparr>)) r (\<lambda>r. r\<lparr>r_next := None\<rparr>)"
  shows "ring h' zs" "payload h' = payload h" "dom h' = dom h"
    "nxt h r = Some (hd zs)" "prv h r = Some (last zs)"
    "\<And>a. a \<notin> set zs \<Longrightarrow> a \<noteq> r \<Longrightarrow> h' a = h a"
proof -
  from assms(1,2) have d: "r \<in> dom h" "hd zs \<in> dom h" "last zs \<in> dom h" "set zs \<subseteq> dom h"
      "r \<noteq> hd zs" "r \<noteq> last zs" "r \<notin> set zs" "distinct zs"
    using hd_in_set last_in_set ring_mem [OF assms(1)] by (auto simp: ring_def)
  have "path h (r # zs)" using assms(1,2) by (simp add: ring_linear)
  then have p: "path h zs" and n: "nxt h r = Some (hd zs)" using assms(2) by (cases zs; simp)+
  show "nxt h r = Some (hd zs)" by fact
  show "prv h r = Some (last zs)" using assms(1,2) by (simp add: ring_linear)
  have "path h' zs = path h zs"
    by (rule path_cong)
       (use d assms(2) last_notin_butlast [OF d(8)] hd_notin_tl [OF d(8)] in
         \<open>auto simp: h'_def heap_simps dest: in_set_butlastD list.set_sel(2)\<close>)
  then show "ring h' zs"
    using d p assms(2) by (simp add: ring_linear h'_def heap_simps)
  show "payload h' = payload h" "dom h' = dom h" by (simp_all add: h'_def heap_simps)
  show "h' a = h a" if "a \<notin> set zs" "a \<noteq> r" for a
    using that assms(2) by (metis h'_def hd_in_set last_in_set upd_other)
qed

lemma list_remove_ring:
  assumes "ring h (us @ r # vs)"
  shows "\<exists>h'. tnX_record_list_remove h (ring_ptr (us @ r # vs)) (Some r) = Some (ring_ptr (us @ vs), h')
    \<and> ring h' (us @ vs) \<and> payload h' = payload h \<and> dom h' = dom h
    \<and> nxt h' r = None \<and> prv h' r = None \<and> (\<forall>a. a \<notin> set (us @ r # vs) \<longrightarrow> h' a = h a)"
proof (cases "us @ vs = []")
  case True
  with assms show ?thesis
    by (auto simp: tnX_record_list_remove_def ring_ptr_def ring_def heap_simps upd_other)
next
  case False
  let ?zs = "vs @ us"
  have R: "ring h (r # ?zs)" using assms ring_rotate [of h us "r # vs"] by simp
  have ne: "?zs \<noteq> []" using False by auto
  note U = unlink_ring [OF R ne]
  let ?h = "upd (upd (upd (upd h (hd ?zs) (\<lambda>n. n\<lparr>r_prev := Some (last ?zs)\<rparr>))
                 (last ?zs) (\<lambda>p. p\<lparr>r_next := Some (hd ?zs)\<rparr>))
                 r (\<lambda>r. r\<lparr>r_prev := None\<rparr>)) r (\<lambda>r. r\<lparr>r_next := None\<rparr>)"
  let ?l = "hd (us @ [r])"
  have p: "ring_ptr (us @ r # vs) = Some ?l" by (cases us) (auto simp: ring_ptr_def)
  have mem: "hd ?zs \<in> set ?zs" "last ?zs \<in> set ?zs" "?l \<in> set (us @ r # vs)"
    using hd_in_set [OF ne] last_in_set [OF ne] by (auto simp: hd_append)
  then have d: "r \<in> dom h" "hd ?zs \<in> dom h" "last ?zs \<in> dom h" "?l \<in> dom h"
    using ring_mem [OF R] ring_mem [OF assms] by auto
  have ne2: "r \<noteq> hd ?zs" "r \<noteq> last ?zs" using R mem(1,2) by (auto simp: ring_def)
  have nl: "nxt h ?l \<noteq> Some ?l"
  proof (cases us)
    case Nil
    then show ?thesis using U(4) ne2 by simp
  next
    case (Cons u us')
    with assms ring_next [of h u "hd (us' @ r # vs)" "tl (us' @ r # vs)"] show ?thesis by simp
  qed
  have lst: "(if ?l = r then Some (hd ?zs) else Some ?l) = ring_ptr (us @ vs)"
  proof (cases us)
    case Nil
    with ne show ?thesis by (cases vs) (auto simp: ring_ptr_def)
  next
    case (Cons u us')
    with assms show ?thesis by (auto simp: ring_ptr_def ring_def)
  qed
  have "tnX_record_list_remove h (Some ?l) (Some r) = Some (ring_ptr (us @ vs), ?h)"
    using d nl ne2 U(4,5) lst [symmetric]
    by (simp add: tnX_record_list_remove_def heap_simps)
  moreover have "ring ?h (us @ vs)" using U(1) ring_rotate by blast
  moreover have "nxt ?h r = None" "prv ?h r = None"
    using d ne2 by (simp_all add: heap_simps)
  ultimately show ?thesis unfolding p
    using U(2,3,6) by (intro exI [of _ ?h]) auto
qed

section \<open>The queue interface\<close>

text \<open>
  What the stream needs of the list: records leave in the order they came. \<open>live\<close> are the
  elements that may be put in.
\<close>

locale fifo =
  fixes enq :: "'s \<Rightarrow> 'a \<Rightarrow> 's option"
    and deq :: "'s \<Rightarrow> ('a \<times> 's) option"
    and holds :: "'s \<Rightarrow> 'a list \<Rightarrow> bool"
    and live :: "'s \<Rightarrow> 'a set"
  assumes enq_ok: "holds s xs \<Longrightarrow> a \<in> live s \<Longrightarrow> a \<notin> set xs \<Longrightarrow>
      \<exists>s'. enq s a = Some s' \<and> holds s' (xs @ [a]) \<and> live s' = live s"
    and deq_ok: "holds s (x # xs) \<Longrightarrow> \<exists>s'. deq s = Some (x, s') \<and> holds s' xs \<and> live s' = live s"
begin

primrec enq_all :: "'s \<Rightarrow> 'a list \<Rightarrow> 's option" where
  "enq_all s [] = Some s"
| "enq_all s (a # as) = Option.bind (enq s a) (\<lambda>s'. enq_all s' as)"

primrec deq_many :: "nat \<Rightarrow> 's \<Rightarrow> ('a list \<times> 's) option" where
  "deq_many 0 s = Some ([], s)"
| "deq_many (Suc n) s = Option.bind (deq s) (\<lambda>(x, s').
     Option.bind (deq_many n s') (\<lambda>(xs, s''). Some (x # xs, s'')))"

lemma enq_all_ok:
  "holds s xs \<Longrightarrow> set as \<subseteq> live s \<Longrightarrow> distinct (xs @ as) \<Longrightarrow>
   \<exists>s'. enq_all s as = Some s' \<and> holds s' (xs @ as) \<and> live s' = live s"
proof (induction as arbitrary: s xs)
  case Nil
  then show ?case by simp
next
  case (Cons a as)
  from enq_ok [of s xs a] Cons.prems obtain s1
    where s1: "enq s a = Some s1" "holds s1 (xs @ [a])" "live s1 = live s" by auto
  from Cons.IH [OF s1(2)] s1 Cons.prems show ?case by auto
qed

lemma deq_many_ok:
  "holds s (xs @ ys) \<Longrightarrow> \<exists>s'. deq_many (length xs) s = Some (xs, s') \<and> holds s' ys \<and> live s' = live s"
proof (induction xs arbitrary: s)
  case Nil
  then show ?case by simp
next
  case (Cons x xs)
  from deq_ok [of s x "xs @ ys"] Cons.prems obtain s1
    where s1: "deq s = Some (x, s1)" "holds s1 (xs @ ys)" "live s1 = live s" by auto
  from Cons.IH [OF s1(2)] s1 show ?case by auto
qed

lemma fifo_order:
  assumes "holds s xs" "set as \<subseteq> live s" "distinct (xs @ as)"
  shows "\<exists>s' s''. enq_all s as = Some s' \<and> deq_many (length (xs @ as)) s' = Some (xs @ as, s'')
    \<and> holds s'' []"
proof -
  from enq_all_ok [OF assms] obtain s' where s': "enq_all s as = Some s'" "holds s' (xs @ as)" by auto
  from deq_many_ok [of s' "xs @ as" "[]"] s' show ?thesis by auto
qed

end

definition list_enq :: "rec_heap \<times> ptr \<Rightarrow> addr \<Rightarrow> (rec_heap \<times> ptr) option" where
  "list_enq s a = do {
     (l, h) \<leftarrow> tnX_record_list_add (fst s) (snd s) (Some a);
     Some (h, l)
   }"

text \<open>Taking the first record, the way \<^verbatim>\<open>tnX_stream_get_record\<close> calls \<^verbatim>\<open>tnX_record_list_remove\<close>.\<close>

definition list_deq :: "rec_heap \<times> ptr \<Rightarrow> (addr \<times> rec_heap \<times> ptr) option" where
  "list_deq s = do {
     a \<leftarrow> snd s;
     (l, h) \<leftarrow> tnX_record_list_remove (fst s) (snd s) (snd s);
     Some (a, h, l)
   }"

definition list_holds :: "rec_heap \<times> ptr \<Rightarrow> addr list \<Rightarrow> bool" where
  "list_holds s xs \<longleftrightarrow> ring (fst s) xs \<and> snd s = ring_ptr xs"

interpretation reclist: fifo list_enq list_deq list_holds "\<lambda>s. dom (fst s)"
proof (unfold_locales, goal_cases)
  case (1 s xs a)
  then show ?case
    using list_add_ring [of "fst s" xs a] by (force simp: list_holds_def list_enq_def)
next
  case (2 s x xs)
  then have "ring (fst s) ([] @ x # xs)" "snd s = Some x"
    by (simp_all add: list_holds_def ring_ptr_def)
  from list_remove_ring [OF this(1)] this(2) show ?case
    by (force simp: list_deq_def list_holds_def ring_ptr_def)
qed

section \<open>Freeing the list\<close>

lemma path_nxt: "path h (ys @ [x]) \<Longrightarrow> i < length ys \<Longrightarrow> nxt h (ys ! i) = Some ((ys @ [x]) ! Suc i)"
proof (induction ys arbitrary: i)
  case Nil
  then show ?case by simp
next
  case (Cons y ys)
  then show ?case by (cases ys; cases i) auto
qed

lemma list_destroy_loop_ok:
  "ys \<noteq> [] \<Longrightarrow> distinct ys \<Longrightarrow> x \<notin> set (tl ys) \<Longrightarrow> set ys \<subseteq> dom h \<Longrightarrow>
   (\<And>i. i < length ys \<Longrightarrow> nxt h (ys ! i) = Some ((ys @ [x]) ! Suc i)) \<Longrightarrow>
   list_destroy_loop h (Some (hd ys)) (Some x) = Some (h |` (- set ys))"
proof (induction ys arbitrary: h)
  case Nil
  then show ?case by simp
next
  case (Cons y ys)
  from Cons.prems(4) obtain r where r: "h y = Some r" by auto
  have nx: "r_next r = Some ((ys @ [x]) ! 0)" using Cons.prems(5) [of 0] r by (simp add: nxt_def)
  have del: "h(y := None) |` (- set ys) = h |` (- set (y # ys))"
    by (auto simp: restrict_map_def)
  show ?case
  proof (cases ys)
    case Nil
    with nx r show ?thesis
      by (subst list_destroy_loop.simps)
         (auto simp: load_def tnX_record_destroy_def restrict_map_def)
  next
    case (Cons z zs)
    have "list_destroy_loop (h(y := None)) (Some (hd ys)) (Some x) = Some (h(y := None) |` (- set ys))"
    proof (rule Cons.IH)
      show "nxt (h(y := None)) (ys ! i) = Some ((ys @ [x]) ! Suc i)" if "i < length ys" for i
        using Cons.prems(5) [of "Suc i"] Cons.prems(2) that by (auto simp: nxt_def)
    qed (use Cons.prems Cons in \<open>auto dest: list.set_sel(2)\<close>)
    moreover have "z \<noteq> x" using Cons.prems(3) Cons by auto
    ultimately show ?thesis
      using nx r Cons del
      by (subst list_destroy_loop.simps) (simp add: load_def tnX_record_destroy_def)
  qed
qed

section \<open>Properties\<close>

text \<open>Records added one after the other, and as many taken off the front.\<close>

fun add_records :: "rec_heap \<Rightarrow> ptr \<Rightarrow> addr list \<Rightarrow> (ptr \<times> rec_heap) option" where
  "add_records h l [] = Some (l, h)"
| "add_records h l (a # as) = do {
     (l, h) \<leftarrow> tnX_record_list_add h l (Some a);
     add_records h l as
   }"

fun take_records :: "nat \<Rightarrow> rec_heap \<Rightarrow> ptr \<Rightarrow> (addr list \<times> ptr \<times> rec_heap) option" where
  "take_records 0 h l = Some ([], l, h)"
| "take_records (Suc n) h l = do {
     a \<leftarrow> l;
     (l, h) \<leftarrow> tnX_record_list_remove h l l;
     (as, l, h) \<leftarrow> take_records n h l;
     Some (a # as, l, h)
   }"

lemma add_records_enq:
  "add_records h l as = map_option (\<lambda>(h, l). (l, h)) (reclist.enq_all (h, l) as)"
  by (induction as arbitrary: h l) (auto simp: list_enq_def split: bind_splits)

lemma take_records_deq:
  "take_records n h l = map_option (\<lambda>(as, h, l). (as, l, h)) (reclist.deq_many n (h, l))"
  by (induction n arbitrary: h l) (auto simp: list_deq_def split: bind_splits)

text \<open>
  C20. The circular list is a queue: records added one after the other to an empty list are
  taken out in the same order, no operation touches memory that is not a live record, and the
  list is empty again at the end.
\<close>

theorem record_list_fifo:
  assumes "distinct as" and "set as \<subseteq> dom h"
  shows "\<exists>l h1 h2. add_records h None as = Some (l, h1) \<and> take_records (length as) h1 l = Some (as, None, h2)"
proof -
  have "list_holds (h, None) []" by (simp add: list_holds_def ring_def ring_ptr_def)
  from reclist.fifo_order [OF this, of as] assms obtain s h' p
    where "reclist.enq_all (h, None) as = Some s"
      "reclist.deq_many (length as) s = Some (as, h', p)" "list_holds (h', p) []" by auto
  then show ?thesis
    by (cases s) (auto simp: list_holds_def ring_ptr_def add_records_enq take_records_deq split: bind_splits)
qed

definition blank_rec :: tnXrec where
  "blank_rec = \<lparr>r_prev = None, r_next = None, r_data = tnX_buffer_init, r_cur_pos = 0\<rparr>"

theorem record_list_fifo_witness:
  "\<exists>l h1 h2. add_records [1 \<mapsto> blank_rec, 2 \<mapsto> blank_rec, 3 \<mapsto> blank_rec] None [2, 1, 3] = Some (l, h1)
    \<and> take_records 3 h1 l = Some ([2, 1, 3], None, h2)"
  using record_list_fifo [of "[2, 1, 3]" "[1 \<mapsto> blank_rec, 2 \<mapsto> blank_rec, 3 \<mapsto> blank_rec]"]
  by (simp add: numeral_3_eq_3 del: add_records.simps take_records.simps)

text \<open>
  Removing a record from any place of the list keeps the other records linked, in order and
  with their contents, and leaves the removed record with null links.
\<close>

theorem record_list_remove_any:
  assumes "ring h (us @ r # vs)"
  shows "\<exists>h'. tnX_record_list_remove h (ring_ptr (us @ r # vs)) (Some r) = Some (ring_ptr (us @ vs), h')
    \<and> ring h' (us @ vs) \<and> payload h' = payload h \<and> nxt h' r = None \<and> prv h' r = None"
  using list_remove_ring [OF assms] by blast

definition ring3 :: rec_heap where
  "ring3 = [1 \<mapsto> blank_rec\<lparr>r_next := Some 2, r_prev := Some 3\<rparr>,
            2 \<mapsto> blank_rec\<lparr>r_next := Some 3, r_prev := Some 1\<rparr>,
            3 \<mapsto> blank_rec\<lparr>r_next := Some 1, r_prev := Some 2\<rparr>]"

theorem record_list_remove_any_witness:
  "ring ring3 [1, 2, 3] \<and>
   (\<exists>h'. tnX_record_list_remove ring3 (Some 1) (Some 2) = Some (Some 1, h') \<and> ring h' [1, 3])"
proof -
  have r: "ring ring3 ([1] @ 2 # [3])"
    by (auto simp: ring_def ring3_def nxt_def prv_def)
  from record_list_remove_any [OF r] r show ?thesis by (auto simp: ring_ptr_def)
qed

text \<open>
  Destroying the list terminates, frees each of its records exactly once and no other, and
  never follows a pointer into a freed record.
\<close>

theorem record_list_destroy_frees:
  assumes "ring h xs"
  shows "tnX_record_list_destroy h (ring_ptr xs) = Some (None, h |` (- set xs))"
proof (cases xs)
  case Nil
  then show ?thesis by (simp add: tnX_record_list_destroy_def ring_ptr_def restrict_map_def)
next
  case (Cons x ys)
  have "list_destroy_loop h (Some (hd xs)) (Some x) = Some (h |` (- set xs))"
    by (rule list_destroy_loop_ok)
       (use assms Cons in \<open>auto simp: ring_def simp del: append_Cons intro!: path_nxt\<close>)
  then show ?thesis by (simp add: tnX_record_list_destroy_def ring_ptr_def Cons)
qed

theorem record_list_destroy_frees_witness:
  "tnX_record_list_destroy ring3 (Some 1) = Some (None, ring3 |` (- {1, 2, 3}))"
proof -
  have r: "ring ring3 [1, 2, 3]"
    by (auto simp: ring_def ring3_def nxt_def prv_def)
  from record_list_destroy_frees [OF r] show ?thesis by (simp add: ring_ptr_def)
qed

text \<open>
  Reading a record returns its bytes in order: below the length the byte at the current
  position, with the position moved on; at the length the assertion stops the program, so no
  read leaves the written part of the buffer.
\<close>

theorem record_get_byte_in_order:
  assumes "h a = Some r" and "buff_inv (r_data r)" and "r_cur_pos r = int k"
  shows "tnX_record_get_byte h (Some a) =
    (if k < length (buff_bytes (r_data r))
     then Some (buff_bytes (r_data r) ! k, h(a \<mapsto> r\<lparr>r_cur_pos := int (k + 1)\<rparr>))
     else None)"
proof -
  let ?n = "tnX_buffer_length (r_data r)"
  have len: "length (buff_bytes (r_data r)) = ?n" by (rule length_buff_bytes [OF assms(2)])
  have st: "store h (Some a) (\<lambda>r. r\<lparr>r_cur_pos := r_cur_pos r + 1\<rparr>) = Some (h(a \<mapsto> r\<lparr>r_cur_pos := int (k + 1)\<rparr>))"
    using assms by (simp add: store_def add.commute)
  show ?thesis
  proof (cases "k < ?n")
    case True
    then obtain m where m: "tb_data (r_data r) = Some m" "length m = tb_allocated (r_data r)"
        "k < length m" "m ! k \<noteq> None"
      using assms(2)
      by (auto simp: buff_inv_def tnX_buffer_length_def in_set_conv_nth split: option.splits)
    then show ?thesis
      using True len
      by (auto simp: tnX_record_get_byte_def st load_def tnX_buffer_data_def peek_def buff_bytes_def
          tnX_buffer_length_def)
  next
    case False
    then show ?thesis
      using len by (auto simp: tnX_record_get_byte_def st load_def)
  qed
qed

theorem record_get_byte_in_order_witness:
  "\<exists>b h'. tnX_buffer_append_byte tnX_buffer_init 7 = Some b
    \<and> tnX_record_get_byte [1 \<mapsto> blank_rec\<lparr>r_data := b\<rparr>] (Some 1) = Some (7, h')"
proof -
  from tnX_buffer_append_byte_ok [OF buff_inv_init, of 7] obtain b
    where b: "tnX_buffer_append_byte tnX_buffer_init 7 = Some b" "buff_inv b" "buff_bytes b = [7]"
    by auto
  from record_get_byte_in_order [of "[1 \<mapsto> blank_rec\<lparr>r_data := b\<rparr>]" 1 "blank_rec\<lparr>r_data := b\<rparr>" 0] b
  show ?thesis by (simp add: blank_rec_def)
qed

end
