(* ===== verification/Tn_Conf.thy ===== *)
theory Tn_Conf
  imports Sna_Prelude
begin

text \<open>
  The configuration store of libtnX (\<^verbatim>\<open>libtnX/tnX_conf.c\<close>): named settings, their reader, the
  command line, and the lookups. A setting is a string or a list of strings; the lists are
  compared by value here, their sharing between two settings is not represented.
  A string operation applied to a list value (the code passes the \<^verbatim>\<open>GSList\<close> pointer to
  \<^verbatim>\<open>strlen\<close> or \<^verbatim>\<open>strcmp\<close>) is a fault.
\<close>

section \<open>Settings\<close>

datatype conf_value = CONFIG_STRING string | CONFIG_LIST "string list"

type_synonym tnXconfig_str = "string \<times> conf_value"

record tnXconfig =
  cf_ref :: int
  cf_vars :: "tnXconfig_str list"

definition tnX_config_new :: tnXconfig where
  "tnX_config_new = \<lparr>cf_ref = 1, cf_vars = []\<rparr>"

definition tnX_config_ref :: "tnXconfig \<Rightarrow> tnXconfig" where
  "tnX_config_ref this = this\<lparr>cf_ref := cf_ref this + 1\<rparr>"

text \<open>\<^term>\<open>None\<close>: the last reference is gone and the store is freed.\<close>

definition tnX_config_unref :: "tnXconfig \<Rightarrow> tnXconfig option" where
  "tnX_config_unref this =
     (if cf_ref this - 1 = 0 then None else Some (this\<lparr>cf_ref := cf_ref this - 1\<rparr>))"

fun get_str :: "tnXconfig_str list \<Rightarrow> string \<Rightarrow> tnXconfig_str option" where
  "get_str [] name = None"
| "get_str (v # vs) name = (if fst v = name then Some v else get_str vs name)"

definition tnX_config_get_str :: "tnXconfig \<Rightarrow> string \<Rightarrow> tnXconfig_str option" where
  "tnX_config_get_str this name = get_str (cf_vars this) name"

definition tnX_config_get :: "tnXconfig \<Rightarrow> string \<Rightarrow> conf_value option" where
  "tnX_config_get this name = map_option snd (tnX_config_get_str this name)"

definition tnX_config_get_bool :: "tnXconfig \<Rightarrow> string \<Rightarrow> bool option" where
  "tnX_config_get_bool this name =
     (case tnX_config_get this name of
        None \<Rightarrow> Some False
      | Some (CONFIG_STRING v) \<Rightarrow>
          Some (\<not> (v = ''off'' \<or> v = ''no'' \<or> v = ''0'' \<or> v = ''false''))
      | Some (CONFIG_LIST _) \<Rightarrow> None)"

definition tnX_config_get_int :: "tnXconfig \<Rightarrow> string \<Rightarrow> int option" where
  "tnX_config_get_int this name =
     (case tnX_config_get this name of
        None \<Rightarrow> Some 0
      | Some (CONFIG_STRING v) \<Rightarrow> Some (atoi v)
      | Some (CONFIG_LIST _) \<Rightarrow> None)"

text \<open>The first setting of the name gets the value.\<close>

fun assign :: "tnXconfig_str list \<Rightarrow> string \<Rightarrow> conf_value \<Rightarrow> tnXconfig_str list" where
  "assign [] name val = []"
| "assign (v # vs) name val = (if fst v = name then (name, val) # vs else v # assign vs name val)"

text \<open>
  A string setting is overwritten by a copy of the new string; a list setting is never
  overwritten, the new setting is appended behind it.
\<close>

definition tnX_config_set :: "tnXconfig \<Rightarrow> string \<Rightarrow> conf_value \<Rightarrow> tnXconfig option" where
  "tnX_config_set this name val =
     (case tnX_config_get_str this name of
        Some (_, CONFIG_STRING _) \<Rightarrow>
          (case val of
             CONFIG_STRING s \<Rightarrow> Some (this\<lparr>cf_vars := assign (cf_vars this) name (CONFIG_STRING s)\<rparr>)
           | CONFIG_LIST _ \<Rightarrow> None)
      | _ \<Rightarrow> Some (this\<lparr>cf_vars := cf_vars this @ [(name, val)]\<rparr>))"

fun remove_first :: "tnXconfig_str list \<Rightarrow> string \<Rightarrow> tnXconfig_str list" where
  "remove_first [] name = []"
| "remove_first (v # vs) name = (if fst v = name then vs else v # remove_first vs name)"

definition tnX_config_unset :: "tnXconfig \<Rightarrow> string \<Rightarrow> tnXconfig" where
  "tnX_config_unset this name =
     (case tnX_config_get_str this name of
        None \<Rightarrow> this
      | Some _ \<Rightarrow> this\<lparr>cf_vars := remove_first (cf_vars this) name\<rparr>)"

section \<open>Promotion of a profile\<close>

text \<open>
  The test of \<^verbatim>\<open>tnX_config_promote\<close>. \<^verbatim>\<open>memcmp\<close> compares as many bytes as the prefix has;
  the name has one more than its length, counting its NUL, and reading more is a fault.
\<close>

definition promote_test :: "string \<Rightarrow> string \<Rightarrow> bool option" where
  "promote_test prefix name =
     (if \<not> length prefix \<le> length name + 2 then Some False
      else if length prefix > length name + 1 then None
      else Some (take (length prefix) name = prefix \<and> length prefix < length name
                 \<and> name ! length prefix = CHR ''.''))"

text \<open>
  The loop visits the settings in order, the ones it appends itself included; \<open>i\<close> is the
  position of \<open>iter\<close>.
\<close>

lemma length_assign [simp]: "length (assign vs name val) = length vs"
  by (induction vs) auto

lemma names_assign [simp]: "map fst (assign vs name val) = map fst vs"
  by (induction vs) auto

lemma set_names:
  "tnX_config_set this name val = Some this' \<Longrightarrow>
   map fst (cf_vars this') = map fst (cf_vars this)
   \<or> map fst (cf_vars this') = map fst (cf_vars this) @ [name]"
  by (auto simp: tnX_config_set_def split: option.splits prod.splits conf_value.splits)

definition names_weight :: "string list \<Rightarrow> nat" where
  "names_weight ns = sum_list (map (\<lambda>n. length n + 1) ns)"

lemma names_weight_set:
  assumes "tnX_config_set this (drop (length prefix + 1) name) val = Some this'"
    and "i < length (cf_vars this)" and "name = fst (cf_vars this ! i)"
    and "length prefix < length name"
  shows "names_weight (drop (Suc i) (map fst (cf_vars this')))
         < names_weight (drop i (map fst (cf_vars this)))"
proof -
  have "drop i (map fst (cf_vars this)) = name # drop (Suc i) (map fst (cf_vars this))"
    using assms(2,3) by (simp add: Cons_nth_drop_Suc [symmetric])
  with set_names [OF assms(1)] assms(2,4) show ?thesis
    by (auto simp: names_weight_def)
qed

lemma names_weight_next:
  "i < length ns \<Longrightarrow> names_weight (drop (Suc i) ns) < names_weight (drop i ns)"
  by (simp add: names_weight_def Cons_nth_drop_Suc [symmetric])

function (sequential) promote_loop :: "tnXconfig \<Rightarrow> string \<Rightarrow> nat \<Rightarrow> tnXconfig option" where
  "promote_loop this prefix i =
     (if i < length (cf_vars this) then
        (case promote_test prefix (fst (cf_vars this ! i)) of
           None \<Rightarrow> None
         | Some False \<Rightarrow> promote_loop this prefix (i + 1)
         | Some True \<Rightarrow>
             (case tnX_config_set this (drop (length prefix + 1) (fst (cf_vars this ! i)))
                     (snd (cf_vars this ! i)) of
                None \<Rightarrow> None
              | Some this' \<Rightarrow> promote_loop this' prefix (i + 1)))
      else Some this)"
  by pat_completeness auto

termination
  by (relation "measure (\<lambda>(this, prefix, i). names_weight (drop i (map fst (cf_vars this))))")
     (auto simp: promote_test_def split: if_splits
       intro!: names_weight_next intro: names_weight_set)

definition tnX_config_promote :: "tnXconfig \<Rightarrow> string \<Rightarrow> tnXconfig option" where
  "tnX_config_promote this prefix = promote_loop this prefix 0"

section \<open>The command line\<close>

definition parse_arg :: "tnXconfig \<Rightarrow> string \<Rightarrow> tnXconfig option" where
  "parse_arg this arg =
     (if arg \<noteq> [] \<and> hd arg = CHR ''+'' then tnX_config_set this (tl arg) (CONFIG_STRING ''1'')
      else if arg \<noteq> [] \<and> hd arg = CHR ''-'' then tnX_config_set this (tl arg) (CONFIG_STRING ''0'')
      else if CHR ''='' \<in> set arg then
        tnX_config_set this (takeWhile (\<lambda>c. c \<noteq> CHR ''='') arg)
          (CONFIG_STRING (tl (dropWhile (\<lambda>c. c \<noteq> CHR ''='') arg)))
      else do {
        this \<leftarrow> tnX_config_set this ''host'' (CONFIG_STRING arg);
        tnX_config_promote this arg
      })"

text \<open>\<open>argv\<close> without the program name.\<close>

fun tnX_config_parse_argv :: "tnXconfig \<Rightarrow> string list \<Rightarrow> tnXconfig option" where
  "tnX_config_parse_argv this [] = Some this"
| "tnX_config_parse_argv this (arg # argv) = do {
     this \<leftarrow> parse_arg this arg;
     tnX_config_parse_argv this argv
   }"

section \<open>Reading a configuration file\<close>

text \<open>
  \<^verbatim>\<open>fgets(buf, n + 1, f)\<close>: at most \<open>n\<close> characters, up to and including a newline;
  \<^term>\<open>None\<close> at the end of the file, which leaves \<^verbatim>\<open>buf\<close> as it was.
\<close>

definition fgets :: "nat \<Rightarrow> string \<Rightarrow> (string \<times> string) option" where
  "fgets n f =
     (if f = [] then None
      else let k = length (takeWhile (\<lambda>c. c \<noteq> CHR 0x0A) f);
               m = min n (k + 1)
           in Some (take m f, drop m f))"

text \<open>The string in \<^verbatim>\<open>buf\<close> once the newline is cut off.\<close>

definition chomp :: "string \<Rightarrow> string" where
  "chomp buf = takeWhile (\<lambda>c. c \<noteq> CHR 0x0A) (takeWhile (\<lambda>c. c \<noteq> CHR 0x00) buf)"

definition skip_space :: "string \<Rightarrow> string" where
  "skip_space scan = dropWhile is_space scan"

text \<open>\<^verbatim>\<open>while (len > 0 && isspace(scan[len])) scan[len--] = 0\<close>: the first character is kept.\<close>

fun rtrim :: "string \<Rightarrow> string" where
  "rtrim [] = []"
| "rtrim (c # cs) = c # rev (dropWhile is_space (rev cs))"

definition starts :: "char \<Rightarrow> string \<Rightarrow> bool" where
  "starts c scan \<longleftrightarrow> scan \<noteq> [] \<and> hd scan = c"

lemma fgets_shorter: "0 < n \<Longrightarrow> fgets n f = Some (buf, f') \<Longrightarrow> length f' < length f"
  by (auto simp: fgets_def Let_def split: if_splits)

text \<open>
  The items of a list up to the line that starts with a closing bracket. At the end of the
  file the buffer keeps its last line: unless that line starts with a bracket the loop never
  ends, which is \<^term>\<open>None\<close> here.
\<close>

function (sequential) read_list :: "string \<Rightarrow> string \<Rightarrow> string list \<Rightarrow> (string list \<times> string) option" where
  "read_list f buf acc =
     (case fgets 126 f of
        None \<Rightarrow> if starts (CHR '']'') (skip_space buf) then Some (acc, f) else None
      | Some (chunk, f') \<Rightarrow>
          let scan = skip_space (chomp chunk)
          in if starts (CHR '']'') scan then Some (acc, f')
             else read_list f' (chomp chunk) (acc @ [scan]))"
  by pat_completeness auto

termination
  by (relation "measure (\<lambda>(f, buf, acc). length f)") (auto intro: fgets_shorter [of 126])

text \<open>What a line does: the loop goes on, or the file is in error.\<close>

datatype line_result = Next tnXconfig "string list" string | Config_Error tnXconfig

definition MAX_PREFIX_STACK :: nat where
  "MAX_PREFIX_STACK = 50"

definition is_name_char :: "char \<Rightarrow> char \<Rightarrow> bool" where
  "is_name_char stop c \<longleftrightarrow> \<not> is_space c \<and> c \<noteq> stop"

definition set_flag ::
  "tnXconfig \<Rightarrow> string list \<Rightarrow> string \<Rightarrow> string \<Rightarrow> string \<Rightarrow> line_result option" where
  "set_flag this stack scan val f = do {
     this \<leftarrow> tnX_config_set this (rtrim (skip_space scan)) (CONFIG_STRING val);
     Some (Next this stack f)
   }"

definition set_item ::
  "tnXconfig \<Rightarrow> string list \<Rightarrow> string \<Rightarrow> string \<Rightarrow> string \<Rightarrow> line_result option" where
  "set_item this stack buf scan f =
     (let key = takeWhile (is_name_char (CHR ''='')) scan;
          name = concat (map (\<lambda>p. p @ ''.'') stack) @ key;
          rest = skip_space (drop (length key) scan)
      in if key = [] then Some (Config_Error this)
         else if \<not> starts (CHR ''='') rest then Some (Config_Error this)
         else
           let val = skip_space (tl rest)
           in if starts (CHR ''['') val then do {
                (items, f) \<leftarrow> read_list f buf [];
                this \<leftarrow> tnX_config_set this name (CONFIG_LIST items);
                Some (Next this stack f)
              } else do {
                this \<leftarrow> tnX_config_set this name (CONFIG_STRING (rtrim val));
                Some (Next this stack f)
              })"

text \<open>The two assertions on the depth of the sections are faults.\<close>

definition push_level :: "tnXconfig \<Rightarrow> string list \<Rightarrow> string \<Rightarrow> string \<Rightarrow> line_result option" where
  "push_level this stack scan f =
     (let key = takeWhile (is_name_char (CHR ''{'')) scan
      in if key = [] then Some (Config_Error this)
         else if length stack < MAX_PREFIX_STACK then Some (Next this (stack @ [key]) f)
         else None)"

definition pop_level :: "tnXconfig \<Rightarrow> string list \<Rightarrow> string \<Rightarrow> string \<Rightarrow> line_result option" where
  "pop_level this stack scan f =
     (let rest = skip_space (tl scan)
      in if rest \<noteq> [] \<and> \<not> starts (CHR ''#'') rest then Some (Config_Error this)
         else if stack \<noteq> [] then Some (Next this (butlast stack) f)
         else None)"

definition load_line ::
  "tnXconfig \<Rightarrow> string list \<Rightarrow> string \<Rightarrow> string \<Rightarrow> line_result option" where
  "load_line this stack buf f =
     (let scan = skip_space buf
      in if scan = [] \<or> starts (CHR ''#'') scan then Some (Next this stack f)
         else if starts (CHR ''+'') scan then set_flag this stack (tl scan) ''1'' f
         else if starts (CHR ''-'') scan then set_flag this stack (tl scan) ''0'' f
         else if CHR ''='' \<in> set scan then set_item this stack buf scan f
         else if CHR ''{'' \<in> set scan then push_level this stack scan f
         else if starts (CHR ''}'') scan then pop_level this stack scan f
         else Some (Config_Error this))"

declare read_list.simps [simp del]

lemma read_list_shorter: "read_list f buf acc = Some (items, f') \<Longrightarrow> length f' \<le> length f"
proof (induction f buf acc rule: read_list.induct)
  case (1 f buf acc)
  show ?case
  proof (cases "fgets 126 f")
    case None
    with 1(2) show ?thesis by (auto simp: read_list.simps [of f] split: if_splits)
  next
    case (Some r)
    obtain chunk g where r: "r = (chunk, g)" by (cases r)
    have g: "length g < length f" by (rule fgets_shorter [of 126 f chunk]) (simp_all add: Some r)
    show ?thesis
    proof (cases "starts (CHR '']'') (skip_space (chomp chunk))")
      case True
      with 1(2) Some r g show ?thesis by (simp add: read_list.simps [of f])
    next
      case False
      with 1(2) Some r have "read_list g (chomp chunk) (acc @ [skip_space (chomp chunk)]) = Some (items, f')"
        by (simp add: read_list.simps [of f])
      with 1(1) [OF Some r [symmetric] refl False] g show ?thesis by simp
    qed
  qed
qed

lemma load_line_shorter:
  "load_line this stack buf f = Some (Next this' stack' f') \<Longrightarrow> length f' \<le> length f"
  by (auto simp: load_line_def set_flag_def set_item_def push_level_def pop_level_def Let_def
      split: if_splits bind_splits dest: read_list_shorter)

function (sequential) load_loop ::
  "tnXconfig \<Rightarrow> string list \<Rightarrow> string \<Rightarrow> (tnXconfig \<times> int) option" where
  "load_loop this stack f =
     (case fgets 126 f of
        None \<Rightarrow> Some (this, if stack = [] then 0 else - 1)
      | Some (chunk, f') \<Rightarrow>
          (case load_line this stack (chomp chunk) f' of
             None \<Rightarrow> None
           | Some (Config_Error this) \<Rightarrow> Some (this, - 1)
           | Some (Next this stack f'') \<Rightarrow> load_loop this stack f''))"
  by pat_completeness auto

termination
proof (relation "measure (\<lambda>(this, stack, f). length f)", goal_cases)
  case (2 this stack f a chunk f' r this' stack' f'')
  then have "length f' < length f" "length f'' \<le> length f'"
    using fgets_shorter [of 126 f chunk f'] load_line_shorter by auto
  then show ?case by simp
qed simp

declare load_loop.simps [simp del]

text \<open>What \<^verbatim>\<open>fopen\<close> gives.\<close>

datatype fopen_result = ENOENT_File | Unreadable_File | File string

definition tnX_config_load :: "tnXconfig \<Rightarrow> fopen_result \<Rightarrow> (tnXconfig \<times> int) option" where
  "tnX_config_load this file =
     (case file of
        ENOENT_File \<Rightarrow> Some (this, 0)
      | Unreadable_File \<Rightarrow> Some (this, - 1)
      | File f \<Rightarrow> load_loop this [] f)"

text \<open>
  \<^verbatim>\<open>tnX_config_load_default\<close>: the system file, then the file of the user; \<open>rc_user\<close> is
  \<^term>\<open>None\<close> when the user has no password entry.
\<close>

definition tnX_config_load_default ::
  "tnXconfig \<Rightarrow> fopen_result \<Rightarrow> fopen_result option \<Rightarrow> (tnXconfig \<times> int) option" where
  "tnX_config_load_default this rc_system rc_user = do {
     (this, ec) \<leftarrow> tnX_config_load this rc_system;
     if ec = - 1 then Some (this, - 1)
     else (case rc_user of
             None \<Rightarrow> Some (this, - 1)
           | Some file \<Rightarrow> tnX_config_load this file)
   }"

section \<open>Lookups after updates\<close>

text \<open>The contract of a store of named strings, and what a sequence of assignments leaves.\<close>

locale setting_store =
  fixes get :: "'s \<Rightarrow> string \<Rightarrow> string option"
    and put :: "'s \<Rightarrow> string \<Rightarrow> string \<Rightarrow> 's option"
    and inv :: "'s \<Rightarrow> bool"
  assumes put_total: "inv s \<Longrightarrow> \<exists>s'. put s n v = Some s'"
    and put_inv: "inv s \<Longrightarrow> put s n v = Some s' \<Longrightarrow> inv s'"
    and get_put: "inv s \<Longrightarrow> put s n v = Some s' \<Longrightarrow> get s' m = (if m = n then Some v else get s m)"
begin

primrec put_all :: "'s \<Rightarrow> (string \<times> string) list \<Rightarrow> 's option" where
  "put_all s [] = Some s"
| "put_all s (nv # nvs) = Option.bind (put s (fst nv) (snd nv)) (\<lambda>s'. put_all s' nvs)"

lemma put_all_append: "put_all s (xs @ ys) = Option.bind (put_all s xs) (\<lambda>s'. put_all s' ys)"
  by (induction xs arbitrary: s) (auto split: bind_splits)

lemma put_all_ok:
  "inv s \<Longrightarrow> \<exists>s'. put_all s nvs = Some s' \<and> inv s' \<and>
     (\<forall>m. get s' m = (case map_of (rev nvs) m of Some v \<Rightarrow> Some v | None \<Rightarrow> get s m))"
proof (induction nvs arbitrary: s)
  case Nil
  then show ?case by simp
next
  case (Cons nv nvs)
  from put_total [OF Cons.prems] obtain s1 where s1: "put s (fst nv) (snd nv) = Some s1" by blast
  from Cons.IH [OF put_inv [OF Cons.prems s1]] obtain s2
    where s2: "put_all s1 nvs = Some s2" "inv s2"
      "\<And>m. get s2 m = (case map_of (rev nvs) m of Some v \<Rightarrow> Some v | None \<Rightarrow> get s1 m)" by blast
  have "get s2 m = (case map_of (rev (nv # nvs)) m of Some v \<Rightarrow> Some v | None \<Rightarrow> get s m)" for m
    by (cases nv) (simp add: s2(3) get_put [OF Cons.prems s1] map_add_def split: option.splits)
  with s1 s2(1,2) show ?case by auto
qed

lemma put_all_inv: "inv s \<Longrightarrow> put_all s nvs = Some s' \<Longrightarrow> inv s'"
  using put_all_ok [of s nvs] by auto

end

definition is_string :: "conf_value \<Rightarrow> bool" where
  "is_string v = (case v of CONFIG_STRING _ \<Rightarrow> True | CONFIG_LIST _ \<Rightarrow> False)"

text \<open>All settings are strings: the stores the gateway's stream environment builds.\<close>

definition strings_only :: "tnXconfig \<Rightarrow> bool" where
  "strings_only this \<longleftrightarrow> list_all (\<lambda>v. is_string (snd v)) (cf_vars this)"

definition config_get_string :: "tnXconfig \<Rightarrow> string \<Rightarrow> string option" where
  "config_get_string this name =
     (case tnX_config_get this name of Some (CONFIG_STRING v) \<Rightarrow> Some v | _ \<Rightarrow> None)"

definition config_set_string :: "tnXconfig \<Rightarrow> string \<Rightarrow> string \<Rightarrow> tnXconfig option" where
  "config_set_string this name v = tnX_config_set this name (CONFIG_STRING v)"

lemma get_str_name: "get_str vs n = Some w \<Longrightarrow> fst w = n \<and> w \<in> set vs"
  by (induction vs) (auto split: if_splits)

lemma get_str_assign:
  "get_str vs n = Some w \<Longrightarrow>
   get_str (assign vs n val) m = (if m = n then Some (n, val) else get_str vs m)"
  by (induction vs) (auto split: if_splits)

lemma get_str_snoc:
  "get_str (vs @ [(n, val)]) m =
     (case get_str vs m of Some w \<Rightarrow> Some w | None \<Rightarrow> if m = n then Some (n, val) else None)"
  by (induction vs) auto

lemma is_string_simps [simp]: "is_string (CONFIG_STRING x)" "\<not> is_string (CONFIG_LIST xs)"
  by (simp_all add: is_string_def)

lemma is_string_assign:
  "list_all (\<lambda>v. is_string (snd v)) vs \<Longrightarrow> list_all (\<lambda>v. is_string (snd v)) (assign vs n (CONFIG_STRING x))"
  by (induction vs) auto

lemma strings_only_get: "strings_only this \<Longrightarrow> tnX_config_get_str this n = Some (m, v) \<Longrightarrow> is_string v"
  by (fastforce simp: strings_only_def tnX_config_get_str_def list_all_iff dest: get_str_name)

interpretation conf: setting_store config_get_string config_set_string strings_only
proof (unfold_locales, goal_cases)
  case (1 s n v)
  then show ?case
    by (auto simp: config_set_string_def tnX_config_set_def split: option.splits conf_value.splits)
next
  case (2 s n v s')
  then show ?case
    by (auto simp: config_set_string_def tnX_config_set_def strings_only_def is_string_assign
        split: option.splits conf_value.splits)
next
  case (3 s n v s' m)
  show ?case
  proof (cases "tnX_config_get_str s n")
    case None
    with 3(2) show ?thesis
      by (auto simp: config_set_string_def tnX_config_set_def config_get_string_def tnX_config_get_def
          tnX_config_get_str_def get_str_snoc split: option.splits)
  next
    case (Some w)
    obtain k x where w: "w = (k, x)" by (cases w)
    with strings_only_get [OF 3(1), of n k x] Some obtain y where "x = CONFIG_STRING y"
      by (cases x) auto
    with 3(2) Some w show ?thesis
      by (auto simp: config_set_string_def tnX_config_set_def config_get_string_def tnX_config_get_def
          tnX_config_get_str_def get_str_assign)
  qed
qed

section \<open>Files and what they set\<close>

text \<open>
  A configuration as a tree of sections and its text: one line per setting, sections in braces.
  \<open>settings\<close> lists the assignments it stands for, the names qualified by the sections.
\<close>

datatype conf_item = Setting string string | Section string "conf_item list"

definition NL :: char where
  "NL = CHR 0x0A"

fun conf_text :: "conf_item \<Rightarrow> string" where
  "conf_text (Setting n v) = n @ ''='' @ v @ [NL]"
| "conf_text (Section n is) = n @ '' {'' @ [NL] @ concat (map conf_text is) @ ''}'' @ [NL]"

definition qualify :: "string list \<Rightarrow> string" where
  "qualify stack = concat (map (\<lambda>p. p @ ''.'') stack)"

fun settings :: "string list \<Rightarrow> conf_item \<Rightarrow> (string \<times> string) list" where
  "settings stack (Setting n v) = [(qualify stack @ n, v)]"
| "settings stack (Section n is) = concat (map (settings (stack @ [n])) is)"

definition word_char :: "char \<Rightarrow> bool" where
  "word_char c \<longleftrightarrow> \<not> is_space c \<and> c \<notin> {CHR ''='', CHR ''{'', CHR 0x00}"

definition name_ok :: "string \<Rightarrow> bool" where
  "name_ok n \<longleftrightarrow> n \<noteq> [] \<and> list_all word_char n \<and> hd n \<notin> {CHR ''#'', CHR ''+'', CHR ''-''} \<and> length n \<le> 60"

definition value_ok :: "string \<Rightarrow> bool" where
  "value_ok v \<longleftrightarrow> list_all (\<lambda>c. c \<noteq> NL \<and> c \<noteq> CHR 0x00) v \<and> length v \<le> 60
     \<and> (v \<noteq> [] \<longrightarrow> \<not> is_space (hd v) \<and> hd v \<noteq> CHR ''['' \<and> \<not> is_space (last v))"

fun item_ok :: "nat \<Rightarrow> conf_item \<Rightarrow> bool" where
  "item_ok d (Setting n v) = (name_ok n \<and> value_ok v)"
| "item_ok d (Section n is) = (name_ok n \<and> d < MAX_PREFIX_STACK \<and> list_all (item_ok (d + 1)) is)"

lemma fgets_line:
  assumes "NL \<notin> set l" "length l < n"
  shows "fgets n (l @ NL # r) = Some (l @ [NL], r)"
proof -
  have "takeWhile (\<lambda>c. c \<noteq> CHR 0x0A) (l @ NL # r) = l"
    using assms(1) by (auto simp: NL_def takeWhile_append takeWhile_id)
  with assms(2) show ?thesis by (simp add: fgets_def Let_def min_absorb2)
qed

lemma chomp_line: "NL \<notin> set l \<Longrightarrow> CHR 0x00 \<notin> set l \<Longrightarrow> chomp (l @ [NL]) = l"
  by (auto simp: chomp_def NL_def takeWhile_append takeWhile_id)

lemma space_NL [simp]: "is_space NL" "is_space (CHR '' '')"
  by (simp_all add: is_space_def NL_def)

lemma skip_space_word: "c # cs = xs \<Longrightarrow> \<not> is_space c \<Longrightarrow> skip_space xs = xs"
  by (auto simp: skip_space_def)

lemma rtrim_id: "v \<noteq> [] \<Longrightarrow> \<not> is_space (last v) \<Longrightarrow> rtrim v = v"
proof (cases v)
  case (Cons c cs)
  assume "\<not> is_space (last v)"
  then have "dropWhile is_space (rev cs) = rev cs"
    by (subst dropWhile_eq_self_iff) (auto simp: Cons hd_rev)
  then show ?thesis by (simp add: Cons)
qed simp

lemma load_loop_line:
  assumes "NL \<notin> set l" "CHR 0x00 \<notin> set l" "length l \<le> 125"
  shows "load_loop this stack (l @ NL # r) =
     (case load_line this stack l r of
        None \<Rightarrow> None
      | Some (Config_Error this) \<Rightarrow> Some (this, - 1)
      | Some (Next this stack f) \<Rightarrow> load_loop this stack f)"
  using assms by (subst load_loop.simps) (simp add: fgets_line chomp_line)

lemma name_okD:
  assumes "name_ok n"
  obtains c cs where "n = c # cs" "\<not> is_space c" "c \<notin> {CHR ''#'', CHR ''+'', CHR ''-''}"
    "NL \<notin> set n" "CHR 0x00 \<notin> set n" "CHR ''='' \<notin> set n" "CHR ''{'' \<notin> set n"
    "list_all word_char n" "length n \<le> 60"
  using assms space_NL(1)
  by (cases n) (fastforce simp: name_ok_def word_char_def list_all_iff)+

lemma takeWhile_name:
  assumes "list_all word_char n" "stop \<in> {CHR ''='', CHR ''{''}" "c = stop \<or> is_space c"
  shows "takeWhile (is_name_char stop) (n @ c # r) = n"
proof -
  have "is_name_char stop x" if "x \<in> set n" for x
    using assms(1,2) that by (auto simp: list_all_iff word_char_def is_name_char_def)
  moreover have "\<not> is_name_char stop c" using assms(3) by (auto simp: is_name_char_def)
  ultimately show ?thesis by (simp add: takeWhile_append takeWhile_id)
qed

lemma load_line_setting:
  assumes "name_ok n" "value_ok v"
  shows "load_line this stack (n @ CHR ''='' # v) r =
     Option.bind (config_set_string this (qualify stack @ n) v) (\<lambda>this. Some (Next this stack r))"
proof -
  from assms(1) obtain c cs where n: "n = c # cs" "\<not> is_space c" "c \<notin> {CHR ''#'', CHR ''+'', CHR ''-''}"
    and w: "list_all word_char n" by (rule name_okD)
  have key: "takeWhile (is_name_char (CHR ''='')) (n @ CHR ''='' # v) = n"
    by (rule takeWhile_name) (use w in auto)
  have scan: "skip_space (n @ CHR ''='' # v) = n @ CHR ''='' # v"
    by (rule skip_space_word [of c]) (use n in auto)
  have eq: "skip_space (CHR ''='' # v) = CHR ''='' # v"
    by (simp add: skip_space_def is_space_def)
  have "rtrim v = v" using assms(2) by (cases "v = []") (auto simp: value_ok_def rtrim_id)
  moreover have "skip_space v = v" "\<not> starts (CHR ''['') v"
    using assms(2) by (cases v; simp add: value_ok_def skip_space_def starts_def)+
  ultimately have val: "skip_space v = v" "\<not> starts (CHR ''['') v" "rtrim v = v" by auto
  have "n \<noteq> []" "hd n \<notin> {CHR ''#'', CHR ''+'', CHR ''-''}" using n by auto
  then show ?thesis
    using val
    by (auto simp: load_line_def scan set_item_def key eq starts_def Let_def qualify_def
        config_set_string_def)
qed

lemma load_line_section:
  assumes "name_ok n" "length stack < MAX_PREFIX_STACK"
  shows "load_line this stack (n @ '' {'') r = Some (Next this (stack @ [n]) r)"
proof -
  from assms(1) obtain c cs where n: "n = c # cs" "\<not> is_space c" "c \<notin> {CHR ''#'', CHR ''+'', CHR ''-''}"
    and w: "list_all word_char n" "CHR ''='' \<notin> set n" by (rule name_okD)
  have key: "takeWhile (is_name_char (CHR ''{'')) (n @ CHR '' '' # ''{'') = n"
    by (rule takeWhile_name) (use w in auto)
  have scan: "skip_space (n @ '' {'') = n @ '' {''"
    by (rule skip_space_word [of c]) (use n in auto)
  have "n \<noteq> []" "hd n \<notin> {CHR ''#'', CHR ''+'', CHR ''-''}" using n by auto
  then show ?thesis
    using w assms(2) key by (simp add: load_line_def scan push_level_def starts_def Let_def)
qed

lemma load_line_close:
  "stack \<noteq> [] \<Longrightarrow> load_line this stack ''}'' r = Some (Next this (butlast stack) r)"
  by (simp add: load_line_def pop_level_def skip_space_def starts_def is_space_def)

lemma load_items:
  assumes "\<And>it this rest. it \<in> set is \<Longrightarrow> strings_only this \<Longrightarrow>
      load_loop this stack (conf_text it @ rest) =
      Option.bind (conf.put_all this (settings stack it)) (\<lambda>this. load_loop this stack rest)"
    and "strings_only this"
  shows "load_loop this stack (concat (map conf_text is) @ rest) =
      Option.bind (conf.put_all this (concat (map (settings stack) is))) (\<lambda>this. load_loop this stack rest)"
  using assms
proof (induction "is" arbitrary: this)
  case Nil
  then show ?case by simp
next
  case (Cons it its)
  from conf.put_all_ok [OF Cons.prems(2), of "settings stack it"] obtain this1
    where t: "conf.put_all this (settings stack it) = Some this1" "strings_only this1" by blast
  have "load_loop this1 stack (concat (map conf_text its) @ rest) =
      Option.bind (conf.put_all this1 (concat (map (settings stack) its)))
        (\<lambda>this. load_loop this stack rest)"
    by (rule Cons.IH) (use Cons.prems(1) t(2) in auto)
  then show ?case
    using Cons.prems(1) [of it this "concat (map conf_text its) @ rest"] Cons.prems(2) t
    by (simp add: conf.put_all_append)
qed

lemma load_item:
  "item_ok (length stack) it \<Longrightarrow> strings_only this \<Longrightarrow>
   load_loop this stack (conf_text it @ rest) =
     Option.bind (conf.put_all this (settings stack it)) (\<lambda>this. load_loop this stack rest)"
proof (induction it arbitrary: this stack rest)
  case (Setting n v)
  then have ok: "name_ok n" "value_ok v" by auto
  from ok(1) obtain c cs where n: "n = c # cs" and w: "NL \<notin> set n" "CHR 0x00 \<notin> set n" "length n \<le> 60"
    by (rule name_okD)
  have "load_loop this stack ((n @ CHR ''='' # v) @ NL # rest) =
     (case load_line this stack (n @ CHR ''='' # v) rest of
        None \<Rightarrow> None
      | Some (Config_Error this) \<Rightarrow> Some (this, - 1)
      | Some (Next this stack f) \<Rightarrow> load_loop this stack f)"
    by (rule load_loop_line) (use ok(2) w in \<open>auto simp: value_ok_def list_all_iff NL_def\<close>)
  then show ?case
    by (simp add: load_line_setting [OF ok] split: bind_splits)
next
  case (Section n "is")
  then have ok: "name_ok n" "length stack < MAX_PREFIX_STACK" "list_all (item_ok (length (stack @ [n]))) is"
    by auto
  from ok(1) obtain c cs where n: "n = c # cs" and w: "NL \<notin> set n" "CHR 0x00 \<notin> set n" "length n \<le> 60"
    by (rule name_okD)
  have open_line: "load_loop this stack ((n @ '' {'') @ NL # r) = load_loop this (stack @ [n]) r" for r
    by (subst load_loop_line) (use w in \<open>auto simp: NL_def load_line_section [OF ok(1,2), simplified]\<close>)
  have close_line: "load_loop t (stack @ [n]) (''}'' @ NL # r) = load_loop t stack r" for t r
    by (subst load_loop_line) (auto simp: NL_def load_line_close)
  have "load_loop this (stack @ [n]) (concat (map conf_text is) @ ''}'' @ NL # rest) =
      Option.bind (conf.put_all this (concat (map (settings (stack @ [n])) is)))
        (\<lambda>this. load_loop this (stack @ [n]) (''}'' @ NL # rest))"
    by (rule load_items) (use Section ok(3) in \<open>auto simp: list_all_iff\<close>)
  with open_line close_line show ?case by simp
qed

text \<open>
  C22. Reading the text of a configuration, nested sections included, returns success and leaves
  exactly the settings the text stands for: a name is bound to the last value the file gives it
  under its qualified name, every other name keeps the value it had.
\<close>

theorem config_load_settings:
  assumes "list_all (item_ok 0) is" and "strings_only this"
  shows "\<exists>this'. tnX_config_load this (File (concat (map conf_text is))) = Some (this', 0)
    \<and> strings_only this'
    \<and> (\<forall>m. config_get_string this' m =
          (case map_of (rev (concat (map (settings []) is))) m of
             Some v \<Rightarrow> Some v | None \<Rightarrow> config_get_string this m))"
proof -
  from conf.put_all_ok [OF assms(2), of "concat (map (settings []) is)"] obtain this'
    where t: "conf.put_all this (concat (map (settings []) is)) = Some this'" "strings_only this'"
      "\<forall>m. config_get_string this' m =
          (case map_of (rev (concat (map (settings []) is))) m of
             Some v \<Rightarrow> Some v | None \<Rightarrow> config_get_string this m)" by blast
  have "load_loop this [] (concat (map conf_text is) @ []) =
      Option.bind (conf.put_all this (concat (map (settings []) is))) (\<lambda>this. load_loop this [] [])"
    by (rule load_items) (use assms in \<open>auto simp: list_all_iff intro!: load_item\<close>)
  moreover have "load_loop t [] [] = Some (t, 0)" for t
    by (simp add: load_loop.simps fgets_def)
  ultimately show ?thesis using t by (simp add: tnX_config_load_def)
qed

theorem config_load_settings_witness:
  "\<exists>this'. tnX_config_load tnX_config_new
       (File (''host=h1'' @ [NL] @ ''s {'' @ [NL] @ ''host=h2'' @ [NL] @ ''}'' @ [NL])) = Some (this', 0)
     \<and> config_get_string this' ''s.host'' = Some ''h2'' \<and> config_get_string this' ''host'' = Some ''h1''"
proof -
  let ?is = "[Setting ''host'' ''h1'', Section ''s'' [Setting ''host'' ''h2'']]"
  have ok: "list_all (item_ok 0) ?is" "strings_only tnX_config_new"
    by (simp_all add: name_ok_def value_ok_def word_char_def is_space_def NL_def MAX_PREFIX_STACK_def
        strings_only_def tnX_config_new_def)
  from config_load_settings [OF this] show ?thesis
    by (auto simp: qualify_def)
qed

text \<open>
  A list setting is never replaced: after a list is stored under a name, later assignments to
  that name succeed but lookups go on returning the list.
\<close>

theorem list_setting_sticks:
  assumes "tnX_config_get this name = Some (CONFIG_LIST items)"
  shows "\<exists>this'. tnX_config_set this name val = Some this'
    \<and> tnX_config_get this' name = Some (CONFIG_LIST items)"
  using assms
  by (auto simp: tnX_config_get_def tnX_config_set_def tnX_config_get_str_def get_str_snoc
      split: option.splits conf_value.splits)

theorem list_setting_sticks_witness:
  "\<exists>this'. tnX_config_set \<lparr>cf_ref = 1, cf_vars = [(''permit'', CONFIG_LIST [''10.0.0.0/8''])]\<rparr>
        ''permit'' (CONFIG_LIST []) = Some this'
     \<and> tnX_config_get this' ''permit'' = Some (CONFIG_LIST [''10.0.0.0/8''])"
  using list_setting_sticks
    [of "\<lparr>cf_ref = 1, cf_vars = [(''permit'', CONFIG_LIST [''10.0.0.0/8''])]\<rparr>" "''permit''"]
  by (simp add: tnX_config_get_def tnX_config_get_str_def)

text \<open>
  A list that is not closed before the end of the file is read forever, unless the line that
  opened it happens to start with a closing bracket.
\<close>

theorem unclosed_list_diverges:
  assumes "\<not> starts (CHR '']'') (skip_space buf)"
    and "\<forall>l \<in> set ls. NL \<notin> set l \<and> CHR 0x00 \<notin> set l \<and> length l \<le> 125 \<and> \<not> starts (CHR '']'') (skip_space l)"
  shows "read_list (concat (map (\<lambda>l. l @ [NL]) ls)) buf acc = None"
  using assms
proof (induction ls arbitrary: buf acc)
  case Nil
  then show ?case by (simp add: read_list.simps fgets_def)
next
  case (Cons l ls)
  then have "fgets 126 (l @ NL # concat (map (\<lambda>l. l @ [NL]) ls)) = Some (l @ [NL], concat (map (\<lambda>l. l @ [NL]) ls))"
    by (intro fgets_line) auto
  with Cons.prems Cons.IH [of l] show ?case
    by (simp add: read_list.simps [of "l @ _"] chomp_line)
qed

theorem unclosed_list_diverges_witness:
  "read_list (''10.0.0.0/8'' @ [NL]) ''permit=['' [] = None"
  using unclosed_list_diverges [of "''permit=[''" "[''10.0.0.0/8'']" "[]"]
  by (simp add: starts_def skip_space_def is_space_def NL_def)

end
