(* ===== verification/Tn_Stream.thy ===== *)
theory Tn_Stream
  imports Tn_Record Tn_Conf
begin

text \<open>
  The telnet stream of libtnX (\<^verbatim>\<open>libtnX/tnX_stream.c\<close>): option negotiation, the receive state
  machine that cuts the byte stream into records, escaping and sending of packets.

  The socket is part of the state: \<open>st_in\<close> lists what the coming receives will see, \<open>st_sel\<close>
  and \<open>st_tx\<close> what the coming \<^verbatim>\<open>select\<close> and \<^verbatim>\<open>send\<close> calls will answer (once they are used up,
  \<^verbatim>\<open>select\<close> is ready and \<^verbatim>\<open>send\<close> takes everything), and \<open>st_out\<close> the bytes the peer is sent.
  A result \<^term>\<open>Some (Inl n)\<close> is \<^verbatim>\<open>exit(n)\<close>, \<^term>\<open>None\<close> a fault.
\<close>

section \<open>Constants and state\<close>

abbreviation (input) IS :: byte where "IS \<equiv> 0"
abbreviation (input) SEND :: byte where "SEND \<equiv> 1"
abbreviation (input) VAR :: byte where "VAR \<equiv> 0"
abbreviation (input) VALUE :: byte where "VALUE \<equiv> 1"
abbreviation (input) USERVAR :: byte where "USERVAR \<equiv> 3"
abbreviation (input) TRANSMIT_BINARY :: byte where "TRANSMIT_BINARY \<equiv> 0"
abbreviation (input) TIMING_MARK :: byte where "TIMING_MARK \<equiv> 6"
abbreviation (input) TERMINAL_TYPE :: byte where "TERMINAL_TYPE \<equiv> 24"
abbreviation (input) END_OF_RECORD :: byte where "END_OF_RECORD \<equiv> 25"
abbreviation (input) NEW_ENVIRON :: byte where "NEW_ENVIRON \<equiv> 39"
abbreviation (input) EOR :: byte where "EOR \<equiv> 239"
abbreviation (input) SE :: byte where "SE \<equiv> 240"
abbreviation (input) SB :: byte where "SB \<equiv> 250"
abbreviation (input) WILL :: byte where "WILL \<equiv> 251"
abbreviation (input) WONT :: byte where "WONT \<equiv> 252"
abbreviation (input) DO :: byte where "DO \<equiv> 253"
abbreviation (input) DONT :: byte where "DONT \<equiv> 254"
abbreviation (input) IAC :: byte where "IAC \<equiv> 255"

abbreviation (input) TERMINAL :: int where "TERMINAL \<equiv> 1"
abbreviation (input) HOST :: int where "HOST \<equiv> 8"
abbreviation (input) RECV_BINARY :: int where "RECV_BINARY \<equiv> 1"
abbreviation (input) SEND_BINARY :: int where "SEND_BINARY \<equiv> 2"
abbreviation (input) RECV_EOR :: int where "RECV_EOR \<equiv> 4"
abbreviation (input) SEND_EOR :: int where "SEND_EOR \<equiv> 8"
abbreviation (input) TN3270_STREAM :: int where "TN3270_STREAM \<equiv> 0"
abbreviation (input) TN5250_STREAM :: int where "TN5250_STREAM \<equiv> 2"

datatype stream_state = NO_DATA | DATA | HAVE_IAC | HAVE_VERB | HAVE_SB | HAVE_SB_IAC

text \<open>
  \<open>RxNone\<close>: nothing to read now (\<^verbatim>\<open>select\<close> times out, or \<^verbatim>\<open>recv\<close> fails with \<^verbatim>\<open>EAGAIN\<close> or
  \<^verbatim>\<open>EINTR\<close>). \<open>TxSome n\<close>: \<^verbatim>\<open>send\<close> takes at most \<open>n\<close> bytes.
\<close>

datatype rx = RxNone | RxByte byte | RxEof | RxErr
datatype tx = TxSome nat | TxAgain | TxErr
datatype sel = SelReady | SelRetry | SelErr

record tnXstream =
  st_accept :: bool
  st_config :: "tnXconfig option"
  st_records :: ptr
  st_current_record :: ptr
  st_record_count :: int
  st_sb_buf :: tnXbuff
  st_status :: int
  st_state :: stream_state
  st_streamtype :: int
  st_heap :: rec_heap
  st_brk :: addr
  st_in :: "rx list"
  st_sel :: "sel list"
  st_tx :: "tx list"
  st_out :: "byte list"

definition SB_Str_NewEnv :: "byte list" where
  "SB_Str_NewEnv = [IAC, SB, NEW_ENVIRON, SEND, USERVAR,
     0x49, 0x42, 0x4D, 0x52, 0x53, 0x45, 0x45, 0x44, 0, 1, 2, 3, 4, 5, 6, 7,
     VAR, USERVAR, IAC, SE]"

definition SB_Str_TermType :: "byte list" where
  "SB_Str_TermType = [IAC, SB, TERMINAL_TYPE, SEND, IAC, SE]"

definition hostInitStr :: "byte list" where
  "hostInitStr = [IAC, DO, NEW_ENVIRON, IAC, DO, TERMINAL_TYPE]"

definition hostDoEOR :: "byte list" where
  "hostDoEOR = [IAC, DO, END_OF_RECORD]"

definition hostDoBinary :: "byte list" where
  "hostDoBinary = [IAC, DO, TRANSMIT_BINARY]"

definition hostDoTable :: "byte list list" where
  "hostDoTable = [hostInitStr, hostDoEOR, hostDoBinary]"

section \<open>Environment\<close>

text \<open>C strings of the wire as strings of the configuration.\<close>

definition chars :: "byte list \<Rightarrow> string" where
  "chars bs = map (\<lambda>b. char_of (unat b)) bs"

definition bytes_of :: "string \<Rightarrow> byte list" where
  "bytes_of s = map (\<lambda>c. word_of_nat (of_char c)) s"

definition tnX_stream_setenv :: "tnXstream \<Rightarrow> string \<Rightarrow> string \<Rightarrow> tnXstream option" where
  "tnX_stream_setenv this name val = do {
     let conf = (case st_config this of None \<Rightarrow> tnX_config_new | Some c \<Rightarrow> c);
     conf \<leftarrow> tnX_config_set conf (''env.'' @ name) (CONFIG_STRING val);
     Some (this\<lparr>st_config := Some conf\<rparr>)
   }"

definition tnX_stream_getenv :: "tnXstream \<Rightarrow> string \<Rightarrow> conf_value option" where
  "tnX_stream_getenv this name =
     (case st_config this of None \<Rightarrow> None | Some c \<Rightarrow> tnX_config_get c (''env.'' @ name))"

section \<open>Reading and writing the socket\<close>

text \<open>One \<^verbatim>\<open>send\<close>: what it returns and the state after it.\<close>

definition sock_send :: "tnXstream \<Rightarrow> byte list \<Rightarrow> int \<times> tnXstream" where
  "sock_send this data =
     (case st_tx this of
        [] \<Rightarrow> (int (length data), this\<lparr>st_out := st_out this @ data\<rparr>)
      | TxSome n # ts \<Rightarrow>
          (int (min n (length data)), this\<lparr>st_tx := ts, st_out := st_out this @ take n data\<rparr>)
      | _ # ts \<Rightarrow> (- 1, this\<lparr>st_tx := ts\<rparr>))"

text \<open>The loop of \<^verbatim>\<open>telnet_stream_write\<close>.\<close>

function (sequential) write_loop ::
  "sel list \<Rightarrow> tx list \<Rightarrow> byte list \<Rightarrow> byte list \<Rightarrow> int + sel list \<times> tx list \<times> byte list" where
  "write_loop ss ts data out =
     (if ss \<noteq> [] \<and> hd ss = SelErr then Inl 5
      else if ss \<noteq> [] \<and> hd ss = SelRetry then
        (if data = [] then Inr (tl ss, ts, out) else write_loop (tl ss) ts data out)
      else
        (case ts of
           [] \<Rightarrow> Inr (tl ss, [], out @ data)
         | TxErr # ts' \<Rightarrow> Inl 5
         | TxAgain # ts' \<Rightarrow>
             (if data = [] then Inr (tl ss, ts', out) else write_loop (tl ss) ts' data out)
         | TxSome n # ts' \<Rightarrow>
             (if drop n data = [] then Inr (tl ss, ts', out @ take n data)
              else write_loop (tl ss) ts' (drop n data) (out @ take n data))))"
  by pat_completeness auto

termination
  by (relation "measure (\<lambda>(ss, ts, data, out). length ss + length ts)") auto

declare write_loop.simps [simp del]

definition telnet_stream_write :: "tnXstream \<Rightarrow> byte list \<Rightarrow> int + tnXstream" where
  "telnet_stream_write this data =
     (case write_loop (st_sel this) (st_tx this) data (st_out this) of
        Inl n \<Rightarrow> Inl n
      | Inr (ss, ts, out) \<Rightarrow> Inr (this\<lparr>st_sel := ss, st_tx := ts, st_out := out\<rparr>))"

text \<open>After the end of the input every receive sees it again.\<close>

definition telnet_stream_get_next :: "tnXstream \<Rightarrow> int \<times> tnXstream" where
  "telnet_stream_get_next this =
     (case st_in this of
        [] \<Rightarrow> (- 1, this)
      | RxNone # r \<Rightarrow> (- 1, this\<lparr>st_in := r\<rparr>)
      | RxByte b # r \<Rightarrow> (uint b, this\<lparr>st_in := r\<rparr>)
      | RxEof # r \<Rightarrow> (- 2, this)
      | RxErr # r \<Rightarrow> (- 2, this\<lparr>st_in := r\<rparr>))"

section \<open>Option negotiation\<close>

definition sendWill :: "tnXstream \<Rightarrow> byte \<Rightarrow> int \<times> tnXstream" where
  "sendWill this what = sock_send this [IAC, WILL, what]"

definition telnet_stream_host_verb :: "tnXstream \<Rightarrow> byte \<Rightarrow> byte \<Rightarrow> int \<times> tnXstream" where
  "telnet_stream_host_verb this verb what =
     (let (retval, option, this) =
        (if verb = DO then
           (0, (if what = END_OF_RECORD then SEND_EOR
                else if what = TRANSMIT_BINARY then SEND_BINARY else 0), this)
         else if verb = WILL then
           (if what = NEW_ENVIRON then
              (case sock_send this SB_Str_NewEnv of (r, this) \<Rightarrow> (r, 0, this))
            else if what = TERMINAL_TYPE then
              (case sock_send this SB_Str_TermType of (r, this) \<Rightarrow> (r, 0, this))
            else if what = END_OF_RECORD then
              (case sendWill this what of (r, this) \<Rightarrow> (r, RECV_EOR, this))
            else if what = TRANSMIT_BINARY then
              (case sendWill this what of (r, this) \<Rightarrow> (r, RECV_BINARY, this))
            else (0, 0, this))
         else (0, 0, this))
      in ((if retval < 0 then retval else option), this))"

text \<open>
  The client side. The reply has three bytes; for \<^verbatim>\<open>DONT\<close> and \<^verbatim>\<open>WONT\<close> the middle one is never
  assigned and sending it is a fault.
\<close>

definition negotiable :: "byte \<Rightarrow> bool" where
  "negotiable what \<longleftrightarrow> what = TERMINAL_TYPE \<or> what = END_OF_RECORD \<or> what = TRANSMIT_BINARY
     \<or> what = NEW_ENVIRON"

definition telnet_stream_do_verb :: "tnXstream \<Rightarrow> byte \<Rightarrow> byte \<Rightarrow> (int + tnXstream) option" where
  "telnet_stream_do_verb this verb what = do {
     reply1 \<leftarrow> (if verb = DO then Some (if negotiable what then WILL else WONT)
                else if verb = WILL then Some (if negotiable what then DO else DONT)
                else None);
     let (ret, this) = sock_send this [IAC, reply1, what];
     Some (if ret < 0 then Inl 5 else Inr this)
   }"

section \<open>Sub-negotiation\<close>

definition cell_at :: "byte option list \<Rightarrow> nat \<Rightarrow> byte option" where
  "cell_at m i = Option.bind (peek m i) id"

text \<open>The copy loop of \<^verbatim>\<open>telnet_stream_host_sb\<close>; \<open>n\<close> bytes are left.\<close>

fun copy_term :: "byte option list \<Rightarrow> nat \<Rightarrow> nat \<Rightarrow> tnXbuff \<Rightarrow> tnXbuff option" where
  "copy_term m i 0 tbuf = Some tbuf"
| "copy_term m i (Suc n) tbuf = do {
     b \<leftarrow> cell_at m i;
     if b = IAC then Some tbuf
     else do {
       tbuf \<leftarrow> tnX_buffer_append_byte tbuf b;
       copy_term m (i + 1) n tbuf
     }
   }"

definition telnet_stream_host_sb :: "tnXstream \<Rightarrow> byte option list \<Rightarrow> nat \<Rightarrow> tnXstream option" where
  "telnet_stream_host_sb this sb_buf sb_len =
     (if sb_len = 0 then Some this
      else do {
        sbType \<leftarrow> cell_at sb_buf 0;
        if sbType = TERMINAL_TYPE then do {
          tbuf \<leftarrow> copy_term sb_buf 2 (sb_len - 2) tnX_buffer_init;
          tbuf \<leftarrow> tnX_buffer_append_byte tbuf 0;
          term \<leftarrow> c_string (buff_bytes tbuf);
          tnX_stream_setenv this ''TERM'' (chars term)
        } else Some this
      })"

definition telnet_stream_sb_var_value :: "tnXbuff \<Rightarrow> string \<Rightarrow> string \<Rightarrow> tnXbuff option" where
  "telnet_stream_sb_var_value buf var val = do {
     buf \<leftarrow> tnX_buffer_append_byte buf VAR;
     buf \<leftarrow> tnX_buffer_append_data buf (bytes_of var) (int (length var));
     buf \<leftarrow> tnX_buffer_append_byte buf VALUE;
     tnX_buffer_append_data buf (bytes_of val) (int (length val))
   }"

fun sb_env_vars :: "tnXbuff \<Rightarrow> tnXconfig_str list \<Rightarrow> tnXbuff option" where
  "sb_env_vars buf [] = Some buf"
| "sb_env_vars buf ((name, val) # iter) = do {
     buf \<leftarrow> (if length name > 4 \<and> take 4 name = ''env.'' then
               (case val of
                  CONFIG_STRING v \<Rightarrow> telnet_stream_sb_var_value buf (drop 4 name) v
                | CONFIG_LIST _ \<Rightarrow> None)
             else Some buf);
     sb_env_vars buf iter
   }"

fun append_bytes :: "tnXbuff \<Rightarrow> byte list \<Rightarrow> tnXbuff option" where
  "append_bytes buf [] = Some buf"
| "append_bytes buf (b # bs) = do { buf \<leftarrow> tnX_buffer_append_byte buf b; append_bytes buf bs }"

text \<open>The client's answer to a sub-negotiation.\<close>

definition telnet_stream_sb :: "tnXstream \<Rightarrow> byte option list \<Rightarrow> nat \<Rightarrow> (int + tnXstream) option" where
  "telnet_stream_sb this sb_buf sb_len =
     (if sb_len = 0 then Some (Inr this)
      else do {
        sb0 \<leftarrow> cell_at sb_buf 0;
        if sb0 = TERMINAL_TYPE then do {
          sb1 \<leftarrow> cell_at sb_buf 1;
          if sb1 \<noteq> SEND then Some (Inr this)
          else do {
            v \<leftarrow> tnX_stream_getenv this ''TERM'';
            termtype \<leftarrow> (case v of CONFIG_STRING t \<Rightarrow> Some t | CONFIG_LIST _ \<Rightarrow> None);
            out_buf \<leftarrow> append_bytes tnX_buffer_init [IAC, SB, TERMINAL_TYPE, IS];
            out_buf \<leftarrow> tnX_buffer_append_data out_buf (bytes_of termtype) (int (length termtype));
            out_buf \<leftarrow> append_bytes out_buf [IAC, SE];
            let (ret, this) = sock_send this (buff_bytes out_buf);
            Some (if ret < 0 then Inl 5 else Inr (this\<lparr>st_status := st_status this OR TERMINAL\<rparr>))
          }
        } else if sb0 = NEW_ENVIRON then do {
          out_buf \<leftarrow> append_bytes tnX_buffer_init [IAC, SB, NEW_ENVIRON, IS];
          out_buf \<leftarrow> (case st_config this of
                        None \<Rightarrow> Some out_buf
                      | Some c \<Rightarrow> sb_env_vars out_buf (cf_vars c));
          out_buf \<leftarrow> append_bytes out_buf [IAC, SE];
          let (ret, this) = sock_send this (buff_bytes out_buf);
          Some (if ret < 0 then Inl 5 else Inr this)
        } else Some (Inr this)
      })"

section \<open>The receive state machine\<close>

text \<open>
  The outcome of the \<^verbatim>\<open>switch\<close> of \<^verbatim>\<open>telnet_stream_get_byte\<close>: on to the loop test with the
  local variables \<open>verb\<close> and \<open>temp\<close>, a return, or an exit of the program.
\<close>

datatype switch = Loop tnXstream "byte option" int | Return int tnXstream | Exit int

definition switch_have_iac :: "tnXstream \<Rightarrow> byte option \<Rightarrow> byte \<Rightarrow> switch" where
  "switch_have_iac this verb temp =
     (if temp = IAC then Loop (this\<lparr>st_state := DATA\<rparr>) verb (uint temp)
      else if temp = DO \<or> temp = DONT \<or> temp = WILL \<or> temp = WONT then
        Loop (this\<lparr>st_state := HAVE_VERB\<rparr>) (Some temp) (uint temp)
      else if temp = SB then
        Loop (this\<lparr>st_state := HAVE_SB, st_sb_buf := tnX_buffer_free (st_sb_buf this)\<rparr>) verb (uint temp)
      else if temp = EOR then Return (- 25) (this\<lparr>st_state := DATA\<rparr>)
      else Loop (this\<lparr>st_state := NO_DATA\<rparr>) verb (uint temp))"

text \<open>Reading \<open>verb\<close> before it is assigned is a fault.\<close>

definition switch_have_verb :: "tnXstream \<Rightarrow> byte option \<Rightarrow> byte \<Rightarrow> switch option" where
  "switch_have_verb this verb temp = do {
     v \<leftarrow> verb;
     if st_status this AND HOST \<noteq> 0 then
       (case telnet_stream_host_verb this v temp of (r, this) \<Rightarrow>
          if r < 0 then Some (Return (- 2) this)
          else Some (Loop (this\<lparr>st_state := NO_DATA\<rparr>) verb r))
     else do {
       r \<leftarrow> telnet_stream_do_verb this v temp;
       case r of
         Inl n \<Rightarrow> Some (Exit n)
       | Inr this \<Rightarrow> Some (Loop (this\<lparr>st_state := NO_DATA\<rparr>) verb (uint temp))
     }
   }"

definition switch_have_sb_iac :: "tnXstream \<Rightarrow> byte option \<Rightarrow> byte \<Rightarrow> switch option" where
  "switch_have_sb_iac this verb temp =
     (if temp = IAC then do {
        b \<leftarrow> tnX_buffer_append_byte (st_sb_buf this) IAC;
        Some (Loop (this\<lparr>st_sb_buf := b\<rparr>) verb (uint temp))
      } else if temp = SE then do {
        let data = tnX_buffer_data (st_sb_buf this);
        let len = tnX_buffer_length (st_sb_buf this);
        if st_status this AND HOST \<noteq> 0 then do {
          this \<leftarrow> telnet_stream_host_sb this data len;
          Some (Loop (this\<lparr>st_sb_buf := tnX_buffer_free (st_sb_buf this), st_state := NO_DATA\<rparr>) verb (uint temp))
        } else do {
          r \<leftarrow> telnet_stream_sb this data len;
          case r of
            Inl n \<Rightarrow> Some (Exit n)
          | Inr this \<Rightarrow>
              Some (Loop (this\<lparr>st_sb_buf := tnX_buffer_free (st_sb_buf this), st_state := NO_DATA\<rparr>) verb (uint temp))
        }
      } else Some (Loop (this\<lparr>st_state := HAVE_SB\<rparr>) verb (uint temp)))"

definition get_byte_switch :: "tnXstream \<Rightarrow> byte option \<Rightarrow> byte \<Rightarrow> switch option" where
  "get_byte_switch this verb temp =
     (case st_state this of
        DATA \<Rightarrow>
          Some (Loop (if temp = IAC then this\<lparr>st_state := HAVE_IAC\<rparr> else this) verb (uint temp))
      | HAVE_IAC \<Rightarrow> Some (switch_have_iac this verb temp)
      | HAVE_VERB \<Rightarrow> switch_have_verb this verb temp
      | HAVE_SB \<Rightarrow>
          (if temp = IAC then Some (Loop (this\<lparr>st_state := HAVE_SB_IAC\<rparr>) verb (uint temp))
           else do {
             b \<leftarrow> tnX_buffer_append_byte (st_sb_buf this) temp;
             Some (Loop (this\<lparr>st_sb_buf := b\<rparr>) verb (uint temp))
           })
      | HAVE_SB_IAC \<Rightarrow> switch_have_sb_iac this verb temp
      | NO_DATA \<Rightarrow> None)"

lemma sock_send_in [simp]: "sock_send this data = (r, this') \<Longrightarrow> st_in this' = st_in this"
  by (auto simp: sock_send_def split: list.splits tx.splits)

lemma host_verb_in: "telnet_stream_host_verb this v w = (r, this') \<Longrightarrow> st_in this' = st_in this"
  by (auto simp: telnet_stream_host_verb_def sendWill_def Let_def split: if_splits prod.splits)

lemma do_verb_in: "telnet_stream_do_verb this v w = Some (Inr this') \<Longrightarrow> st_in this' = st_in this"
  by (auto simp: telnet_stream_do_verb_def split: if_splits prod.splits bind_splits)

lemma host_sb_in: "telnet_stream_host_sb this b n = Some this' \<Longrightarrow> st_in this' = st_in this"
  by (auto simp: telnet_stream_host_sb_def tnX_stream_setenv_def split: if_splits bind_splits)

lemma stream_sb_in: "telnet_stream_sb this b n = Some (Inr this') \<Longrightarrow> st_in this' = st_in this"
  by (auto simp: telnet_stream_sb_def split: if_splits bind_splits prod.splits option.splits)

lemma get_byte_switch_in:
  "get_byte_switch this verb temp = Some (Loop this' verb' t') \<Longrightarrow> st_in this' = st_in this"
  "get_byte_switch this verb temp = Some (Return r this') \<Longrightarrow> st_in this' = st_in this"
  by (auto simp: get_byte_switch_def switch_have_iac_def switch_have_verb_def switch_have_sb_iac_def
      Let_def host_verb_in split: stream_state.splits if_splits bind_splits prod.splits sum.splits
      dest: do_verb_in host_sb_in stream_sb_in)

definition wake :: "tnXstream \<Rightarrow> tnXstream" where
  "wake this = (if st_state this = NO_DATA then this\<lparr>st_state := DATA\<rparr> else this)"

lemma get_next_in:
  "telnet_stream_get_next this = (t, this') \<Longrightarrow> 0 \<le> t \<Longrightarrow> length (st_in this') < length (st_in this)"
  "telnet_stream_get_next this = (t, this') \<Longrightarrow> length (st_in this') \<le> length (st_in this)"
  by (auto simp: telnet_stream_get_next_def split: list.splits rx.splits)

lemma wake_in [simp]: "st_in (wake this) = st_in this"
  by (simp add: wake_def)

text \<open>
  The \<^verbatim>\<open>do ... while\<close> of \<^verbatim>\<open>telnet_stream_get_byte\<close>. A negative result of
  \<^verbatim>\<open>telnet_stream_get_next\<close> is returned at once; every other turn uses up one byte.
\<close>

function (sequential) get_byte_loop ::
  "tnXstream \<Rightarrow> byte option \<Rightarrow> (int + int \<times> tnXstream) option" where
  "get_byte_loop this verb =
     (case telnet_stream_get_next (wake this) of (temp, this') \<Rightarrow>
        if temp < 0 then Some (Inr (temp, this'))
        else (case get_byte_switch this' verb (word_of_int temp) of
                None \<Rightarrow> None
              | Some (Exit n) \<Rightarrow> Some (Inl n)
              | Some (Return r this'') \<Rightarrow> Some (Inr (r, this''))
              | Some (Loop this'' verb' temp') \<Rightarrow>
                  if st_state this'' \<noteq> DATA then get_byte_loop this'' verb'
                  else Some (Inr (temp', this''))))"
  by pat_completeness auto

termination
proof (relation "measure (\<lambda>(this, verb). length (st_in this))", goal_cases)
  case (2 this verb temp this' sw this'' verb' temp')
  then show ?case
    using get_next_in(1) [of "wake this" temp this'] get_byte_switch_in(1) by auto
qed simp

declare get_byte_loop.simps [simp del]

definition telnet_stream_get_byte :: "tnXstream \<Rightarrow> (int + int \<times> tnXstream) option" where
  "telnet_stream_get_byte this = get_byte_loop this None"

lemma get_byte_loop_in:
  "get_byte_loop this verb = Some (Inr (c, this')) \<Longrightarrow> c \<noteq> - 1 \<Longrightarrow> c \<noteq> - 2 \<Longrightarrow>
   length (st_in this') < length (st_in this)"
proof (induction this verb rule: get_byte_loop.induct)
  case (1 this verb)
  obtain temp this1 where n: "telnet_stream_get_next (wake this) = (temp, this1)" by fastforce
  show ?case
  proof (cases "temp < 0")
    case True
    with n have "temp = - 1 \<or> temp = - 2"
      by (auto simp: telnet_stream_get_next_def split: list.splits rx.splits)
    with 1(2-4) n True show ?thesis by (auto simp: get_byte_loop.simps [of this])
  next
    case False
    with n have less: "length (st_in this1) < length (st_in this)"
      using get_next_in(1) [OF n] by simp
    from 1(2) n False obtain sw where sw: "get_byte_switch this1 verb (word_of_int temp) = Some sw"
      by (auto simp: get_byte_loop.simps [of this] split: option.splits)
    show ?thesis
    proof (cases sw)
      case (Loop this2 verb2 temp2)
      show ?thesis
      proof (cases "st_state this2 \<noteq> DATA")
        case True
        with 1(2) n False sw Loop have "get_byte_loop this2 verb2 = Some (Inr (c, this'))"
          by (simp add: get_byte_loop.simps [of this])
        from 1(1) [OF n [symmetric] False sw Loop True this 1(3,4)] less get_byte_switch_in(1)
        show ?thesis using sw Loop by fastforce
      next
        case st: False
        with 1(2) n False sw Loop have "this2 = this'" by (simp add: get_byte_loop.simps [of this])
        with less get_byte_switch_in(1) sw Loop show ?thesis by fastforce
      qed
    next
      case (Return r this2)
      with 1(2) n False sw have "this2 = this'" by (simp add: get_byte_loop.simps [of this])
      with less get_byte_switch_in(2) sw Return show ?thesis by fastforce
    next
      case (Exit k)
      with 1(2) n False sw show ?thesis by (simp add: get_byte_loop.simps [of this])
    qed
  qed
qed

text \<open>
  \<^verbatim>\<open>telnet_stream_handle_receive\<close>. \<^verbatim>\<open>tnX_record_new\<close> is given the next unused address. The
  boolean is the result of the function: false once the peer is gone.
\<close>

definition append_current :: "tnXstream \<Rightarrow> int \<Rightarrow> tnXstream option" where
  "append_current this c = do {
     this \<leftarrow> (if st_current_record this = None then do {
                (r, h) \<leftarrow> tnX_record_new (st_heap this) (st_brk this);
                Some (this\<lparr>st_current_record := r, st_heap := h, st_brk := st_brk this + 1\<rparr>)
              } else Some this);
     h \<leftarrow> tnX_record_append_byte (st_heap this) (st_current_record this) (word_of_int c);
     Some (this\<lparr>st_heap := h\<rparr>)
   }"

definition finish_record :: "tnXstream \<Rightarrow> tnXstream option" where
  "finish_record this = do {
     (l, h) \<leftarrow> tnX_record_list_add (st_heap this) (st_records this) (st_current_record this);
     Some (this\<lparr>st_records := l, st_heap := h, st_current_record := None,
                st_record_count := st_record_count this + 1\<rparr>)
   }"

lemma append_current_in [simp]: "append_current this c = Some this' \<Longrightarrow> st_in this' = st_in this"
  by (auto simp: append_current_def split: if_splits bind_splits)

lemma finish_record_in [simp]: "finish_record this = Some this' \<Longrightarrow> st_in this' = st_in this"
  by (auto simp: finish_record_def split: bind_splits)

definition receive_step :: "tnXstream \<Rightarrow> int \<Rightarrow> tnXstream option" where
  "receive_step this c =
     (if c = - 25 \<and> st_current_record this \<noteq> None then finish_record this else append_current this c)"

lemma receive_step_in: "receive_step this c = Some this' \<Longrightarrow> st_in this' = st_in this"
  by (auto simp: receive_step_def split: if_splits)

function (sequential) telnet_stream_handle_receive ::
  "tnXstream \<Rightarrow> (int + bool \<times> tnXstream) option" where
  "telnet_stream_handle_receive this =
     (case telnet_stream_get_byte this of
        None \<Rightarrow> None
      | Some (Inl n) \<Rightarrow> Some (Inl n)
      | Some (Inr (c, this')) \<Rightarrow>
          if c = - 1 \<or> c = - 2 then Some (Inr (c \<noteq> - 2, this'))
          else (case receive_step this' c of
                  None \<Rightarrow> None
                | Some this'' \<Rightarrow> telnet_stream_handle_receive this''))"
  by pat_completeness auto

termination
  by (relation "measure (\<lambda>this. length (st_in this))")
     (auto simp: telnet_stream_get_byte_def dest!: receive_step_in intro: get_byte_loop_in)

declare telnet_stream_handle_receive.simps [simp del]

section \<open>Sending packets\<close>

text \<open>The loop of \<^verbatim>\<open>telnet_stream_escape\<close> from position \<open>n\<close> on, \<open>k\<close> bytes before the end.\<close>

fun escape_loop :: "byte option list \<Rightarrow> nat \<Rightarrow> nat \<Rightarrow> tnXbuff \<Rightarrow> tnXbuff option" where
  "escape_loop m n 0 out = Some out"
| "escape_loop m n (Suc k) out = do {
     c \<leftarrow> cell_at m n;
     out \<leftarrow> tnX_buffer_append_byte out c;
     out \<leftarrow> (if c = IAC then tnX_buffer_append_byte out IAC else Some out);
     escape_loop m (n + 1) k out
   }"

definition telnet_stream_escape :: "tnXbuff \<Rightarrow> tnXbuff option" where
  "telnet_stream_escape buf = escape_loop (tnX_buffer_data buf) 0 (tnX_buffer_length buf) tnX_buffer_init"

definition tn3270_stream_send_packet ::
  "tnXstream \<Rightarrow> int \<Rightarrow> byte list \<Rightarrow> (int + tnXstream) option" where
  "tn3270_stream_send_packet this len data = do {
     out_buf \<leftarrow> tnX_buffer_append_data tnX_buffer_init data len;
     out_buf \<leftarrow> telnet_stream_escape out_buf;
     out_buf \<leftarrow> tnX_buffer_append_byte out_buf IAC;
     out_buf \<leftarrow> tnX_buffer_append_byte out_buf EOR;
     Some (telnet_stream_write this (buff_bytes out_buf))
   }"

section \<open>Life cycle\<close>

text \<open>\<^verbatim>\<open>select\<close> finds the socket readable.\<close>

definition readable :: "tnXstream \<Rightarrow> bool" where
  "readable this = (case st_in this of [] \<Rightarrow> False | e # _ \<Rightarrow> e \<noteq> RxNone)"

text \<open>
  The loop of \<^verbatim>\<open>telnet_stream_accept\<close> over \<^verbatim>\<open>hostDoTable\<close>; \<open>errno\<close> is its value after a failed
  call. The result is the return code of the function.
\<close>

fun accept_loop :: "int \<Rightarrow> tnXstream \<Rightarrow> byte list list \<Rightarrow> (int + int \<times> tnXstream) option" where
  "accept_loop errno this [] = Some (Inr (0, this))"
| "accept_loop errno this (cmd # cmds) =
     (case sock_send this cmd of (r, this) \<Rightarrow>
        if r < 0 then Some (Inr (errno, this))
        else if readable this then
          (case telnet_stream_handle_receive this of
             None \<Rightarrow> None
           | Some (Inl n) \<Rightarrow> Some (Inl n)
           | Some (Inr (ok, this)) \<Rightarrow>
               if \<not> ok then Some (Inr (if errno \<noteq> 0 then errno else - 1, this))
               else accept_loop errno this cmds)
        else Some (Inr (- 1, this)))"

definition telnet_stream_accept :: "int \<Rightarrow> tnXstream \<Rightarrow> (int + int \<times> tnXstream) option" where
  "telnet_stream_accept errno this =
     accept_loop errno (this\<lparr>st_state := DATA, st_status := HOST\<rparr>) hostDoTable"

definition streamInit :: "tnXstream \<Rightarrow> tnXstream" where
  "streamInit this = this\<lparr>st_status := 0, st_config := None, st_record_count := 0,
     st_records := None, st_current_record := None, st_streamtype := TN5250_STREAM,
     st_sb_buf := tnX_buffer_init\<rparr>"

text \<open>\<open>st_accept\<close>: the handler \<^verbatim>\<open>accept\<close> has been assigned.\<close>

definition tn5250_telnet_stream_init :: "tnXstream \<Rightarrow> tnXstream" where
  "tn5250_telnet_stream_init this = this\<lparr>st_streamtype := TN5250_STREAM\<rparr>"

definition tn3270_telnet_stream_init :: "tnXstream \<Rightarrow> tnXstream" where
  "tn3270_telnet_stream_init this = this\<lparr>st_accept := True, st_streamtype := TN3270_STREAM\<rparr>"

text \<open>The heap after \<^verbatim>\<open>tnX_stream_destroy\<close>; a record still being received is not freed.\<close>

definition tnX_stream_destroy :: "tnXstream \<Rightarrow> rec_heap option" where
  "tnX_stream_destroy this = do {
     (l, h) \<leftarrow> tnX_record_list_destroy (st_heap this) (st_records this);
     Some h
   }"

text \<open>
  \<^verbatim>\<open>tnX_stream_host\<close> on fresh storage \<open>mem\<close> (with the socket in it): the stream, or the heap
  that is left when NULL is returned. A call through \<^verbatim>\<open>accept\<close> before it is assigned is a fault.
\<close>

definition tnX_stream_host ::
  "int \<Rightarrow> tnXstream \<Rightarrow> int \<Rightarrow> (int + (rec_heap + tnXstream)) option" where
  "tnX_stream_host errno mem streamtype = do {
     let this = streamInit (mem\<lparr>st_accept := False\<rparr>);
     let this = (if streamtype = TN5250_STREAM then tn5250_telnet_stream_init this
                 else tn3270_telnet_stream_init this);
     if \<not> st_accept this then None
     else do {
       r \<leftarrow> telnet_stream_accept errno this;
       case r of
         Inl n \<Rightarrow> Some (Inl n)
       | Inr (ret, this) \<Rightarrow>
           if ret = 0 then Some (Inr (Inr this))
           else do { h \<leftarrow> tnX_stream_destroy this; Some (Inr (Inl h)) }
     }
   }"

definition tnX_stream_get_record :: "tnXstream \<Rightarrow> (ptr \<times> tnXstream) option" where
  "tnX_stream_get_record this = do {
     let record = st_records this;
     if \<not> st_record_count this \<ge> 1 \<or> record = None then None
     else do {
       (l, h) \<leftarrow> tnX_record_list_remove (st_heap this) (st_records this) record;
       r \<leftarrow> load h record;
       offset \<leftarrow> (if st_streamtype this = TN5250_STREAM then
                   (if tnX_buffer_length (r_data r) \<ge> 10 then do {
                      b \<leftarrow> cell_at (tnX_buffer_data (r_data r)) 6;
                      Some (6 + uint b)
                    } else None)
                 else Some 0);
       h \<leftarrow> store h record (\<lambda>r. r\<lparr>r_cur_pos := offset\<rparr>);
       Some (record, this\<lparr>st_records := l, st_heap := h, st_record_count := st_record_count this - 1\<rparr>)
     }
   }"

end
