(* ===== verification/Tn_Telnet.thy ===== *)
theory Tn_Telnet
  imports Tn_Stream
begin

text \<open>
  What the telnet stream does: the receive state machine refines a receiver of tokens, the
  records it hands out are the ones that were sent, and every packet goes out whole whatever the
  socket answers.
\<close>

section \<open>Turns of the receive loop\<close>

definition idle :: "tnXstream \<Rightarrow> bool" where
  "idle this \<longleftrightarrow> st_state this = DATA \<or> st_state this = NO_DATA"

text \<open>Updates of the stream in a fixed order, so that equal states look equal.\<close>

lemma stream_update_order [simp]:
  fixes s :: tnXstream
  shows
  "s\<lparr>st_in := i, st_state := st\<rparr> = s\<lparr>st_state := st, st_in := i\<rparr>"
  "s\<lparr>st_out := out, st_state := st\<rparr> = s\<lparr>st_state := st, st_out := out\<rparr>"
  "s\<lparr>st_sb_buf := b, st_state := st\<rparr> = s\<lparr>st_state := st, st_sb_buf := b\<rparr>"
  "s\<lparr>st_config := c, st_state := st\<rparr> = s\<lparr>st_state := st, st_config := c\<rparr>"
  "s\<lparr>st_out := out, st_in := i\<rparr> = s\<lparr>st_in := i, st_out := out\<rparr>"
  "s\<lparr>st_sb_buf := b, st_in := i\<rparr> = s\<lparr>st_in := i, st_sb_buf := b\<rparr>"
  "s\<lparr>st_config := c, st_in := i\<rparr> = s\<lparr>st_in := i, st_config := c\<rparr>"
  "s\<lparr>st_sb_buf := b, st_out := out\<rparr> = s\<lparr>st_out := out, st_sb_buf := b\<rparr>"
  "s\<lparr>st_config := c, st_out := out\<rparr> = s\<lparr>st_out := out, st_config := c\<rparr>"
  "s\<lparr>st_config := c, st_sb_buf := b\<rparr> = s\<lparr>st_sb_buf := b, st_config := c\<rparr>"
  by (cases s, simp)+

lemma get_byte_loop_byte:
  assumes "st_in this = RxByte b # r"
  shows "get_byte_loop this verb =
    (case get_byte_switch ((wake this)\<lparr>st_in := r\<rparr>) verb b of
       None \<Rightarrow> None
     | Some (Exit n) \<Rightarrow> Some (Inl n)
     | Some (Return c this') \<Rightarrow> Some (Inr (c, this'))
     | Some (Loop this' verb' temp) \<Rightarrow>
         if st_state this' \<noteq> DATA then get_byte_loop this' verb' else Some (Inr (temp, this')))"
  using assms by (subst get_byte_loop.simps) (simp add: telnet_stream_get_next_def)

lemma idle_wake: "idle this \<Longrightarrow> wake this = this\<lparr>st_state := DATA\<rparr>"
  by (cases this) (auto simp: idle_def wake_def)

lemma loop_idle_data:
  assumes "idle this" "st_in this = RxByte b # r" "b \<noteq> IAC"
  shows "get_byte_loop this verb = Some (Inr (uint b, this\<lparr>st_state := DATA, st_in := r\<rparr>))"
  using assms by (simp add: get_byte_loop_byte idle_wake get_byte_switch_def)

lemma loop_idle_iac:
  assumes "idle this" "st_in this = RxByte IAC # r"
  shows "get_byte_loop this verb = get_byte_loop (this\<lparr>st_state := HAVE_IAC, st_in := r\<rparr>) verb"
  using assms by (simp add: get_byte_loop_byte idle_wake get_byte_switch_def)

lemma loop_iac:
  assumes "st_state this = HAVE_IAC" "st_in this = RxByte b # r"
  shows "get_byte_loop this verb =
    (if b = IAC then Some (Inr (255, this\<lparr>st_state := DATA, st_in := r\<rparr>))
     else if b = DO \<or> b = DONT \<or> b = WILL \<or> b = WONT then
       get_byte_loop (this\<lparr>st_state := HAVE_VERB, st_in := r\<rparr>) (Some b)
     else if b = SB then
       get_byte_loop (this\<lparr>st_state := HAVE_SB, st_in := r, st_sb_buf := tnX_buffer_init\<rparr>) verb
     else if b = EOR then Some (Inr (- 25, this\<lparr>st_state := DATA, st_in := r\<rparr>))
     else get_byte_loop (this\<lparr>st_state := NO_DATA, st_in := r\<rparr>) verb)"
  using assms
  by (simp add: get_byte_loop_byte wake_def get_byte_switch_def switch_have_iac_def
      tnX_buffer_free_eq)

lemma loop_sb_byte:
  assumes "st_state this = HAVE_SB" "st_in this = RxByte b # r" "b \<noteq> IAC" "buff_inv (st_sb_buf this)"
  shows "\<exists>buf. get_byte_loop this verb = get_byte_loop (this\<lparr>st_in := r, st_sb_buf := buf\<rparr>) verb
    \<and> buff_inv buf \<and> buff_bytes buf = buff_bytes (st_sb_buf this) @ [b]"
proof -
  from tnX_buffer_append_byte_ok [OF assms(4)] obtain buf
    where "tnX_buffer_append_byte (st_sb_buf this) b = Some buf" "buff_inv buf"
      "buff_bytes buf = buff_bytes (st_sb_buf this) @ [b]" by blast
  with assms(1-3) show ?thesis
    by (intro exI [of _ buf]) (simp add: get_byte_loop_byte wake_def get_byte_switch_def)
qed

lemma loop_sb_iac:
  assumes "st_state this = HAVE_SB" "st_in this = RxByte IAC # r"
  shows "get_byte_loop this verb = get_byte_loop (this\<lparr>st_state := HAVE_SB_IAC, st_in := r\<rparr>) verb"
  using assms by (simp add: get_byte_loop_byte wake_def get_byte_switch_def)

section \<open>Tokens\<close>

text \<open>
  What a peer sends, token by token: a data byte (0xFF doubled), the end of a record, an option
  request, or a sub-negotiation. \<open>verbs\<close> are the four requests.
\<close>

datatype token = TData byte | TEor | TVerb byte byte | TSub "byte list"

definition verbs :: "byte list" where
  "verbs = [DO, DONT, WILL, WONT]"

fun encode :: "token \<Rightarrow> byte list" where
  "encode (TData b) = (if b = IAC then [IAC, IAC] else [b])"
| "encode TEor = [IAC, EOR]"
| "encode (TVerb v w) = [IAC, v, w]"
| "encode (TSub p) = [IAC, SB] @ p @ [IAC, SE]"

fun token_ok :: "token \<Rightarrow> bool" where
  "token_ok (TVerb v w) = (v \<in> set verbs)"
| "token_ok (TSub p) = (IAC \<notin> set p)"
| "token_ok _ = True"

text \<open>The bytes the gateway answers an option request with.\<close>

fun host_reply :: "token \<Rightarrow> byte list" where
  "host_reply (TVerb v w) =
     (if v = WILL then
        (if w = NEW_ENVIRON then SB_Str_NewEnv
         else if w = TERMINAL_TYPE then SB_Str_TermType
         else if w = END_OF_RECORD \<or> w = TRANSMIT_BINARY then [IAC, WILL, w] else [])
      else [])"
| "host_reply _ = []"

lemma sock_send_all: "st_tx this = [] \<Longrightarrow> sock_send this d = (int (length d), this\<lparr>st_out := st_out this @ d\<rparr>)"
  by (simp add: sock_send_def)

lemma host_verb_reply:
  assumes "st_tx this = []"
  shows "\<exists>opt. telnet_stream_host_verb this v w = (opt, this\<lparr>st_out := st_out this @ host_reply (TVerb v w)\<rparr>)
    \<and> 0 \<le> opt"
  using assms by (simp add: telnet_stream_host_verb_def sock_send_all sendWill_def)

lemma loop_verb:
  assumes "st_state this = HAVE_VERB" "st_in this = RxByte w # r" "st_tx this = []"
    "st_status this AND HOST \<noteq> 0"
  shows "get_byte_loop this (Some v) =
    get_byte_loop (this\<lparr>st_state := NO_DATA, st_in := r, st_out := st_out this @ host_reply (TVerb v w)\<rparr>) (Some v)"
proof -
  obtain opt where "telnet_stream_host_verb (this\<lparr>st_in := r\<rparr>) v w =
      (opt, this\<lparr>st_in := r, st_out := st_out this @ host_reply (TVerb v w)\<rparr>)" "0 \<le> opt"
    using host_verb_reply [of "this\<lparr>st_in := r\<rparr>" v w] assms(3)
    by (auto simp del: host_reply.simps)
  with assms show ?thesis
    by (simp add: get_byte_loop_byte wake_def get_byte_switch_def switch_have_verb_def
        del: host_reply.simps)
qed

lemma token_data:
  assumes "idle this" "st_in this = map RxByte (encode (TData b)) @ r"
  shows "get_byte_loop this verb = Some (Inr (uint b, this\<lparr>st_state := DATA, st_in := r\<rparr>))"
proof (cases "b = IAC")
  case True
  with assms show ?thesis
    by (simp add: loop_idle_iac loop_iac)
next
  case False
  with assms show ?thesis by (simp add: loop_idle_data)
qed

lemma token_eor:
  assumes "idle this" "st_in this = map RxByte (encode TEor) @ r"
  shows "get_byte_loop this verb = Some (Inr (- 25, this\<lparr>st_state := DATA, st_in := r\<rparr>))"
  using assms by (simp add: loop_idle_iac loop_iac)

lemma token_verb:
  assumes "idle this" "st_in this = map RxByte (encode (TVerb v w)) @ r" "v \<in> set verbs"
    "st_tx this = []" "st_status this AND HOST \<noteq> 0"
  shows "get_byte_loop this verb =
    get_byte_loop (this\<lparr>st_state := NO_DATA, st_in := r, st_out := st_out this @ host_reply (TVerb v w)\<rparr>) (Some v)"
proof -
  from assms(3) have "v \<noteq> IAC" "v = DO \<or> v = DONT \<or> v = WILL \<or> v = WONT"
    by (auto simp: verbs_def)
  with assms show ?thesis
    by (simp add: loop_idle_iac loop_iac loop_verb del: host_reply.simps)
qed

lemma sub_bytes:
  "st_state this = HAVE_SB \<Longrightarrow> st_in this = map RxByte p @ r \<Longrightarrow> IAC \<notin> set p \<Longrightarrow>
   buff_inv (st_sb_buf this) \<Longrightarrow>
   \<exists>buf. get_byte_loop this verb = get_byte_loop (this\<lparr>st_in := r, st_sb_buf := buf\<rparr>) verb
     \<and> buff_inv buf \<and> buff_bytes buf = buff_bytes (st_sb_buf this) @ p"
proof (induction p arbitrary: this)
  case Nil
  then have "this\<lparr>st_in := r, st_sb_buf := st_sb_buf this\<rparr> = this" by (cases this) simp
  with Nil.prems(4) show ?case by (intro exI [of _ "st_sb_buf this"]) (simp only: append_Nil2)
next
  case (Cons b p)
  then obtain buf where buf: "get_byte_loop this verb =
        get_byte_loop (this\<lparr>st_in := map RxByte p @ r, st_sb_buf := buf\<rparr>) verb"
      "buff_inv buf" "buff_bytes buf = buff_bytes (st_sb_buf this) @ [b]"
    using loop_sb_byte [of this b "map RxByte p @ r" verb] by auto
  from Cons.IH [of "this\<lparr>st_in := map RxByte p @ r, st_sb_buf := buf\<rparr>"] Cons.prems buf
  show ?case by auto
qed

section \<open>Sub-negotiation\<close>

lemma cell_at_buffer:
  assumes "buff_inv buf" "i < length (buff_bytes buf)"
  shows "cell_at (tnX_buffer_data buf) i = Some (buff_bytes buf ! i)"
proof -
  from assms obtain m where m: "tb_data buf = Some m" "length m = tb_allocated buf"
      "tb_len buf < length m" "None \<notin> set (take (tb_len buf) m)" "i < tb_len buf"
    by (auto simp: buff_inv_def buff_bytes_def split: option.splits)
  then have "m ! i \<in> set (take (tb_len buf) m)"
    by (auto simp: in_set_conv_nth intro!: exI [of _ i])
  with m(4) have "m ! i \<noteq> None" by metis
  with m show ?thesis
    by (auto simp: cell_at_def peek_def tnX_buffer_data_def buff_bytes_def)
qed

lemma copy_term_ok:
  "(\<And>j. j < length bs \<Longrightarrow> cell_at m j = Some (bs ! j)) \<Longrightarrow> i + n \<le> length bs \<Longrightarrow> buff_inv tbuf \<Longrightarrow>
   \<exists>t. copy_term m i n tbuf = Some t \<and> buff_inv t
     \<and> buff_bytes t = buff_bytes tbuf @ takeWhile (\<lambda>b. b \<noteq> IAC) (take n (drop i bs))"
proof (induction n arbitrary: i tbuf)
  case 0
  then show ?case by simp
next
  case (Suc n)
  then have c: "cell_at m i = Some (bs ! i)" "drop i bs = bs ! i # drop (Suc i) bs"
    by (auto simp: Cons_nth_drop_Suc)
  show ?case
  proof (cases "bs ! i = IAC")
    case True
    with c Suc.prems(3) show ?thesis by simp
  next
    case False
    from tnX_buffer_append_byte_ok [OF Suc.prems(3)] obtain t
      where t: "tnX_buffer_append_byte tbuf (bs ! i) = Some t" "buff_inv t"
        "buff_bytes t = buff_bytes tbuf @ [bs ! i]" by blast
    from Suc.IH [of "Suc i" t] Suc.prems t c False show ?thesis by auto
  qed
qed

text \<open>The terminal type a sub-negotiation carries: behind the option and \<^verbatim>\<open>IS\<close>, up to a NUL.\<close>

definition term_of_sub :: "byte list \<Rightarrow> string" where
  "term_of_sub p = chars (takeWhile (\<lambda>b. b \<noteq> 0) (takeWhile (\<lambda>b. b \<noteq> IAC) (drop 2 p)))"

definition set_term :: "tnXconfig option \<Rightarrow> string \<Rightarrow> tnXconfig option" where
  "set_term conf t =
     tnX_config_set (case conf of None \<Rightarrow> tnX_config_new | Some c \<Rightarrow> c) ''env.TERM'' (CONFIG_STRING t)"

definition sub_config :: "tnXconfig option \<Rightarrow> byte list \<Rightarrow> tnXconfig option" where
  "sub_config conf p =
     (if p \<noteq> [] \<and> hd p = TERMINAL_TYPE then set_term conf (term_of_sub p) else conf)"

lemma set_string_total: "\<exists>c'. tnX_config_set c n (CONFIG_STRING v) = Some c'"
  by (auto simp: tnX_config_set_def split: option.splits conf_value.splits)

lemma takeWhile_nul_snoc: "c_string (bs @ [0]) = Some (takeWhile (\<lambda>b. b \<noteq> 0) bs)"
  by (induction bs) (auto simp: c_string_def)

lemma host_sb_ok:
  assumes "buff_inv buf"
  shows "telnet_stream_host_sb this (tnX_buffer_data buf) (tnX_buffer_length buf) =
    Some (this\<lparr>st_config := sub_config (st_config this) (buff_bytes buf)\<rparr>)"
proof (cases "buff_bytes buf")
  case Nil
  with length_buff_bytes [OF assms] show ?thesis
    by (simp add: telnet_stream_host_sb_def sub_config_def)
next
  case (Cons b bs)
  let ?bs = "buff_bytes buf" and ?n = "tnX_buffer_length buf"
  note len = length_buff_bytes [OF assms]
  have n: "?n \<noteq> 0" "cell_at (tnX_buffer_data buf) 0 = Some b" "take (?n - 2) (drop 2 ?bs) = drop 2 ?bs"
    using len Cons cell_at_buffer [OF assms, of 0] by auto
  show ?thesis
  proof (cases "b = TERMINAL_TYPE")
    case False
    with n Cons show ?thesis by (simp add: telnet_stream_host_sb_def sub_config_def)
  next
    case True
    have "\<exists>t. copy_term (tnX_buffer_data buf) 2 (?n - 2) tnX_buffer_init = Some t \<and> buff_inv t
        \<and> buff_bytes t = takeWhile (\<lambda>b. b \<noteq> IAC) (drop 2 ?bs)"
    proof (cases "?n < 2")
      case True
      then show ?thesis using len by simp
    next
      case False
      then show ?thesis
        using copy_term_ok [of ?bs "tnX_buffer_data buf" 2 "?n - 2" tnX_buffer_init] len n(3)
          cell_at_buffer [OF assms] by auto
    qed
    then obtain t where t: "copy_term (tnX_buffer_data buf) 2 (?n - 2) tnX_buffer_init = Some t"
        "buff_inv t" "buff_bytes t = takeWhile (\<lambda>b. b \<noteq> IAC) (drop 2 ?bs)" by blast
    from tnX_buffer_append_byte_ok [OF t(2), of 0] obtain u
      where u: "tnX_buffer_append_byte t 0 = Some u" "buff_bytes u = buff_bytes t @ [0]" by blast
    obtain c' where "set_term (st_config this) (term_of_sub ?bs) = Some c'"
      using set_string_total unfolding set_term_def by blast
    with n t u True Cons show ?thesis
      by (simp add: telnet_stream_host_sb_def sub_config_def takeWhile_nul_snoc tnX_stream_setenv_def
          set_term_def term_of_sub_def)
  qed
qed

lemma token_sub:
  assumes "idle this" "st_in this = map RxByte (encode (TSub p)) @ r" "IAC \<notin> set p"
    "st_status this AND HOST \<noteq> 0"
  shows "get_byte_loop this verb =
    get_byte_loop (this\<lparr>st_state := NO_DATA, st_in := r, st_sb_buf := tnX_buffer_init,
      st_config := sub_config (st_config this) p\<rparr>) verb"
proof -
  let ?s = "this\<lparr>st_state := HAVE_SB, st_in := map RxByte p @ map RxByte [IAC, SE] @ r,
              st_sb_buf := tnX_buffer_init\<rparr>"
  have "get_byte_loop this verb = get_byte_loop ?s verb"
    using assms by (simp add: loop_idle_iac loop_iac)
  also obtain buf where "get_byte_loop ?s verb =
      get_byte_loop (?s\<lparr>st_in := map RxByte [IAC, SE] @ r, st_sb_buf := buf\<rparr>) verb"
    and buf: "buff_inv buf" "buff_bytes buf = p"
    using sub_bytes [of ?s p "map RxByte [IAC, SE] @ r" verb] assms(3) by auto
  note this(1)
  also have "get_byte_loop (?s\<lparr>st_in := map RxByte [IAC, SE] @ r, st_sb_buf := buf\<rparr>) verb =
      get_byte_loop (this\<lparr>st_state := HAVE_SB_IAC, st_in := RxByte SE # r, st_sb_buf := buf\<rparr>) verb"
    by (simp add: loop_sb_iac)
  also have "\<dots> = get_byte_loop (this\<lparr>st_state := NO_DATA, st_in := r, st_sb_buf := tnX_buffer_init,
      st_config := sub_config (st_config this) p\<rparr>) verb"
    using assms(4) host_sb_ok [OF buf(1)] buf(2)
    by (simp add: get_byte_loop_byte wake_def get_byte_switch_def switch_have_sb_iac_def tnX_buffer_free_eq)
  finally show ?thesis .
qed

section \<open>The records the stream holds\<close>

definition rec_bytes :: "rec_heap \<Rightarrow> addr \<Rightarrow> byte list" where
  "rec_bytes h a = buff_bytes (r_data (the (h a)))"

definition heap_inv :: "rec_heap \<Rightarrow> addr \<Rightarrow> bool" where
  "heap_inv h brk \<longleftrightarrow> (\<forall>a \<in> dom h. a < brk \<and> buff_inv (r_data (the (h a))))"

text \<open>
  The invariant of a stream, with what it represents: the finished records in order and the one
  being received. \<open>xs\<close> are the addresses of the finished records.
\<close>

definition stream_holds :: "tnXstream \<Rightarrow> addr list \<Rightarrow> byte list list \<Rightarrow> byte list option \<Rightarrow> bool" where
  "stream_holds this xs rs cur \<longleftrightarrow>
     ring (st_heap this) xs \<and> st_records this = ring_ptr xs
     \<and> st_record_count this = int (length xs)
     \<and> heap_inv (st_heap this) (st_brk this)
     \<and> (\<forall>c. st_current_record this = Some c \<longrightarrow> c \<in> dom (st_heap this) \<and> c \<notin> set xs)
     \<and> rs = map (rec_bytes (st_heap this)) xs
     \<and> cur = map_option (rec_bytes (st_heap this)) (st_current_record this)"

definition represents :: "tnXstream \<Rightarrow> byte list list \<Rightarrow> byte list option \<Rightarrow> bool" where
  "represents this rs cur \<longleftrightarrow> (\<exists>xs. stream_holds this xs rs cur)"

text \<open>The part of the state that receiving a byte may change.\<close>

definition same_io :: "tnXstream \<Rightarrow> tnXstream \<Rightarrow> bool" where
  "same_io s t \<longleftrightarrow> st_config t = st_config s \<and> st_status t = st_status s \<and> st_state t = st_state s
     \<and> st_in t = st_in s \<and> st_sel t = st_sel s \<and> st_tx t = st_tx s \<and> st_out t = st_out s
     \<and> st_streamtype t = st_streamtype s \<and> st_sb_buf t = st_sb_buf s"

lemma represents_io [simp]:
  "represents (this\<lparr>st_state := st\<rparr>) rs cur = represents this rs cur"
  "represents (this\<lparr>st_in := i\<rparr>) rs cur = represents this rs cur"
  "represents (this\<lparr>st_out := o'\<rparr>) rs cur = represents this rs cur"
  "represents (this\<lparr>st_sb_buf := b\<rparr>) rs cur = represents this rs cur"
  "represents (this\<lparr>st_config := c\<rparr>) rs cur = represents this rs cur"
  by (simp_all add: represents_def stream_holds_def)

lemma ring_cong:
  assumes "ring h xs" "\<And>a. a \<in> set xs \<Longrightarrow> h' a = h a"
  shows "ring h' xs"
proof (cases xs)
  case Nil
  then show ?thesis by (simp add: ring_def)
next
  case (Cons x ys)
  have "path h' (xs @ [hd xs]) = path h (xs @ [hd xs])"
    by (rule path_cong) (use assms(2) Cons in \<open>auto simp: nxt_def prv_def\<close>)
  with assms Cons show ?thesis by (auto simp: ring_def dom_def)
qed

lemma record_append_ok:
  assumes "h a = Some r" "buff_inv (r_data r)"
  shows "\<exists>d. tnX_record_append_byte h (Some a) c = Some (h(a \<mapsto> r\<lparr>r_data := d\<rparr>)) \<and> buff_inv d
    \<and> buff_bytes d = buff_bytes (r_data r) @ [c]"
  using tnX_buffer_append_byte_ok [OF assms(2), of c] assms(1)
  by (auto simp: tnX_record_append_byte_def load_def store_def)

lemma holds_current:
  assumes "stream_holds this xs rs (Some b)"
  obtains a where "st_current_record this = Some a" "a \<in> dom (st_heap this)" "a \<notin> set xs"
    "b = rec_bytes (st_heap this) a"
  using assms by (cases "st_current_record this") (auto simp: stream_holds_def)

lemma append_to_current:
  assumes h: "stream_holds this xs rs (Some b)"
  shows "\<exists>this'. append_current this c = Some this' \<and> same_io this this'
    \<and> stream_holds this' xs rs (Some (b @ [word_of_int c]))"
proof -
  from h obtain a where a: "st_current_record this = Some a" "a \<in> dom (st_heap this)" "a \<notin> set xs"
      "b = rec_bytes (st_heap this) a"
    by (rule holds_current)
  then obtain r where r: "st_heap this a = Some r" by auto
  have "heap_inv (st_heap this) (st_brk this)" using h by (simp add: stream_holds_def)
  with r have "buff_inv (r_data r)" unfolding heap_inv_def by (metis domI option.sel)
  with record_append_ok [of "st_heap this" a r "word_of_int c"] r obtain d
    where d: "tnX_record_append_byte (st_heap this) (Some a) (word_of_int c) =
        Some ((st_heap this)(a \<mapsto> r\<lparr>r_data := d\<rparr>))" "buff_inv d"
      "buff_bytes d = buff_bytes (r_data r) @ [word_of_int c]" by auto
  let ?h = "(st_heap this)(a \<mapsto> r\<lparr>r_data := d\<rparr>)"
  have "ring ?h xs" by (rule ring_cong [of "st_heap this"]) (use h a in \<open>auto simp: stream_holds_def\<close>)
  then have "stream_holds (this\<lparr>st_heap := ?h\<rparr>) xs rs (Some (b @ [word_of_int c]))"
    using h a d r by (auto simp: stream_holds_def heap_inv_def rec_bytes_def)
  moreover have "append_current this c = Some (this\<lparr>st_heap := ?h\<rparr>)"
    using a d by (simp add: append_current_def)
  ultimately show ?thesis by (auto simp: same_io_def)
qed

lemma start_record:
  assumes h: "stream_holds this xs rs None"
  defines "this' \<equiv> this\<lparr>st_current_record := Some (st_brk this),
      st_heap := (st_heap this)(st_brk this \<mapsto> \<lparr>r_prev = None, r_next = None,
                      r_data = tnX_buffer_init, r_cur_pos = 0\<rparr>), st_brk := st_brk this + 1\<rparr>"
  shows "append_current this c = append_current this' c" "stream_holds this' xs rs (Some [])"
    "same_io this this'"
proof -
  from h have free: "st_heap this (st_brk this) = None" "st_current_record this = None"
    by (auto simp: stream_holds_def heap_inv_def dom_def split: option.splits)
  have notin: "st_brk this \<notin> set xs"
    using h free(1) by (auto simp: stream_holds_def ring_def)
  show "append_current this c = append_current this' c"
    using free by (simp add: append_current_def this'_def tnX_record_new_def)
  have "ring (st_heap this') xs"
    by (rule ring_cong [of "st_heap this"]) (use h notin in \<open>auto simp: stream_holds_def this'_def\<close>)
  then show "stream_holds this' xs rs (Some [])"
    using h notin
    by (auto simp: stream_holds_def this'_def heap_inv_def rec_bytes_def less_Suc_eq)
  show "same_io this this'" by (simp add: same_io_def this'_def)
qed

lemma append_current_ok:
  assumes "represents this rs cur"
  shows "\<exists>this'. append_current this c = Some this' \<and> same_io this this'
    \<and> represents this' rs (Some ((case cur of None \<Rightarrow> [] | Some b \<Rightarrow> b) @ [word_of_int c]))"
proof -
  from assms obtain xs where h: "stream_holds this xs rs cur" by (auto simp: represents_def)
  show ?thesis
  proof (cases cur)
    case None
    note st = start_record [OF h [unfolded None]]
    from append_to_current [OF st(2), of c] st(1,3) None show ?thesis
      by (auto simp: represents_def same_io_def)
  next
    case (Some b)
    from append_to_current [OF h [unfolded Some], of c] Some show ?thesis
      by (auto simp: represents_def)
  qed
qed

lemma finish_record_ok:
  assumes "represents this rs (Some b)"
  shows "\<exists>this'. finish_record this = Some this' \<and> same_io this this' \<and> represents this' (rs @ [b]) None"
proof -
  from assms obtain xs where h: "stream_holds this xs rs (Some b)" by (auto simp: represents_def)
  then obtain a where a: "st_current_record this = Some a" "a \<in> dom (st_heap this)" "a \<notin> set xs"
      "b = rec_bytes (st_heap this) a"
    by (rule holds_current)
  from list_add_ring [of "st_heap this" xs a] h a obtain h'
    where h': "tnX_record_list_add (st_heap this) (ring_ptr xs) (Some a) = Some (ring_ptr (xs @ [a]), h')"
      "ring h' (xs @ [a])" "payload h' = payload (st_heap this)" "dom h' = dom (st_heap this)"
    by (auto simp: stream_holds_def)
  have data: "r_data (the (h' x)) = r_data (the (st_heap this x))" if "x \<in> dom (st_heap this)" for x
  proof -
    from that h'(4) obtain r r' where "st_heap this x = Some r" "h' x = Some r'"
      by (metis domD)
    with fun_cong [OF h'(3), of x] show ?thesis by (simp add: payload_def)
  qed
  let ?t = "this\<lparr>st_records := ring_ptr (xs @ [a]), st_heap := h', st_current_record := None,
                st_record_count := st_record_count this + 1\<rparr>"
  have "finish_record this = Some ?t" using h h' a by (simp add: finish_record_def stream_holds_def)
  moreover have "stream_holds ?t (xs @ [a]) (rs @ [b]) None"
    using h h' a data ring_mem [OF h'(2)]
    by (auto simp: stream_holds_def heap_inv_def rec_bytes_def)
  moreover have "same_io this ?t" by (simp add: same_io_def)
  ultimately show ?thesis unfolding represents_def by blast
qed

section \<open>The receiver as a specification\<close>

text \<open>
  The finished records and the open one, token by token. An end of record without an open
  record does not close anything: the marker itself, cut to a byte, starts a new record.
\<close>

type_synonym receiver = "byte list list \<times> byte list option"

fun receive_token :: "receiver \<Rightarrow> token \<Rightarrow> receiver" where
  "receive_token (rs, cur) (TData b) = (rs, Some ((case cur of None \<Rightarrow> [] | Some bs \<Rightarrow> bs) @ [b]))"
| "receive_token (rs, Some bs) TEor = (rs @ [bs], None)"
| "receive_token (rs, None) TEor = (rs, Some [0xE7])"
| "receive_token (rs, cur) (TVerb v w) = (rs, cur)"
| "receive_token (rs, cur) (TSub p) = (rs, cur)"

text \<open>\<^verbatim>\<open>telnet_stream_handle_receive\<close> with the local variable \<open>verb\<close> of its first byte exposed.\<close>

definition receive_from :: "tnXstream \<Rightarrow> byte option \<Rightarrow> (int + bool \<times> tnXstream) option" where
  "receive_from this verb =
     (case get_byte_loop this verb of
        None \<Rightarrow> None
      | Some (Inl n) \<Rightarrow> Some (Inl n)
      | Some (Inr (c, this')) \<Rightarrow>
          if c = - 1 \<or> c = - 2 then Some (Inr (c \<noteq> - 2, this'))
          else (case receive_step this' c of
                  None \<Rightarrow> None
                | Some this'' \<Rightarrow> telnet_stream_handle_receive this''))"

lemma handle_receive_from: "telnet_stream_handle_receive this = receive_from this None"
  by (subst telnet_stream_handle_receive.simps) (simp add: receive_from_def telnet_stream_get_byte_def)

text \<open>A host stream between two tokens whose socket takes every answer.\<close>

definition host_ready :: "tnXstream \<Rightarrow> bool" where
  "host_ready this \<longleftrightarrow> idle this \<and> st_tx this = [] \<and> st_status this AND HOST \<noteq> 0"

lemma uint_byte_code: "uint (b :: byte) \<noteq> - 1" "uint (b :: byte) \<noteq> - 2" "uint (b :: byte) \<noteq> - 25"
  using unsigned_greater_eq [of b, where ?'a = int] by linarith+

text \<open>One token: the receiver goes on behind it, in a state that represents the specified one.\<close>

lemma receive_one_token:
  assumes "host_ready this" "represents this rs cur" "token_ok t"
    "st_in this = map RxByte (encode t) @ r"
  shows "\<exists>this' verb'. receive_from this verb = receive_from this' verb' \<and> host_ready this'
    \<and> st_in this' = r \<and> represents this' (fst (receive_token (rs, cur) t)) (snd (receive_token (rs, cur) t))
    \<and> st_out this' = st_out this @ host_reply t
    \<and> st_config this' = (case t of TSub p \<Rightarrow> sub_config (st_config this) p | _ \<Rightarrow> st_config this)"
proof (cases t)
  case (TData b)
  let ?s = "this\<lparr>st_state := DATA, st_in := r\<rparr>"
  from append_current_ok [of ?s rs cur "uint b"] assms(2) obtain s'
    where s': "append_current ?s (uint b) = Some s'" "same_io ?s s'"
      "represents s' rs (Some ((case cur of None \<Rightarrow> [] | Some b \<Rightarrow> b) @ [b]))" by auto
  have "receive_from this verb = receive_from s' None"
    using assms(1,4) TData s'(1)
    by (simp add: receive_from_def [of this] token_data host_ready_def uint_byte_code receive_step_def
        handle_receive_from del: encode.simps)
  with s' assms(1) TData show ?thesis
    by (intro exI [of _ s'] exI [of _ None]) (auto simp: same_io_def host_ready_def idle_def)
next
  case TEor
  let ?s = "this\<lparr>st_state := DATA, st_in := r\<rparr>"
  have cur: "st_current_record this = None \<longleftrightarrow> cur = None"
    using assms(2) by (auto simp: represents_def stream_holds_def)
  obtain s' where s': "receive_step ?s (- 25) = Some s'" "same_io ?s s'"
      "represents s' (fst (receive_token (rs, cur) t)) (snd (receive_token (rs, cur) t))"
  proof (cases cur)
    case None
    have "(- 25 :: byte) = 0xE7" by simp
    with None append_current_ok [of ?s rs cur "- 25"] assms(2) cur that TEor show ?thesis
      by (auto simp: receive_step_def)
  next
    case (Some b)
    with finish_record_ok [of ?s rs b] assms(2) cur that TEor show ?thesis
      by (auto simp: receive_step_def)
  qed
  have "receive_from this verb = receive_from s' None"
    using assms(1,4) TEor s'(1)
    by (simp add: receive_from_def [of this] token_eor host_ready_def handle_receive_from del: encode.simps)
  with s' assms(1) TEor show ?thesis
    by (intro exI [of _ s'] exI [of _ None]) (auto simp: same_io_def host_ready_def idle_def)
next
  case (TVerb v w)
  let ?s = "this\<lparr>st_state := NO_DATA, st_in := r, st_out := st_out this @ host_reply (TVerb v w)\<rparr>"
  have "receive_from this verb = receive_from ?s (Some v)"
    unfolding receive_from_def
    by (subst token_verb [of this v w r])
       (use assms TVerb in \<open>auto simp: host_ready_def simp del: host_reply.simps\<close>)
  with assms TVerb show ?thesis
    by (intro exI [of _ ?s] exI [of _ "Some v"]) (auto simp: host_ready_def idle_def)
next
  case (TSub p)
  let ?s = "this\<lparr>st_state := NO_DATA, st_in := r, st_sb_buf := tnX_buffer_init,
      st_config := sub_config (st_config this) p\<rparr>"
  have "receive_from this verb = receive_from ?s verb"
    unfolding receive_from_def
    by (subst token_sub [of this p r]) (use assms TSub in \<open>auto simp: host_ready_def\<close>)
  with assms TSub show ?thesis
    by (intro exI [of _ ?s] exI [of _ verb]) (auto simp: host_ready_def idle_def)
qed

lemma receive_end:
  assumes "host_ready this" "st_in this = [] \<or> st_in this = RxNone # r"
  shows "receive_from this verb = Some (Inr (True, (wake this)\<lparr>st_in := drop 1 (st_in this)\<rparr>))"
proof -
  have "get_byte_loop this verb = Some (Inr (- 1, (wake this)\<lparr>st_in := drop 1 (st_in this)\<rparr>))"
    using assms(2) by (subst get_byte_loop.simps) (auto simp: telnet_stream_get_next_def)
  then show ?thesis by (simp add: receive_from_def)
qed

definition token_config :: "tnXconfig option \<Rightarrow> token \<Rightarrow> tnXconfig option" where
  "token_config c t = (case t of TSub p \<Rightarrow> sub_config c p | _ \<Rightarrow> c)"

lemma receive_tokens:
  assumes "host_ready this" "represents this rs cur" "list_all token_ok ts"
    "st_in this = map RxByte (concat (map encode ts)) @ r" "r = [] \<or> (\<exists>r'. r = RxNone # r')"
  shows "\<exists>this'. receive_from this verb = Some (Inr (True, this')) \<and> host_ready this'
    \<and> st_in this' = drop 1 r
    \<and> represents this' (fst (foldl receive_token (rs, cur) ts)) (snd (foldl receive_token (rs, cur) ts))
    \<and> st_out this' = st_out this @ concat (map host_reply ts)
    \<and> st_config this' = foldl token_config (st_config this) ts"
  using assms
proof (induction ts arbitrary: this rs cur verb)
  case Nil
  then have "receive_from this verb = Some (Inr (True, (wake this)\<lparr>st_in := drop 1 r\<rparr>))"
    using receive_end [of this "drop 1 r" verb] by auto
  with Nil.prems(1,2) show ?case
    by (auto simp: host_ready_def idle_wake) (simp add: idle_def)
next
  case (Cons t ts)
  have "st_in this = map RxByte (encode t) @ (map RxByte (concat (map encode ts)) @ r)" "token_ok t"
    using Cons.prems(3,4) by auto
  from receive_one_token [OF Cons.prems(1,2) this(2,1), of verb] obtain s v
    where s: "receive_from this verb = receive_from s v" "host_ready s"
      "st_in s = map RxByte (concat (map encode ts)) @ r"
      "represents s (fst (receive_token (rs, cur) t)) (snd (receive_token (rs, cur) t))"
      "st_out s = st_out this @ host_reply t" "st_config s = token_config (st_config this) t"
    unfolding token_config_def by blast
  have "list_all token_ok ts" using Cons.prems(3) by simp
  from Cons.IH [OF s(2,4) this s(3) Cons.prems(5), of v] s(1,5,6) show ?case by auto
qed

section \<open>Packets go out whole\<close>

text \<open>The bytes of a packet on the wire.\<close>

definition packet :: "byte list \<Rightarrow> byte list" where
  "packet d = concat (map encode (map TData d @ [TEor]))"

lemma write_loop_all:
  "SelErr \<notin> set ss \<Longrightarrow> TxErr \<notin> set ts \<Longrightarrow>
   \<exists>ss' ts'. write_loop ss ts d out = Inr (ss', ts', out @ d) \<and> set ss' \<subseteq> set ss \<and> set ts' \<subseteq> set ts"
proof (induction ss ts d out rule: write_loop.induct)
  case (1 ss ts d out)
  have tl: "set (tl ss) \<subseteq> set ss" by (cases ss) auto
  then have noerr: "SelErr \<notin> set (tl ss)" using 1(4) by blast
  have hd: "\<not> (ss \<noteq> [] \<and> hd ss = SelErr)" using 1(4) by (cases ss) auto
  show ?case
  proof (cases "ss \<noteq> [] \<and> hd ss = SelRetry")
    case True
    with 1(1) [OF hd True _ noerr 1(5)] tl show ?thesis
      by (subst write_loop.simps) auto
  next
    case False
    show ?thesis
    proof (cases ts)
      case Nil
      with hd False tl show ?thesis by (subst write_loop.simps) auto
    next
      case (Cons t ts')
      show ?thesis
      proof (cases t)
        case (TxSome n)
        have ok: "TxErr \<notin> set ts'" using 1(5) Cons by simp
        show ?thesis
        proof (cases "drop n d = []")
          case True
          then have "take n d = d" by simp
          with True TxSome Cons hd False tl show ?thesis by (subst write_loop.simps) auto
        next
          case more: False
          from 1(2) [OF hd False Cons TxSome more noerr ok] obtain ss1 ts1
            where "write_loop (tl ss) ts' (drop n d) (out @ take n d) = Inr (ss1, ts1, out @ d)"
              "set ss1 \<subseteq> set (tl ss)" "set ts1 \<subseteq> set ts'" by auto
          with more TxSome Cons hd False tl show ?thesis by (subst write_loop.simps) auto
        qed
      next
        case TxAgain
        show ?thesis
        proof (cases "d = []")
          case True
          with TxAgain Cons hd False tl show ?thesis by (subst write_loop.simps) auto
        next
          case more: False
          have "TxErr \<notin> set ts'" using 1(5) Cons by simp
          from 1(3) [OF hd False Cons TxAgain more noerr this] obtain ss1 ts1
            where "write_loop (tl ss) ts' d out = Inr (ss1, ts1, out @ d)"
              "set ss1 \<subseteq> set (tl ss)" "set ts1 \<subseteq> set ts'" by auto
          with more TxAgain Cons hd False tl show ?thesis by (subst write_loop.simps) auto
        qed
      next
        case TxErr
        with 1(5) Cons show ?thesis by simp
      qed
    qed
  qed
qed

lemma escape_loop_ok:
  "(\<And>j. j < length bs \<Longrightarrow> cell_at m j = Some (bs ! j)) \<Longrightarrow> n + k = length bs \<Longrightarrow> buff_inv out \<Longrightarrow>
   \<exists>o'. escape_loop m n k out = Some o' \<and> buff_inv o'
     \<and> buff_bytes o' = buff_bytes out @ concat (map encode (map TData (drop n bs)))"
proof (induction k arbitrary: n out)
  case 0
  then show ?case by simp
next
  case (Suc k)
  then have c: "cell_at m n = Some (bs ! n)" "drop n bs = bs ! n # drop (Suc n) bs"
    by (auto simp: Cons_nth_drop_Suc)
  from tnX_buffer_append_byte_ok [OF Suc.prems(3)] obtain o1
    where o1: "tnX_buffer_append_byte out (bs ! n) = Some o1" "buff_inv o1"
      "buff_bytes o1 = buff_bytes out @ [bs ! n]" by blast
  from tnX_buffer_append_byte_ok [OF o1(2)] obtain o2
    where o2: "tnX_buffer_append_byte o1 IAC = Some o2" "buff_inv o2"
      "buff_bytes o2 = buff_bytes o1 @ [IAC]" by blast
  from Suc.IH [of "Suc n" "if bs ! n = IAC then o2 else o1"] Suc.prems o1 o2 c show ?case
    by (cases "bs ! n = IAC") auto
qed

lemma escape_ok:
  assumes "buff_inv buf"
  shows "\<exists>o'. telnet_stream_escape buf = Some o' \<and> buff_inv o'
    \<and> buff_bytes o' = concat (map encode (map TData (buff_bytes buf)))"
  using escape_loop_ok [of "buff_bytes buf" "tnX_buffer_data buf" 0 "tnX_buffer_length buf" tnX_buffer_init]
    cell_at_buffer [OF assms] length_buff_bytes [OF assms]
  by (auto simp: telnet_stream_escape_def)

lemma send_packet_ok:
  assumes "SelErr \<notin> set (st_sel this)" "TxErr \<notin> set (st_tx this)"
  shows "\<exists>ss ts. tn3270_stream_send_packet this (int (length d)) d =
      Some (Inr (this\<lparr>st_sel := ss, st_tx := ts, st_out := st_out this @ packet d\<rparr>))
    \<and> set ss \<subseteq> set (st_sel this) \<and> set ts \<subseteq> set (st_tx this)"
proof -
  have "tnX_buffer_append_data tnX_buffer_init d (int (length d)) = tnXbuff.app_all tnX_buffer_init d"
    by (subst tnX_buffer_append_data_eq) auto
  with tnXbuff.app_all_from_emp [of d] obtain b0
    where b0: "tnX_buffer_append_data tnX_buffer_init d (int (length d)) = Some b0" "buff_inv b0"
      "buff_bytes b0 = d" by auto
  from escape_ok [OF b0(2)] obtain b1 where b1: "telnet_stream_escape b0 = Some b1" "buff_inv b1"
      "buff_bytes b1 = concat (map encode (map TData d))" by (auto simp: b0(3))
  from tnX_buffer_append_byte_ok [OF b1(2)] obtain b2
    where b2: "tnX_buffer_append_byte b1 IAC = Some b2" "buff_inv b2" "buff_bytes b2 = buff_bytes b1 @ [IAC]"
    by blast
  from tnX_buffer_append_byte_ok [OF b2(2)] obtain b3
    where b3: "tnX_buffer_append_byte b2 EOR = Some b3" "buff_bytes b3 = buff_bytes b2 @ [EOR]"
    by blast
  have p: "buff_bytes b3 = packet d" by (simp add: b1(3) b2(3) b3(2) packet_def)
  from write_loop_all [OF assms, of "packet d" "st_out this"] obtain ss ts
    where "write_loop (st_sel this) (st_tx this) (packet d) (st_out this) = Inr (ss, ts, st_out this @ packet d)"
      "set ss \<subseteq> set (st_sel this)" "set ts \<subseteq> set (st_tx this)" by blast
  with b0(1) b1(1) b2(1) b3(1) p show ?thesis
    by (intro exI [of _ ss] exI [of _ ts]) (simp add: tn3270_stream_send_packet_def telnet_stream_write_def del: tnX_buffer_append_data.simps)
qed

text \<open>A sequence of packets on one stream.\<close>

fun send_packets :: "tnXstream \<Rightarrow> byte list list \<Rightarrow> (int + tnXstream) option" where
  "send_packets this [] = Some (Inr this)"
| "send_packets this (d # ds) =
     (case tn3270_stream_send_packet this (int (length d)) d of
        Some (Inr this') \<Rightarrow> send_packets this' ds
      | r \<Rightarrow> r)"

lemma send_packets_ok:
  "SelErr \<notin> set (st_sel this) \<Longrightarrow> TxErr \<notin> set (st_tx this) \<Longrightarrow>
   \<exists>this'. send_packets this ds = Some (Inr this') \<and> st_out this' = st_out this @ concat (map packet ds)"
proof (induction ds arbitrary: this)
  case Nil
  then show ?case by simp
next
  case (Cons d ds)
  from send_packet_ok [OF Cons.prems, of d] obtain ss ts
    where s: "tn3270_stream_send_packet this (int (length d)) d =
        Some (Inr (this\<lparr>st_sel := ss, st_tx := ts, st_out := st_out this @ packet d\<rparr>))"
      "set ss \<subseteq> set (st_sel this)" "set ts \<subseteq> set (st_tx this)" by blast
  with Cons.prems Cons.IH [of "this\<lparr>st_sel := ss, st_tx := ts, st_out := st_out this @ packet d\<rparr>"]
  show ?case by (auto simp: subset_iff)
qed

lemma receive_data:
  "d \<noteq> [] \<Longrightarrow> foldl receive_token (rs, cur) (map TData d) =
     (rs, Some ((case cur of None \<Rightarrow> [] | Some bs \<Rightarrow> bs) @ d))"
proof (induction d arbitrary: cur)
  case (Cons b d)
  then show ?case by (cases "d = []") auto
qed simp

lemma receive_packets:
  "[] \<notin> set ds \<Longrightarrow>
   foldl receive_token (rs, None) (concat (map (\<lambda>d. map TData d @ [TEor]) ds)) = (rs @ ds, None)"
  by (induction ds arbitrary: rs) (auto simp: receive_data)

lemma packets_tokens:
  "concat (map packet ds) = concat (map encode (concat (map (\<lambda>d. map TData d @ [TEor]) ds)))"
  by (induction ds) (simp_all add: packet_def)

section \<open>Properties\<close>

text \<open>A stream with nothing received yet, in host mode; the other fields are given.\<close>

definition fresh_stream :: "rx list \<Rightarrow> sel list \<Rightarrow> tx list \<Rightarrow> tnXstream" where
  "fresh_stream i ss ts = \<lparr>st_accept = True, st_config = None, st_records = None, st_current_record = None,
     st_record_count = 0, st_sb_buf = tnX_buffer_init, st_status = HOST, st_state = DATA,
     st_streamtype = TN3270_STREAM, st_heap = Map.empty, st_brk = 1, st_in = i, st_sel = ss, st_tx = ts,
     st_out = []\<rparr>"

lemma fresh_stream_ready: "host_ready (fresh_stream i ss [])"
  by (simp add: fresh_stream_def host_ready_def idle_def)

lemma fresh_stream_out: "st_out (fresh_stream i ss ts) = []"
  by (simp add: fresh_stream_def)

lemma fresh_stream_represents: "represents (fresh_stream i ss ts) [] None"
  by (simp add: represents_def stream_holds_def fresh_stream_def ring_def ring_ptr_def heap_inv_def)


text \<open>
  C16. Records cross the wire unchanged. Whatever the socket of the sender does short of a hard
  error (partial sends, refusals to be retried, interrupted calls), the packets it is given go
  out so that a gateway stream that receives them finishes exactly those records, in order and
  byte for byte, the byte 0xFF included.
\<close>

theorem records_cross_the_wire:
  assumes "SelErr \<notin> set (st_sel a)" and "TxErr \<notin> set (st_tx a)" and "[] \<notin> set ds"
    and "host_ready b" and "represents b rs None"
  shows "\<exists>a' wire b'. send_packets a ds = Some (Inr a') \<and> st_out a' = st_out a @ wire
    \<and> telnet_stream_handle_receive (b\<lparr>st_in := map RxByte wire\<rparr>) = Some (Inr (True, b'))
    \<and> represents b' (rs @ ds) None \<and> host_ready b'"
proof -
  let ?ts = "concat (map (\<lambda>d. map TData d @ [TEor]) ds)" and ?wire = "concat (map packet ds)"
  let ?b = "b\<lparr>st_in := map RxByte ?wire\<rparr>"
  from send_packets_ok [OF assms(1,2)] obtain a'
    where a': "send_packets a ds = Some (Inr a')" "st_out a' = st_out a @ ?wire" by blast
  have "host_ready ?b" "represents ?b rs None" "list_all token_ok ?ts"
    "st_in ?b = map RxByte (concat (map encode ?ts)) @ []"
    using assms(4,5) by (auto simp: host_ready_def idle_def packets_tokens list_all_iff)
  from receive_tokens [OF this, of None] obtain b'
    where "telnet_stream_handle_receive ?b = Some (Inr (True, b'))" "host_ready b'"
      "represents b' (rs @ ds) None"
    by (auto simp: handle_receive_from receive_packets [OF assms(3)])
  with a' show ?thesis by blast
qed

theorem records_cross_the_wire_witness:
  "\<exists>a' wire b'. send_packets (fresh_stream [] [SelRetry] [TxSome 1, TxAgain]) [[0xF5, 0xFF], [0x7D]] = Some (Inr a')
    \<and> st_out a' = wire
    \<and> telnet_stream_handle_receive (fresh_stream (map RxByte wire) [] []) = Some (Inr (True, b'))
    \<and> represents b' [[0xF5, 0xFF], [0x7D]] None"
proof -
  have s: "SelErr \<notin> set (st_sel (fresh_stream [] [SelRetry] [TxSome 1, TxAgain]))"
    "TxErr \<notin> set (st_tx (fresh_stream [] [SelRetry] [TxSome 1, TxAgain]))"
    by (simp_all add: fresh_stream_def)
  have i: "(fresh_stream [] [] [])\<lparr>st_in := x\<rparr> = fresh_stream x [] []" for x
    by (simp add: fresh_stream_def)
  from records_cross_the_wire
    [OF s _ fresh_stream_ready [of "[]" "[]"] fresh_stream_represents, of "[[0xF5, 0xFF], [0x7D]]"]
  show ?thesis by (auto simp: i fresh_stream_out simp del: send_packets.simps)
qed

text \<open>
  C18. The receive state machine refines the receiver of tokens: for any sequence of data bytes,
  record ends, option requests and sub-negotiations that ends at a token boundary, one call
  consumes it, leaves the records the specification says, answers each option request with the
  documented reply and stores each terminal type.
\<close>

theorem handle_receive_refines:
  assumes "host_ready this" and "represents this rs cur" and "list_all token_ok ts"
    and "st_in this = map RxByte (concat (map encode ts)) @ RxNone # later"
  shows "\<exists>this'. telnet_stream_handle_receive this = Some (Inr (True, this')) \<and> host_ready this'
    \<and> st_in this' = later
    \<and> represents this' (fst (foldl receive_token (rs, cur) ts)) (snd (foldl receive_token (rs, cur) ts))
    \<and> st_out this' = st_out this @ concat (map host_reply ts)
    \<and> st_config this' = foldl token_config (st_config this) ts"
  using receive_tokens [OF assms, of None] by (auto simp: handle_receive_from)

theorem handle_receive_refines_witness:
  "\<exists>this'. telnet_stream_handle_receive
        (fresh_stream (map RxByte [IAC, WILL, TERMINAL_TYPE, 0x41, IAC, EOR] @ [RxNone]) [] []) = Some (Inr (True, this'))
    \<and> represents this' [[0x41]] None \<and> st_out this' = SB_Str_TermType"
proof -
  let ?ts = "[TVerb WILL TERMINAL_TYPE, TData 0x41, TEor]"
  let ?s = "fresh_stream (map RxByte [IAC, WILL, TERMINAL_TYPE, 0x41, IAC, EOR] @ [RxNone]) [] []"
  have "list_all token_ok ?ts" "st_in ?s = map RxByte (concat (map encode ?ts)) @ RxNone # []"
    by (simp_all add: verbs_def fresh_stream_def)
  from handle_receive_refines [OF fresh_stream_ready fresh_stream_represents this] show ?thesis
    by (auto simp: fresh_stream_out)
qed

text \<open>
  A packet goes out whole: the bytes handed to the socket are the escaped data followed by
  the record end, whatever \<^verbatim>\<open>select\<close> and \<^verbatim>\<open>send\<close> answer short of a hard error.
\<close>

theorem send_packet_complete:
  assumes "SelErr \<notin> set (st_sel this)" and "TxErr \<notin> set (st_tx this)"
  shows "\<exists>this'. tn3270_stream_send_packet this (int (length d)) d = Some (Inr this')
    \<and> st_out this' = st_out this @ packet d \<and> st_records this' = st_records this
    \<and> st_heap this' = st_heap this \<and> st_state this' = st_state this"
  using send_packet_ok [OF assms, of d] by auto

theorem send_packet_complete_witness:
  "\<exists>this'. tn3270_stream_send_packet (fresh_stream [] [] [TxSome 2, TxAgain, TxSome 1]) 2 [0xFF, 0x40] = Some (Inr this')
    \<and> st_out this' = [IAC, IAC, 0x40, IAC, EOR]"
proof -
  let ?s = "fresh_stream [] [] [TxSome 2, TxAgain, TxSome 1]"
  have s: "SelErr \<notin> set (st_sel ?s)" "TxErr \<notin> set (st_tx ?s)"
    by (simp_all add: fresh_stream_def)
  from send_packet_complete [OF s, of "[0xFF, 0x40]"] show ?thesis
    by (auto simp: packet_def fresh_stream_out)
qed

text \<open>
  Taking a record off a 3270 stream returns the oldest finished record, positioned at its
  first byte, and leaves the others and the record being received as they were.
\<close>

theorem get_record_takes_oldest:
  assumes "represents this (d # rs) cur" and "st_streamtype this = TN3270_STREAM"
  shows "\<exists>a r this'. tnX_stream_get_record this = Some (Some a, this')
    \<and> st_heap this' a = Some r \<and> buff_bytes (r_data r) = d \<and> r_cur_pos r = 0
    \<and> represents this' rs cur"
proof -
  from assms(1) obtain xs where xs: "stream_holds this xs (d # rs) cur" by (auto simp: represents_def)
  then obtain a ys where "xs = a # ys" by (cases xs) (auto simp: stream_holds_def)
  with xs have h: "stream_holds this (a # ys) (d # rs) cur" by simp
  then have R: "ring (st_heap this) ([] @ a # ys)" by (simp add: stream_holds_def)
  from list_remove_ring [OF R] obtain h'
    where h': "tnX_record_list_remove (st_heap this) (Some a) (Some a) = Some (ring_ptr ys, h')"
      "ring h' ys" "payload h' = payload (st_heap this)" "dom h' = dom (st_heap this)"
    by (auto simp: ring_ptr_def)
  have a: "a \<in> dom (st_heap this)" "a \<notin> set ys" using R by (auto simp: ring_def)
  then obtain r where r: "h' a = Some r" using h'(4) by (metis domD)
  let ?h = "h'(a \<mapsto> r\<lparr>r_cur_pos := 0\<rparr>)"
  have data: "r_data (the (?h x)) = r_data (the (st_heap this x))" if "x \<in> dom (st_heap this)" for x
  proof -
    from that h'(4) obtain q q' where "st_heap this x = Some q" "h' x = Some q'" by (metis domD)
    with fun_cong [OF h'(3), of x] r show ?thesis by (auto simp: payload_def)
  qed
  let ?t = "this\<lparr>st_records := ring_ptr ys, st_heap := ?h, st_record_count := st_record_count this - 1\<rparr>"
  have dom: "dom ?h = dom (st_heap this)" using h'(4) a(1) by auto
  have run: "tnX_stream_get_record this = Some (Some a, ?t)"
    using h h'(1) r assms(2)
    by (simp add: tnX_stream_get_record_def stream_holds_def ring_ptr_def load_def store_def)
  have "ring ?h ys" by (rule ring_cong [OF h'(2)]) (use a in auto)
  moreover have "\<forall>x \<in> set ys. x \<in> dom (st_heap this)" using R by (auto simp: ring_def)
  ultimately have "stream_holds ?t ys rs cur"
    using h data dom
    by (auto simp: stream_holds_def heap_inv_def rec_bytes_def option.map_comp intro!: map_option_cong
        simp del: fun_upd_apply dom_fun_upd)
  moreover have "buff_bytes (r_data r) = d"
    using data [OF a(1)] r h by (simp add: stream_holds_def rec_bytes_def)
  ultimately show ?thesis using run unfolding represents_def
    by (intro exI [of _ a] exI [of _ "r\<lparr>r_cur_pos := 0\<rparr>"] exI [of _ ?t]) auto
qed

theorem get_record_takes_oldest_witness:
  "\<exists>s a r s'. telnet_stream_handle_receive (fresh_stream (map RxByte [0x41, IAC, EOR, 0x42, IAC, EOR]) [] [])
        = Some (Inr (True, s))
    \<and> represents s [[0x41], [0x42]] None
    \<and> tnX_stream_get_record (s\<lparr>st_streamtype := TN3270_STREAM\<rparr>) = Some (Some a, s')
    \<and> st_heap s' a = Some r \<and> buff_bytes (r_data r) = [0x41] \<and> represents s' [[0x42]] None"
proof -
  let ?ts = "[TData 0x41, TEor, TData 0x42, TEor]"
  let ?s = "fresh_stream (map RxByte [0x41, IAC, EOR, 0x42, IAC, EOR]) [] []"
  have "list_all token_ok ?ts" "st_in ?s = map RxByte (concat (map encode ?ts)) @ []"
    by (simp_all add: fresh_stream_def)
  from receive_tokens [OF fresh_stream_ready fresh_stream_represents this, of None] obtain s
    where s: "telnet_stream_handle_receive ?s = Some (Inr (True, s))" "represents s [[0x41], [0x42]] None"
    by (auto simp: handle_receive_from)
  then have "represents (s\<lparr>st_streamtype := TN3270_STREAM\<rparr>) [[0x41], [0x42]] None"
    by (simp add: represents_def stream_holds_def)
  from get_record_takes_oldest [OF this] s show ?thesis by auto
qed

section \<open>No input crashes the receiver\<close>

text \<open>
  The states in which one call of \<^verbatim>\<open>telnet_stream_get_byte\<close> cannot fault: the sub-negotiation
  buffer is sound, and a pending request has its verb.
\<close>

definition well_kept :: "tnXstream \<Rightarrow> bool" where
  "well_kept this \<longleftrightarrow> (\<exists>rs cur. represents this rs cur)"

definition sound :: "tnXstream \<Rightarrow> byte option \<Rightarrow> bool" where
  "sound this verb \<longleftrightarrow> buff_inv (st_sb_buf this) \<and> st_status this AND HOST \<noteq> 0
     \<and> (st_state this = HAVE_VERB \<longrightarrow> verb \<noteq> None)
     \<and> well_kept this"

definition sound_after :: "switch \<Rightarrow> bool" where
  "sound_after sw = (case sw of
     Loop this verb t \<Rightarrow> sound this verb
   | Return c this \<Rightarrow> sound this None \<or> c = - 2
   | Exit n \<Rightarrow> False)"

lemma sock_send_frame:
  "sock_send this d = (r, this') \<Longrightarrow> \<exists>ts out. this' = this\<lparr>st_tx := ts, st_out := out\<rparr>"
proof (cases "st_tx this")
  case Nil
  assume "sock_send this d = (r, this')"
  with Nil have "this' = this\<lparr>st_tx := [], st_out := st_out this @ d\<rparr>"
    by (cases this) (simp add: sock_send_def)
  then show ?thesis by blast
next
  case (Cons t ts)
  assume "sock_send this d = (r, this')"
  with Cons show ?thesis
    by (cases this; cases t) (auto simp: sock_send_def)
qed

lemma host_verb_frame:
  assumes "telnet_stream_host_verb this v w = (r, this')"
  shows "\<exists>ts out. this' = this\<lparr>st_tx := ts, st_out := out\<rparr>"
proof -
  have "this' = this \<or> (\<exists>d r. sock_send this d = (r, this'))"
    using assms
    by (auto simp: telnet_stream_host_verb_def sendWill_def Let_def split: if_splits prod.splits)
  moreover have "this = this\<lparr>st_tx := st_tx this, st_out := st_out this\<rparr>" by (cases this) simp
  ultimately show ?thesis using sock_send_frame by metis
qed

lemma represents_tx [simp]: "represents (this\<lparr>st_tx := ts\<rparr>) rs cur = represents this rs cur"
  by (simp add: represents_def stream_holds_def)

lemma well_kept_io [simp]:
  "well_kept (this\<lparr>st_state := st\<rparr>) = well_kept this"
  "well_kept (this\<lparr>st_in := i\<rparr>) = well_kept this"
  "well_kept (this\<lparr>st_out := out\<rparr>) = well_kept this"
  "well_kept (this\<lparr>st_sb_buf := b\<rparr>) = well_kept this"
  "well_kept (this\<lparr>st_config := c\<rparr>) = well_kept this"
  "well_kept (this\<lparr>st_tx := ts\<rparr>) = well_kept this"
  by (simp_all add: well_kept_def)

lemma switch_sound:
  assumes "sound this verb" "st_state this \<noteq> NO_DATA"
  shows "\<exists>sw. get_byte_switch this verb b = Some sw \<and> sound_after sw"
proof (cases "st_state this")
  case DATA
  with assms show ?thesis by (auto simp: get_byte_switch_def sound_def sound_after_def)
next
  case HAVE_IAC
  with assms show ?thesis
    by (auto simp: get_byte_switch_def switch_have_iac_def sound_def sound_after_def tnX_buffer_free_eq)
next
  case HAVE_VERB
  with assms obtain v where v: "verb = Some v" by (auto simp: sound_def)
  obtain r this' where h: "telnet_stream_host_verb this v b = (r, this')" by fastforce
  from host_verb_frame [OF h] obtain ts out where "this' = this\<lparr>st_tx := ts, st_out := out\<rparr>" by blast
  with assms v HAVE_VERB h show ?thesis
    by (auto simp: get_byte_switch_def switch_have_verb_def sound_def sound_after_def)
next
  case HAVE_SB
  with assms tnX_buffer_append_byte_ok [of "st_sb_buf this" b] show ?thesis
    by (auto simp: get_byte_switch_def sound_def sound_after_def)
next
  case HAVE_SB_IAC
  with assms tnX_buffer_append_byte_ok [of "st_sb_buf this" IAC] host_sb_ok [of "st_sb_buf this" this]
  show ?thesis
    by (auto simp: get_byte_switch_def switch_have_sb_iac_def sound_def sound_after_def tnX_buffer_free_eq)
qed (use assms in simp)

lemma get_next_sound:
  assumes "sound this verb" "telnet_stream_get_next (wake this) = (t, this')"
  shows "sound this' verb" "st_state this' \<noteq> NO_DATA"
  using assms
  by (auto simp: telnet_stream_get_next_def sound_def wake_def split: list.splits rx.splits if_splits)

text \<open>
  A call of \<^verbatim>\<open>telnet_stream_get_byte\<close> returns, and either the peer is gone, or the next call may
  start unless a request was cut in two.
\<close>

lemma get_byte_loop_sound:
  "sound this verb \<Longrightarrow> \<exists>c this'. get_byte_loop this verb = Some (Inr (c, this'))
     \<and> (c = - 2 \<or> sound this' None \<or> c = - 1 \<and> st_state this' = HAVE_VERB)"
proof (induction this verb rule: get_byte_loop.induct)
  case (1 this verb)
  obtain t s where n: "telnet_stream_get_next (wake this) = (t, s)" by fastforce
  note sn = get_next_sound [OF 1(2) n]
  show ?case
  proof (cases "t < 0")
    case True
    with n have "t = - 1 \<or> t = - 2"
      by (auto simp: telnet_stream_get_next_def split: list.splits rx.splits)
    with True n sn(1) show ?thesis by (auto simp: get_byte_loop.simps [of this] sound_def)
  next
    case False
    from switch_sound [OF sn] obtain sw
      where sw: "get_byte_switch s verb (word_of_int t) = Some sw" "sound_after sw" by blast
    show ?thesis
    proof (cases sw)
      case (Loop s2 v2 t2)
      show ?thesis
      proof (cases "st_state s2 = DATA")
        case True
        with sw Loop n False show ?thesis
          by (auto simp: get_byte_loop.simps [of this] sound_after_def sound_def)
      next
        case st: False
        from 1(1) [OF n [symmetric] False sw(1) Loop st] sw(2) Loop st n False sw(1) show ?thesis
          by (simp add: get_byte_loop.simps [of this] sound_after_def)
      qed
    next
      case (Return c s2)
      with sw n False show ?thesis by (auto simp: get_byte_loop.simps [of this] sound_after_def)
    next
      case (Exit k)
      with sw show ?thesis by (simp add: sound_after_def)
    qed
  qed
qed

lemma receive_step_sound:
  assumes "sound this None"
  shows "\<exists>this'. receive_step this c = Some this' \<and> sound this' None"
proof -
  from assms obtain rs cur where r: "represents this rs cur" by (auto simp: sound_def well_kept_def)
  then have cur: "st_current_record this = None \<longleftrightarrow> cur = None"
    by (auto simp: represents_def stream_holds_def)
  have keep: "sound t None" if "same_io this t" "well_kept t" for t
    using that assms by (auto simp: sound_def same_io_def)
  show ?thesis
  proof (cases "c = - 25 \<and> cur \<noteq> None")
    case True
    then obtain b where "cur = Some b" by auto
    with finish_record_ok [of this rs b] r cur True keep show ?thesis
      by (auto simp: receive_step_def well_kept_def)
  next
    case False
    with append_current_ok [OF r, of c] cur keep show ?thesis
      by (auto simp: receive_step_def well_kept_def)
  qed
qed

text \<open>
  C19. No input crashes the gateway: from a sound host stream, one receive call returns normally
  whatever bytes, pauses, errors or end of input the peer produces and whatever \<^verbatim>\<open>send\<close> answers. No
  memory outside the buffers is touched, no assertion fails, and the call ends. If the peer is
  still there, the stream is sound again unless the input paused inside an option request.
\<close>

theorem handle_receive_never_faults:
  assumes "sound this None"
  shows "\<exists>ok this'. telnet_stream_handle_receive this = Some (Inr (ok, this'))
    \<and> (ok \<longrightarrow> st_state this' \<noteq> HAVE_VERB \<longrightarrow> sound this' None)"
  using assms
proof (induction this rule: telnet_stream_handle_receive.induct)
  case (1 this)
  from get_byte_loop_sound [OF 1(2)] obtain c s
    where c: "get_byte_loop this None = Some (Inr (c, s))"
      "c = - 2 \<or> sound s None \<or> c = - 1 \<and> st_state s = HAVE_VERB" by blast
  show ?case
  proof (cases "c = - 1 \<or> c = - 2")
    case True
    with c show ?thesis
      by (auto simp: telnet_stream_handle_receive.simps [of this] telnet_stream_get_byte_def)
  next
    case False
    with c(2) receive_step_sound [of s c] obtain s'
      where s': "receive_step s c = Some s'" "sound s' None" by auto
    have "telnet_stream_handle_receive this = telnet_stream_handle_receive s'"
      using c(1) False s'(1)
      by (subst telnet_stream_handle_receive.simps) (simp add: telnet_stream_get_byte_def)
    moreover have "\<exists>ok this'. telnet_stream_handle_receive s' = Some (Inr (ok, this'))
        \<and> (ok \<longrightarrow> st_state this' \<noteq> HAVE_VERB \<longrightarrow> sound this' None)"
      using 1(1) c(1) False s' by (auto simp: telnet_stream_get_byte_def)
    ultimately show ?thesis by simp
  qed
qed

lemma fresh_stream_sound: "sound (fresh_stream i ss ts) None"
  using fresh_stream_represents [of i ss ts]
  by (auto simp: sound_def well_kept_def) (simp_all add: fresh_stream_def)

theorem handle_receive_never_faults_witness:
  "\<exists>ok this'. telnet_stream_handle_receive
     (fresh_stream (map RxByte [IAC, SB, 24, IAC, IAC, IAC, IAC, SE, IAC, EOR, IAC, 7] @ [RxErr]) [] [TxErr])
   = Some (Inr (ok, this'))"
  using handle_receive_never_faults [OF fresh_stream_sound
    [of "map RxByte [IAC, SB, 24, IAC, IAC, IAC, IAC, SE, IAC, EOR, IAC, 7] @ [RxErr]" "[]" "[TxErr]"]]
  by blast

section \<open>Where the stream departs from telnet\<close>

text \<open>
  An option request that arrives in two pieces is lost in an undefined read: the call that
  sees \<^verbatim>\<open>IAC\<close> and the verb ends normally when the option byte is not there yet, but the verb was
  kept in a local variable only, and the next call uses it uninitialised.
\<close>

theorem split_request_undefined:
  assumes "host_ready this" and "v \<in> set verbs"
    and "st_in this = [RxByte IAC, RxByte v, RxNone, RxByte w]"
  shows "\<exists>this'. telnet_stream_handle_receive this = Some (Inr (True, this'))
    \<and> telnet_stream_handle_receive this' = None"
proof -
  let ?s = "this\<lparr>st_state := HAVE_VERB, st_in := [RxNone, RxByte w]\<rparr>"
  let ?t = "this\<lparr>st_state := HAVE_VERB, st_in := [RxByte w]\<rparr>"
  have v: "v \<noteq> IAC" "v = DO \<or> v = DONT \<or> v = WILL \<or> v = WONT"
    using assms(2) by (auto simp: verbs_def)
  have "get_byte_loop this None = get_byte_loop ?s (Some v)"
    using assms(1,3) v by (simp add: loop_idle_iac loop_iac host_ready_def)
  also have "\<dots> = Some (Inr (- 1, ?t))"
    by (subst get_byte_loop.simps) (simp add: telnet_stream_get_next_def wake_def)
  finally have "telnet_stream_handle_receive this = Some (Inr (True, ?t))"
    by (subst telnet_stream_handle_receive.simps) (simp add: telnet_stream_get_byte_def)
  moreover have "get_byte_loop ?t None = None"
    by (simp add: get_byte_loop_byte wake_def get_byte_switch_def switch_have_verb_def)
  then have "telnet_stream_handle_receive ?t = None"
    by (subst telnet_stream_handle_receive.simps) (simp add: telnet_stream_get_byte_def)
  ultimately show ?thesis by blast
qed

theorem split_request_undefined_witness:
  "\<exists>this'. telnet_stream_handle_receive
      (fresh_stream [RxByte IAC, RxByte WILL, RxNone, RxByte TERMINAL_TYPE] [] []) = Some (Inr (True, this'))
    \<and> telnet_stream_handle_receive this' = None"
  by (rule split_request_undefined [OF fresh_stream_ready, of WILL _ _ TERMINAL_TYPE])
     (simp_all add: verbs_def fresh_stream_def)

text \<open>
  An empty record is not received: a record end with no record open leaves no finished record,
  and the byte 0xE7, the record-end code cut to eight bits, becomes the start of the next record.
\<close>

theorem empty_record_corrupts_next:
  assumes "host_ready this" and "represents this rs None" and "d \<noteq> []"
    and "st_in this = map RxByte (packet [] @ packet d)"
  shows "\<exists>this'. telnet_stream_handle_receive this = Some (Inr (True, this'))
    \<and> represents this' (rs @ [0xE7 # d]) None"
proof -
  let ?ts = "TEor # map TData d @ [TEor]"
  have in': "st_in this = map RxByte (concat (map encode ?ts)) @ []" "list_all token_ok ?ts"
    using assms(4) by (simp_all add: packet_def list_all_iff)
  from receive_tokens [OF assms(1,2) in'(2,1), of None] show ?thesis
    by (auto simp: handle_receive_from receive_data [OF assms(3)])
qed

theorem empty_record_corrupts_next_witness:
  "\<exists>this'. telnet_stream_handle_receive (fresh_stream (map RxByte (packet [] @ packet [0x41])) [] []) =
      Some (Inr (True, this')) \<and> represents this' [[0xE7, 0x41]] None"
  using empty_record_corrupts_next [OF fresh_stream_ready fresh_stream_represents, of "[0x41]"]
  by (simp add: fresh_stream_def)

text \<open>
  After an escaped 0xFF inside a sub-negotiation the next byte is lost: the state stays at
  "0xFF seen", so an ordinary byte that follows is taken for an unknown command and dropped.
\<close>

theorem escaped_iac_drops_next_byte:
  assumes "st_state this = HAVE_SB" and "buff_inv (st_sb_buf this)" and "b \<noteq> IAC" and "b \<noteq> SE"
    and "st_in this = RxByte IAC # RxByte IAC # RxByte b # r"
  shows "\<exists>buf. get_byte_loop this verb = get_byte_loop (this\<lparr>st_in := r, st_sb_buf := buf\<rparr>) verb
    \<and> buff_bytes buf = buff_bytes (st_sb_buf this) @ [IAC]"
proof -
  from tnX_buffer_append_byte_ok [OF assms(2), of IAC] obtain buf
    where buf: "tnX_buffer_append_byte (st_sb_buf this) IAC = Some buf" "buff_bytes buf = buff_bytes (st_sb_buf this) @ [IAC]"
    by blast
  let ?s = "this\<lparr>st_state := HAVE_SB_IAC, st_in := RxByte IAC # RxByte b # r\<rparr>"
  let ?t = "this\<lparr>st_state := HAVE_SB_IAC, st_in := RxByte b # r, st_sb_buf := buf\<rparr>"
  let ?u = "this\<lparr>st_state := HAVE_SB, st_in := r, st_sb_buf := buf\<rparr>"
  have "get_byte_loop this verb = get_byte_loop ?s verb"
    using assms(1,5) by (simp add: loop_sb_iac)
  also have "\<dots> = get_byte_loop ?t verb"
    using buf(1) by (simp add: get_byte_loop_byte wake_def get_byte_switch_def switch_have_sb_iac_def)
  also have "\<dots> = get_byte_loop ?u verb"
    using assms(3,4) by (simp add: get_byte_loop_byte wake_def get_byte_switch_def switch_have_sb_iac_def)
  also have "?u = this\<lparr>st_in := r, st_sb_buf := buf\<rparr>"
    using assms(1) by (cases this) simp
  finally show ?thesis using buf(2) by blast
qed

theorem escaped_iac_drops_next_byte_witness:
  "\<exists>buf. get_byte_loop ((fresh_stream [RxByte IAC, RxByte IAC, RxByte 0x41] [] [])\<lparr>st_state := HAVE_SB\<rparr>) None
      = get_byte_loop ((fresh_stream [] [] [])\<lparr>st_state := HAVE_SB, st_sb_buf := buf\<rparr>) None
    \<and> buff_bytes buf = [IAC]"
  using escaped_iac_drops_next_byte
    [of "(fresh_stream [RxByte IAC, RxByte IAC, RxByte 0x41] [] [])\<lparr>st_state := HAVE_SB\<rparr>" "0x41" "[]" None]
  by (simp add: fresh_stream_def)

text \<open>
  A 5250 stream can never be opened: \<^verbatim>\<open>tnX_stream_host\<close> calls the handler \<^verbatim>\<open>accept\<close>, which
  neither \<^verbatim>\<open>streamInit\<close> nor the 5250 initialisation assigns.
\<close>

theorem stream_host_5250_undefined: "tnX_stream_host errno mem TN5250_STREAM = None"
  by (simp add: tnX_stream_host_def streamInit_def tn5250_telnet_stream_init_def)

section \<open>The opening negotiation\<close>

text \<open>What a peer sends in answer to each request of the table, with a pause behind each answer.\<close>

definition answers :: "token list list \<Rightarrow> rx list" where
  "answers tss = concat (map (\<lambda>ts. map RxByte (concat (map encode ts)) @ [RxNone]) tss)"

definition dialogue :: "byte list list \<Rightarrow> token list list \<Rightarrow> byte list" where
  "dialogue cmds tss = concat (map (\<lambda>(cmd, ts). cmd @ concat (map host_reply ts)) (zip cmds tss))"

lemma encode_nonempty: "encode t \<noteq> []"
  by (cases t) auto

lemma accept_loop_ok:
  "length tss = length cmds \<Longrightarrow> [] \<notin> set tss \<Longrightarrow> list_all (list_all token_ok) tss \<Longrightarrow>
   host_ready this \<Longrightarrow> represents this rs cur \<Longrightarrow> st_in this = answers tss @ later \<Longrightarrow>
   \<exists>this'. accept_loop errno this cmds = Some (Inr (0, this')) \<and> host_ready this' \<and> st_in this' = later
     \<and> represents this' (fst (foldl receive_token (rs, cur) (concat tss)))
                       (snd (foldl receive_token (rs, cur) (concat tss)))
     \<and> st_out this' = st_out this @ dialogue cmds tss"
proof (induction cmds arbitrary: this tss rs cur)
  case Nil
  then show ?case by (simp add: answers_def dialogue_def)
next
  case (Cons cmd cmds)
  then obtain ts tss' where tss: "tss = ts # tss'" by (cases tss) auto
  let ?s = "this\<lparr>st_out := st_out this @ cmd\<rparr>"
  have snd: "sock_send this cmd = (int (length cmd), ?s)"
    using Cons.prems(4) by (simp add: sock_send_all host_ready_def)
  obtain t r where ts: "ts = t # r" using Cons.prems(2) tss by (cases ts) auto
  have in': "st_in ?s = map RxByte (concat (map encode ts)) @ RxNone # (answers tss' @ later)"
    using Cons.prems(6) tss by (simp add: answers_def)
  then have rd: "readable ?s"
    using encode_nonempty [of t] ts by (cases "encode t") (auto simp: readable_def)
  have "host_ready ?s" "represents ?s rs cur" "list_all token_ok ts"
    using Cons.prems(3-5) tss by (auto simp: host_ready_def idle_def)
  from receive_tokens [OF this in', of None] obtain s1
    where s1: "telnet_stream_handle_receive ?s = Some (Inr (True, s1))" "host_ready s1"
      "st_in s1 = answers tss' @ later"
      "represents s1 (fst (foldl receive_token (rs, cur) ts)) (snd (foldl receive_token (rs, cur) ts))"
      "st_out s1 = st_out this @ cmd @ concat (map host_reply ts)"
    by (auto simp: handle_receive_from)
  from Cons.IH [OF _ _ _ s1(2,4,3)] Cons.prems(1-3) tss obtain s2
    where "accept_loop errno s1 cmds = Some (Inr (0, s2))" "host_ready s2" "st_in s2 = later"
      "represents s2 (fst (foldl receive_token (rs, cur) (concat tss)))
        (snd (foldl receive_token (rs, cur) (concat tss)))"
      "st_out s2 = st_out s1 @ dialogue cmds tss'" by auto
  with snd rd s1(1,5) tss show ?case by (auto simp: dialogue_def)
qed

lemma stream_host_ok:
  assumes "length tss = 3" and "[] \<notin> set tss" and "list_all (list_all token_ok) tss"
    and "st_tx mem = []" and "heap_inv (st_heap mem) (st_brk mem)" and "st_in mem = answers tss @ later"
  shows "\<exists>this. tnX_stream_host errno mem TN3270_STREAM = Some (Inr (Inr this)) \<and> host_ready this \<and> st_in this = later
    \<and> accept_loop errno ((tn3270_telnet_stream_init (streamInit (mem\<lparr>st_accept := False\<rparr>)))\<lparr>st_state := DATA, st_status := HOST\<rparr>)
          hostDoTable = Some (Inr (0, this))
    \<and> st_out this = st_out mem @ dialogue [hostInitStr, hostDoEOR, hostDoBinary] tss
    \<and> represents this (fst (foldl receive_token ([], None) (concat tss)))
                      (snd (foldl receive_token ([], None) (concat tss)))"
proof -
  let ?s = "(tn3270_telnet_stream_init (streamInit (mem\<lparr>st_accept := False\<rparr>)))
              \<lparr>st_state := DATA, st_status := HOST\<rparr>"
  have len: "length tss = length hostDoTable" using assms(1) by (simp add: hostDoTable_def)
  have "host_ready ?s" "represents ?s [] None" "st_in ?s = answers tss @ later" "st_out ?s = st_out mem"
    using assms(4-6)
    by (auto simp: host_ready_def idle_def represents_def stream_holds_def streamInit_def
        tn3270_telnet_stream_init_def ring_def ring_ptr_def)
  from accept_loop_ok [OF len assms(2,3) this(1-3), of errno] this(4) obtain this
    where t: "telnet_stream_accept errno (tn3270_telnet_stream_init (streamInit (mem\<lparr>st_accept := False\<rparr>)))
        = Some (Inr (0, this))" "host_ready this" "st_in this = later" "st_out this = st_out mem @ dialogue hostDoTable tss"
      "represents this (fst (foldl receive_token ([], None) (concat tss)))
                      (snd (foldl receive_token ([], None) (concat tss)))"
    by (auto simp: telnet_stream_accept_def)
  moreover have "st_accept (tn3270_telnet_stream_init s)" for s
    by (simp add: tn3270_telnet_stream_init_def)
  ultimately show ?thesis by (simp add: tnX_stream_host_def hostDoTable_def telnet_stream_accept_def)
qed

text \<open>
  Opening a 3270 stream: when the peer answers each of the three requests, the stream is
  handed out in host mode, having sent the requests in the order of the table, each followed by
  the replies to what the peer answered it with.
\<close>

theorem stream_host_opens:
  assumes "length tss = 3" and "[] \<notin> set tss" and "list_all (list_all token_ok) tss"
    and "st_tx mem = []" and "heap_inv (st_heap mem) (st_brk mem)" and "st_in mem = answers tss @ later"
  shows "\<exists>this. tnX_stream_host errno mem TN3270_STREAM = Some (Inr (Inr this)) \<and> host_ready this
    \<and> st_out this = st_out mem @ dialogue [hostInitStr, hostDoEOR, hostDoBinary] tss
    \<and> represents this (fst (foldl receive_token ([], None) (concat tss)))
                      (snd (foldl receive_token ([], None) (concat tss)))"
  using stream_host_ok [OF assms] by blast

theorem stream_host_opens_witness:
  "\<exists>this. tnX_stream_host 0 (fresh_stream (answers
       [[TVerb WILL NEW_ENVIRON, TVerb WILL TERMINAL_TYPE], [TVerb WILL END_OF_RECORD], [TVerb WILL TRANSMIT_BINARY]]) [] [])
      TN3270_STREAM = Some (Inr (Inr this))
    \<and> st_out this = hostInitStr @ SB_Str_NewEnv @ SB_Str_TermType @ hostDoEOR @ [IAC, WILL, END_OF_RECORD]
        @ hostDoBinary @ [IAC, WILL, TRANSMIT_BINARY]"
proof -
  let ?tss = "[[TVerb WILL NEW_ENVIRON, TVerb WILL TERMINAL_TYPE], [TVerb WILL END_OF_RECORD], [TVerb WILL TRANSMIT_BINARY]]"
  let ?mem = "fresh_stream (answers ?tss) [] []"
  have "list_all (list_all token_ok) ?tss" "st_tx ?mem = []" "heap_inv (st_heap ?mem) (st_brk ?mem)"
    "st_in ?mem = answers ?tss @ []" "st_out ?mem = []"
    by (simp_all add: verbs_def fresh_stream_def heap_inv_def)
  from stream_host_opens [OF _ _ this(1-4), of 0] this(5) show ?thesis
    by (auto simp: dialogue_def)
qed

end
