(* ===== verification/Tn_Host.thy ===== *)
theory Tn_Host
  imports Tn_Charmap Tn_Telnet
begin

text \<open>
  The host side of the terminal gateway (\<^verbatim>\<open>tn3270d/tn3270_host.c\<close>): the structure that builds 3270 data
  streams, the test screen, the reader of the client's answer and the error reports.

  A call that sends may end the process (\<^term>\<open>Inl n\<close>, the exit code) or stop in a failed assertion or a
  fault (\<^term>\<open>None\<close>). \<^verbatim>\<open>tnX_stream_send_packet\<close> goes through the handler of the stream, which is
  \<^verbatim>\<open>tn3270_stream_send_packet\<close> for the streams of the gateway; it ignores flow, flags and operation code.
\<close>

section \<open>The host\<close>

record tnXhost =
  h_stream :: tnXstream
  h_map :: "tnXchar_map option"
  h_record :: ptr
  h_screenRec :: ptr
  h_buffer :: tnXbuff
  curattr :: u16
  lastattr :: u16
  cursorPos :: u16
  wtd_set :: bool
  clearState :: bool
  inputInhibited :: bool
  disconnected :: bool
  inSysInterrupt :: bool
  maxcol :: int

definition proceed :: "(int + 'a) option \<Rightarrow> ('a \<Rightarrow> (int + 'b) option) \<Rightarrow> (int + 'b) option" where
  "proceed m f = (case m of None \<Rightarrow> None | Some (Inl n) \<Rightarrow> Some (Inl n) | Some (Inr x) \<Rightarrow> f x)"

lemma proceed_simps [simp]:
  "proceed None f = None" "proceed (Some (Inl n)) f = Some (Inl n)" "proceed (Some (Inr x)) f = f x"
  by (simp_all add: proceed_def)

abbreviation (input) CTL_RESET_MDT :: byte where "CTL_RESET_MDT \<equiv> 0x01"
abbreviation (input) CTL_KEYBOARD_RESTORE :: byte where "CTL_KEYBOARD_RESTORE \<equiv> 0x02"
abbreviation (input) CTL_RESET :: byte where "CTL_RESET \<equiv> 0x40"
abbreviation (input) CMD_3270_WRITE :: byte where "CMD_3270_WRITE \<equiv> 0x01"
abbreviation (input) CMD_3270_ERASE_WRITE :: byte where "CMD_3270_ERASE_WRITE \<equiv> 0x05"
abbreviation (input) CMD_3270_READ_MODIFIED :: byte where "CMD_3270_READ_MODIFIED \<equiv> 0x06"
abbreviation (input) ORDER_3270_SF :: byte where "ORDER_3270_SF \<equiv> 0x1D"
abbreviation (input) SBA :: byte where "SBA \<equiv> 0x11"
abbreviation (input) RA :: byte where "RA \<equiv> 0x02"
abbreviation (input) ESC :: byte where "ESC \<equiv> 0x04"
abbreviation (input) CMD_CLEAR_UNIT :: byte where "CMD_CLEAR_UNIT \<equiv> 0x40"
abbreviation (input) CMD_SAVE_SCREEN :: byte where "CMD_SAVE_SCREEN \<equiv> 0x02"
abbreviation (input) CMD_WRITE_ERROR_CODE :: byte where "CMD_WRITE_ERROR_CODE \<equiv> 0x21"
abbreviation (input) ATTR_5250_WHITE :: byte where "ATTR_5250_WHITE \<equiv> 0x22"
abbreviation (input) ATTR_5250_NORMAL :: byte where "ATTR_5250_NORMAL \<equiv> 0x20"
abbreviation (input) OPCODE_OUTPUT_ONLY :: byte where "OPCODE_OUTPUT_ONLY \<equiv> 2"
abbreviation (input) ECONNABORTED :: int where "ECONNABORTED \<equiv> 103"

text \<open>The map a host had before is only freed.\<close>

definition setXCharMap :: "tnXhost \<Rightarrow> string \<Rightarrow> tnXhost option" where
  "setXCharMap this name = do {
     m \<leftarrow> tnX_char_map_new name;
     Some (this\<lparr>h_map := Some m\<rparr>)
   }"

definition tnX_host_new :: "tnXstream \<Rightarrow> tnXhost option" where
  "tnX_host_new this = do {
     newHost \<leftarrow> setXCharMap \<lparr>h_stream = this, h_map = None, h_record = None, h_screenRec = None,
       h_buffer = tnX_buffer_init, curattr = 0, lastattr = 0, cursorPos = 0, wtd_set = False, clearState = False,
       inputInhibited = False, disconnected = False, inSysInterrupt = False, maxcol = 0\<rparr> ''37'';
     Some (newHost\<lparr>maxcol := 80\<rparr>)
   }"

section \<open>Building a data stream\<close>

text \<open>Appending to the buffer of the host.\<close>

fun host_append :: "tnXhost \<Rightarrow> byte list \<Rightarrow> tnXhost option" where
  "host_append this [] = Some this"
| "host_append this (b # bs) = do {
     buff \<leftarrow> tnX_buffer_append_byte (h_buffer this) b;
     host_append (this\<lparr>h_buffer := buff\<rparr>) bs
   }"

definition writeToDisplay :: "tnXhost \<Rightarrow> tnXhost option" where
  "writeToDisplay this =
     (if wtd_set this then Some this
      else
        let restore = inputInhibited this \<and> \<not> inSysInterrupt this;
            ctrlchar = (if restore then CTL_KEYBOARD_RESTORE else 0);
            this = (if restore then this\<lparr>inputInhibited := False\<rparr> else this)
        in do {
          this \<leftarrow> host_append this [CMD_3270_WRITE, ctrlchar];
          Some (this\<lparr>clearState := False, wtd_set := True, lastattr := - 1\<rparr>)
        })"

definition isprint :: "byte \<Rightarrow> bool" where
  "isprint uc \<longleftrightarrow> 0x20 \<le> uc \<and> uc \<le> 0x7E"

fun appendBlock2Ebcdic :: "tnXbuff \<Rightarrow> byte list \<Rightarrow> tnXchar_map \<Rightarrow> tnXbuff option" where
  "appendBlock2Ebcdic buff [] m = Some buff"
| "appendBlock2Ebcdic buff (uc # str) m = do {
     buff \<leftarrow> (if isprint uc then do {
         e \<leftarrow> tnX_char_map_to_remote m uc;
         tnX_buffer_append_byte buff e
       } else Some buff);
     appendBlock2Ebcdic buff str m
   }"

text \<open>Also returned is the buffer, which now holds the command.\<close>

definition sendReadMDT :: "tnXstream \<Rightarrow> (int + tnXstream \<times> tnXbuff) option" where
  "sendReadMDT this = do {
     buff \<leftarrow> tnX_buffer_append_byte tnX_buffer_init CMD_3270_READ_MODIFIED;
     proceed (tn3270_stream_send_packet this (int (tnX_buffer_length buff)) (buff_bytes buff)) (\<lambda>this. Some (Inr (this, buff)))
   }"

definition StartField :: "tnXbuff \<Rightarrow> byte \<Rightarrow> tnXbuff option" where
  "StartField buff attr = do {
     buff \<leftarrow> tnX_buffer_append_byte buff ORDER_3270_SF;
     tnX_buffer_append_byte buff attr
   }"

definition EraseWrite :: "tnXhost \<Rightarrow> tnXhost option" where
  "EraseWrite this = do {
     this \<leftarrow> host_append (this\<lparr>inputInhibited := False\<rparr>)
       [CMD_3270_ERASE_WRITE, CTL_KEYBOARD_RESTORE OR CTL_RESET_MDT OR CTL_RESET];
     Some (this\<lparr>clearState := False, wtd_set := True, lastattr := - 1\<rparr>)
   }"

definition setBufferAddr :: "tnXhost \<Rightarrow> int \<Rightarrow> int \<Rightarrow> tnXhost option" where
  "setBufferAddr this row col =
     (let address = (word_of_int (row * 80 + (col - 1)) :: u16);
          addr1 = (ucast (drop_bit 6 address OR 0xC0) :: byte);
          addr2 = (ucast (address AND 0x3F) :: byte)
      in do {
        this \<leftarrow> writeToDisplay this;
        host_append this [SBA, addr1, addr2]
      })"

definition repeat2Addr :: "tnXhost \<Rightarrow> int \<Rightarrow> int \<Rightarrow> byte \<Rightarrow> tnXhost option" where
  "repeat2Addr this row col uc = do {
     this \<leftarrow> writeToDisplay this;
     host_append this [RA, word_of_int row, word_of_int col, uc]
   }"

definition setAttribute :: "tnXhost \<Rightarrow> u16 \<Rightarrow> tnXhost" where
  "setAttribute this attr = this\<lparr>curattr := attr\<rparr>"

definition sendWrite :: "tnXhost \<Rightarrow> (int + tnXhost) option" where
  "sendWrite this =
     proceed (tn3270_stream_send_packet (h_stream this) (int (tnX_buffer_length (h_buffer this))) (buff_bytes (h_buffer this)))
       (\<lambda>s. Some (Inr (this\<lparr>h_stream := s\<rparr>)))"

section \<open>Reading the answer\<close>

definition readMDTfields_1 :: "tnXhost \<Rightarrow> bool \<Rightarrow> (int + int \<times> tnXhost) option" where
  "readMDTfields_1 this sendRMF =
     proceed (if sendRMF then
                proceed (sendReadMDT (h_stream this)) (\<lambda>(s, b). Some (Inr (this\<lparr>h_stream := s, h_buffer := b\<rparr>)))
              else Some (Inr this))
       (\<lambda>this. Some (Inr (0, this\<lparr>wtd_set := False\<rparr>)))"

definition read_byte :: "tnXhost \<Rightarrow> (byte \<times> tnXhost) option" where
  "read_byte this = do {
     (b, h) \<leftarrow> tnX_record_get_byte (st_heap (h_stream this)) (h_record this);
     Some (b, this\<lparr>h_stream := (h_stream this)\<lparr>st_heap := h\<rparr>\<rparr>)
   }"

definition readMDTfields_2 :: "tnXhost \<Rightarrow> (int + int \<times> tnXhost) option" where
  "readMDTfields_2 this =
     proceed (telnet_stream_handle_receive (h_stream this)) (\<lambda>(ok, s).
       let this = this\<lparr>h_stream := s\<rparr> in
       if \<not> ok then Some (Inr (- ECONNABORTED, this\<lparr>disconnected := True\<rparr>))
       else do {
         this \<leftarrow> (if h_record this \<noteq> None then do {
             h \<leftarrow> tnX_record_destroy (st_heap (h_stream this)) (h_record this);
             Some (this\<lparr>h_stream := (h_stream this)\<lparr>st_heap := h\<rparr>, h_record := None\<rparr>)
           } else Some this);
         if st_record_count (h_stream this) > 0 then do {
           (r, s) \<leftarrow> tnX_stream_get_record (h_stream this);
           (ver, this) \<leftarrow> read_byte (this\<lparr>h_stream := s, h_record := r\<rparr>);
           (hor, this) \<leftarrow> read_byte this;
           let this = this\<lparr>cursorPos := word_of_int ((uint ver - 1) * maxcol this + (uint hor - 1))\<rparr>;
           (aidCode, this) \<leftarrow> read_byte this;
           Some (Inr (if aidCode \<noteq> 0 then - ECONNABORTED else uint aidCode, this))
         } else Some (Inr (0, this))
       })"

section \<open>Error reports\<close>

definition getErrMsg :: "int \<Rightarrow> string" where
  "getErrMsg ecode =
     (if ecode = 0x1 then ''Keyboard overrun.''
      else if ecode = 0x4 then ''Entry of data not allowed in this input/output field.''
      else if ecode = 0x5 then ''Cursor in protected area of display.''
      else if ecode = 0x6 then ''Key pressed following System Request key was not valid.''
      else if ecode = 0x7 then ''Mandatory data entry field. Must have data entered.''
      else if ecode = 0x8 then ''Field requires alphabetic characters.''
      else if ecode = 0x9 then ''Field requires numeric characters.''
      else if ecode = 0x10 then ''Only characters 0 through 9 allowed.''
      else if ecode = 0x11 then ''Key for sign position of field not valid.''
      else if ecode = 0x12 then ''No room to insert data.''
      else if ecode = 0x14 then ''Mandatory fill field. Must fill to exit.''
      else if ecode = 0x15 then ''Modulo 10 or 11 check digit error.''
      else if ecode = 0x16 then ''Field Minus key not valid in field.''
      else if ecode = 0x18 then ''The key used to exit field not valid.''
      else if ecode = 0x19 then ''Duplicate key or Field Mark key not allowed in field.''
      else if ecode = 0x20 then ''Enter key not allowed in field.''
      else if ecode = 0x26 then ''Field- entry not allowed.''
      else if ecode = 0x27 then ''Cannot use undefined key.''
      else ''No help text is available.'')"

definition dsnrMsgTable :: "(nat \<times> string) list" where
  "dsnrMsgTable =
     [(3, ''Format table resequencing error.''),
      (34, ''Write to display order row/col address is not valid''),
      (35, ''Repeat to Address less than the current WS address.''),
      (38, ''Start-of-field order address not valid''),
      (40, ''Field extends past the end of the display.''),
      (41, ''Format table overflow.''),
      (42, ''Attempted to write past the end of display.''),
      (43, ''Start-of-header length not valid.''),
      (44, ''Invalid ROLL command parameter.''),
      (49, ''No escape code was found where it was expected.''),
      (50, ''Invalid row/col address on WEC TO WINDOW command.'')]"

text \<open>\<^verbatim>\<open>sprintf(mbuf, unkfmt, catmod, ubyte1, dsnrCode)\<close>: the category is a \<^verbatim>\<open>short\<close> that is widened with its sign.\<close>

definition unknown_error :: "u16 \<Rightarrow> byte \<Rightarrow> byte \<Rightarrow> string" where
  "unknown_error catmod ubyte1 dsnrCode =
     ''Unknown data stream error: 0x'' @ hex_field 4 (unat (scast catmod :: u32)) @ '': ''
     @ hex_field 2 (unat ubyte1) @ '' '' @ hex_field 2 (unat dsnrCode)"

text \<open>The result is a message; one that was formatted has been written into \<^verbatim>\<open>mbuf[80]\<close>, which must have room for it.\<close>

definition processErr :: "byte list \<Rightarrow> string option" where
  "processErr buf = do {
     b0 \<leftarrow> peek buf 0;
     b1 \<leftarrow> peek buf 1;
     ubyte1 \<leftarrow> peek buf 2;
     dsnrCode \<leftarrow> peek buf 3;
     let catmod = push_bit 8 (ucast b0) OR ucast b1;
     let format = (let msg = unknown_error catmod ubyte1 dsnrCode in if length msg < 80 then Some msg else None);
     if catmod = 0x1003 \<and> ubyte1 = 1 \<and> dsnrCode = 1 then Some ''Invalid command encountered in data stream.''
     else if catmod \<noteq> 0x1005 \<or> ubyte1 \<noteq> 1 then format
     else (case map_of dsnrMsgTable (unat dsnrCode) of None \<Rightarrow> format | Some msg \<Rightarrow> Some msg)
   }"

definition hiliteString :: "tnXbuff \<Rightarrow> string \<Rightarrow> tnXchar_map \<Rightarrow> tnXbuff option" where
  "hiliteString buff str m = do {
     buff \<leftarrow> tnX_buffer_append_byte buff ATTR_5250_WHITE;
     buff \<leftarrow> appendBlock2Ebcdic buff (bytes_of str) m;
     tnX_buffer_append_byte buff ATTR_5250_NORMAL
   }"

definition sendWriteErrorCode :: "tnXhost \<Rightarrow> string \<Rightarrow> byte \<Rightarrow> (int + tnXhost) option" where
  "sendWriteErrorCode this msg opcode = do {
     tbuf \<leftarrow> tnX_buffer_append_byte tnX_buffer_init ESC;
     tbuf \<leftarrow> tnX_buffer_append_byte tbuf CMD_WRITE_ERROR_CODE;
     m \<leftarrow> h_map this;
     tbuf \<leftarrow> hiliteString tbuf msg m;
     proceed (if opcode = OPCODE_OUTPUT_ONLY
              then tn3270_stream_send_packet (h_stream this) (int (tnX_buffer_length tbuf)) (buff_bytes tbuf)
              else Some (Inr (h_stream this)))
       (\<lambda>s. proceed (sendReadMDT s) (\<lambda>(s, b). Some (Inr (this\<lparr>h_stream := s\<rparr>))))
   }"

section \<open>Interrupts\<close>

definition drop_records :: "tnXstream \<Rightarrow> tnXstream option" where
  "drop_records this =
     (if st_record_count this > 0 then do {
        (l, h) \<leftarrow> tnX_record_list_destroy (st_heap this) (st_records this);
        Some (this\<lparr>st_records := l, st_heap := h, st_record_count := 0\<rparr>)
      } else Some this)"

text \<open>\<^verbatim>\<open>do { statOK = tnX_stream_handle_receive(This); } while (statOK && !This->record_count);\<close>\<close>

partial_function (option) await_record :: "tnXstream \<Rightarrow> (int + bool \<times> tnXstream) option" where
  "await_record this =
     (case telnet_stream_handle_receive this of
        None \<Rightarrow> None
      | Some (Inl n) \<Rightarrow> Some (Inl n)
      | Some (Inr (statOK, this)) \<Rightarrow>
          if statOK \<and> st_record_count this = 0 then await_record this else Some (Inr (statOK, this)))"

definition cancelInvite :: "tnXstream \<Rightarrow> (int + bool \<times> tnXstream) option" where
  "cancelInvite this =
     proceed (tn3270_stream_send_packet this 0 []) (\<lambda>this. do {
       this \<leftarrow> (if st_record_count this \<noteq> 0 then do {
           (l, h) \<leftarrow> tnX_record_list_destroy (st_heap this) (st_records this);
           Some (this\<lparr>st_records := l, st_heap := h, st_record_count := 0\<rparr>)
         } else Some this);
       proceed (await_record this) (\<lambda>(statOK, this). do {
         this \<leftarrow> drop_records this;
         Some (Inr (statOK, this))
       })
     })"

partial_function (option) discard_records :: "tnXstream \<Rightarrow> tnXstream option" where
  "discard_records this =
     (if st_record_count this > 0 then do {
        (trec, this) \<leftarrow> tnX_stream_get_record this;
        h \<leftarrow> tnX_record_destroy (st_heap this) trec;
        discard_records (this\<lparr>st_heap := h\<rparr>)
      } else Some this)"

definition saveScreen :: "tnXstream \<Rightarrow> (int + ptr \<times> tnXstream) option" where
  "saveScreen this = do {
     tbuf \<leftarrow> tnX_buffer_append_byte tnX_buffer_init ESC;
     tbuf \<leftarrow> tnX_buffer_append_byte tbuf CMD_SAVE_SCREEN;
     proceed (tn3270_stream_send_packet this 2 (buff_bytes tbuf)) (\<lambda>this. do {
       this \<leftarrow> discard_records this;
       proceed (await_record this) (\<lambda>(statOK, this).
         if statOK then do { (r, this) \<leftarrow> tnX_stream_get_record this; Some (Inr (r, this)) }
         else Some (Inr (None, this)))
     })
   }"

definition restoreScreen :: "tnXstream \<Rightarrow> tnXbuff \<Rightarrow> (int + tnXstream) option" where
  "restoreScreen this buff =
     (if tb_data buff = None \<or> tnX_buffer_length buff \<le> 10 then None
      else tn3270_stream_send_packet this (int (tnX_buffer_length buff) - 10) (drop 10 (buff_bytes buff)))"

text \<open>\<open>interrupt\<close>: the exit code if the handler of \<^verbatim>\<open>SIGINT\<close> ends the process.\<close>

definition processSRQ :: "int option \<Rightarrow> tnXstream \<Rightarrow> (int + int \<times> tnXstream) option" where
  "processSRQ interrupt this = proceed (saveScreen this) (\<lambda>(record, this).
     if record = None then Some (Inr (- 1, this))
     else (case interrupt of
       Some n \<Rightarrow> Some (Inl n)
     | None \<Rightarrow> do {
         r \<leftarrow> load (st_heap this) record;
         proceed (restoreScreen this (r_data r)) (\<lambda>this. do {
           h \<leftarrow> tnX_record_destroy (st_heap this) record;
           proceed (sendReadMDT (this\<lparr>st_heap := h\<rparr>)) (\<lambda>(this, b). Some (Inr (0, this)))
         })
       }))"

definition flushTN5250 :: "tnXhost \<Rightarrow> (int + tnXhost) option" where
  "flushTN5250 this =
     proceed (if tnX_buffer_length (h_buffer this) > 0 then
                proceed (sendWrite this) (\<lambda>this. Some (Inr (this\<lparr>h_buffer := tnX_buffer_free (h_buffer this)\<rparr>)))
              else Some (Inr this))
       (\<lambda>this. Some (Inr (this\<lparr>wtd_set := False\<rparr>)))"

definition clearScreen :: "tnXhost \<Rightarrow> (int + tnXhost) option" where
  "clearScreen this =
     (if clearState this then Some (Inr this)
      else proceed (if wtd_set this then flushTN5250 this else Some (Inr this)) (\<lambda>this. do {
        this \<leftarrow> host_append this [ESC, CMD_CLEAR_UNIT];
        Some (Inr (this\<lparr>inputInhibited := True, clearState := True\<rparr>))
      }))"

text \<open>\<open>buf\<close>: the two or four bytes behind the header of the record.\<close>

definition processFlags :: "int option \<Rightarrow> tnXhost \<Rightarrow> byte \<Rightarrow> byte list \<Rightarrow> (int + int \<times> tnXhost) option" where
  "processFlags interrupt this flags buf =
     (let with_stream = (\<lambda>s. this\<lparr>h_stream := s\<rparr>) in
      if flags = 0x01 then do {
        b0 \<leftarrow> peek buf 0;
        b1 \<leftarrow> peek buf 1;
        proceed (cancelInvite (h_stream this)) (\<lambda>(ok, s).
          if \<not> ok then Some (Inr (- 1, with_stream s))
          else proceed (sendWriteErrorCode (with_stream s) (getErrMsg (sint (push_bit 8 (ucast b0) OR ucast b1 :: u16))) OPCODE_OUTPUT_ONLY)
            (\<lambda>this. Some (Inr (0, this))))
      }
      else if flags = 0x80 then do {
        msg \<leftarrow> processErr buf;
        proceed (sendWriteErrorCode this msg OPCODE_OUTPUT_ONLY) (\<lambda>this. Some (Inr (- 1, this)))
      }
      else if flags = 0x40 \<or> flags = 0x04 then
        (if inSysInterrupt this then Some (Inr (0, this))
         else proceed (cancelInvite (h_stream this)) (\<lambda>(ok, s).
           if \<not> ok then Some (Inr (- 1, with_stream s))
           else proceed (clearScreen ((with_stream s)\<lparr>inSysInterrupt := True, wtd_set := False, clearState := False,
               h_buffer := tnX_buffer_free (h_buffer this)\<rparr>)) (\<lambda>this.
             proceed (processSRQ interrupt (h_stream this)) (\<lambda>(r, s).
               Some (Inr (0, this\<lparr>h_stream := s, wtd_set := False, clearState := False, inSysInterrupt := False,
                 h_buffer := tnX_buffer_free (h_buffer this)\<rparr>))))))
      else Some (Inr (0, this)))"

text \<open>
  The heap after \<^verbatim>\<open>tnX_host_destroy\<close> of a host that is not null: the records the host holds and those of the
  stream are freed. The socket, which is closed here, belongs to the caller's view of its descriptors.
\<close>

definition tnX_host_destroy :: "tnXhost \<Rightarrow> rec_heap option" where
  "tnX_host_destroy this = do {
     h \<leftarrow> tnX_record_destroy (st_heap (h_stream this)) (h_record this);
     h \<leftarrow> tnX_record_destroy h (h_screenRec this);
     tnX_stream_destroy ((h_stream this)\<lparr>st_heap := h\<rparr>)
   }"

section \<open>The test screen\<close>

definition ascii_banner :: "string list" where
  "ascii_banner =
  [''                                                                  #####        '',
   ''                                                                 #######       '',
   ''                    @                                            ##O#O##       '',
   ''   ######          @@#                                           #VVVVV#       '',
   ''     ##             #                                          ##  VVV  ##     '',
   ''     ##         @@@   ### ####   ###    ###  ##### ######     #          ##    '',
   ''     ##        @  @#   ###    ##  ##     ##    ###  ##       #            ##   '',
   ''     ##       @   @#   ##     ##  ##     ##      ###         #            ###  '',
   ''     ##          @@#   ##     ##  ##     ##      ###        QQ#           ##Q  '',
   ''     ##       # @@#    ##     ##  ##     ##     ## ##     QQQQQQ#       #QQQQQQ'',
   ''     ##      ## @@# #  ##     ##  ###   ###    ##   ##    QQQQQQQ#     #QQQQQQQ'',
   ''   ############  ###  ####   ####   #### ### ##### ######   QQQQQ#######QQQQQ  '',
   ''                                                                               '',
   ''                                                                               '',
   ''                            Linux-SNA TN3270 server                            '',
   ''                       (Press an AID key to disconnect)                        '']"

fun banner_loop :: "tnXhost \<Rightarrow> int \<Rightarrow> string list \<Rightarrow> tnXhost option" where
  "banner_loop this currow [] = Some this"
| "banner_loop this currow (l # ls) = do {
     this \<leftarrow> setBufferAddr this (currow + 3) 1;
     m \<leftarrow> h_map this;
     buff \<leftarrow> appendBlock2Ebcdic (h_buffer this) (bytes_of l) m;
     banner_loop (this\<lparr>h_buffer := buff\<rparr>) (currow + 1) ls
   }"

definition SendTestScreen :: "tnXhost \<Rightarrow> (int + int \<times> tnXhost) option" where
  "SendTestScreen this = do {
     this \<leftarrow> EraseWrite this;
     this \<leftarrow> banner_loop this 0 ascii_banner;
     this \<leftarrow> setBufferAddr (this\<lparr>inputInhibited := False, inSysInterrupt := False\<rparr>) 1 1;
     buff \<leftarrow> StartField (h_buffer this) 0;
     m \<leftarrow> h_map this;
     buff \<leftarrow> appendBlock2Ebcdic buff (bytes_of ''Test'') m;
     proceed (sendWrite (this\<lparr>h_buffer := buff\<rparr>)) (\<lambda>this. readMDTfields_1 this False)
   }"

end
