(* ===== verification/Tn_Screen.thy ===== *)
theory Tn_Screen
  imports Tn_Host
begin

text \<open>
  What the terminal shows of the data streams the gateway builds (\<^verbatim>\<open>tn3270d/tn3270_host.c\<close>), and what the
  gateway makes of the client's answer.
\<close>

section \<open>Buffer addresses\<close>

text \<open>A 12 bit address as the terminal reads it.\<close>

definition decode_addr :: "byte \<Rightarrow> byte \<Rightarrow> nat" where
  "decode_addr a1 a2 = unat (push_bit 6 (ucast a1 AND 0x3F) OR (ucast a2 AND 0x3F) :: u16)"

definition sba :: "u16 \<Rightarrow> byte list" where
  "sba address = [SBA, ucast (drop_bit 6 address OR 0xC0), ucast (address AND 0x3F)]"

lemma mask6: "(0x3F :: u16) = mask 6" by (simp add: mask_eq_exp_minus_1)

lemma bit_C0: "n < 6 \<Longrightarrow> \<not> bit (0xC0 :: u16) n"
proof -
  assume "n < 6"
  then have "n \<in> {0, 1, 2, 3, 4, 5}" by (simp, arith)
  then show ?thesis by (elim insertE) (simp_all add: bit_simps)
qed

lemma decode_sba:
  assumes "address < (4096 :: u16)"
  shows "decode_addr (ucast (drop_bit 6 address OR 0xC0)) (ucast (address AND 0x3F)) = unat address"
proof -
  have "unat (drop_bit 12 address) = 0"
    using assms by (simp add: drop_bit_eq_div unat_div word_less_nat_alt)
  then have zero: "drop_bit 12 address = 0" by (simp add: unat_eq_zero)
  have high: "\<not> bit address n" if "12 \<le> n" for n
    using arg_cong [OF zero, of "\<lambda>x. bit x (n - 12)"] that by (simp add: bit_simps)
  have low: "n < 6 \<or> n - 6 < 6 \<and> n - 6 < 8" if "bit address n" for n
    using high [of n] that by (cases "12 \<le> n") auto
  have "push_bit 6 (ucast (ucast (drop_bit 6 address OR 0xC0) :: byte) AND 0x3F)
      OR (ucast (ucast (address AND 0x3F) :: byte) AND 0x3F) = address"
    (is "?w = address")
  proof (rule bit_word_eqI)
    fix n assume "n < LENGTH(16)"
    then show "bit ?w n \<longleftrightarrow> bit address n" using low [of n] bit_C0 [of "n - 6"] by (auto simp: mask6 bit_simps)
  qed
  then show ?thesis by (simp only: decode_addr_def)
qed

section \<open>Appending to the buffer of a host\<close>

definition host_bytes :: "tnXhost \<Rightarrow> byte list" where
  "host_bytes this = buff_bytes (h_buffer this)"

lemma host_append_ok:
  "buff_inv (h_buffer this) \<Longrightarrow>
   \<exists>b. host_append this bs = Some (this\<lparr>h_buffer := b\<rparr>) \<and> buff_inv b \<and> buff_bytes b = host_bytes this @ bs"
proof (induction bs arbitrary: this)
  case (Cons x bs)
  obtain b where "tnX_buffer_append_byte (h_buffer this) x = Some b" "buff_inv b" "buff_bytes b = host_bytes this @ [x]"
    using tnX_buffer_append_byte_ok [OF Cons.prems, of x] by (auto simp: host_bytes_def)
  with Cons.IH [of "this\<lparr>h_buffer := b\<rparr>"] show ?case by (auto simp: host_bytes_def)
next
  case Nil
  then show ?case by (cases this) (auto simp: host_bytes_def)
qed

lemma setBufferAddr_ok:
  assumes "buff_inv (h_buffer this)" "wtd_set this"
  shows "\<exists>b. setBufferAddr this row col = Some (this\<lparr>h_buffer := b\<rparr>) \<and> buff_inv b
    \<and> buff_bytes b = host_bytes this @ sba (word_of_int (row * 80 + (col - 1)))"
  using host_append_ok [OF assms(1)] assms(2)
  by (simp add: setBufferAddr_def writeToDisplay_def sba_def Let_def del: host_append.simps)

text \<open>A printable text in the code of the host.\<close>

definition ebcdic :: "tnXchar_map \<Rightarrow> byte list \<Rightarrow> byte list" where
  "ebcdic m s = map (\<lambda>c. the (tnX_char_map_to_remote m c)) s"

lemma length_ebcdic [simp]: "length (ebcdic m s) = length s"
  by (simp add: ebcdic_def)

lemma append_ebcdic_ok:
  assumes "tnX_char_map_new name = Some m" "\<forall>c \<in> set s. isprint c" "buff_inv b"
  shows "\<exists>b'. appendBlock2Ebcdic b s m = Some b' \<and> buff_inv b' \<and> buff_bytes b' = buff_bytes b @ ebcdic m s"
  using assms(2,3)
proof (induction s arbitrary: b)
  case (Cons c s)
  obtain e where e: "tnX_char_map_to_remote m c = Some e"
    using code_page.dec_enc [OF charmap_ok_code_page [OF char_map_new_ok [OF assms(1)]], of c]
    by (auto simp: tnX_char_map_to_remote_def)
  obtain b1 where b1: "tnX_buffer_append_byte b e = Some b1" "buff_inv b1" "buff_bytes b1 = buff_bytes b @ [e]"
    using tnX_buffer_append_byte_ok [OF Cons.prems(2), of e] by auto
  then show ?case using Cons.IH [of b1] Cons.prems(1) e by (auto simp: ebcdic_def)
qed (simp add: ebcdic_def)

section \<open>The terminal\<close>

text \<open>
  A terminal that has been sent a write: a text is stored from the current address on, \<^verbatim>\<open>SBA\<close> sets the address,
  \<^verbatim>\<open>SF\<close> stores an attribute, which is not a character.
\<close>

fun paint :: "(nat \<Rightarrow> byte option) \<Rightarrow> nat \<Rightarrow> byte list \<Rightarrow> nat \<Rightarrow> byte option" where
  "paint scr a [] = scr"
| "paint scr a (b # bs) =
     (if b = SBA then (case bs of a1 # a2 # r \<Rightarrow> paint scr (decode_addr a1 a2) r | _ \<Rightarrow> scr)
      else if b = ORDER_3270_SF then (case bs of x # r \<Rightarrow> paint (scr(a := None)) (a + 1) r | _ \<Rightarrow> scr)
      else paint (scr(a := Some b)) (a + 1) bs)"

text \<open>A record of the host: the command \<^verbatim>\<open>Erase/Write\<close> clears the screen.\<close>

fun display :: "byte list \<Rightarrow> nat \<Rightarrow> byte option" where
  "display (c # wcc # bs) = (if c = CMD_3270_ERASE_WRITE then paint (\<lambda>a. None) 0 bs else (\<lambda>a. None))"
| "display _ = (\<lambda>a. None)"

definition text_bytes :: "byte list \<Rightarrow> bool" where
  "text_bytes t \<longleftrightarrow> SBA \<notin> set t \<and> ORDER_3270_SF \<notin> set t"

definition overlay :: "(nat \<Rightarrow> byte option) \<Rightarrow> nat \<Rightarrow> byte list \<Rightarrow> nat \<Rightarrow> byte option" where
  "overlay scr a t = (\<lambda>i. if a \<le> i \<and> i < a + length t then Some (t ! (i - a)) else scr i)"

lemma paint_text: "text_bytes t \<Longrightarrow> paint scr a (t @ rest) = paint (overlay scr a t) (a + length t) rest"
proof (induction t arbitrary: scr a)
  case Nil
  have "overlay scr a [] = scr" by (rule ext) (auto simp: overlay_def)
  then show ?case by simp
next
  case (Cons b t)
  have "overlay (scr(a := Some b)) (a + 1) t = overlay scr a (b # t)"
    by (rule ext) (auto simp: overlay_def nth_Cons' Suc_le_eq)
  with Cons show ?case by (simp add: text_bytes_def)
qed

lemma paint_sba:
  assumes "n < 4096"
  shows "paint scr a (sba (of_nat n) @ rest) = paint scr n rest"
proof -
  have "unat (of_nat n :: u16) = n" using assms by (simp add: unat_of_nat take_bit_nat_eq_self)
  moreover from this have "(of_nat n :: u16) < 4096" using assms by (simp add: word_less_nat_alt)
  ultimately show ?thesis using decode_sba [of "of_nat n"] by (simp add: sba_def)
qed

text \<open>The lines of a screen from row \<open>n\<close> on.\<close>

fun lines_from :: "nat \<Rightarrow> byte list list \<Rightarrow> byte list" where
  "lines_from n [] = []"
| "lines_from n (t # ts) = sba (of_nat (n * 80)) @ t @ lines_from (n + 1) ts"

lemma paint_lines:
  assumes "\<forall>t \<in> set ts. text_bytes t \<and> length t \<le> 80" "(n + length ts) * 80 \<le> 4096"
  shows "\<exists>scr' a'. (\<forall>rest. paint scr a (lines_from n ts @ rest) = paint scr' a' rest)
    \<and> (\<forall>k c. k < length ts \<longrightarrow> c < length (ts ! k) \<longrightarrow> scr' ((n + k) * 80 + c) = Some (ts ! k ! c))
    \<and> (\<forall>i. i < n * 80 \<longrightarrow> scr' i = scr i)"
  using assms
proof (induction ts arbitrary: n scr a)
  case (Cons t ts)
  let ?scr = "overlay scr (n * 80) t"
  have "(n + 1 + length ts) * 80 \<le> 4096" using Cons.prems(2) by simp
  from Cons.IH [OF _ this, of ?scr "n * 80 + length t"] Cons.prems(1) obtain scr' a' where
    s: "\<And>rest. paint ?scr (n * 80 + length t) (lines_from (n + 1) ts @ rest) = paint scr' a' rest"
    "\<And>k c. k < length ts \<Longrightarrow> c < length (ts ! k) \<Longrightarrow> scr' ((n + 1 + k) * 80 + c) = Some (ts ! k ! c)"
    "\<And>i. i < (n + 1) * 80 \<Longrightarrow> scr' i = ?scr i" by auto
  have "paint scr a (lines_from n (t # ts) @ rest) = paint scr' a' rest" for rest
    using paint_sba [of "n * 80" scr a "t @ lines_from (n + 1) ts @ rest"] paint_text [of t scr "n * 80"] Cons.prems s(1) by simp
  moreover have "scr' ((n + k) * 80 + c) = Some ((t # ts) ! k ! c)" if "k < length (t # ts)" "c < length ((t # ts) ! k)" for k c
  proof (cases k)
    case 0
    then have "c < 80" using that(2) Cons.prems(1) by auto
    with 0 that(2) show ?thesis using s(3) [of "n * 80 + c"] by (simp add: overlay_def)
  next
    case (Suc j)
    then show ?thesis using s(2) [of j c] that by (simp add: algebra_simps)
  qed
  moreover have "scr' i = scr i" if "i < n * 80" for i
    using s(3) [of i] that by (simp add: overlay_def)
  ultimately show ?case by blast
qed auto

section \<open>The test screen\<close>

lemma banner_shape: "length ascii_banner = 16" "\<forall>l \<in> set ascii_banner. length l = 79 \<and> (\<forall>c \<in> set (bytes_of l). isprint c)"
  by code_simp+

definition page37 :: tnXchar_map where
  "page37 = hd tnX_transmaps"

lemma page37: "tnX_char_map_new ''37'' = Some page37"
  by (simp add: tnX_char_map_new_def tnX_transmaps_def page37_def)

lemma page37_orders: "table_at (to_local_map page37) 0x11 = Some 0x11" "table_at (to_local_map page37) 0x1D = Some 0x1D"
  by (simp_all add: page37_def tnX_transmaps_def) code_simp+

text \<open>A printable character is never taken for an order.\<close>

lemma ebcdic_text:
  assumes "\<forall>c \<in> set s. isprint c"
  shows "text_bytes (ebcdic page37 s)"
proof -
  have "the (tnX_char_map_to_remote page37 c) \<noteq> 0x11 \<and> the (tnX_char_map_to_remote page37 c) \<noteq> 0x1D" if "isprint c" for c
  proof -
    obtain e where "table_at (to_remote_map page37) c = Some e" "table_at (to_local_map page37) e = Some c"
      using code_page.dec_enc [OF charmap_ok_code_page [OF char_map_new_ok [OF page37]], of c] by blast
    moreover have "c \<noteq> 0x11" "c \<noteq> 0x1D" using that by (auto simp: isprint_def)
    ultimately show ?thesis using page37_orders by (auto simp: tnX_char_map_to_remote_def)
  qed
  with assms show ?thesis by (auto simp: text_bytes_def ebcdic_def)
qed

text \<open>What is written on the screen: the sixteen lines from row 3, then a field in row 1.\<close>

definition test_screen :: "byte list" where
  "test_screen = [0x05, 0x43] @ lines_from 3 (map (\<lambda>l. ebcdic page37 (bytes_of l)) ascii_banner)
     @ sba 80 @ [0x1D, 0] @ ebcdic page37 (bytes_of ''Test'')"

lemma banner_loop_ok:
  assumes "\<forall>l \<in> set ls. \<forall>c \<in> set (bytes_of l). isprint c" "buff_inv (h_buffer this)" "wtd_set this" "h_map this = Some page37"
  shows "\<exists>b. banner_loop this (int n) ls = Some (this\<lparr>h_buffer := b\<rparr>) \<and> buff_inv b
    \<and> buff_bytes b = host_bytes this @ lines_from (n + 3) (map (\<lambda>l. ebcdic page37 (bytes_of l)) ls)"
  using assms
proof (induction ls arbitrary: this n)
  case Nil
  then show ?case by (cases this) (auto simp: host_bytes_def)
next
  case (Cons l ls)
  obtain b where b: "setBufferAddr this (int n + 3) 1 = Some (this\<lparr>h_buffer := b\<rparr>)" "buff_inv b"
    "buff_bytes b = host_bytes this @ sba (of_nat ((n + 3) * 80))"
    using setBufferAddr_ok [OF Cons.prems(2,3), of "int n + 3" 1] by (auto simp: algebra_simps)
  obtain c where c: "appendBlock2Ebcdic b (bytes_of l) page37 = Some c" "buff_inv c"
    "buff_bytes c = buff_bytes b @ ebcdic page37 (bytes_of l)"
    using append_ebcdic_ok [OF page37 _ b(2), of "bytes_of l"] Cons.prems(1) by auto
  have "int n + 1 = int (n + 1)" by simp
  then show ?case
    using Cons.IH [of "this\<lparr>h_buffer := c\<rparr>" "n + 1"] Cons.prems b c by (auto simp: host_bytes_def algebra_simps)
qed

lemma send_test_screen_ok:
  assumes "tnX_host_new s = Some this" "SelErr \<notin> set (st_sel s)" "TxErr \<notin> set (st_tx s)"
  shows "\<exists>this' ss ts. SendTestScreen this = Some (Inr (0, this'))
    \<and> h_stream this' = s\<lparr>st_sel := ss, st_tx := ts, st_out := st_out s @ packet test_screen\<rparr> \<and> set ts \<subseteq> set (st_tx s)
    \<and> h_record this' = None \<and> h_screenRec this' = None"
proof -
  have hs: "h_stream this = s" "h_map this = Some page37" "h_buffer this = tnX_buffer_init" "h_record this = None" "h_screenRec this = None"
    using assms(1) page37 by (auto simp: tnX_host_new_def setXCharMap_def)
  obtain b1 where b1: "EraseWrite this = Some (this\<lparr>inputInhibited := False, h_buffer := b1, clearState := False, wtd_set := True, lastattr := - 1\<rparr>)"
    "buff_inv b1" "buff_bytes b1 = [0x05, 0x43]"
    using host_append_ok [of "this\<lparr>inputInhibited := False\<rparr>" "[0x05, 0x43]"] hs(3)
    by (auto simp: EraseWrite_def host_bytes_def simp del: host_append.simps)
  let ?t1 = "this\<lparr>inputInhibited := False, h_buffer := b1, clearState := False, wtd_set := True, lastattr := - 1\<rparr>"
  obtain b2 where b2: "banner_loop ?t1 0 ascii_banner = Some (?t1\<lparr>h_buffer := b2\<rparr>)" "buff_inv b2"
    "buff_bytes b2 = [0x05, 0x43] @ lines_from 3 (map (\<lambda>l. ebcdic page37 (bytes_of l)) ascii_banner)"
    using banner_loop_ok [of ascii_banner ?t1 0] banner_shape(2) b1(2,3) hs(2) by (auto simp: host_bytes_def)
  let ?t2 = "?t1\<lparr>h_buffer := b2, inputInhibited := False, inSysInterrupt := False\<rparr>"
  obtain b3 where b3: "setBufferAddr ?t2 1 1 = Some (?t2\<lparr>h_buffer := b3\<rparr>)" "buff_inv b3" "buff_bytes b3 = buff_bytes b2 @ sba 80"
    using setBufferAddr_ok [of ?t2 1 1] b2(2) by (auto simp: host_bytes_def)
  obtain b4 where b4: "StartField b3 0 = Some b4" "buff_inv b4" "buff_bytes b4 = buff_bytes b3 @ [0x1D, 0]"
    using tnX_buffer_append_byte_ok [OF b3(2), of "0x1D"] tnX_buffer_append_byte_ok by (fastforce simp: StartField_def)
  have "\<forall>c \<in> set (bytes_of ''Test''). isprint c" by code_simp
  from append_ebcdic_ok [OF page37 this b4(2)] obtain b5 where
    b5: "appendBlock2Ebcdic b4 (bytes_of ''Test'') page37 = Some b5" "buff_inv b5" "buff_bytes b5 = buff_bytes b4 @ ebcdic page37 (bytes_of ''Test'')"
    by blast
  have bytes: "buff_bytes b5 = test_screen" using b2(3) b3(3) b4(3) b5(3) by (simp add: test_screen_def)
  then have "int (tnX_buffer_length b5) = int (length test_screen)" using length_buff_bytes [OF b5(2)] by simp
  with send_packet_ok [OF assms(2,3), of test_screen] bytes obtain ss ts where
    "tn3270_stream_send_packet s (int (tnX_buffer_length b5)) (buff_bytes b5)
      = Some (Inr (s\<lparr>st_sel := ss, st_tx := ts, st_out := st_out s @ packet test_screen\<rparr>))" "set ts \<subseteq> set (st_tx s)" by auto
  with b1(1) b2(1) b3(1) b4(1) b5(1) hs(1,2,4,5) show ?thesis
    by (simp add: SendTestScreen_def sendWrite_def readMDTfields_1_def) blast
qed

text \<open>
  C33. The test screen reaches the terminal: over any line that does not fail, the gateway sends exactly one record,
  and a terminal that receives it shows every character of the sixteen lines of the banner in its place, the
  first line in row 3.
\<close>

theorem test_screen_shows_banner:
  assumes "tnX_host_new s = Some this" "SelErr \<notin> set (st_sel s)" "TxErr \<notin> set (st_tx s)"
    and "k < 16" "c < 79"
  shows "\<exists>this' d e. SendTestScreen this = Some (Inr (0, this')) \<and> st_out (h_stream this') = st_out s @ packet d
    \<and> display d ((3 + k) * 80 + c) = Some e
    \<and> tnX_char_map_to_local page37 e = Some (bytes_of (ascii_banner ! k) ! c)"
proof -
  let ?ts = "map (\<lambda>l. ebcdic page37 (bytes_of l)) ascii_banner"
  have k: "ascii_banner ! k \<in> set ascii_banner" using assms(4) banner_shape(1) by simp
  have len: "length (bytes_of l) = 79" "\<forall>c \<in> set (bytes_of l). isprint c" if "l \<in> set ascii_banner" for l
    using banner_shape(2) that by (auto simp: bytes_of_def)
  have ts: "\<forall>t \<in> set ?ts. text_bytes t \<and> length t \<le> 80" "(3 + length ?ts) * 80 \<le> 4096"
    using len ebcdic_text banner_shape(1) by auto
  from paint_lines [OF ts] obtain scr a where
    p: "\<And>rest. paint (\<lambda>a. None) 0 (lines_from 3 ?ts @ rest) = paint scr a rest"
    "\<And>k c. k < length ?ts \<Longrightarrow> c < length (?ts ! k) \<Longrightarrow> scr ((3 + k) * 80 + c) = Some (?ts ! k ! c)" by blast
  have cell: "scr ((3 + k) * 80 + c) = Some (the (tnX_char_map_to_remote page37 (bytes_of (ascii_banner ! k) ! c)))"
    using p(2) [of k c] assms(4,5) banner_shape(1) len [OF k] by (simp add: ebcdic_def)
  have "display test_screen = paint scr a (sba (of_nat 80) @ [0x1D, 0] @ ebcdic page37 (bytes_of ''Test''))"
    using p(1) by (simp add: test_screen_def)
  also have "\<dots> = paint (scr(80 := None)) 81 (ebcdic page37 (bytes_of ''Test'') @ [])"
    by (subst paint_sba) simp_all
  also have "\<dots> = overlay (scr(80 := None)) 81 (ebcdic page37 (bytes_of ''Test''))"
    by (subst paint_text) (rule ebcdic_text, code_simp, simp)
  finally have "display test_screen ((3 + k) * 80 + c) = scr ((3 + k) * 80 + c)"
    by (simp add: overlay_def bytes_of_def)
  moreover have "tnX_char_map_to_local page37 (the (tnX_char_map_to_remote page37 ch)) = Some ch" if "isprint ch" for ch
    using char_map_there_and_back [OF page37, of ch] that by (auto simp: displayed_def isprint_def)
  moreover have "isprint (bytes_of (ascii_banner ! k) ! c)" using len [OF k] assms(5) by simp
  moreover obtain this' where "SendTestScreen this = Some (Inr (0, this'))" "st_out (h_stream this') = st_out s @ packet test_screen"
    using send_test_screen_ok [OF assms(1-3)] by auto
  ultimately show ?thesis using cell by metis
qed

theorem test_screen_shows_banner_witness:
  "\<exists>this this' d e. tnX_host_new (fresh_stream [] [SelRetry] [TxSome 3]) = Some this
    \<and> SendTestScreen this = Some (Inr (0, this')) \<and> st_out (h_stream this') = packet d
    \<and> display d ((3 + 0) * 80 + 66) = Some e \<and> tnX_char_map_to_local page37 e = Some (bytes_of (ascii_banner ! 0) ! 66)"
proof -
  let ?s = "fresh_stream [] [SelRetry] [TxSome 3]"
  obtain host where host: "tnX_host_new ?s = Some host" using page37 by (auto simp: tnX_host_new_def setXCharMap_def)
  have s: "SelErr \<notin> set (st_sel ?s)" "TxErr \<notin> set (st_tx ?s)" by (simp_all add: fresh_stream_def)
  from test_screen_shows_banner [OF host s, of 0 66] obtain this' d e where
    "SendTestScreen host = Some (Inr (0, this'))" "st_out (h_stream this') = st_out ?s @ packet d"
    "display d ((3 + 0) * 80 + 66) = Some e" "tnX_char_map_to_local page37 e = Some (bytes_of (ascii_banner ! 0) ! 66)" by auto
  with host show ?thesis unfolding fresh_stream_out by fastforce
qed

section \<open>The answer of the terminal\<close>

text \<open>Receiving changes neither the kind of the stream nor the answers of \<^verbatim>\<open>select\<close>, which only sending uses.\<close>

definition same_line :: "tnXstream \<Rightarrow> tnXstream \<Rightarrow> bool" where
  "same_line s t \<longleftrightarrow> st_streamtype t = st_streamtype s \<and> st_sel t = st_sel s"

lemma sock_send_line: "sock_send this data = (r, this') \<Longrightarrow> same_line this this'"
  by (auto simp: same_line_def sock_send_def split: list.splits tx.splits)

lemma switch_line:
  "get_byte_switch this verb temp = Some (Loop this' verb' t') \<Longrightarrow> same_line this this'"
  "get_byte_switch this verb temp = Some (Return r this') \<Longrightarrow> same_line this this'"
  by (auto simp: get_byte_switch_def switch_have_iac_def switch_have_verb_def switch_have_sb_iac_def
      telnet_stream_host_verb_def telnet_stream_do_verb_def telnet_stream_host_sb_def tnX_stream_setenv_def
      telnet_stream_sb_def sendWill_def Let_def same_line_def
      split: stream_state.splits if_splits bind_splits prod.splits sum.splits option.splits dest!: sock_send_line)

lemma get_next_line: "telnet_stream_get_next (wake this) = (t, this') \<Longrightarrow> same_line this this'"
  by (auto simp: same_line_def telnet_stream_get_next_def wake_def split: list.splits rx.splits if_splits)

lemma get_byte_loop_line:
  "get_byte_loop this verb = Some (Inr (c, this')) \<Longrightarrow> same_line this this'"
proof (induction this verb rule: get_byte_loop.induct)
  case (1 this verb)
  obtain t s where n: "telnet_stream_get_next (wake this) = (t, s)" by fastforce
  then show ?case
    using 1(2) get_next_line [OF n] switch_line [of s] 1(1) [OF n [symmetric]]
    by (auto simp: get_byte_loop.simps [of this] same_line_def split: if_splits option.splits switch.splits)
qed

lemma receive_step_line: "receive_step this c = Some this' \<Longrightarrow> same_line this this'"
  by (auto simp: same_line_def receive_step_def finish_record_def append_current_def split: if_splits bind_splits)

lemma handle_receive_line:
  "telnet_stream_handle_receive this = Some (Inr (ok, this')) \<Longrightarrow> same_line this this'"
proof (induction this rule: telnet_stream_handle_receive.induct)
  case (1 this)
  from 1(2) show ?case
    using 1(1) get_byte_loop_line receive_step_line
    by (auto simp: same_line_def telnet_stream_handle_receive.simps [of this] telnet_stream_get_byte_def
        split: if_splits option.splits sum.splits)
qed

lemma accept_loop_line: "accept_loop errno this cmds = Some (Inr (r, this')) \<Longrightarrow> same_line this this'"
proof (induction errno this cmds rule: accept_loop.induct)
  case (2 errno this cmd cmds)
  obtain r0 s where s: "sock_send this cmd = (r0, s)" by fastforce
  with 2(2) sock_send_line [OF s] handle_receive_line [of s] 2(1) [OF s [symmetric]] show ?case
    by (auto simp: same_line_def split: if_splits option.splits sum.splits)
qed (simp add: same_line_def)

text \<open>A packet that arrives at a stream with nothing pending.\<close>

lemma receive_one_packet:
  assumes "host_ready this" "represents this [] None" "d \<noteq> []" "st_in this = map RxByte (packet d) @ RxNone # later"
  shows "\<exists>this'. telnet_stream_handle_receive this = Some (Inr (True, this')) \<and> represents this' [d] None
    \<and> st_in this' = later \<and> same_line this this'"
proof -
  have "list_all token_ok (map TData d @ [TEor])" by (simp add: list_all_iff)
  from receive_tokens [OF assms(1,2) this, of "RxNone # later" None] assms(3,4) receive_packets [of "[d]" "[]"]
  obtain this' where "telnet_stream_handle_receive this = Some (Inr (True, this'))" "represents this' [d] None" "st_in this' = later"
    by (auto simp: packet_def handle_receive_from)
  with handle_receive_line [OF this(1)] show ?thesis by blast
qed

text \<open>Reading the record that was taken, byte by byte.\<close>

definition reading :: "tnXhost \<Rightarrow> byte list \<Rightarrow> nat \<Rightarrow> bool" where
  "reading this d k \<longleftrightarrow> (\<exists>a r. h_record this = Some a \<and> st_heap (h_stream this) a = Some r \<and> buff_inv (r_data r)
     \<and> buff_bytes (r_data r) = d \<and> r_cur_pos r = int k) \<and> st_records (h_stream this) = None"

lemma read_byte_end: "reading this d k \<Longrightarrow> length d \<le> k \<Longrightarrow> read_byte this = None"
  by (auto simp: reading_def read_byte_def record_get_byte_in_order)

lemma read_byte_ok:
  assumes "reading this d k" "k < length d"
  shows "\<exists>h. read_byte this = Some (d ! k, this\<lparr>h_stream := (h_stream this)\<lparr>st_heap := h\<rparr>\<rparr>)
    \<and> reading (this\<lparr>h_stream := (h_stream this)\<lparr>st_heap := h\<rparr>\<rparr>) d (k + 1)"
  using assms by (auto simp: reading_def read_byte_def record_get_byte_in_order)

lemma take_record:
  assumes "represents s [d] None" "st_streamtype s = TN3270_STREAM"
  shows "\<exists>r s'. tnX_stream_get_record s = Some (r, s') \<and> reading (this\<lparr>h_stream := s', h_record := r\<rparr>) d 0 \<and> st_in s' = st_in s"
proof -
  from get_record_takes_oldest [OF assms] obtain a r s' where
    s: "tnX_stream_get_record s = Some (Some a, s')" "st_heap s' a = Some r" "buff_bytes (r_data r) = d" "r_cur_pos r = 0"
    "represents s' [] None" by blast
  have "buff_inv (r_data r)" using s(2,5) domI [of "st_heap s'" a r] by (auto simp: represents_def stream_holds_def heap_inv_def Ball_def)
  moreover have "st_in s' = st_in s"
    using s(1) by (auto simp: tnX_stream_get_record_def Let_def split: if_splits bind_splits)
  moreover have "st_records s' = None" using s(5) by (auto simp: represents_def stream_holds_def ring_ptr_def)
  ultimately show ?thesis using s by (auto simp: reading_def)
qed

lemma read_answer_ok:
  assumes "host_ready (h_stream this)" "represents (h_stream this) [] None" "st_streamtype (h_stream this) = TN3270_STREAM"
    and "h_record this = None" "d \<noteq> []" "st_in (h_stream this) = map RxByte (packet d) @ RxNone # later"
  shows "if length d < 3 then readMDTfields_2 this = None
    else \<exists>this'. readMDTfields_2 this = Some (Inr (if d ! 2 = 0 then 0 else - ECONNABORTED, this'))
      \<and> cursorPos this' = word_of_int ((uint (d ! 0) - 1) * maxcol this + (uint (d ! 1) - 1)) \<and> st_in (h_stream this') = later
      \<and> reading this' d 3 \<and> h_screenRec this' = h_screenRec this"
proof -
  from receive_one_packet [OF assms(1,2,5,6)] assms(3) obtain s where
    s: "telnet_stream_handle_receive (h_stream this) = Some (Inr (True, s))" "represents s [d] None" "st_in s = later"
    "st_streamtype s = TN3270_STREAM" by (auto simp: same_line_def)
  from take_record [OF s(2,4), of this] s(3) obtain r s' where
    r: "tnX_stream_get_record s = Some (r, s')" "reading (this\<lparr>h_stream := s', h_record := r\<rparr>) d 0" "st_in s' = later" by auto
  have count: "st_record_count s > 0" using s(2) by (auto simp: represents_def stream_holds_def)
  let ?t0 = "this\<lparr>h_stream := s', h_record := r\<rparr>"
  from read_byte_ok [OF r(2)] assms(5) obtain h1 where
    r1: "read_byte ?t0 = Some (d ! 0, ?t0\<lparr>h_stream := s'\<lparr>st_heap := h1\<rparr>\<rparr>)" "reading (?t0\<lparr>h_stream := s'\<lparr>st_heap := h1\<rparr>\<rparr>) d 1"
    by auto
  show ?thesis
  proof (cases "length d < 2")
    case True
    then show ?thesis
      using s(1) count r(1) r1(1) read_byte_end [OF r1(2)] assms(4) by (simp add: readMDTfields_2_def Let_def)
  next
    case False
    from read_byte_ok [OF r1(2)] False obtain h2 where
      r2: "read_byte (?t0\<lparr>h_stream := s'\<lparr>st_heap := h1\<rparr>\<rparr>) = Some (d ! 1, ?t0\<lparr>h_stream := s'\<lparr>st_heap := h2\<rparr>\<rparr>)"
      "reading (?t0\<lparr>h_stream := s'\<lparr>st_heap := h2\<rparr>\<rparr>) d 2" by (auto simp: numeral_2_eq_2)
    let ?t2 = "?t0\<lparr>h_stream := s'\<lparr>st_heap := h2\<rparr>, cursorPos := word_of_int ((uint (d ! 0) - 1) * maxcol this + (uint (d ! 1) - 1))\<rparr>"
    have t2: "reading ?t2 d 2" using r2(2) by (simp add: reading_def)
    show ?thesis
    proof (cases "length d < 3")
      case True
      then show ?thesis
        using s(1) count r(1) r1(1) r2(1) read_byte_end [OF t2] assms(4) by (simp add: readMDTfields_2_def Let_def)
    next
      case False
      with read_byte_ok [OF t2] s(1) count r(1,3) r1(1) r2(1) assms(4) show ?thesis
        by (auto simp: readMDTfields_2_def Let_def numeral_3_eq_3)
    qed
  qed
qed

text \<open>
  What the gateway makes of the answer to its screen. The third byte decides: the session goes on if it is zero
  and ends otherwise. An answer of one or two bytes, which is what a terminal sends for the keys Clear and PA, stops
  the whole gateway in a failed assertion.
\<close>

theorem answer_decides:
  assumes "host_ready (h_stream this)" "represents (h_stream this) [] None" "st_streamtype (h_stream this) = TN3270_STREAM"
    and "h_record this = None" "d \<noteq> []" "st_in (h_stream this) = map RxByte (packet d) @ RxNone # later"
  shows "if length d < 3 then readMDTfields_2 this = None
    else \<exists>this'. readMDTfields_2 this = Some (Inr (if d ! 2 = 0 then 0 else - ECONNABORTED, this'))
      \<and> cursorPos this' = word_of_int ((uint (d ! 0) - 1) * maxcol this + (uint (d ! 1) - 1)) \<and> st_in (h_stream this') = later"
  using read_answer_ok [OF assms] by (auto split: if_splits)

theorem answer_decides_witness:
  "(\<exists>this. tnX_host_new (fresh_stream (map RxByte (packet [0x6D]) @ [RxNone]) [] []) = Some this \<and> readMDTfields_2 this = None)
   \<and> (\<exists>this this'. tnX_host_new (fresh_stream (map RxByte (packet [0x7D, 0x40, 0x40]) @ [RxNone]) [] []) = Some this
       \<and> readMDTfields_2 this = Some (Inr (- 103, this')))"
proof -
  have new: "\<exists>this. tnX_host_new s = Some this \<and> h_stream this = s \<and> h_record this = None" for s
    using page37 by (auto simp: tnX_host_new_def setXCharMap_def)
  have st: "host_ready (fresh_stream i [] [])" "represents (fresh_stream i [] []) [] None"
    "st_streamtype (fresh_stream i [] []) = TN3270_STREAM" "st_in (fresh_stream i [] []) = i" for i
    by (rule fresh_stream_ready, rule fresh_stream_represents, simp_all add: fresh_stream_def)
  have ans: "\<exists>this. tnX_host_new (fresh_stream (map RxByte (packet d) @ [RxNone]) [] []) = Some this
    \<and> (if length d < 3 then readMDTfields_2 this = None
       else \<exists>this'. readMDTfields_2 this = Some (Inr (if d ! 2 = 0 then 0 else - 103, this')))" if d: "d \<noteq> []" for d
  proof -
    let ?s = "fresh_stream (map RxByte (packet d) @ [RxNone]) [] []"
    obtain host where h: "tnX_host_new ?s = Some host" "h_stream host = ?s" "h_record host = None" using new by blast
    have "if length d < 3 then readMDTfields_2 host = None
       else \<exists>this'. readMDTfields_2 host = Some (Inr (if d ! 2 = 0 then 0 else - 103, this'))"
      using answer_decides [of host d "[]"] st [of "map RxByte (packet d) @ [RxNone]"] h(2,3) d by (auto split: if_splits)
    with h(1) show ?thesis by blast
  qed
  show ?thesis using ans [of "[0x6D]"] ans [of "[0x7D, 0x40, 0x40]"] by simp
qed

end
