(* ===== verification/Tn_Rui.thy ===== *)
theory Tn_Rui
  imports Tn_Host
begin

text \<open>
  The host session of the terminal gateway: the verbs of the request unit interface that \<^verbatim>\<open>tn3270d/tn3270_daemon.c\<close>
  builds and what it does when they complete.

  \<^verbatim>\<open>RUI\<close> is the entry point of the communication library. The repository ships a library in which it does nothing
  (\<^verbatim>\<open>rui1\<close> of \<^verbatim>\<open>libsna/lua.h\<close>); the functions below take it as a parameter, \<open>rui n v\<close> being the verb \<open>v\<close> as the call with
  number \<open>n\<close> leaves it, so that what is shown of them holds for any library. A verb whose flag \<^verbatim>\<open>async\<close> is left set is
  still in progress. The bodies of the callbacks \<^verbatim>\<open>read_finished\<close> and \<^verbatim>\<open>response_done\<close> are compiled out.
\<close>

section \<open>Verbs\<close>

datatype callback = No_callback | other_done_handle | response_done_handle | reinit_done_handle | read_finished_handle

datatype data_pointer = Null_data | At_read_verb | At_read_data | At_bytes "byte list"

record lua_flags =
  bid_enable :: bool
  sscp_exp :: bool
  sscp_norm :: bool
  lu_exp :: bool
  lu_norm :: bool

record lua_rh =
  rri :: bool
  bci :: bool
  eci :: bool
  dr1i :: bool
  dr2i :: bool
  ri :: bool
  bbi :: bool
  cdi :: bool

text \<open>
  The header of a verb, less its length, which depends on the platform, and the fields the program never touches.
\<close>

record lua_verb_record =
  lua_verb :: u16
  lua_prim_rc :: u16
  lua_opcode :: u16
  lua_correlator :: nat
  lua_luname :: "byte list"
  lua_sid :: "64 word"
  lua_max_length :: u16
  lua_data_length :: u16
  lua_data_ptr :: data_pointer
  lua_post_handle :: callback
  lua_snf :: "byte \<times> byte"
  lua_rh :: lua_rh
  lua_flag1 :: lua_flags
  lua_nowait :: bool
  lua_flag2 :: lua_flags
  lua_async :: bool

abbreviation (input) LUA_VERB_RUI :: u16 where "LUA_VERB_RUI \<equiv> 0x0052"
abbreviation (input) LUA_OPCODE_RUI_INIT :: u16 where "LUA_OPCODE_RUI_INIT \<equiv> 0x8001"
abbreviation (input) LUA_OPCODE_RUI_TERM :: u16 where "LUA_OPCODE_RUI_TERM \<equiv> 0x8002"
abbreviation (input) LUA_OPCODE_RUI_READ :: u16 where "LUA_OPCODE_RUI_READ \<equiv> 0x8003"
abbreviation (input) LUA_OPCODE_RUI_WRITE :: u16 where "LUA_OPCODE_RUI_WRITE \<equiv> 0x8004"
abbreviation (input) LUA_OPCODE_RUI_PURGE :: u16 where "LUA_OPCODE_RUI_PURGE \<equiv> 0x8005"
abbreviation (input) LUA_OPCODE_RUI_BID :: u16 where "LUA_OPCODE_RUI_BID \<equiv> 0x8006"
abbreviation (input) LUA_OPCODE_RUI_REINIT :: u16 where "LUA_OPCODE_RUI_REINIT \<equiv> 0x8008"
abbreviation (input) LUA_OK :: u16 where "LUA_OK \<equiv> 0"
abbreviation (input) BETB :: int where "BETB \<equiv> 1"
abbreviation (input) SEND :: int where "SEND \<equiv> 2"
abbreviation (input) RECV :: int where "RECV \<equiv> 3"
abbreviation (input) DATASIZE :: nat where "DATASIZE \<equiv> 4096"
abbreviation (input) TN3270E_STREAM :: int where "TN3270E_STREAM \<equiv> 1"
abbreviation (input) TN3270E_NO_RESPONSE :: byte where "TN3270E_NO_RESPONSE \<equiv> 0"
abbreviation (input) TN3270E_ERROR_RESPONSE :: byte where "TN3270E_ERROR_RESPONSE \<equiv> 1"
abbreviation (input) TN3270E_ALWAYS_RESPONSE :: byte where "TN3270E_ALWAYS_RESPONSE \<equiv> 2"

definition no_flags :: lua_flags where
  "no_flags = \<lparr>bid_enable = False, sscp_exp = False, sscp_norm = False, lu_exp = False, lu_norm = False\<rparr>"

definition no_rh :: lua_rh where
  "no_rh = \<lparr>rri = False, bci = False, eci = False, dr1i = False, dr2i = False, ri = False, bbi = False, cdi = False\<rparr>"

text \<open>\<^verbatim>\<open>memset(&verb, 0, sizeof(verb))\<close>.\<close>

definition zero_verb :: lua_verb_record where
  "zero_verb = \<lparr>lua_verb = 0, lua_prim_rc = 0, lua_opcode = 0, lua_correlator = 0, lua_luname = replicate 8 0, lua_sid = 0,
     lua_max_length = 0, lua_data_length = 0, lua_data_ptr = Null_data, lua_post_handle = No_callback, lua_snf = (0, 0),
     lua_rh = no_rh, lua_flag1 = no_flags, lua_nowait = False, lua_flag2 = no_flags, lua_async = False\<rparr>"

section \<open>The variables of the session\<close>

text \<open>\<open>g_calls\<close> counts the calls of \<^verbatim>\<open>RUI\<close>; \<open>g_selects\<close> are the results of the calls of \<^verbatim>\<open>select\<close> to come.\<close>

record lua_globals =
  read_verb :: lua_verb_record
  reinit_verb :: lua_verb_record
  other_verb :: lua_verb_record
  purge_verb :: lua_verb_record
  client_verb :: lua_verb_record
  poolname :: "string option"
  semaphore :: bool
  sid :: int
  sna_fd :: int
  lu_name :: "byte list"
  read_data :: "byte list"
  send_state :: int
  lu_session :: bool
  saved_retry_reinit :: int
  retry_reinit :: int
  g_calls :: nat
  g_selects :: "(int \<times> bool \<times> int set) list"

type_synonym rui_entry = "nat \<Rightarrow> lua_verb_record \<Rightarrow> lua_verb_record"

definition rui1 :: rui_entry where
  "rui1 n x = x"

definition response_type :: "lua_verb_record \<Rightarrow> byte" where
  "response_type verb =
     (let eri = ri (lua_rh verb); dr1 = dr1i (lua_rh verb); dr2 = dr2i (lua_rh verb) in
      if \<not> eri \<and> \<not> dr1 \<and> \<not> dr2 then TN3270E_NO_RESPONSE
      else if (dr1 \<or> dr2) \<and> \<not> eri then TN3270E_ALWAYS_RESPONSE
      else if (dr1 \<or> dr2) \<and> eri then TN3270E_ERROR_RESPONSE
      else TN3270E_NO_RESPONSE)"

text \<open>
  \<^verbatim>\<open>do_select\<close>. An element of \<^term>\<open>g_selects\<close> is the result of one call of \<^verbatim>\<open>select\<close>: its return code, whether the
  descriptor of the library has an exception, and the descriptors that are readable. With no result left the call
  waits for ever, which is \<^term>\<open>None\<close>. The shipped \<^verbatim>\<open>SNA_GET_FD\<close> answers 0 and \<^verbatim>\<open>SNA_EVENT_FD\<close> does nothing.
\<close>

fun select_loop :: "bool \<Rightarrow> int \<Rightarrow> lua_globals \<Rightarrow> (int \<times> bool \<times> int set) list \<Rightarrow> (int + int \<times> lua_globals) option" where
  "select_loop check_socket sockfd g [] =
     (if semaphore g \<or> check_socket then None else Some (Inr (0, g\<lparr>g_selects := []\<rparr>)))"
| "select_loop check_socket sockfd g ((rc, exc, rd) # ss) =
     (if \<not> (semaphore g \<or> check_socket) then Some (Inr (0, g\<lparr>g_selects := (rc, exc, rd) # ss\<rparr>))
      else
        let g = g\<lparr>sna_fd := 0\<rparr>; asked = insert 0 (if check_socket then {sockfd} else {}) in
        if rc = 1 \<or> rc = 2 then
          (if sockfd \<in> rd \<inter> asked then Some (Inr (1, g\<lparr>g_selects := ss\<rparr>))
           else select_loop check_socket sockfd g ss)
        else Some (Inl (- 1)))"

definition do_select :: "bool \<Rightarrow> int \<Rightarrow> lua_globals \<Rightarrow> (int + int \<times> lua_globals) option" where
  "do_select check_socket sockfd g = select_loop check_socket sockfd g (g_selects g)"

section \<open>Sending verbs\<close>

definition read_finished :: "lua_verb_record \<Rightarrow> lua_globals \<Rightarrow> lua_globals" where
  "read_finished verb g = g"

definition response_done :: "lua_verb_record \<Rightarrow> lua_globals \<Rightarrow> lua_globals" where
  "response_done verb g = g"

definition send_read :: "rui_entry \<Rightarrow> lua_globals \<Rightarrow> lua_globals" where
  "send_read rui g =
     (let verb = zero_verb\<lparr>lua_verb := LUA_VERB_RUI, lua_opcode := LUA_OPCODE_RUI_READ, lua_correlator := 908,
            lua_sid := word_of_int (sid g), lua_max_length := of_nat DATASIZE, lua_data_ptr := At_read_data,
            lua_post_handle := read_finished_handle,
            lua_flag1 := no_flags\<lparr>lu_norm := True, lu_exp := True, sscp_norm := True, sscp_exp := True\<rparr>\<rparr>;
          verb = rui (g_calls g) verb;
          g = g\<lparr>read_verb := verb, read_data := replicate DATASIZE 0, g_calls := g_calls g + 1\<rparr>
      in if \<not> lua_async verb then read_finished verb g else g)"

text \<open>Values of \<^verbatim>\<open>lua_sid\<close> are stored in an \<^verbatim>\<open>int\<close>.\<close>

definition other_done :: "rui_entry \<Rightarrow> lua_verb_record \<Rightarrow> lua_globals \<Rightarrow> int + lua_globals" where
  "other_done rui verb g =
     (let ok = (lua_prim_rc verb = LUA_OK); op = lua_opcode verb;
          r = (if op = LUA_OPCODE_RUI_INIT then
                 Inr (if ok then g\<lparr>sid := sint (ucast (lua_sid (other_verb g)) :: u32), lu_name := lua_luname (other_verb g)\<rparr> else g)
               else if op = LUA_OPCODE_RUI_BID then (if ok then Inr (send_read rui g) else Inl 0)
               else if op = LUA_OPCODE_RUI_READ then Inr (if ok then read_finished verb g else g)
               else Inr g)
      in case r of Inl n \<Rightarrow> Inl n | Inr g \<Rightarrow> Inr (g\<lparr>semaphore := False\<rparr>))"

definition send_purges :: "rui_entry \<Rightarrow> lua_globals \<Rightarrow> int + lua_globals" where
  "send_purges rui g =
     (let verb = zero_verb\<lparr>lua_verb := LUA_VERB_RUI, lua_opcode := LUA_OPCODE_RUI_PURGE, lua_correlator := 198,
            lua_sid := word_of_int (sid g), lua_data_ptr := At_read_verb, lua_post_handle := other_done_handle\<rparr>;
          verb = rui (g_calls g) verb;
          g = g\<lparr>purge_verb := verb, g_calls := g_calls g + 1\<rparr>
      in if \<not> lua_async verb then other_done rui verb g else Inr g)"

text \<open>The four bytes of a sense code in the order of the machine.\<close>

definition sense_bytes :: "64 word \<Rightarrow> byte list" where
  "sense_bytes sense = map (\<lambda>i. ucast (drop_bit (8 * i) sense)) [0, 1, 2, 3]"

definition put_sense :: "64 word \<Rightarrow> lua_verb_record \<Rightarrow> lua_globals \<Rightarrow> (lua_verb_record \<times> lua_globals) option" where
  "put_sense sense verb g =
     (if sense \<noteq> 0 then do {
        d \<leftarrow> poke_block (read_data g) 0 (sense_bytes sense);
        Some (verb\<lparr>lua_data_length := 4, lua_rh := (lua_rh verb)\<lparr>ri := True\<rparr>\<rparr>, g\<lparr>read_data := d\<rparr>)
      } else Some (verb\<lparr>lua_data_length := 0, lua_rh := (lua_rh verb)\<lparr>ri := False\<rparr>\<rparr>, g))"

text \<open>The flow of the response is the one the request came on.\<close>

definition response_flow :: "lua_flags \<Rightarrow> lua_flags" where
  "response_flow f =
     (if lu_norm f then no_flags\<lparr>lu_norm := True\<rparr>
      else if lu_exp f then no_flags\<lparr>lu_exp := True\<rparr>
      else if sscp_norm f then no_flags\<lparr>sscp_norm := True\<rparr>
      else if sscp_exp f then no_flags\<lparr>sscp_exp := True\<rparr>
      else no_flags)"

definition send_sna_response :: "rui_entry \<Rightarrow> 64 word \<Rightarrow> lua_verb_record \<Rightarrow> lua_globals \<Rightarrow> (lua_verb_record \<times> lua_globals) option" where
  "send_sna_response rui sense verb g = do {
     let verb = verb\<lparr>lua_opcode := LUA_OPCODE_RUI_WRITE, lua_correlator := 618, lua_max_length := 0,
       lua_post_handle := response_done_handle, lua_rh := (lua_rh verb)\<lparr>rri := True\<rparr>, lua_nowait := False,
       lua_flag2 := (lua_flag2 verb)\<lparr>bid_enable := False\<rparr>\<rparr>;
     (verb, g) \<leftarrow> put_sense sense verb g;
     let verb = rui (g_calls g) (verb\<lparr>lua_flag1 := response_flow (lua_flag2 verb)\<rparr>);
     let g = g\<lparr>g_calls := g_calls g + 1\<rparr>;
     Some (verb, if \<not> lua_async verb then response_done verb g else g)
   }"

text \<open>The sequence number is an \<^verbatim>\<open>int\<close> of 32 bits.\<close>

definition client_response :: "rui_entry \<Rightarrow> 64 word \<Rightarrow> u32 \<Rightarrow> lua_globals \<Rightarrow> lua_globals option" where
  "client_response rui sense sequence g = do {
     let verb = zero_verb\<lparr>lua_verb := LUA_VERB_RUI, lua_opcode := LUA_OPCODE_RUI_WRITE, lua_correlator := 667,
       lua_sid := word_of_int (sid g), lua_post_handle := response_done_handle,
       lua_snf := (ucast (drop_bit 8 sequence), ucast (sequence AND 0xFF)), lua_rh := no_rh\<lparr>rri := True\<rparr>,
       lua_flag1 := no_flags\<lparr>lu_norm := True\<rparr>\<rparr>;
     (verb, g) \<leftarrow> put_sense sense verb g;
     let verb = rui (g_calls g) verb;
     let g = g\<lparr>client_verb := verb, g_calls := g_calls g + 1\<rparr>;
     Some (if \<not> lua_async verb then response_done verb g else g)
   }"

text \<open>
  \<^verbatim>\<open>send_reinit\<close> and its callback \<^verbatim>\<open>reinit_done\<close>, which call each other. The verb is not cleared, so it keeps the return
  code of the call before.
\<close>

definition reinit_call :: "rui_entry \<Rightarrow> lua_globals \<Rightarrow> lua_globals" where
  "reinit_call rui g =
     (let verb = rui (g_calls g) ((reinit_verb g)\<lparr>lua_verb := LUA_VERB_RUI, lua_opcode := LUA_OPCODE_RUI_REINIT,
            lua_correlator := 755, lua_sid := word_of_int (sid g), lua_post_handle := reinit_done_handle\<rparr>)
      in g\<lparr>lu_session := False, read_verb := zero_verb, read_data := replicate DATASIZE 0, reinit_verb := verb,
           g_calls := g_calls g + 1\<rparr>)"

partial_function (option) send_reinit :: "rui_entry \<Rightarrow> lua_globals \<Rightarrow> (int + lua_globals) option" where
  "send_reinit rui g =
     (let g = reinit_call rui g in
      if lua_async (reinit_verb g) then Some (Inr g)
      else if lua_prim_rc (reinit_verb g) = LUA_OK then Some (Inr (send_read rui (g\<lparr>retry_reinit := saved_retry_reinit g\<rparr>)))
      else if retry_reinit g \<noteq> 0 then
        send_reinit rui (g\<lparr>retry_reinit := (if retry_reinit g > 0 then retry_reinit g - 1 else retry_reinit g)\<rparr>)
      else Some (Inl 1))"

definition reinit_done :: "rui_entry \<Rightarrow> lua_verb_record \<Rightarrow> lua_globals \<Rightarrow> (int + lua_globals) option" where
  "reinit_done rui verb g =
     (if lua_prim_rc verb = LUA_OK then Some (Inr (send_read rui (g\<lparr>retry_reinit := saved_retry_reinit g\<rparr>)))
      else if retry_reinit g \<noteq> 0 then
        send_reinit rui (g\<lparr>retry_reinit := (if retry_reinit g > 0 then retry_reinit g - 1 else retry_reinit g)\<rparr>)
      else Some (Inl 1))"

text \<open>The end of \<^verbatim>\<open>send_verb\<close> and \<^verbatim>\<open>send_write\<close>: the call, and the wait for its end.\<close>

definition run_other :: "rui_entry \<Rightarrow> lua_verb_record \<Rightarrow> lua_globals \<Rightarrow> (int + lua_globals) option" where
  "run_other rui verb g =
     (let verb = rui (g_calls g) verb;
          g = g\<lparr>other_verb := verb, semaphore := True, g_calls := g_calls g + 1\<rparr>
      in if lua_async verb then proceed (do_select False 0 g) (\<lambda>(r, g). Some (Inr g))
         else Some (other_done rui verb g))"

text \<open>A pool name that is not set is a null pointer, and one of more than eight characters does not fit.\<close>

definition send_verb :: "rui_entry \<Rightarrow> u16 \<Rightarrow> lua_globals \<Rightarrow> (int + bool \<times> lua_globals) option" where
  "send_verb rui type g = do {
     luname \<leftarrow> (if type = LUA_OPCODE_RUI_INIT then do {
         pool \<leftarrow> poolname g;
         poke_block (replicate 8 0x20) 0 (bytes_of pool)
       } else Some (replicate 8 0));
     let verb = zero_verb\<lparr>lua_verb := LUA_VERB_RUI, lua_opcode := type, lua_correlator := 810, lua_luname := luname,
       lua_post_handle := other_done_handle, lua_async := True\<rparr>;
     proceed (run_other rui verb g) (\<lambda>g. Some (Inr (lua_prim_rc (other_verb g) \<noteq> LUA_OK, g)))
   }"

definition send_write :: "rui_entry \<Rightarrow> int \<Rightarrow> byte list \<Rightarrow> int \<Rightarrow> lua_globals \<Rightarrow> (int + lua_globals) option" where
  "send_write rui streamtype data len g =
     (let (data, len) = (if streamtype = TN3270E_STREAM then (drop 5 data, len - 5) else (data, len));
          verb = zero_verb\<lparr>lua_verb := LUA_VERB_RUI, lua_opcode := LUA_OPCODE_RUI_WRITE, lua_correlator := 945,
            lua_sid := word_of_int (sid g), lua_data_length := word_of_int len, lua_data_ptr := At_bytes data,
            lua_post_handle := other_done_handle\<rparr>;
          rh = no_rh\<lparr>bci := True, eci := True, dr1i := True\<rparr>;
          (ok, rh, flag1, state) =
            (if lu_session g then
               let flag1 = no_flags\<lparr>lu_norm := True\<rparr>; rh = rh\<lparr>ri := True\<rparr> in
               if send_state g = BETB then (True, rh\<lparr>bbi := True, cdi := True\<rparr>, flag1, RECV)
               else if send_state g = SEND then (True, rh\<lparr>cdi := True\<rparr>, flag1, RECV)
               else (False, rh, flag1, send_state g)
             else (True, rh, no_flags\<lparr>sscp_norm := True\<rparr>, send_state g));
          verb = verb\<lparr>lua_rh := rh, lua_flag1 := flag1\<rparr>;
          g = g\<lparr>other_verb := verb, send_state := state\<rparr>
      in if ok then run_other rui verb g else Some (Inr g))"

text \<open>A library of logical units that is not in a session.\<close>

definition idle_session :: lua_globals where
  "idle_session = \<lparr>read_verb = zero_verb, reinit_verb = zero_verb, other_verb = zero_verb, purge_verb = zero_verb,
     client_verb = zero_verb, poolname = None, semaphore = False, sid = 0, sna_fd = 0, lu_name = replicate 8 0,
     read_data = replicate DATASIZE 0, send_state = 0, lu_session = False, saved_retry_reinit = 0, retry_reinit = 0,
     g_calls = 0, g_selects = []\<rparr>"

section \<open>Starting the session again\<close>

lemma reinit_call_retry [simp]:
  "retry_reinit (reinit_call rui g) = retry_reinit g" "saved_retry_reinit (reinit_call rui g) = saved_retry_reinit g"
  "g_calls (reinit_call rui g) = g_calls g + 1"
  by (simp_all add: reinit_call_def Let_def)

lemma send_read_calls: "g_calls (send_read rui g) = g_calls g + 1" "retry_reinit (send_read rui g) = retry_reinit g"
  by (simp_all add: send_read_def read_finished_def Let_def)

text \<open>\<^verbatim>\<open>reinit_done\<close> is what follows a call that was not left in progress.\<close>

lemma send_reinit_done:
  "send_reinit rui g = (let g = reinit_call rui g in
     if lua_async (reinit_verb g) then Some (Inr g) else reinit_done rui (reinit_verb g) g)"
  by (subst send_reinit.simps) (simp add: reinit_done_def Let_def)

text \<open>The globals before each attempt, as long as every attempt fails at once.\<close>

fun attempt :: "rui_entry \<Rightarrow> nat \<Rightarrow> lua_globals \<Rightarrow> lua_globals" where
  "attempt rui 0 g = g"
| "attempt rui (Suc k) g =
     attempt rui k ((reinit_call rui g)\<lparr>retry_reinit := (if retry_reinit g > 0 then retry_reinit g - 1 else retry_reinit g)\<rparr>)"

definition fails :: "rui_entry \<Rightarrow> lua_globals \<Rightarrow> bool" where
  "fails rui g \<longleftrightarrow> \<not> lua_async (reinit_verb (reinit_call rui g)) \<and> lua_prim_rc (reinit_verb (reinit_call rui g)) \<noteq> LUA_OK"

lemma reinit_returns:
  "retry_reinit g = int n \<Longrightarrow>
   send_reinit rui g = Some (Inl 1) \<and> (\<forall>k \<le> n. fails rui (attempt rui k g))
   \<or> (\<exists>g' k. send_reinit rui g = Some (Inr g') \<and> k \<le> n \<and> \<not> fails rui (attempt rui k g) \<and> (\<forall>j < k. fails rui (attempt rui j g)))"
proof (induction n arbitrary: g)
  case 0
  show ?case
  proof (cases "fails rui g")
    case True
    with 0 show ?thesis by (subst send_reinit.simps) (simp add: Let_def fails_def)
  next
    case False
    then have "\<exists>g'. send_reinit rui g = Some (Inr g')" by (subst send_reinit.simps) (auto simp: Let_def fails_def)
    with False show ?thesis by auto
  qed
next
  case (Suc n)
  let ?g = "(reinit_call rui g)\<lparr>retry_reinit := retry_reinit g - 1\<rparr>"
  show ?case
  proof (cases "fails rui g")
    case True
    have step: "send_reinit rui g = send_reinit rui ?g"
      using True Suc.prems by (subst send_reinit.simps) (simp add: Let_def fails_def)
    have at: "attempt rui (Suc k) g = attempt rui k ?g" for k using Suc.prems by simp
    from Suc.IH [of ?g] Suc.prems consider
      "send_reinit rui ?g = Some (Inl 1)" "\<forall>k \<le> n. fails rui (attempt rui k ?g)"
      | g' k where "send_reinit rui ?g = Some (Inr g')" "k \<le> n" "\<not> fails rui (attempt rui k ?g)" "\<forall>j < k. fails rui (attempt rui j ?g)"
      by auto
    then show ?thesis
    proof cases
      case 1
      then have "\<forall>k \<le> Suc n. fails rui (attempt rui k g)" using True at by (metis Suc_le_mono attempt.simps(1) not0_implies_Suc)
      with 1(1) step show ?thesis by simp
    next
      case 2
      then have "\<forall>j < Suc k. fails rui (attempt rui j g)" using True at by (metis Suc_less_eq attempt.simps(1) not0_implies_Suc)
      with 2 step at [of k] show ?thesis by (metis Suc_le_mono)
    qed
  next
    case False
    then have "\<exists>g'. send_reinit rui g = Some (Inr g')" by (subst send_reinit.simps) (auto simp: Let_def fails_def)
    with False show ?thesis by (intro disjI2) (auto intro: exI [of _ 0])
  qed
qed

text \<open>
  Starting the session again ends: with a retry count of \<open>n\<close>, \<^verbatim>\<open>send_reinit\<close> always returns or ends the
  program, whatever the library answers. It ends the program exactly if the first attempt and all \<open>n\<close> retries fail.
\<close>

theorem reinit_bounded_by_retries:
  assumes "retry_reinit g = int n"
  shows "(send_reinit rui g = Some (Inl 1) \<longleftrightarrow> (\<forall>k \<le> n. fails rui (attempt rui k g)))
    \<and> ((\<exists>k \<le> n. \<not> fails rui (attempt rui k g)) \<longrightarrow> (\<exists>g'. send_reinit rui g = Some (Inr g')))"
  using reinit_returns [OF assms, of rui] by fastforce

theorem reinit_bounded_by_retries_witness:
  "send_reinit (\<lambda>n v. v\<lparr>lua_prim_rc := 0x0F00\<rparr>) (idle_session\<lparr>retry_reinit := 2\<rparr>) = Some (Inl 1)
   \<and> (\<exists>g'. send_reinit (\<lambda>n v. v\<lparr>lua_prim_rc := (if n < 2 then 0x0F00 else 0)\<rparr>) (idle_session\<lparr>retry_reinit := 2\<rparr>) = Some (Inr g'))"
proof -
  let ?g = "idle_session\<lparr>retry_reinit := 2\<rparr>" and ?r1 = "\<lambda>n v. v\<lparr>lua_prim_rc := 0x0F00\<rparr>"
    and ?r2 = "\<lambda>n v. v\<lparr>lua_prim_rc := (if n < (2 :: nat) then 0x0F00 else 0)\<rparr>"
  have n: "retry_reinit ?g = int 2" by simp
  have sync: "lua_async (reinit_verb (attempt (\<lambda>n v. v\<lparr>lua_prim_rc := f n\<rparr>) k g)) = lua_async (reinit_verb g)" for k f g
    by (induction k arbitrary: g) (simp_all add: reinit_call_def Let_def)
  have fails1: "fails ?r1 (attempt ?r1 k ?g)" for k
    using sync [of "\<lambda>n. 0x0F00" k ?g] by (simp add: fails_def reinit_call_def Let_def) (simp add: idle_session_def zero_verb_def)
  have calls: "g_calls (attempt ?r2 2 ?g) = 2" by (simp add: numeral_2_eq_2) (simp add: idle_session_def)
  then have "\<not> fails ?r2 (attempt ?r2 2 ?g)" by (simp add: fails_def reinit_call_def Let_def)
  then have "\<exists>k \<le> 2. \<not> fails ?r2 (attempt ?r2 k ?g)" by blast
  with fails1 reinit_bounded_by_retries [OF n, of ?r1] reinit_bounded_by_retries [OF n, of ?r2] show ?thesis by blast
qed

text \<open>With a negative count it goes on for ever while the library fails.\<close>

lemma reinit_forever:
  assumes "\<And>n v. \<not> lua_async (rui n v) \<and> lua_prim_rc (rui n v) \<noteq> LUA_OK" "retry_reinit g < 0"
  shows "send_reinit rui g = None"
proof (rule ccontr)
  assume "send_reinit rui g \<noteq> None"
  then obtain y where "send_reinit rui g = Some y" by blast
  then have "rui = rui \<longrightarrow> \<not> retry_reinit g < 0"
  proof (rule send_reinit.raw_induct [of "\<lambda>r g y. r = rui \<longrightarrow> \<not> retry_reinit g < 0", rotated])
    fix f r and g :: lua_globals and y
    assume IH: "\<And>r g y. f r g = Some y \<Longrightarrow> r = rui \<longrightarrow> \<not> retry_reinit g < 0"
      and body: "(let g = reinit_call r g in
        if lua_async (reinit_verb g) then Some (Inr g)
        else if lua_prim_rc (reinit_verb g) = LUA_OK then Some (Inr (send_read r (g\<lparr>retry_reinit := saved_retry_reinit g\<rparr>)))
        else if retry_reinit g \<noteq> 0 then
          f r (g\<lparr>retry_reinit := (if retry_reinit g > 0 then retry_reinit g - 1 else retry_reinit g)\<rparr>)
        else Some (Inl 1)) = Some y"
    show "r = rui \<longrightarrow> \<not> retry_reinit g < 0"
      using body assms(1) by (auto simp: Let_def reinit_call_def split: if_splits dest!: IH)
  qed
  with assms(2) show False by simp
qed

end
