(* ===== verification/Tn_Daemon.thy ===== *)
theory Tn_Daemon
  imports Tn_Screen Tn_Rui
begin

text \<open>
  The terminal gateway itself (\<^verbatim>\<open>tn3270d/tn3270_daemon.c\<close>): the table of its clients, the descriptors it waits for,
  the two halves of serving a client, the end of a session and the loop of a server.

  A client list is the sequence of its elements (see \<open>Sna_List\<close>); \<open>c_node\<close> tells the elements apart, as their addresses
  do. Results are as in \<open>Tn_Host\<close>: \<^term>\<open>Inl n\<close> ends the process, \<^term>\<open>None\<close> is a fault, a failed assertion or a wait
  that never ends.
\<close>

section \<open>Clients and servers\<close>

record client_t =
  c_node :: nat
  c_fd :: int
  from_addr :: u32
  from_port :: u16
  c_host :: "tnXhost option"
  c_tbuf :: tnXbuff
  start_time :: int
  terminated :: bool

record server_info =
  use_name :: string
  test :: bool
  limit :: int
  client_sock :: int
  manage_sock :: int
  client_list :: "client_t list"
  client_num :: int
  all_fds :: "int set"
  open_fds :: "64 word"
  wmark_fd :: "64 word"
  highest_fd :: int

abbreviation (input) EINVAL :: int where "EINVAL \<equiv> 22"
abbreviation (input) ENOENT :: int where "ENOENT \<equiv> 2"
abbreviation (input) EUSERS :: int where "EUSERS \<equiv> 87"
abbreviation (input) FD_SETSIZE :: int where "FD_SETSIZE \<equiv> 1024"

text \<open>The macros on descriptor sets access memory outside the set for a descriptor that is too large.\<close>

definition fd_ok :: "int \<Rightarrow> bool" where
  "fd_ok fd \<longleftrightarrow> 0 \<le> fd \<and> fd < FD_SETSIZE"

definition tn3270_server_count_and_set_fds :: "server_info \<Rightarrow> int \<Rightarrow> server_info option" where
  "tn3270_server_count_and_set_fds server fd =
     (let n = open_fds server + 1 in
      if \<not> fd_ok fd then None
      else Some (server\<lparr>open_fds := n, wmark_fd := (if n > wmark_fd server then n else wmark_fd server),
             all_fds := insert fd (all_fds server), highest_fd := (if fd > highest_fd server then fd else highest_fd server)\<rparr>))"

definition tn3270_server_count_and_clear_fds :: "server_info \<Rightarrow> int \<Rightarrow> server_info option" where
  "tn3270_server_count_and_clear_fds server fd =
     (if \<not> fd_ok fd then None
      else Some (server\<lparr>open_fds := open_fds server - 1, all_fds := all_fds server - {fd}\<rparr>))"

fun tn3270_client_find_by_fd :: "client_t list \<Rightarrow> int \<Rightarrow> client_t option" where
  "tn3270_client_find_by_fd [] fd = None"
| "tn3270_client_find_by_fd (l # ls) fd = (if c_fd l = fd then Some l else tn3270_client_find_by_fd ls fd)"

fun tn3270_client_delete :: "client_t list \<Rightarrow> client_t \<Rightarrow> int \<times> client_t list" where
  "tn3270_client_delete [] clt = (- ENOENT, [])"
| "tn3270_client_delete (l # ls) clt =
     (if from_addr clt = from_addr l then (0, ls)
      else (case tn3270_client_delete ls clt of (r, ls') \<Rightarrow> (r, l # ls')))"

fun tn3270_client_delete_list :: "client_t list \<Rightarrow> client_t list" where
  "tn3270_client_delete_list [] = []"
| "tn3270_client_delete_list (l # ls) = tn3270_client_delete_list ls"

text \<open>\<^verbatim>\<open>list_del(&client->list)\<close>, and a store through the pointer to a client.\<close>

definition unlink_client :: "server_info \<Rightarrow> client_t \<Rightarrow> server_info" where
  "unlink_client server client = server\<lparr>client_list := filter (\<lambda>c. c_node c \<noteq> c_node client) (client_list server)\<rparr>"

definition store_client :: "server_info \<Rightarrow> client_t \<Rightarrow> server_info" where
  "store_client server client = server\<lparr>client_list := map (\<lambda>c. if c_node c = c_node client then client else c) (client_list server)\<rparr>"

section \<open>The two halves\<close>

text \<open>
  \<open>errno\<close> and \<open>mem\<close> are what \<^term>\<open>tnX_stream_host\<close> takes: the last error of the system and the storage of the stream,
  with what the peer is going to send in it. The result is the return code, the client and the variables of the session.
\<close>

definition client_connect :: "int \<Rightarrow> tnXstream \<Rightarrow> client_t \<Rightarrow> (int + int \<times> client_t) option" where
  "client_connect errno mem client =
     proceed (tnX_stream_host errno mem TN3270_STREAM) (\<lambda>r. case r of
         Inl h \<Rightarrow> Some (Inr (- EINVAL, client))
       | Inr hoststream \<Rightarrow> (case tnX_host_new hoststream of
             None \<Rightarrow> Some (Inr (- EINVAL, client))
           | Some host \<Rightarrow> Some (Inr (0, client\<lparr>c_host := Some host\<rparr>))))"

definition tn3270_client_reg_top_half ::
  "rui_entry \<Rightarrow> int \<Rightarrow> tnXstream \<Rightarrow> client_t \<Rightarrow> lua_globals \<Rightarrow> (int + int \<times> client_t \<times> lua_globals) option" where
  "tn3270_client_reg_top_half rui errno mem client g =
     proceed (client_connect errno mem client) (\<lambda>(err, client).
       if err < 0 then Some (Inr (err, client, g))
       else
         let client = client\<lparr>c_tbuf := tnX_buffer_init\<rparr> in
         proceed (send_verb rui LUA_OPCODE_RUI_INIT g) (\<lambda>(failed, g).
           if failed then Some (Inr (- EINVAL, client, g))
           else Some (Inr (0, client, send_read rui g))))"

definition tn3270_client_reg_bottom_half :: "client_t \<Rightarrow> int" where
  "tn3270_client_reg_bottom_half client = 0"

definition tn3270_client_test_top_half :: "int \<Rightarrow> tnXstream \<Rightarrow> client_t \<Rightarrow> (int + int \<times> client_t) option" where
  "tn3270_client_test_top_half errno mem client =
     proceed (client_connect errno mem client) (\<lambda>(err, client).
       if err < 0 then Some (Inr (err, client))
       else do {
         host \<leftarrow> c_host client;
         proceed (SendTestScreen host) (\<lambda>(r, host). Some (Inr (0, client\<lparr>c_host := Some host\<rparr>)))
       })"

definition tn3270_client_test_bottom_half :: "client_t \<Rightarrow> (int + int \<times> client_t) option" where
  "tn3270_client_test_bottom_half client = do {
     host \<leftarrow> c_host client;
     proceed (readMDTfields_2 host) (\<lambda>(r, host). Some (Inr (r, client\<lparr>c_host := Some host\<rparr>)))
   }"

section \<open>The process of a server\<close>

text \<open>The next connection \<^verbatim>\<open>accept\<close> returns; its descriptor is the smallest that is not open.\<close>

datatype accept_result =
    Accept_Error
  | Accepted (acc_addr: u32) (acc_port: u16) (acc_errno: int) (acc_mem: tnXstream)

definition new_fd :: "int set \<Rightarrow> int" where
  "new_fd opened = hd (filter (\<lambda>fd. fd \<notin> opened) [0..int (card opened)])"

text \<open>\<open>k_open\<close> are the open descriptors of the process, \<open>k_accepts\<close> the connections to come, \<open>k_time\<close> the clock.\<close>

record gateway =
  srv :: server_info
  lua :: lua_globals
  k_open :: "int set"
  k_accepts :: "accept_result list"
  k_time :: int
  next_node :: nat

definition top_half ::
  "rui_entry \<Rightarrow> bool \<Rightarrow> int \<Rightarrow> tnXstream \<Rightarrow> client_t \<Rightarrow> lua_globals \<Rightarrow> (int + int \<times> client_t \<times> lua_globals) option" where
  "top_half rui is_test errno mem client g =
     (if is_test then proceed (tn3270_client_test_top_half errno mem client) (\<lambda>(err, client). Some (Inr (err, client, g)))
      else tn3270_client_reg_top_half rui errno mem client g)"

definition tn3270_accept_new_client :: "rui_entry \<Rightarrow> gateway \<Rightarrow> (int + int \<times> gateway) option" where
  "tn3270_accept_new_client rui gw =
     (case k_accepts gw of
        [] \<Rightarrow> Some (Inr (- EINVAL, gw))
      | Accept_Error # as \<Rightarrow> Some (Inr (- EINVAL, gw\<lparr>k_accepts := as\<rparr>))
      | Accepted addr port errno mem # as \<Rightarrow>
          let gw = gw\<lparr>k_accepts := as\<rparr>; server = srv gw; fd = new_fd (k_open gw) in
          if client_num server + 1 > limit server then Some (Inr (- EUSERS, gw\<lparr>k_open := k_open gw - {fd}\<rparr>))
          else
            let client = \<lparr>c_node = next_node gw, c_fd = fd, from_addr = addr, from_port = port, c_host = None,
                  c_tbuf = tnX_buffer_init, start_time = k_time gw, terminated = False\<rparr> in do {
              server \<leftarrow> tn3270_server_count_and_set_fds (server\<lparr>client_list := client_list server @ [client]\<rparr>) fd;
              let server = server\<lparr>client_num := client_num server + 1\<rparr>;
              proceed (top_half rui (test server) errno mem client (lua gw)) (\<lambda>(err, client, g).
                let gw = gw\<lparr>srv := store_client server client, lua := g, k_open := insert fd (k_open gw), next_node := next_node gw + 1\<rparr> in
                if err < 0 then Some (Inr (0, gw\<lparr>srv := unlink_client (srv gw) client, k_open := k_open gw - {fd}\<rparr>))
                else Some (Inr (0, gw)))
            })"

text \<open>
  \<^verbatim>\<open>tn3270_close_session\<close>. \<^verbatim>\<open>tnX_host_destroy\<close> closes the descriptor of the stream, which is the one of the client; the
  second close fails. The client itself is not freed.
\<close>

definition tn3270_close_session :: "rui_entry \<Rightarrow> client_t \<Rightarrow> gateway \<Rightarrow> (int + gateway) option" where
  "tn3270_close_session rui client gw = do {
     h \<leftarrow> (case c_host client of None \<Rightarrow> Some Map.empty | Some host \<Rightarrow> tnX_host_destroy host);
     let gw = gw\<lparr>k_open := k_open gw - {c_fd client}\<rparr>;
     proceed (Some (send_purges rui (lua gw))) (\<lambda>g.
       proceed (if \<not> terminated client then proceed (send_verb rui LUA_OPCODE_RUI_TERM g) (\<lambda>(r, g). Some (Inr g)) else Some (Inr g)) (\<lambda>g. do {
         server \<leftarrow> tn3270_server_count_and_clear_fds (store_client (srv gw) (client\<lparr>terminated := True\<rparr>)) (c_fd client);
         Some (Inr (gw\<lparr>srv := unlink_client server client, lua := g\<rparr>))
       }))
   }"

text \<open>One descriptor that is ready; both kinds of server use the test half here.\<close>

definition serve_fd :: "rui_entry \<Rightarrow> int \<Rightarrow> gateway \<Rightarrow> (int + gateway) option" where
  "serve_fd rui i gw =
     (if i = client_sock (srv gw) then proceed (tn3270_accept_new_client rui gw) (\<lambda>(r, gw). Some (Inr gw))
      else if i = manage_sock (srv gw) then Some (Inr gw)
      else (case tn3270_client_find_by_fd (client_list (srv gw)) i of
          None \<Rightarrow> Some (Inr gw)
        | Some client \<Rightarrow> proceed (tn3270_client_test_bottom_half client) (\<lambda>(err, client).
            let gw = gw\<lparr>srv := store_client (srv gw) client\<rparr> in
            if err = - ECONNABORTED then tn3270_close_session rui client gw else Some (Inr gw))))"

text \<open>\<^verbatim>\<open>for (i = 3; i <= server->highest_fd; i++)\<close>; \<^verbatim>\<open>FD_ISSET\<close> reads outside the set from \<^term>\<open>FD_SETSIZE\<close> on.\<close>

function scan_fds :: "rui_entry \<Rightarrow> int \<Rightarrow> int set \<Rightarrow> gateway \<Rightarrow> (int + gateway) option" where
  "scan_fds rui i rd gw =
     (if i > highest_fd (srv gw) then Some (Inr gw)
      else if i \<ge> FD_SETSIZE then None
      else if i \<notin> rd then scan_fds rui (i + 1) rd gw
      else (case serve_fd rui i gw of
          None \<Rightarrow> None
        | Some (Inl n) \<Rightarrow> Some (Inl n)
        | Some (Inr gw) \<Rightarrow> scan_fds rui (i + 1) rd gw))"
  by pat_completeness auto

termination
  by (relation "measure (\<lambda>(rui, i, rd, gw). nat (FD_SETSIZE - i))") auto

declare scan_fds.simps [simp del]

text \<open>
  One turn of the loop of \<^verbatim>\<open>tn3270_server_doit\<close>. What \<^verbatim>\<open>select\<close> reports, if it can: it fails with \<^verbatim>\<open>EBADF\<close> when a descriptor it
  is asked for is not open. The table of users that is written on a timeout is separate below.
\<close>

datatype event = Timeout | Select_Error | Ready "int set"

definition bad_fd :: "gateway \<Rightarrow> bool" where
  "bad_fd gw \<longleftrightarrow> (\<exists>fd \<in> all_fds (srv gw). fd \<le> highest_fd (srv gw) \<and> fd \<notin> k_open gw)"

definition server_turn :: "rui_entry \<Rightarrow> event \<Rightarrow> gateway \<Rightarrow> (int + gateway) option" where
  "server_turn rui ev gw =
     (if bad_fd gw then Some (Inr gw)
      else case ev of
        Timeout \<Rightarrow> Some (Inr gw)
      | Select_Error \<Rightarrow> Some (Inr gw)
      | Ready rd \<Rightarrow> scan_fds rui 3 (rd \<inter> all_fds (srv gw)) gw)"

fun server_turns :: "rui_entry \<Rightarrow> event list \<Rightarrow> gateway \<Rightarrow> (int + gateway) option" where
  "server_turns rui [] gw = Some (Inr gw)"
| "server_turns rui (ev # evs) gw = proceed (server_turn rui ev gw) (server_turns rui evs)"

text \<open>The start of \<^verbatim>\<open>tn3270_server_doit\<close>: the results of the calls for the two sockets, \<^verbatim>\<open>bind\<close> and \<^verbatim>\<open>listen\<close> are given.\<close>

definition tn3270_make_socket :: "int \<Rightarrow> int \<Rightarrow> int" where
  "tn3270_make_socket sock err = (if sock < 0 then sock else if err < 0 then err else sock)"

definition server_start :: "server_info \<Rightarrow> int \<times> int \<times> int \<Rightarrow> int \<times> int \<times> int \<Rightarrow> (int + server_info) option" where
  "server_start server client_port manage_port =
     (case (client_port, manage_port) of ((s1, b1, l1), (s2, b2, l2)) \<Rightarrow>
       let server = server\<lparr>client_list := [], all_fds := {}, client_num := 0\<rparr>; cs = tn3270_make_socket s1 b1 in
       if cs < 0 then Some (Inl cs)
       else
         let ms = tn3270_make_socket s2 b2 in
         if ms < 0 then Some (Inl ms)
         else if l1 < 0 then Some (Inl l1)
         else if l2 < 0 then Some (Inl l2)
         else do {
           server \<leftarrow> tn3270_server_count_and_set_fds (server\<lparr>client_sock := cs, manage_sock := ms\<rparr>) cs;
           server \<leftarrow> tn3270_server_count_and_set_fds server ms;
           Some (Inr server)
         })"

section \<open>The table of users\<close>

text \<open>\<^verbatim>\<open>%d\<close>, and \<^verbatim>\<open>inet_ntoa\<close> of an address in the order of the network.\<close>

definition decimal_int :: "int \<Rightarrow> byte list" where
  "decimal_int n = (if n < 0 then 0x2D # decimal (nat (- n)) else decimal (nat n))"

definition inet_ntoa :: "u32 \<Rightarrow> byte list" where
  "inet_ntoa a = (let octet = (\<lambda>i. decimal (unat (ucast (drop_bit (8 * i) a) :: byte))) in
     octet 0 @ [0x2E] @ octet 1 @ [0x2E] @ octet 2 @ [0x2E] @ octet 3)"

text \<open>
  What \<^verbatim>\<open>tn3270_server_user_table_check\<close> writes. \<open>ctime\<close> is the library function. Every piece is printed behind the ones
  before, with its NUL, into a buffer of \<open>blen\<close> bytes, which is doubled when less than a thousand are left.
\<close>

definition sprintf_to :: "nat \<Rightarrow> byte list \<Rightarrow> byte list \<Rightarrow> byte list option" where
  "sprintf_to blen buf piece = (if length buf + length piece < blen then Some (buf @ piece) else None)"

definition user_line :: "(int \<Rightarrow> byte list) \<Rightarrow> client_t \<Rightarrow> byte list" where
  "user_line ctime c = pad_right 17 (inet_ntoa (from_addr c)) @ pad_right 7 (decimal (unat (from_port c))) @ ctime (start_time c) @ [0x0A]"

fun user_lines :: "(int \<Rightarrow> byte list) \<Rightarrow> nat \<Rightarrow> byte list \<Rightarrow> client_t list \<Rightarrow> byte list option" where
  "user_lines ctime blen buf [] = Some buf"
| "user_lines ctime blen buf (c # cs) =
     (let blen = (if int blen - int (length buf) < 1000 then blen * 2 else blen) in do {
        buf \<leftarrow> sprintf_to blen buf (user_line ctime c);
        user_lines ctime blen buf cs
      })"

definition user_head :: "server_info \<Rightarrow> byte list" where
  "user_head server = bytes_of ''server: '' @ bytes_of (use_name server) @ bytes_of '' limit:'' @ decimal_int (limit server)
     @ bytes_of '' used:'' @ decimal_int (client_num server) @ [0x0A]"

definition tn3270_server_user_table_check :: "(int \<Rightarrow> byte list) \<Rightarrow> server_info \<Rightarrow> byte list option" where
  "tn3270_server_user_table_check ctime server = do {
     buf \<leftarrow> sprintf_to 8192 [] (user_head server);
     buf \<leftarrow> sprintf_to 8192 buf (pad_right 17 (bytes_of ''client'') @ pad_right 7 (bytes_of ''port'') @ bytes_of ''established'' @ [0x0A]);
     user_lines ctime 8192 buf (client_list server)
   }"

end
