(* ===== verification/Tn_Gateway.thy ===== *)
theory Tn_Gateway
  imports Tn_Daemon
begin

text \<open>
  What the loop of the terminal gateway (\<open>Tn_Daemon\<close>) keeps and what it does for a client, from the connection to the end
  of the session.
\<close>

section \<open>The invariant\<close>

text \<open>
  The table of clients agrees with the descriptors: every client has its own descriptor, which is open and waited for, and a
  host structure; the listening sockets are never taken for clients; and the count is never below the number of clients.
\<close>

definition clients_ok :: "server_info \<Rightarrow> nat \<Rightarrow> bool" where
  "clients_ok s n \<longleftrightarrow> distinct (map c_node (client_list s)) \<and> distinct (map c_fd (client_list s))
     \<and> (\<forall>c \<in> set (client_list s). c_node c < n \<and> c_host c \<noteq> None \<and> c_fd c \<noteq> client_sock s \<and> c_fd c \<noteq> manage_sock s)
     \<and> int (length (client_list s)) \<le> client_num s"

definition fds_ok :: "server_info \<Rightarrow> int set \<Rightarrow> bool" where
  "fds_ok s opened \<longleftrightarrow> finite opened \<and> (\<forall>fd \<in> all_fds s. 0 \<le> fd \<and> fd \<le> highest_fd s) \<and> highest_fd s < FD_SETSIZE
     \<and> client_sock s \<in> all_fds s \<inter> opened \<and> manage_sock s \<in> all_fds s \<inter> opened
     \<and> c_fd ` set (client_list s) \<subseteq> all_fds s \<inter> opened"

definition gateway_inv :: "gateway \<Rightarrow> bool" where
  "gateway_inv gw \<longleftrightarrow> clients_ok (srv gw) (next_node gw) \<and> fds_ok (srv gw) (k_open gw)"

lemma new_fd_ok:
  assumes "finite opened"
  shows "new_fd opened \<notin> opened \<and> 0 \<le> new_fd opened"
proof -
  have "card {0..int (card opened)} > card opened" by simp
  then have "\<not> {0..int (card opened)} \<subseteq> opened" using card_mono [OF assms] by (metis not_le)
  then have "filter (\<lambda>fd. fd \<notin> opened) [0..int (card opened)] \<noteq> []" by (auto simp: filter_empty_conv)
  from hd_in_set [OF this] show ?thesis by (auto simp: new_fd_def)
qed

text \<open>What never changes, and what a server at its limit never gains.\<close>

definition follows :: "server_info \<Rightarrow> server_info \<Rightarrow> bool" where
  "follows s t \<longleftrightarrow> limit t = limit s \<and> test t = test s \<and> client_sock t = client_sock s \<and> manage_sock t = manage_sock s
     \<and> client_num s \<le> client_num t
     \<and> (limit s \<le> client_num s \<longrightarrow> client_num t = client_num s \<and> c_node ` set (client_list t) \<subseteq> c_node ` set (client_list s))"

lemma follows_refl [simp]: "follows s s"
  by (simp add: follows_def)

lemma follows_trans: "follows s t \<Longrightarrow> follows t u \<Longrightarrow> follows s u"
  unfolding follows_def by (elim conjE, intro conjI impI) (simp_all, blast)

section \<open>The steps keep it\<close>

lemma connect_client:
  assumes "client_connect errno mem client = Some (Inr (err, client'))"
  shows "c_node client' = c_node client" "c_fd client' = c_fd client" "0 \<le> err \<Longrightarrow> c_host client' \<noteq> None"
  using assms by (auto simp: client_connect_def proceed_def split: option.splits sum.splits)

lemma top_half_client:
  assumes "top_half rui t errno mem client g = Some (Inr (err, client', g'))"
  shows "c_node client' = c_node client \<and> c_fd client' = c_fd client \<and> (0 \<le> err \<longrightarrow> c_host client' \<noteq> None)"
proof (cases t)
  case True
  with assms show ?thesis
    using connect_client [of errno mem client]
    by (auto simp: top_half_def tn3270_client_test_top_half_def proceed_def split: option.splits sum.splits if_splits bind_splits)
next
  case False
  with assms show ?thesis
    using connect_client [of errno mem client]
    by (auto simp: top_half_def tn3270_client_reg_top_half_def proceed_def Let_def split: option.splits sum.splits if_splits)
qed

lemma bottom_half_client:
  "tn3270_client_test_bottom_half client = Some (Inr (err, client')) \<Longrightarrow> \<exists>host. client' = client\<lparr>c_host := Some host\<rparr>"
  by (auto simp: tn3270_client_test_bottom_half_def proceed_def split: bind_splits option.splits sum.splits)

lemma set_fds_fields:
  "tn3270_server_count_and_set_fds s fd = Some t \<Longrightarrow> fd_ok fd \<and> client_list t = client_list s \<and> all_fds t = insert fd (all_fds s)
    \<and> highest_fd t = max (highest_fd s) fd \<and> limit t = limit s \<and> test t = test s \<and> client_sock t = client_sock s
    \<and> manage_sock t = manage_sock s \<and> client_num t = client_num s"
  by (auto simp: tn3270_server_count_and_set_fds_def Let_def max_def split: if_splits)

text \<open>Adding a client and removing it.\<close>

lemma store_new:
  assumes "\<forall>c \<in> set L. c_node c \<noteq> n" "c_node client' = n" "c_node client = n" "client_list s = L @ [client]"
  shows "store_client s client' = s\<lparr>client_list := L @ [client']\<rparr>"
  using assms by (auto simp: store_client_def map_idI)

lemma unlink_new:
  assumes "\<forall>c \<in> set L. c_node c \<noteq> n" "c_node client' = n" "client_list s = L @ [client']"
  shows "unlink_client s client' = s\<lparr>client_list := L\<rparr>"
  using assms by (auto simp: unlink_client_def)

text \<open>How a connection that is taken up changes the server.\<close>

lemma accept_cases:
  assumes "tn3270_accept_new_client rui gw = Some (Inr (r, gw'))" "clients_ok (srv gw) (next_node gw)" "finite (k_open gw)"
  obtains (Unchanged) "srv gw' = srv gw" "k_open gw' = k_open gw" "next_node gw' = next_node gw"
  | (Added) client where "client_num (srv gw) < limit (srv gw)" "c_fd client = new_fd (k_open gw)" "c_node client = next_node gw"
      "c_host client \<noteq> None" "k_open gw' = insert (c_fd client) (k_open gw)" "next_node gw' = next_node gw + 1"
      "tn3270_server_count_and_set_fds ((srv gw)\<lparr>client_list := client_list (srv gw) @ [client]\<rparr>) (c_fd client)
         = Some ((srv gw')\<lparr>client_num := client_num (srv gw)\<rparr>)" "client_num (srv gw') = client_num (srv gw) + 1"
  | (Failed) "client_num (srv gw) < limit (srv gw)" "k_open gw' = k_open gw" "next_node gw' = next_node gw + 1"
      "tn3270_server_count_and_set_fds (srv gw) (new_fd (k_open gw)) = Some ((srv gw')\<lparr>client_num := client_num (srv gw)\<rparr>)"
      "client_num (srv gw') = client_num (srv gw) + 1"
proof (cases "k_accepts gw")
  case Nil
  with assms(1) Unchanged show ?thesis by (auto simp: tn3270_accept_new_client_def)
next
  case (Cons a as)
  show ?thesis
  proof (cases a)
    case Accept_Error
    with assms(1) Cons Unchanged show ?thesis by (auto simp: tn3270_accept_new_client_def)
  next
    case (Accepted addr port errno mem)
    let ?fd = "new_fd (k_open gw)"
    note fd = new_fd_ok [OF assms(3)]
    show ?thesis
    proof (cases "client_num (srv gw) + 1 > limit (srv gw)")
      case True
      with assms(1) Cons Accepted Unchanged fd show ?thesis by (auto simp: tn3270_accept_new_client_def Let_def)
    next
      case False
      let ?L = "client_list (srv gw)"
      let ?c = "\<lparr>c_node = next_node gw, c_fd = ?fd, from_addr = addr, from_port = port, c_host = None,
        c_tbuf = tnX_buffer_init, start_time = k_time gw, terminated = False\<rparr>"
      obtain s where s: "tn3270_server_count_and_set_fds ((srv gw)\<lparr>client_list := ?L @ [?c]\<rparr>) ?fd = Some s"
        using assms(1) Cons Accepted False by (auto simp: tn3270_accept_new_client_def Let_def split: bind_splits)
      have st: "client_list s = ?L @ [?c]" "client_num s = client_num (srv gw)" "test s = test (srv gw)"
        using s by (auto simp: tn3270_server_count_and_set_fds_def Let_def split: if_splits)
      from s have set_fds: "tn3270_server_count_and_set_fds ((srv gw)\<lparr>client_list := L\<rparr>) ?fd = Some (s\<lparr>client_list := L\<rparr>)" for L
        by (auto simp: tn3270_server_count_and_set_fds_def Let_def split: if_splits)
      obtain err c g where top: "top_half rui (test (srv gw)) errno mem ?c (lua gw) = Some (Inr (err, c, g))"
        using assms(1) Cons Accepted False s st(3)
        by (auto simp: tn3270_accept_new_client_def Let_def proceed_def split: option.splits sum.splits)
      from top_half_client [OF top] have c: "c_node c = next_node gw" "c_fd c = ?fd" "0 \<le> err \<longrightarrow> c_host c \<noteq> None" by auto
      have fresh: "\<forall>c \<in> set ?L. c_node c \<noteq> next_node gw" using assms(2) by (auto simp: clients_ok_def)
      have stored: "store_client (s\<lparr>client_num := client_num s + 1\<rparr>) c = s\<lparr>client_list := ?L @ [c], client_num := client_num s + 1\<rparr>"
        using store_new [OF fresh c(1), of ?c "s\<lparr>client_num := client_num s + 1\<rparr>"] st(1) by simp
      have unlinked: "unlink_client (s\<lparr>client_list := ?L @ [c], client_num := client_num s + 1\<rparr>) c = s\<lparr>client_list := ?L, client_num := client_num s + 1\<rparr>"
        using unlink_new [OF fresh c(1), of "s\<lparr>client_list := ?L @ [c], client_num := client_num s + 1\<rparr>"] by simp
      note run = assms(1) Cons Accepted False s st top stored unlinked
      show ?thesis
      proof (cases "err < 0")
        case True
        with run fd have "srv gw' = s\<lparr>client_list := ?L, client_num := client_num s + 1\<rparr>" "k_open gw' = k_open gw" "next_node gw' = next_node gw + 1"
          by (auto simp: tn3270_accept_new_client_def Let_def)
        with Failed False set_fds [of ?L] st(2) show ?thesis by simp
      next
        case err: False
        with run have "srv gw' = s\<lparr>client_list := ?L @ [c], client_num := client_num s + 1\<rparr>" "k_open gw' = insert ?fd (k_open gw)"
          "next_node gw' = next_node gw + 1"
          by (auto simp: tn3270_accept_new_client_def Let_def)
        with Added [of c] False set_fds [of "?L @ [c]"] st(2) c err show ?thesis by simp
      qed
    qed
  qed
qed

lemma accept_step:
  assumes "gateway_inv gw" "tn3270_accept_new_client rui gw = Some (Inr (r, gw'))"
  shows "gateway_inv gw' \<and> follows (srv gw) (srv gw') \<and> set (client_list (srv gw)) \<subseteq> set (client_list (srv gw'))"
proof -
  have ok: "clients_ok (srv gw) (next_node gw)" "fds_ok (srv gw) (k_open gw)" and fin: "finite (k_open gw)"
    using assms(1) by (auto simp: gateway_inv_def fds_ok_def)
  note fd = new_fd_ok [OF fin]
  have sub: "c_fd ` set (client_list (srv gw)) \<subseteq> k_open gw" "client_sock (srv gw) \<in> k_open gw" "manage_sock (srv gw) \<in> k_open gw"
    using ok(2) by (auto simp: fds_ok_def)
  show ?thesis
  proof (cases rule: accept_cases [OF assms(2) ok(1) fin])
    case 1
    with assms(1) show ?thesis by (simp add: gateway_inv_def)
  next
    case (2 client)
    from set_fds_fields [OF 2(7)] have f: "fd_ok (c_fd client)" "client_list (srv gw') = client_list (srv gw) @ [client]"
      "all_fds (srv gw') = insert (c_fd client) (all_fds (srv gw))" "highest_fd (srv gw') = max (highest_fd (srv gw)) (c_fd client)"
      "limit (srv gw') = limit (srv gw)" "test (srv gw') = test (srv gw)" "client_sock (srv gw') = client_sock (srv gw)"
      "manage_sock (srv gw') = manage_sock (srv gw)" by auto
    have "clients_ok (srv gw') (next_node gw')"
      using ok(1) 2(2-4,6,8) f(2,7,8) fd sub by (auto simp: clients_ok_def)
    moreover have "fds_ok (srv gw') (k_open gw')"
      using ok(2) 2(5) f(1-4,7,8) fin by (auto simp: fds_ok_def fd_ok_def)
    ultimately show ?thesis using 2(1,8) f by (auto simp: gateway_inv_def follows_def)
  next
    case 3
    from set_fds_fields [OF 3(4)] have f: "fd_ok (new_fd (k_open gw))" "client_list (srv gw') = client_list (srv gw)"
      "all_fds (srv gw') = insert (new_fd (k_open gw)) (all_fds (srv gw))" "highest_fd (srv gw') = max (highest_fd (srv gw)) (new_fd (k_open gw))"
      "limit (srv gw') = limit (srv gw)" "test (srv gw') = test (srv gw)" "client_sock (srv gw') = client_sock (srv gw)"
      "manage_sock (srv gw') = manage_sock (srv gw)" by auto
    have "clients_ok (srv gw') (next_node gw')"
      using ok(1) 3(3,5) f(2,7,8) by (auto simp: clients_ok_def)
    moreover have "fds_ok (srv gw') (k_open gw')"
      using ok(2) 3(2) f(1-4,7,8) by (auto simp: fds_ok_def fd_ok_def)
    ultimately show ?thesis using 3(1,5) f by (auto simp: gateway_inv_def follows_def)
  qed
qed

text \<open>A client that is stored back, and one that is closed.\<close>

lemma find_by_fd: "tn3270_client_find_by_fd L fd = Some c \<Longrightarrow> c \<in> set L \<and> c_fd c = fd"
  by (induction L fd rule: tn3270_client_find_by_fd.induct) (auto split: if_splits)

lemma store_same:
  assumes "distinct (map c_node L)" "c \<in> set L" "c_node c' = c_node c" "c_fd c' = c_fd c"
  shows "map c_node (map (\<lambda>x. if c_node x = c_node c' then c' else x) L) = map c_node L"
    "map c_fd (map (\<lambda>x. if c_node x = c_node c' then c' else x) L) = map c_fd L"
  using assms by (auto simp: eq_key_imp_eq_value distinct_map inj_on_def)

lemma store_step:
  assumes "gateway_inv gw" "c \<in> set (client_list (srv gw))" "c' = c\<lparr>c_host := Some host\<rparr>"
  shows "gateway_inv (gw\<lparr>srv := store_client (srv gw) c'\<rparr>) \<and> follows (srv gw) (store_client (srv gw) c')
    \<and> c' \<in> set (client_list (store_client (srv gw) c'))
    \<and> (\<forall>x \<in> set (client_list (srv gw)). c_fd x \<noteq> c_fd c \<longrightarrow> x \<in> set (client_list (store_client (srv gw) c')))"
proof -
  let ?L = "client_list (srv gw)" and ?M = "map (\<lambda>x. if c_node x = c_node c' then c' else x) (client_list (srv gw))"
  have d: "distinct (map c_node ?L)" using assms(1) by (simp add: gateway_inv_def clients_ok_def)
  have same: "map c_node ?M = map c_node ?L" "map c_fd ?M = map c_fd ?L"
    using store_same [OF d assms(2), of c'] assms(3) by auto
  have node: "x = c" if "x \<in> set ?L" "c_node x = c_node c" for x
    using d that assms(2) by (auto simp: distinct_map inj_on_def)
  have img: "c_node ` set ?M = c_node ` set ?L" "c_fd ` set ?M = c_fd ` set ?L"
    using same by (metis list.set_map)+
  have each: "\<forall>x \<in> set ?M. x = c' \<or> x \<in> set ?L" by auto
  have "clients_ok (store_client (srv gw) c') (next_node gw)"
    using assms same d each unfolding gateway_inv_def clients_ok_def store_client_def
    by (auto simp del: map_map)
  moreover have "fds_ok (store_client (srv gw) c') (k_open gw)"
    using assms(1) img(2) unfolding gateway_inv_def fds_ok_def store_client_def by (simp del: set_map)
  moreover have "follows (srv gw) (store_client (srv gw) c')"
    using img(1) unfolding follows_def store_client_def by (simp del: set_map)
  ultimately show ?thesis
    using assms(2,3) node unfolding gateway_inv_def store_client_def by (auto simp: image_iff)
qed

lemma filter_store:
  "c_node c' = n \<Longrightarrow> filter (\<lambda>x. c_node x \<noteq> n) (map (\<lambda>x. if c_node x = n then c' else x) L) = filter (\<lambda>x. c_node x \<noteq> n) L"
  by (induction L) auto

lemma clear_fds_fields:
  "tn3270_server_count_and_clear_fds s fd = Some t \<Longrightarrow> t = s\<lparr>open_fds := open_fds s - 1, all_fds := all_fds s - {fd}\<rparr>"
  by (auto simp: tn3270_server_count_and_clear_fds_def split: if_splits)

lemma close_session_fields:
  assumes "tn3270_close_session rui c gw = Some (Inr gw')"
  shows "client_list (srv gw') = filter (\<lambda>x. c_node x \<noteq> c_node c) (client_list (srv gw))" "k_open gw' = k_open gw - {c_fd c}"
    "all_fds (srv gw') = all_fds (srv gw) - {c_fd c}" "next_node gw' = next_node gw" "highest_fd (srv gw') = highest_fd (srv gw)"
    "limit (srv gw') = limit (srv gw)" "test (srv gw') = test (srv gw)" "client_sock (srv gw') = client_sock (srv gw)"
    "manage_sock (srv gw') = manage_sock (srv gw)" "client_num (srv gw') = client_num (srv gw)"
  using assms
  by (auto simp: tn3270_close_session_def proceed_def Let_def unlink_client_def store_client_def filter_store
      split: bind_splits option.splits sum.splits dest!: clear_fds_fields)

lemma close_step:
  assumes "gateway_inv gw" "c \<in> set (client_list (srv gw))" "tn3270_close_session rui c gw = Some (Inr gw')"
  shows "gateway_inv gw' \<and> follows (srv gw) (srv gw') \<and> (\<forall>x \<in> set (client_list (srv gw)). c_fd x \<noteq> c_fd c \<longrightarrow> x \<in> set (client_list (srv gw')))"
proof -
  let ?L = "client_list (srv gw)" and ?M = "filter (\<lambda>x. c_node x \<noteq> c_node c) (client_list (srv gw))"
  note f = close_session_fields [OF assms(3)]
  have ok: "clients_ok (srv gw) (next_node gw)" "fds_ok (srv gw) (k_open gw)" using assms(1) by (auto simp: gateway_inv_def)
  have other: "c_fd x \<noteq> c_fd c" if "x \<in> set ?M" for x
    using that ok(1) assms(2) by (auto simp: clients_ok_def distinct_map inj_on_def)
  have "int (length ?M) \<le> client_num (srv gw)"
    using ok(1) length_filter_le [of "\<lambda>x. c_node x \<noteq> c_node c" ?L] unfolding clients_ok_def by linarith
  then have "clients_ok (srv gw') (next_node gw')"
    using ok(1) unfolding clients_ok_def f by (auto simp: distinct_map_filter)
  moreover have "fds_ok (srv gw') (k_open gw')"
    using ok other assms(2) unfolding fds_ok_def clients_ok_def f by auto
  moreover have "x = c" if "x \<in> set ?L" "c_node x = c_node c" for x
    using that ok(1) assms(2) by (auto simp: clients_ok_def distinct_map inj_on_def)
  ultimately show ?thesis unfolding gateway_inv_def follows_def f by auto
qed

lemma serve_fd_step:
  assumes "gateway_inv gw" "serve_fd rui i gw = Some (Inr gw')"
  shows "gateway_inv gw' \<and> follows (srv gw) (srv gw') \<and> (\<forall>x \<in> set (client_list (srv gw)). c_fd x \<noteq> i \<longrightarrow> x \<in> set (client_list (srv gw')))"
proof -
  consider "i = client_sock (srv gw)" | "gw' = gw"
    | c where "i \<noteq> client_sock (srv gw)" "i \<noteq> manage_sock (srv gw)" "tn3270_client_find_by_fd (client_list (srv gw)) i = Some c"
    using assms(2) by (auto simp: serve_fd_def split: if_splits option.splits)
  then show ?thesis
  proof cases
    case 1
    with assms(2) obtain r where "tn3270_accept_new_client rui gw = Some (Inr (r, gw'))"
      by (auto simp: serve_fd_def proceed_def split: option.splits sum.splits)
    from accept_step [OF assms(1) this] show ?thesis by auto
  next
    case 2
    with assms(1) show ?thesis by simp
  next
    case (3 c)
    then have c: "c \<in> set (client_list (srv gw))" "c_fd c = i" using find_by_fd by auto
    from 3 assms(2) obtain err c' where b: "tn3270_client_test_bottom_half c = Some (Inr (err, c'))"
      by (auto simp: serve_fd_def proceed_def split: option.splits sum.splits)
    from bottom_half_client [OF b] obtain host where c': "c' = c\<lparr>c_host := Some host\<rparr>" by blast
    let ?gw = "gw\<lparr>srv := store_client (srv gw) c'\<rparr>"
    note st = store_step [OF assms(1) c(1) c']
    show ?thesis
    proof (cases "err = - ECONNABORTED")
      case True
      with 3 assms(2) b have cl: "tn3270_close_session rui c' ?gw = Some (Inr gw')" by (simp add: serve_fd_def Let_def)
      from close_step [OF _ _ cl] st show ?thesis using c(2) c' by (auto intro: follows_trans)
    next
      case False
      with 3 assms(2) b have "gw' = ?gw" by (simp add: serve_fd_def Let_def)
      with st c(2) show ?thesis by simp
    qed
  qed
qed

lemma scan_step:
  "gateway_inv gw \<Longrightarrow> scan_fds rui i rd gw = Some (Inr gw') \<Longrightarrow> gateway_inv gw' \<and> follows (srv gw) (srv gw')
     \<and> (\<forall>x \<in> set (client_list (srv gw)). c_fd x \<notin> rd \<longrightarrow> x \<in> set (client_list (srv gw')))"
proof (induction rui i rd gw rule: scan_fds.induct)
  case (1 rui i rd gw)
  show ?case
  proof (cases "i > highest_fd (srv gw) \<or> i \<ge> FD_SETSIZE \<or> i \<notin> rd")
    case True
    with 1 show ?thesis by (auto simp: scan_fds.simps [of rui i] split: if_splits)
  next
    case False
    with 1(4) obtain gw1 where s: "serve_fd rui i gw = Some (Inr gw1)" "scan_fds rui (i + 1) rd gw1 = Some (Inr gw')"
      by (auto simp: scan_fds.simps [of rui i] split: if_splits option.splits sum.splits)
    from serve_fd_step [OF 1(3) s(1)] have "gateway_inv gw1" "follows (srv gw) (srv gw1)"
      "\<forall>x \<in> set (client_list (srv gw)). c_fd x \<noteq> i \<longrightarrow> x \<in> set (client_list (srv gw1))" by auto
    with 1(2) [of "Inr gw1" gw1] s False show ?thesis by (auto intro: follows_trans)
  qed
qed

lemma turn_step:
  "gateway_inv gw \<Longrightarrow> server_turn rui ev gw = Some (Inr gw') \<Longrightarrow> gateway_inv gw' \<and> follows (srv gw) (srv gw')"
  by (auto simp: server_turn_def split: if_splits event.splits dest: scan_step)

lemma turns_step:
  "gateway_inv gw \<Longrightarrow> server_turns rui evs gw = Some (Inr gw') \<Longrightarrow> gateway_inv gw' \<and> follows (srv gw) (srv gw')"
proof (induction evs arbitrary: gw)
  case (Cons ev evs)
  then obtain gw1 where "server_turn rui ev gw = Some (Inr gw1)" "server_turns rui evs gw1 = Some (Inr gw')"
    by (auto simp: proceed_def split: option.splits sum.splits)
  with Cons turn_step show ?case by (blast intro: follows_trans)
qed simp

section \<open>Properties\<close>

text \<open>A server that has just started with its two sockets.\<close>

definition fresh_gateway :: "int \<Rightarrow> accept_result list \<Rightarrow> (int \<times> bool \<times> int set) list \<Rightarrow> gateway" where
  "fresh_gateway lim as ss = \<lparr>srv = \<lparr>use_name = ''linux'', test = True, limit = lim, client_sock = 3, manage_sock = 4, client_list = [],
     client_num = 0, all_fds = {3, 4}, open_fds = 2, wmark_fd = 2, highest_fd = 4\<rparr>, lua = idle_session\<lparr>g_selects := ss\<rparr>,
     k_open = {0, 1, 2, 3, 4}, k_accepts = as, k_time = 0, next_node = 0\<rparr>"

lemma fresh_gateway_inv: "gateway_inv (fresh_gateway lim as ss)"
  by (simp add: fresh_gateway_def gateway_inv_def clients_ok_def fds_ok_def)

lemma fresh_gateway_start:
  "server_start ((srv (fresh_gateway lim as ss))\<lparr>client_sock := 0, manage_sock := 0, all_fds := {}, open_fds := 0, wmark_fd := 0, highest_fd := 0\<rparr>)
     (3, 0, 0) (4, 0, 0) = Some (Inr (srv (fresh_gateway lim as ss)))"
  by (simp add: fresh_gateway_def server_start_def tn3270_make_socket_def tn3270_server_count_and_set_fds_def fd_ok_def Let_def insert_commute)

text \<open>
  C17. The table of the gateway stays sound through any sequence of connections, answers, timeouts and errors, whatever the
  communication library does: every client that is listed has a descriptor of its own that is open and waited for and a
  host structure, no client uses a listening socket, no descriptor is out of the range of the sets, and the number of
  clients never exceeds the count.
\<close>

theorem gateway_table_invariant:
  assumes "gateway_inv gw" "server_turns rui evs gw = Some (Inr gw')"
  shows "gateway_inv gw'"
  using turns_step [OF assms] by blast

text \<open>
  Clients do not interfere: in one pass over the ready descriptors, a client whose descriptor is not ready stays in the
  table as it was, its stream included.
\<close>

theorem idle_clients_untouched:
  assumes "gateway_inv gw" "server_turn rui (Ready rd) gw = Some (Inr gw')" "c \<in> set (client_list (srv gw))" "c_fd c \<notin> rd"
  shows "c \<in> set (client_list (srv gw'))"
proof (cases "bad_fd gw")
  case True
  with assms(2,3) show ?thesis by (simp add: server_turn_def)
next
  case False
  with assms(2) have "scan_fds rui 3 (rd \<inter> all_fds (srv gw)) gw = Some (Inr gw')" by (simp add: server_turn_def)
  from scan_step [OF assms(1) this] assms(3,4) show ?thesis by auto
qed

text \<open>
  The limit counts connections, not clients: the count never falls. A server that has taken up as many connections as its
  limit refuses every later one, for ever, even when all its clients are gone.
\<close>

theorem limit_is_for_ever:
  assumes "gateway_inv gw" "limit (srv gw) \<le> client_num (srv gw)" "server_turns rui evs gw = Some (Inr gw')"
  shows "c_node ` set (client_list (srv gw')) \<subseteq> c_node ` set (client_list (srv gw)) \<and> client_num (srv gw') = client_num (srv gw)"
  using turns_step [OF assms(1,3)] assms(2) by (simp add: follows_def)

lemma bad_fd_stuck: "bad_fd gw \<Longrightarrow> server_turns rui evs gw = Some (Inr gw)"
  by (induction evs) (simp_all add: server_turn_def)

lemma scan_none: "highest_fd (srv gw) < FD_SETSIZE \<Longrightarrow> \<forall>k \<ge> i. k \<notin> rd \<Longrightarrow> scan_fds rui i rd gw = Some (Inr gw)"
proof (induction rui i rd gw rule: scan_fds.induct)
  case (1 rui i rd gw)
  then show ?case by (subst scan_fds.simps) auto
qed

lemma scan_one:
  "i \<le> j \<Longrightarrow> j \<le> highest_fd (srv gw) \<Longrightarrow> highest_fd (srv gw) < FD_SETSIZE \<Longrightarrow> serve_fd rui j gw = Some (Inr gw') \<Longrightarrow>
   highest_fd (srv gw') < FD_SETSIZE \<Longrightarrow> scan_fds rui i {j} gw = Some (Inr gw')"
proof (induction rui i "{j}" gw rule: scan_fds.induct)
  case (1 rui i gw)
  show ?case
  proof (cases "i = j")
    case True
    with 1 scan_none [of gw' "j + 1" "{j}" rui] show ?thesis by (subst scan_fds.simps) simp
  next
    case False
    with 1 show ?thesis by (subst scan_fds.simps) simp
  qed
qed

lemma turn_one:
  assumes "gateway_inv gw" "\<not> bad_fd gw" "j \<in> all_fds (srv gw)" "3 \<le> j" "serve_fd rui j gw = Some (Inr gw')"
  shows "server_turn rui (Ready {j}) gw = Some (Inr gw')"
proof -
  have "gateway_inv gw'" using serve_fd_step [OF assms(1,5)] by blast
  then have "highest_fd (srv gw') < FD_SETSIZE" by (simp add: gateway_inv_def fds_ok_def)
  with scan_one [of 3 j gw rui gw'] assms show ?thesis by (simp add: server_turn_def gateway_inv_def fds_ok_def)
qed

text \<open>A peer that says nothing for five seconds, or goes away, before the first answer.\<close>

definition gone :: "tnXstream \<Rightarrow> bool" where
  "gone mem \<longleftrightarrow> st_tx mem = [] \<and> (case st_in mem of [] \<Rightarrow> True | e # r \<Rightarrow> e = RxNone \<or> e = RxEof \<or> e = RxErr)"

lemma receive_gone:
  assumes "st_in s = RxEof # r \<or> st_in s = RxErr # r" "st_state s = DATA"
  shows "\<exists>t. telnet_stream_handle_receive s = Some (Inr (False, t)) \<and> st_records t = st_records s"
  using assms by (auto simp: telnet_stream_handle_receive.simps [of s] telnet_stream_get_byte_def get_byte_loop.simps [of s]
      telnet_stream_get_next_def wake_def)

lemma accept_gone:
  assumes "gone s" "st_state s = DATA" "st_records s = None"
  shows "\<exists>r t. accept_loop errno s (cmd # cmds) = Some (Inr (r, t)) \<and> r \<noteq> 0 \<and> st_records t = None"
proof (cases "readable s")
  case True
  then obtain r where "st_in s = RxEof # r \<or> st_in s = RxErr # r"
    using assms(1) by (auto simp: readable_def gone_def split: list.splits)
  with receive_gone [of "s\<lparr>st_out := st_out s @ cmd\<rparr>" r] assms obtain t where
    "telnet_stream_handle_receive (s\<lparr>st_out := st_out s @ cmd\<rparr>) = Some (Inr (False, t))" "st_records t = None" by auto
  with True assms(1) show ?thesis by (auto simp: sock_send_all gone_def readable_def)
next
  case False
  with assms show ?thesis by (auto simp: sock_send_all gone_def readable_def)
qed

lemma init_accepts: "st_accept (tn3270_telnet_stream_init s)"
  by (simp add: tn3270_telnet_stream_init_def)

lemma gone_not_connected:
  assumes "gone mem"
  shows "client_connect errno mem client = Some (Inr (- EINVAL, client))"
proof -
  let ?s = "(tn3270_telnet_stream_init (streamInit (mem\<lparr>st_accept := False\<rparr>)))\<lparr>st_state := DATA, st_status := HOST\<rparr>"
  have "gone ?s" "st_state ?s = DATA" "st_records ?s = None"
    using assms by (simp_all add: gone_def tn3270_telnet_stream_init_def streamInit_def)
  from accept_gone [OF this] obtain r t where "accept_loop errno ?s hostDoTable = Some (Inr (r, t))" "r \<noteq> 0" "st_records t = None"
    unfolding hostDoTable_def by blast
  then have "\<exists>h. tnX_stream_host errno mem TN3270_STREAM = Some (Inr (Inl h))"
    by (simp add: tnX_stream_host_def init_accepts telnet_stream_accept_def tnX_stream_destroy_def tnX_record_list_destroy_def)
  then show ?thesis by (auto simp: client_connect_def)
qed

text \<open>
  One connection that comes to nothing stops the server for good. When a peer connects and goes away, or stays silent, the
  gateway closes its descriptor but keeps it among those it waits for; from then on every wait fails, and the
  server neither takes up a connection nor serves a client again, whatever happens.
\<close>

theorem failed_connection_stops_server:
  assumes "gateway_inv gw" "\<not> bad_fd gw" "3 \<le> client_sock (srv gw)" "client_num (srv gw) < limit (srv gw)"
    and "k_accepts gw = Accepted addr port errno mem # as" "gone mem" "new_fd (k_open gw) < FD_SETSIZE"
  shows "\<exists>gw'. server_turn rui (Ready {client_sock (srv gw)}) gw = Some (Inr gw') \<and> client_list (srv gw') = client_list (srv gw)
    \<and> (\<forall>evs. server_turns rui evs gw' = Some (Inr gw'))"
proof -
  have fin: "finite (k_open gw)" and ok: "clients_ok (srv gw) (next_node gw)" using assms(1) by (auto simp: gateway_inv_def fds_ok_def)
  note fd = new_fd_ok [OF fin]
  let ?fd = "new_fd (k_open gw)"
  have sock: "client_sock (srv gw) \<in> all_fds (srv gw)" using assms(1) by (simp add: gateway_inv_def fds_ok_def)
  have top: "top_half rui t errno mem c g = Some (Inr (- EINVAL, c, g))" for t c g
    using gone_not_connected [OF assms(6), of errno c] by (simp add: top_half_def tn3270_client_test_top_half_def tn3270_client_reg_top_half_def)
  obtain r gw' where run: "tn3270_accept_new_client rui gw = Some (Inr (r, gw'))"
    using assms(4,5,7) fd top by (auto simp: tn3270_accept_new_client_def Let_def tn3270_server_count_and_set_fds_def fd_ok_def)
  have "client_list (srv gw') = client_list (srv gw) \<and> ?fd \<in> all_fds (srv gw') \<and> ?fd \<notin> k_open gw' \<and> ?fd \<le> highest_fd (srv gw')"
  proof -
    have fresh: "\<forall>c \<in> set (client_list (srv gw)). c_node c \<noteq> next_node gw" using ok by (auto simp: clients_ok_def)
    then have "filter (\<lambda>c. c_node c \<noteq> next_node gw) (client_list (srv gw)) = client_list (srv gw)" by (simp add: filter_id_conv)
    with run assms(4,5,7) fd top show ?thesis
      by (auto simp: tn3270_accept_new_client_def Let_def tn3270_server_count_and_set_fds_def fd_ok_def unlink_client_def
          store_client_def filter_store split: if_splits)
  qed
  moreover from this have "bad_fd gw'" unfolding bad_fd_def by blast
  moreover have "serve_fd rui (client_sock (srv gw)) gw = Some (Inr gw')" using run by (simp add: serve_fd_def)
  ultimately show ?thesis using turn_one [OF assms(1,2) sock assms(3)] bad_fd_stuck by blast
qed

theorem gateway_table_invariant_witness:
  "\<exists>gw'. server_turns rui1 [Timeout, Ready {3}] (fresh_gateway 1 [Accept_Error] []) = Some (Inr gw') \<and> gateway_inv gw'"
proof -
  have nb: "\<not> bad_fd (fresh_gateway 1 [Accept_Error] [])" by (simp add: bad_fd_def fresh_gateway_def)
  have "\<exists>gw'. serve_fd rui1 3 (fresh_gateway 1 [Accept_Error] []) = Some (Inr gw')"
    by (simp add: serve_fd_def fresh_gateway_def tn3270_accept_new_client_def)
  then obtain gw' where s: "serve_fd rui1 3 (fresh_gateway 1 [Accept_Error] []) = Some (Inr gw')" by blast
  have "server_turn rui1 (Ready {3}) (fresh_gateway 1 [Accept_Error] []) = Some (Inr gw')"
    using turn_one [OF fresh_gateway_inv nb _ _ s] by (simp add: fresh_gateway_def)
  then have "server_turns rui1 [Timeout, Ready {3}] (fresh_gateway 1 [Accept_Error] []) = Some (Inr gw')"
    by (simp add: server_turn_def nb)
  with gateway_table_invariant [OF fresh_gateway_inv this] show ?thesis by blast
qed

lemma fresh_new_fd: "new_fd (k_open (fresh_gateway lim as ss)) = 5"
  by (simp add: new_fd_def fresh_gateway_def upto.simps)

theorem failed_connection_stops_server_witness:
  "\<exists>gw'. server_turn rui1 (Ready {3}) (fresh_gateway 8 [Accepted 0x0100007F 4000 0 (fresh_stream [RxEof] [] [])] []) = Some (Inr gw')
    \<and> (\<forall>evs. server_turns rui1 evs gw' = Some (Inr gw'))"
proof -
  let ?gw = "fresh_gateway 8 [Accepted 0x0100007F 4000 0 (fresh_stream [RxEof] [] [])] []"
  have "\<not> bad_fd ?gw" "3 \<le> client_sock (srv ?gw)" "client_num (srv ?gw) < limit (srv ?gw)" "client_sock (srv ?gw) = 3"
    "k_accepts ?gw = Accepted 0x0100007F 4000 0 (fresh_stream [RxEof] [] []) # []" "gone (fresh_stream [RxEof] [] [])"
    by (simp_all add: bad_fd_def fresh_gateway_def gone_def fresh_stream_def)
  with failed_connection_stops_server [OF fresh_gateway_inv, of 8 _ _ _ _ _ _ "[]" rui1] fresh_new_fd show ?thesis by fastforce
qed

theorem limit_is_for_ever_witness:
  "\<exists>gw'. server_turns rui1 [Ready {3}] (fresh_gateway 0 [Accepted 1 2 0 (fresh_stream [] [] [])] []) = Some (Inr gw')
    \<and> client_list (srv gw') = [] \<and> client_num (srv gw') = 0"
proof -
  let ?gw = "fresh_gateway 0 [Accepted 1 2 0 (fresh_stream [] [] [])] []"
  have nb: "\<not> bad_fd ?gw" and sock: "3 \<in> all_fds (srv ?gw)" and lim: "limit (srv ?gw) \<le> client_num (srv ?gw)"
    and none: "client_list (srv ?gw) = []" "client_num (srv ?gw) = 0"
    by (simp_all add: bad_fd_def fresh_gateway_def)
  have "\<exists>gw'. serve_fd rui1 3 ?gw = Some (Inr gw')" by (simp add: serve_fd_def fresh_gateway_def tn3270_accept_new_client_def Let_def)
  then obtain gw' where "serve_fd rui1 3 ?gw = Some (Inr gw')" by blast
  then have "server_turns rui1 [Ready {3}] ?gw = Some (Inr gw')" using turn_one [OF fresh_gateway_inv nb sock] by simp
  with limit_is_for_ever [OF fresh_gateway_inv lim this] none show ?thesis by auto
qed

section \<open>A session from end to end\<close>

text \<open>A terminal that answers the three requests, sees the screen and then sends \<open>d\<close>.\<close>

definition terminal :: "tnXstream \<Rightarrow> token list list \<Rightarrow> byte list \<Rightarrow> rx list \<Rightarrow> bool" where
  "terminal mem tss d later \<longleftrightarrow> length tss = 3 \<and> [] \<notin> set tss \<and> list_all (list_all token_ok) tss \<and> st_tx mem = []
     \<and> SelErr \<notin> set (st_sel mem) \<and> heap_inv (st_heap mem) (st_brk mem)
     \<and> foldl receive_token ([], None) (concat tss) = ([], None)
     \<and> st_in mem = answers tss @ map RxByte (packet d) @ RxNone # later"

lemma terminal_connects:
  assumes "terminal mem tss d later"
  shows "\<exists>host. tn3270_client_test_top_half errno mem c = Some (Inr (0, c\<lparr>c_host := Some host\<rparr>))
    \<and> host_ready (h_stream host) \<and> represents (h_stream host) [] None \<and> st_streamtype (h_stream host) = TN3270_STREAM
    \<and> h_record host = None \<and> h_screenRec host = None \<and> st_in (h_stream host) = map RxByte (packet d) @ RxNone # later
    \<and> st_out (h_stream host) = st_out mem @ dialogue [hostInitStr, hostDoEOR, hostDoBinary] tss @ packet test_screen"
proof -
  let ?s0 = "(tn3270_telnet_stream_init (streamInit (mem\<lparr>st_accept := False\<rparr>)))\<lparr>st_state := DATA, st_status := HOST\<rparr>"
  from stream_host_ok [of tss mem "map RxByte (packet d) @ RxNone # later" errno] assms obtain s where
    s: "tnX_stream_host errno mem TN3270_STREAM = Some (Inr (Inr s))" "host_ready s" "st_in s = map RxByte (packet d) @ RxNone # later"
    "accept_loop errno ?s0 hostDoTable = Some (Inr (0, s))" "represents s [] None"
    "st_out s = st_out mem @ dialogue [hostInitStr, hostDoEOR, hostDoBinary] tss"
    unfolding terminal_def by auto
  from accept_loop_line [OF s(4)] assms have line: "st_streamtype s = TN3270_STREAM" "SelErr \<notin> set (st_sel s)"
    by (simp_all add: same_line_def terminal_def tn3270_telnet_stream_init_def streamInit_def)
  have tx: "st_tx s = []" using s(2) by (simp add: host_ready_def)
  obtain h0 where h0: "tnX_host_new s = Some h0" using page37 by (auto simp: tnX_host_new_def setXCharMap_def)
  from send_test_screen_ok [OF h0 line(2)] tx obtain host ss where
    h: "SendTestScreen h0 = Some (Inr (0, host))" "h_stream host = s\<lparr>st_sel := ss, st_tx := [], st_out := st_out s @ packet test_screen\<rparr>"
    "h_record host = None" "h_screenRec host = None" by auto
  have "tn3270_client_test_top_half errno mem c = Some (Inr (0, c\<lparr>c_host := Some host\<rparr>))"
    using s(1) h0 h(1) by (simp add: tn3270_client_test_top_half_def client_connect_def)
  moreover have "host_ready (h_stream host)" "represents (h_stream host) [] None"
    using s(2,5) h(2) by (auto simp: host_ready_def idle_def represents_def stream_holds_def)
  ultimately show ?thesis using h line s(3,6) by auto
qed

lemma close_ends:
  assumes "reading host d k" "h_screenRec host = None" "g_selects (lua gw) = (1, exc, rd) # ss" "0 \<in> rd" "fd_ok (c_fd c)"
    and "c_host c = Some host" "\<not> terminated c"
  shows "\<exists>gw'. tn3270_close_session rui1 c gw = Some (Inr gw')"
proof -
  have "\<exists>h. tnX_host_destroy host = Some h"
    using assms(1,2) by (auto simp: reading_def tnX_host_destroy_def tnX_record_destroy_def tnX_stream_destroy_def tnX_record_list_destroy_def)
  moreover have "\<exists>g. send_purges rui1 (lua gw) = Inr g \<and> g_selects g = g_selects (lua gw)"
    by (simp add: send_purges_def rui1_def other_done_def Let_def zero_verb_def)
  moreover have "\<exists>r g'. send_verb rui1 LUA_OPCODE_RUI_TERM g = Some (Inr (r, g'))" if "g_selects g = (1, exc, rd) # ss" for g
    using that assms(4) by (simp add: send_verb_def run_other_def rui1_def do_select_def Let_def zero_verb_def ex_bool_eq)
  ultimately show ?thesis using assms(3,5-7)
    by (fastforce simp: tn3270_close_session_def Let_def tn3270_server_count_and_clear_fds_def)
qed

lemma accept_terminal:
  assumes "gateway_inv gw" "test (srv gw)" "client_num (srv gw) < limit (srv gw)" "k_accepts gw = Accepted addr port errno mem # as"
    and "terminal mem tss d later" "new_fd (k_open gw) < FD_SETSIZE"
  shows "\<exists>gw1 c host. tn3270_accept_new_client rui gw = Some (Inr (0, gw1)) \<and> client_list (srv gw1) = client_list (srv gw) @ [c]
    \<and> c_fd c = new_fd (k_open gw) \<and> c_node c = next_node gw \<and> \<not> terminated c \<and> c_host c = Some host
    \<and> host_ready (h_stream host) \<and> represents (h_stream host) [] None \<and> st_streamtype (h_stream host) = TN3270_STREAM
    \<and> h_record host = None \<and> h_screenRec host = None \<and> st_in (h_stream host) = map RxByte (packet d) @ RxNone # later
    \<and> st_out (h_stream host) = st_out mem @ dialogue [hostInitStr, hostDoEOR, hostDoBinary] tss @ packet test_screen
    \<and> all_fds (srv gw1) = insert (c_fd c) (all_fds (srv gw)) \<and> k_open gw1 = insert (c_fd c) (k_open gw) \<and> lua gw1 = lua gw
    \<and> client_sock (srv gw1) = client_sock (srv gw) \<and> manage_sock (srv gw1) = manage_sock (srv gw)
    \<and> client_num (srv gw1) = client_num (srv gw) + 1"
proof -
  let ?fd = "new_fd (k_open gw)" and ?L = "client_list (srv gw)"
  let ?c = "\<lparr>c_node = next_node gw, c_fd = ?fd, from_addr = addr, from_port = port, c_host = None,
    c_tbuf = tnX_buffer_init, start_time = k_time gw, terminated = False\<rparr>"
  have fd: "0 \<le> ?fd" using new_fd_ok [of "k_open gw"] assms(1) by (simp add: gateway_inv_def fds_ok_def)
  from terminal_connects [OF assms(5), of errno ?c] obtain host where
    h: "tn3270_client_test_top_half errno mem ?c = Some (Inr (0, ?c\<lparr>c_host := Some host\<rparr>))" "host_ready (h_stream host)"
    "represents (h_stream host) [] None" "st_streamtype (h_stream host) = TN3270_STREAM" "h_record host = None" "h_screenRec host = None"
    "st_in (h_stream host) = map RxByte (packet d) @ RxNone # later"
    "st_out (h_stream host) = st_out mem @ dialogue [hostInitStr, hostDoEOR, hostDoBinary] tss @ packet test_screen" by blast
  have fresh: "\<forall>c \<in> set ?L. c_node c \<noteq> next_node gw" using assms(1) by (auto simp: gateway_inv_def clients_ok_def)
  obtain s where s: "tn3270_server_count_and_set_fds ((srv gw)\<lparr>client_list := ?L @ [?c]\<rparr>) ?fd = Some s"
    using assms(6) fd by (auto simp: tn3270_server_count_and_set_fds_def Let_def fd_ok_def)
  note sf = set_fds_fields [OF s]
  let ?c' = "?c\<lparr>c_host := Some host\<rparr>"
  have store: "store_client (s\<lparr>client_num := client_num s + 1\<rparr>) ?c' = s\<lparr>client_num := client_num s + 1, client_list := ?L @ [?c']\<rparr>"
    using store_new [OF fresh, of ?c' ?c "s\<lparr>client_num := client_num s + 1\<rparr>"] sf by simp
  have run: "tn3270_accept_new_client rui gw = Some (Inr (0, gw\<lparr>k_accepts := as, srv := s\<lparr>client_num := client_num s + 1, client_list := ?L @ [?c']\<rparr>,
      lua := lua gw, k_open := insert ?fd (k_open gw), next_node := next_node gw + 1\<rparr>))"
    using assms(2-4) s sf h(1) store by (simp add: tn3270_accept_new_client_def Let_def top_half_def)
  show ?thesis
    using run h(2-8) sf by (intro exI [of _ "gw\<lparr>k_accepts := as, srv := s\<lparr>client_num := client_num s + 1, client_list := ?L @ [?c']\<rparr>,
      lua := lua gw, k_open := insert ?fd (k_open gw), next_node := next_node gw + 1\<rparr>"] exI [of _ ?c'] exI [of _ host]) simp
qed

lemma find_last:
  "\<forall>x \<in> set L. c_fd x \<noteq> c_fd c \<Longrightarrow> tn3270_client_find_by_fd (L @ [c]) (c_fd c) = Some c"
  by (induction L) auto

text \<open>
  C2. A session of a test server from end to end, on a library of logical units that does nothing but answer with status zero
  (\<^verbatim>\<open>rui1\<close>). A terminal that connects and answers the three requests is put into the table and is sent the requests, the
  replies and the test screen; when it then sends an answer of at least three bytes whose third byte is not zero, its session is
  closed: the list of clients, the descriptors waited for and the open descriptors are again what they were before it came. The
  counter of clients is not: it is left one higher, so a server has as many sessions in its life as its limit says.
\<close>

theorem session_end_to_end:
  assumes "gateway_inv gw" "\<not> bad_fd gw" "test (srv gw)" "3 \<le> client_sock (srv gw)" "client_num (srv gw) < limit (srv gw)"
    and "k_accepts gw = Accepted addr port errno mem # as" "terminal mem tss d later" "3 \<le> length d" "d ! 2 \<noteq> 0"
    and "3 \<le> new_fd (k_open gw)" "new_fd (k_open gw) < FD_SETSIZE" "new_fd (k_open gw) \<notin> all_fds (srv gw)"
    and "g_selects (lua gw) = (1, exc, rd) # ss" "0 \<in> rd"
  shows "\<exists>gw1 gw2 c host. server_turn rui1 (Ready {client_sock (srv gw)}) gw = Some (Inr gw1)
    \<and> client_list (srv gw1) = client_list (srv gw) @ [c] \<and> c_fd c = new_fd (k_open gw) \<and> c_host c = Some host
    \<and> st_out (h_stream host) = st_out mem @ dialogue [hostInitStr, hostDoEOR, hostDoBinary] tss @ packet test_screen
    \<and> server_turn rui1 (Ready {c_fd c}) gw1 = Some (Inr gw2) \<and> client_list (srv gw2) = client_list (srv gw)
    \<and> all_fds (srv gw2) = all_fds (srv gw) \<and> k_open gw2 = k_open gw \<and> client_num (srv gw2) = client_num (srv gw) + 1"
proof -
  let ?L = "client_list (srv gw)" and ?cs = "client_sock (srv gw)"
  have inv: "clients_ok (srv gw) (next_node gw)" "fds_ok (srv gw) (k_open gw)" using assms(1) by (simp_all add: gateway_inv_def)
  have fd: "new_fd (k_open gw) \<notin> k_open gw" using new_fd_ok [of "k_open gw"] inv(2) by (simp add: fds_ok_def)
  from accept_terminal [OF assms(1,3,5,6,7,11), of rui1] obtain gw1 c host where
    a: "tn3270_accept_new_client rui1 gw = Some (Inr (0, gw1))" "client_list (srv gw1) = ?L @ [c]" "c_fd c = new_fd (k_open gw)"
    "c_node c = next_node gw" "\<not> terminated c" "c_host c = Some host" "host_ready (h_stream host)" "represents (h_stream host) [] None"
    "st_streamtype (h_stream host) = TN3270_STREAM" "h_record host = None" "h_screenRec host = None"
    "st_in (h_stream host) = map RxByte (packet d) @ RxNone # later"
    "st_out (h_stream host) = st_out mem @ dialogue [hostInitStr, hostDoEOR, hostDoBinary] tss @ packet test_screen"
    "all_fds (srv gw1) = insert (c_fd c) (all_fds (srv gw))" "k_open gw1 = insert (c_fd c) (k_open gw)" "lua gw1 = lua gw"
    "client_sock (srv gw1) = client_sock (srv gw)" "manage_sock (srv gw1) = manage_sock (srv gw)"
    "client_num (srv gw1) = client_num (srv gw) + 1" by blast
  have sv1: "serve_fd rui1 ?cs gw = Some (Inr gw1)" using a(1) by (simp add: serve_fd_def)
  have t1: "server_turn rui1 (Ready {?cs}) gw = Some (Inr gw1)"
    using turn_one [OF assms(1,2) _ assms(4) sv1] inv(2) by (simp add: fds_ok_def)
  have inv1: "gateway_inv gw1" using serve_fd_step [OF assms(1) sv1] by blast
  have nb: "\<not> bad_fd gw1" using assms(2) a(14,15) inv(2) by (auto simp: bad_fd_def fds_ok_def)
  have nosock: "c_fd c \<noteq> ?cs" "c_fd c \<noteq> manage_sock (srv gw)" using fd a(3) inv(2) by (auto simp: fds_ok_def)
  have "\<forall>x \<in> set ?L. c_fd x \<noteq> c_fd c" using fd a(3) inv(2) by (auto simp: fds_ok_def)
  then have found: "tn3270_client_find_by_fd (client_list (srv gw1)) (c_fd c) = Some c" using find_last a(2) by simp
  have "d \<noteq> []" using assms(8) by auto
  from read_answer_ok [OF a(7-10) this a(12)] assms(8,9) a(11) obtain host' where
    r: "readMDTfields_2 host = Some (Inr (- ECONNABORTED, host'))" "reading host' d 3" "h_screenRec host' = None"
    by (auto split: if_splits)
  let ?c' = "c\<lparr>c_host := Some host'\<rparr>" let ?gw1 = "gw1\<lparr>srv := store_client (srv gw1) ?c'\<rparr>"
  have "fd_ok (c_fd ?c')" using a(3) assms(10,11) by (simp add: fd_ok_def)
  from close_ends [OF r(2,3) _ assms(14) this, of ?gw1 exc ss] a(5,16) assms(13) obtain gw2 where
    cl: "tn3270_close_session rui1 ?c' ?gw1 = Some (Inr gw2)" by auto
  have sv2: "serve_fd rui1 (c_fd c) gw1 = Some (Inr gw2)"
    using found nosock a(6,17,18) r(1) cl by (simp add: serve_fd_def tn3270_client_test_bottom_half_def Let_def)
  have t2: "server_turn rui1 (Ready {c_fd c}) gw1 = Some (Inr gw2)"
    using turn_one [OF inv1 nb _ _ sv2] a(3,14) assms(10) by simp
  have fresh: "filter (\<lambda>x. c_node x \<noteq> next_node gw) ?L = ?L" using inv(1) by (auto simp: clients_ok_def filter_id_conv)
  have "client_list (srv gw2) = ?L"
    using close_session_fields(1) [OF cl] a(2,4) fresh filter_store [of ?c' "next_node gw" ?L] by (simp add: store_client_def)
  moreover have "all_fds (srv gw2) = all_fds (srv gw)" "k_open gw2 = k_open gw"
    using close_session_fields(2,3) [OF cl] a(3,14,15) fd assms(12) by (auto simp: store_client_def)
  moreover have "client_num (srv gw2) = client_num (srv gw) + 1"
    using close_session_fields(10) [OF cl] a(19) by (simp add: store_client_def)
  ultimately show ?thesis using t1 t2 a(2,3,6,13) by blast
qed

theorem session_end_to_end_witness:
  "\<exists>mem gw1 gw2. st_in mem = answers [[TVerb WILL NEW_ENVIRON], [TVerb WILL END_OF_RECORD], [TVerb WILL TRANSMIT_BINARY]]
        @ map RxByte (packet [0x7D, 0x40, 0x40]) @ [RxNone]
    \<and> server_turn rui1 (Ready {3}) (fresh_gateway 8 [Accepted 0x0100007F 4000 0 mem] [(1, False, {0})]) = Some (Inr gw1)
    \<and> length (client_list (srv gw1)) = 1 \<and> server_turn rui1 (Ready {5}) gw1 = Some (Inr gw2) \<and> client_list (srv gw2) = []"
proof -
  let ?tss = "[[TVerb WILL NEW_ENVIRON], [TVerb WILL END_OF_RECORD], [TVerb WILL TRANSMIT_BINARY]]"
  let ?inp = "answers ?tss @ map RxByte (packet [0x7D, 0x40, 0x40]) @ RxNone # []"
  let ?mem = "fresh_stream ?inp [] []" let ?gw = "fresh_gateway 8 [Accepted 0x0100007F 4000 0 ?mem] [(1, False, {0})]"
  have tml: "terminal ?mem ?tss [0x7D, 0x40, 0x40] []"
    unfolding terminal_def by (simp add: verbs_def fresh_stream_def heap_inv_def)
  have gw: "\<not> bad_fd ?gw" "test (srv ?gw)" "3 \<le> client_sock (srv ?gw)" "client_num (srv ?gw) < limit (srv ?gw)"
    "k_accepts ?gw = Accepted 0x0100007F 4000 0 ?mem # []" "5 \<notin> all_fds (srv ?gw)" "client_sock (srv ?gw) = 3" "client_list (srv ?gw) = []"
    "g_selects (lua ?gw) = (1, False, {0}) # []"
    by (simp_all add: bad_fd_def fresh_gateway_def)
  from session_end_to_end [OF fresh_gateway_inv gw(1-5) tml _ _ _ _ _ gw(9)] fresh_new_fd gw(6-8) obtain gw1 gw2 c where
    "server_turn rui1 (Ready {3}) ?gw = Some (Inr gw1)" "client_list (srv gw1) = [c]" "server_turn rui1 (Ready {5}) gw1 = Some (Inr gw2)"
    "client_list (srv gw2) = []" by auto
  moreover have "st_in ?mem = answers ?tss @ map RxByte (packet [0x7D, 0x40, 0x40]) @ [RxNone]" by (simp add: fresh_stream_def)
  ultimately show ?thesis by (intro exI [of _ ?mem] exI [of _ gw1] exI [of _ gw2]) simp
qed

theorem idle_clients_untouched_witness:
  "\<exists>host gw'. server_turn rui1 (Ready {3}) ((fresh_gateway 1 [Accept_Error] [])\<lparr>k_open := {0, 1, 2, 3, 4, 5}, next_node := 1,
       srv := (srv (fresh_gateway 1 [Accept_Error] []))\<lparr>client_num := 1, all_fds := {3, 4, 5}, highest_fd := 5,
         client_list := [\<lparr>c_node = 0, c_fd = 5, from_addr = 1, from_port = 2, c_host = Some host, c_tbuf = tnX_buffer_init, start_time = 0, terminated = False\<rparr>]\<rparr>\<rparr>)
     = Some (Inr gw')
    \<and> \<lparr>c_node = 0, c_fd = 5, from_addr = 1, from_port = 2, c_host = Some host, c_tbuf = tnX_buffer_init, start_time = 0, terminated = False\<rparr>
        \<in> set (client_list (srv gw'))"
proof -
  obtain host where "tnX_host_new (fresh_stream [] [] []) = Some host" using page37 by (auto simp: tnX_host_new_def setXCharMap_def)
  let ?c = "\<lparr>c_node = 0, c_fd = 5, from_addr = 1, from_port = 2, c_host = Some host, c_tbuf = tnX_buffer_init, start_time = 0, terminated = False\<rparr>"
  let ?gw = "(fresh_gateway 1 [Accept_Error] [])\<lparr>k_open := {0, 1, 2, 3, 4, 5}, next_node := 1,
       srv := (srv (fresh_gateway 1 [Accept_Error] []))\<lparr>client_num := 1, all_fds := {3, 4, 5}, highest_fd := 5, client_list := [?c]\<rparr>\<rparr>"
  have inv: "gateway_inv ?gw" and nb: "\<not> bad_fd ?gw" and sock: "3 \<in> all_fds (srv ?gw)"
    by (simp_all add: gateway_inv_def clients_ok_def fds_ok_def bad_fd_def) (simp_all add: fresh_gateway_def)
  have "\<exists>gw'. serve_fd rui1 3 ?gw = Some (Inr gw')" by (simp add: serve_fd_def tn3270_accept_new_client_def) (simp add: fresh_gateway_def)
  then obtain gw' where "serve_fd rui1 3 ?gw = Some (Inr gw')" by blast
  then have t: "server_turn rui1 (Ready {3}) ?gw = Some (Inr gw')" using turn_one [OF inv nb sock] by simp
  from idle_clients_untouched [OF inv t, of ?c] t show ?thesis by (intro exI [of _ host] exI [of _ gw']) simp
qed

section \<open>Other servers\<close>

text \<open>
  A server that is not a test server ends with its first terminal: the name of the pool, which nothing in the program sets, is a
  null pointer, and \<^verbatim>\<open>send_verb\<close> takes its length as soon as a terminal has been connected.
\<close>

theorem regular_client_faults:
  assumes "terminal mem tss d later" "poolname g = None"
  shows "tn3270_client_reg_top_half rui errno mem c g = None"
proof -
  obtain host where "tn3270_client_test_top_half errno mem c = Some (Inr (0, c\<lparr>c_host := Some host\<rparr>))"
    using terminal_connects [OF assms(1)] by blast
  then have "\<exists>e c'. client_connect errno mem c = Some (Inr (e, c')) \<and> \<not> e < 0"
    by (auto simp: tn3270_client_test_top_half_def proceed_def split: option.splits sum.splits if_splits)
  then show ?thesis using assms(2) by (auto simp: tn3270_client_reg_top_half_def send_verb_def Let_def)
qed

theorem regular_client_faults_witness:
  "tn3270_client_reg_top_half rui1 0 (fresh_stream (answers [[TVerb WILL NEW_ENVIRON], [TVerb WILL END_OF_RECORD], [TVerb WILL TRANSMIT_BINARY]]
      @ map RxByte (packet [0x7D]) @ RxNone # []) [] [])
    \<lparr>c_node = 0, c_fd = 5, from_addr = 1, from_port = 2, c_host = None, c_tbuf = tnX_buffer_init, start_time = 0, terminated = False\<rparr> idle_session = None"
proof -
  let ?tss = "[[TVerb WILL NEW_ENVIRON], [TVerb WILL END_OF_RECORD], [TVerb WILL TRANSMIT_BINARY]]"
  have "terminal (fresh_stream (answers ?tss @ map RxByte (packet [0x7D]) @ RxNone # []) [] []) ?tss [0x7D] []"
    unfolding terminal_def by (simp add: verbs_def fresh_stream_def heap_inv_def)
  from regular_client_faults [OF this, of idle_session] show ?thesis by (simp add: idle_session_def)
qed

section \<open>The table of users\<close>

lemma length_octet: "length (decimal (unat (b :: byte))) \<le> 3"
  using unsigned_less [of b, where ?'a = nat] by (intro length_decimal) auto

lemma length_user_line:
  assumes "length (ctime (start_time c)) = 25"
  shows "length (user_line ctime c) \<le> 50"
proof -
  have "length (decimal (unat (from_port c))) \<le> 5" using unsigned_less [of "from_port c", where ?'a = nat] by (intro length_decimal) auto
  moreover have "length (inet_ntoa (from_addr c)) \<le> 15" unfolding inet_ntoa_def Let_def
    using length_octet [of "ucast (drop_bit (8 * 0) (from_addr c))"] length_octet [of "ucast (drop_bit (8 * 1) (from_addr c))"]
      length_octet [of "ucast (drop_bit (8 * 2) (from_addr c))"] length_octet [of "ucast (drop_bit (8 * 3) (from_addr c))"] by simp
  ultimately show ?thesis using assms by (simp add: user_line_def pad_right_def)
qed

lemma user_lines_ok:
  assumes "\<And>t. length (ctime t) = 25"
  shows "1000 \<le> blen \<Longrightarrow> length buf < blen \<Longrightarrow> user_lines ctime blen buf cs = Some (buf @ concat (map (user_line ctime) cs))"
proof (induction cs arbitrary: blen buf)
  case (Cons c cs)
  note len = length_user_line [of ctime c, OF assms]
  then show ?case using Cons by (auto simp: Let_def sprintf_to_def)
qed simp

text \<open>
  The table of users is printed whole whatever the number of clients: the name of a server has at most 39 characters, the numbers
  are those of an \<^verbatim>\<open>int\<close>, and \<^verbatim>\<open>ctime\<close> returns 25 characters; then no piece is written past the end of the buffer.
\<close>

theorem user_table_fits:
  assumes "length (use_name server) < 40" "\<bar>limit server\<bar> \<le> 2 ^ 31" "\<bar>client_num server\<bar> \<le> 2 ^ 31" "\<And>t. length (ctime t) = 25"
  shows "\<exists>head. tn3270_server_user_table_check ctime server = Some (head @ concat (map (user_line ctime) (client_list server)))"
proof -
  have dec: "length (decimal_int n) \<le> 11" if "\<bar>n\<bar> \<le> 2 ^ 31" for n
  proof -
    have "length (decimal (nat \<bar>n\<bar>)) \<le> 10" using that by (intro length_decimal) auto
    then show ?thesis by (auto simp: decimal_int_def abs_if split: if_splits)
  qed
  have "length (user_head server) \<le> 100"
    using assms(1) dec [OF assms(2)] dec [OF assms(3)] by (simp add: user_head_def bytes_of_def)
  then show ?thesis using user_lines_ok [OF assms(4)]
    by (auto simp: tn3270_server_user_table_check_def sprintf_to_def bytes_of_def pad_right_def)
qed

theorem user_table_fits_witness:
  "\<exists>head. tn3270_server_user_table_check (\<lambda>t. replicate 25 0x2D) (srv (fresh_gateway 8 [] [])) = Some head"
  using user_table_fits [of "srv (fresh_gateway 8 [] [])" "\<lambda>t. replicate 25 0x2D"] by (simp add: fresh_gateway_def)

end
