(* ===== verification/Sna_List.thy ===== *)
theory Sna_List
  imports Sna_Prelude
begin

text \<open>
  The doubly linked lists of the daemons (\<^verbatim>\<open>tn3270d/tn3270_list.c\<close>, of which \<^verbatim>\<open>snaconfig/sna_list.c\<close> and
  \<^verbatim>\<open>snatchd/snatch_list.c\<close> are copies, and the macros of the header): a ring of nodes with a head that is not an
  element. A list is shown to behave as a sequence, which is how the daemons' lists are modelled.
\<close>

section \<open>Nodes\<close>

type_synonym node = nat

record list_head =
  lh_next :: node
  lh_prev :: node

type_synonym node_heap = "node \<rightharpoonup> list_head"

definition node_at :: "node_heap \<Rightarrow> node \<Rightarrow> list_head option" where
  "node_at h a = h a"

definition set_next :: "node_heap \<Rightarrow> node \<Rightarrow> node \<Rightarrow> node_heap option" where
  "set_next h a b = do { n \<leftarrow> node_at h a; Some (h(a \<mapsto> n\<lparr>lh_next := b\<rparr>)) }"

definition set_prev :: "node_heap \<Rightarrow> node \<Rightarrow> node \<Rightarrow> node_heap option" where
  "set_prev h a b = do { n \<leftarrow> node_at h a; Some (h(a \<mapsto> n\<lparr>lh_prev := b\<rparr>)) }"

definition list_init_head :: "node_heap \<Rightarrow> node \<Rightarrow> node_heap option" where
  "list_init_head h p = do { h \<leftarrow> set_next h p p; set_prev h p p }"

definition list_add :: "node_heap \<Rightarrow> node \<Rightarrow> node \<Rightarrow> node \<Rightarrow> node_heap option" where
  "list_add h new prev next = do {
     h \<leftarrow> set_prev h next new;
     h \<leftarrow> set_next h new next;
     h \<leftarrow> set_prev h new prev;
     set_next h prev new
   }"

definition list_add_tail :: "node_heap \<Rightarrow> node \<Rightarrow> node \<Rightarrow> node_heap option" where
  "list_add_tail h new head = do {
     n \<leftarrow> node_at h head;
     list_add h new (lh_prev n) head
   }"

definition list_del_between :: "node_heap \<Rightarrow> node \<Rightarrow> node \<Rightarrow> node_heap option" where
  "list_del_between h prev next = do { h \<leftarrow> set_prev h next prev; set_next h prev next }"

definition list_del :: "node_heap \<Rightarrow> node \<Rightarrow> node_heap option" where
  "list_del h entry = do {
     n \<leftarrow> node_at h entry;
     list_del_between h (lh_prev n) (lh_next n)
   }"

definition list_empty :: "node_heap \<Rightarrow> node \<Rightarrow> bool option" where
  "list_empty h head = do { n \<leftarrow> node_at h head; Some (lh_next n = head) }"

text \<open>The nodes \<^verbatim>\<open>list_for_each\<close> visits from \<open>pos\<close> on, and the first that \<^verbatim>\<open>list_find\<close> accepts.\<close>

partial_function (option) list_walk :: "node_heap \<Rightarrow> node \<Rightarrow> node \<Rightarrow> node list option" where
  "list_walk h head pos =
     (case h pos of
        None \<Rightarrow> None
      | Some n \<Rightarrow> if pos = head then Some []
                  else Option.bind (list_walk h head (lh_next n)) (\<lambda>ps. Some (pos # ps)))"

definition list_for_each :: "node_heap \<Rightarrow> node \<Rightarrow> node list option" where
  "list_for_each h head = do { n \<leftarrow> node_at h head; list_walk h head (lh_next n) }"

partial_function (option) list_find_from :: "(node \<Rightarrow> bool) \<Rightarrow> node_heap \<Rightarrow> node \<Rightarrow> node \<Rightarrow> node option option" where
  "list_find_from cmpfn h head i =
     (case h i of
        None \<Rightarrow> None
      | Some n \<Rightarrow> if lh_next n = head then Some None
                  else if cmpfn (lh_next n) then Some (Some (lh_next n))
                  else list_find_from cmpfn h head (lh_next n))"

definition list_find :: "(node \<Rightarrow> bool) \<Rightarrow> node_heap \<Rightarrow> node \<Rightarrow> node option option" where
  "list_find cmpfn h head = list_find_from cmpfn h head head"

section \<open>Chains\<close>

definition nx :: "node_heap \<Rightarrow> node \<Rightarrow> node" where "nx h a = lh_next (the (h a))"
definition pv :: "node_heap \<Rightarrow> node \<Rightarrow> node" where "pv h a = lh_prev (the (h a))"

fun linked :: "node_heap \<Rightarrow> node list \<Rightarrow> bool" where
  "linked h (a # b # r) \<longleftrightarrow> nx h a = b \<and> pv h b = a \<and> linked h (b # r)"
| "linked h _ \<longleftrightarrow> True"

text \<open>The list with head \<open>head\<close> has the elements \<open>xs\<close>.\<close>

definition chain :: "node_heap \<Rightarrow> node \<Rightarrow> node list \<Rightarrow> bool" where
  "chain h head xs \<longleftrightarrow> linked h (head # xs @ [head]) \<and> distinct (head # xs) \<and> set (head # xs) \<subseteq> dom h"

lemma linked_append: "linked h (xs @ y # zs) \<longleftrightarrow> linked h (xs @ [y]) \<and> linked h (y # zs)"
  by (induction h xs rule: linked.induct) auto

lemma linked_snoc:
  "xs \<noteq> [] \<Longrightarrow> linked h (xs @ b # zs) \<longleftrightarrow> linked h xs \<and> nx h (last xs) = b \<and> pv h b = last xs \<and> linked h (b # zs)"
proof (cases xs rule: rev_cases)
  case (snoc ys y)
  then show ?thesis using linked_append [of h ys y "b # zs"] by simp
qed simp

lemma linked_cong:
  "linked h xs \<Longrightarrow> (\<And>a. a \<in> set (butlast xs) \<Longrightarrow> nx h' a = nx h a) \<Longrightarrow> (\<And>a. a \<in> set (tl xs) \<Longrightarrow> pv h' a = pv h a) \<Longrightarrow> linked h' xs"
  by (induction h xs rule: linked.induct) (auto split: if_splits)

lemma set_next_ok:
  assumes "a \<in> dom h"
  shows "\<exists>h'. set_next h a b = Some h' \<and> dom h' = dom h \<and> nx h' = (nx h)(a := b) \<and> pv h' = pv h \<and> (\<forall>c. c \<noteq> a \<longrightarrow> h' c = h c)"
  using assms by (intro exI [of _ "h(a \<mapsto> (the (h a))\<lparr>lh_next := b\<rparr>)"]) (auto simp: set_next_def node_at_def nx_def pv_def fun_eq_iff split: if_splits)

lemma set_prev_ok:
  assumes "a \<in> dom h"
  shows "\<exists>h'. set_prev h a b = Some h' \<and> dom h' = dom h \<and> nx h' = nx h \<and> pv h' = (pv h)(a := b) \<and> (\<forall>c. c \<noteq> a \<longrightarrow> h' c = h c)"
  using assms by (intro exI [of _ "h(a \<mapsto> (the (h a))\<lparr>lh_prev := b\<rparr>)"]) (auto simp: set_prev_def node_at_def nx_def pv_def fun_eq_iff split: if_splits)

lemma list_add_ok:
  assumes "{new, prev, next} \<subseteq> dom h"
  shows "\<exists>h'. list_add h new prev next = Some h' \<and> dom h' = dom h
    \<and> nx h' = (nx h)(new := next, prev := new) \<and> pv h' = (pv h)(next := new, new := prev)
    \<and> (\<forall>c. c \<notin> {new, prev, next} \<longrightarrow> h' c = h c)"
proof -
  obtain h1 where 1: "set_prev h next new = Some h1" "dom h1 = dom h" "nx h1 = nx h" "pv h1 = (pv h)(next := new)"
    "\<forall>c. c \<noteq> next \<longrightarrow> h1 c = h c" using set_prev_ok [of "next" h new] assms by auto
  obtain h2 where 2: "set_next h1 new next = Some h2" "dom h2 = dom h" "nx h2 = (nx h)(new := next)" "pv h2 = pv h1"
    "\<forall>c. c \<noteq> new \<longrightarrow> h2 c = h1 c" using set_next_ok [of new h1 "next"] assms 1 by auto
  obtain h3 where 3: "set_prev h2 new prev = Some h3" "dom h3 = dom h" "nx h3 = nx h2" "pv h3 = (pv h2)(new := prev)"
    "\<forall>c. c \<noteq> new \<longrightarrow> h3 c = h2 c" using set_prev_ok [of new h2 prev] assms 2 by auto
  obtain h4 where "set_next h3 prev new = Some h4" "dom h4 = dom h" "nx h4 = (nx h3)(prev := new)" "pv h4 = pv h3"
    "\<forall>c. c \<noteq> prev \<longrightarrow> h4 c = h3 c" using set_next_ok [of prev h3 new] assms 3 by auto
  with 1 2 3 show ?thesis by (simp add: list_add_def)
qed

lemma list_del_between_ok:
  assumes "{prev, next} \<subseteq> dom h"
  shows "\<exists>h'. list_del_between h prev next = Some h' \<and> dom h' = dom h \<and> nx h' = (nx h)(prev := next) \<and> pv h' = (pv h)(next := prev)
    \<and> (\<forall>c. c \<notin> {prev, next} \<longrightarrow> h' c = h c)"
proof -
  obtain h1 where 1: "set_prev h next prev = Some h1" "dom h1 = dom h" "nx h1 = nx h" "pv h1 = (pv h)(next := prev)"
    "\<forall>c. c \<noteq> next \<longrightarrow> h1 c = h c" using set_prev_ok [of "next" h prev] assms by auto
  obtain h2 where "set_next h1 prev next = Some h2" "dom h2 = dom h" "nx h2 = (nx h1)(prev := next)" "pv h2 = pv h1"
    "\<forall>c. c \<noteq> prev \<longrightarrow> h2 c = h1 c" using set_next_ok [of prev h1 "next"] assms 1 by auto
  with 1 show ?thesis by (simp add: list_del_between_def)
qed

lemma chain_ends:
  assumes "chain h head xs"
  shows "pv h head = last (head # xs)" "nx h head = hd (xs @ [head])" "last (head # xs) \<in> dom h" "linked h (head # xs)"
proof -
  have "linked h ((head # xs) @ [head])" using assms by (simp add: chain_def)
  then show "pv h head = last (head # xs)" "linked h (head # xs)" using linked_snoc [of "head # xs"] by auto
  show "nx h head = hd (xs @ [head])" using assms by (cases xs) (auto simp: chain_def)
  show "last (head # xs) \<in> dom h" using assms last_in_set [of "head # xs"] by (auto simp: chain_def)
qed

lemma list_add_tail_chain:
  assumes "chain h head xs" "new \<in> dom h" "new \<notin> set (head # xs)"
  shows "\<exists>h'. list_add_tail h new head = Some h' \<and> chain h' head (xs @ [new]) \<and> dom h' = dom h
    \<and> (\<forall>c. c \<notin> set (head # new # xs) \<longrightarrow> h' c = h c)"
proof -
  define p where "p = last (head # xs)"
  note ends = chain_ends [OF assms(1), folded p_def]
  have d: "distinct (head # xs)" and sub: "set (head # xs) \<subseteq> dom h" using assms(1) by (simp_all add: chain_def)
  have in_dom: "{new, p, head} \<subseteq> dom h" using assms(2) sub ends(3) by auto
  have p: "p \<in> set (head # xs)" "p \<notin> set (butlast (head # xs))"
    using last_notin_butlast [OF d] last_in_set [of "head # xs"] unfolding p_def by blast+
  from list_add_ok [OF in_dom] obtain h' where
    h': "list_add h new p head = Some h'" "dom h' = dom h" "nx h' = (nx h)(new := head, p := new)"
    "pv h' = (pv h)(head := new, new := p)" "\<forall>c. c \<notin> {new, p, head} \<longrightarrow> h' c = h c" by blast
  have run: "list_add_tail h new head = Some h'"
    using ends(1) in_dom h'(1) by (auto simp: list_add_tail_def node_at_def pv_def)
  have "linked h' (head # xs)"
    by (rule linked_cong [OF ends(4)]) (use h'(3,4) assms(3) d p(2) in_set_butlastD in fastforce)+
  then have "linked h' ((head # xs) @ [new, head])"
    using h'(3,4) assms(3) p by (subst linked_snoc) (auto simp: p_def [symmetric] simp del: last.simps)
  then have "chain h' head (xs @ [new])" using assms h'(2) d sub by (auto simp: chain_def)
  with run h'(2,5) p(1) show ?thesis by (intro exI [of _ h']) auto
qed

lemma list_del_chain:
  assumes "chain h head (xs @ e # ys)"
  shows "\<exists>h'. list_del h e = Some h' \<and> chain h' head (xs @ ys) \<and> dom h' = dom h \<and> (\<forall>c. c \<notin> set (head # xs @ ys) \<longrightarrow> h' c = h c)"
proof -
  define p where "p = last (head # xs)"
  obtain q qs where q: "ys @ [head] = q # qs" by (cases ys) auto
  have d: "distinct (head # xs @ e # ys)" and sub: "set (head # xs @ e # ys) \<subseteq> dom h" using assms by (auto simp: chain_def)
  have "linked h ((head # xs) @ e # q # qs)" using assms q by (simp add: chain_def)
  then have P: "linked h (head # xs)" "pv h e = p" and Q: "linked h (q # qs)" "nx h e = q"
    using linked_snoc [of "head # xs" h e "q # qs"] by (auto simp: p_def)
  have p: "p \<in> set (head # xs)" "p \<notin> set (butlast (head # xs))"
    using last_notin_butlast [of "head # xs"] last_in_set [of "head # xs"] d unfolding p_def by auto
  have qin: "q \<in> set (ys @ [head])" "q \<notin> set qs \<or> ys = []" using q d by (cases ys; auto)+
  have tail: "set qs \<subseteq> set (ys @ [head])" "set (butlast (q # qs)) = set ys" "ys = [] \<longrightarrow> qs = []"
    using q set_subset_Cons [of qs q] butlast_snoc [of ys head] by (auto simp del: butlast.simps)
  have in_dom: "{p, q} \<subseteq> dom h" "e \<in> dom h" using sub p(1) qin(1) by auto
  from list_del_between_ok [OF in_dom(1)] obtain h' where
    h': "list_del_between h p q = Some h'" "dom h' = dom h" "nx h' = (nx h)(p := q)" "pv h' = (pv h)(q := p)"
    "\<forall>c. c \<notin> {p, q} \<longrightarrow> h' c = h c" by blast
  have run: "list_del h e = Some h'" using h'(1) in_dom(2) P(2) Q(2) by (auto simp: list_del_def node_at_def nx_def pv_def)
  have "linked h' (head # xs)"
    by (rule linked_cong [OF P(1)]) (use h'(3,4) d p(2) qin(1) in auto)
  moreover have "linked h' (q # qs)"
    by (rule linked_cong [OF Q(1)]) (use h'(3,4) d p(1) qin(2) tail in \<open>auto simp del: butlast.simps\<close>)
  ultimately have "linked h' ((head # xs) @ q # qs)"
    using h'(3,4) by (subst linked_snoc) (auto simp: p_def [symmetric] simp del: last.simps)
  then have "chain h' head (xs @ ys)" using d sub h'(2) q by (auto simp: chain_def)
  with run h'(2,5) p(1) qin(1) show ?thesis by (intro exI [of _ h']) auto
qed

lemma list_walk_linked:
  "linked h (xs @ [head]) \<Longrightarrow> head \<notin> set xs \<Longrightarrow> set (head # xs) \<subseteq> dom h \<Longrightarrow> list_walk h head (hd (xs @ [head])) = Some xs"
proof (induction xs)
  case Nil
  then show ?case by (subst list_walk.simps) auto
next
  case (Cons x xs)
  then have "nx h x = hd (xs @ [head])" "list_walk h head (hd (xs @ [head])) = Some xs" by (cases xs; simp)+
  with Cons.prems show ?case by (subst list_walk.simps) (auto simp: nx_def)
qed

lemma list_for_each_chain: "chain h head xs \<Longrightarrow> list_for_each h head = Some xs"
  using chain_ends(2) [of h head xs] list_walk_linked [of h xs head]
  by (cases xs) (auto simp: list_for_each_def node_at_def chain_def nx_def)

lemma list_find_linked:
  "linked h (i # xs @ [head]) \<Longrightarrow> head \<notin> set xs \<Longrightarrow> set (i # xs) \<subseteq> dom h \<Longrightarrow>
   list_find_from p h head i = Some (List.find p xs)"
proof (induction xs arbitrary: i)
  case Nil
  then show ?case by (subst list_find_from.simps) (auto simp: nx_def)
next
  case (Cons x xs)
  from Cons.prems have "linked h (x # xs @ [head])" "head \<notin> set xs" "set (x # xs) \<subseteq> dom h" by auto
  from Cons.IH [OF this] Cons.prems show ?case by (subst list_find_from.simps) (auto simp: nx_def)
qed

lemma list_find_chain: "chain h head xs \<Longrightarrow> list_find p h head = Some (List.find p xs)"
  using list_find_linked [of h head xs head p] by (auto simp: list_find_def chain_def)

lemma list_empty_chain: "chain h head xs \<Longrightarrow> list_empty h head = Some (xs = [])"
  using chain_ends(2) [of h head xs] by (cases xs) (auto simp: list_empty_def node_at_def nx_def chain_def)

lemma list_init_chain: "head \<in> dom h \<Longrightarrow> \<exists>h'. list_init_head h head = Some h' \<and> chain h' head [] \<and> dom h' = dom h"
  by (auto simp: list_init_head_def set_next_def set_prev_def node_at_def chain_def nx_def pv_def)

section \<open>Lists as sequences\<close>

text \<open>Insertions (\<^term>\<open>Inl a\<close>) and deletions (\<^term>\<open>Inr a\<close>) on a sequence, and which of them are allowed; \<open>L\<close> are the nodes with storage.\<close>

fun spec_ops :: "'a list \<Rightarrow> ('a + 'a) list \<Rightarrow> 'a list" where
  "spec_ops xs [] = xs"
| "spec_ops xs (Inl a # ops) = spec_ops (xs @ [a]) ops"
| "spec_ops xs (Inr a # ops) = spec_ops (remove1 a xs) ops"

fun legal_ops :: "'a set \<Rightarrow> 'a list \<Rightarrow> ('a + 'a) list \<Rightarrow> bool" where
  "legal_ops L xs [] \<longleftrightarrow> True"
| "legal_ops L xs (Inl a # ops) \<longleftrightarrow> a \<in> L \<and> a \<notin> set xs \<and> legal_ops L (xs @ [a]) ops"
| "legal_ops L xs (Inr a # ops) \<longleftrightarrow> a \<in> set xs \<and> legal_ops L (remove1 a xs) ops"

text \<open>
  What the daemons rely on: an element goes in at the end, any element can be taken out, and a walk visits what is in.
  \<open>live s\<close> are the nodes that have storage.
\<close>

locale node_list =
  fixes add :: "'s \<Rightarrow> 'a \<Rightarrow> 's option"
    and del :: "'s \<Rightarrow> 'a \<Rightarrow> 's option"
    and visit :: "'s \<Rightarrow> 'a list option"
    and holds :: "'s \<Rightarrow> 'a list \<Rightarrow> bool"
    and live :: "'s \<Rightarrow> 'a set"
  assumes add_ok: "holds s xs \<Longrightarrow> a \<in> live s \<Longrightarrow> a \<notin> set xs \<Longrightarrow> \<exists>s'. add s a = Some s' \<and> holds s' (xs @ [a]) \<and> live s' = live s"
    and del_ok: "holds s xs \<Longrightarrow> a \<in> set xs \<Longrightarrow> \<exists>s'. del s a = Some s' \<and> holds s' (remove1 a xs) \<and> live s' = live s"
    and visit_ok: "holds s xs \<Longrightarrow> visit s = Some xs"
    and holds_distinct: "holds s xs \<Longrightarrow> distinct xs \<and> set xs \<subseteq> live s"
begin

fun apply_ops :: "'s \<Rightarrow> ('a + 'a) list \<Rightarrow> 's option" where
  "apply_ops s [] = Some s"
| "apply_ops s (Inl a # ops) = Option.bind (add s a) (\<lambda>s. apply_ops s ops)"
| "apply_ops s (Inr a # ops) = Option.bind (del s a) (\<lambda>s. apply_ops s ops)"

lemma ops_ok:
  "holds s xs \<Longrightarrow> legal_ops (live s) xs ops \<Longrightarrow>
   \<exists>s'. apply_ops s ops = Some s' \<and> holds s' (spec_ops xs ops) \<and> visit s' = Some (spec_ops xs ops)"
proof (induction ops arbitrary: s xs)
  case Nil
  then show ?case using visit_ok by simp
next
  case (Cons op ops)
  show ?case
  proof (cases op)
    case (Inl a)
    with Cons.prems add_ok [of s xs a] obtain s' where "add s a = Some s'" "holds s' (xs @ [a])" "live s' = live s" by auto
    with Cons.IH [of s' "xs @ [a]"] Cons.prems Inl show ?thesis by auto
  next
    case (Inr a)
    with Cons.prems del_ok [of s xs a] obtain s' where "del s a = Some s'" "holds s' (remove1 a xs)" "live s' = live s" by auto
    with Cons.IH [of s' "remove1 a xs"] Cons.prems Inr show ?thesis by auto
  qed
qed

end

interpretation heads: node_list "\<lambda>(h, head) a. map_option (\<lambda>h. (h, head)) (list_add_tail h a head)"
  "\<lambda>(h, head) a. map_option (\<lambda>h. (h, head)) (list_del h a)" "\<lambda>(h, head). list_for_each h head"
  "\<lambda>(h, head) xs. chain h head xs" "\<lambda>(h, head). dom h - {head}"
proof (unfold_locales, goal_cases)
  case (1 s xs a)
  then show ?case using list_add_tail_chain [of "fst s" "snd s" xs a] by (cases s) auto
next
  case (2 s xs a)
  obtain h head where s: "s = (h, head)" by (cases s)
  obtain us vs where xs: "xs = us @ a # vs" using 2(2) by (meson split_list)
  have "distinct xs" using 2(1) s by (simp add: chain_def)
  then have "remove1 a xs = us @ vs" using xs by (simp add: remove1_append)
  with list_del_chain [of h head us a vs] 2(1) s xs show ?case by auto
next
  case (3 s xs)
  then show ?case using list_for_each_chain by (cases s) auto
next
  case (4 s xs)
  then show ?case by (cases s) (auto simp: chain_def)
qed

text \<open>The same operations on a list in memory.\<close>

fun list_ops :: "node_heap \<Rightarrow> node \<Rightarrow> (node + node) list \<Rightarrow> node_heap option" where
  "list_ops h head [] = Some h"
| "list_ops h head (Inl a # ops) = do { h \<leftarrow> list_add_tail h a head; list_ops h head ops }"
| "list_ops h head (Inr a # ops) = do { h \<leftarrow> list_del h a; list_ops h head ops }"

lemma list_ops_apply: "heads.apply_ops (h, head) ops = map_option (\<lambda>h. (h, head)) (list_ops h head ops)"
  by (induction h head ops rule: list_ops.induct) (auto split: bind_splits)

text \<open>
  C36. The linked lists of the daemons are sequences: after the head has been initialised and any history of insertions of
  fresh nodes and deletions of nodes that are in, the list is a ring again, a walk of it ends and visits exactly
  the nodes that remain, in the order they were put in, and a search finds the first that matches.
\<close>

theorem list_history_is_sequence:
  assumes "head \<in> dom h" "legal_ops (dom h - {head}) [] ops"
  shows "\<exists>h0 h1. list_init_head h head = Some h0 \<and> list_ops h0 head ops = Some h1
    \<and> list_for_each h1 head = Some (spec_ops [] ops)
    \<and> list_empty h1 head = Some (spec_ops [] ops = []) \<and> list_find p h1 head = Some (List.find p (spec_ops [] ops))"
proof -
  from list_init_chain [OF assms(1)] obtain h0 where h0: "list_init_head h head = Some h0" "chain h0 head []" "dom h0 = dom h" by blast
  with heads.ops_ok [of "(h0, head)" "[]" ops] assms(2) obtain h1 where
    "list_ops h0 head ops = Some h1" "chain h1 head (spec_ops [] ops)" by (auto simp: list_ops_apply)
  with h0(1) list_for_each_chain list_empty_chain list_find_chain show ?thesis by metis
qed

theorem list_history_is_sequence_witness:
  "\<exists>h0 h1. list_init_head (\<lambda>a. if a < 4 then Some \<lparr>lh_next = 9, lh_prev = 9\<rparr> else None) 0 = Some h0
    \<and> list_ops h0 0 [Inl 1, Inl 2, Inr 1, Inl 3] = Some h1 \<and> list_for_each h1 0 = Some [2, 3]"
proof -
  let ?h = "\<lambda>a :: nat. if a < 4 then Some \<lparr>lh_next = 9, lh_prev = 9\<rparr> else None"
  have "0 \<in> dom ?h" "legal_ops (dom ?h - {0}) [] [Inl 1, Inl 2, Inr 1, Inl 3]" by (auto simp: dom_def)
  from list_history_is_sequence [OF this, of "\<lambda>a. True"] show ?thesis by auto
qed

end
