(* ===== verification/Asuite_Files.thy ===== *)
theory Asuite_Files
  imports Sna_Prelude "HOL-Library.Multiset"
begin

text \<open>
  File names in the APPC suite: the wildcard matcher (\<^verbatim>\<open>libasuite/wildcard.c\<close>), the directory
  listing built on it (\<^verbatim>\<open>get_local_file_list\<close> of \<^verbatim>\<open>libasuite/asuitecommon.c\<close>), and the mode
  string of a listing (\<^verbatim>\<open>libasuite/filemode.c\<close>).
\<close>

section \<open>The wildcard matcher\<close>

text \<open>
  A pointer into the subject: the rest of the string, or \<^term>\<open>None\<close> once it has moved behind the
  terminating NUL, where reading is a fault.
\<close>

type_synonym cursor = "string option"

definition advance :: "cursor \<Rightarrow> cursor" where
  "advance str = (case str of Some (c # s) \<Rightarrow> Some s | _ \<Rightarrow> None)"

definition special :: "char \<Rightarrow> bool" where
  "special c \<longleftrightarrow> c = CHR ''?'' \<or> c = CHR 0x5C \<or> c = CHR ''*''"

text \<open>
  \<open>wc_loop\<close> is the loop over the pattern, \<open>star_loop\<close> the loop of the case \<^verbatim>\<open>'*'\<close> over the subject
  with its recursive call. A backslash (0x5C) at the end of the pattern makes the code read behind
  the pattern.
\<close>

function (sequential) wc_loop :: "string \<Rightarrow> cursor \<Rightarrow> bool option"
  and star_loop :: "string \<Rightarrow> string \<Rightarrow> bool option" where
  "wc_loop [] str = do { s \<leftarrow> str; Some (s = []) }"
| "wc_loop (ch # pattern) str =
     (if ch = CHR ''?'' then wc_loop pattern (advance str)
      else if ch = CHR ''*'' then
        (if pattern = [] then Some True else do { s \<leftarrow> str; star_loop pattern s })
      else if ch = CHR 0x5C then do {
        s \<leftarrow> str;
        (case pattern of
           [] \<Rightarrow> if s = [] then None else Some False
         | c # p \<Rightarrow> if s = [] \<or> hd s \<noteq> c then Some False else wc_loop p (advance str))
      } else do {
        s \<leftarrow> str;
        if s = [] \<or> hd s \<noteq> ch then Some False else wc_loop pattern (advance str)
      })"
| "star_loop pattern s =
     (if s = [] then Some False
      else
        let s = (if pattern \<noteq> [] \<and> \<not> special (hd pattern) then dropWhile (\<lambda>c. c \<noteq> hd pattern) s else s)
        in if s = [] then Some False
           else do {
             b \<leftarrow> wc_loop pattern (Some s);
             if b then Some True else star_loop pattern (tl s)
           })"
  by pat_completeness auto

termination
proof (relation "measures [\<lambda>x. case x of Inl (p, s) \<Rightarrow> 2 * length p | Inr (p, s) \<Rightarrow> 2 * length p + 1,
                           \<lambda>x. case x of Inl (p, s) \<Rightarrow> 0 | Inr (p, s) \<Rightarrow> length s]", goal_cases)
  case (7 pattern s x)
  then have "length (dropWhile (\<lambda>c. c \<noteq> hd pattern) s) \<le> length s" by (simp add: length_dropWhile_le)
  with 7 show ?case by (auto simp: Suc_le_eq neq_Nil_conv split: if_splits)
qed auto

definition wc_match :: "string \<Rightarrow> string \<Rightarrow> bool option" where
  "wc_match str pattern = wc_loop pattern (Some str)"

declare wc_loop.simps [simp del] star_loop.simps [simp del]

section \<open>What a pattern means\<close>

text \<open>
  The usual reading: \<^verbatim>\<open>?\<close> stands for one character, \<^verbatim>\<open>*\<close> for any string, a backslash makes the next
  character stand for itself.
\<close>

fun glob :: "string \<Rightarrow> string \<Rightarrow> bool" where
  "glob [] s = (s = [])"
| "glob (ch # p) s =
     (if ch = CHR ''*'' then glob p s \<or> (case s of [] \<Rightarrow> False | c # r \<Rightarrow> glob (ch # p) r)
      else if ch = CHR ''?'' then (case s of [] \<Rightarrow> False | c # r \<Rightarrow> glob p r)
      else if ch = CHR 0x5C then
        (case p of [] \<Rightarrow> False | e # q \<Rightarrow> (case s of [] \<Rightarrow> False | c # r \<Rightarrow> c = e \<and> glob q r))
      else (case s of [] \<Rightarrow> False | c # r \<Rightarrow> c = ch \<and> glob p r))"

text \<open>
  The patterns on which the matcher is compared: no \<^verbatim>\<open>?\<close>, no two stars in a row, no backslash at the
  end.
\<close>

fun plain :: "string \<Rightarrow> bool" where
  "plain [] = True"
| "plain (ch # p) =
     (if ch = CHR ''?'' then False
      else if ch = CHR ''*'' then plain p \<and> \<not> (p \<noteq> [] \<and> hd p = CHR ''*'')
      else if ch = CHR 0x5C then (case p of [] \<Rightarrow> False | e # q \<Rightarrow> plain q)
      else plain p)"

lemma glob_star_Cons: "glob (CHR ''*'' # p) (c # s) \<longleftrightarrow> glob p (c # s) \<or> glob (CHR ''*'' # p) s"
  by simp

lemma glob_star_suffix: "glob (CHR ''*'' # p) s \<longleftrightarrow> (\<exists>t u. s = t @ u \<and> glob p u)"
proof (induction s)
  case Nil
  then show ?case by simp
next
  case (Cons c s)
  have "(\<exists>t u. c # s = t @ u \<and> glob p u) \<longleftrightarrow> glob p (c # s) \<or> (\<exists>t u. s = t @ u \<and> glob p u)"
    by (auto simp: Cons_eq_append_conv)
  with Cons show ?case unfolding glob_star_Cons by blast
qed

lemma glob_star_all: "glob ''*'' s"
  using glob_star_suffix [of "[]" s] by simp

text \<open>A pattern that does not start with a star needs a character, and its own if it is a literal.\<close>

lemma glob_nonempty: "p \<noteq> [] \<Longrightarrow> hd p \<noteq> CHR ''*'' \<Longrightarrow> \<not> glob p []"
  by (cases p) (auto split: list.splits)

lemma glob_first: "p \<noteq> [] \<Longrightarrow> \<not> special (hd p) \<Longrightarrow> glob p s \<Longrightarrow> s \<noteq> [] \<and> hd s = hd p"
  by (cases p) (auto simp: special_def split: list.splits)

lemma glob_star_skip:
  assumes "p \<noteq> []" "\<not> special (hd p)"
  shows "glob (CHR ''*'' # p) s = glob (CHR ''*'' # p) (dropWhile (\<lambda>c. c \<noteq> hd p) s)"
proof (induction s)
  case Nil
  then show ?case by simp
next
  case (Cons c s)
  show ?case
  proof (cases "c = hd p")
    case True
    then show ?thesis by simp
  next
    case False
    then have "\<not> glob p (c # s)" using glob_first [OF assms, of "c # s"] by auto
    with False Cons show ?thesis by simp
  qed
qed

lemma glob_star_step:
  "p \<noteq> [] \<Longrightarrow> hd p \<noteq> CHR ''*'' \<Longrightarrow> s \<noteq> [] \<Longrightarrow>
   glob (CHR ''*'' # p) s \<longleftrightarrow> glob p s \<or> glob (CHR ''*'' # p) (tl s)"
  by (cases s) auto

lemma matcher_glob:
  "plain p \<Longrightarrow> str = Some s \<Longrightarrow> wc_loop p str = Some (glob p s)"
  "plain q \<Longrightarrow> q \<noteq> [] \<Longrightarrow> hd q \<noteq> CHR ''*'' \<Longrightarrow> star_loop q t = Some (glob (CHR ''*'' # q) t)"
proof (induction p str and q t arbitrary: s rule: wc_loop_star_loop.induct)
  case (1 str)
  then show ?case by (simp add: wc_loop.simps)
next
  case (2 ch p str)
  then consider (star) "ch = CHR ''*''" | (escape) e r where "ch = CHR 0x5C" "p = e # r"
    | (literal) "ch \<noteq> CHR ''*''" "ch \<noteq> CHR 0x5C" "ch \<noteq> CHR ''?''"
    by (auto split: if_splits list.splits)
  then show ?case
  proof cases
    case star
    then show ?thesis
      using 2 by (cases "p = []") (auto simp: wc_loop.simps glob_star_all simp del: glob.simps(2))
  next
    case escape
    then show ?thesis
      using 2(3) [of s] 2(5,6) by (cases s) (auto simp: wc_loop.simps advance_def)
  next
    case literal
    then show ?thesis
      using 2(4) [of s] 2(5,6) by (cases s) (auto simp: wc_loop.simps advance_def)
  qed
next
  case (3 q t)
  let ?u = "if q \<noteq> [] \<and> \<not> special (hd q) then dropWhile (\<lambda>c. c \<noteq> hd q) t else t"
  have skip: "glob (CHR ''*'' # q) t = glob (CHR ''*'' # q) ?u"
    using glob_star_skip [of q t] 3(4) by (auto simp del: glob.simps(2))
  show ?case
  proof (cases "t = [] \<or> ?u = []")
    case True
    then have "glob (CHR ''*'' # q) t = glob (CHR ''*'' # q) []"
      using skip by (elim disjE) (simp_all del: glob.simps(2))
    then have "\<not> glob (CHR ''*'' # q) t"
      using glob_nonempty [OF 3(4,5)] by simp
    with True show ?thesis by (auto simp: star_loop.simps [of q t] simp del: glob.simps(2))
  next
    case False
    define u where "u = ?u"
    have "wc_loop q (Some u) = Some (glob q u)"
      and "\<not> glob q u \<Longrightarrow> star_loop q (tl u) = Some (glob (CHR ''*'' # q) (tl u))"
      using 3 False by (auto simp: u_def)
    moreover have "star_loop q t = do { b \<leftarrow> wc_loop q (Some u); if b then Some True else star_loop q (tl u) }"
      using False by (simp only: star_loop.simps [of q t] u_def [symmetric] Let_def) simp
    ultimately show ?thesis
      using False skip glob_star_step [OF 3(4,5), of u]
      by (simp add: u_def [symmetric] del: glob.simps(2))
  qed
qed

text \<open>
  On every pattern without \<^verbatim>\<open>?\<close>, without adjacent stars and without a backslash at its end, the
  matcher returns, reads nothing behind either string, and decides exactly the usual reading of the
  pattern.
\<close>

theorem wc_match_is_glob:
  assumes "plain pattern"
  shows "wc_match str pattern = Some (glob pattern str)"
  using matcher_glob(1) [OF assms] by (simp add: wc_match_def)

theorem wc_match_is_glob_witness:
  "wc_match ''report.txt'' ''r*.t*t'' = Some True \<and> wc_match ''report.doc'' ''r*.t*t'' = Some False"
  using wc_match_is_glob [of "''r*.t*t''" "''report.txt''"] wc_match_is_glob [of "''r*.t*t''" "''report.doc''"]
  by simp

text \<open>
  A question mark at the end of the subject runs off it: a pattern made of the subject and one
  \<^verbatim>\<open>?\<close> more makes the matcher read behind the terminating NUL.
\<close>

theorem question_mark_overruns:
  assumes "\<forall>c \<in> set s. \<not> special c"
  shows "wc_match s (s @ ''?'') = None"
proof -
  have "wc_loop (s @ ''?'') (Some s) = None"
    using assms by (induction s) (auto simp: wc_loop.simps advance_def special_def)
  then show ?thesis by (simp add: wc_match_def)
qed

theorem question_mark_overruns_witness: "wc_match ''core'' ''core?'' = None"
  using question_mark_overruns [of "''core''"] by (simp add: special_def)

section \<open>Directory listings\<close>

text \<open>
  \<^verbatim>\<open>get_local_file_list\<close> on the names \<^verbatim>\<open>readdir\<close> returns (\<^term>\<open>None\<close>: the directory cannot be
  opened). \<open>ins\<close> is \<^verbatim>\<open>g_slist_insert_sorted\<close> with \<^verbatim>\<open>strcmp\<close>.
\<close>

fun read_dir ::
  "(string \<Rightarrow> string list \<Rightarrow> string list) \<Rightarrow> string list \<Rightarrow> string \<Rightarrow> string list \<Rightarrow> string list option" where
  "read_dir ins [] filespec filelist = Some filelist"
| "read_dir ins (d_name # names) filespec filelist = do {
     m \<leftarrow> wc_match d_name filespec;
     read_dir ins names filespec (if m then ins d_name filelist else filelist)
   }"

definition get_local_file_list ::
  "(string \<Rightarrow> string list \<Rightarrow> string list) \<Rightarrow> string list option \<Rightarrow> string \<Rightarrow> (int \<times> string list) option" where
  "get_local_file_list ins dir filespec =
     (case dir of
        None \<Rightarrow> Some (- 1, [])
      | Some names \<Rightarrow> do { l \<leftarrow> read_dir ins names filespec []; Some (0, l) })"

text \<open>
  A listing holds exactly the names of the directory that match the file specification, each
  as often as the directory has it, and in order, provided the library's sorted insertion adds its
  element and keeps order.
\<close>

theorem file_list_complete:
  assumes "\<And>x xs. mset (ins x xs) = add_mset x (mset xs)"
    and "\<And>x xs. sorted_wrt le xs \<Longrightarrow> sorted_wrt le (ins x xs)"
    and "plain filespec"
  shows "\<exists>l. get_local_file_list ins (Some names) filespec = Some (0, l)
    \<and> mset l = filter_mset (glob filespec) (mset names) \<and> sorted_wrt le l"
proof -
  have "\<exists>l. read_dir ins names filespec acc = Some l
      \<and> mset l = mset acc + filter_mset (glob filespec) (mset names) \<and> sorted_wrt le l"
    if "sorted_wrt le acc" for acc
    using that
  proof (induction names arbitrary: acc)
    case Nil
    then show ?case by simp
  next
    case (Cons n names)
    then show ?case
      using matcher_glob(1) [OF assms(3) refl, of n] Cons.IH [of "ins n acc"] Cons.IH [of acc]
      by (auto simp: wc_match_def assms(1,2))
  qed
  from this [of "[]"] show ?thesis by (auto simp: get_local_file_list_def)
qed

text \<open>An insertion sort of the library's kind, for the concrete instance.\<close>

fun insert_name :: "string \<Rightarrow> string list \<Rightarrow> string list" where
  "insert_name x [] = [x]"
| "insert_name x (y # ys) = (if length x \<le> length y then x # y # ys else y # insert_name x ys)"

lemma insert_name_mset: "mset (insert_name x xs) = add_mset x (mset xs)"
  by (induction xs) auto

lemma insert_name_sorted:
  "sorted_wrt (\<lambda>a b. length a \<le> length b) xs \<Longrightarrow> sorted_wrt (\<lambda>a b. length a \<le> length b) (insert_name x xs)"
proof (induction xs)
  case (Cons y ys)
  moreover have "set (insert_name x ys) = insert x (set ys)"
    by (metis insert_name_mset set_mset_add_mset_insert set_mset_mset)
  ultimately show ?case by (auto intro: order.trans)
qed simp

theorem file_list_complete_witness:
  "\<exists>l. get_local_file_list insert_name (Some [''a.c'', ''notes'', ''b.c'']) ''*.c'' = Some (0, l)
    \<and> mset l = {#''a.c'', ''b.c''#}"
  using file_list_complete [OF insert_name_mset insert_name_sorted, of "''*.c''" "[''a.c'', ''notes'', ''b.c'']"]
  by auto

section \<open>Mode strings\<close>

definition S_IFMT :: u16 where "S_IFMT = 0xF000"
definition S_IFSOCK :: u16 where "S_IFSOCK = 0xC000"
definition S_IFLNK :: u16 where "S_IFLNK = 0xA000"
definition S_IFREG :: u16 where "S_IFREG = 0x8000"
definition S_IFBLK :: u16 where "S_IFBLK = 0x6000"
definition S_IFDIR :: u16 where "S_IFDIR = 0x4000"
definition S_IFCHR :: u16 where "S_IFCHR = 0x2000"
definition S_IFIFO :: u16 where "S_IFIFO = 0x1000"

lemmas S_IF_defs = S_IFMT_def S_IFSOCK_def S_IFLNK_def S_IFREG_def S_IFBLK_def S_IFDIR_def
  S_IFCHR_def S_IFIFO_def

text \<open>The owner bits are 0x100, 0x80 and 0x40; set-uid, set-gid and sticky 0x800, 0x400 and 0x200.\<close>

definition rwx :: "u16 \<Rightarrow> string" where
  "rwx bits = [if bits AND 0x100 \<noteq> 0 then CHR ''r'' else CHR ''-'',
               if bits AND 0x80 \<noteq> 0 then CHR ''w'' else CHR ''-'',
               if bits AND 0x40 \<noteq> 0 then CHR ''x'' else CHR ''-'']"

definition setst :: "u16 \<Rightarrow> string \<Rightarrow> string" where
  "setst bits chars =
     (let chars = (if bits AND 0x800 \<noteq> 0 then chars[3 := if chars ! 3 \<noteq> CHR ''x'' then CHR ''S'' else CHR ''s''] else chars);
          chars = (if bits AND 0x400 \<noteq> 0 then chars[6 := if chars ! 6 \<noteq> CHR ''x'' then CHR ''S'' else CHR ''s''] else chars)
      in if bits AND 0x200 \<noteq> 0 then chars[9 := if chars ! 9 \<noteq> CHR ''x'' then CHR ''T'' else CHR ''t''] else chars)"

definition ftypelet :: "u16 \<Rightarrow> char" where
  "ftypelet bits =
     (if bits AND S_IFMT = S_IFBLK then CHR ''b''
      else if bits AND S_IFMT = S_IFCHR then CHR ''c''
      else if bits AND S_IFMT = S_IFDIR then CHR ''d''
      else if bits AND S_IFMT = S_IFREG then CHR ''-''
      else if bits AND S_IFMT = S_IFIFO then CHR ''p''
      else if bits AND S_IFMT = S_IFLNK then CHR ''l''
      else if bits AND S_IFMT = S_IFSOCK then CHR ''s''
      else CHR ''?'')"

definition mode_string :: "u16 \<Rightarrow> string" where
  "mode_string m =
     setst m (ftypelet m # rwx (m AND 0x1C0) @ rwx (push_bit 3 (m AND 0x38)) @ rwx (push_bit 6 (m AND 7)))"

text \<open>The mode a string stands for.\<close>

definition type_bits :: "char \<Rightarrow> u16" where
  "type_bits c = (if c = CHR ''b'' then S_IFBLK else if c = CHR ''c'' then S_IFCHR
     else if c = CHR ''d'' then S_IFDIR else if c = CHR ''-'' then S_IFREG
     else if c = CHR ''p'' then S_IFIFO else if c = CHR ''l'' then S_IFLNK else S_IFSOCK)"

definition exec_bits :: "char \<Rightarrow> u16 \<Rightarrow> u16 \<Rightarrow> u16" where
  "exec_bits c x st = (if c = CHR ''x'' then x else if c = CHR ''s'' \<or> c = CHR ''t'' then x OR st
     else if c = CHR ''S'' \<or> c = CHR ''T'' then st else 0)"

definition mode_of_string :: "string \<Rightarrow> u16" where
  "mode_of_string s = type_bits (s ! 0)
     OR (if s ! 1 = CHR ''r'' then 0x100 else 0) OR (if s ! 2 = CHR ''w'' then 0x80 else 0)
     OR exec_bits (s ! 3) 0x40 0x800
     OR (if s ! 4 = CHR ''r'' then 0x20 else 0) OR (if s ! 5 = CHR ''w'' then 0x10 else 0)
     OR exec_bits (s ! 6) 8 0x400
     OR (if s ! 7 = CHR ''r'' then 4 else 0) OR (if s ! 8 = CHR ''w'' then 2 else 0)
     OR exec_bits (s ! 9) 1 0x200"

definition known_type :: "u16 \<Rightarrow> bool" where
  "known_type m \<longleftrightarrow> m AND S_IFMT \<in> {S_IFBLK, S_IFCHR, S_IFDIR, S_IFREG, S_IFIFO, S_IFLNK, S_IFSOCK}"

lemma mask_bit:
  "(m :: u16) AND 0x800 \<noteq> 0 \<longleftrightarrow> bit m 11" "m AND 0x400 \<noteq> 0 \<longleftrightarrow> bit m 10" "m AND 0x200 \<noteq> 0 \<longleftrightarrow> bit m 9"
  "m AND 0x100 \<noteq> 0 \<longleftrightarrow> bit m 8" "m AND 0x80 \<noteq> 0 \<longleftrightarrow> bit m 7" "m AND 0x40 \<noteq> 0 \<longleftrightarrow> bit m 6"
  "m AND 0x20 \<noteq> 0 \<longleftrightarrow> bit m 5" "m AND 0x10 \<noteq> 0 \<longleftrightarrow> bit m 4" "m AND 8 \<noteq> 0 \<longleftrightarrow> bit m 3"
  "m AND 4 \<noteq> 0 \<longleftrightarrow> bit m 2" "m AND 2 \<noteq> 0 \<longleftrightarrow> bit m 1" "m AND 1 \<noteq> 0 \<longleftrightarrow> bit m 0"
  using and_exp_eq_0_iff_not_bit [of m 11] and_exp_eq_0_iff_not_bit [of m 10] and_exp_eq_0_iff_not_bit [of m 9]
    and_exp_eq_0_iff_not_bit [of m 8] and_exp_eq_0_iff_not_bit [of m 7] and_exp_eq_0_iff_not_bit [of m 6]
    and_exp_eq_0_iff_not_bit [of m 5] and_exp_eq_0_iff_not_bit [of m 4] and_exp_eq_0_iff_not_bit [of m 3]
    and_exp_eq_0_iff_not_bit [of m 2] and_exp_eq_0_iff_not_bit [of m 1] and_exp_eq_0_iff_not_bit [of m 0]
  by simp_all

lemma mode_string_chars:
  "mode_string m ! 0 = ftypelet m"
  "mode_string m ! 1 = (if bit m 8 then CHR ''r'' else CHR ''-'')"
  "mode_string m ! 2 = (if bit m 7 then CHR ''w'' else CHR ''-'')"
  "mode_string m ! 3 = (if bit m 11 then if bit m 6 then CHR ''s'' else CHR ''S''
                        else if bit m 6 then CHR ''x'' else CHR ''-'')"
  "mode_string m ! 4 = (if bit m 5 then CHR ''r'' else CHR ''-'')"
  "mode_string m ! 5 = (if bit m 4 then CHR ''w'' else CHR ''-'')"
  "mode_string m ! 6 = (if bit m 10 then if bit m 3 then CHR ''s'' else CHR ''S''
                        else if bit m 3 then CHR ''x'' else CHR ''-'')"
  "mode_string m ! 7 = (if bit m 2 then CHR ''r'' else CHR ''-'')"
  "mode_string m ! 8 = (if bit m 1 then CHR ''w'' else CHR ''-'')"
  "mode_string m ! 9 = (if bit m 9 then if bit m 0 then CHR ''t'' else CHR ''T''
                        else if bit m 0 then CHR ''x'' else CHR ''-'')"
  by (simp_all add: mode_string_def setst_def rwx_def mask_bit bit_push_bit_iff bit_and_iff
        Let_def nth_list_update bit_simps)

lemma type_bits_ftypelet: "known_type m \<Longrightarrow> type_bits (ftypelet m) = m AND S_IFMT"
  by (auto simp: known_type_def type_bits_def ftypelet_def S_IF_defs)

lemma mode_bits:
  "(m :: u16) = (m AND S_IFMT)
     OR (if bit m 8 then 0x100 else 0) OR (if bit m 7 then 0x80 else 0)
     OR (if bit m 6 then 0x40 else 0) OR (if bit m 11 then 0x800 else 0)
     OR (if bit m 5 then 0x20 else 0) OR (if bit m 4 then 0x10 else 0)
     OR (if bit m 3 then 8 else 0) OR (if bit m 10 then 0x400 else 0)
     OR (if bit m 2 then 4 else 0) OR (if bit m 1 then 2 else 0)
     OR (if bit m 0 then 1 else 0) OR (if bit m 9 then 0x200 else 0)" (is "_ = ?r")
proof (rule bit_word_eqI)
  fix n assume "n < LENGTH(16)"
  then have "n \<in> {0,1,2,3,4,5,6,7,8,9,10,11,12,13,14,15}" by (simp, arith)
  then show "bit m n = bit ?r n"
    by (elim insertE) (simp_all add: bit_or_iff bit_and_iff S_IFMT_def bit_simps)
qed

text \<open>
  The ten characters of a listing determine the mode: for every mode of a known file type the
  string read back gives the type, the nine permission bits and the set-uid, set-gid and sticky bits.
\<close>

theorem mode_string_round_trip:
  assumes "known_type m"
  shows "mode_of_string (mode_string m) = m"
proof -
  have exec: "exec_bits (mode_string m ! 3) 0x40 0x800 = (if bit m 6 then 0x40 else 0) OR (if bit m 11 then 0x800 else 0)"
    "exec_bits (mode_string m ! 6) 8 0x400 = (if bit m 3 then 8 else 0) OR (if bit m 10 then 0x400 else 0)"
    "exec_bits (mode_string m ! 9) 1 0x200 = (if bit m 0 then 1 else 0) OR (if bit m 9 then 0x200 else 0)"
    unfolding mode_string_chars by (simp_all add: exec_bits_def)
  have rw: "mode_string m ! 1 = CHR ''r'' \<longleftrightarrow> bit m 8" "mode_string m ! 2 = CHR ''w'' \<longleftrightarrow> bit m 7"
    "mode_string m ! 4 = CHR ''r'' \<longleftrightarrow> bit m 5" "mode_string m ! 5 = CHR ''w'' \<longleftrightarrow> bit m 4"
    "mode_string m ! 7 = CHR ''r'' \<longleftrightarrow> bit m 2" "mode_string m ! 8 = CHR ''w'' \<longleftrightarrow> bit m 1"
    unfolding mode_string_chars by simp_all
  show ?thesis
    unfolding mode_of_string_def exec rw mode_string_chars(1) type_bits_ftypelet [OF assms]
    by (subst (13) mode_bits) (simp only: or.assoc)
qed

theorem mode_string_round_trip_witness:
  "mode_string 0x85ED = ''-rwxr-sr-x'' \<and> mode_of_string ''-rwxr-sr-x'' = 0x85ED"
proof -
  have "mode_string 0x85ED = ''-rwxr-sr-x''" by code_simp
  moreover have "known_type 0x85ED" by code_simp
  ultimately show ?thesis using mode_string_round_trip [of "0x85ED"] by simp
qed

end
