(* ===== verification/Asuite_Mem.thy ===== *)
theory Asuite_Mem
  imports Sna_Prelude
begin

text \<open>
  Character arrays of the APPC suite. A cell that was never written is \<^term>\<open>None\<close>; using its value
  is a fault, and so is every access outside the array. The string functions of the C library are
  given on such arrays, together with lemmas on the byte order conversions.
\<close>

type_synonym cells = "byte option list"

section \<open>Cells\<close>

definition get_cell :: "cells \<Rightarrow> nat \<Rightarrow> byte option" where
  "get_cell m i = do { c \<leftarrow> peek m i; c }"

lemma get_cell_map [simp]: "i < length bs \<Longrightarrow> get_cell (map Some bs) i = Some (bs ! i)"
  by (simp add: get_cell_def peek_def)

lemma get_cell_append_left: "i < length a \<Longrightarrow> get_cell (a @ b) i = get_cell a i"
  by (simp add: get_cell_def peek_def nth_append)

text \<open>The bytes of the first \<open>n\<close> cells, all of them written.\<close>

definition get_bytes :: "cells \<Rightarrow> nat \<Rightarrow> byte list option" where
  "get_bytes m n = (if n \<le> length m then those (take n m) else None)"

lemma those_map_Some [simp]: "those (map Some bs) = Some bs"
  by (induction bs) auto

lemma those_Some_iff: "those xs = Some bs \<longleftrightarrow> xs = map Some bs"
proof (induction xs arbitrary: bs)
  case (Cons x xs)
  then show ?case by (cases bs; cases x) auto
qed auto

lemma get_bytes_iff: "get_bytes m n = Some bs \<longleftrightarrow> n = length bs \<and> take n m = map Some bs"
  by (auto simp: get_bytes_def those_Some_iff dest: arg_cong [where f = length])

section \<open>Strings\<close>

text \<open>The string an array holds, and what \<^verbatim>\<open>strncpy\<close> writes when it copies from it.\<close>

fun c_str :: "cells \<Rightarrow> byte list option" where
  "c_str (Some b # m) = (if b = 0 then Some [] else do { s \<leftarrow> c_str m; Some (b # s) })"
| "c_str _ = None"

fun strncpy_src :: "cells \<Rightarrow> nat \<Rightarrow> byte list option" where
  "strncpy_src m 0 = Some []"
| "strncpy_src (Some b # m) (Suc n) =
     (if b = 0 then Some (replicate (Suc n) 0) else do { s \<leftarrow> strncpy_src m n; Some (b # s) })"
| "strncpy_src _ (Suc n) = None"

definition strcpy_to :: "cells \<Rightarrow> byte list \<Rightarrow> cells option" where
  "strcpy_to dst s = poke_block dst 0 (map Some (s @ [0]))"

definition strncpy_to :: "cells \<Rightarrow> nat \<Rightarrow> cells \<Rightarrow> nat \<Rightarrow> cells option" where
  "strncpy_to dst i src n = do { bs \<leftarrow> strncpy_src src n; poke_block dst i (map Some bs) }"

text \<open>A string as the array that holds just it.\<close>

definition str_cells :: "byte list \<Rightarrow> cells" where
  "str_cells s = map Some s @ [Some 0]"

definition no_nul :: "byte list \<Rightarrow> bool" where
  "no_nul s \<longleftrightarrow> 0 \<notin> set s"

lemma no_nul_simps [simp]: "no_nul []" "no_nul (b # s) \<longleftrightarrow> b \<noteq> 0 \<and> no_nul s"
  by (auto simp: no_nul_def)

lemma c_str_iff: "c_str m = Some s \<longleftrightarrow> no_nul s \<and> (\<exists>r. m = map Some s @ Some 0 # r)"
proof (induction m arbitrary: s rule: c_str.induct)
  case (1 b m)
  then show ?case by (cases s) (auto split: bind_splits, blast)
qed (auto simp: Cons_eq_append_conv)

lemma c_str_append [simp]: "no_nul s \<Longrightarrow> c_str (map Some s @ Some 0 # r) = Some s"
  by (simp add: c_str_iff)

lemma c_str_str_cells [simp]: "no_nul s \<Longrightarrow> c_str (str_cells s) = Some s"
  by (simp add: str_cells_def)

text \<open>What \<^verbatim>\<open>strncpy\<close> makes of a string: cut or padded with zeros to \<open>n\<close> bytes.\<close>

definition pad_to :: "nat \<Rightarrow> byte list \<Rightarrow> byte list" where
  "pad_to n s = take n s @ replicate (n - length s) 0"

lemma length_pad_to [simp]: "length (pad_to n s) = n"
  by (simp add: pad_to_def min_def)

lemma pad_to_Suc_Cons: "pad_to (Suc n) (b # s) = b # pad_to n s"
  by (simp add: pad_to_def)

lemma strncpy_src_string: "no_nul s \<Longrightarrow> strncpy_src (map Some s @ Some 0 # r) n = Some (pad_to n s)"
proof (induction s arbitrary: n)
  case Nil
  then show ?case by (cases n) (auto simp: pad_to_def)
next
  case (Cons b s)
  then show ?case by (cases n) (auto simp: pad_to_Suc_Cons pad_to_def)
qed

lemma strncpy_src_str_cells [simp]: "no_nul s \<Longrightarrow> strncpy_src (str_cells s) n = Some (pad_to n s)"
  by (simp add: str_cells_def strncpy_src_string)

lemma length_strncpy_src: "strncpy_src m n = Some bs \<Longrightarrow> length bs = n"
  by (induction m n arbitrary: bs rule: strncpy_src.induct) (auto split: if_splits bind_splits)

text \<open>A string shorter than \<open>n\<close> keeps its terminator.\<close>

lemma pad_to_short: "length s < n \<Longrightarrow> pad_to n s = s @ 0 # replicate (n - Suc (length s)) 0"
  by (cases "n - length s") (auto simp: pad_to_def)

lemma pad_to_Suc_length: "pad_to (Suc (length s)) s = s @ [0]"
  by (simp add: pad_to_short)

section \<open>Byte order\<close>

text \<open>The two bytes of a number as they go over the line.\<close>

definition be16 :: "u16 \<Rightarrow> byte list" where
  "be16 x = [ucast (drop_bit 8 x), ucast x]"

definition un_be16 :: "byte \<Rightarrow> byte \<Rightarrow> u16" where
  "un_be16 hi lo = push_bit 8 (ucast hi) OR ucast lo"

lemma length_be16 [simp]: "length (be16 x) = 2"
  by (simp add: be16_def)

lemma htons_low: "(ucast (htons x) :: byte) = ucast (drop_bit 8 x)"
  by (rule bit_word_eqI) (auto simp: htons_def bit_simps)

lemma ucast_low8: "(ucast (y AND 0xFF :: u16) :: byte) = ucast y"
proof -
  have "y AND 0xFF = take_bit 8 y" by (simp add: take_bit_eq_mask mask_eq_exp_minus_1)
  then show ?thesis by (simp only:) (rule bit_word_eqI, auto simp: bit_simps)
qed

lemma htons_low_masked: "(ucast (htons x AND 0xFF) :: byte) = ucast (drop_bit 8 x)"
  by (simp add: ucast_low8 htons_low)

lemma htons_high: "(ucast (drop_bit 8 (htons x)) :: byte) = ucast x"
  by (rule bit_word_eqI) (auto simp: htons_def bit_simps)

lemma htons_high_masked: "(ucast (drop_bit 8 (htons x AND 0xFF00)) :: byte) = ucast x"
proof -
  have "bit (0xFF00 :: u16) (n + 8)" if "n < 8" for n
  proof -
    have "n \<in> {0,1,2,3,4,5,6,7}" using that by (simp, arith)
    then show ?thesis by (elim insertE) (simp_all add: bit_simps)
  qed
  then show ?thesis by (intro bit_word_eqI) (auto simp: htons_def bit_simps add.commute)
qed

lemma htons_htons [simp]: "htons (htons x) = x"
  by (rule bit_word_eqI) (auto simp: htons_def bit_simps)

lemma ntohs_bytes: "ntohs (push_bit 8 (ucast lo) OR ucast hi) = un_be16 hi (lo :: byte)"
  by (rule bit_word_eqI) (auto simp: ntohs_def htons_def un_be16_def bit_simps dest: bit_imp_le_length)

lemma un_be16_be16 [simp]: "un_be16 (ucast (drop_bit 8 x)) (ucast x) = x"
  by (rule bit_word_eqI) (auto simp: un_be16_def bit_simps)

end
