(* ===== verification/Asuite_Record.thy ===== *)
theory Asuite_Record
  imports Asuite_Mem
begin

text \<open>
  The records the programs of the APPC suite exchange (\<^verbatim>\<open>libasuite/asuitecommon.c\<close>): a two byte
  major code followed by parameters, each a two byte length, a key and data. The operations are
  shown to build and read back that format; the loop with which every receiver walks the parameters
  is verified once, in the locale \<open>tlv_reader\<close>.

  A record is a pointer to a block of fixed size in the source. The branches for a null pointer
  are not represented: every caller in the suite has used the pointer before.
\<close>

section \<open>The record\<close>

definition MAX_BUFFER_SIZE :: nat where
  "MAX_BUFFER_SIZE = 32763"

record asuiterecord =
  position :: nat
  buffer :: cells

text \<open>Key and major codes of \<^verbatim>\<open>asuitecommon.h\<close>.\<close>

definition ASUITE_STATUS_RECORD :: u16 where "ASUITE_STATUS_RECORD = 1"
definition ASUITE_STATUS_RETURN_CODE :: byte where "ASUITE_STATUS_RETURN_CODE = 2"
definition ASUITE_STATUS_CATEGORY_INDEX :: byte where "ASUITE_STATUS_CATEGORY_INDEX = 4"
definition ASUITE_STATUS_PRIMARY_MSG :: byte where "ASUITE_STATUS_PRIMARY_MSG = 5"

lemmas asuite_codes = ASUITE_STATUS_RECORD_def ASUITE_STATUS_RETURN_CODE_def
  ASUITE_STATUS_CATEGORY_INDEX_def ASUITE_STATUS_PRIMARY_MSG_def

text \<open>The argument says whether \<^verbatim>\<open>malloc\<close> succeeds.\<close>

definition asuiterecord_new :: "bool \<Rightarrow> asuiterecord option" where
  "asuiterecord_new ok =
     (if ok then Some \<lparr>position = 2, buffer = replicate MAX_BUFFER_SIZE None\<rparr> else None)"

definition asuiterecord_clear :: "asuiterecord \<Rightarrow> asuiterecord" where
  "asuiterecord_clear record = record\<lparr>position := 2\<rparr>"

definition asuiterecord_settype :: "asuiterecord \<Rightarrow> u16 \<Rightarrow> asuiterecord option" where
  "asuiterecord_settype record rectype =
     (let temp = htons rectype in do {
        m \<leftarrow> poke (buffer record) 0 (Some (ucast (temp AND 0xFF)));
        m \<leftarrow> poke m 1 (Some (ucast (drop_bit 8 (temp AND 0xFF00))));
        Some (record\<lparr>buffer := m\<rparr>)
      })"

text \<open>\<^verbatim>\<open>record->buffer[record->position] = b; record->position++;\<close>\<close>

definition put_byte :: "byte \<Rightarrow> asuiterecord \<Rightarrow> asuiterecord option" where
  "put_byte b record = do {
     m \<leftarrow> poke (buffer record) (position record) (Some b);
     Some (record\<lparr>buffer := m, position := position record + 1\<rparr>)
   }"

definition asuiterecord_append :: "asuiterecord \<Rightarrow> byte \<Rightarrow> cells \<Rightarrow> nat \<Rightarrow> asuiterecord option" where
  "asuiterecord_append record key data len =
     (let temp = htons (of_nat (len + 3)) in do {
        record \<leftarrow> put_byte (ucast (temp AND 0xFF)) record;
        record \<leftarrow> put_byte (ucast (drop_bit 8 temp)) record;
        record \<leftarrow> put_byte key record;
        m \<leftarrow> strncpy_to (buffer record) (position record) data len;
        Some (record\<lparr>buffer := m, position := position record + len\<rparr>)
      })"

definition asuiterecord_append_char :: "asuiterecord \<Rightarrow> byte \<Rightarrow> byte \<Rightarrow> asuiterecord option" where
  "asuiterecord_append_char record key data =
     (let temp = htons 4 in do {
        record \<leftarrow> put_byte (ucast (temp AND 0xFF)) record;
        record \<leftarrow> put_byte (ucast (drop_bit 8 temp)) record;
        record \<leftarrow> put_byte key record;
        put_byte data record
      })"

text \<open>The length written is 4, although four bytes of data follow the three of the header.\<close>

definition asuiterecord_append_fourbyte :: "asuiterecord \<Rightarrow> byte \<Rightarrow> u32 \<Rightarrow> asuiterecord option" where
  "asuiterecord_append_fourbyte record key data =
     (let temp = htons 4; temp_data = htonl data in do {
        record \<leftarrow> put_byte (ucast (temp AND 0xFF)) record;
        record \<leftarrow> put_byte (ucast (drop_bit 8 temp)) record;
        record \<leftarrow> put_byte key record;
        record \<leftarrow> put_byte (ucast (temp_data AND 0xFF)) record;
        record \<leftarrow> put_byte (ucast (drop_bit 8 (temp_data AND 0xFF00))) record;
        record \<leftarrow> put_byte (ucast (drop_bit 16 (temp_data AND 0xFF0000))) record;
        put_byte (ucast (drop_bit 24 (temp_data AND 0xFF000000))) record
      })"

text \<open>
  The variable arguments are a list; using one that was not passed is a fault. (The argument the
  code fetches ahead in the last round is never used.)
\<close>

fun twobyte_loop :: "asuiterecord \<Rightarrow> u32 list \<Rightarrow> nat \<Rightarrow> asuiterecord option" where
  "twobyte_loop record argp 0 = Some record"
| "twobyte_loop record [] (Suc n) = None"
| "twobyte_loop record (p # argp) (Suc n) =
     (let temp_data = htons (ucast p) in do {
        record \<leftarrow> put_byte (ucast (temp_data AND 0xFF)) record;
        record \<leftarrow> put_byte (ucast (drop_bit 8 (temp_data AND 0xFF00))) record;
        twobyte_loop record argp n
      })"

definition asuiterecord_append_twobyte ::
  "asuiterecord \<Rightarrow> byte \<Rightarrow> int \<Rightarrow> u32 list \<Rightarrow> asuiterecord option" where
  "asuiterecord_append_twobyte record key count argp =
     (let len_index = position record in do {
        record \<leftarrow> put_byte key (record\<lparr>position := position record + 2\<rparr>);
        record \<leftarrow> twobyte_loop record argp (nat count);
        let temp = htons (3 + of_int (2 * count));
        m \<leftarrow> poke (buffer record) len_index (Some (ucast (temp AND 0xFF)));
        m \<leftarrow> poke m (len_index + 1) (Some (ucast (drop_bit 8 temp)));
        Some (record\<lparr>buffer := m\<rparr>)
      })"

definition asuiterecord_append_bare_twobyte :: "asuiterecord \<Rightarrow> u16 \<Rightarrow> asuiterecord option" where
  "asuiterecord_append_bare_twobyte record data =
     (let temp_data = htons data in do {
        record \<leftarrow> put_byte (ucast (temp_data AND 0xFF)) record;
        put_byte (ucast (drop_bit 8 (temp_data AND 0xFF00))) record
      })"

section \<open>Reading a record\<close>

definition asuiterecord_get_char :: "asuiterecord \<Rightarrow> nat \<Rightarrow> byte option" where
  "asuiterecord_get_char record pos = get_cell (buffer record) pos"

definition get_param_len :: "asuiterecord \<Rightarrow> nat \<Rightarrow> nat option" where
  "get_param_len record curpos = do {
     b \<leftarrow> get_cell (buffer record) (curpos + 1);
     a \<leftarrow> get_cell (buffer record) curpos;
     Some (unat (ntohs (push_bit 8 (ucast b) OR ucast a)))
   }"

definition get_cat_index :: "asuiterecord \<Rightarrow> nat \<Rightarrow> nat option" where
  "get_cat_index record curpos = do {
     b \<leftarrow> get_cell (buffer record) (curpos + 1);
     a \<leftarrow> get_cell (buffer record) curpos;
     Some (unat (ntohs (push_bit 8 (ucast b) OR ucast a)))
   }"

definition get_major_code :: "asuiterecord \<Rightarrow> byte option" where
  "get_major_code record = get_cell (buffer record) 1"

definition get_received_len :: "asuiterecord \<Rightarrow> nat" where
  "get_received_len record = position record"

definition get_key :: "asuiterecord \<Rightarrow> nat \<Rightarrow> byte option" where
  "get_key record curpos = get_cell (buffer record) (curpos + 2)"

section \<open>The conversation\<close>

text \<open>
  The CPI-C calls of the suite, on a state \<open>'w\<close> of the other side and the line: each returns its
  return code. \<^verbatim>\<open>cmrcv\<close> is given the size of the buffer and returns the bytes it put there.
\<close>

type_synonym conv_id = "byte list"

record 'w cpic =
  cmsend :: "'w \<Rightarrow> conv_id \<Rightarrow> byte list \<Rightarrow> int \<times> 'w"
  cmrcv :: "'w \<Rightarrow> conv_id \<Rightarrow> nat \<Rightarrow> int \<times> byte list \<times> 'w"
  cminit :: "'w \<Rightarrow> byte list \<Rightarrow> int \<times> conv_id \<times> 'w"
  cmspln :: "'w \<Rightarrow> conv_id \<Rightarrow> byte list \<Rightarrow> int \<times> 'w"
  cmsmn :: "'w \<Rightarrow> conv_id \<Rightarrow> byte list \<Rightarrow> int \<times> 'w"
  cmstpn :: "'w \<Rightarrow> conv_id \<Rightarrow> byte list \<Rightarrow> int \<times> 'w"
  cmallc :: "'w \<Rightarrow> conv_id \<Rightarrow> int \<times> 'w"
  cmdeal :: "'w \<Rightarrow> conv_id \<Rightarrow> int \<times> 'w"

definition CM_OK :: int where "CM_OK = 0"
definition ASUITE_RC_OK :: int where "ASUITE_RC_OK = 0"

definition send_asuiterecord ::
  "'w cpic \<Rightarrow> 'w \<Rightarrow> conv_id \<Rightarrow> asuiterecord \<Rightarrow> (int \<times> 'w) option" where
  "send_asuiterecord cm w cid record = do {
     data \<leftarrow> get_bytes (buffer record) (position record);
     let (cm_rc, w) = cmsend cm w cid data;
     Some (if cm_rc \<noteq> CM_OK then (cm_rc, w) else (ASUITE_RC_OK, w))
   }"

definition get_asuiterecord ::
  "'w cpic \<Rightarrow> 'w \<Rightarrow> conv_id \<Rightarrow> asuiterecord \<Rightarrow> (int \<times> asuiterecord \<times> 'w) option" where
  "get_asuiterecord cm w cid record =
     (let (cm_rc, data, w) = cmrcv cm w cid MAX_BUFFER_SIZE in do {
        m \<leftarrow> poke_block (buffer record) 0 (map Some data);
        Some (if cm_rc = CM_OK then (ASUITE_RC_OK, record\<lparr>buffer := m, position := length data\<rparr>, w)
              else (cm_rc, record\<lparr>buffer := m\<rparr>, w))
      })"

text \<open>The text \<^verbatim>\<open>ERROR\<close>.\<close>

definition error_text :: "byte list" where
  "error_text = [0x45, 0x52, 0x52, 0x4F, 0x52]"

definition simple_response :: "asuiterecord \<Rightarrow> u32 \<Rightarrow> u32 \<Rightarrow> u32 \<Rightarrow> asuiterecord option" where
  "simple_response err_rec errcode category index = do {
     err_rec \<leftarrow> asuiterecord_settype (asuiterecord_clear err_rec) ASUITE_STATUS_RECORD;
     err_rec \<leftarrow> asuiterecord_append_char err_rec ASUITE_STATUS_RETURN_CODE (ucast errcode);
     if errcode \<noteq> 0 then do {
       err_rec \<leftarrow> asuiterecord_append_twobyte err_rec ASUITE_STATUS_CATEGORY_INDEX 2 [category, index];
       asuiterecord_append err_rec ASUITE_STATUS_PRIMARY_MSG (str_cells error_text) 6
     } else Some err_rec
   }"

definition send_simple_response ::
  "'w cpic \<Rightarrow> bool \<Rightarrow> 'w \<Rightarrow> conv_id \<Rightarrow> u32 \<Rightarrow> u32 \<Rightarrow> u32 \<Rightarrow> 'w option" where
  "send_simple_response cm ok w cid errcode category index = do {
     err_rec \<leftarrow> asuiterecord_new ok;
     err_rec \<leftarrow> simple_response err_rec errcode category index;
     (rc, w) \<leftarrow> send_asuiterecord cm w cid err_rec;
     Some w
   }"

section \<open>The loop over the parameters\<close>

text \<open>
  \<^verbatim>\<open>do { param_len = get_param_len(record, curpos); key = get_key(record, curpos); switch(key) ...;
  curpos += param_len; } while(curpos < bound);\<close> with the body of the switch as a function of the
  key and the position. A parameter of length 0 before the bound makes the loop run for ever.
\<close>

partial_function (option) param_loop ::
  "(nat \<Rightarrow> nat option) \<Rightarrow> (nat \<Rightarrow> byte option) \<Rightarrow> (byte \<Rightarrow> nat \<Rightarrow> 's \<Rightarrow> 's option) \<Rightarrow> nat \<Rightarrow> nat \<Rightarrow> 's
   \<Rightarrow> 's option" where
  "param_loop plen pkey body bound curpos s = do {
     param_len \<leftarrow> plen curpos;
     key \<leftarrow> pkey curpos;
     s \<leftarrow> body key curpos s;
     if curpos + param_len < bound then param_loop plen pkey body bound (curpos + param_len) s
     else Some s
   }"

section \<open>What the writers write\<close>

text \<open>\<open>holds r cs\<close>: the block has its size and its part before the position consists of \<open>cs\<close>.\<close>

definition wf_record :: "asuiterecord \<Rightarrow> bool" where
  "wf_record r \<longleftrightarrow> length (buffer r) = MAX_BUFFER_SIZE"

definition holds :: "asuiterecord \<Rightarrow> cells \<Rightarrow> bool" where
  "holds r cs \<longleftrightarrow> wf_record r \<and> position r = length cs \<and> take (length cs) (buffer r) = cs"

definition contents :: "asuiterecord \<Rightarrow> byte list option" where
  "contents r = get_bytes (buffer r) (position r)"

lemma holds_length: "holds r cs \<Longrightarrow> length cs \<le> MAX_BUFFER_SIZE"
  by (auto simp: holds_def wf_record_def dest: arg_cong [where f = length])

lemma holds_wf: "holds r cs \<Longrightarrow> wf_record r"
  by (simp add: holds_def)

lemma holds_contents: "holds r (map Some bs) \<Longrightarrow> contents r = Some bs"
  by (auto simp: holds_def contents_def get_bytes_iff)

lemma contents_holds: "contents r = Some bs \<Longrightarrow> wf_record r \<Longrightarrow> holds r (map Some bs)"
  by (auto simp: holds_def contents_def get_bytes_iff)

named_theorems writes \<open>what the operations that write a record return and leave in it\<close>

lemma put_byte_holds [writes]:
  assumes "holds r cs" "length cs < MAX_BUFFER_SIZE"
  shows "\<exists>r'. put_byte b r = Some r' \<and> holds r' (cs @ [Some b])"
  using assms by (auto simp: put_byte_def holds_def wf_record_def poke_def take_Suc_conv_app_nth)

text \<open>A block of bytes, one after the other.\<close>

fun put_bytes :: "byte list \<Rightarrow> asuiterecord \<Rightarrow> asuiterecord option" where
  "put_bytes [] r = Some r"
| "put_bytes (b # bs) r = do { r \<leftarrow> put_byte b r; put_bytes bs r }"

text \<open>The same as equations between functions.\<close>

lemma put_bytes_fun: "put_bytes [] = Some" "put_bytes (b # bs) = (\<lambda>r. do { r \<leftarrow> put_byte b r; put_bytes bs r })"
  by auto

lemma put_bytes_holds:
  "holds r cs \<Longrightarrow> length cs + length bs \<le> MAX_BUFFER_SIZE \<Longrightarrow>
   \<exists>r'. put_bytes bs r = Some r' \<and> holds r' (cs @ map Some bs)"
proof (induction bs arbitrary: r cs)
  case (Cons b bs)
  then obtain r' where "put_byte b r = Some r'" "holds r' (cs @ [Some b])"
    using put_byte_holds [of r cs b] by auto
  with Cons.IH [of r' "cs @ [Some b]"] Cons.prems show ?case by auto
qed simp

lemma settype_holds [writes]:
  assumes "wf_record r" "position r = 2"
  shows "\<exists>r'. asuiterecord_settype r t = Some r' \<and> holds r' (map Some (be16 t))"
proof -
  obtain x y m where "buffer r = x # y # m"
    using assms(1) by (cases "buffer r"; cases "tl (buffer r)") (auto simp: wf_record_def MAX_BUFFER_SIZE_def)
  with assms show ?thesis
    by (simp add: asuiterecord_settype_def Let_def poke_def holds_def wf_record_def be16_def
        htons_low htons_high ucast_low8 put_bytes_fun drop_bit_and)
qed

text \<open>A parameter on the line.\<close>

definition tlv :: "byte \<Rightarrow> byte list \<Rightarrow> byte list" where
  "tlv key d = be16 (of_nat (length d + 3)) @ key # d"

lemma length_tlv [simp]: "length (tlv key d) = length d + 3"
  by (simp add: tlv_def)

lemma tlv_not_Nil [simp]: "tlv key d \<noteq> []"
  by (simp add: tlv_def)

lemma poke_block_holds:
  assumes "holds r cs" "length cs + length bs \<le> MAX_BUFFER_SIZE"
  shows "\<exists>m. poke_block (buffer r) (position r) (map Some bs) = Some m
    \<and> holds (r\<lparr>buffer := m, position := position r + length bs\<rparr>) (cs @ map Some bs)"
  using assms by (auto simp: holds_def wf_record_def poke_block_def)

lemma append_eq:
  "asuiterecord_append r key data n = do {
     r \<leftarrow> put_bytes (be16 (of_nat (n + 3)) @ [key]) r;
     m \<leftarrow> strncpy_to (buffer r) (position r) data n;
     Some (r\<lparr>buffer := m, position := position r + n\<rparr>)
   }"
  by (simp add: asuiterecord_append_def be16_def Let_def htons_low_masked htons_high put_bytes_fun)

lemma append_holds [writes]:
  assumes "holds r cs" "strncpy_src data n = Some d" "length cs + n + 3 \<le> MAX_BUFFER_SIZE"
  shows "\<exists>r'. asuiterecord_append r key data n = Some r' \<and> holds r' (cs @ map Some (tlv key d))"
proof -
  have n: "length d = n" using length_strncpy_src [OF assms(2)] .
  obtain q where q: "put_bytes (be16 (of_nat (n + 3)) @ [key]) r = Some q"
    "holds q (cs @ map Some (be16 (of_nat (n + 3)) @ [key]))"
    using put_bytes_holds [OF assms(1), of "be16 (of_nat (n + 3)) @ [key]"] assms(3) by auto
  then show ?thesis
    using poke_block_holds [OF q(2), of d] assms(2,3) n
    by (auto simp: append_eq strncpy_to_def tlv_def)
qed

lemma append_char_holds [writes]:
  assumes "holds r cs" "length cs + 4 \<le> MAX_BUFFER_SIZE"
  shows "\<exists>r'. asuiterecord_append_char r key b = Some r' \<and> holds r' (cs @ map Some (tlv key [b]))"
proof -
  have "asuiterecord_append_char r key b = put_bytes (tlv key [b]) r"
    by (simp add: asuiterecord_append_char_def tlv_def be16_def Let_def htons_low_masked htons_high put_bytes_fun)
  then show ?thesis using put_bytes_holds [OF assms(1), of "tlv key [b]"] assms(2) by simp
qed

lemma append_bare_twobyte_holds [writes]:
  assumes "holds r cs" "length cs + 2 \<le> MAX_BUFFER_SIZE"
  shows "\<exists>r'. asuiterecord_append_bare_twobyte r x = Some r' \<and> holds r' (cs @ map Some (be16 x))"
proof -
  have "asuiterecord_append_bare_twobyte r x = put_bytes (be16 x) r"
    by (simp add: asuiterecord_append_bare_twobyte_def be16_def Let_def htons_low htons_high ucast_low8 put_bytes_fun drop_bit_and)
  then show ?thesis using put_bytes_holds [OF assms(1), of "be16 x"] assms(2) by simp
qed

definition be16s :: "u32 list \<Rightarrow> byte list" where
  "be16s ps = concat (map (\<lambda>p. be16 (ucast p)) ps)"

lemma length_be16s [simp]: "length (be16s ps) = 2 * length ps"
  by (induction ps) (auto simp: be16s_def)

lemma twobyte_loop_eq: "twobyte_loop r ps (length ps) = put_bytes (be16s ps) r"
proof (induction ps arbitrary: r)
  case (Cons p ps)
  then show ?case
    by (simp add: be16s_def be16_def Let_def htons_low htons_high ucast_low8 put_bytes_fun drop_bit_and)
qed (simp add: be16s_def)

lemma twobyte_loop_short: "length ps < n \<Longrightarrow> twobyte_loop r ps n = None"
  by (induction r ps n rule: twobyte_loop.induct) (auto simp: Let_def split: bind_splits)

lemma holds_skip:
  assumes "holds r cs" "length cs + 2 \<le> MAX_BUFFER_SIZE"
  shows "\<exists>x y. holds (r\<lparr>position := position r + 2\<rparr>) (cs @ [x, y])"
proof -
  have "take (length cs + 2) (buffer r) = cs @ [buffer r ! length cs, buffer r ! Suc (length cs)]"
    using assms by (simp add: holds_def wf_record_def take_Suc_conv_app_nth)
  with assms show ?thesis by (auto simp: holds_def wf_record_def)
qed

lemma append_twobyte_holds [writes]:
  assumes "holds r cs" "length cs + 2 * length ps + 3 \<le> MAX_BUFFER_SIZE"
  shows "\<exists>r'. asuiterecord_append_twobyte r key (int (length ps)) ps = Some r'
    \<and> holds r' (cs @ map Some (tlv key (be16s ps)))"
proof -
  obtain x y where "holds (r\<lparr>position := position r + 2\<rparr>) (cs @ [x, y])"
    using holds_skip [OF assms(1)] assms(2) by auto
  then obtain q where q: "put_bytes (key # be16s ps) (r\<lparr>position := position r + 2\<rparr>) = Some q"
    "holds q (cs @ x # y # map Some (key # be16s ps))"
    using put_bytes_holds [of "r\<lparr>position := position r + 2\<rparr>" "cs @ [x, y]" "key # be16s ps"] assms(2) by auto
  have pos: "position r = length cs" using assms(1) by (simp add: holds_def)
  have len: "of_int (2 * int (length ps)) + 3 = (of_nat (length (be16s ps) + 3) :: u16)" by simp
  have ext: "take n (m[i := v]) = (take n m)[i := v]" for n i v and m :: cells
    by (simp add: take_update_swap)
  from q have "take (Suc (Suc (Suc (length cs + 2 * length ps)))) (buffer q) = cs @ x # y # map Some (key # be16s ps)"
    and "length (buffer q) = MAX_BUFFER_SIZE" and "position q = length cs + 2 * length ps + 3"
    by (auto simp: holds_def wf_record_def add.commute)
  with q(1) pos assms(2) show ?thesis
    by (auto simp: asuiterecord_append_twobyte_def Let_def twobyte_loop_eq poke_def holds_def wf_record_def
        tlv_def be16_def htons_low_masked htons_high ext list_update_append add.commute split: bind_splits)
qed

section \<open>What the readers read\<close>

text \<open>
  The contract between a receiver and the record it was sent: at the start of a parameter the
  length and the key are those of the parameter. Parameters are at most 65535 bytes long.
\<close>

definition params :: "(byte \<times> byte list) list \<Rightarrow> byte list" where
  "params ps = concat (map (\<lambda>(k, d). tlv k d) ps)"

lemma params_simps [simp]: "params [] = []" "params ((k, d) # ps) = tlv k d @ params ps"
  by (simp_all add: params_def)

definition small :: "(byte \<times> byte list) list \<Rightarrow> bool" where
  "small ps \<longleftrightarrow> (\<forall>(k, d) \<in> set ps. length d + 3 < 65536)"

lemma small_simps [simp]: "small []" "small ((k, d) # ps) \<longleftrightarrow> length d + 3 < 65536 \<and> small ps"
  by (auto simp: small_def)

text \<open>The rounds of the loop over \<open>ps\<close> from position \<open>pos\<close>.\<close>

fun walk :: "(byte \<Rightarrow> nat \<Rightarrow> 's \<Rightarrow> 's option) \<Rightarrow> nat \<Rightarrow> nat \<Rightarrow> (byte \<times> byte list) list \<Rightarrow> 's \<Rightarrow> 's option" where
  "walk body bound pos [] s = None"
| "walk body bound pos ((k, d) # ps) s = do {
     s \<leftarrow> body k pos s;
     if pos + (length d + 3) < bound then walk body bound (pos + (length d + 3)) ps s else Some s
   }"

text \<open>A parameter of length 0 before the bound: the loop does not return.\<close>

lemma param_loop_stuck:
  assumes "plen pos = Some 0" "pos < bound"
  shows "param_loop plen pkey body bound pos s = None"
proof (rule ccontr)
  assume "param_loop plen pkey body bound pos s \<noteq> None"
  then obtain z where "param_loop plen pkey body bound pos s = Some z" by auto
  then have "\<not> (plen pos = Some 0 \<and> pos < bound)"
    by (rule param_loop.raw_induct [rotated]) (auto split: bind_splits if_splits, metis add_0_right gr0I)
  with assms show False by simp
qed

locale tlv_reader =
  fixes image :: "'r \<Rightarrow> byte list option"
    and plen :: "'r \<Rightarrow> nat \<Rightarrow> nat option"
    and pkey :: "'r \<Rightarrow> nat \<Rightarrow> byte option"
  assumes plen_at: "image r = Some (pre @ tlv k d @ post) \<Longrightarrow> length d + 3 < 65536 \<Longrightarrow>
      plen r (length pre) = Some (length d + 3)"
    and pkey_at: "image r = Some (pre @ tlv k d @ post) \<Longrightarrow> pkey r (length pre) = Some k"
begin

text \<open>The loop visits the parameters in order, one round each, as far as its bound goes.\<close>

lemma loop_walks:
  assumes "image r = Some (pre @ params ps)" "small ps" "ps \<noteq> []"
    "bound \<le> length pre + length (params ps)"
  shows "param_loop (plen r) (pkey r) body bound (length pre) s = walk body bound (length pre) ps s"
  using assms
proof (induction ps arbitrary: pre s)
  case (Cons p ps)
  obtain k d where p: "p = (k, d)" by (cases p)
  have img: "image r = Some (pre @ tlv k d @ params ps)"
    using Cons.prems(1) p by simp
  have rest: "param_loop (plen r) (pkey r) body bound (length pre + (length d + 3)) s'
      = walk body bound (length pre + (length d + 3)) ps s'"
    if "length pre + (length d + 3) < bound" for s'
    using Cons.IH [of "pre @ tlv k d" s'] Cons.prems p that by (cases "ps = []") auto
  show ?case
    using plen_at [OF img] pkey_at [OF img] Cons.prems(2) rest
    by (subst param_loop.simps, cases "length pre + (length d + 3) < bound") (simp_all add: p)
qed simp

end

lemma image_cell:
  assumes "contents r = Some (pre @ bs @ post)" "i < length bs"
  shows "get_cell (buffer r) (length pre + i) = Some (bs ! i)"
proof -
  have "take (position r) (buffer r) = map Some (pre @ bs @ post)"
    "position r = length (pre @ bs @ post)"
    using assms(1) by (auto simp: contents_def get_bytes_iff)
  then have "buffer r = map Some (pre @ bs @ post) @ drop (position r) (buffer r)"
    by (metis append_take_drop_id)
  then have "get_cell (buffer r) (length pre + i) = get_cell (map Some (pre @ bs @ post)) (length pre + i)"
    using assms(2) by (metis get_cell_append_left add_less_cancel_left length_append length_map trans_less_add1)
  with assms(2) show ?thesis by (simp del: map_append add: nth_append)
qed

lemma unat_small: "n < 65536 \<Longrightarrow> unat (of_nat n :: u16) = n"
  by (simp add: unat_of_nat take_bit_nat_eq_self)

interpretation asuite: tlv_reader contents get_param_len get_key
proof
  fix r pre k d post
  assume c: "contents r = Some (pre @ tlv k d @ post)"
  note cell = image_cell [OF c]
  have cells: "get_cell (buffer r) (length pre) = Some (ucast (drop_bit 8 (of_nat (length d + 3) :: u16)))"
    "get_cell (buffer r) (length pre + 1) = Some (ucast (of_nat (length d + 3) :: u16))"
    "get_cell (buffer r) (length pre + 2) = Some k"
    using cell [of 0] cell [of 1] cell [of 2] by (simp_all add: tlv_def be16_def numeral_2_eq_2)
  show "get_key r (length pre) = Some k"
    using cells(3) by (simp add: get_key_def)
  assume "length d + 3 < 65536"
  then show "get_param_len r (length pre) = Some (length d + 3)"
    using cells(1,2) unat_small [of "length d + 3"] by (simp add: get_param_len_def ntohs_bytes)
qed

lemma get_cat_index_at:
  assumes "contents r = Some (pre @ be16 x @ post)"
  shows "get_cat_index r (length pre) = Some (unat x)"
  using image_cell [OF assms, of 0] image_cell [OF assms, of 1]
  by (simp add: get_cat_index_def be16_def ntohs_bytes)

lemma get_major_code_at:
  assumes "contents r = Some (be16 x @ post)"
  shows "get_major_code r = Some (ucast x)"
  using image_cell [of r "[]", simplified, OF assms, of 1] by (simp add: get_major_code_def be16_def)

section \<open>Records there and back\<close>

text \<open>A request as the programs build it: the major code, then strings with their terminators.\<close>

fun append_strings :: "asuiterecord \<Rightarrow> (byte \<times> byte list) list \<Rightarrow> asuiterecord option" where
  "append_strings r [] = Some r"
| "append_strings r ((k, s) # ps) = do {
     r \<leftarrow> asuiterecord_append r k (str_cells s) (length s + 1);
     append_strings r ps
   }"

definition build_record :: "asuiterecord \<Rightarrow> u16 \<Rightarrow> (byte \<times> byte list) list \<Rightarrow> asuiterecord option" where
  "build_record r t ps = do {
     r \<leftarrow> asuiterecord_settype (asuiterecord_clear r) t;
     append_strings r ps
   }"

definition with_nul :: "(byte \<times> byte list) list \<Rightarrow> (byte \<times> byte list) list" where
  "with_nul ps = map (\<lambda>(k, s). (k, s @ [0])) ps"

lemma with_nul_simps [simp]: "with_nul [] = []" "with_nul ((k, s) # ps) = (k, s @ [0]) # with_nul ps"
  by (simp_all add: with_nul_def)

definition strings :: "(byte \<times> byte list) list \<Rightarrow> bool" where
  "strings ps \<longleftrightarrow> (\<forall>(k, s) \<in> set ps. no_nul s)"

lemma strings_simps [simp]: "strings []" "strings ((k, s) # ps) \<longleftrightarrow> no_nul s \<and> strings ps"
  by (auto simp: strings_def)

lemma append_strings_holds:
  "holds r cs \<Longrightarrow> strings ps \<Longrightarrow> length cs + length (params (with_nul ps)) \<le> MAX_BUFFER_SIZE \<Longrightarrow>
   \<exists>r'. append_strings r ps = Some r' \<and> holds r' (cs @ map Some (params (with_nul ps)))"
proof (induction ps arbitrary: r cs)
  case (Cons p ps)
  obtain k s where p: "p = (k, s)" by (cases p)
  have "strncpy_src (str_cells s) (length s + 1) = Some (s @ [0])"
    using Cons.prems(2) p by (simp add: pad_to_Suc_length)
  then obtain q where q: "asuiterecord_append r k (str_cells s) (length s + 1) = Some q"
    "holds q (cs @ map Some (tlv k (s @ [0])))"
    using append_holds [OF Cons.prems(1), of "str_cells s" "length s + 1"] Cons.prems(3) p by auto
  then show ?case using Cons.IH [OF q(2)] Cons.prems(2,3) p by auto
qed simp

lemma build_record_contents:
  assumes "wf_record r" "strings ps" "2 + length (params (with_nul ps)) \<le> MAX_BUFFER_SIZE"
  shows "\<exists>r'. build_record r t ps = Some r' \<and> wf_record r' \<and> contents r' = Some (be16 t @ params (with_nul ps))"
proof -
  obtain q where "asuiterecord_settype (asuiterecord_clear r) t = Some q" "holds q (map Some (be16 t))"
    using settype_holds [of "asuiterecord_clear r" t] assms(1)
    by (auto simp: wf_record_def asuiterecord_clear_def)
  then show ?thesis
    using append_strings_holds [of q "map Some (be16 t)" ps] assms(2,3)
    by (auto simp: build_record_def holds_wf holds_contents simp flip: map_append)
qed

text \<open>What a receiver that keeps every string collects.\<close>

definition collect :: "asuiterecord \<Rightarrow> byte \<Rightarrow> nat \<Rightarrow> (byte \<times> byte list) list \<Rightarrow> (byte \<times> byte list) list option" where
  "collect r key pos acc = do { s \<leftarrow> c_str (drop (pos + 3) (buffer r)); Some (acc @ [(key, s)]) }"

lemma buffer_drop:
  assumes "contents r = Some (pre @ bs)"
  shows "\<exists>rest. drop (length pre) (buffer r) = map Some bs @ rest"
proof -
  have "take (position r) (buffer r) = map Some (pre @ bs)"
    using assms by (auto simp: contents_def get_bytes_iff)
  then have "buffer r = map Some pre @ map Some bs @ drop (position r) (buffer r)"
    by (metis append_assoc append_take_drop_id map_append)
  then show ?thesis by (metis append_eq_conv_conj length_map)
qed

lemma walk_collect:
  assumes "contents r = Some (pre @ params (with_nul ps))" "strings ps" "ps \<noteq> []"
  shows "walk (collect r) (length pre + length (params (with_nul ps))) (length pre) (with_nul ps) acc
    = Some (acc @ ps)"
  using assms
proof (induction ps arbitrary: pre acc)
  case (Cons p ps)
  obtain k s where p: "p = (k, s)" by (cases p)
  let ?hdr = "be16 (of_nat (length (s @ [0]) + 3)) @ [k]"
  have c: "contents r = Some ((pre @ ?hdr) @ s @ 0 # params (with_nul ps))"
    "contents r = Some ((pre @ tlv k (s @ [0])) @ params (with_nul ps))"
    using Cons.prems(1) p by (simp_all add: tlv_def)
  obtain rest where "drop (length (pre @ ?hdr)) (buffer r) = map Some (s @ 0 # params (with_nul ps)) @ rest"
    using buffer_drop [OF c(1)] by blast
  then have "collect r k (length pre) acc = Some (acc @ [(k, s)])"
    using Cons.prems(2) p by (simp add: collect_def)
  then show ?case
    using Cons.IH [OF c(2)] Cons.prems(2) p by (cases ps) (auto simp: add.assoc)
qed simp

lemma small_with_nul: "length (params (with_nul ps)) \<le> n \<Longrightarrow> n < 65536 \<Longrightarrow> small (with_nul ps)"
  by (induction ps) auto

text \<open>
  C31. A record built from a major code and any strings that fit into its buffer is read back
  by a receiver's loop over the parameters: the writers do not fault, the major code is the low byte
  of the one set, and the loop returns after one round per parameter with the keys and the strings in
  the order in which they were appended.
\<close>

theorem record_params_round_trip:
  assumes "wf_record r" "strings ps" "ps \<noteq> []" "2 + length (params (with_nul ps)) \<le> MAX_BUFFER_SIZE"
  shows "\<exists>r'. build_record r t ps = Some r' \<and> get_major_code r' = Some (ucast t)
    \<and> param_loop (get_param_len r') (get_key r') (collect r') (get_received_len r') 2 [] = Some ps"
proof -
  obtain r' where r': "build_record r t ps = Some r'" "contents r' = Some (be16 t @ params (with_nul ps))"
    using build_record_contents [OF assms(1,2,4)] by blast
  have "get_received_len r' = 2 + length (params (with_nul ps))"
    using r'(2) by (auto simp: contents_def get_bytes_iff get_received_len_def)
  moreover have "small (with_nul ps)"
    using small_with_nul [of ps "MAX_BUFFER_SIZE"] assms(4) by (simp add: MAX_BUFFER_SIZE_def)
  moreover have "with_nul ps \<noteq> []" using assms(3) by (simp add: with_nul_def)
  ultimately show ?thesis
    using asuite.loop_walks [OF r'(2), of "get_received_len r'" "collect r'" "[]"]
      walk_collect [OF r'(2) assms(2,3), of "[]"] get_major_code_at [OF r'(2)] r'(1) by simp
qed

definition fresh_record :: asuiterecord where
  "fresh_record = \<lparr>position = 2, buffer = replicate MAX_BUFFER_SIZE None\<rparr>"

lemma fresh_record: "asuiterecord_new True = Some fresh_record" "wf_record fresh_record" "position fresh_record = 2"
  by (simp_all add: fresh_record_def asuiterecord_new_def wf_record_def)

theorem record_params_round_trip_witness:
  "\<exists>r'. build_record fresh_record 11 [(17, [0x61, 0x62]), (18, [0x63])] = Some r' \<and> get_major_code r' = Some 11
    \<and> param_loop (get_param_len r') (get_key r') (collect r') (get_received_len r') 2 []
        = Some [(17, [0x61, 0x62]), (18, [0x63])]"
  using record_params_round_trip [of fresh_record "[(17, [0x61, 0x62]), (18, [0x63])]" 11] fresh_record(2)
  by (simp add: MAX_BUFFER_SIZE_def)

text \<open>The parameters of a status record.\<close>

definition status_params :: "u32 \<Rightarrow> u32 \<Rightarrow> u32 \<Rightarrow> (byte \<times> byte list) list" where
  "status_params errcode category index =
     (ASUITE_STATUS_RETURN_CODE, [ucast errcode]) #
     (if errcode = 0 then []
      else [(ASUITE_STATUS_CATEGORY_INDEX, be16s [category, index]), (ASUITE_STATUS_PRIMARY_MSG, error_text @ [0])])"

definition status_image :: "u32 \<Rightarrow> u32 \<Rightarrow> u32 \<Rightarrow> byte list" where
  "status_image errcode category index = be16 ASUITE_STATUS_RECORD @ params (status_params errcode category index)"

lemma length_error_text [simp]: "length error_text = 5" "no_nul error_text"
  by (simp_all add: error_text_def)

lemma simple_response_contents:
  assumes "wf_record r"
  shows "\<exists>r'. simple_response r errcode category index = Some r' \<and> wf_record r'
    \<and> contents r' = Some (status_image errcode category index)"
proof -
  let ?rc = "ucast errcode"
  obtain a where a: "asuiterecord_settype (asuiterecord_clear r) ASUITE_STATUS_RECORD = Some a"
    "holds a (map Some (be16 ASUITE_STATUS_RECORD))"
    using settype_holds [of "asuiterecord_clear r"] assms by (auto simp: wf_record_def asuiterecord_clear_def)
  let ?cb = "map Some (be16 ASUITE_STATUS_RECORD) @ map Some (tlv ASUITE_STATUS_RETURN_CODE [?rc])"
  obtain b where b: "asuiterecord_append_char a ASUITE_STATUS_RETURN_CODE ?rc = Some b" "holds b ?cb"
    using append_char_holds [OF a(2), of ASUITE_STATUS_RETURN_CODE ?rc] by (auto simp: MAX_BUFFER_SIZE_def)
  let ?cc = "?cb @ map Some (tlv ASUITE_STATUS_CATEGORY_INDEX (be16s [category, index]))"
  obtain c where c: "asuiterecord_append_twobyte b ASUITE_STATUS_CATEGORY_INDEX 2 [category, index] = Some c"
    "holds c ?cc"
    using append_twobyte_holds [OF b(2), of "[category, index]" ASUITE_STATUS_CATEGORY_INDEX]
    by (auto simp: MAX_BUFFER_SIZE_def)
  have src: "strncpy_src (str_cells error_text) 6 = Some (error_text @ [0])"
    using pad_to_Suc_length [of error_text] by simp
  obtain d where d: "asuiterecord_append c ASUITE_STATUS_PRIMARY_MSG (str_cells error_text) 6 = Some d"
    "holds d (?cc @ map Some (tlv ASUITE_STATUS_PRIMARY_MSG (error_text @ [0])))"
    using append_holds [OF c(2) src, of ASUITE_STATUS_PRIMARY_MSG] by (auto simp: MAX_BUFFER_SIZE_def)
  show ?thesis
    using a(1) b c(1) d
    by (cases "errcode = 0")
      (auto simp: simple_response_def status_image_def status_params_def simp flip: map_append
        dest: holds_contents holds_wf)
qed

lemma send_simple_response_image:
  "send_simple_response cm True w cid errcode category index
     = Some (snd (cmsend cm w cid (status_image errcode category index)))"
proof -
  obtain r' where "simple_response fresh_record errcode category index = Some r'"
    "contents r' = Some (status_image errcode category index)"
    using simple_response_contents [OF fresh_record(2)] by blast
  then show ?thesis
    by (simp add: send_simple_response_def fresh_record(1) send_asuiterecord_def contents_def split: prod.split)
qed

text \<open>
  Every status the servers send with \<^verbatim>\<open>send_simple_response\<close> goes out as one record in the format
  of the protocol: major code 1, the return code, and for an error the category, the index and the
  text \<^verbatim>\<open>ERROR\<close>; nothing outside the record and no byte that was never written is sent.
\<close>

theorem simple_response_on_the_line:
  "send_simple_response cm True w cid errcode category index
     = Some (snd (cmsend cm w cid (status_image errcode category index)))"
  by (rule send_simple_response_image)

lemma htonl_middle:
  assumes "data < 256"
  shows "ucast (drop_bit 8 (htonl data AND 0xFF00)) = (0 :: byte)"
    "ucast (drop_bit 16 (htonl data AND 0xFF0000)) = (0 :: byte)"
proof -
  have "unat (drop_bit 8 data) = 0"
    using assms by (simp add: drop_bit_eq_div unat_div word_less_nat_alt)
  then have zero: "drop_bit 8 data = 0" by (simp add: unat_eq_zero)
  have b: "\<not> bit data n" if "8 \<le> n" for n
    using arg_cong [OF zero, of "\<lambda>x. bit x (n - 8)"] that by (simp add: bit_simps)
  have byte: "n \<in> {0,1,2,3,4,5,6,7}" if "n < LENGTH(8)" for n using that by (simp, arith)
  show "ucast (drop_bit 8 (htonl data AND 0xFF00)) = (0 :: byte)"
    by (rule bit_word_eqI, drule byte) (elim insertE; simp add: htonl_def bit_simps b)
  show "ucast (drop_bit 16 (htonl data AND 0xFF0000)) = (0 :: byte)"
    by (rule bit_word_eqI, drule byte) (elim insertE; simp add: htonl_def bit_simps b)
qed

text \<open>
  A four byte parameter throws its receiver off: its length field says 4, so the next parameter is
  looked for inside the number. When the middle bytes of the number are zero, as for every
  number below 256, that parameter has length 0 and the receiver's loop never returns, although every
  cell it reads was received.
\<close>

theorem fourbyte_parameter_hangs_receiver:
  assumes "holds r (map Some pre)" "length pre + 7 \<le> MAX_BUFFER_SIZE" "data < 256"
  shows "\<exists>r'. asuiterecord_append_fourbyte r key data = Some r' \<and> length pre + 7 = get_received_len r'
    \<and> get_param_len r' (length pre) = Some 4 \<and> get_param_len r' (length pre + 4) = Some 0
    \<and> param_loop (get_param_len r') (get_key r') body (get_received_len r') (length pre) s = None"
proof -
  let ?t = "htonl data"
  let ?bs = "[0, 4, key, ucast (?t AND 0xFF), ucast (drop_bit 8 (?t AND 0xFF00)),
    ucast (drop_bit 16 (?t AND 0xFF0000)), ucast (drop_bit 24 (?t AND 0xFF000000))] :: byte list"
  have four: "ucast (htons 4 AND 255) = (0 :: byte)" "ucast (drop_bit 8 (htons 4)) = (4 :: byte)"
    using htons_low_masked [of 4] htons_high [of 4] by simp_all
  have "asuiterecord_append_fourbyte r key data = put_bytes ?bs r"
    by (simp only: asuiterecord_append_fourbyte_def Let_def put_bytes_fun four bind_runit)
  then obtain r' where r': "asuiterecord_append_fourbyte r key data = Some r'" "holds r' (map Some (pre @ ?bs))"
    using put_bytes_holds [OF assms(1), of ?bs] assms(2) by auto
  note middle = htonl_middle [OF assms(3), simplified]
  note c = holds_contents [OF r'(2)]
  have cells: "get_cell (buffer r') (length pre + i) = Some (?bs ! i)" if "i < 7" for i
    using image_cell [of r' pre ?bs "[]" i] c that by simp
  have l4: "get_param_len r' (length pre) = Some 4"
    using cells [of 0] cells [of 1] by (simp add: get_param_len_def ntohs_bytes un_be16_def)
  have l0: "get_param_len r' (length pre + 4) = Some 0"
  proof -
    have "get_cell (buffer r') (length pre + 4) = Some 0" "get_cell (buffer r') (length pre + 5) = Some 0"
      using cells [of 4] cells [of 5] middle by simp_all
    moreover have "length pre + 4 + 1 = length pre + 5" by simp
    ultimately show ?thesis by (simp only: get_param_len_def) (simp add: ntohs_bytes un_be16_def)
  qed
  have len: "get_received_len r' = length pre + 7"
    using r'(2) by (simp add: holds_def get_received_len_def)
  have "param_loop (get_param_len r') (get_key r') body (get_received_len r') (length pre) s = None"
    using l4 len l0 param_loop_stuck [of "get_param_len r'" "length pre + 4" "get_received_len r'" "get_key r'" body]
    by (subst param_loop.simps) (auto split: bind_splits)
  with r'(1) l4 l0 len show ?thesis by simp
qed

theorem fourbyte_parameter_hangs_receiver_witness:
  "\<exists>r r'. build_record fresh_record 12 [] = Some r \<and> asuiterecord_append_fourbyte r 29 80 = Some r'
    \<and> param_loop (get_param_len r') (get_key r') (collect r') (get_received_len r') 2 [] = None"
proof -
  obtain r where r: "build_record fresh_record 12 [] = Some r" "wf_record r" "contents r = Some [0, 12]"
    using build_record_contents [OF fresh_record(2), of "[]" 12] by (auto simp: MAX_BUFFER_SIZE_def be16_def)
  have h: "holds r (map Some [0, 12])" using contents_holds [OF r(3,2)] .
  obtain r' where "asuiterecord_append_fourbyte r 29 80 = Some r'" "get_received_len r' = 9"
    using fourbyte_parameter_hangs_receiver [OF h, where data = 80 and key = 29 and body = "\<lambda>_ _ s. Some s" and s = "()"]
    by (auto simp: MAX_BUFFER_SIZE_def)
  then show ?thesis
    using fourbyte_parameter_hangs_receiver [OF h, where data = 80 and key = 29 and body = "collect r'" and s = "[]"] r(1)
    by (auto simp: MAX_BUFFER_SIZE_def) (simp add: numeral_2_eq_2)
qed

section \<open>The current directory\<close>

text \<open>
  \<^verbatim>\<open>safe_get_cwd\<close>. The parameter is \<^verbatim>\<open>getcwd(NULL, size)\<close>: the error number or the path. The counter of
  the retries is set to 1 and never changed. \<^term>\<open>Some None\<close> is the null pointer (\<open>ok\<close>: the
  final \<^verbatim>\<open>malloc\<close> succeeds), \<^term>\<open>None\<close> a call that does not return.
\<close>

definition CWD_CHUNK :: nat where "CWD_CHUNK = 64"

definition ERANGE :: int where "ERANGE = 34"

partial_function (option) cwd_loop ::
  "(nat \<Rightarrow> int + byte list) \<Rightarrow> nat \<Rightarrow> int + byte list \<Rightarrow> byte list option option" where
  "cwd_loop getcwd count result =
     (case result of
        Inl errno \<Rightarrow> if errno = ERANGE then cwd_loop getcwd count (getcwd (count * CWD_CHUNK)) else Some None
      | Inr path \<Rightarrow> Some (Some path))"

definition safe_get_cwd :: "(nat \<Rightarrow> int + byte list) \<Rightarrow> bool \<Rightarrow> byte list option option" where
  "safe_get_cwd getcwd ok = do {
     r \<leftarrow> cwd_loop getcwd 1 (getcwd CWD_CHUNK);
     Some (case r of None \<Rightarrow> None | Some path \<Rightarrow> if ok then Some (path @ [0x2F]) else None)
   }"

text \<open>\<^verbatim>\<open>getcwd\<close> as documented: the path if it fits with its terminator, else \<^verbatim>\<open>ERANGE\<close>.\<close>

definition getcwd_at :: "byte list \<Rightarrow> nat \<Rightarrow> int + byte list" where
  "getcwd_at path n = (if length path < n then Inr path else Inl ERANGE)"

lemma cwd_loop_returned:
  assumes "cwd_loop getcwd count result = Some y"
  shows "\<not> (getcwd (count * CWD_CHUNK) = Inl ERANGE \<and> result = Inl ERANGE)"
  by (rule cwd_loop.raw_induct [OF _ assms]) (auto split: sum.splits if_splits)

text \<open>
  The current directory is found exactly when its path is shorter than 64 bytes: then it is
  returned with a slash at its end; for every longer path the call never returns.
\<close>

theorem safe_get_cwd_returns_iff_short:
  "safe_get_cwd (getcwd_at path) True = (if length path < 64 then Some (Some (path @ [0x2F])) else None)"
proof (cases "length path < 64")
  case True
  then show ?thesis by (simp add: safe_get_cwd_def getcwd_at_def CWD_CHUNK_def cwd_loop.simps)
next
  case False
  then have "cwd_loop (getcwd_at path) 1 (Inl ERANGE) = None"
    using cwd_loop_returned [of "getcwd_at path" 1 "Inl ERANGE"]
    by (cases "cwd_loop (getcwd_at path) 1 (Inl ERANGE)") (auto simp: getcwd_at_def CWD_CHUNK_def)
  with False show ?thesis by (simp add: safe_get_cwd_def getcwd_at_def CWD_CHUNK_def)
qed

end
