(* ===== verification/Aftp_Client.thy ===== *)
theory Aftp_Client
  imports Asuite_Record
begin

text \<open>
  The file transfer library of the APPC suite (\<^verbatim>\<open>libasuite/libaftp.c\<close>): the table of sessions with
  its handles, the requests that change and query the server's directories, the transfer of files,
  and the settings of a session.

  An operation returns the value left in \<^verbatim>\<open>*rc\<close> (\<^term>\<open>None\<close>: it was not written), the values of its
  other results and the new state. \<^verbatim>\<open>unsigned long\<close> is \<^typ>\<open>nat\<close>.
\<close>

section \<open>Sessions\<close>

record ftpsession =
  symbolic :: bool
  destination :: cells
  mode_name :: cells
  tp_name :: cells
  conversation_ID :: "conv_id option"
  password :: cells
  userid :: cells
  sys_info :: cells
  rec :: asuiterecord
  alloc_size :: nat
  block_size :: nat
  data_type :: nat
  date_mode :: nat
  record_format :: nat
  record_length :: nat
  security_type :: nat
  write_mode :: nat
  status :: "byte option"
  primary_msg :: cells
  msg_category :: "nat option"
  msg_index :: "nat option"
  current_directory :: "byte list"

text \<open>
  The static variables of the library and the memory its sessions live in. A pointer in the table
  whose session was freed is not in the domain of the heap; using it is a fault.
\<close>

record aftp =
  ftp_handle_counter :: byte
  sessions :: "nat option list"
  heap :: "nat \<rightharpoonup> ftpsession"
  global_trace_file :: cells
  global_trace_level :: nat

definition MAX_FTP_SESSIONS :: nat where "MAX_FTP_SESSIONS = 20"
definition MSG_BUFFER_LENGTH :: nat where "MSG_BUFFER_LENGTH = 512"
definition MAX_FILE_NAME :: nat where "MAX_FILE_NAME = 128"
definition MAX_SYS_INFO :: nat where "MAX_SYS_INFO = 64"
definition CM_PLN_SIZE :: nat where "CM_PLN_SIZE = 17"
definition CM_SDN_SIZE :: nat where "CM_SDN_SIZE = 8"
definition CM_MN_SIZE :: nat where "CM_MN_SIZE = 8"
definition CM_TPN_SIZE :: nat where "CM_TPN_SIZE = 64"
definition AFTP_MODE_NAME_SIZE :: nat where "AFTP_MODE_NAME_SIZE = 8"
definition AFTP_PASSWORD_SIZE :: nat where "AFTP_PASSWORD_SIZE = 10"
definition AFTP_USERID_SIZE :: nat where "AFTP_USERID_SIZE = 10"
definition AFTP_TP_NAME_SIZE :: nat where "AFTP_TP_NAME_SIZE = 64"

lemmas aftp_sizes = MAX_FTP_SESSIONS_def MSG_BUFFER_LENGTH_def MAX_FILE_NAME_def MAX_SYS_INFO_def
  CM_PLN_SIZE_def CM_SDN_SIZE_def CM_MN_SIZE_def CM_TPN_SIZE_def AFTP_MODE_NAME_SIZE_def
  AFTP_PASSWORD_SIZE_def AFTP_USERID_SIZE_def AFTP_TP_NAME_SIZE_def

text \<open>Return codes, major codes and keys.\<close>

definition AFTP_RC_OK :: int where "AFTP_RC_OK = 0"
definition AFTP_RC_COMM_FAIL_NO_RETRY :: int where "AFTP_RC_COMM_FAIL_NO_RETRY = 1"
definition AFTP_RC_COMM_CONFIG_LOCAL :: int where "AFTP_RC_COMM_CONFIG_LOCAL = 3"
definition AFTP_RC_FAIL_INPUT_ERROR :: int where "AFTP_RC_FAIL_INPUT_ERROR = 6"
definition AFTP_RC_FAIL_FATAL :: int where "AFTP_RC_FAIL_FATAL = 9"
definition AFTP_RC_PROGRAM_INTERNAL_ERROR :: int where "AFTP_RC_PROGRAM_INTERNAL_ERROR = 10"
definition AFTP_RC_PARAMETER_CHECK :: int where "AFTP_RC_PARAMETER_CHECK = 11"
definition AFTP_RC_HANDLE_NOT_VALID :: int where "AFTP_RC_HANDLE_NOT_VALID = 12"
definition AFTP_RC_STATE_CHECK :: int where "AFTP_RC_STATE_CHECK = 13"

lemmas aftp_rcs = AFTP_RC_OK_def AFTP_RC_COMM_FAIL_NO_RETRY_def AFTP_RC_COMM_CONFIG_LOCAL_def
  AFTP_RC_FAIL_INPUT_ERROR_def AFTP_RC_FAIL_FATAL_def AFTP_RC_PROGRAM_INTERNAL_ERROR_def
  AFTP_RC_PARAMETER_CHECK_def AFTP_RC_HANDLE_NOT_VALID_def AFTP_RC_STATE_CHECK_def

definition AFTP_SIMPLE_RESPONSE :: byte where "AFTP_SIMPLE_RESPONSE = 1"
definition AFTP_QUERY_SYSTEM :: u16 where "AFTP_QUERY_SYSTEM = 2"
definition AFTP_LIST_REQUEST :: u16 where "AFTP_LIST_REQUEST = 3"
definition AFTP_LIST_ENTRY :: byte where "AFTP_LIST_ENTRY = 4"
definition AFTP_LIST_COMPLETE :: byte where "AFTP_LIST_COMPLETE = 5"
definition AFTP_CHANGE_DIR :: u16 where "AFTP_CHANGE_DIR = 6"
definition AFTP_QUERY_DIR :: u16 where "AFTP_QUERY_DIR = 7"
definition AFTP_CREATE_DIR :: u16 where "AFTP_CREATE_DIR = 8"
definition AFTP_REMOVE_DIR :: u16 where "AFTP_REMOVE_DIR = 9"
definition AFTP_DELETE :: u16 where "AFTP_DELETE = 10"
definition AFTP_RENAME :: u16 where "AFTP_RENAME = 11"
definition AFTP_SEND_FILE :: u16 where "AFTP_SEND_FILE = 12"
definition AFTP_REQUEST_FILE :: u16 where "AFTP_REQUEST_FILE = 13"
definition AFTP_FILE_DATA :: u16 where "AFTP_FILE_DATA = 14"
definition AFTP_FILE_COMPLETE :: u16 where "AFTP_FILE_COMPLETE = 15"
definition AFTP_TOWER_REQUEST :: u16 where "AFTP_TOWER_REQUEST = 16"
definition AFTP_CLOSE :: u16 where "AFTP_CLOSE = 18"

definition AFTP_STATUS_RETURN_CODE :: byte where "AFTP_STATUS_RETURN_CODE = 2"
definition AFTP_STATUS_CATEGORY_INDEX :: byte where "AFTP_STATUS_CATEGORY_INDEX = 4"
definition AFTP_STATUS_PRIMARY_MSG :: byte where "AFTP_STATUS_PRIMARY_MSG = 5"
definition AFTP_FILESPEC :: byte where "AFTP_FILESPEC = 17"
definition AFTP_NEW_FILESPEC :: byte where "AFTP_NEW_FILESPEC = 18"
definition AFTP_FILE_TYPE :: byte where "AFTP_FILE_TYPE = 19"
definition AFTP_INFO_LEVEL :: byte where "AFTP_INFO_LEVEL = 20"
definition AFTP_SYSTEM_INFO :: byte where "AFTP_SYSTEM_INFO = 23"
definition AFTP_DATA_TYPE :: byte where "AFTP_DATA_TYPE = 24"
definition AFTP_DATE_MODE :: byte where "AFTP_DATE_MODE = 25"
definition AFTP_RECORD_LENGTH :: byte where "AFTP_RECORD_LENGTH = 28"
definition AFTP_ALLOCATION_SIZE :: byte where "AFTP_ALLOCATION_SIZE = 29"
definition AFTP_BLOCK_SIZE :: byte where "AFTP_BLOCK_SIZE = 30"

lemmas aftp_codes = AFTP_SIMPLE_RESPONSE_def AFTP_LIST_ENTRY_def AFTP_LIST_COMPLETE_def
  AFTP_STATUS_RETURN_CODE_def AFTP_STATUS_CATEGORY_INDEX_def AFTP_STATUS_PRIMARY_MSG_def
  AFTP_FILESPEC_def AFTP_NEW_FILESPEC_def AFTP_SYSTEM_INFO_def AFTP_SEND_FILE_def AFTP_FILE_DATA_def
  AFTP_FILE_COMPLETE_def

section \<open>Handles\<close>

text \<open>
  \<open>on_session\<close> is the frame of the operations that check their handle:
  \<^verbatim>\<open>if( (index < MAX_FTP_SESSIONS) && (sessions[index] != NULL) ) ... else *rc = bad\<close>; \<open>deref\<close> is
  \<^verbatim>\<open>sessions[index]\<close> followed without a check.
\<close>

definition slot :: "aftp \<Rightarrow> byte \<Rightarrow> nat option" where
  "slot st index = (if unat index < MAX_FTP_SESSIONS then sessions st ! unat index else None)"

definition on_session ::
  "byte \<Rightarrow> int \<Rightarrow> 'o \<Rightarrow> (ftpsession \<Rightarrow> (int option \<times> 'o \<times> ftpsession) option) \<Rightarrow> aftp
   \<Rightarrow> (int option \<times> 'o \<times> aftp) option" where
  "on_session index bad out body st =
     (case slot st index of
        None \<Rightarrow> Some (Some bad, out, st)
      | Some p \<Rightarrow> do {
          s \<leftarrow> heap st p;
          (rc, out, s) \<leftarrow> body s;
          Some (rc, out, st\<lparr>heap := (heap st)(p \<mapsto> s)\<rparr>)
        })"

definition deref :: "aftp \<Rightarrow> byte \<Rightarrow> ftpsession option" where
  "deref st index = do {
     p \<leftarrow> peek (sessions st) (unat index);
     p \<leftarrow> p;
     heap st p
   }"

section \<open>Creating and destroying sessions\<close>

text \<open>The strings \<^verbatim>\<open>#BATCH\<close>, \<^verbatim>\<open>AFTPD\<close> and \<^verbatim>\<open>Linux\<close>.\<close>

definition DEFAULT_MODE_NAME :: "byte list" where "DEFAULT_MODE_NAME = [0x23, 0x42, 0x41, 0x54, 0x43, 0x48]"
definition DEFAULT_TP_NAME :: "byte list" where "DEFAULT_TP_NAME = [0x41, 0x46, 0x54, 0x50, 0x44]"
definition OS_NAME :: "byte list" where "OS_NAME = [0x4C, 0x69, 0x6E, 0x75, 0x78]"

text \<open>A fresh array holding a string: the rest was never written.\<close>

definition new_string :: "nat \<Rightarrow> byte list \<Rightarrow> cells" where
  "new_string n s = map Some s @ Some 0 # replicate (n - Suc (length s)) None"

definition new_session :: "asuiterecord \<Rightarrow> byte list \<Rightarrow> ftpsession" where
  "new_session new_record cwd =
     \<lparr>symbolic = True, destination = new_string (CM_PLN_SIZE + 1) [],
      mode_name = new_string (CM_MN_SIZE + 1) DEFAULT_MODE_NAME,
      tp_name = new_string (CM_TPN_SIZE + 1) DEFAULT_TP_NAME,
      conversation_ID = None,
      password = replicate (AFTP_PASSWORD_SIZE + 1) None,
      userid = replicate (AFTP_PASSWORD_SIZE + 1) None,
      sys_info = new_string MAX_SYS_INFO OS_NAME,
      rec = new_record, alloc_size = 0, block_size = 0, data_type = 0, date_mode = 0,
      record_format = 0, record_length = 0, security_type = 0, write_mode = 0, status = None,
      primary_msg = replicate (MSG_BUFFER_LENGTH + 1) None,
      msg_category = None, msg_index = None, current_directory = cwd\<rparr>"

text \<open>
  \<open>p\<close> is what \<^verbatim>\<open>malloc\<close> returns for the session, \<open>ok\<close> whether it finds room for the record and
  \<open>ok'\<close> for the path. Without a record the session is freed and then written to. Without a path the
  session is freed, yet its pointer stays in the table and the return code is still that of success.
  Also returned is the handle.
\<close>

definition aftp_create ::
  "(nat \<Rightarrow> int + byte list) \<Rightarrow> nat option \<Rightarrow> bool \<Rightarrow> bool \<Rightarrow> aftp \<Rightarrow> (int option \<times> byte option \<times> aftp) option" where
  "aftp_create getcwd p ok ok' st =
     (case p of
        None \<Rightarrow> Some (Some AFTP_RC_FAIL_FATAL, None, st)
      | Some p \<Rightarrow> do {
          table \<leftarrow> poke (sessions st) (unat (ftp_handle_counter st)) (Some p);
          new_record \<leftarrow> asuiterecord_new ok;
          cwd \<leftarrow> safe_get_cwd getcwd ok';
          let st' = st\<lparr>sessions := table, ftp_handle_counter := ftp_handle_counter st + 1\<rparr>;
          Some (Some AFTP_RC_OK, Some (ftp_handle_counter st),
                case cwd of
                  None \<Rightarrow> st'\<lparr>heap := (heap st)(p := None)\<rparr>
                | Some path \<Rightarrow> st'\<lparr>heap := (heap st)(p \<mapsto> new_session new_record path)\<rparr>)
        })"

definition aftp_destroy :: "byte \<Rightarrow> aftp \<Rightarrow> (int option \<times> aftp) option" where
  "aftp_destroy index st =
     (case slot st index of
        None \<Rightarrow> Some (Some AFTP_RC_HANDLE_NOT_VALID, st)
      | Some p \<Rightarrow> do {
          s \<leftarrow> heap st p;
          Some (Some AFTP_RC_OK, st\<lparr>heap := (heap st)(p := None)\<rparr>)
        })"

section \<open>Requests and replies\<close>

text \<open>Sending the session's record and receiving the answer into it, with the two early returns.\<close>

definition exchange :: "'w cpic \<Rightarrow> 'w \<Rightarrow> ftpsession \<Rightarrow> (int \<times> ftpsession \<times> 'w) option" where
  "exchange cm w s = do {
     cid \<leftarrow> conversation_ID s;
     (ftp_rc, w) \<leftarrow> send_asuiterecord cm w cid (rec s);
     if ftp_rc \<noteq> AFTP_RC_OK then Some (ftp_rc, s, w)
     else do {
       (ftp_rc, r, w) \<leftarrow> get_asuiterecord cm w cid (rec s);
       Some (ftp_rc, s\<lparr>rec := r\<rparr>, w)
     }
   }"

text \<open>\<^verbatim>\<open>switch(major_code) { case code: do ... while(curpos < bound); break; default: ; }\<close>\<close>

definition parse_reply ::
  "byte \<Rightarrow> nat \<Rightarrow> (byte \<Rightarrow> nat \<Rightarrow> 'a \<Rightarrow> 'a option) \<Rightarrow> ftpsession \<Rightarrow> 'a \<Rightarrow> 'a option" where
  "parse_reply code bound body s a = do {
     major_code \<leftarrow> get_major_code (rec s);
     if major_code = code then param_loop (get_param_len (rec s)) (get_key (rec s)) body bound 2 a
     else Some a
   }"

definition set_primary_msg :: "ftpsession \<Rightarrow> nat \<Rightarrow> ftpsession option" where
  "set_primary_msg session curpos = do {
     m \<leftarrow> strncpy_to (primary_msg session) 0 (drop (curpos + 3) (buffer (rec session))) MSG_BUFFER_LENGTH;
     Some (session\<lparr>primary_msg := m\<rparr>)
   }"

definition set_category :: "ftpsession \<Rightarrow> nat \<Rightarrow> ftpsession option" where
  "set_category session curpos = do {
     c \<leftarrow> get_cat_index (rec session) (curpos + 3);
     i \<leftarrow> get_cat_index (rec session) (curpos + 5);
     Some (session\<lparr>msg_category := Some c, msg_index := Some i\<rparr>)
   }"

definition set_status :: "ftpsession \<Rightarrow> nat \<Rightarrow> ftpsession option" where
  "set_status session curpos = do {
     b \<leftarrow> get_cell (buffer (rec session)) (curpos + 3);
     Some (session\<lparr>status := Some b\<rparr>)
   }"

text \<open>The switch of \<^verbatim>\<open>aftp_remove_dir\<close> and \<^verbatim>\<open>aftp_rename\<close>, that of \<^verbatim>\<open>aftp_create_dir\<close>, and that of
  \<^verbatim>\<open>aftp_change_dir\<close>, where the category falls through to the message.\<close>

fun status_body :: "byte \<Rightarrow> nat \<Rightarrow> int \<times> ftpsession \<Rightarrow> (int \<times> ftpsession) option" where
  "status_body key curpos (rc, s) =
     (if key = AFTP_STATUS_RETURN_CODE then do { s \<leftarrow> set_status s curpos; Some (rc, s) }
      else if key = AFTP_STATUS_CATEGORY_INDEX then do { s \<leftarrow> set_category s curpos; Some (AFTP_RC_FAIL_FATAL, s) }
      else if key = AFTP_STATUS_PRIMARY_MSG then do { s \<leftarrow> set_primary_msg s curpos; Some (rc, s) }
      else Some (rc, s))"

fun create_dir_body :: "byte \<Rightarrow> nat \<Rightarrow> int \<times> ftpsession \<Rightarrow> (int \<times> ftpsession) option" where
  "create_dir_body key curpos (rc, s) =
     (if key = AFTP_STATUS_RETURN_CODE then Some (rc, s)
      else if key = AFTP_STATUS_CATEGORY_INDEX then do { s \<leftarrow> set_category s curpos; Some (AFTP_RC_FAIL_FATAL, s) }
      else if key = AFTP_STATUS_PRIMARY_MSG then do { s \<leftarrow> set_primary_msg s curpos; Some (rc, s) }
      else Some (rc, s))"

fun change_dir_body :: "byte \<Rightarrow> nat \<Rightarrow> int \<times> ftpsession \<Rightarrow> (int \<times> ftpsession) option" where
  "change_dir_body key curpos (rc, s) =
     (if key = AFTP_STATUS_RETURN_CODE then Some (rc, s)
      else if key = AFTP_STATUS_CATEGORY_INDEX then do {
        s \<leftarrow> set_category s curpos;
        s \<leftarrow> set_primary_msg s curpos;
        Some (AFTP_RC_FAIL_FATAL, s)
      }
      else if key = AFTP_STATUS_PRIMARY_MSG then do { s \<leftarrow> set_primary_msg s curpos; Some (rc, s) }
      else Some (rc, s))"

section \<open>Directories and files of the server\<close>

text \<open>\<open>directory\<close>, \<open>filename\<close>, \<open>filespec\<close>: the array behind the pointer argument.\<close>

definition aftp_change_dir ::
  "'w cpic \<Rightarrow> byte \<Rightarrow> cells \<Rightarrow> nat \<Rightarrow> 'w \<Rightarrow> aftp \<Rightarrow> (int option \<times> 'w \<times> aftp) option" where
  "aftp_change_dir cm index directory len w = on_session index AFTP_RC_HANDLE_NOT_VALID w (\<lambda>s. do {
     r \<leftarrow> asuiterecord_settype (asuiterecord_clear (rec s)) AFTP_CHANGE_DIR;
     r \<leftarrow> asuiterecord_append r AFTP_FILESPEC directory (len + 1);
     (ftp_rc, s, w) \<leftarrow> exchange cm w (s\<lparr>rec := r\<rparr>);
     if ftp_rc \<noteq> AFTP_RC_OK then Some (Some ftp_rc, w, s)
     else do {
       (rc, s) \<leftarrow> parse_reply AFTP_SIMPLE_RESPONSE len change_dir_body s (AFTP_RC_OK, s);
       Some (Some rc, w, s)
     }
   })"

definition aftp_create_dir ::
  "'w cpic \<Rightarrow> byte \<Rightarrow> cells \<Rightarrow> nat \<Rightarrow> 'w \<Rightarrow> aftp \<Rightarrow> (int option \<times> 'w \<times> aftp) option" where
  "aftp_create_dir cm index directory len w = on_session index AFTP_RC_HANDLE_NOT_VALID w (\<lambda>s. do {
     r \<leftarrow> asuiterecord_settype (asuiterecord_clear (rec s)) AFTP_CREATE_DIR;
     r \<leftarrow> asuiterecord_append r AFTP_FILESPEC directory (len + 1);
     (ftp_rc, s, w) \<leftarrow> exchange cm w (s\<lparr>rec := r\<rparr>);
     if ftp_rc \<noteq> AFTP_RC_OK then Some (Some ftp_rc, w, s)
     else do {
       (rc, s) \<leftarrow> parse_reply AFTP_SIMPLE_RESPONSE len create_dir_body s (AFTP_RC_OK, s);
       Some (Some rc, w, s)
     }
   })"

definition aftp_delete ::
  "'w cpic \<Rightarrow> byte \<Rightarrow> cells \<Rightarrow> nat \<Rightarrow> 'w \<Rightarrow> aftp \<Rightarrow> (int option \<times> 'w \<times> aftp) option" where
  "aftp_delete cm index filename len w = on_session index AFTP_RC_HANDLE_NOT_VALID w (\<lambda>s. do {
     r \<leftarrow> asuiterecord_settype (asuiterecord_clear (rec s)) AFTP_DELETE;
     r \<leftarrow> asuiterecord_append r AFTP_FILESPEC filename (len + 1);
     (ftp_rc, s, w) \<leftarrow> exchange cm w (s\<lparr>rec := r\<rparr>);
     if ftp_rc \<noteq> AFTP_RC_OK then Some (Some ftp_rc, w, s)
     else do {
       u \<leftarrow> parse_reply AFTP_SIMPLE_RESPONSE (get_received_len (rec s)) (\<lambda>key curpos u. Some u) s ();
       Some (Some ftp_rc, w, s)
     }
   })"

definition aftp_remove_dir ::
  "'w cpic \<Rightarrow> byte \<Rightarrow> cells \<Rightarrow> nat \<Rightarrow> 'w \<Rightarrow> aftp \<Rightarrow> (int option \<times> 'w \<times> aftp) option" where
  "aftp_remove_dir cm index directory len w = on_session index AFTP_RC_FAIL_FATAL w (\<lambda>s. do {
     r \<leftarrow> asuiterecord_settype (asuiterecord_clear (rec s)) AFTP_REMOVE_DIR;
     r \<leftarrow> asuiterecord_append r AFTP_FILESPEC directory (len + 1);
     (ftp_rc, s, w) \<leftarrow> exchange cm w (s\<lparr>rec := r\<rparr>);
     if ftp_rc \<noteq> AFTP_RC_OK then Some (Some ftp_rc, w, s)
     else do {
       (rc, s) \<leftarrow> parse_reply AFTP_SIMPLE_RESPONSE (get_received_len (rec s)) status_body s (AFTP_RC_OK, s);
       Some (Some rc, w, s)
     }
   })"

definition aftp_rename ::
  "'w cpic \<Rightarrow> byte \<Rightarrow> cells \<Rightarrow> nat \<Rightarrow> cells \<Rightarrow> nat \<Rightarrow> 'w \<Rightarrow> aftp \<Rightarrow> (int option \<times> 'w \<times> aftp) option" where
  "aftp_rename cm index oldfile oldlength newfile newlength w = on_session index AFTP_RC_FAIL_FATAL w (\<lambda>s. do {
     r \<leftarrow> asuiterecord_settype (asuiterecord_clear (rec s)) AFTP_RENAME;
     r \<leftarrow> asuiterecord_append r AFTP_FILESPEC oldfile (oldlength + 1);
     r \<leftarrow> asuiterecord_append r AFTP_NEW_FILESPEC newfile (newlength + 1);
     (ftp_rc, s, w) \<leftarrow> exchange cm w (s\<lparr>rec := r\<rparr>);
     if ftp_rc \<noteq> AFTP_RC_OK then Some (Some ftp_rc, w, s)
     else do {
       (rc, s) \<leftarrow> parse_reply AFTP_SIMPLE_RESPONSE (get_received_len (rec s)) status_body s (AFTP_RC_OK, s);
       Some (Some rc, w, s)
     }
   })"

text \<open>
  A string parameter copied into an array of the caller, and its length there
  (\<^verbatim>\<open>strncpy(out, &buffer[curpos+3], size); *returned_length = strlen(out);\<close>).
\<close>

definition take_string :: "ftpsession \<Rightarrow> nat \<Rightarrow> cells \<Rightarrow> nat \<Rightarrow> (cells \<times> nat) option" where
  "take_string s curpos out n = do {
     out \<leftarrow> strncpy_to out 0 (drop (curpos + 3) (buffer (rec s))) n;
     str \<leftarrow> c_str out;
     Some (out, length str)
   }"

fun dir_open_body ::
  "nat \<Rightarrow> byte \<Rightarrow> nat \<Rightarrow> int \<times> ftpsession \<times> cells \<times> nat option
   \<Rightarrow> (int \<times> ftpsession \<times> cells \<times> nat option) option" where
  "dir_open_body path_buffer_length key curpos (rc, s, path, n) =
     (if key = AFTP_STATUS_RETURN_CODE then do { s \<leftarrow> set_status s curpos; Some (rc, s, path, n) }
      else if key = AFTP_FILESPEC then do {
        (path, l) \<leftarrow> take_string s curpos path path_buffer_length;
        Some (rc, s, path, Some l)
      }
      else if key = AFTP_STATUS_CATEGORY_INDEX then do {
        s \<leftarrow> set_category s curpos;
        Some (AFTP_RC_FAIL_FATAL, s, path, n)
      }
      else if key = AFTP_STATUS_PRIMARY_MSG then do { s \<leftarrow> set_primary_msg s curpos; Some (rc, s, path, n) }
      else Some (rc, s, path, n))"

text \<open>The results of the two calls that fill an array of the caller: the array and the length, if written.\<close>

definition aftp_dir_open ::
  "'w cpic \<Rightarrow> byte \<Rightarrow> cells \<Rightarrow> nat \<Rightarrow> nat \<Rightarrow> nat \<Rightarrow> cells \<Rightarrow> nat \<Rightarrow> 'w \<Rightarrow> aftp
   \<Rightarrow> (int option \<times> ('w \<times> cells \<times> nat option) \<times> aftp) option" where
  "aftp_dir_open cm index filespec len file_type info_level path path_buffer_length w =
     on_session index AFTP_RC_FAIL_FATAL (w, path, None) (\<lambda>s. do {
       r \<leftarrow> asuiterecord_settype (asuiterecord_clear (rec s)) AFTP_LIST_REQUEST;
       r \<leftarrow> asuiterecord_append r AFTP_FILESPEC filespec (len + 1);
       r \<leftarrow> asuiterecord_append_char r AFTP_FILE_TYPE (of_nat file_type);
       r \<leftarrow> asuiterecord_append_char r AFTP_INFO_LEVEL (of_nat info_level);
       (ftp_rc, s, w) \<leftarrow> exchange cm w (s\<lparr>rec := r\<rparr>);
       if ftp_rc \<noteq> AFTP_RC_OK then Some (Some ftp_rc, (w, path, None), s)
       else do {
         (rc, s, path, n) \<leftarrow> parse_reply AFTP_SIMPLE_RESPONSE (get_received_len (rec s))
           (dir_open_body path_buffer_length) s (AFTP_RC_OK, s, path, None);
         Some (Some rc, (w, path, n), s)
       }
     })"

text \<open>\<^verbatim>\<open>aftp_dir_read\<close> only receives. Its results: the entry, its length and \<^verbatim>\<open>*no_more_entries\<close>, as far as written.\<close>

fun dir_read_body ::
  "nat \<Rightarrow> byte \<Rightarrow> nat \<Rightarrow> int \<times> ftpsession \<times> cells \<times> nat option \<times> bool option
   \<Rightarrow> (int \<times> ftpsession \<times> cells \<times> nat option \<times> bool option) option" where
  "dir_read_body dir_entry_size key curpos (rc, s, dir_entry, n, no_more) =
     (if key = AFTP_STATUS_RETURN_CODE then Some (rc, s, dir_entry, n, no_more)
      else if key = AFTP_FILESPEC then do {
        (dir_entry, l) \<leftarrow> take_string s curpos dir_entry dir_entry_size;
        Some (rc, s, dir_entry, Some l, Some False)
      }
      else if key = AFTP_STATUS_CATEGORY_INDEX then do {
        s \<leftarrow> set_category s curpos;
        Some (AFTP_RC_FAIL_FATAL, s, dir_entry, n, no_more)
      }
      else if key = AFTP_STATUS_PRIMARY_MSG then do {
        s \<leftarrow> set_primary_msg s curpos;
        Some (rc, s, dir_entry, n, no_more)
      }
      else Some (rc, s, dir_entry, n, no_more))"

definition aftp_dir_read ::
  "'w cpic \<Rightarrow> byte \<Rightarrow> cells \<Rightarrow> nat \<Rightarrow> 'w \<Rightarrow> aftp
   \<Rightarrow> (int option \<times> ('w \<times> cells \<times> nat option \<times> bool option) \<times> aftp) option" where
  "aftp_dir_read cm index dir_entry dir_entry_size w =
     on_session index AFTP_RC_HANDLE_NOT_VALID (w, dir_entry, None, None) (\<lambda>s. do {
       cid \<leftarrow> conversation_ID s;
       (ftp_rc, r, w) \<leftarrow> get_asuiterecord cm w cid (rec s);
       let s = s\<lparr>rec := r\<rparr>;
       if ftp_rc \<noteq> AFTP_RC_OK then Some (Some ftp_rc, (w, dir_entry, None, None), s)
       else do {
         (rc, s, dir_entry, n, no_more) \<leftarrow> parse_reply AFTP_LIST_ENTRY (get_received_len (rec s))
           (dir_read_body dir_entry_size) s (AFTP_RC_OK, s, dir_entry, None, None);
         major_code \<leftarrow> get_major_code (rec s);
         Some (Some rc, (w, dir_entry, n, if major_code = AFTP_LIST_COMPLETE then Some True else no_more), s)
       }
     })"

definition aftp_dir_close :: "byte \<Rightarrow> int option" where
  "aftp_dir_close index = Some AFTP_RC_OK"

text \<open>The two queries: one string parameter, and the return code of the receiving call.\<close>

fun query_body ::
  "byte \<Rightarrow> nat \<Rightarrow> ftpsession \<Rightarrow> byte \<Rightarrow> nat \<Rightarrow> cells \<times> nat option \<Rightarrow> (cells \<times> nat option) option" where
  "query_body wanted n s key curpos (out, l) =
     (if key = wanted then do { (out, l) \<leftarrow> take_string s curpos out n; Some (out, Some l) }
      else Some (out, l))"

definition aftp_query_current_dir ::
  "'w cpic \<Rightarrow> byte \<Rightarrow> cells \<Rightarrow> nat \<Rightarrow> 'w \<Rightarrow> aftp \<Rightarrow> (int option \<times> ('w \<times> cells \<times> nat option) \<times> aftp) option" where
  "aftp_query_current_dir cm index directory directory_size w =
     on_session index AFTP_RC_HANDLE_NOT_VALID (w, directory, None) (\<lambda>s. do {
       r \<leftarrow> asuiterecord_settype (asuiterecord_clear (rec s)) AFTP_QUERY_DIR;
       (ftp_rc, s, w) \<leftarrow> exchange cm w (s\<lparr>rec := r\<rparr>);
       if ftp_rc \<noteq> AFTP_RC_OK then Some (Some ftp_rc, (w, directory, None), s)
       else do {
         (directory, n) \<leftarrow> parse_reply AFTP_SIMPLE_RESPONSE (get_received_len (rec s))
           (query_body AFTP_FILESPEC directory_size s) s (directory, None);
         Some (Some ftp_rc, (w, directory, n), s)
       }
     })"

definition aftp_query_system_info ::
  "'w cpic \<Rightarrow> byte \<Rightarrow> cells \<Rightarrow> nat \<Rightarrow> 'w \<Rightarrow> aftp \<Rightarrow> (int option \<times> ('w \<times> cells \<times> nat option) \<times> aftp) option" where
  "aftp_query_system_info cm index system_info system_info_size w =
     on_session index AFTP_RC_HANDLE_NOT_VALID (w, system_info, None) (\<lambda>s. do {
       r \<leftarrow> asuiterecord_settype (asuiterecord_clear (rec s)) AFTP_QUERY_SYSTEM;
       (ftp_rc, s, w) \<leftarrow> exchange cm w (s\<lparr>rec := r\<rparr>);
       if ftp_rc \<noteq> AFTP_RC_OK then Some (Some ftp_rc, (w, system_info, None), s)
       else do {
         (system_info, n) \<leftarrow> parse_reply AFTP_SIMPLE_RESPONSE (get_received_len (rec s))
           (query_body AFTP_SYSTEM_INFO system_info_size s) s (system_info, None);
         Some (Some ftp_rc, (w, system_info, n), s)
       }
     })"

section \<open>The conversation with the server\<close>

definition aftp_connect :: "'w cpic \<Rightarrow> byte \<Rightarrow> 'w \<Rightarrow> aftp \<Rightarrow> (int option \<times> 'w \<times> aftp) option" where
  "aftp_connect cm index w = on_session index AFTP_RC_HANDLE_NOT_VALID w (\<lambda>s. do {
     dest \<leftarrow> c_str (destination s);
     if length dest = 0 then Some (Some AFTP_RC_STATE_CHECK, w, s)
     else
       let (cm_rc, cid, w) = cminit cm w (if symbolic s then dest else replicate CM_SDN_SIZE 0x20) in
       if cm_rc \<noteq> CM_OK then Some (Some AFTP_RC_COMM_CONFIG_LOCAL, w, s)
       else do {
         let s = s\<lparr>conversation_ID := Some cid\<rparr>;
         (ok, w) \<leftarrow>
           (if symbolic s then Some (True, w)
            else
              let (cm_rc, w) = cmspln cm w cid dest in
              if cm_rc \<noteq> CM_OK then Some (False, w)
              else do {
                mode \<leftarrow> c_str (mode_name s);
                let (cm_rc, w) = cmsmn cm w cid mode;
                if cm_rc \<noteq> CM_OK then Some (False, w)
                else do {
                  tp \<leftarrow> c_str (tp_name s);
                  let (cm_rc, w) = cmstpn cm w cid tp;
                  Some (cm_rc = CM_OK, w)
                }
              });
         if \<not> ok then Some (Some AFTP_RC_PARAMETER_CHECK, w, s)
         else
           let (cm_rc, w) = cmallc cm w cid in
           if cm_rc \<noteq> CM_OK then Some (Some AFTP_RC_COMM_FAIL_NO_RETRY, w, s)
           else do {
             r \<leftarrow> asuiterecord_settype (rec s) AFTP_TOWER_REQUEST;
             (ftp_rc, s, w) \<leftarrow> exchange cm w (s\<lparr>rec := r\<rparr>);
             Some (Some (if ftp_rc \<noteq> AFTP_RC_OK then ftp_rc else AFTP_RC_OK), w, s)
           }
       }
   })"

definition aftp_close :: "'w cpic \<Rightarrow> byte \<Rightarrow> 'w \<Rightarrow> aftp \<Rightarrow> (int option \<times> 'w \<times> aftp) option" where
  "aftp_close cm index w = on_session index AFTP_RC_HANDLE_NOT_VALID w (\<lambda>s. do {
     r \<leftarrow> asuiterecord_settype (asuiterecord_clear (rec s)) AFTP_CLOSE;
     let s = s\<lparr>rec := r\<rparr>;
     cid \<leftarrow> conversation_ID s;
     (ftp_rc, w) \<leftarrow> send_asuiterecord cm w cid (rec s);
     if ftp_rc \<noteq> AFTP_RC_OK then Some (Some ftp_rc, w, s)
     else
       let (ftp_rc, w) = cmdeal cm w cid in
       Some (Some (if ftp_rc \<noteq> CM_OK then AFTP_RC_FAIL_FATAL else AFTP_RC_OK), w, s)
   })"

section \<open>Transfer of files\<close>

text \<open>An \<^verbatim>\<open>unsigned long\<close> passed as an \<^verbatim>\<open>int\<close>.\<close>

definition c_int :: "nat \<Rightarrow> int" where
  "c_int n = sint (of_nat n :: u32)"

text \<open>
  The local file of \<^verbatim>\<open>aftp_receive_file\<close>: what it holds, the position of the descriptor, and what the next calls of \<^verbatim>\<open>write\<close> return; when
  these answers are used up, a write takes everything. The file is opened without truncating it, so at first it holds what it held before.
\<close>

record out_file =
  of_bytes :: "byte list"
  of_at :: nat
  of_answers :: "int list"

definition write_at :: "byte list \<Rightarrow> nat \<Rightarrow> byte list \<Rightarrow> byte list" where
  "write_at file off data = take off file @ data @ drop (off + length data) file"

text \<open>\<^verbatim>\<open>write\<close>: it stores as many bytes as it returns, none when it fails.\<close>

definition taken_of :: "int list \<Rightarrow> byte list \<Rightarrow> byte list" where
  "taken_of answers data = (case answers of [] \<Rightarrow> data | n # _ \<Rightarrow> take (nat n) data)"

definition file_write :: "byte list \<Rightarrow> out_file \<Rightarrow> out_file" where
  "file_write data f =
     (let stored = taken_of (of_answers f) data in
      f\<lparr>of_bytes := write_at (of_bytes f) (of_at f) stored, of_at := of_at f + length stored, of_answers := tl (of_answers f)\<rparr>)"

text \<open>
  The loop over a status record in the middle of a transfer: a parameter other than the return code
  ends the transfer with an input error (\<^term>\<open>True\<close>).
\<close>

partial_function (option) simple_loop ::
  "(nat \<Rightarrow> nat option) \<Rightarrow> (nat \<Rightarrow> byte option) \<Rightarrow> nat \<Rightarrow> nat \<Rightarrow> bool option" where
  "simple_loop plen pkey bound curpos = do {
     param_len \<leftarrow> plen curpos;
     key \<leftarrow> pkey curpos;
     if key \<noteq> AFTP_STATUS_RETURN_CODE then Some True
     else if curpos + param_len < bound then simple_loop plen pkey bound (curpos + param_len)
     else Some False
   }"

text \<open>
  The loop of \<^verbatim>\<open>aftp_receive_file\<close>, which does not look at what \<^verbatim>\<open>write\<close> returns. A data record shorter than its major code makes the length of the
  write wrap around, a fault.
\<close>

partial_function (option) receive_loop ::
  "'w cpic \<Rightarrow> conv_id \<Rightarrow> 'w \<Rightarrow> ftpsession \<Rightarrow> out_file \<Rightarrow> (int option \<times> ('w \<times> out_file) \<times> ftpsession) option" where
  "receive_loop cm cid w s file = do {
     (ftp_rc, r, w) \<leftarrow> get_asuiterecord cm w cid (asuiterecord_clear (rec s));
     let s = s\<lparr>rec := r\<rparr>;
     if ftp_rc \<noteq> AFTP_RC_OK then Some (Some ftp_rc, (w, file), s)
     else do {
       major_code \<leftarrow> get_major_code r;
       if major_code = AFTP_SIMPLE_RESPONSE then do {
         stop \<leftarrow> simple_loop (get_param_len r) (get_key r) (get_received_len r) 2;
         if stop then Some (Some AFTP_RC_FAIL_INPUT_ERROR, (w, file), s)
         else receive_loop cm cid w s file
       }
       else if major_code = ucast AFTP_SEND_FILE then do {
         u \<leftarrow> param_loop (get_param_len r) (get_key r) (\<lambda>key curpos u. Some u) (get_received_len r) 2 ();
         receive_loop cm cid w s file
       }
       else if major_code = ucast AFTP_FILE_DATA then
         if get_received_len r < 2 then None
         else do {
           data \<leftarrow> get_bytes (drop 2 (buffer r)) (get_received_len r - 2);
           receive_loop cm cid w s (file_write data file)
         }
       else if major_code = ucast AFTP_FILE_COMPLETE then Some (Some ftp_rc, (w, file), s)
       else receive_loop cm cid w s file
     }
   }"

definition aftp_receive_file ::
  "'w cpic \<Rightarrow> byte \<Rightarrow> cells \<Rightarrow> nat \<Rightarrow> cells \<Rightarrow> nat \<Rightarrow> out_file option \<Rightarrow> 'w \<Rightarrow> aftp
   \<Rightarrow> (int option \<times> ('w \<times> out_file option) \<times> aftp) option" where
  "aftp_receive_file cm index local_file local_file_length remote_file remote_file_length old w =
     on_session index AFTP_RC_FAIL_FATAL (w, old) (\<lambda>s.
       case old of
         None \<Rightarrow> Some (Some AFTP_RC_FAIL_FATAL, (w, None), s)
       | Some file \<Rightarrow> do {
           r \<leftarrow> asuiterecord_settype (asuiterecord_clear (rec s)) AFTP_REQUEST_FILE;
           r \<leftarrow> asuiterecord_append r AFTP_FILESPEC remote_file (remote_file_length + 1);
           r \<leftarrow> asuiterecord_append r AFTP_NEW_FILESPEC local_file (local_file_length + 1);
           r \<leftarrow> asuiterecord_append_char r AFTP_DATA_TYPE (of_nat (data_type s));
           r \<leftarrow> (if block_size s > 0 then asuiterecord_append_twobyte r AFTP_BLOCK_SIZE (c_int (block_size s)) []
                else Some r);
           let s = s\<lparr>rec := r\<rparr>;
           cid \<leftarrow> conversation_ID s;
           (ftp_rc, w) \<leftarrow> send_asuiterecord cm w cid r;
           if ftp_rc \<noteq> AFTP_RC_OK then Some (Some ftp_rc, (w, Some file), s)
           else do {
             (rc, (w, file), s) \<leftarrow> receive_loop cm cid w s file;
             Some (rc, (w, Some file), s)
           }
         })"

text \<open>
  The loop of \<^verbatim>\<open>aftp_send_file\<close> over the results of \<^verbatim>\<open>read\<close> (\<^term>\<open>None\<close>: an error, which returns -1 and
  moves the position back by one; at the end of the list \<^verbatim>\<open>read\<close> returns 0). It returns the failure of a
  send, if there was one.
\<close>

fun send_loop ::
  "'w cpic \<Rightarrow> conv_id \<Rightarrow> byte list option list \<Rightarrow> 'w \<Rightarrow> asuiterecord \<Rightarrow> (int option \<times> 'w \<times> asuiterecord) option" where
  "send_loop cm cid [] w r = Some (None, w, r)"
| "send_loop cm cid (None # reads) w r = Some (None, w, r\<lparr>position := position r - 1\<rparr>)"
| "send_loop cm cid (Some data # reads) w r = do {
     m \<leftarrow> poke_block (buffer r) (position r) (map Some data);
     let r = r\<lparr>buffer := m, position := position r + length data\<rparr>;
     if data = [] then Some (None, w, r)
     else do {
       (ftp_rc, w) \<leftarrow> send_asuiterecord cm w cid r;
       if ftp_rc \<noteq> AFTP_RC_OK then Some (Some ftp_rc, w, r)
       else send_loop cm cid reads w (asuiterecord_clear r)
     }
   }"

text \<open>The request that announces a file. The sizes are passed as the count of a call without arguments.\<close>

definition send_request ::
  "cells \<Rightarrow> nat \<Rightarrow> cells \<Rightarrow> nat \<Rightarrow> ftpsession \<Rightarrow> asuiterecord option" where
  "send_request local_file local_file_length remote_file remote_file_length s = do {
     r \<leftarrow> asuiterecord_settype (asuiterecord_clear (rec s)) AFTP_SEND_FILE;
     r \<leftarrow> asuiterecord_append r AFTP_FILESPEC local_file (local_file_length + 1);
     r \<leftarrow> asuiterecord_append r AFTP_NEW_FILESPEC remote_file (remote_file_length + 1);
     r \<leftarrow> asuiterecord_append_char r AFTP_DATA_TYPE (of_nat (data_type s));
     r \<leftarrow> (if alloc_size s > 0 then asuiterecord_append_fourbyte r AFTP_ALLOCATION_SIZE (of_nat (alloc_size s))
          else Some r);
     r \<leftarrow> (if block_size s > 0 then asuiterecord_append_twobyte r AFTP_BLOCK_SIZE (c_int (block_size s)) []
          else Some r);
     r \<leftarrow> (if record_length s > 0 then asuiterecord_append_twobyte r AFTP_RECORD_LENGTH (c_int (record_length s)) []
          else Some r);
     asuiterecord_append_char r AFTP_DATE_MODE (of_nat (date_mode s))
   }"

definition aftp_send_file ::
  "'w cpic \<Rightarrow> byte \<Rightarrow> cells \<Rightarrow> nat \<Rightarrow> cells \<Rightarrow> nat \<Rightarrow> byte list option list option \<Rightarrow> 'w \<Rightarrow> aftp
   \<Rightarrow> (int option \<times> 'w \<times> aftp) option" where
  "aftp_send_file cm index local_file local_file_length remote_file remote_file_length source w =
     on_session index AFTP_RC_FAIL_FATAL w (\<lambda>s.
       case source of
         None \<Rightarrow> Some (Some AFTP_RC_FAIL_FATAL, w, s)
       | Some reads \<Rightarrow> do {
           r \<leftarrow> send_request local_file local_file_length remote_file remote_file_length s;
           cid \<leftarrow> conversation_ID s;
           (ftp_rc, w) \<leftarrow> send_asuiterecord cm w cid r;
           if ftp_rc \<noteq> AFTP_RC_OK then Some (Some ftp_rc, w, s\<lparr>rec := r\<rparr>)
           else do {
             r \<leftarrow> asuiterecord_settype (asuiterecord_clear r) AFTP_FILE_DATA;
             (failed, w, r) \<leftarrow> send_loop cm cid reads w r;
             case failed of
               Some ftp_rc \<Rightarrow> Some (Some ftp_rc, w, s\<lparr>rec := r\<rparr>)
             | None \<Rightarrow> do {
                 r \<leftarrow> asuiterecord_settype r AFTP_FILE_COMPLETE;
                 (ftp_rc, s, w) \<leftarrow> exchange cm w (s\<lparr>rec := asuiterecord_clear r\<rparr>);
                 if ftp_rc \<noteq> AFTP_RC_OK then Some (Some ftp_rc, w, s)
                 else do {
                   u \<leftarrow> parse_reply AFTP_SIMPLE_RESPONSE (get_received_len (rec s)) (\<lambda>key curpos u. Some u) s ();
                   Some (Some ftp_rc, w, s)
                 }
               }
           }
         })"

section \<open>Settings of a session\<close>

definition aftp_set_allocation_size :: "byte \<Rightarrow> nat \<Rightarrow> aftp \<Rightarrow> (int option \<times> unit \<times> aftp) option" where
  "aftp_set_allocation_size index allocation_size = on_session index AFTP_RC_HANDLE_NOT_VALID ()
     (\<lambda>s. Some (Some AFTP_RC_OK, (), s\<lparr>alloc_size := allocation_size\<rparr>))"

definition aftp_set_block_size :: "byte \<Rightarrow> nat \<Rightarrow> aftp \<Rightarrow> (int option \<times> unit \<times> aftp) option" where
  "aftp_set_block_size index n = on_session index AFTP_RC_HANDLE_NOT_VALID ()
     (\<lambda>s. Some (Some AFTP_RC_OK, (), s\<lparr>block_size := n\<rparr>))"

definition aftp_set_data_type :: "byte \<Rightarrow> nat \<Rightarrow> aftp \<Rightarrow> (int option \<times> unit \<times> aftp) option" where
  "aftp_set_data_type index n = on_session index AFTP_RC_FAIL_FATAL ()
     (\<lambda>s. Some (Some AFTP_RC_OK, (), s\<lparr>data_type := n\<rparr>))"

definition aftp_set_date_mode :: "byte \<Rightarrow> nat \<Rightarrow> aftp \<Rightarrow> (int option \<times> unit \<times> aftp) option" where
  "aftp_set_date_mode index n = on_session index AFTP_RC_FAIL_FATAL ()
     (\<lambda>s. Some (Some AFTP_RC_OK, (), s\<lparr>date_mode := n\<rparr>))"

definition aftp_set_record_format :: "byte \<Rightarrow> nat \<Rightarrow> aftp \<Rightarrow> (int option \<times> unit \<times> aftp) option" where
  "aftp_set_record_format index n = on_session index AFTP_RC_HANDLE_NOT_VALID ()
     (\<lambda>s. Some (Some AFTP_RC_OK, (), s\<lparr>record_format := n\<rparr>))"

definition aftp_set_record_length :: "byte \<Rightarrow> nat \<Rightarrow> aftp \<Rightarrow> (int option \<times> unit \<times> aftp) option" where
  "aftp_set_record_length index n = on_session index AFTP_RC_HANDLE_NOT_VALID ()
     (\<lambda>s. Some (Some AFTP_RC_OK, (), s\<lparr>record_length := n\<rparr>))"

text \<open>The next two do not write the return code when they succeed.\<close>

definition aftp_set_security_type :: "byte \<Rightarrow> nat \<Rightarrow> aftp \<Rightarrow> (int option \<times> unit \<times> aftp) option" where
  "aftp_set_security_type index n = on_session index AFTP_RC_HANDLE_NOT_VALID ()
     (\<lambda>s. Some (None, (), s\<lparr>security_type := n\<rparr>))"

definition aftp_set_write_mode :: "byte \<Rightarrow> nat \<Rightarrow> aftp \<Rightarrow> (int option \<times> unit \<times> aftp) option" where
  "aftp_set_write_mode index n = on_session index AFTP_RC_HANDLE_NOT_VALID ()
     (\<lambda>s. Some (None, (), s\<lparr>write_mode := n\<rparr>))"

definition aftp_set_destination :: "byte \<Rightarrow> cells \<Rightarrow> nat \<Rightarrow> aftp \<Rightarrow> (int option \<times> unit \<times> aftp) option" where
  "aftp_set_destination index dest len = on_session index AFTP_RC_HANDLE_NOT_VALID () (\<lambda>s. do {
     str \<leftarrow> c_str dest;
     if 0x2E \<in> set str then
       if len \<le> CM_PLN_SIZE then do {
         src \<leftarrow> (if len \<le> length dest then Some (take len dest) else None);
         m \<leftarrow> poke_block (destination s) 0 src;
         m \<leftarrow> poke m len (Some 0);
         Some (Some AFTP_RC_OK, (), s\<lparr>destination := m, symbolic := False\<rparr>)
       } else Some (Some AFTP_RC_PARAMETER_CHECK, (), s)
     else
       if len \<le> CM_SDN_SIZE then do {
         m \<leftarrow> poke_block (destination s) 0 (replicate CM_SDN_SIZE (Some 0x20));
         src \<leftarrow> (if len \<le> length dest then Some (take len dest) else None);
         m \<leftarrow> poke_block m 0 src;
         m \<leftarrow> poke m CM_SDN_SIZE (Some 0);
         Some (Some AFTP_RC_OK, (), s\<lparr>destination := m, symbolic := True\<rparr>)
       } else Some (Some AFTP_RC_PARAMETER_CHECK, (), s)
   })"

definition aftp_set_mode_name :: "byte \<Rightarrow> cells \<Rightarrow> nat \<Rightarrow> aftp \<Rightarrow> (int option \<times> unit \<times> aftp) option" where
  "aftp_set_mode_name index name len st = do {
     str \<leftarrow> c_str name;
     on_session index AFTP_RC_HANDLE_NOT_VALID () (\<lambda>s.
       if len \<le> AFTP_MODE_NAME_SIZE then do {
         m \<leftarrow> strcpy_to (mode_name s) str;
         Some (Some AFTP_RC_OK, (), s\<lparr>mode_name := m\<rparr>)
       } else Some (Some AFTP_RC_PARAMETER_CHECK, (), s)) st
   }"

definition aftp_set_tp_name :: "byte \<Rightarrow> cells \<Rightarrow> nat \<Rightarrow> aftp \<Rightarrow> (int option \<times> unit \<times> aftp) option" where
  "aftp_set_tp_name index name len st = do {
     str \<leftarrow> c_str name;
     on_session index AFTP_RC_HANDLE_NOT_VALID () (\<lambda>s.
       if len \<le> AFTP_TP_NAME_SIZE then do {
         m \<leftarrow> strcpy_to (tp_name s) str;
         Some (Some AFTP_RC_OK, (), s\<lparr>tp_name := m\<rparr>)
       } else Some (Some AFTP_RC_PARAMETER_CHECK, (), s)) st
   }"

definition aftp_set_password :: "byte \<Rightarrow> cells \<Rightarrow> nat \<Rightarrow> aftp \<Rightarrow> (int option \<times> unit \<times> aftp) option" where
  "aftp_set_password index pw len = on_session index AFTP_RC_HANDLE_NOT_VALID () (\<lambda>s.
     if len \<le> AFTP_PASSWORD_SIZE then do {
       str \<leftarrow> c_str pw;
       m \<leftarrow> strcpy_to (password s) str;
       Some (Some AFTP_RC_OK, (), s\<lparr>password := m\<rparr>)
     } else Some (Some AFTP_RC_PARAMETER_CHECK, (), s))"

definition aftp_set_userid :: "byte \<Rightarrow> cells \<Rightarrow> nat \<Rightarrow> aftp \<Rightarrow> (int option \<times> unit \<times> aftp) option" where
  "aftp_set_userid index user len = on_session index AFTP_RC_HANDLE_NOT_VALID () (\<lambda>s.
     if len \<le> AFTP_USERID_SIZE then do {
       str \<leftarrow> c_str user;
       m \<leftarrow> strcpy_to (userid s) str;
       Some (Some AFTP_RC_OK, (), s\<lparr>userid := m\<rparr>)
     } else Some (Some AFTP_RC_PARAMETER_CHECK, (), s))"

definition aftp_set_trace_level :: "nat \<Rightarrow> aftp \<Rightarrow> int option \<times> aftp" where
  "aftp_set_trace_level trace_level st = (Some AFTP_RC_OK, st\<lparr>global_trace_level := trace_level\<rparr>)"

definition aftp_extract_trace_level :: "aftp \<Rightarrow> int option \<times> nat" where
  "aftp_extract_trace_level st = (Some AFTP_RC_OK, global_trace_level st)"

definition aftp_set_trace_filename :: "cells \<Rightarrow> nat \<Rightarrow> aftp \<Rightarrow> (int option \<times> aftp) option" where
  "aftp_set_trace_filename filename filename_length st =
     (if filename_length \<le> MAX_FILE_NAME - 1 then do {
        m \<leftarrow> strncpy_to (global_trace_file st) 0 filename (MAX_FILE_NAME - 1);
        Some (Some AFTP_RC_OK, st\<lparr>global_trace_file := m\<rparr>)
      } else Some (Some AFTP_RC_PARAMETER_CHECK, st))"

text \<open>Reading them back: the handle is not checked.\<close>

definition aftp_extract_allocation_size :: "byte \<Rightarrow> aftp \<Rightarrow> (int option \<times> nat) option" where
  "aftp_extract_allocation_size index st = do { s \<leftarrow> deref st index; Some (Some AFTP_RC_OK, alloc_size s) }"

definition aftp_extract_block_size :: "byte \<Rightarrow> aftp \<Rightarrow> (int option \<times> nat) option" where
  "aftp_extract_block_size index st = do { s \<leftarrow> deref st index; Some (Some AFTP_RC_OK, block_size s) }"

definition aftp_extract_data_type :: "byte \<Rightarrow> aftp \<Rightarrow> (int option \<times> nat) option" where
  "aftp_extract_data_type index st = do { s \<leftarrow> deref st index; Some (Some AFTP_RC_OK, data_type s) }"

definition aftp_extract_date_mode :: "byte \<Rightarrow> aftp \<Rightarrow> (int option \<times> nat) option" where
  "aftp_extract_date_mode index st = do { s \<leftarrow> deref st index; Some (Some AFTP_RC_OK, date_mode s) }"

definition aftp_extract_record_format :: "byte \<Rightarrow> aftp \<Rightarrow> (int option \<times> nat) option" where
  "aftp_extract_record_format index st = do { s \<leftarrow> deref st index; Some (Some AFTP_RC_OK, record_format s) }"

definition aftp_extract_record_length :: "byte \<Rightarrow> aftp \<Rightarrow> (int option \<times> nat) option" where
  "aftp_extract_record_length index st = do { s \<leftarrow> deref st index; Some (Some AFTP_RC_OK, record_length s) }"

definition aftp_extract_security_type :: "byte \<Rightarrow> aftp \<Rightarrow> (int option \<times> nat) option" where
  "aftp_extract_security_type index st = do { s \<leftarrow> deref st index; Some (Some AFTP_RC_OK, security_type s) }"

definition aftp_extract_write_mode :: "byte \<Rightarrow> aftp \<Rightarrow> (int option \<times> nat) option" where
  "aftp_extract_write_mode index st = do { s \<leftarrow> deref st index; Some (Some AFTP_RC_OK, write_mode s) }"

text \<open>
  The six calls that read back a string have one body, with the array of the session they copy; \<open>out\<close>
  is the array of the caller.
\<close>

definition extract_string :: "cells \<Rightarrow> cells \<Rightarrow> nat \<Rightarrow> (int option \<times> cells \<times> nat option) option" where
  "extract_string field out n = do {
     str \<leftarrow> c_str field;
     if length str > 0 then
       if length str \<le> n then do {
         out \<leftarrow> strncpy_to out 0 field n;
         copy \<leftarrow> c_str out;
         Some (Some AFTP_RC_OK, out, Some (length copy))
       } else Some (Some AFTP_RC_PARAMETER_CHECK, out, None)
     else Some (Some AFTP_RC_STATE_CHECK, out, None)
   }"

definition aftp_extract_destination :: "byte \<Rightarrow> cells \<Rightarrow> nat \<Rightarrow> aftp \<Rightarrow> (int option \<times> cells \<times> nat option) option" where
  "aftp_extract_destination index out n st = do { s \<leftarrow> deref st index; extract_string (destination s) out n }"

definition aftp_extract_partner_LU_name :: "byte \<Rightarrow> cells \<Rightarrow> nat \<Rightarrow> aftp \<Rightarrow> (int option \<times> cells \<times> nat option) option" where
  "aftp_extract_partner_LU_name index out n st = do { s \<leftarrow> deref st index; extract_string (destination s) out n }"

definition aftp_extract_mode_name :: "byte \<Rightarrow> cells \<Rightarrow> nat \<Rightarrow> aftp \<Rightarrow> (int option \<times> cells \<times> nat option) option" where
  "aftp_extract_mode_name index out n st = do { s \<leftarrow> deref st index; extract_string (mode_name s) out n }"

definition aftp_extract_tp_name :: "byte \<Rightarrow> cells \<Rightarrow> nat \<Rightarrow> aftp \<Rightarrow> (int option \<times> cells \<times> nat option) option" where
  "aftp_extract_tp_name index out n st = do { s \<leftarrow> deref st index; extract_string (tp_name s) out n }"

definition aftp_extract_password :: "byte \<Rightarrow> cells \<Rightarrow> nat \<Rightarrow> aftp \<Rightarrow> (int option \<times> cells \<times> nat option) option" where
  "aftp_extract_password index out n st = do { s \<leftarrow> deref st index; extract_string (password s) out n }"

definition aftp_extract_userid :: "byte \<Rightarrow> cells \<Rightarrow> nat \<Rightarrow> aftp \<Rightarrow> (int option \<times> cells \<times> nat option) option" where
  "aftp_extract_userid index out n st = do { s \<leftarrow> deref st index; extract_string (userid s) out n }"

section \<open>The local side\<close>

text \<open>
  \<open>ok\<close>: \<^verbatim>\<open>chdir\<close> succeeds; \<open>newbuf\<close>: the path \<^verbatim>\<open>getcwd\<close> then returns. A failed \<^verbatim>\<open>chdir\<close> leaves the
  return code unwritten, and so does a query of the local system.
\<close>

definition aftp_local_change_dir ::
  "byte \<Rightarrow> bool \<Rightarrow> byte list option \<Rightarrow> aftp \<Rightarrow> (int option \<times> unit \<times> aftp) option" where
  "aftp_local_change_dir index ok newbuf = on_session index AFTP_RC_HANDLE_NOT_VALID () (\<lambda>s.
     if ok then
       case newbuf of
         Some path \<Rightarrow> Some (Some AFTP_RC_OK, (), s\<lparr>current_directory := path\<rparr>)
       | None \<Rightarrow> Some (Some AFTP_RC_FAIL_FATAL, (), s)
     else Some (None, (), s))"

definition aftp_local_query_current_dir ::
  "byte \<Rightarrow> cells \<Rightarrow> nat \<Rightarrow> aftp \<Rightarrow> (int option \<times> (cells \<times> nat option) \<times> aftp) option" where
  "aftp_local_query_current_dir index directory directory_size =
     on_session index AFTP_RC_HANDLE_NOT_VALID (directory, None) (\<lambda>s. do {
       directory \<leftarrow> strncpy_to directory 0 (str_cells (current_directory s)) directory_size;
       str \<leftarrow> c_str directory;
       Some (Some AFTP_RC_OK, (directory, Some (length str)), s)
     })"

definition aftp_query_local_system_info ::
  "byte \<Rightarrow> cells \<Rightarrow> nat \<Rightarrow> aftp \<Rightarrow> (int option \<times> (cells \<times> nat option) \<times> aftp) option" where
  "aftp_query_local_system_info index system_info system_info_size =
     on_session index AFTP_RC_HANDLE_NOT_VALID (system_info, None) (\<lambda>s. do {
       system_info \<leftarrow> strncpy_to system_info 0 (sys_info s) system_info_size;
       str \<leftarrow> c_str system_info;
       Some (None, (system_info, Some (length str)), s)
     })"

definition aftp_query_local_version :: "int option \<times> nat \<times> nat" where
  "aftp_query_local_version = (Some AFTP_RC_OK, 0, 1)"

text \<open>Calls that only report that they are not implemented.\<close>

definition aftp_load_ini_file :: "int option" where
  "aftp_load_ini_file = Some AFTP_RC_PROGRAM_INTERNAL_ERROR"

definition aftp_local_dir_open :: "int option" where
  "aftp_local_dir_open = Some AFTP_RC_PROGRAM_INTERNAL_ERROR"

definition aftp_local_dir_read :: "int option" where
  "aftp_local_dir_read = Some AFTP_RC_PROGRAM_INTERNAL_ERROR"

definition aftp_local_dir_close :: "int option" where
  "aftp_local_dir_close = Some AFTP_RC_PROGRAM_INTERNAL_ERROR"

definition aftp_query_bytes_transferred :: "int option" where
  "aftp_query_bytes_transferred = Some AFTP_RC_PROGRAM_INTERNAL_ERROR"

definition aftp_set_connection_info :: "int option" where
  "aftp_set_connection_info = Some AFTP_RC_PROGRAM_INTERNAL_ERROR"

definition aftp_extract_connection_info :: "int option" where
  "aftp_extract_connection_info = Some AFTP_RC_FAIL_FATAL"

section \<open>Names of codes\<close>

text \<open>
  \<^verbatim>\<open>get_code_string\<close> on the array of pairs. The code of the last entry is -1, which as an
  \<^verbatim>\<open>unsigned long\<close> is not negative: the guard of the loop never ends it, and without a match the loop
  leaves the array, a fault. A name that does not fit is passed over.
\<close>

type_synonym codemap = "(nat \<times> byte list) list"

fun get_code_string :: "codemap \<Rightarrow> nat \<Rightarrow> cells \<Rightarrow> nat \<Rightarrow> (int option \<times> cells \<times> nat option) option" where
  "get_code_string [] code str string_size = None"
| "get_code_string ((c, name) # m) code str string_size =
     (if c = code \<and> length name \<le> string_size then do {
        str \<leftarrow> strcpy_to str name;
        copy \<leftarrow> c_str str;
        Some (Some AFTP_RC_OK, str, Some (length copy))
      } else get_code_string m code str string_size)"

definition bytes_of :: "string \<Rightarrow> byte list" where
  "bytes_of s = map of_char s"

definition map_end :: "nat \<times> byte list" where
  "map_end = (2 ^ 64 - 1, [])"

definition data_type_map :: codemap where
  "data_type_map = [(0, bytes_of ''ASCII''), (1, bytes_of ''BINARY''), map_end]"

definition date_mode_map :: codemap where
  "date_mode_map = [(0, bytes_of ''OLD''), (1, bytes_of ''NEW''), map_end]"

definition record_format_map :: codemap where
  "record_format_map =
     [(0, bytes_of ''Default''), (1, bytes_of ''V''), (2, bytes_of ''VA''), (3, bytes_of ''VB''),
      (4, bytes_of ''VM''), (5, bytes_of ''VS''), (6, bytes_of ''VBA''), (7, bytes_of ''VBM''),
      (8, bytes_of ''VBS''), (9, bytes_of ''VSA''), (10, bytes_of ''VSM''), (11, bytes_of ''VBSA''),
      (12, bytes_of ''VBSM''), (13, bytes_of ''F''), (14, bytes_of ''FA''), (15, bytes_of ''FB''),
      (16, bytes_of ''FM''), (17, bytes_of ''FBA''), (18, bytes_of ''FBM''), (19, bytes_of ''FBS''),
      (20, bytes_of ''FBSM''), (21, bytes_of ''FBSA''), (22, bytes_of ''U''), (23, bytes_of ''UA''),
      (24, bytes_of ''UM''), map_end]"

definition write_mode_map :: codemap where
  "write_mode_map = [(0, bytes_of ''REPLACE''), (1, bytes_of ''APPEND''), (2, bytes_of ''NOREPLACE''),
     (3, bytes_of ''STOREUNIQUE''), map_end]"

definition aftp_get_data_type_string :: "nat \<Rightarrow> cells \<Rightarrow> nat \<Rightarrow> (int option \<times> cells \<times> nat option) option" where
  "aftp_get_data_type_string code = get_code_string data_type_map code"

definition aftp_get_date_mode_string :: "nat \<Rightarrow> cells \<Rightarrow> nat \<Rightarrow> (int option \<times> cells \<times> nat option) option" where
  "aftp_get_date_mode_string code = get_code_string date_mode_map code"

definition aftp_get_record_format_string :: "nat \<Rightarrow> cells \<Rightarrow> nat \<Rightarrow> (int option \<times> cells \<times> nat option) option" where
  "aftp_get_record_format_string code = get_code_string record_format_map code"

definition aftp_get_write_mode_string :: "nat \<Rightarrow> cells \<Rightarrow> nat \<Rightarrow> (int option \<times> cells \<times> nat option) option" where
  "aftp_get_write_mode_string code = get_code_string write_mode_map code"

section \<open>Messages\<close>

text \<open>
  \<^verbatim>\<open>aftp_format_error\<close>: category and index are printed into an array of ten bytes, then copied with the
  message into the array of the caller. Only the detail level 1 (\<^verbatim>\<open>AFTP_DETAIL_RC\<close>) does anything.
\<close>

definition aftp_format_error ::
  "byte \<Rightarrow> nat \<Rightarrow> cells \<Rightarrow> aftp \<Rightarrow> (int option \<times> (cells \<times> nat option) \<times> aftp) option" where
  "aftp_format_error index detail_level error_str =
     on_session index AFTP_RC_HANDLE_NOT_VALID (error_str, None) (\<lambda>s.
       if detail_level = 1 then do {
         c \<leftarrow> msg_category s;
         i \<leftarrow> msg_index s;
         codes \<leftarrow> strcpy_to (replicate 10 None) (decimal c @ decimal i);
         msg \<leftarrow> c_str (primary_msg s);
         error_str \<leftarrow> strcpy_to error_str (decimal c @ decimal i @ msg);
         Some (None, (error_str, Some (length (decimal c @ decimal i @ msg))), s)
       } else Some (None, (error_str, None), s))"

end
