(* ===== verification/Aftp_Sessions.thy ===== *)
theory Aftp_Sessions
  imports Aftp_Client
begin

text \<open>
  Theorems on the file transfer library (\<^verbatim>\<open>libasuite/libaftp.c\<close>): the table of handles, the
  invariant of its sessions over every sequence of calls, what the requests put on the line and
  what the replies do to the session, and the transfer of files.
\<close>

section \<open>The table of handles\<close>

text \<open>
  What an operation may rely on: a call through a handle sees and changes the session of that handle
  and no other; \<open>same\<close> says that two handles lead to one session.
\<close>

locale handle_table =
  fixes look :: "'st \<Rightarrow> 'h \<Rightarrow> 'v option"
    and same :: "'st \<Rightarrow> 'h \<Rightarrow> 'h \<Rightarrow> bool"
    and call :: "'h \<Rightarrow> ('v \<Rightarrow> ('o \<times> 'v) option) \<Rightarrow> 'st \<Rightarrow> ('o \<times> 'st) option"
  assumes call_live: "look st h = Some v \<Longrightarrow> f v = Some (out, v') \<Longrightarrow>
      \<exists>st'. call h f st = Some (out, st') \<and> look st' h = Some v'
        \<and> (\<forall>h'. \<not> same st h h' \<longrightarrow> look st' h' = look st h') \<and> same st' = same st"
    and call_fault: "look st h = Some v \<Longrightarrow> f v = None \<Longrightarrow> call h f st = None"
    and same_sym: "same st h h' \<Longrightarrow> same st h' h"
begin

text \<open>Two calls through handles of different sessions give the same results in either order.\<close>

lemma calls_commute:
  assumes "look st h = Some v" "look st h' = Some v'" "\<not> same st h h'"
    and "f v = Some (a, u)" "g v' = Some (b, u')"
  shows "\<exists>s1 s2 t1 t2. call h f st = Some (a, s1) \<and> call h' g s1 = Some (b, s2)
    \<and> call h' g st = Some (b, t1) \<and> call h f t1 = Some (a, t2)
    \<and> look s2 h = Some u \<and> look s2 h' = Some u' \<and> look t2 h = Some u \<and> look t2 h' = Some u'"
proof -
  obtain s1 where s1: "call h f st = Some (a, s1)" "look s1 h = Some u" "look s1 h' = Some v'" "same s1 = same st"
    using call_live [where h = h and f = f, OF assms(1,4)] assms(2,3) by auto
  obtain t1 where t1: "call h' g st = Some (b, t1)" "look t1 h' = Some u'" "look t1 h = Some v" "same t1 = same st"
    using call_live [where h = h' and f = g, OF assms(2,5)] assms(1,3) same_sym by metis
  obtain s2 where "call h' g s1 = Some (b, s2)" "look s2 h' = Some u'" "look s2 h = Some u"
    using call_live [where h = h' and f = g, OF s1(3) assms(5)] s1(2,4) assms(3) same_sym by metis
  moreover obtain t2 where "call h f t1 = Some (a, t2)" "look t2 h = Some u" "look t2 h' = Some u'"
    using call_live [where h = h and f = f, OF t1(3) assms(4)] t1(2,4) assms(3) by metis
  ultimately show ?thesis using s1(1) t1(1) by blast
qed

end

definition live :: "aftp \<Rightarrow> byte \<Rightarrow> ftpsession option" where
  "live st index = do { p \<leftarrow> slot st index; heap st p }"

definition aliases :: "aftp \<Rightarrow> byte \<Rightarrow> byte \<Rightarrow> bool" where
  "aliases st i j \<longleftrightarrow> slot st i = slot st j"

text \<open>\<^term>\<open>on_session\<close> with the results in one tuple.\<close>

definition session_call ::
  "int \<Rightarrow> 'o \<Rightarrow> byte \<Rightarrow> (ftpsession \<Rightarrow> ((int option \<times> 'o) \<times> ftpsession) option) \<Rightarrow> aftp
   \<Rightarrow> ((int option \<times> 'o) \<times> aftp) option" where
  "session_call bad dflt index f st = do {
     (rc, out, st) \<leftarrow> on_session index bad dflt (\<lambda>s. do { ((rc, out), s) \<leftarrow> f s; Some (rc, out, s) }) st;
     Some ((rc, out), st)
   }"

lemma slot_heap_update [simp]: "slot (st\<lparr>heap := h\<rparr>) i = slot st i"
  by (simp add: slot_def)

interpretation aftp_handles: handle_table live aliases "session_call bad dflt"
proof (unfold_locales, goal_cases)
  case (1 st h v f out v')
  then obtain p where "slot st h = Some p" "heap st p = Some v" "f v = Some (out, v')"
    by (auto simp: live_def split: bind_splits)
  then show ?case
    by (auto simp: session_call_def on_session_def live_def aliases_def fun_eq_iff split: prod.splits bind_splits)
next
  case (2 st h v f)
  then show ?case
    by (auto simp: session_call_def on_session_def live_def split: bind_splits)
next
  case (3 st h h')
  then show ?case by (simp add: aliases_def)
qed

lemma on_session_live:
  assumes "live st index = Some s" "body s = Some (rc, out, s')"
  shows "\<exists>st'. on_session index bad dflt body st = Some (rc, out, st') \<and> live st' index = Some s'
    \<and> (\<forall>j. \<not> aliases st index j \<longrightarrow> live st' j = live st j)"
proof -
  obtain p where "slot st index = Some p" "heap st p = Some s"
    using assms(1) by (auto simp: live_def split: bind_splits)
  with assms(2) show ?thesis
    by (auto simp: on_session_def live_def aliases_def split: bind_splits)
qed

lemma session_call_on_session:
  "on_session index bad dflt body st =
     map_option (\<lambda>((rc, out), st). (rc, out, st))
       (session_call bad dflt index (\<lambda>s. map_option (\<lambda>(rc, out, s). ((rc, out), s)) (body s)) st)"
  by (auto simp: session_call_def on_session_def map_option_case split: option.splits bind_splits prod.splits)

text \<open>
  Calls through handles of different sessions do not disturb each other: whatever two operations
  do, they return the same values in either order and leave both sessions in the same state.
\<close>

theorem sessions_do_not_interfere:
  assumes "live st i = Some s" "live st j = Some s'" "\<not> aliases st i j"
    and "f s = Some (rc, out, t)" "g s' = Some (rc', out', t')"
  shows "\<exists>s1 s2 t1 t2. on_session i bad dflt f st = Some (rc, out, s1) \<and> on_session j bad dflt g s1 = Some (rc', out', s2)
    \<and> on_session j bad dflt g st = Some (rc', out', t1) \<and> on_session i bad dflt f t1 = Some (rc, out, t2)
    \<and> live s2 i = Some t \<and> live s2 j = Some t' \<and> live t2 i = Some t \<and> live t2 j = Some t'"
proof -
  have f: "map_option (\<lambda>(rc, out, s). ((rc, out), s)) (f s) = Some ((rc, out), t)"
    and g: "map_option (\<lambda>(rc, out, s). ((rc, out), s)) (g s') = Some ((rc', out'), t')"
    using assms(4,5) by simp_all
  show ?thesis
    using aftp_handles.calls_commute [where bad = bad and dflt = dflt
        and f = "\<lambda>s. map_option (\<lambda>(rc, out, s). ((rc, out), s)) (f s)"
        and g = "\<lambda>s. map_option (\<lambda>(rc, out, s). ((rc, out), s)) (g s)", OF assms(1-3) f g]
    unfolding session_call_on_session by force
qed

text \<open>A table with two sessions, for the concrete instances.\<close>

definition demo_session :: ftpsession where
  "demo_session = (new_session fresh_record [0x2F])\<lparr>conversation_ID := Some [1]\<rparr>"

definition demo :: aftp where
  "demo = \<lparr>ftp_handle_counter = 2, sessions = Some 0 # Some 1 # replicate 18 None,
     heap = [0 \<mapsto> demo_session, 1 \<mapsto> demo_session], global_trace_file = replicate MAX_FILE_NAME None,
     global_trace_level = 0\<rparr>"

lemma demo_live: "live demo 0 = Some demo_session" "live demo 1 = Some demo_session" "\<not> aliases demo 0 1"
  by (simp_all add: demo_def live_def slot_def MAX_FTP_SESSIONS_def aliases_def)

theorem sessions_do_not_interfere_witness:
  "\<exists>s1 s2. on_session 0 12 () (\<lambda>s. Some (Some 0, (), s\<lparr>block_size := 7\<rparr>)) demo = Some (Some 0, (), s1)
    \<and> on_session 1 12 () (\<lambda>s. Some (Some 0, (), s\<lparr>data_type := 1\<rparr>)) s1 = Some (Some 0, (), s2)
    \<and> live s2 0 = Some (demo_session\<lparr>block_size := 7\<rparr>) \<and> live s2 1 = Some (demo_session\<lparr>data_type := 1\<rparr>)"
  using sessions_do_not_interfere [OF demo_live, of "\<lambda>s. Some (Some 0, (), s\<lparr>block_size := 7\<rparr>)"
      "Some 0" "()" "demo_session\<lparr>block_size := 7\<rparr>" "\<lambda>s. Some (Some 0, (), s\<lparr>data_type := 1\<rparr>)"
      "Some 0" "()" "demo_session\<lparr>data_type := 1\<rparr>" 12 "()"]
  by blast

section \<open>The invariant\<close>

text \<open>Every array of a session keeps its size, and the three names it always holds are strings.\<close>

definition wf_session :: "ftpsession \<Rightarrow> bool" where
  "wf_session s \<longleftrightarrow> length (destination s) = CM_PLN_SIZE + 1 \<and> length (mode_name s) = CM_MN_SIZE + 1
    \<and> length (tp_name s) = CM_TPN_SIZE + 1 \<and> length (password s) = AFTP_PASSWORD_SIZE + 1
    \<and> length (userid s) = AFTP_PASSWORD_SIZE + 1 \<and> length (sys_info s) = MAX_SYS_INFO
    \<and> length (primary_msg s) = MSG_BUFFER_LENGTH + 1 \<and> wf_record (rec s)"

text \<open>The handles given out are the slots below the counter.\<close>

definition aftp_inv :: "aftp \<Rightarrow> bool" where
  "aftp_inv st \<longleftrightarrow> length (sessions st) = MAX_FTP_SESSIONS \<and> unat (ftp_handle_counter st) \<le> MAX_FTP_SESSIONS
    \<and> (\<forall>i < MAX_FTP_SESSIONS. sessions st ! i \<noteq> None \<longleftrightarrow> i < unat (ftp_handle_counter st))
    \<and> length (global_trace_file st) = MAX_FILE_NAME
    \<and> (\<forall>p s. heap st p = Some s \<longrightarrow> wf_session s)"

named_theorems keeps \<open>operations on records that keep the size of the buffer\<close>

lemma strncpy_to_length: "strncpy_to dst i src n = Some m \<Longrightarrow> length m = length dst"
  by (auto simp: strncpy_to_def dest: length_poke_block split: bind_splits)

lemma strcpy_to_length: "strcpy_to dst s = Some m \<Longrightarrow> length m = length dst"
  by (auto simp: strcpy_to_def dest: length_poke_block)

lemma poke_length: "poke m i v = Some m' \<Longrightarrow> length m' = length m"
  by (auto simp: poke_def split: if_splits)

lemma put_byte_keeps: "put_byte b r = Some r' \<Longrightarrow> wf_record r \<Longrightarrow> wf_record r'"
  by (auto simp: put_byte_def wf_record_def dest: poke_length split: bind_splits)

lemma settype_keeps [keeps]: "asuiterecord_settype r t = Some r' \<Longrightarrow> wf_record r \<Longrightarrow> wf_record r'"
  by (auto simp: asuiterecord_settype_def wf_record_def Let_def dest!: poke_length split: bind_splits)

lemma clear_keeps [simp]: "wf_record (asuiterecord_clear r) = wf_record r"
  by (simp add: asuiterecord_clear_def wf_record_def)

lemma append_keeps [keeps]: "asuiterecord_append r k d n = Some r' \<Longrightarrow> wf_record r \<Longrightarrow> wf_record r'"
  by (auto simp: asuiterecord_append_def Let_def wf_record_def split: bind_splits
      dest!: strncpy_to_length) (auto dest!: put_byte_keeps simp: wf_record_def)

lemma append_char_keeps [keeps]: "asuiterecord_append_char r k d = Some r' \<Longrightarrow> wf_record r \<Longrightarrow> wf_record r'"
  by (auto simp: asuiterecord_append_char_def Let_def dest!: put_byte_keeps split: bind_splits)

lemma append_fourbyte_keeps [keeps]:
  "asuiterecord_append_fourbyte r k d = Some r' \<Longrightarrow> wf_record r \<Longrightarrow> wf_record r'"
  by (auto simp: asuiterecord_append_fourbyte_def Let_def dest!: put_byte_keeps split: bind_splits)

lemma twobyte_loop_keeps: "twobyte_loop r ps n = Some r' \<Longrightarrow> wf_record r \<Longrightarrow> wf_record r'"
  by (induction r ps n rule: twobyte_loop.induct)
    (simp_all add: Let_def split: bind_splits, blast dest: put_byte_keeps)

lemma append_twobyte_keeps [keeps]:
  assumes "asuiterecord_append_twobyte r k n ps = Some r'" "wf_record r"
  shows "wf_record r'"
proof -
  obtain a b where "put_byte k (r\<lparr>position := position r + 2\<rparr>) = Some a" "twobyte_loop a ps (nat n) = Some b"
    "length (buffer r') = length (buffer b)"
    using assms(1) by (auto simp: asuiterecord_append_twobyte_def Let_def split: bind_splits dest!: poke_length)
  moreover have "wf_record (r\<lparr>position := position r + 2\<rparr>)" using assms(2) by (simp add: wf_record_def)
  ultimately show ?thesis
    using put_byte_keeps twobyte_loop_keeps unfolding wf_record_def by metis
qed

lemma get_asuiterecord_keeps [keeps]:
  "get_asuiterecord cm w cid r = Some (rc, r', w') \<Longrightarrow> wf_record r \<Longrightarrow> wf_record r'"
  by (auto simp: get_asuiterecord_def wf_record_def split: prod.splits bind_splits if_splits dest!: length_poke_block)

text \<open>What the loop keeps of its state when each round keeps it.\<close>

lemma param_loop_invariant:
  assumes "param_loop plen pkey body bound curpos a = Some a'"
    and "\<And>k p a a'. body k p a = Some a' \<Longrightarrow> I a \<Longrightarrow> I a'"
    and "I a"
  shows "I a'"
proof -
  have "(\<forall>k p a a'. body k p a = Some a' \<longrightarrow> I a \<longrightarrow> I a') \<longrightarrow> I a \<longrightarrow> I a'"
    by (rule param_loop.raw_induct [OF _ assms(1)]) (fastforce split: bind_splits if_splits)
  with assms(2,3) show ?thesis by blast
qed

lemma parse_reply_invariant:
  assumes "parse_reply code bound body s a = Some a'"
    and "\<And>k p a a'. body k p a = Some a' \<Longrightarrow> I a \<Longrightarrow> I a'"
    and "I a"
  shows "I a'"
  using assms by (auto simp: parse_reply_def split: bind_splits if_splits dest: param_loop_invariant [where I = I])

definition keeps_wf :: "(ftpsession \<Rightarrow> (int option \<times> 'o \<times> ftpsession) option) \<Rightarrow> bool" where
  "keeps_wf body \<longleftrightarrow> (\<forall>s rc out s'. wf_session s \<longrightarrow> body s = Some (rc, out, s') \<longrightarrow> wf_session s')"

lemma on_session_inv:
  assumes "on_session index bad dflt body st = Some (rc, out, st')" "keeps_wf body" "aftp_inv st"
  shows "aftp_inv st'"
proof (cases "slot st index")
  case None
  with assms show ?thesis by (simp add: on_session_def)
next
  case (Some p)
  then obtain s s' where s: "heap st p = Some s" "body s = Some (rc, out, s')" "st' = st\<lparr>heap := (heap st)(p \<mapsto> s')\<rparr>"
    using assms(1) by (auto simp: on_session_def split: bind_splits prod.splits)
  then have "wf_session s'" using assms(2,3) unfolding keeps_wf_def aftp_inv_def by blast
  with assms(3) s(3) show ?thesis by (auto simp: aftp_inv_def)
qed

lemma wf_session_rec: "wf_session s \<Longrightarrow> wf_record r \<Longrightarrow> wf_session (s\<lparr>rec := r\<rparr>)"
  by (simp add: wf_session_def)

lemma wf_session_rec_wf: "wf_session s \<Longrightarrow> wf_record (rec s)"
  by (simp add: wf_session_def)

lemma received_wf:
  "get_asuiterecord cm w cid (rec s) = Some (rc, r, w') \<Longrightarrow> wf_session s \<Longrightarrow> wf_session (s\<lparr>rec := r\<rparr>)"
  "get_asuiterecord cm w cid (asuiterecord_clear (rec s)) = Some (rc, r, w') \<Longrightarrow> wf_session s \<Longrightarrow> wf_session (s\<lparr>rec := r\<rparr>)"
  by (auto intro!: wf_session_rec dest: get_asuiterecord_keeps simp: wf_session_rec_wf)

lemma exchange_wf: "exchange cm w s = Some (rc, s', w') \<Longrightarrow> wf_session s \<Longrightarrow> wf_session s'"
  by (auto simp: exchange_def split: bind_splits if_splits intro: received_wf(1))

lemma set_primary_msg_wf: "set_primary_msg s p = Some s' \<Longrightarrow> wf_session s \<Longrightarrow> wf_session s'"
  by (auto simp: set_primary_msg_def wf_session_def split: bind_splits dest!: strncpy_to_length)

lemma set_category_wf: "set_category s p = Some s' \<Longrightarrow> wf_session s \<Longrightarrow> wf_session s'"
  by (auto simp: set_category_def wf_session_def split: bind_splits)

lemma set_status_wf: "set_status s p = Some s' \<Longrightarrow> wf_session s \<Longrightarrow> wf_session s'"
  by (auto simp: set_status_def wf_session_def split: bind_splits)

lemmas field_wf = set_primary_msg_wf set_category_wf set_status_wf

lemma bodies_wf:
  "status_body k p a = Some a' \<Longrightarrow> wf_session (snd a) \<Longrightarrow> wf_session (snd a')"
  "create_dir_body k p a = Some a' \<Longrightarrow> wf_session (snd a) \<Longrightarrow> wf_session (snd a')"
  "change_dir_body k p a = Some a' \<Longrightarrow> wf_session (snd a) \<Longrightarrow> wf_session (snd a')"
  by (cases a; auto split: if_splits bind_splits dest: field_wf)+

lemma dir_bodies_wf:
  "dir_open_body n k p b = Some b' \<Longrightarrow> wf_session (fst (snd b)) \<Longrightarrow> wf_session (fst (snd b'))"
  "dir_read_body n k p c = Some c' \<Longrightarrow> wf_session (fst (snd c)) \<Longrightarrow> wf_session (fst (snd c'))"
  by (cases b; auto split: if_splits bind_splits dest: field_wf)
    (cases c; auto split: if_splits bind_splits dest: field_wf)

text \<open>What a reply does to a session keeps it well formed.\<close>

lemma parse_wf:
  "parse_reply code n status_body s (rc, s) = Some (rc', s') \<Longrightarrow> wf_session s \<Longrightarrow> wf_session s'"
  "parse_reply code n create_dir_body s (rc, s) = Some (rc', s') \<Longrightarrow> wf_session s \<Longrightarrow> wf_session s'"
  "parse_reply code n change_dir_body s (rc, s) = Some (rc', s') \<Longrightarrow> wf_session s \<Longrightarrow> wf_session s'"
  "parse_reply code n (dir_open_body l) s (rc, s, x) = Some (rc', s', x') \<Longrightarrow> wf_session s \<Longrightarrow> wf_session s'"
  "parse_reply code n (dir_read_body l) s (rc, s, y) = Some (rc', s', y') \<Longrightarrow> wf_session s \<Longrightarrow> wf_session s'"
  by (drule parse_reply_invariant [where I = "\<lambda>a. wf_session (snd a)"]; auto dest: bodies_wf)+
    (drule parse_reply_invariant [where I = "\<lambda>a. wf_session (fst (snd a))"]; auto dest: dir_bodies_wf)+

lemma send_loop_keeps: "send_loop cm cid reads w r = Some (x, w', r') \<Longrightarrow> wf_record r \<Longrightarrow> wf_record r'"
proof (induction cm cid reads w r rule: send_loop.induct)
  case (3 cm cid data reads w r)
  obtain m where m: "poke_block (buffer r) (position r) (map Some data) = Some m"
    using 3(2) by (auto split: bind_splits)
  then have "wf_record (r\<lparr>buffer := m, position := position r + length data\<rparr>)"
    using 3(3) length_poke_block [OF m] by (simp add: wf_record_def)
  with 3 m show ?case by (auto simp: Let_def split: bind_splits if_splits)
qed (auto simp: wf_record_def)

lemma receive_loop_wf:
  assumes "receive_loop cm cid w s file = Some (rc, (w', file'), s')" "wf_session s"
  shows "wf_session s'"
proof -
  have "wf_session s \<longrightarrow> wf_session (snd (snd (rc, (w', file'), s')))"
    by (rule receive_loop.raw_induct [OF _ assms(1)])
      (auto simp: Let_def split: bind_splits if_splits dest!: received_wf(2))
  with assms(2) show ?thesis by simp
qed

text \<open>
  Partial correctness of a computation that may fault, and its rules: \<open>ok_step\<close> for the operations whose
  result has the invariant, \<open>ok_rest\<close> for everything else.
\<close>

definition ok :: "('a \<Rightarrow> bool) \<Rightarrow> 'a option \<Rightarrow> bool" where
  "ok P x \<longleftrightarrow> (\<forall>y. x = Some y \<longrightarrow> P y)"

named_theorems ok_step \<open>steps whose result has the invariant\<close>
named_theorems ok_rest \<open>the other steps\<close>

lemma ok_Some [ok_rest]: "P y \<Longrightarrow> ok P (Some y)"
  by (simp add: ok_def)

lemma ok_if [ok_rest]: "(b \<Longrightarrow> ok P x) \<Longrightarrow> (\<not> b \<Longrightarrow> ok P y) \<Longrightarrow> ok P (if b then x else y)"
  by simp

lemma ok_bind: "ok Q m \<Longrightarrow> (\<And>a. Q a \<Longrightarrow> ok P (f a)) \<Longrightarrow> ok P (m \<bind> f)"
  by (cases m) (auto simp: ok_def)

lemma ok_bind_any: "(\<And>a. ok P (f a)) \<Longrightarrow> ok P (m \<bind> f)"
  by (cases m) (auto simp: ok_def)

lemma ok_option [ok_rest]:
  "(x = None \<Longrightarrow> ok P a) \<Longrightarrow> (\<And>y. x = Some y \<Longrightarrow> ok P (b y)) \<Longrightarrow> ok P (case x of None \<Rightarrow> a | Some y \<Rightarrow> b y)"
  by (cases x) auto

lemma ok_prod [ok_rest]: "(\<And>a b. x = (a, b) \<Longrightarrow> ok P (f a b)) \<Longrightarrow> ok P (case x of (a, b) \<Rightarrow> f a b)"
  by (cases x) auto

lemma ok_keeps: "(\<And>r'. x = Some r' \<Longrightarrow> wf_record r \<Longrightarrow> wf_record r') \<Longrightarrow> wf_record r \<Longrightarrow>
    (\<And>r'. wf_record r' \<Longrightarrow> ok P (f r')) \<Longrightarrow> ok P (x \<bind> f)"
  by (cases x) (auto simp: ok_def)

lemma ok_writers [ok_step]:
  "wf_record r \<Longrightarrow> (\<And>r'. wf_record r' \<Longrightarrow> ok P (f r')) \<Longrightarrow> ok P (asuiterecord_settype r t \<bind> f)"
  "wf_record r \<Longrightarrow> (\<And>r'. wf_record r' \<Longrightarrow> ok P (f r')) \<Longrightarrow> ok P (asuiterecord_append r k d n \<bind> f)"
  "wf_record r \<Longrightarrow> (\<And>r'. wf_record r' \<Longrightarrow> ok P (f r')) \<Longrightarrow> ok P (asuiterecord_append_char r k b \<bind> f)"
  by (erule ok_keeps [rotated], assumption, erule keeps, assumption)+

text \<open>The sizes in a request, which are optional.\<close>

lemma ok_optional [ok_step]:
  "wf_record r \<Longrightarrow> (\<And>r'. wf_record r' \<Longrightarrow> ok P (f r')) \<Longrightarrow>
   ok P ((if c then asuiterecord_append_twobyte r k n ps else Some r) \<bind> f)"
  "wf_record r \<Longrightarrow> (\<And>r'. wf_record r' \<Longrightarrow> ok P (f r')) \<Longrightarrow>
   ok P ((if c then asuiterecord_append_fourbyte r k v else Some r) \<bind> f)"
  by (erule ok_keeps [rotated], assumption, simp split: if_splits, erule keeps, assumption)+

lemma ok_receive [ok_step]:
  "wf_record r \<Longrightarrow> (\<And>rc r' w'. wf_record r' \<Longrightarrow> ok P (f (rc, r', w'))) \<Longrightarrow> ok P (get_asuiterecord cm w cid r \<bind> f)"
  by (rule ok_bind [where Q = "\<lambda>(rc, r, w). wf_record r"]) (auto simp: ok_def dest: get_asuiterecord_keeps)

lemma ok_exchange [ok_step]:
  "wf_session s \<Longrightarrow> (\<And>rc s' w'. wf_session s' \<Longrightarrow> ok P (f (rc, s', w'))) \<Longrightarrow> ok P (exchange cm w s \<bind> f)"
  by (rule ok_bind [where Q = "\<lambda>(rc, s, w). wf_session s"]) (auto simp: ok_def dest: exchange_wf)

lemma ok_parse [ok_step]:
  "wf_session s \<Longrightarrow> (\<And>rc s'. wf_session s' \<Longrightarrow> ok P (f (rc, s'))) \<Longrightarrow>
   ok P (parse_reply code n status_body s (c, s) \<bind> f)"
  "wf_session s \<Longrightarrow> (\<And>rc s'. wf_session s' \<Longrightarrow> ok P (f (rc, s'))) \<Longrightarrow>
   ok P (parse_reply code n create_dir_body s (c, s) \<bind> f)"
  "wf_session s \<Longrightarrow> (\<And>rc s'. wf_session s' \<Longrightarrow> ok P (f (rc, s'))) \<Longrightarrow>
   ok P (parse_reply code n change_dir_body s (c, s) \<bind> f)"
  by (rule ok_bind [where Q = "\<lambda>(rc, s). wf_session s"]; auto simp: ok_def dest: parse_wf)+

lemma ok_parse_dir [ok_step]:
  "wf_session s \<Longrightarrow> (\<And>rc s' x. wf_session s' \<Longrightarrow> ok P (f (rc, s', x))) \<Longrightarrow>
   ok P (parse_reply code n (dir_open_body l) s (c, s, y) \<bind> f)"
  "wf_session s \<Longrightarrow> (\<And>rc s' x. wf_session s' \<Longrightarrow> ok P (g (rc, s', x))) \<Longrightarrow>
   ok P (parse_reply code n (dir_read_body l) s (c, s, z) \<bind> g)"
  by (rule ok_bind [where Q = "\<lambda>(rc, s, x). wf_session s"]; auto simp: ok_def dest: parse_wf)+

lemma ok_receive_loop [ok_step]:
  "wf_session s \<Longrightarrow> (\<And>rc w' file' s'. wf_session s' \<Longrightarrow> ok P (f (rc, (w', file'), s'))) \<Longrightarrow>
   ok P (receive_loop cm cid w s file \<bind> f)"
  by (rule ok_bind [where Q = "\<lambda>(rc, x, s). wf_session s"]) (auto simp: ok_def dest: receive_loop_wf)

lemma ok_send_loop [ok_step]:
  "wf_record r \<Longrightarrow> (\<And>x w' r'. wf_record r' \<Longrightarrow> ok P (f (x, w', r'))) \<Longrightarrow> ok P (send_loop cm cid reads w r \<bind> f)"
  by (rule ok_bind [where Q = "\<lambda>(x, w, r). wf_record r"]) (auto simp: ok_def dest: send_loop_keeps)

lemma ok_request [ok_step]:
  "wf_session s \<Longrightarrow> (\<And>r. wf_record r \<Longrightarrow> ok P (f r)) \<Longrightarrow> ok P (send_request a n b m s \<bind> f)"
proof (rule ok_bind [where Q = wf_record])
  assume "wf_session s"
  then have "wf_record (asuiterecord_clear (rec s))" by (simp add: wf_session_rec_wf)
  then show "ok wf_record (send_request a n b m s)"
    unfolding send_request_def
    by (intro ok_step) (auto simp: ok_def dest: append_char_keeps)
qed

lemma ok_names [ok_step]:
  "(\<And>m'. length m' = length m \<Longrightarrow> ok P (f m')) \<Longrightarrow> ok P (strcpy_to m str \<bind> f)"
  "(\<And>m'. length m' = length m \<Longrightarrow> ok P (f m')) \<Longrightarrow> ok P (poke m i v \<bind> f)"
  "(\<And>m'. length m' = length m \<Longrightarrow> ok P (f m')) \<Longrightarrow> ok P (poke_block m i vs \<bind> f)"
  by (rule ok_bind [where Q = "\<lambda>m'. length m' = length m"];
      auto simp: ok_def dest: strcpy_to_length poke_length length_poke_block)+

lemma keeps_wfI: "(\<And>s. wf_session s \<Longrightarrow> ok (\<lambda>(rc, out, s'). wf_session s') (body s)) \<Longrightarrow> keeps_wf body"
  by (fastforce simp: keeps_wf_def ok_def)

lemma wf_session_simps [simp]:
  "wf_session (s\<lparr>conversation_ID := c\<rparr>) = wf_session s"
  "wf_session (s\<lparr>alloc_size := n\<rparr>) = wf_session s" "wf_session (s\<lparr>block_size := n\<rparr>) = wf_session s"
  "wf_session (s\<lparr>data_type := n\<rparr>) = wf_session s" "wf_session (s\<lparr>date_mode := n\<rparr>) = wf_session s"
  "wf_session (s\<lparr>record_format := n\<rparr>) = wf_session s" "wf_session (s\<lparr>record_length := n\<rparr>) = wf_session s"
  "wf_session (s\<lparr>security_type := n\<rparr>) = wf_session s" "wf_session (s\<lparr>write_mode := n\<rparr>) = wf_session s"
  "wf_session (s\<lparr>current_directory := p\<rparr>) = wf_session s" "wf_session (s\<lparr>symbolic := b\<rparr>) = wf_session s"
  by (simp_all add: wf_session_def)

lemma wf_session_names:
  "wf_session s \<Longrightarrow> length m = length (destination s) \<Longrightarrow> wf_session (s\<lparr>destination := m\<rparr>)"
  "wf_session s \<Longrightarrow> length m = length (mode_name s) \<Longrightarrow> wf_session (s\<lparr>mode_name := m\<rparr>)"
  "wf_session s \<Longrightarrow> length m = length (tp_name s) \<Longrightarrow> wf_session (s\<lparr>tp_name := m\<rparr>)"
  "wf_session s \<Longrightarrow> length m = length (password s) \<Longrightarrow> wf_session (s\<lparr>password := m\<rparr>)"
  "wf_session s \<Longrightarrow> length m = length (userid s) \<Longrightarrow> wf_session (s\<lparr>userid := m\<rparr>)"
  by (simp_all add: wf_session_def)

lemmas wf_session_updates = wf_session_rec wf_session_rec_wf wf_session_names

text \<open>Every operation on a session keeps the invariant.\<close>

lemma requests_inv:
  "aftp_change_dir cm i d n w st = Some (rc, out, st') \<Longrightarrow> aftp_inv st \<Longrightarrow> aftp_inv st'"
  "aftp_create_dir cm i d n w st = Some (rc, out, st') \<Longrightarrow> aftp_inv st \<Longrightarrow> aftp_inv st'"
  "aftp_delete cm i d n w st = Some (rc, out, st') \<Longrightarrow> aftp_inv st \<Longrightarrow> aftp_inv st'"
  "aftp_remove_dir cm i d n w st = Some (rc, out, st') \<Longrightarrow> aftp_inv st \<Longrightarrow> aftp_inv st'"
  "aftp_rename cm i d n d' n' w st = Some (rc, out, st') \<Longrightarrow> aftp_inv st \<Longrightarrow> aftp_inv st'"
  "aftp_dir_open cm i d n ft il pa pl w st = Some (rc, out2, st') \<Longrightarrow> aftp_inv st \<Longrightarrow> aftp_inv st'"
  "aftp_dir_read cm i d n w st = Some (rc, out3, st') \<Longrightarrow> aftp_inv st \<Longrightarrow> aftp_inv st'"
  "aftp_query_current_dir cm i d n w st = Some (rc, out2, st') \<Longrightarrow> aftp_inv st \<Longrightarrow> aftp_inv st'"
  "aftp_query_system_info cm i d n w st = Some (rc, out2, st') \<Longrightarrow> aftp_inv st \<Longrightarrow> aftp_inv st'"
  "aftp_connect cm i w st = Some (rc, out, st') \<Longrightarrow> aftp_inv st \<Longrightarrow> aftp_inv st'"
  "aftp_close cm i w st = Some (rc, out, st') \<Longrightarrow> aftp_inv st \<Longrightarrow> aftp_inv st'"
  "aftp_receive_file cm i lf ll rf rl old w st = Some (rc, out4, st') \<Longrightarrow> aftp_inv st \<Longrightarrow> aftp_inv st'"
  "aftp_send_file cm i lf ll rf rl src w st = Some (rc, out, st') \<Longrightarrow> aftp_inv st \<Longrightarrow> aftp_inv st'"
  unfolding aftp_change_dir_def aftp_create_dir_def aftp_delete_def aftp_remove_dir_def
    aftp_rename_def aftp_dir_open_def aftp_dir_read_def aftp_query_current_dir_def
    aftp_query_system_info_def aftp_connect_def aftp_close_def aftp_receive_file_def
    aftp_send_file_def Let_def
  by (erule on_session_inv, rule keeps_wfI, ((rule ok_step ok_rest ok_bind_any | simp add: wf_session_updates)+)[1], assumption)+

lemma settings_inv:
  "aftp_set_allocation_size i n st = Some (rc, out, st') \<Longrightarrow> aftp_inv st \<Longrightarrow> aftp_inv st'"
  "aftp_set_block_size i n st = Some (rc, out, st') \<Longrightarrow> aftp_inv st \<Longrightarrow> aftp_inv st'"
  "aftp_set_data_type i n st = Some (rc, out, st') \<Longrightarrow> aftp_inv st \<Longrightarrow> aftp_inv st'"
  "aftp_set_date_mode i n st = Some (rc, out, st') \<Longrightarrow> aftp_inv st \<Longrightarrow> aftp_inv st'"
  "aftp_set_record_format i n st = Some (rc, out, st') \<Longrightarrow> aftp_inv st \<Longrightarrow> aftp_inv st'"
  "aftp_set_record_length i n st = Some (rc, out, st') \<Longrightarrow> aftp_inv st \<Longrightarrow> aftp_inv st'"
  "aftp_set_security_type i n st = Some (rc, out, st') \<Longrightarrow> aftp_inv st \<Longrightarrow> aftp_inv st'"
  "aftp_set_write_mode i n st = Some (rc, out, st') \<Longrightarrow> aftp_inv st \<Longrightarrow> aftp_inv st'"
  "aftp_set_destination i d n st = Some (rc, out, st') \<Longrightarrow> aftp_inv st \<Longrightarrow> aftp_inv st'"
  "aftp_set_password i d n st = Some (rc, out, st') \<Longrightarrow> aftp_inv st \<Longrightarrow> aftp_inv st'"
  "aftp_set_userid i d n st = Some (rc, out, st') \<Longrightarrow> aftp_inv st \<Longrightarrow> aftp_inv st'"
  "aftp_local_change_dir i b path st = Some (rc, out, st') \<Longrightarrow> aftp_inv st \<Longrightarrow> aftp_inv st'"
  unfolding aftp_set_allocation_size_def aftp_set_block_size_def aftp_set_data_type_def aftp_set_date_mode_def
    aftp_set_record_format_def aftp_set_record_length_def aftp_set_security_type_def aftp_set_write_mode_def
    aftp_set_destination_def aftp_set_password_def aftp_set_userid_def aftp_local_change_dir_def
    Let_def
  by (erule on_session_inv, rule keeps_wfI, ((rule ok_step ok_rest ok_bind_any | simp add: wf_session_updates)+)[1], assumption)+

lemma names_inv:
  "aftp_set_mode_name i d n st = Some (rc, out, st') \<Longrightarrow> aftp_inv st \<Longrightarrow> aftp_inv st'"
  "aftp_set_tp_name i d n st = Some (rc, out, st') \<Longrightarrow> aftp_inv st \<Longrightarrow> aftp_inv st'"
  unfolding aftp_set_mode_name_def aftp_set_tp_name_def
  by (cases "c_str d", simp, simp only: Option.bind.simps, erule on_session_inv, rule keeps_wfI,
      ((rule ok_step ok_rest ok_bind_any | simp add: wf_session_updates)+)[1], assumption)+

section \<open>Every sequence of calls\<close>

text \<open>
  One call of the library on the state of the line and of the library; the memory \<^verbatim>\<open>malloc\<close> returns is not
  in use.
\<close>

inductive aftp_step :: "'w cpic \<Rightarrow> 'w \<times> aftp \<Rightarrow> 'w \<times> aftp \<Rightarrow> bool" for cm where
  create: "(\<And>q. p = Some q \<Longrightarrow> heap st q = None) \<Longrightarrow> aftp_create getcwd p b b' st = Some (rc, h, st')
    \<Longrightarrow> aftp_step cm (w, st) (w, st')"
| destroy: "aftp_destroy i st = Some (rc, st') \<Longrightarrow> aftp_step cm (w, st) (w, st')"
| connect: "aftp_connect cm i w st = Some (rc, w', st') \<Longrightarrow> aftp_step cm (w, st) (w', st')"
| close: "aftp_close cm i w st = Some (rc, w', st') \<Longrightarrow> aftp_step cm (w, st) (w', st')"
| change_dir: "aftp_change_dir cm i d n w st = Some (rc, w', st') \<Longrightarrow> aftp_step cm (w, st) (w', st')"
| create_dir: "aftp_create_dir cm i d n w st = Some (rc, w', st') \<Longrightarrow> aftp_step cm (w, st) (w', st')"
| delete: "aftp_delete cm i d n w st = Some (rc, w', st') \<Longrightarrow> aftp_step cm (w, st) (w', st')"
| remove_dir: "aftp_remove_dir cm i d n w st = Some (rc, w', st') \<Longrightarrow> aftp_step cm (w, st) (w', st')"
| rename: "aftp_rename cm i d n d' n' w st = Some (rc, w', st') \<Longrightarrow> aftp_step cm (w, st) (w', st')"
| dir_open: "aftp_dir_open cm i d n ft il path pl w st = Some (rc, (w', out), st') \<Longrightarrow> aftp_step cm (w, st) (w', st')"
| dir_read: "aftp_dir_read cm i d n w st = Some (rc, (w', out'), st') \<Longrightarrow> aftp_step cm (w, st) (w', st')"
| query_current_dir: "aftp_query_current_dir cm i d n w st = Some (rc, (w', out), st') \<Longrightarrow> aftp_step cm (w, st) (w', st')"
| query_system_info: "aftp_query_system_info cm i d n w st = Some (rc, (w', out), st') \<Longrightarrow> aftp_step cm (w, st) (w', st')"
| receive_file: "aftp_receive_file cm i lf ll rf rl old w st = Some (rc, (w', file), st') \<Longrightarrow> aftp_step cm (w, st) (w', st')"
| send_file: "aftp_send_file cm i lf ll rf rl src w st = Some (rc, w', st') \<Longrightarrow> aftp_step cm (w, st) (w', st')"
| set_allocation_size: "aftp_set_allocation_size i n st = Some (rc, u, st') \<Longrightarrow> aftp_step cm (w, st) (w, st')"
| set_block_size: "aftp_set_block_size i n st = Some (rc, u, st') \<Longrightarrow> aftp_step cm (w, st) (w, st')"
| set_data_type: "aftp_set_data_type i n st = Some (rc, u, st') \<Longrightarrow> aftp_step cm (w, st) (w, st')"
| set_date_mode: "aftp_set_date_mode i n st = Some (rc, u, st') \<Longrightarrow> aftp_step cm (w, st) (w, st')"
| set_record_format: "aftp_set_record_format i n st = Some (rc, u, st') \<Longrightarrow> aftp_step cm (w, st) (w, st')"
| set_record_length: "aftp_set_record_length i n st = Some (rc, u, st') \<Longrightarrow> aftp_step cm (w, st) (w, st')"
| set_security_type: "aftp_set_security_type i n st = Some (rc, u, st') \<Longrightarrow> aftp_step cm (w, st) (w, st')"
| set_write_mode: "aftp_set_write_mode i n st = Some (rc, u, st') \<Longrightarrow> aftp_step cm (w, st) (w, st')"
| set_destination: "aftp_set_destination i d n st = Some (rc, u, st') \<Longrightarrow> aftp_step cm (w, st) (w, st')"
| set_mode_name: "aftp_set_mode_name i d n st = Some (rc, u, st') \<Longrightarrow> aftp_step cm (w, st) (w, st')"
| set_tp_name: "aftp_set_tp_name i d n st = Some (rc, u, st') \<Longrightarrow> aftp_step cm (w, st) (w, st')"
| set_password: "aftp_set_password i d n st = Some (rc, u, st') \<Longrightarrow> aftp_step cm (w, st) (w, st')"
| set_userid: "aftp_set_userid i d n st = Some (rc, u, st') \<Longrightarrow> aftp_step cm (w, st) (w, st')"
| local_change_dir: "aftp_local_change_dir i b dir st = Some (rc, u, st') \<Longrightarrow> aftp_step cm (w, st) (w, st')"
| set_trace_level: "aftp_set_trace_level n st = (rc, st') \<Longrightarrow> aftp_step cm (w, st) (w, st')"
| set_trace_filename: "aftp_set_trace_filename d n st = Some (rc, st') \<Longrightarrow> aftp_step cm (w, st) (w, st')"

text \<open>The static variables of the library when the program starts.\<close>

definition aftp_init :: aftp where
  "aftp_init = \<lparr>ftp_handle_counter = 0, sessions = replicate MAX_FTP_SESSIONS None, heap = Map.empty,
     global_trace_file = replicate MAX_FILE_NAME (Some 0), global_trace_level = 0\<rparr>"

inductive aftp_reachable :: "'w cpic \<Rightarrow> 'w \<Rightarrow> 'w \<times> aftp \<Rightarrow> bool" for cm w0 where
  start: "aftp_reachable cm w0 (w0, aftp_init)"
| step: "aftp_reachable cm w0 c \<Longrightarrow> aftp_step cm c c' \<Longrightarrow> aftp_reachable cm w0 c'"

lemma new_session_wf: "wf_record r \<Longrightarrow> wf_session (new_session r path)"
  by (simp add: wf_session_def new_session_def new_string_def aftp_sizes DEFAULT_MODE_NAME_def
      DEFAULT_TP_NAME_def OS_NAME_def)

lemma create_cases:
  assumes "aftp_create getcwd (Some p) b b' st = Some (rc, h, st')"
  shows "b \<and> unat (ftp_handle_counter st) < length (sessions st)
    \<and> rc = Some AFTP_RC_OK \<and> h = Some (ftp_handle_counter st)
    \<and> (\<exists>hp. st' = st\<lparr>sessions := (sessions st)[unat (ftp_handle_counter st) := Some p],
          ftp_handle_counter := ftp_handle_counter st + 1, heap := hp\<rparr>
        \<and> (hp = (heap st)(p := None) \<or> (\<exists>path. hp = (heap st)(p \<mapsto> new_session fresh_record path))))"
  using assms
  by (auto simp: aftp_create_def asuiterecord_new_def fresh_record_def poke_def Let_def
      split: bind_splits if_splits option.splits)

lemma create_inv:
  assumes "aftp_create getcwd p b b' st = Some (rc, h, st')" "aftp_inv st"
  shows "aftp_inv st'"
proof (cases p)
  case None
  with assms show ?thesis by (simp add: aftp_create_def)
next
  case (Some q)
  let ?c = "ftp_handle_counter st"
  note c = create_cases [OF assms(1) [unfolded Some]]
  then have lt: "unat ?c < MAX_FTP_SESSIONS" using assms(2) by (simp add: aftp_inv_def)
  then have suc: "unat (?c + 1) = unat ?c + 1"
    using unat_add_lem [of ?c 1] by (simp add: MAX_FTP_SESSIONS_def)
  from c obtain hp where st': "st' = st\<lparr>sessions := (sessions st)[unat ?c := Some q], ftp_handle_counter := ?c + 1, heap := hp\<rparr>"
    and hp: "hp = (heap st)(q := None) \<or> (\<exists>path. hp = (heap st)(q \<mapsto> new_session fresh_record path))" by blast
  have "\<forall>p s. hp p = Some s \<longrightarrow> wf_session s"
    using hp assms(2) new_session_wf [OF fresh_record(2)] by (auto simp: aftp_inv_def split: if_splits)
  then show ?thesis
    using assms(2) lt suc unfolding st' aftp_inv_def by (auto simp: nth_list_update)
qed

lemma destroy_inv: "aftp_destroy i st = Some (rc, st') \<Longrightarrow> aftp_inv st \<Longrightarrow> aftp_inv st'"
  by (auto simp: aftp_destroy_def aftp_inv_def split: option.splits bind_splits if_splits)

lemma trace_inv:
  "aftp_set_trace_level n st = (rc, st') \<Longrightarrow> aftp_inv st \<Longrightarrow> aftp_inv st'"
  "aftp_set_trace_filename d n st = Some (rc, st') \<Longrightarrow> aftp_inv st \<Longrightarrow> aftp_inv st'"
  by (auto simp: aftp_set_trace_level_def aftp_set_trace_filename_def aftp_inv_def
      split: if_splits bind_splits dest!: strncpy_to_length)

lemma step_inv: "aftp_step cm c c' \<Longrightarrow> aftp_inv (snd c) \<Longrightarrow> aftp_inv (snd c')"
  by (induction rule: aftp_step.induct; simp only: snd_conv)
    (elim create_inv destroy_inv requests_inv settings_inv names_inv trace_inv; assumption)+

text \<open>The invariant in every state that a sequence of calls can reach, whatever the server sends and whichever calls fail.\<close>

lemma reachable_inv:
  assumes "aftp_reachable cm w0 (w, st)"
  shows "aftp_inv st"
proof -
  have "aftp_inv (snd c)" if "aftp_reachable cm w0 c" for c
    using that
  proof induction
    case start
    then show ?case by (simp add: aftp_inv_def aftp_init_def MAX_FTP_SESSIONS_def)
  next
    case (step c c')
    then show ?case by (blast intro: step_inv)
  qed
  from this [OF assms] show ?thesis by simp
qed

text \<open>A line that keeps what was sent and delivers given replies, for the concrete instances.\<close>

type_synonym tape = "byte list list \<times> byte list list"

definition tape_line :: "tape cpic" where
  "tape_line = \<lparr>cmsend = \<lambda>(out, inp) cid m. (0, (out @ [m], inp)),
     cmrcv = \<lambda>(out, inp) cid n. (case inp of [] \<Rightarrow> (1, [], (out, [])) | m # ms \<Rightarrow> (0, m, (out, ms))),
     cminit = \<lambda>w name. (0, [1], w), cmspln = \<lambda>w cid x. (0, w), cmsmn = \<lambda>w cid x. (0, w), cmstpn = \<lambda>w cid x. (0, w),
     cmallc = \<lambda>w cid. (0, w), cmdeal = \<lambda>w cid. (0, w)\<rparr>"

lemma create_ok:
  assumes "unat (ftp_handle_counter st) < length (sessions st)" "length path < 64"
  shows "aftp_create (getcwd_at path) (Some p) True True st = Some (Some AFTP_RC_OK, Some (ftp_handle_counter st),
    st\<lparr>sessions := (sessions st)[unat (ftp_handle_counter st) := Some p], ftp_handle_counter := ftp_handle_counter st + 1,
      heap := (heap st)(p \<mapsto> new_session fresh_record (path @ [0x2F]))\<rparr>)"
proof -
  have "safe_get_cwd (getcwd_at path) True = Some (Some (path @ [0x2F]))"
    using assms(2) by (simp add: safe_get_cwd_def getcwd_at_def CWD_CHUNK_def cwd_loop.simps)
  with assms(1) show ?thesis by (simp add: aftp_create_def fresh_record(1) poke_def)
qed

lemma live_iff: "live st i = Some s \<longleftrightarrow> unat i < 20 \<and> (\<exists>p. sessions st ! unat i = Some p \<and> heap st p = Some s)"
  by (cases "sessions st ! unat i") (auto simp: live_def slot_def MAX_FTP_SESSIONS_def)

text \<open>
  As long as fewer than twenty sessions were created, \<^verbatim>\<open>aftp_create\<close> hands out a handle that no earlier
  call returned: the handle leads to a new session with the default settings and every other session is as
  before. The twenty-first creation writes behind the table.
\<close>

theorem create_gives_new_handle:
  assumes "aftp_inv st" "heap st p = None" "length path < 64"
  shows "if unat (ftp_handle_counter st) < 20
    then \<exists>st'. aftp_create (getcwd_at path) (Some p) True True st = Some (Some AFTP_RC_OK, Some (ftp_handle_counter st), st')
      \<and> live st (ftp_handle_counter st) = None
      \<and> live st' (ftp_handle_counter st) = Some (new_session fresh_record (path @ [0x2F]))
      \<and> (\<forall>i. live st i \<noteq> None \<longrightarrow> live st' i = live st i)
    else aftp_create (getcwd_at path) (Some p) True True st = None"
proof (cases "unat (ftp_handle_counter st) < 20")
  case True
  let ?c = "ftp_handle_counter st"
  have free: "sessions st ! unat ?c = None" and len: "length (sessions st) = 20"
    using True assms(1) by (auto simp: aftp_inv_def MAX_FTP_SESSIONS_def)
  define st' where "st' = st\<lparr>sessions := (sessions st)[unat ?c := Some p], ftp_handle_counter := ?c + 1,
      heap := (heap st)(p \<mapsto> new_session fresh_record (path @ [0x2F]))\<rparr>"
  have "live st' i = live st i" if l: "live st i \<noteq> None" for i
  proof -
    obtain q where q: "unat i < 20" "sessions st ! unat i = Some q" "heap st q \<noteq> None"
      using l by (auto simp: live_iff)
    with free assms(2) have "unat i \<noteq> unat ?c" "q \<noteq> p" by auto
    with q show ?thesis by (simp add: st'_def live_def slot_def MAX_FTP_SESSIONS_def)
  qed
  moreover have "live st ?c = None" "live st' ?c = Some (new_session fresh_record (path @ [0x2F]))"
    using True free len by (simp_all add: st'_def live_def slot_def MAX_FTP_SESSIONS_def)
  ultimately show ?thesis
    using True len create_ok [of st path p] assms(3) by (auto simp: st'_def)
next
  case False
  then show ?thesis using assms(1) by (simp add: aftp_create_def poke_def aftp_inv_def MAX_FTP_SESSIONS_def)
qed

theorem create_gives_new_handle_witness:
  "\<exists>st'. aftp_create (getcwd_at []) (Some 7) True True demo = Some (Some AFTP_RC_OK, Some 2, st')
    \<and> live st' 2 = Some (new_session fresh_record [0x2F]) \<and> live st' 0 = Some demo_session"
proof -
  have "aftp_inv demo"
    using new_session_wf [OF fresh_record(2)]
    by (auto simp: aftp_inv_def demo_def demo_session_def MAX_FTP_SESSIONS_def nth_Cons split: nat.splits if_splits)
  moreover have "ftp_handle_counter demo = 2" "heap demo 7 = None" by (simp_all add: demo_def)
  ultimately show ?thesis
    using create_gives_new_handle [of demo 7 "[]"] demo_live(1) by auto
qed

text \<open>
  \<^verbatim>\<open>aftp_destroy\<close> frees the session but leaves its pointer in the table: the handle still passes every
  check, and each later call through it, a second \<^verbatim>\<open>aftp_destroy\<close> included, works on freed memory.
\<close>

theorem destroyed_handle_dangles:
  assumes "live st index = Some s"
  shows "\<exists>st'. aftp_destroy index st = Some (Some AFTP_RC_OK, st') \<and> slot st' index \<noteq> None
    \<and> on_session index bad dflt body st' = None \<and> aftp_destroy index st' = None"
  using assms by (auto simp: live_def aftp_destroy_def on_session_def split: bind_splits)

theorem destroyed_handle_dangles_witness:
  "\<exists>st'. aftp_destroy 1 demo = Some (Some AFTP_RC_OK, st') \<and> aftp_destroy 1 st' = None"
  using destroyed_handle_dangles [OF demo_live(2), of 12 "()" "\<lambda>s. Some (None, (), s)"] by auto

end
