(* ===== verification/Aftp_Protocol.thy ===== *)
theory Aftp_Protocol
  imports Aftp_Sessions
begin

text \<open>
  What the requests of the file transfer library (\<^verbatim>\<open>libasuite/libaftp.c\<close>) put on the line and what
  the replies of a server built on \<^verbatim>\<open>send_simple_response\<close> (\<^verbatim>\<open>libasuite/asuitecommon.c\<close>) do to a
  session, and the transfer of files in both directions.
\<close>

section \<open>Sending and receiving\<close>

lemma send_ok:
  "contents r = Some bs \<Longrightarrow> cmsend cm w cid bs = (0, w') \<Longrightarrow> send_asuiterecord cm w cid r = Some (0, w')"
  by (simp add: send_asuiterecord_def contents_def CM_OK_def ASUITE_RC_OK_def)

lemma receive_ok:
  assumes "wf_record r" "cmrcv cm w cid MAX_BUFFER_SIZE = (0, data, w')" "length data \<le> MAX_BUFFER_SIZE"
  shows "\<exists>r'. get_asuiterecord cm w cid r = Some (0, r', w') \<and> wf_record r' \<and> contents r' = Some data"
  using assms
  by (auto simp: get_asuiterecord_def CM_OK_def ASUITE_RC_OK_def poke_block_def wf_record_def contents_def get_bytes_iff)

lemma exchange_ok:
  assumes "wf_session s" "conversation_ID s = Some cid" "contents (rec s) = Some req"
    and "cmsend cm w cid req = (0, w1)" "cmrcv cm w1 cid MAX_BUFFER_SIZE = (0, data, w2)"
    and "length data \<le> MAX_BUFFER_SIZE"
  shows "\<exists>r. exchange cm w s = Some (0, s\<lparr>rec := r\<rparr>, w2) \<and> wf_record r \<and> contents r = Some data"
  using receive_ok [OF wf_session_rec_wf [OF assms(1)] assms(5,6)] send_ok [OF assms(3,4)] assms(2)
  by (auto simp: exchange_def AFTP_RC_OK_def)

text \<open>A request with one string.\<close>

lemma request_one:
  assumes "wf_record r" "no_nul d" "length d + 6 \<le> MAX_BUFFER_SIZE"
  shows "\<exists>q r'. asuiterecord_settype (asuiterecord_clear r) t = Some q
    \<and> asuiterecord_append q k (str_cells d) (length d + 1) = Some r' \<and> wf_record r'
    \<and> contents r' = Some (be16 t @ tlv k (d @ [0]))"
  using build_record_contents [OF assms(1), of "[(k, d)]" t] assms(2,3)
  by (auto simp: build_record_def split: bind_splits)

section \<open>Reading a status\<close>

lemma be16_small: "be16 1 = [0, 1]" "be16 4 = [0, 4]" "be16 7 = [0, 7]" "be16 9 = [0, 9]"
  by (simp_all add: be16_def)

lemma status_image_bytes:
  "status_image e c i = [0, 1, 0, 4, 2, ucast e] @
     (if e = 0 then [] else [0, 7, 4] @ be16 (ucast c) @ be16 (ucast i) @ [0, 9, 5] @ error_text @ [0])"
  by (simp add: status_image_def status_params_def asuite_codes tlv_def be16_small be16s_def)

lemma status_image_cells:
  assumes "contents r = Some (status_image e c i)"
  shows "get_received_len r = (if e = 0 then 6 else 22)" "get_major_code r = Some 1"
    "get_cell (buffer r) 5 = Some (ucast e)"
    "e \<noteq> 0 \<Longrightarrow> get_cat_index r 9 = Some (unat (ucast c :: u16))"
    "e \<noteq> 0 \<Longrightarrow> get_cat_index r 11 = Some (unat (ucast i :: u16))"
    "e \<noteq> 0 \<Longrightarrow> \<exists>rest. drop 16 (buffer r) = map Some error_text @ Some 0 # rest"
proof -
  show "get_received_len r = (if e = 0 then 6 else 22)"
    using assms by (auto simp: contents_def get_bytes_iff get_received_len_def status_image_bytes)
  show "get_major_code r = Some 1" "get_cell (buffer r) 5 = Some (ucast e)"
    using image_cell [of r "[]" "status_image e c i" "[]" 1] image_cell [of r "[]" "status_image e c i" "[]" 5] assms
    by (simp_all add: get_major_code_def status_image_bytes)
  assume e: "e \<noteq> 0"
  let ?hd = "[0, 1, 0, 4, 2, ucast e, 0, 7, 4]"
  have len: "length ?hd = 9" "length (?hd @ be16 (ucast c)) = 11" by simp_all
  have "contents r = Some (?hd @ be16 (ucast c) @ (be16 (ucast i) @ [0, 9, 5] @ error_text @ [0]))"
    "contents r = Some ((?hd @ be16 (ucast c)) @ be16 (ucast i) @ ([0, 9, 5] @ error_text @ [0]))"
    using assms e by (simp_all add: status_image_bytes)
  then show "get_cat_index r 9 = Some (unat (ucast c :: u16))" "get_cat_index r 11 = Some (unat (ucast i :: u16))"
    by (metis get_cat_index_at len(1), metis get_cat_index_at len(2))
  show "\<exists>rest. drop 16 (buffer r) = map Some error_text @ Some 0 # rest"
    using buffer_drop [of r "?hd @ be16 (ucast c) @ be16 (ucast i) @ [0, 9, 5]" "error_text @ [0]"] assms e
    by (auto simp: status_image_bytes)
qed

text \<open>The loop over a status record, with the body of the operation and its bound.\<close>

lemma status_small: "small (status_params e c i)" "status_params e c i \<noteq> []"
  by (simp_all add: status_params_def)

lemma status_walk:
  assumes "contents (rec s) = Some (status_image e c i)" "bound \<le> (if e = 0 then 6 else 22)"
  shows "parse_reply AFTP_SIMPLE_RESPONSE bound body s a = walk body bound 2 (status_params e c i) a"
proof -
  have c: "contents (rec s) = Some (be16 1 @ params (status_params e c i))"
    using assms(1) by (simp add: status_image_def asuite_codes)
  have "bound \<le> length (be16 1) + length (params (status_params e c i))"
    using assms(2) by (simp add: status_params_def split: if_splits)
  then show ?thesis
    using asuite.loop_walks [OF c status_small] status_image_cells(2) [OF assms(1)]
    by (simp add: parse_reply_def AFTP_SIMPLE_RESPONSE_def)
qed

text \<open>The state a status leaves in a session.\<close>

definition after_status :: "u32 \<Rightarrow> u32 \<Rightarrow> u32 \<Rightarrow> ftpsession \<Rightarrow> ftpsession \<Rightarrow> bool" where
  "after_status e c i s s' \<longleftrightarrow> status s' = Some (ucast e) \<and>
     (if e = 0 then msg_category s' = msg_category s \<and> msg_index s' = msg_index s \<and> primary_msg s' = primary_msg s
      else msg_category s' = Some (unat (ucast c :: u16)) \<and> msg_index s' = Some (unat (ucast i :: u16))
        \<and> c_str (primary_msg s') = Some error_text)"

lemma set_primary_msg_error:
  assumes "drop (p + 3) (buffer (rec s)) = map Some error_text @ Some 0 # rest" "length (primary_msg s) = 513"
  shows "\<exists>m. set_primary_msg s p = Some (s\<lparr>primary_msg := m\<rparr>) \<and> c_str m = Some error_text"
proof -
  have "strncpy_src (drop (p + 3) (buffer (rec s))) MSG_BUFFER_LENGTH = Some (pad_to 512 error_text)"
    by (simp only: assms(1) MSG_BUFFER_LENGTH_def strncpy_src_string length_error_text)
  moreover have "pad_to 512 error_text = error_text @ 0 # replicate 506 0" by (simp add: pad_to_short)
  ultimately have "set_primary_msg s p = Some (s\<lparr>primary_msg := map Some error_text @ Some 0 #
      (replicate 506 (Some 0) @ drop 512 (primary_msg s))\<rparr>)"
    using assms(2) by (simp add: set_primary_msg_def strncpy_to_def poke_block_def)
  then show ?thesis using c_str_append [OF length_error_text(2)] by blast
qed

lemma parse_status:
  assumes "wf_session s" "contents (rec s) = Some (status_image e c i)"
  shows "\<exists>s'. parse_reply AFTP_SIMPLE_RESPONSE (get_received_len (rec s)) status_body s (AFTP_RC_OK, s)
      = Some (if e = 0 then AFTP_RC_OK else AFTP_RC_FAIL_FATAL, s') \<and> after_status e c i s s'"
proof -
  note cells = status_image_cells [OF assms(2)]
  have walk: "parse_reply AFTP_SIMPLE_RESPONSE (get_received_len (rec s)) status_body s (AFTP_RC_OK, s)
      = walk status_body (if e = 0 then 6 else 22) 2 (status_params e c i) (AFTP_RC_OK, s)"
    unfolding cells(1) by (rule status_walk [OF assms(2) order.refl])
  show ?thesis
  proof (cases "e = 0")
    case True
    then show ?thesis
      using walk cells(3)
      by (simp add: status_params_def asuite_codes aftp_codes set_status_def after_status_def)
  next
    case False
    let ?s = "s\<lparr>status := Some (ucast e), msg_category := Some (unat (ucast c :: u16)), msg_index := Some (unat (ucast i :: u16))\<rparr>"
    obtain m where "set_primary_msg ?s 13 = Some (?s\<lparr>primary_msg := m\<rparr>)" "c_str m = Some error_text"
      using cells(6) [OF False] set_primary_msg_error [of 13 ?s] assms(1)
      by (auto simp: wf_session_def MSG_BUFFER_LENGTH_def)
    then show ?thesis
      using walk cells(3) cells(4,5) [OF False] False
      by (simp add: status_params_def asuite_codes aftp_codes set_status_def set_category_def after_status_def)
  qed
qed

section \<open>Requests and their replies\<close>

text \<open>
  The situation of a request that meets a server: \<open>answers cm cid req reply w w'\<close> says that the line takes the
  request and then delivers the reply.
\<close>

definition answers :: "'w cpic \<Rightarrow> conv_id \<Rightarrow> byte list \<Rightarrow> byte list \<Rightarrow> 'w \<Rightarrow> 'w \<Rightarrow> bool" where
  "answers cm cid req reply w w' \<longleftrightarrow>
     (\<exists>w1. cmsend cm w cid req = (0, w1) \<and> cmrcv cm w1 cid MAX_BUFFER_SIZE = (0, reply, w'))"

definition ready :: "aftp \<Rightarrow> byte \<Rightarrow> conv_id \<Rightarrow> ftpsession \<Rightarrow> bool" where
  "ready st index cid s \<longleftrightarrow> live st index = Some s \<and> wf_session s \<and> conversation_ID s = Some cid"

lemma status_image_fits: "length (status_image e c i) \<le> MAX_BUFFER_SIZE"
  by (simp add: status_image_bytes MAX_BUFFER_SIZE_def)

lemma request_answered:
  assumes "ready st index cid s" "no_nul d" "length d + 6 \<le> MAX_BUFFER_SIZE"
    and "answers cm cid (be16 t @ tlv AFTP_FILESPEC (d @ [0])) (status_image e c i) w w'"
  obtains q r q' where "asuiterecord_settype (asuiterecord_clear (rec s)) t = Some q"
    "asuiterecord_append q AFTP_FILESPEC (str_cells d) (Suc (length d)) = Some r"
    "exchange cm w (s\<lparr>rec := r\<rparr>) = Some (AFTP_RC_OK, s\<lparr>rec := q'\<rparr>, w')"
    "wf_session (s\<lparr>rec := q'\<rparr>)" "contents (rec (s\<lparr>rec := q'\<rparr>)) = Some (status_image e c i)"
proof -
  have s: "wf_session s" "conversation_ID s = Some cid" using assms(1) by (simp_all add: ready_def)
  obtain q r where r: "asuiterecord_settype (asuiterecord_clear (rec s)) t = Some q"
    "asuiterecord_append q AFTP_FILESPEC (str_cells d) (Suc (length d)) = Some r"
    "wf_record r" "contents r = Some (be16 t @ tlv AFTP_FILESPEC (d @ [0]))"
    using request_one [OF wf_session_rec_wf [OF s(1)] assms(2,3), of t AFTP_FILESPEC] by auto
  obtain w1 where w1: "cmsend cm w cid (be16 t @ tlv AFTP_FILESPEC (d @ [0])) = (0, w1)"
    "cmrcv cm w1 cid MAX_BUFFER_SIZE = (0, status_image e c i, w')"
    using assms(4) by (auto simp: answers_def)
  have "conversation_ID (s\<lparr>rec := r\<rparr>) = Some cid" "contents (rec (s\<lparr>rec := r\<rparr>)) = Some (be16 t @ tlv AFTP_FILESPEC (d @ [0]))"
    using s(2) r(4) by simp_all
  from exchange_ok [OF wf_session_rec [OF s(1) r(3)] this w1 status_image_fits]
  obtain q' where "exchange cm w (s\<lparr>rec := r\<rparr>) = Some (AFTP_RC_OK, s\<lparr>rec := q'\<rparr>, w')" "wf_record q'"
    "contents q' = Some (status_image e c i)"
    by (auto simp: AFTP_RC_OK_def)
  with r(1,2) wf_session_rec [OF s(1)] that show ?thesis by simp
qed

text \<open>The result of a call from that of its body.\<close>

lemma on_session_result:
  assumes "ready st index cid s" "body s = Some (rc, out, s')" "P s'"
  shows "\<exists>st' s'. on_session index bad dflt body st = Some (rc, out, st') \<and> live st' index = Some s' \<and> P s'
    \<and> (\<forall>j. \<not> aliases st index j \<longrightarrow> live st' j = live st j)"
  using on_session_live [of st index s body rc out s' bad dflt] assms unfolding ready_def by blast

text \<open>
  A directory is removed as the protocol has it: the request on the line is the major code and the
  name, and whatever status the server answers with \<^verbatim>\<open>send_simple_response\<close> reaches the caller: success or
  failure as the return code, and in the session the server's return code and, for a failure, its
  category, index and message. No other session changes.
\<close>

theorem remove_dir_reports_status:
  assumes "ready st index cid s" "no_nul d" "length d + 6 \<le> MAX_BUFFER_SIZE"
    and "answers cm cid (be16 AFTP_REMOVE_DIR @ tlv AFTP_FILESPEC (d @ [0])) (status_image e c i) w w'"
  shows "\<exists>st' s'. aftp_remove_dir cm index (str_cells d) (length d) w st
        = Some (Some (if e = 0 then AFTP_RC_OK else AFTP_RC_FAIL_FATAL), w', st')
    \<and> live st' index = Some s' \<and> after_status e c i s s'
    \<and> (\<forall>j. \<not> aliases st index j \<longrightarrow> live st' j = live st j)"
proof -
  obtain q r q' where r: "asuiterecord_settype (asuiterecord_clear (rec s)) AFTP_REMOVE_DIR = Some q"
    "asuiterecord_append q AFTP_FILESPEC (str_cells d) (Suc (length d)) = Some r"
    "exchange cm w (s\<lparr>rec := r\<rparr>) = Some (AFTP_RC_OK, s\<lparr>rec := q'\<rparr>, w')"
    and wf: "wf_session (s\<lparr>rec := q'\<rparr>)" and c: "contents (rec (s\<lparr>rec := q'\<rparr>)) = Some (status_image e c i)"
    by (rule request_answered [OF assms])
  obtain s' where s': "parse_reply AFTP_SIMPLE_RESPONSE (get_received_len q') status_body (s\<lparr>rec := q'\<rparr>) (AFTP_RC_OK, s\<lparr>rec := q'\<rparr>)
      = Some (if e = 0 then AFTP_RC_OK else AFTP_RC_FAIL_FATAL, s')" "after_status e c i (s\<lparr>rec := q'\<rparr>) s'"
    using parse_status [OF wf c] by auto
  have "after_status e c i s s'" using s'(2) by (simp add: after_status_def)
  then show ?thesis
    unfolding aftp_remove_dir_def by (intro on_session_result [OF assms(1)]) (simp_all add: r s'(1))
qed

lemma demo_ready: "ready demo 0 [1] demo_session"
  using new_session_wf [OF fresh_record(2)] demo_live(1) by (simp add: ready_def demo_session_def)

lemma tape_answers: "answers tape_line cid req reply ([], [reply]) ([req], [])"
  by (simp add: answers_def tape_line_def)

theorem remove_dir_reports_status_witness:
  "\<exists>st' s'. aftp_remove_dir tape_line 0 (str_cells [0x74]) 1 ([], [status_image 9 602 3]) demo
        = Some (Some AFTP_RC_FAIL_FATAL, ([be16 AFTP_REMOVE_DIR @ tlv AFTP_FILESPEC [0x74, 0]], []), st')
    \<and> live st' 0 = Some s' \<and> msg_category s' = Some 602 \<and> msg_index s' = Some 3"
  using remove_dir_reports_status [OF demo_ready, of "[0x74]", simplified, OF _ tape_answers [of _ _ "status_image 9 602 3"]]
  by (auto simp: MAX_BUFFER_SIZE_def after_status_def)

text \<open>
  \<^verbatim>\<open>aftp_create_dir\<close> stops reading the reply at the length of the directory's name: for a name of at
  most six characters every status, each failure included, is reported as success.
\<close>

theorem create_dir_misses_error:
  assumes "ready st index cid s" "no_nul d" "length d \<le> 6"
    and "answers cm cid (be16 AFTP_CREATE_DIR @ tlv AFTP_FILESPEC (d @ [0])) (status_image e c i) w w'"
  shows "\<exists>st' s'. aftp_create_dir cm index (str_cells d) (length d) w st = Some (Some AFTP_RC_OK, w', st')
    \<and> live st' index = Some s' \<and> msg_category s' = msg_category s
    \<and> (\<forall>j. \<not> aliases st index j \<longrightarrow> live st' j = live st j)"
proof -
  have "length d + 6 \<le> MAX_BUFFER_SIZE" using assms(3) by (simp add: MAX_BUFFER_SIZE_def)
  from request_answered [OF assms(1,2) this assms(4)] obtain q r q' where
    r: "asuiterecord_settype (asuiterecord_clear (rec s)) AFTP_CREATE_DIR = Some q"
    "asuiterecord_append q AFTP_FILESPEC (str_cells d) (Suc (length d)) = Some r"
    "exchange cm w (s\<lparr>rec := r\<rparr>) = Some (AFTP_RC_OK, s\<lparr>rec := q'\<rparr>, w')"
    and c: "contents (rec (s\<lparr>rec := q'\<rparr>)) = Some (status_image e c i)" .
  have "parse_reply AFTP_SIMPLE_RESPONSE (length d) create_dir_body (s\<lparr>rec := q'\<rparr>) (AFTP_RC_OK, s\<lparr>rec := q'\<rparr>)
      = walk create_dir_body (length d) 2 (status_params e c i) (AFTP_RC_OK, s\<lparr>rec := q'\<rparr>)"
    by (rule status_walk [OF c]) (use assms(3) in simp)
  also have "\<dots> = Some (AFTP_RC_OK, s\<lparr>rec := q'\<rparr>)"
    using assms(3) by (simp add: status_params_def asuite_codes aftp_codes)
  finally show ?thesis
    unfolding aftp_create_dir_def
    by (intro on_session_result [OF assms(1), where s' = "s\<lparr>rec := q'\<rparr>"]) (simp_all add: r)
qed

theorem create_dir_misses_error_witness:
  "\<exists>st' s'. aftp_create_dir tape_line 0 (str_cells [0x74]) 1 ([], [status_image 9 603 1]) demo
      = Some (Some AFTP_RC_OK, ([be16 AFTP_CREATE_DIR @ tlv AFTP_FILESPEC [0x74, 0]], []), st') \<and> live st' 0 = Some s'"
  using create_dir_misses_error [OF demo_ready, of "[0x74]", simplified, OF tape_answers [of _ _ "status_image 9 603 1"]]
  by auto

text \<open>A reply that is read without looking at it.\<close>

lemma parse_nothing:
  assumes "contents (rec s) = Some (status_image e c i)"
  shows "parse_reply AFTP_SIMPLE_RESPONSE (get_received_len (rec s)) (\<lambda>key curpos u. Some u) s () = Some ()"
proof -
  note len = status_image_cells(1) [OF assms]
  have "parse_reply AFTP_SIMPLE_RESPONSE (get_received_len (rec s)) (\<lambda>key curpos u. Some u) s ()
      = walk (\<lambda>key curpos u. Some u) (get_received_len (rec s)) 2 (status_params e c i) ()"
    by (rule status_walk [OF assms]) (use len in simp)
  also have "\<dots> = Some ()" using len by (simp add: status_params_def)
  finally show ?thesis .
qed

text \<open>
  \<^verbatim>\<open>aftp_delete\<close> reads the whole reply and reports success for every status in it: a file the server
  refuses to delete counts as deleted.
\<close>

theorem delete_ignores_status:
  assumes "ready st index cid s" "no_nul d" "length d + 6 \<le> MAX_BUFFER_SIZE"
    and "answers cm cid (be16 AFTP_DELETE @ tlv AFTP_FILESPEC (d @ [0])) (status_image e c i) w w'"
  shows "\<exists>st'. aftp_delete cm index (str_cells d) (length d) w st = Some (Some AFTP_RC_OK, w', st')"
proof -
  obtain q r q' where r: "asuiterecord_settype (asuiterecord_clear (rec s)) AFTP_DELETE = Some q"
    "asuiterecord_append q AFTP_FILESPEC (str_cells d) (Suc (length d)) = Some r"
    "exchange cm w (s\<lparr>rec := r\<rparr>) = Some (AFTP_RC_OK, s\<lparr>rec := q'\<rparr>, w')"
    and c: "contents (rec (s\<lparr>rec := q'\<rparr>)) = Some (status_image e c i)"
    by (rule request_answered [OF assms])
  have "parse_reply AFTP_SIMPLE_RESPONSE (get_received_len q') (\<lambda>key curpos u. Some u) (s\<lparr>rec := q'\<rparr>) () = Some ()"
    using parse_nothing [OF c] by simp
  then have "\<exists>st' s'. aftp_delete cm index (str_cells d) (length d) w st = Some (Some AFTP_RC_OK, w', st')
      \<and> live st' index = Some s' \<and> True \<and> (\<forall>j. \<not> aliases st index j \<longrightarrow> live st' j = live st j)"
    unfolding aftp_delete_def
    by (intro on_session_result [OF assms(1), where s' = "s\<lparr>rec := q'\<rparr>"]) (simp_all add: r)
  then show ?thesis by blast
qed

theorem delete_ignores_status_witness:
  "\<exists>st'. aftp_delete tape_line 0 (str_cells [0x74]) 1 ([], [status_image 9 603 1]) demo
      = Some (Some AFTP_RC_OK, ([be16 AFTP_DELETE @ tlv AFTP_FILESPEC [0x74, 0]], []), st')"
  using delete_ignores_status [OF demo_ready, of "[0x74]", simplified, OF _ tape_answers [of _ _ "status_image 9 603 1"]]
  by (auto simp: MAX_BUFFER_SIZE_def)

section \<open>Sending a file\<close>

text \<open>A line on which every send succeeds and is kept: \<open>sent w\<close> is what has gone out so far.\<close>

definition keeps_sent :: "'w cpic \<Rightarrow> conv_id \<Rightarrow> ('w \<Rightarrow> byte list list) \<Rightarrow> bool" where
  "keeps_sent cm cid sent \<longleftrightarrow>
     (\<forall>w m. fst (cmsend cm w cid m) = 0 \<and> sent (snd (cmsend cm w cid m)) = sent w @ [m])"

text \<open>The records the line takes one after the other.\<close>

fun sends :: "'w cpic \<Rightarrow> conv_id \<Rightarrow> 'w \<Rightarrow> byte list list \<Rightarrow> 'w \<Rightarrow> bool" where
  "sends cm cid w [] w' \<longleftrightarrow> w = w'"
| "sends cm cid w (m # ms) w' \<longleftrightarrow> (\<exists>w1. cmsend cm w cid m = (0, w1) \<and> sends cm cid w1 ms w')"

lemma sends_append: "sends cm cid w (ms @ ms') w' \<longleftrightarrow> (\<exists>w1. sends cm cid w ms w1 \<and> sends cm cid w1 ms' w')"
  by (induction ms arbitrary: w) auto

lemma keeps_sent_sends:
  assumes "keeps_sent cm cid sent"
  shows "\<exists>w'. sends cm cid w ms w' \<and> sent w' = sent w @ ms"
proof (induction ms arbitrary: w)
  case (Cons m ms)
  have "cmsend cm w cid m = (0, snd (cmsend cm w cid m))" "sent (snd (cmsend cm w cid m)) = sent w @ [m]"
    using assms by (auto simp: keeps_sent_def prod_eq_iff)
  then show ?case using Cons [of "snd (cmsend cm w cid m)"] by auto
qed simp

text \<open>Pieces of a file as \<^verbatim>\<open>read\<close> delivers them: not empty and no longer than the room asked for.\<close>

definition pieces :: "byte list list \<Rightarrow> bool" where
  "pieces cs \<longleftrightarrow> (\<forall>c \<in> set cs. c \<noteq> [] \<and> length c \<le> MAX_BUFFER_SIZE - 2)"

lemma pieces_simps [simp]:
  "pieces []" "pieces (c # cs) \<longleftrightarrow> c \<noteq> [] \<and> length c \<le> MAX_BUFFER_SIZE - 2 \<and> pieces cs"
  by (auto simp: pieces_def)

lemma clear_contents:
  assumes "contents r = Some (be16 t @ bs)"
  shows "contents (asuiterecord_clear r) = Some (be16 t)"
proof -
  have h: "take (length bs + 2) (buffer r) = map Some (be16 t @ bs)"
    using assms by (auto simp: contents_def get_bytes_iff)
  have "take 2 (buffer r) = take 2 (take (length bs + 2) (buffer r))" by (simp add: min_def)
  also have "\<dots> = map Some (be16 t)" unfolding h by simp
  finally show ?thesis by (simp add: contents_def asuiterecord_clear_def get_bytes_iff)
qed

text \<open>\<open>ends\<close>: what may follow the last piece, the end of the file or an error.\<close>

definition ends :: "byte list option list \<Rightarrow> bool" where
  "ends rest \<longleftrightarrow> rest = [] \<or> hd rest = None \<or> hd rest = Some []"

lemma send_loop_sends:
  assumes "sends cm cid w (map (\<lambda>c. be16 t @ c) cs) w'" "pieces cs" "ends rest" "wf_record r" "contents r = Some (be16 t)"
  shows "\<exists>r'. send_loop cm cid (map Some cs @ rest) w r = Some (None, w', r') \<and> wf_record r'"
  using assms
proof (induction cs arbitrary: w r)
  case Nil
  then have h: "holds r (map Some (be16 t))" by (blast intro: contents_holds)
  obtain m where "poke_block (buffer r) (position r) [] = Some m" "wf_record (r\<lparr>buffer := m, position := position r\<rparr>)"
    using poke_block_holds [OF h, of "[]"] by (auto simp: MAX_BUFFER_SIZE_def holds_wf)
  with Nil show ?case
    by (cases rest) (auto simp: ends_def wf_record_def)
next
  case (Cons c cs)
  then have h: "holds r (map Some (be16 t))" by (blast intro: contents_holds)
  then obtain m where m: "poke_block (buffer r) (position r) (map Some c) = Some m"
    "holds (r\<lparr>buffer := m, position := position r + length c\<rparr>) (map Some (be16 t) @ map Some c)"
    using poke_block_holds [OF h, of c] Cons.prems(2) by (auto simp: MAX_BUFFER_SIZE_def)
  let ?q = "r\<lparr>buffer := m, position := position r + length c\<rparr>"
  have q: "contents ?q = Some (be16 t @ c)" "wf_record ?q"
    using holds_contents [of ?q "be16 t @ c"] m(2) holds_wf [OF m(2)] by simp_all
  obtain w1 where w1: "cmsend cm w cid (be16 t @ c) = (0, w1)" "sends cm cid w1 (map (\<lambda>c. be16 t @ c) cs) w'"
    using Cons.prems(1) by auto
  show ?case
    using Cons.IH [OF w1(2), of "asuiterecord_clear ?q"] Cons.prems(2,3) clear_contents [OF q(1)] q(2) m(1) send_ok [OF q(1) w1(1)]
    by (auto simp: AFTP_RC_OK_def)
qed

lemma settype_clear:
  assumes "wf_record r"
  shows "\<exists>r'. asuiterecord_settype r t = Some r' \<and> wf_record r' \<and> contents (asuiterecord_clear r') = Some (be16 t)"
proof -
  obtain r' where r': "asuiterecord_settype (asuiterecord_clear r) t = Some r'" "holds r' (map Some (be16 t))"
    using settype_holds [of "asuiterecord_clear r" t] assms by (auto simp: wf_record_def asuiterecord_clear_def)
  have "asuiterecord_settype r t = Some (r'\<lparr>position := position r\<rparr>)"
    using r'(1) by (auto simp: asuiterecord_settype_def asuiterecord_clear_def Let_def split: bind_splits)
  moreover have "asuiterecord_clear (r'\<lparr>position := position r\<rparr>) = r'"
    using r'(2) by (simp add: asuiterecord_clear_def holds_def)
  ultimately show ?thesis using holds_contents [OF r'(2)] holds_wf [OF r'(2)] by (simp add: wf_record_def)
qed

text \<open>The request that announces a file, with the default sizes.\<close>

definition send_image :: "byte list \<Rightarrow> byte list \<Rightarrow> ftpsession \<Rightarrow> byte list" where
  "send_image lf rf s = be16 AFTP_SEND_FILE @ tlv AFTP_FILESPEC (lf @ [0]) @ tlv AFTP_NEW_FILESPEC (rf @ [0])
     @ tlv AFTP_DATA_TYPE [of_nat (data_type s)] @ tlv AFTP_DATE_MODE [of_nat (date_mode s)]"

definition default_sizes :: "ftpsession \<Rightarrow> bool" where
  "default_sizes s \<longleftrightarrow> alloc_size s = 0 \<and> block_size s = 0 \<and> record_length s = 0"

lemma send_request_image:
  assumes "wf_session s" "default_sizes s" "no_nul lf" "no_nul rf" "length lf + length rf + 20 \<le> MAX_BUFFER_SIZE"
  shows "\<exists>r. send_request (str_cells lf) (length lf) (str_cells rf) (length rf) s = Some r \<and> wf_record r
    \<and> contents r = Some (send_image lf rf s)"
proof -
  let ?ps = "[(AFTP_FILESPEC, lf), (AFTP_NEW_FILESPEC, rf)]"
  obtain r where r: "build_record (rec s) AFTP_SEND_FILE ?ps = Some r" "wf_record r"
    "contents r = Some (be16 AFTP_SEND_FILE @ params (with_nul ?ps))"
    using build_record_contents [OF wf_session_rec_wf [OF assms(1)], of ?ps AFTP_SEND_FILE] assms(3-5) by auto
  let ?c = "map Some (be16 AFTP_SEND_FILE @ params (with_nul ?ps))"
  let ?d = "tlv AFTP_DATA_TYPE [of_nat (data_type s)]"
  obtain q where q: "asuiterecord_append_char r AFTP_DATA_TYPE (of_nat (data_type s)) = Some q" "holds q (?c @ map Some ?d)"
    using append_char_holds [OF contents_holds [OF r(3,2)], of AFTP_DATA_TYPE "of_nat (data_type s)"] assms(5) by auto
  obtain q' where q': "asuiterecord_append_char q AFTP_DATE_MODE (of_nat (date_mode s)) = Some q'"
    "holds q' ((?c @ map Some ?d) @ map Some (tlv AFTP_DATE_MODE [of_nat (date_mode s)]))"
    using append_char_holds [OF q(2), of AFTP_DATE_MODE "of_nat (date_mode s)"] assms(5) by auto
  have "contents q' = Some (send_image lf rf s)"
    using holds_contents [of q' "send_image lf rf s"] q'(2) by (simp add: send_image_def)
  moreover have "send_request (str_cells lf) (length lf) (str_cells rf) (length rf) s = Some q'"
    using r(1) q(1) q'(1) assms(2) by (auto simp: send_request_def build_record_def default_sizes_def split: bind_splits)
  ultimately show ?thesis using holds_wf [OF q'(2)] by blast
qed

text \<open>The server answers a transfer with a status.\<close>

definition closes :: "'w cpic \<Rightarrow> conv_id \<Rightarrow> ('w \<Rightarrow> byte list list) \<Rightarrow> byte list \<Rightarrow> bool" where
  "closes cm cid sent reply \<longleftrightarrow>
     (\<forall>w. \<exists>w'. cmrcv cm w cid MAX_BUFFER_SIZE = (0, reply, w') \<and> sent w' = sent w)"

text \<open>The end of a transfer.\<close>

lemma complete_file:
  assumes "wf_session s" "conversation_ID s = Some cid" "wf_record b"
    and "cmsend cm w cid (be16 AFTP_FILE_COMPLETE) = (0, w1)" "cmrcv cm w1 cid MAX_BUFFER_SIZE = (0, status_image e c i, w')"
  shows "\<exists>d q. asuiterecord_settype b AFTP_FILE_COMPLETE = Some d
    \<and> exchange cm w (s\<lparr>rec := asuiterecord_clear d\<rparr>) = Some (0, s\<lparr>rec := q\<rparr>, w')
    \<and> contents q = Some (status_image e c i)"
proof -
  obtain d where d: "asuiterecord_settype b AFTP_FILE_COMPLETE = Some d" "wf_record d"
    "contents (asuiterecord_clear d) = Some (be16 AFTP_FILE_COMPLETE)"
    using settype_clear [OF assms(3)] by blast
  let ?s = "s\<lparr>rec := asuiterecord_clear d\<rparr>"
  have "wf_session ?s" using wf_session_rec [OF assms(1)] d(2) by simp
  from exchange_ok [OF this _ _ assms(4,5) status_image_fits] assms(2) d(3)
  obtain q where "exchange cm w ?s = Some (0, s\<lparr>rec := q\<rparr>, w')" "contents q = Some (status_image e c i)" by auto
  with d(1) show ?thesis by auto
qed

text \<open>The records of a transfer, and a transfer over a line that takes them and then answers with a status.\<close>

definition file_records :: "byte list \<Rightarrow> byte list \<Rightarrow> ftpsession \<Rightarrow> byte list list \<Rightarrow> byte list list" where
  "file_records lf rf s cs =
     [send_image lf rf s] @ map (\<lambda>c. be16 AFTP_FILE_DATA @ c) cs @ [be16 AFTP_FILE_COMPLETE]"

lemma send_file_over:
  assumes "ready st index cid s" "default_sizes s" "no_nul lf" "no_nul rf" "length lf + length rf + 20 \<le> MAX_BUFFER_SIZE"
    and "sends cm cid w (file_records lf rf s cs) w1" "cmrcv cm w1 cid MAX_BUFFER_SIZE = (0, status_image e c i, w')"
    and "pieces cs" "ends rest"
  shows "\<exists>st'. aftp_send_file cm index (str_cells lf) (length lf) (str_cells rf) (length rf)
        (Some (map Some cs @ rest)) w st = Some (Some AFTP_RC_OK, w', st')"
proof -
  have s: "wf_session s" "conversation_ID s = Some cid" using assms(1) by (simp_all add: ready_def)
  obtain r where r: "send_request (str_cells lf) (length lf) (str_cells rf) (length rf) s = Some r" "wf_record r"
    "contents r = Some (send_image lf rf s)"
    using send_request_image [OF s(1) assms(2-5)] by blast
  obtain u v where u: "cmsend cm w cid (send_image lf rf s) = (0, u)"
    and v: "sends cm cid u (map (\<lambda>c. be16 AFTP_FILE_DATA @ c) cs) v" "cmsend cm v cid (be16 AFTP_FILE_COMPLETE) = (0, w1)"
    using assms(6) by (auto simp: file_records_def sends_append)
  obtain a where a: "asuiterecord_settype (asuiterecord_clear r) AFTP_FILE_DATA = Some a" "holds a (map Some (be16 AFTP_FILE_DATA))"
    using settype_holds [of "asuiterecord_clear r" AFTP_FILE_DATA] r(2) by (auto simp: asuiterecord_clear_def wf_record_def)
  obtain b where b: "send_loop cm cid (map Some cs @ rest) u a = Some (None, v, b)" "wf_record b"
    using send_loop_sends [OF v(1) assms(8,9) holds_wf [OF a(2)] holds_contents [OF a(2)]] by blast
  obtain d q where d: "asuiterecord_settype b AFTP_FILE_COMPLETE = Some d"
    and q: "exchange cm v (s\<lparr>rec := asuiterecord_clear d\<rparr>) = Some (0, s\<lparr>rec := q\<rparr>, w')"
    "contents q = Some (status_image e c i)"
    using complete_file [OF s b(2) v(2) assms(7)] by blast
  have p: "parse_reply AFTP_SIMPLE_RESPONSE (get_received_len q) (\<lambda>key curpos u. Some u) (s\<lparr>rec := q\<rparr>) () = Some ()"
    using parse_nothing [of "s\<lparr>rec := q\<rparr>" e c i] q(2) by simp
  have "\<exists>st' s'. aftp_send_file cm index (str_cells lf) (length lf) (str_cells rf) (length rf)
        (Some (map Some cs @ rest)) w st = Some (Some AFTP_RC_OK, w', st') \<and> live st' index = Some s' \<and> True
      \<and> (\<forall>j. \<not> aliases st index j \<longrightarrow> live st' j = live st j)"
    unfolding aftp_send_file_def
    by (intro on_session_result [OF assms(1), where s' = "s\<lparr>rec := q\<rparr>"])
      (simp_all add: r(1) s(2) send_ok [OF r(3) u] a(1) b(1) d q(1) p AFTP_RC_OK_def)
  then show ?thesis by blast
qed

text \<open>
  A file is sent whole: after the request every piece \<^verbatim>\<open>read\<close> delivers goes out in one data record, in
  order, followed by the record that completes the file. The end of the file and a failing \<^verbatim>\<open>read\<close> are treated
  alike, and the call reports success whatever status the server answers.
\<close>

theorem send_file_sends_whole_file:
  assumes "ready st index cid s" "default_sizes s" "no_nul lf" "no_nul rf" "length lf + length rf + 20 \<le> MAX_BUFFER_SIZE"
    and "keeps_sent cm cid sent" "closes cm cid sent (status_image e c i)"
    and "pieces cs" "ends rest"
  shows "\<exists>w' st'. aftp_send_file cm index (str_cells lf) (length lf) (str_cells rf) (length rf)
        (Some (map Some cs @ rest)) w st = Some (Some AFTP_RC_OK, w', st')
    \<and> sent w' = sent w @ [send_image lf rf s] @ map (\<lambda>c. be16 AFTP_FILE_DATA @ c) cs @ [be16 AFTP_FILE_COMPLETE]"
proof -
  obtain w1 where w1: "sends cm cid w (file_records lf rf s cs) w1" "sent w1 = sent w @ file_records lf rf s cs"
    using keeps_sent_sends [OF assms(6)] by blast
  obtain w' where w': "cmrcv cm w1 cid MAX_BUFFER_SIZE = (0, status_image e c i, w')" "sent w' = sent w1"
    using assms(7) by (auto simp: closes_def)
  with send_file_over [OF assms(1-5) w1(1) w'(1) assms(8,9)] w1(2) show ?thesis by (auto simp: file_records_def)
qed

text \<open>A line that keeps what is sent and always answers with the same reply.\<close>

definition echo_line :: "byte list \<Rightarrow> byte list list cpic" where
  "echo_line reply = \<lparr>cmsend = \<lambda>out cid m. (0, out @ [m]), cmrcv = \<lambda>out cid n. (0, reply, out),
     cminit = \<lambda>w name. (0, [1], w), cmspln = \<lambda>w cid x. (0, w), cmsmn = \<lambda>w cid x. (0, w), cmstpn = \<lambda>w cid x. (0, w),
     cmallc = \<lambda>w cid. (0, w), cmdeal = \<lambda>w cid. (0, w)\<rparr>"

theorem send_file_sends_whole_file_witness:
  "\<exists>w' st'. aftp_send_file (echo_line (status_image 0 0 0)) 0 (str_cells [0x61]) 1 (str_cells [0x62]) 1
      (Some [Some [1, 2], Some [3], None]) [] demo = Some (Some AFTP_RC_OK, w', st')
    \<and> w' = [send_image [0x61] [0x62] demo_session, be16 AFTP_FILE_DATA @ [1, 2], be16 AFTP_FILE_DATA @ [3],
        be16 AFTP_FILE_COMPLETE]"
proof -
  have "default_sizes demo_session" by (simp add: default_sizes_def demo_session_def new_session_def)
  moreover have "keeps_sent (echo_line (status_image 0 0 0)) [1] (\<lambda>w. w)"
    "closes (echo_line (status_image 0 0 0)) [1] (\<lambda>w. w) (status_image 0 0 0)"
    by (simp_all add: keeps_sent_def closes_def echo_line_def)
  ultimately show ?thesis
    using send_file_sends_whole_file [OF demo_ready, of "[0x61]" "[0x62]" "echo_line (status_image 0 0 0)" "\<lambda>w. w" 0 0 0
        "[[1, 2], [3]]" "[None]" "[]"]
    by (simp add: MAX_BUFFER_SIZE_def ends_def)
qed

section \<open>Receiving a file\<close>

text \<open>The records the line delivers one after the other.\<close>

fun delivers :: "'w cpic \<Rightarrow> conv_id \<Rightarrow> 'w \<Rightarrow> byte list list \<Rightarrow> 'w \<Rightarrow> bool" where
  "delivers cm cid w [] w' \<longleftrightarrow> w = w'"
| "delivers cm cid w (m # ms) w' \<longleftrightarrow>
     (\<exists>w1. cmrcv cm w cid MAX_BUFFER_SIZE = (0, m, w1) \<and> delivers cm cid w1 ms w')"

text \<open>What a file holds after writes whose answers are known: of every piece the bytes that \<^verbatim>\<open>write\<close> takes, one after the other.\<close>

fun stored :: "int list \<Rightarrow> byte list list \<Rightarrow> byte list" where
  "stored ns [] = []"
| "stored [] (c # cs) = c @ stored [] cs"
| "stored (n # ns) (c # cs) = take (nat n) c @ stored ns cs"

lemma stored_all [simp]: "stored [] cs = concat cs"
  by (induction cs) auto

lemma stored_step: "stored ns (c # cs) = taken_of ns c @ stored (tl ns) cs"
  by (cases ns) (simp_all add: taken_of_def)

lemma file_writes_from:
  assumes "of_bytes f = front @ drop (length front) old" "of_at f = length front"
  shows "of_bytes (fold file_write cs f) =
    (front @ stored (of_answers f) cs) @ drop (length (front @ stored (of_answers f) cs)) old"
  using assms
proof (induction cs arbitrary: f front)
  case (Cons c cs)
  let ?t = "taken_of (of_answers f) c"
  have "of_bytes (file_write c f) = (front @ ?t) @ drop (length (front @ ?t)) old"
    "of_at (file_write c f) = length (front @ ?t)"
    using Cons.prems by (simp_all add: file_write_def write_at_def Let_def add.commute)
  from Cons.IH [OF this] show ?case
    by (simp add: stored_step file_write_def Let_def del: stored.simps)
qed simp

lemma file_writes:
  "of_at f = 0 \<Longrightarrow> of_bytes (fold file_write cs f) =
     stored (of_answers f) cs @ drop (length (stored (of_answers f) cs)) (of_bytes f)"
  using file_writes_from [of f "[]" "of_bytes f" cs] by simp

lemma received:
  assumes "wf_session s" "cmrcv cm w cid MAX_BUFFER_SIZE = (0, m, w')" "length m \<le> MAX_BUFFER_SIZE"
  obtains r where "get_asuiterecord cm w cid (asuiterecord_clear (rec s)) = Some (0, r, w')"
    "wf_session (s\<lparr>rec := r\<rparr>)" "contents r = Some m"
  using receive_ok [of "asuiterecord_clear (rec s)", OF _ assms(2,3)] wf_session_rec [OF assms(1)] assms(1)
  by (auto simp: wf_session_rec_wf)

text \<open>Two records of a transfer: the completion ends the loop, data is written.\<close>

lemma receive_complete:
  assumes "wf_session s" "cmrcv cm w cid MAX_BUFFER_SIZE = (0, be16 AFTP_FILE_COMPLETE, w')"
  shows "\<exists>s'. receive_loop cm cid w s file = Some (Some AFTP_RC_OK, (w', file), s')"
proof -
  obtain r where r: "get_asuiterecord cm w cid (asuiterecord_clear (rec s)) = Some (0, r, w')"
    "contents r = Some (be16 AFTP_FILE_COMPLETE)"
    by (rule received [OF assms]) (simp_all add: MAX_BUFFER_SIZE_def)
  have "get_major_code r = Some 15" using get_major_code_at [of r AFTP_FILE_COMPLETE "[]"] r(2) by (simp add: AFTP_FILE_COMPLETE_def)
  with r(1) show ?thesis
    by (subst receive_loop.simps) (simp add: AFTP_RC_OK_def aftp_codes)
qed

lemma receive_piece:
  assumes "wf_session s" "cmrcv cm w cid MAX_BUFFER_SIZE = (0, be16 AFTP_FILE_DATA @ c, w')"
    and "length c \<le> MAX_BUFFER_SIZE - 2"
  shows "\<exists>r. wf_session (s\<lparr>rec := r\<rparr>) \<and> receive_loop cm cid w s file
    = receive_loop cm cid w' (s\<lparr>rec := r\<rparr>) (file_write c file)"
proof -
  obtain r where r: "get_asuiterecord cm w cid (asuiterecord_clear (rec s)) = Some (0, r, w')"
    "wf_session (s\<lparr>rec := r\<rparr>)" "contents r = Some (be16 AFTP_FILE_DATA @ c)"
    by (rule received [OF assms(1,2)]) (use assms(3) in \<open>simp_all add: MAX_BUFFER_SIZE_def\<close>)
  have "get_major_code r = Some 14" using get_major_code_at [OF r(3)] by (simp add: AFTP_FILE_DATA_def)
  moreover have "get_received_len r = length c + 2"
    using r(3) by (auto simp: contents_def get_bytes_iff get_received_len_def)
  moreover have "get_bytes (drop 2 (buffer r)) (length c) = Some c"
    using buffer_drop [OF r(3)] by (auto simp: get_bytes_iff)
  ultimately have "receive_loop cm cid w s file
      = receive_loop cm cid w' (s\<lparr>rec := r\<rparr>) (file_write c file)"
    using r(1) by (subst receive_loop.simps) (simp add: AFTP_RC_OK_def aftp_codes)
  with r(2) show ?thesis by blast
qed

lemma receive_pieces:
  assumes "delivers cm cid w (map (\<lambda>c. be16 AFTP_FILE_DATA @ c) cs @ [be16 AFTP_FILE_COMPLETE]) w'"
    and "\<forall>c \<in> set cs. length c \<le> MAX_BUFFER_SIZE - 2" "wf_session s"
  shows "\<exists>s'. receive_loop cm cid w s dst = Some (Some AFTP_RC_OK, (w', fold file_write cs dst), s')"
  using assms
proof (induction cs arbitrary: w s dst)
  case Nil
  then show ?case using receive_complete by auto
next
  case (Cons c cs)
  then obtain w1 where w1: "cmrcv cm w cid MAX_BUFFER_SIZE = (0, be16 AFTP_FILE_DATA @ c, w1)"
    "delivers cm cid w1 (map (\<lambda>c. be16 AFTP_FILE_DATA @ c) cs @ [be16 AFTP_FILE_COMPLETE]) w'" by auto
  obtain r where r: "wf_session (s\<lparr>rec := r\<rparr>)"
    "receive_loop cm cid w s dst = receive_loop cm cid w1 (s\<lparr>rec := r\<rparr>) (file_write c dst)"
    using receive_piece [OF Cons.prems(3) w1(1)] Cons.prems(2) by fastforce
  with Cons.IH [OF w1(2) _ r(1), of "file_write c dst"] Cons.prems(2) show ?case by simp
qed

text \<open>The record with which the server announces the file is skipped.\<close>

lemma walk_nothing: "ps \<noteq> [] \<Longrightarrow> bound = pos + length (params ps) \<Longrightarrow> walk (\<lambda>key curpos u. Some u) bound pos ps u = Some u"
proof (induction ps arbitrary: pos)
  case (Cons p ps)
  then show ?case by (cases p; cases "ps = []") auto
qed simp

lemma receive_header:
  assumes "wf_session s" "cmrcv cm w cid MAX_BUFFER_SIZE = (0, be16 AFTP_SEND_FILE @ params ps, w')"
    and "small ps" "ps \<noteq> []" "length (params ps) \<le> MAX_BUFFER_SIZE - 2"
  shows "\<exists>r. wf_session (s\<lparr>rec := r\<rparr>) \<and> receive_loop cm cid w s file = receive_loop cm cid w' (s\<lparr>rec := r\<rparr>) file"
proof -
  obtain r where r: "get_asuiterecord cm w cid (asuiterecord_clear (rec s)) = Some (0, r, w')"
    "wf_session (s\<lparr>rec := r\<rparr>)" "contents r = Some (be16 AFTP_SEND_FILE @ params ps)"
    by (rule received [OF assms(1,2)]) (use assms(5) in \<open>simp_all add: MAX_BUFFER_SIZE_def\<close>)
  have "get_major_code r = Some 12" using get_major_code_at [OF r(3)] by (simp add: AFTP_SEND_FILE_def)
  moreover have "get_received_len r = 2 + length (params ps)"
    using r(3) by (auto simp: contents_def get_bytes_iff get_received_len_def)
  then have "param_loop (get_param_len r) (get_key r) (\<lambda>key curpos u. Some u) (get_received_len r) 2 () = Some ()"
    using asuite.loop_walks [OF r(3) assms(3,4), of "get_received_len r" "\<lambda>key curpos u. Some u" "()"]
      walk_nothing [OF assms(4), of "get_received_len r" 2 "()"] by simp
  ultimately have "receive_loop cm cid w s file = receive_loop cm cid w' (s\<lparr>rec := r\<rparr>) file"
    using r(1) by (subst receive_loop.simps) (simp add: AFTP_RC_OK_def aftp_codes)
  with r(2) show ?thesis by blast
qed

definition request_image :: "byte list \<Rightarrow> byte list \<Rightarrow> ftpsession \<Rightarrow> byte list" where
  "request_image lf rf s = be16 AFTP_REQUEST_FILE @ tlv AFTP_FILESPEC (rf @ [0]) @ tlv AFTP_NEW_FILESPEC (lf @ [0])
     @ tlv AFTP_DATA_TYPE [of_nat (data_type s)]"

lemma request_file_image:
  assumes "wf_session s" "no_nul lf" "no_nul rf" "length lf + length rf + 16 \<le> MAX_BUFFER_SIZE"
  shows "\<exists>q q1 q2 r. asuiterecord_settype (asuiterecord_clear (rec s)) AFTP_REQUEST_FILE = Some q
    \<and> asuiterecord_append q AFTP_FILESPEC (str_cells rf) (Suc (length rf)) = Some q1
    \<and> asuiterecord_append q1 AFTP_NEW_FILESPEC (str_cells lf) (Suc (length lf)) = Some q2
    \<and> asuiterecord_append_char q2 AFTP_DATA_TYPE (of_nat (data_type s)) = Some r \<and> wf_record r
    \<and> contents r = Some (request_image lf rf s)"
proof -
  let ?ps = "[(AFTP_FILESPEC, rf), (AFTP_NEW_FILESPEC, lf)]"
  obtain q2 where q2: "build_record (rec s) AFTP_REQUEST_FILE ?ps = Some q2" "wf_record q2"
    "contents q2 = Some (be16 AFTP_REQUEST_FILE @ params (with_nul ?ps))"
    using build_record_contents [OF wf_session_rec_wf [OF assms(1)], of ?ps AFTP_REQUEST_FILE] assms(2-4) by auto
  let ?c = "map Some (be16 AFTP_REQUEST_FILE @ params (with_nul ?ps))"
  obtain r where r: "asuiterecord_append_char q2 AFTP_DATA_TYPE (of_nat (data_type s)) = Some r"
    "holds r (?c @ map Some (tlv AFTP_DATA_TYPE [of_nat (data_type s)]))"
    using append_char_holds [OF contents_holds [OF q2(3,2)], of AFTP_DATA_TYPE "of_nat (data_type s)"] assms(4) by auto
  have "contents r = Some (request_image lf rf s)"
    using holds_contents [of r "request_image lf rf s"] r(2) by (simp add: request_image_def)
  with q2(1) r(1) holds_wf [OF r(2)] show ?thesis
    by (auto simp: build_record_def split: bind_splits)
qed

text \<open>
  A file is received: when the server takes the request, announces the file and sends its pieces
  and the completion, the call reports success and every piece was given to one \<^verbatim>\<open>write\<close>, in order; what these
  writes leave in the local file is \<open>file_writes\<close>.
\<close>

theorem receive_file_writes_pieces:
  assumes "ready st index cid s" "block_size s = 0" "no_nul lf" "no_nul rf" "length lf + length rf + 16 \<le> MAX_BUFFER_SIZE"
    and "cmsend cm w cid (request_image lf rf s) = (0, w1)"
    and "delivers cm cid w1 ((be16 AFTP_SEND_FILE @ params ps) # map (\<lambda>c. be16 AFTP_FILE_DATA @ c) cs @ [be16 AFTP_FILE_COMPLETE]) w'"
    and "small ps" "ps \<noteq> []" "length (params ps) \<le> MAX_BUFFER_SIZE - 2" "\<forall>c \<in> set cs. length c \<le> MAX_BUFFER_SIZE - 2"
  shows "\<exists>st'. aftp_receive_file cm index (str_cells lf) (length lf) (str_cells rf) (length rf) (Some old) w st
    = Some (Some AFTP_RC_OK, (w', Some (fold file_write cs old)), st')"
proof -
  have s: "wf_session s" "conversation_ID s = Some cid" using assms(1) by (simp_all add: ready_def)
  obtain q q1 q2 r where r: "asuiterecord_settype (asuiterecord_clear (rec s)) AFTP_REQUEST_FILE = Some q"
    "asuiterecord_append q AFTP_FILESPEC (str_cells rf) (Suc (length rf)) = Some q1"
    "asuiterecord_append q1 AFTP_NEW_FILESPEC (str_cells lf) (Suc (length lf)) = Some q2"
    "asuiterecord_append_char q2 AFTP_DATA_TYPE (of_nat (data_type s)) = Some r"
    and wf: "wf_record r" and c: "contents r = Some (request_image lf rf s)"
    using request_file_image [OF s(1) assms(3-5)] by blast
  have sent: "send_asuiterecord cm w cid r = Some (0, w1)" using send_ok [OF c assms(6)] .
  obtain w2 where w2: "cmrcv cm w1 cid MAX_BUFFER_SIZE = (0, be16 AFTP_SEND_FILE @ params ps, w2)"
    "delivers cm cid w2 (map (\<lambda>c. be16 AFTP_FILE_DATA @ c) cs @ [be16 AFTP_FILE_COMPLETE]) w'"
    using assms(7) by auto
  obtain h where h: "wf_session (s\<lparr>rec := h\<rparr>)"
    "receive_loop cm cid w1 (s\<lparr>rec := r\<rparr>) old = receive_loop cm cid w2 (s\<lparr>rec := h\<rparr>) old"
    using receive_header [OF wf_session_rec [OF s(1) wf] w2(1) assms(8-10)] by auto
  obtain s' where "receive_loop cm cid w1 (s\<lparr>rec := r\<rparr>) old
      = Some (Some AFTP_RC_OK, (w', fold file_write cs old), s')"
    using receive_pieces [OF w2(2) assms(11) h(1), of old] h(2) by auto
  then have "\<exists>st' s'. aftp_receive_file cm index (str_cells lf) (length lf) (str_cells rf) (length rf) (Some old) w st
      = Some (Some AFTP_RC_OK, (w', Some (fold file_write cs old)), st') \<and> live st' index = Some s' \<and> True
      \<and> (\<forall>j. \<not> aliases st index j \<longrightarrow> live st' j = live st j)"
    unfolding aftp_receive_file_def
    by (intro on_session_result [OF assms(1), where s' = s']) (simp_all add: r s(2) assms(2) sent AFTP_RC_OK_def)
  then show ?thesis by blast
qed

theorem receive_file_writes_pieces_witness:
  "\<exists>st'. aftp_receive_file tape_line 0 (str_cells [0x61]) 1 (str_cells [0x62]) 1 (Some \<lparr>of_bytes = [9, 9, 9, 9], of_at = 0, of_answers = []\<rparr>)
      ([], [be16 AFTP_SEND_FILE @ params [(17, [0x62, 0])], be16 AFTP_FILE_DATA @ [1, 2], be16 AFTP_FILE_DATA @ [3],
        be16 AFTP_FILE_COMPLETE]) demo
    = Some (Some AFTP_RC_OK, (([request_image [0x61] [0x62] demo_session], []), Some \<lparr>of_bytes = [1, 2, 3, 9], of_at = 3, of_answers = []\<rparr>), st')"
proof -
  let ?in = "[be16 AFTP_SEND_FILE @ params [(17, [0x62, 0])], be16 AFTP_FILE_DATA @ [1, 2], be16 AFTP_FILE_DATA @ [3],
        be16 AFTP_FILE_COMPLETE]"
  have "block_size demo_session = 0" by (simp add: demo_session_def new_session_def)
  moreover have "cmsend tape_line ([], ?in) [1] (request_image [0x61] [0x62] demo_session)
      = (0, ([request_image [0x61] [0x62] demo_session], ?in))" by (simp add: tape_line_def)
  moreover have "delivers tape_line [1] ([request_image [0x61] [0x62] demo_session], ?in)
      ((be16 AFTP_SEND_FILE @ params [(17, [0x62, 0])]) # map (\<lambda>c. be16 AFTP_FILE_DATA @ c) [[1, 2], [3]] @ [be16 AFTP_FILE_COMPLETE])
      ([request_image [0x61] [0x62] demo_session], [])" by (simp add: tape_line_def)
  ultimately show ?thesis
    using receive_file_writes_pieces [OF demo_ready, of "[0x61]" "[0x62]" tape_line "([], ?in)"
        "([request_image [0x61] [0x62] demo_session], ?in)" "[(17, [0x62, 0])]" "[[1, 2], [3]]"
        "([request_image [0x61] [0x62] demo_session], [])" "\<lparr>of_bytes = [9, 9, 9, 9], of_at = 0, of_answers = []\<rparr>"]
    by (simp add: MAX_BUFFER_SIZE_def file_write_def write_at_def taken_of_def numeral_3_eq_3)
qed

end
