(* ===== verification/Aftp_Server.thy ===== *)
theory Aftp_Server
  imports Aftp_Client Asuite_Files
begin

text \<open>
  The file transfer server (\<^verbatim>\<open>asuite/aftpd.c\<close>): a handler for each request, the dispatch on the major
  code and the loops that accept and serve conversations.

  The global variables of the program are a record, together with the state of the line and of the
  system. The system calls and the functions of glib are parameters. A handler returns the new state;
  \<^term>\<open>None\<close> is a fault (an access outside an array, the use of a variable that was never set) or a
  loop that does not end. \<^verbatim>\<open>syslog\<close> and \<^verbatim>\<open>free\<close> leave no trace in the model.
\<close>

section \<open>The system\<close>

text \<open>
  A call that can fail returns its \<^verbatim>\<open>errno\<close>: as \<^term>\<open>Some e\<close> if it has no other result, else as
  \<^term>\<open>Inl e\<close>. \<open>sys_creat\<close> is \<^verbatim>\<open>open\<close> with \<^verbatim>\<open>O_CREAT | O_WRONLY\<close>, \<open>sys_open\<close> with \<^verbatim>\<open>O_RDONLY\<close>;
  \<open>sys_readdir\<close> gives the names of a directory if it can be opened; \<open>sys_strftime\<close> formats a time if
  the result fits into the size given.
\<close>

record filestat =
  st_mode :: u16
  st_nlink :: nat
  st_uid :: nat
  st_gid :: nat
  st_rdev :: nat
  st_size :: nat
  st_ctime :: int

record 'k kernel =
  sys_malloc :: "'k \<Rightarrow> bool \<times> 'k"
  sys_getcwd :: "'k \<Rightarrow> nat \<Rightarrow> int + byte list"
  sys_chdir :: "'k \<Rightarrow> byte list \<Rightarrow> int option \<times> 'k"
  sys_mkdir :: "'k \<Rightarrow> byte list \<Rightarrow> int option \<times> 'k"
  sys_rmdir :: "'k \<Rightarrow> byte list \<Rightarrow> int option \<times> 'k"
  sys_unlink :: "'k \<Rightarrow> byte list \<Rightarrow> int option \<times> 'k"
  sys_rename :: "'k \<Rightarrow> byte list \<Rightarrow> byte list \<Rightarrow> int option \<times> 'k"
  sys_open :: "'k \<Rightarrow> byte list \<Rightarrow> (int + int) \<times> 'k"
  sys_creat :: "'k \<Rightarrow> byte list \<Rightarrow> (int + int) \<times> 'k"
  sys_read :: "'k \<Rightarrow> int \<Rightarrow> nat \<Rightarrow> (int + byte list) \<times> 'k"
  sys_write :: "'k \<Rightarrow> int \<Rightarrow> byte list \<Rightarrow> (int + nat) \<times> 'k"
  sys_close :: "'k \<Rightarrow> int \<Rightarrow> int option \<times> 'k"
  sys_lstat :: "'k \<Rightarrow> byte list \<Rightarrow> filestat option"
  sys_stat :: "'k \<Rightarrow> byte list \<Rightarrow> filestat option"
  sys_readdir :: "'k \<Rightarrow> byte list \<Rightarrow> byte list list option"
  sys_time :: "'k \<Rightarrow> int"
  sys_getpwuid :: "'k \<Rightarrow> nat \<Rightarrow> byte list option"
  sys_getgrgid :: "'k \<Rightarrow> nat \<Rightarrow> byte list option"
  sys_localtime :: "'k \<Rightarrow> int \<Rightarrow> bool"
  sys_strftime :: "'k \<Rightarrow> nat \<Rightarrow> string \<Rightarrow> int \<Rightarrow> byte list option"

text \<open>\<^verbatim>\<open>g_basename\<close> returns a pointer into its argument: here the offset.\<close>

record glib =
  g_dirname :: "byte list \<Rightarrow> byte list"
  g_basename :: "byte list \<Rightarrow> nat"
  g_slist_insert_sorted :: "string \<Rightarrow> string list \<Rightarrow> string list"

definition EPERM :: int where "EPERM = 1"
definition ENOENT :: int where "ENOENT = 2"
definition EACCES :: int where "EACCES = 13"
definition EEXIST :: int where "EEXIST = 17"
definition EXDEV :: int where "EXDEV = 18"

definition A_ERR_UNKNOWN_PARAMETER :: u32 where "A_ERR_UNKNOWN_PARAMETER = 128"
definition A_ERR_OUT_OF_MEMORY :: u32 where "A_ERR_OUT_OF_MEMORY = 136"
definition A_ERR_ACTION_NOT_PERFORMED :: u32 where "A_ERR_ACTION_NOT_PERFORMED = 601"
definition A_ERR_FILE_NOT_FOUND :: u32 where "A_ERR_FILE_NOT_FOUND = 602"
definition A_ERR_ACCESS_DENIED :: u32 where "A_ERR_ACCESS_DENIED = 603"
definition A_ERR_FILE_EXISTS :: u32 where "A_ERR_FILE_EXISTS = 606"
definition A_ERR_INVALID_PATH :: u32 where "A_ERR_INVALID_PATH = 607"
definition A_ERR_CROSS_DEVICES :: u32 where "A_ERR_CROSS_DEVICES = 612"
definition A_ERR_NO_FILES_FOUND :: u32 where "A_ERR_NO_FILES_FOUND = 614"

lemmas a_errs = A_ERR_UNKNOWN_PARAMETER_def A_ERR_OUT_OF_MEMORY_def A_ERR_ACTION_NOT_PERFORMED_def
  A_ERR_FILE_NOT_FOUND_def A_ERR_ACCESS_DENIED_def A_ERR_FILE_EXISTS_def A_ERR_INVALID_PATH_def
  A_ERR_CROSS_DEVICES_def A_ERR_NO_FILES_FOUND_def

definition AFTP_TOWER_RESPONSE :: u16 where "AFTP_TOWER_RESPONSE = 17"
definition AFTP_TOWER_LIST :: byte where "AFTP_TOWER_LIST = 16"
definition AFTP_MOD_TIME :: byte where "AFTP_MOD_TIME = 21"
definition AFTP_WRITE_MODE :: byte where "AFTP_WRITE_MODE = 26"
definition AFTP_RECORD_FORMAT :: byte where "AFTP_RECORD_FORMAT = 27"
definition AFTP_NATIVE_ATTRIBUTES :: byte where "AFTP_NATIVE_ATTRIBUTES = 1"
definition AFTP_FILE :: byte where "AFTP_FILE = 1"
definition AFTP_DIRECTORY :: byte where "AFTP_DIRECTORY = 2"
definition AFTP_ALL_FILES :: byte where "AFTP_ALL_FILES = 3"
definition TIME_BUF_SIZE :: nat where "TIME_BUF_SIZE = 32"
definition MAX_FQPLU_NAME :: nat where "MAX_FQPLU_NAME = 18"

section \<open>The state of the server\<close>

record ('w, 'k) aftpd =
  line :: 'w
  kern :: 'k
  d_conv_id :: conv_id
  d_record :: asuiterecord
  d_returned_length :: nat
  d_curpos :: nat
  dest_file :: int

text \<open>\<^verbatim>\<open>send_simple_response(conv_id, errcode, 0, index)\<close> and \<^verbatim>\<open>send_asuiterecord(conv_id, record)\<close>.\<close>

definition send_response ::
  "'w cpic \<Rightarrow> 'k kernel \<Rightarrow> int \<Rightarrow> u32 \<Rightarrow> ('w, 'k) aftpd \<Rightarrow> ('w, 'k) aftpd option" where
  "send_response cm kn errcode index st =
     (let (ok, k) = sys_malloc kn (kern st) in do {
        w \<leftarrow> send_simple_response cm ok (line st) (d_conv_id st) (of_int errcode) 0 index;
        Some (st\<lparr>line := w, kern := k\<rparr>)
      })"

definition send_record :: "'w cpic \<Rightarrow> ('w, 'k) aftpd \<Rightarrow> (int \<times> ('w, 'k) aftpd) option" where
  "send_record cm st = do {
     (rc, w) \<leftarrow> send_asuiterecord cm (line st) (d_conv_id st) (d_record st);
     Some (rc, st\<lparr>line := w\<rparr>)
   }"

text \<open>A reply: the record is cleared, given its type and filled, and sent; the return code is dropped.\<close>

definition reply ::
  "'w cpic \<Rightarrow> u16 \<Rightarrow> (asuiterecord \<Rightarrow> asuiterecord option) \<Rightarrow> ('w, 'k) aftpd \<Rightarrow> ('w, 'k) aftpd option" where
  "reply cm t fill st = do {
     r \<leftarrow> asuiterecord_settype (asuiterecord_clear (d_record st)) t;
     r \<leftarrow> fill r;
     (rc, st) \<leftarrow> send_record cm (st\<lparr>d_record := r\<rparr>);
     Some st
   }"

section \<open>Queries\<close>

definition a_tower_request :: "'w cpic \<Rightarrow> ('w, 'k) aftpd \<Rightarrow> ('w, 'k) aftpd option" where
  "a_tower_request cm =
     reply cm AFTP_TOWER_RESPONSE (\<lambda>r. asuiterecord_append_twobyte r AFTP_TOWER_LIST 0 [])"

definition system_string :: "byte list" where
  "system_string = map of_char ''AFTPD version 0.01 for Linux-SNA'' @ [10]"

definition a_query_system :: "'w cpic \<Rightarrow> ('w, 'k) aftpd \<Rightarrow> ('w, 'k) aftpd option" where
  "a_query_system cm = reply cm (ucast AFTP_SIMPLE_RESPONSE) (\<lambda>r. do {
     r \<leftarrow> asuiterecord_append_char r AFTP_STATUS_RETURN_CODE 0;
     asuiterecord_append r AFTP_SYSTEM_INFO (str_cells system_string) (length system_string + 1)
   })"

definition a_query_dir :: "'w cpic \<Rightarrow> 'k kernel \<Rightarrow> ('w, 'k) aftpd \<Rightarrow> ('w, 'k) aftpd option" where
  "a_query_dir cm kn st =
     (let (ok, k) = sys_malloc kn (kern st) in do {
        curdir \<leftarrow> safe_get_cwd (sys_getcwd kn (kern st)) ok;
        let st = st\<lparr>kern := k\<rparr>;
        (case curdir of
           Some curdir \<Rightarrow> reply cm (ucast AFTP_SIMPLE_RESPONSE) (\<lambda>r. do {
             r \<leftarrow> asuiterecord_append_char r AFTP_STATUS_RETURN_CODE (of_int AFTP_RC_OK);
             asuiterecord_append r AFTP_FILESPEC (str_cells curdir) (length curdir + 1)
           }) st
         | None \<Rightarrow> send_response cm kn AFTP_RC_PROGRAM_INTERNAL_ERROR A_ERR_OUT_OF_MEMORY st)
      })"

section \<open>The parameters of a request\<close>

text \<open>
  \<^verbatim>\<open>do { param_len = get_param_len(record, curpos); key = get_key(record, curpos); switch(key) ...;
  curpos += param_len; } while(curpos < returned_length);\<close>. The body of the switch also says whether
  the handler returns from within it; \<open>'v\<close> are the local variables.
\<close>

partial_function (option) request_loop ::
  "(byte \<Rightarrow> ('w, 'k) aftpd \<Rightarrow> 'v \<Rightarrow> (bool \<times> ('w, 'k) aftpd \<times> 'v) option) \<Rightarrow> ('w, 'k) aftpd \<Rightarrow> 'v
   \<Rightarrow> (bool \<times> ('w, 'k) aftpd \<times> 'v) option" where
  "request_loop body st v = do {
     param_len \<leftarrow> get_param_len (d_record st) (d_curpos st);
     key \<leftarrow> get_key (d_record st) (d_curpos st);
     (returned, st, v) \<leftarrow> body key st v;
     if returned then Some (True, st, v)
     else if d_curpos st + param_len < d_returned_length st
     then request_loop body (st\<lparr>d_curpos := d_curpos st + param_len\<rparr>) v
     else Some (False, st\<lparr>d_curpos := d_curpos st + param_len\<rparr>, v)
   }"

text \<open>
  A string parameter copied into fresh memory, with the reply when there is none; a parameter of an
  unknown kind.
\<close>

definition param_string :: "('w, 'k) aftpd \<Rightarrow> byte list option" where
  "param_string st = c_str (drop (d_curpos st + 3) (buffer (d_record st)))"

definition keep_string ::
  "'w cpic \<Rightarrow> 'k kernel \<Rightarrow> (byte list \<Rightarrow> 'v) \<Rightarrow> ('w, 'k) aftpd \<Rightarrow> 'v \<Rightarrow> (bool \<times> ('w, 'k) aftpd \<times> 'v) option" where
  "keep_string cm kn store st v = do {
     s \<leftarrow> param_string st;
     let (ok, k) = sys_malloc kn (kern st);
     if ok then Some (False, st\<lparr>kern := k\<rparr>, store s)
     else do {
       st \<leftarrow> send_response cm kn AFTP_RC_PROGRAM_INTERNAL_ERROR A_ERR_OUT_OF_MEMORY (st\<lparr>kern := k\<rparr>);
       Some (True, st, v)
     }
   }"

definition unknown_parameter ::
  "'w cpic \<Rightarrow> 'k kernel \<Rightarrow> ('w, 'k) aftpd \<Rightarrow> 'v \<Rightarrow> (bool \<times> ('w, 'k) aftpd \<times> 'v) option" where
  "unknown_parameter cm kn st v = do {
     st \<leftarrow> send_response cm kn AFTP_RC_PROGRAM_INTERNAL_ERROR A_ERR_UNKNOWN_PARAMETER st;
     Some (True, st, v)
   }"

text \<open>The switch of the requests with one name, that of \<^verbatim>\<open>a_rename\<close>, and that of the file transfers.\<close>

definition filespec_body ::
  "'w cpic \<Rightarrow> 'k kernel \<Rightarrow> byte \<Rightarrow> ('w, 'k) aftpd \<Rightarrow> byte list option
   \<Rightarrow> (bool \<times> ('w, 'k) aftpd \<times> byte list option) option" where
  "filespec_body cm kn key st v =
     (if key = AFTP_FILESPEC then keep_string cm kn Some st v else unknown_parameter cm kn st v)"

fun rename_body ::
  "'w cpic \<Rightarrow> 'k kernel \<Rightarrow> byte \<Rightarrow> ('w, 'k) aftpd \<Rightarrow> byte list option \<times> byte list option
   \<Rightarrow> (bool \<times> ('w, 'k) aftpd \<times> byte list option \<times> byte list option) option" where
  "rename_body cm kn key st (filespec, newfilespec) =
     (if key = AFTP_FILESPEC then keep_string cm kn (\<lambda>s. (Some s, newfilespec)) st (filespec, newfilespec)
      else if key = AFTP_NEW_FILESPEC then keep_string cm kn (\<lambda>s. (filespec, Some s)) st (filespec, newfilespec)
      else unknown_parameter cm kn st (filespec, newfilespec))"

fun request_file_body ::
  "'w cpic \<Rightarrow> 'k kernel \<Rightarrow> byte \<Rightarrow> ('w, 'k) aftpd \<Rightarrow> byte list option \<times> byte list option \<times> byte
   \<Rightarrow> (bool \<times> ('w, 'k) aftpd \<times> byte list option \<times> byte list option \<times> byte) option" where
  "request_file_body cm kn key st (filespec, newfilespec, dtype) =
     (let v = (filespec, newfilespec, dtype) in
      if key = AFTP_FILESPEC then keep_string cm kn (\<lambda>s. (Some s, newfilespec, dtype)) st v
      else if key = AFTP_NEW_FILESPEC then keep_string cm kn (\<lambda>s. (filespec, Some s, dtype)) st v
      else if key = AFTP_DATA_TYPE then do {
        t \<leftarrow> asuiterecord_get_char (d_record st) (d_curpos st + 3);
        Some (False, st, filespec, newfilespec, t)
      }
      else if key \<in> {AFTP_WRITE_MODE, AFTP_DATE_MODE, AFTP_MOD_TIME, AFTP_RECORD_LENGTH, AFTP_RECORD_FORMAT,
        AFTP_BLOCK_SIZE, AFTP_ALLOCATION_SIZE} then Some (False, st, v)
      else unknown_parameter cm kn st v)"

fun send_file_body ::
  "'w cpic \<Rightarrow> 'k kernel \<Rightarrow> byte \<Rightarrow> ('w, 'k) aftpd \<Rightarrow> byte list option \<times> byte list option
   \<Rightarrow> (bool \<times> ('w, 'k) aftpd \<times> byte list option \<times> byte list option) option" where
  "send_file_body cm kn key st (filespec, newfilespec) =
     (let v = (filespec, newfilespec) in
      if key = AFTP_FILESPEC then keep_string cm kn (\<lambda>s. (Some s, newfilespec)) st v
      else if key = AFTP_NEW_FILESPEC then keep_string cm kn (\<lambda>s. (filespec, Some s)) st v
      else if key \<in> {AFTP_DATA_TYPE, AFTP_WRITE_MODE, AFTP_DATE_MODE, AFTP_MOD_TIME, AFTP_RECORD_LENGTH,
        AFTP_RECORD_FORMAT, AFTP_BLOCK_SIZE, AFTP_ALLOCATION_SIZE} then Some (False, st, v)
      else unknown_parameter cm kn st v)"

section \<open>Directories and names\<close>

text \<open>What the handlers make of an error number.\<close>

definition delete_error :: "int \<Rightarrow> u32" where
  "delete_error errno =
     (if errno = ENOENT then A_ERR_FILE_NOT_FOUND
      else if errno = EPERM \<or> errno = EACCES then A_ERR_ACCESS_DENIED
      else A_ERR_ACTION_NOT_PERFORMED)"

definition create_dir_error :: "int \<Rightarrow> u32" where
  "create_dir_error errno =
     (if errno = EEXIST then A_ERR_FILE_EXISTS
      else if errno = EACCES then A_ERR_ACCESS_DENIED
      else A_ERR_ACTION_NOT_PERFORMED)"

definition remove_dir_error :: "int \<Rightarrow> u32" where
  "remove_dir_error errno =
     (if errno = EEXIST then A_ERR_FILE_EXISTS
      else if errno = ENOENT then A_ERR_FILE_NOT_FOUND
      else if errno = EPERM \<or> errno = EACCES then A_ERR_ACCESS_DENIED
      else A_ERR_ACTION_NOT_PERFORMED)"

definition rename_error :: "int \<Rightarrow> u32" where
  "rename_error errno =
     (if errno = EEXIST then A_ERR_FILE_EXISTS
      else if errno = EXDEV then A_ERR_CROSS_DEVICES
      else if errno = ENOENT then A_ERR_FILE_NOT_FOUND
      else if errno = EPERM \<or> errno = EACCES then A_ERR_ACCESS_DENIED
      else A_ERR_ACTION_NOT_PERFORMED)"

definition send_file_error :: "int \<Rightarrow> u32" where
  "send_file_error errno =
     (if errno = EPERM \<or> errno = EACCES then A_ERR_ACCESS_DENIED else A_ERR_ACTION_NOT_PERFORMED)"

definition change_dir_error :: "int \<Rightarrow> u32" where
  "change_dir_error errno = (if errno = ENOENT then A_ERR_FILE_NOT_FOUND else A_ERR_ACTION_NOT_PERFORMED)"

text \<open>The variable is not set for any other error.\<close>

definition request_file_error :: "int \<Rightarrow> u32 option" where
  "request_file_error errno =
     (if errno = ENOENT then Some A_ERR_FILE_NOT_FOUND
      else if errno = EACCES then Some A_ERR_ACCESS_DENIED
      else None)"

text \<open>The end of a handler whose request is one system call: the reply for its result.\<close>

definition respond ::
  "'w cpic \<Rightarrow> 'k kernel \<Rightarrow> (int \<Rightarrow> u32) \<Rightarrow> int option \<Rightarrow> ('w, 'k) aftpd \<Rightarrow> ('w, 'k) aftpd option" where
  "respond cm kn err rc st =
     (case rc of
        Some errno \<Rightarrow> send_response cm kn AFTP_RC_FAIL_INPUT_ERROR (err errno) st
      | None \<Rightarrow> send_response cm kn AFTP_RC_OK 0 st)"

definition a_delete :: "'w cpic \<Rightarrow> 'k kernel \<Rightarrow> ('w, 'k) aftpd \<Rightarrow> ('w, 'k) aftpd option" where
  "a_delete cm kn st = do {
     (returned, st, filespec) \<leftarrow> request_loop (filespec_body cm kn) st None;
     if returned then Some st
     else do {
       filespec \<leftarrow> filespec;
       let (rc, k) = sys_unlink kn (kern st) filespec;
       respond cm kn delete_error rc (st\<lparr>kern := k\<rparr>)
     }
   }"

definition a_create_dir :: "'w cpic \<Rightarrow> 'k kernel \<Rightarrow> ('w, 'k) aftpd \<Rightarrow> ('w, 'k) aftpd option" where
  "a_create_dir cm kn st = do {
     (returned, st, filespec) \<leftarrow> request_loop (filespec_body cm kn) st None;
     if returned then Some st
     else do {
       filespec \<leftarrow> filespec;
       let (rc, k) = sys_mkdir kn (kern st) filespec;
       respond cm kn create_dir_error rc (st\<lparr>kern := k\<rparr>)
     }
   }"

definition a_remove_dir :: "'w cpic \<Rightarrow> 'k kernel \<Rightarrow> ('w, 'k) aftpd \<Rightarrow> ('w, 'k) aftpd option" where
  "a_remove_dir cm kn st = do {
     (returned, st, filespec) \<leftarrow> request_loop (filespec_body cm kn) st None;
     if returned then Some st
     else do {
       filespec \<leftarrow> filespec;
       let (rc, k) = sys_rmdir kn (kern st) filespec;
       respond cm kn remove_dir_error rc (st\<lparr>kern := k\<rparr>)
     }
   }"

definition a_rename :: "'w cpic \<Rightarrow> 'k kernel \<Rightarrow> ('w, 'k) aftpd \<Rightarrow> ('w, 'k) aftpd option" where
  "a_rename cm kn st = do {
     (returned, st, filespec, newfilespec) \<leftarrow> request_loop (rename_body cm kn) st (None, None);
     if returned then Some st
     else do {
       filespec \<leftarrow> filespec;
       newfilespec \<leftarrow> newfilespec;
       let (rc, k) = sys_rename kn (kern st) filespec newfilespec;
       respond cm kn rename_error rc (st\<lparr>kern := k\<rparr>)
     }
   }"

text \<open>
  \<^verbatim>\<open>a_change_dir\<close> changes the directory within the loop and does not look at the result of \<^verbatim>\<open>malloc\<close>;
  other parameters are skipped.
\<close>

definition change_dir_step ::
  "'w cpic \<Rightarrow> 'k kernel \<Rightarrow> byte \<Rightarrow> ('w, 'k) aftpd \<Rightarrow> unit \<Rightarrow> (bool \<times> ('w, 'k) aftpd \<times> unit) option" where
  "change_dir_step cm kn key st v =
     (if key = AFTP_FILESPEC then do {
        filespec \<leftarrow> param_string st;
        let (ok, k) = sys_malloc kn (kern st);
        if \<not> ok then None
        else let (chrc, k) = sys_chdir kn k filespec; st = st\<lparr>kern := k\<rparr> in
          (case chrc of
             Some errno \<Rightarrow> do {
               st \<leftarrow> send_response cm kn AFTP_RC_FAIL_INPUT_ERROR (change_dir_error errno) st;
               Some (True, st, v)
             }
           | None \<Rightarrow> Some (False, st, v))
      } else Some (False, st, v))"

definition a_change_dir :: "'w cpic \<Rightarrow> 'k kernel \<Rightarrow> ('w, 'k) aftpd \<Rightarrow> ('w, 'k) aftpd option" where
  "a_change_dir cm kn st = do {
     (returned, st, u) \<leftarrow> request_loop (change_dir_step cm kn) st ();
     if returned then Some st
     else reply cm (ucast AFTP_SIMPLE_RESPONSE) (\<lambda>r. asuiterecord_append_char r AFTP_STATUS_RETURN_CODE 0) st
   }"

section \<open>Listings\<close>

definition is_mode :: "u16 \<Rightarrow> u16 \<Rightarrow> bool" where
  "is_mode t m \<longleftrightarrow> m AND S_IFMT = t"

text \<open>\<^verbatim>\<open>while(!s) { ...; maxbuf += TIME_BUF_SIZE; s = strftime(newbuf, maxbuf, fmt, when_local); }\<close>\<close>

partial_function (option) format_time :: "(nat \<Rightarrow> byte list option) \<Rightarrow> nat \<Rightarrow> byte list option" where
  "format_time strftime maxbuf =
     (case strftime maxbuf of
        Some s \<Rightarrow> Some s
      | None \<Rightarrow> format_time strftime (maxbuf + TIME_BUF_SIZE))"

definition get_long_format :: "'k kernel \<Rightarrow> 'k \<Rightarrow> filestat \<Rightarrow> byte list option" where
  "get_long_format kn k f =
     (let when = st_ctime f; current_time = sys_time kn k;
          fmt = (if current_time > when + 6 * 30 * 24 * 60 * 60 \<or> current_time < when - 60 * 60
                 then ''%b %e  %Y'' else ''%b %e %H:%M'');
          result = map of_char (take 10 (mode_string (st_mode f))) @ [0x20] @ pad_left 3 (decimal (st_nlink f)) @ [0x20]
            @ (case sys_getpwuid kn k (st_uid f) of
                 Some name \<Rightarrow> pad_right 8 (take 8 name)
               | None \<Rightarrow> pad_right 8 (decimal (st_uid f))) @ [0x20]
            @ (case sys_getgrgid kn k (st_gid f) of
                 Some name \<Rightarrow> pad_right 8 (take 8 name)
               | None \<Rightarrow> pad_right 8 (decimal (st_gid f))) @ [0x20]
            @ (if is_mode S_IFCHR (st_mode f) \<or> is_mode S_IFBLK (st_mode f)
               then pad_left 3 (decimal (st_rdev f div 256 mod 256)) @ [0x2C, 0x20]
                 @ pad_left 3 (decimal (st_rdev f mod 256)) @ [0x20]
               else pad_left 12 (decimal (st_size f)) @ [0x20])
      in if sys_localtime kn k when then do {
           t \<leftarrow> format_time (\<lambda>n. sys_strftime kn k n fmt when) TIME_BUF_SIZE;
           Some (result @ [0x20] @ t @ [0x20])
         } else Some result)"

text \<open>The switch of \<^verbatim>\<open>a_list_request\<close>: the name, the kind of files and how much to tell of each.\<close>

fun list_body ::
  "'k kernel \<Rightarrow> byte \<Rightarrow> ('w, 'k) aftpd \<Rightarrow> byte list option \<times> byte \<times> byte option
   \<Rightarrow> (bool \<times> ('w, 'k) aftpd \<times> byte list option \<times> byte \<times> byte option) option" where
  "list_body kn key st (filespec, filetype, infolevel) =
     (if key = AFTP_FILESPEC then do {
        s \<leftarrow> param_string st;
        let (ok, k) = sys_malloc kn (kern st);
        if ok then Some (False, st\<lparr>kern := k\<rparr>, Some s, filetype, infolevel) else None
      }
      else if key = AFTP_FILE_TYPE then do {
        t \<leftarrow> get_cell (buffer (d_record st)) (d_curpos st + 3);
        Some (False, st, filespec, t, infolevel)
      }
      else if key = AFTP_INFO_LEVEL then do {
        l \<leftarrow> get_cell (buffer (d_record st)) (d_curpos st + 3);
        Some (False, st, filespec, filetype, Some l)
      }
      else Some (False, st, filespec, filetype, infolevel))"

definition bytes_name :: "byte list \<Rightarrow> string" where
  "bytes_name s = map (\<lambda>b. char_of (unat b)) s"

text \<open>\<^verbatim>\<open>get_local_file_list\<close> on the system; when it fails the list it was to set is used all the same.\<close>

definition local_files :: "'k kernel \<Rightarrow> glib \<Rightarrow> 'k \<Rightarrow> byte list \<Rightarrow> byte list \<Rightarrow> byte list list option" where
  "local_files kn gl k directory filespec = do {
     (rc, filelist) \<leftarrow> get_local_file_list (g_slist_insert_sorted gl)
       (map_option (map bytes_name) (sys_readdir kn k directory)) (bytes_name filespec);
     if rc < 0 then None else Some (map bytes_of filelist)
   }"

text \<open>The decision between the directory and the files in it; \<^term>\<open>Inl e\<close> is the error to report.\<close>

definition list_files ::
  "'k kernel \<Rightarrow> glib \<Rightarrow> 'k \<Rightarrow> byte list \<Rightarrow> byte list \<Rightarrow> byte list \<Rightarrow> (u32 + filestat \<times> byte list list) option" where
  "list_files kn gl k filespec directory filename =
     (case sys_lstat kn k filespec of
        None \<Rightarrow>
          (case sys_lstat kn k directory of
             None \<Rightarrow> Some (Inl A_ERR_INVALID_PATH)
           | Some f \<Rightarrow>
               if is_mode S_IFDIR (st_mode f) then do {
                 l \<leftarrow> local_files kn gl k directory filename;
                 Some (Inr (f, l))
               } else Some (Inl A_ERR_INVALID_PATH))
      | Some f \<Rightarrow> do {
          l \<leftarrow> (if is_mode S_IFDIR (st_mode f) then local_files kn gl k filespec [0x2A]
                 else local_files kn gl k directory filename);
          Some (Inr (f, l))
        })"

text \<open>
  The loop over the files. Each is looked up by its bare name; when that fails the attributes found
  before stay in the variable.
\<close>

fun list_entries ::
  "'w cpic \<Rightarrow> 'k kernel \<Rightarrow> byte \<Rightarrow> byte option \<Rightarrow> byte list list \<Rightarrow> filestat \<Rightarrow> ('w, 'k) aftpd
   \<Rightarrow> ('w, 'k) aftpd option" where
  "list_entries cm kn filetype infolevel [] filestats st = Some st"
| "list_entries cm kn filetype infolevel (name # files) filestats st =
     (let filestats = (case sys_stat kn (kern st) name of Some f \<Rightarrow> f | None \<Rightarrow> filestats);
          isdir = is_mode S_IFDIR (st_mode filestats)
      in do {
        infolevel' \<leftarrow> infolevel;
        filestring \<leftarrow> (if infolevel' = AFTP_NATIVE_ATTRIBUTES then do {
            longfile \<leftarrow> get_long_format kn (kern st) filestats;
            Some (longfile @ [0x20] @ name)
          } else Some name);
        st \<leftarrow> reply cm (ucast AFTP_LIST_ENTRY) (\<lambda>r.
            if filetype = AFTP_FILE \<and> isdir \<or> filetype = AFTP_DIRECTORY \<and> \<not> isdir then Some r
            else asuiterecord_append r AFTP_FILESPEC (str_cells filestring) (length filestring + 1)) st;
        list_entries cm kn filetype infolevel files filestats st
      })"

definition a_list_request :: "'w cpic \<Rightarrow> 'k kernel \<Rightarrow> glib \<Rightarrow> ('w, 'k) aftpd \<Rightarrow> ('w, 'k) aftpd option" where
  "a_list_request cm kn gl st = do {
     (returned, st, filespec, filetype, infolevel) \<leftarrow> request_loop (list_body kn) st (None, AFTP_ALL_FILES, None);
     filespec \<leftarrow> filespec;
     let filename = drop (g_basename gl filespec) filespec;
     (directory, st) \<leftarrow> (if g_dirname gl filespec = [0x2E]
       then let (ok, k) = sys_malloc kn (kern st) in do {
         d \<leftarrow> safe_get_cwd (sys_getcwd kn (kern st)) ok;
         d \<leftarrow> d;
         Some (d, st\<lparr>kern := k\<rparr>)
       } else Some (g_dirname gl filespec, st));
     files \<leftarrow> list_files kn gl (kern st) filespec directory filename;
     (case files of
        Inl e \<Rightarrow> send_response cm kn AFTP_RC_FAIL_INPUT_ERROR e st
      | Inr (f, filelist) \<Rightarrow>
          if filelist = [] then send_response cm kn AFTP_RC_FAIL_INPUT_ERROR A_ERR_NO_FILES_FOUND st
          else do {
            st \<leftarrow> reply cm (ucast AFTP_SIMPLE_RESPONSE) (\<lambda>r. do {
              r \<leftarrow> asuiterecord_append_char r AFTP_STATUS_RETURN_CODE 0;
              asuiterecord_append r AFTP_FILESPEC (str_cells directory) (length directory + 1)
            }) st;
            st \<leftarrow> list_entries cm kn filetype infolevel filelist f st;
            reply cm (ucast AFTP_LIST_COMPLETE) Some st
          })
   }"

section \<open>File transfer\<close>

text \<open>\<^verbatim>\<open>read\<close> into the record behind its position; the position moves by what was read.\<close>

definition read_piece :: "'k kernel \<Rightarrow> int \<Rightarrow> ('w, 'k) aftpd \<Rightarrow> (bool \<times> ('w, 'k) aftpd) option" where
  "read_piece kn fd st =
     (let r = d_record st; (result, k) = sys_read kn (kern st) fd (MAX_BUFFER_SIZE - position r) in
      case result of
        Inl errno \<Rightarrow> Some (False, st\<lparr>kern := k\<rparr>)
      | Inr data \<Rightarrow> do {
          m \<leftarrow> poke_block (buffer r) (position r) (map Some data);
          Some (data \<noteq> [], st\<lparr>kern := k, d_record := r\<lparr>buffer := m, position := position r + length data\<rparr>\<rparr>)
        })"

text \<open>The loop that sends the pieces of a file; the result says whether the program has exited.\<close>

partial_function (option) send_pieces ::
  "'w cpic \<Rightarrow> 'k kernel \<Rightarrow> int \<Rightarrow> bool \<Rightarrow> ('w, 'k) aftpd \<Rightarrow> (bool \<times> ('w, 'k) aftpd) option" where
  "send_pieces cm kn fd some_read st =
     (if some_read then do {
        (ftp_rc, st) \<leftarrow> send_record cm st;
        if ftp_rc \<noteq> AFTP_RC_OK then Some (True, st)
        else do {
          (some_read, st) \<leftarrow> read_piece kn fd (st\<lparr>d_record := asuiterecord_clear (d_record st)\<rparr>);
          send_pieces cm kn fd some_read st
        }
      } else Some (False, st))"

definition a_request_file ::
  "'w cpic \<Rightarrow> 'k kernel \<Rightarrow> glib \<Rightarrow> ('w, 'k) aftpd \<Rightarrow> (bool \<times> ('w, 'k) aftpd) option" where
  "a_request_file cm kn gl st = do {
     (returned, st, filespec, newfilespec, dtype) \<leftarrow> request_loop (request_file_body cm kn) st (None, None, 0);
     if returned then Some (False, st)
     else do {
       filespec \<leftarrow> filespec;
       let (source_file, k) = sys_open kn (kern st) filespec;
       let st = st\<lparr>kern := k\<rparr>;
       (case source_file of
          Inl errno \<Rightarrow> do {
            e \<leftarrow> request_file_error errno;
            st \<leftarrow> send_response cm kn AFTP_RC_FAIL_INPUT_ERROR e st;
            Some (False, st)
          }
        | Inr fd \<Rightarrow> do {
            st \<leftarrow> reply cm AFTP_SEND_FILE (\<lambda>r. do {
              r \<leftarrow> asuiterecord_append r AFTP_FILESPEC (str_cells (drop (g_basename gl filespec) filespec))
                (length filespec + 1);
              asuiterecord_append_char r AFTP_DATA_TYPE dtype
            }) st;
            r \<leftarrow> asuiterecord_settype (asuiterecord_clear (d_record st)) AFTP_FILE_DATA;
            (some_read, st) \<leftarrow> read_piece kn fd (st\<lparr>d_record := r\<rparr>);
            (exited, st) \<leftarrow> send_pieces cm kn fd some_read st;
            if exited then Some (True, st)
            else do {
              let (rc, k) = sys_close kn (kern st) fd;
              r \<leftarrow> asuiterecord_settype (asuiterecord_clear (d_record st)) AFTP_FILE_COMPLETE;
              (ftp_rc, st) \<leftarrow> send_record cm (st\<lparr>kern := k, d_record := r\<rparr>);
              if ftp_rc \<noteq> AFTP_RC_OK then Some (True, st)
              else do { newfilespec \<leftarrow> newfilespec; Some (False, st) }
            }
          })
     }
   }"

text \<open>
  The file that is created has the first name of the request. The variable of the second name is
  freed at the end, which is a fault if it was not set. A failed \<^verbatim>\<open>open\<close> leaves -1 in \<^verbatim>\<open>dest_file\<close>.
\<close>

definition a_send_file :: "'w cpic \<Rightarrow> 'k kernel \<Rightarrow> ('w, 'k) aftpd \<Rightarrow> ('w, 'k) aftpd option" where
  "a_send_file cm kn st = do {
     (returned, st, filespec, newfilespec) \<leftarrow> request_loop (send_file_body cm kn) st (None, None);
     if returned then Some st
     else do {
       filespec \<leftarrow> filespec;
       let (fd, k) = sys_creat kn (kern st) filespec;
       let st = st\<lparr>kern := k\<rparr>;
       st \<leftarrow> (case fd of
           Inl errno \<Rightarrow> send_response cm kn AFTP_RC_FAIL_INPUT_ERROR (send_file_error errno) (st\<lparr>dest_file := - 1\<rparr>)
         | Inr fd \<Rightarrow> Some (st\<lparr>dest_file := fd\<rparr>));
       newfilespec \<leftarrow> newfilespec;
       Some st
     }
   }"

text \<open>\<open>sys_write\<close> is given the cells from the current position to that of the record.\<close>

partial_function (option) a_file_data ::
  "'w cpic \<Rightarrow> 'k kernel \<Rightarrow> ('w, 'k) aftpd \<Rightarrow> ('w, 'k) aftpd option" where
  "a_file_data cm kn st = do {
     data \<leftarrow> get_bytes (drop (d_curpos st) (buffer (d_record st))) (position (d_record st) - d_curpos st);
     let (result, k) = sys_write kn (kern st) (dest_file st) data;
     (case result of
        Inl errno \<Rightarrow> send_response cm kn AFTP_RC_FAIL_INPUT_ERROR A_ERR_ACTION_NOT_PERFORMED (st\<lparr>kern := k\<rparr>)
      | Inr bytes_written \<Rightarrow>
          if d_curpos st + bytes_written < position (d_record st)
          then a_file_data cm kn (st\<lparr>kern := k, d_curpos := d_curpos st + bytes_written\<rparr>)
          else Some (st\<lparr>kern := k, d_curpos := d_curpos st + bytes_written\<rparr>))
   }"

definition a_file_complete :: "'w cpic \<Rightarrow> 'k kernel \<Rightarrow> ('w, 'k) aftpd \<Rightarrow> ('w, 'k) aftpd option" where
  "a_file_complete cm kn st =
     (let (rc, k) = sys_close kn (kern st) (dest_file st) in
      respond cm kn (\<lambda>errno. A_ERR_ACTION_NOT_PERFORMED) rc (st\<lparr>kern := k\<rparr>))"

section \<open>The main loop\<close>

datatype ctl = Running | Done | Exited

definition finished :: "('w, 'k) aftpd option \<Rightarrow> (ctl \<times> ('w, 'k) aftpd) option" where
  "finished r = do { st \<leftarrow> r; Some (Running, st) }"

definition dispatch ::
  "'w cpic \<Rightarrow> 'k kernel \<Rightarrow> glib \<Rightarrow> byte \<Rightarrow> ('w, 'k) aftpd \<Rightarrow> (ctl \<times> ('w, 'k) aftpd) option" where
  "dispatch cm kn gl major_code st =
     (if major_code = ucast AFTP_TOWER_REQUEST then finished (a_tower_request cm st)
      else if major_code = ucast AFTP_QUERY_SYSTEM then finished (a_query_system cm st)
      else if major_code = ucast AFTP_QUERY_DIR then finished (a_query_dir cm kn st)
      else if major_code = ucast AFTP_LIST_REQUEST then finished (a_list_request cm kn gl st)
      else if major_code = ucast AFTP_CHANGE_DIR then finished (a_change_dir cm kn st)
      else if major_code = ucast AFTP_REQUEST_FILE then do {
        (exited, st) \<leftarrow> a_request_file cm kn gl st;
        Some (if exited then Exited else Running, st)
      }
      else if major_code = ucast AFTP_SEND_FILE then finished (a_send_file cm kn st)
      else if major_code = ucast AFTP_FILE_DATA then finished (a_file_data cm kn st)
      else if major_code = ucast AFTP_FILE_COMPLETE then finished (a_file_complete cm kn st)
      else if major_code = ucast AFTP_DELETE then finished (a_delete cm kn st)
      else if major_code = ucast AFTP_CREATE_DIR then finished (a_create_dir cm kn st)
      else if major_code = ucast AFTP_REMOVE_DIR then finished (a_remove_dir cm kn st)
      else if major_code = ucast AFTP_RENAME then finished (a_rename cm kn st)
      else Some (Done, st))"

text \<open>One round of the inner loop, the loop, and the loop that accepts conversations.\<close>

definition serve_one ::
  "'w cpic \<Rightarrow> 'k kernel \<Rightarrow> glib \<Rightarrow> ('w, 'k) aftpd \<Rightarrow> (ctl \<times> ('w, 'k) aftpd) option" where
  "serve_one cm kn gl st = do {
     (rc, r, w) \<leftarrow> get_asuiterecord cm (line st) (d_conv_id st) (d_record st);
     let st = st\<lparr>line := w, d_record := r\<rparr>;
     if rc = ASUITE_RC_OK then do {
       major_code \<leftarrow> get_major_code r;
       dispatch cm kn gl major_code (st\<lparr>d_returned_length := get_received_len r, d_curpos := 2\<rparr>)
     } else Some (Done, st)
   }"

partial_function (option) serve ::
  "'w cpic \<Rightarrow> 'k kernel \<Rightarrow> glib \<Rightarrow> ('w, 'k) aftpd \<Rightarrow> (ctl \<times> ('w, 'k) aftpd) option" where
  "serve cm kn gl st = do {
     (ctl, st) \<leftarrow> serve_one cm kn gl st;
     if ctl = Running then serve cm kn gl st else Some (ctl, st)
   }"

record 'w listener =
  cmaccp :: "'w \<Rightarrow> int \<times> conv_id \<times> 'w"
  cmepln :: "'w \<Rightarrow> conv_id \<Rightarrow> byte list \<times> 'w"

partial_function (option) conversation_loop ::
  "'w listener \<Rightarrow> 'w cpic \<Rightarrow> 'k kernel \<Rightarrow> glib \<Rightarrow> ('w, 'k) aftpd \<Rightarrow> ('w, 'k) aftpd option" where
  "conversation_loop ln cm kn gl st =
     (let (mainrc, cid, w) = cmaccp ln (line st);
          st = st\<lparr>line := w, d_record := asuiterecord_clear (d_record st)\<rparr>
      in if mainrc = CM_OK then
           let (origin, w) = cmepln ln w cid in
           if length origin < MAX_FQPLU_NAME then do {
             (ctl, st) \<leftarrow> serve cm kn gl (st\<lparr>line := w, d_conv_id := cid, d_returned_length := length origin\<rparr>);
             if ctl = Exited then Some st
             else conversation_loop ln cm kn gl (st\<lparr>line := snd (cmdeal cm (line st) cid)\<rparr>)
           } else None
         else Some st)"

text \<open>The globals start out as zero.\<close>

definition aftpd_main ::
  "'w listener \<Rightarrow> 'w cpic \<Rightarrow> 'k kernel \<Rightarrow> glib \<Rightarrow> 'w \<Rightarrow> 'k \<Rightarrow> ('w, 'k) aftpd option" where
  "aftpd_main ln cm kn gl w k =
     (let (ok, k) = sys_malloc kn k in do {
        r \<leftarrow> asuiterecord_new ok;
        conversation_loop ln cm kn gl \<lparr>line = w, kern = k, d_conv_id = replicate 8 0, d_record = r,
          d_returned_length = 0, d_curpos = 0, dest_file = 0\<rparr>
      })"

end
