(* ===== verification/Aftp_Serving.thy ===== *)
theory Aftp_Serving
  imports Aftp_Protocol Aftp_Server
begin

text \<open>
  What the handlers of the file transfer server (\<^verbatim>\<open>asuite/aftpd.c\<close>) do to the system and put on the
  line, for the requests of the client library.
\<close>

section \<open>Reading a request\<close>

text \<open>\<open>requested st t ps\<close>: the record holds a request with the parameters \<open>ps\<close>, none of them read yet.\<close>

definition requested :: "('w, 'k) aftpd \<Rightarrow> u16 \<Rightarrow> (byte \<times> byte list) list \<Rightarrow> bool" where
  "requested st t ps \<longleftrightarrow> wf_record (d_record st) \<and> contents (d_record st) = Some (be16 t @ params ps)
     \<and> small ps \<and> ps \<noteq> [] \<and> d_curpos st = 2 \<and> d_returned_length st = 2 + length (params ps)"

text \<open>Memory for everything.\<close>

definition has_room :: "'k kernel \<Rightarrow> bool" where
  "has_room kn \<longleftrightarrow> (\<forall>k. sys_malloc kn k = (True, k))"

lemma has_room_malloc: "has_room kn \<Longrightarrow> sys_malloc kn k = (True, k)"
  by (simp add: has_room_def)

lemma param_string_at:
  assumes "contents (d_record st) = Some (pre @ tlv k (s @ [0]) @ post)" "d_curpos st = length pre" "no_nul s"
  shows "param_string st = Some s"
proof -
  have "contents (d_record st) = Some ((pre @ be16 (of_nat (length (s @ [0]) + 3)) @ [k]) @ s @ 0 # post)"
    using assms(1) by (simp add: tlv_def)
  from buffer_drop [OF this] obtain rest where "drop (length pre + 3) (buffer (d_record st)) = map Some s @ Some 0 # rest"
    by auto
  then show ?thesis using assms(2,3) by (simp add: param_string_def)
qed

lemma param_cell_at:
  assumes "contents (d_record st) = Some (pre @ tlv k [b] @ post)"
  shows "get_cell (buffer (d_record st)) (length pre + 3) = Some b"
  using image_cell [OF assms(1), of 3] by (simp add: tlv_def be16_def)

text \<open>One round of the loop.\<close>

lemma request_loop_round:
  assumes "contents (d_record st) = Some (pre @ tlv k d @ post)" "length d + 3 < 65536" "d_curpos st = length pre"
    and "body k st v = Some (False, st', v')" "d_curpos st' = length pre"
  shows "request_loop body st v =
    (if length pre + (length d + 3) < d_returned_length st'
     then request_loop body (st'\<lparr>d_curpos := length (pre @ tlv k d)\<rparr>) v'
     else Some (False, st'\<lparr>d_curpos := length (pre @ tlv k d)\<rparr>, v'))"
  using asuite.plen_at [OF assms(1,2)] asuite.pkey_at [OF assms(1)] assms(3-5)
  by (subst request_loop.simps) simp

text \<open>
  The loop as a fold over the parameters, for a switch that never returns and only changes the
  local variables.
\<close>

fun fold_params :: "(byte \<Rightarrow> byte list \<Rightarrow> 'v \<Rightarrow> 'v) \<Rightarrow> (byte \<times> byte list) list \<Rightarrow> 'v \<Rightarrow> 'v" where
  "fold_params upd [] v = v"
| "fold_params upd ((k, d) # ps) v = fold_params upd ps (upd k d v)"

definition stores :: "(byte \<Rightarrow> ('w, 'k) aftpd \<Rightarrow> 'v \<Rightarrow> (bool \<times> ('w, 'k) aftpd \<times> 'v) option)
    \<Rightarrow> (byte \<Rightarrow> byte list \<Rightarrow> 'v \<Rightarrow> 'v) \<Rightarrow> (byte \<times> byte list) list \<Rightarrow> bool" where
  "stores body upd ps \<longleftrightarrow> (\<forall>(k, d) \<in> set ps. \<forall>st pre post v.
     contents (d_record st) = Some (pre @ tlv k d @ post) \<longrightarrow> d_curpos st = length pre \<longrightarrow>
     body k st v = Some (False, st, upd k d v))"

lemma request_loop_stores:
  assumes "contents (d_record st) = Some (pre @ params ps)" "small ps" "ps \<noteq> []" "d_curpos st = length pre"
    and "d_returned_length st = length pre + length (params ps)" "stores body upd ps"
  shows "request_loop body st v = Some (False, st\<lparr>d_curpos := d_returned_length st\<rparr>, fold_params upd ps v)"
  using assms
proof (induction ps arbitrary: st pre v)
  case (Cons p ps)
  obtain k d where p: "p = (k, d)" by (cases p)
  have c: "contents (d_record st) = Some (pre @ tlv k d @ params ps)" using Cons.prems(1) p by simp
  have b: "body k st v = Some (False, st, upd k d v)"
    using Cons.prems(4,6) c p by (fastforce simp: stores_def)
  have step: "request_loop body st v =
    (if length pre + (length d + 3) < d_returned_length st
     then request_loop body (st\<lparr>d_curpos := length (pre @ tlv k d)\<rparr>) (upd k d v)
     else Some (False, st\<lparr>d_curpos := length (pre @ tlv k d)\<rparr>, upd k d v))"
    by (rule request_loop_round [where body = body and st' = st, OF c _ Cons.prems(4) b Cons.prems(4)]) (use Cons.prems(2) p in simp)
  show ?case
  proof (cases "ps = []")
    case False
    then have "0 < length (params ps)" by (cases ps) auto
    then show ?thesis
      using step Cons.IH [of "st\<lparr>d_curpos := length (pre @ tlv k d)\<rparr>" "pre @ tlv k d" "upd k d v"] Cons.prems False p
      by (simp add: stores_def)
  qed (use step Cons.prems(5) p in simp)
qed simp

lemma requested_loop:
  assumes "requested st t ps" "stores body upd ps"
  shows "request_loop body st v = Some (False, st\<lparr>d_curpos := d_returned_length st\<rparr>, fold_params upd ps v)"
  using request_loop_stores [of st "be16 t" ps body upd v] assms by (simp add: requested_def)

lemma keep_string_ok:
  assumes "has_room kn" "contents (d_record st) = Some (pre @ tlv k (s @ [0]) @ post)" "d_curpos st = length pre" "no_nul s"
  shows "keep_string cm kn store st v = Some (False, st, store s)"
  using assms(1) param_string_at [OF assms(2-4)] by (simp add: keep_string_def has_room_def)

text \<open>The parameter without its terminator.\<close>

lemma stores_filespec: "has_room kn \<Longrightarrow> no_nul d \<Longrightarrow>
    stores (filespec_body cm kn) (\<lambda>k d v. Some (butlast d)) [(AFTP_FILESPEC, d @ [0])]"
  by (auto simp: stores_def filespec_body_def keep_string_ok)

lemma stores_rename: "has_room kn \<Longrightarrow> no_nul a \<Longrightarrow> no_nul b \<Longrightarrow>
    stores (rename_body cm kn)
      (\<lambda>k d (x, y). if k = AFTP_FILESPEC then (Some (butlast d), y) else (x, Some (butlast d)))
      [(AFTP_FILESPEC, a @ [0]), (AFTP_NEW_FILESPEC, b @ [0])]"
  by (auto simp: stores_def keep_string_ok aftp_codes)

section \<open>Replies\<close>

text \<open>The state after something was sent.\<close>

definition sent :: "'w cpic \<Rightarrow> byte list \<Rightarrow> ('w, 'k) aftpd \<Rightarrow> ('w, 'k) aftpd" where
  "sent cm m st = st\<lparr>line := snd (cmsend cm (line st) (d_conv_id st) m)\<rparr>"

lemma sent_simps [simp]:
  "kern (sent cm m st) = kern st" "d_conv_id (sent cm m st) = d_conv_id st" "d_record (sent cm m st) = d_record st"
  "d_returned_length (sent cm m st) = d_returned_length st" "d_curpos (sent cm m st) = d_curpos st"
  "dest_file (sent cm m st) = dest_file st" "line (sent cm m st) = snd (cmsend cm (line st) (d_conv_id st) m)"
  by (simp_all add: sent_def)

lemma send_response_ok:
  "has_room kn \<Longrightarrow> send_response cm kn e i st = Some (sent cm (status_image (of_int e) 0 i) st)"
  by (simp add: send_response_def has_room_def send_simple_response_image sent_def)

text \<open>The status a handler reports for the result of a system call.\<close>

definition result_image :: "(int \<Rightarrow> u32) \<Rightarrow> int option \<Rightarrow> byte list" where
  "result_image err rc = (case rc of None \<Rightarrow> status_image 0 0 0 | Some e \<Rightarrow> status_image 6 0 (err e))"

lemma respond_ok: "has_room kn \<Longrightarrow> respond cm kn err rc st = Some (sent cm (result_image err rc) st)"
  by (auto simp: respond_def send_response_ok result_image_def aftp_rcs split: option.split)

lemma send_record_any:
  assumes "contents (d_record st) = Some m"
  shows "send_record cm st = Some (fst (cmsend cm (line st) (d_conv_id st) m), sent cm m st)"
  using assms by (simp add: send_record_def send_asuiterecord_def contents_def sent_def CM_OK_def ASUITE_RC_OK_def
      split: prod.split)

lemma reply_ok:
  assumes "wf_record (d_record st)"
    and "\<And>r. holds r (map Some (be16 t)) \<Longrightarrow> \<exists>r'. fill r = Some r' \<and> holds r' (map Some (be16 t @ bs))"
  obtains r' where "reply cm t fill st = Some (sent cm (be16 t @ bs) (st\<lparr>d_record := r'\<rparr>))"
    "holds r' (map Some (be16 t @ bs))"
proof -
  obtain q where q: "asuiterecord_settype (asuiterecord_clear (d_record st)) t = Some q" "holds q (map Some (be16 t))"
    using settype_holds [of "asuiterecord_clear (d_record st)" t] assms(1)
    by (auto simp: asuiterecord_clear_def wf_record_def)
  obtain r' where r': "fill q = Some r'" "holds r' (map Some (be16 t @ bs))" using assms(2) [OF q(2)] by blast
  have "send_record cm (st\<lparr>d_record := r'\<rparr>) = Some (fst (cmsend cm (line st) (d_conv_id st) (be16 t @ bs)),
      sent cm (be16 t @ bs) (st\<lparr>d_record := r'\<rparr>))"
    using send_record_any [of "st\<lparr>d_record := r'\<rparr>" "be16 t @ bs" cm] holds_contents [OF r'(2)] by simp
  with q(1) r'(1) have "reply cm t fill st = Some (sent cm (be16 t @ bs) (st\<lparr>d_record := r'\<rparr>))"
    by (simp add: reply_def)
  with r'(2) that show ?thesis by blast
qed

section \<open>Requests with one name\<close>

text \<open>
  \<^verbatim>\<open>a_delete\<close>, \<^verbatim>\<open>a_create_dir\<close> and \<^verbatim>\<open>a_remove_dir\<close> promise the same: they read one name, make one system
  call and report its result.
\<close>

locale name_request =
  fixes cm :: "'w cpic" and kn :: "'k kernel"
    and handler :: "('w, 'k) aftpd \<Rightarrow> ('w, 'k) aftpd option"
    and call :: "'k \<Rightarrow> byte list \<Rightarrow> int option \<times> 'k"
    and err :: "int \<Rightarrow> u32"
  assumes handler_returned: "request_loop (filespec_body cm kn) st None = Some (True, st', v) \<Longrightarrow> handler st = Some st'"
    and handler_calls: "request_loop (filespec_body cm kn) st None = Some (False, st', Some d) \<Longrightarrow>
      handler st = respond cm kn err (fst (call (kern st') d)) (st'\<lparr>kern := snd (call (kern st') d)\<rparr>)"
begin

lemma performs:
  assumes "has_room kn" "requested st t [(AFTP_FILESPEC, d @ [0])]" "no_nul d" "call (kern st) d = (rc, k)"
  shows "handler st = Some (sent cm (result_image err rc) (st\<lparr>kern := k, d_curpos := d_returned_length st\<rparr>))"
  using handler_calls [OF requested_loop [OF assms(2) stores_filespec [OF assms(1,3)], of _ None, simplified]]
    assms(1,4) by (simp add: respond_ok)

text \<open>A parameter that is not a name: the system is left alone and the error reported.\<close>

lemma refuses:
  assumes "has_room kn" "requested st t ((key, d) # ps)" "key \<noteq> AFTP_FILESPEC"
  shows "handler st = Some (sent cm (status_image 10 0 128) st)"
proof -
  have c: "contents (d_record st) = Some (be16 t @ tlv key d @ params ps)" and l: "length d + 3 < 65536" "d_curpos st = length (be16 t)"
    using assms(2) by (simp_all add: requested_def)
  have "request_loop (filespec_body cm kn) st None = Some (True, sent cm (status_image 10 0 128) st, None)"
    using asuite.plen_at [OF c l(1)] asuite.pkey_at [OF c] l(2) assms(1,3)
    by (subst request_loop.simps)
      (simp add: filespec_body_def unknown_parameter_def send_response_ok aftp_rcs a_errs)
  then show ?thesis by (rule handler_returned)
qed

end

interpretation delete: name_request cm kn "a_delete cm kn" "sys_unlink kn" delete_error for cm :: "'w cpic" and kn :: "'k kernel"
  by unfold_locales (auto simp: a_delete_def split: prod.split)

interpretation create_dir: name_request cm kn "a_create_dir cm kn" "sys_mkdir kn" create_dir_error for cm :: "'w cpic" and kn :: "'k kernel"
  by unfold_locales (auto simp: a_create_dir_def split: prod.split)

interpretation remove_dir: name_request cm kn "a_remove_dir cm kn" "sys_rmdir kn" remove_dir_error for cm :: "'w cpic" and kn :: "'k kernel"
  by unfold_locales (auto simp: a_remove_dir_def split: prod.split)

lemma rename_performs:
  assumes "has_room kn" "requested st t [(AFTP_FILESPEC, a @ [0]), (AFTP_NEW_FILESPEC, b @ [0])]" "no_nul a" "no_nul b"
    and "sys_rename kn (kern st) a b = (rc, k)"
  shows "a_rename cm kn st = Some (sent cm (result_image rename_error rc) (st\<lparr>kern := k, d_curpos := d_returned_length st\<rparr>))"
  using requested_loop [OF assms(2) stores_rename [OF assms(1,3,4)], of cm "(None, None)"] assms(1,5)
  by (simp add: a_rename_def respond_ok aftp_codes)

section \<open>Queries and the directory\<close>

lemma tower_replies:
  assumes "wf_record (d_record st)"
  obtains r where "a_tower_request cm st = Some (sent cm (be16 AFTP_TOWER_RESPONSE @ tlv AFTP_TOWER_LIST []) (st\<lparr>d_record := r\<rparr>))"
    "wf_record r"
proof (rule reply_ok [OF assms, of AFTP_TOWER_RESPONSE "\<lambda>r. asuiterecord_append_twobyte r AFTP_TOWER_LIST 0 []" "tlv AFTP_TOWER_LIST []"])
  fix r assume "holds r (map Some (be16 AFTP_TOWER_RESPONSE))"
  from append_twobyte_holds [OF this, of "[]" AFTP_TOWER_LIST]
  show "\<exists>r'. asuiterecord_append_twobyte r AFTP_TOWER_LIST 0 [] = Some r' \<and> holds r' (map Some (be16 AFTP_TOWER_RESPONSE @ tlv AFTP_TOWER_LIST []))"
    by (simp add: MAX_BUFFER_SIZE_def be16s_def)
qed (use that in \<open>auto simp: a_tower_request_def dest: holds_wf\<close>)

text \<open>A successful status followed by a string.\<close>

definition ok_string :: "byte \<Rightarrow> byte list \<Rightarrow> byte list" where
  "ok_string key s = be16 (ucast AFTP_SIMPLE_RESPONSE) @ tlv AFTP_STATUS_RETURN_CODE [0] @ tlv key (s @ [0])"

lemma ok_string_replies:
  assumes "wf_record (d_record st)" "no_nul s" "length s + 10 \<le> MAX_BUFFER_SIZE"
  obtains r where "reply cm (ucast AFTP_SIMPLE_RESPONSE) (\<lambda>r. do {
      r \<leftarrow> asuiterecord_append_char r AFTP_STATUS_RETURN_CODE 0;
      asuiterecord_append r key (str_cells s) (length s + 1)
    }) st = Some (sent cm (ok_string key s) (st\<lparr>d_record := r\<rparr>))" "wf_record r"
proof (rule reply_ok [OF assms(1), where cm = cm and t = "ucast AFTP_SIMPLE_RESPONSE"
      and bs = "tlv AFTP_STATUS_RETURN_CODE [0] @ tlv key (s @ [0])"])
  fix r assume h: "holds r (map Some (be16 (ucast AFTP_SIMPLE_RESPONSE)))"
  obtain q where q: "asuiterecord_append_char r AFTP_STATUS_RETURN_CODE 0 = Some q"
    "holds q (map Some (be16 (ucast AFTP_SIMPLE_RESPONSE)) @ map Some (tlv AFTP_STATUS_RETURN_CODE [0]))"
    using append_char_holds [OF h, of AFTP_STATUS_RETURN_CODE 0] by (auto simp: MAX_BUFFER_SIZE_def)
  have "strncpy_src (str_cells s) (length s + 1) = Some (s @ [0])" using assms(2) by (simp add: pad_to_Suc_length)
  from append_holds [OF q(2) this, of key] q(1) assms(3)
  show "\<exists>r'. do { r \<leftarrow> asuiterecord_append_char r AFTP_STATUS_RETURN_CODE 0;
        asuiterecord_append r key (str_cells s) (length s + 1) } = Some r'
      \<and> holds r' (map Some (be16 (ucast AFTP_SIMPLE_RESPONSE) @ tlv AFTP_STATUS_RETURN_CODE [0] @ tlv key (s @ [0])))"
    by simp
qed (use that in \<open>auto simp: ok_string_def dest: holds_wf\<close>)

lemma system_string_ok: "no_nul system_string" "length system_string = 33"
  by (simp_all add: system_string_def no_nul_def)

lemma query_system_replies:
  assumes "wf_record (d_record st)"
  obtains r where "a_query_system cm st = Some (sent cm (ok_string AFTP_SYSTEM_INFO system_string) (st\<lparr>d_record := r\<rparr>))" "wf_record r"
  by (rule ok_string_replies [OF assms system_string_ok(1), of cm AFTP_SYSTEM_INFO])
    (use that system_string_ok in \<open>auto simp: a_query_system_def MAX_BUFFER_SIZE_def\<close>)

lemma query_dir_replies:
  assumes "wf_record (d_record st)" "has_room kn" "sys_getcwd kn (kern st) = getcwd_at path" "length path < 64" "no_nul path"
  obtains r where "a_query_dir cm kn st = Some (sent cm (ok_string AFTP_FILESPEC (path @ [0x2F])) (st\<lparr>d_record := r\<rparr>))" "wf_record r"
proof -
  have "no_nul (path @ [0x2F])" "length (path @ [0x2F]) + 10 \<le> MAX_BUFFER_SIZE"
    using assms(4,5) by (simp_all add: no_nul_def MAX_BUFFER_SIZE_def)
  from ok_string_replies [OF assms(1) this, of cm AFTP_FILESPEC] obtain r where
    r: "reply cm (ucast AFTP_SIMPLE_RESPONSE) (\<lambda>r. do {
      r \<leftarrow> asuiterecord_append_char r AFTP_STATUS_RETURN_CODE 0;
      asuiterecord_append r AFTP_FILESPEC (str_cells (path @ [0x2F])) (length (path @ [0x2F]) + 1)
    }) st = Some (sent cm (ok_string AFTP_FILESPEC (path @ [0x2F])) (st\<lparr>d_record := r\<rparr>))" "wf_record r" .
  have "safe_get_cwd (getcwd_at path) True = Some (Some (path @ [0x2F]))"
    using assms(4) by (simp add: safe_get_cwd_def getcwd_at_def CWD_CHUNK_def cwd_loop.simps)
  then have "a_query_dir cm kn st = Some (sent cm (ok_string AFTP_FILESPEC (path @ [0x2F])) (st\<lparr>d_record := r\<rparr>))"
    using r(1) assms(2,3) by (simp add: a_query_dir_def has_room_def aftp_rcs)
  then show ?thesis using r(2) that by blast
qed

lemma change_dir_performs:
  assumes "has_room kn" "requested st t [(AFTP_FILESPEC, d @ [0])]" "no_nul d" "sys_chdir kn (kern st) d = (rc, k)"
  obtains r n where "a_change_dir cm kn st = Some (sent cm (result_image change_dir_error rc)
      (st\<lparr>kern := k, d_record := r, d_curpos := n\<rparr>))" "wf_record r"
proof -
  have c: "contents (d_record st) = Some (be16 t @ tlv AFTP_FILESPEC (d @ [0]) @ [])" "length (d @ [0]) + 3 < 65536"
    "d_curpos st = length (be16 t)" "d_returned_length st = 2 + (length d + 4)" "wf_record (d_record st)"
    using assms(2) by (simp_all add: requested_def)
  note str = param_string_at [OF c(1,3) assms(3)]
  note at = asuite.plen_at [OF c(1,2)] asuite.pkey_at [OF c(1)]
  show ?thesis
  proof (cases rc)
    case None
    let ?st = "st\<lparr>kern := k, d_curpos := d_returned_length st\<rparr>"
    have "request_loop (change_dir_step cm kn) st () = Some (False, ?st, ())"
      using at str c(3,4) assms(1,4) None
      by (subst request_loop.simps) (simp add: change_dir_step_def has_room_def)
    moreover obtain r where "reply cm (ucast AFTP_SIMPLE_RESPONSE) (\<lambda>r. asuiterecord_append_char r AFTP_STATUS_RETURN_CODE 0) ?st
        = Some (sent cm (be16 (ucast AFTP_SIMPLE_RESPONSE) @ tlv AFTP_STATUS_RETURN_CODE [0]) (?st\<lparr>d_record := r\<rparr>))" "wf_record r"
    proof (rule reply_ok [of ?st "ucast AFTP_SIMPLE_RESPONSE" _ "tlv AFTP_STATUS_RETURN_CODE [0]" cm])
      fix r assume h: "holds r (map Some (be16 (ucast AFTP_SIMPLE_RESPONSE)))"
      from append_char_holds [OF h, of AFTP_STATUS_RETURN_CODE 0]
      show "\<exists>r'. asuiterecord_append_char r AFTP_STATUS_RETURN_CODE 0 = Some r'
          \<and> holds r' (map Some (be16 (ucast AFTP_SIMPLE_RESPONSE) @ tlv AFTP_STATUS_RETURN_CODE [0]))"
        by (auto simp: MAX_BUFFER_SIZE_def)
    qed (use c(5) in \<open>auto dest: holds_wf\<close>)
    ultimately have "a_change_dir cm kn st = Some (sent cm (result_image change_dir_error rc) (st\<lparr>kern := k, d_record := r, d_curpos := d_returned_length st\<rparr>))"
      using None by (simp add: a_change_dir_def result_image_def status_image_def status_params_def asuite_codes
          AFTP_SIMPLE_RESPONSE_def AFTP_STATUS_RETURN_CODE_def)
    then show ?thesis using that \<open>wf_record r\<close> by blast
  next
    case (Some e)
    have "request_loop (change_dir_step cm kn) st ()
        = Some (True, sent cm (result_image change_dir_error rc) (st\<lparr>kern := k\<rparr>), ())"
      using at str c(3) assms(1,4) Some
      by (subst request_loop.simps)
        (simp add: change_dir_step_def send_response_ok has_room_malloc result_image_def aftp_rcs)
    then have "a_change_dir cm kn st = Some (sent cm (result_image change_dir_error rc)
        (st\<lparr>kern := k, d_record := d_record st, d_curpos := d_curpos st\<rparr>))"
      by (simp add: a_change_dir_def)
    then show ?thesis using that c(5) by blast
  qed
qed

section \<open>The server as a state machine\<close>

text \<open>
  The requests that concern names and directories, what stands on the line for them, and what a server
  owes its client: one system call at most and one reply. \<open>cwd\<close> is the path of the current directory.
\<close>

datatype request = Tower | Query_System | Query_Dir | Change_Dir "byte list" | Create_Dir "byte list"
  | Remove_Dir "byte list" | Delete "byte list" | Rename "byte list" "byte list"

fun request_code :: "request \<Rightarrow> u16" where
  "request_code Tower = AFTP_TOWER_REQUEST"
| "request_code Query_System = AFTP_QUERY_SYSTEM"
| "request_code Query_Dir = AFTP_QUERY_DIR"
| "request_code (Change_Dir d) = AFTP_CHANGE_DIR"
| "request_code (Create_Dir d) = AFTP_CREATE_DIR"
| "request_code (Remove_Dir d) = AFTP_REMOVE_DIR"
| "request_code (Delete d) = AFTP_DELETE"
| "request_code (Rename a b) = AFTP_RENAME"

fun request_names :: "request \<Rightarrow> (byte \<times> byte list) list" where
  "request_names (Change_Dir d) = [(AFTP_FILESPEC, d)]"
| "request_names (Create_Dir d) = [(AFTP_FILESPEC, d)]"
| "request_names (Remove_Dir d) = [(AFTP_FILESPEC, d)]"
| "request_names (Delete d) = [(AFTP_FILESPEC, d)]"
| "request_names (Rename a b) = [(AFTP_FILESPEC, a), (AFTP_NEW_FILESPEC, b)]"
| "request_names _ = []"

definition request_bytes :: "request \<Rightarrow> byte list" where
  "request_bytes q = be16 (request_code q) @ params (with_nul (request_names q))"

definition valid :: "request \<Rightarrow> bool" where
  "valid q \<longleftrightarrow> strings (request_names q) \<and> length (request_bytes q) \<le> MAX_BUFFER_SIZE"

fun perform :: "'k kernel \<Rightarrow> ('k \<Rightarrow> byte list) \<Rightarrow> request \<Rightarrow> 'k \<Rightarrow> byte list \<times> 'k" where
  "perform kn cwd Tower k = (be16 AFTP_TOWER_RESPONSE @ tlv AFTP_TOWER_LIST [], k)"
| "perform kn cwd Query_System k = (ok_string AFTP_SYSTEM_INFO system_string, k)"
| "perform kn cwd Query_Dir k = (ok_string AFTP_FILESPEC (cwd k @ [0x2F]), k)"
| "perform kn cwd (Change_Dir d) k = apfst (result_image change_dir_error) (sys_chdir kn k d)"
| "perform kn cwd (Create_Dir d) k = apfst (result_image create_dir_error) (sys_mkdir kn k d)"
| "perform kn cwd (Remove_Dir d) k = apfst (result_image remove_dir_error) (sys_rmdir kn k d)"
| "perform kn cwd (Delete d) k = apfst (result_image delete_error) (sys_unlink kn k d)"
| "perform kn cwd (Rename a b) k = apfst (result_image rename_error) (sys_rename kn k a b)"

fun perform_all :: "'k kernel \<Rightarrow> ('k \<Rightarrow> byte list) \<Rightarrow> request list \<Rightarrow> 'k \<Rightarrow> byte list list \<times> 'k" where
  "perform_all kn cwd [] k = ([], k)"
| "perform_all kn cwd (q # qs) k =
     (let (m, k) = perform kn cwd q k; (ms, k) = perform_all kn cwd qs k in (m # ms, k))"

text \<open>A line with the records for the server and those from it; an empty line ends the conversation.\<close>

type_synonym queues = "byte list list \<times> byte list list"

definition pipe :: "queues cpic" where
  "pipe = \<lparr>cmsend = \<lambda>(i, out) cid m. (0, (i, out @ [m])),
     cmrcv = \<lambda>(i, out) cid n. (case i of [] \<Rightarrow> (18, [], (i, out)) | m # i \<Rightarrow> (0, m, (i, out))),
     cminit = \<lambda>w name. (0, [1], w), cmspln = \<lambda>w cid x. (0, w), cmsmn = \<lambda>w cid x. (0, w), cmstpn = \<lambda>w cid x. (0, w),
     cmallc = \<lambda>w cid. (0, w), cmdeal = \<lambda>w cid. (0, w)\<rparr>"

lemma pipe_simps [simp]:
  "cmsend pipe (i, out) cid m = (0, (i, out @ [m]))" "cmrcv pipe (m # i, out) cid n = (0, m, (i, out))"
  "cmrcv pipe ([], out) cid n = (18, [], ([], out))" "cmdeal pipe w cid = (0, w)"
  by (simp_all add: pipe_def)

lemma sent_pipe: "line (sent pipe m st) = (fst (line st), snd (line st) @ [m])"
  by (cases "line st") simp

lemma serve_one_dispatches:
  assumes "wf_record (d_record st)" "line st = ((be16 t @ bs) # i, out)" "length (be16 t @ bs) \<le> MAX_BUFFER_SIZE"
  obtains r where "serve_one pipe kn gl st = dispatch pipe kn gl (ucast t)
      (st\<lparr>line := (i, out), d_record := r, d_returned_length := 2 + length bs, d_curpos := 2\<rparr>)"
    "wf_record r" "contents r = Some (be16 t @ bs)"
proof -
  obtain r where r: "get_asuiterecord pipe (line st) (d_conv_id st) (d_record st) = Some (0, r, (i, out))" "wf_record r"
    "contents r = Some (be16 t @ bs)"
    using receive_ok [OF assms(1) _ assms(3), of pipe "line st" "d_conv_id st" "(i, out)"] assms(2) by auto
  moreover have "get_received_len r = 2 + length bs"
    using r(3) by (auto simp: get_received_len_def contents_def get_bytes_iff)
  ultimately show ?thesis
    using that get_major_code_at [OF r(3)] by (simp add: serve_one_def ASUITE_RC_OK_def)
qed

lemmas request_codes = AFTP_TOWER_REQUEST_def AFTP_QUERY_SYSTEM_def AFTP_QUERY_DIR_def AFTP_LIST_REQUEST_def
  AFTP_CHANGE_DIR_def AFTP_REQUEST_FILE_def AFTP_SEND_FILE_def AFTP_FILE_DATA_def AFTP_FILE_COMPLETE_def AFTP_DELETE_def
  AFTP_CREATE_DIR_def AFTP_REMOVE_DIR_def AFTP_RENAME_def AFTP_CLOSE_def

text \<open>The handlers as one function of the request.\<close>

fun handle :: "queues cpic \<Rightarrow> 'k kernel \<Rightarrow> request \<Rightarrow> (queues, 'k) aftpd \<Rightarrow> (queues, 'k) aftpd option" where
  "handle cm kn Tower st = a_tower_request cm st"
| "handle cm kn Query_System st = a_query_system cm st"
| "handle cm kn Query_Dir st = a_query_dir cm kn st"
| "handle cm kn (Change_Dir d) st = a_change_dir cm kn st"
| "handle cm kn (Create_Dir d) st = a_create_dir cm kn st"
| "handle cm kn (Remove_Dir d) st = a_remove_dir cm kn st"
| "handle cm kn (Delete d) st = a_delete cm kn st"
| "handle cm kn (Rename a b) st = a_rename cm kn st"

lemma dispatch_handles: "dispatch cm kn gl (ucast (request_code q)) st = finished (handle cm kn q st)"
  by (cases q) (simp_all add: dispatch_def request_codes)

definition knows_cwd :: "'k kernel \<Rightarrow> ('k \<Rightarrow> byte list) \<Rightarrow> bool" where
  "knows_cwd kn cwd \<longleftrightarrow> (\<forall>k. sys_getcwd kn k = getcwd_at (cwd k) \<and> length (cwd k) < 64 \<and> no_nul (cwd k))"

lemma handle_performs:
  assumes "has_room kn" "knows_cwd kn cwd" "valid q" "wf_record (d_record st)"
    and "contents (d_record st) = Some (request_bytes q)" "d_curpos st = 2" "d_returned_length st = length (request_bytes q)"
  shows "\<exists>st'. handle pipe kn q st = Some st' \<and> line st' = (fst (line st), snd (line st) @ [fst (perform kn cwd q (kern st))])
    \<and> kern st' = snd (perform kn cwd q (kern st)) \<and> wf_record (d_record st')"
proof -
  have sm: "small (with_nul (request_names q))"
    using small_with_nul [of "request_names q" MAX_BUFFER_SIZE] assms(3) by (simp add: valid_def request_bytes_def MAX_BUFFER_SIZE_def)
  have req: "requested st (request_code q) (with_nul (request_names q))" if "request_names q \<noteq> []"
    using assms(4-7) sm that by (simp add: requested_def request_bytes_def with_nul_def)
  have names: "strings (request_names q)" using assms(3) by (simp add: valid_def)
  show ?thesis
  proof (cases q)
    case Tower
    then show ?thesis by (auto intro: tower_replies [OF assms(4), of pipe] simp: sent_pipe simp del: sent_simps(7))
  next
    case Query_System
    then show ?thesis by (auto intro: query_system_replies [OF assms(4), of pipe] simp: sent_pipe simp del: sent_simps(7))
  next
    case Query_Dir
    then show ?thesis
      using assms(2) by (auto intro: query_dir_replies [OF assms(4,1), of "cwd (kern st)" pipe] simp: knows_cwd_def sent_pipe simp del: sent_simps(7))
  next
    case (Change_Dir d)
    then have "requested st AFTP_CHANGE_DIR [(AFTP_FILESPEC, d @ [0])]" "no_nul d" using req names by simp_all
    with Change_Dir show ?thesis
      by (rule_tac change_dir_performs [OF assms(1), of st AFTP_CHANGE_DIR d "fst (sys_chdir kn (kern st) d)" "snd (sys_chdir kn (kern st) d)" pipe])
        (auto simp: sent_pipe simp del: sent_simps(7))
  next
    case (Rename a b)
    then show ?thesis
      using req names rename_performs [OF assms(1) _ _ _ surjective_pairing, of st AFTP_RENAME a b pipe] assms(4)
      by (auto simp: sent_pipe simp del: sent_simps(7))
  qed (use req names assms(4) create_dir.performs [OF assms(1) _ _ surjective_pairing, of st AFTP_CREATE_DIR _ pipe]
      remove_dir.performs [OF assms(1) _ _ surjective_pairing, of st AFTP_REMOVE_DIR _ pipe]
      delete.performs [OF assms(1) _ _ surjective_pairing, of st AFTP_DELETE _ pipe]
      in \<open>auto simp: sent_pipe simp del: sent_simps(7)\<close>)
qed

lemma serve_one_performs:
  assumes "has_room kn" "knows_cwd kn cwd" "valid q" "wf_record (d_record st)" "line st = (request_bytes q # i, out)"
  obtains st' where "serve_one pipe kn gl st = Some (Running, st')" "wf_record (d_record st')"
    "line st' = (i, out @ [fst (perform kn cwd q (kern st))])" "kern st' = snd (perform kn cwd q (kern st))"
proof -
  let ?bs = "params (with_nul (request_names q))"
  have "length (be16 (request_code q) @ ?bs) \<le> MAX_BUFFER_SIZE" "line st = ((be16 (request_code q) @ ?bs) # i, out)"
    using assms(3,5) by (simp_all add: valid_def request_bytes_def)
  from serve_one_dispatches [OF assms(4) this(2,1), of kn gl] obtain r where
    r: "serve_one pipe kn gl st = dispatch pipe kn gl (ucast (request_code q))
      (st\<lparr>line := (i, out), d_record := r, d_returned_length := 2 + length ?bs, d_curpos := 2\<rparr>)"
    "wf_record r" "contents r = Some (request_bytes q)"
    by (auto simp: request_bytes_def)
  show ?thesis
    using handle_performs [OF assms(1-3), of "st\<lparr>line := (i, out), d_record := r, d_returned_length := 2 + length ?bs, d_curpos := 2\<rparr>"]
      r that by (auto simp: dispatch_handles finished_def request_bytes_def)
qed

text \<open>The end of a conversation: the client closes it or is gone.\<close>

definition closing :: "byte list list \<Rightarrow> bool" where
  "closing i \<longleftrightarrow> i = [] \<or> hd i = be16 AFTP_CLOSE"

lemma serve_closing:
  assumes "wf_record (d_record st)" "line st = (i, out)" "closing i"
  obtains st' where "serve pipe kn gl st = Some (Done, st')" "line st' = (tl i, out)" "kern st' = kern st" "wf_record (d_record st')"
proof (cases i)
  case Nil
  have "get_asuiterecord pipe (line st) (d_conv_id st) (d_record st) = Some (18, d_record st, line st)"
    using assms(2) Nil by (simp add: get_asuiterecord_def poke_block_def CM_OK_def)
  then have "serve_one pipe kn gl st = Some (Done, st)" by (simp add: serve_one_def ASUITE_RC_OK_def)
  then have "serve pipe kn gl st = Some (Done, st)" by (subst serve.simps) simp
  then show ?thesis using that Nil assms(1,2) by simp
next
  case (Cons m i')
  then have l: "line st = ((be16 AFTP_CLOSE @ []) # i', out)" using assms(2,3) by (simp add: closing_def)
  obtain r where r: "serve_one pipe kn gl st = dispatch pipe kn gl (ucast AFTP_CLOSE)
      (st\<lparr>line := (i', out), d_record := r, d_returned_length := 2, d_curpos := 2\<rparr>)" "wf_record r"
    by (rule serve_one_dispatches [OF assms(1) l]) (simp_all add: MAX_BUFFER_SIZE_def)
  from r(1) have "serve_one pipe kn gl st = Some (Done, st\<lparr>line := (i', out), d_record := r, d_returned_length := 2, d_curpos := 2\<rparr>)"
    by (simp add: dispatch_def request_codes)
  then have "serve pipe kn gl st = Some (Done, st\<lparr>line := (i', out), d_record := r, d_returned_length := 2, d_curpos := 2\<rparr>)"
    by (subst serve.simps) simp
  then show ?thesis using that Cons r(2) by simp
qed

lemma serve_performs:
  assumes "has_room kn" "knows_cwd kn cwd" "\<forall>q \<in> set qs. valid q" "closing end"
    and "wf_record (d_record st)" "line st = (map request_bytes qs @ end, out)"
  shows "\<exists>st'. serve pipe kn gl st = Some (Done, st') \<and> wf_record (d_record st')
    \<and> line st' = (tl end, out @ fst (perform_all kn cwd qs (kern st))) \<and> kern st' = snd (perform_all kn cwd qs (kern st))"
  using assms(3,5,6)
proof (induction qs arbitrary: st out)
  case Nil
  then show ?case using serve_closing [of st "end" out kn gl] assms(4) by auto
next
  case (Cons q qs)
  obtain st' where st': "serve_one pipe kn gl st = Some (Running, st')" "wf_record (d_record st')"
    "line st' = (map request_bytes qs @ end, out @ [fst (perform kn cwd q (kern st))])" "kern st' = snd (perform kn cwd q (kern st))"
    using serve_one_performs [OF assms(1,2) _ Cons.prems(2), of q "map request_bytes qs @ end" out gl] Cons.prems(1,3) by auto
  have "serve pipe kn gl st = serve pipe kn gl st'" using st'(1) by (subst serve.simps) simp
  with Cons.IH [OF _ st'(2,3)] Cons.prems(1) st'(4) show ?case by (auto split: prod.split)
qed


text \<open>A small system: files by name, what was written to the open file, what is left to read. It writes and reads at most
  two bytes at a time.\<close>

record disk =
  tree :: "byte list \<Rightarrow> byte list option"
  written :: "byte list"
  unread :: "byte list"

definition small_system :: "disk kernel" where
  "small_system = \<lparr>sys_malloc = \<lambda>k. (True, k), sys_getcwd = \<lambda>k. getcwd_at [0x2F, 0x61], sys_chdir = \<lambda>k d. (Some ENOENT, k),
     sys_mkdir = \<lambda>k d. if tree k d = None then (None, k\<lparr>tree := (tree k)(d \<mapsto> [])\<rparr>) else (Some EEXIST, k),
     sys_rmdir = \<lambda>k d. if tree k d = None then (Some ENOENT, k) else (None, k\<lparr>tree := (tree k)(d := None)\<rparr>),
     sys_unlink = \<lambda>k d. if tree k d = None then (Some ENOENT, k) else (None, k\<lparr>tree := (tree k)(d := None)\<rparr>),
     sys_rename = \<lambda>k a b. (Some EXDEV, k),
     sys_open = \<lambda>k n. (case tree k n of None \<Rightarrow> (Inl ENOENT, k) | Some c \<Rightarrow> (Inr 3, k\<lparr>unread := c\<rparr>)),
     sys_creat = \<lambda>k n. (Inr 4, k\<lparr>written := []\<rparr>),
     sys_read = \<lambda>k fd n. (Inr (take (min 2 n) (unread k)), k\<lparr>unread := drop (min 2 n) (unread k)\<rparr>),
     sys_write = \<lambda>k fd bs. (Inr (min 2 (length bs)), k\<lparr>written := written k @ take 2 bs\<rparr>),
     sys_close = \<lambda>k fd. (None, k), sys_lstat = \<lambda>k n. None, sys_stat = \<lambda>k n. None, sys_readdir = \<lambda>k n. None,
     sys_time = \<lambda>k. 0, sys_getpwuid = \<lambda>k u. None, sys_getgrgid = \<lambda>k u. None, sys_localtime = \<lambda>k t. False,
     sys_strftime = \<lambda>k n f t. None\<rparr>"

definition base_offset :: "byte list \<Rightarrow> nat" where
  "base_offset s = length s - length (takeWhile (\<lambda>b. b \<noteq> 0x2F) (rev s))"

definition small_glib :: glib where
  "small_glib = \<lparr>g_dirname = \<lambda>s. [0x2E], g_basename = base_offset, g_slist_insert_sorted = insert_name\<rparr>"

definition empty_disk :: disk where
  "empty_disk = \<lparr>tree = \<lambda>n. None, written = [], unread = []\<rparr>"

definition demo_server :: "queues \<Rightarrow> (queues, disk) aftpd" where
  "demo_server q = \<lparr>line = q, kern = empty_disk, d_conv_id = [1], d_record = fresh_record, d_returned_length = 0,
     d_curpos = 0, dest_file = 0\<rparr>"

lemma small_system_ok: "has_room small_system" "knows_cwd small_system (\<lambda>k. [0x2F, 0x61])"
  by (simp_all add: has_room_def knows_cwd_def small_system_def)

lemma be16_codes: "be16 10 = [0, 10]" "be16 8 = [0, 8]" "be16 5 = [0, 5]" "be16 3 = [0, 3]"
  by (simp_all add: be16_def)


section \<open>Receiving a file\<close>

text \<open>
  Writing to the open file \<open>fd\<close> as documented: at least one byte of what it is given is appended; \<open>out\<close>
  is what has been written so far.
\<close>

definition writes_to :: "'k kernel \<Rightarrow> int \<Rightarrow> ('k \<Rightarrow> byte list) \<Rightarrow> bool" where
  "writes_to kn fd out \<longleftrightarrow> (\<forall>k bs. bs \<noteq> [] \<longrightarrow>
     (\<exists>n k'. sys_write kn k fd bs = (Inr n, k') \<and> 0 < n \<and> n \<le> length bs \<and> out k' = out k @ take n bs))"

lemma file_data_writes:
  assumes "writes_to kn fd out" "dest_file st = fd" "contents (d_record st) = Some (pre @ c)" "d_curpos st = length pre" "c \<noteq> []"
  shows "\<exists>k n. a_file_data cm kn st = Some (st\<lparr>kern := k, d_curpos := n\<rparr>) \<and> out k = out (kern st) @ c"
  using assms(2-)
proof (induction "length c" arbitrary: st pre c rule: less_induct)
  case less
  obtain n k where w: "sys_write kn (kern st) fd c = (Inr n, k)" "0 < n" "n \<le> length c" "out k = out (kern st) @ take n c"
    using assms(1) less.prems(4) unfolding writes_to_def by blast
  have pos: "position (d_record st) = length pre + length c"
    using less.prems(2) by (auto simp: contents_def get_bytes_iff)
  obtain rest where "drop (length pre) (buffer (d_record st)) = map Some c @ rest"
    using buffer_drop [OF less.prems(2)] by blast
  then have g: "get_bytes (drop (length pre) (buffer (d_record st))) (length c) = Some c" by (simp add: get_bytes_iff)
  show ?case
  proof (cases "n < length c")
    case True
    let ?st = "st\<lparr>kern := k, d_curpos := length pre + n\<rparr>"
    have eq: "a_file_data cm kn st = a_file_data cm kn ?st"
      using w(1) g pos less.prems(1,3) True by (subst a_file_data.simps) simp
    have c': "contents (d_record ?st) = Some ((pre @ take n c) @ drop n c)" using less.prems(2) by simp
    have "length (drop n c) < length c" "drop n c \<noteq> []" "d_curpos ?st = length (pre @ take n c)"
      using w(2,3) True less.prems(4) by auto
    then obtain k' n' where "a_file_data cm kn ?st = Some (?st\<lparr>kern := k', d_curpos := n'\<rparr>)" "out k' = out k @ drop n c"
      using less.hyps [OF _ _ c'] less.prems(1) by auto
    then show ?thesis using eq w(4) by auto
  next
    case False
    then have "n = length c" using w(3) by simp
    then have "a_file_data cm kn st = Some (st\<lparr>kern := k, d_curpos := length pre + n\<rparr>)"
      using w(1) g pos less.prems(1,3) by (subst a_file_data.simps) simp
    then show ?thesis using w(4) \<open>n = length c\<close> by auto
  qed
qed

lemmas file_codes = AFTP_FILESPEC_def AFTP_NEW_FILESPEC_def AFTP_DATA_TYPE_def AFTP_DATE_MODE_def AFTP_WRITE_MODE_def
  AFTP_MOD_TIME_def AFTP_RECORD_LENGTH_def AFTP_RECORD_FORMAT_def AFTP_BLOCK_SIZE_def AFTP_ALLOCATION_SIZE_def

definition send_params :: "byte list \<Rightarrow> byte list \<Rightarrow> byte \<Rightarrow> byte \<Rightarrow> (byte \<times> byte list) list" where
  "send_params lf rf x y = [(AFTP_FILESPEC, lf @ [0]), (AFTP_NEW_FILESPEC, rf @ [0]), (AFTP_DATA_TYPE, [x]), (AFTP_DATE_MODE, [y])]"

lemma stores_send_file:
  assumes "has_room kn" "no_nul lf" "no_nul rf"
  shows "stores (send_file_body cm kn)
    (\<lambda>k d (a, b). if k = AFTP_FILESPEC then (Some (butlast d), b) else if k = AFTP_NEW_FILESPEC then (a, Some (butlast d)) else (a, b))
    (send_params lf rf x y)"
  using assms by (auto simp: stores_def send_params_def Let_def keep_string_ok) (simp_all add: file_codes)

lemma send_file_creates:
  assumes "has_room kn" "no_nul lf" "no_nul rf" "requested st t (send_params lf rf x y)" "sys_creat kn (kern st) lf = (Inr fd, k)"
  shows "a_send_file cm kn st = Some (st\<lparr>kern := k, d_curpos := d_returned_length st, dest_file := fd\<rparr>)"
  using requested_loop [OF assms(4) stores_send_file [OF assms(1-3)], of cm "(None, None)"] assms(5)
  by (simp add: a_send_file_def send_params_def file_codes)

text \<open>The three kinds of record of a transfer, as the main loop meets them.\<close>

lemma serve_one_send_file:
  assumes "has_room kn" "no_nul lf" "no_nul rf" "length lf + length rf + 20 \<le> MAX_BUFFER_SIZE" "wf_record (d_record st)"
    and "line st = ((be16 AFTP_SEND_FILE @ params (send_params lf rf x y)) # i, out)" "sys_creat kn (kern st) lf = (Inr fd, k)"
  obtains st' where "serve_one pipe kn gl st = Some (Running, st')" "wf_record (d_record st')" "line st' = (i, out)"
    "kern st' = k" "dest_file st' = fd"
proof -
  have len: "length (params (send_params lf rf x y)) = length lf + length rf + 16" by (simp add: send_params_def)
  have sm: "small (send_params lf rf x y)" using assms(4) by (simp add: send_params_def MAX_BUFFER_SIZE_def)
  have "length (be16 AFTP_SEND_FILE @ params (send_params lf rf x y)) \<le> MAX_BUFFER_SIZE" using assms(4) len by simp
  from serve_one_dispatches [OF assms(5,6) this, of kn gl] obtain r where
    r: "serve_one pipe kn gl st = dispatch pipe kn gl (ucast AFTP_SEND_FILE) (st\<lparr>line := (i, out), d_record := r,
        d_returned_length := 2 + length (params (send_params lf rf x y)), d_curpos := 2\<rparr>)"
      "wf_record r" "contents r = Some (be16 AFTP_SEND_FILE @ params (send_params lf rf x y))" .
  let ?st = "st\<lparr>line := (i, out), d_record := r, d_returned_length := 2 + length (params (send_params lf rf x y)), d_curpos := 2\<rparr>"
  have "requested ?st AFTP_SEND_FILE (send_params lf rf x y)"
    using r(2,3) sm by (simp add: requested_def send_params_def)
  from send_file_creates [OF assms(1-3) this, of fd k pipe] assms(7) r(1,2) that show ?thesis
    by (simp add: dispatch_def request_codes finished_def)
qed

lemma serve_one_file_data:
  assumes "writes_to kn fd file" "dest_file st = fd" "wf_record (d_record st)"
    and "line st = ((be16 AFTP_FILE_DATA @ c) # i, out)" "c \<noteq> []" "length c \<le> MAX_BUFFER_SIZE - 2"
  obtains st' where "serve_one pipe kn gl st = Some (Running, st')" "wf_record (d_record st')" "line st' = (i, out)"
    "file (kern st') = file (kern st) @ c" "dest_file st' = fd"
proof -
  have "length (be16 AFTP_FILE_DATA @ c) \<le> MAX_BUFFER_SIZE" using assms(6) by (simp add: MAX_BUFFER_SIZE_def)
  from serve_one_dispatches [OF assms(3,4) this, of kn gl] obtain r where
    r: "serve_one pipe kn gl st = dispatch pipe kn gl (ucast AFTP_FILE_DATA)
        (st\<lparr>line := (i, out), d_record := r, d_returned_length := 2 + length c, d_curpos := 2\<rparr>)"
      "wf_record r" "contents r = Some (be16 AFTP_FILE_DATA @ c)" .
  let ?st = "st\<lparr>line := (i, out), d_record := r, d_returned_length := 2 + length c, d_curpos := 2\<rparr>"
  obtain k n where "a_file_data pipe kn ?st = Some (?st\<lparr>kern := k, d_curpos := n\<rparr>)" "file k = file (kern st) @ c"
    using file_data_writes [OF assms(1), of ?st "be16 AFTP_FILE_DATA" c pipe] assms(2,5) r(3) by auto
  with r(1,2) assms(2) that show ?thesis by (simp add: dispatch_def request_codes finished_def)
qed

lemma serve_one_file_complete:
  assumes "has_room kn" "wf_record (d_record st)" "line st = (be16 AFTP_FILE_COMPLETE # i, out)"
    and "sys_close kn (kern st) (dest_file st) = (rc, k)"
  obtains st' where "serve_one pipe kn gl st = Some (Running, st')" "wf_record (d_record st')"
    "line st' = (i, out @ [result_image (\<lambda>e. A_ERR_ACTION_NOT_PERFORMED) rc])" "kern st' = k"
proof -
  have "line st = ((be16 AFTP_FILE_COMPLETE @ []) # i, out)" "length (be16 AFTP_FILE_COMPLETE @ []) \<le> MAX_BUFFER_SIZE"
    using assms(3) by (simp_all add: MAX_BUFFER_SIZE_def)
  from serve_one_dispatches [OF assms(2) this, of kn gl] obtain r where
    r: "serve_one pipe kn gl st = dispatch pipe kn gl (ucast AFTP_FILE_COMPLETE)
        (st\<lparr>line := (i, out), d_record := r, d_returned_length := 2, d_curpos := 2\<rparr>)" "wf_record r" by auto
  then show ?thesis
    using that [of "sent pipe (result_image (\<lambda>e. A_ERR_ACTION_NOT_PERFORMED) rc)
        (st\<lparr>line := (i, out), d_record := r, d_returned_length := 2, d_curpos := 2, kern := k\<rparr>)"] assms(1,4)
    by (simp add: dispatch_def request_codes finished_def a_file_complete_def respond_ok)
qed

text \<open>The server working off the records that have arrived.\<close>

fun pump :: "'k kernel \<Rightarrow> glib \<Rightarrow> nat \<Rightarrow> (queues, 'k) aftpd \<Rightarrow> (queues, 'k) aftpd option" where
  "pump kn gl 0 st = Some st"
| "pump kn gl (Suc n) st = do {
     (ctl, st) \<leftarrow> serve_one pipe kn gl st;
     if ctl = Running then pump kn gl n st else Some st
   }"

lemma pump_file_data:
  assumes "writes_to kn fd file" "pieces cs"
  shows "dest_file st = fd \<Longrightarrow> wf_record (d_record st) \<Longrightarrow> line st = (map (\<lambda>c. be16 AFTP_FILE_DATA @ c) cs @ i, out) \<Longrightarrow>
    \<exists>st'. pump kn gl (length cs + n) st = pump kn gl n st' \<and> wf_record (d_record st') \<and> line st' = (i, out)
      \<and> file (kern st') = file (kern st) @ concat cs \<and> dest_file st' = fd"
  using assms(2)
proof (induction cs arbitrary: st)
  case (Cons c cs)
  obtain st1 where st1: "serve_one pipe kn gl st = Some (Running, st1)" "wf_record (d_record st1)"
    "line st1 = (map (\<lambda>c. be16 AFTP_FILE_DATA @ c) cs @ i, out)" "file (kern st1) = file (kern st) @ c" "dest_file st1 = fd"
    using serve_one_file_data [OF assms(1) Cons.prems(1,2), of c "map (\<lambda>c. be16 AFTP_FILE_DATA @ c) cs @ i" out gl] Cons.prems(3,4)
    by auto
  with Cons.IH [OF st1(5,2,3)] Cons.prems(4) show ?case by auto
qed auto

text \<open>
  A whole transfer: the file is created, every byte of every piece is written in order, however
  few bytes a single \<^verbatim>\<open>write\<close> takes, and the status of \<^verbatim>\<open>close\<close> is sent.
\<close>

lemma pump_file:
  assumes "has_room kn" "no_nul lf" "no_nul rf" "length lf + length rf + 20 \<le> MAX_BUFFER_SIZE" "pieces cs"
    and "wf_record (d_record st)" "sys_creat kn (kern st) lf = (Inr fd, k)" "file k = []"
    and "writes_to kn fd file" "\<forall>k. sys_close kn k fd = (None, k)"
    and "line st = ((be16 AFTP_SEND_FILE @ params (send_params lf rf x y)) # map (\<lambda>c. be16 AFTP_FILE_DATA @ c) cs
      @ [be16 AFTP_FILE_COMPLETE], out)"
  shows "\<exists>st'. pump kn gl (length cs + 2) st = Some st' \<and> wf_record (d_record st') \<and> line st' = ([], out @ [status_image 0 0 0])
    \<and> file (kern st') = concat cs"
proof -
  obtain s1 where s1: "serve_one pipe kn gl st = Some (Running, s1)" "wf_record (d_record s1)"
    "line s1 = (map (\<lambda>c. be16 AFTP_FILE_DATA @ c) cs @ [be16 AFTP_FILE_COMPLETE], out)" "kern s1 = k" "dest_file s1 = fd"
    by (rule serve_one_send_file [OF assms(1-4,6,11,7)])
  obtain s2 where s2: "pump kn gl (length cs + 1) s1 = pump kn gl 1 s2" "wf_record (d_record s2)"
    "line s2 = ([be16 AFTP_FILE_COMPLETE], out)" "file (kern s2) = concat cs" "dest_file s2 = fd"
    using pump_file_data [OF assms(9,5) s1(5,2,3), of gl 1] s1(4) assms(8) by auto
  have "sys_close kn (kern s2) (dest_file s2) = (None, kern s2)" using assms(10) s2(5) by simp
  from serve_one_file_complete [OF assms(1) s2(2,3) this, of gl] obtain s3 where
    "serve_one pipe kn gl s2 = Some (Running, s3)" "wf_record (d_record s3)"
    "line s3 = ([], out @ [result_image (\<lambda>e. A_ERR_ACTION_NOT_PERFORMED) None])" "kern s3 = kern s2" .
  then show ?thesis using s1(1) s2(1,4) by (simp add: result_image_def)
qed

section \<open>Sending a file\<close>

text \<open>The pieces \<^verbatim>\<open>read\<close> delivers until the end of the file or an error, which are treated alike.\<close>

fun reads :: "'k kernel \<Rightarrow> int \<Rightarrow> 'k \<Rightarrow> byte list list \<Rightarrow> 'k \<Rightarrow> bool" where
  "reads kn fd k [] k' \<longleftrightarrow> (\<exists>e. sys_read kn k fd (MAX_BUFFER_SIZE - 2) = (e, k') \<and> (e = Inr [] \<or> isl e))"
| "reads kn fd k (c # cs) k' \<longleftrightarrow> (\<exists>k1. sys_read kn k fd (MAX_BUFFER_SIZE - 2) = (Inr c, k1)
     \<and> c \<noteq> [] \<and> length c \<le> MAX_BUFFER_SIZE - 2 \<and> reads kn fd k1 cs k')"

lemma poke_block_Nil: "i \<le> length m \<Longrightarrow> poke_block m i [] = Some m"
  by (simp add: poke_block_def)

lemma send_pieces_sends:
  assumes "reads kn fd (kern st) cs k'" "contents (d_record st) = Some (be16 t)" "wf_record (d_record st)"
  shows "\<exists>st'. do { (b, st) \<leftarrow> read_piece kn fd st; send_pieces pipe kn fd b st } = Some (False, st')
    \<and> kern st' = k' \<and> line st' = (fst (line st), snd (line st) @ map (\<lambda>c. be16 t @ c) cs) \<and> wf_record (d_record st')"
  using assms
proof (induction cs arbitrary: st)
  case Nil
  have pos: "position (d_record st) = 2" "length (buffer (d_record st)) = MAX_BUFFER_SIZE"
    using Nil.prems(2,3) by (auto simp: contents_def get_bytes_iff wf_record_def)
  obtain e where e: "sys_read kn (kern st) fd (MAX_BUFFER_SIZE - 2) = (e, k')" "e = Inr [] \<or> isl e" using Nil.prems(1) by auto
  show ?case
  proof (cases e)
    case (Inr x)
    then show ?thesis
      using e pos Nil.prems(3)
      by (auto simp: read_piece_def poke_block_Nil MAX_BUFFER_SIZE_def send_pieces.simps wf_record_def)
  qed (use e pos Nil.prems(3) in \<open>auto simp: read_piece_def send_pieces.simps\<close>)
next
  case (Cons c cs)
  obtain k1 where k1: "sys_read kn (kern st) fd (MAX_BUFFER_SIZE - 2) = (Inr c, k1)" "c \<noteq> []" "length c \<le> MAX_BUFFER_SIZE - 2"
    "reads kn fd k1 cs k'" using Cons.prems(1) by auto
  have h: "holds (d_record st) (map Some (be16 t))" using Cons.prems(2,3) by (rule contents_holds)
  have pos: "position (d_record st) = 2" using h by (simp add: holds_def)
  obtain m where m: "poke_block (buffer (d_record st)) (position (d_record st)) (map Some c) = Some m"
    "holds ((d_record st)\<lparr>buffer := m, position := position (d_record st) + length c\<rparr>) (map Some (be16 t) @ map Some c)"
    using poke_block_holds [OF h, of c] k1(3) by (auto simp: MAX_BUFFER_SIZE_def)
  let ?r = "(d_record st)\<lparr>buffer := m, position := position (d_record st) + length c\<rparr>"
  let ?st = "st\<lparr>kern := k1, d_record := ?r\<rparr>"
  have c: "contents ?r = Some (be16 t @ c)" using holds_contents [of ?r "be16 t @ c"] m(2) by simp
  have rd: "read_piece kn fd st = Some (True, ?st)" using k1(1,2) m(1) pos by (simp add: read_piece_def)
  have "send_record pipe ?st = Some (fst (cmsend pipe (line st) (d_conv_id st) (be16 t @ c)), sent pipe (be16 t @ c) ?st)"
    using send_record_any [of ?st "be16 t @ c" pipe] c by simp
  then have sr: "send_record pipe ?st = Some (0, sent pipe (be16 t @ c) ?st)" by (cases "line st") simp
  let ?st2 = "(sent pipe (be16 t @ c) ?st)\<lparr>d_record := asuiterecord_clear ?r\<rparr>"
  have "send_pieces pipe kn fd True ?st = do { (b, st) \<leftarrow> read_piece kn fd ?st2; send_pieces pipe kn fd b st }"
    using sr by (subst send_pieces.simps) (simp add: AFTP_RC_OK_def)
  moreover have "contents (d_record ?st2) = Some (be16 t)" "wf_record (d_record ?st2)"
    using clear_contents [OF c] holds_wf [OF m(2)] by (simp_all add: asuiterecord_clear_def wf_record_def)
  ultimately show ?case
    using Cons.IH [of ?st2] k1(4) rd by (auto simp: sent_pipe simp del: sent_simps(7))
qed

definition request_params :: "byte list \<Rightarrow> byte list \<Rightarrow> byte \<Rightarrow> (byte \<times> byte list) list" where
  "request_params rf lf x = [(AFTP_FILESPEC, rf @ [0]), (AFTP_NEW_FILESPEC, lf @ [0]), (AFTP_DATA_TYPE, [x])]"

lemma stores_request_file:
  assumes "has_room kn" "no_nul rf" "no_nul lf"
  shows "stores (request_file_body cm kn)
    (\<lambda>k d (a, b, t). if k = AFTP_FILESPEC then (Some (butlast d), b, t)
      else if k = AFTP_NEW_FILESPEC then (a, Some (butlast d), t) else (a, b, hd d))
    (request_params rf lf x)"
  using assms
  by (auto simp: stores_def request_params_def Let_def keep_string_ok asuiterecord_get_char_def)
    (simp_all add: file_codes param_cell_at)

text \<open>The record that announces the file: its name without the directory, padded with zeros.\<close>

definition announce_params :: "glib \<Rightarrow> byte list \<Rightarrow> byte \<Rightarrow> (byte \<times> byte list) list" where
  "announce_params gl rf x =
     [(AFTP_FILESPEC, pad_to (Suc (length rf)) (drop (g_basename gl rf) rf)), (AFTP_DATA_TYPE, [x])]"

lemma announce_replies:
  assumes "wf_record (d_record st)" "no_nul rf" "length rf + 10 \<le> MAX_BUFFER_SIZE"
  obtains r where "reply cm AFTP_SEND_FILE (\<lambda>r. do {
      r \<leftarrow> asuiterecord_append r AFTP_FILESPEC (str_cells (drop (g_basename gl rf) rf)) (length rf + 1);
      asuiterecord_append_char r AFTP_DATA_TYPE x
    }) st = Some (sent cm (be16 AFTP_SEND_FILE @ params (announce_params gl rf x)) (st\<lparr>d_record := r\<rparr>))" "wf_record r"
proof (rule reply_ok [OF assms(1), where cm = cm and t = AFTP_SEND_FILE and bs = "params (announce_params gl rf x)"])
  fix r assume h: "holds r (map Some (be16 AFTP_SEND_FILE))"
  let ?b = "drop (g_basename gl rf) rf"
  have "no_nul ?b" using assms(2) by (auto simp: no_nul_def dest: in_set_dropD)
  then have "strncpy_src (str_cells ?b) (length rf + 1) = Some (pad_to (Suc (length rf)) ?b)" by simp
  from append_holds [OF h this, of AFTP_FILESPEC] assms(3) obtain q where
    q: "asuiterecord_append r AFTP_FILESPEC (str_cells ?b) (length rf + 1) = Some q"
    "holds q (map Some (be16 AFTP_SEND_FILE) @ map Some (tlv AFTP_FILESPEC (pad_to (Suc (length rf)) ?b)))" by auto
  from append_char_holds [OF q(2), of AFTP_DATA_TYPE x] q(1) assms(3)
  show "\<exists>r'. do { r \<leftarrow> asuiterecord_append r AFTP_FILESPEC (str_cells ?b) (length rf + 1);
        asuiterecord_append_char r AFTP_DATA_TYPE x } = Some r'
      \<and> holds r' (map Some (be16 AFTP_SEND_FILE @ params (announce_params gl rf x)))"
    by (auto simp: announce_params_def)
qed (use that in \<open>auto dest: holds_wf\<close>)

lemma request_file_sends:
  assumes "has_room kn" "no_nul rf" "no_nul lf" "length rf + 10 \<le> MAX_BUFFER_SIZE" "requested st t (request_params rf lf x)"
    and "sys_open kn (kern st) rf = (Inr fd, k)" "reads kn fd k cs k'"
  obtains st' where "a_request_file pipe kn gl st = Some (False, st')" "wf_record (d_record st')"
    "line st' = (fst (line st), snd (line st) @ [be16 AFTP_SEND_FILE @ params (announce_params gl rf x)]
      @ map (\<lambda>c. be16 AFTP_FILE_DATA @ c) cs @ [be16 AFTP_FILE_COMPLETE])"
    "kern st' = snd (sys_close kn k' fd)"
proof -
  let ?s0 = "st\<lparr>d_curpos := d_returned_length st, kern := k\<rparr>"
  have wf: "wf_record (d_record ?s0)" using assms(5) by (simp add: requested_def)
  have parse: "request_loop (request_file_body pipe kn) st (None, None, 0)
      = Some (False, st\<lparr>d_curpos := d_returned_length st\<rparr>, Some rf, Some lf, x)"
    using requested_loop [OF assms(5) stores_request_file [OF assms(1-3)], of pipe "(None, None, 0)"]
    by (simp add: request_params_def file_codes)
  from announce_replies [OF wf assms(2,4), of pipe gl x] obtain r1 where
    r1: "reply pipe AFTP_SEND_FILE (\<lambda>r. do {
      r \<leftarrow> asuiterecord_append r AFTP_FILESPEC (str_cells (drop (g_basename gl rf) rf)) (length rf + 1);
      asuiterecord_append_char r AFTP_DATA_TYPE x
    }) ?s0 = Some (sent pipe (be16 AFTP_SEND_FILE @ params (announce_params gl rf x)) (?s0\<lparr>d_record := r1\<rparr>))" "wf_record r1" .
  let ?s1 = "sent pipe (be16 AFTP_SEND_FILE @ params (announce_params gl rf x)) (?s0\<lparr>d_record := r1\<rparr>)"
  obtain r2 where r2: "asuiterecord_settype (asuiterecord_clear r1) AFTP_FILE_DATA = Some r2" "holds r2 (map Some (be16 AFTP_FILE_DATA))"
    using settype_holds [of "asuiterecord_clear r1" AFTP_FILE_DATA] r1(2) by (auto simp: asuiterecord_clear_def wf_record_def)
  let ?s2 = "?s1\<lparr>d_record := r2\<rparr>"
  obtain b s s3 where s3: "read_piece kn fd ?s2 = Some (b, s)" "send_pieces pipe kn fd b s = Some (False, s3)" "kern s3 = k'"
    "line s3 = (fst (line ?s2), snd (line ?s2) @ map (\<lambda>c. be16 AFTP_FILE_DATA @ c) cs)" "wf_record (d_record s3)"
    using send_pieces_sends [of kn fd ?s2 cs k' AFTP_FILE_DATA] assms(7) holds_contents [OF r2(2)] holds_wf [OF r2(2)]
    by (auto split: bind_splits)
  obtain r4 where r4: "asuiterecord_settype (asuiterecord_clear (d_record s3)) AFTP_FILE_COMPLETE = Some r4"
    "holds r4 (map Some (be16 AFTP_FILE_COMPLETE))"
    using settype_holds [of "asuiterecord_clear (d_record s3)" AFTP_FILE_COMPLETE] s3(5) by (auto simp: asuiterecord_clear_def wf_record_def)
  let ?s4 = "s3\<lparr>kern := snd (sys_close kn k' fd), d_record := r4\<rparr>"
  have "send_record pipe ?s4 = Some (0, sent pipe (be16 AFTP_FILE_COMPLETE) ?s4)"
    using send_record_any [of ?s4 "be16 AFTP_FILE_COMPLETE" pipe] holds_contents [OF r4(2)] by (cases "line s3") simp
  then have "a_request_file pipe kn gl st = Some (False, sent pipe (be16 AFTP_FILE_COMPLETE) ?s4)"
    using parse assms(6) r1(1) r2(1) s3(1-3) r4(1)
    by (cases "sys_close kn k' fd") (simp add: a_request_file_def AFTP_RC_OK_def)
  then show ?thesis
    using that holds_wf [OF r4(2)] s3(4) by (simp add: sent_pipe del: sent_simps(7))
qed

lemma serve_one_request_file:
  assumes "has_room kn" "no_nul rf" "no_nul lf" "length lf + length rf + 16 \<le> MAX_BUFFER_SIZE" "wf_record (d_record st)"
    and "line st = ((be16 AFTP_REQUEST_FILE @ params (request_params rf lf x)) # i, out)"
    and "sys_open kn (kern st) rf = (Inr fd, k)" "reads kn fd k cs k'"
  obtains st' where "serve_one pipe kn gl st = Some (Running, st')" "wf_record (d_record st')"
    "line st' = (i, out @ [be16 AFTP_SEND_FILE @ params (announce_params gl rf x)]
      @ map (\<lambda>c. be16 AFTP_FILE_DATA @ c) cs @ [be16 AFTP_FILE_COMPLETE])" "kern st' = snd (sys_close kn k' fd)"
proof -
  have sm: "small (request_params rf lf x)" "request_params rf lf x \<noteq> []"
    using assms(4) by (simp_all add: request_params_def MAX_BUFFER_SIZE_def)
  have "length (be16 AFTP_REQUEST_FILE @ params (request_params rf lf x)) \<le> MAX_BUFFER_SIZE"
    using assms(4) by (simp add: request_params_def)
  from serve_one_dispatches [OF assms(5,6) this, of kn gl] obtain r where
    r: "serve_one pipe kn gl st = dispatch pipe kn gl (ucast AFTP_REQUEST_FILE) (st\<lparr>line := (i, out), d_record := r,
        d_returned_length := 2 + length (params (request_params rf lf x)), d_curpos := 2\<rparr>)"
      "wf_record r" "contents r = Some (be16 AFTP_REQUEST_FILE @ params (request_params rf lf x))" .
  let ?st = "st\<lparr>line := (i, out), d_record := r, d_returned_length := 2 + length (params (request_params rf lf x)), d_curpos := 2\<rparr>"
  have req: "requested ?st AFTP_REQUEST_FILE (request_params rf lf x)" using r(2,3) sm by (simp add: requested_def)
  have "length rf + 10 \<le> MAX_BUFFER_SIZE" "sys_open kn (kern ?st) rf = (Inr fd, k)" using assms(4,7) by simp_all
  from request_file_sends [OF assms(1-3) this(1) req this(2) assms(8), of gl] obtain st' where
    st': "a_request_file pipe kn gl ?st = Some (False, st')" "wf_record (d_record st')"
    "line st' = (fst (line ?st), snd (line ?st) @ [be16 AFTP_SEND_FILE @ params (announce_params gl rf x)]
      @ map (\<lambda>c. be16 AFTP_FILE_DATA @ c) cs @ [be16 AFTP_FILE_COMPLETE])" "kern st' = snd (sys_close kn k' fd)" .
  have "serve_one pipe kn gl st = Some (Running, st')"
    using r(1) st'(1) by (simp add: dispatch_def request_codes)
  with st'(2-4) that show ?thesis by simp
qed

end
