(* ===== verification/Aftp_Conversation.thy ===== *)
theory Aftp_Conversation
  imports Aftp_Serving
begin

text \<open>
  The client library (\<^verbatim>\<open>libasuite/libaftp.c\<close>) and the server (\<^verbatim>\<open>asuite/aftpd.c\<close>) at the two ends of one
  conversation. What a call of the library does to the server's system is stated end to end.
\<close>

section \<open>The conversation\<close>

text \<open>
  The line as the client sees it: a record that is sent queues up at the server; to receive one, the
  server works off its queue and the first of its replies is taken. A server that faults or has
  nothing to say ends the conversation.
\<close>

definition linked :: "'k kernel \<Rightarrow> glib \<Rightarrow> (queues, 'k) aftpd cpic" where
  "linked kn gl = \<lparr>cmsend = \<lambda>sv cid m. (0, sv\<lparr>line := (fst (line sv) @ [m], snd (line sv))\<rparr>),
     cmrcv = \<lambda>sv cid n. (case pump kn gl (length (fst (line sv))) sv of
         None \<Rightarrow> (26, [], sv)
       | Some sv' \<Rightarrow> (case snd (line sv') of
           [] \<Rightarrow> (26, [], sv')
         | m # out \<Rightarrow> (0, m, sv'\<lparr>line := (fst (line sv'), out)\<rparr>))),
     cminit = \<lambda>w name. (0, [1], w), cmspln = \<lambda>w cid x. (0, w), cmsmn = \<lambda>w cid x. (0, w), cmstpn = \<lambda>w cid x. (0, w),
     cmallc = \<lambda>w cid. (0, w), cmdeal = \<lambda>w cid. (0, w)\<rparr>"

definition server_idle :: "(queues, 'k) aftpd \<Rightarrow> bool" where
  "server_idle sv \<longleftrightarrow> wf_record (d_record sv) \<and> line sv = ([], [])"

lemma linked_send: "cmsend (linked kn gl) sv cid m = (0, sv\<lparr>line := (fst (line sv) @ [m], snd (line sv))\<rparr>)"
  by (simp add: linked_def)

lemma linked_sends:
  "sends (linked kn gl) cid sv ms sv' \<longleftrightarrow> sv' = sv\<lparr>line := (fst (line sv) @ ms, snd (line sv))\<rparr>"
proof (induction ms arbitrary: sv)
  case (Cons m ms)
  then show ?case by (auto simp: linked_send)
qed auto

lemma linked_rcv:
  assumes "pump kn gl (length (fst (line sv))) sv = Some sv'" "line sv' = (i, m # out)"
  shows "cmrcv (linked kn gl) sv cid n = (0, m, sv'\<lparr>line := (i, out)\<rparr>)"
  using assms by (simp add: linked_def)

lemma linked_answers:
  assumes "has_room kn" "knows_cwd kn cwd" "valid q" "server_idle sv"
  obtains sv' where "answers (linked kn gl) cid (request_bytes q) (fst (perform kn cwd q (kern sv))) sv sv'" "server_idle sv'"
    "kern sv' = snd (perform kn cwd q (kern sv))"
proof -
  let ?sv = "sv\<lparr>line := ([request_bytes q], [])\<rparr>"
  have wf: "wf_record (d_record ?sv)" using assms(4) by (simp add: server_idle_def)
  obtain sv1 where sv1: "serve_one pipe kn gl ?sv = Some (Running, sv1)" "wf_record (d_record sv1)"
    "line sv1 = ([], [] @ [fst (perform kn cwd q (kern ?sv))])" "kern sv1 = snd (perform kn cwd q (kern ?sv))"
    by (rule serve_one_performs [OF assms(1-3) wf, of "[]" "[]" gl]) simp_all
  have "cmrcv (linked kn gl) ?sv cid MAX_BUFFER_SIZE = (0, fst (perform kn cwd q (kern sv)), sv1\<lparr>line := ([], [])\<rparr>)"
    by (rule linked_rcv) (use sv1(1,3) in simp_all)
  then have "answers (linked kn gl) cid (request_bytes q) (fst (perform kn cwd q (kern sv))) sv (sv1\<lparr>line := ([], [])\<rparr>)"
    using assms(4) by (auto simp: answers_def linked_send server_idle_def)
  then show ?thesis using that sv1(2,4) by (simp add: server_idle_def)
qed

section \<open>Directories\<close>

text \<open>What the client is told of the result of a system call of the server.\<close>

definition told :: "(int \<Rightarrow> u32) \<Rightarrow> int option \<Rightarrow> ftpsession \<Rightarrow> bool" where
  "told err rc s \<longleftrightarrow> (case rc of
     None \<Rightarrow> status s = Some 0
   | Some e \<Rightarrow> status s = Some 6 \<and> msg_category s = Some 0 \<and> msg_index s = Some (unat (ucast (err e) :: u16)))"

lemma told_status: "after_status (case rc of None \<Rightarrow> 0 | Some e \<Rightarrow> 6) 0 (case rc of None \<Rightarrow> 0 | Some e \<Rightarrow> err e) s s' \<Longrightarrow> told err rc s'"
  by (auto simp: told_def after_status_def split: option.splits if_splits)

lemma result_image_status:
  "result_image err rc = status_image (case rc of None \<Rightarrow> 0 | Some e \<Rightarrow> 6) 0 (case rc of None \<Rightarrow> 0 | Some e \<Rightarrow> err e)"
  by (simp add: result_image_def split: option.split)

text \<open>What \<^verbatim>\<open>aftp_remove_dir\<close> does over a line to the server, and the status it leaves in the session.\<close>

lemma remove_dir_over_line:
  assumes "ready st index cid s" "no_nul d" "length d + 6 \<le> MAX_BUFFER_SIZE"
    and "has_room kn" "knows_cwd kn cwd" "server_idle sv" "sys_rmdir kn (kern sv) d = (rc, k)"
  obtains sv' st' s' where "aftp_remove_dir (linked kn gl) index (str_cells d) (length d) sv st
        = Some (Some (if rc = None then AFTP_RC_OK else AFTP_RC_FAIL_FATAL), sv', st')"
    "kern sv' = k" "server_idle sv'" "live st' index = Some s'"
    "after_status (case rc of None \<Rightarrow> 0 | Some e \<Rightarrow> 6) 0 (case rc of None \<Rightarrow> 0 | Some e \<Rightarrow> remove_dir_error e) s s'"
proof -
  have "valid (Remove_Dir d)" using assms(2,3) by (simp add: valid_def request_bytes_def)
  from linked_answers [OF assms(4,5) this assms(6), of gl cid] obtain sv' where
    sv': "answers (linked kn gl) cid (request_bytes (Remove_Dir d)) (result_image remove_dir_error rc) sv sv'" "server_idle sv'" "kern sv' = k"
    using assms(7) by auto
  have "answers (linked kn gl) cid (be16 AFTP_REMOVE_DIR @ tlv AFTP_FILESPEC (d @ [0]))
      (status_image (case rc of None \<Rightarrow> 0 | Some e \<Rightarrow> 6) 0 (case rc of None \<Rightarrow> 0 | Some e \<Rightarrow> remove_dir_error e)) sv sv'"
    using sv'(1) by (simp add: request_bytes_def result_image_status)
  from remove_dir_reports_status [OF assms(1-3) this] sv'(2,3) that show thesis
    by (cases rc) auto
qed

text \<open>
  A directory is removed end to end: the client's \<^verbatim>\<open>aftp_remove_dir\<close> makes the server call \<^verbatim>\<open>rmdir\<close> exactly
  once, on the name the caller gave, and the caller is told how the call ended: success, or failure with
  the code the server gives the error number. The server is ready for the next request.
\<close>

theorem remove_dir_end_to_end:
  assumes "ready st index cid s" "no_nul d" "length d + 6 \<le> MAX_BUFFER_SIZE"
    and "has_room kn" "knows_cwd kn cwd" "server_idle sv" "sys_rmdir kn (kern sv) d = (rc, k)"
  shows "\<exists>sv' st' s'. aftp_remove_dir (linked kn gl) index (str_cells d) (length d) sv st
        = Some (Some (if rc = None then AFTP_RC_OK else AFTP_RC_FAIL_FATAL), sv', st')
    \<and> kern sv' = k \<and> server_idle sv' \<and> live st' index = Some s' \<and> told remove_dir_error rc s'"
  by (rule remove_dir_over_line [OF assms]) (blast intro: told_status)

definition with_dir :: "(queues, disk) aftpd" where
  "with_dir = (demo_server ([], []))\<lparr>kern := empty_disk\<lparr>tree := [[0x64] \<mapsto> []]\<rparr>\<rparr>"

lemma with_dir_idle: "server_idle with_dir" "server_idle (demo_server ([], []))"
  by (simp_all add: with_dir_def demo_server_def server_idle_def fresh_record(2))

theorem remove_dir_end_to_end_witness:
  "\<exists>sv' st'. aftp_remove_dir (linked small_system small_glib) 0 (str_cells [0x64]) 1 with_dir demo = Some (Some AFTP_RC_OK, sv', st')
    \<and> tree (kern sv') [0x64] = None"
  using remove_dir_end_to_end [OF demo_ready _ _ small_system_ok with_dir_idle(1), of "[0x64]" None
      "(kern with_dir)\<lparr>tree := (tree (kern with_dir))([0x64] := None)\<rparr>" small_glib]
  by (auto simp: MAX_BUFFER_SIZE_def small_system_def with_dir_def)

section \<open>Files\<close>

text \<open>
  A file is stored end to end: for a file of the client cut into pieces in any way, the call of the
  library makes the server create a file and write into it exactly the bytes of the client's file, however
  few bytes a single \<^verbatim>\<open>write\<close> of the server takes, and reports success. The name under which the server
  stores it is the first name of the call, the one the client has for its own file.
\<close>

theorem send_file_end_to_end:
  assumes "ready st index cid s" "default_sizes s" "no_nul lf" "no_nul rf" "length lf + length rf + 20 \<le> MAX_BUFFER_SIZE"
    and "pieces cs" "ends rest" "has_room kn" "server_idle sv"
    and "sys_creat kn (kern sv) lf = (Inr fd, k)" "file k = []" "writes_to kn fd file" "\<forall>k. sys_close kn k fd = (None, k)"
  shows "\<exists>sv' st'. aftp_send_file (linked kn gl) index (str_cells lf) (length lf) (str_cells rf) (length rf)
        (Some (map Some cs @ rest)) sv st = Some (Some AFTP_RC_OK, sv', st')
    \<and> file (kern sv') = concat cs \<and> server_idle sv'"
proof -
  let ?x = "of_nat (data_type s)" and ?y = "of_nat (date_mode s)"
  let ?ms = "file_records lf rf s cs"
  let ?sv = "sv\<lparr>line := (?ms, [])\<rparr>"
  have sv: "sends (linked kn gl) cid sv ?ms ?sv" using assms(9) by (simp add: linked_sends server_idle_def)
  have l: "line ?sv = ((be16 AFTP_SEND_FILE @ params (send_params lf rf ?x ?y)) # map (\<lambda>c. be16 AFTP_FILE_DATA @ c) cs
      @ [be16 AFTP_FILE_COMPLETE], [])"
    by (simp add: file_records_def send_image_def send_params_def)
  have "wf_record (d_record ?sv)" "sys_creat kn (kern ?sv) lf = (Inr fd, k)" using assms(9,10) by (simp_all add: server_idle_def)
  from pump_file [OF assms(8,3-6) this assms(11-13) l, of gl] obtain sv' where
    sv': "pump kn gl (length cs + 2) ?sv = Some sv'" "wf_record (d_record sv')" "line sv' = ([], [status_image 0 0 0])"
    "file (kern sv') = concat cs" by auto
  have "cmrcv (linked kn gl) ?sv cid MAX_BUFFER_SIZE = (0, status_image 0 0 0, sv'\<lparr>line := ([], [])\<rparr>)"
    by (rule linked_rcv) (use sv'(1,3) in \<open>simp_all add: file_records_def\<close>)
  from send_file_over [OF assms(1-5) sv this assms(6,7)] sv'(2,4) show ?thesis by (auto simp: server_idle_def)
qed

theorem send_file_end_to_end_witness:
  "\<exists>sv' st'. aftp_send_file (linked small_system small_glib) 0 (str_cells [0x61]) 1 (str_cells [0x62]) 1
      (Some [Some [1, 2, 3], Some [4], None]) (demo_server ([], [])) demo = Some (Some AFTP_RC_OK, sv', st')
    \<and> written (kern sv') = [1, 2, 3, 4]"
proof -
  have "default_sizes demo_session" by (simp add: default_sizes_def demo_session_def new_session_def)
  moreover have "writes_to small_system 4 written"
    by (auto simp: writes_to_def small_system_def min_def Suc_le_eq)
  moreover have "sys_creat small_system (kern (demo_server ([], []))) [0x61] = (Inr 4, empty_disk)"
    "\<forall>k. sys_close small_system k 4 = (None, k)" "written empty_disk = []"
    by (simp_all add: small_system_def demo_server_def empty_disk_def)
  ultimately show ?thesis
    using send_file_end_to_end [OF demo_ready _ _ _ _ _ _ small_system_ok(1) with_dir_idle(2), of "[0x61]" "[0x62]"
        "[[1, 2, 3], [4]]" "[None]" 4 empty_disk written small_glib]
    by (auto simp: MAX_BUFFER_SIZE_def ends_def)
qed

text \<open>Replies that are waiting are delivered one by one.\<close>

lemma linked_delivers: "line sv = ([], ms) \<Longrightarrow> delivers (linked kn gl) cid sv ms (sv\<lparr>line := ([], [])\<rparr>)"
proof (induction ms arbitrary: sv)
  case (Cons m ms)
  have "cmrcv (linked kn gl) sv cid MAX_BUFFER_SIZE = (0, m, sv\<lparr>line := ([], ms)\<rparr>)"
    by (rule linked_rcv) (use Cons.prems in simp_all)
  then show ?case using Cons.IH [of "sv\<lparr>line := ([], ms)\<rparr>"] by auto
next
  case Nil
  then have "sv = sv\<lparr>line := ([], [])\<rparr>" by (cases sv) simp
  then show ?case by simp
qed

lemma reads_pieces: "reads kn fd k cs k' \<Longrightarrow> \<forall>c \<in> set cs. length c \<le> MAX_BUFFER_SIZE - 2"
  by (induction cs arbitrary: k) auto

text \<open>
  A file is fetched end to end: the call of the library makes the server open the file with the remote
  name, and the bytes the server reads from it, however they are cut into pieces, are written to the local file in order; the call reports
  success whatever the writes return, and the server is ready for the next request.
\<close>

theorem receive_file_end_to_end:
  assumes "ready st index cid s" "block_size s = 0" "no_nul lf" "no_nul rf" "length lf + length rf + 16 \<le> MAX_BUFFER_SIZE"
    and "has_room kn" "server_idle sv" "sys_open kn (kern sv) rf = (Inr fd, k)" "reads kn fd k cs k'"
  shows "\<exists>sv' st'. aftp_receive_file (linked kn gl) index (str_cells lf) (length lf) (str_cells rf) (length rf) (Some old) sv st
      = Some (Some AFTP_RC_OK, (sv', Some (fold file_write cs old)), st')
    \<and> kern sv' = snd (sys_close kn k' fd) \<and> server_idle sv'"
proof -
  let ?x = "of_nat (data_type s)"
  let ?ps = "announce_params gl rf ?x"
  let ?sv = "sv\<lparr>line := ([request_image lf rf s], [])\<rparr>"
  have send: "cmsend (linked kn gl) sv cid (request_image lf rf s) = (0, ?sv)"
    using assms(7) by (simp add: linked_send server_idle_def)
  have l: "line ?sv = ((be16 AFTP_REQUEST_FILE @ params (request_params rf lf ?x)) # [], [])"
    by (simp add: request_image_def request_params_def)
  have sv: "wf_record (d_record ?sv)" "sys_open kn (kern ?sv) rf = (Inr fd, k)" using assms(7,8) by (simp_all add: server_idle_def)
  let ?data = "map (\<lambda>c. be16 AFTP_FILE_DATA @ c) cs @ [be16 AFTP_FILE_COMPLETE]"
  obtain sv' where sv': "serve_one pipe kn gl ?sv = Some (Running, sv')" "wf_record (d_record sv')"
    "line sv' = ([], [] @ [be16 AFTP_SEND_FILE @ params ?ps] @ ?data)" "kern sv' = snd (sys_close kn k' fd)"
    by (rule serve_one_request_file [OF assms(6,4,3,5) sv(1) l sv(2) assms(9)])
  have first: "cmrcv (linked kn gl) ?sv cid MAX_BUFFER_SIZE = (0, be16 AFTP_SEND_FILE @ params ?ps, sv'\<lparr>line := ([], ?data)\<rparr>)"
    by (rule linked_rcv) (use sv'(1,3) in simp_all)
  have del: "delivers (linked kn gl) cid ?sv ((be16 AFTP_SEND_FILE @ params ?ps) # ?data) (sv'\<lparr>line := ([], [])\<rparr>)"
    using first linked_delivers [of "sv'\<lparr>line := ([], ?data)\<rparr>" ?data kn gl cid] by auto
  have ps: "small ?ps" "?ps \<noteq> []" "length (params ?ps) \<le> MAX_BUFFER_SIZE - 2"
    using assms(5) by (simp_all add: announce_params_def MAX_BUFFER_SIZE_def)
  from receive_file_writes_pieces [OF assms(1-5) send del ps reads_pieces [OF assms(9)], of old] sv'(2,4) show ?thesis
    by (auto simp: server_idle_def)
qed

definition with_file :: "(queues, disk) aftpd" where
  "with_file = (demo_server ([], []))\<lparr>kern := empty_disk\<lparr>tree := [[0x62] \<mapsto> [5, 6, 7]]\<rparr>\<rparr>"

theorem receive_file_end_to_end_witness:
  "\<exists>sv' st'. aftp_receive_file (linked small_system small_glib) 0 (str_cells [0x61]) 1 (str_cells [0x62]) 1 (Some \<lparr>of_bytes = [9, 9, 9, 9, 9], of_at = 0, of_answers = []\<rparr>)
      with_file demo = Some (Some AFTP_RC_OK, (sv', Some \<lparr>of_bytes = [5, 6, 7, 9, 9], of_at = 3, of_answers = []\<rparr>), st')"
proof -
  have "block_size demo_session = 0" by (simp add: demo_session_def new_session_def)
  moreover have "server_idle with_file" by (simp add: with_file_def demo_server_def server_idle_def fresh_record(2))
  moreover have "sys_open small_system (kern with_file) [0x62] = (Inr 3, (kern with_file)\<lparr>unread := [5, 6, 7]\<rparr>)"
    "reads small_system 3 ((kern with_file)\<lparr>unread := [5, 6, 7]\<rparr>) [[5, 6], [7]] ((kern with_file)\<lparr>unread := []\<rparr>)"
    by (simp_all add: small_system_def with_file_def MAX_BUFFER_SIZE_def)
  ultimately show ?thesis
    using receive_file_end_to_end [OF demo_ready _ _ _ _ small_system_ok(1), of "[0x61]" "[0x62]" with_file 3
        "(kern with_file)\<lparr>unread := [5, 6, 7]\<rparr>" "[[5, 6], [7]]" "(kern with_file)\<lparr>unread := []\<rparr>" small_glib "\<lparr>of_bytes = [9, 9, 9, 9, 9], of_at = 0, of_answers = []\<rparr>"]
    by (auto simp: MAX_BUFFER_SIZE_def file_write_def write_at_def taken_of_def numeral_3_eq_3)
qed

section \<open>One conversation after the other\<close>

text \<open>
  Partners that call one after the other, each from the LU \<open>origin\<close>: a conversation can be accepted as long
  as there are records.
\<close>

definition callers :: "byte list \<Rightarrow> queues listener" where
  "callers origin = \<lparr>cmaccp = \<lambda>(i, out). (if i = [] then 1 else CM_OK, [1], (i, out)), cmepln = \<lambda>w cid. (origin, w)\<rparr>"

definition calls :: "request list list \<Rightarrow> byte list list" where
  "calls convs = concat (map (\<lambda>qs. map request_bytes qs @ [be16 AFTP_CLOSE]) convs)"

lemma calls_simps [simp]: "calls [] = []" "calls (qs # convs) = map request_bytes qs @ be16 AFTP_CLOSE # calls convs"
  by (simp_all add: calls_def)

lemma perform_all_append:
  "perform_all kn cwd (qs @ rs) k =
     (fst (perform_all kn cwd qs k) @ fst (perform_all kn cwd rs (snd (perform_all kn cwd qs k))),
      snd (perform_all kn cwd rs (snd (perform_all kn cwd qs k))))"
  by (induction qs arbitrary: k) (auto split: prod.split)

lemma callers_simps [simp]:
  "cmaccp (callers origin) (m # i, out) = (CM_OK, [1], (m # i, out))" "cmaccp (callers origin) ([], out) = (1, [1], ([], out))"
  "cmepln (callers origin) w cid = (origin, w)"
  by (simp_all add: callers_def)

lemma calls_Cons: "\<exists>m i. calls (qs # convs) = m # i"
  by (cases qs) auto

lemma conversation_loop_serves:
  assumes "has_room kn" "knows_cwd kn cwd" "length origin < MAX_FQPLU_NAME"
  shows "\<forall>qs \<in> set convs. \<forall>q \<in> set qs. valid q \<Longrightarrow> wf_record (d_record st) \<Longrightarrow> line st = (calls convs, out) \<Longrightarrow>
    \<exists>st'. conversation_loop (callers origin) pipe kn gl st = Some st'
      \<and> line st' = ([], out @ fst (perform_all kn cwd (concat convs) (kern st))) \<and> kern st' = snd (perform_all kn cwd (concat convs) (kern st))"
proof (induction convs arbitrary: st out)
  case Nil
  then show ?case by (subst conversation_loop.simps) (simp add: CM_OK_def)
next
  case (Cons qs convs)
  let ?st = "st\<lparr>d_record := asuiterecord_clear (d_record st), line := (calls (qs # convs), out), d_conv_id := [1],
      d_returned_length := length origin\<rparr>"
  have "wf_record (d_record ?st)" using Cons.prems(2) by (simp add: wf_record_def asuiterecord_clear_def)
  from serve_performs [OF assms(1,2) _ _ this, of qs "be16 AFTP_CLOSE # calls convs" out gl] Cons.prems(1) obtain st1 where
    st1: "serve pipe kn gl ?st = Some (Done, st1)" "wf_record (d_record st1)"
    "line st1 = (calls convs, out @ fst (perform_all kn cwd qs (kern st)))" "kern st1 = snd (perform_all kn cwd qs (kern st))"
    by (auto simp: closing_def)
  obtain m i where "calls (qs # convs) = m # i" using calls_Cons by blast
  then have "conversation_loop (callers origin) pipe kn gl st = conversation_loop (callers origin) pipe kn gl (st1\<lparr>line := line st1\<rparr>)"
    using st1(1) assms(3) Cons.prems(3) by (subst conversation_loop.simps) (simp del: calls_simps)
  then show ?case
    using Cons.IH [of "st1\<lparr>line := line st1\<rparr>" "out @ fst (perform_all kn cwd qs (kern st))"] Cons.prems(1) st1(2-4)
    by (auto simp: perform_all_append)
qed



end
