(* ===== verification/Sna_Utility.thy ===== *)
theory Sna_Utility
  imports Sna_Prelude
begin

text \<open>
  The conversions of the configuration program (\<^verbatim>\<open>snaconfig/sna_utility.c\<close>): network names, node identifiers and
  adapter addresses from and to text. A \<^verbatim>\<open>char\<close> array is the list of its characters; writing or reading outside
  it is a fault, \<^term>\<open>None\<close>.
\<close>

section \<open>Network names\<close>

abbreviation (input) NUL :: char where "NUL \<equiv> CHR 0x00"

text \<open>The two arrays have nine characters each (\<^verbatim>\<open>SNA_NETWORK_NAME_LEN\<close>, \<^verbatim>\<open>SNA_RESOURCE_NAME_LEN\<close>).\<close>

record sna_netid =
  net :: string
  nname :: string

definition toupper :: "char \<Rightarrow> char" where
  "toupper c = (let n = of_char c :: nat in if 97 \<le> n \<and> n \<le> 122 then char_of (n - 32) else c)"

definition strncpy_chars :: "string \<Rightarrow> nat \<Rightarrow> string" where
  "strncpy_chars src n = (let s = takeWhile (\<lambda>c. c \<noteq> NUL) (take n src) in s @ replicate (n - length s) NUL)"

text \<open>The result is the length and what was written.\<close>

definition sna_netid_to_char :: "sna_netid \<Rightarrow> nat \<times> string" where
  "sna_netid_to_char n =
     (let i = length (takeWhile (\<lambda>c. c \<noteq> CHR '' '') (take 8 (net n)));
          j = length (takeWhile (\<lambda>c. c \<noteq> CHR '' '') (take 8 (nname n)))
      in (i + 1 + j, strncpy_chars (net n) i @ ''.'' @ strncpy_chars (nname n) j @ [NUL]))"

text \<open>
  \<^verbatim>\<open>strcpy\<close> of a part into an array of nine characters that was cleared, \<^verbatim>\<open>toupper\<close> on the first eight, and blanks behind it.
\<close>

definition fill_name :: "string \<Rightarrow> string option" where
  "fill_name s = (if length s \<le> 8 then Some (map toupper s @ replicate (8 - length s) CHR '' '' @ [NUL]) else None)"

text \<open>\<^verbatim>\<open>strtok(c, ".")\<close> skips leading dots; without a token it is a null pointer.\<close>

definition strtok_dot :: "string \<Rightarrow> string option" where
  "strtok_dot c = (let r = dropWhile (\<lambda>x. x = CHR ''.'') c in if r = [] then None else Some (takeWhile (\<lambda>x. x \<noteq> CHR ''.'') r))"

definition sna_char_to_netid :: "string \<Rightarrow> sna_netid option" where
  "sna_char_to_netid b =
     (if length b \<ge> 40 then None
      else case dropWhile (\<lambda>x. x \<noteq> CHR ''.'') b of
        [] \<Rightarrow> None
      | dot # rest \<Rightarrow> do {
          nm \<leftarrow> fill_name rest;
          tok \<leftarrow> strtok_dot b;
          nt \<leftarrow> fill_name tok;
          Some \<lparr>net = nt, nname = nm\<rparr>
        })"

text \<open>The search for the first blank has no bound; it must find one in the array.\<close>

definition cut_blank :: "string \<Rightarrow> string option" where
  "cut_blank a = (if CHR '' '' \<in> set a then Some (takeWhile (\<lambda>c. c \<noteq> NUL) (takeWhile (\<lambda>c. c \<noteq> CHR '' '') a)) else None)"

definition sna_pr_netid :: "sna_netid \<Rightarrow> string option" where
  "sna_pr_netid n = do { a \<leftarrow> cut_blank (net n); b \<leftarrow> cut_blank (nname n); Some (a @ ''.'' @ b) }"

section \<open>Adapter addresses\<close>

abbreviation (input) ETH_ALEN :: nat where "ETH_ALEN \<equiv> 6"

definition sna_pr_ether :: "byte list \<Rightarrow> string option" where
  "sna_pr_ether ptr = do {
     b0 \<leftarrow> peek ptr 0; b1 \<leftarrow> peek ptr 1; b2 \<leftarrow> peek ptr 2; b3 \<leftarrow> peek ptr 3; b4 \<leftarrow> peek ptr 4; b5 \<leftarrow> peek ptr 5;
     let x = (\<lambda>b. hex_field 2 (unat b));
     Some (x b0 @ '':'' @ x b1 @ '':'' @ x b2 @ '':'' @ x b3 @ '':'' @ x b4 @ '':'' @ x b5)
   }"

definition hex_value :: "char \<Rightarrow> nat option" where
  "hex_value c = (let n = of_char c :: nat in
     if 48 \<le> n \<and> n \<le> 57 then Some (n - 48)
     else if 97 \<le> n \<and> n \<le> 102 then Some (n - 97 + 10)
     else if 65 \<le> n \<and> n \<le> 70 then Some (n - 65 + 10)
     else None)"

text \<open>A colon that is not required is skipped.\<close>

definition skip_colon :: "string \<Rightarrow> string" where
  "skip_colon s = (case s of [] \<Rightarrow> [] | c # r \<Rightarrow> if c = CHR '':'' then r else s)"

text \<open>
  The second digit of an octet, given the first: the value and the rest, from the second digit on. \<^term>\<open>None\<close>: the
  character is neither a digit nor a colon nor the end.
\<close>

definition second_digit :: "nat \<Rightarrow> string \<Rightarrow> (nat \<times> string) option" where
  "second_digit v s = (case s of
     [] \<Rightarrow> Some (v, [])
   | c # r \<Rightarrow> (case hex_value c of
         Some w \<Rightarrow> Some (v * 16 + w, r)
       | None \<Rightarrow> if c = CHR '':'' then Some (v, r) else None))"

function ether_loop :: "nat \<Rightarrow> string \<Rightarrow> byte list \<Rightarrow> (int \<times> byte list) option" where
  "ether_loop i bufp bmac =
     (if bufp = [] \<or> i \<ge> ETH_ALEN then Some (0, bmac)
      else case hex_value (hd bufp) of
        None \<Rightarrow> Some (- 1, bmac)
      | Some v \<Rightarrow> (case second_digit v (tl bufp) of
            None \<Rightarrow> Some (- 1, bmac)
          | Some (val, rest) \<Rightarrow> (case poke bmac i (of_nat val) of
                None \<Rightarrow> None
              | Some bmac \<Rightarrow> ether_loop (i + 1) (skip_colon rest) bmac)))"
  by pat_completeness auto

termination
  by (relation "measure (\<lambda>(i, bufp, bmac). ETH_ALEN - i)") auto

declare ether_loop.simps [simp del]

definition sna_char_to_ether :: "string \<Rightarrow> byte list \<Rightarrow> (int \<times> byte list) option" where
  "sna_char_to_ether bufp bmac = ether_loop 0 bufp bmac"

section \<open>Node identifiers\<close>

text \<open>\<^verbatim>\<open>strtol(s, NULL, 16)\<close>: a prefix \<^verbatim>\<open>0x\<close> is skipped when a digit follows it.\<close>

definition strtol16 :: "string \<Rightarrow> int" where
  "strtol16 s =
     (let (neg, r) = strtol_sign (dropWhile is_space s);
          r = (if 3 \<le> length r \<and> r ! 0 = CHR ''0'' \<and> (r ! 1 = CHR ''x'' \<or> r ! 1 = CHR ''X'') \<and> is_digit 16 (r ! 2) then drop 2 r else r);
          n = int (digits_val 16 (takeWhile (is_digit 16) r))
      in clamp_long (if neg then - n else n))"

definition sna_char_to_nodeid :: "string \<Rightarrow> 64 word option" where
  "sna_char_to_nodeid c = (if length c \<ge> 40 then None else Some (word_of_int (strtol16 c)))"

definition xid_get_block_num :: "64 word \<Rightarrow> u32" where
  "xid_get_block_num nodeid = drop_bit 20 (ucast nodeid) AND 0xFFF"

definition xid_get_pu_num :: "64 word \<Rightarrow> u32" where
  "xid_get_pu_num nodeid = ucast nodeid AND 0xFFFFF"

definition sna_pr_nodeid :: "64 word \<Rightarrow> string" where
  "sna_pr_nodeid nodeid = hex_field 3 (unat (xid_get_block_num nodeid)) @ ''.'' @ hex_field 5 (unat (xid_get_pu_num nodeid))"

section \<open>Bit order\<close>

definition rbits :: "byte list" where
  "rbits = [0x00, 0x08, 0x04, 0x0C, 0x02, 0x0A, 0x06, 0x0E, 0x01, 0x09, 0x05, 0x0D, 0x03, 0x0B, 0x07, 0x0F]"

definition flip_nibble :: "byte \<Rightarrow> byte" where
  "flip_nibble v = rbits ! unat (v AND 0x0F)"

definition nibble :: "byte \<Rightarrow> nat \<Rightarrow> byte" where
  "nibble v w = drop_bit (w * 4) v AND 0x0F"

definition flip_byte :: "byte \<Rightarrow> byte" where
  "flip_byte v = push_bit 4 (flip_nibble (nibble v 0)) OR flip_nibble (nibble v 1)"

section \<open>Properties\<close>

text \<open>A part of a network name as it is used: one to eight characters, none of them small, a blank or a dot.\<close>

definition name_part :: "string \<Rightarrow> bool" where
  "name_part s \<longleftrightarrow> s \<noteq> [] \<and> length s \<le> 8 \<and> (\<forall>c \<in> set s. toupper c = c \<and> c \<noteq> CHR ''.'' \<and> c \<noteq> CHR '' '' \<and> c \<noteq> NUL)"

lemma fill_name_part: "name_part s \<Longrightarrow> fill_name s = Some (s @ replicate (8 - length s) CHR '' '' @ [NUL])"
  by (simp add: name_part_def fill_name_def map_idI)

lemma scan_part:
  assumes "name_part s"
  shows "takeWhile (\<lambda>c. c \<noteq> CHR '' '') (take 8 (s @ replicate (8 - length s) CHR '' '' @ [NUL])) = s"
proof -
  have "take 8 (s @ replicate (8 - length s) CHR '' '' @ [NUL]) = s @ replicate (8 - length s) CHR '' ''"
    using assms by (simp add: name_part_def)
  moreover have "takeWhile (\<lambda>c. c \<noteq> CHR '' '') s = s" using assms by (simp add: name_part_def takeWhile_id)
  ultimately show ?thesis using assms by (cases "8 - length s") (simp_all add: name_part_def takeWhile_append)
qed

lemma strncpy_part: "name_part s \<Longrightarrow> strncpy_chars (s @ r) (length s) = s"
  by (simp add: strncpy_chars_def name_part_def takeWhile_id Let_def)

lemma cut_part:
  assumes "name_part s"
  shows "cut_blank (s @ replicate (8 - length s) CHR '' '' @ [NUL]) = (if length s < 8 then Some s else None)"
proof (cases "length s < 8")
  case True
  then obtain k where "8 - length s = Suc k" by (metis Suc_diff_Suc)
  moreover have "takeWhile (\<lambda>c. c \<noteq> CHR '' '') s = s" "takeWhile (\<lambda>c. c \<noteq> NUL) s = s"
    using assms by (simp_all add: name_part_def takeWhile_id)
  ultimately show ?thesis using True assms by (simp add: cut_blank_def name_part_def takeWhile_append)
next
  case False
  then show ?thesis using assms by (auto simp: cut_blank_def name_part_def)
qed

text \<open>A part as it is stored, padded with blanks.\<close>

definition padded :: "string \<Rightarrow> string" where
  "padded s = s @ replicate (8 - length s) CHR '' '' @ [NUL]"

lemma netid_read:
  assumes "name_part a" "name_part b"
  shows "sna_char_to_netid (a @ ''.'' @ b) = Some \<lparr>net = padded a, nname = padded b\<rparr>"
proof -
  obtain c a' where a: "a = c # a'" using assms(1) by (cases a) (auto simp: name_part_def)
  have dots: "c \<noteq> CHR ''.''" "\<forall>x \<in> set a. x \<noteq> CHR ''.''" using assms(1) a by (auto simp: name_part_def)
  have "dropWhile (\<lambda>x. x \<noteq> CHR ''.'') (a @ ''.'' @ b) = ''.'' @ b" "takeWhile (\<lambda>x. x \<noteq> CHR ''.'') (a @ ''.'' @ b) = a"
    using dots(2) by (simp_all add: dropWhile_append takeWhile_append takeWhile_id)
  moreover have "length (a @ ''.'' @ b) < 40" using assms by (simp add: name_part_def)
  moreover have "strtok_dot (a @ ''.'' @ b) = Some (takeWhile (\<lambda>x. x \<noteq> CHR ''.'') (a @ ''.'' @ b))" using dots(1) a by (simp add: strtok_dot_def)
  ultimately show ?thesis
    using fill_name_part [OF assms(1)] fill_name_part [OF assms(2)] by (simp add: sna_char_to_netid_def padded_def)
qed

text \<open>
  Network names survive the way in and out: a name of two parts that is read is written by \<^verbatim>\<open>sna_netid_to_char\<close> as it was. The
  printer \<^verbatim>\<open>sna_pr_netid\<close> gives it back only if both parts are shorter than eight characters; with a part of the
  full length, which the format allows, its search for a blank leaves the array.
\<close>

theorem netid_round_trip:
  assumes "name_part a" "name_part b"
  shows "\<exists>n. sna_char_to_netid (a @ ''.'' @ b) = Some n \<and> sna_netid_to_char n = (length (a @ ''.'' @ b), a @ ''.'' @ b @ [NUL])
    \<and> sna_pr_netid n = (if length a < 8 \<and> length b < 8 then Some (a @ ''.'' @ b) else None)"
  using netid_read [OF assms] scan_part [OF assms(1)] scan_part [OF assms(2)] strncpy_part [OF assms(1)] strncpy_part [OF assms(2)]
    cut_part [OF assms(1)] cut_part [OF assms(2)]
  by (simp add: sna_netid_to_char_def sna_pr_netid_def Let_def padded_def)

theorem netid_round_trip_witness:
  "\<exists>n. sna_char_to_netid ''LNXSNA.NODE1'' = Some n \<and> sna_netid_to_char n = (12, ''LNXSNA.NODE1'' @ [NUL]) \<and> sna_pr_netid n = Some ''LNXSNA.NODE1''"
  using netid_round_trip [of "''LNXSNA''" "''NODE1''"] by (simp add: name_part_def toupper_def Let_def eval_nat_numeral)

text \<open>The two digits of an octet.\<close>

lemma hex_value_digit: "n < 16 \<Longrightarrow> hex_value (''0123456789ABCDEF'' ! n) = Some n"
proof -
  have "list_all (\<lambda>n. hex_value (''0123456789ABCDEF'' ! n) = Some n) [0..<16]" by code_simp
  then show "n < 16 \<Longrightarrow> hex_value (''0123456789ABCDEF'' ! n) = Some n" by (simp add: list_all_iff)
qed

lemma octet_field: "hex_field 2 (unat (b :: byte)) = [''0123456789ABCDEF'' ! (unat b div 16), ''0123456789ABCDEF'' ! (unat b mod 16)]"
proof -
  have "unat b < 256" using unsigned_less [of b, where ?'a = nat] by simp
  then show ?thesis using hex_field_fixed [of "unat b" 2] by (simp add: numeral_2_eq_2)
qed

lemma ether_octet:
  assumes "i < 6" "i < length bmac"
  shows "ether_loop i (hex_field 2 (unat b) @ rest) bmac = ether_loop (i + 1) (skip_colon rest) (bmac[i := b])"
proof -
  have "unat b < 256" using unsigned_less [of b, where ?'a = nat] by simp
  then have v: "hex_value (''0123456789ABCDEF'' ! (unat b div 16)) = Some (unat b div 16)" "hex_value (''0123456789ABCDEF'' ! (unat b mod 16)) = Some (unat b mod 16)"
    by (simp_all add: hex_value_digit)
  have "second_digit (unat b div 16) (''0123456789ABCDEF'' ! (unat b mod 16) # rest) = Some (unat b, rest)"
    unfolding second_digit_def by (simp only: list.case v option.case) (simp add: div_mult_mod_eq)
  then show ?thesis using assms v(1) unfolding octet_field
    by (subst ether_loop.simps) (simp add: poke_def)
qed

lemma ether_read:
  assumes "length mac = 6" "6 \<le> length bmac"
  shows "\<exists>t. sna_pr_ether mac = Some t \<and> sna_char_to_ether t bmac = Some (0, mac @ drop 6 bmac)"
proof -
  obtain b0 b1 b2 b3 b4 b5 where m: "mac = [b0, b1, b2, b3, b4, b5]"
    using assms(1) by (auto simp: length_Suc_conv eval_nat_numeral)
  obtain c0 c1 c2 c3 c4 c5 r where c: "bmac = c0 # c1 # c2 # c3 # c4 # c5 # r"
    using assms(2) by (auto simp: Suc_le_length_iff eval_nat_numeral)
  let ?x = "\<lambda>b :: byte. hex_field 2 (unat b)"
  let ?t = "?x b0 @ '':'' @ ?x b1 @ '':'' @ ?x b2 @ '':'' @ ?x b3 @ '':'' @ ?x b4 @ '':'' @ ?x b5 @ []"
  have colon: "skip_colon (CHR '':'' # s) = s" for s by (simp add: skip_colon_def)
  have "ether_loop 0 ?t bmac = Some (0, b0 # b1 # b2 # b3 # b4 # b5 # r)"
    unfolding c by (simp add: ether_octet colon del: append_Nil2) (simp add: ether_loop.simps skip_colon_def)
  then show ?thesis using m c by (simp add: sna_pr_ether_def peek_def sna_char_to_ether_def)
qed

text \<open>
  Adapter addresses survive printing: what \<^verbatim>\<open>sna_pr_ether\<close> prints for six octets is read back by \<^verbatim>\<open>sna_char_to_ether\<close> into the same
  octets, at the start of an array that has room for them.
\<close>

theorem ether_round_trip:
  assumes "length mac = 6" "6 \<le> length bmac"
  shows "\<exists>t. sna_pr_ether mac = Some t \<and> sna_char_to_ether t bmac = Some (0, mac @ drop 6 bmac)"
  by (rule ether_read [OF assms])

theorem ether_round_trip_witness:
  "\<exists>t. sna_pr_ether [0x40, 0x00, 0x0A, 0xFF, 0x01, 0x9C] = Some t \<and> sna_char_to_ether t [0, 0, 0, 0, 0, 0, 7] = Some (0, [0x40, 0x00, 0x0A, 0xFF, 0x01, 0x9C, 7])"
  using ether_round_trip [of "[0x40, 0x00, 0x0A, 0xFF, 0x01, 0x9C]" "[0, 0, 0, 0, 0, 0, 7]"] by simp

lemma hex_fixed_add: "hex_fixed (j + k) n = hex_fixed j (n div 16 ^ k) @ hex_fixed k n"
  by (induction k arbitrary: n) (simp_all add: div_mult2_eq)

lemma hex_fixed_mod: "hex_fixed k (n mod 16 ^ k) = hex_fixed k n"
proof (induction k arbitrary: n)
  case (Suc k)
  have "n mod 16 ^ Suc k = 16 * (n div 16 mod 16 ^ k) + n mod 16" by (simp add: mod_mult2_eq)
  then have "n mod 16 ^ Suc k div 16 = n div 16 mod 16 ^ k" "n mod 16 ^ Suc k mod 16 = n mod 16" by simp_all
  with Suc [of "n div 16"] show ?case by simp
qed simp

lemma digit_chars: "n < 16 \<Longrightarrow> digit_val (''0123456789ABCDEF'' ! n) = Some n \<and> \<not> is_space (''0123456789ABCDEF'' ! n)
    \<and> ''0123456789ABCDEF'' ! n \<notin> {CHR ''-'', CHR ''+'', CHR ''x'', CHR ''X''}"
proof -
  have "list_all (\<lambda>n. digit_val (''0123456789ABCDEF'' ! n) = Some n \<and> \<not> is_space (''0123456789ABCDEF'' ! n)
    \<and> ''0123456789ABCDEF'' ! n \<notin> {CHR ''-'', CHR ''+'', CHR ''x'', CHR ''X''}) [0..<16]" by code_simp
  then show "n < 16 \<Longrightarrow> digit_val (''0123456789ABCDEF'' ! n) = Some n \<and> \<not> is_space (''0123456789ABCDEF'' ! n)
    \<and> ''0123456789ABCDEF'' ! n \<notin> {CHR ''-'', CHR ''+'', CHR ''x'', CHR ''X''}" by (simp only: list_all_iff) auto
qed

lemma hex_fixed_chars: "c \<in> set (hex_fixed k n) \<Longrightarrow> is_digit 16 c \<and> \<not> is_space c \<and> c \<notin> {CHR ''-'', CHR ''+'', CHR ''x'', CHR ''X''}"
proof (induction k arbitrary: n)
  case (Suc k)
  then show ?case using digit_chars [of "n mod 16"] by (auto simp: is_digit_def simp del: nth_Cons_0 nth_Cons_Suc)
qed simp

lemma digits_val_hex_fixed: "n < 16 ^ k \<Longrightarrow> digits_val 16 (hex_fixed k n) = n"
proof (induction k arbitrary: n)
  case (Suc k)
  then have "digits_val 16 (hex_fixed k (n div 16)) = n div 16" by (simp add: less_mult_imp_div_less mult.commute)
  then show ?case using digit_chars [of "n mod 16"] by (simp add: digits_val_def)
qed (simp add: digits_val_def)

lemma strtol16_hex_fixed:
  assumes "n < 16 ^ k" "k \<le> 8" "0 < k"
  shows "strtol16 (hex_fixed k n) = int n"
proof -
  let ?s = "hex_fixed k n"
  have ne: "?s \<noteq> []" using assms(3) by (metis length_hex_fixed list.size(3) less_irrefl)
  have hd: "hd ?s \<in> set ?s" using ne by simp
  have "dropWhile is_space ?s = ?s" using hd hex_fixed_chars ne by (metis dropWhile_eq_self_iff)
  moreover have "strtol_sign ?s = (False, ?s)" using hd hex_fixed_chars [of "hd ?s" k n] ne by (cases ?s) (auto simp: strtol_sign_def)
  moreover have "\<not> (?s ! 1 = CHR ''x'' \<or> ?s ! 1 = CHR ''X'')" if "3 \<le> length ?s"
    using that hex_fixed_chars [of "?s ! 1" k n] nth_mem [of 1 ?s] by auto
  moreover have "int n < 2 ^ 63"
  proof -
    have "n < 16 ^ 8" using assms(1,2) by (meson less_le_trans one_le_numeral power_increasing)
    then show ?thesis by simp
  qed
  moreover have all: "takeWhile (is_digit 16) ?s = ?s" using hex_fixed_chars by (simp add: takeWhile_id)
  ultimately show ?thesis using digits_val_hex_fixed [OF assms(1)] by (auto simp: strtol16_def clamp_long_def Let_def all)
qed

lemma and_low_bits: "w AND 0xFFF = take_bit 12 (w :: u32)" "w AND 0xFFFFF = take_bit 20 (w :: u32)"
  by (simp_all add: take_bit_eq_mask mask_eq_exp_minus_1)

lemma nodeid_read: "n < 2 ^ 32 \<Longrightarrow> sna_char_to_nodeid (hex_field 8 n) = Some (word_of_nat n)"
  using strtol16_hex_fixed [of n 8] by (simp add: sna_char_to_nodeid_def hex_field_fixed)

text \<open>
  A node identifier given as eight digits is shown as its block number, three digits, a dot, and its unit number, five digits: no
  digit is lost between reading and printing.
\<close>

theorem nodeid_shows_digits:
  assumes "n < 2 ^ 32"
  shows "\<exists>w. sna_char_to_nodeid (hex_field 8 n) = Some w \<and> sna_pr_nodeid w = take 3 (hex_field 8 n) @ ''.'' @ drop 3 (hex_field 8 n)"
proof -
  have n: "n < 16 ^ 8" using assms by simp
  then have f: "hex_field 8 n = hex_fixed 8 n" by (simp add: hex_field_fixed)
  have "(8 :: nat) = 3 + 5" by simp
  then have split: "hex_fixed 8 n = hex_fixed 3 (n div 16 ^ 5) @ hex_fixed 5 n" by (metis hex_fixed_add)
  have w: "sna_char_to_nodeid (hex_field 8 n) = Some (word_of_nat n)"
    by (rule nodeid_read [OF assms])
  have u: "unat (ucast (word_of_nat n :: 64 word) :: u32) = n"
    using assms by (simp add: unsigned_ucast_eq unsigned_of_nat take_bit_nat_eq_self)
  have "unat (xid_get_block_num (word_of_nat n)) = n div 16 ^ 5" "unat (xid_get_pu_num (word_of_nat n)) = n mod 16 ^ 5"
    using u assms by (simp_all add: xid_get_block_num_def xid_get_pu_num_def and_low_bits unsigned_take_bit_eq unsigned_drop_bit_eq
        take_bit_eq_mod [where ?'a = nat] drop_bit_eq_div [where ?'a = nat] less_mult_imp_div_less)
  moreover have "n div 16 ^ 5 < 16 ^ 3" using n by (simp add: less_mult_imp_div_less)
  moreover have "n mod 16 ^ 5 < 16 ^ 5" by simp
  ultimately have "sna_pr_nodeid (word_of_nat n) = hex_fixed 3 (n div 16 ^ 5) @ ''.'' @ hex_fixed 5 n"
    using hex_fixed_mod [of 5 n] by (simp only: sna_pr_nodeid_def) (simp add: hex_field_fixed)
  then show ?thesis using w f split by simp
qed

theorem nodeid_shows_digits_witness:
  "\<exists>w. sna_char_to_nodeid ''0000001A'' = Some w \<and> sna_pr_nodeid w = ''000.0001A''"
proof -
  have "hex_field 8 0x1A = ''0000001A''" by code_simp
  then show ?thesis using nodeid_shows_digits [of "0x1A"] by simp
qed

lemma flip_nibble_bits: "bit (flip_nibble x) i = (i < 4 \<and> bit x (3 - i))"
proof -
  let ?P = "\<lambda>y. list_all (\<lambda>i. bit (flip_nibble y) i = (i < 4 \<and> bit y (3 - i))) [0..<8]"
  have "list_all (\<lambda>n. ?P (word_of_nat n)) [0..<16]" by code_simp
  then have "\<forall>n \<in> set [0..<16]. ?P (word_of_nat n)" by (simp only: list_all_iff)
  moreover have low: "x AND 0x0F = take_bit 4 x" by (simp add: take_bit_eq_mask mask_eq_exp_minus_1)
  then have "unat (x AND 0x0F) \<in> set [0..<16]" by (simp add: unsigned_take_bit_eq take_bit_eq_mod [where ?'a = nat])
  ultimately have "?P (word_of_nat (unat (x AND 0x0F)))" by (rule bspec)
  then have "\<forall>i < 8. bit (flip_nibble (x AND 0x0F)) i = (i < 4 \<and> bit (x AND 0x0F) (3 - i))" by (simp add: list_all_iff)
  moreover have "flip_nibble (x AND 0x0F) = flip_nibble x" by (simp add: flip_nibble_def ac_simps)
  moreover have "bit (x AND 0x0F) (3 - i) = bit x (3 - i)" if "i < 4" using that by (auto simp: low bit_simps)
  moreover have "\<not> bit (flip_nibble x) i" if "8 \<le> i" using that bit_imp_le_length [of "flip_nibble x" i] by auto
  ultimately show ?thesis by (cases "i < 8") auto
qed

lemma nibble_bits: "bit (nibble v w) i = (i < 4 \<and> bit v (w * 4 + i))"
proof -
  have "nibble v w = take_bit 4 (drop_bit (w * 4) v)" by (simp add: nibble_def take_bit_eq_mask mask_eq_exp_minus_1)
  then show ?thesis by (simp add: bit_simps)
qed

lemma flip_byte_bits: "i < 8 \<Longrightarrow> bit (flip_byte v) i = bit v (7 - i)"
proof -
  assume "i < 8"
  then have "i \<in> {0, 1, 2, 3, 4, 5, 6, 7}" by (simp, arith)
  then show ?thesis by (elim insertE) (simp_all add: flip_byte_def bit_or_iff bit_push_bit_iff flip_nibble_bits nibble_bits numeral_2_eq_2)
qed

text \<open>
  \<^verbatim>\<open>flip_byte\<close> reverses the order of the bits of an octet, so applying it twice changes nothing.
\<close>

theorem flip_byte_reverses: "(\<forall>i < 8. bit (flip_byte v) i = bit v (7 - i)) \<and> flip_byte (flip_byte v) = v"
proof -
  have "flip_byte (flip_byte v) = v" by (rule bit_word_eqI) (simp add: flip_byte_bits)
  then show ?thesis by (simp add: flip_byte_bits)
qed

end
