(* ===== verification/Sna_Xml.thy ===== *)
theory Sna_Xml
  imports Sna_Utility
begin

text \<open>
  The words and values of the XML configuration (\<^verbatim>\<open>snaconfig/sna_xwords.c\<close>, \<^verbatim>\<open>tn3270d/tn3270_xwords.c\<close>,
  \<^verbatim>\<open>snatchd/snatch_xwords.c\<close>). The XML library is not part of the sources: the functions of it that are called are the
  fields of a record that every reader takes as an argument, and a document is the tree that the readers walk.
\<close>

section \<open>Documents\<close>

text \<open>
  The members of \<^verbatim>\<open>xmlNode\<close> the readers use. A name space is known by its identity; the siblings of a node are the rest
  of the list it is in.
\<close>

datatype xml_node = Xml (xml_ns: "nat option") (xml_name: string) (xml_content: string) (xml_children: "xml_node list")

type_synonym xml_doc = "xml_node option"

record libxml =
  xmlParseFile :: "string \<Rightarrow> xml_doc option"
  xmlSearchNsByHref :: "xml_node \<Rightarrow> string \<Rightarrow> nat option"
  xmlIsBlankNode :: "xml_node \<Rightarrow> bool"
  xmlNodeListGetString :: "xml_node list \<Rightarrow> string option"

text \<open>The text of a node; a null pointer is dereferenced by every caller, so it is a fault here.\<close>

definition node_text :: "libxml \<Rightarrow> xml_node \<Rightarrow> string option" where
  "node_text lx cur = xmlNodeListGetString lx (xml_children cur)"

text \<open>\<^verbatim>\<open>for (cur = cur->xmlChildrenNode; cur != NULL; cur = cur->next)\<close> with a body that may fault.\<close>

fun fold_nodes :: "(xml_node \<Rightarrow> 'a \<Rightarrow> 'a option) \<Rightarrow> xml_node list \<Rightarrow> 'a \<Rightarrow> 'a option" where
  "fold_nodes f [] x = Some x"
| "fold_nodes f (cur # rest) x = do { x \<leftarrow> f cur x; fold_nodes f rest x }"

text \<open>One \<^verbatim>\<open>if\<close> of such a body.\<close>

definition set_if :: "bool \<Rightarrow> 'a option \<Rightarrow> 'a \<Rightarrow> 'a option" where
  "set_if b y x = (if b then y else Some x)"

lemma set_if_simps [simp]: "set_if True y x = y" "set_if False y x = Some x"
  by (simp_all add: set_if_def)

lemma fold_nodes_append: "fold_nodes f (xs @ ys) x = do { x \<leftarrow> fold_nodes f xs x; fold_nodes f ys x }"
  by (induction xs arbitrary: x) (simp_all split: Option.bind_split)

section \<open>Words\<close>

text \<open>A table is the list of its entries; the word of the last one may be a null pointer. Reading behind it is a fault.\<close>

type_synonym wordmap = "string option \<times> int"

definition on_types :: "wordmap list" where
  "on_types = [(Some ''off'', 0), (Some ''on'', 1), (None, - 1)]"

definition security_types :: "wordmap list" where
  "security_types = [(Some ''none'', 0)]"

definition lu_types :: "wordmap list" where
  "lu_types = [(Some ''local'', 0), (Some ''remote'', 1)]"

definition tx_types :: "wordmap list" where
  "tx_types = [(Some ''low'', 0), (Some ''medium'', 1), (Some ''high'', 2), (Some ''network'', 3), (None, - 1)]"

definition node_types :: "wordmap list" where
  "node_types = [(Some ''nn'', 3), (Some ''appn'', 2), (Some ''len'', 1)]"

definition role_types :: "wordmap list" where
  "role_types = [(Some ''neg'', 3), (Some ''pri'', 1), (Some ''sec'', 0)]"

definition direction_types :: "wordmap list" where
  "direction_types = [(Some ''in'', 1), (Some ''out'', 2), (Some ''both'', 0)]"

definition conversation_types :: "wordmap list" where
  "conversation_types = [(Some ''either'', 0), (Some ''basic'', 1), (Some ''mapped'', 2), (None, - 1)]"

definition sync_levels :: "wordmap list" where
  "sync_levels = [(Some ''any'', 0), (Some ''none'', 1), (Some ''confirm'', 2), (None, - 1)]"

lemmas word_tables = on_types_def security_types_def lu_types_def tx_types_def node_types_def role_types_def direction_types_def
  conversation_types_def sync_levels_def

fun map_word :: "wordmap list \<Rightarrow> string \<Rightarrow> int option" where
  "map_word [] word = None"
| "map_word ((None, v) # wm) word = Some (- 1)"
| "map_word ((Some w, v) # wm) word = (if w = word then Some v else map_word wm word)"

text \<open>The inner value is a null pointer when no word has the value.\<close>

fun xword_pr_word :: "wordmap list \<Rightarrow> int \<Rightarrow> string option option" where
  "xword_pr_word [] v = None"
| "xword_pr_word ((None, x) # wm) v = Some None"
| "xword_pr_word ((Some w, x) # wm) v = (if x = v then Some (Some w) else xword_pr_word wm v)"

text \<open>\<^verbatim>\<open>memcmp\<close> of two blocks of the same size, by the sign of its result.\<close>

fun memcmp :: "string \<Rightarrow> string \<Rightarrow> int" where
  "memcmp (a # as) (b # bs) = (if a = b then memcmp as bs else if (of_char a :: nat) < of_char b then - 1 else 1)"
| "memcmp _ _ = 0"

definition matches :: "string \<Rightarrow> string \<Rightarrow> int" where
  "matches cmd pattern = (if length cmd > length pattern then - 1 else memcmp (take (length cmd) pattern) cmd)"

section \<open>Values\<close>

definition xword_word :: "wordmap list \<Rightarrow> libxml \<Rightarrow> xml_node \<Rightarrow> int option" where
  "xword_word wm lx cur = node_text lx cur \<bind> map_word wm"

definition xword_direction_types :: "libxml \<Rightarrow> xml_node \<Rightarrow> int option" where "xword_direction_types = xword_word direction_types"
definition xword_role_types :: "libxml \<Rightarrow> xml_node \<Rightarrow> int option" where "xword_role_types = xword_word role_types"
definition xword_node_types :: "libxml \<Rightarrow> xml_node \<Rightarrow> int option" where "xword_node_types = xword_word node_types"
definition xword_tx_types :: "libxml \<Rightarrow> xml_node \<Rightarrow> int option" where "xword_tx_types = xword_word tx_types"
definition xword_lu_types :: "libxml \<Rightarrow> xml_node \<Rightarrow> int option" where "xword_lu_types = xword_word lu_types"
definition xword_security :: "libxml \<Rightarrow> xml_node \<Rightarrow> int option" where "xword_security = xword_word security_types"
definition xword_on_off :: "libxml \<Rightarrow> xml_node \<Rightarrow> int option" where "xword_on_off = xword_word on_types"
definition xword_conversation_type :: "libxml \<Rightarrow> xml_node \<Rightarrow> int option" where "xword_conversation_type = xword_word conversation_types"
definition xword_sync_level :: "libxml \<Rightarrow> xml_node \<Rightarrow> int option" where "xword_sync_level = xword_word sync_levels"

lemmas xword_words = xword_direction_types_def xword_role_types_def xword_node_types_def xword_tx_types_def xword_lu_types_def
  xword_security_def xword_on_off_def xword_conversation_type_def xword_sync_level_def

definition xword_int :: "libxml \<Rightarrow> xml_node \<Rightarrow> int option" where
  "xword_int lx cur = map_option atoi (node_text lx cur)"

text \<open>The array that is written, which keeps what is behind the terminator.\<close>

definition xword_strcpy :: "libxml \<Rightarrow> xml_node \<Rightarrow> string \<Rightarrow> string option" where
  "xword_strcpy lx cur dst = do { src \<leftarrow> node_text lx cur; poke_block dst 0 (src @ [NUL]) }"

definition xword_strcpy_toupper :: "libxml \<Rightarrow> xml_node \<Rightarrow> string \<Rightarrow> string option" where
  "xword_strcpy_toupper lx cur dst = do {
     src \<leftarrow> node_text lx cur;
     dst \<leftarrow> poke_block dst 0 (src @ [NUL]);
     Some (map toupper (take (length src) dst) @ drop (length src) dst)
   }"

definition xword_lsap :: "libxml \<Rightarrow> xml_node \<Rightarrow> byte option" where
  "xword_lsap lx cur = map_option (\<lambda>s. word_of_int (fst (strtol0 s))) (node_text lx cur)"

definition min_max_field :: "libxml \<Rightarrow> nat \<Rightarrow> xml_node \<Rightarrow> int \<times> int \<Rightarrow> (int \<times> int) option" where
  "min_max_field lx ns cur mm =
     (if xml_ns cur \<noteq> Some ns then Some mm
      else do {
        mm \<leftarrow> set_if (matches (xml_name cur) ''min'' = 0) (do { v \<leftarrow> xword_int lx cur; Some (v, snd mm) }) mm;
        set_if (matches (xml_name cur) ''max'' = 0) (do { v \<leftarrow> xword_int lx cur; Some (fst mm, v) }) mm
      })"

definition xword_min_max :: "libxml \<Rightarrow> xml_node \<Rightarrow> nat \<Rightarrow> int \<times> int \<Rightarrow> (int \<times> int) option" where
  "xword_min_max lx cur ns mm = fold_nodes (min_max_field lx ns) (xml_children cur) mm"

definition cost_field :: "libxml \<Rightarrow> nat \<Rightarrow> xml_node \<Rightarrow> (int \<times> int) \<times> (int \<times> int) \<Rightarrow> ((int \<times> int) \<times> (int \<times> int)) option" where
  "cost_field lx ns cur c =
     (if xml_ns cur \<noteq> Some ns then Some c
      else do {
        c \<leftarrow> set_if (matches (xml_name cur) ''connect'' = 0) (do { mm \<leftarrow> xword_min_max lx cur ns (fst c); Some (mm, snd c) }) c;
        set_if (matches (xml_name cur) ''byte'' = 0) (do { mm \<leftarrow> xword_min_max lx cur ns (snd c); Some (fst c, mm) }) c
      })"

definition xword_cost :: "libxml \<Rightarrow> xml_node \<Rightarrow> nat \<Rightarrow> (int \<times> int) \<times> (int \<times> int) \<Rightarrow> ((int \<times> int) \<times> (int \<times> int)) option" where
  "xword_cost lx cur ns c = fold_nodes (cost_field lx ns) (xml_children cur) c"

definition xword_netid :: "libxml \<Rightarrow> xml_node \<Rightarrow> sna_netid option" where
  "xword_netid lx cur = node_text lx cur \<bind> sna_char_to_netid"

text \<open>A node identifier has 32 bits.\<close>

definition xword_nodeid :: "libxml \<Rightarrow> xml_node \<Rightarrow> u32 option" where
  "xword_nodeid lx cur = do { s \<leftarrow> node_text lx cur; n \<leftarrow> sna_char_to_nodeid s; Some (ucast n) }"

definition xword_mac_address :: "libxml \<Rightarrow> xml_node \<Rightarrow> byte list \<Rightarrow> (int \<times> byte list) option" where
  "xword_mac_address lx cur mac = do { s \<leftarrow> node_text lx cur; sna_char_to_ether s mac }"

section \<open>Printed values\<close>

text \<open>\<^verbatim>\<open>%d\<close>.\<close>

fun digits10 :: "nat \<Rightarrow> string" where
  "digits10 n = (if n < 10 then [] else digits10 (n div 10)) @ [''0123456789'' ! (n mod 10)]"

declare digits10.simps [simp del]

definition show_int :: "int \<Rightarrow> string" where
  "show_int v = (if v < 0 then ''-'' @ digits10 (nat (- v)) else digits10 (nat v))"

text \<open>\<^verbatim>\<open>0x%02X\<close> of a \<^verbatim>\<open>char\<close>, which is extended with its sign.\<close>

definition show_char_hex :: "byte \<Rightarrow> string" where
  "show_char_hex b = ''0x'' @ hex_field 2 (unat (signed_take_bit 7 (ucast b) :: u32))"

text \<open>\<^verbatim>\<open>%s\<close> of a word; a null pointer is printed as such.\<close>

definition show_word :: "wordmap list \<Rightarrow> int \<Rightarrow> string option" where
  "show_word wm v = map_option (\<lambda>w. case w of None \<Rightarrow> ''(null)'' | Some w \<Rightarrow> w) (xword_pr_word wm v)"

text \<open>The string in an array, which must have a terminator.\<close>

definition array_string :: "string \<Rightarrow> string option" where
  "array_string a = (if NUL \<in> set a then Some (takeWhile (\<lambda>c. c \<noteq> NUL) a) else None)"

text \<open>A line with a label.\<close>

definition labelled :: "string \<Rightarrow> string \<Rightarrow> string" where
  "labelled l v = l @ '': '' @ v @ ''\<newline>''"

definition labelled_int :: "string \<Rightarrow> int \<Rightarrow> string" where
  "labelled_int l v = labelled l (show_int v)"

section \<open>The head of a document\<close>

text \<open>
  The three programs begin alike: the file is parsed, the root is found, its name space is looked up and its name compared.
  \<^term>\<open>Inl\<close> is the result of an early return.
\<close>

definition open_config :: "libxml \<Rightarrow> string \<Rightarrow> (int + nat \<times> xml_node list)" where
  "open_config lx cfile =
     (case xmlParseFile lx cfile of
        None \<Rightarrow> Inl (- 1)
      | Some None \<Rightarrow> Inl (- 1)
      | Some (Some cur) \<Rightarrow>
         (case xmlSearchNsByHref lx cur ''http://www.linux-sna.org/sna'' of
            None \<Rightarrow> Inl (- 1)
          | Some ns \<Rightarrow>
              if xml_name cur \<noteq> ''Helping'' then Inl (- 1)
              else (case dropWhile (xmlIsBlankNode lx) (xml_children cur) of
                      [] \<Rightarrow> Inl (- 1)
                    | rest \<Rightarrow> Inr (ns, rest))))"

section \<open>Lemmas\<close>

lemma memcmp_0_iff: "length a = length b \<Longrightarrow> memcmp a b = 0 \<longleftrightarrow> a = b"
  by (induction a b rule: memcmp.induct) auto

text \<open>A name matches a word if it is a beginning of it.\<close>

lemma matches_iff: "matches cmd pattern = 0 \<longleftrightarrow> take (length cmd) pattern = cmd"
  by (auto simp: matches_def memcmp_0_iff dest: arg_cong [where f = length])

lemma map_word_None_iff: "map_word wm word = None \<longleftrightarrow> (\<forall>(w, v) \<in> set wm. w \<noteq> None \<and> w \<noteq> Some word)"
  by (induction wm word rule: map_word.induct) auto

end
