(* ===== verification/Sna_Nof.thy ===== *)
theory Sna_Nof
  imports Sna_Utility
begin

text \<open>
  The interface to the network operator facility of the kernel (\<^verbatim>\<open>libsna/libnof.c\<close>): every verb stores its action in the
  first member of its block and passes the block to \<^verbatim>\<open>setsockopt\<close>; every query grows a buffer until the answer of
  \<^verbatim>\<open>ioctl\<close> leaves a part of it free. The kernel is a parameter.
\<close>

section \<open>Blocks\<close>

text \<open>
  The members of the blocks that the programs set, with their widths; the others are zero. \<^verbatim>\<open>action\<close>, the first member of each,
  is part of the request below. \<^verbatim>\<open>use_name\<close> has 40 characters, names have 9, the addresses of ports 12.
\<close>

record sna_nof_node =
  nn_netid :: sna_netid
  nn_nodeid :: u32
  nn_type :: byte
  nn_lu_seg :: u16
  nn_bind_seg :: u16
  nn_max_lus :: "64 word"

record sna_nof_port =
  np_use_name :: string
  np_netid :: sna_netid
  np_name :: string
  np_saddr :: "byte list"
  np_btu :: "64 word"
  np_mia :: "64 word"
  np_moa :: "64 word"

record sna_nof_ls =
  ns_use_name :: string
  ns_netid :: sna_netid
  ns_name :: string
  ns_saddr :: "byte list"
  ns_plu_name :: sna_netid
  ns_plu_node_id :: u32
  ns_dname :: "byte list"
  ns_daddr :: "byte list"
  ns_role :: int
  ns_direction :: int
  ns_byteswap :: int
  ns_retry_on_fail :: int
  ns_retry_times :: int
  ns_autoact :: int
  ns_tg_number :: int
  ns_cost_per_byte :: int
  ns_cost_per_connect_time :: int
  ns_effective_capacity :: int
  ns_propagation_delay :: int
  ns_security :: int
  ns_user1 :: int
  ns_user2 :: int
  ns_user3 :: int

record sna_nof_local_lu =
  nl_use_name :: string
  nl_netid :: sna_netid
  nl_lu_name :: string
  nl_sync_point :: byte
  nl_lu_sess_limit :: "64 word"

record sna_nof_mode =
  nm_netid :: sna_netid
  nm_netid_plu :: sna_netid
  nm_mode_name :: string
  nm_cos_name :: string
  nm_tx_pacing :: "64 word"
  nm_rx_pacing :: "64 word"
  nm_tx_max_ru :: "64 word"
  nm_rx_max_ru :: "64 word"
  nm_crypto :: byte
  nm_min_conwinners :: "64 word"
  nm_min_conlosers :: "64 word"
  nm_max_sessions :: "64 word"
  nm_auto_activation :: byte

record sna_nof_remote_lu =
  nr_use_name :: string
  nr_netid :: sna_netid
  nr_netid_plu :: sna_netid
  nr_netid_fqcp :: sna_netid

record sna_nof_cos =
  nc_name :: string
  nc_weight :: u16
  nc_tx_priority :: u16
  nc_default_cos_invalid :: byte
  nc_default_cos_null :: byte
  nc_min_cost_per_connect :: u16
  nc_max_cost_per_connect :: u16
  nc_min_cost_per_byte :: u16
  nc_max_cost_per_byte :: u16
  nc_min_security :: u16
  nc_max_security :: u16
  nc_min_propagation_delay :: u16
  nc_max_propagation_delay :: u16
  nc_min_effective_capacity :: u16
  nc_max_effective_capacity :: u16
  nc_min_user1 :: u16
  nc_max_user1 :: u16
  nc_min_user2 :: u16
  nc_max_user2 :: u16
  nc_min_user3 :: u16
  nc_max_user3 :: u16
  nc_min_route_resistance :: u16
  nc_max_route_resistance :: u16
  nc_min_node_congested :: u16
  nc_max_node_congested :: u16

record sna_nof_cpic =
  nx_netid :: sna_netid
  nx_netid_plu :: sna_netid
  nx_sym_dest_name :: string
  nx_mode_name :: string
  nx_tp_name :: string

text \<open>Blocks that no program of the sources fills are known by their bytes.\<close>

datatype nof_block =
  Node_block sna_nof_node | Port_block sna_nof_port | Ls_block sna_nof_ls | Mode_block sna_nof_mode
  | Local_lu_block sna_nof_local_lu | Remote_lu_block sna_nof_remote_lu | Cos_block sna_nof_cos | Cpic_block sna_nof_cpic
  | Other_block "byte list"

datatype sna_nof_component =
  SNA_NOF_NODE | SNA_NOF_DLC | SNA_NOF_PORT | SNA_NOF_LS | SNA_NOF_MODE | SNA_NOF_LOCAL_LU | SNA_NOF_REMOTE_LU | SNA_NOF_TP
  | SNA_NOF_COS | SNA_NOF_CPIC | SNA_NOF_ADJACENT_NODE | SNA_NOF_CONNECTION_NETWORK | SNA_NOF_DIRECTORY_ENTRY
  | SNA_NOF_ISR_TUNING | SNA_NOF_SESSION_LIMIT | SNA_NOF_CONTROL_SESSIONS

datatype sna_nof_action = SNA_NOF_RESET | SNA_NOF_DEFINE | SNA_NOF_START | SNA_NOF_STOP | SNA_NOF_DELETE | SNA_NOF_CHANGE

abbreviation (input) SOL_SNA_NOF :: int where "SOL_SNA_NOF \<equiv> 278"
abbreviation (input) SOL_SNA_CPIC :: int where "SOL_SNA_CPIC \<equiv> 279"

text \<open>A call of \<^verbatim>\<open>setsockopt\<close>: level, option, action and block.\<close>

datatype nof_request = Nof (nof_level: int) (nof_component: sna_nof_component) (nof_action: sna_nof_action) (nof_block: nof_block)

text \<open>The kernel answers a request in the light of the ones before; what was asked is kept in order.\<close>

type_synonym kernel = "nof_request list \<Rightarrow> nof_request \<Rightarrow> int"

definition setsockopt :: "kernel \<Rightarrow> nof_request \<Rightarrow> nof_request list \<Rightarrow> int \<times> nof_request list" where
  "setsockopt kn r sent = (kn sent r, sent @ [r])"

section \<open>Verbs\<close>

type_synonym 'b verb = "kernel \<Rightarrow> 'b \<Rightarrow> nof_request list \<Rightarrow> int \<times> nof_request list"

definition nof_define_adjacent_node :: "byte list verb" where
  "nof_define_adjacent_node kn node = setsockopt kn (Nof SOL_SNA_NOF SNA_NOF_ADJACENT_NODE SNA_NOF_DEFINE (Other_block node))"
definition nof_define_class_of_service :: "sna_nof_cos verb" where
  "nof_define_class_of_service kn cos = setsockopt kn (Nof SOL_SNA_NOF SNA_NOF_COS SNA_NOF_DEFINE (Cos_block cos))"
definition nof_define_connection_network :: "byte list verb" where
  "nof_define_connection_network kn cn = setsockopt kn (Nof SOL_SNA_NOF SNA_NOF_CONNECTION_NETWORK SNA_NOF_DEFINE (Other_block cn))"
definition not_define_directory_entry :: "byte list verb" where
  "not_define_directory_entry kn d = setsockopt kn (Nof SOL_SNA_NOF SNA_NOF_DIRECTORY_ENTRY SNA_NOF_DEFINE (Other_block d))"
definition nof_define_isr_tuning :: "byte list verb" where
  "nof_define_isr_tuning kn isr = setsockopt kn (Nof SOL_SNA_NOF SNA_NOF_ISR_TUNING SNA_NOF_DEFINE (Other_block isr))"
definition nof_define_link_station :: "sna_nof_ls verb" where
  "nof_define_link_station kn ls = setsockopt kn (Nof SOL_SNA_NOF SNA_NOF_LS SNA_NOF_DEFINE (Ls_block ls))"
definition nof_define_local_lu :: "sna_nof_local_lu verb" where
  "nof_define_local_lu kn lu = setsockopt kn (Nof SOL_SNA_NOF SNA_NOF_LOCAL_LU SNA_NOF_DEFINE (Local_lu_block lu))"
definition nof_define_cpic_side_info :: "sna_nof_cpic verb" where
  "nof_define_cpic_side_info kn cs = setsockopt kn (Nof SOL_SNA_CPIC SNA_NOF_CPIC SNA_NOF_DEFINE (Cpic_block cs))"
definition nof_define_mode :: "sna_nof_mode verb" where
  "nof_define_mode kn mode = setsockopt kn (Nof SOL_SNA_NOF SNA_NOF_MODE SNA_NOF_DEFINE (Mode_block mode))"
definition nof_define_node :: "sna_nof_node verb" where
  "nof_define_node kn node = setsockopt kn (Nof SOL_SNA_NOF SNA_NOF_NODE SNA_NOF_DEFINE (Node_block node))"
definition nof_stop_remote_lu :: "sna_nof_remote_lu verb" where
  "nof_stop_remote_lu kn lu = setsockopt kn (Nof SOL_SNA_NOF SNA_NOF_REMOTE_LU SNA_NOF_STOP (Remote_lu_block lu))"
definition nof_start_remote_lu :: "sna_nof_remote_lu verb" where
  "nof_start_remote_lu kn lu = setsockopt kn (Nof SOL_SNA_NOF SNA_NOF_REMOTE_LU SNA_NOF_START (Remote_lu_block lu))"
definition nof_define_partner_lu :: "sna_nof_remote_lu verb" where
  "nof_define_partner_lu kn lu = setsockopt kn (Nof SOL_SNA_NOF SNA_NOF_REMOTE_LU SNA_NOF_DEFINE (Remote_lu_block lu))"
definition nof_define_port :: "sna_nof_port verb" where
  "nof_define_port kn port = setsockopt kn (Nof SOL_SNA_NOF SNA_NOF_PORT SNA_NOF_DEFINE (Port_block port))"
definition nof_define_tp :: "byte list verb" where
  "nof_define_tp kn tp = setsockopt kn (Nof SOL_SNA_NOF SNA_NOF_TP SNA_NOF_DEFINE (Other_block tp))"
definition nof_delete_adjacent_node :: "byte list verb" where
  "nof_delete_adjacent_node kn node = setsockopt kn (Nof SOL_SNA_NOF SNA_NOF_ADJACENT_NODE SNA_NOF_DELETE (Other_block node))"
definition nof_delete_class_of_service :: "sna_nof_cos verb" where
  "nof_delete_class_of_service kn cos = setsockopt kn (Nof SOL_SNA_NOF SNA_NOF_COS SNA_NOF_DELETE (Cos_block cos))"
definition nof_delete_connection_network :: "byte list verb" where
  "nof_delete_connection_network kn cn = setsockopt kn (Nof SOL_SNA_NOF SNA_NOF_CONNECTION_NETWORK SNA_NOF_DELETE (Other_block cn))"
definition nof_delete_directory_entry :: "byte list verb" where
  "nof_delete_directory_entry kn d = setsockopt kn (Nof SOL_SNA_NOF SNA_NOF_DIRECTORY_ENTRY SNA_NOF_DELETE (Other_block d))"
definition nof_delete_isr_tuning :: "byte list verb" where
  "nof_delete_isr_tuning kn isr = setsockopt kn (Nof SOL_SNA_NOF SNA_NOF_ISR_TUNING SNA_NOF_DELETE (Other_block isr))"
definition nof_delete_link_station :: "sna_nof_ls verb" where
  "nof_delete_link_station kn ls = setsockopt kn (Nof SOL_SNA_NOF SNA_NOF_LS SNA_NOF_DELETE (Ls_block ls))"
definition nof_delete_local_lu :: "sna_nof_local_lu verb" where
  "nof_delete_local_lu kn lu = setsockopt kn (Nof SOL_SNA_NOF SNA_NOF_LOCAL_LU SNA_NOF_DELETE (Local_lu_block lu))"
definition nof_delete_mode :: "sna_nof_mode verb" where
  "nof_delete_mode kn mode = setsockopt kn (Nof SOL_SNA_NOF SNA_NOF_MODE SNA_NOF_DELETE (Mode_block mode))"
definition nof_delete_partner_lu :: "sna_nof_remote_lu verb" where
  "nof_delete_partner_lu kn lu = setsockopt kn (Nof SOL_SNA_NOF SNA_NOF_REMOTE_LU SNA_NOF_DELETE (Remote_lu_block lu))"
definition nof_delete_port :: "sna_nof_port verb" where
  "nof_delete_port kn port = setsockopt kn (Nof SOL_SNA_NOF SNA_NOF_PORT SNA_NOF_DELETE (Port_block port))"
definition nof_delete_cpic_side_info :: "sna_nof_cpic verb" where
  "nof_delete_cpic_side_info kn dc = setsockopt kn (Nof SOL_SNA_CPIC SNA_NOF_CPIC SNA_NOF_DELETE (Cpic_block dc))"
definition nof_delete_tp :: "byte list verb" where
  "nof_delete_tp kn tp = setsockopt kn (Nof SOL_SNA_NOF SNA_NOF_TP SNA_NOF_DELETE (Other_block tp))"
definition nof_start_link_station :: "sna_nof_ls verb" where
  "nof_start_link_station kn ls = setsockopt kn (Nof SOL_SNA_NOF SNA_NOF_LS SNA_NOF_START (Ls_block ls))"
definition nof_start_node :: "sna_nof_node verb" where
  "nof_start_node kn node = setsockopt kn (Nof SOL_SNA_NOF SNA_NOF_NODE SNA_NOF_START (Node_block node))"
definition nof_stop_node :: "sna_nof_node verb" where
  "nof_stop_node kn node = setsockopt kn (Nof SOL_SNA_NOF SNA_NOF_NODE SNA_NOF_STOP (Node_block node))"
definition nof_delete_node :: "sna_nof_node verb" where
  "nof_delete_node kn node = setsockopt kn (Nof SOL_SNA_NOF SNA_NOF_NODE SNA_NOF_DELETE (Node_block node))"
definition nof_start_port :: "sna_nof_port verb" where
  "nof_start_port kn port = setsockopt kn (Nof SOL_SNA_NOF SNA_NOF_PORT SNA_NOF_START (Port_block port))"
definition nof_start_tp :: "byte list verb" where
  "nof_start_tp kn tp = setsockopt kn (Nof SOL_SNA_NOF SNA_NOF_TP SNA_NOF_START (Other_block tp))"
definition nof_stop_link_station :: "sna_nof_ls verb" where
  "nof_stop_link_station kn ls = setsockopt kn (Nof SOL_SNA_NOF SNA_NOF_LS SNA_NOF_STOP (Ls_block ls))"
definition nof_stop_port :: "sna_nof_port verb" where
  "nof_stop_port kn port = setsockopt kn (Nof SOL_SNA_NOF SNA_NOF_PORT SNA_NOF_STOP (Port_block port))"

lemmas nof_verbs = nof_define_class_of_service_def nof_define_link_station_def nof_define_local_lu_def nof_define_cpic_side_info_def
  nof_define_mode_def nof_define_node_def nof_stop_remote_lu_def nof_start_remote_lu_def nof_define_partner_lu_def
  nof_define_port_def nof_delete_link_station_def nof_delete_port_def nof_start_link_station_def nof_start_node_def
  nof_stop_node_def nof_delete_node_def nof_start_port_def nof_stop_link_station_def nof_stop_port_def setsockopt_def

section \<open>Queries\<close>

text \<open>
  The names a query is about, as far as they are filled in (a member that is never written is \<^term>\<open>None\<close>).
\<close>

record query_conf =
  q_net :: "string option"
  q_name :: "string option"
  q_dev :: "string option"
  q_port :: "string option"
  q_last :: "string option"

abbreviation (input) no_names :: query_conf where
  "no_names \<equiv> \<lparr>q_net = None, q_name = None, q_dev = None, q_port = None, q_last = None\<rparr>"

text \<open>
  What a query depends on: the size of an entry, whether \<^verbatim>\<open>realloc\<close> of so many bytes and \<^verbatim>\<open>malloc\<close> of the entry with this number
  give memory, and the kernel. It is told whether there is a buffer and how long it is, and answers with an error, or with the entries
  that it stored and the length that it puts into the block.
\<close>

record 'e answer =
  q_size :: int
  q_realloc :: "int \<Rightarrow> bool"
  q_malloc :: "nat \<Rightarrow> bool"
  q_ioctl :: "query_conf \<Rightarrow> bool \<Rightarrow> int \<Rightarrow> ('e list \<times> int) option"

text \<open>A value put into an \<^verbatim>\<open>int\<close>.\<close>

definition to_int :: "int \<Rightarrow> int" where
  "to_int v = sint (word_of_int v :: u32)"

text \<open>\<^verbatim>\<open>memcpy(dst, src, 8)\<close> from the memory that begins at \<^verbatim>\<open>src\<close>.\<close>

definition copy8 :: "string \<Rightarrow> string option" where
  "copy8 src = (if length src < 8 then None else Some (take 8 src))"

text \<open>
  The entries are put in front of the list one by one, as many as fit into the length; \<^term>\<open>None\<close> is a read behind what was stored, which
  is every read when there is no buffer, or a write through the null pointer of \<^verbatim>\<open>malloc\<close>. Neither pointer is looked at.
\<close>

fun read_entries :: "'e answer \<Rightarrow> int \<Rightarrow> int \<Rightarrow> 'e list \<Rightarrow> 'e list \<Rightarrow> 'e list option" where
  "read_entries q n len [] acc = (if n < len then None else Some acc)"
| "read_entries q n len (e # es) acc =
     (if n < len then (if q_malloc q (length acc) then read_entries q (to_int (n + q_size q)) len es (e # acc) else None) else Some acc)"

text \<open>
  The loop that all queries have: room for twenty more entries until some is left. The length is an \<^verbatim>\<open>int\<close>, and it is compared with the
  product, which is an unsigned number of 64 bits. \<^term>\<open>None\<close>: a fault, or the loop does not end.
\<close>

partial_function (option) query_loop :: "'e answer \<Rightarrow> query_conf \<Rightarrow> int \<Rightarrow> 'e list option" where
  "query_loop q names numreqs =
     (let len = to_int (q_size q * numreqs); buf = q_realloc q len in
      case q_ioctl q names buf len of
        None \<Rightarrow> Some []
      | Some (es, answered) \<Rightarrow>
          if word_of_int answered = (word_of_int (q_size q * numreqs) :: 64 word) then query_loop q names (to_int (numreqs + 20))
          else read_entries q 0 answered (if buf then es else []) [])"

definition nof_query_cpic_side_info :: "'e answer \<Rightarrow> 'e list option" where
  "nof_query_cpic_side_info ioctl = query_loop ioctl no_names 30"

definition nof_query_mode :: "'e answer \<Rightarrow> 'e list option" where
  "nof_query_mode ioctl = query_loop ioctl no_names 30"

definition nof_query_plu :: "'e answer \<Rightarrow> 'e list option" where
  "nof_query_plu ioctl = query_loop ioctl no_names 30"

definition nof_query_lu :: "'e answer \<Rightarrow> string \<Rightarrow> string \<Rightarrow> string \<Rightarrow> 'e list option" where
  "nof_query_lu ioctl nt name luname = do {
     a \<leftarrow> copy8 nt; b \<leftarrow> copy8 name; c \<leftarrow> copy8 luname;
     query_loop ioctl (no_names\<lparr>q_net := Some a, q_name := Some b, q_last := Some c\<rparr>) 30
   }"

text \<open>The name of the device is stored over the name of the node; the member for the device is never written.\<close>

definition nof_query_ls :: "'e answer \<Rightarrow> string \<Rightarrow> string \<Rightarrow> string \<Rightarrow> string \<Rightarrow> string \<Rightarrow> 'e list option" where
  "nof_query_ls ioctl nt name devname portname lsname = do {
     a \<leftarrow> copy8 nt; b \<leftarrow> copy8 name; c \<leftarrow> copy8 devname; d \<leftarrow> copy8 portname; e \<leftarrow> copy8 lsname;
     query_loop ioctl (no_names\<lparr>q_net := Some a, q_name := Some b, q_name := Some c, q_port := Some d, q_last := Some e\<rparr>) 30
   }"

definition nof_query_port :: "'e answer \<Rightarrow> string \<Rightarrow> string \<Rightarrow> string \<Rightarrow> string \<Rightarrow> 'e list option" where
  "nof_query_port ioctl nt name devname portname = do {
     a \<leftarrow> copy8 nt; b \<leftarrow> copy8 name; c \<leftarrow> copy8 devname; d \<leftarrow> copy8 portname;
     query_loop ioctl (no_names\<lparr>q_net := Some a, q_name := Some b, q_name := Some c, q_port := Some d\<rparr>) 30
   }"

text \<open>The name of a class of service is copied with its ninth character.\<close>

definition nof_query_cos :: "'e answer \<Rightarrow> string \<Rightarrow> 'e list option" where
  "nof_query_cos ioctl name =
     (if length name < 9 then None else query_loop ioctl (no_names\<lparr>q_last := Some (take 9 name)\<rparr>) 30)"

definition nof_query_dlc :: "'e answer \<Rightarrow> string \<Rightarrow> string \<Rightarrow> string \<Rightarrow> 'e list option" where
  "nof_query_dlc ioctl nt name devname = do {
     a \<leftarrow> copy8 nt; b \<leftarrow> copy8 name; c \<leftarrow> copy8 devname;
     query_loop ioctl (no_names\<lparr>q_net := Some a, q_name := Some b, q_name := Some c\<rparr>) 30
   }"

definition nof_query_node :: "'e answer \<Rightarrow> string \<Rightarrow> string \<Rightarrow> 'e list option" where
  "nof_query_node ioctl nt name = do {
     a \<leftarrow> copy8 nt; b \<leftarrow> copy8 name;
     query_loop ioctl (no_names\<lparr>q_net := Some a, q_name := Some b\<rparr>) 10
   }"

section \<open>Properties\<close>

lemma to_int_id: "- (2 ^ 31) \<le> v \<Longrightarrow> v < 2 ^ 31 \<Longrightarrow> to_int v = v"
  by (simp add: to_int_def int_word_sint mod_pos_pos_trivial)

lemma same_length_64:
  assumes "0 \<le> a" "a < 2 ^ 31" "0 \<le> b" "b < 2 ^ 31"
  shows "word_of_int a = (word_of_int b :: 64 word) \<longleftrightarrow> a = b"
  using assms by (simp add: word_of_int_eq_iff take_bit_int_eq_self)

text \<open>All stored entries are read, the last first.\<close>

lemma read_entries_all:
  assumes "0 < q_size q" "\<And>k. q_malloc q k" "0 \<le> n" "n + q_size q * int (length es) < 2 ^ 31"
  shows "read_entries q n (n + q_size q * int (length es)) es acc = Some (rev es @ acc)"
  using assms(3,4)
proof (induction es arbitrary: n acc)
  case (Cons e es)
  have grow: "n + q_size q * int (length (e # es)) = n + q_size q + q_size q * int (length es)" by (simp add: algebra_simps)
  have pos: "0 \<le> q_size q * int (length es)" using assms(1) by simp
  have n: "0 \<le> n + q_size q" "n + q_size q + q_size q * int (length es) < 2 ^ 31" using Cons.prems assms(1) grow by simp_all
  then have "to_int (n + q_size q) = n + q_size q" using pos by (intro to_int_id) simp_all
  moreover have "n < n + q_size q * int (length (e # es))" using assms(1) pos grow by linarith
  ultimately show ?case using Cons.IH [OF n] assms(2) unfolding grow by simp
qed simp

text \<open>
  A kernel that stores the entries of a table as long as there is room, and answers with the length of what it stored; memory that
  does not fail; and a table that fits, with thirty more entries, into an \<^verbatim>\<open>int\<close>.
\<close>

definition serves :: "'e answer \<Rightarrow> 'e list \<Rightarrow> bool" where
  "serves q es \<longleftrightarrow> 0 < q_size q \<and> q_size q * (int (length es) + 30) < 2 ^ 31 \<and> (\<forall>n. q_realloc q n) \<and> (\<forall>k. q_malloc q k)
     \<and> (\<forall>names n. q_size q * int n < 2 ^ 31 \<longrightarrow> q_ioctl q names True (q_size q * int n) = Some (take n es, q_size q * int (min n (length es))))"

lemma query_step:
  assumes "serves q es" "n \<le> length es + 30"
  shows "query_loop q names (int n) = (if n \<le> length es then query_loop q names (int (n + 20)) else Some (rev es))"
proof -
  let ?z = "q_size q" and ?m = "min n (length es)"
  have q: "0 < ?z" "?z * (int (length es) + 30) < 2 ^ 31" "\<And>n. q_realloc q n" "\<And>k. q_malloc q k"
    "?z * int n < 2 ^ 31 \<Longrightarrow> q_ioctl q names True (?z * int n) = Some (take n es, ?z * int ?m)" using assms(1) by (auto simp: serves_def)
  have bound: "?z * int k < 2 ^ 31" "int k < 2 ^ 31" if "k \<le> length es + 30" for k
  proof -
    have "?z * int k \<le> ?z * (int (length es) + 30)" using that q(1) by (intro mult_left_mono) simp_all
    then show "?z * int k < 2 ^ 31" using q(2) by linarith
    moreover have "1 * int k \<le> ?z * int k" using q(1) by (intro mult_right_mono) simp_all
    ultimately show "int k < 2 ^ 31" by linarith
  qed
  have pos: "0 \<le> ?z * int k" for k using q(1) by simp
  have len: "to_int (?z * int n) = ?z * int n" using bound(1) [OF assms(2)] pos [of n] by (intro to_int_id) simp_all
  have same: "word_of_int (?z * int ?m) = (word_of_int (?z * int n) :: 64 word) \<longleftrightarrow> ?m = n"
    using same_length_64 [OF pos [of ?m] bound(1) pos [of n] bound(1) [OF assms(2)]] assms(2) q(1) by simp
  have all: "read_entries q 0 (?z * int (length es)) es [] = Some (rev es)"
    using read_entries_all [of q 0 es "[]"] q(1,4) bound(1) [of "length es"] by simp
  have grow: "n \<le> length es \<Longrightarrow> to_int (int n + 20) = int (n + 20)" using bound(2) [of "n + 20"] by (subst to_int_id) simp_all
  show ?thesis
    by (subst query_loop.simps) (use len q(3) q(5) [OF bound(1) [OF assms(2)]] same all grow in \<open>auto simp: Let_def min_def simp del: read_entries.simps\<close>)
qed

lemma query_loop_table:
  assumes "serves q es" "n \<le> length es + 30"
  shows "query_loop q names (int n) = Some (rev es)"
  using assms(2)
proof (induction "length es - n" arbitrary: n rule: less_induct)
  case less
  show ?case
  proof (cases "n < length es")
    case True
    then have "query_loop q names (int (n + 20)) = Some (rev es)" by (intro less.hyps) simp_all
    then show ?thesis using query_step [OF assms(1) less.prems, of names] True by simp
  next
    case False
    then show ?thesis
      using query_step [OF assms(1) less.prems, of names] query_step [OF assms(1), of "n + 20" names] less.prems by (simp split: if_splits)
  qed
qed

text \<open>An error of a later attempt loses the entries of the earlier ones.\<close>

lemma query_loop_error: "(\<And>buf len. q_ioctl q names buf len = None) \<Longrightarrow> query_loop q names n = Some []"
  by (subst query_loop.simps) (simp add: Let_def)

text \<open>Without a buffer the length that the kernel would need is taken for what it stored.\<close>

lemma query_loop_no_buffer:
  assumes "\<And>n. \<not> q_realloc q n" "q_ioctl q names False (to_int (q_size q * n)) = Some (es, len)" "0 < len"
    and "word_of_int len \<noteq> (word_of_int (q_size q * n) :: 64 word)"
  shows "query_loop q names n = None"
  using assms by (subst query_loop.simps) (simp add: Let_def)

end
