(* ===== verification/Sna_Load.thy ===== *)
theory Sna_Load
  imports Sna_Xml Sna_Nof
begin

text \<open>
  Loading a configuration (\<^verbatim>\<open>snaconfig/sna_load.c\<close>): the readers of the resources, the walk over the document and the requests
  that define the resources in the kernel. A \<^verbatim>\<open>char\<close> array is the list of its cells; memory for a new structure is always found and is
  zero; reading or writing outside an array, a null pointer and a variable that was never set are the fault \<^term>\<open>None\<close>.
\<close>

section \<open>Resources\<close>

text \<open>The two limits of a characteristic, \<^verbatim>\<open>min_\<close> and \<^verbatim>\<open>max_\<close>, are a pair.\<close>

record cos_info =
  co_name :: string
  co_weight :: int
  co_tx_priority :: int
  co_default_cos_invalid :: int
  co_default_cos_null :: int
  co_cost_per_connect :: "int \<times> int"
  co_cost_per_byte :: "int \<times> int"
  co_security :: "int \<times> int"
  co_propagation_delay :: "int \<times> int"
  co_effective_capacity :: "int \<times> int"
  co_user1 :: "int \<times> int"
  co_user2 :: "int \<times> int"
  co_user3 :: "int \<times> int"
  co_route_resistance :: "int \<times> int"
  co_node_congested :: "int \<times> int"

record cpic_info =
  ci_sym_dest_name :: string
  ci_mode_name :: string
  ci_tp_name :: string
  ci_plu_name :: sna_netid

record mode_info =
  mi_name :: string
  mi_cos_name :: string
  mi_plu_name :: sna_netid
  mi_encryption :: int
  mi_tx_pacing :: int
  mi_rx_pacing :: int
  mi_max_tx_ru :: int
  mi_max_rx_ru :: int
  mi_max_sessions :: int
  mi_min_conwinners :: int
  mi_min_conlosers :: int
  mi_auto_activation :: int

record lu_info =
  lu_use_name :: string
  lu_type :: int
  lu_plu_name :: sna_netid
  lu_fqcp_name :: sna_netid
  lu_name :: string
  lu_syncpoint :: int
  lu_sess_limit :: int

record link_info =
  li_use_name :: string
  li_interface :: string
  li_port :: "byte list"
  li_plu_name :: sna_netid
  li_plu_node_id :: u32
  li_dstaddr :: "byte list"
  li_dstport :: "byte list"
  li_role :: int
  li_direction :: int
  li_byteswap :: int
  li_retry_on_fail :: int
  li_retry_times :: int
  li_autoact :: int
  li_tg_number :: int
  li_cost_per_byte :: int
  li_cost_per_connect_time :: int
  li_effective_capacity :: int
  li_propagation_delay :: int
  li_security :: int
  li_user1 :: int
  li_user2 :: int
  li_user3 :: int

record dlc_info =
  di_use_name :: string
  di_interface :: string
  di_port :: "byte list"
  di_btu :: int
  di_mia :: int
  di_moa :: int

record global_info =
  gi_node_name :: sna_netid
  gi_node_id :: u32
  gi_node_type :: int
  gi_debug_level :: string
  gi_max_lus :: int
  gi_lu_seg :: int
  gi_bind_seg :: int
  gi_dlc_list :: "dlc_info list"
  gi_link_list :: "link_info list"
  gi_lu_list :: "lu_info list"
  gi_mode_list :: "mode_info list"
  gi_cpic_list :: "cpic_info list"
  gi_cos_list :: "cos_info list"

text \<open>The size of \<^verbatim>\<open>dstaddr\<close> is \<^verbatim>\<open>MAX_ADDR_LEN\<close> of the kernel headers, eight.\<close>

abbreviation (input) no_netid :: sna_netid where "no_netid \<equiv> \<lparr>net = replicate 9 NUL, nname = replicate 9 NUL\<rparr>"

definition new_cos :: cos_info where
  "new_cos = \<lparr>co_name = replicate 9 NUL, co_weight = 0, co_tx_priority = 0, co_default_cos_invalid = 0, co_default_cos_null = 0,
     co_cost_per_connect = (0, 0), co_cost_per_byte = (0, 0), co_security = (0, 0), co_propagation_delay = (0, 0),
     co_effective_capacity = (0, 0), co_user1 = (0, 0), co_user2 = (0, 0), co_user3 = (0, 0), co_route_resistance = (0, 0),
     co_node_congested = (0, 0)\<rparr>"

definition new_cpic :: cpic_info where
  "new_cpic = \<lparr>ci_sym_dest_name = replicate 9 NUL, ci_mode_name = replicate 9 NUL, ci_tp_name = replicate 65 NUL,
     ci_plu_name = no_netid\<rparr>"

definition new_mode :: mode_info where
  "new_mode = \<lparr>mi_name = replicate 9 NUL, mi_cos_name = replicate 9 NUL, mi_plu_name = no_netid, mi_encryption = 0, mi_tx_pacing = 0,
     mi_rx_pacing = 0, mi_max_tx_ru = 0, mi_max_rx_ru = 0, mi_max_sessions = 0, mi_min_conwinners = 0, mi_min_conlosers = 0,
     mi_auto_activation = 0\<rparr>"

definition new_lu :: lu_info where
  "new_lu = \<lparr>lu_use_name = replicate 40 NUL, lu_type = 0, lu_plu_name = no_netid, lu_fqcp_name = no_netid, lu_name = replicate 9 NUL,
     lu_syncpoint = 0, lu_sess_limit = 0\<rparr>"

definition new_link :: link_info where
  "new_link = \<lparr>li_use_name = replicate 40 NUL, li_interface = replicate 9 NUL, li_port = replicate 9 0, li_plu_name = no_netid,
     li_plu_node_id = 0, li_dstaddr = replicate 8 0, li_dstport = replicate 8 0, li_role = 0, li_direction = 0,
     li_byteswap = 0, li_retry_on_fail = 0, li_retry_times = 0, li_autoact = 0, li_tg_number = 0, li_cost_per_byte = 0,
     li_cost_per_connect_time = 0, li_effective_capacity = 0, li_propagation_delay = 0, li_security = 0, li_user1 = 0,
     li_user2 = 0, li_user3 = 0\<rparr>"

definition new_dlc :: dlc_info where
  "new_dlc = \<lparr>di_use_name = replicate 40 NUL, di_interface = replicate 9 NUL, di_port = replicate 9 0, di_btu = 0, di_mia = 0,
     di_moa = 0\<rparr>"

definition new_global :: global_info where
  "new_global = \<lparr>gi_node_name = no_netid, gi_node_id = 0, gi_node_type = 0, gi_debug_level = replicate 8 NUL, gi_max_lus = 0,
     gi_lu_seg = 0, gi_bind_seg = 0, gi_dlc_list = [], gi_link_list = [], gi_lu_list = [], gi_mode_list = [],
     gi_cpic_list = [], gi_cos_list = []\<rparr>"

lemmas new_defs = new_cos_def new_cpic_def new_mode_def new_lu_def new_link_def new_dlc_def new_global_def

section \<open>Readers\<close>

definition cos_field :: "libxml \<Rightarrow> nat \<Rightarrow> xml_node \<Rightarrow> cos_info \<Rightarrow> cos_info option" where
  "cos_field lx ns cur cos = do {
     cos \<leftarrow> set_if (matches (xml_name cur) ''name'' = 0) (do { x \<leftarrow> xword_strcpy_toupper lx cur (co_name cos); Some (cos\<lparr>co_name := x\<rparr>) }) cos;
     cos \<leftarrow> set_if (matches (xml_name cur) ''weight'' = 0) (do { x \<leftarrow> xword_int lx cur; Some (cos\<lparr>co_weight := x\<rparr>) }) cos;
     cos \<leftarrow> set_if (matches (xml_name cur) ''tx_priority'' = 0) (do { x \<leftarrow> xword_tx_types lx cur; Some (cos\<lparr>co_tx_priority := x\<rparr>) }) cos;
     cos \<leftarrow> set_if (matches (xml_name cur) ''default_cos_invalid'' = 0) (do { x \<leftarrow> xword_on_off lx cur; Some (cos\<lparr>co_default_cos_invalid := x\<rparr>) }) cos;
     cos \<leftarrow> set_if (matches (xml_name cur) ''default_cos_null'' = 0) (do { x \<leftarrow> xword_on_off lx cur; Some (cos\<lparr>co_default_cos_null := x\<rparr>) }) cos;
     cos \<leftarrow> set_if (matches (xml_name cur) ''cost'' = 0) (do { x \<leftarrow> xword_cost lx cur ns (co_cost_per_connect cos, co_cost_per_byte cos);
       Some (cos\<lparr>co_cost_per_connect := fst x, co_cost_per_byte := snd x\<rparr>) }) cos;
     cos \<leftarrow> set_if (matches (xml_name cur) ''security'' = 0) (do { x \<leftarrow> xword_min_max lx cur ns (co_security cos); Some (cos\<lparr>co_security := x\<rparr>) }) cos;
     cos \<leftarrow> set_if (matches (xml_name cur) ''propagation_delay'' = 0) (do { x \<leftarrow> xword_min_max lx cur ns (co_propagation_delay cos); Some (cos\<lparr>co_propagation_delay := x\<rparr>) }) cos;
     cos \<leftarrow> set_if (matches (xml_name cur) ''effective_capacity'' = 0) (do { x \<leftarrow> xword_min_max lx cur ns (co_effective_capacity cos); Some (cos\<lparr>co_effective_capacity := x\<rparr>) }) cos;
     cos \<leftarrow> set_if (matches (xml_name cur) ''route_resistance'' = 0) (do { x \<leftarrow> xword_min_max lx cur ns (co_route_resistance cos); Some (cos\<lparr>co_route_resistance := x\<rparr>) }) cos;
     cos \<leftarrow> set_if (matches (xml_name cur) ''node_congested'' = 0) (do { x \<leftarrow> xword_min_max lx cur ns (co_node_congested cos); Some (cos\<lparr>co_node_congested := x\<rparr>) }) cos;
     cos \<leftarrow> set_if (matches (xml_name cur) ''user1'' = 0) (do { x \<leftarrow> xword_min_max lx cur ns (co_user1 cos); Some (cos\<lparr>co_user1 := x\<rparr>) }) cos;
     cos \<leftarrow> set_if (matches (xml_name cur) ''user2'' = 0) (do { x \<leftarrow> xword_min_max lx cur ns (co_user2 cos); Some (cos\<lparr>co_user2 := x\<rparr>) }) cos;
     set_if (matches (xml_name cur) ''user3'' = 0) (do { x \<leftarrow> xword_min_max lx cur ns (co_user3 cos); Some (cos\<lparr>co_user3 := x\<rparr>) }) cos
   }"

definition sna_parse_cos :: "libxml \<Rightarrow> nat \<Rightarrow> xml_node \<Rightarrow> cos_info option" where
  "sna_parse_cos lx ns cur = fold_nodes (cos_field lx ns) (xml_children cur) new_cos"

definition cpic_field :: "libxml \<Rightarrow> nat \<Rightarrow> xml_node \<Rightarrow> cpic_info \<Rightarrow> cpic_info option" where
  "cpic_field lx ns cur cpic = do {
     cpic \<leftarrow> set_if (matches (xml_name cur) ''sym_dest_name'' = 0) (do { x \<leftarrow> xword_strcpy_toupper lx cur (ci_sym_dest_name cpic); Some (cpic\<lparr>ci_sym_dest_name := x\<rparr>) }) cpic;
     cpic \<leftarrow> set_if (matches (xml_name cur) ''mode_name'' = 0) (do { x \<leftarrow> xword_strcpy_toupper lx cur (ci_mode_name cpic); Some (cpic\<lparr>ci_mode_name := x\<rparr>) }) cpic;
     cpic \<leftarrow> set_if (matches (xml_name cur) ''plu_name'' = 0) (do { x \<leftarrow> xword_netid lx cur; Some (cpic\<lparr>ci_plu_name := x\<rparr>) }) cpic;
     set_if (matches (xml_name cur) ''tp_name'' = 0) (do { x \<leftarrow> xword_strcpy lx cur (ci_tp_name cpic); Some (cpic\<lparr>ci_tp_name := x\<rparr>) }) cpic
   }"

definition sna_parse_cpic :: "libxml \<Rightarrow> nat \<Rightarrow> xml_node \<Rightarrow> cpic_info option" where
  "sna_parse_cpic lx ns cur = fold_nodes (cpic_field lx ns) (xml_children cur) new_cpic"

definition mode_field :: "libxml \<Rightarrow> nat \<Rightarrow> xml_node \<Rightarrow> mode_info \<Rightarrow> mode_info option" where
  "mode_field lx ns cur mode = do {
     mode \<leftarrow> set_if (matches (xml_name cur) ''name'' = 0) (do { x \<leftarrow> xword_strcpy_toupper lx cur (mi_name mode); Some (mode\<lparr>mi_name := x\<rparr>) }) mode;
     mode \<leftarrow> set_if (matches (xml_name cur) ''cos_name'' = 0) (do { x \<leftarrow> xword_strcpy_toupper lx cur (mi_cos_name mode); Some (mode\<lparr>mi_cos_name := x\<rparr>) }) mode;
     mode \<leftarrow> set_if (matches (xml_name cur) ''plu_name'' = 0) (do { x \<leftarrow> xword_netid lx cur; Some (mode\<lparr>mi_plu_name := x\<rparr>) }) mode;
     mode \<leftarrow> set_if (matches (xml_name cur) ''encryption'' = 0) (do { x \<leftarrow> xword_on_off lx cur; Some (mode\<lparr>mi_encryption := x\<rparr>) }) mode;
     mode \<leftarrow> set_if (matches (xml_name cur) ''tx_pacing'' = 0) (do { x \<leftarrow> xword_int lx cur; Some (mode\<lparr>mi_tx_pacing := x\<rparr>) }) mode;
     mode \<leftarrow> set_if (matches (xml_name cur) ''rx_pacing'' = 0) (do { x \<leftarrow> xword_int lx cur; Some (mode\<lparr>mi_rx_pacing := x\<rparr>) }) mode;
     mode \<leftarrow> set_if (matches (xml_name cur) ''max_tx_ru'' = 0) (do { x \<leftarrow> xword_int lx cur; Some (mode\<lparr>mi_max_tx_ru := x\<rparr>) }) mode;
     mode \<leftarrow> set_if (matches (xml_name cur) ''max_rx_ru'' = 0) (do { x \<leftarrow> xword_int lx cur; Some (mode\<lparr>mi_max_rx_ru := x\<rparr>) }) mode;
     mode \<leftarrow> set_if (matches (xml_name cur) ''min_conwinners'' = 0) (do { x \<leftarrow> xword_int lx cur; Some (mode\<lparr>mi_min_conwinners := x\<rparr>) }) mode;
     mode \<leftarrow> set_if (matches (xml_name cur) ''min_conlosers'' = 0) (do { x \<leftarrow> xword_int lx cur; Some (mode\<lparr>mi_min_conlosers := x\<rparr>) }) mode;
     mode \<leftarrow> set_if (matches (xml_name cur) ''max_sessions'' = 0) (do { x \<leftarrow> xword_int lx cur; Some (mode\<lparr>mi_max_sessions := x\<rparr>) }) mode;
     set_if (matches (xml_name cur) ''auto_activation'' = 0) (do { x \<leftarrow> xword_on_off lx cur; Some (mode\<lparr>mi_auto_activation := x\<rparr>) }) mode
   }"

definition sna_parse_mode :: "libxml \<Rightarrow> nat \<Rightarrow> xml_node \<Rightarrow> mode_info option" where
  "sna_parse_mode lx ns cur = fold_nodes (mode_field lx ns) (xml_children cur) new_mode"

definition lu_field :: "libxml \<Rightarrow> nat \<Rightarrow> xml_node \<Rightarrow> lu_info \<Rightarrow> lu_info option" where
  "lu_field lx ns cur lu = do {
     lu \<leftarrow> set_if (matches (xml_name cur) ''use_name'' = 0) (do { x \<leftarrow> xword_strcpy lx cur (lu_use_name lu); Some (lu\<lparr>lu_use_name := x\<rparr>) }) lu;
     lu \<leftarrow> set_if (matches (xml_name cur) ''where'' = 0) (do { x \<leftarrow> xword_lu_types lx cur; Some (lu\<lparr>lu_type := x\<rparr>) }) lu;
     lu \<leftarrow> set_if (matches (xml_name cur) ''syncpoint'' = 0) (do { x \<leftarrow> xword_on_off lx cur; Some (lu\<lparr>lu_syncpoint := x\<rparr>) }) lu;
     lu \<leftarrow> set_if (matches (xml_name cur) ''lu_sess_limit'' = 0) (do { x \<leftarrow> xword_int lx cur; Some (lu\<lparr>lu_sess_limit := x\<rparr>) }) lu;
     lu \<leftarrow> set_if (matches (xml_name cur) ''plu_name'' = 0) (do { x \<leftarrow> xword_netid lx cur; Some (lu\<lparr>lu_plu_name := x\<rparr>) }) lu;
     set_if (matches (xml_name cur) ''fqcp_name'' = 0) (do { x \<leftarrow> xword_netid lx cur; Some (lu\<lparr>lu_fqcp_name := x\<rparr>) }) lu
   }"

definition sna_parse_lu :: "libxml \<Rightarrow> nat \<Rightarrow> xml_node \<Rightarrow> lu_info option" where
  "sna_parse_lu lx ns cur = fold_nodes (lu_field lx ns) (xml_children cur) new_lu"

definition link_field :: "libxml \<Rightarrow> nat \<Rightarrow> xml_node \<Rightarrow> link_info \<Rightarrow> link_info option" where
  "link_field lx ns cur link = 
     (if xml_ns cur \<noteq> Some ns then Some link else do {
     link \<leftarrow> set_if (matches (xml_name cur) ''use_name'' = 0) (do { x \<leftarrow> xword_strcpy lx cur (li_use_name link); Some (link\<lparr>li_use_name := x\<rparr>) }) link;
     link \<leftarrow> set_if (matches (xml_name cur) ''role'' = 0) (do { x \<leftarrow> xword_role_types lx cur; Some (link\<lparr>li_role := x\<rparr>) }) link;
     link \<leftarrow> set_if (matches (xml_name cur) ''direction'' = 0) (do { x \<leftarrow> xword_direction_types lx cur; Some (link\<lparr>li_direction := x\<rparr>) }) link;
     link \<leftarrow> set_if (matches (xml_name cur) ''iface'' = 0) (do { x \<leftarrow> xword_strcpy lx cur (li_interface link); Some (link\<lparr>li_interface := x\<rparr>) }) link;
     link \<leftarrow> set_if (matches (xml_name cur) ''port'' = 0) (do { x \<leftarrow> xword_lsap lx cur; a \<leftarrow> poke (li_port link) 0 x; Some (link\<lparr>li_port := a\<rparr>) }) link;
     link \<leftarrow> set_if (matches (xml_name cur) ''byteswap'' = 0) (do { x \<leftarrow> xword_on_off lx cur; Some (link\<lparr>li_byteswap := x\<rparr>) }) link;
     link \<leftarrow> set_if (matches (xml_name cur) ''dstaddr'' = 0) (do { x \<leftarrow> xword_mac_address lx cur (li_dstaddr link); Some (link\<lparr>li_dstaddr := snd x\<rparr>) }) link;
     link \<leftarrow> set_if (matches (xml_name cur) ''dstport'' = 0) (do { x \<leftarrow> xword_lsap lx cur; a \<leftarrow> poke (li_dstport link) 0 x; Some (link\<lparr>li_dstport := a\<rparr>) }) link;
     link \<leftarrow> set_if (matches (xml_name cur) ''plu_name'' = 0) (do { x \<leftarrow> xword_netid lx cur; Some (link\<lparr>li_plu_name := x\<rparr>) }) link;
     link \<leftarrow> set_if (matches (xml_name cur) ''plu_node_id'' = 0) (do { x \<leftarrow> xword_nodeid lx cur; Some (link\<lparr>li_plu_node_id := x\<rparr>) }) link;
     link \<leftarrow> set_if (matches (xml_name cur) ''retry_on_fail'' = 0) (do { x \<leftarrow> xword_on_off lx cur; Some (link\<lparr>li_retry_on_fail := x\<rparr>) }) link;
     link \<leftarrow> set_if (matches (xml_name cur) ''retry_times'' = 0) (do { x \<leftarrow> xword_int lx cur; Some (link\<lparr>li_retry_times := x\<rparr>) }) link;
     link \<leftarrow> set_if (matches (xml_name cur) ''autoact'' = 0) (do { x \<leftarrow> xword_on_off lx cur; Some (link\<lparr>li_autoact := x\<rparr>) }) link;
     link \<leftarrow> set_if (matches (xml_name cur) ''tg_number'' = 0) (do { x \<leftarrow> xword_int lx cur; Some (link\<lparr>li_tg_number := x\<rparr>) }) link;
     link \<leftarrow> set_if (matches (xml_name cur) ''cost_per_byte'' = 0) (do { x \<leftarrow> xword_int lx cur; Some (link\<lparr>li_cost_per_byte := x\<rparr>) }) link;
     link \<leftarrow> set_if (matches (xml_name cur) ''cost_per_connect_time'' = 0) (do { x \<leftarrow> xword_int lx cur; Some (link\<lparr>li_cost_per_connect_time := x\<rparr>) }) link;
     link \<leftarrow> set_if (matches (xml_name cur) ''effective_capacity'' = 0) (do { x \<leftarrow> xword_int lx cur; Some (link\<lparr>li_effective_capacity := x\<rparr>) }) link;
     link \<leftarrow> set_if (matches (xml_name cur) ''propagation_delay'' = 0) (do { x \<leftarrow> xword_int lx cur; Some (link\<lparr>li_propagation_delay := x\<rparr>) }) link;
     link \<leftarrow> set_if (matches (xml_name cur) ''security'' = 0) (do { x \<leftarrow> xword_security lx cur; Some (link\<lparr>li_security := x\<rparr>) }) link;
     link \<leftarrow> set_if (matches (xml_name cur) ''user1'' = 0) (do { x \<leftarrow> xword_int lx cur; Some (link\<lparr>li_user1 := x\<rparr>) }) link;
     link \<leftarrow> set_if (matches (xml_name cur) ''user2'' = 0) (do { x \<leftarrow> xword_int lx cur; Some (link\<lparr>li_user2 := x\<rparr>) }) link;
     set_if (matches (xml_name cur) ''user3'' = 0) (do { x \<leftarrow> xword_int lx cur; Some (link\<lparr>li_user3 := x\<rparr>) }) link
   })"

definition sna_parse_link :: "libxml \<Rightarrow> nat \<Rightarrow> xml_node \<Rightarrow> link_info option" where
  "sna_parse_link lx ns cur = fold_nodes (link_field lx ns) (xml_children cur) new_link"

definition dlc_field :: "libxml \<Rightarrow> nat \<Rightarrow> xml_node \<Rightarrow> dlc_info \<Rightarrow> dlc_info option" where
  "dlc_field lx ns cur dlc = 
     (if xml_ns cur \<noteq> Some ns then Some dlc else do {
     dlc \<leftarrow> set_if (matches (xml_name cur) ''use_name'' = 0) (do { x \<leftarrow> xword_strcpy lx cur (di_use_name dlc); Some (dlc\<lparr>di_use_name := x\<rparr>) }) dlc;
     dlc \<leftarrow> set_if (matches (xml_name cur) ''iface'' = 0) (do { x \<leftarrow> xword_strcpy lx cur (di_interface dlc); Some (dlc\<lparr>di_interface := x\<rparr>) }) dlc;
     dlc \<leftarrow> set_if (matches (xml_name cur) ''port'' = 0) (do { x \<leftarrow> xword_lsap lx cur; a \<leftarrow> poke (di_port dlc) 0 x; Some (dlc\<lparr>di_port := a\<rparr>) }) dlc;
     dlc \<leftarrow> set_if (matches (xml_name cur) ''btu'' = 0) (do { x \<leftarrow> xword_int lx cur; Some (dlc\<lparr>di_btu := x\<rparr>) }) dlc;
     dlc \<leftarrow> set_if (matches (xml_name cur) ''mia'' = 0) (do { x \<leftarrow> xword_int lx cur; Some (dlc\<lparr>di_mia := x\<rparr>) }) dlc;
     set_if (matches (xml_name cur) ''moa'' = 0) (do { x \<leftarrow> xword_int lx cur; Some (dlc\<lparr>di_moa := x\<rparr>) }) dlc
   })"

definition sna_parse_dlc :: "libxml \<Rightarrow> nat \<Rightarrow> xml_node \<Rightarrow> dlc_info option" where
  "sna_parse_dlc lx ns cur = fold_nodes (dlc_field lx ns) (xml_children cur) new_dlc"

definition global_field :: "libxml \<Rightarrow> nat \<Rightarrow> xml_node \<Rightarrow> global_info \<Rightarrow> global_info option" where
  "global_field lx ns cur gi = 
     (if xml_ns cur \<noteq> Some ns then Some gi else do {
     gi \<leftarrow> set_if (matches (xml_name cur) ''debuglevel'' = 0) (do { x \<leftarrow> xword_strcpy lx cur (gi_debug_level gi); Some (gi\<lparr>gi_debug_level := x\<rparr>) }) gi;
     gi \<leftarrow> set_if (matches (xml_name cur) ''node_name'' = 0) (do { x \<leftarrow> xword_netid lx cur; Some (gi\<lparr>gi_node_name := x\<rparr>) }) gi;
     gi \<leftarrow> set_if (matches (xml_name cur) ''node_type'' = 0) (do { x \<leftarrow> xword_node_types lx cur; Some (gi\<lparr>gi_node_type := x\<rparr>) }) gi;
     gi \<leftarrow> set_if (matches (xml_name cur) ''node_id'' = 0) (do { x \<leftarrow> xword_nodeid lx cur; Some (gi\<lparr>gi_node_id := x\<rparr>) }) gi;
     gi \<leftarrow> set_if (matches (xml_name cur) ''max_lus'' = 0) (do { x \<leftarrow> xword_int lx cur; Some (gi\<lparr>gi_max_lus := x\<rparr>) }) gi;
     gi \<leftarrow> set_if (matches (xml_name cur) ''lu_seg'' = 0) (do { x \<leftarrow> xword_int lx cur; Some (gi\<lparr>gi_lu_seg := x\<rparr>) }) gi;
     set_if (matches (xml_name cur) ''bind_seg'' = 0) (do { x \<leftarrow> xword_int lx cur; Some (gi\<lparr>gi_bind_seg := x\<rparr>) }) gi
   })"

definition sna_parse_global :: "libxml \<Rightarrow> nat \<Rightarrow> xml_node \<Rightarrow> global_info option" where
  "sna_parse_global lx ns cur = fold_nodes (global_field lx ns) (xml_children cur) new_global"

section \<open>The document\<close>

text \<open>
  The state of the walk is \<^verbatim>\<open>ginfo\<close>, which has no value before the first element \<^verbatim>\<open>global\<close>: testing it then is a fault.
\<close>

definition node_field :: "libxml \<Rightarrow> nat \<Rightarrow> xml_node \<Rightarrow> global_info option \<Rightarrow> global_info option option" where
  "node_field lx ns cur ginfo =
     (let is = (\<lambda>w. xml_name cur = w \<and> xml_ns cur = Some ns) in
      if is ''global'' then do { gi \<leftarrow> sna_parse_global lx ns cur; Some (Some gi) }
      else if is ''dlc'' then do { x \<leftarrow> sna_parse_dlc lx ns cur; g \<leftarrow> ginfo; Some (Some (g\<lparr>gi_dlc_list := gi_dlc_list g @ [x]\<rparr>)) }
      else if is ''link'' then do { x \<leftarrow> sna_parse_link lx ns cur; g \<leftarrow> ginfo; Some (Some (g\<lparr>gi_link_list := gi_link_list g @ [x]\<rparr>)) }
      else if is ''lu'' then do { x \<leftarrow> sna_parse_lu lx ns cur; g \<leftarrow> ginfo; Some (Some (g\<lparr>gi_lu_list := gi_lu_list g @ [x]\<rparr>)) }
      else if is ''cos'' then do { x \<leftarrow> sna_parse_cos lx ns cur; g \<leftarrow> ginfo; Some (Some (g\<lparr>gi_cos_list := gi_cos_list g @ [x]\<rparr>)) }
      else if is ''mode'' then do { x \<leftarrow> sna_parse_mode lx ns cur; g \<leftarrow> ginfo; Some (Some (g\<lparr>gi_mode_list := gi_mode_list g @ [x]\<rparr>)) }
      else if is ''cpic'' then do { x \<leftarrow> sna_parse_cpic lx ns cur; g \<leftarrow> ginfo; Some (Some (g\<lparr>gi_cpic_list := gi_cpic_list g @ [x]\<rparr>)) }
      else Some ginfo)"

text \<open>
  The result and \<^verbatim>\<open>sna_config_info\<close>, which an early return leaves as it was. A document without an element \<^verbatim>\<open>global\<close> stores
  the variable that was never set.
\<close>

definition sna_read_config_file :: "libxml \<Rightarrow> string \<Rightarrow> global_info option \<Rightarrow> (int \<times> global_info option) option" where
  "sna_read_config_file lx cfile sna_config_info =
     (case open_config lx cfile of
        Inl err \<Rightarrow> Some (err, sna_config_info)
      | Inr (ns, cur) \<Rightarrow>
          if xml_name (hd cur) \<noteq> ''node'' \<or> xml_ns (hd cur) \<noteq> Some ns then Some (- 1, sna_config_info)
          else do {
            ginfo \<leftarrow> fold_nodes (node_field lx ns) (xml_children (hd cur)) None;
            g \<leftarrow> ginfo;
            Some (0, Some g)
          })"

section \<open>Requests\<close>

text \<open>What the program has changed outside: the file with the debug level and the requests to the kernel.\<close>

record load_state =
  debug_file :: string
  requests :: "nof_request list"

text \<open>One loop over the resources of a kind; it ends with the first error.\<close>

fun define_each :: "('r \<Rightarrow> nof_request list \<Rightarrow> (int \<times> nof_request list) option) \<Rightarrow> 'r list \<Rightarrow> nof_request list \<Rightarrow> (int \<times> nof_request list) option" where
  "define_each f [] sent = Some (0, sent)"
| "define_each f (x # xs) sent = do { (err, sent) \<leftarrow> f x sent; if err < 0 then Some (err, sent) else define_each f xs sent }"

definition node_block :: "global_info \<Rightarrow> sna_nof_node" where
  "node_block g =
     \<lparr>nn_netid = gi_node_name g, nn_nodeid = gi_node_id g, nn_type = word_of_int (gi_node_type g),
       nn_lu_seg = word_of_int (gi_lu_seg g), nn_bind_seg = word_of_int (gi_bind_seg g),
       nn_max_lus = word_of_int (gi_max_lus g)\<rparr>"

definition define_node :: "kernel \<Rightarrow> global_info \<Rightarrow> nof_request list \<Rightarrow> int \<times> nof_request list" where
  "define_node kn g = nof_define_node kn (node_block g)"

definition dlc_block :: "global_info \<Rightarrow> dlc_info \<Rightarrow> sna_nof_port option" where
  "dlc_block g dlc = do {
     saddr \<leftarrow> poke_block (replicate 12 0) 0 (di_port dlc);
     Some
      \<lparr>np_use_name = di_use_name dlc, np_netid = gi_node_name g, np_name = di_interface dlc, np_saddr = saddr,
       np_btu = word_of_int (di_btu dlc), np_mia = word_of_int (di_mia dlc), np_moa = word_of_int (di_moa dlc)\<rparr>
   }"

definition define_dlc :: "kernel \<Rightarrow> global_info \<Rightarrow> dlc_info \<Rightarrow> nof_request list \<Rightarrow> (int \<times> nof_request list) option" where
  "define_dlc kn g dlc sent = map_option (\<lambda>b. nof_define_port kn b sent) (dlc_block g dlc)"

text \<open>
  Eight octets are copied into \<^verbatim>\<open>dname\<close>, which has seven: the last falls on the first of \<^verbatim>\<open>daddr\<close> behind it and is overwritten
  by the next copy. Nine are copied from \<^verbatim>\<open>dstport\<close>, which has eight: the last is the low octet of \<^verbatim>\<open>role\<close> behind it.
\<close>

definition link_block :: "global_info \<Rightarrow> link_info \<Rightarrow> sna_nof_ls option" where
  "link_block g link = do {
     last \<leftarrow> peek (li_dstaddr link) 7;
     iface \<leftarrow> array_string (li_interface link);
     name \<leftarrow> poke_block (replicate 9 NUL) 0 (iface @ [NUL]);
     saddr \<leftarrow> poke_block (replicate 12 0) 0 (li_port link);
     daddr \<leftarrow> poke_block (last # replicate 11 0) 0 (li_dstport link @ [word_of_int (li_role link)]);
     Some
      \<lparr>ns_use_name = li_use_name link, ns_netid = gi_node_name g, ns_name = name, ns_saddr = saddr,
       ns_plu_name = li_plu_name link, ns_plu_node_id = li_plu_node_id link, ns_dname = take 7 (li_dstaddr link),
       ns_daddr = daddr, ns_role = li_role link, ns_direction = li_direction link, ns_byteswap = li_byteswap link,
       ns_retry_on_fail = li_retry_on_fail link, ns_retry_times = li_retry_times link, ns_autoact = li_autoact link,
       ns_tg_number = li_tg_number link, ns_cost_per_byte = li_cost_per_byte link,
       ns_cost_per_connect_time = li_cost_per_connect_time link, ns_effective_capacity = li_effective_capacity link,
       ns_propagation_delay = li_propagation_delay link, ns_security = li_security link, ns_user1 = li_user1 link,
       ns_user2 = li_user2 link, ns_user3 = li_user3 link\<rparr>
   }"

definition define_link :: "kernel \<Rightarrow> global_info \<Rightarrow> link_info \<Rightarrow> nof_request list \<Rightarrow> (int \<times> nof_request list) option" where
  "define_link kn g link sent = map_option (\<lambda>b. nof_define_link_station kn b sent) (link_block g link)"

definition cos_block :: "cos_info \<Rightarrow> sna_nof_cos option" where
  "cos_block cos = Some
      \<lparr>nc_name = co_name cos, nc_weight = word_of_int (co_weight cos), nc_tx_priority = word_of_int (co_tx_priority cos),
       nc_default_cos_invalid = word_of_int (co_default_cos_invalid cos),
       nc_default_cos_null = word_of_int (co_default_cos_null cos),
       nc_min_cost_per_connect = word_of_int (fst (co_cost_per_connect cos)),
       nc_max_cost_per_connect = word_of_int (snd (co_cost_per_connect cos)),
       nc_min_cost_per_byte = word_of_int (fst (co_cost_per_byte cos)),
       nc_max_cost_per_byte = word_of_int (snd (co_cost_per_byte cos)),
       nc_min_security = word_of_int (fst (co_security cos)), nc_max_security = word_of_int (snd (co_security cos)),
       nc_min_propagation_delay = word_of_int (fst (co_propagation_delay cos)),
       nc_max_propagation_delay = word_of_int (snd (co_propagation_delay cos)),
       nc_min_effective_capacity = word_of_int (fst (co_effective_capacity cos)),
       nc_max_effective_capacity = word_of_int (snd (co_effective_capacity cos)),
       nc_min_user1 = word_of_int (fst (co_user1 cos)), nc_max_user1 = word_of_int (snd (co_user1 cos)),
       nc_min_user2 = word_of_int (fst (co_user2 cos)), nc_max_user2 = word_of_int (snd (co_user2 cos)),
       nc_min_user3 = word_of_int (fst (co_user3 cos)), nc_max_user3 = word_of_int (snd (co_user3 cos)),
       nc_min_route_resistance = word_of_int (fst (co_route_resistance cos)),
       nc_max_route_resistance = word_of_int (snd (co_route_resistance cos)),
       nc_min_node_congested = word_of_int (fst (co_node_congested cos)),
       nc_max_node_congested = word_of_int (snd (co_node_congested cos))\<rparr>"

definition define_cos :: "kernel \<Rightarrow> cos_info \<Rightarrow> nof_request list \<Rightarrow> (int \<times> nof_request list) option" where
  "define_cos kn cos sent = map_option (\<lambda>b. nof_define_class_of_service kn b sent) (cos_block cos)"

definition mode_block :: "global_info \<Rightarrow> mode_info \<Rightarrow> sna_nof_mode option" where
  "mode_block g mode = Some
      \<lparr>nm_netid = gi_node_name g, nm_netid_plu = mi_plu_name mode, nm_mode_name = mi_name mode,
       nm_cos_name = mi_cos_name mode, nm_tx_pacing = word_of_int (mi_tx_pacing mode),
       nm_rx_pacing = word_of_int (mi_rx_pacing mode), nm_tx_max_ru = word_of_int (mi_max_tx_ru mode),
       nm_rx_max_ru = word_of_int (mi_max_rx_ru mode), nm_crypto = word_of_int (mi_encryption mode),
       nm_min_conwinners = word_of_int (mi_min_conwinners mode), nm_min_conlosers = word_of_int (mi_min_conlosers mode),
       nm_max_sessions = word_of_int (mi_max_sessions mode), nm_auto_activation = word_of_int (mi_auto_activation mode)\<rparr>"

definition define_mode :: "kernel \<Rightarrow> global_info \<Rightarrow> mode_info \<Rightarrow> nof_request list \<Rightarrow> (int \<times> nof_request list) option" where
  "define_mode kn g mode sent = map_option (\<lambda>b. nof_define_mode kn b sent) (mode_block g mode)"

definition partner_lu_block :: "global_info \<Rightarrow> lu_info \<Rightarrow> sna_nof_remote_lu" where
  "partner_lu_block g lu =
     \<lparr>nr_use_name = lu_use_name lu, nr_netid = gi_node_name g, nr_netid_plu = lu_plu_name lu,
       nr_netid_fqcp = lu_fqcp_name lu\<rparr>"

definition local_lu_block :: "global_info \<Rightarrow> lu_info \<Rightarrow> sna_nof_local_lu" where
  "local_lu_block g lu =
     \<lparr>nl_use_name = lu_use_name lu, nl_netid = gi_node_name g, nl_lu_name = lu_name lu,
       nl_sync_point = word_of_int (lu_syncpoint lu), nl_lu_sess_limit = word_of_int (lu_sess_limit lu)\<rparr>"

definition define_lu :: "kernel \<Rightarrow> global_info \<Rightarrow> lu_info \<Rightarrow> nof_request list \<Rightarrow> (int \<times> nof_request list) option" where
  "define_lu kn g lu sent =
     (if lu_type lu \<noteq> 0 then Some (nof_define_partner_lu kn (partner_lu_block g lu) sent)
      else Some (nof_define_local_lu kn (local_lu_block g lu) sent))"

text \<open>The member \<^verbatim>\<open>tp_name\<close> of the block has 64 characters, the one it is copied from 65.\<close>

definition cpic_block :: "global_info \<Rightarrow> cpic_info \<Rightarrow> sna_nof_cpic option" where
  "cpic_block g cpic = do {
     s \<leftarrow> array_string (ci_sym_dest_name cpic); sym \<leftarrow> poke_block (replicate 9 NUL) 0 (s @ [NUL]);
     m \<leftarrow> array_string (ci_mode_name cpic); mode \<leftarrow> poke_block (replicate 9 NUL) 0 (m @ [NUL]);
     t \<leftarrow> array_string (ci_tp_name cpic); tp \<leftarrow> poke_block (replicate 64 NUL) 0 (t @ [NUL]);
     Some
      \<lparr>nx_netid = gi_node_name g, nx_netid_plu = ci_plu_name cpic, nx_sym_dest_name = sym, nx_mode_name = mode, nx_tp_name = tp\<rparr>
   }"

definition define_cpic :: "kernel \<Rightarrow> global_info \<Rightarrow> cpic_info \<Rightarrow> nof_request list \<Rightarrow> (int \<times> nof_request list) option" where
  "define_cpic kn g cpic sent = map_option (\<lambda>b. nof_define_cpic_side_info kn b sent) (cpic_block g cpic)"

text \<open>The kinds in the order of the function, each only if the ones before had no error.\<close>

definition sna_execute_config_info :: "kernel \<Rightarrow> bool \<Rightarrow> global_info option \<Rightarrow> load_state \<Rightarrow> (int \<times> load_state) option" where
  "sna_execute_config_info kn can_open ginfo st =
     (case ginfo of
        None \<Rightarrow> Some (- 22, st)
      | Some g \<Rightarrow>
          if \<not> can_open then Some (- 1, st)
          else do {
            level \<leftarrow> array_string (gi_debug_level g);
            let st = st\<lparr>debug_file := level\<rparr>;
            let stop = (\<lambda>(err, sent). (err, st\<lparr>requests := sent\<rparr>));
            let (err, s) = define_node kn g (requests st);
            if err < 0 then Some (stop (err, s)) else do {
              (err, s) \<leftarrow> define_each (define_dlc kn g) (gi_dlc_list g) s;
              if err < 0 then Some (stop (err, s)) else do {
                (err, s) \<leftarrow> define_each (define_link kn g) (gi_link_list g) s;
                if err < 0 then Some (stop (err, s)) else do {
                  (err, s) \<leftarrow> define_each (define_cos kn) (gi_cos_list g) s;
                  if err < 0 then Some (stop (err, s)) else do {
                    (err, s) \<leftarrow> define_each (define_mode kn g) (gi_mode_list g) s;
                    if err < 0 then Some (stop (err, s)) else do {
                      (err, s) \<leftarrow> define_each (define_lu kn g) (gi_lu_list g) s;
                      if err < 0 then Some (stop (err, s)) else do {
                        (err, s) \<leftarrow> define_each (define_cpic kn g) (gi_cpic_list g) s;
                        if err < 0 then Some (stop (err, s)) else Some (stop (0, s))
                      } } } } } }
          })"

section \<open>Printing\<close>

definition print_dlc :: "dlc_info \<Rightarrow> string option" where
  "print_dlc dlc = do {
     x1 \<leftarrow> array_string (di_use_name dlc);
     x2 \<leftarrow> array_string (di_interface dlc);
     x3 \<leftarrow> map_option show_char_hex (peek (di_port dlc) 0);
     Some (''-------- Data link control --------\<newline>''
       @ labelled ''use_name'' x1
       @ labelled ''iface'' x2
       @ labelled ''port'' x3
       @ labelled_int ''btu'' (di_btu dlc)
       @ labelled_int ''mia'' (di_mia dlc)
       @ labelled_int ''moa'' (di_moa dlc)
       @ ''-----------------------------------\<newline>'')
   }"

definition print_link :: "link_info \<Rightarrow> string option" where
  "print_link link = do {
     x1 \<leftarrow> array_string (li_use_name link);
     x2 \<leftarrow> show_word role_types (li_role link);
     x3 \<leftarrow> show_word direction_types (li_direction link);
     x4 \<leftarrow> array_string (li_interface link);
     x5 \<leftarrow> map_option show_char_hex (peek (li_port link) 0);
     x6 \<leftarrow> sna_pr_netid (li_plu_name link);
     x7 \<leftarrow> Some (sna_pr_nodeid (ucast (li_plu_node_id link)));
     x8 \<leftarrow> sna_pr_ether (li_dstaddr link);
     x9 \<leftarrow> map_option show_char_hex (peek (li_dstport link) 0);
     Some (''-------- Link station --------\<newline>''
       @ labelled ''use_name'' x1
       @ labelled ''role'' x2
       @ labelled ''direction'' x3
       @ labelled ''iface'' x4
       @ labelled ''port'' x5
       @ labelled ''plu_name'' x6
       @ labelled ''plu_node_id'' x7
       @ labelled ''dstaddr'' x8
       @ labelled ''dstport'' x9
       @ labelled_int ''byteswap'' (li_byteswap link)
       @ labelled_int ''retry_on_fail'' (li_retry_on_fail link)
       @ labelled_int ''retry_times'' (li_retry_times link)
       @ labelled_int ''autoact'' (li_autoact link)
       @ labelled_int ''tg_number'' (li_tg_number link)
       @ labelled_int ''cost_per_byte'' (li_cost_per_byte link)
       @ labelled_int ''cost_per_connect_time'' (li_cost_per_connect_time link)
       @ labelled_int ''effective_capacity'' (li_effective_capacity link)
       @ labelled_int ''propagation_delay'' (li_propagation_delay link)
       @ labelled_int ''security'' (li_security link)
       @ labelled_int ''user1'' (li_user1 link)
       @ labelled_int ''user2'' (li_user2 link)
       @ labelled_int ''user3'' (li_user3 link)
       @ ''------------------------------\<newline>'')
   }"

definition print_lu :: "lu_info \<Rightarrow> string option" where
  "print_lu lu = do {
     u \<leftarrow> array_string (lu_use_name lu);
     rest \<leftarrow> (if lu_type lu = 0 then do {
       x0 \<leftarrow> array_string (lu_name lu);
       Some (labelled ''name'' x0
         @ labelled_int ''syncpoint'' (lu_syncpoint lu)
         @ labelled_int ''lu_sess_limit'' (lu_sess_limit lu)) }
       else do {
       x0 \<leftarrow> sna_pr_netid (lu_plu_name lu);
       x1 \<leftarrow> sna_pr_netid (lu_fqcp_name lu);
       Some (labelled ''plu_name'' x0
         @ labelled ''fqcp_name'' x1) });
     Some (''-------- Logical unit --------\<newline>'' @ labelled ''use_name'' u @ labelled_int ''type'' (lu_type lu) @ rest @ ''-------------------------------------\<newline>'')
   }"

definition print_mode :: "mode_info \<Rightarrow> string option" where
  "print_mode mode = do {
     x1 \<leftarrow> array_string (mi_name mode);
     x2 \<leftarrow> sna_pr_netid (mi_plu_name mode);
     x3 \<leftarrow> array_string (mi_cos_name mode);
     Some (''-------- Mode --------\<newline>''
       @ labelled ''name'' x1
       @ labelled ''plu_name'' x2
       @ labelled ''cos_name'' x3
       @ labelled_int ''encryption'' (mi_encryption mode)
       @ labelled_int ''tx_pacing'' (mi_tx_pacing mode)
       @ labelled_int ''rx_pacing'' (mi_rx_pacing mode)
       @ labelled_int ''max_tx_ru'' (mi_max_tx_ru mode)
       @ labelled_int ''max_rx_ru'' (mi_max_rx_ru mode)
       @ labelled_int ''max_sessions'' (mi_max_sessions mode)
       @ labelled_int ''min_conwinners'' (mi_min_conwinners mode)
       @ labelled_int ''min_conlosers'' (mi_min_conlosers mode)
       @ labelled_int ''auto_activation'' (mi_auto_activation mode)
       @ ''----------------------\<newline>'')
   }"

definition print_cpic :: "cpic_info \<Rightarrow> string option" where
  "print_cpic cpic = do {
     x1 \<leftarrow> array_string (ci_sym_dest_name cpic);
     x2 \<leftarrow> array_string (ci_mode_name cpic);
     x3 \<leftarrow> sna_pr_netid (ci_plu_name cpic);
     x4 \<leftarrow> array_string (ci_tp_name cpic);
     Some (''-------- CPI-C --------\<newline>''
       @ labelled ''sym_dest_name'' x1
       @ labelled ''mode_name'' x2
       @ labelled ''plu_name'' x3
       @ labelled ''tp_name'' x4
       @ ''-----------------------\<newline>'')
   }"

definition print_cos :: "cos_info \<Rightarrow> string option" where
  "print_cos cos = do {
     x1 \<leftarrow> array_string (co_name cos);
     Some (''-------- Cost of Service --------\<newline>''
       @ labelled ''cos_name'' x1
       @ labelled_int ''weight'' (co_weight cos)
       @ labelled_int ''tx_priority'' (co_tx_priority cos)
       @ labelled_int ''default_cos_invalid'' (co_default_cos_invalid cos)
       @ labelled_int ''default_cos_null'' (co_default_cos_null cos)
       @ labelled_int ''min_cost_per_connect'' (fst (co_cost_per_connect cos))
       @ labelled_int ''max_cost_per_connect'' (snd (co_cost_per_connect cos))
       @ labelled_int ''min_cost_per_byte'' (fst (co_cost_per_byte cos))
       @ labelled_int ''max_cost_per_byte'' (snd (co_cost_per_byte cos))
       @ labelled_int ''min_security'' (fst (co_security cos))
       @ labelled_int ''max_security'' (snd (co_security cos))
       @ labelled_int ''min_propagation_delay'' (fst (co_propagation_delay cos))
       @ labelled_int ''max_propagation_delay'' (snd (co_propagation_delay cos))
       @ labelled_int ''min_effective_capacity'' (fst (co_effective_capacity cos))
       @ labelled_int ''max_effective_capacity'' (snd (co_effective_capacity cos))
       @ labelled_int ''min_user1'' (fst (co_user1 cos))
       @ labelled_int ''max_user1'' (snd (co_user1 cos))
       @ labelled_int ''min_user2'' (fst (co_user2 cos))
       @ labelled_int ''max_user2'' (snd (co_user2 cos))
       @ labelled_int ''min_user3'' (fst (co_user3 cos))
       @ labelled_int ''max_user3'' (snd (co_user3 cos))
       @ labelled_int ''min_route_resistance'' (fst (co_route_resistance cos))
       @ labelled_int ''max_route_resistance'' (snd (co_route_resistance cos))
       @ labelled_int ''min_node_congested'' (fst (co_node_congested cos))
       @ labelled_int ''max_node_congested'' (snd (co_node_congested cos))
       @ ''---------------------------------\<newline>'')
   }"

fun print_each :: "('r \<Rightarrow> string option) \<Rightarrow> 'r list \<Rightarrow> string option" where
  "print_each f [] = Some []"
| "print_each f (x # xs) = do { a \<leftarrow> f x; b \<leftarrow> print_each f xs; Some (a @ b) }"

definition sna_print_config :: "global_info option \<Rightarrow> string option" where
  "sna_print_config ginfo = do {
     body \<leftarrow> (case ginfo of
        None \<Rightarrow> Some ''global data is NULL.\<newline>''
      | Some g \<Rightarrow> do {
          level \<leftarrow> array_string (gi_debug_level g);
          name \<leftarrow> sna_pr_netid (gi_node_name g);
          a \<leftarrow> print_each print_dlc (gi_dlc_list g);
          b \<leftarrow> print_each print_link (gi_link_list g);
          c \<leftarrow> print_each print_lu (gi_lu_list g);
          d \<leftarrow> print_each print_mode (gi_mode_list g);
          e \<leftarrow> print_each print_cpic (gi_cpic_list g);
          f \<leftarrow> print_each print_cos (gi_cos_list g);
          Some (labelled ''debug_level'' level @ labelled ''node_name'' name @ labelled_int ''node_type'' (gi_node_type g)
            @ labelled ''node_id'' (sna_pr_nodeid (ucast (gi_node_id g))) @ labelled_int ''max_lus'' (gi_max_lus g)
            @ labelled_int ''lu_seg'' (gi_lu_seg g) @ labelled_int ''bind_seg'' (gi_bind_seg g) @ a @ b @ c @ d @ e @ f)
        });
     Some (''\<newline>================ Global Input Structure ================\<newline>'' @ body
       @ ''=========================================================\<newline>'')
   }"

section \<open>The command\<close>

text \<open>The call ends the program or returns a result, the configuration, what was changed and what was printed.\<close>

datatype load_result = Exit int | Load (load_err: int) (load_config: "global_info option") (load_done: load_state) (load_out: string)

text \<open>The world of the command: the result of \<^verbatim>\<open>socket\<close>, whether the file with the debug level can be opened, and the kernel.\<close>

record load_world =
  nof_socket :: int
  can_open :: bool
  kern :: kernel

definition sna_load :: "libxml \<Rightarrow> load_world \<Rightarrow> int \<Rightarrow> string list \<Rightarrow> global_info option \<Rightarrow> load_state \<Rightarrow> load_result option" where
  "sna_load lx w sna_debug_level argv sna_config_info st =
     (case argv of
        [file] \<Rightarrow>
          if length file \<ge> 300 then Some (Exit 1)
          else do {
            (err, cfg) \<leftarrow> sna_read_config_file lx file sna_config_info;
            if err < 0 then Some (Load err cfg st []) else do {
              out \<leftarrow> (if sna_debug_level \<ge> 2 then sna_print_config cfg else Some []);
              let sk = nof_socket w;
              if sk < 0 then Some (Load sk cfg st out) else do {
                (err, st) \<leftarrow> sna_execute_config_info (kern w) (can_open w) cfg st;
                out' \<leftarrow> (if err < 0 then sna_print_config cfg else Some []);
                Some (Load err cfg st (out @ out'))
              }
            }
          }
      | _ \<Rightarrow> Some (Exit 1))"

end
