(* ===== verification/Sna_Ctrl.thy ===== *)
theory Sna_Ctrl
  imports Sna_Load
begin

text \<open>
  The commands that start, stop and delete resources (\<^verbatim>\<open>snaconfig/sna_ctrl.c\<close>). Each command names one resource; the block of the
  request is zero but for that name.
\<close>

section \<open>Blocks with a name only\<close>

definition new_nof_node :: sna_nof_node where
  "new_nof_node = \<lparr>nn_netid = no_netid, nn_nodeid = 0, nn_type = 0, nn_lu_seg = 0, nn_bind_seg = 0, nn_max_lus = 0\<rparr>"

definition new_nof_port :: sna_nof_port where
  "new_nof_port = \<lparr>np_use_name = replicate 40 NUL, np_netid = no_netid, np_name = replicate 9 NUL, np_saddr = replicate 12 0, np_btu = 0, np_mia = 0, np_moa = 0\<rparr>"

definition new_nof_ls :: sna_nof_ls where
  "new_nof_ls = \<lparr>ns_use_name = replicate 40 NUL, ns_netid = no_netid, ns_name = replicate 9 NUL, ns_saddr = replicate 12 0, ns_plu_name = no_netid, ns_plu_node_id = 0,
     ns_dname = replicate 7 0, ns_daddr = replicate 12 0, ns_role = 0, ns_direction = 0, ns_byteswap = 0, ns_retry_on_fail = 0, ns_retry_times = 0, ns_autoact = 0,
     ns_tg_number = 0, ns_cost_per_byte = 0, ns_cost_per_connect_time = 0, ns_effective_capacity = 0, ns_propagation_delay = 0, ns_security = 0,
     ns_user1 = 0, ns_user2 = 0, ns_user3 = 0\<rparr>"

definition new_nof_remote_lu :: sna_nof_remote_lu where
  "new_nof_remote_lu = \<lparr>nr_use_name = replicate 40 NUL, nr_netid = no_netid, nr_netid_plu = no_netid, nr_netid_fqcp = no_netid\<rparr>"

section \<open>Commands\<close>

type_synonym command = "load_world \<Rightarrow> string \<Rightarrow> nof_request list \<Rightarrow> (int \<times> nof_request list) option"

text \<open>All commands open the socket first, and return its error.\<close>

definition with_socket :: "load_world \<Rightarrow> nof_request list \<Rightarrow> (int \<times> nof_request list) option \<Rightarrow> (int \<times> nof_request list) option" where
  "with_socket w s act = (if nof_socket w < 0 then Some (nof_socket w, s) else act)"

definition sna_start_dlc :: command where
  "sna_start_dlc w name s = with_socket w s (do {
     u \<leftarrow> poke_block (replicate 40 NUL) 0 (name @ [NUL]);
     Some (nof_start_port (kern w) (new_nof_port\<lparr>np_use_name := u\<rparr>) s)
   })"

definition sna_start_link :: command where
  "sna_start_link w name s = with_socket w s (do {
     u \<leftarrow> poke_block (replicate 40 NUL) 0 (name @ [NUL]);
     Some (nof_start_link_station (kern w) (new_nof_ls\<lparr>ns_use_name := u\<rparr>) s)
   })"

definition sna_start_lu :: command where
  "sna_start_lu w name s = with_socket w s (do {
     u \<leftarrow> poke_block (replicate 40 NUL) 0 (name @ [NUL]);
     Some (nof_start_remote_lu (kern w) (new_nof_remote_lu\<lparr>nr_use_name := u\<rparr>) s)
   })"

definition sna_stop_dlc :: command where
  "sna_stop_dlc w name s = with_socket w s (do {
     u \<leftarrow> poke_block (replicate 40 NUL) 0 (name @ [NUL]);
     Some (nof_stop_port (kern w) (new_nof_port\<lparr>np_use_name := u\<rparr>) s)
   })"

definition sna_stop_link :: command where
  "sna_stop_link w name s = with_socket w s (do {
     u \<leftarrow> poke_block (replicate 40 NUL) 0 (name @ [NUL]);
     Some (nof_stop_link_station (kern w) (new_nof_ls\<lparr>ns_use_name := u\<rparr>) s)
   })"

definition sna_stop_lu :: command where
  "sna_stop_lu w name s = with_socket w s (do {
     u \<leftarrow> poke_block (replicate 40 NUL) 0 (name @ [NUL]);
     Some (nof_stop_remote_lu (kern w) (new_nof_remote_lu\<lparr>nr_use_name := u\<rparr>) s)
   })"

definition sna_delete_dlc :: command where
  "sna_delete_dlc w name s = with_socket w s (do {
     u \<leftarrow> poke_block (replicate 40 NUL) 0 (name @ [NUL]);
     Some (nof_delete_port (kern w) (new_nof_port\<lparr>np_use_name := u\<rparr>) s)
   })"

definition sna_delete_link :: command where
  "sna_delete_link w name s = with_socket w s (do {
     u \<leftarrow> poke_block (replicate 40 NUL) 0 (name @ [NUL]);
     Some (nof_delete_link_station (kern w) (new_nof_ls\<lparr>ns_use_name := u\<rparr>) s)
   })"

definition sna_start_node :: command where
  "sna_start_node w name s = with_socket w s (do {
     n \<leftarrow> sna_char_to_netid name;
     Some (nof_start_node (kern w) (new_nof_node\<lparr>nn_netid := n\<rparr>) s)
   })"

definition sna_stop_node :: command where
  "sna_stop_node w name s = with_socket w s (do {
     n \<leftarrow> sna_char_to_netid name;
     Some (nof_stop_node (kern w) (new_nof_node\<lparr>nn_netid := n\<rparr>) s)
   })"

definition sna_delete_node :: command where
  "sna_delete_node w name s = with_socket w s (do {
     n \<leftarrow> sna_char_to_netid name;
     Some (nof_delete_node (kern w) (new_nof_node\<lparr>nn_netid := n\<rparr>) s)
   })"

section \<open>Dispatch\<close>

text \<open>The program ends with a usage message, or the call returns.\<close>

datatype ctrl_result = Usage | Returned int "nof_request list"

definition returned :: "(int \<times> nof_request list) option \<Rightarrow> ctrl_result option" where
  "returned = map_option (\<lambda>(e, s). Returned e s)"

text \<open>With fewer than two arguments the usage is shown; the name is the second argument.\<close>

definition sna_start :: "load_world \<Rightarrow> string list \<Rightarrow> nof_request list \<Rightarrow> ctrl_result option" where
  "sna_start w argv s =
     (case argv of
        service # name # _ \<Rightarrow>
          if matches service ''node'' = 0 then returned (sna_start_node w name s)
          else if matches service ''dlc'' = 0 then returned (sna_start_dlc w name s)
          else if matches service ''link'' = 0 then returned (sna_start_link w name s)
          else if matches service ''lu'' = 0 then returned (sna_start_lu w name s)
          else if matches service ''all'' = 0 then Some (Returned 0 s)
          else Some Usage
      | _ \<Rightarrow> Some Usage)"

definition sna_stop :: "load_world \<Rightarrow> string list \<Rightarrow> nof_request list \<Rightarrow> ctrl_result option" where
  "sna_stop w argv s =
     (case argv of
        service # name # _ \<Rightarrow>
          if matches service ''node'' = 0 then returned (sna_stop_node w name s)
          else if matches service ''dlc'' = 0 then returned (sna_stop_dlc w name s)
          else if matches service ''link'' = 0 then returned (sna_stop_link w name s)
          else if matches service ''lu'' = 0 then Some (Returned 0 s)
          else if matches service ''all'' = 0 then Some (Returned 0 s)
          else Some Usage
      | _ \<Rightarrow> Some Usage)"

definition sna_delete :: "load_world \<Rightarrow> string list \<Rightarrow> nof_request list \<Rightarrow> ctrl_result option" where
  "sna_delete w argv s =
     (case argv of
        service # name # _ \<Rightarrow>
          if matches service ''node'' = 0 then returned (sna_delete_node w name s)
          else if matches service ''dlc'' = 0 then returned (sna_delete_dlc w name s)
          else if matches service ''link'' = 0 then returned (sna_delete_link w name s)
          else if matches service ''lu'' = 0 then Some (Returned 0 s)
          else if matches service ''all'' = 0 then Some (Returned 0 s)
          else Some Usage
      | _ \<Rightarrow> Some Usage)"

end
