(* ===== verification/Sna_Show.thy ===== *)
theory Sna_Show
  imports Sna_Ctrl "HOL-Library.List_Lexorder"
begin

text \<open>
  Showing what the kernel has (\<^verbatim>\<open>snaconfig/sna_show.c\<close>) and the main function of the program (\<^verbatim>\<open>snaconfig/snaconfig.c\<close>). The answers of
  the kernel are parameters; the buffers that the printing functions keep between calls are state.
\<close>

section \<open>What the kernel answers\<close>

record snareq =
  sq_net :: string
  sq_name :: string
  sq_nodeid :: u32
  sq_type :: u16
  sq_lu_seg :: u16
  sq_bind_seg :: u16
  sq_max_lus :: "64 word"
  sq_node_status :: u16

record lsreq =
  lq_use_name :: string
  lq_dev_name :: string
  lq_port_name :: string
  lq_flags :: u32
  lq_retries :: u32
  lq_xid_count :: u32
  lq_state :: u32
  lq_co_status :: u32
  lq_effective_role :: byte
  lq_effective_tg :: byte
  lq_tx_max_btu :: u16
  lq_rx_max_btu :: u16
  lq_tx_window :: u16
  lq_rx_window :: u16
  lq_plu_name :: sna_netid
  lq_plu_node_id :: u32
  lq_plu_mac_addr :: "byte list"
  lq_plu_port :: byte
  lq_role :: int
  lq_direction :: int
  lq_xid_init_method :: int
  lq_byteswap :: int
  lq_retry_on_fail :: int
  lq_retry_times :: int
  lq_autoact :: int
  lq_autodeact :: int
  lq_tg_number :: int
  lq_cost_per_byte :: int
  lq_cost_per_connect_time :: int
  lq_propagation_delay :: int
  lq_security :: int

record portreq =
  pq_use_name :: string
  pq_dev_name :: string
  pq_flags :: u32
  pq_ls_qlen :: u32
  pq_saddr :: "byte list"
  pq_btu :: u32
  pq_mia :: u32
  pq_moa :: u32
  pq_ls :: "lsreq list"

record dlcreq =
  dq_dev_name :: string
  dq_flags :: u32
  dq_type :: u16
  dq_mtu :: u16
  dq_dev_addr :: "byte list"
  dq_port :: "portreq list"

record lureq =
  uq_name :: string
  uq_sync_point :: byte
  uq_lu_sess_limit :: "64 word"
  uq_flags :: u16

record plureq =
  rq_plu_name :: sna_netid
  rq_parallel_ss :: byte
  rq_cnv_security :: byte
  rq_flags :: u16

record modereq =
  mq_mode_name :: string
  mq_cos_name :: string
  mq_plu_name :: sna_netid
  mq_flags :: u16
  mq_auto_activation :: u16
  mq_tx_pacing :: "64 word"
  mq_rx_pacing :: "64 word"
  mq_max_tx_ru :: "64 word"
  mq_max_rx_ru :: "64 word"
  mq_crypto :: "64 word"
  mq_max_sessions :: "64 word"
  mq_min_conlosers :: "64 word"
  mq_min_conwinners :: "64 word"
  mq_act_sessions :: "64 word"
  mq_act_conwinners :: "64 word"
  mq_act_conlosers :: "64 word"
  mq_pend_sessions :: "64 word"
  mq_pend_conwinners :: "64 word"
  mq_pend_conlosers :: "64 word"

record cpicsreq =
  xq_sym_dest_name :: string
  xq_netid_plu :: string
  xq_mode_name :: string
  xq_tp_name :: string

record cosreq =
  cq_name :: string
  cq_weight :: u16
  cq_tx_priority :: u16
  cq_default_cos_invalid :: byte
  cq_default_cos_null :: byte

record sna_all_info =
  a_net :: string
  a_name :: string
  a_nodeid :: u32
  a_type :: u16
  a_lu_seg :: u16
  a_bind_seg :: u16
  a_max_lus :: "64 word"
  a_node_status :: u16
  a_mode :: "modereq list"
  a_plu :: "plureq list"
  a_lu :: "lureq list"
  a_dl :: "dlcreq list"
  a_cpics :: "cpicsreq list"
  a_cos :: "cosreq list"

text \<open>The kernel and what else the command depends on: the result of \<^verbatim>\<open>socket\<close>, the lines of the list of nodes, and the memory behind a string literal.\<close>

record show_world =
  sw_socket :: int
  sw_nodes :: "string list option"
  sw_behind :: "string \<Rightarrow> string"
  sw_node :: "snareq answer"
  sw_dlc :: "dlcreq answer"
  sw_port :: "portreq answer"
  sw_ls :: "lsreq answer"
  sw_lu :: "lureq answer"
  sw_plu :: "plureq answer"
  sw_mode :: "modereq answer"
  sw_cpics :: "cpicsreq answer"
  sw_cos :: "cosreq answer"

text \<open>The queries copy eight or nine characters from where a literal begins.\<close>

definition literal :: "show_world \<Rightarrow> string \<Rightarrow> string" where
  "literal w s = s @ NUL # sw_behind w s"

section \<open>Gathering\<close>

text \<open>A loop that puts a copy of each entry in front of a list.\<close>

definition prepend_all :: "'e list \<Rightarrow> 'e list \<Rightarrow> 'e list" where
  "prepend_all es acc = fold Cons es acc"

definition same_string :: "string \<Rightarrow> string \<Rightarrow> bool option" where
  "same_string a b = do { x \<leftarrow> array_string a; y \<leftarrow> array_string b; Some (x = y) }"

text \<open>The ports of one device.\<close>

fun link_ports :: "dlcreq \<Rightarrow> portreq list \<Rightarrow> portreq list \<Rightarrow> portreq list option" where
  "link_ports dl [] acc = Some acc"
| "link_ports dl (port # rest) acc = do {
     eq \<leftarrow> same_string (dq_dev_name dl) (pq_dev_name port);
     link_ports dl rest (if eq then port\<lparr>pq_ls := []\<rparr> # acc else acc)
   }"

text \<open>The links of one port. The loop stops at the first link that differs in the name of the port and in the name of the device.\<close>

fun link_links :: "dlcreq \<Rightarrow> portreq \<Rightarrow> lsreq list \<Rightarrow> lsreq list \<Rightarrow> lsreq list option" where
  "link_links dl pt [] acc = Some acc"
| "link_links dl pt (ls # rest) acc = do {
     p \<leftarrow> same_string (lq_port_name ls) (pq_use_name pt);
     d \<leftarrow> (if p then Some True else same_string (lq_dev_name ls) (dq_dev_name dl));
     if \<not> p \<and> \<not> d then Some acc else link_links dl pt rest (ls # acc)
   }"

fun map_all :: "('a \<Rightarrow> 'b option) \<Rightarrow> 'a list \<Rightarrow> 'b list option" where
  "map_all f [] = Some []"
| "map_all f (x # xs) = do { y \<leftarrow> f x; ys \<leftarrow> map_all f xs; Some (y # ys) }"

definition ports_of :: "portreq list \<Rightarrow> dlcreq \<Rightarrow> dlcreq option" where
  "ports_of p dl = do { ps \<leftarrow> link_ports dl p (dq_port dl); Some (dl\<lparr>dq_port := ps\<rparr>) }"

definition links_of :: "lsreq list \<Rightarrow> dlcreq \<Rightarrow> dlcreq option" where
  "links_of l dl = do {
     ps \<leftarrow> map_all (\<lambda>pt. do { ls \<leftarrow> link_links dl pt l (pq_ls pt); Some (pt\<lparr>pq_ls := ls\<rparr>) }) (dq_port dl);
     Some (dl\<lparr>dq_port := ps\<rparr>)
   }"

text \<open>The data of one node. Without a node the result is an error; without a device the function returns early.\<close>

definition sna_show_gather_info :: "show_world \<Rightarrow> sna_all_info \<Rightarrow> (int \<times> sna_all_info) option" where
  "sna_show_gather_info w sna =
     (if sw_socket w < 0 then Some (sw_socket w, sna)
      else do {
        ns \<leftarrow> nof_query_node (sw_node w) (a_net sna) (a_name sna);
        case ns of
          [] \<Rightarrow> Some (- 2, sna)
        | n # _ \<Rightarrow> do {
            let sna = sna\<lparr>a_mode := [], a_dl := [], a_lu := [], a_plu := [], a_cpics := [], a_cos := [], a_type := sq_type n, a_nodeid := sq_nodeid n,
              a_lu_seg := sq_lu_seg n, a_bind_seg := sq_bind_seg n, a_max_lus := sq_max_lus n, a_node_status := sq_node_status n\<rparr>;
            d \<leftarrow> nof_query_dlc (sw_dlc w) (a_net sna) (a_name sna) (literal w ''eth0'');
            if d = [] then Some (0, sna) else do {
              let dls = prepend_all (map (\<lambda>dl. dl\<lparr>dq_port := []\<rparr>) d) [];
              p \<leftarrow> nof_query_port (sw_port w) (a_net sna) (a_name sna) (literal w ''*'') (literal w ''*'');
              dls \<leftarrow> map_all (ports_of p) dls;
              l \<leftarrow> nof_query_ls (sw_ls w) (a_net sna) (a_name sna) (literal w ''*'') (literal w ''*'') (literal w ''*'');
              dls \<leftarrow> map_all (links_of l) dls;
              ll \<leftarrow> nof_query_lu (sw_lu w) (literal w ''*'') (literal w ''*'') (literal w ''*'');
              pl \<leftarrow> nof_query_plu (sw_plu w);
              m \<leftarrow> nof_query_mode (sw_mode w);
              c \<leftarrow> nof_query_cpic_side_info (sw_cpics w);
              cs \<leftarrow> nof_query_cos (sw_cos w) (literal w ''*'');
              Some (0, sna\<lparr>a_dl := dls, a_lu := prepend_all ll [], a_plu := prepend_all pl [], a_mode := prepend_all m [], a_cpics := prepend_all c [],
                a_cos := prepend_all cs []\<rparr>)
            }
          }
      })"

section \<open>The list of nodes\<close>

definition strcmp :: "string \<Rightarrow> string \<Rightarrow> int" where
  "strcmp a b = (let x = map of_char a :: nat list; y = map of_char b in if x = y then 0 else if x < y then - 1 else 1)"

text \<open>The list is in the reverse order of the names.\<close>

fun sna_show_add_node :: "sna_all_info \<Rightarrow> sna_all_info list \<Rightarrow> sna_all_info list option" where
  "sna_show_add_node n [] = Some [n]"
| "sna_show_add_node n (sna # rest) = do {
     x \<leftarrow> array_string (a_name n);
     y \<leftarrow> array_string (a_name sna);
     if strcmp x y > 0 then Some (n # sna # rest) else do { r \<leftarrow> sna_show_add_node n rest; Some (sna # r) }
   }"

definition new_all_info :: sna_all_info where
  "new_all_info = \<lparr>a_net = replicate 9 NUL, a_name = replicate 9 NUL, a_nodeid = 0, a_type = 0, a_lu_seg = 0, a_bind_seg = 0, a_max_lus = 0, a_node_status = 0,
     a_mode = [], a_plu = [], a_lu = [], a_dl = [], a_cpics = [], a_cos = []\<rparr>"

text \<open>
  \<^verbatim>\<open>sscanf(p, "%s", buf)\<close> takes the first word; the buffer has 18 characters, and is not set if there is none. The word must have a dot
  and characters in front of it.
\<close>

definition sna_show_get_netid :: "string \<Rightarrow> (string \<times> string) option" where
  "sna_show_get_netid p =
     (let buf = takeWhile (\<lambda>c. \<not> is_space c) (dropWhile is_space p) in
      if buf = [] \<or> length buf \<ge> 18 then None
      else case dropWhile (\<lambda>x. x \<noteq> CHR ''.'') buf of
        [] \<Rightarrow> None
      | dot # rest \<Rightarrow> do {
          nm \<leftarrow> poke_block (replicate 9 NUL) 0 (rest @ [NUL]);
          tok \<leftarrow> strtok_dot buf;
          nt \<leftarrow> poke_block (replicate 9 NUL) 0 (tok @ [NUL]);
          Some (nt, nm)
        })"

fun read_node_lines :: "string list \<Rightarrow> sna_all_info list \<Rightarrow> sna_all_info list option" where
  "read_node_lines [] sna_list = Some sna_list"
| "read_node_lines (buf # rest) sna_list = do {
     (nt, nm) \<leftarrow> sna_show_get_netid buf;
     sna_list \<leftarrow> sna_show_add_node (new_all_info\<lparr>a_net := nt, a_name := nm\<rparr>) sna_list;
     read_node_lines rest sna_list
   }"

text \<open>The lines are as \<^verbatim>\<open>fgets\<close> gives them; the first is skipped.\<close>

definition sna_show_read_nodes :: "show_world \<Rightarrow> sna_all_info list \<Rightarrow> (int \<times> sna_all_info list) option" where
  "sna_show_read_nodes w sna_list =
     (case sw_nodes w of None \<Rightarrow> Some (- 22, sna_list) | Some ls \<Rightarrow> map_option (\<lambda>l. (0, l)) (read_node_lines (tl ls) sna_list))"

section \<open>Printing\<close>

text \<open>The three buffers that keep their contents from call to call.\<close>

record statics =
  state_buff :: string
  type_buff :: string
  status_buff :: string

type_synonym piece = "statics \<Rightarrow> (string \<times> statics) option"

fun pieces :: "piece list \<Rightarrow> piece" where
  "pieces [] st = Some ([], st)"
| "pieces (p # ps) st = do { (a, st) \<leftarrow> p st; (b, st) \<leftarrow> pieces ps st; Some (a @ b, st) }"

definition lit :: "string \<Rightarrow> piece" where "lit s st = Some (s, st)"
definition opt_text :: "string option \<Rightarrow> piece" where "opt_text s st = map_option (\<lambda>s. (s, st)) s"
definition str_of :: "string \<Rightarrow> piece" where "str_of a = opt_text (array_string a)"
definition num_text :: "int \<Rightarrow> piece" where "num_text v = lit (show_int v)"
definition word_text :: "wordmap list \<Rightarrow> int \<Rightarrow> piece" where "word_text wm v = opt_text (show_word wm v)"

text \<open>\<^verbatim>\<open>%-ns\<close>.\<close>

definition left_in :: "nat \<Rightarrow> string option \<Rightarrow> piece" where
  "left_in n s = opt_text (map_option (\<lambda>s. s @ replicate (n - length s) CHR '' '') s)"

text \<open>The last flag that is set decides; without one the text of the previous call is shown.\<close>

definition sna_pr_state :: "u16 \<Rightarrow> piece" where
  "sna_pr_state s st =
     (let b = state_buff st;
          b = (if s AND 0x1 \<noteq> 0 then ''DOWN'' else b);
          b = (if s AND 0x2 \<noteq> 0 then ''UP'' else b);
          b = (if s AND 0x8 \<noteq> 0 then ''INACTIVE'' else b);
          b = (if s AND 0x4 \<noteq> 0 then ''ACTIVE'' else b)
      in Some (b, st\<lparr>state_buff := b\<rparr>))"

definition sna_pr_link_type :: "u16 \<Rightarrow> piece" where
  "sna_pr_link_type t st =
     (let b = (if t = 1 then ''ether'' else if t = 772 then ''loop'' else type_buff st) in Some (b, st\<lparr>type_buff := b\<rparr>))"

definition sna_pr_ls_status :: "lsreq \<Rightarrow> piece" where
  "sna_pr_ls_status ls st =
     (let b = (if lq_state ls = 0 then ''OFFLINE''
               else if lq_state ls = 1 then (if lq_co_status ls = 0 then ''FAILED'' else if lq_direction ls = 1 then ''INCOMING'' else ''PENDING'')
               else if lq_state ls = 2 then ''ONLINE''
               else status_buff st)
      in Some (b, st\<lparr>status_buff := b\<rparr>))"

text \<open>\<^verbatim>\<open>printf\<close> of one resource after the other.\<close>

definition print_ls :: "lsreq \<Rightarrow> piece" where
  "print_ls ls = pieces
    [lit ''  link:'', str_of (lq_use_name ls), lit '' <'', sna_pr_state (ucast (lq_flags ls)), lit ''|'', sna_pr_ls_status ls,
     lit ''> role '', word_text role_types (lq_role ls), lit ''/'', word_text role_types (uint (lq_effective_role ls)),
     lit '' tg '', num_text (lq_tg_number ls), lit ''/'', num_text (uint (lq_effective_tg ls)), lit '' btu '',
     num_text (uint (lq_tx_max_btu ls)), lit ''/'', num_text (uint (lq_rx_max_btu ls)), lit '' win '',
     num_text (uint (lq_tx_window ls)), lit ''/'', num_text (uint (lq_rx_window ls)), lit '' \<newline>    plu/'',
     opt_text (sna_pr_netid (lq_plu_name ls)), lit '' nodeid '', lit (sna_pr_nodeid (ucast (lq_plu_node_id ls))), lit '' '',
     opt_text (sna_pr_ether (lq_plu_mac_addr ls)), lit ''@'', lit (''0x'' @ hex_field 2 (unat (lq_plu_port ls))),
     lit '' \<newline>    retry/'', word_text on_types (lq_retry_on_fail ls), lit '' retries '', num_text (sint (lq_retries ls)),
     lit ''/'', num_text (lq_retry_times ls), lit '' xid '', num_text (sint (lq_xid_count ls)), lit '' xid_init '',
     num_text (lq_xid_init_method ls), lit '' autoact/'', word_text on_types (lq_autoact ls), lit '' autodeact/'',
     word_text on_types (lq_autodeact ls), lit '' \<newline>    byteswap/'', word_text on_types (lq_byteswap ls),
     lit '' security/'', word_text security_types (lq_security ls), lit '' cpb '', num_text (lq_cost_per_byte ls), lit '' cpc '',
     num_text (lq_cost_per_connect_time ls), lit '' propagation_delay '', num_text (lq_propagation_delay ls), lit '' \<newline>'']"

definition print_port :: "portreq \<Rightarrow> piece" where
  "print_port port = pieces
    [lit ''  dlc:'', str_of (pq_use_name port), lit '' <'', sna_pr_state (ucast (pq_flags port)), lit ''> '',
     str_of (pq_dev_name port), lit ''@'', opt_text (map_option show_char_hex (peek (pq_saddr port) 0)), lit '' mia '',
     num_text (sint (pq_mia port)), lit '' moa '', num_text (sint (pq_moa port)), lit '' btu '', num_text (sint (pq_btu port)),
     lit '' links/'', num_text (sint (pq_ls_qlen port)), lit '' \<newline>'', pieces (map print_ls (pq_ls port))]"

definition print_device :: "dlcreq \<Rightarrow> piece" where
  "print_device dl = pieces
    [lit ''  device:'', str_of (dq_dev_name dl), lit '' <'', sna_pr_state (ucast (dq_flags dl)), lit ''> mtu '',
     num_text (uint (dq_mtu dl)), lit '' link/'', sna_pr_link_type (dq_type dl), lit '' '',
     opt_text (sna_pr_ether (dq_dev_addr dl)), lit '' \<newline>'', pieces (map print_port (dq_port dl))]"

definition print_local_lu :: "lureq \<Rightarrow> piece" where
  "print_local_lu lu = pieces
    [lit ''  lclu:'', str_of (uq_name lu), lit ''  sync_point:'', word_text on_types (uint (uq_sync_point lu)), lit ''  limit:'',
     num_text (sint (uq_lu_sess_limit lu)), lit ''  '', sna_pr_state (uq_flags lu), lit '' \<newline>'']"

definition print_plu :: "plureq \<Rightarrow> piece" where
  "print_plu plu = pieces
    [lit ''  rtlu:'', opt_text (sna_pr_netid (rq_plu_name plu)), lit ''  parallel_sessions:'',
     word_text on_types (uint (rq_parallel_ss plu)), lit ''  cnv_security:'', word_text on_types (uint (rq_cnv_security plu)),
     lit ''  '', sna_pr_state (rq_flags plu), lit '' \<newline>'']"

definition print_mode_info :: "modereq \<Rightarrow> piece" where
  "print_mode_info mode = pieces
    [lit ''     mode:'', left_in 8 (array_string (mq_mode_name mode)), lit ''  cos:'',
     left_in 8 (array_string (mq_cos_name mode)), lit ''  plu:'', opt_text (sna_pr_netid (mq_plu_name mode)), lit ''  '',
     sna_pr_state (mq_flags mode), lit '' \<newline>          Crypto:'',
     word_text on_types (sint (ucast (mq_crypto mode) :: u32)), lit '' Max_sessions:'', num_text (sint (mq_max_sessions mode)),
     lit '' Auto_activation:'', word_text on_types (uint (mq_auto_activation mode)), lit '' \<newline>          TX pacing:'',
     num_text (sint (mq_tx_pacing mode)), lit '' MTU:'', num_text (sint (mq_max_tx_ru mode)), lit '' Rx pacing:'',
     num_text (sint (mq_rx_pacing mode)), lit '' MRU:'', num_text (sint (mq_max_rx_ru mode)), lit '' MINCW:'',
     num_text (sint (mq_min_conwinners mode)), lit '' MINCL:'', num_text (sint (mq_min_conlosers mode)),
     lit '' \<newline>          ACTIVE  sessions:'', num_text (sint (mq_act_sessions mode)), lit '' conwinners:'',
     num_text (sint (mq_act_conwinners mode)), lit '' conlosers:'', num_text (sint (mq_act_conlosers mode)),
     lit '' \<newline>          PENDING sessions:'', num_text (sint (mq_pend_sessions mode)), lit '' conwinners:'',
     num_text (sint (mq_pend_conwinners mode)), lit '' conlosers:'', num_text (sint (mq_pend_conlosers mode)),
     lit '' \<newline>'']"

definition print_cpics :: "cpicsreq \<Rightarrow> piece" where
  "print_cpics cpics = pieces
    [lit ''     cpic:'', left_in 9 (array_string (xq_sym_dest_name cpics)), lit '' plu:'', str_of (xq_netid_plu cpics),
     lit ''  mode:'', str_of (xq_mode_name cpics), lit ''  tp:'', str_of (xq_tp_name cpics), lit ''  \<newline>'']"

definition print_cos_info :: "cosreq \<Rightarrow> piece" where
  "print_cos_info cos = pieces
    [lit ''      cos:'', left_in 9 (array_string (cq_name cos)), lit '' weight:'',
     left_in 3 (Some (show_int (uint (cq_weight cos)))), lit '' tx_priority:'',
     left_in 8 (show_word tx_types (uint (cq_tx_priority cos))), lit '' dnull:'',
     left_in 4 (show_word on_types (uint (cq_default_cos_null cos))), lit '' dinvalid:'',
     word_text on_types (uint (cq_default_cos_invalid cos)), lit '' \<newline>'']"

definition node_kind :: "u16 \<Rightarrow> string" where
  "node_kind t = (if t = 1 then ''Len '' else []) @ (if t = 2 then ''Appn_En '' else []) @ (if t = 3 then ''Appn_Nn '' else [])"

definition sna_show_print :: "bool \<Rightarrow> sna_all_info \<Rightarrow> piece" where
  "sna_show_print show_all sna = pieces
    ([str_of (a_net sna), lit ''.'', str_of (a_name sna), lit '' <'', sna_pr_state (a_node_status sna), lit ''> nodeid '', lit (sna_pr_nodeid (ucast (a_nodeid sna))),
      lit '' nodetype/'', lit (node_kind (a_type sna)), lit ''\<newline>  maxlus:'', num_text (sint (a_max_lus sna)), lit '' curlus:0 luseg:'',
      word_text on_types (uint (a_lu_seg sna)), lit '' bindseg:'', word_text on_types (uint (a_bind_seg sna)), lit '' \<newline>'']
     @ map print_device (a_dl sna) @ map print_local_lu (a_lu sna) @ map print_plu (a_plu sna)
     @ (if show_all then map print_mode_info (a_mode sna) @ map print_cpics (a_cpics sna) @ map print_cos_info (a_cos sna) else []))"

section \<open>The command\<close>

text \<open>The nodes one after the other; the first error ends the loop. The result is the error, the nodes and what was printed.\<close>

fun show_nodes :: "show_world \<Rightarrow> bool \<Rightarrow> sna_all_info list \<Rightarrow> statics \<Rightarrow> (int \<times> string \<times> statics) option" where
  "show_nodes w flag [] st = Some (0, [], st)"
| "show_nodes w flag (sna # rest) st = do {
     (err, sna) \<leftarrow> sna_show_gather_info w sna;
     if err \<noteq> 0 then Some (err, [], st) else do {
       (a, st) \<leftarrow> sna_show_print flag sna st;
       (err, b, st) \<leftarrow> show_nodes w flag rest st;
       Some (err, a @ b, st)
     }
   }"

definition sna_show_all :: "show_world \<Rightarrow> bool \<Rightarrow> sna_all_info list \<Rightarrow> statics \<Rightarrow> (int \<times> string) option" where
  "sna_show_all w flag sna_list st = do {
     (err, sna_list) \<leftarrow> (if sna_list = [] then sna_show_read_nodes w sna_list else Some (0, sna_list));
     if err < 0 then Some (- 22, []) else map_option (\<lambda>(e, a, st). (e, a)) (show_nodes w flag sna_list st)
   }"

abbreviation (input) fresh_statics :: statics where "fresh_statics \<equiv> \<lparr>state_buff = [], type_buff = [], status_buff = []\<rparr>"

text \<open>\<^term>\<open>None\<close> inside is the usage message.\<close>

definition sna_show :: "show_world \<Rightarrow> string list \<Rightarrow> (int \<times> string) option option" where
  "sna_show w argv =
     (case argv of
        [] \<Rightarrow> map_option Some (sna_show_all w False [] fresh_statics)
      | service # rest \<Rightarrow>
          if rest = [] \<and> matches service ''all'' = 0 then map_option Some (sna_show_all w True [] fresh_statics)
          else if rest = [] then Some None
          else if matches service ''node'' = 0 \<or> matches service ''dlc'' = 0 \<or> matches service ''link'' = 0 then Some (Some (0, []))
          else Some None)"

section \<open>The program\<close>

text \<open>The flags in front of the action: \<^term>\<open>Inl\<close> ends the program.\<close>

fun parse_flags :: "string list \<Rightarrow> int \<Rightarrow> int + int \<times> string list" where
  "parse_flags [] level = Inr (level, [])"
| "parse_flags [opt] level =
     (if take 1 opt \<noteq> ''-'' then Inr (level, [opt])
      else let opt = (if take 1 (tl opt) = ''-'' then tl opt else opt) in
        if matches opt ''h'' = 0 \<or> matches opt ''-help'' = 0 then Inl 1
        else if matches opt ''v'' = 0 \<or> matches opt ''-version'' = 0 then Inl 1
        else if matches opt ''d'' = 0 \<or> matches opt ''-debug'' = 0 then Inl 1
        else Inr (level, []))"
| "parse_flags (opt # arg # rest) level =
     (if take 1 opt \<noteq> ''-'' then Inr (level, opt # arg # rest)
      else let opt = (if take 1 (tl opt) = ''-'' then tl opt else opt) in
        if matches opt ''h'' = 0 \<or> matches opt ''-help'' = 0 then Inl 1
        else if matches opt ''v'' = 0 \<or> matches opt ''-version'' = 0 then Inl 1
        else if matches opt ''d'' = 0 \<or> matches opt ''-debug'' = 0 then parse_flags rest (atoi arg)
        else parse_flags (arg # rest) level)"

text \<open>What the program does, by its exit status, the requests it made and what it printed.\<close>

record outcome =
  status :: int
  made :: load_state
  printed :: string

definition ctrl_outcome :: "load_state \<Rightarrow> ctrl_result option \<Rightarrow> outcome option" where
  "ctrl_outcome st = map_option (\<lambda>r. case r of Usage \<Rightarrow> \<lparr>status = 1, made = st, printed = []\<rparr>
     | Returned e s \<Rightarrow> \<lparr>status = e, made = st\<lparr>requests := s\<rparr>, printed = []\<rparr>)"

definition snaconfig_main :: "libxml \<Rightarrow> load_world \<Rightarrow> show_world \<Rightarrow> string list \<Rightarrow> load_state \<Rightarrow> outcome option" where
  "snaconfig_main lx w sw args st =
     (case parse_flags args 1 of
        Inl e \<Rightarrow> Some \<lparr>status = e, made = st, printed = []\<rparr>
      | Inr (level, []) \<Rightarrow> Some \<lparr>status = 1, made = st, printed = []\<rparr>
      | Inr (level, action # argv) \<Rightarrow>
          if matches action ''find'' = 0 then Some \<lparr>status = 0, made = st, printed = []\<rparr>
          else if matches action ''load'' = 0 then
            map_option (\<lambda>r. case r of Exit e \<Rightarrow> \<lparr>status = e, made = st, printed = []\<rparr> | Load e g st' out \<Rightarrow> \<lparr>status = e, made = st', printed = out\<rparr>)
              (sna_load lx w level argv None st)
          else if matches action ''reload'' = 0 then Some \<lparr>status = 0, made = st, printed = []\<rparr>
          else if matches action ''unload'' = 0 then Some \<lparr>status = 0, made = st, printed = []\<rparr>
          else if matches action ''start'' = 0 then ctrl_outcome st (sna_start w argv (requests st))
          else if matches action ''stop'' = 0 then ctrl_outcome st (sna_stop w argv (requests st))
          else if matches action ''delete'' = 0 then ctrl_outcome st (sna_delete w argv (requests st))
          else if matches action ''show'' = 0 then
            map_option (\<lambda>r. case r of None \<Rightarrow> \<lparr>status = 1, made = st, printed = []\<rparr> | Some (e, out) \<Rightarrow> \<lparr>status = e, made = st, printed = out\<rparr>) (sna_show sw argv)
          else Some \<lparr>status = 1, made = st, printed = []\<rparr>)"

end
