(* ===== verification/Sna_Config.thy ===== *)
theory Sna_Config
  imports Sna_Load
begin

text \<open>
  Properties of loading a configuration: a configuration that is written as a document is read back from it; executing it is
  to submit its requests in order until one is refused; and what follows for the command as a whole.
\<close>

section \<open>Numbers and names as text\<close>

lemma digit10: "n < 10 \<Longrightarrow> digit_val (''0123456789'' ! n) = Some n \<and> \<not> is_space (''0123456789'' ! n)
    \<and> ''0123456789'' ! n \<noteq> CHR ''-'' \<and> ''0123456789'' ! n \<noteq> CHR ''+''"
proof -
  have "list_all (\<lambda>n. digit_val (''0123456789'' ! n) = Some n \<and> \<not> is_space (''0123456789'' ! n)
    \<and> ''0123456789'' ! n \<noteq> CHR ''-'' \<and> ''0123456789'' ! n \<noteq> CHR ''+'') [0..<10]" by code_simp
  then show "n < 10 \<Longrightarrow> digit_val (''0123456789'' ! n) = Some n \<and> \<not> is_space (''0123456789'' ! n)
    \<and> ''0123456789'' ! n \<noteq> CHR ''-'' \<and> ''0123456789'' ! n \<noteq> CHR ''+''" by (simp only: list_all_iff) auto
qed

lemma digits10_ne [simp]: "digits10 n \<noteq> []"
  by (subst digits10.simps) simp

lemma digits10_chars: "c \<in> set (digits10 n) \<Longrightarrow> is_digit 10 c \<and> \<not> is_space c \<and> c \<noteq> CHR ''-'' \<and> c \<noteq> CHR ''+''"
proof (induction n rule: digits10.induct)
  case (1 n)
  then show ?case using digit10 [of "n mod 10"]
    by (subst (asm) digits10.simps) (auto simp: is_digit_def simp del: nth_Cons_0 nth_Cons_Suc split: if_splits)
qed

lemma digits_val_digits10: "digits_val 10 (digits10 n) = n"
proof (induction n rule: digits10.induct)
  case (1 n)
  then show ?case using digit10 [of "n mod 10"]
    by (subst digits10.simps) (auto simp: digits_val_def simp del: nth_Cons_0 nth_Cons_Suc)
qed

definition int32 :: "int \<Rightarrow> bool" where
  "int32 v \<longleftrightarrow> - (2 ^ 31) \<le> v \<and> v < 2 ^ 31"

lemma sint_int32: "int32 v \<Longrightarrow> sint (word_of_int v :: u32) = v"
  by (simp add: int32_def int_word_sint mod_pos_pos_trivial)

lemma atoi_show_int: "int32 v \<Longrightarrow> atoi (show_int v) = v"
proof -
  assume v: "int32 v"
  have scan: "takeWhile (is_digit 10) (digits10 n) = digits10 n" for n using digits10_chars by (simp add: takeWhile_id)
  have first: "\<not> is_space (hd (digits10 n))" "hd (digits10 n) \<noteq> CHR ''-''" "hd (digits10 n) \<noteq> CHR ''+''" for n
    using digits10_chars [of "hd (digits10 n)" n] by auto
  have pos: "dropWhile is_space (digits10 n) = digits10 n" "strtol_sign (digits10 n) = (False, digits10 n)" for n
    using first [of n] by (cases "digits10 n"; simp add: strtol_sign_def)+
  have neg: "dropWhile is_space (''-'' @ s) = ''-'' @ s" "strtol_sign (''-'' @ s) = (True, s)" for s
    by (simp_all add: strtol_sign_def is_space_def)
  have "clamp_long v = v" using v by (simp add: clamp_long_def int32_def)
  then show ?thesis using sint_int32 [OF v]
    by (cases "v < 0") (simp_all only: show_int_def if_True if_False atoi_def neg pos scan digits_val_digits10 Let_def prod.case int_nat_eq, simp_all)
qed

lemma show_int_ne [simp]: "show_int v \<noteq> []"
  by (simp add: show_int_def)

section \<open>Arrays\<close>

text \<open>An array that holds one string, not empty, and zeros behind it.\<close>

definition string_in :: "string \<Rightarrow> string" where
  "string_in a = takeWhile (\<lambda>c. c \<noteq> NUL) a"

definition holds_string :: "nat \<Rightarrow> string \<Rightarrow> bool" where
  "holds_string n a \<longleftrightarrow> length (string_in a) < n \<and> string_in a \<noteq> [] \<and> a = string_in a @ replicate (n - length (string_in a)) NUL"

lemma poke_string:
  assumes "holds_string n a"
  shows "poke_block (replicate n NUL) 0 (string_in a @ [NUL]) = Some a"
proof -
  obtain k where "n - length (string_in a) = Suc k" using assms by (metis holds_string_def Suc_diff_Suc)
  then have "n = length (string_in a) + Suc k" using assms by (simp add: holds_string_def)
  moreover have "a = string_in a @ replicate (n - length (string_in a)) NUL" using assms by (simp add: holds_string_def)
  ultimately show ?thesis by (simp add: poke_block_def drop_replicate)
qed

lemma array_string_holds: "holds_string n a \<Longrightarrow> array_string a = Some (string_in a)"
proof -
  assume a: "holds_string n a"
  then have "0 < n - length (string_in a)" by (simp add: holds_string_def)
  then have "NUL \<in> set (string_in a @ replicate (n - length (string_in a)) NUL)" by simp
  then show ?thesis using a unfolding holds_string_def array_string_def string_in_def by metis
qed

section \<open>Writing a document\<close>

definition text_node :: "string \<Rightarrow> xml_node" where
  "text_node s = Xml None ''text'' s []"

definition leaf :: "nat \<Rightarrow> string \<Rightarrow> string \<Rightarrow> xml_node" where
  "leaf ns n s = Xml (Some ns) n [] [text_node s]"

definition branch :: "nat \<Rightarrow> string \<Rightarrow> xml_node list \<Rightarrow> xml_node" where
  "branch ns n xs = Xml (Some ns) n [] xs"

text \<open>What the readers need of the XML library: the text of a list with one text node is its content.\<close>

definition gives_text :: "libxml \<Rightarrow> bool" where
  "gives_text lx \<longleftrightarrow> (\<forall>s. s \<noteq> [] \<longrightarrow> xmlNodeListGetString lx [text_node s] = Some s)"

lemma xml_leaf [simp]: "xml_name (leaf ns n s) = n" "xml_ns (leaf ns n s) = Some ns"
  "xml_name (branch ns n xs) = n" "xml_ns (branch ns n xs) = Some ns" "xml_children (branch ns n xs) = xs"
  by (simp_all add: leaf_def branch_def)

lemma node_text_leaf: "gives_text lx \<Longrightarrow> s \<noteq> [] \<Longrightarrow> node_text lx (leaf ns n s) = Some s"
  by (simp add: node_text_def leaf_def gives_text_def)

named_theorems reads \<open>what is read from an element\<close>

lemma read_int [reads]: "gives_text lx \<Longrightarrow> int32 v \<Longrightarrow> xword_int lx (leaf ns n (show_int v)) = Some v"
  by (simp add: xword_int_def node_text_leaf atoi_show_int)

definition word_for :: "wordmap list \<Rightarrow> int \<Rightarrow> string" where
  "word_for wm v = (case xword_pr_word wm v of Some (Some w) \<Rightarrow> w | _ \<Rightarrow> [])"

text \<open>A value of a table is written as its word. No table has a word or a value twice.\<close>

definition word_value :: "wordmap list \<Rightarrow> int \<Rightarrow> bool" where
  "word_value wm v \<longleftrightarrow> word_for wm v \<noteq> [] \<and> map_word wm (word_for wm v) = Some v"

lemma read_word: "gives_text lx \<Longrightarrow> word_value wm v \<Longrightarrow> xword_word wm lx (leaf ns n (word_for wm v)) = Some v"
  by (simp add: xword_word_def word_value_def node_text_leaf)

lemma read_on_off [reads]: "gives_text lx \<Longrightarrow> word_value on_types v \<Longrightarrow> xword_on_off lx (leaf ns n (word_for on_types v)) = Some v"
  by (simp add: xword_on_off_def read_word)

lemma read_tx [reads]: "gives_text lx \<Longrightarrow> word_value tx_types v \<Longrightarrow> xword_tx_types lx (leaf ns n (word_for tx_types v)) = Some v"
  by (simp add: xword_tx_types_def read_word)

lemma read_lu_type [reads]: "gives_text lx \<Longrightarrow> word_value lu_types v \<Longrightarrow> xword_lu_types lx (leaf ns n (word_for lu_types v)) = Some v"
  by (simp add: xword_lu_types_def read_word)

lemma read_node_type [reads]: "gives_text lx \<Longrightarrow> word_value node_types v \<Longrightarrow> xword_node_types lx (leaf ns n (word_for node_types v)) = Some v"
  by (simp add: xword_node_types_def read_word)

lemma read_role [reads]: "gives_text lx \<Longrightarrow> word_value role_types v \<Longrightarrow> xword_role_types lx (leaf ns n (word_for role_types v)) = Some v"
  by (simp add: xword_role_types_def read_word)

lemma read_direction [reads]: "gives_text lx \<Longrightarrow> word_value direction_types v \<Longrightarrow> xword_direction_types lx (leaf ns n (word_for direction_types v)) = Some v"
  by (simp add: xword_direction_types_def read_word)

lemma read_security [reads]: "gives_text lx \<Longrightarrow> word_value security_types v \<Longrightarrow> xword_security lx (leaf ns n (word_for security_types v)) = Some v"
  by (simp add: xword_security_def read_word)

lemma read_strcpy [reads]:
  "gives_text lx \<Longrightarrow> holds_string k a \<Longrightarrow> xword_strcpy lx (leaf ns n (string_in a)) (replicate k NUL) = Some a"
  by (simp add: xword_strcpy_def node_text_leaf poke_string holds_string_def)

definition upper :: "string \<Rightarrow> bool" where
  "upper a \<longleftrightarrow> map toupper a = a"

lemma read_strcpy_toupper [reads]:
  assumes "gives_text lx" "holds_string k a" "upper a"
  shows "xword_strcpy_toupper lx (leaf ns n (string_in a)) (replicate k NUL) = Some a"
proof -
  let ?s = "string_in a"
  have "?s \<noteq> []" and a: "a = ?s @ replicate (k - length ?s) NUL" using assms(2) by (simp_all add: holds_string_def)
  have "map toupper (take (length ?s) a) = take (length ?s) a" using assms(3) by (metis upper_def take_map)
  then show ?thesis using \<open>?s \<noteq> []\<close> assms(1) poke_string [OF assms(2)] by (simp add: xword_strcpy_toupper_def node_text_leaf)
qed

text \<open>Network names.\<close>

definition part_in :: "string \<Rightarrow> string" where
  "part_in a = takeWhile (\<lambda>c. c \<noteq> CHR '' '') (take 8 a)"

definition good_netid :: "sna_netid \<Rightarrow> bool" where
  "good_netid n \<longleftrightarrow> name_part (part_in (net n)) \<and> name_part (part_in (nname n)) \<and> net n = padded (part_in (net n)) \<and> nname n = padded (part_in (nname n))"

definition netid_text :: "sna_netid \<Rightarrow> string" where
  "netid_text n = part_in (net n) @ ''.'' @ part_in (nname n)"

lemma read_netid [reads]: "gives_text lx \<Longrightarrow> good_netid n \<Longrightarrow> xword_netid lx (leaf ns e (netid_text n)) = Some n"
proof -
  assume lx: "gives_text lx" and n: "good_netid n"
  have "sna_char_to_netid (netid_text n) = Some n" using netid_read [of "part_in (net n)" "part_in (nname n)"] n
    by (cases n) (simp add: good_netid_def netid_text_def)
  then show ?thesis using lx by (simp add: xword_netid_def node_text_leaf netid_text_def)
qed

text \<open>Node identifiers, service access points and adapter addresses.\<close>

lemma hex_field_ne: "hex_field k n \<noteq> []"
  by (simp add: hex_field_def hex_digits.simps [of n])

lemma read_nodeid [reads]: "gives_text lx \<Longrightarrow> xword_nodeid lx (leaf ns e (hex_field 8 (unat w))) = Some w"
proof -
  assume lx: "gives_text lx"
  have "unat w < 2 ^ 32" using unsigned_less [of w, where ?'a = nat] by simp
  moreover from this have "ucast (word_of_nat (unat w) :: 64 word) = w"
    by (simp add: word_unat_eq_iff unsigned_ucast_eq unsigned_of_nat take_bit_nat_eq_self take_bit_word_eq_self)
  ultimately show ?thesis using lx by (simp add: xword_nodeid_def node_text_leaf hex_field_ne nodeid_read)
qed

lemma strtol0_octet: "n < 256 \<Longrightarrow> fst (strtol0 (''0x'' @ hex_field 2 n)) = int n"
proof -
  assume n: "n < 256"
  let ?h = "hex_fixed 2 n"
  have h: "hex_field 2 n = ?h" using n by (simp add: hex_field_fixed)
  obtain a b where ab: "?h = [a, b]" using length_hex_fixed [of 2 n] by (auto simp: length_Suc_conv numeral_2_eq_2)
  have "is_digit 16 a" "is_digit 16 b" using hex_fixed_chars [of _ 2 n] ab by auto
  moreover have "digits_val 16 [a, b] = n" using digits_val_hex_fixed [of n 2] n ab by simp
  ultimately show ?thesis using n
    by (simp add: h ab strtol0_def strtol_sign_def strtol_prefix_def is_space_def clamp_long_def Let_def)
qed

definition octet_text :: "byte \<Rightarrow> string" where
  "octet_text b = ''0x'' @ hex_field 2 (unat b)"

lemma read_lsap [reads]: "gives_text lx \<Longrightarrow> xword_lsap lx (leaf ns e (octet_text b)) = Some b"
proof -
  have "unat b < 256" using unsigned_less [of b, where ?'a = nat] by simp
  then show "gives_text lx \<Longrightarrow> xword_lsap lx (leaf ns e (octet_text b)) = Some b"
    using strtol0_octet [of "unat b"] by (simp add: xword_lsap_def node_text_leaf octet_text_def)
qed

definition mac_text :: "byte list \<Rightarrow> string" where
  "mac_text mac = (case sna_pr_ether mac of None \<Rightarrow> [] | Some t \<Rightarrow> t)"

lemma read_mac [reads]:
  assumes "gives_text lx" "length mac = 8" "drop 6 mac = [0, 0]"
  shows "xword_mac_address lx (leaf ns e (mac_text mac)) (replicate 8 0) = Some (0, mac)"
proof -
  obtain b0 b1 b2 b3 b4 b5 b6 b7 where m: "mac = [b0, b1, b2, b3, b4, b5, b6, b7]"
    using assms(2) by (auto simp: length_Suc_conv eval_nat_numeral)
  obtain t where t: "sna_pr_ether (take 6 mac) = Some t" "sna_char_to_ether t (replicate 8 0) = Some (0, take 6 mac @ drop 6 (replicate 8 0))"
    using ether_read [of "take 6 mac" "replicate 8 0"] assms(2) by auto
  moreover have "sna_pr_ether mac = sna_pr_ether (take 6 mac)" by (simp add: m sna_pr_ether_def peek_def)
  moreover have "t \<noteq> []" using t(1) by (auto simp: sna_pr_ether_def peek_def m)
  moreover have "take 6 mac @ drop 6 (replicate 8 0) = mac" using m assms(3) by (simp add: eval_nat_numeral)
  ultimately show ?thesis using assms(1) by (simp add: xword_mac_address_def mac_text_def node_text_leaf)
qed

section \<open>Resources as elements\<close>

definition limits_xml :: "nat \<Rightarrow> string \<Rightarrow> int \<times> int \<Rightarrow> xml_node" where
  "limits_xml ns n mm = branch ns n [leaf ns ''min'' (show_int (fst mm)), leaf ns ''max'' (show_int (snd mm))]"

definition good_limits :: "int \<times> int \<Rightarrow> bool" where
  "good_limits mm \<longleftrightarrow> int32 (fst mm) \<and> int32 (snd mm)"

text \<open>An array whose first octet alone is used.\<close>

definition one_octet :: "nat \<Rightarrow> byte list \<Rightarrow> bool" where
  "one_octet n a \<longleftrightarrow> a = hd a # replicate (n - 1) 0"

definition cos_xml :: "nat \<Rightarrow> cos_info \<Rightarrow> xml_node" where
  "cos_xml ns cos = branch ns ''cos''
    [leaf ns ''name'' (string_in (co_name cos)),
     leaf ns ''weight'' (show_int (co_weight cos)),
     leaf ns ''tx_priority'' (word_for tx_types (co_tx_priority cos)),
     leaf ns ''default_cos_invalid'' (word_for on_types (co_default_cos_invalid cos)),
     leaf ns ''default_cos_null'' (word_for on_types (co_default_cos_null cos)),
     branch ns ''cost'' [limits_xml ns ''connect'' (co_cost_per_connect cos), limits_xml ns ''byte'' (co_cost_per_byte cos)],
     limits_xml ns ''security'' (co_security cos),
     limits_xml ns ''propagation_delay'' (co_propagation_delay cos),
     limits_xml ns ''effective_capacity'' (co_effective_capacity cos),
     limits_xml ns ''route_resistance'' (co_route_resistance cos),
     limits_xml ns ''node_congested'' (co_node_congested cos),
     limits_xml ns ''user1'' (co_user1 cos),
     limits_xml ns ''user2'' (co_user2 cos),
     limits_xml ns ''user3'' (co_user3 cos)]"

definition good_cos :: "cos_info \<Rightarrow> bool" where
  "good_cos cos \<longleftrightarrow>
     holds_string 9 (co_name cos) \<and> upper (co_name cos) \<and> int32 (co_weight cos) \<and>
     word_value tx_types (co_tx_priority cos) \<and> word_value on_types (co_default_cos_invalid cos) \<and>
     word_value on_types (co_default_cos_null cos) \<and> good_limits (co_cost_per_connect cos) \<and>
     good_limits (co_cost_per_byte cos) \<and> good_limits (co_security cos) \<and> good_limits (co_propagation_delay cos) \<and>
     good_limits (co_effective_capacity cos) \<and> good_limits (co_route_resistance cos) \<and>
     good_limits (co_node_congested cos) \<and> good_limits (co_user1 cos) \<and> good_limits (co_user2 cos) \<and>
     good_limits (co_user3 cos)"

definition cpic_xml :: "nat \<Rightarrow> cpic_info \<Rightarrow> xml_node" where
  "cpic_xml ns cpic = branch ns ''cpic''
    [leaf ns ''sym_dest_name'' (string_in (ci_sym_dest_name cpic)),
     leaf ns ''mode_name'' (string_in (ci_mode_name cpic)),
     leaf ns ''plu_name'' (netid_text (ci_plu_name cpic)),
     leaf ns ''tp_name'' (string_in (ci_tp_name cpic))]"

definition good_cpic :: "cpic_info \<Rightarrow> bool" where
  "good_cpic cpic \<longleftrightarrow>
     holds_string 9 (ci_sym_dest_name cpic) \<and> upper (ci_sym_dest_name cpic) \<and>
     holds_string 9 (ci_mode_name cpic) \<and> upper (ci_mode_name cpic) \<and> good_netid (ci_plu_name cpic) \<and>
     holds_string 65 (ci_tp_name cpic)"

definition mode_xml :: "nat \<Rightarrow> mode_info \<Rightarrow> xml_node" where
  "mode_xml ns mode = branch ns ''mode''
    [leaf ns ''name'' (string_in (mi_name mode)),
     leaf ns ''cos_name'' (string_in (mi_cos_name mode)),
     leaf ns ''plu_name'' (netid_text (mi_plu_name mode)),
     leaf ns ''encryption'' (word_for on_types (mi_encryption mode)),
     leaf ns ''tx_pacing'' (show_int (mi_tx_pacing mode)),
     leaf ns ''rx_pacing'' (show_int (mi_rx_pacing mode)),
     leaf ns ''max_tx_ru'' (show_int (mi_max_tx_ru mode)),
     leaf ns ''max_rx_ru'' (show_int (mi_max_rx_ru mode)),
     leaf ns ''min_conwinners'' (show_int (mi_min_conwinners mode)),
     leaf ns ''min_conlosers'' (show_int (mi_min_conlosers mode)),
     leaf ns ''max_sessions'' (show_int (mi_max_sessions mode)),
     leaf ns ''auto_activation'' (word_for on_types (mi_auto_activation mode))]"

definition good_mode :: "mode_info \<Rightarrow> bool" where
  "good_mode mode \<longleftrightarrow>
     holds_string 9 (mi_name mode) \<and> upper (mi_name mode) \<and>
     holds_string 9 (mi_cos_name mode) \<and> upper (mi_cos_name mode) \<and> good_netid (mi_plu_name mode) \<and>
     word_value on_types (mi_encryption mode) \<and> int32 (mi_tx_pacing mode) \<and> int32 (mi_rx_pacing mode) \<and>
     int32 (mi_max_tx_ru mode) \<and> int32 (mi_max_rx_ru mode) \<and> int32 (mi_min_conwinners mode) \<and>
     int32 (mi_min_conlosers mode) \<and> int32 (mi_max_sessions mode) \<and> word_value on_types (mi_auto_activation mode)"

text \<open>
  Five elements of a link and a node are read as numbers, while the sample configuration (\<^verbatim>\<open>docs/sna.xml\<close>) has words in them. How
  their values are written is a parameter of the writer: as numbers, or in the words of the sample.
\<close>

type_synonym writing = "string \<Rightarrow> int \<Rightarrow> string"

definition numbers :: writing where
  "numbers n v = show_int v"

definition in_words :: writing where
  "in_words n v = (if n = ''lu_seg'' \<or> n = ''bind_seg'' then (if v = 0 then ''off'' else ''on'')
     else if n = ''propagation_delay'' then ''lan'' else ''none'')"

definition link_xml_with :: "writing \<Rightarrow> nat \<Rightarrow> link_info \<Rightarrow> xml_node" where
  "link_xml_with w ns link = branch ns ''link''
    [leaf ns ''use_name'' (string_in (li_use_name link)),
     leaf ns ''role'' (word_for role_types (li_role link)),
     leaf ns ''direction'' (word_for direction_types (li_direction link)),
     leaf ns ''iface'' (string_in (li_interface link)),
     leaf ns ''port'' (octet_text (hd (li_port link))),
     leaf ns ''byteswap'' (word_for on_types (li_byteswap link)),
     leaf ns ''dstaddr'' (mac_text (li_dstaddr link)),
     leaf ns ''dstport'' (octet_text (hd (li_dstport link))),
     leaf ns ''plu_name'' (netid_text (li_plu_name link)),
     leaf ns ''plu_node_id'' (hex_field 8 (unat (li_plu_node_id link))),
     leaf ns ''retry_on_fail'' (word_for on_types (li_retry_on_fail link)),
     leaf ns ''retry_times'' (show_int (li_retry_times link)),
     leaf ns ''autoact'' (word_for on_types (li_autoact link)),
     leaf ns ''tg_number'' (show_int (li_tg_number link)),
     leaf ns ''cost_per_byte'' (show_int (li_cost_per_byte link)),
     leaf ns ''cost_per_connect_time'' (show_int (li_cost_per_connect_time link)),
     leaf ns ''effective_capacity'' (show_int (li_effective_capacity link)),
     leaf ns ''propagation_delay'' (w ''propagation_delay'' (li_propagation_delay link)),
     leaf ns ''security'' (word_for security_types (li_security link)),
     leaf ns ''user1'' (w ''user1'' (li_user1 link)),
     leaf ns ''user2'' (w ''user2'' (li_user2 link)),
     leaf ns ''user3'' (w ''user3'' (li_user3 link))]"

abbreviation link_xml :: "nat \<Rightarrow> link_info \<Rightarrow> xml_node" where
  "link_xml \<equiv> link_xml_with numbers"

definition good_link :: "link_info \<Rightarrow> bool" where
  "good_link link \<longleftrightarrow>
     holds_string 40 (li_use_name link) \<and> word_value role_types (li_role link) \<and>
     word_value direction_types (li_direction link) \<and> holds_string 9 (li_interface link) \<and> one_octet 9 (li_port link)
     \<and> word_value on_types (li_byteswap link) \<and> length (li_dstaddr link) = 8 \<and> drop 6 (li_dstaddr link) = [0, 0]
     \<and> one_octet 8 (li_dstport link) \<and> good_netid (li_plu_name link) \<and> word_value on_types (li_retry_on_fail link)
     \<and> int32 (li_retry_times link) \<and> word_value on_types (li_autoact link) \<and> int32 (li_tg_number link) \<and>
     int32 (li_cost_per_byte link) \<and> int32 (li_cost_per_connect_time link) \<and> int32 (li_effective_capacity link) \<and>
     int32 (li_propagation_delay link) \<and> word_value security_types (li_security link) \<and> int32 (li_user1 link) \<and>
     int32 (li_user2 link) \<and> int32 (li_user3 link)"

definition dlc_xml :: "nat \<Rightarrow> dlc_info \<Rightarrow> xml_node" where
  "dlc_xml ns dlc = branch ns ''dlc''
    [leaf ns ''use_name'' (string_in (di_use_name dlc)),
     leaf ns ''iface'' (string_in (di_interface dlc)),
     leaf ns ''port'' (octet_text (hd (di_port dlc))),
     leaf ns ''btu'' (show_int (di_btu dlc)),
     leaf ns ''mia'' (show_int (di_mia dlc)),
     leaf ns ''moa'' (show_int (di_moa dlc))]"

definition good_dlc :: "dlc_info \<Rightarrow> bool" where
  "good_dlc dlc \<longleftrightarrow>
     holds_string 40 (di_use_name dlc) \<and> holds_string 9 (di_interface dlc) \<and> one_octet 9 (di_port dlc) \<and>
     int32 (di_btu dlc) \<and> int32 (di_mia dlc) \<and> int32 (di_moa dlc)"

text \<open>The name of a local logical unit cannot be written: no element sets it. A unit has either the values of a local one or those of a remote one.\<close>

definition lu_xml :: "nat \<Rightarrow> lu_info \<Rightarrow> xml_node" where
  "lu_xml ns lu = branch ns ''lu''
    (leaf ns ''use_name'' (string_in (lu_use_name lu)) # leaf ns ''where'' (word_for lu_types (lu_type lu)) #
     (if lu_type lu = 0
      then [leaf ns ''syncpoint'' (word_for on_types (lu_syncpoint lu)), leaf ns ''lu_sess_limit'' (show_int (lu_sess_limit lu))]
      else [leaf ns ''plu_name'' (netid_text (lu_plu_name lu)), leaf ns ''fqcp_name'' (netid_text (lu_fqcp_name lu))]))"

definition good_lu :: "lu_info \<Rightarrow> bool" where
  "good_lu lu \<longleftrightarrow> holds_string 40 (lu_use_name lu) \<and> word_value lu_types (lu_type lu) \<and> lu_name lu = replicate 9 NUL
     \<and> (if lu_type lu = 0 then word_value on_types (lu_syncpoint lu) \<and> int32 (lu_sess_limit lu) \<and> lu_plu_name lu = no_netid \<and> lu_fqcp_name lu = no_netid
        else lu_syncpoint lu = 0 \<and> lu_sess_limit lu = 0 \<and> good_netid (lu_plu_name lu) \<and> good_netid (lu_fqcp_name lu))"

definition global_xml_with :: "writing \<Rightarrow> nat \<Rightarrow> global_info \<Rightarrow> xml_node" where
  "global_xml_with w ns gi = branch ns ''global''
    [leaf ns ''debuglevel'' (string_in (gi_debug_level gi)),
     leaf ns ''node_name'' (netid_text (gi_node_name gi)),
     leaf ns ''node_type'' (word_for node_types (gi_node_type gi)),
     leaf ns ''node_id'' (hex_field 8 (unat (gi_node_id gi))),
     leaf ns ''max_lus'' (show_int (gi_max_lus gi)),
     leaf ns ''lu_seg'' (w ''lu_seg'' (gi_lu_seg gi)),
     leaf ns ''bind_seg'' (w ''bind_seg'' (gi_bind_seg gi))]"

definition good_global :: "global_info \<Rightarrow> bool" where
  "good_global gi \<longleftrightarrow>
     holds_string 8 (gi_debug_level gi) \<and> good_netid (gi_node_name gi) \<and> word_value node_types (gi_node_type gi) \<and>
     int32 (gi_max_lus gi) \<and> int32 (gi_lu_seg gi) \<and> int32 (gi_bind_seg gi)"


lemma read_limits [reads]: "gives_text lx \<Longrightarrow> good_limits v \<Longrightarrow> xword_min_max lx (limits_xml ns n v) ns mm = Some v"
  by (simp add: xword_min_max_def limits_xml_def min_max_field_def matches_iff reads good_limits_def)

lemma xml_limits [simp]: "xml_name (limits_xml ns n v) = n" "xml_ns (limits_xml ns n v) = Some ns"
  by (simp_all add: limits_xml_def)

lemma parse_cos_xml: "gives_text lx \<Longrightarrow> good_cos c \<Longrightarrow> sna_parse_cos lx ns (cos_xml ns c) = Some c"
  by (cases c) (simp add: sna_parse_cos_def cos_xml_def cos_field_def matches_iff reads good_cos_def new_cos_def xword_cost_def cost_field_def)

lemma parse_cpic_xml: "gives_text lx \<Longrightarrow> good_cpic c \<Longrightarrow> sna_parse_cpic lx ns (cpic_xml ns c) = Some c"
  by (cases c) (simp add: sna_parse_cpic_def cpic_xml_def cpic_field_def matches_iff reads good_cpic_def new_cpic_def)

lemma parse_mode_xml: "gives_text lx \<Longrightarrow> good_mode m \<Longrightarrow> sna_parse_mode lx ns (mode_xml ns m) = Some m"
  by (cases m) (simp add: sna_parse_mode_def mode_xml_def mode_field_def matches_iff reads good_mode_def new_mode_def)

lemma poke_octet:
  assumes "one_octet n a" "0 < n"
  shows "poke (replicate n 0) 0 (hd a) = Some a"
proof -
  have "a = hd a # replicate (n - 1) 0" using assms(1) unfolding one_octet_def .
  then show ?thesis using assms(2) by (cases n) (simp_all add: poke_def)
qed

lemma parse_dlc_xml: "gives_text lx \<Longrightarrow> good_dlc d \<Longrightarrow> sna_parse_dlc lx ns (dlc_xml ns d) = Some d"
  by (cases d) (simp add: sna_parse_dlc_def dlc_xml_def dlc_field_def matches_iff reads good_dlc_def new_dlc_def poke_octet)

text \<open>What is read instead of the values written by \<^term>\<open>w\<close>.\<close>

definition link_read :: "writing \<Rightarrow> link_info \<Rightarrow> link_info" where
  "link_read w l = l\<lparr>li_propagation_delay := atoi (w ''propagation_delay'' (li_propagation_delay l)),
     li_user1 := atoi (w ''user1'' (li_user1 l)), li_user2 := atoi (w ''user2'' (li_user2 l)), li_user3 := atoi (w ''user3'' (li_user3 l))\<rparr>"

definition writes :: "writing \<Rightarrow> bool" where
  "writes w \<longleftrightarrow> (\<forall>n v. w n v \<noteq> [])"

lemma read_written [reads]: "gives_text lx \<Longrightarrow> writes w \<Longrightarrow> xword_int lx (leaf ns n (w m v)) = Some (atoi (w m v))"
  by (simp add: xword_int_def node_text_leaf writes_def)

lemma writes_numbers: "writes numbers"
  by (simp add: writes_def numbers_def show_int_def)

lemma writes_words: "writes in_words"
  by (simp add: writes_def in_words_def)

lemma parse_link_xml: "gives_text lx \<Longrightarrow> writes w \<Longrightarrow> good_link l \<Longrightarrow> sna_parse_link lx ns (link_xml_with w ns l) = Some (link_read w l)"
  by (cases l) (simp add: sna_parse_link_def link_xml_with_def link_read_def link_field_def matches_iff reads good_link_def new_link_def poke_octet)

lemma parse_lu_xml: "gives_text lx \<Longrightarrow> good_lu l \<Longrightarrow> sna_parse_lu lx ns (lu_xml ns l) = Some l"
  by (cases l; cases "lu_type l = 0") (simp_all add: sna_parse_lu_def lu_xml_def lu_field_def matches_iff reads good_lu_def new_lu_def)

text \<open>An element \<^verbatim>\<open>global\<close> sets everything but the lists.\<close>

definition without_lists :: "global_info \<Rightarrow> global_info" where
  "without_lists g = g\<lparr>gi_dlc_list := [], gi_link_list := [], gi_lu_list := [], gi_mode_list := [], gi_cpic_list := [], gi_cos_list := []\<rparr>"

definition global_read :: "writing \<Rightarrow> global_info \<Rightarrow> global_info" where
  "global_read w g = g\<lparr>gi_lu_seg := atoi (w ''lu_seg'' (gi_lu_seg g)), gi_bind_seg := atoi (w ''bind_seg'' (gi_bind_seg g))\<rparr>"

lemma parse_global_xml:
  "gives_text lx \<Longrightarrow> writes w \<Longrightarrow> good_global g \<Longrightarrow> sna_parse_global lx ns (global_xml_with w ns g) = Some (without_lists (global_read w g))"
  by (cases g) (simp add: sna_parse_global_def global_xml_with_def global_read_def global_field_def matches_iff reads good_global_def new_global_def
    without_lists_def)

section \<open>Documents\<close>

definition config_xml_with :: "writing \<Rightarrow> nat \<Rightarrow> global_info \<Rightarrow> xml_node list" where
  "config_xml_with w ns g = global_xml_with w ns g # map (dlc_xml ns) (gi_dlc_list g) @ map (link_xml_with w ns) (gi_link_list g) @ map (lu_xml ns) (gi_lu_list g)
     @ map (mode_xml ns) (gi_mode_list g) @ map (cpic_xml ns) (gi_cpic_list g) @ map (cos_xml ns) (gi_cos_list g)"

definition good_config :: "global_info \<Rightarrow> bool" where
  "good_config g \<longleftrightarrow> good_global g \<and> list_all good_dlc (gi_dlc_list g) \<and> list_all good_link (gi_link_list g) \<and> list_all good_lu (gi_lu_list g)
     \<and> list_all good_mode (gi_mode_list g) \<and> list_all good_cpic (gi_cpic_list g) \<and> list_all good_cos (gi_cos_list g)"

lemma xml_heads [simp]: "xml_name (global_xml_with w ns g) = ''global''" "xml_ns (global_xml_with w ns g) = Some ns" "xml_name (dlc_xml ns d) = ''dlc''" "xml_ns (dlc_xml ns d) = Some ns"
  "xml_name (link_xml_with w ns l) = ''link''" "xml_ns (link_xml_with w ns l) = Some ns" "xml_name (lu_xml ns u) = ''lu''" "xml_ns (lu_xml ns u) = Some ns"
  "xml_name (mode_xml ns m) = ''mode''" "xml_ns (mode_xml ns m) = Some ns" "xml_name (cpic_xml ns c) = ''cpic''" "xml_ns (cpic_xml ns c) = Some ns"
  "xml_name (cos_xml ns s) = ''cos''" "xml_ns (cos_xml ns s) = Some ns"
  by (simp_all add: global_xml_with_def dlc_xml_def link_xml_with_def lu_xml_def mode_xml_def cpic_xml_def cos_xml_def)

text \<open>One kind of resource: the elements are appended to their list in order.\<close>

lemma walk_dlc: "gives_text lx \<Longrightarrow> list_all good_dlc xs \<Longrightarrow>
   fold_nodes (node_field lx ns) (map (dlc_xml ns) xs) (Some g) = Some (Some (g\<lparr>gi_dlc_list := gi_dlc_list g @ xs\<rparr>))"
  by (induction xs arbitrary: g) (simp_all add: node_field_def parse_dlc_xml)

lemma walk_link: "gives_text lx \<Longrightarrow> writes w \<Longrightarrow> list_all good_link xs \<Longrightarrow>
   fold_nodes (node_field lx ns) (map (link_xml_with w ns) xs) (Some g) = Some (Some (g\<lparr>gi_link_list := gi_link_list g @ map (link_read w) xs\<rparr>))"
  by (induction xs arbitrary: g) (simp_all add: node_field_def parse_link_xml)

lemma walk_lu: "gives_text lx \<Longrightarrow> list_all good_lu xs \<Longrightarrow>
   fold_nodes (node_field lx ns) (map (lu_xml ns) xs) (Some g) = Some (Some (g\<lparr>gi_lu_list := gi_lu_list g @ xs\<rparr>))"
  by (induction xs arbitrary: g) (simp_all add: node_field_def parse_lu_xml)

lemma walk_mode: "gives_text lx \<Longrightarrow> list_all good_mode xs \<Longrightarrow>
   fold_nodes (node_field lx ns) (map (mode_xml ns) xs) (Some g) = Some (Some (g\<lparr>gi_mode_list := gi_mode_list g @ xs\<rparr>))"
  by (induction xs arbitrary: g) (simp_all add: node_field_def parse_mode_xml)

lemma walk_cpic: "gives_text lx \<Longrightarrow> list_all good_cpic xs \<Longrightarrow>
   fold_nodes (node_field lx ns) (map (cpic_xml ns) xs) (Some g) = Some (Some (g\<lparr>gi_cpic_list := gi_cpic_list g @ xs\<rparr>))"
  by (induction xs arbitrary: g) (simp_all add: node_field_def parse_cpic_xml)

lemma walk_cos: "gives_text lx \<Longrightarrow> list_all good_cos xs \<Longrightarrow>
   fold_nodes (node_field lx ns) (map (cos_xml ns) xs) (Some g) = Some (Some (g\<lparr>gi_cos_list := gi_cos_list g @ xs\<rparr>))"
  by (induction xs arbitrary: g) (simp_all add: node_field_def parse_cos_xml)

text \<open>The configuration that is read from the one written.\<close>

definition as_read :: "writing \<Rightarrow> global_info \<Rightarrow> global_info" where
  "as_read w g = (global_read w g)\<lparr>gi_link_list := map (link_read w) (gi_link_list g)\<rparr>"

lemma walk_config:
  assumes "gives_text lx" "writes w" "good_config g"
  shows "fold_nodes (node_field lx ns) (config_xml_with w ns g) None = Some (Some (as_read w g))"
proof -
  have "node_field lx ns (global_xml_with w ns g) None = Some (Some (without_lists (global_read w g)))"
    using assms by (simp add: node_field_def parse_global_xml good_config_def)
  then show ?thesis using assms
    by (simp add: config_xml_with_def fold_nodes_append good_config_def walk_dlc walk_link walk_lu walk_mode walk_cpic walk_cos without_lists_def
      as_read_def global_read_def)
qed

lemma link_read_numbers: "good_link l \<Longrightarrow> link_read numbers l = l"
  by (cases l) (simp add: link_read_def numbers_def good_link_def atoi_show_int)

lemma as_read_numbers: "good_config g \<Longrightarrow> as_read numbers g = g"
proof -
  assume g: "good_config g"
  then have "map (link_read numbers) (gi_link_list g) = gi_link_list g"
    by (intro map_idI) (auto simp: good_config_def list_all_iff link_read_numbers)
  then show ?thesis using g
    by (cases g) (simp add: as_read_def global_read_def numbers_def good_config_def good_global_def atoi_show_int)
qed

lemma atoi_words: "atoi ''on'' = 0" "atoi ''off'' = 0" "atoi ''lan'' = 0" "atoi ''none'' = 0"
  by code_simp+

text \<open>
  A file with the configuration: the library finds the root, its name space, and an element \<^verbatim>\<open>node\<close> behind blank nodes.
\<close>

definition written_in :: "writing \<Rightarrow> libxml \<Rightarrow> string \<Rightarrow> global_info \<Rightarrow> bool" where
  "written_in w lx file g \<longleftrightarrow> (\<exists>ns root bl rest. xmlParseFile lx file = Some (Some root) \<and> xmlSearchNsByHref lx root ''http://www.linux-sna.org/sna'' = Some ns
     \<and> xml_name root = ''Helping'' \<and> xml_children root = bl @ branch ns ''node'' (config_xml_with w ns g) # rest
     \<and> list_all (xmlIsBlankNode lx) bl \<and> \<not> xmlIsBlankNode lx (branch ns ''node'' (config_xml_with w ns g)))"

abbreviation config_file :: "libxml \<Rightarrow> string \<Rightarrow> global_info \<Rightarrow> bool" where
  "config_file \<equiv> written_in numbers"

lemma read_written_file:
  assumes "gives_text lx" "writes w" "good_config g" "written_in w lx file g"
  shows "sna_read_config_file lx file old = Some (0, Some (as_read w g))"
proof -
  obtain ns root bl rest where f: "xmlParseFile lx file = Some (Some root)" "xmlSearchNsByHref lx root ''http://www.linux-sna.org/sna'' = Some ns"
    "xml_name root = ''Helping''" "xml_children root = bl @ branch ns ''node'' (config_xml_with w ns g) # rest"
    "list_all (xmlIsBlankNode lx) bl" "\<not> xmlIsBlankNode lx (branch ns ''node'' (config_xml_with w ns g))"
    using assms(4) unfolding written_in_def by blast
  have "dropWhile (xmlIsBlankNode lx) (xml_children root) = branch ns ''node'' (config_xml_with w ns g) # rest"
    using f(4,5,6) by (simp add: dropWhile_append list_all_iff)
  then have "open_config lx file = Inr (ns, branch ns ''node'' (config_xml_with w ns g) # rest)" using f(1,2,3) by (simp add: open_config_def)
  then show ?thesis using walk_config [OF assms(1-3)] by (simp add: sna_read_config_file_def)
qed

lemma read_config_file:
  assumes "gives_text lx" "good_config g" "config_file lx file g"
  shows "sna_read_config_file lx file old = Some (0, Some g)"
  using read_written_file [OF assms(1) writes_numbers assms(2,3)] as_read_numbers [OF assms(2)] by simp

section \<open>Requests in order\<close>

text \<open>The reference: requests are submitted one after the other; the first that is refused ends it.\<close>

fun submit :: "kernel \<Rightarrow> nof_request list \<Rightarrow> nof_request list \<Rightarrow> int \<times> nof_request list" where
  "submit kn [] s = (0, s)"
| "submit kn (r # rs) s = (if kn s r < 0 then (kn s r, s @ [r]) else submit kn rs (s @ [r]))"

definition dlc_request :: "global_info \<Rightarrow> dlc_info \<Rightarrow> nof_request option" where
  "dlc_request g x = map_option (\<lambda>b. Nof SOL_SNA_NOF SNA_NOF_PORT SNA_NOF_DEFINE (Port_block b)) (dlc_block g x)"

definition link_request :: "global_info \<Rightarrow> link_info \<Rightarrow> nof_request option" where
  "link_request g x = map_option (\<lambda>b. Nof SOL_SNA_NOF SNA_NOF_LS SNA_NOF_DEFINE (Ls_block b)) (link_block g x)"

definition mode_request :: "global_info \<Rightarrow> mode_info \<Rightarrow> nof_request option" where
  "mode_request g x = map_option (\<lambda>b. Nof SOL_SNA_NOF SNA_NOF_MODE SNA_NOF_DEFINE (Mode_block b)) (mode_block g x)"

definition cpic_request :: "global_info \<Rightarrow> cpic_info \<Rightarrow> nof_request option" where
  "cpic_request g x = map_option (\<lambda>b. Nof SOL_SNA_CPIC SNA_NOF_CPIC SNA_NOF_DEFINE (Cpic_block b)) (cpic_block g x)"

definition cos_request :: "cos_info \<Rightarrow> nof_request option" where
  "cos_request x = map_option (\<lambda>b. Nof SOL_SNA_NOF SNA_NOF_COS SNA_NOF_DEFINE (Cos_block b)) (cos_block x)"

definition lu_request :: "global_info \<Rightarrow> lu_info \<Rightarrow> nof_request option" where
  "lu_request g x = Some (if lu_type x \<noteq> 0 then Nof SOL_SNA_NOF SNA_NOF_REMOTE_LU SNA_NOF_DEFINE (Remote_lu_block (partner_lu_block g x))
     else Nof SOL_SNA_NOF SNA_NOF_LOCAL_LU SNA_NOF_DEFINE (Local_lu_block (local_lu_block g x)))"

text \<open>All requests of a configuration: the node, then ports, links, classes of service, modes, logical units and side information.\<close>

definition config_requests :: "global_info \<Rightarrow> nof_request list option" where
  "config_requests g = do {
     ds \<leftarrow> those (map (dlc_request g) (gi_dlc_list g));
     ls \<leftarrow> those (map (link_request g) (gi_link_list g));
     cs \<leftarrow> those (map cos_request (gi_cos_list g));
     ms \<leftarrow> those (map (mode_request g) (gi_mode_list g));
     us \<leftarrow> those (map (lu_request g) (gi_lu_list g));
     xs \<leftarrow> those (map (cpic_request g) (gi_cpic_list g));
     Some (Nof SOL_SNA_NOF SNA_NOF_NODE SNA_NOF_DEFINE (Node_block (node_block g)) # ds @ ls @ cs @ ms @ us @ xs)
   }"

lemma submit_append: "submit kn (rs @ qs) s = (let (e, t) = submit kn rs s in if e < 0 then (e, t) else submit kn qs t)"
  by (induction rs arbitrary: s) simp_all

lemma submit_le_0: "fst (submit kn rs s) \<le> 0"
  by (induction rs arbitrary: s) simp_all

lemma submit_eq_0: "submit kn rs s = (e, t) \<Longrightarrow> \<not> e < 0 \<Longrightarrow> e = 0"
  using submit_le_0 [of kn rs s] by simp

lemma submit_accepted: "(\<And>s r. 0 \<le> kn s r) \<Longrightarrow> submit kn rs s = (0, s @ rs)"
  by (induction rs arbitrary: s) (simp_all add: not_less)

lemma define_each_submit:
  assumes "\<And>x s. f x s = map_option (\<lambda>r. (kn s r, s @ [r])) (req x)"
  shows "those (map req xs) = Some rs \<Longrightarrow> define_each f xs s = Some (submit kn rs s)"
proof (induction xs arbitrary: rs s)
  case (Cons x xs)
  then obtain r qs where "req x = Some r" "those (map req xs) = Some qs" "rs = r # qs" by (auto split: option.splits)
  then show ?case using Cons.IH by (simp add: assms)
qed simp

lemma define_as_request:
  "define_dlc kn g d s = map_option (\<lambda>r. (kn s r, s @ [r])) (dlc_request g d)"
  "define_link kn g l s = map_option (\<lambda>r. (kn s r, s @ [r])) (link_request g l)"
  "define_cos kn c s = map_option (\<lambda>r. (kn s r, s @ [r])) (cos_request c)"
  "define_mode kn g m s = map_option (\<lambda>r. (kn s r, s @ [r])) (mode_request g m)"
  "define_lu kn g u s = map_option (\<lambda>r. (kn s r, s @ [r])) (lu_request g u)"
  "define_cpic kn g x s = map_option (\<lambda>r. (kn s r, s @ [r])) (cpic_request g x)"
  by (simp_all add: define_dlc_def dlc_request_def define_link_def link_request_def define_cos_def cos_request_def define_mode_def
      mode_request_def define_lu_def lu_request_def define_cpic_def cpic_request_def nof_verbs option.map_comp comp_def)

lemmas define_submits = define_each_submit [where f = "define_dlc kn g" and kn = kn for kn g, OF define_as_request(1)]
  define_each_submit [where f = "define_link kn g" and kn = kn for kn g, OF define_as_request(2)]
  define_each_submit [where f = "define_cos kn" and kn = kn for kn, OF define_as_request(3)]
  define_each_submit [where f = "define_mode kn g" and kn = kn for kn g, OF define_as_request(4)]
  define_each_submit [where f = "define_lu kn g" and kn = kn for kn g, OF define_as_request(5)]
  define_each_submit [where f = "define_cpic kn g" and kn = kn for kn g, OF define_as_request(6)]

lemma execute_submits:
  assumes "config_requests g = Some rs" "array_string (gi_debug_level g) = Some level"
  shows "sna_execute_config_info kn True (Some g) st =
    (let (e, s) = submit kn rs (requests st) in Some (e, st\<lparr>debug_file := level, requests := s\<rparr>))"
proof -
  obtain ds ls cs ms us xs where q: "those (map (dlc_request g) (gi_dlc_list g)) = Some ds" "those (map (link_request g) (gi_link_list g)) = Some ls"
    "those (map cos_request (gi_cos_list g)) = Some cs" "those (map (mode_request g) (gi_mode_list g)) = Some ms"
    "those (map (lu_request g) (gi_lu_list g)) = Some us" "those (map (cpic_request g) (gi_cpic_list g)) = Some xs"
    and rs: "rs = [Nof SOL_SNA_NOF SNA_NOF_NODE SNA_NOF_DEFINE (Node_block (node_block g))] @ ds @ ls @ cs @ ms @ us @ xs"
    using assms(1) by (auto simp: config_requests_def split: Option.bind_splits)
  have node: "define_node kn g s = (kn s r, s @ [r])" if "r = Nof SOL_SNA_NOF SNA_NOF_NODE SNA_NOF_DEFINE (Node_block (node_block g))" for s r
    using that by (simp add: define_node_def nof_verbs)
  show ?thesis
    unfolding rs submit_append
    by (simp add: sna_execute_config_info_def assms(2) node define_submits(1) [OF q(1)] define_submits(2) [OF q(2)] define_submits(3) [OF q(3)]
        define_submits(4) [OF q(4)] define_submits(5) [OF q(5)] define_submits(6) [OF q(6)] Let_def split: prod.splits)
      (blast dest: submit_eq_0)
qed

text \<open>A configuration has requests unless the name of a transaction program fills its array.\<close>

lemma those_defined: "list_all (\<lambda>x. f x \<noteq> None) xs \<Longrightarrow> \<exists>ys. those (map f xs) = Some ys"
  by (induction xs) auto

lemma one_octet_length: "one_octet n a \<Longrightarrow> 0 < n \<Longrightarrow> length a = n"
  unfolding one_octet_def by (metis One_nat_def Suc_pred length_Cons length_replicate)

lemma dlc_request_defined: "good_dlc d \<Longrightarrow> dlc_request g d \<noteq> None"
  using one_octet_length [of 9 "di_port d"] by (simp add: dlc_request_def dlc_block_def good_dlc_def poke_block_def)

lemma link_request_defined: "good_link l \<Longrightarrow> link_request g l \<noteq> None"
proof -
  assume l: "good_link l"
  then have "length (li_port l) = 9" "length (li_dstport l) = 8" "length (li_dstaddr l) = 8"
    using one_octet_length [of 9 "li_port l"] one_octet_length [of 8 "li_dstport l"] by (simp_all add: good_link_def)
  moreover have "array_string (li_interface l) = Some (string_in (li_interface l))"
    "poke_block (replicate 9 NUL) 0 (string_in (li_interface l) @ [NUL]) = Some (li_interface l)"
    using l array_string_holds poke_string by (auto simp: good_link_def)
  ultimately show ?thesis by (simp add: link_request_def link_block_def peek_def mem_simps)
qed

lemma cpic_request_defined: "good_cpic c \<Longrightarrow> length (string_in (ci_tp_name c)) < 64 \<Longrightarrow> cpic_request g c \<noteq> None"
  by (simp add: cpic_request_def cpic_block_def good_cpic_def array_string_holds [of 9] array_string_holds [of 65] poke_string mem_simps)

lemma requests_total: "cos_request x \<noteq> None" "mode_request g m \<noteq> None" "lu_request g u \<noteq> None"
  by (simp_all add: cos_request_def cos_block_def mode_request_def mode_block_def lu_request_def)

lemma config_has_requests:
  assumes "good_config g" "list_all (\<lambda>c. length (string_in (ci_tp_name c)) < 64) (gi_cpic_list g)"
  shows "\<exists>rs. config_requests g = Some rs"
proof -
  have "list_all (\<lambda>x. dlc_request g x \<noteq> None) (gi_dlc_list g)" "list_all (\<lambda>x. link_request g x \<noteq> None) (gi_link_list g)"
    "list_all (\<lambda>x. cpic_request g x \<noteq> None) (gi_cpic_list g)"
    using assms dlc_request_defined link_request_defined cpic_request_defined by (auto simp: good_config_def list_all_iff)
  moreover have "list_all (\<lambda>x. cos_request x \<noteq> None) (gi_cos_list g)" "list_all (\<lambda>x. mode_request g x \<noteq> None) (gi_mode_list g)"
    "list_all (\<lambda>x. lu_request g x \<noteq> None) (gi_lu_list g)" using requests_total by (auto simp: list_all_iff)
  ultimately show ?thesis unfolding config_requests_def by (auto dest!: those_defined simp del: not_None_eq)
qed

section \<open>The command\<close>

text \<open>
  C23. What is read from a file. Take a configuration whose values can be written (names that fit, numbers of 32 bits, words of the
  tables) and a document that has it. Whatever was configured before, \<^verbatim>\<open>sna_read_config_file\<close> reads exactly it when all numbers are
  written as numbers. When the two segment flags of the node and the delay and the three user values of each link are written in words, as
  \<^verbatim>\<open>docs/sna.xml\<close> does, these alone are lost: they are read as zero, \<^verbatim>\<open>on\<close> as well as \<^verbatim>\<open>off\<close>. For any other way of writing them the
  number is the one that \<^verbatim>\<open>atoi\<close> makes of the text.
\<close>

theorem config_file_round_trip:
  assumes "gives_text lx" "good_config g" "written_in w lx file g" "writes w"
  shows "sna_read_config_file lx file old = Some (0, Some (as_read w g))
    \<and> (w = numbers \<longrightarrow> sna_read_config_file lx file old = Some (0, Some g))
    \<and> (w = in_words \<longrightarrow> sna_read_config_file lx file old = Some (0, Some (g\<lparr>gi_lu_seg := 0, gi_bind_seg := 0,
         gi_link_list := map (\<lambda>l. l\<lparr>li_propagation_delay := 0, li_user1 := 0, li_user2 := 0, li_user3 := 0\<rparr>) (gi_link_list g)\<rparr>)))"
proof -
  have "as_read in_words g = g\<lparr>gi_lu_seg := 0, gi_bind_seg := 0,
         gi_link_list := map (\<lambda>l. l\<lparr>li_propagation_delay := 0, li_user1 := 0, li_user2 := 0, li_user3 := 0\<rparr>) (gi_link_list g)\<rparr>"
    by (simp add: as_read_def global_read_def link_read_def in_words_def atoi_words if_distrib [of atoi])
  then show ?thesis using read_written_file [OF assms(1,4,2,3)] as_read_numbers [OF assms(2)] by auto
qed

text \<open>An example: a node with a port, a link, two logical units, a mode, side information and a class of service.\<close>

definition cells :: "nat \<Rightarrow> string \<Rightarrow> string" where
  "cells n s = s @ replicate (n - length s) NUL"

definition example_netid :: sna_netid where
  "example_netid = \<lparr>net = padded ''LNXSNA'', nname = padded ''EHEAD''\<rparr>"

definition example_config :: global_info where
  "example_config = new_global\<lparr>gi_node_name := example_netid, gi_node_id := 0x05DBEEF0, gi_node_type := 2, gi_debug_level := cells 8 ''2'',
     gi_max_lus := 100, gi_lu_seg := 1, gi_bind_seg := 1,
     gi_dlc_list := [new_dlc\<lparr>di_use_name := cells 40 ''lan'', di_interface := cells 9 ''eth0'', di_port := 4 # replicate 8 0, di_btu := 1493, di_mia := 5, di_moa := 5\<rparr>],
     gi_link_list := [new_link\<lparr>li_use_name := cells 40 ''head'', li_interface := cells 9 ''eth0'', li_port := 4 # replicate 8 0, li_plu_name := example_netid,
       li_plu_node_id := 0x05D00001, li_dstaddr := [0x40, 0, 0, 0, 0, 1, 0, 0], li_dstport := 4 # replicate 7 0, li_role := 3, li_direction := 2, li_retry_times := 5\<rparr>],
     gi_lu_list := [new_lu\<lparr>lu_use_name := cells 40 ''here'', lu_syncpoint := 1, lu_sess_limit := 50\<rparr>,
       new_lu\<lparr>lu_use_name := cells 40 ''there'', lu_type := 1, lu_plu_name := example_netid, lu_fqcp_name := example_netid\<rparr>],
     gi_mode_list := [new_mode\<lparr>mi_name := cells 9 ''#INTER'', mi_cos_name := cells 9 ''#CONNECT'', mi_plu_name := example_netid, mi_tx_pacing := 3, mi_max_sessions := 8192\<rparr>],
     gi_cpic_list := [new_cpic\<lparr>ci_sym_dest_name := cells 9 ''APINGD'', ci_mode_name := cells 9 ''#INTER'', ci_tp_name := cells 65 ''apingd'', ci_plu_name := example_netid\<rparr>],
     gi_cos_list := [new_cos\<lparr>co_name := cells 9 ''#CONNECT'', co_weight := 30, co_tx_priority := 1, co_security := (1, 255)\<rparr>]\<rparr>"

lemma example_good: "good_config example_config"
  by code_simp

definition written_xml :: "writing \<Rightarrow> string \<Rightarrow> global_info \<Rightarrow> libxml" where
  "written_xml w file g = \<lparr>xmlParseFile = (\<lambda>f. if f = file then Some (Some (Xml None ''Helping'' [] [text_node ''\<newline>'', branch 0 ''node'' (config_xml_with w 0 g)])) else None),
     xmlSearchNsByHref = (\<lambda>_ _. Some 0), xmlIsBlankNode = (\<lambda>n. xml_name n = ''text''),
     xmlNodeListGetString = (\<lambda>xs. case xs of [] \<Rightarrow> None | x # _ \<Rightarrow> Some (xml_content x))\<rparr>"

abbreviation example_xml :: "string \<Rightarrow> global_info \<Rightarrow> libxml" where
  "example_xml \<equiv> written_xml numbers"

lemma written_xml_ok: "gives_text (written_xml w file g)" "written_in w (written_xml w file g) file g"
proof -
  show "gives_text (written_xml w file g)" by (simp add: gives_text_def written_xml_def text_node_def)
  show "written_in w (written_xml w file g) file g"
    unfolding written_in_def
    by (rule exI [of _ 0], rule exI [of _ "Xml None ''Helping'' [] [text_node ''\<newline>'', branch 0 ''node'' (config_xml_with w 0 g)]"],
        rule exI [of _ "[text_node ''\<newline>'']"], rule exI [of _ "[]"]) (simp add: written_xml_def text_node_def)
qed

lemmas example_xml_ok = written_xml_ok [of numbers]

lemma as_read_words_seg: "gi_lu_seg (as_read in_words g) = 0"
  by (simp add: as_read_def global_read_def in_words_def atoi_words)

text \<open>The example as numbers, and in words: a node that segments becomes one that does not.\<close>

theorem config_file_round_trip_witness:
  "sna_read_config_file (example_xml ''/etc/sna.xml'' example_config) ''/etc/sna.xml'' None = Some (0, Some example_config)
   \<and> (\<exists>g. sna_read_config_file (written_xml in_words ''/etc/sna.xml'' example_config) ''/etc/sna.xml'' None = Some (0, Some g)
        \<and> gi_lu_seg example_config = 1 \<and> gi_lu_seg g = 0)"
proof -
  note trip = config_file_round_trip [OF written_xml_ok(1) example_good written_xml_ok(2), of _ "''/etc/sna.xml''" None]
  have "sna_read_config_file (example_xml ''/etc/sna.xml'' example_config) ''/etc/sna.xml'' None = Some (0, Some example_config)"
    using trip [OF writes_numbers] by blast
  moreover obtain g where "sna_read_config_file (written_xml in_words ''/etc/sna.xml'' example_config) ''/etc/sna.xml'' None = Some (0, Some g)"
    "gi_lu_seg g = 0"
    using trip [OF writes_words] by (metis (no_types, lifting) as_read_words_seg)
  moreover have "gi_lu_seg example_config = 1" by (simp add: example_config_def)
  ultimately show ?thesis by blast
qed

text \<open>
  Executing a configuration is to submit its requests in the order node, ports, links, classes of service, modes, logical units, side
  information, each kind in the order of the file: the first request that the kernel refuses is the last that is made, and its
  answer is the result; if none is refused the result is zero.
\<close>

theorem execute_in_order:
  assumes "config_requests g = Some rs" "array_string (gi_debug_level g) = Some level"
  shows "sna_execute_config_info kn True (Some g) st =
    (let (e, s) = submit kn rs (requests st) in Some (e, st\<lparr>debug_file := level, requests := s\<rparr>))"
  by (rule execute_submits [OF assms])

text \<open>A kernel that refuses every link with \<open>-1\<close>.\<close>

definition refuses_links :: kernel where
  "refuses_links s r = (if nof_component r = SNA_NOF_LS then - 1 else 0)"

lemma example_requests: "map_option (map nof_component) (config_requests example_config)
    = Some [SNA_NOF_NODE, SNA_NOF_PORT, SNA_NOF_LS, SNA_NOF_COS, SNA_NOF_MODE, SNA_NOF_LOCAL_LU, SNA_NOF_REMOTE_LU, SNA_NOF_CPIC]"
  by code_simp

theorem execute_in_order_witness:
  "\<exists>s. sna_execute_config_info refuses_links True (Some example_config) \<lparr>debug_file = [], requests = []\<rparr> = Some (- 1, \<lparr>debug_file = ''2'', requests = s\<rparr>)
     \<and> map nof_component s = [SNA_NOF_NODE, SNA_NOF_PORT, SNA_NOF_LS]"
proof -
  obtain rs where rs: "config_requests example_config = Some rs"
    and m: "map nof_component rs = [SNA_NOF_NODE, SNA_NOF_PORT, SNA_NOF_LS, SNA_NOF_COS, SNA_NOF_MODE, SNA_NOF_LOCAL_LU, SNA_NOF_REMOTE_LU, SNA_NOF_CPIC]"
    using example_requests by auto
  have l: "array_string (gi_debug_level example_config) = Some ''2''" by code_simp
  obtain a b c qs where "rs = a # b # c # qs" "nof_component a = SNA_NOF_NODE" "nof_component b = SNA_NOF_PORT" "nof_component c = SNA_NOF_LS"
    using m by (auto simp: map_eq_Cons_conv)
  then show ?thesis using execute_in_order [OF rs l, of refuses_links "\<lparr>debug_file = [], requests = []\<rparr>"]
    by (simp add: refuses_links_def)
qed

lemma load_config:
  assumes "gives_text lx" "good_config g" "config_file lx file g" "length file < 300"
    and "list_all (\<lambda>c. length (string_in (ci_tp_name c)) < 64) (gi_cpic_list g)"
    and "0 \<le> nof_socket w" "can_open w" "\<And>s r. 0 \<le> kern w s r" "level < 2" "config_requests g = Some rs"
  shows "sna_load lx w level [file] old st
    = Some (Load 0 (Some g) (st\<lparr>debug_file := string_in (gi_debug_level g), requests := requests st @ rs\<rparr>) [])"
proof -
  have "array_string (gi_debug_level g) = Some (string_in (gi_debug_level g))"
    using assms(2) array_string_holds by (auto simp: good_config_def good_global_def)
  from execute_submits [OF assms(10) this] have "sna_execute_config_info (kern w) (can_open w) (Some g) st
      = Some (0, st\<lparr>debug_file := string_in (gi_debug_level g), requests := requests st @ rs\<rparr>)"
    using submit_accepted [of "kern w"] assms(7,8) by simp
  then show ?thesis using assms(4,6,9) read_config_file [OF assms(1-3)] by (simp add: sna_load_def Let_def)
qed

text \<open>
  C21. Loading works end to end: with a file that has a configuration, a socket, and a kernel that accepts, \<^verbatim>\<open>sna_load\<close> keeps the
  configuration, writes its debug level and makes exactly its requests, and returns zero. (The name of a transaction program must leave
  a cell free: the array in the block of the kernel is shorter than the one it is read into.)
\<close>

theorem load_end_to_end:
  assumes "gives_text lx" "good_config g" "config_file lx file g" "length file < 300"
    and "list_all (\<lambda>c. length (string_in (ci_tp_name c)) < 64) (gi_cpic_list g)"
    and "0 \<le> nof_socket w" "can_open w" "\<And>s r. 0 \<le> kern w s r" "level < 2"
  shows "\<exists>rs. config_requests g = Some rs \<and> sna_load lx w level [file] old st
    = Some (Load 0 (Some g) (st\<lparr>debug_file := string_in (gi_debug_level g), requests := requests st @ rs\<rparr>) [])"
  using config_has_requests [OF assms(2,5)] load_config [OF assms(1-9)] by blast

definition quiet_world :: load_world where
  "quiet_world = \<lparr>nof_socket = 3, can_open = True, kern = (\<lambda>_ _. 0)\<rparr>"

theorem load_end_to_end_witness:
  "\<exists>rs. config_requests example_config = Some rs \<and> sna_load (example_xml ''/etc/sna.xml'' example_config) quiet_world 1 [''/etc/sna.xml''] None \<lparr>debug_file = [], requests = []\<rparr>
    = Some (Load 0 (Some example_config) \<lparr>debug_file = ''2'', requests = rs\<rparr> [])"
proof -
  have tp: "list_all (\<lambda>c. length (string_in (ci_tp_name c)) < 64) (gi_cpic_list example_config)" by code_simp
  have l: "string_in (gi_debug_level example_config) = ''2''" by code_simp
  show ?thesis using load_end_to_end [OF example_xml_ok(1) example_good example_xml_ok(2), of "''/etc/sna.xml''" quiet_world 1 None "\<lparr>debug_file = [], requests = []\<rparr>"] tp l
    by (simp add: quiet_world_def)
qed

section \<open>Faults\<close>

text \<open>
  Words that are not in a table: the tables of roles, directions, security levels, kinds of logical units and of nodes have no end mark,
  so the search for an unknown word runs off the table, while an unknown priority or switch becomes \<open>-1\<close>.
\<close>

theorem unknown_words:
  assumes "gives_text lx" "w \<noteq> []" "w \<notin> {''neg'', ''pri'', ''sec'', ''in'', ''out'', ''both'', ''none'', ''local'', ''remote'', ''nn'', ''appn'', ''len'',
      ''off'', ''on'', ''low'', ''medium'', ''high'', ''network''}"
  shows "sna_parse_link lx ns (branch ns ''link'' (leaf ns ''role'' w # rest)) = None
    \<and> sna_parse_link lx ns (branch ns ''link'' (leaf ns ''direction'' w # rest)) = None
    \<and> sna_parse_link lx ns (branch ns ''link'' (leaf ns ''security'' w # rest)) = None
    \<and> sna_parse_lu lx ns (branch ns ''lu'' (leaf ns ''where'' w # rest)) = None
    \<and> sna_parse_global lx ns (branch ns ''global'' (leaf ns ''node_type'' w # rest)) = None
    \<and> sna_parse_link lx ns (branch ns ''link'' [leaf ns ''byteswap'' w]) = Some (new_link\<lparr>li_byteswap := - 1\<rparr>)
    \<and> sna_parse_cos lx ns (branch ns ''cos'' [leaf ns ''tx_priority'' w]) = Some (new_cos\<lparr>co_tx_priority := - 1\<rparr>)"
proof -
  have "node_text lx (leaf ns e w) = Some w" for e using assms(1,2) by (rule node_text_leaf)
  moreover have "map_word role_types w = None" "map_word direction_types w = None" "map_word security_types w = None" "map_word lu_types w = None"
    "map_word node_types w = None" "map_word on_types w = Some (- 1)" "map_word tx_types w = Some (- 1)"
    using assms(3) by (auto simp: word_tables)
  ultimately show ?thesis
    by (simp add: sna_parse_link_def link_field_def sna_parse_lu_def lu_field_def sna_parse_global_def global_field_def sna_parse_cos_def cos_field_def
        matches_iff xword_words xword_word_def)
qed

theorem unknown_words_witness:
  "sna_parse_link (example_xml [] new_global) 0 (branch 0 ''link'' [leaf 0 ''role'' ''primary'']) = None
    \<and> sna_parse_link (example_xml [] new_global) 0 (branch 0 ''link'' [leaf 0 ''byteswap'' ''primary'']) = Some (new_link\<lparr>li_byteswap := - 1\<rparr>)"
  using unknown_words [OF example_xml_ok(1) [of "[]" new_global], of "''primary''" 0 "[]"] by simp

text \<open>
  The order of the elements matters: a resource in front of the element \<^verbatim>\<open>global\<close>, or a document without one, makes the program use a
  variable that was never set.
\<close>

theorem resource_before_global:
  assumes "open_config lx file = Inr (ns, cur # more_nodes)" "xml_name cur = ''node''" "xml_ns cur = Some ns"
    and "\<forall>x \<in> set before. \<not> (xml_name x = ''global'' \<and> xml_ns x = Some ns)"
    and "xml_children cur = before \<or> (\<exists>x rest. xml_children cur = before @ x # rest \<and> xml_ns x = Some ns
      \<and> xml_name x \<in> {''dlc'', ''link'', ''lu'', ''cos'', ''mode'', ''cpic''})"
  shows "sna_read_config_file lx file old = None"
proof -
  have none: "fold_nodes (node_field lx ns) xs None \<in> {None, Some None}" if "\<forall>x \<in> set xs. \<not> (xml_name x = ''global'' \<and> xml_ns x = Some ns)" for xs
    using that
  proof (induction xs)
    case (Cons x xs)
    have "node_field lx ns x None \<in> {None, Some None}" using Cons.prems by (auto simp: node_field_def Let_def split: Option.bind_splits)
    then show ?case using Cons by auto
  qed simp
  have step: "node_field lx ns x None = None" if "xml_ns x = Some ns" "xml_name x \<in> {''dlc'', ''link'', ''lu'', ''cos'', ''mode'', ''cpic''}" for x
    using that by (auto simp: node_field_def Let_def split: Option.bind_splits)
  have "fold_nodes (node_field lx ns) (xml_children cur) None \<in> {None, Some None}"
    using assms(5) none [OF assms(4)] step by (auto simp: fold_nodes_append)
  then show ?thesis using assms(1-3) by (auto simp: sna_read_config_file_def)
qed

definition dlc_first :: libxml where
  "dlc_first = \<lparr>xmlParseFile = (\<lambda>_. Some (Some (Xml None ''Helping'' [] [branch 0 ''node'' [branch 0 ''dlc'' []]]))), xmlSearchNsByHref = (\<lambda>_ _. Some 0),
     xmlIsBlankNode = (\<lambda>_. False), xmlNodeListGetString = (\<lambda>_. None)\<rparr>"

theorem resource_before_global_witness: "sna_read_config_file dlc_first ''sna.xml'' None = None"
  using resource_before_global [of dlc_first "''sna.xml''" 0 "branch 0 ''node'' [branch 0 ''dlc'' []]" "[]" "[]"]
  by (simp add: dlc_first_def open_config_def)

end

