(* ===== verification/Sna_Console.thy ===== *)
theory Sna_Console
  imports Sna_Show Sna_Config "HOL-Library.Multiset"
begin

text \<open>
  Properties of the configuration program as a whole: what is loaded can be started by the name the file gives it; how the list of
  nodes is kept; which links are shown with a port.
\<close>

section \<open>Starting what was loaded\<close>

lemma start_link_request:
  assumes "0 \<le> nof_socket w" "good_link l" "r = Nof SOL_SNA_NOF SNA_NOF_LS SNA_NOF_START (Ls_block (new_nof_ls\<lparr>ns_use_name := li_use_name l\<rparr>))"
  shows "sna_start w [''link'', string_in (li_use_name l)] s = Some (Returned (kern w s r) (s @ [r]))"
  using assms poke_string [of 40 "li_use_name l"]
  by (simp add: sna_start_def matches_iff sna_start_link_def with_socket_def returned_def nof_verbs good_link_def)

lemma link_request_name: "link_request g l = Some r \<Longrightarrow> \<exists>b. r = Nof SOL_SNA_NOF SNA_NOF_LS SNA_NOF_DEFINE (Ls_block b) \<and> ns_use_name b = li_use_name l"
  by (auto simp: link_request_def link_block_def split: Option.bind_splits)

lemma those_mem: "those (map f xs) = Some ys \<Longrightarrow> x \<in> set xs \<Longrightarrow> \<exists>y \<in> set ys. f x = Some y"
proof (induction xs arbitrary: ys)
  case (Cons a xs)
  then obtain b bs where "f a = Some b" "those (map f xs) = Some bs" "ys = b # bs" by (auto split: option.splits)
  then show ?case using Cons by auto
qed simp

lemma config_defines_link:
  assumes "config_requests g = Some rs" "l \<in> set (gi_link_list g)"
  shows "\<exists>b. Nof SOL_SNA_NOF SNA_NOF_LS SNA_NOF_DEFINE (Ls_block b) \<in> set rs \<and> ns_use_name b = li_use_name l"
proof -
  obtain ls where ls: "those (map (link_request g) (gi_link_list g)) = Some ls" "set ls \<subseteq> set rs"
    using assms(1) by (fastforce simp: config_requests_def split: Option.bind_splits)
  obtain r where "r \<in> set ls" "link_request g l = Some r" using those_mem [OF ls(1) assms(2)] by blast
  then show ?thesis using link_request_name [of g l r] ls(2) by auto
qed

text \<open>
  C24. What the file defines can be started by the name it gives: after \<^verbatim>\<open>snaconfig load file\<close>, \<^verbatim>\<open>snaconfig start link name\<close> with the name of
  a link of the file asks the kernel to start a link under the same forty characters under which the link was defined.
\<close>

theorem load_then_start:
  assumes "gives_text lx" "good_config g" "config_file lx file g" "length file < 300" "l \<in> set (gi_link_list g)"
    and "list_all (\<lambda>c. length (string_in (ci_tp_name c)) < 64) (gi_cpic_list g)"
    and "0 \<le> nof_socket w" "can_open w" "\<And>s r. 0 \<le> kern w s r"
  shows "\<exists>first second b c. snaconfig_main lx w sw [''load'', file] st = Some first \<and> status first = 0
    \<and> Nof SOL_SNA_NOF SNA_NOF_LS SNA_NOF_DEFINE (Ls_block b) \<in> set (requests (made first))
    \<and> snaconfig_main lx w sw [''start'', ''link'', string_in (li_use_name l)] (made first) = Some second \<and> 0 \<le> status second
    \<and> requests (made second) = requests (made first) @ [Nof SOL_SNA_NOF SNA_NOF_LS SNA_NOF_START (Ls_block c)] \<and> ns_use_name c = ns_use_name b"
proof -
  obtain rs where rs: "config_requests g = Some rs" using config_has_requests [OF assms(2,6)] by blast
  obtain b where b: "Nof SOL_SNA_NOF SNA_NOF_LS SNA_NOF_DEFINE (Ls_block b) \<in> set rs" "ns_use_name b = li_use_name l"
    using config_defines_link [OF rs assms(5)] by blast
  let ?st = "st\<lparr>debug_file := string_in (gi_debug_level g), requests := requests st @ rs\<rparr>"
  have "sna_load lx w 1 [file] None st = Some (Load 0 (Some g) ?st [])"
    by (rule load_config [OF assms(1-4) assms(6-9) _ rs]) simp
  then have first: "snaconfig_main lx w sw [''load'', file] st = Some \<lparr>status = 0, made = ?st, printed = []\<rparr>"
    by (simp add: snaconfig_main_def matches_iff)
  have "good_link l" using assms(2,5) by (auto simp: good_config_def list_all_iff)
  note start = start_link_request [OF assms(7) this refl]
  let ?c = "new_nof_ls\<lparr>ns_use_name := li_use_name l\<rparr>"
  let ?r = "Nof SOL_SNA_NOF SNA_NOF_LS SNA_NOF_START (Ls_block ?c)"
  have second: "snaconfig_main lx w sw [''start'', ''link'', string_in (li_use_name l)] ?st
      = Some \<lparr>status = kern w (requests ?st) ?r, made = ?st\<lparr>requests := requests ?st @ [?r]\<rparr>, printed = []\<rparr>"
    by (simp add: snaconfig_main_def matches_iff start ctrl_outcome_def)
  show ?thesis
    by (intro exI [of _ b] exI [of _ ?c] exI conjI, rule first)
       (use second b assms(9) in \<open>simp_all only: outcome.simps load_state.simps sna_nof_ls.simps set_append Un_iff\<close>, simp_all)
qed

definition no_answer :: "'e answer" where
  "no_answer = \<lparr>q_size = 64, q_realloc = (\<lambda>_. True), q_malloc = (\<lambda>_. True), q_ioctl = (\<lambda>_ _ _. None)\<rparr>"

definition idle_world :: show_world where
  "idle_world = \<lparr>sw_socket = 3, sw_nodes = None, sw_behind = (\<lambda>_. replicate 8 NUL), sw_node = no_answer, sw_dlc = no_answer, sw_port = no_answer,
     sw_ls = no_answer, sw_lu = no_answer, sw_plu = no_answer, sw_mode = no_answer, sw_cpics = no_answer, sw_cos = no_answer\<rparr>"

theorem load_then_start_witness:
  "\<exists>first second b c. snaconfig_main (example_xml ''sna.xml'' example_config) quiet_world idle_world [''load'', ''sna.xml''] \<lparr>debug_file = [], requests = []\<rparr> = Some first
    \<and> status first = 0 \<and> Nof SOL_SNA_NOF SNA_NOF_LS SNA_NOF_DEFINE (Ls_block b) \<in> set (requests (made first))
    \<and> snaconfig_main (example_xml ''sna.xml'' example_config) quiet_world idle_world [''start'', ''link'', ''head''] (made first) = Some second \<and> 0 \<le> status second
    \<and> requests (made second) = requests (made first) @ [Nof SOL_SNA_NOF SNA_NOF_LS SNA_NOF_START (Ls_block c)] \<and> ns_use_name c = ns_use_name b"
proof -
  have tp: "list_all (\<lambda>c. length (string_in (ci_tp_name c)) < 64) (gi_cpic_list example_config)" by code_simp
  have l: "hd (gi_link_list example_config) \<in> set (gi_link_list example_config)" by (simp add: example_config_def)
  have n: "string_in (li_use_name (hd (gi_link_list example_config))) = ''head''" by code_simp
  show ?thesis
    using load_then_start [OF example_xml_ok(1) example_good example_xml_ok(2) _ l tp, of "''sna.xml''" quiet_world idle_world "\<lparr>debug_file = [], requests = []\<rparr>"]
    unfolding n by (simp add: quiet_world_def)
qed

section \<open>The list of nodes\<close>

definition node_key :: "sna_all_info \<Rightarrow> nat list" where
  "node_key n = map of_char (string_in (a_name n))"

lemma array_string_in: "NUL \<in> set a \<Longrightarrow> array_string a = Some (string_in a)"
  by (simp add: array_string_def string_in_def)

lemma strcmp_pos: "strcmp (string_in (a_name n)) (string_in (a_name m)) > 0 \<longleftrightarrow> node_key m < node_key n"
  by (auto simp: strcmp_def node_key_def Let_def)

text \<open>A node is put into its place, whatever the list.\<close>

lemma add_node:
  assumes "NUL \<in> set (a_name n)" "\<forall>x \<in> set l. NUL \<in> set (a_name x)" "sorted_wrt (\<ge>) (map node_key l)"
  shows "\<exists>r. sna_show_add_node n l = Some r \<and> sorted_wrt (\<ge>) (map node_key r) \<and> mset r = add_mset n (mset l)"
  using assms(2,3)
proof (induction l)
  case (Cons x l)
  have xy: "array_string (a_name n) = Some (string_in (a_name n))" "array_string (a_name x) = Some (string_in (a_name x))"
    using assms(1) Cons.prems(1) by (simp_all add: array_string_in)
  show ?case
  proof (cases "node_key x < node_key n")
    case True
    then show ?thesis using Cons.prems(2) xy by (auto simp: strcmp_pos)
  next
    case False
    obtain r where r: "sna_show_add_node n l = Some r" "sorted_wrt (\<ge>) (map node_key r)" "mset r = add_mset n (mset l)" using Cons by auto
    then have "set r = insert n (set l)" by (metis set_mset_mset set_mset_add_mset_insert)
    then show ?thesis using False Cons.prems(2) xy r by (auto simp: strcmp_pos)
  qed
qed simp

lemma get_netid_terminated: "sna_show_get_netid p = Some (nt, nm) \<Longrightarrow> NUL \<in> set nm"
  by (auto simp: sna_show_get_netid_def Let_def poke_block_def split: if_splits list.splits Option.bind_splits)

lemma read_node_lines_ok:
  assumes "list_all (\<lambda>p. sna_show_get_netid p \<noteq> None) ls" "\<forall>x \<in> set l. NUL \<in> set (a_name x)" "sorted_wrt (\<ge>) (map node_key l)"
  shows "\<exists>r. read_node_lines ls l = Some r \<and> sorted_wrt (\<ge>) (map node_key r)
    \<and> mset r = mset (map (\<lambda>p. new_all_info\<lparr>a_net := fst (the (sna_show_get_netid p)), a_name := snd (the (sna_show_get_netid p))\<rparr>) ls) + mset l"
  using assms
proof (induction ls arbitrary: l)
  case (Cons p ls)
  then obtain nt nm where p: "sna_show_get_netid p = Some (nt, nm)" by auto
  let ?n = "new_all_info\<lparr>a_net := nt, a_name := nm\<rparr>"
  have nm: "NUL \<in> set (a_name ?n)" using get_netid_terminated [OF p] by simp
  obtain r where r: "sna_show_add_node ?n l = Some r" "sorted_wrt (\<ge>) (map node_key r)" "mset r = add_mset ?n (mset l)"
    using add_node [OF nm Cons.prems(2,3)] by blast
  then have "set r = insert ?n (set l)" by (metis set_mset_mset set_mset_add_mset_insert)
  then have "\<forall>x \<in> set r. NUL \<in> set (a_name x)" using nm Cons.prems(2) by simp
  moreover have "list_all (\<lambda>p. sna_show_get_netid p \<noteq> None) ls" using Cons.prems(1) by simp
  ultimately show ?case using Cons.IH [OF _ _ r(2)] r(1,3) p by auto
qed simp

text \<open>
  The list of nodes: reading a list whose lines begin with two names and a dot never fails and gives every node once, in the reverse
  order of their names.
\<close>

theorem nodes_sorted:
  assumes "sw_nodes w = Some (head # ls)" "list_all (\<lambda>p. sna_show_get_netid p \<noteq> None) ls"
  shows "\<exists>r. sna_show_read_nodes w [] = Some (0, r) \<and> sorted_wrt (\<ge>) (map node_key r)
    \<and> mset (map (\<lambda>n. Some (a_net n, a_name n)) r) = mset (map sna_show_get_netid ls)"
proof -
  let ?new = "\<lambda>p. new_all_info\<lparr>a_net := fst (the (sna_show_get_netid p)), a_name := snd (the (sna_show_get_netid p))\<rparr>"
  obtain r where r: "read_node_lines ls [] = Some r" "sorted_wrt (\<ge>) (map node_key r)" "mset r = mset (map ?new ls)"
    using read_node_lines_ok [OF assms(2), of "[]"] by auto
  have "mset (map (\<lambda>n. Some (a_net n, a_name n)) r) = image_mset (\<lambda>n. Some (a_net n, a_name n)) (mset (map ?new ls))" using r(3) by simp
  also have "\<dots> = mset (map (\<lambda>p. Some (the (sna_show_get_netid p))) ls)" by (simp add: image_mset.compositionality comp_def)
  also have "map (\<lambda>p. Some (the (sna_show_get_netid p))) ls = map sna_show_get_netid ls" using assms(2) by (auto simp: list_all_iff)
  finally show ?thesis using r(1,2) assms(1) by (simp add: sna_show_read_nodes_def)
qed

theorem nodes_sorted_witness:
  "\<exists>r. sna_show_read_nodes (idle_world\<lparr>sw_nodes := Some [''netid.node'', ''LNXSNA.A x'', ''LNXSNA.B y'']\<rparr>) [] = Some (0, r)
    \<and> sorted_wrt (\<ge>) (map node_key r)
    \<and> mset (map (\<lambda>n. Some (a_net n, a_name n)) r) = mset (map sna_show_get_netid [''LNXSNA.A x'', ''LNXSNA.B y''])"
proof -
  have "list_all (\<lambda>p. sna_show_get_netid p \<noteq> None) [''LNXSNA.A x'', ''LNXSNA.B y'']" by code_simp
  then show ?thesis
    using nodes_sorted [of "idle_world\<lparr>sw_nodes := Some [''netid.node'', ''LNXSNA.A x'', ''LNXSNA.B y'']\<rparr>" "''netid.node''"] by simp
qed

section \<open>Links and ports\<close>

definition belongs :: "dlcreq \<Rightarrow> portreq \<Rightarrow> lsreq \<Rightarrow> bool" where
  "belongs dl pt ls \<longleftrightarrow> string_in (lq_port_name ls) = string_in (pq_use_name pt) \<or> string_in (lq_dev_name ls) = string_in (dq_dev_name dl)"

definition terminated_names :: "dlcreq \<Rightarrow> portreq \<Rightarrow> lsreq \<Rightarrow> bool" where
  "terminated_names dl pt ls \<longleftrightarrow> NUL \<in> set (lq_port_name ls) \<and> NUL \<in> set (pq_use_name pt) \<and> NUL \<in> set (lq_dev_name ls) \<and> NUL \<in> set (dq_dev_name dl)"

lemma link_links_scan:
  "list_all (terminated_names dl pt) l \<Longrightarrow> link_links dl pt l acc = Some (rev (takeWhile (belongs dl pt) l) @ acc)"
proof (induction l arbitrary: acc)
  case (Cons x l)
  then have "link_links dl pt l (x # acc) = Some (rev (takeWhile (belongs dl pt) l) @ x # acc)" by simp
  moreover have "same_string (lq_port_name x) (pq_use_name pt) = Some (string_in (lq_port_name x) = string_in (pq_use_name pt))"
    "same_string (lq_dev_name x) (dq_dev_name dl) = Some (string_in (lq_dev_name x) = string_in (dq_dev_name dl))"
    using Cons.prems by (simp_all add: terminated_names_def same_string_def array_string_in)
  ultimately show ?case by (simp add: belongs_def [of dl pt x])
qed simp

text \<open>
  Which links are shown with a port: the links from the first one on that are on the port or on its device, up to the first that is on
  neither. So a link is shown with every port of its device, and a link behind one of another device is not shown at all.
\<close>

theorem links_shown:
  assumes "list_all (terminated_names dl pt) l"
  shows "link_links dl pt l [] = Some (rev (takeWhile (belongs dl pt) l))
    \<and> ((\<forall>x \<in> set l. string_in (lq_dev_name x) = string_in (dq_dev_name dl)) \<longrightarrow> link_links dl pt l [] = Some (rev l))
    \<and> (\<forall>x rest. l = x # rest \<and> \<not> belongs dl pt x \<longrightarrow> link_links dl pt l [] = Some [])"
proof -
  have "takeWhile (belongs dl pt) l = l" if "\<forall>x \<in> set l. string_in (lq_dev_name x) = string_in (dq_dev_name dl)"
    using that by (simp add: takeWhile_id belongs_def)
  then show ?thesis using link_links_scan [OF assms, of "[]"] by auto
qed

definition some_link :: lsreq where
  "some_link = \<lparr>lq_use_name = cells 40 ''head'', lq_dev_name = cells 9 ''eth0'', lq_port_name = cells 9 ''lan'', lq_flags = 0, lq_retries = 0, lq_xid_count = 0, lq_state = 0,
     lq_co_status = 0, lq_effective_role = 0, lq_effective_tg = 0, lq_tx_max_btu = 0, lq_rx_max_btu = 0, lq_tx_window = 0, lq_rx_window = 0, lq_plu_name = example_netid,
     lq_plu_node_id = 0, lq_plu_mac_addr = replicate 6 0, lq_plu_port = 4, lq_role = 0, lq_direction = 0, lq_xid_init_method = 0, lq_byteswap = 0, lq_retry_on_fail = 0,
     lq_retry_times = 0, lq_autoact = 0, lq_autodeact = 0, lq_tg_number = 0, lq_cost_per_byte = 0, lq_cost_per_connect_time = 0, lq_propagation_delay = 0, lq_security = 0\<rparr>"

definition some_port :: portreq where
  "some_port = \<lparr>pq_use_name = cells 40 ''other'', pq_dev_name = cells 9 ''eth0'', pq_flags = 0, pq_ls_qlen = 0, pq_saddr = replicate 12 0, pq_btu = 0, pq_mia = 0, pq_moa = 0, pq_ls = []\<rparr>"

definition some_device :: dlcreq where
  "some_device = \<lparr>dq_dev_name = cells 9 ''eth0'', dq_flags = 0, dq_type = 1, dq_mtu = 1500, dq_dev_addr = replicate 8 0, dq_port = []\<rparr>"

text \<open>The link is on the port \<^verbatim>\<open>lan\<close>; it is shown with the port \<^verbatim>\<open>other\<close>, and not at all behind a link of another device.\<close>

theorem links_shown_witness:
  "link_links some_device some_port [some_link] [] = Some [some_link]
    \<and> link_links some_device some_port [some_link\<lparr>lq_dev_name := cells 9 ''eth1''\<rparr>, some_link] [] = Some []"
proof -
  have t: "list_all (terminated_names some_device some_port) [some_link]"
    "list_all (terminated_names some_device some_port) [some_link\<lparr>lq_dev_name := cells 9 ''eth1''\<rparr>, some_link]" by code_simp+
  have b: "string_in (lq_dev_name some_link) = string_in (dq_dev_name some_device)"
    "\<not> belongs some_device some_port (some_link\<lparr>lq_dev_name := cells 9 ''eth1''\<rparr>)" by code_simp+
  show ?thesis using links_shown [OF t(1)] links_shown [OF t(2)] b by auto
qed

end
