(* ===== verification/Sna_Daemon_Conf.thy ===== *)
theory Sna_Daemon_Conf
  imports Sna_Config
begin

text \<open>
  The configurations of the two daemons: the servers of \<^verbatim>\<open>tn3270d\<close> (\<^verbatim>\<open>tn3270d/tn3270_xml.c\<close>, \<^verbatim>\<open>tn3270d/tn3270_xwords.c\<close>) and the transaction
  programs of \<^verbatim>\<open>snatchd\<close> (\<^verbatim>\<open>snatchd/snatch_xml.c\<close>). They read the same file with the same library as \<^verbatim>\<open>snaconfig\<close>, and their readers
  of words, numbers and strings are copies of those in \<open>Sna_Xml\<close>.
\<close>

section \<open>Servers\<close>

record allow_info =
  al_ipaddr :: "64 word"
  al_netmask :: "64 word"

text \<open>The members of \<^verbatim>\<open>server_info\<close> that come from the file; the two arrays have forty cells.\<close>

record server_conf =
  sc_use_name :: string
  sc_debug_level :: int
  sc_client_port :: int
  sc_manage_port :: int
  sc_test :: int
  sc_limit :: int
  sc_sysreq :: int
  sc_pool :: string
  sc_allow_list :: "allow_info list"

text \<open>
  \<^verbatim>\<open>atoi\<close> of a small array: without a terminator the scan must end at a character that is not a digit.
\<close>

definition atoi_cells :: "string \<Rightarrow> int option" where
  "atoi_cells a =
     (if NUL \<in> set a then Some (atoi (takeWhile (\<lambda>c. c \<noteq> NUL) a))
      else if dropWhile (is_digit 10) (snd (strtol_sign (dropWhile is_space a))) \<noteq> [] then Some (atoi a) else None)"

text \<open>
  \<^verbatim>\<open>strncpy(netmask_s, ++slash, strlen(slash) - 1)\<close> changes and reads \<^verbatim>\<open>slash\<close> without an order between the two: the flag says whether the
  length is computed first. A length of zero less one is the largest number, and the padding leaves the array.
\<close>

definition mask_cells :: "bool \<Rightarrow> string \<Rightarrow> string option" where
  "mask_cells length_first rest =
     (if length_first then (if length rest \<le> 3 then Some (rest @ replicate (3 - length rest) NUL) else None)
      else if rest = [] then None
      else if length rest - 1 \<le> 3 then Some (take (length rest - 1) rest @ replicate (3 - (length rest - 1)) NUL) else None)"

text \<open>The outer option is a fault, the inner a null pointer.\<close>

definition xword_ip :: "bool \<Rightarrow> (string \<Rightarrow> u32) \<Rightarrow> libxml \<Rightarrow> xml_node \<Rightarrow> allow_info option option" where
  "xword_ip length_first inet_addr lx cur = do {
     ip_string \<leftarrow> node_text lx cur;
     if length ip_string \<ge> 40 then None
     else if CHR ''/'' \<notin> set ip_string then Some None
     else do {
       let ip_s = takeWhile (\<lambda>c. c \<noteq> CHR ''/'') ip_string;
       if length ip_s \<ge> 16 then None else do {
         netmask_s \<leftarrow> mask_cells length_first (tl (dropWhile (\<lambda>c. c \<noteq> CHR ''/'') ip_string));
         bits \<leftarrow> atoi_cells netmask_s;
         if bits = 0 then Some (Some \<lparr>al_ipaddr = ucast (inet_addr ip_s), al_netmask = 0\<rparr>)
         else if bits < 1 \<or> bits > 32 then None
         else Some (Some \<lparr>al_ipaddr = ucast (inet_addr ip_s), al_netmask = ucast (htonl (push_bit (nat (32 - bits)) 0xFFFFFFFF))\<rparr>)
       }
     }
   }"

definition ip_field :: "bool \<Rightarrow> (string \<Rightarrow> u32) \<Rightarrow> libxml \<Rightarrow> nat \<Rightarrow> xml_node \<Rightarrow> server_conf \<Rightarrow> server_conf option" where
  "ip_field length_first inet_addr lx ns cur server =
     (if xml_ns cur \<noteq> Some ns \<or> matches (xml_name cur) ''ip'' \<noteq> 0 then Some server
      else do {
        allow \<leftarrow> xword_ip length_first inet_addr lx cur;
        case allow of None \<Rightarrow> Some server | Some a \<Rightarrow> Some (server\<lparr>sc_allow_list := sc_allow_list server @ [a]\<rparr>)
      })"

definition xword_ip_allow :: "bool \<Rightarrow> (string \<Rightarrow> u32) \<Rightarrow> libxml \<Rightarrow> nat \<Rightarrow> xml_node \<Rightarrow> server_conf \<Rightarrow> server_conf option" where
  "xword_ip_allow length_first inet_addr lx ns cur server = fold_nodes (ip_field length_first inet_addr lx ns) (xml_children cur) server"

definition new_server :: server_conf where
  "new_server = \<lparr>sc_use_name = replicate 40 NUL, sc_debug_level = 0, sc_client_port = 0, sc_manage_port = 0, sc_test = 0, sc_limit = 0, sc_sysreq = 0,
     sc_pool = replicate 40 NUL, sc_allow_list = []\<rparr>"

definition server_field :: "bool \<Rightarrow> (string \<Rightarrow> u32) \<Rightarrow> libxml \<Rightarrow> nat \<Rightarrow> xml_node \<Rightarrow> server_conf \<Rightarrow> server_conf option" where
  "server_field length_first inet_addr lx ns cur server =
     (if xml_ns cur \<noteq> Some ns then Some server else do {
     server \<leftarrow> set_if (xml_name cur = ''debug'') (do { x \<leftarrow> xword_int lx cur; Some (server\<lparr>sc_debug_level := x\<rparr>) }) server;
     server \<leftarrow> set_if (xml_name cur = ''use_name'') (do { x \<leftarrow> xword_strcpy lx cur (sc_use_name server); Some (server\<lparr>sc_use_name := x\<rparr>) }) server;
     server \<leftarrow> set_if (xml_name cur = ''client_port'') (do { x \<leftarrow> xword_int lx cur; Some (server\<lparr>sc_client_port := x\<rparr>) }) server;
     server \<leftarrow> set_if (xml_name cur = ''manage_port'') (do { x \<leftarrow> xword_int lx cur; Some (server\<lparr>sc_manage_port := x\<rparr>) }) server;
     server \<leftarrow> set_if (xml_name cur = ''test'') (do { x \<leftarrow> xword_on_off lx cur; Some (server\<lparr>sc_test := x\<rparr>) }) server;
     server \<leftarrow> set_if (xml_name cur = ''limit'') (do { x \<leftarrow> xword_int lx cur; Some (server\<lparr>sc_limit := x\<rparr>) }) server;
     server \<leftarrow> set_if (xml_name cur = ''sysreq'') (do { x \<leftarrow> xword_on_off lx cur; Some (server\<lparr>sc_sysreq := x\<rparr>) }) server;
     server \<leftarrow> set_if (xml_name cur = ''pool'') (do { x \<leftarrow> xword_strcpy lx cur (sc_pool server); Some (server\<lparr>sc_pool := x\<rparr>) }) server;
     set_if (xml_name cur = ''allow'') (xword_ip_allow length_first inet_addr lx ns cur server) server
   })"

definition tn3270_parse_server :: "bool \<Rightarrow> (string \<Rightarrow> u32) \<Rightarrow> libxml \<Rightarrow> nat \<Rightarrow> xml_node \<Rightarrow> server_conf option" where
  "tn3270_parse_server length_first inet_addr lx ns cur = fold_nodes (server_field length_first inet_addr lx ns) (xml_children cur) new_server"

text \<open>The servers are appended to the list that is there. The element is looked for by its name alone.\<close>

definition tn3270_read_config_file :: "bool \<Rightarrow> (string \<Rightarrow> u32) \<Rightarrow> libxml \<Rightarrow> string \<Rightarrow> server_conf list \<Rightarrow> (int \<times> server_conf list) option" where
  "tn3270_read_config_file length_first inet_addr lx cfile server_list =
     (case open_config lx cfile of
        Inl err \<Rightarrow> Some (err, server_list)
      | Inr (ns, cur) \<Rightarrow>
         (case dropWhile (\<lambda>n. xml_name n \<noteq> ''tn3270'') cur of
            [] \<Rightarrow> Some (- 1, server_list)
          | elem # _ \<Rightarrow> do {
              l \<leftarrow> fold_nodes (\<lambda>n l. if xml_ns n = Some ns \<and> xml_name n = ''server'' then do { s \<leftarrow> tn3270_parse_server length_first inet_addr lx ns n; Some (l @ [s]) } else Some l)
                (xml_children elem) server_list;
              Some (0, l)
            }))"

text \<open>\<^verbatim>\<open>inet_ntoa\<close> is a parameter.\<close>

definition print_allow :: "(u32 \<Rightarrow> string) \<Rightarrow> allow_info \<Rightarrow> string option" where
  "print_allow inet_ntoa allow = Some (labelled ''ipaddr'' (inet_ntoa (ucast (al_ipaddr allow))) @ labelled ''netmask'' (inet_ntoa (ucast (al_netmask allow))))"

definition print_server :: "(u32 \<Rightarrow> string) \<Rightarrow> server_conf \<Rightarrow> string option" where
  "print_server inet_ntoa server = do {
     u \<leftarrow> array_string (sc_use_name server);
     t \<leftarrow> show_word on_types (sc_test server);
     q \<leftarrow> show_word on_types (sc_sysreq server);
     p \<leftarrow> array_string (sc_pool server);
     allows \<leftarrow> print_each (print_allow inet_ntoa) (sc_allow_list server);
     Some (''---------------------- server ----------------------\<newline>'' @ labelled ''use_name'' u @ labelled_int ''debug_level'' (sc_debug_level server)
       @ labelled_int ''client_port'' (sc_client_port server) @ labelled_int ''manage_port'' (sc_manage_port server) @ labelled ''test'' t
       @ labelled_int ''limit'' (sc_limit server) @ labelled ''sysreq'' q @ labelled ''pool'' p @ ''--------------- allow ---------------\<newline>'' @ allows
       @ ''-------------------------------------\<newline>'' @ ''----------------------------------------------------\<newline>'')
   }"

definition tn3270_print_config :: "(u32 \<Rightarrow> string) \<Rightarrow> server_conf list \<Rightarrow> string option" where
  "tn3270_print_config inet_ntoa l = print_each (print_server inet_ntoa) l"

section \<open>Transaction programs\<close>

record local_tp_info =
  tp_name :: string
  tp_type :: int
  tp_sync_level :: int
  tp_queued :: int
  tp_limit :: int
  tp_path :: string
  tp_user :: string

definition new_tp :: local_tp_info where
  "new_tp = \<lparr>tp_name = replicate 64 NUL, tp_type = 0, tp_sync_level = 0, tp_queued = 0, tp_limit = 0, tp_path = replicate 300 NUL, tp_user = replicate 100 NUL\<rparr>"

definition tp_field :: "libxml \<Rightarrow> nat \<Rightarrow> xml_node \<Rightarrow> local_tp_info \<Rightarrow> local_tp_info option" where
  "tp_field lx ns cur tp =
     (if xml_ns cur \<noteq> Some ns then Some tp else do {
     tp \<leftarrow> set_if (xml_name cur = ''name'') (do { x \<leftarrow> xword_strcpy lx cur (tp_name tp); Some (tp\<lparr>tp_name := x\<rparr>) }) tp;
     tp \<leftarrow> set_if (xml_name cur = ''type'') (do { x \<leftarrow> xword_conversation_type lx cur; Some (tp\<lparr>tp_type := x\<rparr>) }) tp;
     tp \<leftarrow> set_if (xml_name cur = ''sync'') (do { x \<leftarrow> xword_sync_level lx cur; Some (tp\<lparr>tp_sync_level := x\<rparr>) }) tp;
     tp \<leftarrow> set_if (xml_name cur = ''queued'') (do { x \<leftarrow> xword_on_off lx cur; Some (tp\<lparr>tp_queued := x\<rparr>) }) tp;
     tp \<leftarrow> set_if (xml_name cur = ''limit'') (do { x \<leftarrow> xword_int lx cur; Some (tp\<lparr>tp_limit := x\<rparr>) }) tp;
     tp \<leftarrow> set_if (xml_name cur = ''user'') (do { x \<leftarrow> xword_strcpy lx cur (tp_user tp); Some (tp\<lparr>tp_user := x\<rparr>) }) tp;
     set_if (xml_name cur = ''path'') (do { x \<leftarrow> xword_strcpy lx cur (tp_path tp); Some (tp\<lparr>tp_path := x\<rparr>) }) tp
   })"

definition snatch_parse_tp :: "libxml \<Rightarrow> nat \<Rightarrow> xml_node \<Rightarrow> local_tp_info option" where
  "snatch_parse_tp lx ns cur = fold_nodes (tp_field lx ns) (xml_children cur) new_tp"

definition snatch_read_config_file :: "libxml \<Rightarrow> string \<Rightarrow> local_tp_info list \<Rightarrow> (int \<times> local_tp_info list) option" where
  "snatch_read_config_file lx cfile tp_list =
     (case open_config lx cfile of
        Inl err \<Rightarrow> Some (err, tp_list)
      | Inr (ns, cur) \<Rightarrow>
         (case dropWhile (\<lambda>n. xml_name n \<noteq> ''snatchd'') cur of
            [] \<Rightarrow> Some (- 1, tp_list)
          | elem # _ \<Rightarrow> do {
              l \<leftarrow> fold_nodes (\<lambda>n l. if xml_ns n = Some ns \<and> xml_name n = ''tp'' then do { t \<leftarrow> snatch_parse_tp lx ns n; Some (l @ [t]) } else Some l)
                (xml_children elem) tp_list;
              Some (0, l)
            }))"

definition print_tp :: "local_tp_info \<Rightarrow> string option" where
  "print_tp tp = do {
     n \<leftarrow> array_string (tp_name tp);
     t \<leftarrow> show_word conversation_types (tp_type tp);
     s \<leftarrow> show_word sync_levels (tp_sync_level tp);
     q \<leftarrow> show_word on_types (tp_queued tp);
     u \<leftarrow> array_string (tp_user tp);
     p \<leftarrow> array_string (tp_path tp);
     Some (''---------------------- tp ----------------------\<newline>'' @ labelled ''name'' n @ labelled ''type'' t @ labelled ''sync'' s @ labelled ''queued'' q
       @ labelled_int ''limit'' (tp_limit tp) @ labelled ''user'' u @ labelled ''path'' p @ ''------------------------------------------------\<newline>'')
   }"

definition snatch_print_config :: "local_tp_info list \<Rightarrow> string option" where
  "snatch_print_config l = print_each print_tp l"

section \<open>Entries of permitted clients\<close>

definition mask_of :: "nat \<Rightarrow> u32" where
  "mask_of n = (if n = 0 then 0 else htonl (push_bit (32 - n) 0xFFFFFFFF))"

lemma digits10_small: "n \<le> 32 \<Longrightarrow> digits10 n = (if n < 10 then [] else [''0123456789'' ! (n div 10)]) @ [''0123456789'' ! (n mod 10)]"
proof -
  assume "n \<le> 32"
  then have "n div 10 < 10" by simp
  then show ?thesis by (simp add: digits10.simps [of n] digits10.simps [of "n div 10"])
qed

lemma digits10_no_nul: "NUL \<notin> set (digits10 n)"
proof
  assume "NUL \<in> set (digits10 n)"
  then have "is_digit 10 NUL" using digits10_chars by blast
  then show False by (simp add: is_digit_def digit_val_def)
qed

text \<open>The number in the cells: the whole prefix length, or what is left of it without its last digit.\<close>

lemma mask_cells_value:
  assumes "n \<le> 32"
  shows "\<exists>c. mask_cells length_first (digits10 n) = Some c \<and> atoi_cells c = Some (int (if length_first then n else n div 10))"
proof -
  have cells: "atoi_cells (s @ replicate (Suc k) NUL) = Some (atoi s)" if "NUL \<notin> set s" for s k
  proof -
    have "takeWhile (\<lambda>c. c \<noteq> NUL) s = s" using that by (auto simp: takeWhile_eq_all_conv)
    then show ?thesis by (simp add: atoi_cells_def takeWhile_append)
  qed
  have val: "atoi (digits10 m) = int m" if "m \<le> 32" for m
    using that atoi_show_int [of "int m"] by (simp add: show_int_def int32_def)
  have len: "length (digits10 n) = (if n < 10 then 1 else 2)" using assms by (simp add: digits10_small)
  show ?thesis
  proof (cases length_first)
    case True
    obtain k where k: "3 - length (digits10 n) = Suc k" using len by (simp split: if_splits)
    show ?thesis using True len cells [OF digits10_no_nul, of n k] val [OF assms] unfolding mask_cells_def k by (simp split: if_splits)
  next
    case False
    let ?s = "take (length (digits10 n) - 1) (digits10 n)"
    have "n div 10 < 10" using assms by simp
    then have s: "?s = (if n < 10 then [] else digits10 (n div 10))" using assms by (simp add: digits10_small)
    obtain k where k: "3 - (length (digits10 n) - 1) = Suc k" using len by (simp split: if_splits)
    have "NUL \<notin> set ?s" using digits10_no_nul [of n] by (auto dest: in_set_takeD)
    moreover have "atoi ?s = int (n div 10)" unfolding s using assms val [of "n div 10"] by (simp add: atoi_def strtol_sign_def digits_val_def clamp_long_def)
    ultimately show ?thesis using False len cells [of ?s k] unfolding mask_cells_def k by (simp split: if_splits)
  qed
qed

lemma xword_ip_entry:
  assumes "gives_text lx" "CHR ''/'' \<notin> set ip" "length ip < 16" "n \<le> 32"
  shows "xword_ip length_first inet_addr lx (leaf ns e (ip @ ''/'' @ digits10 n))
    = Some (Some \<lparr>al_ipaddr = ucast (inet_addr ip), al_netmask = ucast (mask_of (if length_first then n else n div 10))\<rparr>)"
proof -
  have "takeWhile (\<lambda>c. c \<noteq> CHR ''/'') ip = ip" using assms(2) by (auto simp: takeWhile_eq_all_conv)
  then have "takeWhile (\<lambda>c. c \<noteq> CHR ''/'') (ip @ ''/'' @ digits10 n) = ip" "dropWhile (\<lambda>c. c \<noteq> CHR ''/'') (ip @ ''/'' @ digits10 n) = ''/'' @ digits10 n"
    using assms(2) by (auto simp: takeWhile_append dropWhile_append)
  moreover have "length (digits10 n) \<le> 2" using assms(4) by (simp add: digits10_small)
  moreover obtain c where "mask_cells length_first (digits10 n) = Some c" "atoi_cells c = Some (int (if length_first then n else n div 10))"
    using mask_cells_value [OF assms(4)] by blast
  moreover have "nat (32 - int k) = 32 - k" "n div 10 \<le> 32" for k using assms(4) by simp_all
  ultimately show ?thesis using assms by (simp add: xword_ip_def node_text_leaf mask_of_def Let_def not_less)
qed

text \<open>
  An entry of a permitted network: if the length of the mask text is computed before the pointer moves, the entry has the prefix length
  that is written; if the compiler moves the pointer first, the last digit is lost, and a prefix of one digit admits every client.
\<close>

theorem allow_entry_order:
  assumes "gives_text lx" "CHR ''/'' \<notin> set ip" "length ip < 16" "n \<le> 32"
  shows "xword_ip True inet_addr lx (leaf ns ''ip'' (ip @ ''/'' @ digits10 n)) = Some (Some \<lparr>al_ipaddr = ucast (inet_addr ip), al_netmask = ucast (mask_of n)\<rparr>)
    \<and> xword_ip False inet_addr lx (leaf ns ''ip'' (ip @ ''/'' @ digits10 n)) = Some (Some \<lparr>al_ipaddr = ucast (inet_addr ip), al_netmask = ucast (mask_of (n div 10))\<rparr>)"
  using xword_ip_entry [OF assms, of True] xword_ip_entry [OF assms, of False] by simp

theorem allow_entry_order_witness:
  "xword_ip True (\<lambda>_. 0x0000000A) (example_xml [] new_global) (leaf 0 ''ip'' (''10.0.0.0'' @ ''/'' @ digits10 8)) = Some (Some \<lparr>al_ipaddr = 0xA, al_netmask = 0xFF\<rparr>)
    \<and> xword_ip False (\<lambda>_. 0x0000000A) (example_xml [] new_global) (leaf 0 ''ip'' (''10.0.0.0'' @ ''/'' @ digits10 8)) = Some (Some \<lparr>al_ipaddr = 0xA, al_netmask = 0\<rparr>)"
proof -
  have "mask_of 8 = 0xFF" by (simp add: mask_of_def htonl_def)
  then show ?thesis using allow_entry_order [OF example_xml_ok(1) [of "[]" new_global], of "''10.0.0.0''" 8 "\<lambda>_. 0xA" 0] by (simp add: mask_of_def)
qed

section \<open>Round trips\<close>

definition tp_xml :: "nat \<Rightarrow> local_tp_info \<Rightarrow> xml_node" where
  "tp_xml ns tp = branch ns ''tp'' [leaf ns ''name'' (string_in (tp_name tp)), leaf ns ''type'' (word_for conversation_types (tp_type tp)),
     leaf ns ''sync'' (word_for sync_levels (tp_sync_level tp)), leaf ns ''queued'' (word_for on_types (tp_queued tp)), leaf ns ''limit'' (show_int (tp_limit tp)),
     leaf ns ''user'' (string_in (tp_user tp)), leaf ns ''path'' (string_in (tp_path tp))]"

definition good_tp :: "local_tp_info \<Rightarrow> bool" where
  "good_tp tp \<longleftrightarrow> holds_string 64 (tp_name tp) \<and> word_value conversation_types (tp_type tp) \<and> word_value sync_levels (tp_sync_level tp)
     \<and> word_value on_types (tp_queued tp) \<and> int32 (tp_limit tp) \<and> holds_string 300 (tp_path tp) \<and> holds_string 100 (tp_user tp)"

lemma read_conversation_type [reads]:
  "gives_text lx \<Longrightarrow> word_value conversation_types v \<Longrightarrow> xword_conversation_type lx (leaf ns n (word_for conversation_types v)) = Some v"
  by (simp add: xword_conversation_type_def read_word)

lemma read_sync_level [reads]: "gives_text lx \<Longrightarrow> word_value sync_levels v \<Longrightarrow> xword_sync_level lx (leaf ns n (word_for sync_levels v)) = Some v"
  by (simp add: xword_sync_level_def read_word)

lemma parse_tp_xml: "gives_text lx \<Longrightarrow> good_tp t \<Longrightarrow> snatch_parse_tp lx ns (tp_xml ns t) = Some t"
  by (cases t) (simp add: snatch_parse_tp_def tp_xml_def tp_field_def reads good_tp_def new_tp_def)

text \<open>A server and the entries of its permitted networks, each an address and a prefix length.\<close>

definition ip_xml :: "nat \<Rightarrow> string \<times> nat \<Rightarrow> xml_node" where
  "ip_xml ns e = leaf ns ''ip'' (fst e @ ''/'' @ digits10 (snd e))"

definition good_entry :: "string \<times> nat \<Rightarrow> bool" where
  "good_entry e \<longleftrightarrow> CHR ''/'' \<notin> set (fst e) \<and> length (fst e) < 16 \<and> snd e \<le> 32"

definition allow_of :: "bool \<Rightarrow> (string \<Rightarrow> u32) \<Rightarrow> string \<times> nat \<Rightarrow> allow_info" where
  "allow_of length_first inet_addr e = \<lparr>al_ipaddr = ucast (inet_addr (fst e)), al_netmask = ucast (mask_of (if length_first then snd e else snd e div 10))\<rparr>"

definition server_xml :: "nat \<Rightarrow> server_conf \<Rightarrow> (string \<times> nat) list \<Rightarrow> xml_node" where
  "server_xml ns s es = branch ns ''server'' [leaf ns ''debug'' (show_int (sc_debug_level s)), leaf ns ''use_name'' (string_in (sc_use_name s)),
     leaf ns ''client_port'' (show_int (sc_client_port s)), leaf ns ''manage_port'' (show_int (sc_manage_port s)), leaf ns ''test'' (word_for on_types (sc_test s)),
     leaf ns ''limit'' (show_int (sc_limit s)), leaf ns ''sysreq'' (word_for on_types (sc_sysreq s)), leaf ns ''pool'' (string_in (sc_pool s)),
     branch ns ''allow'' (map (ip_xml ns) es)]"

definition good_server :: "server_conf \<Rightarrow> bool" where
  "good_server s \<longleftrightarrow> holds_string 40 (sc_use_name s) \<and> int32 (sc_debug_level s) \<and> int32 (sc_client_port s) \<and> int32 (sc_manage_port s)
     \<and> word_value on_types (sc_test s) \<and> int32 (sc_limit s) \<and> word_value on_types (sc_sysreq s) \<and> holds_string 40 (sc_pool s)"

lemma read_entries:
  assumes "gives_text lx"
  shows "list_all good_entry es \<Longrightarrow> xword_ip_allow lf inet_addr lx ns (branch ns ''allow'' (map (ip_xml ns) es)) s
    = Some (s\<lparr>sc_allow_list := sc_allow_list s @ map (allow_of lf inet_addr) es\<rparr>)"
proof (induction es arbitrary: s)
  case (Cons e es)
  then show ?case using xword_ip_entry [OF assms, of "fst e" "snd e" lf inet_addr ns "''ip''"]
    by (simp add: xword_ip_allow_def ip_field_def ip_xml_def matches_iff good_entry_def allow_of_def)
qed (simp add: xword_ip_allow_def)

lemma parse_server_xml:
  "gives_text lx \<Longrightarrow> good_server s \<Longrightarrow> list_all good_entry es \<Longrightarrow>
   tn3270_parse_server lf inet_addr lx ns (server_xml ns s es) = Some (s\<lparr>sc_allow_list := map (allow_of lf inet_addr) es\<rparr>)"
  by (cases s) (simp add: tn3270_parse_server_def server_xml_def server_field_def reads good_server_def new_server_def read_entries)

text \<open>A file with an element of a daemon behind others.\<close>

definition daemon_file :: "libxml \<Rightarrow> string \<Rightarrow> string \<Rightarrow> nat \<Rightarrow> xml_node list \<Rightarrow> bool" where
  "daemon_file lx file tag ns xs \<longleftrightarrow> (\<exists>before rest. open_config lx file = Inr (ns, before @ branch ns tag xs # rest) \<and> list_all (\<lambda>n. xml_name n \<noteq> tag) before)"

lemma daemon_file_drop:
  assumes "list_all (\<lambda>n. xml_name n \<noteq> tag) before"
  shows "dropWhile (\<lambda>n. xml_name n \<noteq> tag) (before @ branch ns tag xs # rest) = branch ns tag xs # rest"
  using assms by (induction before) simp_all

lemma fold_servers:
  "gives_text lx \<Longrightarrow> list_all (\<lambda>(s, es). good_server s \<and> list_all good_entry es) ss \<Longrightarrow>
   fold_nodes (\<lambda>n l. if xml_ns n = Some ns \<and> xml_name n = ''server'' then do { s \<leftarrow> tn3270_parse_server lf inet_addr lx ns n; Some (l @ [s]) } else Some l)
     (map (\<lambda>(s, es). server_xml ns s es) ss) l = Some (l @ map (\<lambda>(s, es). s\<lparr>sc_allow_list := map (allow_of lf inet_addr) es\<rparr>) ss)"
proof (induction ss arbitrary: l)
  case (Cons p ss)
  obtain s es where p: "p = (s, es)" by (cases p)
  have "xml_ns (server_xml ns s es) = Some ns" "xml_name (server_xml ns s es) = ''server''" by (simp_all add: server_xml_def)
  then show ?case using Cons p by (simp add: parse_server_xml)
qed simp

lemma fold_tps:
  "gives_text lx \<Longrightarrow> list_all good_tp ts \<Longrightarrow>
   fold_nodes (\<lambda>n l. if xml_ns n = Some ns \<and> xml_name n = ''tp'' then do { t \<leftarrow> snatch_parse_tp lx ns n; Some (l @ [t]) } else Some l)
     (map (tp_xml ns) ts) l = Some (l @ ts)"
proof (induction ts arbitrary: l)
  case (Cons t ts)
  have "xml_ns (tp_xml ns t) = Some ns" "xml_name (tp_xml ns t) = ''tp''" by (simp_all add: tp_xml_def)
  then show ?case using Cons by (simp add: parse_tp_xml)
qed simp

text \<open>
  C38. The daemons read what is written. From a file with transaction programs, \<^verbatim>\<open>snatch_read_config_file\<close> appends exactly these
  programs to its list. From a file with servers, \<^verbatim>\<open>tn3270_read_config_file\<close> appends exactly these servers; their permitted networks
  depend on the order in which the compiler evaluates the arguments of one \<^verbatim>\<open>strncpy\<close>: with the length first they are the networks
  that are written; with the pointer moved first each prefix length loses its last digit, so that one of a single digit has the empty
  mask, which every address matches.
\<close>

theorem daemon_config_round_trip:
  assumes "gives_text lx"
  shows "(daemon_file lx file ''tn3270'' ns (map (\<lambda>(s, es). server_xml ns s es) ss) \<and> list_all (\<lambda>(s, es). good_server s \<and> list_all good_entry es) ss
      \<longrightarrow> tn3270_read_config_file lf inet_addr lx file old_servers
            = Some (0, old_servers @ map (\<lambda>(s, es). s\<lparr>sc_allow_list := map (allow_of lf inet_addr) es\<rparr>) ss))
    \<and> allow_of True inet_addr (ip, n) = \<lparr>al_ipaddr = ucast (inet_addr ip), al_netmask = ucast (mask_of n)\<rparr>
    \<and> allow_of False inet_addr (ip, n) = \<lparr>al_ipaddr = ucast (inet_addr ip), al_netmask = (if n < 10 then 0 else ucast (mask_of (n div 10)))\<rparr>
    \<and> (daemon_file lx file ''snatchd'' ns (map (tp_xml ns) ts) \<and> list_all good_tp ts \<longrightarrow> snatch_read_config_file lx file old_tps = Some (0, old_tps @ ts))"
proof -
  have "allow_of False inet_addr (ip, n) = \<lparr>al_ipaddr = ucast (inet_addr ip), al_netmask = (if n < 10 then 0 else ucast (mask_of (n div 10)))\<rparr>"
    by (simp add: allow_of_def mask_of_def)
  then show ?thesis
    using fold_servers [OF assms, of ss ns lf inet_addr old_servers] fold_tps [OF assms, of ts ns old_tps]
    by (auto simp: daemon_file_def tn3270_read_config_file_def snatch_read_config_file_def daemon_file_drop allow_of_def [of True] simp del: fold_nodes.simps)
qed

definition some_tp :: local_tp_info where
  "some_tp = new_tp\<lparr>tp_name := cells 64 ''APINGD'', tp_type := 2, tp_sync_level := 1, tp_limit := 10, tp_path := cells 300 ''/usr/bin/apingd'', tp_user := cells 100 ''root''\<rparr>"

definition some_server :: server_conf where
  "some_server = new_server\<lparr>sc_use_name := cells 40 ''main'', sc_client_port := 2023, sc_manage_port := 5023, sc_test := 1, sc_limit := 8, sc_pool := cells 40 ''pool1''\<rparr>"

definition daemon_xml :: "xml_node list \<Rightarrow> libxml" where
  "daemon_xml xs = (example_xml [] new_global)\<lparr>xmlParseFile := (\<lambda>_. Some (Some (Xml None ''Helping'' [] xs)))\<rparr>"

lemma daemon_xml_ok: "gives_text (daemon_xml xs)"
  by (simp add: gives_text_def daemon_xml_def written_xml_def text_node_def)

text \<open>The same entry in the two orders.\<close>

theorem daemon_config_round_trip_witness:
  "\<exists>lx. tn3270_read_config_file True (\<lambda>_. 0xA) lx ''sna.xml'' [] = Some (0, [some_server\<lparr>sc_allow_list := [\<lparr>al_ipaddr = 0xA, al_netmask = 0xFF\<rparr>]\<rparr>])
    \<and> tn3270_read_config_file False (\<lambda>_. 0xA) lx ''sna.xml'' [] = Some (0, [some_server\<lparr>sc_allow_list := [\<lparr>al_ipaddr = 0xA, al_netmask = 0\<rparr>]\<rparr>])
    \<and> snatch_read_config_file lx ''sna.xml'' [] = Some (0, [some_tp])"
proof -
  let ?xs = "[branch 0 ''node'' [], branch 0 ''tn3270'' [server_xml 0 some_server [(''10.0.0.0'', 8)]], branch 0 ''snatchd'' [tp_xml 0 some_tp]]"
  have o: "open_config (daemon_xml ?xs) ''sna.xml'' = Inr (0, ?xs)" by (simp add: open_config_def daemon_xml_def written_xml_def)
  have a: "daemon_file (daemon_xml ?xs) ''sna.xml'' ''tn3270'' 0 (map (\<lambda>(s, es). server_xml 0 s es) [(some_server, [(''10.0.0.0'', 8)])])"
    unfolding daemon_file_def o by (rule exI [of _ "[branch 0 ''node'' []]"]) simp
  have b: "daemon_file (daemon_xml ?xs) ''sna.xml'' ''snatchd'' 0 (map (tp_xml 0) [some_tp])"
    unfolding daemon_file_def o by (rule exI [of _ "take 2 ?xs"]) simp
  have g: "good_server some_server" "good_entry (''10.0.0.0'', 8)" "good_tp some_tp" by code_simp+
  have m: "mask_of 8 = 0xFF" by (simp add: mask_of_def htonl_def)
  have t: "tn3270_read_config_file lf (\<lambda>_. 0xA) (daemon_xml ?xs) ''sna.xml'' [] = Some (0, [some_server\<lparr>sc_allow_list := [allow_of lf (\<lambda>_. 0xA) (''10.0.0.0'', 8)]\<rparr>])"
    "allow_of True (\<lambda>_. 0xA) (''10.0.0.0'', 8) = \<lparr>al_ipaddr = 0xA, al_netmask = 0xFF\<rparr>"
    "allow_of False (\<lambda>_. 0xA) (''10.0.0.0'', 8) = \<lparr>al_ipaddr = 0xA, al_netmask = 0\<rparr>"
    "snatch_read_config_file (daemon_xml ?xs) ''sna.xml'' [] = Some (0, [some_tp])" for lf
    using daemon_config_round_trip [OF daemon_xml_ok, of ?xs "''sna.xml''" 0 "[(some_server, [(''10.0.0.0'', 8)])]" lf "\<lambda>_. 0xA" "[]" "''10.0.0.0''" 8
      "[some_tp]" "[]"] a b g m by simp_all
  show ?thesis using t(1) [of True] t(1) [of False] t(2-4) by auto
qed

end
