(* ===== verification/Sense_Lookup.thy ===== *)
theory Sense_Lookup
  imports Sna_Utility
begin

text \<open>
  The sense code lookup (\<^verbatim>\<open>sense/getsense.c\<close>). The data file is read with \<^verbatim>\<open>fgets\<close> into an array that keeps
  what earlier lines left behind; a cell that was never written is \<^term>\<open>None\<close>, and using it is a fault, as is the
  fourth entry of the table of generic codes.

  The second half states what a file of sense codes means and shows that the program answers by that meaning.
\<close>

section \<open>The data file and the buffer\<close>

datatype STATE = STATE_NOTHING | STATE_IN_CODE | STATE_IN_WRONG_DATA | STATE_IN_RIGHT_DATA

record gen_info =
  data_code :: string
  file_offset :: nat

text \<open>The variables of \<^verbatim>\<open>show_sense\<close> that are read: the offset of the file and the text printed so far.\<close>

record sense_run =
  sr_pos :: nat
  sr_buffer :: "char option list"
  sr_state :: STATE
  sr_gens :: "gen_info list"
  sr_out :: string

definition MAXDATA :: nat where "MAXDATA = 3"

definition sense_file :: string where "sense_file = ''/usr/lib/getsense/sense.data''"

definition name_s :: string where "name_s = ''getsense''"

definition maintainer_s :: string where "maintainer_s = ''Jay Schulist <jschlst@linux-sna.org>''"

text \<open>What \<^verbatim>\<open>fgets\<close> takes of the rest of a file, at most \<open>n\<close> characters, and the array after it.\<close>

fun fgets_chunk :: "nat \<Rightarrow> string \<Rightarrow> string" where
  "fgets_chunk (Suc n) (c # s) = (if c = CHR 0x0A then [c] else c # fgets_chunk n s)"
| "fgets_chunk _ _ = []"

definition fgets_store :: "string \<Rightarrow> char option list \<Rightarrow> char option list" where
  "fgets_store chunk m = map Some (chunk @ [NUL]) @ drop (Suc (length chunk)) m"

text \<open>\<^verbatim>\<open>strncmp(m, s, n) == 0\<close> and the string \<^verbatim>\<open>printf\<close> reads.\<close>

fun strncmp_same :: "nat \<Rightarrow> char option list \<Rightarrow> string \<Rightarrow> bool option" where
  "strncmp_same 0 m s = Some True"
| "strncmp_same (Suc n) (Some c # m) s =
     (case s of
        [] \<Rightarrow> Some (c = NUL)
      | d # s' \<Rightarrow> if c \<noteq> d then Some False else if c = NUL then Some True else strncmp_same n m s')"
| "strncmp_same (Suc n) _ s = None"

fun printed_string :: "char option list \<Rightarrow> string option" where
  "printed_string (Some c # m) = (if c = NUL then Some [] else map_option ((#) c) (printed_string m))"
| "printed_string _ = None"

section \<open>Generic entries\<close>

text \<open>
  The first four characters after the tag are searched for one of \<open>n\<close>, \<open>x\<close>, \<open>y\<close>; the search stops there, but not at the end of the
  line, so a short line is compared with what an earlier one left in the array.
\<close>

fun has_generic_char :: "nat \<Rightarrow> char option list \<Rightarrow> bool option" where
  "has_generic_char 0 m = Some False"
| "has_generic_char (Suc n) (Some c # m) = (if c \<in> set ''nxy'' then Some True else has_generic_char n m)"
| "has_generic_char (Suc n) _ = None"

fun copy_code :: "nat \<Rightarrow> char option list \<Rightarrow> string option" where
  "copy_code 0 m = Some []"
| "copy_code (Suc n) (Some c # m) = (if c = NUL then Some (replicate (Suc n) NUL) else map_option ((#) c) (copy_code n m))"
| "copy_code (Suc n) _ = None"

definition check_for_generic_msg :: "nat \<Rightarrow> char option list \<Rightarrow> gen_info option option" where
  "check_for_generic_msg offset buffer = do {
     g \<leftarrow> has_generic_char 4 (tl buffer);
     if g then do { c \<leftarrow> copy_code 4 (tl buffer); Some (Some \<lparr>data_code = c @ [NUL], file_offset = offset\<rparr>) } else Some None
   }"

definition compare_generic :: "string \<Rightarrow> string \<Rightarrow> bool" where
  "compare_generic sense_data code = list_all2 (\<lambda>d s. \<not> is_digit 16 d \<or> d = s) (take 4 code) (take 4 sense_data)"

section \<open>The search\<close>

datatype sense_next = Next sense_run | Finished string

text \<open>A line that starts with \<open>D\<close>, in \<^verbatim>\<open>STATE_IN_CODE\<close> and in \<^verbatim>\<open>STATE_IN_WRONG_DATA\<close>.\<close>

definition data_line :: "string option \<Rightarrow> sense_run \<Rightarrow> sense_next option" where
  "data_line sense_data r = do {
     right \<leftarrow> (case sense_data of None \<Rightarrow> Some True | Some d \<Rightarrow> strncmp_same 4 (tl (sr_buffer r)) d);
     if right then Some (Next (r\<lparr>sr_state := STATE_IN_RIGHT_DATA\<rparr>))
     else do {
       g \<leftarrow> check_for_generic_msg (sr_pos r) (sr_buffer r);
       case g of
         None \<Rightarrow> Some (Next (r\<lparr>sr_state := STATE_IN_WRONG_DATA\<rparr>))
       | Some info \<Rightarrow>
           if length (sr_gens r) < MAXDATA
           then Some (Next (r\<lparr>sr_state := STATE_IN_WRONG_DATA, sr_gens := sr_gens r @ [info]\<rparr>)) else None
     }
   }"

definition details_missing :: string where
  "details_missing = name_s @ '': details for this sense data were not found. please contact '' @ maintainer_s @ ''\<newline>''"

definition code_missing :: string where
  "code_missing = name_s @ '': the send code was not found.\<newline>''"

text \<open>
  A line that starts with \<open>C\<close> in \<^verbatim>\<open>STATE_IN_WRONG_DATA\<close>: the first generic entry that fits is where the file is read on. The data is
  only absent when no line can have been wrong; comparing with it would be a null pointer.
\<close>

definition generic_line :: "string \<Rightarrow> string option \<Rightarrow> sense_run \<Rightarrow> sense_next option" where
  "generic_line sense_code sense_data r =
     (case (sr_gens r, sense_data) of
        (_ # _, None) \<Rightarrow> None
      | (gens, d) \<Rightarrow>
          (case find (\<lambda>g. compare_generic (the d) (data_code g)) gens of
             Some g \<Rightarrow> Some (Next (r\<lparr>sr_pos := file_offset g, sr_state := STATE_IN_RIGHT_DATA\<rparr>))
           | None \<Rightarrow> if sense_code \<noteq> ''0835'' then Some (Finished (sr_out r @ details_missing)) else Some (Next r)))"

definition print_line :: "sense_run \<Rightarrow> sense_next option" where
  "print_line r = map_option (\<lambda>s. Next (r\<lparr>sr_out := sr_out r @ s\<rparr>)) (printed_string (tl (sr_buffer r)))"

definition sense_line :: "string \<Rightarrow> string option \<Rightarrow> sense_run \<Rightarrow> sense_next option" where
  "sense_line sense_code sense_data r = do {
     cell \<leftarrow> peek (sr_buffer r) 0;
     c \<leftarrow> cell;
     case sr_state r of
       STATE_NOTHING \<Rightarrow>
         if c = CHR ''C'' then do {
           same \<leftarrow> strncmp_same 4 (tl (sr_buffer r)) sense_code;
           Some (Next (if same then r\<lparr>sr_state := STATE_IN_CODE\<rparr> else r))
         }
         else Some (Next r)
     | STATE_IN_CODE \<Rightarrow>
         if c = CHR ''!'' then print_line r
         else if c = CHR ''C'' then Some (Finished (sr_out r))
         else if c = CHR ''D'' then data_line sense_data r
         else Some (Next r)
     | STATE_IN_WRONG_DATA \<Rightarrow>
         if c = CHR ''!'' then Some (Next r)
         else if c = CHR ''C'' then generic_line sense_code sense_data r
         else if c = CHR ''D'' then data_line sense_data r
         else Some (Next r)
     | STATE_IN_RIGHT_DATA \<Rightarrow>
         if c = CHR ''!'' then print_line r
         else if c = CHR ''C'' then Some (Finished (sr_out r))
         else if c = CHR ''D'' then Some (if sense_data \<noteq> None then Finished (sr_out r) else Next r)
         else Some (Next r)
   }"

definition read_line :: "string \<Rightarrow> sense_run \<Rightarrow> sense_run" where
  "read_line chunk r = r\<lparr>sr_pos := sr_pos r + length chunk, sr_buffer := fgets_store chunk (sr_buffer r)\<rparr>"

text \<open>The file is only read again from an earlier place when the state becomes \<^verbatim>\<open>STATE_IN_RIGHT_DATA\<close>, and it stays there.\<close>

lemma sense_line_pos:
  "sense_line code data r = Some (Next r') \<Longrightarrow>
     sr_pos r' = sr_pos r \<and> (sr_state r = STATE_IN_RIGHT_DATA \<longrightarrow> sr_state r' = STATE_IN_RIGHT_DATA)
     \<or> sr_state r \<noteq> STATE_IN_RIGHT_DATA \<and> sr_state r' = STATE_IN_RIGHT_DATA"
  by (cases "sr_state r")
    (auto simp: sense_line_def print_line_def data_line_def generic_line_def split: if_splits bind_splits option.splits list.splits)

lemma fgets_chunk_Nil: "fgets_chunk n s = [] \<longleftrightarrow> n = 0 \<or> s = []"
  by (cases n; cases s) auto

function show_lines :: "string \<Rightarrow> string \<Rightarrow> string option \<Rightarrow> sense_run \<Rightarrow> string option" where
  "show_lines file sense_code sense_data r =
     (let chunk = fgets_chunk 254 (drop (sr_pos r) file)
      in if chunk = [] then Some (sr_out r @ code_missing)
         else case sense_line sense_code sense_data (read_line chunk r) of
             None \<Rightarrow> None
           | Some (Finished out) \<Rightarrow> Some out
           | Some (Next r') \<Rightarrow> show_lines file sense_code sense_data r')"
  by pat_completeness auto

termination
proof (relation "measures [\<lambda>(f, c, d, r). if sr_state r = STATE_IN_RIGHT_DATA then 0 else 1, \<lambda>(f, c, d, r). length f - sr_pos r]", goal_cases)
  case (2 f code data r chunk n r')
  then have c: "chunk \<noteq> []" "fgets_chunk 254 (drop (sr_pos r) f) \<noteq> []" and
    n: "sense_line code data (read_line chunk r) = Some (Next r')" by auto
  then have "sr_pos r < length f" by (auto simp: fgets_chunk_Nil)
  moreover have "0 < length chunk" using c by simp
  ultimately have "length f - (sr_pos r + length chunk) < length f - sr_pos r" by linarith
  then show ?case using sense_line_pos [OF n] by (auto simp: read_line_def)
qed simp

declare show_lines.simps [simp del]

definition show_sense :: "string \<Rightarrow> string \<Rightarrow> string option \<Rightarrow> string option" where
  "show_sense file sense_code sense_data =
     show_lines file sense_code sense_data
       \<lparr>sr_pos = 0, sr_buffer = replicate 255 None, sr_state = STATE_NOTHING, sr_gens = [], sr_out = []\<rparr>"

section \<open>The program\<close>

text \<open>The options come as \<^verbatim>\<open>getopt\<close> delivers them, with the words behind them; the result is the exit status and what was printed.\<close>

definition sense_help :: "string \<Rightarrow> nat \<times> string" where
  "sense_help out = (1, out @ ''Usage: '' @ name_s @ '' [-h] [-v] [-f filename] sense_code\<newline>'')"

definition sense_version :: "string \<Rightarrow> nat \<times> string" where
  "sense_version version_s =
     (1, name_s @ '': Linux-SNA sense data translator '' @ version_s @ ''\<newline>linux-SNA.ORG '' @ maintainer_s @ ''\<newline>http://www.linux-sna.org\<newline>'')"

fun sense_options :: "string \<Rightarrow> (char \<times> string) list \<Rightarrow> string \<Rightarrow> ((nat \<times> string) + string) option" where
  "sense_options version_s [] config_file = Some (Inr config_file)"
| "sense_options version_s ((c, optarg) # opts) config_file =
     (if c = CHR ''V'' \<or> c = CHR ''v'' then Some (Inl (sense_version version_s))
      else if c = CHR ''h'' then Some (Inl (sense_help []))
      else if c = CHR ''f'' then if length optarg < 200 then sense_options version_s opts optarg else None
      else Some (Inl (sense_help [])))"

text \<open>\<^verbatim>\<open>strupr\<close> stops at the end of the string.\<close>

definition strupr :: "string \<Rightarrow> string" where
  "strupr s = map toupper (takeWhile (\<lambda>c. c \<noteq> NUL) s) @ dropWhile (\<lambda>c. c \<noteq> NUL) s"

text \<open>The data is copied from \<^verbatim>\<open>argv[4]\<close>, the fifth of the words, not from the fifth character of the first one.\<close>

definition sense_argument :: "string list \<Rightarrow> (string \<times> string option) option" where
  "sense_argument argv =
     (let word = hd argv; code = strupr (take 4 word)
      in if length word \<noteq> 8 then Some (code, None)
         else if 4 < length argv \<and> 3 \<le> length (argv ! 4) then Some (code, Some (strupr (take 4 (argv ! 4 @ [NUL]))))
         else None)"

definition sense_main :: "(string \<Rightarrow> string option) \<Rightarrow> string \<Rightarrow> (char \<times> string) list \<Rightarrow> string list \<Rightarrow> (nat \<times> string) option" where
  "sense_main files version_s opts argv = do {
     config \<leftarrow> sense_options version_s opts sense_file;
     case config of
       Inl stop \<Rightarrow> Some stop
     | Inr config_file \<Rightarrow>
         let no_code = sense_help (name_s @ '': you must specify a sense code.\<newline>'')
         in if argv = [] \<or> length (hd argv) \<le> 3 then Some no_code
            else do {
              a \<leftarrow> sense_argument argv;
              case files config_file of
                None \<Rightarrow> Some (1, name_s @ '': could not open sense data file: '' @ config_file @ ''\<newline>'')
              | Some file \<Rightarrow> map_option (Pair 0) (show_sense file (fst a) (snd a))
            }
   }"

section \<open>What a file of sense codes means\<close>

record sense_item =
  si_code :: string
  si_text :: "string list"

record sense_block =
  sb_code :: string
  sb_head :: "string list"
  sb_items :: "sense_item list"

definition tagged :: "char \<Rightarrow> string \<Rightarrow> string" where
  "tagged t s = t # s @ [CHR 0x0A]"

definition text_file :: "string list \<Rightarrow> string" where
  "text_file ls = concat (map (tagged CHR ''!'') ls)"

definition item_file :: "sense_item \<Rightarrow> string" where
  "item_file i = tagged CHR ''D'' (si_code i) @ text_file (si_text i)"

definition items_file :: "sense_item list \<Rightarrow> string" where
  "items_file is = concat (map item_file is)"

definition block_file :: "sense_block \<Rightarrow> string" where
  "block_file b = tagged CHR ''C'' (sb_code b) @ text_file (sb_head b) @ items_file (sb_items b)"

text \<open>The lines of a file fit the array, and the codes have their four characters.\<close>

definition plain_line :: "string \<Rightarrow> bool" where
  "plain_line s \<longleftrightarrow> length s \<le> 252 \<and> CHR 0x0A \<notin> set s \<and> NUL \<notin> set s"

definition good_item :: "sense_item \<Rightarrow> bool" where
  "good_item i \<longleftrightarrow> plain_line (si_code i) \<and> 4 \<le> length (si_code i) \<and> list_all plain_line (si_text i)"

definition block_ok :: "sense_block \<Rightarrow> bool" where
  "block_ok b \<longleftrightarrow> plain_line (sb_code b) \<and> 4 \<le> length (sb_code b) \<and> list_all plain_line (sb_head b) \<and> list_all good_item (sb_items b)"

definition generic_item :: "sense_item \<Rightarrow> bool" where
  "generic_item i \<longleftrightarrow> (\<exists>c \<in> set (take 4 (si_code i)). c \<in> set ''nxy'')"

definition fits_generic :: "string \<Rightarrow> sense_item \<Rightarrow> bool" where
  "fits_generic d i \<longleftrightarrow> generic_item i \<and> compare_generic d (si_code i)"

definition shown_text :: "string list \<Rightarrow> string" where
  "shown_text ls = concat (map (\<lambda>s. s @ [CHR 0x0A]) ls)"

text \<open>What is answered about data: an exact entry first, then the first generic one, and the last block is never asked for a generic one.\<close>

definition data_answer :: "string \<Rightarrow> sense_item list \<Rightarrow> bool \<Rightarrow> string" where
  "data_answer d is at_end =
     (case dropWhile (\<lambda>i. take 4 (si_code i) \<noteq> d) is of
        i # after \<Rightarrow> shown_text (si_text i) @ (if after = [] \<and> at_end then code_missing else [])
      | [] \<Rightarrow>
          if at_end then code_missing
          else if is = [] then []
          else case find (fits_generic d) is of Some i \<Rightarrow> shown_text (si_text i) | None \<Rightarrow> details_missing)"

definition sense_answer :: "string \<Rightarrow> string option \<Rightarrow> sense_block list \<Rightarrow> string" where
  "sense_answer code data blocks =
     (case dropWhile (\<lambda>b. take 4 (sb_code b) \<noteq> code) blocks of
        [] \<Rightarrow> code_missing
      | b # after \<Rightarrow> shown_text (sb_head b)
          @ (case data of
               None \<Rightarrow> concat (map (shown_text \<circ> si_text) (sb_items b)) @ (if after = [] then code_missing else [])
             | Some d \<Rightarrow> data_answer d (sb_items b) (after = [])))"

section \<open>The program answers by the meaning\<close>

text \<open>A place in a run: offset, state, generic entries and output; the array is left open.\<close>

type_synonym place = "nat \<times> STATE \<times> gen_info list \<times> string"

fun run_at :: "place \<Rightarrow> char option list \<Rightarrow> sense_run" where
  "run_at (p, s, g, out) m = \<lparr>sr_pos = p, sr_buffer = m, sr_state = s, sr_gens = g, sr_out = out\<rparr>"

definition leads :: "string \<Rightarrow> string \<Rightarrow> string option \<Rightarrow> place \<Rightarrow> place \<Rightarrow> bool" where
  "leads f c d s t \<longleftrightarrow> (\<forall>m. \<exists>m'. show_lines f c d (run_at s m) = show_lines f c d (run_at t m'))"

definition run_ends :: "string \<Rightarrow> string \<Rightarrow> string option \<Rightarrow> place \<Rightarrow> string \<Rightarrow> bool" where
  "run_ends f c d s out \<longleftrightarrow> (\<forall>m. show_lines f c d (run_at s m) = Some out)"

lemma leads_refl: "leads f c d s s"
  by (auto simp: leads_def)

lemma leads_trans: "leads f c d s t \<Longrightarrow> leads f c d t u \<Longrightarrow> leads f c d s u"
  by (metis leads_def)

lemma leads_ends: "leads f c d s t \<Longrightarrow> run_ends f c d t out \<Longrightarrow> run_ends f c d s out"
  by (metis leads_def run_ends_def)

lemma sense_fgets_line: "CHR 0x0A \<notin> set s \<Longrightarrow> length s < n \<Longrightarrow> fgets_chunk n (s @ CHR 0x0A # r) = s @ [CHR 0x0A]"
proof (induction s arbitrary: n)
  case (Cons x s)
  then show ?case by (cases n) auto
qed (auto simp: gr0_conv_Suc)

lemma fgets_tagged:
  assumes "plain_line s" "t \<noteq> CHR 0x0A"
  shows "fgets_chunk 254 (tagged t s @ r) = tagged t s"
  using assms sense_fgets_line [of "t # s" 254 r] by (auto simp: plain_line_def tagged_def)

text \<open>The array behind the tag, after a line was read.\<close>

definition held :: "string \<Rightarrow> char option list \<Rightarrow> char option list" where
  "held s m = map Some (s @ [CHR 0x0A, NUL]) @ m"

lemma printed_append: "NUL \<notin> set s \<Longrightarrow> printed_string (map Some s @ Some NUL # m) = Some s"
  by (induction s) auto

lemma printed_held: "plain_line s \<Longrightarrow> printed_string (held s m) = Some (s @ [CHR 0x0A])"
  using printed_append [of "s @ [CHR 0x0A]" m] by (simp add: held_def plain_line_def)

lemma same_prefix_long:
  "n \<le> length s \<Longrightarrow> length c = n \<Longrightarrow> NUL \<notin> set s \<Longrightarrow> strncmp_same n (map Some s @ m) c = Some (take n s = c)"
proof (induction n arbitrary: s c)
  case (Suc n)
  then show ?case by (cases s; cases c) auto
qed simp

lemma has_generic_char_long: "n \<le> length s \<Longrightarrow> has_generic_char n (map Some s @ m) = Some (\<exists>c \<in> set (take n s). c \<in> set ''nxy'')"
proof (induction n arbitrary: s)
  case (Suc n)
  then show ?case by (cases s) auto
qed simp

lemma copy_code_long: "n \<le> length s \<Longrightarrow> NUL \<notin> set s \<Longrightarrow> copy_code n (map Some s @ m) = Some (take n s)"
proof (induction n arbitrary: s)
  case (Suc n)
  then show ?case by (cases s) auto
qed simp

lemma same_prefix_held: "plain_line s \<Longrightarrow> 4 \<le> length s \<Longrightarrow> length c = 4 \<Longrightarrow> strncmp_same 4 (held s m) c = Some (take 4 s = c)"
  using same_prefix_long [of 4 s c] by (simp add: held_def plain_line_def)

definition gen_at :: "nat \<Rightarrow> sense_item \<Rightarrow> gen_info list" where
  "gen_at p i = (if generic_item i then [\<lparr>data_code = take 4 (si_code i) @ [NUL], file_offset = p\<rparr>] else [])"

lemma check_held:
  assumes "good_item i"
  shows "check_for_generic_msg p (Some t # held (si_code i) m) = Some (case gen_at p i of [] \<Rightarrow> None | g # _ \<Rightarrow> Some g)"
  using assms has_generic_char_long [of 4 "si_code i"] copy_code_long [of 4 "si_code i"]
  by (auto simp: check_for_generic_msg_def held_def gen_at_def generic_item_def good_item_def plain_line_def)

lemma read_tagged:
  assumes "drop p f = tagged t s @ r" "plain_line s" "t \<noteq> CHR 0x0A"
  shows "show_lines f c d (run_at (p, st, g, out) m) =
    (case sense_line c d (run_at (p + length (tagged t s), st, g, out) (Some t # held s (drop (length s + 3) m))) of
       None \<Rightarrow> None | Some (Finished out) \<Rightarrow> Some out | Some (Next r') \<Rightarrow> show_lines f c d r')"
  using assms fgets_tagged [OF assms(2,3), of r]
  by (subst show_lines.simps) (auto simp: read_line_def fgets_store_def tagged_def held_def Let_def numeral_3_eq_3)

lemma line_leads:
  assumes "drop p f = tagged t s @ r" "plain_line s" "t \<noteq> CHR 0x0A"
    and "\<And>m. sense_line c d (run_at (p + length (tagged t s), st, g, out) (Some t # held s m)) = Some (Next (run_at u (Some t # held s m)))"
  shows "leads f c d (p, st, g, out) u"
  unfolding leads_def using read_tagged [OF assms(1-3)] assms(4) by (auto intro!: exI)

lemma line_ends:
  assumes "drop p f = tagged t s @ r" "plain_line s" "t \<noteq> CHR 0x0A"
    and "\<And>m. sense_line c d (run_at (p + length (tagged t s), st, g, out) (Some t # held s m)) = Some (Finished out')"
  shows "run_ends f c d (p, st, g, out) out'"
  unfolding run_ends_def using read_tagged [OF assms(1-3)] assms(4) by auto

lemma file_ends: "drop p f = [] \<Longrightarrow> run_ends f c d (p, st, g, out) (out @ code_missing)"
  unfolding run_ends_def by (subst show_lines.simps) (simp add: fgets_chunk_Nil)

lemma drop_past: "drop p f = a @ r \<Longrightarrow> drop (p + length a) f = r"
  by (metis add.commute append_eq_conv_conj drop_drop)

subsection \<open>Lines of one kind\<close>

lemma sense_line_tagged:
  "sense_line c d (run_at (p, st, g, out) (Some t # m)) =
     (case st of
        STATE_NOTHING \<Rightarrow> if t = CHR ''C''
          then do { same \<leftarrow> strncmp_same 4 m c; Some (Next (run_at (p, if same then STATE_IN_CODE else st, g, out) (Some t # m))) }
          else Some (Next (run_at (p, st, g, out) (Some t # m)))
      | STATE_IN_CODE \<Rightarrow>
         if t = CHR ''!'' then map_option (\<lambda>s. Next (run_at (p, st, g, out @ s) (Some t # m))) (printed_string m)
         else if t = CHR ''C'' then Some (Finished out)
         else if t = CHR ''D'' then data_line d (run_at (p, st, g, out) (Some t # m))
         else Some (Next (run_at (p, st, g, out) (Some t # m)))
      | STATE_IN_WRONG_DATA \<Rightarrow>
         if t = CHR ''!'' then Some (Next (run_at (p, st, g, out) (Some t # m)))
         else if t = CHR ''C'' then generic_line c d (run_at (p, st, g, out) (Some t # m))
         else if t = CHR ''D'' then data_line d (run_at (p, st, g, out) (Some t # m))
         else Some (Next (run_at (p, st, g, out) (Some t # m)))
      | STATE_IN_RIGHT_DATA \<Rightarrow>
         if t = CHR ''!'' then map_option (\<lambda>s. Next (run_at (p, st, g, out @ s) (Some t # m))) (printed_string m)
         else if t = CHR ''C'' then Some (Finished out)
         else if t = CHR ''D'' then Some (if d \<noteq> None then Finished out else Next (run_at (p, st, g, out) (Some t # m)))
         else Some (Next (run_at (p, st, g, out) (Some t # m))))"
  by (cases st) (auto simp: sense_line_def print_line_def peek_def split: option.splits bind_splits)

declare run_at.simps [simp del]

lemma text_Cons: "text_file (s # ls) = tagged CHR ''!'' s @ text_file ls"
  by (simp add: text_file_def)

text \<open>Text is skipped before the code and in the wrong data, and printed in the code and in the right data.\<close>

lemma text_skipped:
  assumes "drop p f = text_file ls @ r" "list_all plain_line ls" "st = STATE_NOTHING \<or> st = STATE_IN_WRONG_DATA"
  shows "leads f c d (p, st, g, out) (p + length (text_file ls), st, g, out)"
  using assms(1,2)
proof (induction ls arbitrary: p)
  case Nil
  then show ?case by (simp add: text_file_def leads_refl)
next
  case (Cons s ls)
  have "leads f c d (p, st, g, out) (p + length (tagged CHR ''!'' s), st, g, out)"
    by (rule line_leads [where t = "CHR ''!''" and s = s and r = "text_file ls @ r"])
      (use Cons.prems assms(3) in \<open>auto simp: text_Cons sense_line_tagged\<close>)
  moreover have "drop (p + length (tagged CHR ''!'' s)) f = text_file ls @ r"
    by (rule drop_past) (use Cons.prems in \<open>simp add: text_Cons\<close>)
  ultimately show ?case using Cons.IH Cons.prems(2) by (fastforce intro: leads_trans simp: text_Cons add.assoc)
qed

lemma text_printed:
  assumes "drop p f = text_file ls @ r" "list_all plain_line ls" "st = STATE_IN_CODE \<or> st = STATE_IN_RIGHT_DATA"
  shows "leads f c d (p, st, g, out) (p + length (text_file ls), st, g, out @ shown_text ls)"
  using assms(1,2)
proof (induction ls arbitrary: p out)
  case Nil
  then show ?case by (simp add: text_file_def shown_text_def leads_refl)
next
  case (Cons s ls)
  have "leads f c d (p, st, g, out) (p + length (tagged CHR ''!'' s), st, g, out @ s @ [CHR 0x0A])"
    by (rule line_leads [where t = "CHR ''!''" and s = s and r = "text_file ls @ r"])
      (use Cons.prems assms(3) in \<open>auto simp: text_Cons sense_line_tagged printed_held\<close>)
  moreover have "drop (p + length (tagged CHR ''!'' s)) f = text_file ls @ r"
    by (rule drop_past) (use Cons.prems in \<open>simp add: text_Cons\<close>)
  ultimately show ?case using Cons.IH [of _ "out @ s @ [CHR 0x0A]"] Cons.prems(2)
    by (fastforce intro: leads_trans simp: text_Cons add.assoc shown_text_def)
qed

lemma items_Cons: "items_file (i # is) = item_file i @ items_file is"
  by (simp add: items_file_def)

lemma item_ok_simps: "good_item i \<Longrightarrow> plain_line (si_code i)" "good_item i \<Longrightarrow> 4 \<le> length (si_code i)" "good_item i \<Longrightarrow> list_all plain_line (si_text i)"
  by (auto simp: good_item_def)

lemma items_skipped:
  assumes "drop p f = items_file is @ r" "list_all good_item is"
  shows "leads f c d (p, STATE_NOTHING, g, out) (p + length (items_file is), STATE_NOTHING, g, out)"
  using assms
proof (induction "is" arbitrary: p)
  case Nil
  then show ?case by (simp add: items_file_def leads_refl)
next
  case (Cons i "is")
  let ?q = "p + length (tagged CHR ''D'' (si_code i))"
  have a: "leads f c d (p, STATE_NOTHING, g, out) (?q, STATE_NOTHING, g, out)"
    by (rule line_leads [where t = "CHR ''D''" and s = "si_code i" and r = "text_file (si_text i) @ items_file is @ r"])
      (use Cons.prems in \<open>auto simp: items_Cons item_file_def sense_line_tagged item_ok_simps\<close>)
  have b: "drop ?q f = text_file (si_text i) @ items_file is @ r"
    by (rule drop_past) (use Cons.prems in \<open>simp add: items_Cons item_file_def\<close>)
  have e: "leads f c d (?q, STATE_NOTHING, g, out) (?q + length (text_file (si_text i)), STATE_NOTHING, g, out)"
    by (rule text_skipped [OF b]) (use Cons.prems in \<open>auto simp: item_ok_simps\<close>)
  show ?case
    using leads_trans [OF leads_trans [OF a e] Cons.IH [OF drop_past [OF b]]] Cons.prems(2)
    by (simp add: items_Cons item_file_def add.assoc)
qed

subsection \<open>Finding the code\<close>

definition blocks_file :: "sense_block list \<Rightarrow> string" where
  "blocks_file bs = concat (map block_file bs)"

lemma blocks_Cons: "blocks_file (b # bs) = tagged CHR ''C'' (sb_code b) @ text_file (sb_head b) @ items_file (sb_items b) @ blocks_file bs"
  by (simp add: blocks_file_def block_file_def)

lemma block_ok_simps:
  "block_ok b \<Longrightarrow> plain_line (sb_code b)" "block_ok b \<Longrightarrow> 4 \<le> length (sb_code b)" "block_ok b \<Longrightarrow> list_all plain_line (sb_head b)"
  "block_ok b \<Longrightarrow> list_all good_item (sb_items b)"
  by (auto simp: block_ok_def)

lemma code_line:
  assumes "drop p f = blocks_file (b # bs)" "block_ok b" "length c = 4"
  shows "leads f c d (p, STATE_NOTHING, g, out)
    (p + length (tagged CHR ''C'' (sb_code b)), if take 4 (sb_code b) = c then STATE_IN_CODE else STATE_NOTHING, g, out)"
  by (rule line_leads [where t = "CHR ''C''" and s = "sb_code b" and r = "text_file (sb_head b) @ items_file (sb_items b) @ blocks_file bs"])
    (use assms in \<open>auto simp: blocks_Cons sense_line_tagged block_ok_simps same_prefix_held\<close>)

lemma after_code_line:
  "drop p f = blocks_file (b # bs) \<Longrightarrow>
   drop (p + length (tagged CHR ''C'' (sb_code b))) f = text_file (sb_head b) @ items_file (sb_items b) @ blocks_file bs"
  by (rule drop_past) (simp add: blocks_Cons)

lemma other_block:
  assumes "drop p f = blocks_file (b # bs)" "block_ok b" "length c = 4" "take 4 (sb_code b) \<noteq> c"
  shows "\<exists>q. leads f c d (p, STATE_NOTHING, g, out) (q, STATE_NOTHING, g, out) \<and> drop q f = blocks_file bs"
proof -
  note n = after_code_line [OF assms(1)]
  let ?q = "p + length (tagged CHR ''C'' (sb_code b))"
  let ?r = "?q + length (text_file (sb_head b))"
  have a: "leads f c d (p, STATE_NOTHING, g, out) (?q, STATE_NOTHING, g, out)"
    using code_line [OF assms(1-3), where d = d and g = g and out = out] assms(4) by simp
  have b: "leads f c d (?q, STATE_NOTHING, g, out) (?r, STATE_NOTHING, g, out)"
    by (rule text_skipped [OF n]) (use assms(2) in \<open>simp_all add: block_ok_simps\<close>)
  have e: "leads f c d (?r, STATE_NOTHING, g, out) (?r + length (items_file (sb_items b)), STATE_NOTHING, g, out)"
    by (rule items_skipped [OF drop_past [OF n]]) (use assms(2) in \<open>simp add: block_ok_simps\<close>)
  show ?thesis using leads_trans [OF a leads_trans [OF b e]] drop_past [OF drop_past [OF n]] by blast
qed

lemma code_sought:
  assumes "drop p f = blocks_file bs" "list_all block_ok bs" "length c = 4"
  shows "\<exists>q. leads f c d (p, STATE_NOTHING, g, out) (q, STATE_NOTHING, g, out)
    \<and> drop q f = blocks_file (dropWhile (\<lambda>b. take 4 (sb_code b) \<noteq> c) bs)"
  using assms(1,2)
proof (induction bs arbitrary: p)
  case Nil
  then show ?case using leads_refl by fastforce
next
  case (Cons b bs)
  show ?case
  proof (cases "take 4 (sb_code b) = c")
    case True
    then show ?thesis using Cons.prems(1) leads_refl by fastforce
  next
    case False
    have "block_ok b" using Cons.prems(2) by simp
    then obtain q where q: "leads f c d (p, STATE_NOTHING, g, out) (q, STATE_NOTHING, g, out)" "drop q f = blocks_file bs"
      using other_block [OF Cons.prems(1) _ assms(3) False] by blast
    moreover obtain u where "leads f c d (q, STATE_NOTHING, g, out) (u, STATE_NOTHING, g, out)"
      "drop u f = blocks_file (dropWhile (\<lambda>b. take 4 (sb_code b) \<noteq> c) bs)"
      using Cons.IH [OF q(2)] Cons.prems(2) by auto
    ultimately show ?thesis using False leads_trans [of f c d _ "(q, STATE_NOTHING, g, out)"] by fastforce
  qed
qed

lemma code_found:
  assumes "drop p f = blocks_file (b # bs)" "block_ok b" "length c = 4" "take 4 (sb_code b) = c"
  shows "\<exists>q. leads f c d (p, STATE_NOTHING, g, out) (q, STATE_IN_CODE, g, out @ shown_text (sb_head b))
    \<and> drop q f = items_file (sb_items b) @ blocks_file bs"
proof -
  note n = after_code_line [OF assms(1)]
  let ?q = "p + length (tagged CHR ''C'' (sb_code b))"
  have a: "leads f c d (p, STATE_NOTHING, g, out) (?q, STATE_IN_CODE, g, out)"
    using code_line [OF assms(1-3), where d = d and g = g and out = out] assms(4) by simp
  have b: "leads f c d (?q, STATE_IN_CODE, g, out) (?q + length (text_file (sb_head b)), STATE_IN_CODE, g, out @ shown_text (sb_head b))"
    by (rule text_printed [OF n]) (use assms(2) in \<open>simp_all add: block_ok_simps\<close>)
  show ?thesis using leads_trans [OF a b] drop_past [OF n] by blast
qed

subsection \<open>Inside the block\<close>

definition end_note :: "bool \<Rightarrow> string" where
  "end_note e = (if e then code_missing else [])"

lemma stops:
  assumes "drop p f = blocks_file bs" "list_all block_ok bs" "st = STATE_IN_CODE \<or> st = STATE_IN_RIGHT_DATA"
  shows "run_ends f c d (p, st, g, out) (out @ end_note (bs = []))"
proof (cases bs)
  case Nil
  then show ?thesis using file_ends [of p f] assms(1) by (simp add: blocks_file_def end_note_def)
next
  case (Cons b bs')
  have "run_ends f c d (p, st, g, out) out"
    by (rule line_ends [where t = "CHR ''C''" and s = "sb_code b" and r = "text_file (sb_head b) @ items_file (sb_items b) @ blocks_file bs'"])
      (use assms Cons in \<open>auto simp: blocks_Cons sense_line_tagged block_ok_simps\<close>)
  then show ?thesis using Cons by (simp add: end_note_def)
qed

lemma item_start: "drop p f = items_file (i # is) @ r \<Longrightarrow> drop p f = tagged CHR ''D'' (si_code i) @ text_file (si_text i) @ items_file is @ r"
  by (simp add: items_Cons item_file_def)

lemma data_line_None: "data_line None (run_at (p, st, g, out) m) = Some (Next (run_at (p, STATE_IN_RIGHT_DATA, g, out) m))"
  by (simp add: data_line_def run_at.simps)

lemma all_items:
  assumes "drop p f = items_file is @ blocks_file bs" "list_all good_item is" "list_all block_ok bs"
    "st = STATE_IN_CODE \<or> st = STATE_IN_RIGHT_DATA"
  shows "run_ends f c None (p, st, g, out) (out @ concat (map (shown_text \<circ> si_text) is) @ end_note (bs = []))"
  using assms
proof (induction "is" arbitrary: p st out)
  case Nil
  then show ?case using stops by (simp add: items_file_def)
next
  case (Cons i "is")
  note n = item_start [OF Cons.prems(1)]
  let ?q = "p + length (tagged CHR ''D'' (si_code i))"
  have a: "leads f c None (p, st, g, out) (?q, STATE_IN_RIGHT_DATA, g, out)"
    by (rule line_leads [OF n])
      (use Cons.prems in \<open>auto simp: sense_line_tagged item_ok_simps data_line_None\<close>)
  have b: "leads f c None (?q, STATE_IN_RIGHT_DATA, g, out) (?q + length (text_file (si_text i)), STATE_IN_RIGHT_DATA, g, out @ shown_text (si_text i))"
    by (rule text_printed [OF drop_past [OF n]]) (use Cons.prems in \<open>simp_all add: item_ok_simps\<close>)
  show ?case
    using leads_ends [OF leads_trans [OF a b] Cons.IH [OF drop_past [OF drop_past [OF n]]]] Cons.prems by simp
qed

lemma right_text:
  assumes "drop p f = text_file ls @ items_file is @ blocks_file bs" "list_all plain_line ls" "list_all good_item is" "list_all block_ok bs"
  shows "run_ends f c (Some d) (p, STATE_IN_RIGHT_DATA, g, out) (out @ shown_text ls @ end_note (is = [] \<and> bs = []))"
proof -
  let ?q = "p + length (text_file ls)"
  note n = drop_past [OF assms(1)]
  have a: "leads f c (Some d) (p, STATE_IN_RIGHT_DATA, g, out) (?q, STATE_IN_RIGHT_DATA, g, out @ shown_text ls)"
    by (rule text_printed [OF assms(1,2)]) simp
  have "run_ends f c (Some d) (?q, STATE_IN_RIGHT_DATA, g, out @ shown_text ls) ((out @ shown_text ls) @ end_note (is = [] \<and> bs = []))"
  proof (cases "is")
    case Nil
    then show ?thesis
      using stops [of ?q f bs STATE_IN_RIGHT_DATA c "Some d" g "out @ shown_text ls"] assms(4) n by (simp add: items_file_def)
  next
    case (Cons i is')
    have "run_ends f c (Some d) (?q, STATE_IN_RIGHT_DATA, g, out @ shown_text ls) (out @ shown_text ls)"
      by (rule line_ends [OF item_start]) (use n Cons assms(3) in \<open>auto simp: sense_line_tagged item_ok_simps\<close>)
    then show ?thesis using Cons by (simp add: end_note_def)
  qed
  then show ?thesis using leads_ends [OF a] by simp
qed

lemma data_line_held:
  assumes "good_item i" "length d = 4" "length g + length (gen_at p i) \<le> 3"
  shows "data_line (Some d) (run_at (p, st, g, out) (Some t # held (si_code i) m)) =
    Some (Next (run_at (if take 4 (si_code i) = d then (p, STATE_IN_RIGHT_DATA, g, out)
                        else (p, STATE_IN_WRONG_DATA, g @ gen_at p i, out)) (Some t # held (si_code i) m)))"
  using assms(3) same_prefix_held [of "si_code i" d] check_held [OF assms(1)] assms(1,2)
  by (auto simp: data_line_def run_at.simps item_ok_simps MAXDATA_def gen_at_def)

lemma item_line:
  assumes "drop p f = items_file (i # is) @ r" "good_item i" "length d = 4"
    and "st = STATE_IN_CODE \<or> st = STATE_IN_WRONG_DATA"
    and "length g + length (gen_at (p + length (tagged CHR ''D'' (si_code i))) i) \<le> 3"
  shows "leads f c (Some d) (p, st, g, out)
    (let q = p + length (tagged CHR ''D'' (si_code i))
     in if take 4 (si_code i) = d then (q, STATE_IN_RIGHT_DATA, g, out) else (q, STATE_IN_WRONG_DATA, g @ gen_at q i, out))"
  by (rule line_leads [OF item_start [OF assms(1)]])
    (use assms in \<open>auto simp: sense_line_tagged item_ok_simps data_line_held Let_def\<close>)

text \<open>The generic entries collected over a list of items.\<close>

fun gens_at :: "nat \<Rightarrow> sense_item list \<Rightarrow> gen_info list" where
  "gens_at p [] = []"
| "gens_at p (i # is) = gen_at (p + length (tagged CHR ''D'' (si_code i))) i @ gens_at (p + length (item_file i)) is"

lemma length_gen_at [simp]: "length (gen_at p i) = length (filter generic_item [i])"
  by (simp add: gen_at_def)

lemma length_gens_at [simp]: "length (gens_at p is) = length (filter generic_item is)"
  by (induction "is" arbitrary: p) auto

lemma wrong_items:
  assumes "drop p f = items_file is @ r" "list_all good_item is" "length d = 4" "\<forall>i \<in> set is. take 4 (si_code i) \<noteq> d"
    and "st = STATE_IN_CODE \<or> st = STATE_IN_WRONG_DATA"
    and "length g + length (filter generic_item is) \<le> 3"
  shows "leads f c (Some d) (p, st, g, out)
    (p + length (items_file is), if is = [] then st else STATE_IN_WRONG_DATA, g @ gens_at p is, out)"
  using assms(1,2,4-6)
proof (induction "is" arbitrary: p st g)
  case Nil
  then show ?case by (simp add: items_file_def leads_refl)
next
  case (Cons i "is")
  note n = item_start [OF Cons.prems(1)]
  let ?q = "p + length (tagged CHR ''D'' (si_code i))"
  have a: "leads f c (Some d) (p, st, g, out) (?q, STATE_IN_WRONG_DATA, g @ gen_at ?q i, out)"
    using item_line [OF Cons.prems(1) _ assms(3) Cons.prems(4), of g c out] Cons.prems by (auto simp: Let_def split: if_splits)
  have b: "leads f c (Some d) (?q, STATE_IN_WRONG_DATA, g @ gen_at ?q i, out)
    (?q + length (text_file (si_text i)), STATE_IN_WRONG_DATA, g @ gen_at ?q i, out)"
    by (rule text_skipped [OF drop_past [OF n]]) (use Cons.prems in \<open>simp_all add: item_ok_simps\<close>)
  show ?case
    using leads_trans [OF leads_trans [OF a b] Cons.IH [OF drop_past [OF drop_past [OF n]]]] Cons.prems
    by (auto simp: items_Cons item_file_def add.assoc split: if_splits)
qed

lemma items_append: "items_file (a @ b) = items_file a @ items_file b"
  by (simp add: items_file_def)

lemma compare_cut: "4 \<le> length s \<Longrightarrow> compare_generic d (take 4 s @ [NUL]) = compare_generic d s"
  by (simp add: compare_generic_def)

text \<open>The first generic entry that fits leads back to its text.\<close>

lemma find_gens:
  assumes "drop p f = items_file is @ r" "list_all good_item is"
  shows "case find (fits_generic d) is of
      None \<Rightarrow> find (\<lambda>g. compare_generic d (data_code g)) (gens_at p is) = None
    | Some i \<Rightarrow> \<exists>g after. find (\<lambda>g. compare_generic d (data_code g)) (gens_at p is) = Some g \<and> good_item i \<and> list_all good_item after
        \<and> drop (file_offset g) f = text_file (si_text i) @ items_file after @ r"
  using assms
proof (induction "is" arbitrary: p)
  case Nil
  then show ?case by simp
next
  case (Cons i "is")
  note n = item_start [OF Cons.prems(1)]
  have m: "drop (p + length (item_file i)) f = items_file is @ r"
    using drop_past [OF drop_past [OF n]] by (simp add: item_file_def add.assoc)
  show ?case
  proof (cases "fits_generic d i")
    case True
    then show ?thesis using drop_past [OF n] Cons.prems(2)
      by (auto simp: gen_at_def fits_generic_def compare_cut item_ok_simps intro!: exI [of _ "is"])
  next
    case False
    then have "find (\<lambda>g. compare_generic d (data_code g)) (gens_at p (i # is)) =
      find (\<lambda>g. compare_generic d (data_code g)) (gens_at (p + length (item_file i)) is)"
      using Cons.prems(2) by (auto simp: gen_at_def fits_generic_def compare_cut item_ok_simps)
    then show ?thesis using Cons.IH [OF m] Cons.prems(2) False by (simp split: option.splits)
  qed
qed

lemma generic_line_held:
  "generic_line c (Some d) (run_at (p, st, g, out) m) =
     (case find (\<lambda>g. compare_generic d (data_code g)) g of
        Some i \<Rightarrow> Some (Next (run_at (file_offset i, STATE_IN_RIGHT_DATA, g, out) m))
      | None \<Rightarrow> if c \<noteq> ''0835'' then Some (Finished (out @ details_missing)) else Some (Next (run_at (p, st, g, out) m)))"
  by (auto simp: generic_line_def run_at.simps split: list.splits option.splits)

lemma generic_answer:
  assumes "drop p f = items_file is @ blocks_file (b # bs)" "list_all good_item is" "list_all block_ok (b # bs)" "c \<noteq> ''0835''"
  shows "run_ends f c (Some d) (p + length (items_file is), STATE_IN_WRONG_DATA, gens_at p is, out)
    (out @ (case find (fits_generic d) is of Some i \<Rightarrow> shown_text (si_text i) | None \<Rightarrow> details_missing))"
proof -
  let ?p = "p + length (items_file is)" and ?g = "gens_at p is"
  let ?q = "?p + length (tagged CHR ''C'' (sb_code b))"
  have n: "drop ?p f = tagged CHR ''C'' (sb_code b) @ text_file (sb_head b) @ items_file (sb_items b) @ blocks_file bs"
    using drop_past [OF assms(1)] by (simp add: blocks_Cons)
  have ok: "plain_line (sb_code b)" using assms(3) by (simp add: block_ok_simps)
  note found = find_gens [OF assms(1,2), of d]
  show ?thesis
  proof (cases "find (fits_generic d) is")
    case None
    then have "run_ends f c (Some d) (?p, STATE_IN_WRONG_DATA, ?g, out) (out @ details_missing)"
      using found assms(4)
      by (intro line_ends [OF n ok]) (auto simp: sense_line_tagged generic_line_held)
    then show ?thesis using None by simp
  next
    case (Some i)
    then obtain g after where g: "find (\<lambda>g. compare_generic d (data_code g)) ?g = Some g" "good_item i" "list_all good_item after"
        "drop (file_offset g) f = text_file (si_text i) @ items_file after @ blocks_file (b # bs)"
      using found by auto
    have "leads f c (Some d) (?p, STATE_IN_WRONG_DATA, ?g, out) (file_offset g, STATE_IN_RIGHT_DATA, ?g, out)"
      using g(1)
      by (intro line_leads [OF n ok]) (auto simp: sense_line_tagged generic_line_held)
    then show ?thesis
      using leads_ends right_text [OF g(4) _ g(3) assms(3)] g(2) Some by (fastforce simp: item_ok_simps end_note_def)
  qed
qed

lemma data_answered:
  assumes "drop p f = items_file is @ blocks_file bs" "list_all good_item is" "list_all block_ok bs" "c \<noteq> ''0835''" "length d = 4"
    and "length (filter generic_item is) \<le> 3"
  shows "run_ends f c (Some d) (p, STATE_IN_CODE, [], out) (out @ data_answer d is (bs = []))"
proof -
  let ?wrong = "takeWhile (\<lambda>i. take 4 (si_code i) \<noteq> d) is" and ?right = "dropWhile (\<lambda>i. take 4 (si_code i) \<noteq> d) is"
  let ?p = "p + length (items_file ?wrong)"
  have split: "drop p f = items_file ?wrong @ items_file ?right @ blocks_file bs"
    using assms(1) by (metis append.assoc items_append takeWhile_dropWhile_id)
  have ok: "list_all good_item ?wrong" "list_all good_item ?right"
    using assms(2) by (auto simp: list_all_iff dest: set_takeWhileD set_dropWhileD)
  have count: "length (filter generic_item ?wrong) + length (filter generic_item ?right) \<le> 3"
    using assms(6) by (metis filter_append length_append takeWhile_dropWhile_id)
  have "\<forall>i \<in> set ?wrong. take 4 (si_code i) \<noteq> d" using set_takeWhileD [of _ "\<lambda>i. take 4 (si_code i) \<noteq> d" "is"] by blast
  then have a: "leads f c (Some d) (p, STATE_IN_CODE, [], out)
    (?p, if ?wrong = [] then STATE_IN_CODE else STATE_IN_WRONG_DATA, gens_at p ?wrong, out)"
    using wrong_items [OF split ok(1) assms(5), of STATE_IN_CODE "[]" c out] count by simp
  show ?thesis
  proof (cases ?right)
    case (Cons i after)
    note n = drop_past [OF split, unfolded Cons]
    let ?q = "?p + length (tagged CHR ''D'' (si_code i))"
    have eq: "take 4 (si_code i) = d" using Cons hd_dropWhile [of "\<lambda>i. take 4 (si_code i) \<noteq> d" "is"] by simp
    have io: "good_item i" "list_all good_item after" using ok(2) Cons by auto
    have cnt: "length (gens_at p ?wrong) + length (gen_at ?q i) \<le> 3" using count Cons by (auto split: if_splits)
    have st: "(if ?wrong = [] then STATE_IN_CODE else STATE_IN_WRONG_DATA) = STATE_IN_CODE \<or>
      (if ?wrong = [] then STATE_IN_CODE else STATE_IN_WRONG_DATA) = STATE_IN_WRONG_DATA" by simp
    have b: "leads f c (Some d) (?p, if ?wrong = [] then STATE_IN_CODE else STATE_IN_WRONG_DATA, gens_at p ?wrong, out)
      (?q, STATE_IN_RIGHT_DATA, gens_at p ?wrong, out)"
      using item_line [OF n io(1) assms(5) st cnt, of c out] by (simp add: Let_def eq)
    have "run_ends f c (Some d) (?q, STATE_IN_RIGHT_DATA, gens_at p ?wrong, out) (out @ shown_text (si_text i) @ end_note (after = [] \<and> bs = []))"
      by (rule right_text [OF drop_past [OF item_start [OF n]] _ io(2) assms(3)]) (use io(1) in \<open>simp add: item_ok_simps\<close>)
    then show ?thesis using leads_ends [OF leads_trans [OF a b]] Cons by (simp add: data_answer_def end_note_def)
  next
    case Nil
    then have w: "?wrong = is" by (metis append_Nil2 takeWhile_dropWhile_id)
    have a: "leads f c (Some d) (p, STATE_IN_CODE, [], out)
      (p + length (items_file is), if is = [] then STATE_IN_CODE else STATE_IN_WRONG_DATA, gens_at p is, out)"
      using a unfolding w .
    have "run_ends f c (Some d) (p + length (items_file is), if is = [] then STATE_IN_CODE else STATE_IN_WRONG_DATA, gens_at p is, out)
      (out @ data_answer d is (bs = []))"
    proof (cases bs)
      case N: Nil
      then have "drop (p + length (items_file is)) f = []" using drop_past [OF assms(1)] by (simp add: blocks_file_def)
      then show ?thesis
        using file_ends [of "p + length (items_file is)" f] N unfolding data_answer_def Nil by simp
    next
      case (Cons b bs')
      then show ?thesis
      proof (cases "is = []")
        case True
        then show ?thesis using stops [of p f bs STATE_IN_CODE c "Some d" "[]" out] assms(1,3) Cons
          by (simp add: data_answer_def items_file_def end_note_def)
      next
        case False
        then show ?thesis
          using generic_answer [OF assms(1) [unfolded Cons] assms(2) assms(3) [unfolded Cons] assms(4)] Cons unfolding data_answer_def Nil by simp
      qed
    qed
    then show ?thesis using leads_ends [OF a] by blast
  qed
qed

subsection \<open>The whole lookup\<close>

definition intro_ok :: "char \<times> string \<Rightarrow> bool" where
  "intro_ok l \<longleftrightarrow> fst l \<noteq> CHR ''C'' \<and> fst l \<noteq> CHR 0x0A \<and> plain_line (snd l)"

definition sense_text :: "(char \<times> string) list \<Rightarrow> sense_block list \<Rightarrow> string" where
  "sense_text intro blocks = concat (map (\<lambda>(t, s). tagged t s) intro) @ blocks_file blocks"

lemma intro_skipped:
  assumes "drop p f = concat (map (\<lambda>(t, s). tagged t s) intro) @ r" "list_all intro_ok intro"
  shows "leads f c d (p, STATE_NOTHING, g, out) (p + length (concat (map (\<lambda>(t, s). tagged t s) intro)), STATE_NOTHING, g, out)"
  using assms
proof (induction intro arbitrary: p)
  case Nil
  then show ?case by (simp add: leads_refl)
next
  case (Cons l intro)
  obtain t s where l: "l = (t, s)" by force
  have n: "drop p f = tagged t s @ concat (map (\<lambda>(t, s). tagged t s) intro) @ r" using Cons.prems(1) l by simp
  have a: "leads f c d (p, STATE_NOTHING, g, out) (p + length (tagged t s), STATE_NOTHING, g, out)"
    by (rule line_leads [OF n]) (use Cons.prems(2) l in \<open>auto simp: intro_ok_def sense_line_tagged\<close>)
  show ?case using leads_trans [OF a Cons.IH [OF drop_past [OF n]]] Cons.prems(2) l by (simp add: add.assoc)
qed

lemma show_sense_block:
  assumes "list_all intro_ok intro" "list_all block_ok blocks" "length code = 4"
    and "\<forall>d. data = Some d \<longrightarrow> length d = 4 \<and> code \<noteq> ''0835''"
    and "\<forall>b \<in> set blocks. take 4 (sb_code b) = code \<longrightarrow> length (filter generic_item (sb_items b)) \<le> 3"
  shows "show_sense (sense_text intro blocks) code data = Some (sense_answer code data blocks)"
proof -
  let ?f = "sense_text intro blocks" and ?rest = "dropWhile (\<lambda>b. take 4 (sb_code b) \<noteq> code) blocks"
  have z: "drop 0 ?f = concat (map (\<lambda>(t, s). tagged t s) intro) @ blocks_file blocks" by (simp add: sense_text_def)
  obtain q where q: "leads ?f code data (0, STATE_NOTHING, [], []) (q, STATE_NOTHING, [], [])" "drop q ?f = blocks_file ?rest"
    using leads_trans [OF intro_skipped [OF z assms(1)]] code_sought [OF drop_past [OF z] assms(2,3)] by metis
  have ok: "list_all block_ok ?rest" using assms(2) by (auto simp: list_all_iff dest: set_dropWhileD)
  have "run_ends ?f code data (q, STATE_NOTHING, [], []) (sense_answer code data blocks)"
  proof (cases ?rest)
    case Nil
    have "drop q ?f = []" using q(2) unfolding Nil by (simp add: blocks_file_def)
    then show ?thesis
      using file_ends [of q ?f code data STATE_NOTHING "[]" "[]"] unfolding sense_answer_def Nil by simp
  next
    case (Cons b bs)
    have b: "block_ok b" "list_all block_ok bs" using ok Cons by auto
    have eq: "take 4 (sb_code b) = code" using Cons hd_dropWhile [of "\<lambda>b. take 4 (sb_code b) \<noteq> code" blocks] by simp
    have few: "length (filter generic_item (sb_items b)) \<le> 3"
      using assms(5) eq Cons set_dropWhileD [of b "\<lambda>b. take 4 (sb_code b) \<noteq> code" blocks] by auto
    obtain u where u: "leads ?f code data (q, STATE_NOTHING, [], []) (u, STATE_IN_CODE, [], shown_text (sb_head b))"
        "drop u ?f = items_file (sb_items b) @ blocks_file bs"
      using code_found [OF _ b(1) assms(3) eq, of q ?f bs data "[]" "[]"] q(2) Cons by auto
    have "run_ends ?f code data (u, STATE_IN_CODE, [], shown_text (sb_head b)) (sense_answer code data blocks)"
    proof (cases data)
      case None
      then show ?thesis
        using all_items [OF u(2) block_ok_simps(4) [OF b(1)] b(2), of STATE_IN_CODE code "[]" "shown_text (sb_head b)"] Cons
        by (simp add: sense_answer_def end_note_def)
    next
      case (Some d)
      then show ?thesis
        using data_answered [OF u(2) block_ok_simps(4) [OF b(1)] b(2) _ _ few, of code d "shown_text (sb_head b)"] assms(4) Cons
        by (simp add: sense_answer_def)
    qed
    then show ?thesis using leads_ends [OF u(1)] by blast
  qed
  then have "run_ends ?f code data (0, STATE_NOTHING, [], []) (sense_answer code data blocks)" using leads_ends [OF q(1)] by blast
  then show ?thesis by (simp add: run_ends_def show_sense_def run_at.simps)
qed

section \<open>Properties\<close>

definition example_blocks :: "sense_block list" where
  "example_blocks =
     [\<lparr>sb_code = ''0801'', sb_head = [''Resource Not Available''], sb_items =
         [\<lparr>si_code = ''0001'', si_text = [''one'']\<rparr>, \<lparr>si_code = ''00xy'', si_text = [''any'', ''of them'']\<rparr>]\<rparr>,
      \<lparr>sb_code = ''0000'', sb_head = [], sb_items = []\<rparr>]"

definition example_intro :: "(char \<times> string) list" where
  "example_intro = [(CHR ''A'', ''PPC SENSE DATA'')]"

lemma example_ok: "list_all intro_ok example_intro" "list_all block_ok example_blocks"
  "\<forall>b \<in> set example_blocks. take 4 (sb_code b) = ''0801'' \<longrightarrow> length (filter generic_item (sb_items b)) \<le> 3"
  by (simp_all add: example_intro_def example_blocks_def intro_ok_def block_ok_def good_item_def plain_line_def generic_item_def)

text \<open>
  C11. Looking up a sense code in a well formed data file prints what the file says of it: the head of the first block of the code,
  and then without data the text of every entry; with data the text of the entry with that data, or else of the first generic entry
  that fits it. The note that the code was not found appears exactly when the end of the file was reached, so also behind
  the answer of the last block, whose generic entries are never consulted. The run neither faults nor runs for ever.
\<close>

theorem lookup_answers_by_meaning:
  assumes "list_all intro_ok intro" "list_all block_ok blocks" "length code = 4"
    and "\<forall>d. data = Some d \<longrightarrow> length d = 4 \<and> code \<noteq> ''0835''"
    and "\<forall>b \<in> set blocks. take 4 (sb_code b) = code \<longrightarrow> length (filter generic_item (sb_items b)) \<le> 3"
  shows "show_sense (sense_text intro blocks) code data = Some (sense_answer code data blocks)"
  using assms by (rule show_sense_block)

theorem lookup_answers_by_meaning_witness:
  "show_sense (sense_text example_intro example_blocks) ''0801'' (Some ''1077'') =
   Some ''Resource Not Available\<newline>getsense: details for this sense data were not found. please contact Jay Schulist <jschlst@linux-sna.org>\<newline>''
   \<and> show_sense (sense_text example_intro example_blocks) ''0801'' (Some ''0012'') =
   Some ''Resource Not Available\<newline>any\<newline>of them\<newline>''"
proof -
  have "show_sense (sense_text example_intro example_blocks) ''0801'' (Some ''1077'') =
      Some (sense_answer ''0801'' (Some ''1077'') example_blocks)"
    by (rule lookup_answers_by_meaning [OF example_ok(1,2)]) (use example_ok(3) in simp_all)
  moreover have "show_sense (sense_text example_intro example_blocks) ''0801'' (Some ''0012'') =
      Some (sense_answer ''0801'' (Some ''0012'') example_blocks)"
    by (rule lookup_answers_by_meaning [OF example_ok(1,2)]) (use example_ok(3) in simp_all)
  ultimately show ?thesis
    by (simp add: sense_answer_def example_blocks_def data_answer_def fits_generic_def generic_item_def compare_generic_def is_digit_def
      digit_val_def shown_text_def details_missing_def name_s_def maintainer_s_def code_missing_def ex_disj_distrib)
qed

text \<open>
  What the command does with one word and the default file. Four to seven characters, or more than eight, are answered by the
  meaning of the first four in upper case. Exactly eight characters, a code with its data, read
  \<^verbatim>\<open>argv[4]\<close>, which is not there: the command never shows the data of the word it was given.
\<close>

theorem command_with_one_word:
  assumes "list_all intro_ok intro" "list_all block_ok blocks" "4 \<le> length w" "NUL \<notin> set w"
    and "files sense_file = Some (sense_text intro blocks)"
    and "\<forall>b \<in> set blocks. length (filter generic_item (sb_items b)) \<le> 3"
  shows "sense_main files v [] [w] =
    (if length w = 8 then None else Some (0, sense_answer (map toupper (take 4 w)) None blocks))"
proof -
  have "NUL \<notin> set (take 4 w)" using assms(4) by (meson in_set_takeD)
  then have "takeWhile (\<lambda>c. c \<noteq> NUL) (take 4 w) = take 4 w" by (auto simp: takeWhile_eq_all_conv)
  then have "strupr (take 4 w) = map toupper (take 4 w)"
    by (metis append_Nil2 strupr_def takeWhile_dropWhile_id append_self_conv)
  moreover have "show_sense (sense_text intro blocks) (map toupper (take 4 w)) None = Some (sense_answer (map toupper (take 4 w)) None blocks)"
    by (rule show_sense_block) (use assms in auto)
  ultimately show ?thesis using assms(3,5) by (auto simp: sense_main_def sense_argument_def Let_def)
qed

theorem command_with_one_word_witness:
  "sense_main (\<lambda>f. Some (sense_text example_intro example_blocks)) ''1.0'' [] [''0801''] =
     Some (0, ''Resource Not Available\<newline>one\<newline>any\<newline>of them\<newline>'')
   \<and> sense_main (\<lambda>f. Some (sense_text example_intro example_blocks)) ''1.0'' [] [''08010001''] = None"
proof -
  have few: "\<forall>b \<in> set example_blocks. length (filter generic_item (sb_items b)) \<le> 3"
    by (simp add: example_blocks_def generic_item_def)
  have "sense_main (\<lambda>f. Some (sense_text example_intro example_blocks)) ''1.0'' [] [w] =
      (if length w = 8 then None else Some (0, sense_answer (map toupper (take 4 w)) None example_blocks))"
    if "4 \<le> length w" "NUL \<notin> set w" for w
    by (rule command_with_one_word [OF example_ok(1,2) that _ few]) simp
  from this [of "''0801''"] this [of "''08010001''"] show ?thesis
    by (simp add: sense_answer_def example_blocks_def shown_text_def toupper_def)
qed
end
