(* ===== verification/Snatchd.thy ===== *)
theory Snatchd
  imports Sna_Daemon_Conf
begin

text \<open>
  The attach daemon (\<^verbatim>\<open>snatchd/snatchd.c\<close>) over the attach library (\<^verbatim>\<open>libsna/libattach.c\<close>). The kernel, the clock, \<^verbatim>\<open>fork\<close>,
  the password file and the outcome of the identity calls are parameters; what the daemon does to its surroundings is a log of events.
  Reading storage that was never written is a fault, \<^term>\<open>None\<close>.
\<close>

section \<open>The attach calls\<close>

record tp_info =
  ti_tp_name :: string
  ti_cnv_type :: byte
  ti_sync_level :: byte
  ti_limit :: "64 word"
  ti_flags :: "64 word"

record tp_attach =
  ta_tp_name :: string
  ta_tp_len :: int
  ta_tcb_id :: "64 word"
  ta_netid :: string
  ta_luow_id :: string
  ta_raw_attach_hdr :: string

definition new_tp_info :: tp_info where
  "new_tp_info = \<lparr>ti_tp_name = replicate 64 NUL, ti_cnv_type = 0, ti_sync_level = 0, ti_limit = 0, ti_flags = 0\<rparr>"

definition no_tp_attach :: tp_attach where
  "no_tp_attach = \<lparr>ta_tp_name = replicate 64 NUL, ta_tp_len = 0, ta_tcb_id = 0, ta_netid = replicate 17 NUL, ta_luow_id = replicate 6 NUL,
     ta_raw_attach_hdr = replicate 100 NUL\<rparr>"

datatype attach_request =
    ATTACH_TP_REGISTER int tp_info
  | ATTACH_TP_UNREGISTER int int
  | ATTACH_TP_CORRELATE int int "64 word" string
  | ATTACH_OPEN
  | ATTACH_LISTEN int tp_attach int
  | ATTACH_CLOSE int

datatype snatch_event =
  Called attach_request | Said string | Forked int | Slept | Printed string | Daemonized | Logged string | Wrote_pid string | Removed string

text \<open>The processes the daemon starts: the identity a program runs with.\<close>

record creds =
  c_uid :: nat
  c_gid :: nat
  c_groups :: "nat list"

record passwd =
  pw_name :: string
  pw_uid :: nat
  pw_gid :: nat

text \<open>
  The surroundings. A system call stores its result through a pointer; \<^term>\<open>None\<close> says that it failed before it stored one. \<^verbatim>\<open>attach_buf\<close> is
  what a call leaves in the buffer of a listener.
\<close>

record 'k attach_os =
  attachcall :: "attach_request \<Rightarrow> 'k \<Rightarrow> int option \<times> 'k"
  attach_buf :: "tp_attach \<Rightarrow> 'k \<Rightarrow> tp_attach"
  gettimeofday :: "'k \<Rightarrow> int \<times> 'k"
  fork :: "'k \<Rightarrow> int \<times> 'k"
  wait3 :: "'k \<Rightarrow> (int \<times> int) list \<times> 'k"
  getpwnam :: "string \<Rightarrow> passwd option"
  initgroups :: "string \<Rightarrow> nat \<Rightarrow> nat list option"
  setgid_ok :: "creds \<Rightarrow> nat \<Rightarrow> bool"
  setuid_ok :: "creds \<Rightarrow> nat \<Rightarrow> bool"
  setgroups_ok :: "creds \<Rightarrow> bool"
  exec_ok :: "string \<Rightarrow> bool"

record active_tp = local_tp_info +
  tp_fd :: int
  tp_status :: int
  tp_pid :: int
  tp_count :: int
  tp_time :: int

definition start_tp :: "local_tp_info \<Rightarrow> active_tp" where
  "start_tp t = local_tp_info.extend t \<lparr>tp_fd = 0, tp_status = 0, tp_pid = 0, tp_count = 0, tp_time = 0\<rparr>"

text \<open>Signals: what is done with each, which are blocked, and the flag that they are.\<close>

datatype signal = SIGALRM | SIGHUP | SIGCHLD | SIGTERM | SIGINT | SIGPIPE

datatype sig_handler = SIG_DFL | SIG_IGN | Snatch_retry | Snatch_config | Snatch_reap_tp | Snatch_goaway

record sig_state =
  sa_handler :: "signal \<Rightarrow> sig_handler"
  sig_mask :: "signal set"
  blocked :: bool
  blockmask :: "signal set"
  emptymask :: "signal set"

record 'k snatch =
  tp_list :: "active_tp list"
  afd :: int
  debug_level :: int
  daemon_log :: "snatch_event list"
  world :: 'k
  self :: creds
  sigs :: sig_state

definition event :: "snatch_event \<Rightarrow> 'k snatch \<Rightarrow> 'k snatch" where
  "event e s = s\<lparr>daemon_log := daemon_log s @ [e]\<rparr>"

text \<open>\<^verbatim>\<open>snatch_debug(5, ...)\<close>, without the name of file and function it puts in front.\<close>

definition snatch_debug :: "int \<Rightarrow> string \<Rightarrow> 'k snatch \<Rightarrow> 'k snatch" where
  "snatch_debug level text s = (if level \<le> debug_level s then event (Said text) s else s)"

definition attach_call :: "'k attach_os \<Rightarrow> attach_request \<Rightarrow> 'k snatch \<Rightarrow> int option \<times> 'k snatch" where
  "attach_call os req s = (let (err, k) = attachcall os req (world s) in (err, event (Called req) (s\<lparr>world := k\<rparr>)))"

definition tp_register :: "'k attach_os \<Rightarrow> int \<Rightarrow> tp_info \<Rightarrow> 'k snatch \<Rightarrow> int option \<times> 'k snatch" where
  "tp_register os fd tp s = attach_call os (ATTACH_TP_REGISTER fd tp) s"

definition tp_unregister :: "'k attach_os \<Rightarrow> int \<Rightarrow> int \<Rightarrow> 'k snatch \<Rightarrow> int option \<times> 'k snatch" where
  "tp_unregister os fd tp_index s = attach_call os (ATTACH_TP_UNREGISTER fd tp_index) s"

text \<open>The result the kernel stored is not looked at.\<close>

definition tp_correlate :: "'k attach_os \<Rightarrow> int \<Rightarrow> int \<Rightarrow> 64 word \<Rightarrow> string \<Rightarrow> 'k snatch \<Rightarrow> int option \<times> 'k snatch" where
  "tp_correlate os fd pid tcb_id name s = (Some 0, snd (attach_call os (ATTACH_TP_CORRELATE fd pid tcb_id name) s))"

definition attach_open :: "'k attach_os \<Rightarrow> 'k snatch \<Rightarrow> int option \<times> 'k snatch" where
  "attach_open os s = attach_call os ATTACH_OPEN s"

definition attach_listen :: "'k attach_os \<Rightarrow> int \<Rightarrow> tp_attach \<Rightarrow> int \<Rightarrow> 'k snatch \<Rightarrow> int option \<times> tp_attach \<times> 'k snatch" where
  "attach_listen os fd buf flags s =
     (let (err, s') = attach_call os (ATTACH_LISTEN fd buf flags) s in (err, attach_buf os buf (world s'), s'))"

definition attach_close :: "'k attach_os \<Rightarrow> int \<Rightarrow> 'k snatch \<Rightarrow> int option \<times> 'k snatch" where
  "attach_close os fd s = attach_call os (ATTACH_CLOSE fd) s"

section \<open>Transaction programs\<close>

fun find_index :: "('a \<Rightarrow> bool option) \<Rightarrow> 'a list \<Rightarrow> nat \<Rightarrow> nat option option" where
  "find_index p [] i = Some None"
| "find_index p (x # xs) i = do { b \<leftarrow> p x; if b then Some (Some i) else find_index p xs (Suc i) }"

text \<open>A program is named by its place in the list.\<close>

definition snatch_tp_get_by_name :: "string \<Rightarrow> active_tp list \<Rightarrow> nat option option" where
  "snatch_tp_get_by_name name tps =
     find_index (\<lambda>t. do { a \<leftarrow> array_string (tp_name t); b \<leftarrow> array_string name; Some (a = b) }) tps 0"

definition snatch_tp_get_by_pid :: "int \<Rightarrow> active_tp list \<Rightarrow> nat option" where
  "snatch_tp_get_by_pid pid tps = the (find_index (\<lambda>t. Some (tp_pid t = pid)) tps 0)"

definition set_groups :: "'k attach_os \<Rightarrow> nat \<Rightarrow> creds \<Rightarrow> creds" where
  "set_groups os gid c = (if setgroups_ok os c then c\<lparr>c_groups := [gid]\<rparr> else c)"

definition sig_block :: "'k snatch \<Rightarrow> 'k snatch" where
  "sig_block s =
     (let g = sigs s; g' = g\<lparr>sig_mask := sig_mask g \<union> blockmask g, blocked := True\<rparr>
      in (if blocked g
          then event (Logged ''please report to jschlst@linux-sna.org\<newline>'') (event (Logged ''internal error - signals already blocked\<newline>'') s)
          else s)\<lparr>sigs := g'\<rparr>)"

definition sig_unblock :: "'k snatch \<Rightarrow> 'k snatch" where
  "sig_unblock s = s\<lparr>sigs := (sigs s)\<lparr>sig_mask := emptymask (sigs s), blocked := False\<rparr>\<rparr>"

definition sig_preexec :: "'k snatch \<Rightarrow> 'k snatch" where
  "sig_preexec s = sig_unblock (s\<lparr>sigs := (sigs s)\<lparr>sa_handler := (sa_handler (sigs s))(SIGPIPE := SIG_DFL)\<rparr>\<rparr>)"

text \<open>
  The identity calls of \<^verbatim>\<open>snatch_exec_tp\<close>: their results are not looked at. The pointer \<^verbatim>\<open>grp\<close> stays null, so the
  branch for root changes nothing.
\<close>

definition become_user :: "'k attach_os \<Rightarrow> passwd \<Rightarrow> creds \<Rightarrow> creds" where
  "become_user os pwd c =
     (let uid = pw_uid pwd; gid = pw_gid pwd
      in if uid \<noteq> 0 then
           let c = (if setgid_ok os c gid then c\<lparr>c_gid := gid\<rparr> else c);
               c = (case initgroups os (pw_name pwd) gid of
                      Some gs \<Rightarrow> if setgroups_ok os c then c\<lparr>c_groups := gs\<rparr> else c | None \<Rightarrow> c)
           in if setuid_ok os c uid then c\<lparr>c_uid := uid\<rparr> else c
         else c)"

text \<open>The child ends in the program, which gets no arguments, or it exits.\<close>

datatype child = Runs string creds | Exits creds

definition snatch_exec_tp :: "'k attach_os \<Rightarrow> active_tp \<Rightarrow> 'k snatch \<Rightarrow> (child \<times> 'k snatch) option" where
  "snatch_exec_tp os tp s = do {
     user \<leftarrow> array_string (tp_user tp);
     name \<leftarrow> array_string (tp_name tp);
     case getpwnam os user of
       None \<Rightarrow> Some (Exits (self s), snatch_debug 5 (''tp `'' @ name @ [CHR 0x27] @ '': no such user `'' @ user @ [CHR 0x27] @ ''.\<newline>'') s)
     | Some pwd \<Rightarrow> do {
         let c = become_user os pwd (self s);
         let s = sig_preexec s;
         path \<leftarrow> array_string (tp_path tp);
         Some (if exec_ok os path then (Runs path c, s) else (Exits c, snatch_debug 5 (''exec `'' @ name @ [CHR 0x27] @ ''.\<newline>'') s))
       }
   }"

definition CNT_INTVL :: int where "CNT_INTVL = 60"
definition RETRYTIME :: int where "RETRYTIME = 60 * 10"

text \<open>The limit of \<^verbatim>\<open>snatch_fork_tp\<close>: whether it reads the clock, and whether it goes on to \<^verbatim>\<open>fork\<close>.\<close>

definition needs_clock :: "active_tp \<Rightarrow> bool" where
  "needs_clock tp \<longleftrightarrow> tp_count tp = 0 \<or> tp_count tp + 1 \<ge> tp_limit tp"

definition admit :: "int \<Rightarrow> active_tp \<Rightarrow> bool \<times> active_tp" where
  "admit now tp =
     (let tp' = tp\<lparr>tp_count := tp_count tp + 1\<rparr>
      in if tp_count tp = 0 then (True, tp'\<lparr>tp_time := now\<rparr>)
         else if tp_count tp' \<ge> tp_limit tp' then
           if now - tp_time tp' > CNT_INTVL then (True, tp'\<lparr>tp_time := now, tp_count := 1\<rparr>)
           else (False, tp'\<lparr>tp_count := 0\<rparr>)
         else (True, tp'))"

definition update_tp :: "nat \<Rightarrow> active_tp \<Rightarrow> 'k snatch \<Rightarrow> 'k snatch" where
  "update_tp i tp s = s\<lparr>tp_list := (tp_list s)[i := tp]\<rparr>"

definition clock :: "'k attach_os \<Rightarrow> active_tp \<Rightarrow> 'k snatch \<Rightarrow> int \<times> 'k snatch" where
  "clock os tp s = (if needs_clock tp then let (now, k) = gettimeofday os (world s) in (now, s\<lparr>world := k\<rparr>) else (0, s))"

definition snatch_fork_tp :: "'k attach_os \<Rightarrow> nat \<Rightarrow> 'k snatch \<Rightarrow> (int \<times> 'k snatch) option" where
  "snatch_fork_tp os i s = do {
     tp \<leftarrow> peek (tp_list s) i;
     let (now, s) = clock os tp s;
     let s = update_tp i (snd (admit now tp)) s;
     if \<not> fst (admit now tp) then do {
       name \<leftarrow> array_string (tp_name tp);
       Some (- 1, snatch_debug 5 (name @ '' server failing (looping or being flooded), service terminated for '' @ show_int (RETRYTIME div 60) @ '' min.\<newline>'') s)
     }
     else do {
       let (pid, k) = fork os (world s);
       let s = event (Forked pid) (s\<lparr>world := k\<rparr>);
       Some (pid, if pid < 0 then snatch_debug 5 ''foke: %m\<newline>'' s else s)
     }
   }"

text \<open>The parent after \<^verbatim>\<open>fork\<close>; a child goes to \<^verbatim>\<open>snatch_exec_tp\<close> and does not come back.\<close>

definition snatch_launch :: "'k attach_os \<Rightarrow> nat \<Rightarrow> tp_attach \<Rightarrow> 'k snatch \<Rightarrow> (child option \<times> 'k snatch) option" where
  "snatch_launch os i r_tp s = do {
     tp \<leftarrow> peek (tp_list s) i;
     name \<leftarrow> array_string (tp_name tp);
     let s = snatch_debug 5 (''launching: '' @ name @ ''\<newline>'') s;
     (pid, s) \<leftarrow> snatch_fork_tp os i s;
     if pid < 0 then Some (None, event Slept s)
     else if pid = 0 then do { tp' \<leftarrow> peek (tp_list s) i; (c, s) \<leftarrow> snatch_exec_tp os tp' s; Some (Some c, s) }
     else do {
       let (res, s) = tp_correlate os (afd s) pid (ta_tcb_id r_tp) (ta_tp_name r_tp) s;
       err \<leftarrow> res;
       let what = name @ '':'' @ show_int pid @ '':'' @ show_int (sint (ta_tcb_id r_tp)) @ ''\<newline>'';
       Some (None, snatch_debug 5 ((if err < 0 then ''correlation failed for '' else ''successful correlation for '') @ what) s)
     }
   }"

text \<open>Only the name goes into the registration; the rest of the block is zero.\<close>

definition snatch_setup_tp :: "'k attach_os \<Rightarrow> nat \<Rightarrow> 'k snatch \<Rightarrow> (int \<times> 'k snatch) option" where
  "snatch_setup_tp os i s = do {
     l_tp \<leftarrow> peek (tp_list s) i;
     name \<leftarrow> array_string (tp_name l_tp);
     field \<leftarrow> poke_block (ti_tp_name new_tp_info) 0 (name @ [NUL]);
     let (res, s) = tp_register os (afd s) (new_tp_info\<lparr>ti_tp_name := field\<rparr>) s;
     err \<leftarrow> res;
     if err < 0 then Some (err, snatch_debug 5 (''tp '' @ name @ '' register failed `'' @ show_int err @ [CHR 0x27] @ ''.\<newline>'') s)
     else Some (0, update_tp i (l_tp\<lparr>tp_fd := err\<rparr>) s)
   }"

fun setup_from :: "'k attach_os \<Rightarrow> nat list \<Rightarrow> 'k snatch \<Rightarrow> 'k snatch option" where
  "setup_from os [] s = Some s"
| "setup_from os (i # is) s = do { r \<leftarrow> snatch_setup_tp os i s; setup_from os is (snd r) }"

definition snatch_load_tp_list :: "'k attach_os \<Rightarrow> 'k snatch \<Rightarrow> (int \<times> 'k snatch) option" where
  "snatch_load_tp_list os s = do { s \<leftarrow> setup_from os [0 ..< length (tp_list s)] s; Some (0, s) }"

section \<open>The director\<close>

text \<open>
  What \<^verbatim>\<open>snatch_director\<close> does before its loop. When the attach manager cannot be opened it returns a variable nothing was
  stored in, which is a fault.
\<close>

definition director_start :: "'k attach_os \<Rightarrow> 'k snatch \<Rightarrow> 'k snatch option" where
  "director_start os s = do {
     let s = s\<lparr>self := set_groups os (c_gid (self s)) (self s)\<rparr>;
     let (res, s) = attach_open os s;
     fd \<leftarrow> res;
     let s = s\<lparr>afd := fd\<rparr>;
     if fd < 0 then None
     else do {
       (err, s) \<leftarrow> snatch_load_tp_list os s;
       Some (if err < 0 then snatch_debug 5 (''one or more tp failed to load `'' @ show_int err @ [CHR 0x27] @ ''.\<newline>'') s else s)
     }
   }"

text \<open>One round of the loop; the answer holds the child when this is the process the fork made.\<close>

definition director_round :: "'k attach_os \<Rightarrow> 'k snatch \<Rightarrow> (child option \<times> 'k snatch) option" where
  "director_round os s = do {
     let (res, r_tp, s) = attach_listen os (afd s) no_tp_attach 0 s;
     err \<leftarrow> res;
     if err < 0 then Some (None, event Slept (snatch_debug 5 (''listen failed `'' @ show_int err @ [CHR 0x27] @ ''.\<newline>'') s))
     else do {
       l_tp \<leftarrow> snatch_tp_get_by_name (ta_tp_name r_tp) (tp_list s);
       case l_tp of
         None \<Rightarrow> do {
           name \<leftarrow> array_string (ta_tp_name r_tp);
           Some (None, snatch_debug 5 (''unable to locate transaction program `'' @ name @ [CHR 0x27] @ ''.\<newline>'') s)
         }
       | Some i \<Rightarrow> snatch_launch os i r_tp s
     }
   }"

section \<open>Signals\<close>

definition sig_init :: "'k snatch \<Rightarrow> 'k snatch" where
  "sig_init s = s\<lparr>sigs := (sigs s)\<lparr>emptymask := {}, blockmask := {SIGCHLD, SIGHUP, SIGALRM},
     sa_handler := (sa_handler (sigs s))(SIGALRM := Snatch_retry, SIGHUP := Snatch_config, SIGCHLD := Snatch_reap_tp,
       SIGTERM := Snatch_goaway, SIGINT := Snatch_goaway, SIGPIPE := SIG_IGN)\<rparr>\<rparr>"

text \<open>The parts of a wait status: \<^verbatim>\<open>WTERMSIG\<close>, \<^verbatim>\<open>WEXITSTATUS\<close>.\<close>

definition WTERMSIG :: "int \<Rightarrow> int" where "WTERMSIG status = status mod 128"
definition WEXITSTATUS :: "int \<Rightarrow> int" where "WEXITSTATUS status = status div 256 mod 256"

definition reap_one :: "'k snatch \<Rightarrow> int \<times> int \<Rightarrow> 'k snatch option" where
  "reap_one s w = do {
     let (pid, status) = w;
     let s = snatch_debug 5 (''pid '' @ show_int pid @ '', exit status '' @ show_int status @ ''\<newline>'') s;
     tmp \<leftarrow> (case snatch_tp_get_by_pid pid (tp_list s) of
         None \<Rightarrow> Some (''pid '' @ show_int pid)
       | Some i \<Rightarrow> do { n \<leftarrow> array_string (tp_name (tp_list s ! i)); Some (n @ '' (pid '' @ show_int pid @ '')'') });
     let name = take 63 tmp;
     Some (if WTERMSIG status = 0 \<and> WEXITSTATUS status \<noteq> 0 then snatch_debug 5 (name @ '': exit status '' @ show_int (WEXITSTATUS status)) s
           else if 0 < WTERMSIG status \<and> WTERMSIG status < 127 then snatch_debug 5 (name @ '': exit signal '' @ show_int (WTERMSIG status)) s
           else s)
   }"

fun reap_each :: "(int \<times> int) list \<Rightarrow> 'k snatch \<Rightarrow> 'k snatch option" where
  "reap_each [] s = Some s"
| "reap_each (w # ws) s = do { s \<leftarrow> reap_one s w; reap_each ws s }"

definition snatch_reap_tp :: "'k attach_os \<Rightarrow> 'k snatch \<Rightarrow> 'k snatch option" where
  "snatch_reap_tp os s = (let (ws, k) = wait3 os (world s) in reap_each ws (s\<lparr>world := k\<rparr>))"

fun unregister_all :: "'k attach_os \<Rightarrow> active_tp list \<Rightarrow> 'k snatch \<Rightarrow> 'k snatch" where
  "unregister_all os [] s = s"
| "unregister_all os (t # ts) s = unregister_all os ts ((snd (tp_unregister os (afd s) (tp_fd t) s))\<lparr>tp_list := ts\<rparr>)"

definition pid_file :: string where "pid_file = ''/var/run/snatchd.pid''"

text \<open>The daemon leaves with status 0.\<close>

definition snatch_goaway :: "'k attach_os \<Rightarrow> 'k snatch \<Rightarrow> 'k snatch" where
  "snatch_goaway os s =
     (let s = event (Removed pid_file) (unregister_all os (tp_list s) s) in snd (attach_close os (afd s) s))"

datatype 'k after_signal = Goes_on "'k snatch" | Ended int "'k snatch"

text \<open>A signal with its default action ends the process, but for \<^verbatim>\<open>SIGCHLD\<close>.\<close>

definition on_signal :: "'k attach_os \<Rightarrow> signal \<Rightarrow> 'k snatch \<Rightarrow> 'k after_signal option" where
  "on_signal os sg s =
     (case sa_handler (sigs s) sg of
        SIG_DFL \<Rightarrow> Some (if sg = SIGCHLD then Goes_on s else Ended 1 s)
      | SIG_IGN \<Rightarrow> Some (Goes_on s)
      | Snatch_retry \<Rightarrow> Some (Goes_on s)
      | Snatch_config \<Rightarrow> Some (Goes_on s)
      | Snatch_reap_tp \<Rightarrow> map_option Goes_on (snatch_reap_tp os s)
      | Snatch_goaway \<Rightarrow> Some (Ended 0 (snatch_goaway os s)))"

section \<open>The program\<close>

definition default_conf :: string where "default_conf = ''/etc/sna.xml''"

definition snatch_version :: "string \<Rightarrow> string" where
  "snatch_version version_s =
     ''snatchd: Linux-SNA attach daemon '' @ version_s @ ''\<newline>linux-SNA.ORG Jay Schulist <jschlst@linux-sna.org>\<newline>http://www.linux-sna.org\<newline>''"

definition snatch_help :: string where
  "snatch_help = ''Usage: snatchd [-h] [-v] [-d level] [-f config_file]\<newline>''"

record snatch_opts =
  so_level :: int
  so_nodaemon :: int
  so_file :: string

fun snatch_options :: "string \<Rightarrow> (char \<times> string) list \<Rightarrow> snatch_opts \<Rightarrow> (string + snatch_opts) option" where
  "snatch_options version_s [] o' = Some (Inr o')"
| "snatch_options version_s ((c, optarg) # opts) o' =
     (if c = CHR ''d'' then snatch_options version_s opts (o'\<lparr>so_level := atoi optarg, so_nodaemon := atoi optarg\<rparr>)
      else if c = CHR ''f'' then if length optarg < 300 then snatch_options version_s opts (o'\<lparr>so_file := optarg\<rparr>) else None
      else if c = CHR ''V'' \<or> c = CHR ''v'' then Some (Inl (snatch_version version_s))
      else Some (Inl snatch_help))"

text \<open>A program before \<^verbatim>\<open>main\<close>: nothing configured, default signals.\<close>

definition fresh :: "'k \<Rightarrow> creds \<Rightarrow> 'k snatch" where
  "fresh k c = \<lparr>tp_list = [], afd = 0, debug_level = 1, daemon_log = [], world = k, self = c,
     sigs = \<lparr>sa_handler = (\<lambda>_. SIG_DFL), sig_mask = {}, blocked = False, blockmask = {}, emptymask = {}\<rparr>\<rparr>"

datatype 'k started = Directing "'k snatch" | Stopped int "'k snatch"

text \<open>\<^verbatim>\<open>main\<close> up to the loop of the director, which does not end: first the part behind the configuration.\<close>

definition begin_directing :: "'k attach_os \<Rightarrow> string \<Rightarrow> snatch_opts \<Rightarrow> 'k snatch \<Rightarrow> 'k started option" where
  "begin_directing os version_s opt s =
     (let s = (if so_nodaemon opt = 0 then event Daemonized s else s);
          s = event (Wrote_pid pid_file) (event (Logged (''Linux-SNA attach daemon '' @ version_s)) s)
      in map_option Directing (director_start os (sig_init s)))"

definition snatch_main :: "libxml \<Rightarrow> 'k attach_os \<Rightarrow> string \<Rightarrow> (char \<times> string) list \<Rightarrow> 'k snatch \<Rightarrow> 'k started option" where
  "snatch_main lx os version_s opts s = do {
     o' \<leftarrow> snatch_options version_s opts \<lparr>so_level = 1, so_nodaemon = 0, so_file = default_conf\<rparr>;
     case o' of
       Inl text \<Rightarrow> Some (Stopped 1 (event (Printed text) s))
     | Inr opt \<Rightarrow> do {
         let s = s\<lparr>debug_level := so_level opt\<rparr>;
         (err, tps) \<leftarrow> snatch_read_config_file lx (so_file opt) [];
         let s = s\<lparr>tp_list := map start_tp tps\<rparr>;
         if err < 0
         then Some (Stopped err (snatch_debug 5 (''configuration file ('' @ so_file opt @ '') invalid `'' @ show_int err @ [CHR 0x27] @ ''.\<newline>'') s))
         else do {
           s \<leftarrow> (if debug_level s \<ge> 10 then do { text \<leftarrow> snatch_print_config tps; Some (event (Printed text) s) } else Some s);
           if tps = [] then Some (Stopped 0 (snatch_debug 5 ''no transaction programs configured, exiting\<newline>'' s))
           else begin_directing os version_s opt s
         }
       }
   }"

section \<open>The limit on starts\<close>

fun attempts :: "int list \<Rightarrow> active_tp \<Rightarrow> bool list" where
  "attempts [] tp = []"
| "attempts (now # ts) tp = (let (ok, tp') = admit now tp in ok # attempts ts tp')"

text \<open>How many attempts make a cycle: all but the last of them are admitted.\<close>

definition cycle :: "active_tp \<Rightarrow> nat" where
  "cycle tp = nat (max 2 (tp_limit tp))"

lemma admit_cycle:
  assumes "tp_count tp = int c" "c < cycle tp" "0 < c \<longrightarrow> now - tp_time tp \<le> 60"
  shows "admit now tp = (Suc c mod cycle tp \<noteq> 0, tp\<lparr>tp_count := int (Suc c mod cycle tp), tp_time := (if c = 0 then now else tp_time tp)\<rparr>)"
proof (cases "Suc c = cycle tp")
  case True
  then have "c \<noteq> 0" "tp_limit tp \<le> int c + 1" using assms(2) by (auto simp: cycle_def split: if_splits)
  then show ?thesis using assms True by (simp add: admit_def CNT_INTVL_def)
next
  case False
  then have "Suc c < cycle tp" using assms(2) by simp
  then have "Suc c mod cycle tp = Suc c" "\<not> tp_limit tp \<le> int c + 1 \<or> c = 0" by (auto simp: cycle_def)
  then show ?thesis using assms by (auto simp: admit_def)
qed

lemma attempts_cycle:
  assumes "tp_count tp = int c" "c < cycle tp" "0 < c \<longrightarrow> (\<forall>t \<in> set ts. t - tp_time tp \<le> 60)" "sorted_wrt (\<lambda>a b. b - a \<le> 60) ts"
  shows "attempts ts tp = map (\<lambda>i. Suc (c + i) mod cycle tp \<noteq> 0) [0 ..< length ts]"
  using assms
proof (induction ts arbitrary: tp c)
  case Nil
  then show ?case by simp
next
  case (Cons t ts)
  let ?c = "Suc c mod cycle tp" and ?L = "cycle tp"
  let ?tp = "tp\<lparr>tp_count := int ?c, tp_time := (if c = 0 then t else tp_time tp)\<rparr>"
  have a: "admit t tp = (?c \<noteq> 0, ?tp)" by (rule admit_cycle) (use Cons.prems in auto)
  have L: "cycle ?tp = ?L" "0 < ?L" by (auto simp: cycle_def)
  have "attempts ts ?tp = map (\<lambda>i. Suc (?c + i) mod cycle ?tp \<noteq> 0) [0 ..< length ts]"
    by (rule Cons.IH) (use Cons.prems L in auto)
  also have "\<dots> = map (\<lambda>i. Suc (c + Suc i) mod ?L \<noteq> 0) [0 ..< length ts]"
    unfolding L(1) by (metis (no_types, lifting) add_Suc add_Suc_right mod_Suc_eq mod_add_left_eq)
  finally show ?case
    by (simp add: a upt_conv_Cons map_Suc_upt [symmetric] del: upt_Suc map_Suc_upt)
qed

text \<open>
  C26. Starts of a program that follow each other within a minute are refused one at a time: of every \<open>limit\<close> attempts (two, when the
  limit is smaller) the last is refused, and the next one is admitted again, although the message that goes with the refusal says the
  program is off for ten minutes.
\<close>

theorem starts_refused_one_at_a_time:
  assumes "tp_count tp = 0" "sorted_wrt (\<lambda>a b. b - a \<le> 60) ts"
  shows "attempts ts tp = map (\<lambda>i. Suc i mod nat (max 2 (tp_limit tp)) \<noteq> 0) [0 ..< length ts]"
  using attempts_cycle [of tp 0 ts] assms by (simp add: cycle_def)

theorem starts_refused_one_at_a_time_witness:
  "attempts [100, 101, 102, 103, 104, 105, 106] (start_tp (some_tp\<lparr>tp_limit := 3\<rparr>)) = [True, True, False, True, True, False, True]"
proof -
  have "tp_count (start_tp (some_tp\<lparr>tp_limit := 3\<rparr>)) = 0" "tp_limit (start_tp (some_tp\<lparr>tp_limit := 3\<rparr>)) = 3"
    by (simp_all add: start_tp_def local_tp_info.defs)
  then show ?thesis
    using starts_refused_one_at_a_time [of "start_tp (some_tp\<lparr>tp_limit := 3\<rparr>)" "[100, 101, 102, 103, 104, 105, 106]"]
    by (simp add: upt_rec)
qed

section \<open>What the daemon keeps\<close>

text \<open>The configured part of the programs never changes, no program ever gets a process id, and the counters stay below the limit.\<close>

definition tp_ok :: "active_tp \<Rightarrow> bool" where
  "tp_ok tp \<longleftrightarrow> tp_pid tp = 0 \<and> 0 \<le> tp_count tp \<and> tp_count tp < int (cycle tp)"

definition keeps :: "'k snatch \<Rightarrow> 'k snatch \<Rightarrow> bool" where
  "keeps s s' \<longleftrightarrow> map local_tp_info.truncate (tp_list s') = map local_tp_info.truncate (tp_list s)
     \<and> (list_all tp_ok (tp_list s) \<longrightarrow> list_all tp_ok (tp_list s')) \<and> debug_level s' = debug_level s"

lemma keeps_refl [simp]: "keeps s s"
  by (simp add: keeps_def)

lemma keeps_trans: "keeps s t \<Longrightarrow> keeps t u \<Longrightarrow> keeps s u"
  by (simp add: keeps_def)

lemma keeps_same: "tp_list s' = tp_list s \<Longrightarrow> debug_level s' = debug_level s \<Longrightarrow> keeps s s'"
  by (simp add: keeps_def)

lemma quiet [simp]:
  "tp_list (event e s) = tp_list s" "tp_list (snatch_debug l m s) = tp_list s" "tp_list (snd (attach_call os r s)) = tp_list s"
  "debug_level (event e s) = debug_level s" "debug_level (snatch_debug l m s) = debug_level s"
  "debug_level (snd (attach_call os r s)) = debug_level s"
  by (simp_all add: event_def snatch_debug_def attach_call_def split: prod.splits)

lemma admit_ok:
  assumes "tp_ok tp"
  shows "tp_ok (snd (admit now tp))" "local_tp_info.truncate (snd (admit now tp)) = local_tp_info.truncate tp"
  using assms by (auto simp: tp_ok_def admit_def cycle_def Let_def local_tp_info.defs)

lemma truncate_admit: "local_tp_info.truncate (snd (admit now tp)) = local_tp_info.truncate tp"
  by (simp add: admit_def Let_def local_tp_info.defs)

lemma keeps_update:
  assumes "i < length (tp_list s)" "local_tp_info.truncate tp = local_tp_info.truncate (tp_list s ! i)" "tp_ok (tp_list s ! i) \<longrightarrow> tp_ok tp"
  shows "keeps s (update_tp i tp s)"
proof -
  have "map local_tp_info.truncate ((tp_list s)[i := tp]) = map local_tp_info.truncate (tp_list s)"
    by (metis assms(1,2) list_update_id map_update nth_map)
  moreover have "list_all tp_ok (tp_list s) \<longrightarrow> list_all tp_ok ((tp_list s)[i := tp])"
    using assms(1,3) by (auto simp: list_all_length nth_list_update)
  ultimately show ?thesis by (simp add: keeps_def update_tp_def)
qed

lemma keeps_world [simp]: "keeps s (t\<lparr>world := k\<rparr>) = keeps s t" "keeps (s\<lparr>world := k\<rparr>) t = keeps s t"
  by (simp_all add: keeps_def)

lemma keeps_quiet [simp]:
  "keeps s (event e t) = keeps s t" "keeps s (snatch_debug l m t) = keeps s t" "keeps s (snd (attach_call os r t)) = keeps s t"
  "keeps (event e s) t = keeps s t" "keeps (snatch_debug l m s) t = keeps s t" "keeps (snd (attach_call os r s)) t = keeps s t"
  by (simp_all add: keeps_def)

lemma clock_keeps: "clock os tp s = (now, t) \<Longrightarrow> tp_list t = tp_list s \<and> debug_level t = debug_level s"
  by (auto simp: clock_def split: if_splits prod.splits)

lemma fork_keeps:
  assumes "snatch_fork_tp os i s = Some (pid, s')"
  shows "keeps s s'"
proof -
  obtain tp where tp: "i < length (tp_list s)" "tp = tp_list s ! i" "peek (tp_list s) i = Some tp"
    using assms by (auto simp: snatch_fork_tp_def peek_Some_iff split: bind_splits)
  obtain now t where t: "clock os tp s = (now, t)" by force
  let ?u = "update_tp i (snd (admit now tp)) t"
  have u: "keeps s ?u"
    using keeps_trans [of s t ?u] keeps_update [of i t "snd (admit now tp)"] keeps_same [of t s] clock_keeps [OF t] tp
    by (simp add: truncate_admit admit_ok(1))
  have "keeps ?u s'"
  proof (cases "fst (admit now tp)")
    case False
    then show ?thesis using assms tp(3) t by (auto simp: snatch_fork_tp_def split: bind_splits)
  next
    case True
    obtain p k where f: "fork os (world ?u) = (p, k)" by force
    show ?thesis using assms tp(3) t True f by (auto simp: snatch_fork_tp_def Let_def split: if_splits)
  qed
  then show ?thesis using u keeps_trans by blast
qed

lemma exec_keeps: "snatch_exec_tp os tp s = Some (c, s') \<Longrightarrow> keeps s s'"
  by (auto simp: snatch_exec_tp_def Let_def sig_preexec_def sig_unblock_def keeps_def split: bind_splits option.splits if_splits)

lemma correlate_keeps: "tp_correlate os fd pid tcb name s = (e, s') \<Longrightarrow> keeps s s'"
  by (auto simp: tp_correlate_def)

lemma launch_keeps:
  assumes "snatch_launch os i r s = Some (c, s')"
  shows "keeps s s'"
proof -
  obtain tp name pid t where t: "peek (tp_list s) i = Some tp" "array_string (tp_name tp) = Some name"
      "snatch_fork_tp os i (snatch_debug 5 (''launching: '' @ name @ ''\<newline>'') s) = Some (pid, t)"
    using assms by (auto simp: snatch_launch_def Let_def split: bind_splits)
  have k: "keeps s t" using fork_keeps [OF t(3)] by simp
  consider "pid < 0" | "pid = 0" | "0 < pid" by linarith
  then have "keeps t s'"
  proof cases
    case 2
    then show ?thesis using assms t exec_keeps by (auto simp: snatch_launch_def Let_def split: bind_splits)
  next
    case 3
    obtain e u where u: "tp_correlate os (afd t) pid (ta_tcb_id r) (ta_tp_name r) t = (e, u)" by force
    have "keeps t u" by (rule correlate_keeps [OF u])
    then show ?thesis using assms t 3 u by (auto simp: snatch_launch_def Let_def split: bind_splits)
  qed (use assms t in \<open>auto simp: snatch_launch_def Let_def\<close>)
  then show ?thesis using k keeps_trans by blast
qed

lemma round_keeps:
  assumes "director_round os s = Some (c, s')"
  shows "keeps s s'"
proof -
  obtain res r t where t: "attach_listen os (afd s) no_tp_attach 0 s = (res, r, t)" by (metis prod_cases3)
  have k: "keeps s t" using t by (auto simp: attach_listen_def Let_def split: prod.splits)
      (metis keeps_quiet(3) keeps_refl snd_conv)
  have "keeps t s'"
    using assms t launch_keeps by (auto simp: director_round_def Let_def split: bind_splits if_splits option.splits)
  then show ?thesis using k keeps_trans by blast
qed

lemma reap_keeps: "reap_each ws s = Some s' \<Longrightarrow> keeps s s'"
proof (induction ws arbitrary: s)
  case (Cons w ws)
  then obtain t where t: "reap_one s w = Some t" "reap_each ws t = Some s'" by (auto split: bind_splits)
  have "keeps s t" using t(1) by (cases w) (auto simp: reap_one_def Let_def split: bind_splits if_splits option.splits)
  then show ?case using Cons.IH [OF t(2)] keeps_trans by blast
qed simp

lemma signal_keeps: "on_signal os sg s = Some (Goes_on s') \<Longrightarrow> keeps s s'"
  by (auto simp: on_signal_def snatch_reap_tp_def reap_keeps split: sig_handler.splits if_splits prod.splits)
    (metis keeps_world(2) reap_keeps)

lemma setup_keeps:
  assumes "snatch_setup_tp os i s = Some (e, s')"
  shows "keeps s s'"
proof -
  obtain tp name f where tp: "peek (tp_list s) i = Some tp" "array_string (tp_name tp) = Some name"
      "poke_block (ti_tp_name new_tp_info) 0 (name @ [NUL]) = Some f"
    using assms by (auto simp: snatch_setup_tp_def split: bind_splits)
  obtain res t where t: "tp_register os (afd s) (new_tp_info\<lparr>ti_tp_name := f\<rparr>) s = (res, t)" by force
  have "tp_list t = tp_list s" "debug_level t = debug_level s" using t unfolding tp_register_def by (metis quiet(3) snd_conv, metis quiet(6) snd_conv)
  moreover have "tp_ok (tp\<lparr>tp_fd := v\<rparr>) = tp_ok tp" "local_tp_info.truncate (tp\<lparr>tp_fd := v\<rparr>) = local_tp_info.truncate tp" for v
    by (simp_all add: tp_ok_def cycle_def local_tp_info.defs)
  ultimately show ?thesis
    using assms tp t keeps_update [of i t "tp\<lparr>tp_fd := the res\<rparr>"] keeps_same [of t s]
    by (auto simp: snatch_setup_tp_def Let_def peek_Some_iff split: bind_splits if_splits intro: keeps_trans keeps_same)
qed

lemma setup_from_keeps: "setup_from os is s = Some s' \<Longrightarrow> keeps s s'"
proof (induction "is" arbitrary: s)
  case (Cons i "is")
  then show ?case using setup_keeps keeps_trans by (fastforce split: bind_splits)
qed simp

text \<open>The states of the daemon: rounds of the director in the parent, and signals between them.\<close>

inductive snatch_run :: "'k attach_os \<Rightarrow> 'k snatch \<Rightarrow> 'k snatch \<Rightarrow> bool" for os s where
  start: "snatch_run os s s"
| round: "snatch_run os s t \<Longrightarrow> director_round os t = Some (None, u) \<Longrightarrow> snatch_run os s u"
| signal: "snatch_run os s t \<Longrightarrow> on_signal os sg t = Some (Goes_on u) \<Longrightarrow> snatch_run os s u"

inductive_cases snatch_runE: "snatch_run os s t"

lemma run_keeps: "snatch_run os s t \<Longrightarrow> keeps s t"
  by (induction rule: snatch_run.induct) (auto intro: keeps_trans round_keeps signal_keeps)

lemma start_keeps:
  assumes "director_start os s = Some s'"
  shows "keeps s s'"
proof -
  let ?s = "s\<lparr>self := set_groups os (c_gid (self s)) (self s)\<rparr>"
  obtain res t where t: "attach_open os ?s = (res, t)" by force
  have l: "tp_list t = tp_list s" "debug_level t = debug_level s"
    using t quiet(3,6) [of os ATTACH_OPEN ?s] by (simp_all add: attach_open_def)
  obtain fd u where u: "res = Some fd" "setup_from os [0 ..< length (tp_list s)] (t\<lparr>afd := fd\<rparr>) = Some u"
    using assms t l by (auto simp: director_start_def snatch_load_tp_list_def Let_def split: bind_splits if_splits)
  have "keeps (t\<lparr>afd := fd\<rparr>) u" by (rule setup_from_keeps [OF u(2)])
  then have "keeps s u" using l by (simp add: keeps_def)
  moreover have "s' = u"
    using assms t l u by (auto simp: director_start_def snatch_load_tp_list_def Let_def split: if_splits)
  ultimately show ?thesis by simp
qed

lemma start_tp_ok: "tp_ok (start_tp t)" "local_tp_info.truncate (start_tp t) = t"
  by (simp_all add: tp_ok_def start_tp_def cycle_def local_tp_info.defs max_def)

lemma main_directs:
  assumes "snatch_main lx os v opts (fresh k c) = Some (Directing s)"
  shows "\<exists>file e tps t. snatch_read_config_file lx file [] = Some (e, tps) \<and> 0 \<le> e \<and> tps \<noteq> []
    \<and> tp_list t = map start_tp tps \<and> director_start os (sig_init t) = Some s"
proof -
  obtain opt e tps where o: "snatch_options v opts \<lparr>so_level = 1, so_nodaemon = 0, so_file = default_conf\<rparr> = Some (Inr opt)"
      "snatch_read_config_file lx (so_file opt) [] = Some (e, tps)"
    using assms by (auto simp: snatch_main_def Let_def split: bind_splits sum.splits if_splits)
  define b where "b = (fresh k c)\<lparr>debug_level := so_level opt, tp_list := map start_tp tps\<rparr>"
  have l: "tp_list b = map start_tp tps" by (simp add: b_def)
  have "\<exists>b1. tp_list b1 = map start_tp tps \<and> begin_directing os v opt b1 = Some (Directing s)" and e: "\<not> e < 0" "tps \<noteq> []"
    using assms o l
    by (auto simp: snatch_main_def Let_def b_def [symmetric] split: bind_splits if_splits intro: exI [of _ b] exI [of _ "event (Printed x) b" for x])
  then obtain b1 where b1: "tp_list b1 = map start_tp tps" "begin_directing os v opt b1 = Some (Directing s)" by blast
  define b2 where "b2 = event (Wrote_pid pid_file) (event (Logged (''Linux-SNA attach daemon '' @ v)) (if so_nodaemon opt = 0 then event Daemonized b1 else b1))"
  have "tp_list b2 = map start_tp tps" "director_start os (sig_init b2) = Some s"
    using b1 by (auto simp: b2_def begin_directing_def Let_def)
  then obtain t where "tp_list t = map start_tp tps" "director_start os (sig_init t) = Some s" by blast
  then show ?thesis using o(2) e by (intro exI [of _ "so_file opt"] exI [of _ e] exI [of _ tps] exI [of _ t]) simp
qed

lemma find_none: "\<forall>x \<in> set xs. p x = Some False \<Longrightarrow> find_index p xs i = Some None"
  by (induction xs arbitrary: i) auto

text \<open>
  C25. However long the daemon runs, whatever attaches arrive and whatever signals are handled between them, its programs are those of its
  configuration file, unchanged and in order; the counter of starts stays below the limit (or below two). No program ever has a process id,
  so the handler of ended children never finds the program a child belonged to.
\<close>

theorem daemon_keeps_programs:
  assumes "snatch_main lx os v opts (fresh k c) = Some (Directing s)" and "snatch_run os s t"
  shows "\<exists>file e tps. snatch_read_config_file lx file [] = Some (e, tps) \<and> tps \<noteq> []
    \<and> map local_tp_info.truncate (tp_list t) = tps
    \<and> (\<forall>tp \<in> set (tp_list t). 0 \<le> tp_count tp \<and> tp_count tp < max 2 (tp_limit tp) \<and> tp_pid tp = 0)
    \<and> (\<forall>pid. pid \<noteq> 0 \<longrightarrow> snatch_tp_get_by_pid pid (tp_list t) = None)"
proof -
  obtain f e tps u where u: "snatch_read_config_file lx f [] = Some (e, tps)" "tps \<noteq> []" "tp_list u = map start_tp tps"
      "director_start os (sig_init u) = Some s"
    using main_directs [OF assms(1)] by blast
  have "keeps (sig_init u) t" by (rule keeps_trans [OF start_keeps [OF u(4)] run_keeps [OF assms(2)]])
  then have k: "map local_tp_info.truncate (tp_list t) = tps" "list_all tp_ok (tp_list t)"
    using u(3) by (auto simp: keeps_def sig_init_def start_tp_ok list_all_iff comp_def)
  have ok: "0 \<le> tp_count tp \<and> tp_count tp < max 2 (tp_limit tp) \<and> tp_pid tp = 0" if "tp \<in> set (tp_list t)" for tp
    using that k(2) by (auto simp: list_all_iff tp_ok_def cycle_def max_def split: if_splits)
  moreover have "snatch_tp_get_by_pid pid (tp_list t) = None" if "pid \<noteq> 0" for pid
    unfolding snatch_tp_get_by_pid_def using that ok find_none [of "tp_list t" "\<lambda>t. Some (tp_pid t = pid)" 0] by fastforce
  ultimately show ?thesis using u(1,2) k(1) by blast
qed

section \<open>Registration\<close>

definition attach_calls :: "'k snatch \<Rightarrow> attach_request list" where
  "attach_calls s = List.map_filter (\<lambda>e. case e of Called r \<Rightarrow> Some r | _ \<Rightarrow> None) (daemon_log s)"

definition kernel_answers :: "'k attach_os \<Rightarrow> bool" where
  "kernel_answers os \<longleftrightarrow> (\<forall>r k. fst (attachcall os r k) \<noteq> None)"

lemma map_filter_snoc: "List.map_filter f (xs @ [x]) = List.map_filter f xs @ (case f x of None \<Rightarrow> [] | Some y \<Rightarrow> [y])"
  by (induction xs) (auto simp: map_filter_simps split: option.splits)

lemma attach_calls_simps [simp]:
  "attach_calls (event e s) = attach_calls s @ (case e of Called r \<Rightarrow> [r] | _ \<Rightarrow> [])"
  "attach_calls (snatch_debug l m s) = attach_calls s" "attach_calls (update_tp i tp s) = attach_calls s" "attach_calls (s\<lparr>self := c\<rparr>) = attach_calls s"
  "attach_calls (s\<lparr>afd := fd\<rparr>) = attach_calls s" "attach_calls (s\<lparr>world := k\<rparr>) = attach_calls s" "attach_calls (sig_init s) = attach_calls s"
  by (cases e) (auto simp: attach_calls_def event_def snatch_debug_def update_tp_def sig_init_def map_filter_snoc)

lemma attach_call_parts:
  "attach_calls (snd (attach_call os r s)) = attach_calls s @ [r]" "afd (snd (attach_call os r s)) = afd s"
  "kernel_answers os \<Longrightarrow> \<exists>e. fst (attach_call os r s) = Some e"
  by (auto simp: attach_call_def kernel_answers_def Let_def event_def attach_calls_def map_filter_snoc split: prod.splits)
    (metis fst_conv option.exhaust)

lemma fst_attach_call: "fst (attach_call os r s) = fst (attachcall os r (world s))"
  by (simp add: attach_call_def Let_def prod.case_eq_if)

lemma afd_simps [simp]: "afd (snatch_debug l m s) = afd s" "afd (update_tp i tp s) = afd s" "afd (event e s) = afd s"
  by (simp_all add: snatch_debug_def update_tp_def event_def)

definition registration :: "int \<Rightarrow> string \<Rightarrow> attach_request" where
  "registration fd name = ATTACH_TP_REGISTER fd (new_tp_info\<lparr>ti_tp_name := name\<rparr>)"

lemma setup_registers:
  assumes "kernel_answers os" "i < length (tp_list s)" "holds_string 64 (tp_name (tp_list s ! i))"
  shows "\<exists>e s'. snatch_setup_tp os i s = Some (e, s') \<and> attach_calls s' = attach_calls s @ [registration (afd s) (tp_name (tp_list s ! i))] \<and> afd s' = afd s"
proof -
  let ?r = "registration (afd s) (tp_name (tp_list s ! i))"
  obtain e where e: "fst (attach_call os ?r s) = Some e" using attach_call_parts(3) [OF assms(1)] by blast
  have f: "poke_block (ti_tp_name new_tp_info) 0 (string_in (tp_name (tp_list s ! i)) @ [NUL]) = Some (tp_name (tp_list s ! i))"
    using poke_string [OF assms(3)] by (simp add: new_tp_info_def)
  have "tp_register os (afd s) (new_tp_info\<lparr>ti_tp_name := tp_name (tp_list s ! i)\<rparr>) s = (Some e, snd (attach_call os ?r s))"
    using e by (simp add: tp_register_def registration_def prod_eq_iff)
  then show ?thesis
    using assms(2) array_string_holds [OF assms(3)] f attach_call_parts(1,2) [of os ?r s]
    by (simp add: snatch_setup_tp_def peek_in Let_def)
qed

lemma setup_all_registers:
  assumes "kernel_answers os" "\<forall>i \<in> set is. i < length (tp_list s) \<and> holds_string 64 (tp_name (tp_list s ! i))"
  shows "\<exists>s'. setup_from os is s = Some s' \<and> afd s' = afd s
    \<and> attach_calls s' = attach_calls s @ map (\<lambda>i. registration (afd s) (tp_name (tp_list s ! i))) is"
  using assms(2)
proof (induction "is" arbitrary: s)
  case (Cons i "is")
  obtain e t where t: "snatch_setup_tp os i s = Some (e, t)" "attach_calls t = attach_calls s @ [registration (afd s) (tp_name (tp_list s ! i))]" "afd t = afd s"
    using setup_registers [OF assms(1)] Cons.prems by (metis list.set_intros(1))
  have "map local_tp_info.truncate (tp_list t) = map local_tp_info.truncate (tp_list s)" using setup_keeps [OF t(1)] by (simp add: keeps_def)
  moreover have n: "tp_name x = tp_name (local_tp_info.truncate x)" for x :: active_tp by (simp add: local_tp_info.defs)
  ultimately have l: "length (tp_list t) = length (tp_list s)" and "\<And>j. j < length (tp_list s) \<Longrightarrow> tp_name (tp_list t ! j) = tp_name (tp_list s ! j)"
    by (metis length_map, metis (no_types, lifting) length_map nth_map)
  then show ?case using Cons.IH [of t] Cons.prems t by (auto simp: l)
qed simp

lemma main_registers:
  assumes "gives_text lx" "daemon_file lx default_conf ''snatchd'' ns (map (tp_xml ns) tps)" "list_all good_tp tps" "tps \<noteq> []"
    and "kernel_answers os" "\<forall>k. \<exists>fd \<ge> 0. fst (attachcall os ATTACH_OPEN k) = Some fd"
  shows "\<exists>s. snatch_main lx os v [] (fresh k c) = Some (Directing s) \<and> map local_tp_info.truncate (tp_list s) = tps
    \<and> attach_calls s = ATTACH_OPEN # map (\<lambda>t. ATTACH_TP_REGISTER (afd s)
        \<lparr>ti_tp_name = tp_name t, ti_cnv_type = 0, ti_sync_level = 0, ti_limit = 0, ti_flags = 0\<rparr>) tps"
proof -
  have r: "snatch_read_config_file lx default_conf [] = Some (0, tps)"
    using fold_tps [OF assms(1,3), of ns "[]"] assms(2)
    by (auto simp: daemon_file_def snatch_read_config_file_def daemon_file_drop simp del: fold_nodes.simps)
  define b where "b = (fresh k c)\<lparr>debug_level := 1, tp_list := map start_tp tps\<rparr>"
  have b: "debug_level b = 1" by (simp add: b_def)
  define d where "d = sig_init (event (Wrote_pid pid_file) (event (Logged (''Linux-SNA attach daemon '' @ v)) (event Daemonized b)))"
  have d: "tp_list d = map start_tp tps" "attach_calls d = []"
    by (simp_all add: d_def sig_init_def attach_calls_def b_def event_def fresh_def map_filter_simps)
  have m: "snatch_main lx os v [] (fresh k c) = map_option Directing (director_start os d)"
    unfolding snatch_main_def using r assms(4) b by (simp add: Let_def b_def [symmetric] begin_directing_def d_def)
  define d1 where "d1 = d\<lparr>self := set_groups os (c_gid (self d)) (self d)\<rparr>"
  define d2 where "d2 = snd (attach_open os d1)"
  obtain fd where fd: "fd \<ge> 0" "fst (attach_open os d1) = Some fd"
    using assms(6) fst_attach_call [of os ATTACH_OPEN d1] unfolding attach_open_def by metis
  let ?e = "d2\<lparr>afd := fd\<rparr>"
  have e: "tp_list ?e = map start_tp tps" "attach_calls ?e = [ATTACH_OPEN]"
    using d attach_call_parts(1) [of os ATTACH_OPEN d1] by (simp_all add: d2_def d1_def attach_open_def)
  have good: "\<forall>i \<in> set [0 ..< length (tp_list ?e)]. i < length (tp_list ?e) \<and> holds_string 64 (tp_name (tp_list ?e ! i))"
    using assms(3) e(1) by (auto simp: list_all_length good_tp_def start_tp_def local_tp_info.defs)
  obtain s where s: "setup_from os [0 ..< length (tp_list ?e)] ?e = Some s" "afd s = fd"
      "attach_calls s = attach_calls ?e @ map (\<lambda>i. registration fd (tp_name (tp_list ?e ! i))) [0 ..< length (tp_list ?e)]"
    using setup_all_registers [OF assms(5) good] by auto
  have ds: "director_start os d = Some s"
    using fd s(1) by (simp add: director_start_def snatch_load_tp_list_def Let_def d1_def [symmetric] d2_def prod.case_eq_if)
  have kept: "map local_tp_info.truncate (tp_list s) = tps"
    using setup_from_keeps [OF s(1)] e(1) by (simp add: keeps_def start_tp_ok comp_def)
  have "map (\<lambda>i. registration fd (tp_name (tp_list ?e ! i))) [0 ..< length (tp_list ?e)] = map (\<lambda>t. registration fd (tp_name t)) (tp_list ?e)"
    by (rule nth_equalityI) simp_all
  then have c: "attach_calls s = ATTACH_OPEN # map (\<lambda>t. registration fd (tp_name t)) (map start_tp tps)"
    unfolding s(3) e by simp
  have reg: "registration fd (tp_name (start_tp t)) = ATTACH_TP_REGISTER fd
      \<lparr>ti_tp_name = tp_name t, ti_cnv_type = 0, ti_sync_level = 0, ti_limit = 0, ti_flags = 0\<rparr>" for t
    by (simp add: registration_def new_tp_info_def start_tp_def local_tp_info.defs)
  show ?thesis
    by (rule exI [of _ s]) (simp add: m ds kept c s(2) reg comp_def)
qed

text \<open>
  C12. From a configuration file of transaction programs the daemon starts its loop with exactly these programs, and what it has told the kernel by then
  is to open the attach manager and, in the order of the file, to register each program by its name alone: the conversation type, the
  synchronisation level and the limit of the registration are zero, whatever the file says.
\<close>

theorem daemon_registers_programs:
  assumes "gives_text lx" "daemon_file lx default_conf ''snatchd'' ns (map (tp_xml ns) tps)" "list_all good_tp tps" "tps \<noteq> []"
    and "kernel_answers os" "\<forall>k. \<exists>fd \<ge> 0. fst (attachcall os ATTACH_OPEN k) = Some fd"
  shows "\<exists>s. snatch_main lx os v [] (fresh k c) = Some (Directing s) \<and> map local_tp_info.truncate (tp_list s) = tps
    \<and> attach_calls s = ATTACH_OPEN # map (\<lambda>t. ATTACH_TP_REGISTER (afd s)
        \<lparr>ti_tp_name = tp_name t, ti_cnv_type = 0, ti_sync_level = 0, ti_limit = 0, ti_flags = 0\<rparr>) tps"
  using assms by (rule main_registers)

section \<open>A concrete world\<close>

text \<open>
  A kernel whose descriptor is 3 and that numbers what is registered by its clock, a parent whose children have the numbers 100, 101 and so on, the users root and
  guest, and a listener that hears of \<^verbatim>\<open>APINGD\<close>.
\<close>

definition plain_os :: "bool \<Rightarrow> nat attach_os" where
  "plain_os may = \<lparr>
     attachcall = (\<lambda>r k. (Some (case r of ATTACH_OPEN \<Rightarrow> 3 | ATTACH_TP_REGISTER _ _ \<Rightarrow> int k | _ \<Rightarrow> 0), k + 1)),
     attach_buf = (\<lambda>b k. b\<lparr>ta_tp_name := cells 64 ''APINGD'', ta_tcb_id := of_nat k\<rparr>),
     gettimeofday = (\<lambda>k. (int k, k + 1)),
     fork = (\<lambda>k. (100 + int k, k + 1)),
     wait3 = (\<lambda>k. ([(100, 256)], k + 1)),
     getpwnam = (\<lambda>u. if u = ''root'' then Some \<lparr>pw_name = u, pw_uid = 0, pw_gid = 0\<rparr>
       else if u = ''guest'' then Some \<lparr>pw_name = u, pw_uid = 405, pw_gid = 100\<rparr> else None),
     initgroups = (\<lambda>u g. Some [g]),
     setgid_ok = (\<lambda>_ _. True), setuid_ok = (\<lambda>_ _. may), setgroups_ok = (\<lambda>_. True), exec_ok = (\<lambda>_. True)\<rparr>"

definition root_creds :: creds where
  "root_creds = \<lparr>c_uid = 0, c_gid = 0, c_groups = [0]\<rparr>"

definition guest_tp :: local_tp_info where
  "guest_tp = some_tp\<lparr>tp_user := cells 100 ''guest''\<rparr>"

definition tps_xml :: "local_tp_info list \<Rightarrow> libxml" where
  "tps_xml tps = daemon_xml [branch 0 ''node'' [], branch 0 ''snatchd'' (map (tp_xml 0) tps)]"

lemma tps_file: "daemon_file (tps_xml tps) f ''snatchd'' 0 (map (tp_xml 0) tps)"
proof -
  have "open_config (tps_xml tps) f = Inr (0, [branch 0 ''node'' [], branch 0 ''snatchd'' (map (tp_xml 0) tps)])"
    by (simp add: tps_xml_def open_config_def daemon_xml_def written_xml_def)
  then show ?thesis unfolding daemon_file_def by (intro exI [of _ "[branch 0 ''node'' []]"] exI [of _ "[]"]) simp
qed

lemma tps_text: "gives_text (tps_xml tps)"
  by (simp add: tps_xml_def daemon_xml_ok)

lemma some_good: "good_tp some_tp" "good_tp guest_tp"
  by code_simp+

lemma plain_answers: "kernel_answers (plain_os may)" "\<forall>k. \<exists>fd \<ge> 0. fst (attachcall (plain_os may) ATTACH_OPEN k) = Some fd"
  by (simp_all add: kernel_answers_def plain_os_def)

theorem daemon_registers_programs_witness:
  "\<exists>s. snatch_main (tps_xml [some_tp, guest_tp]) (plain_os True) ''1.0'' [] (fresh 0 root_creds) = Some (Directing s)
    \<and> map tp_name (tp_list s) = [cells 64 ''APINGD'', cells 64 ''APINGD''] \<and> length (attach_calls s) = 3 \<and> hd (attach_calls s) = ATTACH_OPEN"
proof -
  obtain s where s: "snatch_main (tps_xml [some_tp, guest_tp]) (plain_os True) ''1.0'' [] (fresh 0 root_creds) = Some (Directing s)"
      "map local_tp_info.truncate (tp_list s) = [some_tp, guest_tp]"
      "attach_calls s = ATTACH_OPEN # map (\<lambda>t. ATTACH_TP_REGISTER (afd s)
        \<lparr>ti_tp_name = tp_name t, ti_cnv_type = 0, ti_sync_level = 0, ti_limit = 0, ti_flags = 0\<rparr>) [some_tp, guest_tp]"
    using daemon_registers_programs [OF tps_text tps_file, of "[some_tp, guest_tp]" "plain_os True" "''1.0''" 0 root_creds] some_good plain_answers by auto
  have "map tp_name (tp_list s) = map tp_name (map local_tp_info.truncate (tp_list s))" by (simp add: local_tp_info.defs)
  then show ?thesis using s by (intro exI [of _ s]) (simp add: some_tp_def guest_tp_def)
qed

lemma plain_round:
  assumes "tp_list s = x # xs" "array_string (tp_name x) = Some ''APINGD''"
  shows "\<exists>t. director_round (plain_os True) s = Some (None, t)"
proof -
  obtain u r where u: "attach_listen (plain_os True) (afd s) no_tp_attach 0 s = (Some 0, r, u)" "tp_list u = x # xs" "ta_tp_name r = cells 64 ''APINGD''"
    using assms(1) by (simp add: attach_listen_def attach_call_def plain_os_def event_def)
  have n: "array_string (cells 64 ''APINGD'') = Some ''APINGD''" by code_simp
  have g: "snatch_tp_get_by_name (ta_tp_name r) (tp_list u) = Some (Some 0)"
    using assms(2) n u(2,3) by (simp add: snatch_tp_get_by_name_def)
  have fk: "\<exists>pid w. snatch_fork_tp (plain_os True) 0 v = Some (pid, w) \<and> tp_list w \<noteq> [] \<and> (pid > 0 \<or> pid = - 1)"
    if v: "tp_list v = x # xs" for v
  proof -
    obtain now w where w: "clock (plain_os True) x v = (now, w)" by force
    have "tp_list w = x # xs" using clock_keeps [OF w] v by simp
    moreover have "tp_name (snd (admit now x)) = tp_name x" by (simp add: admit_def Let_def)
    ultimately show ?thesis using v w assms(2)
      by (auto simp: snatch_fork_tp_def peek_def update_tp_def plain_os_def Let_def event_def snatch_debug_def)
  qed
  obtain pid w where w: "snatch_fork_tp (plain_os True) 0 (snatch_debug 5 (''launching: APINGD\<newline>'') u) = Some (pid, w)" "pid > 0 \<or> pid = - 1"
    using fk [of "snatch_debug 5 (''launching: APINGD\<newline>'') u"] u(2) by auto
  have "\<exists>t. snatch_launch (plain_os True) 0 r u = Some (None, t)"
    using w u(2) assms(2) by (auto simp: snatch_launch_def peek_def Let_def tp_correlate_def)
  then show ?thesis using u(1) g by (simp add: director_round_def)
qed

theorem daemon_keeps_programs_witness:
  "\<exists>s t. snatch_main (tps_xml [some_tp, guest_tp]) (plain_os True) ''1.0'' [] (fresh 0 root_creds) = Some (Directing s)
    \<and> director_round (plain_os True) s = Some (None, t) \<and> length (tp_list t) \<noteq> 0 \<and> snatch_tp_get_by_pid 100 (tp_list t) = None"
proof -
  obtain s where s: "snatch_main (tps_xml [some_tp, guest_tp]) (plain_os True) ''1.0'' [] (fresh 0 root_creds) = Some (Directing s)"
      "map local_tp_info.truncate (tp_list s) = [some_tp, guest_tp]"
    using main_registers [OF tps_text tps_file, of "[some_tp, guest_tp]" "plain_os True" "''1.0''" 0 root_creds] some_good plain_answers by auto
  obtain x xs where x: "tp_list s = x # xs" "local_tp_info.truncate x = some_tp" using s(2) by auto
  have "tp_name x = tp_name some_tp" using arg_cong [OF x(2), of tp_name] by (simp add: local_tp_info.defs)
  moreover have "array_string (tp_name some_tp) = Some ''APINGD''" by code_simp
  ultimately obtain t where t: "director_round (plain_os True) s = Some (None, t)" using plain_round [OF x(1)] by auto
  have "snatch_run (plain_os True) s t" by (rule snatch_run.round [OF snatch_run.start t])
  then have "tp_list t \<noteq> [] \<and> snatch_tp_get_by_pid 100 (tp_list t) = None"
    using daemon_keeps_programs [OF s(1)] by fastforce
  then show ?thesis using s(1) t by auto
qed
end
