(* ===== verification/Cpic_Session.thy ===== *)
theory Cpic_Session
  imports Asuite_Mem
begin

text \<open>
  Sessions of the small programs of the suite and the exchange of versions (\<^verbatim>\<open>libasuite/cpicsession.c\<close>). The calls of CPI-C are a
  parameter, on a state \<open>'w\<close> of the line and the other side. The second half gives the line between two programs: what
  one side sends is what the other receives.
\<close>

section \<open>The calls of CPI-C\<close>

datatype cpi_attr =
    Partner_LU_name "byte list"
  | TP_name "byte list"
  | Mode_name "byte list"
  | Sync_level int
  | Prepare_to_receive_type int
  | Send_type int
  | Deallocate_type int

datatype cpi_verb = Allocate | Deallocate | Prepare_to_receive | Confirmed

text \<open>What a receive returns beside its return code.\<close>

record received =
  rcv_what :: int
  rcv_data :: "byte list"
  rcv_status :: int

record 'w cpi =
  cpi_init :: "'w \<Rightarrow> byte list \<Rightarrow> int \<times> byte list \<times> 'w"
  cpi_set :: "'w \<Rightarrow> byte list \<Rightarrow> cpi_attr \<Rightarrow> int \<times> 'w"
  cpi_do :: "'w \<Rightarrow> byte list \<Rightarrow> cpi_verb \<Rightarrow> int \<times> 'w"
  cpi_send :: "'w \<Rightarrow> byte list \<Rightarrow> byte list \<Rightarrow> int \<times> 'w"
  cpi_receive :: "'w \<Rightarrow> byte list \<Rightarrow> nat \<Rightarrow> int \<times> received \<times> 'w"
  cpi_accept :: "'w \<Rightarrow> int \<times> byte list \<times> 'w"
  cpi_partner :: "'w \<Rightarrow> byte list \<Rightarrow> int \<times> byte list \<times> 'w"

definition CM_OK :: int where "CM_OK = 0"
definition CM_DEALLOCATED_NORMAL :: int where "CM_DEALLOCATED_NORMAL = 18"
definition CM_NO_DATA_RECEIVED :: int where "CM_NO_DATA_RECEIVED = 0"
definition CM_COMPLETE_DATA_RECEIVED :: int where "CM_COMPLETE_DATA_RECEIVED = 2"
definition CM_SEND_RECEIVED :: int where "CM_SEND_RECEIVED = 1"
definition CM_CONFIRM_RECEIVED :: int where "CM_CONFIRM_RECEIVED = 2"
definition CM_CONFIRM_DEALLOC_RECEIVED :: int where "CM_CONFIRM_DEALLOC_RECEIVED = 4"
definition CM_BUFFER_DATA :: int where "CM_BUFFER_DATA = 0"
definition CM_SEND_AND_FLUSH :: int where "CM_SEND_AND_FLUSH = 1"
definition CM_SEND_AND_CONFIRM :: int where "CM_SEND_AND_CONFIRM = 2"
definition CM_SEND_AND_PREP_TO_RECEIVE :: int where "CM_SEND_AND_PREP_TO_RECEIVE = 3"
definition CM_PREP_TO_RECEIVE_FLUSH :: int where "CM_PREP_TO_RECEIVE_FLUSH = 1"
definition CM_CONFIRM :: int where "CM_CONFIRM = 1"
definition CM_DEALLOCATE_SYNC_LEVEL :: int where "CM_DEALLOCATE_SYNC_LEVEL = 0"
definition CM_DEALLOCATE_FLUSH :: int where "CM_DEALLOCATE_FLUSH = 1"
definition CM_SECURITY_NONE :: "64 word" where "CM_SECURITY_NONE = 0"
definition CM_SECURITY_PROGRAM :: "64 word" where "CM_SECURITY_PROGRAM = 2"

section \<open>The session\<close>

text \<open>
  The character arrays of the structure lie one behind the other: the transaction program at 0 (65 characters), the mode at 65 (9), the destination at
  74 (18), the symbolic destination at 92 (9), the user at 101 (9) and the password at 110 (9). The structure comes from \<^verbatim>\<open>malloc\<close>, so nothing of it is
  written at first.
\<close>

record cpic_session =
  cs_symbolic :: "bool option"
  cs_chars :: cells
  cs_security_type :: "64 word option"

definition MAX_TP_NAME :: nat where "MAX_TP_NAME = 65"
definition MAX_SYM_DEST_NAME :: nat where "MAX_SYM_DEST_NAME = 9"
definition MAX_PLU_NAME :: nat where "MAX_PLU_NAME = 18"
definition MAX_MODE_NAME :: nat where "MAX_MODE_NAME = 9"
definition MAX_USERID :: nat where "MAX_USERID = 9"
definition MAX_PASSWORD :: nat where "MAX_PASSWORD = 9"

definition tp_name_at :: nat where "tp_name_at = 0"
definition mode_name_at :: nat where "mode_name_at = 65"
definition destination_at :: nat where "destination_at = 74"
definition sym_dest_name_at :: nat where "sym_dest_name_at = 92"
definition userid_at :: nat where "userid_at = 101"
definition password_at :: nat where "password_at = 110"

definition cpic_session_new :: "bool \<Rightarrow> cpic_session option" where
  "cpic_session_new ok = (if ok then Some \<lparr>cs_symbolic = None, cs_chars = replicate 119 None, cs_security_type = None\<rparr> else None)"

text \<open>\<^verbatim>\<open>strupr\<close> goes on to the next zero, wherever that is.\<close>

definition upper_byte :: "byte \<Rightarrow> byte" where
  "upper_byte b = (if 97 \<le> b \<and> b \<le> 122 then b - 32 else b)"

fun strupr_cells :: "cells \<Rightarrow> cells option" where
  "strupr_cells (Some b # m) = (if b = 0 then Some (Some 0 # m) else map_option ((#) (Some (upper_byte b))) (strupr_cells m))"
| "strupr_cells _ = None"

definition strupr_at :: "nat \<Rightarrow> cells \<Rightarrow> cells option" where
  "strupr_at i m = map_option (\<lambda>r. take i m @ r) (strupr_cells (drop i m))"

definition put_string :: "nat \<Rightarrow> byte list \<Rightarrow> cells \<Rightarrow> cells option" where
  "put_string i s m = poke_block m i (map Some (s @ [0]))"

definition cpic_session_set_tp_name :: "cpic_session \<Rightarrow> byte list \<Rightarrow> (int \<times> cpic_session) option" where
  "cpic_session_set_tp_name s name =
     (if length name < MAX_TP_NAME then do { m \<leftarrow> put_string tp_name_at name (cs_chars s); Some (0, s\<lparr>cs_chars := m\<rparr>) } else Some (1, s))"

definition cpic_session_set_mode_name :: "cpic_session \<Rightarrow> byte list \<Rightarrow> (int \<times> cpic_session) option" where
  "cpic_session_set_mode_name s name =
     (if length name < MAX_MODE_NAME
      then do { m \<leftarrow> put_string mode_name_at name (cs_chars s); m \<leftarrow> strupr_at mode_name_at m; Some (0, s\<lparr>cs_chars := m\<rparr>) }
      else Some (1, s))"

text \<open>The array of the symbolic destination has nine characters, so its element 9 is the first of the user.\<close>

definition cpic_session_set_symbolic_name :: "cpic_session \<Rightarrow> byte list \<Rightarrow> (int \<times> cpic_session) option" where
  "cpic_session_set_symbolic_name s name =
     (let s = s\<lparr>cs_symbolic := Some True\<rparr> in
      if length name < MAX_SYM_DEST_NAME then do {
        m \<leftarrow> poke_block (cs_chars s) sym_dest_name_at (replicate MAX_SYM_DEST_NAME (Some 0x20));
        m \<leftarrow> poke_block m sym_dest_name_at (map Some name);
        m \<leftarrow> poke m (sym_dest_name_at + MAX_SYM_DEST_NAME) (Some 0);
        m \<leftarrow> strupr_at sym_dest_name_at m;
        Some (0, s\<lparr>cs_chars := m\<rparr>)
      }
      else Some (1, s))"

definition cpic_session_set_destination :: "cpic_session \<Rightarrow> byte list \<Rightarrow> (int \<times> cpic_session) option" where
  "cpic_session_set_destination s name =
     (let s = s\<lparr>cs_symbolic := Some False\<rparr> in
      if length name < MAX_PLU_NAME then do {
        m \<leftarrow> poke_block (cs_chars s) destination_at (replicate MAX_PLU_NAME (Some 0x20));
        m \<leftarrow> put_string destination_at name m;
        m \<leftarrow> strupr_at destination_at m;
        Some (0, s\<lparr>cs_chars := m\<rparr>)
      }
      else Some (1, s))"

definition cpic_session_set_userid :: "cpic_session \<Rightarrow> byte list \<Rightarrow> (int \<times> cpic_session) option" where
  "cpic_session_set_userid s name =
     (if length name < MAX_USERID
      then do { m \<leftarrow> put_string userid_at name (cs_chars s); Some (0, s\<lparr>cs_chars := m, cs_security_type := Some CM_SECURITY_PROGRAM\<rparr>) }
      else Some (1, s))"

definition cpic_session_set_password :: "cpic_session \<Rightarrow> byte list \<Rightarrow> (int \<times> cpic_session) option" where
  "cpic_session_set_password s name =
     (if length name < MAX_PASSWORD
      then do { m \<leftarrow> put_string password_at name (cs_chars s); Some (0, s\<lparr>cs_chars := m, cs_security_type := Some CM_SECURITY_PROGRAM\<rparr>) }
      else Some (1, s))"

definition cpic_session_set_security_type :: "cpic_session \<Rightarrow> 64 word \<Rightarrow> cpic_session" where
  "cpic_session_set_security_type s security_type = s\<lparr>cs_security_type := Some security_type\<rparr>"

text \<open>A list of attributes, set until one is refused; the strings are read just before.\<close>

fun set_attrs :: "'w cpi \<Rightarrow> 'w \<Rightarrow> byte list \<Rightarrow> cpi_attr option list \<Rightarrow> (int \<times> 'w) option" where
  "set_attrs cm w cid [] = Some (CM_OK, w)"
| "set_attrs cm w cid (a # as) = do {
     a \<leftarrow> a;
     let (cm_rc, w) = cpi_set cm w cid a;
     if cm_rc \<noteq> CM_OK then Some (cm_rc, w) else set_attrs cm w cid as
   }"

text \<open>The return code of CPI-C, the conversation and the line; the function itself always returns 0.\<close>

definition cpic_session_init :: "'w cpi \<Rightarrow> 'w \<Rightarrow> cpic_session \<Rightarrow> (int \<times> byte list \<times> 'w) option" where
  "cpic_session_init cm w s = do {
     symbolic \<leftarrow> cs_symbolic s;
     if symbolic then do {
       name \<leftarrow> get_bytes (drop sym_dest_name_at (cs_chars s)) 8;
       Some (cpi_init cm w name)
     }
     else do {
       let (cm_rc, cid, w) = cpi_init cm w (replicate 8 0x20);
       if cm_rc \<noteq> CM_OK then Some (cm_rc, cid, w)
       else do {
         (cm_rc, w) \<leftarrow> set_attrs cm w cid
           [map_option Partner_LU_name (c_str (drop destination_at (cs_chars s))),
            map_option TP_name (c_str (drop tp_name_at (cs_chars s))),
            map_option Mode_name (c_str (drop mode_name_at (cs_chars s)))];
         Some (cm_rc, cid, w)
       }
     }
   }"

section \<open>The exchange of versions\<close>

definition EXCHANGE_BUFFER_SIZE :: nat where "EXCHANGE_BUFFER_SIZE = 128"
definition EXCHANGE_VERSION :: byte where "EXCHANGE_VERSION = 1"
definition EXCHANGE_OS_NAME :: byte where "EXCHANGE_OS_NAME = 2"

text \<open>\<^verbatim>\<open>"Linux"\<close>.\<close>

definition LOCAL_OS_NAME :: "byte list" where "LOCAL_OS_NAME = [0x4C, 0x69, 0x6E, 0x75, 0x78]"

record version =
  v_major :: byte
  v_minor :: byte
  v_os_name :: cells

text \<open>
  What both sides do with the data they received: the array, how many octets came, and the array for the name of the system with its
  length. A message that fills the array is ended one behind it.
\<close>

definition note_version :: "cells \<Rightarrow> nat \<Rightarrow> version \<Rightarrow> version option" where
  "note_version buf received_len v =
     (if received_len > 2 then do {
        b0 \<leftarrow> get_cell buf 0;
        if b0 = EXCHANGE_VERSION then do {
          b1 \<leftarrow> get_cell buf 1;
          b2 \<leftarrow> get_cell buf 2;
          Some (v\<lparr>v_major := b1, v_minor := b2\<rparr>)
        } else Some v
      } else Some v)"

definition note_os_name :: "cells \<Rightarrow> nat \<Rightarrow> cells \<Rightarrow> nat \<Rightarrow> cells option" where
  "note_os_name buf received_len os_name os_name_len =
     (if os_name_len > 1 then do {
        b3 \<leftarrow> (if received_len > 4 then get_cell buf 3 else Some 0);
        if received_len > 4 \<and> b3 = EXCHANGE_OS_NAME then do {
          buf \<leftarrow> (if received_len < EXCHANGE_BUFFER_SIZE then poke buf received_len (Some 0) else poke buf EXCHANGE_BUFFER_SIZE (Some 0));
          s \<leftarrow> c_str (drop 4 buf);
          put_string 0 (take (os_name_len - 1) s) os_name
        }
        else poke os_name 0 (Some 0)
      } else Some os_name)"

text \<open>The result: the value returned, the return code of CPI-C, the version of the partner, and the line.\<close>

definition get_server_version ::
  "'w cpi \<Rightarrow> 'w \<Rightarrow> byte list \<Rightarrow> byte \<Rightarrow> byte \<Rightarrow> cells \<Rightarrow> nat \<Rightarrow> (int \<times> int \<times> version \<times> 'w) option" where
  "get_server_version cm w cid client_major client_minor os_name os_name_len =
     (let v = \<lparr>v_major = 0, v_minor = 0, v_os_name = os_name\<rparr>;
          (rc, w) = cpi_set cm w cid (Prepare_to_receive_type CM_PREP_TO_RECEIVE_FLUSH)
      in if rc \<noteq> CM_OK then Some (0, rc, v, w)
      else let (rc, w) = cpi_set cm w cid (Send_type CM_BUFFER_DATA)
      in if rc \<noteq> CM_OK then Some (0, rc, v, w)
      else let (rc, w) = cpi_send cm w cid [EXCHANGE_VERSION, client_major, client_minor]
      in if rc \<noteq> CM_OK then Some (0, rc, v, w)
      else do {
        let buf = map Some [EXCHANGE_VERSION, client_major, client_minor] @ replicate (EXCHANGE_BUFFER_SIZE - 3) None;
        let (rc, r, w) = cpi_receive cm w cid EXCHANGE_BUFFER_SIZE;
        buf \<leftarrow> poke_block buf 0 (map Some (rcv_data r));
        if rc \<noteq> CM_OK then Some (0, rc, v, w)
        else if rcv_what r = CM_NO_DATA_RECEIVED then Some (1, rc, v, w)
        else do {
          v \<leftarrow> note_version buf (length (rcv_data r)) v;
          os \<leftarrow> note_os_name buf (length (rcv_data r)) os_name os_name_len;
          let v = v\<lparr>v_os_name := os\<rparr>;
          Some (if rcv_status r = CM_CONFIRM_RECEIVED then let (rc, w) = cpi_do cm w cid Confirmed in (0, rc, v, w) else (0, rc, v, w))
        }
      })"

text \<open>The answer of the server, when it was given the right to send.\<close>

definition version_answer :: "byte \<Rightarrow> byte \<Rightarrow> byte list" where
  "version_answer tp_major tp_minor =
     (if length LOCAL_OS_NAME + 5 < EXCHANGE_BUFFER_SIZE
      then [EXCHANGE_VERSION, tp_major, tp_minor, EXCHANGE_OS_NAME] @ LOCAL_OS_NAME @ [0] else [EXCHANGE_VERSION, tp_major, tp_minor])"

definition get_client_version ::
  "'w cpi \<Rightarrow> 'w \<Rightarrow> byte list \<Rightarrow> byte \<Rightarrow> byte \<Rightarrow> cells \<Rightarrow> nat \<Rightarrow> (int \<times> int \<times> version \<times> 'w) option" where
  "get_client_version cm w cid tp_major tp_minor os_name os_name_len =
     (let v = \<lparr>v_major = 0, v_minor = 0, v_os_name = os_name\<rparr>;
          (rc, w) = cpi_set cm w cid (Prepare_to_receive_type CM_PREP_TO_RECEIVE_FLUSH)
      in if rc \<noteq> CM_OK then Some (0, rc, v, w)
      else let (rc, w) = cpi_set cm w cid (Send_type CM_BUFFER_DATA)
      in if rc \<noteq> CM_OK then Some (0, rc, v, w)
      else do {
        let (rc, r, w) = cpi_receive cm w cid EXCHANGE_BUFFER_SIZE;
        buf \<leftarrow> poke_block (replicate EXCHANGE_BUFFER_SIZE None) 0 (map Some (rcv_data r));
        if rc \<noteq> CM_OK then Some (1, rc, v, w)
        else do {
          v \<leftarrow> (if rcv_what r \<noteq> CM_NO_DATA_RECEIVED then do {
              v \<leftarrow> note_version buf (length (rcv_data r)) v;
              os \<leftarrow> note_os_name buf (length (rcv_data r)) os_name os_name_len;
              Some (v\<lparr>v_os_name := os\<rparr>)
            } else Some v);
          let (rc, w) = (if rcv_status r = CM_CONFIRM_RECEIVED then cpi_do cm w cid Confirmed else (rc, w));
          if rcv_status r = CM_CONFIRM_RECEIVED \<and> rc \<noteq> CM_OK then Some (1, rc, v, w)
          else if rcv_status r = CM_SEND_RECEIVED then
            let (rc, w) = cpi_send cm w cid (version_answer tp_major tp_minor)
            in if rc \<noteq> CM_OK then Some (0, rc, v, w)
               else let (rc, w) = cpi_do cm w cid Prepare_to_receive in Some (0, rc, v, w)
          else Some (0, rc, v, w)
        }
      })"

section \<open>The line between two programs\<close>

text \<open>
  A program at one end of the line: what it will receive, what it did, and the send type it set. The calls it makes are those the other side can notice.
\<close>

datatype cpi_event = Sent int "byte list" | Turned | Did cpi_verb | Closed int

record line_script =
  incoming :: "(int \<times> received) list"
  outgoing :: "cpi_event list"
  stype :: int
  dtype :: int

definition line_end :: "byte list \<Rightarrow> line_script cpi" where
  "line_end partner = \<lparr>
     cpi_init = (\<lambda>w name. (CM_OK, [1], w)),
     cpi_set = (\<lambda>w cid a. (CM_OK, case a of Send_type t \<Rightarrow> w\<lparr>stype := t\<rparr> | Deallocate_type t \<Rightarrow> w\<lparr>dtype := t\<rparr> | _ \<Rightarrow> w)),
     cpi_do = (\<lambda>w cid v. (CM_OK, w\<lparr>outgoing := outgoing w @ [if v = Deallocate then Closed (dtype w) else Did v]\<rparr>)),
     cpi_send = (\<lambda>w cid d. (CM_OK, w\<lparr>outgoing := outgoing w @ [Sent (stype w) d]\<rparr>)),
     cpi_receive = (\<lambda>w cid n. case incoming w of
         [] \<Rightarrow> (26, \<lparr>rcv_what = CM_NO_DATA_RECEIVED, rcv_data = [], rcv_status = 0\<rparr>, w)
       | (rc, r) # rest \<Rightarrow> (rc, r, w\<lparr>incoming := rest, outgoing := outgoing w @ [Turned]\<rparr>)),
     cpi_accept = (\<lambda>w. (CM_OK, [1], w)),
     cpi_partner = (\<lambda>w cid. (CM_OK, partner, w))\<rparr>"

definition start_line :: "(int \<times> received) list \<Rightarrow> line_script" where
  "start_line i = \<lparr>incoming = i, outgoing = [], stype = CM_BUFFER_DATA, dtype = CM_DEALLOCATE_SYNC_LEVEL\<rparr>"

text \<open>
  What the other side receives: each message once, with the right to send when the sender gave it away with the message or right after it, and with a request
  for confirmation when it asked for one; the end of the conversation is a return code, or a request to confirm it where the synchronisation level is confirm.
\<close>

fun gives_turn :: "cpi_event list \<Rightarrow> bool" where
  "gives_turn (Turned # es) = True"
| "gives_turn (Did Prepare_to_receive # es) = True"
| "gives_turn _ = False"

fun deliver :: "cpi_event list \<Rightarrow> (int \<times> received) list" where
  "deliver [] = []"
| "deliver (Sent t d # es) =
     (CM_OK, \<lparr>rcv_what = CM_COMPLETE_DATA_RECEIVED, rcv_data = d,
        rcv_status = (if t = CM_SEND_AND_PREP_TO_RECEIVE \<or> gives_turn es then CM_SEND_RECEIVED
                    else if t = CM_SEND_AND_CONFIRM then CM_CONFIRM_RECEIVED else 0)\<rparr>) # deliver es"
| "deliver (Closed t # es) =
     (if t = CM_DEALLOCATE_SYNC_LEVEL then (CM_OK, \<lparr>rcv_what = CM_NO_DATA_RECEIVED, rcv_data = [], rcv_status = CM_CONFIRM_DEALLOC_RECEIVED\<rparr>)
      else (CM_DEALLOCATED_NORMAL, \<lparr>rcv_what = CM_NO_DATA_RECEIVED, rcv_data = [], rcv_status = 0\<rparr>)) # deliver es"
| "deliver (_ # es) = deliver es"

named_theorems cm_consts \<open>the numbers of CPI-C\<close>

lemmas [cm_consts] = CM_OK_def CM_DEALLOCATED_NORMAL_def CM_NO_DATA_RECEIVED_def CM_COMPLETE_DATA_RECEIVED_def CM_SEND_RECEIVED_def
  CM_CONFIRM_RECEIVED_def CM_CONFIRM_DEALLOC_RECEIVED_def CM_BUFFER_DATA_def CM_SEND_AND_FLUSH_def CM_SEND_AND_CONFIRM_def
  CM_SEND_AND_PREP_TO_RECEIVE_def CM_DEALLOCATE_SYNC_LEVEL_def CM_DEALLOCATE_FLUSH_def

lemma line_end_simps [simp]:
  "cpi_set (line_end p) w cid a = (CM_OK, case a of Send_type t \<Rightarrow> w\<lparr>stype := t\<rparr> | Deallocate_type t \<Rightarrow> w\<lparr>dtype := t\<rparr> | _ \<Rightarrow> w)"
  "cpi_do (line_end p) w cid v = (CM_OK, w\<lparr>outgoing := outgoing w @ [if v = Deallocate then Closed (dtype w) else Did v]\<rparr>)"
  "cpi_send (line_end p) w cid d = (CM_OK, w\<lparr>outgoing := outgoing w @ [Sent (stype w) d]\<rparr>)"
  "cpi_accept (line_end p) w = (CM_OK, [1], w)"
  "cpi_partner (line_end p) w cid = (CM_OK, p, w)"
  "cpi_init (line_end p) w name = (CM_OK, [1], w)"
  by (simp_all add: line_end_def)

lemma line_end_receive [simp]:
  "incoming w = (rc, r) # rest \<Longrightarrow> cpi_receive (line_end p) w cid n = (rc, r, w\<lparr>incoming := rest, outgoing := outgoing w @ [Turned]\<rparr>)"
  by (simp add: line_end_def)

section \<open>Both sides learn each other's version\<close>

lemma c_str_poke: "no_nul s \<Longrightarrow> length s < length m \<Longrightarrow> \<exists>m'. put_string 0 s m = Some m' \<and> c_str m' = Some s"
  by (auto simp: put_string_def poke_block_def)

lemma note_os_name_none: "0 < length os \<Longrightarrow> received_len \<le> 4 \<Longrightarrow> 1 < n \<Longrightarrow> note_os_name buf received_len os n = Some (os[0 := Some 0])"
  by (simp add: note_os_name_def poke_def)

lemma c_str_first_zero: "0 < length os \<Longrightarrow> c_str (os[0 := Some 0]) = Some []"
  by (cases os) auto

text \<open>The message of a client and that of a server, as the other side reads them.\<close>

lemma read_client_message:
  assumes "poke_block (replicate EXCHANGE_BUFFER_SIZE None) 0 (map Some [EXCHANGE_VERSION, a, b]) = Some buf"
  shows "note_version buf 3 v = Some (v\<lparr>v_major := a, v_minor := b\<rparr>)"
  using assms by (auto simp: poke_block_def EXCHANGE_BUFFER_SIZE_def EXCHANGE_VERSION_def note_version_def get_cell_def peek_def)

lemma version_answer_length: "length (version_answer a b) = 10"
  by (simp add: version_answer_def LOCAL_OS_NAME_def EXCHANGE_BUFFER_SIZE_def)

lemma read_server_message:
  assumes "length old = EXCHANGE_BUFFER_SIZE" "poke_block old 0 (map Some (version_answer a b)) = Some buf" "1 < n" "n \<le> length os"
  shows "note_version buf 10 v = Some (v\<lparr>v_major := a, v_minor := b\<rparr>)"
    and "\<exists>os'. note_os_name buf 10 os n = Some os' \<and> c_str os' = Some (take (n - 1) LOCAL_OS_NAME)"
proof -
  have b: "buf = map Some ([1, a, b, 2] @ LOCAL_OS_NAME @ [0]) @ drop 10 old" "length old = 128"
    using assms(1,2) by (auto simp: poke_block_def version_answer_def EXCHANGE_BUFFER_SIZE_def EXCHANGE_VERSION_def EXCHANGE_OS_NAME_def LOCAL_OS_NAME_def eval_nat_numeral)
  show "note_version buf 10 v = Some (v\<lparr>v_major := a, v_minor := b\<rparr>)"
    by (simp add: b note_version_def EXCHANGE_VERSION_def get_cell_def peek_def)
  have g: "get_cell buf 3 = Some EXCHANGE_OS_NAME" by (simp add: b get_cell_def peek_def EXCHANGE_OS_NAME_def)
  have s: "c_str (drop 4 (buf[10 := Some 0])) = Some LOCAL_OS_NAME" "length buf = 128"
    using b(2) by (simp_all add: b LOCAL_OS_NAME_def)
  have "no_nul (take (n - 1) LOCAL_OS_NAME)" "length (take (n - 1) LOCAL_OS_NAME) < length os"
    using assms(3,4) by (auto simp: no_nul_def LOCAL_OS_NAME_def dest: in_set_takeD)
  then show "\<exists>os'. note_os_name buf 10 os n = Some os' \<and> c_str os' = Some (take (n - 1) LOCAL_OS_NAME)"
    using c_str_poke assms(3) g s by (simp add: note_os_name_def poke_def EXCHANGE_BUFFER_SIZE_def)
qed

definition client_message :: "byte \<Rightarrow> byte \<Rightarrow> int \<times> received" where
  "client_message a b = (CM_OK, \<lparr>rcv_what = CM_COMPLETE_DATA_RECEIVED, rcv_data = [EXCHANGE_VERSION, a, b], rcv_status = CM_SEND_RECEIVED\<rparr>)"

definition server_message :: "byte \<Rightarrow> byte \<Rightarrow> int \<times> received" where
  "server_message a b = (CM_OK, \<lparr>rcv_what = CM_COMPLETE_DATA_RECEIVED, rcv_data = version_answer a b, rcv_status = CM_SEND_RECEIVED\<rparr>)"

lemma client_exchanges:
  assumes "incoming w = server_message a b # rest" "1 < n" "n \<le> length os"
  shows "\<exists>os'. get_server_version (line_end p) w cid c d os n = Some (CM_OK, CM_OK, \<lparr>v_major = a, v_minor = b, v_os_name = os'\<rparr>,
      w\<lparr>stype := CM_BUFFER_DATA, incoming := rest, outgoing := outgoing w @ [Sent CM_BUFFER_DATA [EXCHANGE_VERSION, c, d], Turned]\<rparr>)
    \<and> c_str os' = Some (take (n - 1) LOCAL_OS_NAME)"
proof -
  let ?old = "map Some [EXCHANGE_VERSION, c, d] @ replicate (EXCHANGE_BUFFER_SIZE - 3) None"
  have l: "length ?old = EXCHANGE_BUFFER_SIZE" by (simp add: EXCHANGE_BUFFER_SIZE_def)
  obtain buf where buf: "poke_block ?old 0 (map Some (version_answer a b)) = Some buf"
    using l by (simp add: poke_block_def version_answer_length EXCHANGE_BUFFER_SIZE_def)
  note r = read_server_message [OF l buf assms(2,3)]
  show ?thesis using r assms(1) buf
    by (auto simp: get_server_version_def server_message_def Let_def version_answer_length cm_consts)
qed

lemma server_exchanges:
  assumes "incoming w = client_message c d # rest" "0 < length os"
  shows "\<exists>os'. get_client_version (line_end p) w cid a b os n = Some (CM_OK, CM_OK, \<lparr>v_major = c, v_minor = d, v_os_name = os'\<rparr>,
      w\<lparr>stype := CM_BUFFER_DATA, incoming := rest, outgoing := outgoing w @ [Turned, Sent CM_BUFFER_DATA (version_answer a b), Did Prepare_to_receive]\<rparr>)
    \<and> os' = (if 1 < n then os[0 := Some 0] else os)"
proof -
  obtain buf where buf: "poke_block (replicate EXCHANGE_BUFFER_SIZE None) 0 (map Some [EXCHANGE_VERSION, c, d]) = Some buf"
    by (simp add: poke_block_def EXCHANGE_BUFFER_SIZE_def)
  have "note_os_name buf 3 os n = Some (if 1 < n then os[0 := Some 0] else os)"
    using assms(2) note_os_name_none [of os 3 n buf] by (simp add: note_os_name_def)
  then show ?thesis using read_client_message [OF buf] assms(1) buf
    by (auto simp: get_client_version_def client_message_def Let_def cm_consts numeral_3_eq_3)
qed

text \<open>
  C28. The exchange of versions: the two functions, at the ends of one line, agree on what is sent - each receives exactly what the other one
  sends - and both succeed. The client learns the version of the server and the name of its system, cut to the array; the server learns the version of the client, and that
  no name of a system came.
\<close>

theorem versions_exchanged:
  assumes "1 < n" "n \<le> length os_c" "1 < k" "k \<le> length os_s"
  shows "\<exists>a b vc vs c s. get_server_version (line_end p) (start_line a) cid cmaj cmin os_c n = Some (0, CM_OK, vc, c)
    \<and> get_client_version (line_end q) (start_line b) cid' tmaj tmin os_s k = Some (0, CM_OK, vs, s)
    \<and> a = deliver (outgoing s) \<and> b = deliver (outgoing c) \<and> incoming c = [] \<and> incoming s = []
    \<and> v_major vc = tmaj \<and> v_minor vc = tmin \<and> c_str (v_os_name vc) = Some (take (n - 1) LOCAL_OS_NAME)
    \<and> v_major vs = cmaj \<and> v_minor vs = cmin \<and> c_str (v_os_name vs) = Some []"
proof -
  let ?a = "[server_message tmaj tmin]" and ?b = "[client_message cmaj cmin]"
  obtain os' where c: "get_server_version (line_end p) (start_line ?a) cid cmaj cmin os_c n = Some (CM_OK, CM_OK, \<lparr>v_major = tmaj, v_minor = tmin, v_os_name = os'\<rparr>,
      (start_line ?a)\<lparr>stype := CM_BUFFER_DATA, incoming := [],
        outgoing := outgoing (start_line ?a) @ [Sent CM_BUFFER_DATA [EXCHANGE_VERSION, cmaj, cmin], Turned]\<rparr>)" "c_str os' = Some (take (n - 1) LOCAL_OS_NAME)"
    using client_exchanges [where w = "start_line ?a" and a = tmaj and b = tmin and rest = "[]" and n = n and os = os_c and p = p and cid = cid and c = cmaj and d = cmin]
      assms by (auto simp: start_line_def)
  have "0 < length os_s" using assms(3,4) by linarith
  then have ne: "os_s \<noteq> []" by simp
  have s: "get_client_version (line_end q) (start_line ?b) cid' tmaj tmin os_s k = Some (CM_OK, CM_OK, \<lparr>v_major = cmaj, v_minor = cmin, v_os_name = os_s[0 := Some 0]\<rparr>,
      (start_line ?b)\<lparr>stype := CM_BUFFER_DATA, incoming := [],
        outgoing := outgoing (start_line ?b) @ [Turned, Sent CM_BUFFER_DATA (version_answer tmaj tmin), Did Prepare_to_receive]\<rparr>)"
    using server_exchanges [of "start_line ?b" cmaj cmin "[]" os_s q cid' tmaj tmin k] ne assms by (auto simp: start_line_def)
  have "c_str (os_s[0 := Some 0]) = Some []" using ne by (intro c_str_first_zero) simp
  then show ?thesis using c s
    by (intro exI [of _ ?a] exI [of _ ?b] exI conjI) (auto simp: start_line_def server_message_def client_message_def cm_consts)
qed

theorem versions_exchanged_witness:
  "\<exists>a b vc vs c s. get_server_version (line_end []) (start_line a) [1] 2 40 (replicate 64 None) 64 = Some (0, CM_OK, vc, c)
    \<and> get_client_version (line_end []) (start_line b) [1] 2 37 (replicate 64 None) 64 = Some (0, CM_OK, vs, s)
    \<and> v_minor vc = 37 \<and> c_str (v_os_name vc) = Some LOCAL_OS_NAME \<and> v_minor vs = 40"
proof -
  have "take (64 - 1) LOCAL_OS_NAME = LOCAL_OS_NAME" by (simp add: LOCAL_OS_NAME_def)
  then show ?thesis
    using versions_exchanged [of 64 "replicate 64 None" 64 "replicate 64 None" "[]" "[1]" 2 40 "[]" "[1]" 2 37] by simp blast
qed

section \<open>The user behind the symbolic destination\<close>

definition user_of :: "cpic_session \<Rightarrow> byte list option" where
  "user_of s = c_str (drop userid_at (cs_chars s))"

definition wf_cpic_session :: "cpic_session \<Rightarrow> bool" where
  "wf_cpic_session s \<longleftrightarrow> length (cs_chars s) = 119"

lemma strupr_cells_string: "no_nul s \<Longrightarrow> strupr_cells (map Some s @ Some 0 # m) = Some (map Some (map upper_byte s) @ Some 0 # m)"
  by (induction s) auto

lemma set_userid_user:
  assumes "wf_cpic_session s" "no_nul u" "length u \<le> 8"
  shows "\<exists>s'. cpic_session_set_userid s u = Some (0, s') \<and> wf_cpic_session s' \<and> user_of s' = Some u
    \<and> take userid_at (cs_chars s') = take userid_at (cs_chars s) \<and> cs_symbolic s' = cs_symbolic s"
  using assms by (auto simp: cpic_session_set_userid_def MAX_USERID_def put_string_def poke_block_def wf_cpic_session_def userid_at_def user_of_def)

lemma set_symbolic_form:
  assumes "wf_cpic_session s" "no_nul d" "length d \<le> 8"
  shows "\<exists>m'. cpic_session_set_symbolic_name s d = Some (0, s\<lparr>cs_symbolic := Some True, cs_chars := m'\<rparr>) \<and> length m' = 119
    \<and> take 101 m' = take 92 (cs_chars s) @ map Some (map upper_byte (d @ replicate (9 - length d) 0x20)) \<and> drop 101 m' = Some 0 # drop 102 (cs_chars s)"
proof -
  let ?m = "cs_chars s" and ?d = "d @ replicate (9 - length d) 0x20"
  have l: "length ?m = 119" using assms(1) by (simp add: wf_cpic_session_def)
  have d: "length ?d = 9" "no_nul ?d" using assms(2,3) by (auto simp: no_nul_def)
  define m1 where "m1 = take 92 ?m @ replicate 9 (Some 0x20) @ drop 101 ?m"
  have m1: "poke_block ?m sym_dest_name_at (replicate MAX_SYM_DEST_NAME (Some 0x20)) = Some m1"
    using l by (simp add: poke_block_def sym_dest_name_at_def MAX_SYM_DEST_NAME_def m1_def)
  define m2 where "m2 = take 92 ?m @ map Some ?d @ drop 101 ?m"
  have "drop (92 + length d) m1 = replicate (9 - length d) (Some 0x20) @ drop 101 ?m"
    using l assms(3) by (simp add: m1_def drop_replicate)
  then have m2: "poke_block m1 sym_dest_name_at (map Some d) = Some m2"
    using l assms(3) by (simp add: poke_block_def sym_dest_name_at_def m1_def m2_def)
  have m3: "poke m2 (sym_dest_name_at + MAX_SYM_DEST_NAME) (Some 0) = Some (take 92 ?m @ map Some ?d @ Some 0 # drop 102 ?m)"
    using l d(1) by (simp add: poke_def m2_def sym_dest_name_at_def MAX_SYM_DEST_NAME_def list_update_append upd_conv_take_nth_drop drop_Suc [symmetric])
  have "strupr_at sym_dest_name_at (take 92 ?m @ map Some ?d @ Some 0 # drop 102 ?m) =
      Some (take 92 ?m @ map Some (map upper_byte ?d) @ Some 0 # drop 102 ?m)"
    using l strupr_cells_string [OF d(2)] by (simp add: strupr_at_def sym_dest_name_at_def)
  then show ?thesis using assms(3) l d(1) m1 m2 m3
    by (intro exI [of _ "take 92 ?m @ map Some (map upper_byte ?d) @ Some 0 # drop 102 ?m"])
      (simp add: cpic_session_set_symbolic_name_def MAX_SYM_DEST_NAME_def Let_def)
qed

text \<open>
  A user that was set before the symbolic destination is gone: setting the destination ends its array one element too late, which is the first
  character of the user. In the other order both stay: the destination, in upper case and filled with blanks, and the user.
\<close>

theorem symbolic_name_erases_user:
  assumes "wf_cpic_session s" "no_nul u" "length u \<le> 8" "no_nul d" "length d \<le> 8"
  shows "(\<exists>s1 s2. cpic_session_set_userid s u = Some (0, s1) \<and> cpic_session_set_symbolic_name s1 d = Some (0, s2) \<and> user_of s2 = Some [])
    \<and> (\<exists>s1 s2. cpic_session_set_symbolic_name s d = Some (0, s1) \<and> cpic_session_set_userid s1 u = Some (0, s2) \<and> user_of s2 = Some u
        \<and> cs_symbolic s2 = Some True \<and> get_bytes (drop sym_dest_name_at (cs_chars s2)) 8 = Some (map upper_byte (d @ replicate (8 - length d) 0x20)))"
proof
  obtain s1 where s1: "cpic_session_set_userid s u = Some (0, s1)" "wf_cpic_session s1" using set_userid_user [OF assms(1-3)] by blast
  obtain m where m: "cpic_session_set_symbolic_name s1 d = Some (0, s1\<lparr>cs_symbolic := Some True, cs_chars := m\<rparr>)" "drop 101 m = Some 0 # drop 102 (cs_chars s1)"
    using set_symbolic_form [OF s1(2) assms(4,5)] by blast
  show "\<exists>s1 s2. cpic_session_set_userid s u = Some (0, s1) \<and> cpic_session_set_symbolic_name s1 d = Some (0, s2) \<and> user_of s2 = Some []"
    by (rule exI [of _ s1], rule exI [of _ "s1\<lparr>cs_symbolic := Some True, cs_chars := m\<rparr>"]) (use s1 m in \<open>simp add: user_of_def userid_at_def\<close>)
next
  obtain m where m: "cpic_session_set_symbolic_name s d = Some (0, s\<lparr>cs_symbolic := Some True, cs_chars := m\<rparr>)" "length m = 119"
      "take 101 m = take 92 (cs_chars s) @ map Some (map upper_byte (d @ replicate (9 - length d) 0x20))"
    using set_symbolic_form [OF assms(1,4,5)] by blast
  let ?s1 = "s\<lparr>cs_symbolic := Some True, cs_chars := m\<rparr>"
  have "wf_cpic_session ?s1" using m(2) by (simp add: wf_cpic_session_def)
  then obtain s2 where s2: "cpic_session_set_userid ?s1 u = Some (0, s2)" "wf_cpic_session s2" "user_of s2 = Some u"
      "take userid_at (cs_chars s2) = take userid_at m" "cs_symbolic s2 = Some True"
    using set_userid_user [of ?s1 u] assms(2,3) by auto
  have l: "length (cs_chars s) = 119" using assms(1) by (simp add: wf_cpic_session_def)
  have "take 8 (drop 92 (cs_chars s2)) = take 8 (drop 92 (take 101 (cs_chars s2)))" by (simp add: take_drop)
  also have "\<dots> = take 8 (map Some (map upper_byte (d @ replicate (9 - length d) 0x20)))"
    using s2(4) m(3) l by (simp add: userid_at_def)
  also have "\<dots> = map Some (map upper_byte (d @ replicate (8 - length d) 0x20))"
    using assms(5) by (simp add: take_map take_Cons' min_def)
  finally have "get_bytes (drop sym_dest_name_at (cs_chars s2)) 8 = Some (map upper_byte (d @ replicate (8 - length d) 0x20))"
    using s2(2) assms(5) by (simp add: get_bytes_iff sym_dest_name_at_def)
  then show "\<exists>s1 s2. cpic_session_set_symbolic_name s d = Some (0, s1) \<and> cpic_session_set_userid s1 u = Some (0, s2) \<and> user_of s2 = Some u
      \<and> cs_symbolic s2 = Some True \<and> get_bytes (drop sym_dest_name_at (cs_chars s2)) 8 = Some (map upper_byte (d @ replicate (8 - length d) 0x20))"
    using m(1) s2 by blast
qed

theorem symbolic_name_erases_user_witness:
  "(\<exists>s s1 s2. cpic_session_new True = Some s \<and> cpic_session_set_userid s [0x6A, 0x6F, 0x65] = Some (0, s1)
      \<and> cpic_session_set_symbolic_name s1 [0x61, 0x70] = Some (0, s2) \<and> user_of s2 = Some [])"
proof -
  have "wf_cpic_session \<lparr>cs_symbolic = None, cs_chars = replicate 119 None, cs_security_type = None\<rparr>" by (simp add: wf_cpic_session_def)
  from symbolic_name_erases_user [OF this, of "[0x6A, 0x6F, 0x65]" "[0x61, 0x70]"] show ?thesis
    by (auto simp: cpic_session_new_def)
qed
end
