(* ===== verification/Aping.thy ===== *)
theory Aping
  imports Cpic_Session Sna_Xml
begin

text \<open>
  The ping of the suite, client (\<^verbatim>\<open>asuite/aping.c\<close>) and server (\<^verbatim>\<open>asuite/apingd.c\<close>), over the calls of CPI-C. The clock is a parameter: the
  milliseconds of its readings, in order. Integer overflow and a division by zero are faults, \<^term>\<open>None\<close>; a loop that does not end is \<^term>\<open>None\<close> as well.
\<close>

section \<open>Numbers\<close>

type_synonym u64 = "64 word"

definition fits_width :: "nat \<Rightarrow> int \<Rightarrow> int option" where
  "fits_width w v = (if - (2 ^ (w - 1)) \<le> v \<and> v < 2 ^ (w - 1) then Some v else None)"

definition mul_int :: "int \<Rightarrow> int \<Rightarrow> int option" where
  "mul_int a b = fits_width 32 (a * b)"

definition mul_long :: "int \<Rightarrow> int \<Rightarrow> int option" where
  "mul_long a b = fits_width 64 (a * b)"

text \<open>Division of the C language rounds towards zero.\<close>

definition div_c :: "int \<Rightarrow> int \<Rightarrow> int" where
  "div_c a b = sgn a * sgn b * (\<bar>a\<bar> div \<bar>b\<bar>)"

definition div_u64 :: "u64 \<Rightarrow> u64 \<Rightarrow> u64 option" where
  "div_u64 a b = (if b = 0 then None else Some (a div b))"

definition field :: "nat \<Rightarrow> string \<Rightarrow> string" where
  "field w s = replicate (w - length s) CHR '' '' @ s"

definition show_u64 :: "u64 \<Rightarrow> string" where
  "show_u64 v = show_int (uint v)"

text \<open>The rate and the rate in bits, a \<^verbatim>\<open>double\<close> that holds an integer, with one and with three decimals.\<close>

definition show_rate :: "u64 \<Rightarrow> string list" where
  "show_rate rate =
     (let bits = unat rate * 8 in
      [field 17 (digits10 (unat rate) @ ''.0''),
       field 17 (digits10 (bits div 1000) @ ''.'' @ hex_digits (bits mod 1000 div 100) @ hex_digits (bits mod 100 div 10) @ hex_digits (bits mod 10)) @ ''\<newline>''])"

definition text_of :: "byte list \<Rightarrow> string" where
  "text_of = map (\<lambda>b. char_of (unat b))"

section \<open>The client\<close>

record aping =
  datalen :: int
  iterations :: int
  concurrent :: int
  one_way :: int
  pingsession :: cpic_session

record 'w ping =
  pline :: 'w
  ticks :: nat
  sendbuf :: "byte list"
  stdout :: "string list"
  stderr :: "string list"
  total_time :: u64
  min_time :: u64
  max_time :: u64

text \<open>A program that goes on, or that left with a status.\<close>

type_synonym ('a, 's) run = "(int \<times> 's) + ('a \<times> 's)"

definition say :: "string \<Rightarrow> 'w ping \<Rightarrow> 'w ping" where
  "say s p = p\<lparr>stdout := stdout p @ [s]\<rparr>"

definition fail_with :: "string \<Rightarrow> 'w ping \<Rightarrow> ('a, 'w ping) run" where
  "fail_with s p = Inl (1, p\<lparr>stderr := stderr p @ [s]\<rparr>)"

text \<open>A call of CPI-C, the message when it fails, and what comes after it.\<close>

definition check_call :: "int \<times> 'w \<Rightarrow> (int \<Rightarrow> string) \<Rightarrow> 'w ping \<Rightarrow> ('w ping \<Rightarrow> ('a, 'w ping) run option) \<Rightarrow> ('a, 'w ping) run option" where
  "check_call c msg p k = (if fst c \<noteq> CM_OK then Some (fail_with (msg (fst c)) (p\<lparr>pline := snd c\<rparr>)) else k (p\<lparr>pline := snd c\<rparr>))"

definition with_rc :: "string \<Rightarrow> int \<Rightarrow> string" where
  "with_rc s rc = s @ show_int rc @ ''\<newline>''"

definition get_time :: "(nat \<Rightarrow> u64) \<Rightarrow> 'w ping \<Rightarrow> u64 \<times> 'w ping" where
  "get_time clock p = (clock (ticks p), p\<lparr>ticks := ticks p + 1\<rparr>)"

definition print_header :: string where
  "print_header =
     ''        Duration        Data Sent        Data Rate        Data Rate\<newline>'' @ ''        (msec)          (bytes)          (KB/s)           (Mb/s)   \<newline>''
     @ ''        --------        ---------        ---------        ---------\<newline>''"

subsection \<open>One transaction\<close>

fun send_pings :: "'w cpi \<Rightarrow> byte list \<Rightarrow> nat \<Rightarrow> 'w ping \<Rightarrow> (unit, 'w ping) run option" where
  "send_pings cm cid 0 p = Some (Inr ((), p))"
| "send_pings cm cid (Suc n) p = check_call (cpi_send cm (pline p) cid (sendbuf p)) (with_rc ''Failed send: '') p (send_pings cm cid n)"

text \<open>The data received goes over the data that is sent.\<close>

partial_function (option) receive_echo :: "'w cpi \<Rightarrow> byte list \<Rightarrow> int \<Rightarrow> 'w ping \<Rightarrow> (int, 'w ping) run option" where
  "receive_echo cm cid curr_concurrent p =
     (let (rc, r, w) = cpi_receive cm (pline p) cid (length (sendbuf p)); p = p\<lparr>pline := w\<rparr> in do {
       buf \<leftarrow> poke_block (sendbuf p) 0 (rcv_data r);
       let p = p\<lparr>sendbuf := buf\<rparr>;
       if rc \<noteq> CM_OK then Some (fail_with (with_rc ''Failed recieve: '' rc) p)
       else let left = (if rcv_what r \<noteq> CM_NO_DATA_RECEIVED then curr_concurrent - 1 else curr_concurrent) in
            if rcv_status r \<noteq> CM_SEND_RECEIVED then receive_echo cm cid left p else Some (Inr (left, p))
     })"

definition missing_records :: string where
  "missing_records = ''ERROR:  Partner did not send the expected number of records.\<newline>''"

definition print_rate :: "int \<Rightarrow> int \<Rightarrow> u64 \<Rightarrow> 'w ping \<Rightarrow> 'w ping option" where
  "print_rate dc ways elapsed_time p =
     (if elapsed_time \<noteq> 0 then do {
        k \<leftarrow> mul_int (div_c dc 1024) 1000;
        k \<leftarrow> mul_int k ways;
        q \<leftarrow> div_u64 (word_of_int k) (elapsed_time div 10);
        Some (fold say (show_rate (q div 10)) p)
      } else Some (say ''\<newline>'' p))"

definition round_stats :: "aping \<Rightarrow> u64 \<Rightarrow> 'w ping \<Rightarrow> 'w ping option" where
  "round_stats a elapsed_time p = do {
     dc \<leftarrow> mul_int (datalen a) (concurrent a);
     sent \<leftarrow> mul_int dc (one_way a);
     let p = say (field 17 (show_int (uint (word_of_int sent :: u32)))) (say (field 16 (show_int (sint elapsed_time))) p);
     p \<leftarrow> print_rate dc (one_way a) elapsed_time p;
     Some (p\<lparr>total_time := total_time p + elapsed_time, max_time := max (max_time p) elapsed_time, min_time := min (min_time p) elapsed_time\<rparr>)
   }"

definition ping_round :: "'w cpi \<Rightarrow> (nat \<Rightarrow> u64) \<Rightarrow> byte list \<Rightarrow> aping \<Rightarrow> 'w ping \<Rightarrow> (unit, 'w ping) run option" where
  "ping_round cm clock cid a p =
     check_call (cpi_set cm (pline p) cid (Send_type CM_BUFFER_DATA)) (with_rc ''Failed send: '') p (\<lambda>p.
     let (start_time, p) = get_time clock p in do {
       r \<leftarrow> send_pings cm cid (nat (concurrent a - 1)) p;
       case r of Inl e \<Rightarrow> Some (Inl e) | Inr (_, p) \<Rightarrow>
       check_call (cpi_set cm (pline p) cid (Send_type (if one_way a \<noteq> 1 then CM_SEND_AND_PREP_TO_RECEIVE else CM_SEND_AND_CONFIRM)))
         (with_rc ''Failed set send type: '') p (\<lambda>p.
       check_call (cpi_send cm (pline p) cid (sendbuf p)) (with_rc ''Failed send: '') p (\<lambda>p. do {
         r \<leftarrow> (if one_way a \<noteq> 1 then receive_echo cm cid (max 1 (concurrent a)) p else Some (Inr (0, p)));
         case r of Inl e \<Rightarrow> Some (Inl e) | Inr (left, p) \<Rightarrow> do {
           let p = (if one_way a \<noteq> 1 \<and> left \<noteq> 0 then say missing_records p else p);
           let (end_time, p) = get_time clock p;
           p \<leftarrow> round_stats a (end_time - start_time) p;
           Some (Inr ((), p))
         }
       }))
     })"

fun ping_rounds :: "'w cpi \<Rightarrow> (nat \<Rightarrow> u64) \<Rightarrow> byte list \<Rightarrow> aping \<Rightarrow> nat \<Rightarrow> 'w ping \<Rightarrow> (unit, 'w ping) run option" where
  "ping_rounds cm clock cid a 0 p = Some (Inr ((), p))"
| "ping_rounds cm clock cid a (Suc n) p = do {
     r \<leftarrow> ping_round cm clock cid a p;
     case r of Inl e \<Rightarrow> Some (Inl e) | Inr (_, p) \<Rightarrow> ping_rounds cm clock cid a n p
   }"

text \<open>The totals at the end.\<close>

definition print_totals :: "aping \<Rightarrow> 'w ping \<Rightarrow> 'w ping option" where
  "print_totals a p = do {
     let n = max 0 (iterations a);
     dc \<leftarrow> mul_int (datalen a) (concurrent a);
     sent \<leftarrow> mul_long dc n;
     sent \<leftarrow> mul_long sent (one_way a);
     let sent = show_u64 (word_of_int sent);
     p \<leftarrow> (if total_time p > 10 then do {
         k \<leftarrow> mul_long (div_c dc 1024) n;
         k \<leftarrow> mul_long k 1000;
         k \<leftarrow> mul_long k (one_way a);
         q \<leftarrow> div_u64 (word_of_int k) (total_time p div 10);
         Some (fold say (show_rate (q div 10)) (say (field 17 sent) (say (''Totals:'' @ field 9 (show_u64 (total_time p))) p)))
       } else Some (say (field 17 sent @ ''\<newline>'') (say (''Totals:'' @ field 9 (show_u64 (total_time p))) p)));
     Some (if n > 0
       then say (''Duration statistics:  Min = '' @ show_u64 (min_time p) @ ''   Avg = '' @ show_u64 (total_time p div word_of_int n)
         @ ''   Max = '' @ show_u64 (max_time p) @ ''\<newline>'') p
       else p)
   }"

subsection \<open>The arguments\<close>

definition MAXPACKET :: int where "MAXPACKET = 32763"

definition ping_usage :: string where
  "ping_usage = ''usage: aping [-v] [-1] [-c count] [-i iterations] [-s size] [-t tp_name] \<newline>'' @ [CHR 0x09] @ ''[-m mode_name]  destination\<newline>''"

text \<open>
  One option. \<^verbatim>\<open>getopt\<close> delivers no argument for \<open>p\<close>, whose letter has no colon behind it in the list of options: the password is then read through a null
  pointer. The result of a setter is not looked at.
\<close>

definition set_with :: "(cpic_session \<Rightarrow> byte list \<Rightarrow> (int \<times> cpic_session) option) \<Rightarrow> byte list option \<Rightarrow> cpic_session \<Rightarrow> cpic_session option" where
  "set_with f arg s = do { x \<leftarrow> arg; r \<leftarrow> f s x; Some (snd r) }"

definition ping_number :: "byte list option \<Rightarrow> int option" where
  "ping_number arg = map_option (\<lambda>x. atoi (text_of x)) arg"

definition ping_option :: "string \<Rightarrow> char \<times> byte list option \<Rightarrow> aping \<Rightarrow> 'w ping \<Rightarrow> ((int \<times> 'w ping) + aping) option" where
  "ping_option version_s opt a p =
     (let (ch, optarg) = opt;
          session = (\<lambda>f. map_option (\<lambda>s. Inr (a\<lparr>pingsession := s\<rparr>)) (f (pingsession a)));
          fail = (\<lambda>s. Inl (1, p\<lparr>stderr := stderr p @ [s]\<rparr>))
      in if ch = CHR ''v'' then Some (Inl (0, say (''aping v'' @ version_s @ ''\<newline>Jay Schulist <jschlst@linux-sna.org>\<newline>'') p))
         else if ch = CHR ''f'' then Some (Inr a)
         else if ch = CHR ''m'' then session (set_with cpic_session_set_mode_name optarg)
         else if ch = CHR ''t'' then session (set_with cpic_session_set_tp_name optarg)
         else if ch = CHR ''u'' then session (set_with cpic_session_set_userid optarg)
         else if ch = CHR ''p'' then session (set_with cpic_session_set_password optarg)
         else if ch = CHR ''n'' then Some (Inr (a\<lparr>pingsession := cpic_session_set_security_type (pingsession a) CM_SECURITY_NONE\<rparr>))
         else if ch = CHR ''s'' then do {
           v \<leftarrow> ping_number optarg;
           Some (if v > MAXPACKET then fail ''aping: packet size too large.\<newline>''
                 else if v \<le> 0 then fail ''aping: illegal packet size.\<newline>'' else Inr (a\<lparr>datalen := v\<rparr>))
         }
         else if ch = CHR ''i'' then do { v \<leftarrow> ping_number optarg; Some (Inr (a\<lparr>iterations := v\<rparr>)) }
         else if ch = CHR ''c'' then do { v \<leftarrow> ping_number optarg; Some (Inr (a\<lparr>concurrent := v\<rparr>)) }
         else if ch = CHR ''1'' then Some (Inr (a\<lparr>one_way := 1\<rparr>))
         else Some (fail ping_usage))"

fun ping_options :: "string \<Rightarrow> (char \<times> byte list option) list \<Rightarrow> aping \<Rightarrow> 'w ping \<Rightarrow> ((int \<times> 'w ping) + aping) option" where
  "ping_options version_s [] a p = Some (Inr a)"
| "ping_options version_s (opt # opts) a p = do {
     r \<leftarrow> ping_option version_s opt a p;
     case r of Inl e \<Rightarrow> Some (Inl e) | Inr a \<Rightarrow> ping_options version_s opts a p
   }"

definition process_arguments ::
  "string \<Rightarrow> (char \<times> byte list option) list \<Rightarrow> byte list list \<Rightarrow> aping \<Rightarrow> 'w ping \<Rightarrow> ((int \<times> 'w ping) + aping) option" where
  "process_arguments version_s opts argv a p = do {
     r \<leftarrow> ping_options version_s opts a p;
     case r of
       Inl e \<Rightarrow> Some (Inl e)
     | Inr a \<Rightarrow>
         (case argv of
            [name] \<Rightarrow> do {
              s \<leftarrow> (if 0x2E \<in> set name then cpic_session_set_destination (pingsession a) name else cpic_session_set_symbolic_name (pingsession a) name);
              Some (Inr (a\<lparr>pingsession := snd s\<rparr>))
            }
          | _ \<Rightarrow> Some (Inl (1, p\<lparr>stderr := stderr p @ [ping_usage]\<rparr>)))
   }"

text \<open>
  \<^verbatim>\<open>do_aping\<close>: the exit status and what was printed. The two allocations are parameters, and so is the version of the tools.
\<close>

definition PING_MAJOR :: byte where "PING_MAJOR = 2"
definition PING_MINOR :: byte where "PING_MINOR = 40"

definition default_aping :: "cpic_session \<Rightarrow> aping" where
  "default_aping s = \<lparr>datalen = 100, iterations = 2, concurrent = 1, one_way = 2, pingsession = s\<rparr>"

text \<open>\<^verbatim>\<open>APINGD\<close>, \<^verbatim>\<open>#INTER\<close> and \<^verbatim>\<open>APING\<close> with three blanks.\<close>

definition ping_tp :: "byte list" where "ping_tp = [0x41, 0x50, 0x49, 0x4E, 0x47, 0x44]"
definition ping_mode :: "byte list" where "ping_mode = [0x23, 0x49, 0x4E, 0x54, 0x45, 0x52]"
definition ping_dest :: "byte list" where "ping_dest = [0x41, 0x50, 0x49, 0x4E, 0x47, 0x20, 0x20, 0x20]"

definition ping_session :: "bool \<Rightarrow> cpic_session option" where
  "ping_session ok = do {
     s \<leftarrow> cpic_session_new ok;
     s \<leftarrow> set_with cpic_session_set_tp_name (Some ping_tp) s;
     s \<leftarrow> set_with cpic_session_set_mode_name (Some ping_mode) s;
     set_with cpic_session_set_symbolic_name (Some ping_dest) s
   }"

definition start_ping :: "'w \<Rightarrow> 'w ping" where
  "start_ping w = \<lparr>pline = w, ticks = 0, sendbuf = [], stdout = [], stderr = [], total_time = 0, min_time = 0xFFFFFFFF, max_time = 0\<rparr>"

text \<open>Everything from the conversation on, with the arguments processed.\<close>

definition transactions :: "'w cpi \<Rightarrow> (nat \<Rightarrow> u64) \<Rightarrow> byte list \<Rightarrow> aping \<Rightarrow> 'w ping \<Rightarrow> (unit, 'w ping) run option" where
  "transactions cm clock cid a p = do {
     r \<leftarrow> ping_rounds cm clock cid a (nat (iterations a)) p;
     case r of Inl e \<Rightarrow> Some (Inl e) | Inr (_, p) \<Rightarrow>
     check_call (cpi_set cm (pline p) cid (Deallocate_type CM_DEALLOCATE_FLUSH)) (with_rc ''Failed set deallocate type: '') p (\<lambda>p.
     check_call (cpi_do cm (pline p) cid Deallocate) (with_rc ''Failed deallocate: '') p (\<lambda>p. do {
       p \<leftarrow> print_totals a p;
       Some (Inl (0, p))
     }))
   }"

text \<open>With the version of the partner: an old one does not know about one-way data.\<close>

definition know_partner :: "'w cpi \<Rightarrow> (nat \<Rightarrow> u64) \<Rightarrow> byte list \<Rightarrow> aping \<Rightarrow> u64 \<Rightarrow> version \<Rightarrow> 'w ping \<Rightarrow> (unit, 'w ping) run option" where
  "know_partner cm clock cid a start_time v p = do {
     let (end_time, p) = get_time clock p;
     os_name \<leftarrow> c_str (v_os_name v);
     let p = (if os_name \<noteq> [] then say (''Connected to a partner running on: '' @ text_of os_name @ ''\<newline>\<newline>'') p else p);
     let old = (one_way a = 1 \<and> \<not> (sint (v_major v) > 2 \<or> sint (v_major v) = 2 \<and> sint (v_minor v) \<ge> 2));
     let p = (if old then say ''One way data transfer is not supported by partner.\<newline>Partner will echo data.\<newline>'' p else p);
     let a = (if old then a\<lparr>one_way := 2\<rparr> else a);
     transactions cm clock cid a
       (say print_header (say (''Program startup and Confirm duration: '' @ field 8 (show_u64 (end_time - start_time)) @ ''\<newline>\<newline>'') p))
   }"

definition ping_converse :: "'w cpi \<Rightarrow> (nat \<Rightarrow> u64) \<Rightarrow> byte list \<Rightarrow> aping \<Rightarrow> 'w ping \<Rightarrow> (unit, 'w ping) run option" where
  "ping_converse cm clock cid a p =
     check_call (cpi_set cm (pline p) cid (Sync_level CM_CONFIRM)) (\<lambda>rc. ''aping: failed set sync level: '' @ show_int rc) p (\<lambda>p.
     check_call (cpi_set cm (pline p) cid (Prepare_to_receive_type CM_PREP_TO_RECEIVE_FLUSH)) (with_rc ''Failed prepare to recieve set: '') p (\<lambda>p.
     let (start_time, p) = get_time clock p; c = cpi_do cm (pline p) cid Allocate; (end_time, p) = get_time clock (p\<lparr>pline := snd c\<rparr>) in
     check_call c (with_rc ''Failed to allocate: '') p (\<lambda>p.
     let p = say (''Allocate duration: '' @ field 8 (show_u64 (end_time - start_time)) @ ''\<newline>\<newline>'') p; (start_time, p) = get_time clock p in do {
       (ret, rc, v, w) \<leftarrow> get_server_version cm (pline p) cid PING_MAJOR PING_MINOR (replicate 64 None) 64;
       let p = p\<lparr>pline := w\<rparr>;
       if rc \<noteq> CM_OK then Some (fail_with (with_rc ''Could not get version of aping TP: '' rc) p)
       else know_partner cm clock cid a start_time v p
     })))"

definition do_aping ::
  "'w cpi \<Rightarrow> (nat \<Rightarrow> u64) \<Rightarrow> bool \<times> bool \<Rightarrow> string \<Rightarrow> (char \<times> byte list option) list \<Rightarrow> byte list list \<Rightarrow> 'w \<Rightarrow> (int \<times> 'w ping) option" where
  "do_aping cm clock mem version_s opts argv w = do {
     s \<leftarrow> ping_session (fst mem);
     r \<leftarrow> process_arguments version_s opts argv (default_aping s) (start_ping w);
     case r of
       Inl e \<Rightarrow> Some e
     | Inr a \<Rightarrow>
         let p = (start_ping w)\<lparr>sendbuf := replicate (nat (datalen a)) 0\<rparr>
         in if \<not> snd mem then Some (1, p\<lparr>stderr := [''aping: out of memory.\<newline>'']\<rparr>)
            else do {
              (rc, cid, w) \<leftarrow> cpic_session_init cm (pline p) (pingsession a);
              let p = p\<lparr>pline := w\<rparr>;
              r \<leftarrow> (if rc \<noteq> CM_OK then Some (fail_with (with_rc ''aping: failed session initialization: '' rc) p) else ping_converse cm clock cid a p);
              Some (case r of Inl e \<Rightarrow> e | Inr (_, p) \<Rightarrow> (0, p))
            }
   }"

section \<open>The server\<close>

record 'w pingd =
  dline :: 'w
  syslog :: "string list"
  dbuffer :: cells

definition dlog :: "string \<Rightarrow> 'w pingd \<Rightarrow> 'w pingd" where
  "dlog s d = d\<lparr>syslog := syslog d @ [s]\<rparr>"

lemma dlog_fields [simp]: "dline (dlog t d) = dline d" "dbuffer (dlog t d) = dbuffer d" "(dlog t d)\<lparr>dline := w\<rparr> = dlog t (d\<lparr>dline := w\<rparr>)"
  by (simp_all add: dlog_def)

definition d_fail :: "string \<Rightarrow> 'w pingd \<Rightarrow> int \<times> 'w pingd" where
  "d_fail s d = (1, dlog s d)"

definition d_call :: "int \<times> 'w \<Rightarrow> string \<Rightarrow> 'w pingd \<Rightarrow> ('w pingd \<Rightarrow> ((int \<times> 'w pingd) + 'w pingd) option) \<Rightarrow> ((int \<times> 'w pingd) + 'w pingd) option" where
  "d_call c msg d k = (if fst c \<noteq> CM_OK then Some (Inl (d_fail msg (d\<lparr>dline := snd c\<rparr>))) else k (d\<lparr>dline := snd c\<rparr>))"

definition max_packet :: nat where "max_packet = 32763"

text \<open>One block of data after the other, until the partner gives the right to send, wants a confirmation, or the call fails.\<close>

partial_function (option) receive_blocks :: "'w cpi \<Rightarrow> byte list \<Rightarrow> u64 \<Rightarrow> 'w pingd \<Rightarrow> (int \<times> received \<times> u64 \<times> 'w pingd) option" where
  "receive_blocks cm cid count d =
     (let (rc, r, w) = cpi_receive cm (dline d) cid max_packet in do {
       m \<leftarrow> poke_block (dbuffer d) 0 (map Some (rcv_data r));
       let d = d\<lparr>dline := w, dbuffer := m\<rparr>;
       let count = (if rcv_what r \<noteq> CM_NO_DATA_RECEIVED then count + 1 else count);
       if rcv_status r \<noteq> CM_SEND_RECEIVED \<and> rcv_status r \<noteq> CM_CONFIRM_RECEIVED \<and> rc = CM_OK then receive_blocks cm cid count d
       else Some (rc, r, count, d)
     })"

text \<open>The loop that sends back all blocks but one ends at the first failure, which is only logged.\<close>

fun send_back :: "'w cpi \<Rightarrow> byte list \<Rightarrow> byte list \<Rightarrow> nat \<Rightarrow> 'w pingd \<Rightarrow> 'w pingd" where
  "send_back cm cid block 0 d = d"
| "send_back cm cid block (Suc n) d =
     (let (rc, w) = cpi_send cm (dline d) cid block; d = d\<lparr>dline := w\<rparr>
      in if rc \<noteq> CM_OK then dlog ''apingd: send failed.\<newline>'' d else send_back cm cid block n d)"

text \<open>The number of blocks is counted down before it is tested: without a block it wraps around.\<close>

definition answer_blocks :: "'w cpi \<Rightarrow> byte list \<Rightarrow> received \<Rightarrow> u64 \<Rightarrow> 'w pingd \<Rightarrow> ((int \<times> 'w pingd) + 'w pingd) option" where
  "answer_blocks cm cid r count d =
     (if rcv_status r \<noteq> CM_CONFIRM_RECEIVED then
        d_call (cpi_set cm (dline d) cid (Send_type CM_BUFFER_DATA)) ''apingd: set send type failed.\<newline>'' d (\<lambda>d. do {
          block \<leftarrow> get_bytes (dbuffer d) (length (rcv_data r));
          let d = send_back cm cid block (unat (count - 1)) d;
          d_call (cpi_set cm (dline d) cid (Send_type CM_SEND_AND_PREP_TO_RECEIVE)) ''apingd: failed set send type.\<newline>'' d (\<lambda>d.
          d_call (cpi_send cm (dline d) cid block) ''apingd: failed send.\<newline>'' d (\<lambda>d. Some (Inr d)))
        })
      else d_call (cpi_do cm (dline d) cid Confirmed) ''apingd: failed confirm.\<newline>'' d (\<lambda>d. Some (Inr d)))"

partial_function (option) serve_pings :: "'w cpi \<Rightarrow> byte list \<Rightarrow> 'w pingd \<Rightarrow> (int \<times> 'w pingd) option" where
  "serve_pings cm cid d = do {
     (rc, r, count, d) \<leftarrow> receive_blocks cm cid 0 d;
     if rc \<noteq> CM_OK then Some (if rc = CM_DEALLOCATED_NORMAL then (0, d) else d_fail ''apingd: failed message recieve.\<newline>'' d)
     else do {
       x \<leftarrow> answer_blocks cm cid r count d;
       case x of Inl e \<Rightarrow> Some e | Inr d \<Rightarrow> serve_pings cm cid d
     }
   }"

text \<open>
  The main program. The array for the name of the client's system is on the stack, and its length is taken as the length of the string it happens to
  hold, \<open>os\<close>: where it was never written that is a fault. \<open>opts\<close> are the options, of which \<open>l\<close> names a file that is opened and closed again.
\<close>

fun pingd_options :: "(char \<times> string) list \<Rightarrow> bool \<Rightarrow> 'w pingd \<Rightarrow> bool \<times> 'w pingd" where
  "pingd_options [] audit d = (audit, d)"
| "pingd_options ((c, optarg) # opts) audit d =
     (if c = CHR ''l'' then pingd_options opts True (dlog (''Logging to file: '' @ optarg @ ''\<newline>'') d) else pingd_options opts audit d)"

definition apingd_main :: "'w cpi \<Rightarrow> bool \<Rightarrow> cells \<Rightarrow> (char \<times> string) list \<Rightarrow> 'w \<Rightarrow> (int \<times> 'w pingd) option" where
  "apingd_main cm can_open os opts w = do {
     let d = dlog ''apingd - APPC ping daemon\<newline>'' \<lparr>dline = w, syslog = [], dbuffer = replicate max_packet None\<rparr>;
     let (audit, d) = pingd_options opts False d;
     let (rc, cid, w) = cpi_accept cm (dline d);
     if rc \<noteq> CM_OK then Some (d_fail ''apingd: accept call failed.\<newline>'' (d\<lparr>dline := w\<rparr>))
     else do {
       let (rc, name, w) = cpi_partner cm w cid;
       if length name \<ge> 18 then None
       else do {
         let d = dlog (''Contacted by partner: '' @ text_of name @ ''\<newline>'') (d\<lparr>dline := w\<rparr>);
         let d = (if audit \<and> can_open then dlog (''Contacted by partner: '' @ text_of name) d else d);
         let (rc, w) = cpi_set cm (dline d) cid (Prepare_to_receive_type CM_PREP_TO_RECEIVE_FLUSH);
         let d = d\<lparr>dline := w\<rparr>;
         if rc \<noteq> CM_OK then Some (d_fail ''Set prepare to receive failed.\<newline>'' d)
         else do {
           junk \<leftarrow> c_str os;
           (ret, rc, v, w) \<leftarrow> get_client_version cm (dline d) cid PING_MAJOR PING_MINOR os (length junk);
           serve_pings cm cid (d\<lparr>dline := w\<rparr>)
         }
       }
     }
   }"

section \<open>Blocks of a transaction\<close>

text \<open>What one side sends in a transaction of \<open>k + 1\<close> equal blocks, and what the other side receives of it.\<close>

definition sent_blocks :: "nat \<Rightarrow> byte list \<Rightarrow> cpi_event list" where
  "sent_blocks k d = replicate k (Sent CM_BUFFER_DATA d) @ [Sent CM_SEND_AND_PREP_TO_RECEIVE d]"

definition data_block :: "int \<Rightarrow> byte list \<Rightarrow> int \<times> received" where
  "data_block status d = (CM_OK, \<lparr>rcv_what = CM_COMPLETE_DATA_RECEIVED, rcv_data = d, rcv_status = status\<rparr>)"

definition blocks :: "nat \<Rightarrow> byte list \<Rightarrow> (int \<times> received) list" where
  "blocks k d = replicate k (data_block 0 d) @ [data_block CM_SEND_RECEIVED d]"

definition hang_up :: "int \<times> received" where
  "hang_up = (CM_DEALLOCATED_NORMAL, \<lparr>rcv_what = CM_NO_DATA_RECEIVED, rcv_data = [], rcv_status = 0\<rparr>)"

definition turns :: "nat \<Rightarrow> cpi_event list" where
  "turns n = replicate n Turned"

lemma deliver_turns [simp]: "deliver (turns n @ es) = deliver es"
  by (induction n) (auto simp: turns_def)

lemma gives_turn_blocks: "\<not> gives_turn (sent_blocks k d @ es)"
  by (cases k) (auto simp: sent_blocks_def)

lemma deliver_blocks [simp]: "deliver (sent_blocks k d @ es) = blocks k d @ deliver es"
proof (induction k)
  case 0
  then show ?case by (simp add: sent_blocks_def blocks_def data_block_def)
next
  case (Suc k)
  have "sent_blocks (Suc k) d @ es = Sent CM_BUFFER_DATA d # (sent_blocks k d @ es)" by (simp add: sent_blocks_def)
  then show ?case using Suc gives_turn_blocks [of k d es] by (simp add: blocks_def data_block_def cm_consts)
qed

section \<open>The server\<close>

lemma receive_blocks_all:
  assumes "incoming (dline d) = blocks k b @ rest" "length b \<le> length (dbuffer d)"
  shows "\<exists>m. receive_blocks (line_end p) cid count d = Some (CM_OK, snd (data_block CM_SEND_RECEIVED b), count + of_nat (Suc k),
      d\<lparr>dline := (dline d)\<lparr>incoming := rest, outgoing := outgoing (dline d) @ turns (Suc k)\<rparr>, dbuffer := m\<rparr>)
    \<and> length m = length (dbuffer d) \<and> get_bytes m (length b) = Some b"
  using assms
proof (induction k arbitrary: d count)
  case 0
  obtain m where m: "poke_block (dbuffer d) 0 (map Some b) = Some m" "length m = length (dbuffer d)" "get_bytes m (length b) = Some b"
    using 0(2) by (auto simp: poke_block_def get_bytes_iff)
  show ?case using 0(1) m
    by (intro exI [of _ m], subst receive_blocks.simps) (simp add: blocks_def data_block_def cm_consts turns_def)
next
  case (Suc k)
  obtain m where m: "poke_block (dbuffer d) 0 (map Some b) = Some m" "length m = length (dbuffer d)"
    using Suc.prems(2) by (auto simp: poke_block_def)
  let ?d = "d\<lparr>dline := (dline d)\<lparr>incoming := blocks k b @ rest, outgoing := outgoing (dline d) @ [Turned]\<rparr>, dbuffer := m\<rparr>"
  have "receive_blocks (line_end p) cid count d = receive_blocks (line_end p) cid (count + 1) ?d"
    using Suc.prems(1) m(1) by (subst receive_blocks.simps) (simp add: blocks_def data_block_def cm_consts)
  moreover have "turns (Suc (Suc k)) = Turned # turns (Suc k)" by (simp add: turns_def)
  ultimately show ?case using Suc.IH [of ?d "count + 1"] Suc.prems(2) m(2) by (auto simp: add.assoc add.commute add.left_commute)
qed

lemma send_back_all:
  "send_back (line_end p) cid b n d = d\<lparr>dline := (dline d)\<lparr>outgoing := outgoing (dline d) @ replicate n (Sent (stype (dline d)) b)\<rparr>\<rparr>"
  by (induction n arbitrary: d) (auto simp: cm_consts)

lemma answer_all:
  assumes "get_bytes (dbuffer d) (length b) = Some b" "Suc k < 2 ^ 64"
  shows "\<exists>w. answer_blocks (line_end p) cid (snd (data_block CM_SEND_RECEIVED b)) (of_nat (Suc k)) d = Some (Inr (d\<lparr>dline := w\<rparr>))
    \<and> incoming w = incoming (dline d) \<and> outgoing w = outgoing (dline d) @ sent_blocks k b"
proof -
  have "unat (of_nat (Suc k) - 1 :: u64) = k" using assms(2) by (simp add: unat_of_nat)
  then show ?thesis using assms(1)
    by (intro exI [of _ "(dline d)\<lparr>stype := CM_SEND_AND_PREP_TO_RECEIVE, outgoing := outgoing (dline d) @ sent_blocks k b\<rparr>"])
      (simp add: answer_blocks_def data_block_def d_call_def send_back_all sent_blocks_def cm_consts)
qed

text \<open>The server answers every transaction with as many blocks of the same contents, and leaves when the client hangs up.\<close>

lemma serve_all:
  assumes "incoming (dline d) = concat (replicate n (blocks k b)) @ [hang_up]" "length b \<le> length (dbuffer d)" "Suc k < 2 ^ 64"
  shows "\<exists>d'. serve_pings (line_end p) cid d = Some (0, d') \<and> syslog d' = syslog d \<and> incoming (dline d') = []
    \<and> outgoing (dline d') = outgoing (dline d) @ concat (replicate n (turns (Suc k) @ sent_blocks k b)) @ [Turned]"
  using assms(1,2)
proof (induction n arbitrary: d)
  case 0
  have "receive_blocks (line_end p) cid 0 d = Some (CM_DEALLOCATED_NORMAL, snd hang_up, 0,
      d\<lparr>dline := (dline d)\<lparr>incoming := [], outgoing := outgoing (dline d) @ [Turned]\<rparr>\<rparr>)"
    using 0(1) by (subst receive_blocks.simps) (simp add: hang_up_def cm_consts poke_block_def)
  then show ?case by (subst serve_pings.simps) (simp add: cm_consts)
next
  case (Suc n)
  have i: "incoming (dline d) = blocks k b @ concat (replicate n (blocks k b)) @ [hang_up]" using Suc.prems(1) by simp
  obtain m where m: "receive_blocks (line_end p) cid 0 d = Some (CM_OK, snd (data_block CM_SEND_RECEIVED b), of_nat (Suc k),
      d\<lparr>dline := (dline d)\<lparr>incoming := concat (replicate n (blocks k b)) @ [hang_up], outgoing := outgoing (dline d) @ turns (Suc k)\<rparr>, dbuffer := m\<rparr>)"
      "length m = length (dbuffer d)" "get_bytes m (length b) = Some b"
    using receive_blocks_all [OF i Suc.prems(2), of p cid 0] by auto
  let ?d = "d\<lparr>dline := (dline d)\<lparr>incoming := concat (replicate n (blocks k b)) @ [hang_up], outgoing := outgoing (dline d) @ turns (Suc k)\<rparr>, dbuffer := m\<rparr>"
  obtain w where w: "answer_blocks (line_end p) cid (snd (data_block CM_SEND_RECEIVED b)) (of_nat (Suc k)) ?d = Some (Inr (?d\<lparr>dline := w\<rparr>))"
      "incoming w = incoming (dline ?d)" "outgoing w = outgoing (dline ?d) @ sent_blocks k b"
    using answer_all [of ?d b k p cid] m(3) assms(3) by auto
  have "serve_pings (line_end p) cid d = serve_pings (line_end p) cid (?d\<lparr>dline := w\<rparr>)"
    using m(1) w(1) by (subst serve_pings.simps) simp
  then show ?case using Suc.IH [of "?d\<lparr>dline := w\<rparr>"] w(2,3) m(2) Suc.prems(2) by simp
qed

section \<open>The client\<close>

text \<open>Nothing that was printed has an \<open>E\<close>, so no error was.\<close>

definition clean :: "'w ping \<Rightarrow> bool" where
  "clean p \<longleftrightarrow> CHR ''E'' \<notin> set (concat (stdout p))"

definition unnoticed :: "'w ping \<Rightarrow> 'w ping \<Rightarrow> bool" where
  "unnoticed p q \<longleftrightarrow> pline q = pline p \<and> sendbuf q = sendbuf p \<and> ticks q = ticks p \<and> stderr q = stderr p \<and> (clean p \<longrightarrow> clean q)"

lemma clean_say [simp]: "clean (say t p) \<longleftrightarrow> clean p \<and> CHR ''E'' \<notin> set t"
  by (auto simp: clean_def say_def)

lemma say_fields [simp]:
  "pline (say t p) = pline p" "sendbuf (say t p) = sendbuf p" "ticks (say t p) = ticks p" "stderr (say t p) = stderr p"
  "total_time (say t p) = total_time p" "min_time (say t p) = min_time p" "max_time (say t p) = max_time p"
  by (simp_all add: say_def)

lemma digits_clean [simp]: "CHR ''E'' \<notin> set (digits10 n)"
proof (induction n rule: digits10.induct)
  case (1 n)
  have "n mod 10 \<in> {0, 1, 2, 3, 4, 5, 6, 7, 8, 9}" by (simp, arith)
  then have "CHR ''E'' \<noteq> ''0123456789'' ! (n mod 10)" by auto
  then show ?case using 1 by (subst digits10.simps) simp
qed

lemma show_int_clean [simp]: "CHR ''E'' \<notin> set (show_int v)"
  by (simp add: show_int_def)

lemma field_clean [simp]: "CHR ''E'' \<in> set (field w t) \<longleftrightarrow> CHR ''E'' \<in> set t"
  by (auto simp: field_def)

lemma decimal_clean: "n < 10 \<Longrightarrow> CHR ''E'' \<notin> set (hex_digits n)"
proof -
  assume "n < 10"
  then have "n \<in> {0, 1, 2, 3, 4, 5, 6, 7, 8, 9}" by (simp, arith)
  then show ?thesis by (subst hex_digits.simps) auto
qed

lemma rate_clean: "t \<in> set (show_rate r) \<Longrightarrow> CHR ''E'' \<notin> set t"
proof -
  have "unat r * 8 mod 1000 div 100 < 10" "unat r * 8 mod 100 div 10 < 10" by (rule less_mult_imp_div_less, simp)+
  moreover assume "t \<in> set (show_rate r)"
  ultimately show ?thesis
    using decimal_clean [of "unat r * 8 mod 1000 div 100"] decimal_clean [of "unat r * 8 mod 100 div 10"] decimal_clean [of "unat r * 8 mod 10"]
    by (auto simp: show_rate_def Let_def)
qed

lemma fold_say: "(\<forall>t \<in> set ts. CHR ''E'' \<notin> set t) \<Longrightarrow> unnoticed p (fold say ts p) \<and> total_time (fold say ts p) = total_time p"
  by (induction ts arbitrary: p) (auto simp: unnoticed_def)

text \<open>Settings for which no number overflows, and times that can be divided by.\<close>

definition modest :: "aping \<Rightarrow> bool" where
  "modest a \<longleftrightarrow> 0 < datalen a \<and> 1 \<le> concurrent a \<and> datalen a * concurrent a \<le> 1000000 \<and> (one_way a = 1 \<or> one_way a = 2) \<and> iterations a < 2 ^ 31"

definition measurable :: "u64 \<Rightarrow> bool" where
  "measurable t \<longleftrightarrow> t = 0 \<or> t \<ge> 10"

lemma div_ten: "t \<ge> 10 \<Longrightarrow> t div 10 \<noteq> (0 :: u64)"
proof -
  assume "t \<ge> 10"
  then have "10 \<le> unat t" by (simp add: word_le_nat_alt)
  then have "0 < unat t div 10" by (simp add: div_greater_zero_iff)
  then show ?thesis using unat_div_distrib [of t 10] by auto
qed

lemma modest_numbers:
  assumes "modest a"
  shows "mul_int (datalen a) (concurrent a) = Some (datalen a * concurrent a)"
    "mul_int (datalen a * concurrent a) (one_way a) = Some (datalen a * concurrent a * one_way a)"
    "mul_int (datalen a * concurrent a div 1024) 1000 = Some (datalen a * concurrent a div 1024 * 1000)"
    "mul_int (datalen a * concurrent a div 1024 * 1000) (one_way a) = Some (datalen a * concurrent a div 1024 * 1000 * one_way a)"
    "div_c (datalen a * concurrent a) 1024 = datalen a * concurrent a div 1024"
    "0 < datalen a * concurrent a" "datalen a * concurrent a div 1024 \<le> 1000" "0 \<le> datalen a * concurrent a div 1024"
proof -
  let ?d = "datalen a * concurrent a"
  have d: "0 < ?d" "?d \<le> 1000000" "one_way a = 1 \<or> one_way a = 2" using assms by (auto simp: modest_def)
  then have d2: "0 < concurrent a * datalen a" "concurrent a * datalen a \<le> 1000000" by (simp_all only: mult.commute)
  have k: "0 \<le> ?d div 1024" "?d div 1024 \<le> 1000" using d zdiv_mono1 [of ?d 1000000 1024] by (simp_all add: pos_imp_zdiv_nonneg_iff)
  show c: "div_c ?d 1024 = ?d div 1024" using d(1) by (simp add: div_c_def)
  show "mul_int (datalen a) (concurrent a) = Some ?d" "mul_int ?d (one_way a) = Some (?d * one_way a)"
    using d d2 by (auto simp: mul_int_def fits_width_def)
  show "mul_int (?d div 1024) 1000 = Some (?d div 1024 * 1000)" using k by (simp add: mul_int_def fits_width_def)
  show "mul_int (?d div 1024 * 1000) (one_way a) = Some (?d div 1024 * 1000 * one_way a)"
    using k d(3) by (auto simp: mul_int_def fits_width_def)
  show "0 < ?d" by (rule d(1))
  show "?d div 1024 \<le> 1000" "0 \<le> ?d div 1024" by (rule k)+
qed

lemma unnoticed_trans: "unnoticed p q \<Longrightarrow> unnoticed q r \<Longrightarrow> unnoticed p r"
  by (simp add: unnoticed_def)

lemma unnoticed_times: "unnoticed p (q\<lparr>total_time := a, max_time := b, min_time := c\<rparr>) = unnoticed p q"
  by (simp add: unnoticed_def clean_def)

lemma print_rate_fine:
  assumes "modest a" "measurable t"
  shows "\<exists>q. print_rate (datalen a * concurrent a) (one_way a) t p = Some q \<and> unnoticed p q"
proof (cases "t = 0")
  case True
  then show ?thesis by (simp add: print_rate_def unnoticed_def)
next
  case False
  then show ?thesis using assms div_ten [of t] fold_say [of _ p] rate_clean
    by (auto simp: print_rate_def modest_numbers [OF assms(1)] div_u64_def measurable_def)
qed

lemma round_stats_fine:
  assumes "modest a" "measurable t"
  shows "\<exists>q. round_stats a t p = Some q \<and> unnoticed p q"
proof -
  let ?p = "say (field 17 (show_int (uint (word_of_int (datalen a * concurrent a * one_way a) :: u32)))) (say (field 16 (show_int (sint t))) p)"
  have p: "unnoticed p ?p" by (simp add: unnoticed_def)
  obtain q where q: "print_rate (datalen a * concurrent a) (one_way a) t ?p = Some q" "unnoticed ?p q" using print_rate_fine [OF assms] by blast
  then have "round_stats a t p = Some (q\<lparr>total_time := total_time q + t, max_time := max (max_time q) t, min_time := min (min_time q) t\<rparr>)"
    by (simp only: round_stats_def Let_def modest_numbers(1,2) [OF assms(1)] bind.bind_lunit q(1))
  then show ?thesis using unnoticed_trans [OF p q(2)] by (simp add: unnoticed_times)
qed

lemma send_all:
  "send_pings (line_end l) cid n p = Some (Inr ((), p\<lparr>pline := (pline p)\<lparr>outgoing := outgoing (pline p) @ replicate n (Sent (stype (pline p)) (sendbuf p))\<rparr>\<rparr>))"
  by (induction n arbitrary: p) (auto simp: check_call_def cm_consts)

lemma poke_block_same: "length b = length m \<Longrightarrow> poke_block m 0 b = Some b"
  by (simp add: poke_block_def)

lemma receive_all:
  assumes "incoming (pline p) = blocks k (sendbuf p) @ rest"
  shows "receive_echo (line_end l) cid left p = Some (Inr (left - int (Suc k),
    p\<lparr>pline := (pline p)\<lparr>incoming := rest, outgoing := outgoing (pline p) @ turns (Suc k)\<rparr>\<rparr>))"
  using assms
proof (induction k arbitrary: p left)
  case 0
  then show ?case by (subst receive_echo.simps) (simp add: blocks_def data_block_def cm_consts turns_def poke_block_same)
next
  case (Suc k)
  let ?p = "p\<lparr>pline := (pline p)\<lparr>incoming := blocks k (sendbuf p) @ rest, outgoing := outgoing (pline p) @ [Turned]\<rparr>\<rparr>"
  have "receive_echo (line_end l) cid left p = receive_echo (line_end l) cid (left - 1) ?p"
    using Suc.prems by (subst receive_echo.simps) (simp add: blocks_def data_block_def cm_consts poke_block_same)
  moreover have "turns (Suc (Suc k)) = Turned # turns (Suc k)" by (simp add: turns_def)
  ultimately show ?case using Suc.IH [of ?p "left - 1"] by simp
qed

lemma round_fine:
  assumes "modest a" "one_way a = 2" "incoming (pline p) = blocks k (sendbuf p) @ rest" "concurrent a = int (Suc k)"
    and "measurable (clock (ticks p + 1) - clock (ticks p))" "clean p"
  shows "\<exists>q. ping_round (line_end l) clock cid a p = Some (Inr ((), q)) \<and> sendbuf q = sendbuf p \<and> ticks q = ticks p + 2 \<and> stderr q = stderr p \<and> clean q
    \<and> incoming (pline q) = rest \<and> outgoing (pline q) = outgoing (pline p) @ sent_blocks k (sendbuf p) @ turns (Suc k)"
proof -
  define p1 where "p1 = p\<lparr>ticks := ticks p + 1, pline := (pline p)\<lparr>stype := CM_SEND_AND_PREP_TO_RECEIVE,
    outgoing := outgoing (pline p) @ sent_blocks k (sendbuf p)\<rparr>\<rparr>"
  define p2 where "p2 = p1\<lparr>pline := (pline p1)\<lparr>incoming := rest, outgoing := outgoing (pline p1) @ turns (Suc k)\<rparr>\<rparr>"
  have r: "receive_echo (line_end l) cid (int (Suc k)) p1 = Some (Inr (0, p2))"
    using receive_all [of p1 k rest l cid "int (Suc k)"] assms(3) by (simp add: p1_def p2_def)
  obtain q where q: "round_stats a (clock (ticks p + 1) - clock (ticks p)) (p2\<lparr>ticks := ticks p + 2\<rparr>) = Some q" "unnoticed (p2\<lparr>ticks := ticks p + 2\<rparr>) q"
    using round_stats_fine [OF assms(1,5)] by blast
  have t: "ticks p2 = ticks p + 1" by (simp add: p2_def p1_def)
  have "ping_round (line_end l) clock cid a p = Some (Inr ((), q))"
    using r [unfolded p1_def sent_blocks_def cm_consts, simplified] q(1) t assms(2,4)
    by (simp add: ping_round_def check_call_def get_time_def send_all cm_consts)
  moreover have "clean (p2\<lparr>ticks := ticks p + 2\<rparr>)" using assms(6) by (simp add: p2_def p1_def clean_def)
  ultimately show ?thesis using q(2) by (auto simp: unnoticed_def p2_def p1_def)
qed

lemma rounds_fine:
  assumes "modest a" "one_way a = 2" "concurrent a = int (Suc k)"
    and "incoming (pline p) = concat (replicate n (blocks k (sendbuf p))) @ rest"
    and "\<forall>i < n. measurable (clock (ticks p + 2 * i + 1) - clock (ticks p + 2 * i))" "clean p"
  shows "\<exists>q. ping_rounds (line_end l) clock cid a n p = Some (Inr ((), q)) \<and> sendbuf q = sendbuf p \<and> stderr q = stderr p \<and> clean q
    \<and> incoming (pline q) = rest \<and> outgoing (pline q) = outgoing (pline p) @ concat (replicate n (sent_blocks k (sendbuf p) @ turns (Suc k)))"
  using assms(4-6)
proof (induction n arbitrary: p)
  case (Suc n)
  have i: "incoming (pline p) = blocks k (sendbuf p) @ concat (replicate n (blocks k (sendbuf p))) @ rest" using Suc.prems(1) by simp
  have m: "measurable (clock (ticks p + 1) - clock (ticks p))" using Suc.prems(2) by (metis add_0_right mult_0_right zero_less_Suc)
  obtain q where q: "ping_round (line_end l) clock cid a p = Some (Inr ((), q))" "sendbuf q = sendbuf p" "ticks q = ticks p + 2" "stderr q = stderr p" "clean q"
      "incoming (pline q) = concat (replicate n (blocks k (sendbuf p))) @ rest" "outgoing (pline q) = outgoing (pline p) @ sent_blocks k (sendbuf p) @ turns (Suc k)"
    using round_fine [OF assms(1,2) i assms(3) m Suc.prems(3)] by blast
  have "\<forall>i < n. measurable (clock (ticks q + 2 * i + 1) - clock (ticks q + 2 * i))"
  proof (intro allI impI)
    fix i
    assume "i < n"
    then show "measurable (clock (ticks q + 2 * i + 1) - clock (ticks q + 2 * i))"
      using Suc.prems(2) [rule_format, of "Suc i"] q(3) by (simp add: algebra_simps)
  qed
  then show ?case using Suc.IH [of q] q by auto
qed auto

lemma mul_long_small:
  assumes "0 \<le> x" "x \<le> 2 ^ 30" "0 \<le> n" "n \<le> 2 ^ 32"
  shows "mul_long x n = Some (x * n)"
proof -
  have "x * n \<le> 2 ^ 30 * 2 ^ 32" using assms by (intro mult_mono) auto
  moreover have "0 \<le> x * n" using assms by simp
  ultimately show ?thesis by (simp add: mul_long_def fits_width_def)
qed

lemma mul_long_ways: "0 \<le> x \<Longrightarrow> x \<le> 2 ^ 60 \<Longrightarrow> w = 1 \<or> w = 2 \<Longrightarrow> mul_long x w = Some (x * w)"
  by (auto simp: mul_long_def fits_width_def)

lemma mul_long_kilo:
  "0 \<le> x \<Longrightarrow> x \<le> 1000 * 2 ^ 31 \<Longrightarrow> mul_long x 1000 = Some (x * 1000)"
  "0 \<le> x \<Longrightarrow> x \<le> 1000 * 2 ^ 31 \<Longrightarrow> w = 1 \<or> w = 2 \<Longrightarrow> mul_long (x * 1000) w = Some (x * 1000 * w)"
  by (auto simp: mul_long_def fits_width_def)

lemma totals_fine:
  assumes "modest a"
  shows "\<exists>q. print_totals a p = Some q \<and> unnoticed p q"
proof -
  let ?n = "max 0 (iterations a)" and ?d = "datalen a * concurrent a"
  have d: "0 < ?d" "?d \<le> 1000000" "one_way a = 1 \<or> one_way a = 2" "0 \<le> ?n" "?n < 2 ^ 31" using assms by (auto simp: modest_def)
  note k = modest_numbers [OF assms]
  have 1: "mul_long ?d ?n = Some (?d * ?n)" by (rule mul_long_small) (use d in auto)
  have b: "?d * ?n \<le> 1000000 * 2 ^ 31" "0 \<le> ?d * ?n" using mult_mono [of ?d 1000000 ?n "2 ^ 31"] mult_nonneg_nonneg [of ?d ?n] d by linarith+
  have 2: "mul_long (?d * ?n) (one_way a) = Some (?d * ?n * one_way a)"
    by (rule mul_long_ways) (use b d(3) in auto)
  have 3: "mul_long (?d div 1024) ?n = Some (?d div 1024 * ?n)" by (rule mul_long_small) (use d k in auto)
  have b3: "?d div 1024 * ?n \<le> 1000 * 2 ^ 31" "0 \<le> ?d div 1024 * ?n" using mult_mono [of "?d div 1024" 1000 ?n "2 ^ 31"] mult_nonneg_nonneg [of "?d div 1024" ?n] d k(7,8) by linarith+
  note 4 = mul_long_kilo(1) [OF b3(2,1)]
  note 5 = mul_long_kilo(2) [OF b3(2,1) d(3)]
  define s where "s = show_u64 (word_of_int (?d * ?n * one_way a))"
  have s: "CHR ''E'' \<notin> set s" "CHR ''E'' \<notin> set (show_u64 v)" for v by (simp_all add: s_def show_u64_def)
  let ?p1 = "say (field 17 s) (say (''Totals:'' @ field 9 (show_u64 (total_time p))) p)"
  let ?p2 = "say (field 17 s @ ''\<newline>'') (say (''Totals:'' @ field 9 (show_u64 (total_time p))) p)"
  have p: "unnoticed p ?p1" "unnoticed p ?p2" using s by (simp_all add: unnoticed_def)
  define r where "r = (if total_time p > 10 then do {
         k \<leftarrow> mul_long (div_c ?d 1024) ?n;
         k \<leftarrow> mul_long k 1000;
         k \<leftarrow> mul_long k (one_way a);
         q \<leftarrow> div_u64 (word_of_int k) (total_time p div 10);
         Some (fold say (show_rate (q div 10)) ?p1)
       } else Some ?p2)"
  have "\<exists>q. r = Some q \<and> unnoticed p q"
  proof (cases "total_time p > 10")
    case True
    then have z: "total_time p div 10 \<noteq> 0" using div_ten [of "total_time p"] by simp
    have "r = Some (fold say (show_rate (word_of_int (?d div 1024 * ?n * 1000 * one_way a) div (total_time p div 10) div 10)) ?p1)"
      unfolding r_def k(5) 3 4 5 bind.bind_lunit if_P [OF True] div_u64_def if_not_P [OF z] ..
    moreover have "unnoticed ?p1 (fold say (show_rate v) ?p1)" for v using fold_say rate_clean by blast
    ultimately show ?thesis using unnoticed_trans [OF p(1)] by blast
  qed (use p(2) in \<open>simp add: r_def\<close>)
  then obtain q where q: "r = Some q" "unnoticed p q" by blast
  have "print_totals a p = do { p \<leftarrow> r; Some (if ?n > 0
       then say (''Duration statistics:  Min = '' @ show_u64 (min_time p) @ ''   Avg = '' @ show_u64 (total_time p div word_of_int ?n)
         @ ''   Max = '' @ show_u64 (max_time p) @ ''\<newline>'') p else p) }"
    unfolding print_totals_def Let_def k(1) 1 2 bind.bind_lunit r_def s_def ..
  then have "\<exists>q'. print_totals a p = Some q' \<and> unnoticed q q'"
    unfolding q(1) bind.bind_lunit using s(2) by (auto simp: unnoticed_def)
  then show ?thesis using unnoticed_trans [OF q(2)] by blast
qed

section \<open>Both ends together\<close>

lemma deliver_client:
  "deliver (concat (replicate n (sent_blocks k b @ turns (Suc k))) @ es) = concat (replicate n (blocks k b)) @ deliver es"
  by (induction n) simp_all

lemma deliver_server:
  "deliver (concat (replicate n (turns (Suc k) @ sent_blocks k b)) @ es) = concat (replicate n (blocks k b)) @ deliver es"
  by (induction n) simp_all

lemma transactions_fine:
  assumes "modest a" "one_way a = 2" "concurrent a = int (Suc k)"
    and "incoming (pline p) = concat (replicate (nat (iterations a)) (blocks k (sendbuf p)))"
    and "\<forall>i. measurable (clock (ticks p + 2 * i + 1) - clock (ticks p + 2 * i))" "clean p"
  shows "\<exists>q. transactions (line_end l) clock cid a p = Some (Inl (0, q)) \<and> stderr q = stderr p \<and> clean q \<and> incoming (pline q) = []
    \<and> outgoing (pline q) = outgoing (pline p) @ concat (replicate (nat (iterations a)) (sent_blocks k (sendbuf p) @ turns (Suc k))) @ [Closed CM_DEALLOCATE_FLUSH]"
proof -
  obtain q where q: "ping_rounds (line_end l) clock cid a (nat (iterations a)) p = Some (Inr ((), q))" "stderr q = stderr p" "clean q" "incoming (pline q) = []"
      "outgoing (pline q) = outgoing (pline p) @ concat (replicate (nat (iterations a)) (sent_blocks k (sendbuf p) @ turns (Suc k)))"
    using rounds_fine [OF assms(1-3), of p "nat (iterations a)" "[]" clock l cid] assms(4-6) by auto
  let ?q = "q\<lparr>pline := (pline q)\<lparr>dtype := CM_DEALLOCATE_FLUSH, outgoing := outgoing (pline q) @ [Closed CM_DEALLOCATE_FLUSH]\<rparr>\<rparr>"
  obtain r where r: "print_totals a ?q = Some r" "unnoticed ?q r" using totals_fine [OF assms(1)] by blast
  have "clean ?q" using q(3) by (simp add: clean_def)
  then show ?thesis using q r by (auto simp: transactions_def check_call_def cm_consts unnoticed_def)
qed

lemma know_partner_fine:
  assumes "one_way a = 2" "c_str (v_os_name v) = Some LOCAL_OS_NAME" "clean p"
  shows "\<exists>q. know_partner (line_end l) clock cid a start v p = transactions (line_end l) clock cid a q
    \<and> pline q = pline p \<and> sendbuf q = sendbuf p \<and> ticks q = ticks p + 1 \<and> stderr q = stderr p \<and> clean q"
proof -
  let ?p = "say print_header (say (''Program startup and Confirm duration: '' @ field 8 (show_u64 (clock (ticks p) - start)) @ ''\<newline>\<newline>'')
    (say (''Connected to a partner running on: '' @ text_of LOCAL_OS_NAME @ ''\<newline>\<newline>'') (p\<lparr>ticks := ticks p + 1\<rparr>)))"
  have n: "LOCAL_OS_NAME \<noteq> []" "CHR ''E'' \<notin> set (text_of LOCAL_OS_NAME)" by code_simp+
  have "know_partner (line_end l) clock cid a start v p = transactions (line_end l) clock cid a ?p"
    using assms(1,2) n(1) by (simp add: know_partner_def get_time_def)
  moreover have "clean (p\<lparr>ticks := ticks p + 1\<rparr>)" using assms(3) by (simp add: clean_def)
  then have "clean ?p" using n(2) by (simp add: show_u64_def print_header_def)
  ultimately show ?thesis by (intro exI [of _ ?p]) simp
qed

lemma converse_fine:
  assumes "modest a" "one_way a = 2" "concurrent a = int (Suc k)"
    and "\<forall>i. measurable (clock (2 * i + 5) - clock (2 * i + 4))"
    and "ia = server_message PING_MAJOR PING_MINOR # concat (replicate (nat (iterations a)) (blocks k b))"
  shows "\<exists>p. ping_converse (line_end l) clock cid a ((start_ping (start_line ia))\<lparr>sendbuf := b\<rparr>) = Some (Inl (0, p))
    \<and> clean p \<and> stderr p = [] \<and> incoming (pline p) = []
    \<and> outgoing (pline p) = [Did Allocate, Sent CM_BUFFER_DATA [EXCHANGE_VERSION, PING_MAJOR, PING_MINOR], Turned]
        @ concat (replicate (nat (iterations a)) (sent_blocks k b @ turns (Suc k))) @ [Closed CM_DEALLOCATE_FLUSH]"
proof -
  let ?blocks = "concat (replicate (nat (iterations a)) (blocks k b))"
  let ?w = "\<lparr>incoming = ia, outgoing = [Did Allocate], stype = CM_BUFFER_DATA, dtype = CM_DEALLOCATE_SYNC_LEVEL\<rparr>"
  define w1 where "w1 = \<lparr>incoming = ?blocks, outgoing = [Did Allocate, Sent CM_BUFFER_DATA [EXCHANGE_VERSION, PING_MAJOR, PING_MINOR], Turned], stype = CM_BUFFER_DATA, dtype = CM_DEALLOCATE_SYNC_LEVEL\<rparr>"
  obtain os where v: "get_server_version (line_end l) ?w cid PING_MAJOR PING_MINOR (replicate 64 None) 64 =
      Some (CM_OK, CM_OK, \<lparr>v_major = PING_MAJOR, v_minor = PING_MINOR, v_os_name = os\<rparr>, w1)" "c_str os = Some (take 63 LOCAL_OS_NAME)"
    using client_exchanges [where w = ?w and a = PING_MAJOR and b = PING_MINOR and rest = ?blocks and n = 64 and os = "replicate 64 None" and p = l and cid = cid
        and c = PING_MAJOR and d = PING_MINOR] assms(5)
    by (auto simp: w1_def)
  have n: "take 63 LOCAL_OS_NAME = LOCAL_OS_NAME" by code_simp
  let ?v = "\<lparr>v_major = PING_MAJOR, v_minor = PING_MINOR, v_os_name = os\<rparr>"
  define p where "p = \<lparr>pline = w1, ticks = 3, sendbuf = b, stdout = [''Allocate duration: '' @ field 8 (show_u64 (clock 1 - clock 0)) @ ''\<newline>\<newline>''], stderr = [],
    total_time = 0, min_time = 0xFFFFFFFF, max_time = 0\<rparr>"
  have cl: "clean p" by (simp add: p_def clean_def show_u64_def)
  have "ping_converse (line_end l) clock cid a ((start_ping (start_line ia))\<lparr>sendbuf := b\<rparr>) = know_partner (line_end l) clock cid a (clock 2) ?v p"
    using v(1)
    by (simp add: ping_converse_def check_call_def get_time_def start_ping_def start_line_def say_def Let_def p_def CM_OK_def numeral_2_eq_2 numeral_3_eq_3)
  moreover obtain q where q: "know_partner (line_end l) clock cid a (clock 2) ?v p = transactions (line_end l) clock cid a q"
      "pline q = pline p" "sendbuf q = sendbuf p" "ticks q = ticks p + 1" "stderr q = stderr p" "clean q"
    using know_partner_fine [OF assms(2) _ cl, of ?v l clock cid "clock 2"] v(2) n by auto
  moreover have "incoming (pline q) = concat (replicate (nat (iterations a)) (blocks k (sendbuf q)))" using q(2,3) by (simp add: p_def w1_def)
  moreover have "\<forall>i. measurable (clock (ticks q + 2 * i + 1) - clock (ticks q + 2 * i))"
    using assms(4) q(4) by (simp add: p_def add.commute)
  ultimately show ?thesis using transactions_fine [OF assms(1-3), of q clock l cid] by (auto simp: p_def w1_def)
qed

lemma server_fine:
  assumes "c_str os = Some junk" "length name < 18" "length b \<le> 32763" "Suc k < 2 ^ 64"
    and "ib = client_message PING_MAJOR PING_MINOR # concat (replicate n (blocks k b)) @ [hang_up]"
  shows "\<exists>d. apingd_main (line_end name) can_open os opts (start_line ib) = Some (0, d) \<and> incoming (dline d) = []
    \<and> outgoing (dline d) = [Turned, Sent CM_BUFFER_DATA (version_answer PING_MAJOR PING_MINOR), Did Prepare_to_receive]
        @ concat (replicate n (turns (Suc k) @ sent_blocks k b)) @ [Turned]"
proof -
  let ?rest = "concat (replicate n (blocks k b)) @ [hang_up]"
  have os: "0 < length os" using assms(1) by (cases os) auto
  define w where "w = \<lparr>incoming = ?rest, outgoing = [Turned, Sent CM_BUFFER_DATA (version_answer PING_MAJOR PING_MINOR), Did Prepare_to_receive], stype = CM_BUFFER_DATA, dtype = CM_DEALLOCATE_SYNC_LEVEL\<rparr>"
  obtain v where v: "get_client_version (line_end name) (start_line ib) [1] PING_MAJOR PING_MINOR os (length junk) = Some (CM_OK, CM_OK, v, w)"
    using server_exchanges [where w = "start_line ib" and c = PING_MAJOR and d = PING_MINOR and rest = ?rest and os = os and p = name and cid = "[1]" and a = PING_MAJOR
        and b = PING_MINOR and n = "length junk"] os assms(5)
    by (auto simp: w_def start_line_def)
  have opt: "\<exists>d. pingd_options opts au d0 = (fst (pingd_options opts au d0), d) \<and> dline d = dline d0 \<and> dbuffer d = dbuffer d0" for au and d0 :: "line_script pingd"
    by (induction opts au d0 rule: pingd_options.induct) auto
  obtain au d1 where d1: "pingd_options opts False (dlog ''apingd - APPC ping daemon\<newline>'' \<lparr>dline = start_line ib, syslog = [], dbuffer = replicate max_packet None\<rparr>) = (au, d1)"
      "dline d1 = start_line ib" "length (dbuffer d1) = max_packet"
    using opt [of False "dlog ''apingd - APPC ping daemon\<newline>'' \<lparr>dline = start_line ib, syslog = [], dbuffer = replicate max_packet None\<rparr>"]
    by auto
  define d2 where "d2 = (let d = dlog (''Contacted by partner: '' @ text_of name @ ''\<newline>'') (d1\<lparr>dline := start_line ib\<rparr>)
     in if au \<and> can_open then dlog (''Contacted by partner: '' @ text_of name) d else d)"
  have d2: "dline d2 = start_line ib" "length (dbuffer d2) = max_packet" using d1(2,3) by (auto simp: d2_def Let_def)
  have "apingd_main (line_end name) can_open os opts (start_line ib) = serve_pings (line_end name) [1] (d2\<lparr>dline := w\<rparr>)"
    using d1(1,2) v assms(1,2) d2(1)
    by (simp add: apingd_main_def Let_def CM_OK_def d2_def)
  moreover obtain d where "serve_pings (line_end name) [1] (d2\<lparr>dline := w\<rparr>) = Some (0, d)" "incoming (dline d) = []"
      "outgoing (dline d) = outgoing w @ concat (replicate n (turns (Suc k) @ sent_blocks k b)) @ [Turned]"
    using serve_all [of "d2\<lparr>dline := w\<rparr>" n k b name "[1]"] assms(3,4) d2(2) by (auto simp: w_def max_packet_def)
  ultimately show ?thesis by (auto simp: w_def)
qed

text \<open>
  C9. A ping in both directions works whatever its settings, as long as its numbers fit and the clock does not show one to nine milliseconds for a transaction: the client
  and the server, at the ends of one line where each receives exactly what the other sends, exchange their versions, run every transaction of every number of blocks, and leave with
  success. The server sends back as many blocks as it was sent, so the client never prints that blocks are missing, and nothing is left on the line.
\<close>

theorem ping_end_to_end:
  assumes "modest a" "one_way a = 2" "datalen a \<le> 32763" "\<forall>i. measurable (clock (2 * i + 5) - clock (2 * i + 4))"
    and "c_str os = Some junk" "length name < 18"
  shows "\<exists>ia ib p d. ping_converse (line_end l) clock cid a ((start_ping (start_line ia))\<lparr>sendbuf := replicate (nat (datalen a)) 0\<rparr>) = Some (Inl (0, p))
    \<and> apingd_main (line_end name) can_open os opts (start_line ib) = Some (0, d)
    \<and> ia = deliver (outgoing (dline d)) \<and> ib = deliver (outgoing (pline p)) \<and> incoming (pline p) = [] \<and> incoming (dline d) = []
    \<and> missing_records \<notin> set (stdout p) \<and> stderr p = []"
proof -
  let ?b = "replicate (nat (datalen a)) (0 :: byte)" and ?n = "nat (iterations a)"
  define k where "k = nat (concurrent a) - 1"
  have c: "concurrent a = int (Suc k)" using assms(1) by (simp add: modest_def k_def)
  have "concurrent a \<le> datalen a * concurrent a" using assms(1) by (simp add: modest_def)
  then have "concurrent a \<le> 1000000" using assms(1) unfolding modest_def by linarith
  then have k: "Suc k < 2 ^ 64" using c by simp
  have len: "length ?b \<le> 32763" using assms(3) by simp
  define ia where "ia = server_message PING_MAJOR PING_MINOR # concat (replicate ?n (blocks k ?b))"
  define ib where "ib = client_message PING_MAJOR PING_MINOR # concat (replicate ?n (blocks k ?b)) @ [hang_up]"
  obtain p where p: "ping_converse (line_end l) clock cid a ((start_ping (start_line ia))\<lparr>sendbuf := ?b\<rparr>) = Some (Inl (0, p))"
      "clean p" "stderr p = []" "incoming (pline p) = []"
      "outgoing (pline p) = [Did Allocate, Sent CM_BUFFER_DATA [EXCHANGE_VERSION, PING_MAJOR, PING_MINOR], Turned]
        @ concat (replicate ?n (sent_blocks k ?b @ turns (Suc k))) @ [Closed CM_DEALLOCATE_FLUSH]"
    using converse_fine [OF assms(1,2) c assms(4) ia_def, of l cid] by blast
  obtain d where d: "apingd_main (line_end name) can_open os opts (start_line ib) = Some (0, d)" "incoming (dline d) = []"
      "outgoing (dline d) = [Turned, Sent CM_BUFFER_DATA (version_answer PING_MAJOR PING_MINOR), Did Prepare_to_receive]
        @ concat (replicate ?n (turns (Suc k) @ sent_blocks k ?b)) @ [Turned]"
    using server_fine [OF assms(5,6) len k ib_def, of can_open opts] by blast
  have "ia = deliver (outgoing (dline d))"
    by (simp add: d(3) ia_def deliver_server server_message_def cm_consts)
  moreover have "ib = deliver (outgoing (pline p))"
    by (simp add: p(5) ib_def deliver_client client_message_def hang_up_def cm_consts)
  moreover have "missing_records \<notin> set (stdout p)"
  proof
    assume "missing_records \<in> set (stdout p)"
    moreover have "CHR ''E'' \<in> set missing_records" by (simp add: missing_records_def)
    ultimately show False using p(2) by (auto simp: clean_def)
  qed
  ultimately show ?thesis using p d by blast
qed

definition some_aping :: aping where
  "some_aping = (default_aping \<lparr>cs_symbolic = None, cs_chars = [], cs_security_type = None\<rparr>)\<lparr>datalen := 1000, iterations := 3, concurrent := 5\<rparr>"

theorem ping_end_to_end_witness:
  "\<exists>ia ib p d. ping_converse (line_end []) (\<lambda>i. of_nat (i * 20)) [1] some_aping ((start_ping (start_line ia))\<lparr>sendbuf := replicate 1000 0\<rparr>) = Some (Inl (0, p))
    \<and> apingd_main (line_end [0x41]) False [Some 0] [] (start_line ib) = Some (0, d) \<and> ib = deliver (outgoing (pline p))
    \<and> missing_records \<notin> set (stdout p)"
proof -
  have m: "modest some_aping" "one_way some_aping = 2" "datalen some_aping = 1000" by (simp_all add: some_aping_def default_aping_def modest_def)
  have "of_nat ((2 * i + 5) * 20) - of_nat ((2 * i + 4) * 20) = (20 :: u64)" for i
    by (simp add: algebra_simps)
  then have c: "\<forall>i. measurable (of_nat ((2 * i + 5) * 20) - of_nat ((2 * i + 4) * 20))" by (simp only: measurable_def) simp
  show ?thesis
    using ping_end_to_end [OF m(1,2) _ c, of "[Some 0]" "[]" "[0x41]" "[]" "[1]" False "[]"] m(3) by auto
qed

text \<open>
  A transaction that takes one to nine milliseconds stops the client: the rate is a division by the tenth part of the time, which is zero. Every number
  before it was fine.
\<close>

theorem fast_transaction_divides_by_zero:
  assumes "modest a" "1 \<le> t" "t < 10"
  shows "round_stats a t p = None"
proof -
  have "unat t < 10" "1 \<le> unat t" using assms(2,3) by (simp_all add: word_less_nat_alt word_le_nat_alt)
  then have "unat (t div 10) = 0" by (simp add: unat_div_distrib)
  then have z: "t div 10 = 0" by (simp add: unat_eq_0)
  have "t \<noteq> 0" using \<open>1 \<le> unat t\<close> by auto
  then show ?thesis using z modest_numbers [OF assms(1)] by (simp add: round_stats_def print_rate_def div_u64_def Let_def)
qed

theorem fast_transaction_divides_by_zero_witness:
  "round_stats some_aping 5 (start_ping ()) = None"
  by (rule fast_transaction_divides_by_zero) (simp_all add: some_aping_def default_aping_def modest_def)

lemma answer_nothing:
  assumes "incoming (dline d) = [(CM_OK, \<lparr>rcv_what = CM_NO_DATA_RECEIVED, rcv_data = [], rcv_status = CM_SEND_RECEIVED\<rparr>)]" "unat (- 1 :: u64) = n"
  shows "\<exists>r count d1 d2. receive_blocks (line_end p) cid 0 d = Some (CM_OK, r, count, d1) \<and> count = 0
    \<and> answer_blocks (line_end p) cid r count d1 = Some (Inr d2)
    \<and> outgoing (dline d2) = outgoing (dline d) @ Turned # replicate n (Sent CM_BUFFER_DATA []) @ [Sent CM_SEND_AND_PREP_TO_RECEIVE []]"
proof -
  let ?r = "\<lparr>rcv_what = CM_NO_DATA_RECEIVED, rcv_data = [], rcv_status = CM_SEND_RECEIVED\<rparr>"
  define d1 where "d1 = d\<lparr>dline := (dline d)\<lparr>incoming := [], outgoing := outgoing (dline d) @ [Turned]\<rparr>\<rparr>"
  define d2 where "d2 = d1\<lparr>dline := (dline d1)\<lparr>stype := CM_SEND_AND_PREP_TO_RECEIVE,
    outgoing := outgoing (dline d1) @ replicate n (Sent CM_BUFFER_DATA []) @ [Sent CM_SEND_AND_PREP_TO_RECEIVE []]\<rparr>\<rparr>"
  have "receive_blocks (line_end p) cid 0 d = Some (CM_OK, ?r, 0, d1)"
    using assms(1) by (subst receive_blocks.simps) (simp add: cm_consts poke_block_def d1_def)
  moreover have "answer_blocks (line_end p) cid ?r 0 d1 = Some (Inr d2)"
    using assms(2) by (simp add: answer_blocks_def send_back_all d_call_def get_bytes_def d2_def CM_OK_def CM_SEND_RECEIVED_def CM_CONFIRM_RECEIVED_def)
  ultimately show ?thesis by (auto simp: d2_def d1_def)
qed

text \<open>
  A client that gives the server the right to send without having sent a block floods itself: the server counts down from zero before it looks, and
  sends an empty block eighteen quintillion times, or until the line fails.
\<close>

theorem empty_turn_floods:
  assumes "incoming (dline d) = [(CM_OK, \<lparr>rcv_what = CM_NO_DATA_RECEIVED, rcv_data = [], rcv_status = CM_SEND_RECEIVED\<rparr>)]"
  shows "\<exists>r count d1 d2. receive_blocks (line_end p) cid 0 d = Some (CM_OK, r, count, d1) \<and> count = 0
    \<and> answer_blocks (line_end p) cid r count d1 = Some (Inr d2)
    \<and> outgoing (dline d2) = outgoing (dline d) @ Turned # replicate (2 ^ 64 - 1) (Sent CM_BUFFER_DATA []) @ [Sent CM_SEND_AND_PREP_TO_RECEIVE []]"
  by (rule answer_nothing [OF assms]) (simp add: unsigned_minus_1_eq_mask mask_eq_exp_minus_1)

theorem empty_turn_floods_witness:
  "\<exists>d2. (\<exists>r count d1. receive_blocks (line_end []) [1] 0 \<lparr>dline = start_line [(CM_OK, \<lparr>rcv_what = CM_NO_DATA_RECEIVED, rcv_data = [], rcv_status = CM_SEND_RECEIVED\<rparr>)],
      syslog = [], dbuffer = replicate max_packet None\<rparr> = Some (CM_OK, r, count, d1) \<and> answer_blocks (line_end []) [1] r count d1 = Some (Inr d2))
    \<and> length (outgoing (dline d2)) = 2 ^ 64 + 1"
proof -
  let ?d = "\<lparr>dline = start_line [(CM_OK, \<lparr>rcv_what = CM_NO_DATA_RECEIVED, rcv_data = [], rcv_status = CM_SEND_RECEIVED\<rparr>)], syslog = [], dbuffer = replicate max_packet None\<rparr>"
  have "incoming (dline ?d) = [(CM_OK, \<lparr>rcv_what = CM_NO_DATA_RECEIVED, rcv_data = [], rcv_status = CM_SEND_RECEIVED\<rparr>)]" by (simp add: start_line_def)
  then obtain r count d1 d2 where e: "receive_blocks (line_end []) [1] 0 ?d = Some (CM_OK, r, count, d1)" "answer_blocks (line_end []) [1] r count d1 = Some (Inr d2)"
      "outgoing (dline d2) = outgoing (dline ?d) @ Turned # replicate (2 ^ 64 - 1) (Sent CM_BUFFER_DATA []) @ [Sent CM_SEND_AND_PREP_TO_RECEIVE []]"
    using empty_turn_floods [of ?d "[]" "[1]"] by blast
  have "length (outgoing (dline d2)) = 2 ^ 64 + 1"
    unfolding e(3) length_append length_Cons length_replicate by (simp add: start_line_def)
  then show ?thesis using e(1,2) by blast
qed
end
