(* ===== verification/Atell.thy ===== *)
theory Atell
  imports Aping
begin

text \<open>
  Messages to a user of another machine: the client (\<^verbatim>\<open>asuite/atell.c\<close>) and the server (\<^verbatim>\<open>asuite/atelld.c\<close>). The list of the users
  that are logged in, the terminals that can be opened and the time are parameters.
\<close>

section \<open>The client\<close>

definition MAX_MESSAGE_LEN :: nat where "MAX_MESSAGE_LEN = 301"
definition MAX_DEST_USERID :: nat where "MAX_DEST_USERID = 11"
definition ATELL_MAJOR :: byte where "ATELL_MAJOR = 2"
definition ATELL_MINOR :: byte where "ATELL_MINOR = 37"

text \<open>The three variables outside of the functions, which are zero at first, and the session.\<close>

record atell =
  a_session :: cpic_session
  a_message :: cells
  a_message_length :: nat
  a_dest_userid :: cells

record 'w tell =
  tline :: 'w
  tout :: "string list"
  terr :: "string list"

definition tell_say :: "string \<Rightarrow> 'w tell \<Rightarrow> 'w tell" where
  "tell_say t s = s\<lparr>tout := tout s @ [t]\<rparr>"

definition tell_err :: "string \<Rightarrow> 'w tell \<Rightarrow> 'w tell" where
  "tell_err t s = s\<lparr>terr := terr s @ [t]\<rparr>"

definition atell_usage :: string where
  "atell_usage = ''usage: atell [-v] [-m mode_name] [-t tp_name] [userid]@destination message\<newline>''"

definition atell_option :: "string \<Rightarrow> char \<times> byte list option \<Rightarrow> atell \<Rightarrow> 'w tell \<Rightarrow> ((int \<times> 'w tell) + atell) option" where
  "atell_option version_s opt a s =
     (let (c, optarg) = opt;
          session = (\<lambda>f. map_option (\<lambda>x. Inr (a\<lparr>a_session := x\<rparr>)) (set_with f optarg (a_session a)))
      in if c = CHR ''m'' then session cpic_session_set_mode_name
         else if c = CHR ''t'' then session cpic_session_set_tp_name
         else if c = CHR ''u'' then session cpic_session_set_userid
         else if c = CHR ''p'' then session cpic_session_set_password
         else if c = CHR ''n'' then Some (Inr (a\<lparr>a_session := cpic_session_set_security_type (a_session a) CM_SECURITY_NONE\<rparr>))
         else if c = CHR ''v'' then Some (Inl (0, tell_say (''atell v'' @ version_s @ ''\<newline>Jay Schulist <jschlst@linux-sna.org>\<newline>'') s))
         else Some (Inl (1, tell_err atell_usage s)))"

fun atell_options :: "string \<Rightarrow> (char \<times> byte list option) list \<Rightarrow> atell \<Rightarrow> 'w tell \<Rightarrow> ((int \<times> 'w tell) + atell) option" where
  "atell_options version_s [] a s = Some (Inr a)"
| "atell_options version_s (opt # opts) a s = do {
     r \<leftarrow> atell_option version_s opt a s;
     case r of Inl e \<Rightarrow> Some (Inl e) | Inr a \<Rightarrow> atell_options version_s opts a s
   }"

definition set_partner :: "byte list \<Rightarrow> cpic_session \<Rightarrow> cpic_session option" where
  "set_partner name s = set_with (if 0x2E \<in> set name then cpic_session_set_destination else cpic_session_set_symbolic_name) (Some name) s"

text \<open>The part in front of a sign \<open>@\<close> is the user.\<close>

definition set_address :: "byte list \<Rightarrow> atell \<Rightarrow> 'w tell \<Rightarrow> (atell \<times> 'w tell) option" where
  "set_address word a s =
     (case dropWhile (\<lambda>b. b \<noteq> 0x40) word of
        [] \<Rightarrow> do { x \<leftarrow> set_partner word (a_session a); Some (a\<lparr>a_session := x\<rparr>, s) }
      | at # partner \<Rightarrow> do {
          let user = takeWhile (\<lambda>b. b \<noteq> 0x40) word;
          (a, s) \<leftarrow> (if length user < MAX_DEST_USERID then do {
              u \<leftarrow> put_string 0 user (a_dest_userid a);
              x \<leftarrow> set_with cpic_session_set_userid (Some user) (a_session a);
              Some (a\<lparr>a_dest_userid := u, a_session := x\<rparr>, s)
            }
            else Some (a, tell_err ''Userid too long.\<newline>Maximum userid length is 10 bytes.\<newline>Message sent without userid.\<newline>'' s));
          x \<leftarrow> set_partner partner (a_session a);
          Some (a\<lparr>a_session := x\<rparr>, s)
        })"

text \<open>
  The message is looked for as many words behind the address as \<^verbatim>\<open>getopt\<close> had taken words away, with the name of the program: it is the message only
  when no option was given, and otherwise a null pointer or no argument at all. A long message is cut to the size of a pointer, but its length is not changed.
\<close>

definition set_message :: "byte list list \<Rightarrow> nat \<Rightarrow> atell \<Rightarrow> 'w tell \<Rightarrow> (atell \<times> 'w tell) option" where
  "set_message argv optind a s = do {
     text \<leftarrow> peek argv optind;
     let n = length text + 1;
     if n < MAX_MESSAGE_LEN then do {
       m \<leftarrow> put_string 0 text (a_message a);
       Some (a\<lparr>a_message := m, a_message_length := n\<rparr>, s)
     }
     else do {
       m \<leftarrow> poke_block (a_message a) 0 (map Some (take 8 text));
       Some (a\<lparr>a_message := m, a_message_length := n\<rparr>,
         tell_err ''Message exceeds maximum message length of 8\<newline>Message will be truncated.\<newline>'' s)
     }
   }"

definition atell_arguments ::
  "string \<Rightarrow> (char \<times> byte list option) list \<Rightarrow> nat \<Rightarrow> byte list list \<Rightarrow> atell \<Rightarrow> 'w tell \<Rightarrow> ((int \<times> 'w tell) + (atell \<times> 'w tell)) option" where
  "atell_arguments version_s opts optind argv a s = do {
     r \<leftarrow> atell_options version_s opts a s;
     case r of
       Inl e \<Rightarrow> Some (Inl e)
     | Inr a \<Rightarrow>
         if length argv \<noteq> 2 then Some (Inl (1, tell_err atell_usage s))
         else do {
           (a, s) \<leftarrow> set_address (argv ! 0) a s;
           r \<leftarrow> set_message argv optind a s;
           Some (Inr r)
         }
   }"

text \<open>The message, and then the user if the server knows of users. The return code of the version exchange is not looked at.\<close>

definition send_message :: "'w cpi \<Rightarrow> byte list \<Rightarrow> atell \<Rightarrow> version \<Rightarrow> 'w tell \<Rightarrow> ((int \<times> 'w tell) + 'w tell) option" where
  "send_message cm cid a v s = do {
     text \<leftarrow> get_bytes (a_message a) (a_message_length a);
     let (rc, w) = cpi_send cm (tline s) cid text;
     let s = s\<lparr>tline := w\<rparr>;
     if rc \<noteq> CM_OK then Some (Inl (1, tell_err ''Failed to send.\<newline>'' s))
     else do {
       user \<leftarrow> c_str (a_dest_userid a);
       if user = [] then Some (Inr s)
       else if sint (v_major v) > 2 \<or> sint (v_major v) = 2 \<and> sint (v_minor v) \<ge> 2 then
         let (rc, w) = cpi_send cm (tline s) cid user; s = s\<lparr>tline := w\<rparr>
         in Some (if rc \<noteq> CM_OK then Inl (1, tell_err ''Failed to send.\<newline>'' s) else Inr s)
       else Some (Inr (tell_err ''Receipt of userid not supported by atell TP.\<newline>'' s))
     }
   }"

definition unsigned_char :: "byte \<Rightarrow> string" where
  "unsigned_char b = digits10 (unat (scast b :: u32))"

definition two_digits :: "byte \<Rightarrow> string" where
  "two_digits b = (let t = unsigned_char b in replicate (2 - length t) CHR ''0'' @ t)"

definition note_partner :: "version \<Rightarrow> 'w tell \<Rightarrow> 'w tell option" where
  "note_partner v s = do {
     os_name \<leftarrow> c_str (v_os_name v);
     let s = (if os_name \<noteq> [] then tell_say (''\<newline>Connected to atell TP running on: '' @ text_of os_name @ ''\<newline>'') s else s);
     Some (if v_major v \<noteq> ATELL_MAJOR \<or> v_minor v \<noteq> ATELL_MINOR
       then tell_err (''Server version: '' @ unsigned_char (v_major v) @ ''.'' @ two_digits (v_minor v) @ ''\<newline>'')
         (tell_err ''Client version: 2.37\<newline>'' (tell_err ''\<newline>Client/Server version mismatch.\<newline>'' s))
       else s)
   }"

text \<open>The conversation, to the end of it.\<close>

definition atell_conversation :: "'w cpi \<Rightarrow> atell \<Rightarrow> 'w tell \<Rightarrow> ((int \<times> 'w tell) + 'w tell) option" where
  "atell_conversation cm a s = do {
     (rc, cid, w) \<leftarrow> cpic_session_init cm (tline s) (a_session a);
     let (rc, w) = cpi_set cm w cid (Sync_level CM_CONFIRM);
     let (rc, w) = cpi_do cm w cid Allocate;
     if rc \<noteq> CM_OK then Some (Inl (1, tell_err ''Failed to allocate session.\<newline>'' (s\<lparr>tline := w\<rparr>)))
     else do {
       (ret, rc, v, w) \<leftarrow> get_server_version cm w cid ATELL_MAJOR ATELL_MINOR (replicate 64 None) 64;
       s \<leftarrow> note_partner v (s\<lparr>tline := w\<rparr>);
       r \<leftarrow> send_message cm cid a v s;
       case r of
         Inl e \<Rightarrow> Some (Inl e)
       | Inr s \<Rightarrow>
           let (rc, w) = cpi_set cm (tline s) cid (Deallocate_type CM_DEALLOCATE_SYNC_LEVEL) in
           if rc \<noteq> CM_OK then Some (Inl (1, tell_err ''Failed to deallocate session.\<newline>'' (s\<lparr>tline := w\<rparr>)))
           else let (rc, w) = cpi_do cm w cid Deallocate in
           Some (if rc \<noteq> CM_OK then Inl (1, tell_err ''Failed to deallocate session.\<newline>'' (s\<lparr>tline := w\<rparr>)) else Inr (s\<lparr>tline := w\<rparr>))
     }
   }"

text \<open>\<^verbatim>\<open>ATELLD\<close>.\<close>

definition tell_tp :: "byte list" where "tell_tp = [0x41, 0x54, 0x45, 0x4C, 0x4C, 0x44]"

definition new_atell :: "bool \<Rightarrow> atell option" where
  "new_atell ok = do {
     x \<leftarrow> cpic_session_new ok;
     x \<leftarrow> set_with cpic_session_set_tp_name (Some tell_tp) x;
     x \<leftarrow> set_with cpic_session_set_mode_name (Some ping_mode) x;
     x \<leftarrow> set_with cpic_session_set_symbolic_name (Some tell_tp) x;
     Some \<lparr>a_session = x, a_message = replicate MAX_MESSAGE_LEN (Some 0), a_message_length = 0, a_dest_userid = replicate MAX_DEST_USERID (Some 0)\<rparr>
   }"

text \<open>
  The main function. The message of success prints a field of the session after the session was freed, so success itself is a fault; a run that leaves before
  has a status.
\<close>

definition atell_main ::
  "'w cpi \<Rightarrow> bool \<Rightarrow> string \<Rightarrow> (char \<times> byte list option) list \<Rightarrow> nat \<Rightarrow> byte list list \<Rightarrow> 'w \<Rightarrow> (int \<times> 'w tell) option" where
  "atell_main cm ok version_s opts optind argv w = do {
     a \<leftarrow> new_atell ok;
     r \<leftarrow> atell_arguments version_s opts optind argv a \<lparr>tline = w, tout = [], terr = []\<rparr>;
     case r of
       Inl e \<Rightarrow> Some e
     | Inr (a, s) \<Rightarrow> do {
         r \<leftarrow> atell_conversation cm a s;
         case r of Inl e \<Rightarrow> Some e | Inr s \<Rightarrow> None
       }
   }"

section \<open>The server\<close>

text \<open>What \<^verbatim>\<open>sscanf("%s %s")\<close> reads of a line; a word that does not fit its array of eighty characters is a fault.\<close>

definition next_word :: "string \<Rightarrow> string \<times> string" where
  "next_word t = (let r = dropWhile is_space t in (takeWhile (\<lambda>c. \<not> is_space c) r, dropWhile (\<lambda>c. \<not> is_space c) r))"

text \<open>The terminal of a user; the arrays keep the words of the line before when a line has fewer.\<close>

fun find_tty :: "string list \<Rightarrow> string \<Rightarrow> string option \<Rightarrow> string option \<Rightarrow> string option option" where
  "find_tty [] who user tty = Some None"
| "find_tty (l # ls) who user tty = do {
     let (u, rest) = next_word l;
     let (t, rest) = next_word rest;
     if length u \<ge> 80 \<or> length t \<ge> 80 then None
     else do {
       let user = (if u \<noteq> [] then Some u else user);
       let tty = (if u \<noteq> [] \<and> t \<noteq> [] then Some t else tty);
       u \<leftarrow> user;
       if u = who then do { t \<leftarrow> tty; Some (Some (''/dev/'' @ t)) } else find_tty ls who user tty
     }
   }"

text \<open>The surroundings: the lines of \<^verbatim>\<open>who\<close> as \<^verbatim>\<open>fgets\<close> delivers them, if it could be run, the terminals that open, and the time.\<close>

record surroundings =
  who_lines :: "string list option"
  tty_opens :: "string \<Rightarrow> bool"
  now_text :: string

record 'w telld =
  lline :: 'w
  llog :: "string list"
  shown :: "(string option \<times> string) list"

definition tell_log :: "string \<Rightarrow> 'w telld \<Rightarrow> 'w telld" where
  "tell_log t s = s\<lparr>llog := llog s @ [t]\<rparr>"

text \<open>The text goes to a terminal, or to the error stream (\<^term>\<open>None\<close>) when there is none.\<close>

definition display_message :: "surroundings \<Rightarrow> string \<Rightarrow> string \<Rightarrow> string \<Rightarrow> 'w telld \<Rightarrow> 'w telld option" where
  "display_message e origin dest_userid message s = do {
     (tty_name, s) \<leftarrow> (if dest_userid \<noteq> [] then
         (case who_lines e of
            None \<Rightarrow> Some ([], tell_log ''Could not run who command\<newline>'' s)
          | Some ls \<Rightarrow> do { t \<leftarrow> find_tty ls dest_userid None None; Some (case t of None \<Rightarrow> [] | Some n \<Rightarrow> n, s) })
       else Some (''/dev/pts/1'', s));
     let handle = (if tty_name \<noteq> [] \<and> tty_opens e tty_name then Some tty_name else None);
     let tty_name = (if tty_name = [] then ''User not found\<newline>'' else tty_name);
     let s = (if handle = None then tell_log (''Could not open TTY: '' @ tty_name @ ''\<newline>'') s else s);
     let text = ''\<newline>\<newline>ATELLD msg from '' @ origin @ ''\<newline>'' @ (if dest_userid \<noteq> [] then ''to user '' @ dest_userid @ '' '' else [])
       @ ''on '' @ now_text e @ '':'' @ ''\<newline>\<newline>     '' @ message @ ''\<newline>\<newline>'';
     Some (s\<lparr>shown := shown s @ [(handle, text)]\<rparr>)
   }"

text \<open>
  The loop: the array for data, the message and the user so far. The first block is the message, also when it is empty; what comes after the user is too
  much. A block that fills the array is ended one behind it.
\<close>

partial_function (option) receive_parts ::
  "'w cpi \<Rightarrow> surroundings \<Rightarrow> byte list \<Rightarrow> string \<Rightarrow> cells \<Rightarrow> byte list \<Rightarrow> byte list \<Rightarrow> 'w telld \<Rightarrow> ((int \<times> 'w telld) + 'w telld) option" where
  "receive_parts cm e cid origin buf message user s =
     (let (rc, r, w) = cpi_receive cm (lline s) cid MAX_MESSAGE_LEN; s = s\<lparr>lline := w\<rparr> in do {
        buf \<leftarrow> poke_block buf 0 (map Some (rcv_data r));
        if rc \<noteq> CM_OK then Some (Inl (1, tell_log ''Receive failed.\<newline>'' s))
        else do {
          (buf, message, user, s) \<leftarrow> (if rcv_what r \<noteq> CM_NO_DATA_RECEIVED then do {
              buf \<leftarrow> poke buf (length (rcv_data r)) (Some 0);
              text \<leftarrow> c_str buf;
              Some (if message = [] then (buf, take (MAX_MESSAGE_LEN - 1) text, user, s)
                    else if user = [] then (buf, message, take (MAX_DEST_USERID - 1) text, s)
                    else (buf, message, user, tell_log ''Too many receives!\<newline>'' s))
            }
            else Some (buf, message, user, s));
          if rcv_status r = CM_CONFIRM_DEALLOC_RECEIVED
          then do { s \<leftarrow> display_message e origin (text_of user) (text_of message) s; Some (Inr s) }
          else receive_parts cm e cid origin buf message user s
        }
      })"

definition receive_message :: "'w cpi \<Rightarrow> surroundings \<Rightarrow> cells \<Rightarrow> 'w \<Rightarrow> (int \<times> 'w telld) option" where
  "receive_message cm e os w = do {
     let (rc, cid, w) = cpi_accept cm w;
     let s = \<lparr>lline = w, llog = [], shown = []\<rparr>;
     if rc \<noteq> CM_OK then Some (1, tell_log ''Failed accept.\<newline>'' s)
     else do {
       junk \<leftarrow> c_str os;
       (ret, rc, v, w) \<leftarrow> get_client_version cm w cid ATELL_MAJOR ATELL_MINOR os (length junk);
       os_name \<leftarrow> c_str (v_os_name v);
       let s = tell_log (''Client is running on '' @ text_of os_name @ ''\<newline>'')
         (tell_log (''Client ATELL version is '' @ show_int (sint (v_major v)) @ ''.'' @ show_int (sint (v_minor v)) @ ''\<newline>'') s);
       let (rc, name, w) = cpi_partner cm w cid;
       let s = s\<lparr>lline := w\<rparr>;
       if rc \<noteq> CM_OK then Some (1, tell_log ''Extract partner LU name failed.\<newline>'' s)
       else if length name \<ge> MAX_PLU_NAME then None
       else do {
         r \<leftarrow> receive_parts cm e cid (text_of name) (replicate MAX_MESSAGE_LEN None) [] [] s;
         case r of
           Inl x \<Rightarrow> Some x
         | Inr s \<Rightarrow>
             let (rc, w) = cpi_do cm (lline s) cid Confirmed; s = s\<lparr>lline := w\<rparr>
             in Some (if rc \<noteq> CM_OK then (1, tell_log ''Failed confirm.\<newline>'' s) else (0, s))
       }
     }
   }"

section \<open>A message from one end to the other\<close>

lemma new_atell_form: "\<exists>a. new_atell True = Some a \<and> wf_cpic_session (a_session a) \<and> a_message a = replicate 301 (Some 0) \<and> a_dest_userid a = replicate 11 (Some 0)"
proof -
  have "case new_atell True of None \<Rightarrow> False | Some a \<Rightarrow> wf_cpic_session (a_session a) \<and> a_message a = replicate 301 (Some 0) \<and> a_dest_userid a = replicate 11 (Some 0)"
    by code_simp
  then show ?thesis by (cases "new_atell True") auto
qed

lemma set_message_fine:
  assumes "length m < 300" "a_message a = replicate 301 (Some 0)"
  shows "\<exists>r. set_message [x, m] 1 a s = Some (a\<lparr>a_message := map Some (m @ [0]) @ r, a_message_length := length m + 1\<rparr>, s)"
  using assms by (intro exI [of _ "replicate (300 - length m) (Some 0)"]) (simp add: set_message_def peek_def MAX_MESSAGE_LEN_def put_string_def poke_block_def)

lemma split_address:
  "0x40 \<notin> set u \<Longrightarrow> takeWhile (\<lambda>b. b \<noteq> (0x40 :: byte)) (u @ 0x40 # p) = u \<and> dropWhile (\<lambda>b. b \<noteq> 0x40) (u @ 0x40 # p) = 0x40 # p"
  by (induction u) auto

lemma set_address_fine:
  assumes "wf_cpic_session (a_session a)" "a_dest_userid a = replicate 11 (Some 0)"
    and "no_nul u" "0x40 \<notin> set u" "length u \<le> 8" "no_nul p" "0x2E \<notin> set p" "length p \<le> 8"
  shows "\<exists>x r name. set_address (u @ 0x40 # p) a s = Some (a\<lparr>a_dest_userid := map Some u @ Some 0 # r, a_session := x\<rparr>, s)
    \<and> cs_symbolic x = Some True \<and> get_bytes (drop sym_dest_name_at (cs_chars x)) 8 = Some name"
proof -
  obtain x where x: "cpic_session_set_userid (a_session a) u = Some (0, x)" "wf_cpic_session x"
    using set_userid_user [OF assms(1,3,5)] by blast
  obtain m where m: "cpic_session_set_symbolic_name x p = Some (0, x\<lparr>cs_symbolic := Some True, cs_chars := m\<rparr>)" "length m = 119"
      "take 101 m = take 92 (cs_chars x) @ map Some (map upper_byte (p @ replicate (9 - length p) 0x20))"
    using set_symbolic_form [OF x(2) assms(6,8)] by blast
  have l: "length (cs_chars x) = 119" using x(2) by (simp add: wf_cpic_session_def)
  have "take 8 (drop 92 m) = take 8 (drop 92 (take 101 m))" by (simp add: take_drop)
  also have "\<dots> = map Some (take 8 (map upper_byte (p @ replicate (9 - length p) 0x20)))"
    using m(3) l by (simp add: take_map)
  finally have g: "get_bytes (drop sym_dest_name_at m) 8 = Some (take 8 (map upper_byte (p @ replicate (9 - length p) 0x20)))"
    using assms(8) m(2) by (simp add: get_bytes_iff sym_dest_name_at_def)
  show ?thesis using x(1) m(1) g assms(2,5,7) split_address [OF assms(4)]
    by (auto simp: set_address_def set_with_def set_partner_def MAX_DEST_USERID_def put_string_def poke_block_def Let_def)
qed

definition told_block :: "byte list \<Rightarrow> int \<times> received" where
  "told_block d = (CM_OK, \<lparr>rcv_what = CM_COMPLETE_DATA_RECEIVED, rcv_data = d, rcv_status = 0\<rparr>)"

definition wants_confirm :: "int \<times> received" where
  "wants_confirm = (CM_OK, \<lparr>rcv_what = CM_NO_DATA_RECEIVED, rcv_data = [], rcv_status = CM_CONFIRM_DEALLOC_RECEIVED\<rparr>)"

lemma conversation_fine:
  assumes "cs_symbolic (a_session a) = Some True" "get_bytes (drop sym_dest_name_at (cs_chars (a_session a))) 8 = Some name"
    and "a_message a = map Some (m @ [0]) @ r" "a_message_length a = length m + 1"
    and "a_dest_userid a = map Some u @ Some 0 # q" "no_nul u" "u \<noteq> []" "tline s = start_line [server_message ATELL_MAJOR ATELL_MINOR]"
  shows "\<exists>t. atell_conversation (line_end l) a s = Some (Inr t) \<and> incoming (tline t) = [] \<and> terr t = terr s
    \<and> outgoing (tline t) = [Did Allocate, Sent CM_BUFFER_DATA [EXCHANGE_VERSION, ATELL_MAJOR, ATELL_MINOR], Turned,
        Sent CM_BUFFER_DATA (m @ [0]), Sent CM_BUFFER_DATA u, Closed CM_DEALLOCATE_SYNC_LEVEL]"
proof -
  let ?w = "(start_line [server_message ATELL_MAJOR ATELL_MINOR])\<lparr>outgoing := [Did Allocate]\<rparr>"
  obtain os where v: "get_server_version (line_end l) ?w [1] ATELL_MAJOR ATELL_MINOR (replicate 64 None) 64 =
      Some (CM_OK, CM_OK, \<lparr>v_major = ATELL_MAJOR, v_minor = ATELL_MINOR, v_os_name = os\<rparr>,
        ?w\<lparr>stype := CM_BUFFER_DATA, incoming := [], outgoing := [Did Allocate] @ [Sent CM_BUFFER_DATA [EXCHANGE_VERSION, ATELL_MAJOR, ATELL_MINOR], Turned]\<rparr>)"
      "c_str os = Some (take 63 LOCAL_OS_NAME)"
    using client_exchanges [where w = ?w and a = ATELL_MAJOR and b = ATELL_MINOR and rest = "[]" and n = 64 and os = "replicate 64 None" and p = l and cid = "[1]"
        and c = ATELL_MAJOR and d = ATELL_MINOR]
    by (auto simp: start_line_def)
  have g: "get_bytes (map Some (m @ [0]) @ r) (length m + 1) = Some (m @ [0])" by (simp add: get_bytes_iff)
  have u: "c_str (map Some u @ Some 0 # q) = Some u" using assms(6) by simp
  have "sint ATELL_MAJOR = 2" "sint ATELL_MINOR = 37" by (simp_all add: ATELL_MAJOR_def ATELL_MINOR_def)
  then show ?thesis using v g u assms
    by (simp add: atell_conversation_def cpic_session_init_def note_partner_def send_message_def Let_def cm_consts start_line_def tell_say_def)
qed

lemma parts_fine:
  assumes "incoming (lline s) = [told_block (m @ [0]), told_block u, wants_confirm]" "no_nul m" "m \<noteq> []" "length m < 300" "no_nul u" "u \<noteq> []" "length u \<le> 8"
    and "\<And>w. display_message e origin (text_of u) (text_of m) (s\<lparr>lline := w\<rparr>) = Some ((out s)\<lparr>lline := w\<rparr>)"
  shows "receive_parts (line_end p) e cid origin (replicate 301 None) [] [] s =
    Some (Inr ((out s)\<lparr>lline := (lline s)\<lparr>incoming := [], outgoing := outgoing (lline s) @ [Turned, Turned, Turned]\<rparr>\<rparr>))"
proof -
  have t: "take 300 m = m" "take 10 u = u" using assms(4,7) by simp_all
  let ?b = "map Some (m @ [0]) @ Some 0 # replicate (299 - length m) (None :: byte option)"
  have b1: "poke_block (replicate 301 None) 0 (map Some (m @ [0])) = Some (map Some (m @ [0]) @ replicate (300 - length m) None)"
    using assms(4) by (simp add: poke_block_def)
  have r: "replicate (300 - length m) (None :: byte option) = None # replicate (299 - length m) None"
    using assms(4) replicate_Suc [of "299 - length m" "None :: byte option"] by (simp add: Suc_diff_le [symmetric])
  have b2: "poke (map Some (m @ [0]) @ replicate (300 - length m) None) (length (m @ [0])) (Some 0) = Some ?b"
    unfolding r by (simp add: poke_def list_update_append)
  have c1: "c_str ?b = Some m" using assms(2) by simp
  define b where "b = ?b"
  have lb: "length b = 301" using assms(4) by (simp add: b_def)
  let ?c = "map Some u @ drop (length u) b"
  have b3: "poke_block b 0 (map Some u) = Some ?c" using lb assms(7) by (simp add: poke_block_def)
  have "drop (length u) b = b ! length u # drop (Suc (length u)) b"
    using lb assms(7) by (intro Cons_nth_drop_Suc [symmetric]) simp
  then have "?c[length u := Some 0] = map Some u @ Some 0 # drop (Suc (length u)) b" by (simp add: list_update_append)
  then have b4: "\<exists>d. poke ?c (length u) (Some 0) = Some d \<and> c_str d = Some u \<and> length d = 301"
    using assms(5,7) lb by (simp add: poke_def)
  then obtain d where d: "poke ?c (length u) (Some 0) = Some d" "c_str d = Some u" "length d = 301" by blast
  have b5: "poke_block d 0 [] = Some d" by (simp add: poke_block_def)
  let ?w = "\<lambda>i n. (lline s)\<lparr>incoming := i, outgoing := outgoing (lline s) @ replicate n Turned\<rparr>"
  have 1: "receive_parts (line_end p) e cid origin (replicate 301 None) [] [] s =
      receive_parts (line_end p) e cid origin b m [] (s\<lparr>lline := ?w [told_block u, wants_confirm] 1\<rparr>)"
    unfolding b_def
    by (subst receive_parts.simps) (simp add: assms(1) told_block_def b1 [simplified] b2 [simplified] c1 [simplified] t cm_consts MAX_MESSAGE_LEN_def)
  have 2: "receive_parts (line_end p) e cid origin b m [] (s\<lparr>lline := ?w [told_block u, wants_confirm] 1\<rparr>) =
      receive_parts (line_end p) e cid origin d m u (s\<lparr>lline := ?w [wants_confirm] 2\<rparr>)"
    using assms(3)
    by (subst receive_parts.simps) (simp add: told_block_def b3 d t cm_consts MAX_DEST_USERID_def numeral_2_eq_2)
  have 3: "receive_parts (line_end p) e cid origin d m u (s\<lparr>lline := ?w [wants_confirm] 2\<rparr>) = Some (Inr ((out s)\<lparr>lline := ?w [] 3\<rparr>))"
    by (subst receive_parts.simps) (simp add: wants_confirm_def b5 assms(8) cm_consts numeral_2_eq_2 numeral_3_eq_3)
  show ?thesis unfolding 1 2 3 by (simp add: numeral_3_eq_3)
qed

text \<open>What the user sees.\<close>

definition tell_text :: "surroundings \<Rightarrow> byte list \<Rightarrow> byte list \<Rightarrow> byte list \<Rightarrow> string" where
  "tell_text e origin u m = ''\<newline>\<newline>ATELLD msg from '' @ text_of origin @ ''\<newline>to user '' @ text_of u @ '' on '' @ now_text e @ '':\<newline>\<newline>     '' @ text_of m @ ''\<newline>\<newline>''"

lemma server_shows:
  assumes "c_str os = Some junk" "length name < 18" "no_nul m" "m \<noteq> []" "length m < 300" "no_nul u" "u \<noteq> []" "length u \<le> 8"
    and "who_lines e = Some ls" "find_tty ls (text_of u) None None = Some (Some tty)" "tty \<noteq> []" "tty_opens e tty"
  shows "\<exists>d. receive_message (line_end name) e os (start_line [client_message ATELL_MAJOR ATELL_MINOR, told_block (m @ [0]), told_block u, wants_confirm]) = Some (0, d)
    \<and> shown d = [(Some tty, tell_text e name u m)] \<and> incoming (lline d) = []
    \<and> outgoing (lline d) = [Turned, Sent CM_BUFFER_DATA (version_answer ATELL_MAJOR ATELL_MINOR), Did Prepare_to_receive, Turned, Turned, Turned, Did Confirmed]"
proof -
  let ?rest = "[told_block (m @ [0]), told_block u, wants_confirm]"
  let ?i = "start_line (client_message ATELL_MAJOR ATELL_MINOR # ?rest)"
  have os: "os \<noteq> []" using assms(1) by (cases os) auto
  define w where "w = \<lparr>incoming = ?rest, outgoing = [Turned, Sent CM_BUFFER_DATA (version_answer ATELL_MAJOR ATELL_MINOR), Did Prepare_to_receive], stype = CM_BUFFER_DATA, dtype = CM_DEALLOCATE_SYNC_LEVEL\<rparr>"
  obtain v where v: "get_client_version (line_end name) ?i [1] ATELL_MAJOR ATELL_MINOR os (length junk) = Some (CM_OK, CM_OK, v, w)"
      "v_os_name v = (if 1 < length junk then os[0 := Some 0] else os)"
    using server_exchanges [where w = ?i and c = ATELL_MAJOR and d = ATELL_MINOR and rest = ?rest and os = os and p = name and cid = "[1]" and a = ATELL_MAJOR
        and b = ATELL_MINOR and n = "length junk"] os
    by (auto simp: w_def start_line_def)
  have "\<exists>o'. c_str (v_os_name v) = Some o'" unfolding v(2) using assms(1) os c_str_first_zero [of os] by auto
  then obtain o' where o': "c_str (v_os_name v) = Some o'" ..
  have ne: "text_of u \<noteq> []" using assms(7) by (simp add: text_of_def)
  define s where "s = tell_log (''Client is running on '' @ text_of o' @ ''\<newline>'')
         (tell_log (''Client ATELL version is '' @ show_int (sint (v_major v)) @ ''.'' @ show_int (sint (v_minor v)) @ ''\<newline>'') \<lparr>lline = w, llog = [], shown = []\<rparr>)"
  have s: "lline s = w" "shown s = []" by (simp_all add: s_def tell_log_def)
  have d: "display_message e (text_of name) (text_of u) (text_of m) (s\<lparr>lline := x\<rparr>) = Some ((s\<lparr>shown := [(Some tty, tell_text e name u m)]\<rparr>)\<lparr>lline := x\<rparr>)" for x
    using assms(9-12) ne s(2) by (simp add: display_message_def tell_text_def)
  have r: "receive_parts (line_end name) e [1] (text_of name) (replicate 301 None) [] [] s =
      Some (Inr ((s\<lparr>shown := [(Some tty, tell_text e name u m)]\<rparr>)\<lparr>lline := (lline s)\<lparr>incoming := [], outgoing := outgoing (lline s) @ [Turned, Turned, Turned]\<rparr>\<rparr>))"
    by (rule parts_fine [where out = "\<lambda>s. s\<lparr>shown := [(Some tty, tell_text e name u m)]\<rparr>"]) (use assms s d in \<open>simp_all add: w_def\<close>)
  have "receive_message (line_end name) e os ?i = (case receive_parts (line_end name) e [1] (text_of name) (replicate 301 None) [] [] s of
      None \<Rightarrow> None | Some (Inl x) \<Rightarrow> Some x | Some (Inr s) \<Rightarrow>
        let (rc, w) = cpi_do (line_end name) (lline s) [1] Confirmed; s = s\<lparr>lline := w\<rparr> in Some (if rc \<noteq> CM_OK then (1, tell_log ''Failed confirm.\<newline>'' s) else (0, s)))"
    using assms(1,2) v(1) o'
    by (simp add: receive_message_def Let_def CM_OK_def MAX_PLU_NAME_def MAX_MESSAGE_LEN_def s_def tell_log_def split: option.split sum.split)
  then show ?thesis unfolding r using s(1) by (simp add: CM_OK_def w_def)
qed

text \<open>
  C10. A message reaches the terminal of its user: the client takes user, machine and message from its command line, and the client and the server, at the ends
  of one line where each receives exactly what the other sends, get through their conversation; the server shows the message, which is all that it shows, with the name of
  the machine it came from, on the terminal that the list of users gives. The client itself then ends in a fault, because it prints the destination of the
  session it has freed.
\<close>

theorem tell_end_to_end:
  assumes "no_nul u" "0x40 \<notin> set u" "u \<noteq> []" "length u \<le> 8" "no_nul p" "0x2E \<notin> set p" "length p \<le> 8" "no_nul m" "m \<noteq> []" "length m < 300"
    and "c_str os = Some junk" "length name < 18"
    and "who_lines e = Some ls" "find_tty ls (text_of u) None None = Some (Some tty)" "tty \<noteq> []" "tty_opens e tty"
  shows "\<exists>a0 a s ia ib t d. new_atell True = Some a0
    \<and> atell_arguments vs [] 1 [u @ 0x40 # p, m] a0 \<lparr>tline = start_line ia, tout = [], terr = []\<rparr> = Some (Inr (a, s))
    \<and> atell_conversation (line_end l) a s = Some (Inr t) \<and> terr t = []
    \<and> receive_message (line_end name) e os (start_line ib) = Some (0, d)
    \<and> ia = deliver (outgoing (lline d)) \<and> ib = deliver (outgoing (tline t)) \<and> incoming (tline t) = [] \<and> incoming (lline d) = []
    \<and> shown d = [(Some tty, tell_text e name u m)]
    \<and> atell_main (line_end l) True vs [] 1 [u @ 0x40 # p, m] (start_line ia) = None"
proof -
  let ?ia = "[server_message ATELL_MAJOR ATELL_MINOR]"
  let ?ib = "[client_message ATELL_MAJOR ATELL_MINOR, told_block (m @ [0]), told_block u, wants_confirm]"
  let ?s = "\<lparr>tline = start_line ?ia, tout = [], terr = []\<rparr>"
  obtain a0 where a0: "new_atell True = Some a0" "wf_cpic_session (a_session a0)" "a_message a0 = replicate 301 (Some 0)" "a_dest_userid a0 = replicate 11 (Some 0)"
    using new_atell_form by blast
  obtain x q n where x: "set_address (u @ 0x40 # p) a0 ?s = Some (a0\<lparr>a_dest_userid := map Some u @ Some 0 # q, a_session := x\<rparr>, ?s)"
      "cs_symbolic x = Some True" "get_bytes (drop sym_dest_name_at (cs_chars x)) 8 = Some n"
    using set_address_fine [OF a0(2,4) assms(1,2,4,5,6,7), where s = ?s] by blast
  let ?a = "a0\<lparr>a_dest_userid := map Some u @ Some 0 # q, a_session := x\<rparr>"
  obtain r where r: "set_message [u @ 0x40 # p, m] 1 ?a ?s = Some (?a\<lparr>a_message := map Some (m @ [0]) @ r, a_message_length := length m + 1\<rparr>, ?s)"
    using set_message_fine [OF assms(10), of ?a "u @ 0x40 # p" ?s] a0(3) by auto
  let ?b = "?a\<lparr>a_message := map Some (m @ [0]) @ r, a_message_length := length m + 1\<rparr>"
  have args: "atell_arguments vs [] 1 [u @ 0x40 # p, m] a0 ?s = Some (Inr (?b, ?s))"
    using x(1) r by (simp add: atell_arguments_def)
  obtain t where t: "atell_conversation (line_end l) ?b ?s = Some (Inr t)" "incoming (tline t) = []" "terr t = []"
      "outgoing (tline t) = [Did Allocate, Sent CM_BUFFER_DATA [EXCHANGE_VERSION, ATELL_MAJOR, ATELL_MINOR], Turned,
        Sent CM_BUFFER_DATA (m @ [0]), Sent CM_BUFFER_DATA u, Closed CM_DEALLOCATE_SYNC_LEVEL]"
    using conversation_fine [of ?b n m r u q ?s l] x(2,3) assms(1,3) by auto
  obtain d where d: "receive_message (line_end name) e os (start_line ?ib) = Some (0, d)" "shown d = [(Some tty, tell_text e name u m)]" "incoming (lline d) = []"
      "outgoing (lline d) = [Turned, Sent CM_BUFFER_DATA (version_answer ATELL_MAJOR ATELL_MINOR), Did Prepare_to_receive, Turned, Turned, Turned, Did Confirmed]"
    using server_shows [OF assms(11,12,8,9,10,1,3,4,13-16)] by blast
  have "?ia = deliver (outgoing (lline d))" by (simp add: d(4) server_message_def cm_consts)
  moreover have "?ib = deliver (outgoing (tline t))" by (simp add: t(4) client_message_def told_block_def wants_confirm_def cm_consts)
  moreover have "atell_main (line_end l) True vs [] 1 [u @ 0x40 # p, m] (start_line ?ia) = None"
    using a0(1) args t(1) by (simp add: atell_main_def)
  ultimately show ?thesis using a0(1) args t d by blast
qed

theorem tell_end_to_end_witness:
  "\<exists>a ib d t s. atell_conversation (line_end []) a s = Some (Inr t) \<and> ib = deliver (outgoing (tline t))
    \<and> receive_message (line_end [0x41]) \<lparr>who_lines = Some [''amy tty2'', ''joe tty1''], tty_opens = (\<lambda>t. True), now_text = ''noon''\<rparr> [Some 0] (start_line ib) = Some (0, d)
    \<and> map fst (shown d) = [Some ''/dev/tty1'']"
proof -
  let ?e = "\<lparr>who_lines = Some [''amy tty2'', ''joe tty1''], tty_opens = (\<lambda>t. True), now_text = ''noon''\<rparr>"
  have f: "find_tty [''amy tty2'', ''joe tty1''] (text_of [0x6A, 0x6F, 0x65]) None None = Some (Some ''/dev/tty1'')" by code_simp
  from tell_end_to_end [of "[0x6A, 0x6F, 0x65]" "[0x41]" "[0x68, 0x69]" "[Some 0]" "[]" "[0x41]" ?e "[''amy tty2'', ''joe tty1'']" "''/dev/tty1''" "''''" "[]"] f
  obtain a s ib t d where "atell_conversation (line_end []) a s = Some (Inr t)" "ib = deliver (outgoing (tline t))"
      "receive_message (line_end [0x41]) ?e [Some 0] (start_line ib) = Some (0, d)" "shown d = [(Some ''/dev/tty1'', tell_text ?e [0x41] [0x6A, 0x6F, 0x65] [0x68, 0x69])]"
    by auto
  then show ?thesis by (intro exI [of _ a] exI [of _ ib] exI [of _ d] exI [of _ t] exI [of _ s]) simp
qed
end
