(* ===== verification/Arexec.thy ===== *)
theory Arexec
  imports Atell
begin

text \<open>
  Remote execution of a command: the client (\<^verbatim>\<open>asuite/arexec.c\<close>) and the server (\<^verbatim>\<open>asuite/arexecd.c\<close>). What a command prints when it is
  run is a parameter. \<^verbatim>\<open>getopt\<close> is the one of POSIX.
\<close>

section \<open>The client\<close>

definition MAX_COMMAND_LEN :: nat where "MAX_COMMAND_LEN = 500"
definition AREXEC_MAJOR :: byte where "AREXEC_MAJOR = 2"
definition AREXEC_MINOR :: byte where "AREXEC_MINOR = 37"

record arexec =
  x_session :: cpic_session
  x_command :: cells
  x_command_len :: nat

text \<open>The line, the output, the error stream.\<close>

record 'w exec =
  eline :: 'w
  eout :: "string list"
  eerr :: "string list"

definition exec_say :: "string \<Rightarrow> 'w exec \<Rightarrow> 'w exec" where
  "exec_say t s = s\<lparr>eout := eout s @ [t]\<rparr>"

definition exec_err :: "string \<Rightarrow> 'w exec \<Rightarrow> 'w exec" where
  "exec_err t s = s\<lparr>eerr := eerr s @ [t]\<rparr>"

definition arexec_usage :: string where
  "arexec_usage = ''usage: arexec [-v] [-t tp_name] [-m mode_name] destination command \<newline>''"

definition append_word :: "cells \<Rightarrow> byte list \<Rightarrow> cells option" where
  "append_word m t = do { s \<leftarrow> c_str m; put_string (length s) t m }"

text \<open>The words of the command, each with a blank behind it.\<close>

fun join_words :: "byte list list \<Rightarrow> arexec \<Rightarrow> 'w exec \<Rightarrow> ((int \<times> 'w exec) + arexec) option" where
  "join_words [] a s = Some (Inr a)"
| "join_words (t # ts) a s =
     (let n = x_command_len a + length t + 1 in
      if n < MAX_COMMAND_LEN then do {
        m \<leftarrow> append_word (x_command a) t;
        m \<leftarrow> append_word m [0x20];
        join_words ts (a\<lparr>x_command := m, x_command_len := n\<rparr>) s
      }
      else Some (Inl (1, exec_err ''Command length execeeds max allowed (499).\<newline>No command will be sent.\<newline>'' s)))"

definition exec_option :: "string \<Rightarrow> char \<Rightarrow> byte list option \<Rightarrow> arexec \<Rightarrow> 'w exec \<Rightarrow> ((int \<times> 'w exec) + arexec) option" where
  "exec_option version_s c optarg a s =
     (let session = (\<lambda>f. map_option (\<lambda>x. Inr (a\<lparr>x_session := x\<rparr>)) (set_with f optarg (x_session a)))
      in if c = CHR ''v'' then Some (Inl (0, exec_say (''arexec v'' @ version_s @ ''\<newline>Jay Schulist <jschlst@linux-sna.org>\<newline>'') s))
         else if c = CHR ''m'' then session cpic_session_set_mode_name
         else if c = CHR ''t'' then session cpic_session_set_tp_name
         else if c = CHR ''u'' then session cpic_session_set_userid
         else if c = CHR ''p'' then session cpic_session_set_password
         else if c = CHR ''n'' then Some (Inr (a\<lparr>x_session := cpic_session_set_security_type (x_session a) CM_SECURITY_NONE\<rparr>))
         else Some (Inl (1, exec_err arexec_usage s)))"

text \<open>
  \<^verbatim>\<open>getopt\<close> as POSIX documents it, on its two static positions: the index of the word, and the place in a word with more
  than one letter. It delivers an option with its argument, or none at a word that is no option, where the index stays. A letter that is not
  in the list, or whose argument is missing, is a question mark. (GNU's, which moves options in front of other words, delivers the same when no word is an option.)
\<close>

definition option_word :: "byte list \<Rightarrow> bool" where
  "option_word t \<longleftrightarrow> take 1 t = [0x2D] \<and> length t > 1"

definition getopt :: "byte list \<Rightarrow> byte list list \<Rightarrow> nat \<times> nat \<Rightarrow> (char \<times> byte list option) option \<times> nat \<times> nat" where
  "getopt letters argv = (\<lambda>(optind, pos).
     if pos = 0 \<and> (length argv \<le> optind \<or> \<not> option_word (argv ! optind)) then (None, optind, 0)
     else if pos = 0 \<and> argv ! optind = [0x2D, 0x2D] then (None, optind + 1, 0)
     else
       let t = argv ! optind; i = max 1 pos; c = t ! i; rest = drop (i + 1) t;
           next = (if rest = [] then (optind + 1, 0) else (optind, i + 1));
           known = dropWhile (\<lambda>x. x \<noteq> c) letters
       in if known = [] \<or> c = 0x3A then (Some (CHR ''?'', None), next)
          else if take 1 (tl known) = [0x3A] then
            if rest \<noteq> [] then (Some (char_of (unat c), Some rest), optind + 1, 0)
            else if optind + 1 < length argv then (Some (char_of (unat c), Some (argv ! (optind + 1))), optind + 2, 0)
            else (Some (CHR ''?'', None), optind + 1, 0)
          else (Some (char_of (unat c), None), next))"

text \<open>\<open>t:m:u:p:nv\<close>.\<close>

definition exec_letters :: "byte list" where
  "exec_letters = [0x74, 0x3A, 0x6D, 0x3A, 0x75, 0x3A, 0x70, 0x3A, 0x6E, 0x76]"

text \<open>
  The loop over the arguments, as long as the index is not that of the end. The first call of \<^verbatim>\<open>getopt\<close> without an option
  takes the destination, the second one all the rest.
\<close>

partial_function (option) exec_arguments ::
  "string \<Rightarrow> byte list list \<Rightarrow> nat \<times> nat \<Rightarrow> bool \<Rightarrow> arexec \<Rightarrow> 'w exec \<Rightarrow> ((int \<times> 'w exec) + arexec) option" where
  "exec_arguments version_s argv at set_destination a s =
     (if fst at = length argv
      then Some (if set_destination \<and> x_command_len a \<noteq> 0 then Inr a else Inl (1, exec_err arexec_usage s))
      else case getopt exec_letters argv at of
        (Some (c, optarg), at) \<Rightarrow> do {
          r \<leftarrow> exec_option version_s c optarg a s;
          case r of Inl e \<Rightarrow> Some (Inl e) | Inr a \<Rightarrow> exec_arguments version_s argv at set_destination a s
        }
      | (None, optind, pos) \<Rightarrow>
          if \<not> set_destination then do {
            name \<leftarrow> peek argv optind;
            if take 1 name = [0x3F] then Some (Inl (1, s))
            else do {
              x \<leftarrow> set_with cpic_session_set_destination (Some name) (x_session a);
              exec_arguments version_s argv (optind + 1, pos) True (a\<lparr>x_session := x\<rparr>) s
            }
          }
          else do {
            m \<leftarrow> poke (x_command a) 0 (Some 0);
            r \<leftarrow> join_words (drop optind argv) (a\<lparr>x_command := m\<rparr>) s;
            case r of Inl e \<Rightarrow> Some (Inl e) | Inr a \<Rightarrow> exec_arguments version_s argv (max optind (length argv), pos) True a s
          })"


text \<open>\<^verbatim>\<open>AREXECD\<close>.\<close>

definition exec_tp :: "byte list" where "exec_tp = [0x41, 0x52, 0x45, 0x58, 0x45, 0x43, 0x44]"

definition new_arexec :: "bool \<Rightarrow> arexec option" where
  "new_arexec ok = do {
     x \<leftarrow> cpic_session_new ok;
     x \<leftarrow> set_with cpic_session_set_tp_name (Some exec_tp) x;
     x \<leftarrow> set_with cpic_session_set_mode_name (Some ping_mode) x;
     x \<leftarrow> set_with cpic_session_set_symbolic_name (Some exec_tp) x;
     Some \<lparr>x_session = x, x_command = replicate MAX_COMMAND_LEN (Some 0), x_command_len = 0\<rparr>
   }"

text \<open>What comes is written as it comes, over the command, until a receive fails or the partner ends the conversation.\<close>

partial_function (option) receive_output :: "'w cpi \<Rightarrow> byte list \<Rightarrow> cells \<Rightarrow> 'w exec \<Rightarrow> (int \<times> 'w exec) option" where
  "receive_output cm cid buf s =
     (let (rc, r, w) = cpi_receive cm (eline s) cid MAX_COMMAND_LEN; s = s\<lparr>eline := w\<rparr> in do {
        buf \<leftarrow> poke_block buf 0 (map Some (rcv_data r));
        let s = (if rcv_what r \<noteq> CM_NO_DATA_RECEIVED \<and> (rc = CM_OK \<or> rc = CM_DEALLOCATED_NORMAL) then exec_say (text_of (rcv_data r)) s else s);
        if rc = 0 then receive_output cm cid buf s else Some (rc, s)
      })"

definition exec_conversation :: "'w cpi \<Rightarrow> arexec \<Rightarrow> 'w exec \<Rightarrow> (int \<times> 'w exec) option" where
  "exec_conversation cm a s = do {
     (rc, cid, w) \<leftarrow> cpic_session_init cm (eline s) (x_session a);
     let (rc, w) = cpi_set cm w cid (Sync_level CM_CONFIRM);
     let (rc, w) = cpi_do cm w cid Allocate;
     if rc \<noteq> CM_OK then Some (1, exec_err (''Failed allocate call: '' @ digits10 (unat (word_of_int rc :: u64)) @ ''\<newline>'') (s\<lparr>eline := w\<rparr>))
     else do {
       (ret, rc, v, w) \<leftarrow> get_server_version cm w cid AREXEC_MAJOR AREXEC_MINOR (replicate 64 None) 64;
       os_name \<leftarrow> c_str (v_os_name v);
       let s = s\<lparr>eline := w\<rparr>;
       let s = (if os_name \<noteq> [] then exec_say (''\<newline>Connected to an arexec TP running on: '' @ text_of os_name @ ''\<newline>'') s else s);
       text \<leftarrow> get_bytes (x_command a) (x_command_len a);
       let (rc, w) = cpi_send cm (eline s) cid text;
       let s = s\<lparr>eline := w\<rparr>;
       if rc \<noteq> CM_OK then Some (1, exec_err ''Failed send call.\<newline>'' s)
       else do {
         (rc, s) \<leftarrow> receive_output cm cid (x_command a) s;
         Some (if rc \<noteq> CM_DEALLOCATED_NORMAL then (1, exec_err (''Error during receive: '' @ digits10 (unat (word_of_int rc :: u64)) @ ''\<newline>'') s) else (0, s))
       }
     }
   }"

definition arexec_main ::
  "'w cpi \<Rightarrow> bool \<Rightarrow> string \<Rightarrow> byte list list \<Rightarrow> 'w \<Rightarrow> (int \<times> 'w exec) option" where
  "arexec_main cm ok version_s argv w = do {
     a \<leftarrow> new_arexec ok;
     let s = \<lparr>eline = w, eout = [], eerr = []\<rparr>;
     r \<leftarrow> exec_arguments version_s argv (1, 0) False a s;
     case r of Inl e \<Rightarrow> Some e | Inr a \<Rightarrow> exec_conversation cm a s
   }"

section \<open>The server\<close>

record 'w execd =
  xline :: 'w
  xlog :: "string list"

definition exec_log :: "string \<Rightarrow> 'w execd \<Rightarrow> 'w execd" where
  "exec_log t s = s\<lparr>xlog := xlog s @ [t]\<rparr>"

definition send_error :: "int \<Rightarrow> 'w execd \<Rightarrow> int \<times> 'w execd" where
  "send_error rc s = (1, exec_log (''Error on Send: '' @ digits10 (unat (word_of_int rc :: u64)) @ ''\<newline>'') s)"

text \<open>The output of the command, in pieces of eight hundred.\<close>

function send_output :: "'w cpi \<Rightarrow> byte list \<Rightarrow> byte list \<Rightarrow> 'w execd \<Rightarrow> (int \<times> 'w execd) + 'w execd" where
  "send_output cm cid out s =
     (if out = [] then Inr s
      else let (rc, w) = cpi_send cm (xline s) cid (take 800 out); s = s\<lparr>xline := w\<rparr>
      in if rc \<noteq> 0 then Inl (send_error rc s) else send_output cm cid (drop 800 out) s)"
  by auto
termination by (relation "measure (\<lambda>(cm, cid, out, s). length out)") auto

declare send_output.simps [simp del]

text \<open>\<^verbatim>\<open>AREXECD ERROR: The command failed to execute.\<close> with its end; closing the stream that could not be opened is a fault.\<close>

definition exec_failed_text :: "byte list" where
  "exec_failed_text = map (\<lambda>c. of_nat (of_char c)) ''AREXECD ERROR: The command failed to execute.\<newline>'' @ [0]"

definition execute_and_send_output ::
  "'w cpi \<Rightarrow> (byte list \<Rightarrow> byte list option) \<Rightarrow> byte list \<Rightarrow> byte list \<Rightarrow> 'w execd \<Rightarrow> ((int \<times> 'w execd) + 'w execd) option" where
  "execute_and_send_output cm popen cid command s =
     (case popen command of
        None \<Rightarrow>
          let s = exec_log ''popen failed\<newline>'' s; (rc, w) = cpi_send cm (xline s) cid exec_failed_text; s = s\<lparr>xline := w\<rparr>
          in if rc \<noteq> 0 then Some (Inl (send_error rc s)) else None
      | Some out \<Rightarrow> Some (send_output cm cid out s))"

text \<open>The command, once it was received; it is ended where its octets end.\<close>

definition run_command :: "'w cpi \<Rightarrow> (byte list \<Rightarrow> byte list option) \<Rightarrow> byte list \<Rightarrow> 'w execd \<Rightarrow> (int \<times> 'w execd) option" where
  "run_command cm popen cid s = do {
     let (rc, w) = cpi_set cm (xline s) cid (Send_type CM_SEND_AND_FLUSH);
     let (rc, r, w) = cpi_receive cm w cid (MAX_COMMAND_LEN - 1);
     buf \<leftarrow> poke_block (replicate MAX_COMMAND_LEN None) 0 (map Some (rcv_data r));
     let s = s\<lparr>xline := w\<rparr>;
     if rc \<noteq> CM_OK then Some (1, exec_log (''Error on receive: '' @ digits10 (unat (word_of_int rc :: u64)) @ ''\<newline>'') s)
     else do {
       buf \<leftarrow> poke buf (length (rcv_data r)) (Some 0);
       command \<leftarrow> c_str buf;
       let s = exec_log (''The command is:\<newline>'' @ text_of command @ ''\<newline>\<newline>'') s;
       r \<leftarrow> execute_and_send_output cm popen cid command s;
       case r of
         Inl e \<Rightarrow> Some e
       | Inr s \<Rightarrow>
           let (rc, w) = cpi_set cm (xline s) cid (Deallocate_type CM_DEALLOCATE_FLUSH);
               (rc, w) = cpi_do cm w cid Deallocate; s = s\<lparr>xline := w\<rparr>
           in Some (if rc \<noteq> 0 then (1, exec_log (''Error during deallocate: '' @ digits10 (unat (word_of_int rc :: u64)) @ ''\<newline>'') s) else (0, s))
     }
   }"

text \<open>The name of the partner is used without a look at the return code; the array it goes to was never written.\<close>

definition arexecd_main :: "'w cpi \<Rightarrow> (byte list \<Rightarrow> byte list option) \<Rightarrow> cells \<Rightarrow> 'w \<Rightarrow> (int \<times> 'w execd) option" where
  "arexecd_main cm popen os w = do {
     let (rc, cid, w) = cpi_accept cm w;
     let s = \<lparr>xline = w, xlog = []\<rparr>;
     if rc \<noteq> CM_OK then Some (1, exec_log (''Error on accept: '' @ digits10 (unat (word_of_int rc :: u64)) @ ''\<newline>'') s)
     else do {
       let (rc, name, w) = cpi_partner cm w cid;
       if rc \<noteq> CM_OK \<or> length name \<ge> MAX_PLU_NAME then None
       else do {
         let s = exec_log (''\<newline>Contacted by partner: '' @ text_of name @ ''\<newline>'') s;
         junk \<leftarrow> c_str os;
         (ret, rc, v, w) \<leftarrow> get_client_version cm w cid AREXEC_MAJOR AREXEC_MINOR os (length junk);
         run_command cm popen cid (s\<lparr>xline := w\<rparr>)
       }
     }
   }"
section \<open>What a command prints arrives\<close>

text \<open>
  A record that is longer than a program asks for comes in portions; only the last one is complete.
\<close>

definition CM_INCOMPLETE_DATA_RECEIVED :: int where "CM_INCOMPLETE_DATA_RECEIVED = 3"

function portions :: "nat \<Rightarrow> int \<times> received \<Rightarrow> (int \<times> received) list" where
  "portions n (rc, r) =
     (if n = 0 \<or> length (rcv_data r) \<le> n then [(rc, r)]
      else (rc, r\<lparr>rcv_what := CM_INCOMPLETE_DATA_RECEIVED, rcv_data := take n (rcv_data r), rcv_status := 0\<rparr>)
        # portions n (rc, r\<lparr>rcv_data := drop n (rcv_data r)\<rparr>))"
  by pat_completeness auto
termination by (relation "measure (\<lambda>(n, rc, r). length (rcv_data r))") auto

declare portions.simps [simp del]

definition in_portions :: "nat \<Rightarrow> (int \<times> received) list \<Rightarrow> (int \<times> received) list" where
  "in_portions n = concat \<circ> map (portions n)"

definition all_data :: "(int \<times> received) list \<Rightarrow> byte list" where
  "all_data = concat \<circ> map (rcv_data \<circ> snd)"

definition fits :: "int \<times> received \<Rightarrow> bool" where
  "fits e \<longleftrightarrow> fst e = CM_OK \<and> rcv_what (snd e) \<noteq> CM_NO_DATA_RECEIVED \<and> length (rcv_data (snd e)) \<le> MAX_COMMAND_LEN"

lemma all_data_simps [simp]: "all_data [] = []" "all_data (e # es) = rcv_data (snd e) @ all_data es" "all_data (a @ b) = all_data a @ all_data b"
  by (simp_all add: all_data_def)

lemma portions_fit:
  "rc = CM_OK \<Longrightarrow> rcv_what r \<noteq> CM_NO_DATA_RECEIVED \<Longrightarrow> list_all fits (portions MAX_COMMAND_LEN (rc, r)) \<and> all_data (portions MAX_COMMAND_LEN (rc, r)) = rcv_data r"
proof (induction "length (rcv_data r)" arbitrary: r rule: less_induct)
  case less
  show ?case
  proof (cases "length (rcv_data r) \<le> MAX_COMMAND_LEN")
    case True
    then show ?thesis using less.prems by (subst (1 2) portions.simps) (simp add: fits_def)
  next
    case False
    let ?d = "r\<lparr>rcv_data := drop MAX_COMMAND_LEN (rcv_data r)\<rparr>"
    have "list_all fits (portions MAX_COMMAND_LEN (rc, ?d)) \<and> all_data (portions MAX_COMMAND_LEN (rc, ?d)) = rcv_data ?d"
      using False less.prems by (intro less.hyps) (simp_all add: MAX_COMMAND_LEN_def)
    then show ?thesis using False less.prems
      by (subst (1 2) portions.simps) (simp add: MAX_COMMAND_LEN_def fits_def cm_consts CM_INCOMPLETE_DATA_RECEIVED_def)
  qed
qed

lemma portions_small: "length (rcv_data (snd e)) \<le> n \<Longrightarrow> portions n e = [e]"
  by (cases e) (simp add: portions.simps)

lemma told_fit: "list_all fits (in_portions MAX_COMMAND_LEN (map told_block ds)) \<and> all_data (in_portions MAX_COMMAND_LEN (map told_block ds)) = concat ds"
proof (induction ds)
  case (Cons d ds)
  have "list_all fits (portions MAX_COMMAND_LEN (told_block d)) \<and> all_data (portions MAX_COMMAND_LEN (told_block d)) = d"
    using portions_fit [of CM_OK "snd (told_block d)"] by (simp add: told_block_def cm_consts)
  then show ?case using Cons by (simp add: in_portions_def)
qed (simp add: in_portions_def)

text \<open>What goes into the line.\<close>

function output_pieces :: "byte list \<Rightarrow> byte list list" where
  "output_pieces out = (if out = [] then [] else take 800 out # output_pieces (drop 800 out))"
  by auto
termination by (relation "measure length") auto

declare output_pieces.simps [simp del]

lemma concat_pieces: "concat (output_pieces out) = out"
  by (induction out rule: output_pieces.induct) (subst output_pieces.simps, simp)

lemma send_output_all:
  "send_output (line_end p) cid out s = Inr (s\<lparr>xline := (xline s)\<lparr>outgoing := outgoing (xline s) @ map (Sent (stype (xline s))) (output_pieces out)\<rparr>\<rparr>)"
proof (induction out arbitrary: s rule: output_pieces.induct)
  case (1 out)
  show ?case
  proof (cases "out = []")
    case True
    then show ?thesis by (subst send_output.simps) (simp add: output_pieces.simps)
  next
    case False
    then show ?thesis using 1 by (subst send_output.simps) (simp add: output_pieces.simps [of out] CM_OK_def)
  qed
qed

lemma deliver_pieces:
  "deliver (map (Sent CM_SEND_AND_FLUSH) ds @ [Closed CM_DEALLOCATE_FLUSH]) = map told_block ds @ [hang_up]"
proof (induction ds)
  case (Cons d ds)
  have "\<not> gives_turn (map (Sent CM_SEND_AND_FLUSH) ds @ [Closed CM_DEALLOCATE_FLUSH])" by (cases ds) auto
  then show ?case using Cons by (simp add: told_block_def cm_consts)
qed (simp add: hang_up_def cm_consts)

lemma receive_output_all:
  assumes "incoming (eline s) = es @ [hang_up]" "list_all fits es" "length buf = MAX_COMMAND_LEN"
  shows "\<exists>t. receive_output (line_end p) cid buf s = Some (CM_DEALLOCATED_NORMAL, t) \<and> concat (eout t) = concat (eout s) @ text_of (all_data es)
    \<and> eerr t = eerr s \<and> incoming (eline t) = [] \<and> outgoing (eline t) = outgoing (eline s) @ replicate (length es + 1) Turned"
  using assms
proof (induction es arbitrary: s buf)
  case Nil
  then show ?case by (subst receive_output.simps) (simp add: hang_up_def poke_block_def text_of_def cm_consts)
next
  case (Cons e es)
  obtain rc r where e: "e = (rc, r)" by (cases e)
  have f: "rc = CM_OK" "rcv_what r \<noteq> CM_NO_DATA_RECEIVED" "length (rcv_data r) \<le> length buf" using Cons.prems by (simp_all add: e fits_def)
  then obtain b where b: "poke_block buf 0 (map Some (rcv_data r)) = Some b" "length b = MAX_COMMAND_LEN"
    using Cons.prems(3) by (simp add: poke_block_def)
  let ?s = "exec_say (text_of (rcv_data r)) (s\<lparr>eline := (eline s)\<lparr>incoming := es @ [hang_up], outgoing := outgoing (eline s) @ [Turned]\<rparr>\<rparr>)"
  have "receive_output (line_end p) cid buf s = receive_output (line_end p) cid b ?s"
    using Cons.prems(1) f(1,2) b(1) by (subst receive_output.simps) (simp add: e CM_OK_def)
  then show ?case using Cons.IH [of ?s b] Cons.prems(2) b(2) by (simp add: e exec_say_def text_of_def)
qed

section \<open>The command as it is sent\<close>

definition words_text :: "byte list list \<Rightarrow> byte list" where
  "words_text ts = concat (map (\<lambda>t. t @ [0x20]) ts)"

definition holds_text :: "byte list \<Rightarrow> arexec \<Rightarrow> bool" where
  "holds_text c a \<longleftrightarrow> x_command_len a = length c \<and> length (x_command a) = MAX_COMMAND_LEN \<and> c_str (x_command a) = Some c"

lemma append_word_string:
  assumes "c_str m = Some s" "no_nul t" "length s + length t < length m"
  shows "\<exists>m'. append_word m t = Some m' \<and> length m' = length m \<and> c_str m' = Some (s @ t)"
proof -
  obtain r where r: "m = map Some s @ Some 0 # r" "no_nul s" using assms(1) by (auto simp: c_str_iff)
  have "no_nul (s @ t)" using r(2) assms(2) by (auto simp: no_nul_def)
  moreover have "put_string (length s) t m = Some (map Some (s @ t) @ Some 0 # drop (length s + length t + 1) m)"
    using r(1) assms(3) by (simp add: put_string_def poke_block_def)
  moreover have "length (map Some (s @ t) @ Some 0 # drop (length s + length t + 1) m) = length m" using assms(3) by simp
  ultimately show ?thesis using assms(1) c_str_append [of "s @ t"] by (auto simp: append_word_def)
qed

lemma join_words_text:
  assumes "holds_text c a" "\<forall>t \<in> set ts. no_nul t" "length c + length (words_text ts) < MAX_COMMAND_LEN"
  shows "\<exists>b. join_words ts a s = Some (Inr b) \<and> holds_text (c @ words_text ts) b \<and> x_session b = x_session a"
  using assms
proof (induction ts arbitrary: a c)
  case (Cons t ts)
  have h: "c_str (x_command a) = Some c" "length (x_command a) = MAX_COMMAND_LEN" "x_command_len a = length c"
    using Cons.prems(1) by (simp_all add: holds_text_def)
  have l: "length c + length t + 1 < MAX_COMMAND_LEN" "no_nul t" using Cons.prems(2,3) by (simp_all add: words_text_def)
  then obtain m1 where m1: "append_word (x_command a) t = Some m1" "length m1 = MAX_COMMAND_LEN" "c_str m1 = Some (c @ t)"
    using append_word_string [OF h(1), of t] h(2) by auto
  then obtain m2 where m2: "append_word m1 [0x20] = Some m2" "length m2 = MAX_COMMAND_LEN" "c_str m2 = Some (c @ t @ [0x20])"
    using append_word_string [OF m1(3), of "[0x20]"] l(1) by auto
  let ?a = "a\<lparr>x_command := m2, x_command_len := x_command_len a + length t + 1\<rparr>"
  have "holds_text (c @ t @ [0x20]) ?a" using m2 h(3) by (simp add: holds_text_def)
  from Cons.IH [OF this] Cons.prems(2,3) show ?case
    using l(1) h(3) m1(1) m2(1) by (simp add: words_text_def Let_def)
qed (simp add: words_text_def)

section \<open>A command from one end to the other\<close>

lemma c_str_take: "c_str (take n m) = Some s \<Longrightarrow> c_str m = Some s"
proof -
  assume "c_str (take n m) = Some s"
  then obtain r where "no_nul s" "take n m = map Some s @ Some 0 # r" by (auto simp: c_str_iff)
  moreover have "m = take n m @ drop n m" by simp
  ultimately show ?thesis using c_str_append [of s "r @ drop n m"] by simp
qed

lemma new_arexec_form:
  "\<exists>a. new_arexec True = Some a \<and> length (cs_chars (x_session a)) = 119 \<and> x_command a = replicate 500 (Some 0) \<and> x_command_len a = 0
    \<and> c_str (take 74 (cs_chars (x_session a))) = Some exec_tp \<and> c_str (drop 65 (take 74 (cs_chars (x_session a)))) = Some ping_mode"
proof -
  have "case new_arexec True of None \<Rightarrow> False | Some a \<Rightarrow> length (cs_chars (x_session a)) = 119 \<and> x_command a = replicate 500 (Some 0) \<and> x_command_len a = 0
    \<and> c_str (take 74 (cs_chars (x_session a))) = Some exec_tp \<and> c_str (drop 65 (take 74 (cs_chars (x_session a)))) = Some ping_mode"
    by code_simp
  then show ?thesis by (cases "new_arexec True") auto
qed

lemma set_destination_form:
  assumes "length (cs_chars s) = 119" "no_nul d" "length d < 18"
  shows "\<exists>m. cpic_session_set_destination s d = Some (0, s\<lparr>cs_symbolic := Some False, cs_chars := m\<rparr>) \<and> take 74 m = take 74 (cs_chars s)
    \<and> c_str (drop 74 m) = Some (map upper_byte d)"
proof -
  let ?m = "cs_chars s"
  define m1 where "m1 = take 74 ?m @ replicate 18 (Some 0x20) @ drop 92 ?m"
  have m1: "poke_block ?m destination_at (replicate MAX_PLU_NAME (Some 0x20)) = Some m1"
    using assms(1) by (simp add: poke_block_def destination_at_def MAX_PLU_NAME_def m1_def)
  let ?r = "drop (75 + length d) m1"
  have l: "length m1 = 119" "take 74 m1 = take 74 ?m" using assms(1) by (simp_all add: m1_def)
  have m2: "put_string destination_at d m1 = Some (take 74 ?m @ map Some d @ Some 0 # ?r)"
    using l assms(3) by (simp add: put_string_def poke_block_def destination_at_def)
  have "strupr_at destination_at (take 74 ?m @ map Some d @ Some 0 # ?r) = Some (take 74 ?m @ map Some (map upper_byte d) @ Some 0 # ?r)"
    using assms(1) strupr_cells_string [OF assms(2), of ?r] by (simp add: strupr_at_def destination_at_def)
  moreover have "no_nul (map upper_byte d)"
  proof -
    have "upper_byte b \<noteq> 0" if "b \<noteq> 0" for b
      using that by (auto simp: upper_byte_def word_le_nat_alt unat_arith_simps)
    then show ?thesis using assms(2) unfolding no_nul_def by (metis (no_types, lifting) imageE set_map)
  qed
  ultimately show ?thesis using m1 m2 assms(1,3)
    by (intro exI [of _ "take 74 ?m @ map Some (map upper_byte d) @ Some 0 # ?r"])
      (simp add: cpic_session_set_destination_def MAX_PLU_NAME_def Let_def del: map_map)
qed

lemma session_connects:
  assumes "cs_symbolic x = Some False" "c_str (drop destination_at (cs_chars x)) = Some d" "c_str (drop tp_name_at (cs_chars x)) = Some t"
    "c_str (drop mode_name_at (cs_chars x)) = Some m"
  shows "cpic_session_init (line_end l) w x = Some (CM_OK, [1], w)"
  using assms by (simp add: cpic_session_init_def CM_OK_def)

lemma arguments_fine:
  assumes "new_arexec True = Some a" "no_nul d" "take 1 d \<noteq> [0x3F]" "length d < 18" "ts \<noteq> []" "\<forall>t \<in> set ts. no_nul t" "length (words_text ts) < MAX_COMMAND_LEN" "\<forall>t \<in> set (d # ts). \<not> option_word t"
  shows "\<exists>b. exec_arguments vs (prog # d # ts) (1, 0) False a s = Some (Inr b) \<and> holds_text (words_text ts) b
    \<and> (\<forall>w. cpic_session_init (line_end l) w (x_session b) = Some (CM_OK, [1], w))"
proof -
  have a: "length (cs_chars (x_session a)) = 119" "x_command a = replicate 500 (Some 0)" "x_command_len a = 0"
      "c_str (take 74 (cs_chars (x_session a))) = Some exec_tp" "c_str (drop 65 (take 74 (cs_chars (x_session a)))) = Some ping_mode"
    using new_arexec_form assms(1) by auto
  obtain m where m: "cpic_session_set_destination (x_session a) d = Some (0, (x_session a)\<lparr>cs_symbolic := Some False, cs_chars := m\<rparr>)"
      "take 74 m = take 74 (cs_chars (x_session a))" "c_str (drop 74 m) = Some (map upper_byte d)"
    using set_destination_form [OF a(1) assms(2,4)] by blast
  let ?x = "(x_session a)\<lparr>cs_symbolic := Some False, cs_chars := m\<rparr>"
  have "c_str (take 9 (drop 65 m)) = Some ping_mode" using a(5) unfolding m(2) [symmetric] by (simp add: drop_take)
  moreover have "c_str (take 74 m) = Some exec_tp" using a(4) m(2) by simp
  ultimately have i: "cpic_session_init (line_end l) w ?x = Some (CM_OK, [1], w)" for w
    using session_connects [of ?x _ exec_tp ping_mode l w] m(3) c_str_take [of 74 m] c_str_take [of 9 "drop 65 m"]
    by (simp add: destination_at_def tp_name_at_def mode_name_at_def)
  let ?a = "a\<lparr>x_session := ?x, x_command := replicate 500 (Some 0)\<rparr>"
  have r: "replicate 500 (Some 0) = Some 0 # replicate 499 (Some (0 :: byte))" using replicate_Suc [of 499 "Some (0 :: byte)"] by (simp del: replicate_Suc)
  have z: "poke (replicate 500 (Some (0 :: byte))) 0 (Some 0) = Some (replicate 500 (Some 0))" by (simp add: poke_def r)
  have "holds_text [] ?a" using a(3) by (simp add: holds_text_def MAX_COMMAND_LEN_def r)
  then obtain b where b: "join_words ts ?a s = Some (Inr b)" "holds_text (words_text ts) b" "x_session b = ?x"
    using join_words_text [of "[]" ?a ts s] assms(6,7) by auto
  have "words_text ts \<noteq> []" using assms(5) by (cases ts) (simp_all add: words_text_def)
  then have n: "x_command_len b \<noteq> 0" using b(2) by (simp add: holds_text_def)
  have e: "x_command a = replicate 500 (Some 0)" "take 1 d = [0x3F] \<longleftrightarrow> False" using a(2) assms(3) by simp_all
  have o: "getopt exec_letters (prog # d # ts) (1, 0) = (None, 1, 0)" "getopt exec_letters (prog # d # ts) (2, 0) = (None, 2, 0)"
    using assms(5,8) by (cases ts; simp add: getopt_def numeral_2_eq_2)+
  have "exec_arguments vs (prog # d # ts) (1, 0) False a s = exec_arguments vs (prog # d # ts) (2, 0) True (a\<lparr>x_session := ?x\<rparr>) s"
    using m(1) assms(3) o(1) by (subst exec_arguments.simps) (simp add: peek_def set_with_def numeral_2_eq_2)
  also have "\<dots> = exec_arguments vs (prog # d # ts) (length ts + 2, 0) True b s"
    using assms(5) e(1) z b(1) o(2) by (subst exec_arguments.simps) (simp add: numeral_2_eq_2)
  also have "\<dots> = Some (Inr b)" using n by (subst exec_arguments.simps) simp
  finally show ?thesis using b(2,3) i by auto
qed

lemma server_runs:
  assumes "c_str os = Some junk" "length name < 18" "no_nul c" "length c < MAX_COMMAND_LEN" "popen c = Some out"
  shows "\<exists>d. arexecd_main (line_end name) popen os (start_line [client_message AREXEC_MAJOR AREXEC_MINOR, data_block CM_SEND_RECEIVED c]) = Some (0, d)
    \<and> incoming (xline d) = []
    \<and> outgoing (xline d) = [Turned, Sent CM_BUFFER_DATA (version_answer AREXEC_MAJOR AREXEC_MINOR), Did Prepare_to_receive, Turned]
        @ map (Sent CM_SEND_AND_FLUSH) (output_pieces out) @ [Closed CM_DEALLOCATE_FLUSH]"
proof -
  let ?rest = "[data_block CM_SEND_RECEIVED c]"
  let ?i = "start_line (client_message AREXEC_MAJOR AREXEC_MINOR # ?rest)"
  have os: "os \<noteq> []" using assms(1) by (cases os) auto
  define w where "w = \<lparr>incoming = ?rest, outgoing = [Turned, Sent CM_BUFFER_DATA (version_answer AREXEC_MAJOR AREXEC_MINOR), Did Prepare_to_receive], stype = CM_BUFFER_DATA, dtype = CM_DEALLOCATE_SYNC_LEVEL\<rparr>"
  obtain v where v: "get_client_version (line_end name) ?i [1] AREXEC_MAJOR AREXEC_MINOR os (length junk) = Some (CM_OK, CM_OK, v, w)"
    using server_exchanges [where w = ?i and c = AREXEC_MAJOR and d = AREXEC_MINOR and rest = ?rest and os = os and p = name and cid = "[1]" and a = AREXEC_MAJOR
        and b = AREXEC_MINOR and n = "length junk"] os
    by (auto simp: w_def start_line_def)
  let ?s = "exec_log (''\<newline>Contacted by partner: '' @ text_of name @ ''\<newline>'') \<lparr>xline = ?i, xlog = []\<rparr>"
  have m: "arexecd_main (line_end name) popen os ?i = run_command (line_end name) popen [1] (?s\<lparr>xline := w\<rparr>)"
    using v assms(1,2) by (simp add: arexecd_main_def CM_OK_def MAX_PLU_NAME_def Let_def)
  obtain buf where b: "poke_block (replicate MAX_COMMAND_LEN None) 0 (map Some c) = Some buf" "buf = map Some c @ replicate (MAX_COMMAND_LEN - length c) None"
    using assms(4) by (simp add: poke_block_def)
  have "replicate (MAX_COMMAND_LEN - length c) (None :: byte option) = None # replicate (MAX_COMMAND_LEN - length c - 1) None"
    using assms(4) by (cases "MAX_COMMAND_LEN - length c") auto
  then have b2: "poke buf (length c) (Some 0) = Some (map Some c @ Some 0 # replicate (MAX_COMMAND_LEN - length c - 1) None)"
    unfolding b(2) by (simp add: poke_def list_update_append)
  show ?thesis unfolding m using b(1) b2 assms(3,5)
    by (auto simp: run_command_def w_def data_block_def execute_and_send_output_def send_output_all Let_def cm_consts exec_log_def)
qed


end
