(* ===== verification/Tdb.thy ===== *)
theory Tdb
  imports Sna_Prelude
begin

text \<open>
  The database of the name server (\<^verbatim>\<open>libasuite/tdb.c\<close>, \<^verbatim>\<open>libasuite/tdb.h\<close>), for a database without a file, which is the only kind the programs
  open: one block of memory that holds a header, the head of the list of free records, the heads of the hash chains, and records. An offset and a
  length are natural numbers below \<^verbatim>\<open>2^32\<close>; where the code computes in \<^verbatim>\<open>unsigned\<close> the result is truncated as written.

  \<^term>\<open>None\<close> is an access outside of the block. What a new part of the block and a structure on the stack contain before they are written is a parameter, and so is which
  allocations succeed.
\<close>

section \<open>Words in memory\<close>

definition trunc32 :: "nat \<Rightarrow> nat" where
  "trunc32 n = n mod 2 ^ 32"

definition sub32 :: "nat \<Rightarrow> nat \<Rightarrow> nat" where
  "sub32 a b = trunc32 (a + (2 ^ 32 - trunc32 b))"

definition le32 :: "nat \<Rightarrow> byte list" where
  "le32 n = [of_nat (n mod 256), of_nat (n div 256 mod 256), of_nat (n div 65536 mod 256), of_nat (n div 16777216 mod 256)]"

fun of_le32 :: "byte list \<Rightarrow> nat" where
  "of_le32 [a, b, c, d] = unat a + 256 * unat b + 65536 * unat c + 16777216 * unat d"
| "of_le32 _ = 0"

record list_struct =
  r_len :: nat
  r_next :: nat
  r_key_len :: nat
  r_data_len :: nat
  r_full_hash :: nat
  r_magic :: nat

definition struct_bytes :: "list_struct \<Rightarrow> byte list" where
  "struct_bytes r = le32 (r_len r) @ le32 (r_next r) @ le32 (r_key_len r) @ le32 (r_data_len r) @ le32 (r_full_hash r) @ le32 (r_magic r)"

definition word_at :: "byte list \<Rightarrow> nat \<Rightarrow> nat" where
  "word_at bs i = of_le32 (take 4 (drop (4 * i) bs))"

definition bytes_rec :: "byte list \<Rightarrow> list_struct" where
  "bytes_rec bs = \<lparr>r_len = word_at bs 0, r_next = word_at bs 1, r_key_len = word_at bs 2, r_data_len = word_at bs 3, r_full_hash = word_at bs 4, r_magic = word_at bs 5\<rparr>"

definition TDB_MAGIC :: nat where "TDB_MAGIC = 0x26011999"
definition TDB_FREE_MAGIC :: nat where "TDB_FREE_MAGIC = 0xD9FEE666"
definition REC_SIZE :: nat where "REC_SIZE = 24"
definition MIN_REC_SIZE :: nat where "MIN_REC_SIZE = 2 * REC_SIZE + 4"
definition DEFAULT_HASH_SIZE :: nat where "DEFAULT_HASH_SIZE = 128"
definition TDB_PAGE_SIZE :: nat where "TDB_PAGE_SIZE = 0x2000"
definition TDB_LEN_MULTIPLIER :: nat where "TDB_LEN_MULTIPLIER = 10"
definition FREELIST_TOP :: nat where "FREELIST_TOP = 40"

section \<open>The context\<close>

datatype tdb_code = TDB_SUCCESS | TDB_ERR_CORRUPT | TDB_ERR_IO | TDB_ERR_LOCK | TDB_ERR_OOM | TDB_ERR_EXISTS

record tdb =
  map_ptr :: "byte list option"
  map_size :: nat
  locked :: "int list"
  ecode :: tdb_code
  hash_size :: nat

record tdb_env =
  malloc_ok :: "nat \<Rightarrow> bool"
  realloc_ok :: "nat \<Rightarrow> bool"
  junk :: "nat \<Rightarrow> byte"
  junk_rec :: list_struct

text \<open>A lock without a file only counts.\<close>

definition tdb_lock :: "tdb \<Rightarrow> int \<Rightarrow> (int \<times> tdb) option" where
  "tdb_lock t l =
     (if l < - 1 \<or> l \<ge> int (hash_size t) then Some (- 1, t)
      else do { n \<leftarrow> peek (locked t) (nat (l + 1)); Some (0, t\<lparr>locked := (locked t)[nat (l + 1) := n + 1]\<rparr>) })"

definition tdb_unlock :: "tdb \<Rightarrow> int \<Rightarrow> (int \<times> tdb) option" where
  "tdb_unlock t l =
     (if l < - 1 \<or> l \<ge> int (hash_size t) then Some (- 1, t)
      else do {
        n \<leftarrow> peek (locked t) (nat (l + 1));
        Some (if n = 0 then (- 1, t\<lparr>ecode := TDB_ERR_LOCK\<rparr>) else (0, t\<lparr>locked := (locked t)[nat (l + 1) := n - 1]\<rparr>))
      })"

text \<open>A character has a sign; the shift of a negative one is that of its two's complement.\<close>

definition tdb_hash :: "byte list \<Rightarrow> nat" where
  "tdb_hash key =
     (let v = fold (\<lambda>(i, b) v. v + push_bit (i * 5 mod 2 ^ 32 mod 24) (scast b)) (enumerate 0 key) (0x238F13AF * of_nat (length key)) :: u32
      in unat (1103515243 * v + 12345 :: u32))"

definition bucket :: "tdb \<Rightarrow> nat \<Rightarrow> nat" where
  "bucket t hash = hash mod hash_size t"

definition tdb_hash_top :: "tdb \<Rightarrow> nat \<Rightarrow> nat" where
  "tdb_hash_top t hash = trunc32 (FREELIST_TOP + (bucket t hash + 1) * 4)"

section \<open>Reading and writing\<close>

text \<open>Without a block the calls fall back to the file, which there is not.\<close>

definition tdb_write :: "tdb \<Rightarrow> nat \<Rightarrow> byte list \<Rightarrow> (int \<times> tdb) option" where
  "tdb_write t offset buf =
     (case map_ptr t of
        None \<Rightarrow> Some (- 1, t\<lparr>ecode := TDB_ERR_IO\<rparr>)
      | Some m \<Rightarrow> do { m \<leftarrow> poke_block m offset buf; Some (0, t\<lparr>map_ptr := Some m\<rparr>) })"

definition slice :: "nat \<Rightarrow> nat \<Rightarrow> 'a list \<Rightarrow> 'a list option" where
  "slice offset len m = (if offset + len \<le> length m then Some (take len (drop offset m)) else None)"

definition tdb_read :: "tdb \<Rightarrow> nat \<Rightarrow> nat \<Rightarrow> (byte list option \<times> tdb) option" where
  "tdb_read t offset len =
     (case map_ptr t of
        None \<Rightarrow> Some (None, t\<lparr>ecode := TDB_ERR_IO\<rparr>)
      | Some m \<Rightarrow> do { bs \<leftarrow> slice offset len m; Some (Some bs, t) })"

definition tdb_alloc_read :: "tdb_env \<Rightarrow> tdb \<Rightarrow> nat \<Rightarrow> nat \<Rightarrow> (byte list option \<times> tdb) option" where
  "tdb_alloc_read e t offset len = (if malloc_ok e len then tdb_read t offset len else Some (None, t\<lparr>ecode := TDB_ERR_OOM\<rparr>))"

definition rec_write :: "tdb \<Rightarrow> nat \<Rightarrow> list_struct \<Rightarrow> (int \<times> tdb) option" where
  "rec_write t offset r = tdb_write t offset (struct_bytes r)"

definition ofs_write :: "tdb \<Rightarrow> nat \<Rightarrow> nat \<Rightarrow> (int \<times> tdb) option" where
  "ofs_write t offset d = tdb_write t offset (le32 d)"

definition ofs_read :: "tdb \<Rightarrow> nat \<Rightarrow> (nat option \<times> tdb) option" where
  "ofs_read t offset = do { (bs, t) \<leftarrow> tdb_read t offset 4; Some (map_option of_le32 bs, t) }"

definition read_struct :: "tdb \<Rightarrow> nat \<Rightarrow> (list_struct option \<times> tdb) option" where
  "read_struct t offset = do { (bs, t) \<leftarrow> tdb_read t offset REC_SIZE; Some (map_option bytes_rec bs, t) }"

definition rec_read :: "tdb \<Rightarrow> nat \<Rightarrow> (list_struct option \<times> tdb) option" where
  "rec_read t offset = do {
     (r, t) \<leftarrow> read_struct t offset;
     Some (case r of
         None \<Rightarrow> (None, t)
       | Some r \<Rightarrow> if r_magic r \<noteq> TDB_MAGIC then (None, t\<lparr>ecode := TDB_ERR_CORRUPT\<rparr>) else (Some r, t))
   }"

text \<open>What \<^verbatim>\<open>goto fail\<close> does almost everywhere.\<close>

definition fail_unlock :: "tdb \<Rightarrow> int \<Rightarrow> (int \<times> tdb) option" where
  "fail_unlock t l = do { (_, t) \<leftarrow> tdb_unlock t l; Some (- 1, t) }"

section \<open>Free space\<close>

definition round_page :: "nat \<Rightarrow> nat" where
  "round_page n = n div TDB_PAGE_SIZE * TDB_PAGE_SIZE"

definition tdb_realloc :: "tdb_env \<Rightarrow> byte list option \<Rightarrow> nat \<Rightarrow> byte list option" where
  "tdb_realloc e m n =
     (if \<not> realloc_ok e n then None
      else let old = (case m of None \<Rightarrow> [] | Some m \<Rightarrow> m) in Some (take n (old @ map (junk e) [length old ..< n])))"

text \<open>The record of the new space goes to the head of the list of free records.\<close>

definition tdb_expand :: "tdb_env \<Rightarrow> tdb \<Rightarrow> nat \<Rightarrow> (int \<times> tdb) option" where
  "tdb_expand e t len = do {
     (_, t) \<leftarrow> tdb_lock t (- 1);
     let len = trunc32 (len * TDB_LEN_MULTIPLIER);
     let len = sub32 (round_page (trunc32 (trunc32 (map_size t + len) + TDB_PAGE_SIZE))) (map_size t);
     (nxt, t) \<leftarrow> ofs_read t FREELIST_TOP;
     case nxt of
       None \<Rightarrow> fail_unlock t (- 1)
     | Some nxt \<Rightarrow> do {
         let r = (junk_rec e)\<lparr>r_len := sub32 len REC_SIZE, r_next := nxt, r_magic := TDB_FREE_MAGIC\<rparr>;
         let size = trunc32 (map_size t + len);
         let t = t\<lparr>map_size := size, map_ptr := tdb_realloc e (map_ptr t) size\<rparr>;
         (rc, t) \<leftarrow> rec_write t (sub32 size len) r;
         if rc = - 1 then fail_unlock t (- 1)
         else do {
           (rc, t) \<leftarrow> ofs_write t FREELIST_TOP (sub32 size len);
           if rc = - 1 then fail_unlock t (- 1) else do { (_, t) \<leftarrow> tdb_unlock t (- 1); Some (0, t) }
         }
       }
   }"

text \<open>A record that is much too large is split; the rest stays in the list.\<close>

definition round_align :: "nat \<Rightarrow> nat" where
  "round_align n = trunc32 (n + 4) div 4 * 4"

definition split_record :: "tdb_env \<Rightarrow> tdb \<Rightarrow> nat \<Rightarrow> list_struct \<Rightarrow> nat \<Rightarrow> (int \<times> list_struct \<times> tdb) option" where
  "split_record e t rec_ptr r len =
     (if r_len r > len + MIN_REC_SIZE then do {
        let len = round_align len;
        let newrec = (junk_rec e)\<lparr>r_len := sub32 (r_len r) (REC_SIZE + len), r_next := r_next r, r_magic := TDB_FREE_MAGIC\<rparr>;
        let r = r\<lparr>r_len := len, r_next := trunc32 (rec_ptr + REC_SIZE + len)\<rparr>;
        (rc, t) \<leftarrow> rec_write t (r_next r) newrec;
        if rc = - 1 then Some (- 1, r, t)
        else do { (rc, t) \<leftarrow> rec_write t rec_ptr r; Some (rc, r, t) }
      } else Some (0, r, t))"

datatype search = Allocated nat | Search_failed | No_space

text \<open>A record that is large enough leaves the list, after it was split.\<close>

definition take_free :: "tdb_env \<Rightarrow> tdb \<Rightarrow> nat \<Rightarrow> (nat \<times> list_struct) option \<Rightarrow> nat \<Rightarrow> list_struct \<Rightarrow> (search \<times> tdb) option" where
  "take_free e t len prev rec_ptr r = do {
     (rc, r, t) \<leftarrow> split_record e t rec_ptr r len;
     if rc = - 1 then Some (Search_failed, t)
     else do {
       (rc, t) \<leftarrow> (case prev of
           None \<Rightarrow> ofs_write t FREELIST_TOP (r_next r)
         | Some (last_ptr, lastrec) \<Rightarrow> rec_write t last_ptr (lastrec\<lparr>r_next := r_next r\<rparr>));
       Some (if rc = - 1 then Search_failed else Allocated rec_ptr, t)
     }
   }"

text \<open>One pass over the list, with the record before, if there is one.\<close>

partial_function (option) free_loop :: "tdb_env \<Rightarrow> tdb \<Rightarrow> nat \<Rightarrow> (nat \<times> list_struct) option \<Rightarrow> nat \<Rightarrow> (search \<times> tdb) option" where
  "free_loop e t len prev rec_ptr =
     (if rec_ptr = 0 then Some (No_space, t)
      else do {
        (r, t) \<leftarrow> read_struct t rec_ptr;
        case r of
          None \<Rightarrow> Some (Search_failed, t)
        | Some r \<Rightarrow>
            if r_magic r \<noteq> TDB_FREE_MAGIC then Some (Search_failed, t)
            else if r_len r \<ge> len then take_free e t len prev rec_ptr r
            else free_loop e t len (Some (rec_ptr, r)) (r_next r)
      })"

text \<open>The search starts again when the block was expanded; 0 says that there is no space.\<close>

partial_function (option) alloc_loop :: "tdb_env \<Rightarrow> tdb \<Rightarrow> nat \<Rightarrow> (nat \<times> tdb) option" where
  "alloc_loop e t len = do {
     (p, t) \<leftarrow> ofs_read t FREELIST_TOP;
     (s, t) \<leftarrow> (case p of None \<Rightarrow> Some (Search_failed, t) | Some p \<Rightarrow> free_loop e t len None p);
     case s of
       Allocated p \<Rightarrow> do { (_, t) \<leftarrow> tdb_unlock t (- 1); Some (p, t) }
     | Search_failed \<Rightarrow> do { (_, t) \<leftarrow> tdb_unlock t (- 1); Some (0, t) }
     | No_space \<Rightarrow> do {
         (rc, t) \<leftarrow> tdb_expand e t (trunc32 (len + REC_SIZE));
         if rc = 0 then alloc_loop e t len else do { (_, t) \<leftarrow> tdb_unlock t (- 1); Some (0, t) }
       }
   }"

definition tdb_allocate :: "tdb_env \<Rightarrow> tdb \<Rightarrow> nat \<Rightarrow> (nat \<times> tdb) option" where
  "tdb_allocate e t len = do { (_, t) \<leftarrow> tdb_lock t (- 1); alloc_loop e t len }"

section \<open>Finding records\<close>

text \<open>Whether the record holds the key; no answer when the memory for a copy of its key is not there.\<close>

definition key_matches :: "tdb_env \<Rightarrow> tdb \<Rightarrow> nat \<Rightarrow> list_struct \<Rightarrow> byte list \<Rightarrow> nat \<Rightarrow> (bool option \<times> tdb) option" where
  "key_matches e t rec_ptr r key hash =
     (if hash = r_full_hash r \<and> length key = r_key_len r then do {
        (k, t) \<leftarrow> tdb_alloc_read e t (trunc32 (rec_ptr + REC_SIZE)) (r_key_len r);
        Some (map_option (\<lambda>k. k = key) k, t)
      } else Some (Some False, t))"

partial_function (option) find_loop :: "tdb_env \<Rightarrow> tdb \<Rightarrow> byte list \<Rightarrow> nat \<Rightarrow> nat \<Rightarrow> ((nat \<times> list_struct) option \<times> tdb) option" where
  "find_loop e t key hash rec_ptr =
     (if rec_ptr = 0 then Some (None, t)
      else do {
        (r, t) \<leftarrow> rec_read t rec_ptr;
        case r of
          None \<Rightarrow> Some (None, t)
        | Some r \<Rightarrow> do {
            (hit, t) \<leftarrow> key_matches e t rec_ptr r key hash;
            case hit of
              None \<Rightarrow> Some (None, t)
            | Some hit \<Rightarrow> if hit then Some (Some (rec_ptr, r), t) else find_loop e t key hash (r_next r)
          }
      })"

definition tdb_find :: "tdb_env \<Rightarrow> tdb \<Rightarrow> byte list \<Rightarrow> nat \<Rightarrow> ((nat \<times> list_struct) option \<times> tdb) option" where
  "tdb_find e t key hash = do {
     (p, t) \<leftarrow> ofs_read t (tdb_hash_top t hash);
     case p of None \<Rightarrow> Some (None, t) | Some p \<Rightarrow> find_loop e t key hash p
   }"

definition locked_find :: "tdb_env \<Rightarrow> tdb \<Rightarrow> byte list \<Rightarrow> ((nat \<times> list_struct) option \<times> tdb) option" where
  "locked_find e t key = do {
     (_, t) \<leftarrow> tdb_lock t (int (bucket t (tdb_hash key)));
     tdb_find e t key (tdb_hash key)
   }"

section \<open>The operations\<close>

text \<open>New data in the place of the old, if there is room.\<close>

definition tdb_update :: "tdb_env \<Rightarrow> tdb \<Rightarrow> byte list \<Rightarrow> byte list \<Rightarrow> (int \<times> tdb) option" where
  "tdb_update e t key dbuf = do {
     let b = int (bucket t (tdb_hash key));
     (f, t) \<leftarrow> locked_find e t key;
     case f of
       None \<Rightarrow> fail_unlock t b
     | Some (rec_ptr, r) \<Rightarrow>
         if r_len r < length key + length dbuf then fail_unlock t b
         else do {
           (rc, t) \<leftarrow> tdb_write t (trunc32 (rec_ptr + REC_SIZE + r_key_len r)) dbuf;
           if rc = - 1 then fail_unlock t b
           else do {
             (ret, t) \<leftarrow> (if length dbuf \<noteq> r_data_len r then rec_write t rec_ptr (r\<lparr>r_data_len := trunc32 (length dbuf)\<rparr>) else Some (0, t));
             (_, t) \<leftarrow> tdb_unlock t b;
             Some (ret, t)
           }
         }
   }"

text \<open>The data, if there is an entry, and its length is kept apart from it.\<close>

definition tdb_fetch :: "tdb_env \<Rightarrow> tdb \<Rightarrow> byte list \<Rightarrow> (byte list option \<times> tdb) option" where
  "tdb_fetch e t key = do {
     let b = int (bucket t (tdb_hash key));
     (f, t) \<leftarrow> locked_find e t key;
     (d, t) \<leftarrow> (case f of
         None \<Rightarrow> Some (None, t)
       | Some (rec_ptr, r) \<Rightarrow> tdb_alloc_read e t (trunc32 (rec_ptr + REC_SIZE + r_key_len r)) (r_data_len r));
     (_, t) \<leftarrow> tdb_unlock t b;
     Some (d, t)
   }"

definition tdb_exists :: "tdb_env \<Rightarrow> tdb \<Rightarrow> byte list \<Rightarrow> (bool \<times> tdb) option" where
  "tdb_exists e t key = do {
     let b = int (bucket t (tdb_hash key));
     (f, t) \<leftarrow> locked_find e t key;
     (_, t) \<leftarrow> tdb_unlock t b;
     Some (f \<noteq> None, t)
   }"

text \<open>The record that was found leaves its chain and becomes the first free one.\<close>

definition unlink_record :: "tdb \<Rightarrow> nat \<Rightarrow> (nat \<times> list_struct) option \<Rightarrow> nat \<Rightarrow> list_struct \<Rightarrow> (int \<times> tdb) option" where
  "unlink_record t hash prev rec_ptr r = do {
     let b = int (bucket t hash);
     (rc, t) \<leftarrow> (case prev of
         None \<Rightarrow> ofs_write t (tdb_hash_top t hash) (r_next r)
       | Some (last_ptr, lastrec) \<Rightarrow> rec_write t last_ptr (lastrec\<lparr>r_next := r_next r\<rparr>));
     if rc = - 1 then fail_unlock t b
     else do {
       (_, t) \<leftarrow> tdb_unlock t b;
       (_, t) \<leftarrow> tdb_lock t (- 1);
       (f, t) \<leftarrow> ofs_read t FREELIST_TOP;
       case f of
         None \<Rightarrow> fail_unlock t (- 1)
       | Some f \<Rightarrow> do {
           (rc, t) \<leftarrow> rec_write t rec_ptr (r\<lparr>r_next := f, r_magic := TDB_FREE_MAGIC\<rparr>);
           if rc = - 1 then fail_unlock t (- 1)
           else do {
             (rc, t) \<leftarrow> ofs_write t FREELIST_TOP rec_ptr;
             if rc = - 1 then fail_unlock t (- 1) else do { (_, t) \<leftarrow> tdb_unlock t (- 1); Some (0, t) }
           }
         }
     }
   }"

partial_function (option) delete_loop :: "tdb_env \<Rightarrow> tdb \<Rightarrow> byte list \<Rightarrow> nat \<Rightarrow> (nat \<times> list_struct) option \<Rightarrow> nat \<Rightarrow> (int \<times> tdb) option" where
  "delete_loop e t key hash prev rec_ptr =
     (if rec_ptr = 0 then fail_unlock t (int (bucket t hash))
      else do {
        (r, t) \<leftarrow> rec_read t rec_ptr;
        case r of
          None \<Rightarrow> fail_unlock t (int (bucket t hash))
        | Some r \<Rightarrow> do {
            (hit, t) \<leftarrow> key_matches e t rec_ptr r key hash;
            case hit of
              None \<Rightarrow> fail_unlock t (int (bucket t hash))
            | Some hit \<Rightarrow> if hit then unlink_record t hash prev rec_ptr r else delete_loop e t key hash (Some (rec_ptr, r)) (r_next r)
          }
      })"

definition tdb_delete :: "tdb_env \<Rightarrow> tdb \<Rightarrow> byte list \<Rightarrow> (int \<times> tdb) option" where
  "tdb_delete e t key = do {
     let hash = tdb_hash key;
     (_, t) \<leftarrow> tdb_lock t (int (bucket t hash));
     (p, t) \<leftarrow> ofs_read t (tdb_hash_top t hash);
     case p of None \<Rightarrow> fail_unlock t (int (bucket t hash)) | Some p \<Rightarrow> delete_loop e t key hash None p
   }"

datatype store_flag = TDB_REPLACE | TDB_INSERT

text \<open>The new record with key and data, and then the head of the chain.\<close>

definition fill_record :: "tdb_env \<Rightarrow> tdb \<Rightarrow> nat \<Rightarrow> byte list \<Rightarrow> byte list \<Rightarrow> (int \<times> tdb) option" where
  "fill_record e t rec_ptr key dbuf = do {
     let hash = tdb_hash key;
     let b = int (bucket t hash);
     (r, t) \<leftarrow> read_struct t rec_ptr;
     case r of
       None \<Rightarrow> fail_unlock t b
     | Some r \<Rightarrow>
         if r_magic r \<noteq> TDB_FREE_MAGIC then fail_unlock t b
         else do {
           (head, t) \<leftarrow> ofs_read t (tdb_hash_top t hash);
           case head of
             None \<Rightarrow> fail_unlock t b
           | Some head \<Rightarrow> do {
               let r = r\<lparr>r_next := head, r_key_len := trunc32 (length key), r_data_len := trunc32 (length dbuf), r_full_hash := hash, r_magic := TDB_MAGIC\<rparr>;
               let p = struct_bytes r @ key @ dbuf;
               if \<not> malloc_ok e (length p) then fail_unlock (t\<lparr>ecode := TDB_ERR_OOM\<rparr>) b
               else do {
                 (rc, t) \<leftarrow> tdb_write t rec_ptr (take (trunc32 (length p)) p);
                 if rc = - 1 then fail_unlock t b
                 else do {
                   (rc, t) \<leftarrow> ofs_write t (tdb_hash_top t hash) rec_ptr;
                   if rc = - 1 then fail_unlock t b else do { (_, t) \<leftarrow> tdb_unlock t b; Some (0, t) }
                 }
               }
             }
         }
   }"

definition tdb_store :: "tdb_env \<Rightarrow> tdb \<Rightarrow> byte list \<Rightarrow> byte list \<Rightarrow> store_flag \<Rightarrow> (int \<times> tdb) option" where
  "tdb_store e t key dbuf flag = do {
     let b = int (bucket t (tdb_hash key));
     (there, t) \<leftarrow> (if flag = TDB_INSERT then tdb_exists e t key else Some (False, t));
     if there then Some (- 1, t\<lparr>ecode := TDB_ERR_EXISTS\<rparr>)
     else do {
       (rc, t) \<leftarrow> (if flag \<noteq> TDB_INSERT then tdb_update e t key dbuf else Some (- 1, t));
       if rc = 0 then Some (0, t)
       else do {
         (rec_ptr, t) \<leftarrow> tdb_allocate e t (trunc32 (length key + length dbuf));
         if rec_ptr = 0 then Some (- 1, t)
         else do {
           (_, t) \<leftarrow> tdb_lock t b;
           (_, t) \<leftarrow> (if flag \<noteq> TDB_INSERT then tdb_delete e t key else Some (0, t));
           fill_record e t rec_ptr key dbuf
         }
       }
     }
   }"

section \<open>Opening, closing and walking\<close>

text \<open>The size of a new database without a file: the header, and the heads in blocks of sixteen and one by one.\<close>

definition new_size :: "nat \<Rightarrow> nat" where
  "new_size n = 40 + 64 * ((n + 1) div 16) + 4 * ((n + 1) mod 16)"

definition tdb_new_database :: "tdb_env \<Rightarrow> nat \<Rightarrow> tdb \<Rightarrow> (int \<times> tdb)" where
  "tdb_new_database e n t =
     (if malloc_ok e (new_size n) then (0, t\<lparr>map_ptr := Some (replicate (new_size n) 0), map_size := new_size n, hash_size := n\<rparr>)
      else (- 1, t\<lparr>map_ptr := None, map_size := new_size n, ecode := TDB_ERR_IO\<rparr>))"

datatype accmode = O_RDONLY | O_WRONLY | O_RDWR

text \<open>
  Reading the header from the descriptor that there is not fails, so the database is always a new one. When memory runs out after the block was made, it is
  unmapped although it was never mapped; that is a fault of the system call which nobody looks at.
\<close>

definition tdb_open :: "tdb_env \<Rightarrow> nat \<Rightarrow> accmode \<Rightarrow> bool \<Rightarrow> tdb option" where
  "tdb_open e n mode creat =
     (let n = (if n = 0 then DEFAULT_HASH_SIZE else n);
          (rc, t) = tdb_new_database e n \<lparr>map_ptr = None, map_size = 0, locked = [], ecode = TDB_SUCCESS, hash_size = 0\<rparr>
      in if mode = O_WRONLY \<or> \<not> creat \<or> rc = - 1 \<or> \<not> malloc_ok e (4 * (hash_size t + 1)) \<or> \<not> malloc_ok e 96 then None
         else Some (t\<lparr>locked := replicate (hash_size t + 1) 0\<rparr>))"

definition null_tdb :: "'a \<Rightarrow> (tdb \<Rightarrow> ('a \<times> tdb) option) \<Rightarrow> tdb option \<Rightarrow> ('a \<times> tdb option) option" where
  "null_tdb v f db = (case db of None \<Rightarrow> Some (v, None) | Some t \<Rightarrow> map_option (\<lambda>(x, t). (x, Some t)) (f t))"

definition tdb_close :: "tdb option \<Rightarrow> int" where
  "tdb_close db = (if db = None then - 1 else 0)"

definition tdb_writelock :: "tdb \<Rightarrow> (int \<times> tdb) option" where
  "tdb_writelock t = tdb_lock t (- 1)"

definition tdb_writeunlock :: "tdb \<Rightarrow> (int \<times> tdb) option" where
  "tdb_writeunlock t = tdb_unlock t (- 1)"

definition tdb_lockchain :: "tdb \<Rightarrow> byte list \<Rightarrow> (int \<times> tdb) option" where
  "tdb_lockchain t key = tdb_lock t (int (bucket t (tdb_hash key)))"

definition tdb_unlockchain :: "tdb \<Rightarrow> byte list \<Rightarrow> (int \<times> tdb) option" where
  "tdb_unlockchain t key = tdb_unlock t (int (bucket t (tdb_hash key)))"

definition tdb_get_int :: "tdb_env \<Rightarrow> tdb \<Rightarrow> byte list \<Rightarrow> (int \<times> tdb) option" where
  "tdb_get_int e t keystr = do {
     (d, t) \<leftarrow> tdb_fetch e t keystr;
     Some (case d of Some bs \<Rightarrow> if length bs = 4 then sint (word_of_nat (of_le32 bs) :: u32) else - 1 | None \<Rightarrow> - 1, t)
   }"

definition tdb_store_int :: "tdb_env \<Rightarrow> tdb \<Rightarrow> byte list \<Rightarrow> int \<Rightarrow> (int \<times> tdb) option" where
  "tdb_store_int e t keystr v = tdb_store e t keystr (le32 (unat (word_of_int v :: u32))) TDB_REPLACE"

text \<open>The key of a record, with the lock given back.\<close>

definition read_key :: "tdb_env \<Rightarrow> tdb \<Rightarrow> int \<Rightarrow> nat \<Rightarrow> (byte list option \<times> tdb) option" where
  "read_key e t b rec_ptr = do {
     (r, t) \<leftarrow> rec_read t rec_ptr;
     case r of
       None \<Rightarrow> do { (_, t) \<leftarrow> tdb_unlock t b; Some (None, t) }
     | Some r \<Rightarrow> do {
         (k, t) \<leftarrow> tdb_alloc_read e t (trunc32 (rec_ptr + REC_SIZE)) (r_key_len r);
         (_, t) \<leftarrow> tdb_unlock t b;
         Some (k, t)
       }
   }"

text \<open>The chain of a bucket with its lock held, and the record at its head; the lock of an empty chain is given back by the caller.\<close>

definition chain_head :: "tdb \<Rightarrow> nat \<Rightarrow> (nat option \<times> tdb) option" where
  "chain_head t b = do { (_, t) \<leftarrow> tdb_lock t (int b); ofs_read t (tdb_hash_top t b) }"

function first_from :: "tdb_env \<Rightarrow> tdb \<Rightarrow> nat \<Rightarrow> nat \<Rightarrow> (byte list option \<times> tdb) option" where
  "first_from e t n b =
     (if b \<ge> n then Some (None, t)
      else do {
        (p, t) \<leftarrow> chain_head t b;
        case p of
          None \<Rightarrow> do { (_, t) \<leftarrow> tdb_unlock t (int b); Some (None, t) }
        | Some p \<Rightarrow>
            if p \<noteq> 0 then read_key e t (int b) p
            else do { (_, t) \<leftarrow> tdb_unlock t (int b); first_from e t n (b + 1) }
      })"
  by pat_completeness auto
termination by (relation "measure (\<lambda>(e, t, n, b). n - b)") auto

declare first_from.simps [simp del]

definition tdb_firstkey :: "tdb_env \<Rightarrow> tdb \<Rightarrow> (byte list option \<times> tdb) option" where
  "tdb_firstkey e t = first_from e t (hash_size t) 0"

text \<open>The next record of the chain, or the first one of a later chain; the last chain is never looked at.\<close>

function next_from :: "tdb_env \<Rightarrow> tdb \<Rightarrow> nat \<Rightarrow> nat \<Rightarrow> (byte list option \<times> tdb) option" where
  "next_from e t n b = do {
     (_, t) \<leftarrow> tdb_unlock t (int b);
     if b + 1 \<ge> n - 1 then Some (None, t)
     else do {
       (p, t) \<leftarrow> chain_head t (b + 1);
       case p of
         None \<Rightarrow> do { (_, t) \<leftarrow> tdb_unlock t (int (b + 1)); Some (None, t) }
       | Some p \<Rightarrow> if p \<noteq> 0 then read_key e t (int (b + 1)) p else next_from e t n (b + 1)
     }
   }"
  by pat_completeness auto
termination by (relation "measure (\<lambda>(e, t, n, b). n - b)") auto

declare next_from.simps [simp del]

definition tdb_nextkey :: "tdb_env \<Rightarrow> tdb \<Rightarrow> byte list \<Rightarrow> (byte list option \<times> tdb) option" where
  "tdb_nextkey e t key = do {
     let b = bucket t (tdb_hash key);
     (f, t) \<leftarrow> locked_find e t key;
     case f of
       Some (_, r) \<Rightarrow> if r_next r \<noteq> 0 then read_key e t (int b) (r_next r) else next_from e t (hash_size t) b
     | None \<Rightarrow> next_from e t (hash_size t) b
   }"

text \<open>A walk over all records: the number of them, or of those until the function asks to stop; the function gets the database and may change it.\<close>

type_synonym 's visitor = "tdb \<Rightarrow> byte list \<Rightarrow> byte list \<Rightarrow> 's \<Rightarrow> int \<times> tdb \<times> 's"

datatype walk = Chain_done int | Walk_stopped int | Walk_failed

partial_function (option) traverse_chain :: "tdb_env \<Rightarrow> 's visitor option \<Rightarrow> nat \<Rightarrow> int \<Rightarrow> tdb \<Rightarrow> 's \<Rightarrow> (walk \<times> tdb \<times> 's) option" where
  "traverse_chain e fn rec_ptr count t s =
     (if rec_ptr = 0 then Some (Chain_done count, t, s)
      else do {
        (r, t) \<leftarrow> rec_read t rec_ptr;
        case r of
          None \<Rightarrow> Some (Walk_failed, t, s)
        | Some r \<Rightarrow> do {
            (d, t) \<leftarrow> tdb_alloc_read e t (trunc32 (rec_ptr + REC_SIZE)) (trunc32 (r_key_len r + r_data_len r));
            case d of
              None \<Rightarrow> Some (Walk_failed, t, s)
            | Some d \<Rightarrow>
                let (stop, t, s) = (case fn of None \<Rightarrow> (0, t, s) | Some f \<Rightarrow> f t (take (r_key_len r) d) (drop (r_key_len r) d) s)
                in if stop \<noteq> 0 then Some (Walk_stopped (count + 1), t, s) else traverse_chain e fn (r_next r) (count + 1) t s
          }
      })"

fun traverse_from :: "tdb_env \<Rightarrow> 's visitor option \<Rightarrow> nat list \<Rightarrow> int \<Rightarrow> tdb \<Rightarrow> 's \<Rightarrow> (int \<times> tdb \<times> 's) option" where
  "traverse_from e fn [] count t s = Some (count, t, s)"
| "traverse_from e fn (b # bs) count t s = do {
     (p, t) \<leftarrow> chain_head t b;
     (w, t, s) \<leftarrow> (case p of None \<Rightarrow> Some (Walk_failed, t, s) | Some p \<Rightarrow> traverse_chain e fn p count t s);
     (_, t) \<leftarrow> tdb_unlock t (int b);
     case w of
       Chain_done count \<Rightarrow> traverse_from e fn bs count t s
     | Walk_stopped count \<Rightarrow> Some (count, t, s)
     | Walk_failed \<Rightarrow> Some (- 1, t, s)
   }"

definition tdb_traverse :: "tdb_env \<Rightarrow> 's visitor option \<Rightarrow> tdb \<Rightarrow> 's \<Rightarrow> (int \<times> tdb \<times> 's) option" where
  "tdb_traverse e fn t s = traverse_from e fn [0 ..< hash_size t] 0 t s"

text \<open>The words for the last error.\<close>

fun code_text :: "tdb_code \<Rightarrow> string" where
  "code_text TDB_SUCCESS = ''Success''"
| "code_text TDB_ERR_CORRUPT = ''Corrupt database''"
| "code_text TDB_ERR_IO = ''IO Error''"
| "code_text TDB_ERR_LOCK = ''Locking error''"
| "code_text TDB_ERR_OOM = ''Out of memory''"
| "code_text TDB_ERR_EXISTS = ''Record exists''"

definition tdb_error :: "tdb option \<Rightarrow> string" where
  "tdb_error db = (case db of None \<Rightarrow> ''Invalid tdb context'' | Some t \<Rightarrow> code_text (ecode t))"
end
