(* ===== verification/Tdb_Layout.thy ===== *)
theory Tdb_Layout
  imports Tdb
begin

text \<open>
  The block of a database (\<^verbatim>\<open>libasuite/tdb.c\<close>) seen as a structure: the heads of the lists, the records at their addresses, and the frame lemmas that say what a write
  leaves alone. The chains of records follow the abstraction of linked lists in a heap; the invariant is stated over the views only.
\<close>

section \<open>Words and structures in memory\<close>

lemma length_le32 [simp]: "length (le32 n) = 4"
  by (simp add: le32_def)

lemma of_le32_le32: "n < 2 ^ 32 \<Longrightarrow> of_le32 (le32 n) = n"
proof -
  assume n: "n < 2 ^ 32"
  have u: "unat (of_nat (k mod 256) :: byte) = k mod 256" for k by (simp add: unat_of_nat)
  have "n div 16777216 < 256" using n by (simp add: div_less_iff_less_mult)
  then have d: "n div 16777216 mod 256 = n div 16777216" by simp
  have a: "n div 256 = 256 * (n div 65536) + n div 256 mod 256" using div_mult2_eq [of n 256 256] by simp
  have b: "n div 65536 = 256 * (n div 16777216) + n div 65536 mod 256" using div_mult2_eq [of n 65536 256] by simp
  have c: "n = 256 * (n div 256) + n mod 256" by simp
  have "of_le32 (le32 n) = n mod 256 + 256 * (n div 256 mod 256) + 65536 * (n div 65536 mod 256) + 16777216 * (n div 16777216)"
    by (simp only: le32_def of_le32.simps u) (simp only: d)
  then show ?thesis using a b c by linarith
qed

lemma of_le32_bound: "of_le32 bs < 2 ^ 32"
proof (induction bs rule: of_le32.induct)
  case (1 a b c d)
  have "unat a < 256" "unat b < 256" "unat c < 256" "unat d < 256" using unsigned_less [of a] unsigned_less [of b] unsigned_less [of c] unsigned_less [of d] by simp_all
  then show ?case by simp
qed simp_all

lemma length_rec_bytes [simp]: "length (struct_bytes r) = 24"
  by (simp add: struct_bytes_def)

definition wf_rec :: "list_struct \<Rightarrow> bool" where
  "wf_rec r \<longleftrightarrow> r_len r < 2 ^ 32 \<and> r_next r < 2 ^ 32 \<and> r_key_len r < 2 ^ 32 \<and> r_data_len r < 2 ^ 32 \<and> r_full_hash r < 2 ^ 32 \<and> r_magic r < 2 ^ 32"

lemma bytes_rec_bytes: "wf_rec r \<Longrightarrow> bytes_rec (struct_bytes r) = r"
  by (simp add: bytes_rec_def struct_bytes_def word_at_def wf_rec_def of_le32_le32)

lemma wf_bytes_rec: "wf_rec (bytes_rec bs)"
  by (simp add: wf_rec_def bytes_rec_def word_at_def of_le32_bound [simplified])

section \<open>Views\<close>

definition link :: "byte list \<Rightarrow> nat \<Rightarrow> nat" where
  "link m p = of_le32 (take 4 (drop p m))"

definition rec_at :: "byte list \<Rightarrow> nat \<Rightarrow> list_struct" where
  "rec_at m p = bytes_rec (take 24 (drop p m))"

definition key_at :: "byte list \<Rightarrow> nat \<Rightarrow> byte list" where
  "key_at m p = take (r_key_len (rec_at m p)) (drop (p + 24) m)"

definition data_at :: "byte list \<Rightarrow> nat \<Rightarrow> byte list" where
  "data_at m p = take (r_data_len (rec_at m p)) (drop (p + 24 + r_key_len (rec_at m p)) m)"

text \<open>The head of the free records is number 0, that of bucket \<open>i\<close> number \<open>i + 1\<close>.\<close>

definition head_at :: "nat \<Rightarrow> nat" where
  "head_at k = 40 + 4 * k"

definition first_record :: "nat \<Rightarrow> nat" where
  "first_record n = 40 + 4 * (n + 1)"

definition patch :: "byte list \<Rightarrow> nat \<Rightarrow> byte list \<Rightarrow> byte list" where
  "patch m p bs = take p m @ bs @ drop (p + length bs) m"

lemma length_patch [simp]: "p + length bs \<le> length m \<Longrightarrow> length (patch m p bs) = length m"
  by (simp add: patch_def)

lemma patch_other:
  assumes "p + length bs \<le> length m" "q + k \<le> p \<or> p + length bs \<le> q"
  shows "take k (drop q (patch m p bs)) = take k (drop q m)"
  using assms(2)
proof
  assume a: "q + k \<le> p"
  have "take k (drop q (patch m p bs)) = take k (drop q (take p (patch m p bs)))" using a by (simp add: take_drop min_absorb1)
  also have "take p (patch m p bs) = take p m" using assms(1) by (simp add: patch_def)
  finally show ?thesis using a by (simp add: take_drop min_absorb1)
next
  assume a: "p + length bs \<le> q"
  then have "drop q (patch m p bs) = drop (q - (p + length bs)) (drop (p + length bs) (patch m p bs))" by simp
  also have "drop (p + length bs) (patch m p bs) = drop (p + length bs) m" using assms(1) by (simp add: patch_def)
  finally show ?thesis using a by simp
qed

lemma patch_here: "p + length bs \<le> length m \<Longrightarrow> take (length bs) (drop p (patch m p bs)) = bs"
  by (simp add: patch_def)

lemma patch_inside:
  assumes "p + length (a @ b @ c) \<le> length m"
  shows "take (length b) (drop (p + length a) (patch m p (a @ b @ c))) = b"
  using assms by (simp add: patch_def)

text \<open>What a write of a link, a record or a part of one does to the views.\<close>

lemma link_patch_link:
  assumes "v < 2 ^ 32" "p + 4 \<le> length m" "q + 4 \<le> p \<or> p + 4 \<le> q \<or> q = p"
  shows "link (patch m p (le32 v)) q = (if q = p then v else link m q)"
  using assms patch_here [of p "le32 v" m] patch_other [of p "le32 v" m q 4] by (auto simp: link_def of_le32_le32)

lemma views_patch:
  assumes "p + length bs \<le> length m" "q + 24 + k \<le> p \<or> p + length bs \<le> q" "r_key_len (rec_at m q) + r_data_len (rec_at m q) \<le> k"
  shows "rec_at (patch m p bs) q = rec_at m q" "key_at (patch m p bs) q = key_at m q" "data_at (patch m p bs) q = data_at m q"
proof -
  show r: "rec_at (patch m p bs) q = rec_at m q"
    unfolding rec_at_def using assms(2) patch_other [OF assms(1), of q 24] by auto
  show "key_at (patch m p bs) q = key_at m q"
    unfolding key_at_def r by (rule patch_other [OF assms(1)]) (use assms(2,3) in auto)
  show "data_at (patch m p bs) q = data_at m q"
    unfolding data_at_def r by (rule patch_other [OF assms(1)]) (use assms(2,3) in auto)
qed

lemma rec_at_patch_other: "p + length bs \<le> length m \<Longrightarrow> q + 24 \<le> p \<or> p + length bs \<le> q \<Longrightarrow> rec_at (patch m p bs) q = rec_at m q"
  by (simp add: rec_at_def patch_other)

lemma link_patch_other: "p + length bs \<le> length m \<Longrightarrow> q + 4 \<le> p \<or> p + length bs \<le> q \<Longrightarrow> link (patch m p bs) q = link m q"
  by (simp add: link_def patch_other)

lemma rec_at_patch_rec: "wf_rec r \<Longrightarrow> p + 24 \<le> length m \<Longrightarrow> rec_at (patch m p (struct_bytes r)) p = r"
  using patch_here [of p "struct_bytes r" m] by (simp add: rec_at_def bytes_rec_bytes)

text \<open>A record whose lengths stay keeps its key and its data when its head is written.\<close>

lemma body_patch_rec:
  assumes "wf_rec r" "p + 24 \<le> length m" "r_key_len r = r_key_len (rec_at m p)" "r_data_len r = r_data_len (rec_at m p)"
  shows "key_at (patch m p (struct_bytes r)) p = key_at m p" "data_at (patch m p (struct_bytes r)) p = data_at m p"
  using assms by (simp_all add: key_at_def data_at_def rec_at_patch_rec patch_other)

section \<open>Operations on a database that has its block\<close>

definition db :: "byte list \<Rightarrow> int list \<Rightarrow> tdb_code \<Rightarrow> nat \<Rightarrow> tdb" where
  "db m L c n = \<lparr>map_ptr = Some m, map_size = length m, locked = L, ecode = c, hash_size = n\<rparr>"

definition inc :: "int list \<Rightarrow> int \<Rightarrow> int list" where
  "inc L l = L[nat (l + 1) := L ! nat (l + 1) + 1]"

definition locks_ok :: "nat \<Rightarrow> int list \<Rightarrow> bool" where
  "locks_ok n L \<longleftrightarrow> length L = n + 1 \<and> (\<forall>x \<in> set L. 0 \<le> x)"

lemma db_simps [simp]:
  "map_ptr (db m L c n) = Some m" "map_size (db m L c n) = length m" "locked (db m L c n) = L" "hash_size (db m L c n) = n"
  "(db m L c n)\<lparr>ecode := c'\<rparr> = db m L c' n"
  by (simp_all add: db_def)

lemma db_eq_iff: "db m L c n = db m' L' c' n' \<longleftrightarrow> m = m' \<and> L = L' \<and> c = c' \<and> n = n'"
  by (auto simp: db_def)

lemma locks_inc: "locks_ok n L \<Longrightarrow> - 1 \<le> l \<Longrightarrow> l < int n \<Longrightarrow> locks_ok n (inc L l)"
proof -
  assume a: "locks_ok n L" "- 1 \<le> l" "l < int n"
  then have "nat (l + 1) < length L" by (simp add: locks_ok_def)
  then show ?thesis using a set_update_subset_insert [of L "nat (l + 1)" "L ! nat (l + 1) + 1"]
    by (auto simp: locks_ok_def inc_def dest!: subsetD)
qed

lemma lock_db: "locks_ok n L \<Longrightarrow> - 1 \<le> l \<Longrightarrow> l < int n \<Longrightarrow> tdb_lock (db m L c n) l = Some (0, db m (inc L l) c n)"
  by (simp add: tdb_lock_def peek_def locks_ok_def inc_def db_def)

lemma unlock_db:
  assumes "locks_ok n L" "- 1 \<le> l" "l < int n"
  shows "tdb_unlock (db m (inc L l) c n) l = Some (0, db m L c n)"
proof -
  have l: "nat (l + 1) < length L" using assms by (simp add: locks_ok_def)
  then have "0 \<le> L ! nat (l + 1)" using assms(1) by (simp add: locks_ok_def)
  then show ?thesis using assms l by (simp add: tdb_unlock_def peek_def inc_def db_def)
qed

lemma read_db:
  "p + k \<le> length m \<Longrightarrow> tdb_read (db m L c n) p k = Some (Some (take k (drop p m)), db m L c n)"
  "p + 4 \<le> length m \<Longrightarrow> ofs_read (db m L c n) p = Some (Some (link m p), db m L c n)"
  "p + 24 \<le> length m \<Longrightarrow> read_struct (db m L c n) p = Some (Some (rec_at m p), db m L c n)"
  "p + 24 \<le> length m \<Longrightarrow> r_magic (rec_at m p) = TDB_MAGIC \<Longrightarrow> rec_read (db m L c n) p = Some (Some (rec_at m p), db m L c n)"
  by (simp_all add: tdb_read_def slice_def ofs_read_def link_def read_struct_def rec_at_def rec_read_def REC_SIZE_def)

lemma write_db:
  "p + length bs \<le> length m \<Longrightarrow> tdb_write (db m L c n) p bs = Some (0, db (patch m p bs) L c n)"
  "p + 4 \<le> length m \<Longrightarrow> ofs_write (db m L c n) p d = Some (0, db (patch m p (le32 d)) L c n)"
  "p + 24 \<le> length m \<Longrightarrow> rec_write (db m L c n) p r = Some (0, db (patch m p (struct_bytes r)) L c n)"
  by (simp_all add: tdb_write_def poke_block_def ofs_write_def rec_write_def patch_def db_def)

section \<open>Chains\<close>

fun rec_chain :: "(nat \<Rightarrow> list_struct) \<Rightarrow> nat \<Rightarrow> nat \<Rightarrow> nat list \<Rightarrow> bool" where
  "rec_chain H mg p [] \<longleftrightarrow> p = 0"
| "rec_chain H mg p (x # xs) \<longleftrightarrow> p = x \<and> x \<noteq> 0 \<and> r_magic (H x) = mg \<and> rec_chain H mg (r_next (H x)) xs"

lemma chain_cong: "(\<And>x. x \<in> set xs \<Longrightarrow> H x = H' x) \<Longrightarrow> rec_chain H mg p xs = rec_chain H' mg p xs"
  by (induction xs arbitrary: p) auto

text \<open>Taking a record out of the middle, putting one there, and cutting one in two, by the record in front of it.\<close>

lemma chain_skip:
  assumes "rec_chain H mg p (us @ x # vs)" "us \<noteq> []" "distinct (us @ x # vs)"
    and "H' (last us) = (H (last us))\<lparr>r_next := y\<rparr>" "\<And>z. z \<in> set us \<Longrightarrow> z \<noteq> last us \<Longrightarrow> H' z = H z" "rec_chain H' mg y ws"
  shows "rec_chain H' mg p (us @ ws)"
  using assms
proof (induction us arbitrary: p)
  case (Cons u us)
  show ?case
  proof (cases "us = []")
    case True
    then show ?thesis using Cons.prems by simp
  next
    case False
    have "u \<noteq> last us" using Cons.prems(3) False by auto
    then have "H' u = H u" using Cons.prems(5) [of u] False by simp
    then show ?thesis using Cons.prems False Cons.IH [of "r_next (H u)"] by auto
  qed
qed simp

lemma chain_tail: "rec_chain H mg p (us @ x # vs) \<Longrightarrow> x \<noteq> 0 \<and> r_magic (H x) = mg \<and> rec_chain H mg (r_next (H x)) vs"
  by (induction us arbitrary: p) auto

lemma chain_mem: "rec_chain H mg p xs \<Longrightarrow> x \<in> set xs \<Longrightarrow> x \<noteq> 0 \<and> r_magic (H x) = mg"
  by (induction xs arbitrary: p) auto
end
