(* ===== verification/Tdb_Map.thy ===== *)
theory Tdb_Map
  imports Tdb_Layout
begin

text \<open>
  The database (\<^verbatim>\<open>libasuite/tdb.c\<close>) is a map from keys to data: every operation keeps the layout of the block, returns what the map says and changes the map as it
  should, as long as the block stays below four gigabytes and memory lasts. The contract is the locale \<open>keyed_store\<close>, which the database interprets.
\<close>

section \<open>The invariant\<close>

text \<open>Records do not overlap; the body of a record that is in use holds its key and its data.\<close>

definition spaced :: "(nat \<Rightarrow> list_struct) \<Rightarrow> nat \<Rightarrow> nat \<Rightarrow> nat set \<Rightarrow> bool" where
  "spaced H lo hi A \<longleftrightarrow> (\<forall>x \<in> A. lo \<le> x \<and> x + 24 + r_len (H x) \<le> hi)
     \<and> (\<forall>x \<in> A. \<forall>y \<in> A. x \<noteq> y \<longrightarrow> x + 24 + r_len (H x) \<le> y \<or> y + 24 + r_len (H y) \<le> x)"

definition in_use :: "nat \<Rightarrow> (nat \<Rightarrow> nat list) \<Rightarrow> nat set" where
  "in_use n ch = (\<Union>i<n. set (ch i))"

text \<open>\<open>X\<close> holds records that are in no list: the one that was allocated and is not filled yet.\<close>

definition laid :: "(nat \<Rightarrow> nat) \<Rightarrow> (nat \<Rightarrow> list_struct) \<Rightarrow> (nat \<Rightarrow> byte list) \<Rightarrow> nat \<Rightarrow> nat \<Rightarrow> nat set \<Rightarrow> nat list \<Rightarrow> (nat \<Rightarrow> nat list) \<Rightarrow> bool" where
  "laid tp H K n hi X fr ch \<longleftrightarrow>
     rec_chain H TDB_FREE_MAGIC (tp 0) fr \<and> (\<forall>i<n. rec_chain H TDB_MAGIC (tp (Suc i)) (ch i))
     \<and> distinct fr \<and> (\<forall>i<n. distinct (ch i)) \<and> X \<inter> (set fr \<union> in_use n ch) = {} \<and> (\<forall>x \<in> X. r_magic (H x) = TDB_FREE_MAGIC)
     \<and> spaced H (first_record n) hi (X \<union> set fr \<union> in_use n ch)
     \<and> (\<forall>i<n. \<forall>x \<in> set (ch i). r_key_len (H x) + r_data_len (H x) \<le> r_len (H x) \<and> r_full_hash (H x) = tdb_hash (K x) \<and> tdb_hash (K x) mod n = i)
     \<and> (\<forall>i<n. inj_on K (set (ch i)))"

text \<open>What the block shows of the heads, of the records of a set, and of the bodies of a smaller one.\<close>

definition sees :: "byte list \<Rightarrow> nat \<Rightarrow> nat set \<Rightarrow> nat set \<Rightarrow> (nat \<Rightarrow> nat) \<Rightarrow> (nat \<Rightarrow> list_struct) \<Rightarrow> (nat \<Rightarrow> byte list) \<Rightarrow> (nat \<Rightarrow> byte list) \<Rightarrow> bool" where
  "sees m n A B tp H K D \<longleftrightarrow> first_record n \<le> length m \<and> (\<forall>k \<le> n. link m (head_at k) = tp k)
     \<and> (\<forall>x \<in> A. first_record n \<le> x \<and> x + 24 \<le> length m \<and> rec_at m x = H x) \<and> B \<subseteq> A \<and> (\<forall>x \<in> B. key_at m x = K x \<and> data_at m x = D x)"

definition all_malloc :: "tdb_env \<Rightarrow> bool" where
  "all_malloc e \<longleftrightarrow> (\<forall>k. malloc_ok e k \<and> realloc_ok e k) \<and> wf_rec (junk_rec e)"

definition layout :: "byte list \<Rightarrow> nat \<Rightarrow> nat set \<Rightarrow> nat list \<Rightarrow> (nat \<Rightarrow> nat list) \<Rightarrow> bool" where
  "layout m n X fr ch \<longleftrightarrow> 0 < n \<and> first_record n \<le> length m \<and> length m < 2 ^ 32
     \<and> laid (\<lambda>k. link m (head_at k)) (rec_at m) (key_at m) n (length m) X fr ch"

definition look :: "byte list \<Rightarrow> nat \<Rightarrow> (nat \<Rightarrow> nat list) \<Rightarrow> byte list \<Rightarrow> byte list option" where
  "look m n ch key = map_option (data_at m) (find (\<lambda>x. key_at m x = key) (ch (tdb_hash key mod n)))"

lemma find_split: "find P xs = Some x \<Longrightarrow> \<exists>us vs. xs = us @ x # vs \<and> P x \<and> (\<forall>u \<in> set us. \<not> P u)"
proof (induction xs)
  case (Cons y ys)
  show ?case
  proof (cases "P y")
    case True
    then show ?thesis using Cons.prems by (intro exI [of _ "[]"] exI [of _ ys]) auto
  next
    case False
    then obtain us vs where "ys = us @ x # vs" "P x" "\<forall>u \<in> set us. \<not> P u" using Cons by auto
    then show ?thesis using False by (intro exI [of _ "y # us"] exI [of _ vs]) auto
  qed
qed simp

lemma laid_cong:
  assumes "\<And>k. k \<le> n \<Longrightarrow> tp k = tp' k" "\<And>x. x \<in> X \<union> set fr \<union> in_use n ch \<Longrightarrow> H x = H' x" "\<And>x. x \<in> in_use n ch \<Longrightarrow> K x = K' x"
  shows "laid tp H K n hi X fr ch = laid tp' H' K' n hi X fr ch"
proof -
  have "rec_chain H TDB_FREE_MAGIC (tp 0) fr = rec_chain H' TDB_FREE_MAGIC (tp' 0) fr"
    using assms(1) [of 0] chain_cong [of fr H H' TDB_FREE_MAGIC "tp 0"] assms(2) by auto
  moreover have "i < n \<Longrightarrow> rec_chain H TDB_MAGIC (tp (Suc i)) (ch i) = rec_chain H' TDB_MAGIC (tp' (Suc i)) (ch i)" for i
    using assms(1) [of "Suc i"] chain_cong [of "ch i" H H' TDB_MAGIC "tp (Suc i)"] assms(2) by (auto simp: in_use_def)
  moreover have "spaced H (first_record n) hi (X \<union> set fr \<union> in_use n ch) = spaced H' (first_record n) hi (X \<union> set fr \<union> in_use n ch)"
    using assms(2) by (simp add: spaced_def)
  moreover have "i < n \<Longrightarrow> x \<in> set (ch i) \<Longrightarrow> H x = H' x \<and> K x = K' x" for i x using assms(2,3) by (auto simp: in_use_def)
  moreover have "i < n \<Longrightarrow> inj_on K (set (ch i)) = inj_on K' (set (ch i))" for i
    using assms(3) by (intro inj_on_cong) (auto simp: in_use_def)
  ultimately show ?thesis using assms(2) by (simp add: laid_def)
qed

section \<open>Finding a key\<close>

definition holds_entry :: "byte list \<Rightarrow> nat \<Rightarrow> bool" where
  "holds_entry m x \<longleftrightarrow> x + 24 + r_key_len (rec_at m x) + r_data_len (rec_at m x) \<le> length m \<and> r_full_hash (rec_at m x) = tdb_hash (key_at m x)"

lemma key_matches_db:
  assumes "all_malloc e" "holds_entry m x" "length m < 2 ^ 32"
  shows "key_matches e (db m L c n) x (rec_at m x) key (tdb_hash key) = Some (Some (key_at m x = key), db m L c n)"
proof -
  have l: "length (key_at m x) = r_key_len (rec_at m x)" using assms(2) by (auto simp: key_at_def holds_entry_def min_def)
  have "x + 24 < 2 ^ 32 \<or> length m = x + 24" using assms(2,3) by (auto simp: holds_entry_def)
  then have t: "trunc32 (x + REC_SIZE) = x + 24" using assms(3) by (auto simp: trunc32_def REC_SIZE_def)
  have "tdb_alloc_read e (db m L c n) (x + 24) (r_key_len (rec_at m x)) = Some (Some (key_at m x), db m L c n)"
    using assms(1,2) by (simp add: tdb_alloc_read_def all_malloc_def read_db holds_entry_def key_at_def)
  then show ?thesis using l t assms(2) by (auto simp: key_matches_def holds_entry_def)
qed

lemma entry_readable: "holds_entry m x \<Longrightarrow> x + 24 \<le> length m"
  by (simp add: holds_entry_def)

lemma find_loop_db:
  assumes "all_malloc e" "rec_chain (rec_at m) TDB_MAGIC p xs" "\<forall>x \<in> set xs. holds_entry m x" "length m < 2 ^ 32"
  shows "find_loop e (db m L c n) key (tdb_hash key) p =
    Some (map_option (\<lambda>x. (x, rec_at m x)) (find (\<lambda>x. key_at m x = key) xs), db m L c n)"
  using assms(2,3)
proof (induction xs arbitrary: p)
  case Nil
  then show ?case by (subst find_loop.simps) simp
next
  case (Cons x xs)
  have "rec_read (db m L c n) x = Some (Some (rec_at m x), db m L c n)"
    using Cons.prems entry_readable [of m x] by (intro read_db) auto
  moreover have "key_matches e (db m L c n) x (rec_at m x) key (tdb_hash key) = Some (Some (key_at m x = key), db m L c n)"
    using key_matches_db assms(1,4) Cons.prems(2) by simp
  ultimately show ?case using Cons by (subst find_loop.simps) auto
qed

lemma delete_loop_db:
  assumes "all_malloc e" "rec_chain (rec_at m) TDB_MAGIC p (us @ xs)" "\<forall>x \<in> set (us @ xs). holds_entry m x" "length m < 2 ^ 32" "\<forall>u \<in> set us. key_at m u \<noteq> key"
  shows "xs = [] \<Longrightarrow> delete_loop e (db m L c n) key (tdb_hash key) prev p = fail_unlock (db m L c n) (int (tdb_hash key mod n))"
    and "xs = x # vs \<Longrightarrow> key_at m x = key \<Longrightarrow> delete_loop e (db m L c n) key (tdb_hash key) prev p =
      unlink_record (db m L c n) (tdb_hash key) (if us = [] then prev else Some (last us, rec_at m (last us))) x (rec_at m x)"
  using assms(2,3,5)
proof (induction us arbitrary: p prev)
  case Nil
  case 1
  then show ?case by (subst delete_loop.simps) (simp add: bucket_def)
next
  case Nil
  case 2
  have "rec_read (db m L c n) x = Some (Some (rec_at m x), db m L c n)"
    using 2 entry_readable [of m x] by (intro read_db) auto
  moreover have "key_matches e (db m L c n) x (rec_at m x) key (tdb_hash key) = Some (Some True, db m L c n)"
    using key_matches_db assms(1,4) 2 by simp
  ultimately show ?case using 2 by (subst delete_loop.simps) auto
next
  case (Cons u us)
  have r: "rec_read (db m L c n) u = Some (Some (rec_at m u), db m L c n)" "key_matches e (db m L c n) u (rec_at m u) key (tdb_hash key) = Some (Some False, db m L c n)"
    if "rec_chain (rec_at m) TDB_MAGIC p ((u # us) @ xs)" "\<forall>x \<in> set ((u # us) @ xs). holds_entry m x" "key_at m u \<noteq> key" for p
    using that entry_readable [of m u] key_matches_db [of e m u] assms(1,4) by (auto intro!: read_db)
  {
    case 1
    then show ?case using Cons.IH(1) [of "r_next (rec_at m u)"] r [of p] by (subst delete_loop.simps) auto
  next
    case 2
    then show ?case using Cons.IH(2) [of "r_next (rec_at m u)"] r [of p] by (subst delete_loop.simps) auto
  }
qed

lemma free_loop_db:
  assumes "rec_chain (rec_at m) TDB_FREE_MAGIC p (us @ xs)" "\<forall>x \<in> set (us @ xs). x + 24 \<le> length m" "\<forall>u \<in> set us. r_len (rec_at m u) < len"
  shows "xs = [] \<Longrightarrow> free_loop e (db m L c n) len prev p = Some (No_space, db m L c n)"
    and "xs = x # vs \<Longrightarrow> len \<le> r_len (rec_at m x) \<Longrightarrow> free_loop e (db m L c n) len prev p =
      take_free e (db m L c n) len (if us = [] then prev else Some (last us, rec_at m (last us))) x (rec_at m x)"
  using assms
proof (induction us arbitrary: p prev)
  case Nil
  case 1
  then show ?case by (subst free_loop.simps) simp
next
  case Nil
  case 2
  then show ?case by (subst free_loop.simps) (simp add: read_db)
next
  case (Cons u us)
  {
    case 1
    then show ?case using Cons.IH(1) [of "r_next (rec_at m u)"] by (subst free_loop.simps) (simp add: read_db)
  next
    case 2
    then show ?case using Cons.IH(2) [of "r_next (rec_at m u)"] by (subst free_loop.simps) (simp add: read_db)
  }
qed

section \<open>Writes, as the views see them\<close>

text \<open>A record of the set whose bytes from \<open>y\<close> on, \<open>k\<close> of them, are written without harm.\<close>

definition apart :: "(nat \<Rightarrow> list_struct) \<Rightarrow> nat set \<Rightarrow> nat set \<Rightarrow> nat \<Rightarrow> nat \<Rightarrow> bool" where
  "apart H A B y k \<longleftrightarrow> (\<forall>x \<in> A. x + 24 + (if x \<in> B then r_key_len (H x) + r_data_len (H x) else 0) \<le> y \<or> y + k \<le> x)"

lemma head_bounds: "k \<le> n \<Longrightarrow> head_at k + 4 \<le> first_record n" "head_at k + 4 \<le> head_at j \<or> head_at j + 4 \<le> head_at k \<or> j = k" "head_at j = head_at k \<longleftrightarrow> j = k"
  by (auto simp: head_at_def first_record_def)

lemma sees_link:
  assumes "sees m n A B tp H K D" "k \<le> n" "v < 2 ^ 32"
  shows "sees (patch m (head_at k) (le32 v)) n A B (tp(k := v)) H K D"
proof -
  have f: "first_record n \<le> length m" "\<And>x. x \<in> A \<Longrightarrow> first_record n \<le> x \<and> x + 24 \<le> length m \<and> rec_at m x = H x" "B \<subseteq> A"
      "\<And>k. k \<le> n \<Longrightarrow> link m (head_at k) = tp k" "\<And>x. x \<in> B \<Longrightarrow> key_at m x = K x \<and> data_at m x = D x"
    using assms(1) by (auto simp: sees_def)
  have p: "head_at k + 4 \<le> length m" "\<And>x. x \<in> A \<Longrightarrow> head_at k + length (le32 v) \<le> x" using f(1,2) head_bounds(1) [OF assms(2)] by (auto dest: f(2))
  have r: "rec_at (patch m (head_at k) (le32 v)) x = rec_at m x" "key_at (patch m (head_at k) (le32 v)) x = key_at m x"
      "data_at (patch m (head_at k) (le32 v)) x = data_at m x" if "x \<in> A" for x
    using views_patch [of "head_at k" "le32 v" m x] p that by auto
  have "link (patch m (head_at k) (le32 v)) (head_at j) = (if j = k then v else link m (head_at j))" for j
    using link_patch_link [OF assms(3) p(1), of "head_at j"] head_bounds(2) [of k j] head_bounds(3) [of j k] by (cases "j = k") auto
  then show ?thesis using f p r by (auto simp: sees_def subset_iff)
qed

lemma sees_patch:
  assumes "sees m n A B tp H K D" "first_record n \<le> y" "y + length bs \<le> length m" "apart H A B y (length bs)"
  shows "sees (patch m y bs) n A B tp H K D"
proof -
  have f: "first_record n \<le> length m" "\<And>x. x \<in> A \<Longrightarrow> first_record n \<le> x \<and> x + 24 \<le> length m \<and> rec_at m x = H x" "B \<subseteq> A"
      "\<And>k. k \<le> n \<Longrightarrow> link m (head_at k) = tp k" "\<And>x. x \<in> B \<Longrightarrow> key_at m x = K x \<and> data_at m x = D x"
    using assms(1) by (auto simp: sees_def)
  have l: "link (patch m y bs) (head_at k) = link m (head_at k)" if "k \<le> n" for k
    using link_patch_other [OF assms(3)] head_bounds(1) [OF that] assms(2) by simp
  have h: "rec_at (patch m y bs) x = rec_at m x" if "x \<in> A" for x
    using rec_at_patch_other [OF assms(3), of x] assms(4) that by (force simp: apart_def)
  have b: "key_at (patch m y bs) x = key_at m x \<and> data_at (patch m y bs) x = data_at m x" if "x \<in> B" for x
  proof -
    have "x \<in> A" using f(3) that by auto
    then have "x + 24 + (r_key_len (rec_at m x) + r_data_len (rec_at m x)) \<le> y \<or> y + length bs \<le> x" using assms(4) f(2) [of x] that by (auto simp: apart_def)
    then show ?thesis using views_patch [OF assms(3), of x "r_key_len (rec_at m x) + r_data_len (rec_at m x)"] by auto
  qed
  show ?thesis using f l h b assms(3) by (auto simp: sees_def)
qed

text \<open>Writing the head of a record, one of the set or a new one.\<close>

lemma sees_rec:
  assumes "sees m n A B tp H K D" "first_record n \<le> y" "y + 24 \<le> length m" "apart H (A - {y}) B y 24" "wf_rec r"
    and "y \<in> B \<Longrightarrow> r_key_len r = r_key_len (H y) \<and> r_data_len r = r_data_len (H y)"
  shows "sees (patch m y (struct_bytes r)) n (insert y A) B tp (H(y := r)) K D"
proof -
  have s: "sees m n (A - {y}) (B - {y}) tp H K D" using assms(1) by (auto simp: sees_def)
  have "apart H (A - {y}) (B - {y}) y 24" using assms(4) by (auto simp: apart_def)
  then have p: "sees (patch m y (struct_bytes r)) n (A - {y}) (B - {y}) tp H K D"
    using sees_patch [OF s assms(2)] assms(3) by simp
  have h: "rec_at (patch m y (struct_bytes r)) y = r" by (rule rec_at_patch_rec [OF assms(5,3)])
  have "key_at (patch m y (struct_bytes r)) y = key_at m y \<and> data_at (patch m y (struct_bytes r)) y = data_at m y" if "y \<in> B"
  proof -
    have "rec_at m y = H y" using assms(1) that by (auto simp: sees_def)
    then show ?thesis using body_patch_rec [OF assms(5,3)] assms(6) [OF that] by simp
  qed
  then show ?thesis using p h assms(1-3) by (auto simp: sees_def)
qed

text \<open>Writing a whole entry.\<close>

lemma sees_entry:
  assumes "sees m n A B tp H K D" "first_record n \<le> y" "y + 24 + length key + length dbuf \<le> length m" "apart H (A - {y}) B y (24 + length key + length dbuf)" "wf_rec r"
    and "r_key_len r = length key" "r_data_len r = length dbuf"
  shows "sees (patch m y (struct_bytes r @ key @ dbuf)) n (insert y A) (insert y B) tp (H(y := r)) (K(y := key)) (D(y := dbuf))"
proof -
  let ?m = "patch m y (struct_bytes r @ key @ dbuf)"
  have s: "sees m n (A - {y}) (B - {y}) tp H K D" using assms(1) by (auto simp: sees_def)
  have "apart H (A - {y}) (B - {y}) y (24 + length key + length dbuf)" using assms(4) by (auto simp: apart_def)
  then have p: "sees ?m n (A - {y}) (B - {y}) tp H K D"
    using sees_patch [OF s assms(2), of "struct_bytes r @ key @ dbuf"] assms(3) by (simp add: add.assoc)
  have h: "rec_at ?m y = r"
    using patch_inside [of y "[]" "struct_bytes r" "key @ dbuf" m] assms(3,5) by (simp add: rec_at_def bytes_rec_bytes)
  have k: "key_at ?m y = key"
    using patch_inside [of y "struct_bytes r" key dbuf m] assms(3,6) h by (simp add: key_at_def)
  have d: "data_at ?m y = dbuf"
    using patch_inside [of y "struct_bytes r @ key" dbuf "[]" m] assms(3,6,7) h by (simp add: data_at_def add.assoc)
  show ?thesis using p h k d assms(1-3) by (auto simp: sees_def)
qed

lemma spaced_apart:
  assumes "spaced H lo hi A" "y \<in> A" "k \<le> 24 + r_len (H y)" "\<And>x. x \<in> B \<Longrightarrow> r_key_len (H x) + r_data_len (H x) \<le> r_len (H x)"
  shows "apart H (A - {y}) B y k"
proof -
  have "x + 24 + (if x \<in> B then r_key_len (H x) + r_data_len (H x) else 0) \<le> y \<or> y + k \<le> x" if "x \<in> A - {y}" for x
  proof -
    have "x + 24 + r_len (H x) \<le> y \<or> y + 24 + r_len (H y) \<le> x" using assms(1,2) that by (auto simp: spaced_def)
    moreover have "(if x \<in> B then r_key_len (H x) + r_data_len (H x) else 0) \<le> r_len (H x)" using assms(4) by auto
    ultimately show ?thesis using assms(3) by linarith
  qed
  then show ?thesis by (simp add: apart_def)
qed

lemma spaced_in: "spaced H lo hi A \<Longrightarrow> x \<in> A \<Longrightarrow> lo \<le> x \<and> x + 24 + r_len (H x) \<le> hi"
  by (simp add: spaced_def)

lemma sees_self:
  assumes "layout m n X fr ch"
  shows "sees m n (X \<union> set fr \<union> in_use n ch) (in_use n ch) (\<lambda>k. link m (head_at k)) (rec_at m) (key_at m) (data_at m)"
proof -
  have "spaced (rec_at m) (first_record n) (length m) (X \<union> set fr \<union> in_use n ch)" "first_record n \<le> length m"
    using assms by (simp_all add: layout_def laid_def)
  then show ?thesis using spaced_in [of "rec_at m" "first_record n" "length m" "X \<union> set fr \<union> in_use n ch"]
    by (fastforce simp: sees_def)
qed

text \<open>Back from the views to the layout.\<close>

lemma layout_sees:
  assumes "sees m n A B tp H K D" "A = X \<union> set fr \<union> in_use n ch" "B = in_use n ch" "laid tp H K n (length m) X fr ch" "0 < n" "length m < 2 ^ 32"
  shows "layout m n X fr ch" "\<And>key. look m n ch key = map_option D (find (\<lambda>x. K x = key) (ch (tdb_hash key mod n)))"
proof -
  have c: "laid (\<lambda>k. link m (head_at k)) (rec_at m) (key_at m) n (length m) X fr ch = laid tp H K n (length m) X fr ch"
    by (rule laid_cong) (use assms(1-3) in \<open>auto simp: sees_def\<close>)
  then show "layout m n X fr ch" using assms(1,4-6) by (simp add: layout_def sees_def)
  fix key
  have s: "x \<in> B" if "x \<in> set (ch (tdb_hash key mod n))" for x using that assms(3,5) by (auto simp: in_use_def)
  have "find (\<lambda>x. key_at m x = key) (ch (tdb_hash key mod n)) = find (\<lambda>x. K x = key) (ch (tdb_hash key mod n))"
    by (rule find_cong) (use s assms(1) in \<open>auto simp: sees_def\<close>)
  moreover have "map_option (data_at m) (find (\<lambda>x. K x = key) (ch (tdb_hash key mod n))) = map_option D (find (\<lambda>x. K x = key) (ch (tdb_hash key mod n)))"
    using s assms(1) find_split [of "\<lambda>x. K x = key" "ch (tdb_hash key mod n)"] by (intro option.map_cong) (fastforce simp: sees_def)+
  ultimately show "look m n ch key = map_option D (find (\<lambda>x. K x = key) (ch (tdb_hash key mod n)))" by (simp add: look_def)
qed
end
