(* ===== verification/Tdb_Lists.thy ===== *)
theory Tdb_Lists
  imports Tdb_Map
begin

text \<open>
  The lists of records of a database (\<^verbatim>\<open>libasuite/tdb.c\<close>) without the bytes: what it does to the layout when a record moves from a chain to the free list,
  when a free record is cut in two or taken, when the block grows, and when a record is filled or changed in its place.
\<close>

section \<open>Taking the parts of a layout\<close>

lemma laidD:
  assumes "laid tp H K n hi X fr ch"
  shows "rec_chain H TDB_FREE_MAGIC (tp 0) fr" "\<And>i. i < n \<Longrightarrow> rec_chain H TDB_MAGIC (tp (Suc i)) (ch i)" "distinct fr" "\<And>i. i < n \<Longrightarrow> distinct (ch i)"
    "X \<inter> (set fr \<union> in_use n ch) = {}" "\<And>x. x \<in> X \<Longrightarrow> r_magic (H x) = TDB_FREE_MAGIC" "spaced H (first_record n) hi (X \<union> set fr \<union> in_use n ch)"
    "\<And>i x. i < n \<Longrightarrow> x \<in> set (ch i) \<Longrightarrow> r_key_len (H x) + r_data_len (H x) \<le> r_len (H x) \<and> r_full_hash (H x) = tdb_hash (K x) \<and> tdb_hash (K x) mod n = i"
    "\<And>i. i < n \<Longrightarrow> inj_on K (set (ch i))"
  using assms by (auto simp: laid_def)

lemma laidI:
  assumes "rec_chain H TDB_FREE_MAGIC (tp 0) fr" "\<And>i. i < n \<Longrightarrow> rec_chain H TDB_MAGIC (tp (Suc i)) (ch i)" "distinct fr" "\<And>i. i < n \<Longrightarrow> distinct (ch i)"
    "X \<inter> (set fr \<union> in_use n ch) = {}" "\<And>x. x \<in> X \<Longrightarrow> r_magic (H x) = TDB_FREE_MAGIC" "spaced H (first_record n) hi (X \<union> set fr \<union> in_use n ch)"
    "\<And>i x. i < n \<Longrightarrow> x \<in> set (ch i) \<Longrightarrow> r_key_len (H x) + r_data_len (H x) \<le> r_len (H x) \<and> r_full_hash (H x) = tdb_hash (K x) \<and> tdb_hash (K x) mod n = i"
    "\<And>i. i < n \<Longrightarrow> inj_on K (set (ch i))"
  shows "laid tp H K n hi X fr ch"
  using assms unfolding laid_def by blast

lemma magics_differ [simp]: "TDB_MAGIC \<noteq> TDB_FREE_MAGIC" "TDB_FREE_MAGIC \<noteq> TDB_MAGIC"
  by (simp_all add: TDB_MAGIC_def TDB_FREE_MAGIC_def)

lemma in_use_iff: "x \<in> in_use n ch \<longleftrightarrow> (\<exists>i<n. x \<in> set (ch i))"
  by (auto simp: in_use_def)

lemma laid_disjoint:
  assumes "laid tp H K n hi X fr ch"
  shows "set fr \<inter> in_use n ch = {}" "\<And>i j x. i < n \<Longrightarrow> j < n \<Longrightarrow> x \<in> set (ch i) \<Longrightarrow> x \<in> set (ch j) \<Longrightarrow> i = j"
proof -
  show "set fr \<inter> in_use n ch = {}"
    using chain_mem [OF laidD(1) [OF assms]] chain_mem [OF laidD(2) [OF assms]] by (fastforce simp: in_use_iff)
  show "i = j" if "i < n" "j < n" "x \<in> set (ch i)" "x \<in> set (ch j)" for i j x
    using laidD(8) [OF assms] that by blast
qed

lemma spaced_cong: "(\<And>x. x \<in> A \<Longrightarrow> r_len (H x) = r_len (H' x)) \<Longrightarrow> spaced H lo hi A = spaced H' lo hi A"
  by (simp add: spaced_def)

lemma in_use_parts:
  assumes "b < n"
  shows "in_use n ch = set (ch b) \<union> {z. \<exists>i<n. i \<noteq> b \<and> z \<in> set (ch i)}"
    "in_use n (ch(b := zs)) = set zs \<union> {z. \<exists>i<n. i \<noteq> b \<and> z \<in> set (ch i)}"
proof -
  have a: "in_use n c = set (c b) \<union> {z. \<exists>i<n. i \<noteq> b \<and> z \<in> set (c i)}" for c
  proof (rule set_eqI)
    fix z
    show "z \<in> in_use n c \<longleftrightarrow> z \<in> set (c b) \<union> {z. \<exists>i<n. i \<noteq> b \<and> z \<in> set (c i)}" using assms unfolding in_use_iff by blast
  qed
  have "{z. \<exists>i<n. i \<noteq> b \<and> z \<in> set ((ch(b := zs)) i)} = {z. \<exists>i<n. i \<noteq> b \<and> z \<in> set (ch i)}" by auto
  then show "in_use n (ch(b := zs)) = set zs \<union> {z. \<exists>i<n. i \<noteq> b \<and> z \<in> set (ch i)}" using a [of "ch(b := zs)"] by (simp only: fun_upd_same)
  show "in_use n ch = set (ch b) \<union> {z. \<exists>i<n. i \<noteq> b \<and> z \<in> set (ch i)}" by (rule a)
qed

lemma in_use_remove:
  assumes "laid tp H K n hi X fr ch" "b < n" "ch b = us @ x # vs"
  shows "in_use n (ch(b := us @ vs)) = in_use n ch - {x}"
proof -
  have "x \<notin> set (us @ vs)" using laidD(4) [OF assms(1,2)] assms(3) by simp
  moreover have "x \<notin> set (ch i)" if "i < n" "i \<noteq> b" for i using laid_disjoint(2) [OF assms(1) that(1) assms(2)] assms(3) that(2) by auto
  ultimately show ?thesis using assms(3) by (auto simp: in_use_parts [OF assms(2)])
qed

lemma in_use_add: "b < n \<Longrightarrow> in_use n (ch(b := x # ch b)) = insert x (in_use n ch)"
  using in_use_parts [of b n ch] by auto

lemma chain_same: "rec_chain H mg p xs \<Longrightarrow> (\<And>x. x \<in> set xs \<Longrightarrow> H' x = H x) \<Longrightarrow> rec_chain H' mg p xs"
  using chain_cong [of xs H H'] by simp

section \<open>Taking a record out of a list\<close>

definition skip_rec :: "(nat \<Rightarrow> list_struct) \<Rightarrow> nat list \<Rightarrow> nat \<Rightarrow> nat \<Rightarrow> list_struct" where
  "skip_rec H us y = (if us = [] then H else H(last us := (H (last us))\<lparr>r_next := y\<rparr>))"

definition skip_head :: "(nat \<Rightarrow> nat) \<Rightarrow> nat \<Rightarrow> nat list \<Rightarrow> nat \<Rightarrow> nat \<Rightarrow> nat" where
  "skip_head tp k us y = (if us = [] then tp(k := y) else tp)"

lemma skip_fields [simp]: "r_len (skip_rec H us y z) = r_len (H z)" "r_key_len (skip_rec H us y z) = r_key_len (H z)" "r_data_len (skip_rec H us y z) = r_data_len (H z)"
    "r_full_hash (skip_rec H us y z) = r_full_hash (H z)" "r_magic (skip_rec H us y z) = r_magic (H z)"
  by (simp_all add: skip_rec_def)

lemma skip_other: "z \<notin> set us \<Longrightarrow> skip_rec H us y z = H z"
  by (auto simp: skip_rec_def)

lemma chain_unlink:
  assumes "rec_chain H mg (tp k) (us @ x # vs)" "distinct (us @ x # vs)"
  shows "rec_chain (skip_rec H us (r_next (H x))) mg (skip_head tp k us (r_next (H x)) k) (us @ vs)"
proof (cases "us = []")
  case True
  then show ?thesis using assms(1) by (simp add: skip_rec_def skip_head_def)
next
  case False
  have v: "rec_chain H mg (r_next (H x)) vs" using chain_tail [OF assms(1)] by simp
  have "skip_rec H us (r_next (H x)) z = H z" if "z \<in> set vs" for z using that assms(2) by (intro skip_other) auto
  then have "rec_chain (skip_rec H us (r_next (H x))) mg (r_next (H x)) vs" using v chain_cong [of vs] by metis
  moreover have "skip_rec H us (r_next (H x)) (last us) = (H (last us))\<lparr>r_next := r_next (H x)\<rparr>" using False by (simp add: skip_rec_def)
  moreover have "skip_rec H us (r_next (H x)) z = H z" if "z \<in> set us" "z \<noteq> last us" for z using that by (simp add: skip_rec_def)
  ultimately have "rec_chain (skip_rec H us (r_next (H x))) mg (tp k) (us @ vs)"
    using chain_skip [OF assms(1) False assms(2)] by blast
  then show ?thesis using False by (simp add: skip_head_def)
qed

lemma laid_take:
  assumes "laid tp H K n hi X (us @ x # vs) ch"
  shows "laid (skip_head tp 0 us (r_next (H x))) (skip_rec H us (r_next (H x))) K n hi (insert x X) (us @ vs) ch"
proof -
  note d = laidD [OF assms] and e = laid_disjoint(1) [OF assms]
  let ?H = "skip_rec H us (r_next (H x))"
  have "x \<notin> set (us @ vs)" using d(3) by simp
  moreover have "r_magic (H x) = TDB_FREE_MAGIC" using chain_tail [OF d(1)] by simp
  moreover have "insert x X \<union> set (us @ vs) \<union> in_use n ch = X \<union> set (us @ x # vs) \<union> in_use n ch" by auto
  ultimately have s: "insert x X \<inter> (set (us @ vs) \<union> in_use n ch) = {}" "\<And>z. z \<in> insert x X \<Longrightarrow> r_magic (?H z) = TDB_FREE_MAGIC"
      "spaced ?H (first_record n) hi (insert x X \<union> set (us @ vs) \<union> in_use n ch)"
    using d(5-7) e by (auto simp: spaced_def)
  have "?H z = H z" if "z \<in> in_use n ch" for z using that e by (intro skip_other) auto
  then have h: "?H z = H z" if "z \<in> set (ch i)" "i < n" for z i using that by (auto simp: in_use_iff)
  show ?thesis
  proof (rule laidI)
    show "rec_chain ?H TDB_FREE_MAGIC (skip_head tp 0 us (r_next (H x)) 0) (us @ vs)" using chain_unlink [of H TDB_FREE_MAGIC tp 0] d(1,3) by simp
    show "rec_chain ?H TDB_MAGIC (skip_head tp 0 us (r_next (H x)) (Suc i)) (ch i)" if "i < n" for i
      using d(2) [OF that] chain_cong [of "ch i" ?H H] h that by (simp add: skip_head_def)
    show "distinct (us @ vs)" using d(3) by simp
  qed (use s d(4,8,9) in auto)
qed

lemma laid_unlink:
  assumes l: "laid tp H K n hi X fr ch" and b: "b < n" "ch b = us @ x # vs"
  shows "laid ((skip_head tp (Suc b) us (r_next (H x)))(0 := x)) ((skip_rec H us (r_next (H x)))(x := (H x)\<lparr>r_next := tp 0, r_magic := TDB_FREE_MAGIC\<rparr>)) K
    n hi X (x # fr) (ch(b := us @ vs))"
proof -
  note d = laidD [OF l] and e = laid_disjoint [OF l]
  let ?r = "(H x)\<lparr>r_next := tp 0, r_magic := TDB_FREE_MAGIC\<rparr>" and ?H = "skip_rec H us (r_next (H x))"
  have dist: "distinct (us @ x # vs)" using d(4) [OF b(1)] b(2) by simp
  have bx: "set (us @ x # vs) \<subseteq> in_use n ch" using b(2) by (auto simp: in_use_parts(1) [OF b(1)])
  have frH: "(?H(x := ?r)) z = H z" if "z \<in> set fr" for z
    using that e(1) bx skip_other [of z us H] by auto
  have others: "(?H(x := ?r)) z = H z" if "z \<in> set (ch i)" "i < n" "i \<noteq> b" for z i
  proof -
    have "z \<notin> set (us @ x # vs)" using e(2) [OF that(2) b(1) that(1)] that(3) b(2) by auto
    then show ?thesis using skip_other [of z us H] by auto
  qed
  have own: "rec_chain (?H(x := ?r)) TDB_MAGIC (skip_head tp (Suc b) us (r_next (H x)) (Suc b)) (us @ vs)"
  proof -
    have "rec_chain ?H TDB_MAGIC (skip_head tp (Suc b) us (r_next (H x)) (Suc b)) (us @ vs)"
      using chain_unlink [of H TDB_MAGIC tp "Suc b"] d(2) [OF b(1)] b(2) dist by simp
    moreover have "(?H(x := ?r)) z = ?H z" if "z \<in> set (us @ vs)" for z using that dist by auto
    ultimately show ?thesis using chain_cong [of "us @ vs" "?H(x := ?r)" ?H] by blast
  qed
  have iu: "in_use n (ch(b := us @ vs)) = in_use n ch - {x}" by (rule in_use_remove [OF l b])
  have sub: "set ((ch(b := us @ vs)) i) \<subseteq> set (ch i)" for i using b(2) by auto
  have xin: "x \<in> in_use n ch" using bx by auto
  show ?thesis
  proof (rule laidI)
    show "rec_chain (?H(x := ?r)) TDB_FREE_MAGIC (((skip_head tp (Suc b) us (r_next (H x)))(0 := x)) 0) (x # fr)"
      using d(1) chain_cong [of fr "?H(x := ?r)" H] frH chain_mem [OF d(2) [OF b(1)], of x] b(2) by simp
    show "rec_chain (?H(x := ?r)) TDB_MAGIC (((skip_head tp (Suc b) us (r_next (H x)))(0 := x)) (Suc i)) ((ch(b := us @ vs)) i)" if "i < n" for i
    proof (cases "i = b")
      case True
      then show ?thesis using own by simp
    next
      case False
      then show ?thesis using d(2) [OF that] chain_cong [of "ch i" "?H(x := ?r)" H] others that by (simp add: skip_head_def)
    qed
    show "distinct (x # fr)" using d(3) e(1) xin by auto
    show "distinct ((ch(b := us @ vs)) i)" if "i < n" for i using d(4) that dist by auto
    show "X \<inter> (set (x # fr) \<union> in_use n (ch(b := us @ vs))) = {}" using d(5) xin iu by auto
    show "r_magic ((?H(x := ?r)) z) = TDB_FREE_MAGIC" if "z \<in> X" for z using d(6) that by simp
    have "X \<union> set (x # fr) \<union> in_use n (ch(b := us @ vs)) = X \<union> set fr \<union> in_use n ch" using iu xin by auto
    then show "spaced (?H(x := ?r)) (first_record n) hi (X \<union> set (x # fr) \<union> in_use n (ch(b := us @ vs)))"
      using d(7) by (simp add: spaced_def)
    show "r_key_len ((?H(x := ?r)) z) + r_data_len ((?H(x := ?r)) z) \<le> r_len ((?H(x := ?r)) z) \<and> r_full_hash ((?H(x := ?r)) z) = tdb_hash (K z) \<and> tdb_hash (K z) mod n = i"
      if "i < n" "z \<in> set ((ch(b := us @ vs)) i)" for i z
      using d(8) [OF that(1), of z] that(2) sub by auto
    show "inj_on K (set ((ch(b := us @ vs)) i))" if "i < n" for i using inj_on_subset [OF d(9) [OF that] sub] .
  qed
qed

section \<open>Cutting a record in two\<close>

lemma chain_split:
  assumes "rec_chain H mg p (us @ x # vs)" "distinct (us @ x # vs)" "y \<notin> set (us @ x # vs)" "y \<noteq> 0"
    and "r_magic q = mg" "r_next q = r_next (H x)" "r_magic r = mg" "r_next r = y"
  shows "rec_chain (H(y := q, x := r)) mg p (us @ x # y # vs)"
  using assms(1-3)
proof (induction us arbitrary: p)
  case Nil
  have "rec_chain (H(y := q, x := r)) mg (r_next (H x)) vs"
    by (rule chain_same [of H]) (use Nil in auto)
  moreover have "(H(y := q, x := r)) x = r" "(H(y := q, x := r)) y = q" using Nil by auto
  ultimately show ?case using Nil assms(4-8) by (simp del: fun_upd_apply)
qed auto

lemma spaced_split:
  assumes "spaced H lo hi A" "x \<in> A" "y = x + 24 + r_len r" "r_len r + 24 + r_len q \<le> r_len (H x)"
  shows "spaced (H(y := q, x := r)) lo hi (insert y A)" "y \<notin> A"
proof -
  have b: "lo \<le> z \<and> z + 24 + r_len (H z) \<le> hi" if "z \<in> A" for z using assms(1) that by (simp add: spaced_def)
  have d: "z + 24 + r_len (H z) \<le> x \<or> x + 24 + r_len (H x) \<le> z" if "z \<in> A" "z \<noteq> x" for z using assms(1,2) that by (auto simp: spaced_def)
  have dd: "z + 24 + r_len (H z) \<le> w \<or> w + 24 + r_len (H w) \<le> z" if "z \<in> A" "w \<in> A" "z \<noteq> w" for z w using assms(1) that by (simp add: spaced_def)
  have yx: "y \<noteq> x" using assms(3) by simp
  have n: "z \<noteq> y" if "z \<in> A" for z
  proof (cases "z = x")
    case False
    then show ?thesis using d [OF that] assms(3,4) by auto
  qed (use yx in simp)
  then show "y \<notin> A" by blast
  let ?H = "H(y := q, x := r)"
  have old: "?H z = H z" if "z \<in> A" "z \<noteq> x" for z using n that by simp
  have one: "z + 24 + r_len (?H z) \<le> w \<or> w + 24 + r_len (?H w) \<le> z" if "z \<in> insert y A" "w \<in> A" "z \<noteq> w" "w \<noteq> x" for z w
  proof -
    have w: "?H w = H w" "w + 24 + r_len (H w) \<le> x \<or> x + 24 + r_len (H x) \<le> w" using old d that by auto
    note z = \<open>z \<in> insert y A\<close>
    consider "z = y" | "z = x" | "z \<in> A" "z \<noteq> x" using z by blast
    then show ?thesis
    proof cases
      case 1
      then show ?thesis using w yx assms(3,4) by auto
    next
      case 2
      then show ?thesis using w yx assms(3,4) by auto
    next
      case 3
      then show ?thesis using w(1) old [of z] dd [of z w] that by simp
    qed
  qed
  have two: "x + 24 + r_len (?H x) \<le> y" using assms(3) by simp
  have "z + 24 + r_len (?H z) \<le> w \<or> w + 24 + r_len (?H w) \<le> z" if "z \<in> insert y A" "w \<in> insert y A" "z \<noteq> w" for z w
  proof (cases "w \<in> A \<and> w \<noteq> x")
    case True
    then show ?thesis using one [of z w] that by simp
  next
    case w: False
    show ?thesis
    proof (cases "z \<in> A \<and> z \<noteq> x")
      case True
      then show ?thesis using one [of w z] that by blast
    next
      case False
      then show ?thesis using w that two by auto
    qed
  qed
  moreover have "lo \<le> z \<and> z + 24 + r_len (?H z) \<le> hi" if "z \<in> insert y A" for z
    using b [of z] b [OF assms(2)] old [of z] that yx assms(3,4) by (cases "z = x") auto
  ultimately show "spaced ?H lo hi (insert y A)" unfolding spaced_def by blast
qed

lemma laid_split:
  assumes l: "laid tp H K n hi X (us @ x # vs) ch"
    and r: "r_magic r = TDB_FREE_MAGIC" "r_next r = x + 24 + r_len r" "r_magic q = TDB_FREE_MAGIC" "r_next q = r_next (H x)" "r_len r + 24 + r_len q \<le> r_len (H x)"
  shows "laid tp (H(r_next r := q, x := r)) K n hi X (us @ x # r_next r # vs) ch"
proof -
  note d = laidD [OF l] and e = laid_disjoint(1) [OF l]
  let ?y = "r_next r" and ?H = "H(r_next r := q, x := r)"
  have s: "spaced ?H (first_record n) hi (insert ?y (X \<union> set (us @ x # vs) \<union> in_use n ch))" "?y \<notin> X \<union> set (us @ x # vs) \<union> in_use n ch"
    using spaced_split [OF d(7) _ r(2,5)] by simp_all
  have h: "?H z = H z" if "z \<in> X \<union> in_use n ch" for z using that s(2) d(5) e by auto
  have c: "?H z = H z" if "i < n" "z \<in> set (ch i)" for i z using that h in_use_iff by blast
  show ?thesis
  proof (rule laidI)
    show "rec_chain ?H TDB_FREE_MAGIC (tp 0) (us @ x # ?y # vs)"
      by (rule chain_split [OF d(1,3)]) (use s(2) r in auto)
    show "rec_chain ?H TDB_MAGIC (tp (Suc i)) (ch i)" if "i < n" for i
      using d(2) [OF that] chain_cong [of "ch i" ?H H] c [OF that] by simp
    show "distinct (us @ x # ?y # vs)" using d(3) s(2) by auto
    show "X \<inter> (set (us @ x # ?y # vs) \<union> in_use n ch) = {}" using d(5) s(2) by auto
    show "r_magic (?H z) = TDB_FREE_MAGIC" if "z \<in> X" for z using d(6) [OF that] h [of z] that by simp
    have "X \<union> set (us @ x # ?y # vs) \<union> in_use n ch = insert ?y (X \<union> set (us @ x # vs) \<union> in_use n ch)" by auto
    then show "spaced ?H (first_record n) hi (X \<union> set (us @ x # ?y # vs) \<union> in_use n ch)" using s(1) by simp
    show "r_key_len (?H z) + r_data_len (?H z) \<le> r_len (?H z) \<and> r_full_hash (?H z) = tdb_hash (K z) \<and> tdb_hash (K z) mod n = i"
      if "i < n" "z \<in> set (ch i)" for i z using d(8) [OF that] c [OF that] by simp
  qed (use d(4,9) in auto)
qed

section \<open>A new record, a filled one, a changed one\<close>

lemma spaced_grow:
  assumes s: "spaced H lo hi A" and r: "hi + 24 + r_len r \<le> hi'" "lo \<le> hi"
  shows "spaced (H(hi := r)) lo hi' (insert hi A)"
proof -
  have b: "lo \<le> x \<and> x + 24 + r_len (H x) \<le> hi" if "x \<in> A" for x using s that by (simp add: spaced_def)
  have old: "(H(hi := r)) x = H x" if "x \<in> A" for x using b [OF that] by auto
  have far: "x + 24 + r_len ((H(hi := r)) x) \<le> hi" if "x \<in> A" for x using b [OF that] old [OF that] by simp
  have "lo \<le> x \<and> x + 24 + r_len ((H(hi := r)) x) \<le> hi'" if "x \<in> insert hi A" for x
    using far [of x] b [of x] r that by (cases "x = hi") auto
  moreover have "x + 24 + r_len ((H(hi := r)) x) \<le> y \<or> y + 24 + r_len ((H(hi := r)) y) \<le> x" if "x \<in> A" "y \<in> A" "x \<noteq> y" for x y
    using s old that by (simp add: spaced_def)
  ultimately show ?thesis using far unfolding spaced_def by blast
qed

lemma laid_expand:
  assumes l: "laid tp H K n hi X fr ch" and r: "r_magic r = TDB_FREE_MAGIC" "r_next r = tp 0" "hi + 24 + r_len r \<le> hi'" and h: "first_record n \<le> hi"
  shows "laid (tp(0 := hi)) (H(hi := r)) K n hi' X (hi # fr) ch"
proof -
  note d = laidD [OF l]
  let ?A = "X \<union> set fr \<union> in_use n ch" and ?H = "H(hi := r)"
  have b: "x + 24 + r_len (H x) \<le> hi \<and> first_record n \<le> x" if "x \<in> ?A" for x using spaced_in [OF d(7) that] by simp
  have bb: "x + 24 + r_len (H x) \<le> hi'" if "x \<in> ?A" for x using b [OF that] r(3) by simp
  have out: "hi \<notin> ?A" using b by fastforce
  then have old: "?H z = H z" if "z \<in> ?A" for z using that by auto
  have pos: "hi \<noteq> 0" using h by (simp add: first_record_def)
  show ?thesis
  proof (rule laidI)
    show "rec_chain ?H TDB_FREE_MAGIC ((tp(0 := hi)) 0) (hi # fr)" using d(1) old r pos chain_cong [of fr ?H H] by simp
    show "rec_chain ?H TDB_MAGIC ((tp(0 := hi)) (Suc i)) (ch i)" if "i < n" for i
    proof -
      have "?H z = H z" if "z \<in> set (ch i)" for z using old [of z] that \<open>i < n\<close> in_use_iff by blast
      then show ?thesis using d(2) [OF that] chain_cong [of "ch i" ?H H] by simp
    qed
    show "distinct (hi # fr)" "X \<inter> (set (hi # fr) \<union> in_use n ch) = {}" using d(3,5) out by auto
    show "r_magic (?H x) = TDB_FREE_MAGIC" if "x \<in> X" for x using d(6) that out by auto
    have "spaced ?H (first_record n) hi' (insert hi ?A)" by (rule spaced_grow [OF d(7) r(3) h])
    moreover have "insert hi ?A = X \<union> set (hi # fr) \<union> in_use n ch" by auto
    ultimately show "spaced ?H (first_record n) hi' (X \<union> set (hi # fr) \<union> in_use n ch)" by (simp only:)
    show "r_key_len (?H x) + r_data_len (?H x) \<le> r_len (?H x) \<and> r_full_hash (?H x) = tdb_hash (K x) \<and> tdb_hash (K x) mod n = i" if "i < n" "x \<in> set (ch i)" for i x
      proof -
      have "?H x = H x" using old [of x] that in_use_iff by blast
      then show ?thesis using d(8) [OF that] by simp
    qed
  qed (use d(4,9) in auto)
qed

lemma laid_fill:
  assumes l: "laid tp H K n hi X fr ch" and x: "x \<in> X" "b = tdb_hash key mod n" "b < n" "\<And>z. z \<in> set (ch b) \<Longrightarrow> K z \<noteq> key"
    and r: "r_magic r = TDB_MAGIC" "r_next r = tp (Suc b)" "r_len r = r_len (H x)" "r_key_len r + r_data_len r \<le> r_len r" "r_full_hash r = tdb_hash key" and p: "0 < x"
  shows "laid (tp(Suc b := x)) (H(x := r)) (K(x := key)) n hi (X - {x}) fr (ch(b := x # ch b))"
proof -
  note d = laidD [OF l]
  let ?H = "H(x := r)" and ?K = "K(x := key)" and ?ch = "ch(b := x # ch b)"
  have out: "x \<notin> set fr" "x \<notin> in_use n ch" using d(5) x(1) by auto
  have old: "?H z = H z \<and> ?K z = K z" if "i < n" "z \<in> set (ch i)" for i z using that out(2) in_use_iff by auto
  have iu: "in_use n ?ch = insert x (in_use n ch)" by (rule in_use_add [OF x(3)])
  have c: "rec_chain ?H TDB_MAGIC (tp (Suc i)) (ch i)" if "i < n" for i
    by (rule chain_same [OF d(2) [OF that]]) (use old that in auto)
  show ?thesis
  proof (rule laidI)
    show "rec_chain ?H TDB_FREE_MAGIC ((tp(Suc b := x)) 0) fr" proof -
      have "rec_chain ?H TDB_FREE_MAGIC (tp 0) fr" by (rule chain_same [OF d(1)]) (use out(1) in auto)
      then show ?thesis by simp
    qed
    show "rec_chain ?H TDB_MAGIC ((tp(Suc b := x)) (Suc i)) (?ch i)" if "i < n" for i
      using c [OF that] r(1,2) p by auto
    show "distinct (?ch i)" if "i < n" for i using d(4) [OF that] out(2) x(3) in_use_iff by auto
    show "(X - {x}) \<inter> (set fr \<union> in_use n ?ch) = {}" using d(5) iu by auto
    show "r_magic (?H z) = TDB_FREE_MAGIC" if "z \<in> X - {x}" for z using d(6) that by simp
    have "X - {x} \<union> set fr \<union> in_use n ?ch = X \<union> set fr \<union> in_use n ch" using iu x(1) by auto
    then show "spaced ?H (first_record n) hi (X - {x} \<union> set fr \<union> in_use n ?ch)" using d(7) r(3) by (simp add: spaced_def)
    show "r_key_len (?H z) + r_data_len (?H z) \<le> r_len (?H z) \<and> r_full_hash (?H z) = tdb_hash (?K z) \<and> tdb_hash (?K z) mod n = i" if "i < n" "z \<in> set (?ch i)" for i z
    proof (cases "z = x")
      case True
      then have "i = b" using that out(2) in_use_iff by (auto split: if_splits)
      then show ?thesis using True r x(2) by simp
    next
      case False
      then have "z \<in> set (ch i)" using that(2) by (auto split: if_splits)
      then show ?thesis using d(8) [OF that(1), of z] old [OF that(1), of z] by simp
    qed
    show "inj_on ?K (set (?ch i))" if "i < n" for i
    proof -
      have "inj_on ?K (set (ch i))" using d(9) [OF that] old [OF that] by (metis inj_on_cong)
      then show ?thesis using x(4) old [OF x(3)] by auto
    qed
  qed (use d(3) in auto)
qed

lemma laid_resize:
  assumes l: "laid tp H K n hi X fr ch" and x: "x \<in> in_use n ch" "r_key_len (H x) + k \<le> r_len (H x)"
  shows "laid tp (H(x := (H x)\<lparr>r_data_len := k\<rparr>)) K n hi X fr ch"
proof -
  note d = laidD [OF l]
  let ?H = "H(x := (H x)\<lparr>r_data_len := k\<rparr>)"
  have out: "x \<notin> set fr" using laid_disjoint(1) [OF l] x(1) by auto
  have n: "rec_chain ?H mg p xs \<longleftrightarrow> rec_chain H mg p xs" for mg p xs by (induction xs arbitrary: p) auto
  show ?thesis using l x(2) unfolding laid_def by (auto simp: n spaced_def)
qed
end
