(* ===== verification/Tdb_Operations.thy ===== *)
theory Tdb_Operations
  imports Tdb_Lists
begin

text \<open>
  What the operations of a database (\<^verbatim>\<open>libasuite/tdb.c\<close>) do to a block with the layout, one lemma for each function of the file: a look, the deletion of
  an entry, the allocation of a record with the growth of the block, the filling of a record and the change in its place, and the store made of them.
\<close>

section \<open>Looking for a key\<close>

lemma layoutD:
  assumes "layout m n X fr ch"
  shows "0 < n" "first_record n \<le> length m" "length m < 2 ^ 32" "laid (\<lambda>k. link m (head_at k)) (rec_at m) (key_at m) n (length m) X fr ch"
  using assms by (simp_all add: layout_def)

lemma layout_spaced: "layout m n X fr ch \<Longrightarrow> spaced (rec_at m) (first_record n) (length m) (X \<union> set fr \<union> in_use n ch)"
  using laidD(7) [OF layoutD(4)] .

lemma layout_in:
  assumes "layout m n X fr ch" "x \<in> X \<union> set fr \<union> in_use n ch"
  shows "first_record n \<le> x" "x + 24 + r_len (rec_at m x) \<le> length m" "x < 2 ^ 32" "x \<noteq> 0"
  using spaced_in [OF layout_spaced [OF assms(1)] assms(2)] layoutD(3) [OF assms(1)] by (auto simp: first_record_def)

lemma layout_holds:
  assumes "layout m n X fr ch" "i < n" "x \<in> set (ch i)"
  shows "holds_entry m x"
proof -
  have "x \<in> X \<union> set fr \<union> in_use n ch" using assms(2,3) in_use_iff by blast
  then show ?thesis
    using layout_in(2) [OF assms(1), of x] laidD(8) [OF layoutD(4) [OF assms(1)] assms(2,3)] by (simp add: holds_entry_def)
qed

lemma bucket_db [simp]: "bucket (db m L c n) h = h mod n"
  by (simp add: bucket_def)

lemma heads_in: "layout m n X fr ch \<Longrightarrow> k \<le> n \<Longrightarrow> head_at k + 4 \<le> length m"
  using head_bounds(1) [of k n] layoutD(2) [of m n X fr ch] by simp

lemma hash_top_db: "layout m n X fr ch \<Longrightarrow> tdb_hash_top (db m L c n) h = head_at (Suc (h mod n))"
  using heads_in [of m n X fr ch "Suc (h mod n)"] layoutD(1,3) [of m n X fr ch]
  by (simp add: tdb_hash_top_def trunc32_def FREELIST_TOP_def head_at_def Suc_le_eq add.commute mult.commute)

lemma hash_top_read: "layout m n X fr ch \<Longrightarrow> ofs_read (db m L c n) (head_at (Suc (h mod n))) = Some (Some (link m (head_at (Suc (h mod n)))), db m L c n)"
  using heads_in [of m n X fr ch "Suc (h mod n)"] layoutD(1) [of m n X fr ch] by (intro read_db) (simp add: Suc_le_eq)

lemma free_top: "FREELIST_TOP = head_at 0"
  by (simp add: FREELIST_TOP_def head_at_def)

lemma tdb_find_db:
  assumes "all_malloc e" "layout m n X fr ch"
  shows "tdb_find e (db m L c n) key (tdb_hash key) =
    Some (map_option (\<lambda>x. (x, rec_at m x)) (find (\<lambda>x. key_at m x = key) (ch (tdb_hash key mod n))), db m L c n)"
proof -
  have n: "tdb_hash key mod n < n" using layoutD(1) [OF assms(2)] by simp
  have "rec_chain (rec_at m) TDB_MAGIC (link m (head_at (Suc (tdb_hash key mod n)))) (ch (tdb_hash key mod n))"
    using laidD(2) [OF layoutD(4) [OF assms(2)] n] .
  then have "find_loop e (db m L c n) key (tdb_hash key) (link m (head_at (Suc (tdb_hash key mod n)))) =
      Some (map_option (\<lambda>x. (x, rec_at m x)) (find (\<lambda>x. key_at m x = key) (ch (tdb_hash key mod n))), db m L c n)"
    using find_loop_db [OF assms(1)] layout_holds [OF assms(2) n] layoutD(3) [OF assms(2)] by blast
  then show ?thesis by (simp add: tdb_find_def hash_top_db [OF assms(2)] hash_top_read [OF assms(2)])
qed

lemma locked_find_db:
  assumes "all_malloc e" "layout m n X fr ch" "locks_ok n L"
  shows "locked_find e (db m L c n) key =
    Some (map_option (\<lambda>x. (x, rec_at m x)) (find (\<lambda>x. key_at m x = key) (ch (tdb_hash key mod n))), db m (inc L (int (tdb_hash key mod n))) c n)"
proof -
  have n: "tdb_hash key mod n < n" using layoutD(1) [OF assms(2)] by simp
  have "tdb_lock (db m L c n) (int (tdb_hash key mod n)) = Some (0, db m (inc L (int (tdb_hash key mod n))) c n)"
    using lock_db [OF assms(3)] n by simp
  then show ?thesis by (simp add: locked_find_def tdb_find_db [OF assms(1,2)])
qed

lemma unlock_bucket: "locks_ok n L \<Longrightarrow> 0 < n \<Longrightarrow> tdb_unlock (db m (inc L (int (h mod n))) c n) (int (h mod n)) = Some (0, db m L c n)"
  using unlock_db [of n L "int (h mod n)"] by simp

lemma unlock_free: "locks_ok n L \<Longrightarrow> tdb_unlock (db m (inc L (- 1)) c n) (- 1) = Some (0, db m L c n)"
  using unlock_db [of n L "- 1"] by simp

lemma lock_bucket: "locks_ok n L \<Longrightarrow> 0 < n \<Longrightarrow> tdb_lock (db m L c n) (int (h mod n)) = Some (0, db m (inc L (int (h mod n))) c n)"
  using lock_db [of n L "int (h mod n)"] by simp

lemma lock_free: "locks_ok n L \<Longrightarrow> tdb_lock (db m L c n) (- 1) = Some (0, db m (inc L (- 1)) c n)"
  using lock_db [of n L "- 1"] by simp

lemma locks_bucket: "locks_ok n L \<Longrightarrow> 0 < n \<Longrightarrow> locks_ok n (inc L (int (h mod n)))"
  using locks_inc [of n L "int (h mod n)"] by simp

lemma locks_free: "locks_ok n L \<Longrightarrow> locks_ok n (inc L (- 1))"
  using locks_inc [of n L "- 1"] by simp

lemma find_mem: "find P xs = Some x \<Longrightarrow> x \<in> set xs \<and> P x"
  using find_split [of P xs x] by auto

lemma fetch_db:
  assumes "all_malloc e" "layout m n X fr ch" "locks_ok n L"
  shows "tdb_fetch e (db m L c n) key = Some (look m n ch key, db m L c n)"
proof (cases "find (\<lambda>x. key_at m x = key) (ch (tdb_hash key mod n))")
  case None
  then show ?thesis
    by (simp add: tdb_fetch_def locked_find_db [OF assms] look_def unlock_bucket [OF assms(3) layoutD(1) [OF assms(2)]])
next
  case (Some x)
  have n: "tdb_hash key mod n < n" using layoutD(1) [OF assms(2)] by simp
  have h: "x + 24 + r_key_len (rec_at m x) + r_data_len (rec_at m x) \<le> length m"
    using layout_holds [OF assms(2) n] find_mem [OF Some] by (simp add: holds_entry_def)
  then have "trunc32 (x + REC_SIZE + r_key_len (rec_at m x)) = x + 24 + r_key_len (rec_at m x)"
    using layoutD(3) [OF assms(2)] by (simp add: trunc32_def REC_SIZE_def)
  then have "tdb_alloc_read e (db m L' c n) (trunc32 (x + REC_SIZE + r_key_len (rec_at m x))) (r_data_len (rec_at m x)) = Some (Some (data_at m x), db m L' c n)" for L'
    using assms(1) h by (simp add: tdb_alloc_read_def all_malloc_def read_db data_at_def)
  then show ?thesis using Some
    by (simp add: tdb_fetch_def locked_find_db [OF assms] look_def unlock_bucket [OF assms(3) layoutD(1) [OF assms(2)]])
qed

lemma exists_db:
  assumes "all_malloc e" "layout m n X fr ch" "locks_ok n L"
  shows "tdb_exists e (db m L c n) key = Some (look m n ch key \<noteq> None, db m L c n)"
  by (simp add: tdb_exists_def locked_find_db [OF assms] look_def unlock_bucket [OF assms(3) layoutD(1) [OF assms(2)]])

section \<open>Deleting\<close>

definition relink :: "byte list \<Rightarrow> nat \<Rightarrow> nat list \<Rightarrow> nat \<Rightarrow> byte list" where
  "relink m k us y = (if us = [] then patch m (head_at k) (le32 y) else patch m (last us) (struct_bytes ((rec_at m (last us))\<lparr>r_next := y\<rparr>)))"

lemma wf_rec_at: "wf_rec (rec_at m x)"
  by (simp add: rec_at_def wf_bytes_rec)

lemma wf_next: "wf_rec r \<Longrightarrow> y < 2 ^ 32 \<Longrightarrow> wf_rec (r\<lparr>r_next := y\<rparr>)"
  by (simp add: wf_rec_def)

lemma next_bound: "r_next (rec_at m x) < 2 ^ 32"
  using wf_rec_at [of m x] by (simp add: wf_rec_def)

lemma link_bound: "link m p < 2 ^ 32"
  using of_le32_bound by (simp add: link_def)

text \<open>What a set of records must satisfy for writes within one of them to be harmless.\<close>

definition tidy :: "(nat \<Rightarrow> list_struct) \<Rightarrow> nat \<Rightarrow> nat \<Rightarrow> nat set \<Rightarrow> nat set \<Rightarrow> bool" where
  "tidy H n hi A B \<longleftrightarrow> spaced H (first_record n) hi A \<and> (\<forall>x \<in> B. r_key_len (H x) + r_data_len (H x) \<le> r_len (H x))"

lemma tidy_laid:
  assumes "laid tp H K n hi X fr ch"
  shows "tidy H n hi (X \<union> set fr \<union> in_use n ch) (in_use n ch)"
  using laidD(7,8) [OF assms] by (auto simp: tidy_def in_use_iff)

lemma sees_at: "sees m n A B tp H K D \<Longrightarrow> x \<in> A \<Longrightarrow> rec_at m x = H x"
  unfolding sees_def by blast

lemma sees_head:
  assumes "sees m n A B tp H K D" "tidy H n (length m) A B" "x \<in> A" "wf_rec r" "r_key_len r = r_key_len (H x)" "r_data_len r = r_data_len (H x)"
  shows "sees (patch m x (struct_bytes r)) n A B tp (H(x := r)) K D"
proof -
  have i: "first_record n \<le> x" "x + 24 + r_len (H x) \<le> length m" using spaced_in [of H "first_record n" "length m" A x] assms(2,3) by (auto simp: tidy_def)
  have "apart H (A - {x}) B x 24" by (rule spaced_apart) (use assms(2,3) in \<open>auto simp: tidy_def\<close>)
  then have "sees (patch m x (struct_bytes r)) n (insert x A) B tp (H(x := r)) K D"
    using sees_rec [OF assms(1) i(1)] i(2) assms(4-6) by simp
  then show ?thesis using assms(3) by (simp add: insert_absorb)
qed

lemma sees_relink:
  assumes "sees m n A B tp H K D" "tidy H n (length m) A B" "set us \<subseteq> A" "k \<le> n" "y < 2 ^ 32"
  shows "sees (relink m k us y) n A B (skip_head tp k us y) (skip_rec H us y) K D"
proof (cases "us = []")
  case True
  then show ?thesis using sees_link [OF assms(1,4,5)] by (simp add: relink_def skip_head_def skip_rec_def)
next
  case False
  then have u: "last us \<in> A" using assms(3) last_in_set by blast
  then have r: "rec_at m (last us) = H (last us)" using assms(1) by (simp add: sees_def)
  then have "wf_rec ((H (last us))\<lparr>r_next := y\<rparr>)" using wf_next [OF wf_rec_at assms(5), of m "last us"] r by simp
  then have "sees (patch m (last us) (struct_bytes ((H (last us))\<lparr>r_next := y\<rparr>))) n A B tp (H(last us := (H (last us))\<lparr>r_next := y\<rparr>)) K D"
    by (intro sees_head [OF assms(1,2) u]) simp_all
  then show ?thesis using False r by (simp add: relink_def skip_head_def skip_rec_def)
qed

lemma length_relink:
  "us \<noteq> [] \<longrightarrow> last us + 24 \<le> length m \<Longrightarrow> head_at k + 4 \<le> length m \<Longrightarrow> length (relink m k us y) = length m"
  by (simp add: relink_def)

lemma relink_db:
  assumes "us \<noteq> [] \<longrightarrow> last us + 24 \<le> length m" "head_at k + 4 \<le> length m"
  shows "(case (if us = [] then None else Some (last us, rec_at m (last us))) of
      None \<Rightarrow> ofs_write (db m L c n) (head_at k) y
    | Some (last_ptr, lastrec) \<Rightarrow> rec_write (db m L c n) last_ptr (lastrec\<lparr>r_next := y\<rparr>)) = Some (0, db (relink m k us y) L c n)"
  using assms by (simp add: relink_def write_db)

lemma unlink_db:
  assumes l: "layout m n X fr ch" "locks_ok n L" and b: "b = h mod n" "ch b = us @ x # vs"
  defines "m1 \<equiv> relink m (Suc b) us (r_next (rec_at m x))"
  defines "m2 \<equiv> patch m1 x (struct_bytes ((rec_at m x)\<lparr>r_next := link m (head_at 0), r_magic := TDB_FREE_MAGIC\<rparr>))"
  shows "unlink_record (db m (inc L (int b)) c n) h (if us = [] then None else Some (last us, rec_at m (last us))) x (rec_at m x)
    = Some (0, db (patch m2 (head_at 0) (le32 x)) L c n)"
    and "length (patch m2 (head_at 0) (le32 x)) = length m"
    and "sees (patch m2 (head_at 0) (le32 x)) n (X \<union> set fr \<union> in_use n ch) (in_use n ch)
      ((skip_head (\<lambda>k. link m (head_at k)) (Suc b) us (r_next (rec_at m x)))(0 := x))
      ((skip_rec (rec_at m) us (r_next (rec_at m x)))(x := (rec_at m x)\<lparr>r_next := link m (head_at 0), r_magic := TDB_FREE_MAGIC\<rparr>)) (key_at m) (data_at m)"
proof -
  have n: "0 < n" "b < n" using layoutD(1) [OF l(1)] b(1) by simp_all
  let ?A = "X \<union> set fr \<union> in_use n ch" and ?B = "in_use n ch"
  have bx: "set (us @ x # vs) \<subseteq> ?A" using in_use_parts(1) [OF n(2), of ch] b(2) by auto
  have xA: "x \<in> ?A" "set us \<subseteq> ?A" using bx by auto
  have lu: "us \<noteq> [] \<longrightarrow> last us + 24 \<le> length m" using layout_in(2) [OF l(1), of "last us"] xA(2) last_in_set [of us] by fastforce
  have hb: "head_at (Suc b) + 4 \<le> length m" "head_at 0 + 4 \<le> length m" using heads_in [OF l(1)] n(2) by auto
  have len1: "length m1 = length m" unfolding m1_def by (rule length_relink [OF lu hb(1)])
  have x24: "x + 24 \<le> length m" "x < 2 ^ 32" using layout_in(2,3) [OF l(1) xA(1)] by auto
  have len2: "length m2 = length m" unfolding m2_def using len1 x24 by simp
  show len3: "length (patch m2 (head_at 0) (le32 x)) = length m" using len2 hb(2) by simp
  let ?tp = "\<lambda>k. link m (head_at k)" and ?y = "r_next (rec_at m x)"
  have t: "tidy (rec_at m) n (length m) ?A ?B" by (rule tidy_laid [OF layoutD(4) [OF l(1)]])
  have s1: "sees m1 n ?A ?B (skip_head ?tp (Suc b) us ?y) (skip_rec (rec_at m) us ?y) (key_at m) (data_at m)"
    unfolding m1_def using sees_relink [OF sees_self [OF l(1)] t xA(2) _ next_bound] n(2) by simp
  have t1: "tidy (skip_rec (rec_at m) us ?y) n (length m1) ?A ?B" using t len1 by (simp add: tidy_def spaced_def)
  have w: "wf_rec ((rec_at m x)\<lparr>r_next := link m (head_at 0), r_magic := TDB_FREE_MAGIC\<rparr>)"
    using wf_rec_at [of m x] link_bound [of m "head_at 0"] by (simp add: wf_rec_def TDB_FREE_MAGIC_def)
  have s2: "sees m2 n ?A ?B (skip_head ?tp (Suc b) us ?y) ((skip_rec (rec_at m) us ?y)(x := (rec_at m x)\<lparr>r_next := link m (head_at 0), r_magic := TDB_FREE_MAGIC\<rparr>)) (key_at m) (data_at m)"
    unfolding m2_def by (rule sees_head [OF s1 t1 xA(1) w]) simp_all
  show "sees (patch m2 (head_at 0) (le32 x)) n ?A ?B ((skip_head ?tp (Suc b) us ?y)(0 := x))
      ((skip_rec (rec_at m) us ?y)(x := (rec_at m x)\<lparr>r_next := link m (head_at 0), r_magic := TDB_FREE_MAGIC\<rparr>)) (key_at m) (data_at m)"
    by (rule sees_link [OF s2 _ x24(2)]) simp
  have f: "link m1 (head_at 0) = link m (head_at 0)" using s1 by (simp add: sees_def skip_head_def)
  have "ofs_read (db m1 L' c n) (head_at 0) = Some (Some (link m (head_at 0)), db m1 L' c n)" for L'
    using read_db(2) [of "head_at 0" m1] hb(2) len1 f by simp
  then show "unlink_record (db m (inc L (int b)) c n) h (if us = [] then None else Some (last us, rec_at m (last us))) x (rec_at m x)
    = Some (0, db (patch m2 (head_at 0) (le32 x)) L c n)"
    unfolding unlink_record_def hash_top_db [OF l(1)] Let_def free_top bucket_db b(1) [symmetric]
      relink_db [OF lu hb(1), of "inc L (int b)" c n ?y, folded m1_def]
    using unlock_bucket [OF l(2) n(1), of m1 h c, folded b(1)]
      lock_free [OF l(2)] unlock_free [OF l(2)] len1 len2 x24 hb(2)
    by (simp add: write_db m2_def)
qed

lemma look_upd:
  assumes "laid tp H K n hi X fr ch" "b < n" "ch b = us @ x # vs"
  shows "map_option D (find (\<lambda>z. K z = key) ((ch(b := us @ vs)) (tdb_hash key mod n)))
    = (if key = K x then None else map_option D (find (\<lambda>z. K z = key) (ch (tdb_hash key mod n))))"
proof -
  have i: "inj_on K (set (us @ x # vs))" "distinct (us @ x # vs)" "tdb_hash (K x) mod n = b"
    using laidD(4,9) [OF assms(1,2)] laidD(8) [OF assms(1,2), of x] assms(3) by auto
  have "K z \<noteq> K x" if "z \<in> set (us @ vs)" for z using i(1,2) that by (auto simp: inj_on_def)
  then have gone: "find (\<lambda>z. K z = K x) (us @ vs) = None" by (auto simp: find_None_iff)
  have "find (\<lambda>z. K z = key) (us @ vs) = find (\<lambda>z. K z = key) (us @ x # vs)" if "key \<noteq> K x"
    using that by (induction us) auto
  then show ?thesis using gone i(3) assms(3) by (cases "key = K x"; cases "tdb_hash key mod n = b") auto
qed

lemma delete_db:
  assumes e: "all_malloc e" and l: "layout m n X fr ch" and o: "locks_ok n L"
  shows "\<exists>rc m' fr' ch'. tdb_delete e (db m L c n) key = Some (rc, db m' L c n) \<and> layout m' n X fr' ch' \<and> length m' = length m
    \<and> (\<forall>x \<in> X. rec_at m' x = rec_at m x) \<and> look m' n ch' = (look m n ch)(key := None) \<and> (rc = 0 \<longleftrightarrow> look m n ch key \<noteq> None)"
proof -
  let ?b = "tdb_hash key mod n"
  have n: "0 < n" "?b < n" using layoutD(1) [OF l] by simp_all
  have c: "rec_chain (rec_at m) TDB_MAGIC (link m (head_at (Suc ?b))) (ch ?b)" using laidD(2) [OF layoutD(4) [OF l] n(2)] .
  have h: "\<forall>x \<in> set (ch ?b). holds_entry m x" using layout_holds [OF l n(2)] by blast
  have d: "tdb_delete e (db m L c n) key = delete_loop e (db m (inc L (int ?b)) c n) key (tdb_hash key) None (link m (head_at (Suc ?b)))"
    by (simp add: tdb_delete_def Let_def lock_bucket [OF o n(1)] hash_top_db [OF l] hash_top_read [OF l])
  show ?thesis
  proof (cases "find (\<lambda>x. key_at m x = key) (ch ?b)")
    case None
    then have "delete_loop e (db m (inc L (int ?b)) c n) key (tdb_hash key) None (link m (head_at (Suc ?b))) = fail_unlock (db m (inc L (int ?b)) c n) (int ?b)"
      using delete_loop_db(1) [OF e, of m _ "ch ?b" "[]"] c h layoutD(3) [OF l] by (simp add: find_None_iff)
    then have "tdb_delete e (db m L c n) key = Some (- 1, db m L c n)"
      using d by (simp add: fail_unlock_def unlock_bucket [OF o n(1)])
    then show ?thesis using l None by (intro exI [of _ "- 1"] exI [of _ m] exI [of _ fr] exI [of _ ch]) (auto simp: look_def)
  next
    case (Some x)
    obtain us vs where s: "ch ?b = us @ x # vs" "key_at m x = key" "\<forall>u \<in> set us. key_at m u \<noteq> key"
      using find_split [OF Some] by auto
    define r where "r = (rec_at m x)\<lparr>r_next := link m (head_at 0), r_magic := TDB_FREE_MAGIC\<rparr>"
    define m' where "m' = patch (patch (relink m (Suc ?b) us (r_next (rec_at m x))) x (struct_bytes r)) (head_at 0) (le32 x)"
    note u = unlink_db [OF l o refl s(1), folded r_def, folded m'_def]
    have "delete_loop e (db m (inc L (int ?b)) c n) key (tdb_hash key) None (link m (head_at (Suc ?b)))
      = unlink_record (db m (inc L (int ?b)) c n) (tdb_hash key) (if us = [] then None else Some (last us, rec_at m (last us))) x (rec_at m x)"
      by (rule delete_loop_db(2) [OF e _ _ layoutD(3) [OF l] s(3) refl s(2)]) (use c h s(1) in auto)
    then have res: "tdb_delete e (db m L c n) key = Some (0, db m' L c n)" using d u(1) by simp
    have iu: "in_use n (ch(?b := us @ vs)) = in_use n ch - {x}" by (rule in_use_remove [OF layoutD(4) [OF l] n(2) s(1)])
    have xi: "x \<in> in_use n ch" using n(2) s(1) in_use_parts(1) [OF n(2), of ch] by auto
    have A: "X \<union> set fr \<union> in_use n ch = X \<union> set (x # fr) \<union> in_use n (ch(?b := us @ vs))" using iu xi by auto
    have B: "sees m' n (X \<union> set fr \<union> in_use n ch) (in_use n (ch(?b := us @ vs)))
        ((skip_head (\<lambda>k. link m (head_at k)) (Suc ?b) us (r_next (rec_at m x)))(0 := x)) ((skip_rec (rec_at m) us (r_next (rec_at m x)))(x := r)) (key_at m) (data_at m)"
      using u(3) iu by (auto simp: sees_def)
    have "laid ((skip_head (\<lambda>k. link m (head_at k)) (Suc ?b) us (r_next (rec_at m x)))(0 := x)) ((skip_rec (rec_at m) us (r_next (rec_at m x)))(x := r)) (key_at m)
        n (length m') X (x # fr) (ch(?b := us @ vs))"
      unfolding r_def u(2) by (rule laid_unlink [OF layoutD(4) [OF l] n(2) s(1)])
    note y = layout_sees [OF B A refl this n(1)]
    have len: "length m' < 2 ^ 32" using u(2) layoutD(3) [OF l] by simp
    have k: "look m' n (ch(?b := us @ vs)) = (look m n ch)(key := None)"
      using y(2) [OF len] look_upd [OF layoutD(4) [OF l] n(2) s(1), of "data_at m"] s(2) by (auto simp: look_def)
    have "rec_at m' z = rec_at m z" if "z \<in> X" for z
    proof -
      have "z \<notin> in_use n ch" using that laidD(5) [OF layoutD(4) [OF l]] by auto
      then have "z \<noteq> x" "z \<notin> set us" using xi in_use_parts(1) [OF n(2), of ch] s(1) by auto
      then show ?thesis using that B by (auto simp: sees_def skip_other)
    qed
    then show ?thesis using res y(1) [OF len] u(2) k Some
      by (intro exI [of _ 0] exI [of _ m'] exI [of _ "x # fr"] exI [of _ "ch(?b := us @ vs)"]) (auto simp: look_def)
  qed
qed

section \<open>Allocating\<close>

lemma round_align_bounds: "n + 4 < 2 ^ 32 \<Longrightarrow> n \<le> round_align n \<and> round_align n \<le> n + 4"
  by (simp add: round_align_def trunc32_def)

lemma sub32_le: "b \<le> a \<Longrightarrow> a < 2 ^ 32 \<Longrightarrow> sub32 a b = a - b"
proof -
  assume a: "b \<le> a" "a < 2 ^ 32"
  then have "trunc32 b = b" "a + (2 ^ 32 - b) = (a - b) + 2 ^ 32" by (simp_all add: trunc32_def)
  then show ?thesis using a by (simp only: sub32_def trunc32_def mod_add_self2) simp
qed

lemma apart_drop: "apart (H(x := r)) (A - {x}) B x k = apart H (A - {x}) B x k"
  by (auto simp: apart_def)

lemma trunc32_id: "a < 2 ^ 32 \<Longrightarrow> trunc32 a = a"
  by (simp add: trunc32_def)

lemma split_db:
  assumes e: "all_malloc e" and l: "layout m n X (us @ x # vs) ch" and len: "len \<le> r_len (rec_at m x)"
  shows "\<exists>m' ws. split_record e (db m L c n) x (rec_at m x) len = Some (0, rec_at m' x, db m' L c n) \<and> layout m' n X (us @ x # ws) ch \<and> length m' = length m
    \<and> look m' n ch = look m n ch \<and> len \<le> r_len (rec_at m' x) \<and> (\<forall>z \<in> set us \<union> X. rec_at m' z = rec_at m z)"
proof (cases "r_len (rec_at m x) > len + MIN_REC_SIZE")
  case False
  then show ?thesis using l len by (intro exI [of _ m] exI [of _ vs]) (simp add: split_record_def)
next
  case True
  let ?A = "X \<union> set (us @ x # vs) \<union> in_use n ch" and ?B = "in_use n ch" and ?H = "rec_at m" and ?tp = "\<lambda>k. link m (head_at k)"
  note i = layout_in [OF l, of x]
  have x: "x \<in> ?A" "x \<notin> ?B" using laid_disjoint(1) [OF layoutD(4) [OF l]] by auto
  have big: "len + 52 < r_len (?H x)" using True by (simp add: MIN_REC_SIZE_def REC_SIZE_def)
  have rl: "r_len (?H x) < 2 ^ 32" using wf_rec_at [of m x] by (simp add: wf_rec_def)
  have le: "len \<le> round_align len" "round_align len \<le> len + 4" using round_align_bounds [of len] big rl by auto
  have hi: "x + 24 + r_len (?H x) \<le> length m" "length m < 2 ^ 32" "first_record n \<le> x" using i x layoutD(3) [OF l] by auto
  define y where "y = x + 24 + round_align len"
  define q where "q = (junk_rec e)\<lparr>r_len := r_len (?H x) - (24 + round_align len), r_next := r_next (?H x), r_magic := TDB_FREE_MAGIC\<rparr>"
  define r where "r = (?H x)\<lparr>r_len := round_align len, r_next := y\<rparr>"
  have yb: "y + 24 \<le> length m" "y < 2 ^ 32" "first_record n \<le> y" using hi le big by (auto simp: y_def)
  have wq: "wf_rec q" using e rl next_bound [of m x] by (auto simp: q_def all_malloc_def wf_rec_def TDB_FREE_MAGIC_def)
  have wr: "wf_rec r" using wf_rec_at [of m x] yb(2) rl le big by (auto simp: r_def wf_rec_def)
  have fr: "r_magic (?H x) = TDB_FREE_MAGIC" using chain_tail [OF laidD(1) [OF layoutD(4) [OF l]]] by simp
  have ld: "laid ?tp (?H(y := q, x := r)) (key_at m) n (length m) X (us @ x # y # vs) ch"
    using laid_split [OF layoutD(4) [OF l], of r q] fr le big by (simp add: r_def y_def q_def)
  have A: "insert y ?A = X \<union> set (us @ x # y # vs) \<union> in_use n ch" by auto
  have sp: "spaced (?H(y := q, x := r)) (first_record n) (length m) (insert y ?A)" "y \<notin> ?A"
    using spaced_split [OF layout_spaced [OF l] x(1), of y r q] le big by (simp_all add: r_def y_def q_def)
  let ?m1 = "patch m y (struct_bytes q)"
  have t: "tidy ?H n (length m) ?A ?B" by (rule tidy_laid [OF layoutD(4) [OF l]])
  have ap: "apart ?H (?A - {y}) ?B y 24"
  proof -
    have "z + 24 + (if z \<in> ?B then r_key_len (?H z) + r_data_len (?H z) else 0) \<le> y \<or> y + 24 \<le> z" if z: "z \<in> ?A" for z
    proof (cases "z = x")
      case True
      then show ?thesis using x(2) by (simp add: y_def)
    next
      case False
      then have "z + 24 + r_len (?H z) \<le> x \<or> x + 24 + r_len (?H x) \<le> z" using layout_spaced [OF l] x(1) z unfolding spaced_def by blast
      moreover have "(if z \<in> ?B then r_key_len (?H z) + r_data_len (?H z) else 0) \<le> r_len (?H z)" using t by (auto simp: tidy_def)
      ultimately show ?thesis using le big unfolding y_def by linarith
    qed
    then show ?thesis by (simp add: apart_def)
  qed
  have s1: "sees ?m1 n (insert y ?A) ?B ?tp (?H(y := q)) (key_at m) (data_at m)"
    by (rule sees_rec [OF sees_self [OF l] yb(3,1) ap wq]) (use sp(2) in auto)
  have l1: "length ?m1 = length m" using yb(1) by simp
  let ?m2 = "patch ?m1 x (struct_bytes r)"
  have "tidy (?H(y := q, x := r)) n (length m) (insert y ?A) ?B" using tidy_laid [OF ld] A by simp
  then have "apart (?H(y := q, x := r)) (insert y ?A - {x}) ?B x 24"
    using spaced_apart [OF sp(1), of x 24 ?B] x(1) by (simp add: tidy_def)
  then have "apart (?H(y := q)) (insert y ?A - {x}) ?B x 24" by (simp only: apart_drop)
  then have "sees ?m2 n (insert x (insert y ?A)) ?B ?tp (?H(y := q, x := r)) (key_at m) (data_at m)"
    using sees_rec [OF s1 hi(3), of r] hi(1) l1 wr x(2) by simp
  then have s2: "sees ?m2 n (insert y ?A) ?B ?tp (?H(y := q, x := r)) (key_at m) (data_at m)" using x(1) by (simp add: insert_absorb)
  have l2: "length ?m2 = length m" using l1 hi(1) by simp
  note z = layout_sees [OF s2 A refl ld [folded l2] layoutD(1) [OF l]]
  have at: "rec_at ?m2 w = (?H(y := q, x := r)) w" if "w \<in> insert y ?A" for w by (rule sees_at [OF s2 that])
  have "trunc32 (x + REC_SIZE + round_align len) = y" "sub32 (r_len (?H x)) (REC_SIZE + round_align len) = r_len (?H x) - (24 + round_align len)"
    using sub32_le [of "24 + round_align len" "r_len (?H x)"] trunc32_id [of y] yb(2) rl le big by (simp_all add: y_def REC_SIZE_def)
  then have "split_record e (db m L c n) x (?H x) len = Some (0, r, db ?m2 L c n)"
    using True yb(1) l1 hi(1) by (simp add: split_record_def Let_def write_db r_def q_def)
  moreover have "rec_at ?m2 x = r" using at [of x] x(1) by simp
  moreover have "rec_at ?m2 w = rec_at m w" if "w \<in> set us \<union> X" for w
  proof -
    have "w \<noteq> x" using that laidD(3,5) [OF layoutD(4) [OF l]] by auto
    moreover have "w \<noteq> y" "w \<in> insert y ?A" using that sp(2) by auto
    ultimately show ?thesis using at [of w] by simp
  qed
  moreover have "look ?m2 n ch key = look m n ch key" for key using z(2) [of key] l2 hi(2) by (simp add: look_def)
  then have "look ?m2 n ch = look m n ch" by auto
  ultimately show ?thesis using z(1) l2 hi(2) le by (intro exI [of _ ?m2] exI [of _ "y # vs"]) (simp add: r_def)
qed

lemma take_db:
  assumes e: "all_malloc e" and l: "layout m n X (us @ x # vs) ch" and len: "len \<le> r_len (rec_at m x)"
  shows "\<exists>m' fr. take_free e (db m L c n) len (if us = [] then None else Some (last us, rec_at m (last us))) x (rec_at m x) = Some (Allocated x, db m' L c n)
    \<and> layout m' n (insert x X) fr ch \<and> length m' = length m \<and> look m' n ch = look m n ch \<and> len \<le> r_len (rec_at m' x)"
proof -
  obtain m1 ws where s: "split_record e (db m L c n) x (rec_at m x) len = Some (0, rec_at m1 x, db m1 L c n)" "layout m1 n X (us @ x # ws) ch" "length m1 = length m"
      "look m1 n ch = look m n ch" "len \<le> r_len (rec_at m1 x)" "\<And>z. z \<in> set us \<union> X \<Longrightarrow> rec_at m1 z = rec_at m z"
    using split_db [OF e l len, of L c] by blast
  let ?A = "X \<union> set (us @ x # ws) \<union> in_use n ch" and ?B = "in_use n ch" and ?tp = "\<lambda>k. link m1 (head_at k)" and ?y = "r_next (rec_at m1 x)"
  let ?m = "relink m1 0 us ?y"
  have lu: "us \<noteq> [] \<longrightarrow> last us + 24 \<le> length m1" using layout_in(2) [OF s(2), of "last us"] by fastforce
  have hb: "head_at 0 + 4 \<le> length m1" using heads_in [OF s(2)] by simp
  have len1: "length ?m = length m1" by (rule length_relink [OF lu hb])
  have S: "sees ?m n ?A ?B (skip_head ?tp 0 us ?y) (skip_rec (rec_at m1) us ?y) (key_at m1) (data_at m1)"
    by (rule sees_relink [OF sees_self [OF s(2)] tidy_laid [OF layoutD(4) [OF s(2)]] _ _ next_bound]) auto
  have A: "?A = insert x X \<union> set (us @ ws) \<union> in_use n ch" by auto
  note z = layout_sees [OF S A refl laid_take [OF layoutD(4) [OF s(2)], folded len1] layoutD(1) [OF l]]
  have lt: "length ?m < 2 ^ 32" using len1 s(3) layoutD(3) [OF l] by simp
  have "us \<noteq> [] \<Longrightarrow> rec_at m (last us) = rec_at m1 (last us)" using s(6) [of "last us"] by simp
  then have p: "(if us = [] then None else Some (last us, rec_at m (last us))) = (if us = [] then None else Some (last us, rec_at m1 (last us)))" by simp
  have "take_free e (db m L c n) len (if us = [] then None else Some (last us, rec_at m (last us))) x (rec_at m x) = Some (Allocated x, db ?m L c n)"
    unfolding take_free_def s(1) p free_top using relink_db [OF lu hb, of L c n ?y] by simp
  moreover have "look ?m n ch key = look m1 n ch key" for key using z(2) [OF lt, of key] by (simp add: look_def)
  then have "look ?m n ch = look m n ch" using s(4) by auto
  moreover have "len \<le> r_len (rec_at ?m x)" using S s(5) by (simp add: sees_def)
  ultimately show ?thesis using z(1) [OF lt] len1 s(3) by (intro exI [of _ ?m] exI [of _ "us @ ws"]) simp
qed

section \<open>Growing the block\<close>

lemma take_drop_append: "p + k \<le> length m \<Longrightarrow> take k (drop p (m @ ms)) = take k (drop p m)"
  by simp

lemma sees_append:
  assumes "sees m n A B tp H K D" "tidy H n (length m) A B"
  shows "sees (m @ ext) n A B tp H K D"
proof -
  have f: "first_record n \<le> length m" "\<And>x. x \<in> A \<Longrightarrow> first_record n \<le> x \<and> x + 24 \<le> length m \<and> rec_at m x = H x" "B \<subseteq> A"
      "\<And>k. k \<le> n \<Longrightarrow> link m (head_at k) = tp k" "\<And>x. x \<in> B \<Longrightarrow> key_at m x = K x \<and> data_at m x = D x"
    using assms(1) unfolding sees_def by blast+
  have l: "link (m @ ext) (head_at k) = link m (head_at k)" if "k \<le> n" for k
    using head_bounds(1) [OF that] f(1) by (simp add: link_def)
  have r: "rec_at (m @ ext) x = rec_at m x" if "x \<in> A" for x using f(2) [OF that] by (simp add: rec_at_def)
  have b: "key_at (m @ ext) x = key_at m x \<and> data_at (m @ ext) x = data_at m x" if "x \<in> B" for x
  proof -
    have "x \<in> A" using that f(3) by auto
    moreover have "r_key_len (H x) + r_data_len (H x) \<le> r_len (H x)" using assms(2) that by (simp add: tidy_def)
    moreover have "x + 24 + r_len (H x) \<le> length m" using spaced_in [of H "first_record n" "length m" A x] assms(2) calculation(1) by (simp add: tidy_def)
    ultimately show ?thesis using f(2) [of x] r [of x] by (simp add: key_at_def data_at_def)
  qed
  show ?thesis unfolding sees_def using f l r b by (auto intro: trans_le_add1)
qed

lemma grow_db:
  "all_malloc e \<Longrightarrow> length m \<le> sz \<Longrightarrow>
    (db m L c n)\<lparr>map_size := sz, map_ptr := tdb_realloc e (map_ptr (db m L c n)) sz\<rparr> = db (m @ map (junk e) [length m ..< sz]) L c n"
  by (simp add: db_def tdb_realloc_def all_malloc_def)

lemma round_page_bounds: "a < round_page (a + 0x2000)" "round_page a \<le> a"
  by (simp_all add: round_page_def TDB_PAGE_SIZE_def) linarith?

lemma expand_db:
  assumes e: "all_malloc e" and l: "layout m n X fr ch" and o: "locks_ok n L" and len: "24 \<le> len" "length m + 10 * len + 0x2000 < 2 ^ 32"
  shows "\<exists>m'. tdb_expand e (db m L c n) len = Some (0, db m' L c n) \<and> layout m' n X (length m # fr) ch \<and> length m \<le> length m' \<and> length m' \<le> length m + 10 * len + 0x2000
    \<and> look m' n ch = look m n ch \<and> len \<le> r_len (rec_at m' (length m)) + 24"
proof -
  let ?A = "X \<union> set fr \<union> in_use n ch" and ?B = "in_use n ch" and ?tp = "\<lambda>k. link m (head_at k)"
  define sz where "sz = round_page (length m + 10 * len + 0x2000)"
  define new where "new = sz - length m"
  have sz: "length m + 10 * len < sz" "sz \<le> length m + 10 * len + 0x2000" "sz < 2 ^ 32"
    using round_page_bounds(1) [of "length m + 10 * len"] round_page_bounds(2) [of "length m + 10 * len + 0x2000"] len(2) by (auto simp: sz_def)
  have nw: "length m + new = sz" "240 < new" using sz len(1) by (auto simp: new_def)
  define r where "r = (junk_rec e)\<lparr>r_len := new - 24, r_next := ?tp 0, r_magic := TDB_FREE_MAGIC\<rparr>"
  define m1 where "m1 = m @ map (junk e) [length m ..< sz]"
  have l1: "length m1 = sz" using sz by (simp add: m1_def)
  have wr: "wf_rec r" using e sz(3) nw link_bound [of m "head_at 0"] by (auto simp: r_def all_malloc_def wf_rec_def TDB_FREE_MAGIC_def)
  have t: "tidy (rec_at m) n (length m) ?A ?B" by (rule tidy_laid [OF layoutD(4) [OF l]])
  have s1: "sees m1 n ?A ?B ?tp (rec_at m) (key_at m) (data_at m)" unfolding m1_def by (rule sees_append [OF sees_self [OF l] t])
  have ap: "apart (rec_at m) (?A - {length m}) ?B (length m) 24"
  proof -
    have "z + 24 + (if z \<in> ?B then r_key_len (rec_at m z) + r_data_len (rec_at m z) else 0) \<le> length m" if z: "z \<in> ?A" for z
    proof -
      have "(if z \<in> ?B then r_key_len (rec_at m z) + r_data_len (rec_at m z) else 0) \<le> r_len (rec_at m z)" using t by (auto simp: tidy_def)
      then show ?thesis using layout_in(2) [OF l z] by linarith
    qed
    then show ?thesis unfolding apart_def by blast
  qed
  have out: "length m \<notin> ?B" using layout_in(2) [OF l, of "length m"] by auto
  have s2: "sees (patch m1 (length m) (struct_bytes r)) n (insert (length m) ?A) ?B ?tp ((rec_at m)(length m := r)) (key_at m) (data_at m)"
    by (rule sees_rec [OF s1 layoutD(2) [OF l] _ ap wr]) (use out l1 nw in auto)
  let ?m = "patch (patch m1 (length m) (struct_bytes r)) (head_at 0) (le32 (length m))"
  have hb: "head_at 0 + 4 \<le> length m" using heads_in [OF l] by simp
  have l2: "length (patch m1 (length m) (struct_bytes r)) = sz" using l1 nw by simp
  have l3: "length ?m = sz" using l2 hb sz by simp
  have s3: "sees ?m n (insert (length m) ?A) ?B (?tp(0 := length m)) ((rec_at m)(length m := r)) (key_at m) (data_at m)"
    by (rule sees_link [OF s2 _ layoutD(3) [OF l]]) simp
  have A: "insert (length m) ?A = X \<union> set (length m # fr) \<union> in_use n ch" by auto
  have ld: "laid (?tp(0 := length m)) ((rec_at m)(length m := r)) (key_at m) n (length ?m) X (length m # fr) ch"
    unfolding l3 by (rule laid_expand [OF layoutD(4) [OF l] _ _ _ layoutD(2) [OF l]]) (use nw in \<open>simp_all add: r_def\<close>)
  have lt: "length ?m < 2 ^ 32" using l3 sz(3) by simp
  note z = layout_sees [OF s3 A refl ld layoutD(1) [OF l] lt]
  have "look ?m n ch key = look m n ch key" for key using z(2) [of key] by (simp add: look_def)
  then have k: "look ?m n ch = look m n ch" by auto
  have "trunc32 (len * TDB_LEN_MULTIPLIER) = 10 * len" "trunc32 (length m + 10 * len) = length m + 10 * len" "trunc32 (length m + 10 * len + TDB_PAGE_SIZE) = length m + 10 * len + 0x2000"
    using len(2) by (simp_all add: trunc32_def TDB_LEN_MULTIPLIER_def TDB_PAGE_SIZE_def)
  moreover have "sub32 sz (length m) = new" "sub32 new REC_SIZE = new - 24" "trunc32 (length m + new) = sz" "sub32 sz new = length m"
    using sub32_le [of "length m" sz] sub32_le [of 24 new] sub32_le [of new sz] trunc32_id [of sz] sz nw by (simp_all add: REC_SIZE_def)
  moreover have "ofs_read (db m (inc L (- 1)) c n) FREELIST_TOP = Some (Some (?tp 0), db m (inc L (- 1)) c n)"
    unfolding free_top using read_db(2) [OF hb] .
  moreover have "(db m (inc L (- 1)) c n)\<lparr>map_size := sz, map_ptr := tdb_realloc e (Some m) sz\<rparr> = db m1 (inc L (- 1)) c n"
    using grow_db [OF e, of m sz "inc L (- 1)" c n] sz by (simp add: m1_def)
  moreover have "rec_write (db m1 (inc L (- 1)) c n) (length m) r = Some (0, db (patch m1 (length m) (struct_bytes r)) (inc L (- 1)) c n)"
    using write_db(3) [of "length m" m1] l1 nw by simp
  moreover have "ofs_write (db (patch m1 (length m) (struct_bytes r)) (inc L (- 1)) c n) FREELIST_TOP (length m) = Some (0, db ?m (inc L (- 1)) c n)"
    unfolding free_top by (rule write_db(2)) (use l2 hb sz in simp)
  ultimately have "tdb_expand e (db m L c n) len = Some (0, db ?m L c n)"
    by (simp add: tdb_expand_def lock_free [OF o] unlock_free [OF o] Let_def sz_def [symmetric] r_def [symmetric])
  moreover have "rec_at ?m (length m) = r" using sees_at [OF s3, of "length m"] by simp
  ultimately show ?thesis using z(1) k l3 sz nw by (intro exI [of _ ?m]) (simp add: r_def)
qed
end
