(* ===== verification/Tdb_Store.thy ===== *)
theory Tdb_Store
  imports Tdb_Operations
begin

text \<open>
  Storing in a database (\<^verbatim>\<open>libasuite/tdb.c\<close>): the allocation with the search of the free list, the filling of the record and the change in its place, and the
  contract \<open>keyed_store\<close> that the database keeps: a store that finds room and a deletion change a map, a fetch reads it.
\<close>

section \<open>Allocation\<close>

lemma alloc_hit:
  assumes e: "all_malloc e" and l: "layout m n X fr ch" and o: "locks_ok n L" and x: "\<exists>x \<in> set fr. len \<le> r_len (rec_at m x)"
  shows "\<exists>p m' fr'. alloc_loop e (db m (inc L (- 1)) c n) len = Some (p, db m' L c n) \<and> 0 < p \<and> layout m' n (insert p X) fr' ch \<and> p \<notin> X \<and> length m' = length m
    \<and> look m' n ch = look m n ch \<and> len \<le> r_len (rec_at m' p)"
proof -
  obtain x where f: "find (\<lambda>x. len \<le> r_len (rec_at m x)) fr = Some x" using x by (cases "find (\<lambda>x. len \<le> r_len (rec_at m x)) fr") (auto simp: find_None_iff)
  obtain us vs where s: "fr = us @ x # vs" "len \<le> r_len (rec_at m x)" "\<forall>u \<in> set us. \<not> len \<le> r_len (rec_at m u)" using find_split [OF f] by blast
  have l': "layout m n X (us @ x # vs) ch" using l s(1) by simp
  obtain m' fr' where t: "take_free e (db m (inc L (- 1)) c n) len (if us = [] then None else Some (last us, rec_at m (last us))) x (rec_at m x) = Some (Allocated x, db m' (inc L (- 1)) c n)"
      "layout m' n (insert x X) fr' ch" "length m' = length m" "look m' n ch = look m n ch" "len \<le> r_len (rec_at m' x)"
    using take_db [OF e l' s(2), of "inc L (- 1)" c] by blast
  have c: "rec_chain (rec_at m) TDB_FREE_MAGIC (link m (head_at 0)) (us @ x # vs)" using laidD(1) [OF layoutD(4) [OF l']] .
  have b: "\<forall>z \<in> set (us @ x # vs). z + 24 \<le> length m" using layout_in(2) [OF l'] by fastforce
  have fl: "free_loop e (db m (inc L (- 1)) c n) len None (link m (head_at 0)) = Some (Allocated x, db m' (inc L (- 1)) c n)"
    using free_loop_db(2) [OF c b _ refl s(2)] s(3) t(1) by (simp add: not_le)
  have "ofs_read (db m (inc L (- 1)) c n) FREELIST_TOP = Some (Some (link m (head_at 0)), db m (inc L (- 1)) c n)"
    unfolding free_top using read_db(2) heads_in [OF l] by simp
  then have "alloc_loop e (db m (inc L (- 1)) c n) len = Some (x, db m' L c n)"
    by (subst alloc_loop.simps) (simp add: fl unlock_free [OF o])
  moreover have "x \<notin> X" "0 < x" using laidD(5) [OF layoutD(4) [OF l']] layout_in(4) [OF l', of x] by auto
  ultimately show ?thesis using t by blast
qed

lemma allocate_db:
  assumes e: "all_malloc e" and l: "layout m n X fr ch" and o: "locks_ok n L" and len: "length m + 10 * (len + 24) + 0x2000 < 2 ^ 32"
  shows "\<exists>p m' fr'. tdb_allocate e (db m L c n) len = Some (p, db m' L c n) \<and> 0 < p \<and> layout m' n (insert p X) fr' ch \<and> p \<notin> X
    \<and> length m \<le> length m' \<and> length m' \<le> length m + 10 * (len + 24) + 0x2000 \<and> look m' n ch = look m n ch \<and> len \<le> r_len (rec_at m' p)"
proof (cases "\<exists>x \<in> set fr. len \<le> r_len (rec_at m x)")
  case True
  obtain p m' fr' where "alloc_loop e (db m (inc L (- 1)) c n) len = Some (p, db m' L c n)" "0 < p" "layout m' n (insert p X) fr' ch" "p \<notin> X" "length m' = length m"
      "look m' n ch = look m n ch" "len \<le> r_len (rec_at m' p)"
    using alloc_hit [OF e l o True, of c] by auto
  then show ?thesis by (intro exI [of _ p] exI [of _ m'] exI [of _ fr']) (simp add: tdb_allocate_def lock_free [OF o])
next
  case False
  have c: "rec_chain (rec_at m) TDB_FREE_MAGIC (link m (head_at 0)) (fr @ [])" using laidD(1) [OF layoutD(4) [OF l]] by simp
  have b: "\<forall>z \<in> set (fr @ []). z + 24 \<le> length m" using layout_in(2) [OF l] by fastforce
  have fl: "free_loop e (db m (inc L (- 1)) c n) len None (link m (head_at 0)) = Some (No_space, db m (inc L (- 1)) c n)"
    using free_loop_db(1) [OF c b] False by (simp add: not_le)
  obtain m1 where x: "tdb_expand e (db m (inc L (- 1)) c n) (len + 24) = Some (0, db m1 (inc L (- 1)) c n)" "layout m1 n X (length m # fr) ch" "length m \<le> length m1"
      "length m1 \<le> length m + 10 * (len + 24) + 0x2000" "look m1 n ch = look m n ch" "len + 24 \<le> r_len (rec_at m1 (length m)) + 24"
    using expand_db [OF e l locks_free [OF o], of "len + 24" c] len by auto
  have "trunc32 (len + REC_SIZE) = len + 24" using len by (simp add: trunc32_def REC_SIZE_def)
  moreover have "ofs_read (db m (inc L (- 1)) c n) FREELIST_TOP = Some (Some (link m (head_at 0)), db m (inc L (- 1)) c n)"
    unfolding free_top using read_db(2) heads_in [OF l] by simp
  ultimately have "alloc_loop e (db m (inc L (- 1)) c n) len = alloc_loop e (db m1 (inc L (- 1)) c n) len"
    by (subst alloc_loop.simps) (simp add: fl x(1))
  moreover obtain p m' fr' where "alloc_loop e (db m1 (inc L (- 1)) c n) len = Some (p, db m' L c n)" "0 < p" "layout m' n (insert p X) fr' ch" "p \<notin> X" "length m' = length m1"
      "look m' n ch = look m1 n ch" "len \<le> r_len (rec_at m' p)"
    using alloc_hit [OF e x(2) o, of len c] x(6) by auto
  ultimately show ?thesis using x(3-5) by (intro exI [of _ p] exI [of _ m'] exI [of _ fr']) (simp add: tdb_allocate_def lock_free [OF o])
qed

section \<open>Filling a record, and changing one\<close>

lemma fill_db:
  assumes e: "all_malloc e" and l: "layout m n X fr ch" and o: "locks_ok n L" and x: "x \<in> X" "look m n ch key = None" "length key + length dbuf \<le> r_len (rec_at m x)"
  defines "b \<equiv> tdb_hash key mod n"
  shows "\<exists>m'. fill_record e (db m (inc L (int b)) c n) x key dbuf = Some (0, db m' L c n) \<and> layout m' n (X - {x}) fr (ch(b := x # ch b)) \<and> length m' = length m
    \<and> look m' n (ch(b := x # ch b)) = (look m n ch)(key \<mapsto> dbuf)"
proof -
  let ?A = "X \<union> set fr \<union> in_use n ch" and ?B = "in_use n ch" and ?tp = "\<lambda>k. link m (head_at k)" and ?ch = "ch(b := x # ch b)"
  have b: "b < n" using layoutD(1) [OF l] by (simp add: b_def)
  have xA: "x \<in> ?A" "x \<notin> ?B" "x \<notin> set fr" using x(1) laidD(5) [OF layoutD(4) [OF l]] by auto
  note i = layout_in [OF l xA(1)]
  have lt: "length m < 2 ^ 32" by (rule layoutD(3) [OF l])
  have h32: "tdb_hash key < 2 ^ 32"
  proof -
    have "unat w < 2 ^ 32" for w :: u32 using unsigned_less [of w] by simp
    then show ?thesis by (simp add: tdb_hash_def Let_def)
  qed
  have small: "length key < 2 ^ 32" "length dbuf < 2 ^ 32" "x + 24 + length key + length dbuf \<le> length m" using x(3) i(2) lt by auto
  define r where "r = (rec_at m x)\<lparr>r_next := ?tp (Suc b), r_key_len := length key, r_data_len := length dbuf, r_full_hash := tdb_hash key, r_magic := TDB_MAGIC\<rparr>"
  have wr: "wf_rec r" using wf_rec_at [of m x] link_bound [of m] small h32 by (simp add: r_def wf_rec_def TDB_MAGIC_def)
  have mg: "r_magic (rec_at m x) = TDB_FREE_MAGIC" using laidD(6) [OF layoutD(4) [OF l] x(1)] .
  have t: "tidy (rec_at m) n (length m) ?A ?B" by (rule tidy_laid [OF layoutD(4) [OF l]])
  let ?p = "struct_bytes r @ key @ dbuf"
  have ap: "apart (rec_at m) (?A - {x}) ?B x (24 + length key + length dbuf)"
    by (rule spaced_apart [OF layout_spaced [OF l] xA(1)]) (use x(3) t in \<open>auto simp: tidy_def\<close>)
  have "sees (patch m x ?p) n (insert x ?A) (insert x ?B) ?tp ((rec_at m)(x := r)) ((key_at m)(x := key)) ((data_at m)(x := dbuf))"
    by (rule sees_entry [OF sees_self [OF l] i(1) small(3) ap wr]) (simp_all add: r_def)
  then have s1: "sees (patch m x ?p) n ?A (insert x ?B) ?tp ((rec_at m)(x := r)) ((key_at m)(x := key)) ((data_at m)(x := dbuf))"
    using xA(1) by (simp only: insert_absorb)
  have l1: "length (patch m x ?p) = length m" using small(3) by simp
  let ?m = "patch (patch m x ?p) (head_at (Suc b)) (le32 x)"
  have hb: "head_at (Suc b) + 4 \<le> length m" using heads_in [OF l] b by simp
  have l2: "length ?m = length m" using l1 hb by simp
  have iu: "in_use n ?ch = insert x ?B" by (rule in_use_add [OF b])
  have s2: "sees ?m n ?A (in_use n ?ch) (?tp(Suc b := x)) ((rec_at m)(x := r)) ((key_at m)(x := key)) ((data_at m)(x := dbuf))"
    unfolding iu by (rule sees_link [OF s1 _ i(3)]) (use b in simp)
  have no: "key_at m z \<noteq> key" if "z \<in> set (ch b)" for z using x(2) that by (auto simp: look_def b_def find_None_iff)
  have A: "?A = X - {x} \<union> set fr \<union> in_use n ?ch" using iu x(1) by auto
  have ld: "laid (?tp(Suc b := x)) ((rec_at m)(x := r)) ((key_at m)(x := key)) n (length ?m) (X - {x}) fr ?ch"
    unfolding l2 by (rule laid_fill [OF layoutD(4) [OF l] x(1) b_def [THEN meta_eq_to_obj_eq] b no]) (use x(3) i(4) in \<open>simp_all add: r_def\<close>)
  have lt2: "length ?m < 2 ^ 32" using l2 lt by simp
  note z = layout_sees [OF s2 A refl ld layoutD(1) [OF l] lt2]
  have "look ?m n ?ch k = ((look m n ch)(key \<mapsto> dbuf)) k" for k
  proof (cases "k = key")
    case True
    then show ?thesis using z(2) [of key] by (simp add: b_def)
  next
    case False
    have keep: "find (\<lambda>w. ((key_at m)(x := key)) w = k) ys = find (\<lambda>w. key_at m w = k) ys" if "x \<notin> set ys" for ys
      by (rule find_cong) (use that in auto)
    have out: "x \<notin> set (ch j)" if "j < n" for j using xA(2) that in_use_iff by blast
    have kn: "tdb_hash k mod n < n" using layoutD(1) [OF l] by simp
    have "find (\<lambda>w. ((key_at m)(x := key)) w = k) (?ch (tdb_hash k mod n)) = find (\<lambda>w. key_at m w = k) (ch (tdb_hash k mod n))"
    proof -
      have "((key_at m)(x := key)) x \<noteq> k" using False by simp
      then have "find (\<lambda>w. ((key_at m)(x := key)) w = k) (?ch (tdb_hash k mod n)) = find (\<lambda>w. ((key_at m)(x := key)) w = k) (ch (tdb_hash k mod n))"
        by (cases "tdb_hash k mod n = b") (simp_all del: fun_upd_apply add: fun_upd_same fun_upd_other)
      then show ?thesis using keep [OF out [OF kn]] by simp
    qed
    moreover have "find (\<lambda>w. key_at m w = k) (ch (tdb_hash k mod n)) = Some w \<Longrightarrow> w \<noteq> x" for w using out [OF kn] find_mem by fastforce
    ultimately show ?thesis using z(2) [of k] False by (cases "find (\<lambda>w. key_at m w = k) (ch (tdb_hash k mod n))") (auto simp: look_def)
  qed
  then have k: "look ?m n ?ch = (look m n ch)(key \<mapsto> dbuf)" by blast
  have tr: "trunc32 (length key) = length key" "trunc32 (length dbuf) = length dbuf" "trunc32 (24 + (length key + length dbuf)) = 24 + (length key + length dbuf)"
    using small lt by (simp_all add: trunc32_def)
  have ub: "tdb_unlock (db m' (inc L (int b)) c n) (int b) = Some (0, db m' L c n)" for m'
    using unlock_bucket [OF o layoutD(1) [OF l]] by (simp add: b_def)
  have rs: "read_struct (db m (inc L (int b)) c n) x = Some (Some (rec_at m x), db m (inc L (int b)) c n)" using i(2) by (intro read_db) simp
  have hr: "ofs_read (db m (inc L (int b)) c n) (head_at (Suc b)) = Some (Some (?tp (Suc b)), db m (inc L (int b)) c n)" by (rule read_db(2) [OF hb])
  have w: "tdb_write (db m (inc L (int b)) c n) x ?p = Some (0, db (patch m x ?p) (inc L (int b)) c n)" by (rule write_db(1)) (use small in simp)
  have wl: "ofs_write (db (patch m x ?p) (inc L (int b)) c n) (head_at (Suc b)) x = Some (0, db ?m (inc L (int b)) c n)" by (rule write_db(2)) (use l1 hb in simp)
  have "tdb_hash_top (db m' L' c n) (tdb_hash key) = head_at (Suc b)" for m' L'
    using hash_top_db [OF l, of L' c "tdb_hash key"] by (simp add: tdb_hash_top_def b_def)
  moreover have "bucket (db m' L' c n) (tdb_hash key) = b" for m' L' by (simp add: b_def)
  ultimately have "fill_record e (db m (inc L (int b)) c n) x key dbuf = Some (0, db ?m L c n)"
    using e by (simp add: fill_record_def Let_def rs mg hr tr r_def [symmetric] all_malloc_def w wl ub del: bucket_db)
  then show ?thesis using z(1) k l2 by blast
qed

text \<open>A change in place leaves the block as if the whole entry had been written.\<close>

lemma word_of_nat_unat_id: "word_of_nat (unat w) = w"
  by simp

lemma le32_of_le32: "length bs = 4 \<Longrightarrow> le32 (of_le32 bs) = bs"
proof -
  assume "length bs = 4"
  then obtain a b c d where bs: "bs = [a, b, c, d]" by (cases bs rule: of_le32.cases) auto
  have u: "unat a < 256" "unat b < 256" "unat c < 256" "unat d < 256" using unsigned_less [of a] unsigned_less [of b] unsigned_less [of c] unsigned_less [of d] by simp_all
  define r where "r = unat d"
  define q where "q = unat c + 256 * r"
  define p where "p = unat b + 256 * q"
  have n: "of_le32 [a, b, c, d] = unat a + 256 * p" unfolding of_le32.simps p_def q_def r_def by simp
  have d: "(unat a + 256 * p) div 256 = p" "(unat a + 256 * p) mod 256 = unat a" "p div 256 = q" "p mod 256 = unat b" "q div 256 = r" "q mod 256 = unat c" "r mod 256 = unat d"
  proof -
    have g: "(w + 256 * v) div 256 = v" "(w + 256 * v) mod 256 = w" if "w < 256" for v w :: nat using that by simp_all
    show "(unat a + 256 * p) div 256 = p" "(unat a + 256 * p) mod 256 = unat a" by (rule g [OF u(1)])+
    show "p div 256 = q" "p mod 256 = unat b" unfolding p_def by (rule g [OF u(2)])+
    show "q div 256 = r" "q mod 256 = unat c" unfolding q_def by (rule g [OF u(3)])+
    show "r mod 256 = unat d" using u(4) by (simp add: r_def)
  qed
  have e: "n div 65536 = n div 256 div 256" "n div 16777216 = n div 256 div 256 div 256" for n :: nat by (simp_all add: div_mult2_eq [symmetric])
  have "le32 (unat a + 256 * p) = [word_of_nat (unat a), word_of_nat (unat b), word_of_nat (unat c), word_of_nat (unat d)]" unfolding le32_def e d ..
  then show ?thesis unfolding bs n by (simp only: word_of_nat_unat_id)
qed

lemma rec_bytes_bytes_rec: "length bs = 24 \<Longrightarrow> struct_bytes (bytes_rec bs) = bs"
proof -
  assume l: "length bs = 24"
  then have w: "le32 (word_at bs i) = take 4 (drop (4 * i) bs)" if "i < 6" for i using that by (simp add: word_at_def le32_of_le32)
  have s: "take 4 (drop k bs) @ drop (4 + k) bs = drop k bs" for k using append_take_drop_id [of 4 "drop k bs"] by simp
  have e: "drop 20 bs = take 4 (drop 20 bs)" using l by simp
  have "struct_bytes (bytes_rec bs) = take 4 (drop 0 bs) @ take 4 (drop 4 bs) @ take 4 (drop 8 bs) @ take 4 (drop 12 bs) @ take 4 (drop 16 bs) @ take 4 (drop 20 bs)"
    using w [of 0] w [of 1] w [of 2] w [of 3] w [of 4] w [of 5] by (simp add: struct_bytes_def bytes_rec_def)
  also have "\<dots> = bs" using s [of 0] s [of 4] s [of 8] s [of 12] s [of 16] e by simp
  finally show ?thesis .
qed

lemma rec_bytes_at: "x + 24 \<le> length m \<Longrightarrow> struct_bytes (rec_at m x) = take 24 (drop x m)"
  by (simp add: rec_at_def rec_bytes_bytes_rec)

lemma patch_entry:
  assumes "x + 24 + k + length d \<le> length m"
  shows "patch (patch m (x + 24 + k) d) x (struct_bytes r) = patch m x (struct_bytes r @ take k (drop (x + 24) m) @ d)"
    and "patch m (x + 24 + k) d = patch m x (struct_bytes (rec_at m x) @ take k (drop (x + 24) m) @ d)"
proof -
  have t: "take (x + 24 + k) m = take x m @ take 24 (drop x m) @ take k (drop (x + 24) m)"
    using take_add [of "x + 24" k m] take_add [of x 24 m] by simp
  have l: "length (take (x + 24 + k) m) = x + 24 + k" "length (take 24 (drop x m)) = 24" "length (take x m) = x" "length (take k (drop (x + 24) m)) = k" using assms by simp_all
  show "patch m (x + 24 + k) d = patch m x (struct_bytes (rec_at m x) @ take k (drop (x + 24) m) @ d)"
    using assms by (simp add: patch_def t [unfolded add.assoc] rec_bytes_at add.assoc)
  show "patch (patch m (x + 24 + k) d) x (struct_bytes r) = patch m x (struct_bytes r @ take k (drop (x + 24) m) @ d)"
    using assms l by (simp add: patch_def t [unfolded add.assoc] add.assoc)
qed

lemma update_db:
  assumes e: "all_malloc e" and l: "layout m n X fr ch" and o: "locks_ok n L"
  shows "tdb_update e (db m L c n) key dbuf = Some (- 1, db m L c n)
    \<or> (\<exists>m'. tdb_update e (db m L c n) key dbuf = Some (0, db m' L c n) \<and> layout m' n X fr ch \<and> length m' = length m \<and> look m' n ch = (look m n ch)(key \<mapsto> dbuf))"
proof (cases "find (\<lambda>x. key_at m x = key) (ch (tdb_hash key mod n))")
  case None
  then show ?thesis
    by (simp add: tdb_update_def Let_def locked_find_db [OF e l o] fail_unlock_def unlock_bucket [OF o layoutD(1) [OF l]])
next
  case (Some x)
  define b where "b = tdb_hash key mod n"
  let ?A = "X \<union> set fr \<union> in_use n ch" and ?B = "in_use n ch" and ?tp = "\<lambda>k. link m (head_at k)"
  have b: "b < n" using layoutD(1) [OF l] by (simp add: b_def)
  have x: "x \<in> set (ch b)" "key_at m x = key" using find_mem [OF Some] by (simp_all add: b_def)
  have xB: "x \<in> ?B" using x(1) b in_use_iff by blast
  have xA: "x \<in> ?A" using xB by simp
  note i = layout_in [OF l xA] and d = laidD [OF layoutD(4) [OF l]]
  have kl: "length key = r_key_len (rec_at m x)" "r_key_len (rec_at m x) + r_data_len (rec_at m x) \<le> r_len (rec_at m x)"
    using layout_holds [OF l b x(1)] x(2) d(8) [OF b x(1)] by (auto simp: holds_entry_def key_at_def)
  have ub: "tdb_unlock (db m' (inc L (int b)) c n) (int b) = Some (0, db m' L c n)" for m'
    using unlock_bucket [OF o layoutD(1) [OF l]] by (simp add: b_def)
  have lf: "locked_find e (db m L c n) key = Some (Some (x, rec_at m x), db m (inc L (int b)) c n)"
    using locked_find_db [OF e l o] Some by (simp add: b_def)
  show ?thesis
  proof (cases "r_len (rec_at m x) < length key + length dbuf")
    case True
    then show ?thesis using ub lf by (simp add: tdb_update_def Let_def fail_unlock_def b_def)
  next
    case False
    have fit: "x + 24 + length key + length dbuf \<le> length m" "length dbuf < 2 ^ 32" using False i(2) layoutD(3) [OF l] by auto
    define r where "r = (rec_at m x)\<lparr>r_data_len := length dbuf\<rparr>"
    let ?p = "struct_bytes r @ key @ dbuf"
    let ?m = "patch m x ?p"
    have wr: "wf_rec r" using wf_rec_at [of m x] fit(2) by (simp add: r_def wf_rec_def)
    have l1: "length ?m = length m" using fit(1) by simp
    have t: "tidy (rec_at m) n (length m) ?A ?B" by (rule tidy_laid [OF layoutD(4) [OF l]])
    have ap: "apart (rec_at m) (?A - {x}) ?B x (24 + length key + length dbuf)"
      by (rule spaced_apart [OF layout_spaced [OF l] xA]) (use False t in \<open>auto simp: tidy_def\<close>)
    have "sees ?m n (insert x ?A) (insert x ?B) ?tp ((rec_at m)(x := r)) ((key_at m)(x := key)) ((data_at m)(x := dbuf))"
      by (rule sees_entry [OF sees_self [OF l] i(1) fit(1) ap wr]) (simp_all add: r_def kl(1))
    then have s: "sees ?m n ?A ?B ?tp ((rec_at m)(x := r)) (key_at m) ((data_at m)(x := dbuf))"
      using xA xB x(2) by (simp only: insert_absorb fun_upd_triv [of "key_at m" x, unfolded x(2)])
    have ld: "laid ?tp ((rec_at m)(x := r)) (key_at m) n (length ?m) X fr ch"
      unfolding l1 unfolding r_def by (rule laid_resize [OF layoutD(4) [OF l] xB]) (use False kl in simp)
    have lt: "length ?m < 2 ^ 32" using l1 layoutD(3) [OF l] by simp
    note z = layout_sees [OF s refl refl ld layoutD(1) [OF l] lt]
    have "look ?m n ch k = ((look m n ch)(key \<mapsto> dbuf)) k" for k
    proof (cases "k = key")
      case True
      then show ?thesis using z(2) [of key] Some by simp
    next
      case False
      have "find (\<lambda>w. key_at m w = k) (ch (tdb_hash k mod n)) = Some w \<Longrightarrow> w \<noteq> x" for w using find_mem x(2) False by fastforce
      then show ?thesis using z(2) [of k] False by (cases "find (\<lambda>w. key_at m w = k) (ch (tdb_hash k mod n))") (auto simp: look_def)
    qed
    then have k: "look ?m n ch = (look m n ch)(key \<mapsto> dbuf)" by blast
    have key: "take (r_key_len (rec_at m x)) (drop (x + 24) m) = key" using x(2) by (simp add: key_at_def)
    have fit2: "x + 24 + r_key_len (rec_at m x) + length dbuf \<le> length m" using fit(1) kl(1) by simp
    note pe = patch_entry [OF fit2, unfolded key]
    have tr: "trunc32 (x + REC_SIZE + r_key_len (rec_at m x)) = x + 24 + r_key_len (rec_at m x)" "trunc32 (length dbuf) = length dbuf"
      using fit2 fit(2) layoutD(3) [OF l] by (simp_all add: trunc32_def REC_SIZE_def)
    have w: "tdb_write (db m (inc L (int b)) c n) (x + 24 + r_key_len (rec_at m x)) dbuf = Some (0, db (patch m (x + 24 + r_key_len (rec_at m x)) dbuf) (inc L (int b)) c n)"
      by (rule write_db(1) [OF fit2])
    have lp: "length (patch m (x + 24 + r_key_len (rec_at m x)) dbuf) = length m" using fit2 by simp
    have w2: "rec_write (db (patch m (x + 24 + r_key_len (rec_at m x)) dbuf) (inc L (int b)) c n) x r = Some (0, db ?m (inc L (int b)) c n)"
      unfolding pe(1) [symmetric] by (rule write_db(3)) (use lp i(2) in simp)
    have same: "patch m (x + 24 + r_key_len (rec_at m x)) dbuf = ?m" if "length dbuf = r_data_len (rec_at m x)"
      using pe(2) that by (simp add: r_def)
    have "tdb_update e (db m L c n) key dbuf = Some (0, db ?m L c n)"
    proof (cases "length dbuf = r_data_len (rec_at m x)")
      case True
      then show ?thesis using False lf w ub same by (simp add: tdb_update_def Let_def tr b_def [symmetric] not_less)
    next
      case ne: False
      then show ?thesis using False lf w w2 ub by (simp add: tdb_update_def Let_def tr b_def [symmetric] r_def [symmetric] not_less)
    qed
    then show ?thesis using z(1) k l1 by blast
  qed
qed

section \<open>Storing\<close>

definition growth :: "byte list \<Rightarrow> byte list \<Rightarrow> nat" where
  "growth key dbuf = 10 * (length key + length dbuf + 24) + 0x2000"

lemma store_fresh:
  assumes e: "all_malloc e" and l: "layout m n {} fr ch" and o: "locks_ok n L" and g: "length m + growth key dbuf < 2 ^ 32"
    and f: "flag = TDB_REPLACE \<or> look m n ch key = None"
  shows "\<exists>m' fr' ch'. do {
      (rec_ptr, t) \<leftarrow> tdb_allocate e (db m L c n) (trunc32 (length key + length dbuf));
      if rec_ptr = 0 then Some (- 1, t)
      else do {
        (_, t) \<leftarrow> tdb_lock t (int (tdb_hash key mod n));
        (_, t) \<leftarrow> (if flag \<noteq> TDB_INSERT then tdb_delete e t key else Some (0, t));
        fill_record e t rec_ptr key dbuf
      }
    } = Some (0, db m' L c n) \<and> layout m' n {} fr' ch' \<and> length m' \<le> length m + growth key dbuf \<and> look m' n ch' = (look m n ch)(key \<mapsto> dbuf)"
proof -
  let ?b = "tdb_hash key mod n"
  have tr: "trunc32 (length key + length dbuf) = length key + length dbuf" using g by (simp add: growth_def trunc32_def)
  obtain p m1 fr1 where a: "tdb_allocate e (db m L c n) (length key + length dbuf) = Some (p, db m1 L c n)" "0 < p" "layout m1 n {p} fr1 ch"
      "length m1 \<le> length m + growth key dbuf" "look m1 n ch = look m n ch" "length key + length dbuf \<le> r_len (rec_at m1 p)"
    using allocate_db [OF e l o, of "length key + length dbuf" c] g by (auto simp: growth_def)
  have k: "tdb_lock (db m1 L c n) (int ?b) = Some (0, db m1 (inc L (int ?b)) c n)" by (rule lock_bucket [OF o layoutD(1) [OF l]])
  have lo: "locks_ok n (inc L (int ?b))" by (rule locks_bucket [OF o layoutD(1) [OF l]])
  obtain rc m2 fr2 ch2 where d: "(if flag \<noteq> TDB_INSERT then tdb_delete e (db m1 (inc L (int ?b)) c n) key else Some (0, db m1 (inc L (int ?b)) c n)) = Some (rc, db m2 (inc L (int ?b)) c n)"
      "layout m2 n {p} fr2 ch2" "length m2 = length m1" "rec_at m2 p = rec_at m1 p" "look m2 n ch2 = (look m n ch)(key := None)"
  proof (cases "flag = TDB_INSERT")
    case True
    then have "look m n ch = (look m n ch)(key := None)" using f by auto
    then show ?thesis using that [of 0 m1 fr1 ch] True a(3,5) by simp
  next
    case False
    then show ?thesis using delete_db [OF e a(3) lo, of c key] a(5) that by auto
  qed
  obtain m3 where h: "fill_record e (db m2 (inc L (int ?b)) c n) p key dbuf = Some (0, db m3 L c n)" "layout m3 n ({p} - {p}) fr2 (ch2(?b := p # ch2 ?b))" "length m3 = length m2"
      "look m3 n (ch2(?b := p # ch2 ?b)) = (look m2 n ch2)(key \<mapsto> dbuf)"
    using fill_db [OF e d(2) o, of p key dbuf c] d(4,5) a(6) by auto
  show ?thesis using a d h by (intro exI [of _ m3] exI [of _ fr2] exI [of _ "ch2(?b := p # ch2 ?b)"]) (simp add: tr k)
qed

lemma store_db:
  assumes e: "all_malloc e" and l: "layout m n {} fr ch" and o: "locks_ok n L" and g: "length m + growth key dbuf < 2 ^ 32" and f: "flag = TDB_REPLACE \<or> look m n ch key = None"
  shows "\<exists>m' fr' ch'. tdb_store e (db m L c n) key dbuf flag = Some (0, db m' L c n) \<and> layout m' n {} fr' ch' \<and> length m' \<le> length m + growth key dbuf
    \<and> look m' n ch' = (look m n ch)(key \<mapsto> dbuf)"
proof -
  obtain m3 fr3 ch3 where n: "do {
      (rec_ptr, t) \<leftarrow> tdb_allocate e (db m L c n) (trunc32 (length key + length dbuf));
      if rec_ptr = 0 then Some (- 1, t)
      else do {
        (_, t) \<leftarrow> tdb_lock t (int (tdb_hash key mod n));
        (_, t) \<leftarrow> (if flag \<noteq> TDB_INSERT then tdb_delete e t key else Some (0, t));
        fill_record e t rec_ptr key dbuf
      }
    } = Some (0, db m3 L c n)" "layout m3 n {} fr3 ch3" "length m3 \<le> length m + growth key dbuf" "look m3 n ch3 = (look m n ch)(key \<mapsto> dbuf)"
    using store_fresh [OF e l o g f, of c] by blast
  show ?thesis
  proof (cases "flag = TDB_INSERT")
    case True
    then have "tdb_store e (db m L c n) key dbuf flag = Some (0, db m3 L c n)"
      using f n(1) [unfolded True] exists_db [OF e l o, of c key] by (simp add: tdb_store_def)
    then show ?thesis using n(2-4) by blast
  next
    case False
    then have st: "tdb_store e (db m L c n) key dbuf flag = do {
        (rc, t) \<leftarrow> tdb_update e (db m L c n) key dbuf;
        if rc = 0 then Some (0, t) else do {
          (rec_ptr, t) \<leftarrow> tdb_allocate e t (trunc32 (length key + length dbuf));
          if rec_ptr = 0 then Some (- 1, t)
          else do {
            (_, t) \<leftarrow> tdb_lock t (int (tdb_hash key mod n));
            (_, t) \<leftarrow> (if flag \<noteq> TDB_INSERT then tdb_delete e t key else Some (0, t));
            fill_record e t rec_ptr key dbuf
          }
        }
      }"
      by (simp add: tdb_store_def)
    consider "tdb_update e (db m L c n) key dbuf = Some (- 1, db m L c n)"
      | m' where "tdb_update e (db m L c n) key dbuf = Some (0, db m' L c n)" "layout m' n {} fr ch" "length m' = length m" "look m' n ch = (look m n ch)(key \<mapsto> dbuf)"
      using update_db [OF e l o, of c key dbuf] by blast
    then show ?thesis
    proof cases
      case 1
      then have "tdb_store e (db m L c n) key dbuf flag = Some (0, db m3 L c n)" using st n(1) by simp
      then show ?thesis using n(2-4) by blast
    next
      case (2 m')
      then have "tdb_store e (db m L c n) key dbuf flag = Some (0, db m' L c n)" using st by simp
      then show ?thesis using 2(2-4) by (intro exI [of _ m'] exI [of _ fr] exI [of _ ch]) simp
    qed
  qed
qed

lemma store_existing:
  "all_malloc e \<Longrightarrow> layout m n X fr ch \<Longrightarrow> locks_ok n L \<Longrightarrow> look m n ch key \<noteq> None \<Longrightarrow>
    tdb_store e (db m L c n) key dbuf TDB_INSERT = Some (- 1, db m L TDB_ERR_EXISTS n)"
  by (simp add: tdb_store_def exists_db)

section \<open>A new database\<close>

lemma new_size_first: "new_size n = first_record n"
proof -
  have "4 * (n + 1) = 64 * ((n + 1) div 16) + 4 * ((n + 1) mod 16)" by presburger
  then show ?thesis by (simp add: new_size_def first_record_def)
qed

lemma new_layout:
  assumes "0 < n" "new_size n < 2 ^ 32"
  shows "layout (replicate (new_size n) 0) n {} [] (\<lambda>_. [])" "look (replicate (new_size n) 0) n (\<lambda>_. []) = Map.empty"
proof -
  have r: "take 4 (replicate (new_size n - head_at k) 0) = [0, 0, 0, 0 :: byte]" if "k \<le> n" for k
  proof -
    have "4 \<le> new_size n - head_at k" using head_bounds(1) [OF that] by (simp add: new_size_first)
    then have "min 4 (new_size n - head_at k) = 4" by simp
    then show ?thesis by (simp add: take_replicate numeral_eq_Suc)
  qed
  then have "link (replicate (new_size n) 0) (head_at k) = 0" if "k \<le> n" for k using that by (simp add: link_def drop_replicate)
  then show "layout (replicate (new_size n) 0) n {} [] (\<lambda>_. [])"
    using assms by (auto simp: layout_def laid_def in_use_def spaced_def new_size_first)
  show "look (replicate (new_size n) 0) n (\<lambda>_. []) = Map.empty" by (rule ext) (simp add: look_def)
qed

text \<open>No lock is held between the calls.\<close>

definition unlocked :: "nat \<Rightarrow> int list" where
  "unlocked n = replicate (n + 1) 0"

lemma locks_unlocked: "locks_ok n (unlocked n)"
  by (simp add: locks_ok_def unlocked_def)

definition holds_map :: "tdb \<Rightarrow> (byte list \<Rightarrow> byte list option) \<Rightarrow> bool" where
  "holds_map t M \<longleftrightarrow> (\<exists>m c n fr ch. t = db m (unlocked n) c n \<and> layout m n {} fr ch \<and> look m n ch = M)"

lemma representsE:
  assumes "holds_map t M"
  obtains m c n fr ch where "t = db m (unlocked n) c n" "layout m n {} fr ch" "look m n ch = M" "locks_ok n (unlocked n)"
  using assms unfolding holds_map_def using locks_unlocked by blast

lemma representsI: "layout m n {} fr ch \<Longrightarrow> look m n ch = M \<Longrightarrow> holds_map (db m (unlocked n) c n) M"
  unfolding holds_map_def by blast

lemma represents_unlocked: "holds_map t M \<Longrightarrow> set (locked t) = {0}"
  by (auto simp: holds_map_def unlocked_def)

definition heads :: "nat \<Rightarrow> nat" where
  "heads n = (if n = 0 then DEFAULT_HASH_SIZE else n)"

lemma open_represents:
  assumes "all_malloc e" "new_size (heads n) < 2 ^ 32" "mode \<noteq> O_WRONLY"
  shows "\<exists>t. tdb_open e n mode True = Some t \<and> holds_map t Map.empty \<and> map_size t = new_size (heads n)"
proof -
  have "tdb_open e n mode True = Some (db (replicate (new_size (heads n)) 0) (unlocked (heads n)) TDB_SUCCESS (heads n))"
    using assms by (simp add: tdb_open_def tdb_new_database_def all_malloc_def db_def heads_def unlocked_def)
  moreover have "0 < heads n" by (simp add: heads_def DEFAULT_HASH_SIZE_def)
  ultimately show ?thesis using new_layout [of "heads n"] assms(2) representsI by fastforce
qed

section \<open>The contract\<close>

datatype ('k, 'v) db_op = Put 'k 'v | Put_new 'k 'v | Remove 'k | Get 'k | Has 'k

datatype 'v db_reply = Done bool | Found "'v option"

fun run_history :: "('t \<Rightarrow> ('k, 'v) db_op \<Rightarrow> ('v db_reply \<times> 't) option) \<Rightarrow> ('k, 'v) db_op list \<Rightarrow> 't \<Rightarrow> ('v db_reply list \<times> 't) option" where
  "run_history step [] t = Some ([], t)"
| "run_history step (x # xs) t = do { (r, t) \<leftarrow> step t x; (rs, t) \<leftarrow> run_history step xs t; Some (r # rs, t) }"

text \<open>What a map answers.\<close>

fun map_step :: "('k \<Rightarrow> 'v option) \<Rightarrow> ('k, 'v) db_op \<Rightarrow> 'v db_reply \<times> ('k \<Rightarrow> 'v option)" where
  "map_step M (Put k v) = (Done True, M(k \<mapsto> v))"
| "map_step M (Put_new k v) = (Done (M k = None), if M k = None then M(k \<mapsto> v) else M)"
| "map_step M (Remove k) = (Done (M k \<noteq> None), M(k := None))"
| "map_step M (Get k) = (Found (M k), M)"
| "map_step M (Has k) = (Done (M k \<noteq> None), M)"

fun map_history :: "('k, 'v) db_op list \<Rightarrow> ('k \<Rightarrow> 'v option) \<Rightarrow> 'v db_reply list \<times> ('k \<Rightarrow> 'v option)" where
  "map_history [] M = ([], M)"
| "map_history (x # xs) M = (let (r, M) = map_step M x; (rs, M) = map_history xs M in (r # rs, M))"

fun op_cost :: "('k \<Rightarrow> 'v \<Rightarrow> nat) \<Rightarrow> ('k, 'v) db_op \<Rightarrow> nat" where
  "op_cost cost (Put k v) = cost k v"
| "op_cost cost (Put_new k v) = cost k v"
| "op_cost cost _ = 0"

text \<open>A store with a bounded room: an operation for which there is room answers as the map does, and takes no more room than it is charged for.\<close>

locale keyed_store =
  fixes rel :: "'t \<Rightarrow> ('k \<Rightarrow> 'v option) \<Rightarrow> bool"
    and room :: "'t \<Rightarrow> nat"
    and limit :: nat
    and cost :: "'k \<Rightarrow> 'v \<Rightarrow> nat"
    and step :: "'t \<Rightarrow> ('k, 'v) db_op \<Rightarrow> ('v db_reply \<times> 't) option"
  assumes step: "rel t M \<Longrightarrow> room t + op_cost cost x < limit \<Longrightarrow>
    \<exists>t'. step t x = Some (fst (map_step M x), t') \<and> rel t' (snd (map_step M x)) \<and> room t' \<le> room t + op_cost cost x"
begin

lemma history:
  "rel t M \<Longrightarrow> room t + (\<Sum>x\<leftarrow>xs. op_cost cost x) < limit \<Longrightarrow>
    \<exists>t'. run_history step xs t = Some (fst (map_history xs M), t') \<and> rel t' (snd (map_history xs M)) \<and> room t' \<le> room t + (\<Sum>x\<leftarrow>xs. op_cost cost x)"
proof (induction xs arbitrary: t M)
  case (Cons x xs)
  obtain t1 where s: "step t x = Some (fst (map_step M x), t1)" "rel t1 (snd (map_step M x))" "room t1 \<le> room t + op_cost cost x"
    using step [OF Cons.prems(1), of x] Cons.prems(2) by auto
  then show ?case using Cons.IH [OF s(2)] Cons.prems(2) by (fastforce simp: split_beta Let_def)
qed simp

text \<open>A value is found again after any operations on other keys.\<close>

lemma untouched:
  "k \<notin> {k'. \<exists>v. Put k' v \<in> set xs \<or> Put_new k' v \<in> set xs \<or> Remove k' \<in> set xs} \<Longrightarrow> snd (map_history xs M) k = M k"
proof (induction xs arbitrary: M)
  case (Cons x xs)
  have "snd (map_step M x) k = M k" using Cons.prems by (cases x) auto
  then show ?case using Cons.IH [of "snd (map_step M x)"] Cons.prems by (auto simp: split_beta Let_def)
qed simp

end

fun tdb_step :: "tdb_env \<times> tdb \<Rightarrow> (byte list, byte list) db_op \<Rightarrow> (byte list db_reply \<times> tdb_env \<times> tdb) option" where
  "tdb_step (e, t) (Put k v) = do { (rc, t) \<leftarrow> tdb_store e t k v TDB_REPLACE; Some (Done (rc = 0), e, t) }"
| "tdb_step (e, t) (Put_new k v) = do { (rc, t) \<leftarrow> tdb_store e t k v TDB_INSERT; Some (Done (rc = 0), e, t) }"
| "tdb_step (e, t) (Remove k) = do { (rc, t) \<leftarrow> tdb_delete e t k; Some (Done (rc = 0), e, t) }"
| "tdb_step (e, t) (Get k) = do { (d, t) \<leftarrow> tdb_fetch e t k; Some (Found d, e, t) }"
| "tdb_step (e, t) (Has k) = do { (b, t) \<leftarrow> tdb_exists e t k; Some (Done b, e, t) }"

definition serves :: "tdb_env \<times> tdb \<Rightarrow> (byte list \<Rightarrow> byte list option) \<Rightarrow> bool" where
  "serves s M \<longleftrightarrow> all_malloc (fst s) \<and> holds_map (snd s) M"

lemma tdb_step_map:
  assumes "serves s M" "map_size (snd s) + op_cost growth x < 2 ^ 32"
  shows "\<exists>s'. tdb_step s x = Some (fst (map_step M x), s') \<and> serves s' (snd (map_step M x)) \<and> map_size (snd s') \<le> map_size (snd s) + op_cost growth x"
proof -
  obtain e t where s: "s = (e, t)" "all_malloc e" "holds_map t M" using assms(1) by (cases s) (auto simp: serves_def)
  obtain m c n fr ch where t: "t = db m (unlocked n) c n" "layout m n {} fr ch" "look m n ch = M" "locks_ok n (unlocked n)" by (rule representsE [OF s(3)])
  note ok = s(2) t(2,4)
  show ?thesis
  proof (cases x)
    case (Put k v)
    then have "length m + growth k v < 2 ^ 32" using assms(2) s(1) t(1) by simp
    then show ?thesis using store_db [OF ok, of k v TDB_REPLACE c] s(1,2) t(1,3) Put by (auto simp: serves_def intro: representsI)
  next
    case (Put_new k v)
    then have g: "length m + growth k v < 2 ^ 32" using assms(2) s(1) t(1) by simp
    show ?thesis
    proof (cases "M k = None")
      case True
      then show ?thesis using store_db [OF ok g, of TDB_INSERT c] s(1,2) t(1,3) Put_new by (auto simp: serves_def intro: representsI)
    next
      case False
      then have "tdb_store e t k v TDB_INSERT = Some (- 1, db m (unlocked n) TDB_ERR_EXISTS n)"
        using store_existing [OF ok, of k c v] t(1,3) by simp
      moreover have "holds_map (db m (unlocked n) TDB_ERR_EXISTS n) M" by (rule representsI [OF t(2,3)])
      ultimately show ?thesis using False s(1,2) t(1) Put_new by (auto simp: serves_def)
    qed
  next
    case (Remove k)
    show ?thesis using delete_db [OF ok, of c k] s(1,2) t(1,3) Remove by (auto simp: serves_def intro: representsI)
  next
    case (Get k)
    show ?thesis using fetch_db [OF ok, of c k] s t(1,3) Get by (simp add: serves_def)
  next
    case (Has k)
    show ?thesis using exists_db [OF ok, of c k] s t(1,3) Has by (simp add: serves_def)
  qed
qed

interpretation names: keyed_store serves "\<lambda>s. map_size (snd s)" "2 ^ 32" growth tdb_step
  by unfold_locales (rule tdb_step_map)

section \<open>The database is a map\<close>

text \<open>
  C7. A database without a file answers any history of stores, insertions, deletions, fetches and questions for existence as a finite map would: whatever the keys and data
  are, however they collide in the hash chains, are changed in their place or move to a new record, and however often the block grows, as long as memory lasts and the
  block stays below four gigabytes. No lock stays held, and the block takes no more room than the stores are charged for.
\<close>

theorem database_is_a_map:
  assumes "all_malloc e" "new_size (heads n) + (\<Sum>x\<leftarrow>xs. op_cost growth x) < 2 ^ 32"
  shows "\<exists>t t'. tdb_open e n O_RDWR True = Some t \<and> run_history tdb_step xs (e, t) = Some (fst (map_history xs Map.empty), t')
    \<and> holds_map (snd t') (snd (map_history xs Map.empty)) \<and> set (locked (snd t')) = {0} \<and> map_size (snd t') \<le> new_size (heads n) + (\<Sum>x\<leftarrow>xs. op_cost growth x)"
proof -
  obtain t where t: "tdb_open e n O_RDWR True = Some t" "holds_map t Map.empty" "map_size t = new_size (heads n)"
    using open_represents [OF assms(1), of n O_RDWR] assms(2) by auto
  have "serves (e, t) Map.empty" using assms(1) t(2) by (simp add: serves_def)
  then obtain t' where h: "run_history tdb_step xs (e, t) = Some (fst (map_history xs Map.empty), t')" "serves t' (snd (map_history xs Map.empty))"
      "map_size (snd t') \<le> new_size (heads n) + (\<Sum>x\<leftarrow>xs. op_cost growth x)"
    using names.history [of "(e, t)" Map.empty xs] t(3) assms(2) by auto
  then have r: "holds_map (snd t') (snd (map_history xs Map.empty))" by (simp add: serves_def)
  show ?thesis using t(1) h r represents_unlocked [OF r] by (intro exI [of _ t] exI [of _ t'] conjI)
qed

definition plenty :: tdb_env where
  "plenty = \<lparr>malloc_ok = \<lambda>_. True, realloc_ok = \<lambda>_. True, junk = \<lambda>_. 0xAA, junk_rec = \<lparr>r_len = 1, r_next = 2, r_key_len = 3, r_data_len = 4, r_full_hash = 5, r_magic = 6\<rparr>\<rparr>"

lemma plenty_all: "all_malloc plenty"
  by (simp add: all_malloc_def plenty_def wf_rec_def)

lemma database_is_a_map_witness:
  "\<exists>t t'. tdb_open plenty 3 O_RDWR True = Some t
    \<and> run_history tdb_step [Put [1] [2, 3], Put_new [1] [9], Get [1], Put [1] [4], Remove [7], Get [1]] (plenty, t)
      = Some ([Done True, Done False, Found (Some [2, 3]), Done True, Done False, Found (Some [4])], t')"
  using database_is_a_map [OF plenty_all, of 3 "[Put [1] [2, 3], Put_new [1] [9], Get [1], Put [1] [4], Remove [7], Get [1]]"]
  by (auto simp: heads_def new_size_def growth_def)
end
