(* ===== verification/Tdb_Walk.thy ===== *)
theory Tdb_Walk
  imports Tdb_Store
begin

text \<open>
  Walking over a database (\<^verbatim>\<open>libasuite/tdb.c\<close>): a traversal shows its function every entry of the map once, and gives the number of them.
\<close>

definition note_entry :: "(byte list \<times> byte list) list visitor" where
  "note_entry t k d s = (0, t, s @ [(k, d)])"

definition entry_at :: "byte list \<Rightarrow> nat \<Rightarrow> byte list \<times> byte list" where
  "entry_at m x = (key_at m x, data_at m x)"

lemma read_entry:
  assumes "all_malloc e" "holds_entry m x" "length m < 2 ^ 32"
  shows "\<exists>d. tdb_alloc_read e (db m L c n) (trunc32 (x + REC_SIZE)) (trunc32 (r_key_len (rec_at m x) + r_data_len (rec_at m x))) = Some (Some d, db m L c n)
    \<and> take (r_key_len (rec_at m x)) d = key_at m x \<and> drop (r_key_len (rec_at m x)) d = data_at m x"
proof -
  let ?k = "r_key_len (rec_at m x)" and ?d = "r_data_len (rec_at m x)"
  have b: "x + 24 + (?k + ?d) \<le> length m" using assms(2) by (simp add: holds_entry_def)
  then have t: "trunc32 (x + REC_SIZE) = x + 24" "trunc32 (?k + ?d) = ?k + ?d" using assms(3) by (simp_all add: trunc32_def REC_SIZE_def)
  have "take ?k (take (?k + ?d) (drop (x + 24) m)) = key_at m x" by (simp add: key_at_def min_def)
  moreover have "drop ?k (take (?k + ?d) (drop (x + 24) m)) = data_at m x" by (simp add: data_at_def drop_take add.commute)
  ultimately show ?thesis using assms(1) read_db(1) [OF b] by (simp add: t tdb_alloc_read_def all_malloc_def)
qed

lemma traverse_chain_db:
  assumes "all_malloc e" "rec_chain (rec_at m) TDB_MAGIC p xs" "\<forall>x \<in> set xs. holds_entry m x" "length m < 2 ^ 32"
  shows "traverse_chain e (Some note_entry) p count (db m L c n) s = Some (Chain_done (count + int (length xs)), db m L c n, s @ map (entry_at m) xs)"
  using assms(2,3)
proof (induction xs arbitrary: p count s)
  case Nil
  then show ?case by (subst traverse_chain.simps) simp
next
  case (Cons x xs)
  obtain d where d: "tdb_alloc_read e (db m L c n) (trunc32 (x + REC_SIZE)) (trunc32 (r_key_len (rec_at m x) + r_data_len (rec_at m x))) = Some (Some d, db m L c n)"
      "take (r_key_len (rec_at m x)) d = key_at m x" "drop (r_key_len (rec_at m x)) d = data_at m x"
    using read_entry [OF assms(1) _ assms(4), of x L c n] Cons.prems(2) by auto
  have "rec_read (db m L c n) x = Some (Some (rec_at m x), db m L c n)"
    using Cons.prems entry_readable [of m x] by (intro read_db) auto
  moreover have "note_entry (db m L c n) (key_at m x) (data_at m x) s = (0, db m L c n, s @ [entry_at m x])" by (simp add: note_entry_def entry_at_def)
  ultimately show ?case using Cons d by (subst traverse_chain.simps) simp
qed

lemma traverse_from_db:
  assumes e: "all_malloc e" and l: "layout m n X fr ch" and o: "locks_ok n L"
  shows "\<forall>b \<in> set bs. b < n \<Longrightarrow> traverse_from e (Some note_entry) bs count (db m L c n) s =
    Some (count + int (length (concat (map ch bs))), db m L c n, s @ map (entry_at m) (concat (map ch bs)))"
proof (induction bs arbitrary: count s)
  case (Cons b bs)
  have b: "b < n" "b mod n = b" using Cons.prems by simp_all
  have h: "chain_head (db m L c n) b = Some (Some (link m (head_at (Suc b))), db m (inc L (int b)) c n)"
    using lock_bucket [OF o layoutD(1) [OF l], of m c b] hash_top_db [OF l, of "inc L (int b)" c b] hash_top_read [OF l, of "inc L (int b)" c b] b(2)
    by (simp add: chain_head_def)
  have c: "rec_chain (rec_at m) TDB_MAGIC (link m (head_at (Suc b))) (ch b)" by (rule laidD(2) [OF layoutD(4) [OF l] b(1)])
  have t: "traverse_chain e (Some note_entry) (link m (head_at (Suc b))) count (db m (inc L (int b)) c n) s
      = Some (Chain_done (count + int (length (ch b))), db m (inc L (int b)) c n, s @ map (entry_at m) (ch b))"
    by (rule traverse_chain_db [OF e c _ layoutD(3) [OF l]]) (use layout_holds [OF l b(1)] in blast)
  have u: "tdb_unlock (db m (inc L (int b)) c n) (int b) = Some (0, db m L c n)" using unlock_bucket [OF o layoutD(1) [OF l], of m b c] b(2) by simp
  show ?case using Cons by (simp add: h t u)
qed simp

text \<open>
  C40. A traversal visits every entry of the database once: with a function that notes what it is shown, the notes have no key twice and are the map that the database
  holds_map, the result is the number of the entries, and the database is as it was before.
\<close>

theorem traverse_visits_all:
  assumes "all_malloc e" "holds_map t M"
  shows "\<exists>entries. tdb_traverse e (Some note_entry) t [] = Some (int (length entries), t, entries) \<and> distinct (map fst entries) \<and> map_of entries = M"
proof -
  obtain m c n fr ch where t: "t = db m (unlocked n) c n" "layout m n {} fr ch" "look m n ch = M" "locks_ok n (unlocked n)" by (rule representsE [OF assms(2)])
  let ?xs = "concat (map ch [0 ..< n])"
  note ld = layoutD(4) [OF t(2)]
  have r: "tdb_traverse e (Some note_entry) t [] = Some (int (length (map (entry_at m) ?xs)), t, map (entry_at m) ?xs)"
    using traverse_from_db [OF assms(1) t(2,4), of "[0 ..< n]" 0 c "[]"] by (simp add: tdb_traverse_def t(1))
  have own: "i = tdb_hash (key_at m x) mod n" if "i < n" "x \<in> set (ch i)" for i x using laidD(8) [OF ld that] by simp
  have dist: "distinct (map (key_at m) (concat (map ch is)))" if "distinct is" "set is \<subseteq> {..<n}" for "is"
    using that
  proof (induction "is")
    case (Cons i "is")
    have "distinct (map (key_at m) (ch i))" using laidD(4,9) [OF ld, of i] Cons.prems(2) by (simp add: distinct_map)
    moreover have "key_at m x \<noteq> key_at m y" if "x \<in> set (ch i)" "y \<in> set (ch j)" "j \<in> set is" for x y j
    proof
      assume "key_at m x = key_at m y"
      then have "i = j" using own [of i x] own [of j y] that Cons.prems(2) by auto
      then show False using Cons.prems(1) that(3) by simp
    qed
    ultimately show ?case using Cons by auto
  qed simp
  have d: "distinct (map fst (map (entry_at m) ?xs))" using dist [of "[0 ..< n]"] by (simp add: entry_at_def comp_def lessThan_atLeast0)
  have "map_of (map (entry_at m) ?xs) k = M k" for k
  proof -
    let ?b = "tdb_hash k mod n"
    have b: "?b < n" using layoutD(1) [OF t(2)] by simp
    show ?thesis
    proof (cases "find (\<lambda>x. key_at m x = k) (ch ?b)")
      case None
      have "k \<notin> fst ` set (map (entry_at m) ?xs)"
      proof
        assume "k \<in> fst ` set (map (entry_at m) ?xs)"
        then obtain i x where i: "i < n" "x \<in> set (ch i)" "key_at m x = k" by (auto simp: entry_at_def)
        then show False using own [OF i(1,2)] None by (auto simp: find_None_iff)
      qed
      then show ?thesis using None t(3) by (auto simp: look_def map_of_eq_None_iff)
    next
      case (Some x)
      then have "x \<in> set (ch ?b)" "key_at m x = k" using find_mem by fastforce+
      then have "(k, data_at m x) \<in> set (map (entry_at m) ?xs)" using b by (fastforce simp: entry_at_def)
      then have "map_of (map (entry_at m) ?xs) k = Some (data_at m x)" using map_of_eq_Some_iff [OF d] by simp
      then show ?thesis using Some t(3) by (auto simp: look_def)
    qed
  qed
  then have "map_of (map (entry_at m) ?xs) = M" by blast
  then show ?thesis using r d by blast
qed

lemma map_of_single:
  assumes "map_of xs = [k \<mapsto> v]" "distinct (map fst xs)"
  shows "xs = [(k, v)]"
proof (cases xs)
  case Nil
  then show ?thesis using assms(1) by (metis fun_upd_same map_of.simps(1) option.distinct(1))
next
  case (Cons y ys)
  have only: "fst z = k" if "z \<in> set xs" for z
  proof -
    have "map_of xs (fst z) \<noteq> None" using that by (simp add: map_of_eq_None_iff)
    then show ?thesis using assms(1) by (simp split: if_splits)
  qed
  have "ys = []"
  proof (cases ys)
    case (Cons z zs)
    then have "fst y = fst z" using only [of y] only [of z] \<open>xs = y # ys\<close> by simp
    then show ?thesis using assms(2) \<open>xs = y # ys\<close> Cons by simp
  qed
  moreover have "y = (k, v)" using only [of y] fun_cong [OF assms(1), of k] Cons by (cases y) simp
  ultimately show ?thesis using Cons by simp
qed

lemma traverse_visits_all_witness:
  "\<exists>t. holds_map t [[1] \<mapsto> [2, 3]] \<and> tdb_traverse plenty (Some note_entry) t [] = Some (1, t, [([1], [2, 3])])"
proof -
  obtain t0 where t0: "holds_map t0 Map.empty" "map_size t0 = new_size (heads 3)"
    using open_represents [OF plenty_all, of 3 O_RDWR] by (auto simp: heads_def new_size_def)
  have s0: "serves (plenty, t0) Map.empty" using t0(1) plenty_all by (simp add: serves_def)
  have room: "map_size (snd (plenty, t0)) + op_cost growth (Put [1] [2, 3]) < 2 ^ 32" using t0(2) by (simp add: heads_def new_size_def growth_def)
  obtain s1 where "serves s1 [[1] \<mapsto> [2, 3]]" using tdb_step_map [OF s0 room] by auto
  then have t: "holds_map (snd s1) [[1] \<mapsto> [2, 3]]" by (simp add: serves_def)
  obtain entries where e: "tdb_traverse plenty (Some note_entry) (snd s1) [] = Some (int (length entries), snd s1, entries)" "distinct (map fst entries)" "map_of entries = [[1] \<mapsto> [2, 3]]"
    using traverse_visits_all [OF plenty_all t] by blast
  then show ?thesis using t map_of_single [OF e(3,2)] by auto
qed
end
