(* ===== verification/Anamed.thy ===== *)
theory Anamed
  imports Asuite_Record Tdb_Store
begin

text \<open>
  The name server (\<^verbatim>\<open>asuite/anamed.c\<close>): partners register, delete and look up names, each with one record in one conversation, and the names are kept in a
  database in memory. The calls of CPI-C are parameters, those of \<^verbatim>\<open>asuiterecord\<close> and of \<^verbatim>\<open>tdb\<close> are the models of the libraries. What the server prints
  is left out. \<^term>\<open>None\<close> is a fault: an access outside of an array or of a byte that was never written.
\<close>

section \<open>The server\<close>

definition ANAME_STATUS_RECORD :: byte where "ANAME_STATUS_RECORD = 1"
definition ANAME_REGISTER_REQUEST_RECORD :: byte where "ANAME_REGISTER_REQUEST_RECORD = 2"
definition ANAME_DELETE_REQUEST_RECORD :: byte where "ANAME_DELETE_REQUEST_RECORD = 3"
definition ANAME_QUERY_REQUEST_RECORD :: byte where "ANAME_QUERY_REQUEST_RECORD = 4"
definition ANAME_RESPONSE_RECORD :: byte where "ANAME_RESPONSE_RECORD = 5"
definition ANAME_USER_NAME :: byte where "ANAME_USER_NAME = 100"
definition ANAME_FQLU_NAME :: byte where "ANAME_FQLU_NAME = 101"
definition ANAME_GROUP_NAME :: byte where "ANAME_GROUP_NAME = 102"
definition ANAME_TP_NAME :: byte where "ANAME_TP_NAME = 103"
definition ANAME_STATUS_RETURN_CODE :: byte where "ANAME_STATUS_RETURN_CODE = 2"
definition ASUITE_RC_FAIL_INPUT_ERROR :: u32 where "ASUITE_RC_FAIL_INPUT_ERROR = 6"
definition MAX_ORIGIN :: nat where "MAX_ORIGIN = 18"
definition RECORD_BYTES :: nat where "RECORD_BYTES = 32768"

lemmas aname_codes = ANAME_STATUS_RECORD_def ANAME_REGISTER_REQUEST_RECORD_def ANAME_DELETE_REQUEST_RECORD_def ANAME_QUERY_REQUEST_RECORD_def ANAME_RESPONSE_RECORD_def
  ANAME_USER_NAME_def ANAME_FQLU_NAME_def ANAME_GROUP_NAME_def ANAME_TP_NAME_def ANAME_STATUS_RETURN_CODE_def

text \<open>\<^verbatim>\<open>struct _namerec\<close>: four arrays of characters, of which a database record consists.\<close>

definition username_at :: nat where "username_at = 0"
definition fqluname_at :: nat where "fqluname_at = 65"
definition grpname_at :: nat where "grpname_at = 83"
definition tpname_at :: nat where "tpname_at = 148"
definition namerec_size :: nat where "namerec_size = 213"
definition NAMEBUF :: nat where "NAMEBUF = 256"

lemmas namerec_defs = username_at_def fqluname_at_def grpname_at_def tpname_at_def namerec_size_def NAMEBUF_def

record 'w anamed =
  n_line :: 'w
  n_db :: "tdb option"
  n_record :: asuiterecord
  n_conv_id :: conv_id
  n_curpos :: nat
  n_origin :: cells

text \<open>\<^verbatim>\<open>memcpy(field, &record->buffer[curpos+3], param_len-4); field[param_len-4] = 0\<close>: a length below four is a huge one.\<close>

definition set_name :: "asuiterecord \<Rightarrow> nat \<Rightarrow> nat \<Rightarrow> cells \<Rightarrow> cells option" where
  "set_name record curpos field namebuf = do {
     param_len \<leftarrow> get_param_len record curpos;
     if param_len < 4 then None
     else do {
       cs \<leftarrow> slice (curpos + 3) (param_len - 4) (buffer record);
       namebuf \<leftarrow> poke_block namebuf field cs;
       poke namebuf (field + (param_len - 4)) (Some 0)
     }
   }"

definition name_switch :: "asuiterecord \<Rightarrow> byte \<Rightarrow> nat \<Rightarrow> cells \<Rightarrow> cells option" where
  "name_switch record key curpos namebuf =
     (if key = ANAME_USER_NAME then set_name record curpos username_at namebuf
      else if key = ANAME_FQLU_NAME then set_name record curpos fqluname_at namebuf
      else if key = ANAME_GROUP_NAME then set_name record curpos grpname_at namebuf
      else if key = ANAME_TP_NAME then set_name record curpos tpname_at namebuf
      else Some namebuf)"

text \<open>The buffer starts as blanks; the first \<^verbatim>\<open>sizeof(namerec)\<close> bytes of it are the key.\<close>

definition read_names :: "'w anamed \<Rightarrow> byte list option" where
  "read_names st = do {
     namebuf \<leftarrow> param_loop (get_param_len (n_record st)) (get_key (n_record st)) (name_switch (n_record st)) (position (n_record st)) (n_curpos st)
       (replicate NAMEBUF (Some 0x20));
     get_bytes namebuf namerec_size
   }"

text \<open>Whether \<^verbatim>\<open>strcmp\<close> finds a difference.\<close>

fun str_differ :: "cells \<Rightarrow> cells \<Rightarrow> bool option" where
  "str_differ (Some a # as) (Some b # bs) = (if a \<noteq> b then Some True else if a = 0 then Some False else str_differ as bs)"
| "str_differ _ _ = None"

definition name_status :: "'w cpic \<Rightarrow> 'w anamed \<Rightarrow> byte \<Rightarrow> (int \<times> 'w anamed) option" where
  "name_status cm st code = do {
     r \<leftarrow> asuiterecord_settype (asuiterecord_clear (n_record st)) (ucast ANAME_STATUS_RECORD);
     r \<leftarrow> asuiterecord_append_char r ANAME_STATUS_RETURN_CODE code;
     (rc, w) \<leftarrow> send_asuiterecord cm (n_line st) (n_conv_id st) r;
     Some (rc, st\<lparr>n_record := r, n_line := w\<rparr>)
   }"

text \<open>The same record, built and not sent.\<close>

definition name_failure :: "'w anamed \<Rightarrow> 'w anamed option" where
  "name_failure st = do {
     r \<leftarrow> asuiterecord_settype (asuiterecord_clear (n_record st)) (ucast ANAME_STATUS_RECORD);
     r \<leftarrow> asuiterecord_append_char r ANAME_STATUS_RETURN_CODE 3;
     Some (st\<lparr>n_record := r\<rparr>)
   }"

definition a_register :: "'w cpic \<Rightarrow> tdb_env \<Rightarrow> 'w anamed \<Rightarrow> 'w anamed option" where
  "a_register cm e st = do {
     differ \<leftarrow> str_differ (n_origin st) (drop (n_curpos st + 3) (buffer (n_record st)));
     if differ then do {
       w \<leftarrow> send_simple_response cm (malloc_ok e RECORD_BYTES) (n_line st) (n_conv_id st) ASUITE_RC_FAIL_INPUT_ERROR 0 709;
       Some (st\<lparr>n_line := w\<rparr>)
     }
     else do {
       dbrec \<leftarrow> read_names st;
       (rc, db) \<leftarrow> null_tdb (- 1) (\<lambda>t. tdb_store e t dbrec dbrec TDB_REPLACE) (n_db st);
       (_, st) \<leftarrow> name_status cm (st\<lparr>n_db := db\<rparr>) (if rc = 0 then 0 else 3);
       Some st
     }
   }"

definition a_delete_name :: "'w cpic \<Rightarrow> tdb_env \<Rightarrow> 'w anamed \<Rightarrow> 'w anamed option" where
  "a_delete_name cm e st = do {
     dbkey \<leftarrow> read_names st;
     (del_rc, db) \<leftarrow> null_tdb (- 1) (\<lambda>t. tdb_delete e t dbkey) (n_db st);
     let st = st\<lparr>n_db := db\<rparr>;
     if del_rc = 0 then do { (_, st) \<leftarrow> name_status cm st 0; Some st } else name_failure st
   }"

text \<open>A name of the record that was found, as \<^verbatim>\<open>strlen\<close> sees it.\<close>

definition found_name :: "byte list \<Rightarrow> nat \<Rightarrow> byte list option" where
  "found_name d field = c_str (map Some (drop field d))"

definition name_response :: "asuiterecord \<Rightarrow> byte list \<Rightarrow> asuiterecord option" where
  "name_response r d = do {
     r \<leftarrow> asuiterecord_settype (asuiterecord_clear r) (ucast ANAME_RESPONSE_RECORD);
     s \<leftarrow> found_name d username_at;
     r \<leftarrow> asuiterecord_append r ANAME_USER_NAME (str_cells s) (length s + 1);
     s \<leftarrow> found_name d fqluname_at;
     r \<leftarrow> asuiterecord_append r ANAME_FQLU_NAME (str_cells s) (length s + 1);
     s \<leftarrow> found_name d grpname_at;
     r \<leftarrow> asuiterecord_append r ANAME_GROUP_NAME (str_cells s) (length s + 1);
     s \<leftarrow> found_name d tpname_at;
     asuiterecord_append r ANAME_TP_NAME (str_cells s) (length s + 1)
   }"

definition a_query_name :: "'w cpic \<Rightarrow> tdb_env \<Rightarrow> 'w anamed \<Rightarrow> 'w anamed option" where
  "a_query_name cm e st = do {
     dbkey \<leftarrow> read_names st;
     (dbrec, db) \<leftarrow> null_tdb None (\<lambda>t. tdb_fetch e t dbkey) (n_db st);
     let st = st\<lparr>n_db := db\<rparr>;
     case dbrec of
       None \<Rightarrow> name_failure st
     | Some d \<Rightarrow> do {
         (_, st) \<leftarrow> name_status cm st 0;
         r \<leftarrow> name_response (n_record st) d;
         (_, w) \<leftarrow> send_asuiterecord cm (n_line st) (n_conv_id st) r;
         (_, st) \<leftarrow> name_status cm (st\<lparr>n_record := r, n_line := w\<rparr>) 0;
         Some st
       }
   }"

text \<open>The switch on the major code; the status, the response and any other record only print.\<close>

definition name_dispatch :: "'w cpic \<Rightarrow> tdb_env \<Rightarrow> byte \<Rightarrow> 'w anamed \<Rightarrow> 'w anamed option" where
  "name_dispatch cm e major st =
     (if major = ANAME_REGISTER_REQUEST_RECORD then a_register cm e st
      else if major = ANAME_DELETE_REQUEST_RECORD then a_delete_name cm e st
      else if major = ANAME_QUERY_REQUEST_RECORD then a_query_name cm e st
      else Some st)"

text \<open>Accepting a conversation, and the name of the partner: its return code, and the bytes it leaves in the array, of which there are as many as the length says.\<close>

record 'w name_calls =
  na_accept :: "'w \<Rightarrow> int \<times> conv_id \<times> 'w"
  na_partner :: "'w \<Rightarrow> conv_id \<Rightarrow> int \<times> byte list \<times> 'w"

definition name_conversation :: "'w name_calls \<Rightarrow> 'w cpic \<Rightarrow> tdb_env \<Rightarrow> 'w anamed \<Rightarrow> 'w anamed option" where
  "name_conversation nc cm e st =
     (let (rc, name, w) = na_partner nc (n_line st) (n_conv_id st) in do {
        origin \<leftarrow> poke_block (n_origin st) 0 (map Some name);
        origin \<leftarrow> poke origin (length name) (Some 0);
        let st = st\<lparr>n_line := w, n_origin := origin\<rparr>;
        if rc \<noteq> CM_OK then Some st
        else do {
          (rc, r, w) \<leftarrow> get_asuiterecord cm (n_line st) (n_conv_id st) (n_record st);
          let st = st\<lparr>n_record := r, n_line := w\<rparr>;
          if rc \<noteq> 0 then Some st
          else do { major \<leftarrow> get_major_code r; name_dispatch cm e major (st\<lparr>n_curpos := 2\<rparr>) }
        }
      })"

partial_function (option) name_loop :: "'w name_calls \<Rightarrow> 'w cpic \<Rightarrow> tdb_env \<Rightarrow> 'w anamed \<Rightarrow> 'w anamed option" where
  "name_loop nc cm e st =
     (let (rc, cid, w) = na_accept nc (n_line st);
          st = st\<lparr>n_record := asuiterecord_clear (n_record st), n_conv_id := cid, n_line := w\<rparr>
      in if rc \<noteq> CM_OK then Some st
         else do {
           st \<leftarrow> name_conversation nc cm e st;
           let (rc, w) = cmdeal cm (n_line st) (n_conv_id st);
           if rc = CM_OK then name_loop nc cm e (st\<lparr>n_line := w\<rparr>) else Some (st\<lparr>n_line := w\<rparr>)
         })"

text \<open>A database that cannot be opened is only reported.\<close>

definition anamed_main :: "'w name_calls \<Rightarrow> 'w cpic \<Rightarrow> tdb_env \<Rightarrow> 'w \<Rightarrow> 'w anamed option" where
  "anamed_main nc cm e w = do {
     r \<leftarrow> asuiterecord_new (malloc_ok e RECORD_BYTES);
     name_loop nc cm e \<lparr>n_line = w, n_db = tdb_open e 0 O_RDWR True, n_record = r, n_conv_id = replicate 8 0, n_curpos = 0, n_origin = replicate MAX_ORIGIN (Some 0)\<rparr>
   }"
end
