(* ===== verification/Name_Service.thy ===== *)
theory Name_Service
  imports Anamed
begin

text \<open>
  What the name server (\<^verbatim>\<open>asuite/anamed.c\<close>) promises: it is a set of entries. The entry of a request is laid out in a record of fixed size that is key and
  data of the database; the contract of the database carries over to the server, for any sequence of conversations.
\<close>

section \<open>Entries\<close>

record entry =
  ne_user :: "byte list"
  ne_lu :: "byte list"
  ne_group :: "byte list"
  ne_tp :: "byte list"

definition sound_entry :: "entry \<Rightarrow> bool" where
  "sound_entry q \<longleftrightarrow> no_nul (ne_user q) \<and> no_nul (ne_lu q) \<and> no_nul (ne_group q) \<and> no_nul (ne_tp q)
     \<and> length (ne_user q) \<le> 64 \<and> length (ne_lu q) \<le> 17 \<and> length (ne_group q) \<le> 64 \<and> length (ne_tp q) \<le> 64"

definition blank_field :: "nat \<Rightarrow> byte list \<Rightarrow> byte list" where
  "blank_field n s = s @ 0 # replicate (n - Suc (length s)) 0x20"

lemma length_blank_field [simp]: "length s < n \<Longrightarrow> length (blank_field n s) = n"
  by (simp add: blank_field_def)

definition entry_image :: "entry \<Rightarrow> byte list" where
  "entry_image q = blank_field 65 (ne_user q) @ blank_field 18 (ne_lu q) @ blank_field 65 (ne_group q) @ blank_field 65 (ne_tp q)"

lemma length_entry_image: "sound_entry q \<Longrightarrow> length (entry_image q) = 213"
  by (simp add: entry_image_def sound_entry_def)

lemma takeWhile_string:
  assumes "no_nul u"
  shows "takeWhile (\<lambda>b. b \<noteq> 0) (u @ 0 # r) = u"
proof -
  have "takeWhile (\<lambda>b. b \<noteq> 0) (u @ 0 # r) = u @ takeWhile (\<lambda>b. b \<noteq> 0) (0 # r)"
    by (rule takeWhile_append2) (use assms in \<open>auto simp: no_nul_def\<close>)
  then show ?thesis by simp
qed

lemma blank_field_inj:
  assumes "no_nul s" "no_nul t" "blank_field n s = blank_field n t"
  shows "s = t"
proof -
  have "s = takeWhile (\<lambda>b. b \<noteq> 0) (blank_field n s)" unfolding blank_field_def by (rule takeWhile_string [OF assms(1), symmetric])
  also have "\<dots> = takeWhile (\<lambda>b. b \<noteq> 0) (blank_field n t)" by (rule arg_cong [OF assms(3)])
  also have "\<dots> = t" unfolding blank_field_def by (rule takeWhile_string [OF assms(2)])
  finally show ?thesis .
qed

lemma append_parts: "a @ b = c @ d \<Longrightarrow> length a = length c \<Longrightarrow> a = c" "a @ b = c @ d \<Longrightarrow> length a = length c \<Longrightarrow> b = d"
  by simp_all

lemma entry_image_inj:
  assumes "sound_entry p" "sound_entry q" "entry_image p = entry_image q"
  shows "p = q"
proof -
  note g = assms(1,2) [unfolded sound_entry_def]
  have l: "length (blank_field 65 (ne_user p)) = length (blank_field 65 (ne_user q))" "length (blank_field 18 (ne_lu p)) = length (blank_field 18 (ne_lu q))"
      "length (blank_field 65 (ne_group p)) = length (blank_field 65 (ne_group q))" using g by simp_all
  note e = append_parts [OF assms(3) [unfolded entry_image_def] l(1)]
  note f = append_parts [OF e(2) l(2)]
  note h = append_parts [OF f(2) l(3)]
  have "ne_user p = ne_user q" by (rule blank_field_inj [OF _ _ e(1)]) (use g in auto)
  moreover have "ne_lu p = ne_lu q" by (rule blank_field_inj [OF _ _ f(1)]) (use g in auto)
  moreover have "ne_group p = ne_group q" by (rule blank_field_inj [OF _ _ h(1)]) (use g in auto)
  moreover have "ne_tp p = ne_tp q" by (rule blank_field_inj [OF _ _ h(2)]) (use g in auto)
  ultimately show ?thesis by (cases p; cases q) simp
qed

text \<open>The parameters of a request, the logical unit first.\<close>

definition entry_params :: "entry \<Rightarrow> (byte \<times> byte list) list" where
  "entry_params q = [(ANAME_FQLU_NAME, ne_lu q), (ANAME_USER_NAME, ne_user q), (ANAME_GROUP_NAME, ne_group q), (ANAME_TP_NAME, ne_tp q)]"

section \<open>Reading an entry\<close>

lemma name_switch_simps:
  "name_switch r ANAME_USER_NAME = (\<lambda>pos. set_name r pos 0)" "name_switch r ANAME_FQLU_NAME = (\<lambda>pos. set_name r pos 65)"
  "name_switch r ANAME_GROUP_NAME = (\<lambda>pos. set_name r pos 83)" "name_switch r ANAME_TP_NAME = (\<lambda>pos. set_name r pos 148)"
  by (simp_all add: name_switch_def aname_codes namerec_defs fun_eq_iff)

lemma set_name_at:
  assumes "contents r = Some (pre @ tlv k (s @ [0]) @ post)" "length s \<le> 64"
    and "buf = a @ replicate n (Some 0x20) @ c" "field = length a" "length s < n"
  shows "set_name r (length pre) field buf = Some (a @ map Some (blank_field n s) @ c)"
proof -
  have p: "get_param_len r (length pre) = Some (length s + 4)"
    using asuite.plen_at [OF assms(1)] assms(2) by simp
  have "contents r = Some ((pre @ be16 (of_nat (length (s @ [0]) + 3)) @ [k]) @ s @ 0 # post)"
    using assms(1) by (simp add: tlv_def)
  from buffer_drop [OF this] obtain rest where d: "drop (length pre + 3) (buffer r) = map Some s @ Some 0 # rest" by auto
  have "length pre + 3 + length s \<le> length (buffer r)" using arg_cong [OF d, of length] by simp
  then have sl: "slice (length pre + 3) (length s) (buffer r) = Some (map Some s)" by (simp add: slice_def d)
  have "poke_block buf field (map Some s) = Some (a @ map Some s @ replicate (n - length s) (Some 0x20) @ c)"
    using assms(3-5) by (simp add: poke_block_def drop_replicate)
  moreover have "poke (a @ map Some s @ replicate (n - length s) (Some 0x20) @ c) (field + length s) (Some 0) = Some (a @ map Some (blank_field n s) @ c)"
  proof -
    obtain j where j: "n - length s = Suc j" using assms(5) by (cases "n - length s") auto
    then have "n - Suc (length s) = j" by simp
    then show ?thesis using assms(4) j by (simp add: poke_def blank_field_def list_update_append)
  qed
  ultimately show ?thesis by (simp add: set_name_def p sl)
qed

lemma read_names_entry:
  assumes "sound_entry q" "contents (n_record st) = Some (be16 t @ params (with_nul (entry_params q)))" "n_curpos st = 2"
  shows "read_names st = Some (entry_image q)"
proof -
  let ?r = "n_record st" and ?b = "replicate NAMEBUF (Some 0x20 :: byte option)"
  let ?u = "ne_user q" and ?f = "ne_lu q" and ?g = "ne_group q" and ?p = "ne_tp q"
  note g = assms(1) [unfolded sound_entry_def]
  let ?ps = "with_nul (entry_params q)"
  have ps: "?ps = [(ANAME_FQLU_NAME, ?f @ [0]), (ANAME_USER_NAME, ?u @ [0]), (ANAME_GROUP_NAME, ?g @ [0]), (ANAME_TP_NAME, ?p @ [0])]"
    by (simp add: entry_params_def)
  have len: "length (params ?ps) = length ?f + length ?u + length ?g + length ?p + 16" by (simp add: ps)
  have pos: "position ?r = 2 + length (params ?ps)" using assms(2) by (auto simp: contents_def get_bytes_iff)
  have sm: "small ?ps" by (rule small_with_nul [of _ 300]) (use g len in auto)
  have c1: "contents ?r = Some (be16 t @ tlv ANAME_FQLU_NAME (?f @ [0]) @ tlv ANAME_USER_NAME (?u @ [0]) @ tlv ANAME_GROUP_NAME (?g @ [0]) @ tlv ANAME_TP_NAME (?p @ [0]))"
    using assms(2) ps by simp
  let ?p2 = "be16 t @ tlv ANAME_FQLU_NAME (?f @ [0])"
  let ?p3 = "?p2 @ tlv ANAME_USER_NAME (?u @ [0])"
  let ?p4 = "?p3 @ tlv ANAME_GROUP_NAME (?g @ [0])"
  let ?B = "\<lambda>n. replicate n (Some 0x20 :: byte option)"
  have split: "?b = ?B 65 @ ?B 18 @ ?B 65 @ ?B 65 @ ?B 43" by (simp add: NAMEBUF_def replicate_add [symmetric])
  let ?b1 = "?B 65 @ map Some (blank_field 18 ?f) @ ?B 65 @ ?B 65 @ ?B 43"
  have s1: "set_name ?r 2 65 ?b = Some ?b1"
    using set_name_at [of ?r "be16 t" ANAME_FQLU_NAME ?f _ ?b "?B 65" 18 "?B 65 @ ?B 65 @ ?B 43" 65] c1 g split by simp
  let ?b2 = "map Some (blank_field 65 ?u) @ map Some (blank_field 18 ?f) @ ?B 65 @ ?B 65 @ ?B 43"
  have s2: "set_name ?r (length ?p2) 0 ?b1 = Some ?b2"
    using set_name_at [of ?r ?p2 ANAME_USER_NAME ?u _ ?b1 "[]" 65 "map Some (blank_field 18 ?f) @ ?B 65 @ ?B 65 @ ?B 43" 0] c1 g by simp
  let ?b3 = "map Some (blank_field 65 ?u) @ map Some (blank_field 18 ?f) @ map Some (blank_field 65 ?g) @ ?B 65 @ ?B 43"
  have s3: "set_name ?r (length ?p3) 83 ?b2 = Some ?b3"
    using set_name_at [of ?r ?p3 ANAME_GROUP_NAME ?g _ ?b2 "map Some (blank_field 65 ?u) @ map Some (blank_field 18 ?f)" 65 "?B 65 @ ?B 43" 83] c1 g by simp
  have s4: "set_name ?r (length ?p4) 148 ?b3 = Some (map Some (entry_image q) @ ?B 43)"
    using set_name_at [of ?r ?p4 ANAME_TP_NAME ?p _ ?b3 "map Some (blank_field 65 ?u) @ map Some (blank_field 18 ?f) @ map Some (blank_field 65 ?g)" 65 "?B 43" 148] c1 g
    by (simp add: entry_image_def)
  have "param_loop (get_param_len ?r) (get_key ?r) (name_switch ?r) (position ?r) 2 ?b = walk (name_switch ?r) (position ?r) 2 ?ps ?b"
    using asuite.loop_walks [OF assms(2) sm, of "position ?r" "name_switch ?r" ?b] pos ps by simp
  also have "\<dots> = Some (map Some (entry_image q) @ ?B 43)"
    using s1 s2 s3 s4 by (simp add: ps pos name_switch_simps add.commute add.left_commute)
  finally have "param_loop (get_param_len ?r) (get_key ?r) (name_switch ?r) (position ?r) 2 ?b = Some (map Some (entry_image q) @ ?B 43)" .
  then show ?thesis using assms(3) length_entry_image [OF assms(1)]
    by (simp add: read_names_def get_bytes_def namerec_size_def)
qed

section \<open>What the server promises\<close>

datatype name_request = Name_register entry | Name_delete entry | Name_query entry

fun asked_entry :: "name_request \<Rightarrow> entry" where
  "asked_entry (Name_register q) = q"
| "asked_entry (Name_delete q) = q"
| "asked_entry (Name_query q) = q"

fun name_code :: "name_request \<Rightarrow> u16" where
  "name_code (Name_register q) = 2"
| "name_code (Name_delete q) = 3"
| "name_code (Name_query q) = 4"

definition name_request_bytes :: "name_request \<Rightarrow> byte list" where
  "name_request_bytes rq = be16 (name_code rq) @ params (with_nul (entry_params (asked_entry rq)))"

definition name_response_bytes :: "entry \<Rightarrow> byte list" where
  "name_response_bytes q = be16 5 @ params (with_nul [(ANAME_USER_NAME, ne_user q), (ANAME_FQLU_NAME, ne_lu q), (ANAME_GROUP_NAME, ne_group q), (ANAME_TP_NAME, ne_tp q)])"

text \<open>
  The server as a set of entries: a partner registers entries of its own logical unit only, a deletion and a query ask for an entry with all its names, and one
  that finds nothing is not answered.
\<close>

fun name_answer :: "byte list \<Rightarrow> name_request \<Rightarrow> entry set \<Rightarrow> byte list list \<times> entry set" where
  "name_answer partner (Name_register q) R = (if partner \<noteq> ne_lu q then ([status_image 6 0 709], R) else ([status_image 0 0 0], insert q R))"
| "name_answer partner (Name_delete q) R = (if q \<in> R then ([status_image 0 0 0], R - {q}) else ([], R))"
| "name_answer partner (Name_query q) R = (if q \<in> R then ([status_image 0 0 0, name_response_bytes q, status_image 0 0 0], R) else ([], R))"

fun name_answers :: "(byte list \<times> name_request) list \<Rightarrow> entry set \<Rightarrow> byte list list \<times> entry set" where
  "name_answers [] R = ([], R)"
| "name_answers ((partner, rq) # rqs) R = (let (ms, R) = name_answer partner rq R; (ms', R) = name_answers rqs R in (ms @ ms', R))"

definition entries_map :: "entry set \<Rightarrow> byte list \<Rightarrow> byte list option" where
  "entries_map R k = (if k \<in> entry_image ` R then Some k else None)"

lemma entries_map_mem: "R \<subseteq> Collect sound_entry \<Longrightarrow> sound_entry q \<Longrightarrow> entries_map R (entry_image q) = (if q \<in> R then Some (entry_image q) else None)"
  using entry_image_inj by (auto simp: entries_map_def)

lemma entries_map_insert: "(entries_map R)(entry_image q \<mapsto> entry_image q) = entries_map (insert q R)"
  by (rule ext) (simp add: entries_map_def)

lemma entries_map_remove: "R \<subseteq> Collect sound_entry \<Longrightarrow> sound_entry q \<Longrightarrow> (entries_map R)(entry_image q := None) = entries_map (R - {q})"
  using entry_image_inj by (intro ext) (auto simp: entries_map_def)

section \<open>One conversation\<close>

text \<open>The partners that wait, each with its record, and what was sent.\<close>

type_synonym desk = "(byte list \<times> byte list) list \<times> byte list list"

definition desk_line :: "desk cpic" where
  "desk_line = \<lparr>cmsend = \<lambda>(ws, out) cid m. (CM_OK, (ws, out @ [m])), cmrcv = \<lambda>(ws, out) cid n. (CM_OK, snd (hd ws), (tl ws, out)),
     cminit = \<lambda>w name. (CM_OK, [], w), cmspln = \<lambda>w cid s. (CM_OK, w), cmsmn = \<lambda>w cid s. (CM_OK, w), cmstpn = \<lambda>w cid s. (CM_OK, w),
     cmallc = \<lambda>w cid. (CM_OK, w), cmdeal = \<lambda>w cid. (CM_OK, w)\<rparr>"

definition desk_calls :: "desk name_calls" where
  "desk_calls = \<lparr>na_accept = \<lambda>(ws, out). (if ws = [] then 1 else CM_OK, [1], (ws, out)), na_partner = \<lambda>(ws, out) cid. (CM_OK, fst (hd ws), (ws, out))\<rparr>"

lemma desk_simps [simp]:
  "cmsend desk_line (ws, out) cid m = (CM_OK, (ws, out @ [m]))" "cmrcv desk_line ((a, b) # ws, out) cid n = (CM_OK, b, (ws, out))" "cmdeal desk_line w cid = (CM_OK, w)"
  "na_accept desk_calls ([], out) = (1, [1], ([], out))" "na_accept desk_calls (x # ws, out) = (CM_OK, [1], (x # ws, out))"
  "na_partner desk_calls ((a, b) # ws, out) cid = (CM_OK, a, ((a, b) # ws, out))"
  by (simp_all add: desk_line_def desk_calls_def)

text \<open>The state between two steps: the record is a record and the database holds the entries.\<close>

definition keeps_names :: "tdb_env \<Rightarrow> entry set \<Rightarrow> nat \<Rightarrow> desk anamed \<Rightarrow> bool" where
  "keeps_names e R k st \<longleftrightarrow> wf_record (n_record st) \<and> length (n_origin st) = MAX_ORIGIN
     \<and> (\<exists>t. n_db st = Some t \<and> serves (e, t) (entries_map R) \<and> map_size t + k < 2 ^ 32)"

definition step_cost :: nat where
  "step_cost = growth (replicate 213 0) (replicate 213 0)"

lemma growth_image: "sound_entry q \<Longrightarrow> growth (entry_image q) (entry_image q) = step_cost"
  by (simp add: growth_def step_cost_def length_entry_image)

lemma name_status_sends:
  assumes "wf_record (n_record st)" "n_line st = (ws, out)"
  shows "\<exists>r'. name_status desk_line st 0 = Some (0, st\<lparr>n_record := r', n_line := (ws, out @ [status_image 0 0 0])\<rparr>) \<and> wf_record r'"
proof -
  have "asuiterecord_settype (asuiterecord_clear (n_record st)) (ucast ANAME_STATUS_RECORD) = asuiterecord_settype (asuiterecord_clear (n_record st)) ASUITE_STATUS_RECORD"
    by (simp add: ANAME_STATUS_RECORD_def ASUITE_STATUS_RECORD_def)
  moreover obtain r' where "simple_response (n_record st) 0 0 0 = Some r'" "wf_record r'" "contents r' = Some (status_image 0 0 0)"
    using simple_response_contents [OF assms(1)] by blast
  moreover have "ANAME_STATUS_RETURN_CODE = ASUITE_STATUS_RETURN_CODE" by (simp add: ANAME_STATUS_RETURN_CODE_def ASUITE_STATUS_RETURN_CODE_def)
  ultimately show ?thesis using assms(2)
    by (auto simp: name_status_def simple_response_def send_asuiterecord_def contents_def ASUITE_RC_OK_def split: bind_splits)
qed

lemma name_failure_silent:
  assumes "wf_record (n_record st)"
  shows "\<exists>r'. name_failure st = Some (st\<lparr>n_record := r'\<rparr>) \<and> wf_record r'"
proof -
  obtain a where a: "asuiterecord_settype (asuiterecord_clear (n_record st)) (ucast ANAME_STATUS_RECORD) = Some a" "holds a (map Some (be16 (ucast ANAME_STATUS_RECORD)))"
    using settype_holds [of "asuiterecord_clear (n_record st)"] assms by (auto simp: wf_record_def asuiterecord_clear_def)
  obtain b where "asuiterecord_append_char a ANAME_STATUS_RETURN_CODE 3 = Some b" "holds b (map Some (be16 (ucast ANAME_STATUS_RECORD)) @ map Some (tlv ANAME_STATUS_RETURN_CODE [3]))"
    using append_char_holds [OF a(2), of ANAME_STATUS_RETURN_CODE 3] by (auto simp: MAX_BUFFER_SIZE_def)
  then show ?thesis using a(1) by (auto simp: name_failure_def intro: holds_wf)
qed

lemma str_differ_strings:
  "no_nul a \<Longrightarrow> no_nul b \<Longrightarrow> str_differ (map Some a @ Some 0 # r) (map Some b @ Some 0 # q) = Some (a \<noteq> b)"
proof (induction a arbitrary: b)
  case Nil
  then show ?case by (cases b) auto
next
  case (Cons x a)
  then show ?case by (cases b) auto
qed

lemma found_names:
  assumes "sound_entry q"
  shows "found_name (entry_image q) username_at = Some (ne_user q)" "found_name (entry_image q) fqluname_at = Some (ne_lu q)"
    "found_name (entry_image q) grpname_at = Some (ne_group q)" "found_name (entry_image q) tpname_at = Some (ne_tp q)"
proof -
  note g = assms [unfolded sound_entry_def]
  have c: "c_str (map Some (blank_field n s) @ r) = Some s" if "no_nul s" for n s r using that by (simp add: blank_field_def)
  have c': "c_str (map Some (blank_field n s)) = Some s" if "no_nul s" for n s using c [OF that, of n "[]"] by simp
  have l: "length (blank_field 65 (ne_user q)) = 65" "length (blank_field 18 (ne_lu q)) = 18" "length (blank_field 65 (ne_group q)) = 65" using g by simp_all
  show "found_name (entry_image q) username_at = Some (ne_user q)" using g c by (simp add: found_name_def entry_image_def username_at_def)
  have "drop 65 (entry_image q) = blank_field 18 (ne_lu q) @ blank_field 65 (ne_group q) @ blank_field 65 (ne_tp q)" using l by (simp add: entry_image_def)
  then show "found_name (entry_image q) fqluname_at = Some (ne_lu q)" using g c unfolding found_name_def fqluname_at_def by simp
  have "drop 83 (entry_image q) = blank_field 65 (ne_group q) @ blank_field 65 (ne_tp q)" using l by (simp add: entry_image_def)
  then show "found_name (entry_image q) grpname_at = Some (ne_group q)" using g c unfolding found_name_def grpname_at_def by simp
  have "drop 148 (entry_image q) = blank_field 65 (ne_tp q)" using l by (simp add: entry_image_def)
  then show "found_name (entry_image q) tpname_at = Some (ne_tp q)" using g c' unfolding found_name_def tpname_at_def by simp
qed

lemma name_response_holds:
  assumes "sound_entry q" "wf_record r"
  shows "\<exists>r'. name_response r (entry_image q) = Some r' \<and> wf_record r' \<and> contents r' = Some (name_response_bytes q)"
proof -
  let ?ps = "[(ANAME_USER_NAME, ne_user q), (ANAME_FQLU_NAME, ne_lu q), (ANAME_GROUP_NAME, ne_group q), (ANAME_TP_NAME, ne_tp q)]"
  have "name_response r (entry_image q) = build_record r (ucast ANAME_RESPONSE_RECORD) ?ps"
    by (simp add: name_response_def found_names [OF assms(1)] build_record_def)
  moreover have "strings ?ps" "2 + length (params (with_nul ?ps)) \<le> MAX_BUFFER_SIZE" using assms(1) by (auto simp: sound_entry_def MAX_BUFFER_SIZE_def)
  ultimately show ?thesis using build_record_contents [OF assms(2), of ?ps "ucast ANAME_RESPONSE_RECORD"]
    by (simp add: name_response_bytes_def ANAME_RESPONSE_RECORD_def)
qed

section \<open>The handlers\<close>

lemma serves_store:
  assumes "serves (e, t) M" "map_size t + growth k v < 2 ^ 32"
  shows "\<exists>t'. tdb_store e t k v TDB_REPLACE = Some (0, t') \<and> serves (e, t') (M(k \<mapsto> v)) \<and> map_size t' \<le> map_size t + growth k v"
  using tdb_step_map [OF assms(1), of "Put k v"] assms(2) by (auto split: bind_splits)

lemma serves_delete:
  assumes "serves (e, t) M" "map_size t < 2 ^ 32"
  shows "\<exists>rc t'. tdb_delete e t k = Some (rc, t') \<and> (rc = 0 \<longleftrightarrow> M k \<noteq> None) \<and> serves (e, t') (M(k := None)) \<and> map_size t' \<le> map_size t"
  using tdb_step_map [OF assms(1), of "Remove k"] assms(2) by (auto split: bind_splits)

lemma serves_fetch:
  assumes "serves (e, t) M" "map_size t < 2 ^ 32"
  shows "\<exists>t'. tdb_fetch e t k = Some (M k, t') \<and> serves (e, t') M \<and> map_size t' \<le> map_size t"
  using tdb_step_map [OF assms(1), of "Get k"] assms(2) by (auto split: bind_splits)

lemma keeps_namesE:
  assumes "keeps_names e R k st"
  obtains t where "wf_record (n_record st)" "length (n_origin st) = MAX_ORIGIN" "n_db st = Some t" "serves (e, t) (entries_map R)" "map_size t + k < 2 ^ 32" "malloc_ok e RECORD_BYTES"
  using assms by (auto simp: keeps_names_def serves_def all_malloc_def)

text \<open>\<open>asks st rq partner\<close>: the record of the conversation is the request, and the partner is known.\<close>

definition asks :: "desk anamed \<Rightarrow> name_request \<Rightarrow> byte list \<Rightarrow> bool" where
  "asks st rq partner \<longleftrightarrow> contents (n_record st) = Some (name_request_bytes rq) \<and> n_curpos st = 2 \<and> sound_entry (asked_entry rq) \<and> no_nul partner
     \<and> (\<exists>r. n_origin st = map Some partner @ Some 0 # r)"

lemma asks_read: "asks st rq partner \<Longrightarrow> read_names st = Some (entry_image (asked_entry rq))"
  by (rule read_names_entry [of _ _ "name_code rq"]) (simp_all add: asks_def name_request_bytes_def)

lemma asks_partner:
  assumes "asks st rq partner"
  shows "str_differ (n_origin st) (drop (n_curpos st + 3) (buffer (n_record st))) = Some (partner \<noteq> ne_lu (asked_entry rq))"
proof -
  let ?q = "asked_entry rq"
  obtain r where o: "n_origin st = map Some partner @ Some 0 # r" using assms by (auto simp: asks_def)
  have "contents (n_record st) = Some ((be16 (name_code rq) @ be16 (of_nat (length (ne_lu ?q @ [0]) + 3)) @ [ANAME_FQLU_NAME]) @ ne_lu ?q @ 0 # params (with_nul (tl (entry_params ?q))))"
    using assms by (simp add: asks_def name_request_bytes_def entry_params_def tlv_def)
  from buffer_drop [OF this] obtain rest where "drop 5 (buffer (n_record st)) = map Some (ne_lu ?q) @ Some 0 # rest" by auto
  then show ?thesis using o assms str_differ_strings [of partner "ne_lu ?q"] by (simp add: asks_def sound_entry_def)
qed

lemma register_answers:
  assumes "keeps_names e R (step_cost + k) st" "R \<subseteq> Collect sound_entry" "asks st (Name_register q) partner" "n_line st = (ws, out)"
  shows "\<exists>st'. a_register desk_line e st = Some st' \<and> n_line st' = (ws, out @ fst (name_answer partner (Name_register q) R))
    \<and> keeps_names e (snd (name_answer partner (Name_register q) R)) k st'"
proof -
  obtain t where k: "wf_record (n_record st)" "length (n_origin st) = MAX_ORIGIN" "n_db st = Some t" "serves (e, t) (entries_map R)" "map_size t + (step_cost + k) < 2 ^ 32" "malloc_ok e RECORD_BYTES"
    using keeps_namesE [OF assms(1)] by blast
  note d = asks_partner [OF assms(3), simplified]
  have gq: "sound_entry q" using assms(3) by (simp add: asks_def)
  show ?thesis
  proof (cases "partner = ne_lu q")
    case False
    then show ?thesis using d k assms(4) send_simple_response_image [of desk_line "(ws, out)" "n_conv_id st" 6 0 709]
      by (simp add: a_register_def ASUITE_RC_FAIL_INPUT_ERROR_def keeps_names_def)
  next
    case True
    obtain t' where t: "tdb_store e t (entry_image q) (entry_image q) TDB_REPLACE = Some (0, t')" "serves (e, t') (entries_map (insert q R))" "map_size t' \<le> map_size t + step_cost"
      using serves_store [OF k(4), of "entry_image q" "entry_image q"] k(5) growth_image [OF gq] entries_map_insert [of R q] by auto
    obtain r' where "name_status desk_line (st\<lparr>n_db := Some t'\<rparr>) 0 = Some (0, st\<lparr>n_db := Some t', n_record := r', n_line := (ws, out @ [status_image 0 0 0])\<rparr>)" "wf_record r'"
      using name_status_sends [of "st\<lparr>n_db := Some t'\<rparr>" ws out] k(1) assms(4) by auto
    then show ?thesis using True d k asks_read [OF assms(3)] t by (simp add: a_register_def null_tdb_def keeps_names_def)
  qed
qed

lemma delete_answers:
  assumes "keeps_names e R k st" "R \<subseteq> Collect sound_entry" "asks st (Name_delete q) partner" "n_line st = (ws, out)"
  shows "\<exists>st'. a_delete_name desk_line e st = Some st' \<and> n_line st' = (ws, out @ fst (name_answer partner (Name_delete q) R))
    \<and> keeps_names e (snd (name_answer partner (Name_delete q) R)) k st'"
proof -
  obtain t where k: "wf_record (n_record st)" "length (n_origin st) = MAX_ORIGIN" "n_db st = Some t" "serves (e, t) (entries_map R)" "map_size t + k < 2 ^ 32"
    using keeps_namesE [OF assms(1)] by blast
  have gq: "sound_entry q" using assms(3) by (simp add: asks_def)
  obtain rc t' where t: "tdb_delete e t (entry_image q) = Some (rc, t')" "rc = 0 \<longleftrightarrow> q \<in> R" "serves (e, t') (entries_map (R - {q}))" "map_size t' \<le> map_size t"
    using serves_delete [OF k(4), of "entry_image q"] k(5) entries_map_mem [OF assms(2) gq] entries_map_remove [OF assms(2) gq] by (auto split: if_splits)
  have rd: "read_names st = Some (entry_image q)" using asks_read [OF assms(3)] by simp
  show ?thesis
  proof (cases "q \<in> R")
    case True
    obtain r' where "name_status desk_line (st\<lparr>n_db := Some t'\<rparr>) 0 = Some (0, st\<lparr>n_db := Some t', n_record := r', n_line := (ws, out @ [status_image 0 0 0])\<rparr>)" "wf_record r'"
      using name_status_sends [of "st\<lparr>n_db := Some t'\<rparr>" ws out] k(1) assms(4) by auto
    then show ?thesis using True k rd t by (simp add: a_delete_name_def null_tdb_def keeps_names_def)
  next
    case False
    obtain r' where "name_failure (st\<lparr>n_db := Some t'\<rparr>) = Some (st\<lparr>n_db := Some t', n_record := r'\<rparr>)" "wf_record r'"
      using name_failure_silent [of "st\<lparr>n_db := Some t'\<rparr>"] k(1) by auto
    then show ?thesis using False k rd t assms(4) by (simp add: a_delete_name_def null_tdb_def keeps_names_def)
  qed
qed

lemma query_answers:
  assumes "keeps_names e R k st" "R \<subseteq> Collect sound_entry" "asks st (Name_query q) partner" "n_line st = (ws, out)"
  shows "\<exists>st'. a_query_name desk_line e st = Some st' \<and> n_line st' = (ws, out @ fst (name_answer partner (Name_query q) R))
    \<and> keeps_names e (snd (name_answer partner (Name_query q) R)) k st'"
proof -
  obtain t where k: "wf_record (n_record st)" "length (n_origin st) = MAX_ORIGIN" "n_db st = Some t" "serves (e, t) (entries_map R)" "map_size t + k < 2 ^ 32"
    using keeps_namesE [OF assms(1)] by blast
  have gq: "sound_entry q" using assms(3) by (simp add: asks_def)
  obtain t' where t: "tdb_fetch e t (entry_image q) = Some (if q \<in> R then Some (entry_image q) else None, t')" "serves (e, t') (entries_map R)" "map_size t' \<le> map_size t"
    using serves_fetch [OF k(4), of "entry_image q"] k(5) entries_map_mem [OF assms(2) gq] by auto
  have rd: "read_names st = Some (entry_image q)" using asks_read [OF assms(3)] by simp
  show ?thesis
  proof (cases "q \<in> R")
    case True
    obtain r1 where 1: "name_status desk_line (st\<lparr>n_db := Some t'\<rparr>) 0 = Some (0, st\<lparr>n_db := Some t', n_record := r1, n_line := (ws, out @ [status_image 0 0 0])\<rparr>)" "wf_record r1"
      using name_status_sends [of "st\<lparr>n_db := Some t'\<rparr>" ws out] k(1) assms(4) by auto
    obtain r2 where 2: "name_response r1 (entry_image q) = Some r2" "wf_record r2" "contents r2 = Some (name_response_bytes q)"
      using name_response_holds [OF gq 1(2)] by blast
    let ?st = "st\<lparr>n_db := Some t', n_record := r2, n_line := (ws, out @ [status_image 0 0 0, name_response_bytes q])\<rparr>"
    obtain r3 where 3: "name_status desk_line ?st 0 = Some (0, ?st\<lparr>n_record := r3, n_line := (ws, out @ [status_image 0 0 0, name_response_bytes q, status_image 0 0 0])\<rparr>)" "wf_record r3"
      using name_status_sends [of ?st ws "out @ [status_image 0 0 0, name_response_bytes q]"] 2(2) by auto
    have "send_asuiterecord desk_line (ws, out @ [status_image 0 0 0]) (n_conv_id st) r2 = Some (0, (ws, out @ [status_image 0 0 0, name_response_bytes q]))"
      using 2(3) by (simp add: send_asuiterecord_def contents_def ASUITE_RC_OK_def CM_OK_def)
    then show ?thesis using True k rd t 1 2(1) 3 by (simp add: a_query_name_def null_tdb_def keeps_names_def)
  next
    case False
    obtain r' where "name_failure (st\<lparr>n_db := Some t'\<rparr>) = Some (st\<lparr>n_db := Some t', n_record := r'\<rparr>)" "wf_record r'"
      using name_failure_silent [of "st\<lparr>n_db := Some t'\<rparr>"] k(1) by auto
    then show ?thesis using False k rd t assms(4) by (simp add: a_query_name_def null_tdb_def keeps_names_def)
  qed
qed

lemma request_fits: "sound_entry (asked_entry rq) \<Longrightarrow> length (name_request_bytes rq) \<le> MAX_BUFFER_SIZE"
  by (simp add: name_request_bytes_def entry_params_def sound_entry_def MAX_BUFFER_SIZE_def)

lemma desk_receives:
  assumes "wf_record r" "length b \<le> MAX_BUFFER_SIZE"
  shows "\<exists>r'. get_asuiterecord desk_line ((p, b) # ws, out) cid r = Some (0, r', (ws, out)) \<and> contents r' = Some b \<and> wf_record r'"
proof -
  have "poke_block (buffer r) 0 (map Some b) = Some (map Some b @ drop (length b) (buffer r))"
    using assms by (simp add: poke_block_def wf_record_def)
  then show ?thesis using assms by (auto simp: get_asuiterecord_def contents_def get_bytes_def wf_record_def ASUITE_RC_OK_def)
qed

lemma request_major: "contents r = Some (name_request_bytes rq) \<Longrightarrow> get_major_code r = Some (ucast (name_code rq))"
  using get_major_code_at [of r "name_code rq"] by (simp add: name_request_bytes_def)

lemma dispatch_answers:
  assumes "keeps_names e R (step_cost + k) st" "R \<subseteq> Collect sound_entry" "asks st rq partner" "n_line st = (ws, out)"
  shows "\<exists>st'. name_dispatch desk_line e (ucast (name_code rq)) st = Some st' \<and> n_line st' = (ws, out @ fst (name_answer partner rq R))
    \<and> keeps_names e (snd (name_answer partner rq R)) k st'"
proof (cases rq)
  case (Name_register q)
  then show ?thesis using register_answers [OF assms(1,2) _ assms(4), of q partner] assms(3) by (simp add: name_dispatch_def aname_codes)
next
  case (Name_delete q)
  have "keeps_names e R k st" using assms(1) by (auto simp: keeps_names_def)
  then show ?thesis using delete_answers [OF _ assms(2) _ assms(4), of e k q partner] assms(3) Name_delete by (simp add: name_dispatch_def aname_codes)
next
  case (Name_query q)
  have "keeps_names e R k st" using assms(1) by (auto simp: keeps_names_def)
  then show ?thesis using query_answers [OF _ assms(2) _ assms(4), of e k q partner] assms(3) Name_query by (simp add: name_dispatch_def aname_codes)
qed

lemma conversation_answers:
  assumes "keeps_names e R (step_cost + k) st" "R \<subseteq> Collect sound_entry" "sound_entry (asked_entry rq)" "no_nul partner" "length partner < MAX_ORIGIN"
    and "n_line st = ((partner, name_request_bytes rq) # ws, out)"
  shows "\<exists>st'. name_conversation desk_calls desk_line e st = Some st' \<and> n_line st' = (ws, out @ fst (name_answer partner rq R))
    \<and> keeps_names e (snd (name_answer partner rq R)) k st'"
proof -
  obtain t where k: "wf_record (n_record st)" "length (n_origin st) = MAX_ORIGIN" "n_db st = Some t" "serves (e, t) (entries_map R)" "map_size t + (step_cost + k) < 2 ^ 32"
    using keeps_namesE [OF assms(1)] by blast
  let ?o = "map Some partner @ Some 0 # drop (Suc (length partner)) (n_origin st)"
  have o1: "poke_block (n_origin st) 0 (map Some partner) = Some (map Some partner @ drop (length partner) (n_origin st))"
    using assms(5) k(2) by (simp add: poke_block_def)
  have o2: "poke (map Some partner @ drop (length partner) (n_origin st)) (length partner) (Some 0) = Some ?o"
    using assms(5) k(2) by (simp add: poke_def list_update_append) (metis Cons_nth_drop_Suc list_update_code(2))
  obtain r where r: "get_asuiterecord desk_line ((partner, name_request_bytes rq) # ws, out) (n_conv_id st) (n_record st) = Some (0, r, (ws, out))"
      "contents r = Some (name_request_bytes rq)" "wf_record r"
    using desk_receives [OF k(1) request_fits [OF assms(3)]] by blast
  let ?st = "st\<lparr>n_origin := ?o, n_record := r, n_line := (ws, out), n_curpos := 2\<rparr>"
  have kn: "keeps_names e R (step_cost + k) ?st" using k r(3) assms(5) by (simp add: keeps_names_def)
  have as: "asks ?st rq partner" using r(2) assms(3,4) by (simp add: asks_def)
  have "name_conversation desk_calls desk_line e st = name_dispatch desk_line e (ucast (name_code rq)) ?st"
    using o1 o2 r(1) request_major [OF r(2)] assms(6) by (simp add: name_conversation_def CM_OK_def)
  then show ?thesis using dispatch_answers [OF kn assms(2) as, of ws out] by simp
qed

text \<open>A request that came in, and the sequence of all.\<close>

definition good_call :: "byte list \<times> name_request \<Rightarrow> bool" where
  "good_call c \<longleftrightarrow> no_nul (fst c) \<and> length (fst c) < MAX_ORIGIN \<and> sound_entry (asked_entry (snd c))"

definition waiting :: "(byte list \<times> name_request) list \<Rightarrow> (byte list \<times> byte list) list" where
  "waiting cs = map (\<lambda>(p, rq). (p, name_request_bytes rq)) cs"

lemma answer_good: "R \<subseteq> Collect sound_entry \<Longrightarrow> sound_entry (asked_entry rq) \<Longrightarrow> snd (name_answer p rq R) \<subseteq> Collect sound_entry"
  by (cases rq) auto

lemma loop_answers:
  assumes "\<forall>c \<in> set cs. good_call c" "keeps_names e R (step_cost * length cs) st" "R \<subseteq> Collect sound_entry" "n_line st = (waiting cs, out)"
  shows "\<exists>st'. name_loop desk_calls desk_line e st = Some st' \<and> n_line st' = ([], out @ fst (name_answers cs R)) \<and> keeps_names e (snd (name_answers cs R)) 0 st'"
  using assms
proof (induction cs arbitrary: R st out)
  case Nil
  have "keeps_names e R 0 (st\<lparr>n_record := asuiterecord_clear (n_record st), n_conv_id := [1], n_line := ([], out)\<rparr>)"
    using Nil.prems(2) by (simp add: keeps_names_def asuiterecord_clear_def wf_record_def)
  then show ?case using Nil.prems(4) by (subst name_loop.simps) (simp add: waiting_def CM_OK_def)
next
  case (Cons c cs)
  obtain p rq where c: "c = (p, rq)" by (cases c)
  let ?st = "st\<lparr>n_record := asuiterecord_clear (n_record st), n_conv_id := [1], n_line := ((p, name_request_bytes rq) # waiting cs, out)\<rparr>"
  have kn: "keeps_names e R (step_cost + step_cost * length cs) ?st" using Cons.prems(2) by (simp add: keeps_names_def asuiterecord_clear_def wf_record_def)
  have g: "no_nul p" "length p < MAX_ORIGIN" "sound_entry (asked_entry rq)" using Cons.prems(1) c by (simp_all add: good_call_def)
  obtain st1 where 1: "name_conversation desk_calls desk_line e ?st = Some st1" "n_line st1 = (waiting cs, out @ fst (name_answer p rq R))"
      "keeps_names e (snd (name_answer p rq R)) (step_cost * length cs) st1"
    using conversation_answers [OF kn Cons.prems(3) g(3,1,2), of "waiting cs" out] by auto
  have "name_loop desk_calls desk_line e st = name_loop desk_calls desk_line e st1"
    using Cons.prems(4) 1(1) c by (subst name_loop.simps) (simp add: waiting_def)
  moreover obtain st2 where "name_loop desk_calls desk_line e st1 = Some st2"
      "n_line st2 = ([], (out @ fst (name_answer p rq R)) @ fst (name_answers cs (snd (name_answer p rq R))))" "keeps_names e (snd (name_answers cs (snd (name_answer p rq R)))) 0 st2"
    using Cons.IH [OF _ 1(3) answer_good [OF Cons.prems(3) g(3)] 1(2)] Cons.prems(1) by auto
  ultimately show ?case by (simp add: c split_beta)
qed

text \<open>
  C6. The name server is a set of entries. Whoever calls, and whatever they register, delete and ask for, one after the other: a registration is accepted exactly
  from the logical unit that the entry names, a query finds an entry exactly if it was registered with all its names and not deleted since, what it is told are those
  names, and only a deletion or a query that finds nothing is left without an answer. This goes through the layout of an entry as a record of fixed size, and the database
  that keeps the records in its hash chains.
\<close>

theorem name_server_keeps_set:
  assumes "all_malloc e" "\<forall>c \<in> set cs. good_call c" "new_size DEFAULT_HASH_SIZE + step_cost * length cs < 2 ^ 32"
  shows "\<exists>st'. anamed_main desk_calls desk_line e (waiting cs, []) = Some st' \<and> n_line st' = ([], fst (name_answers cs {}))
    \<and> (\<exists>t. n_db st' = Some t \<and> holds_map t (entries_map (snd (name_answers cs {}))))"
proof -
  have h: "heads 0 = DEFAULT_HASH_SIZE" by (simp add: heads_def)
  obtain t where t: "tdb_open e 0 O_RDWR True = Some t" "holds_map t Map.empty" "map_size t = new_size DEFAULT_HASH_SIZE"
    using open_represents [OF assms(1), of 0 O_RDWR] assms(3) h by auto
  let ?st = "\<lparr>n_line = (waiting cs, []), n_db = Some t, n_record = fresh_record, n_conv_id = replicate 8 0, n_curpos = 0, n_origin = replicate MAX_ORIGIN (Some 0)\<rparr>"
  have "entries_map {} = Map.empty" by (rule ext) (simp add: entries_map_def)
  then have "keeps_names e {} (step_cost * length cs) ?st" using t assms(1,3) fresh_record(2) by (simp add: keeps_names_def serves_def)
  then obtain st' where "name_loop desk_calls desk_line e ?st = Some st'" "n_line st' = ([], fst (name_answers cs {}))" "keeps_names e (snd (name_answers cs {})) 0 st'"
    using loop_answers [OF assms(2), of e "{}" ?st "[]"] by auto
  moreover have "malloc_ok e RECORD_BYTES" using assms(1) by (simp add: all_malloc_def)
  ultimately show ?thesis using t(1) fresh_record(1) by (auto simp: anamed_main_def keeps_names_def serves_def)
qed

definition demo_entry :: entry where
  "demo_entry = \<lparr>ne_user = [0x6A], ne_lu = [0x41, 0x2E, 0x42], ne_group = [0x67], ne_tp = [0x74, 0x70]\<rparr>"

lemma name_server_keeps_set_witness:
  "\<exists>st'. anamed_main desk_calls desk_line plenty
      (waiting [([0x41, 0x2E, 0x42], Name_register demo_entry), ([0x43], Name_register demo_entry), ([0x43], Name_query demo_entry), ([0x43], Name_delete demo_entry), ([0x43], Name_query demo_entry)], []) = Some st'
    \<and> n_line st' = ([], [status_image 0 0 0, status_image 6 0 709, status_image 0 0 0, name_response_bytes demo_entry, status_image 0 0 0, status_image 0 0 0])"
  using name_server_keeps_set [OF plenty_all, of "[([0x41, 0x2E, 0x42], Name_register demo_entry), ([0x43], Name_register demo_entry), ([0x43], Name_query demo_entry),
      ([0x43], Name_delete demo_entry), ([0x43], Name_query demo_entry)]"]
  by (simp add: good_call_def sound_entry_def demo_entry_def MAX_ORIGIN_def new_size_def DEFAULT_HASH_SIZE_def step_cost_def growth_def) blast
end
