(* ===== verification/Aftp_Shell.thy ===== *)
theory Aftp_Shell
  imports Aftp_Client Asuite_Files "HOL-Library.List_Lexorder"
begin

text \<open>
  The interactive file transfer program (\<^verbatim>\<open>asuite/aftp.c\<close>, \<^verbatim>\<open>asuite/aftp.h\<close>): reading and splitting a
  line, the search for its command, every command over the models of the library, and the main loop.

  \<^term>\<open>None\<close> is a fault (an access outside of an array, the use of a variable that was never
  written, a failed assertion, the release of memory that was not allocated) or a call that does not
  return. \<^verbatim>\<open>g_malloc\<close> never fails. The variant with readline is not modelled, nor is what the library itself prints.
\<close>

section \<open>The client and its surroundings\<close>

text \<open>The globals of the program, the static state of the library, the line, the streams of the process and the file system.\<close>

record ('w, 'f) ftp_client =
  cl_line :: 'w
  cl_lib :: aftp
  cl_session :: byte
  cl_connected :: bool
  cl_prompting :: bool
  cl_input :: "byte list"
  cl_output :: "byte list"
  cl_errors :: "byte list"
  cl_files :: 'f

text \<open>
  The calls of the system and of glib: \<^verbatim>\<open>realloc\<close> (whether it finds a block of that size), \<^verbatim>\<open>chdir\<close>,
  \<^verbatim>\<open>getcwd\<close>, \<^verbatim>\<open>lstat\<close> (whether the file is a directory), \<^verbatim>\<open>readdir\<close>, the sorted insertion, \<^verbatim>\<open>g_dirname\<close>, \<^verbatim>\<open>g_basename\<close>, the
  reads of a file that is sent, the file into which one is received with what its writes return, and the state of the files when it holds
  new contents.
\<close>

record ('w, 'f) ftp_host =
  h_cm :: "'w cpic"
  h_realloc :: "nat \<Rightarrow> bool"
  h_chdir :: "byte list \<Rightarrow> 'f \<Rightarrow> bool \<times> 'f"
  h_getcwd :: "'f \<Rightarrow> nat \<Rightarrow> int + byte list"
  h_lstat :: "byte list \<Rightarrow> 'f \<Rightarrow> bool option"
  h_readdir :: "byte list \<Rightarrow> 'f \<Rightarrow> string list option"
  h_insert :: "string \<Rightarrow> string list \<Rightarrow> string list"
  h_dirname :: "byte list \<Rightarrow> byte list"
  h_basename :: "byte list \<Rightarrow> byte list"
  h_read :: "byte list \<Rightarrow> 'f \<Rightarrow> byte list option list option"
  h_open :: "byte list \<Rightarrow> 'f \<Rightarrow> out_file option"
  h_write :: "byte list \<Rightarrow> byte list \<Rightarrow> 'f \<Rightarrow> 'f"

definition nl :: "byte list" where "nl = [0x0A]"

definition put_out :: "byte list \<Rightarrow> ('w, 'f) ftp_client \<Rightarrow> ('w, 'f) ftp_client" where
  "put_out s c = c\<lparr>cl_output := cl_output c @ s\<rparr>"

definition complain :: "byte list \<Rightarrow> ('w, 'f) ftp_client \<Rightarrow> ('w, 'f) ftp_client" where
  "complain s c = c\<lparr>cl_errors := cl_errors c @ s\<rparr>"

text \<open>\<^verbatim>\<open>printf("...\n")\<close> and \<^verbatim>\<open>printf("...%s...\n", s)\<close>.\<close>

definition note_line :: "string \<Rightarrow> ('w, 'f) ftp_client \<Rightarrow> ('w, 'f) ftp_client" where
  "note_line s = put_out (bytes_of s @ nl)"

definition note_name :: "string \<Rightarrow> byte list \<Rightarrow> string \<Rightarrow> ('w, 'f) ftp_client \<Rightarrow> ('w, 'f) ftp_client" where
  "note_name a s b = put_out (bytes_of a @ s @ bytes_of b @ nl)"

text \<open>Calls of the library. The variable for the return code was not written before: using it when the call does not write it is a fault.\<close>

definition by_lib ::
  "(aftp \<Rightarrow> (int option \<times> 'o \<times> aftp) option) \<Rightarrow> ('w, 'f) ftp_client \<Rightarrow> (int \<times> 'o \<times> ('w, 'f) ftp_client) option" where
  "by_lib f c = do {
     (rc, out, st) \<leftarrow> f (cl_lib c);
     rc \<leftarrow> rc;
     Some (rc, out, c\<lparr>cl_lib := st\<rparr>)
   }"

definition over_line ::
  "('w \<Rightarrow> aftp \<Rightarrow> (int option \<times> 'w \<times> aftp) option) \<Rightarrow> ('w, 'f) ftp_client \<Rightarrow> (int \<times> ('w, 'f) ftp_client) option" where
  "over_line f c = do {
     (rc, w, st) \<leftarrow> f (cl_line c) (cl_lib c);
     rc \<leftarrow> rc;
     Some (rc, c\<lparr>cl_line := w, cl_lib := st\<rparr>)
   }"

definition from_line ::
  "('w \<Rightarrow> aftp \<Rightarrow> (int option \<times> ('w \<times> 'o) \<times> aftp) option) \<Rightarrow> ('w, 'f) ftp_client
   \<Rightarrow> (int \<times> 'o \<times> ('w, 'f) ftp_client) option" where
  "from_line f c = do {
     (rc, (w, out), st) \<leftarrow> f (cl_line c) (cl_lib c);
     rc \<leftarrow> rc;
     Some (rc, out, c\<lparr>cl_line := w, cl_lib := st\<rparr>)
   }"

text \<open>\<^verbatim>\<open>%lu\<close> of a return code.\<close>

definition unsigned_long :: "int \<Rightarrow> byte list" where
  "unsigned_long v = decimal (nat (v mod 2 ^ 64))"

section \<open>Reading a line\<close>

definition DEFAULT_BUFFER_SIZE :: nat where "DEFAULT_BUFFER_SIZE = 40"
definition DEFAULT_ARG_SIZE :: nat where "DEFAULT_ARG_SIZE = 25"

text \<open>A character of the input as an \<^verbatim>\<open>unsigned char\<close>: at the end of the input 255.\<close>

fun next_char :: "byte list \<Rightarrow> byte \<times> byte list" where
  "next_char [] = (255, [])"
| "next_char (b # inp) = (b, inp)"

text \<open>
  The loop of \<^verbatim>\<open>get_input\<close>: \<open>maxbuf\<close> is the size of the block, in which \<open>buf\<close> was written. At the end the
  terminator is written, outside of the block if it is full. The result is the line or the null pointer.
\<close>

partial_function (option) input_loop ::
  "(nat \<Rightarrow> bool) \<Rightarrow> byte list \<Rightarrow> nat \<Rightarrow> byte list \<Rightarrow> (byte list option \<times> byte list) option" where
  "input_loop grow buf maxbuf inp = do {
     let (curch, inp) = next_char inp;
     if curch = 0x0A then if length buf < maxbuf then Some (Some buf, inp) else None
     else if length buf < maxbuf then input_loop grow (buf @ [curch]) maxbuf inp
     else if grow (length buf + DEFAULT_BUFFER_SIZE) then
       input_loop grow (buf @ [curch]) (length buf + DEFAULT_BUFFER_SIZE) inp
     else Some (None, inp)
   }"

definition get_input :: "('w, 'f) ftp_host \<Rightarrow> ('w, 'f) ftp_client \<Rightarrow> (byte list option \<times> ('w, 'f) ftp_client) option" where
  "get_input h c = do {
     let c = put_out (bytes_of ''aftp> '') c;
     (buf, inp) \<leftarrow> input_loop (h_realloc h) [] DEFAULT_BUFFER_SIZE (cl_input c);
     Some (buf, c\<lparr>cl_input := inp\<rparr>)
   }"

section \<open>Splitting it\<close>

definition blank :: "byte \<Rightarrow> bool" where
  "blank b \<longleftrightarrow> is_space (char_of (unat b))"

text \<open>
  The inner loop of \<^verbatim>\<open>parse_input\<close>: \<open>room\<close> is the size of the block \<open>curarg\<close>, of which \<open>maxpos\<close> bytes may be
  used. A block that is enlarged has no room for the terminator. The result is the word, or the null pointer, and the rest of the line.
\<close>

fun take_word ::
  "(nat \<Rightarrow> bool) \<Rightarrow> byte list \<Rightarrow> nat \<Rightarrow> nat \<Rightarrow> byte list \<Rightarrow> (byte list option \<times> byte list) option" where
  "take_word grow curarg maxpos room [] = (if length curarg < room then Some (Some curarg, []) else None)"
| "take_word grow curarg maxpos room (b # cs) =
     (if blank b then if length curarg < room then Some (Some curarg, b # cs) else None
      else if length curarg < maxpos then
        if length curarg < room then take_word grow (curarg @ [b]) maxpos room cs else None
      else if grow (length curarg + DEFAULT_ARG_SIZE) then
        take_word grow (curarg @ [b]) (maxpos + DEFAULT_ARG_SIZE) (length curarg + DEFAULT_ARG_SIZE) cs
      else Some (None, b # cs))"

lemma take_word_rest: "take_word grow curarg maxpos room cs = Some (w, rest) \<Longrightarrow> length rest \<le> length cs"
  by (induction grow curarg maxpos room cs rule: take_word.induct) (auto split: if_splits)

lemma first_word_rest:
  "take_word grow [] DEFAULT_ARG_SIZE room (dropWhile blank (c # cs)) = Some (w, rest) \<Longrightarrow> length rest \<le> length cs"
proof -
  assume *: "take_word grow [] DEFAULT_ARG_SIZE room (dropWhile blank (c # cs)) = Some (w, rest)"
  consider "dropWhile blank (c # cs) = []" | b r where "dropWhile blank (c # cs) = b # r" "\<not> blank b"
    by (metis hd_dropWhile list.exhaust_sel)
  then show ?thesis
  proof cases
    case 1
    with * show ?thesis by (auto split: if_splits)
  next
    case 2
    have "length (b # r) \<le> length (c # cs)" using 2(1) length_dropWhile_le by metis
    moreover have "length rest \<le> length r"
      using * 2 by (auto simp: DEFAULT_ARG_SIZE_def split: if_splits dest: take_word_rest)
    ultimately show ?thesis by simp
  qed
qed

text \<open>The value of \<^verbatim>\<open>*argcnt\<close> and the list; the empty list is the null pointer, \<^term>\<open>None\<close> the null pointer that is returned when there is no memory.\<close>

function parse_loop ::
  "(nat \<Rightarrow> bool) \<Rightarrow> byte list list \<Rightarrow> byte list \<Rightarrow> (nat \<times> byte list list option) option" where
  "parse_loop grow argarray [] = Some (length argarray, Some argarray)"
| "parse_loop grow argarray (c # cs) =
     (case take_word grow [] DEFAULT_ARG_SIZE (DEFAULT_ARG_SIZE + 1) (dropWhile blank (c # cs)) of
        None \<Rightarrow> None
      | Some (None, _) \<Rightarrow> Some (length argarray, None)
      | Some (Some curarg, rest) \<Rightarrow> parse_loop grow (if curarg = [] then argarray else argarray @ [curarg]) rest)"
  by pat_completeness auto
termination
  by (relation "measure (\<lambda>(_, _, cs). length cs)") (auto simp del: dropWhile.simps take_word.simps intro!: le_imp_less_Suc dest: first_word_rest)

definition parse_input :: "(nat \<Rightarrow> bool) \<Rightarrow> byte list \<Rightarrow> (nat \<times> byte list list option) option" where
  "parse_input grow buf = parse_loop grow [] (takeWhile (\<lambda>b. b \<noteq> 0) buf)"

section \<open>Finding the command\<close>

type_synonym command_strings = "(byte list \<times> int) list"

definition help_text :: "string \<Rightarrow> string \<Rightarrow> byte list" where
  "help_text a b = bytes_of a @ [0x09] @ bytes_of b"

definition A_QMARK :: int where "A_QMARK = 0"
definition A_ALLOC :: int where "A_ALLOC = 1"
definition A_ASC :: int where "A_ASC = 2"
definition A_ASCII :: int where "A_ASCII = 3"
definition A_BIN :: int where "A_BIN = 4"
definition A_BINARY :: int where "A_BINARY = 5"
definition A_BLOCK :: int where "A_BLOCK = 6"
definition A_BYE :: int where "A_BYE = 7"
definition A_CD :: int where "A_CD = 8"
definition A_CLOSE :: int where "A_CLOSE = 9"
definition A_DATE :: int where "A_DATE = 10"
definition A_DEL :: int where "A_DEL = 11"
definition A_DELETE :: int where "A_DELETE = 12"
definition A_DIR :: int where "A_DIR = 13"
definition A_DISC :: int where "A_DISC = 14"
definition A_DISCONNECT :: int where "A_DISCONNECT = 15"
definition A_EXIT :: int where "A_EXIT = 16"
definition A_GET :: int where "A_GET = 17"
definition A_HELP :: int where "A_HELP = 18"
definition A_LCD :: int where "A_LCD = 19"
definition A_LPWD :: int where "A_LPWD = 20"
definition A_LRECL :: int where "A_LRECL = 21"
definition A_LS :: int where "A_LS = 22"
definition A_LSD :: int where "A_LSD = 23"
definition A_MD :: int where "A_MD = 24"
definition A_MKDIR :: int where "A_MKDIR = 25"
definition A_MODENAME :: int where "A_MODENAME = 26"
definition A_OPEN :: int where "A_OPEN = 27"
definition A_PROMPT :: int where "A_PROMPT = 28"
definition A_PUT :: int where "A_PUT = 29"
definition A_PWD :: int where "A_PWD = 30"
definition A_QUIT :: int where "A_QUIT = 31"
definition A_RD :: int where "A_RD = 32"
definition A_RECEIVE :: int where "A_RECEIVE = 33"
definition A_RECFM :: int where "A_RECFM = 34"
definition A_RECV :: int where "A_RECV = 35"
definition A_REN :: int where "A_REN = 36"
definition A_RENAME :: int where "A_RENAME = 37"
definition A_RMDIR :: int where "A_RMDIR = 38"
definition A_SEND :: int where "A_SEND = 39"
definition A_STAT :: int where "A_STAT = 40"
definition A_STATUS :: int where "A_STATUS = 41"
definition A_SYS :: int where "A_SYS = 42"
definition A_SYSTEM :: int where "A_SYSTEM = 43"
definition A_TPNAME :: int where "A_TPNAME = 44"
definition A_TRACE :: int where "A_TRACE = 45"
definition A_TYPE :: int where "A_TYPE = 46"
definition A_VERSION :: int where "A_VERSION = 47"

lemmas command_nums = A_QMARK_def A_ALLOC_def A_ASC_def A_ASCII_def A_BIN_def A_BINARY_def A_BLOCK_def A_BYE_def A_CD_def A_CLOSE_def A_DATE_def A_DEL_def
      A_DELETE_def A_DIR_def A_DISC_def A_DISCONNECT_def A_EXIT_def A_GET_def A_HELP_def A_LCD_def A_LPWD_def A_LRECL_def A_LS_def
      A_LSD_def A_MD_def A_MKDIR_def A_MODENAME_def A_OPEN_def A_PROMPT_def A_PUT_def A_PWD_def A_QUIT_def A_RD_def A_RECEIVE_def
      A_RECFM_def A_RECV_def A_REN_def A_RENAME_def A_RMDIR_def A_SEND_def A_STAT_def A_STATUS_def A_SYS_def A_SYSTEM_def A_TPNAME_def
      A_TRACE_def A_TYPE_def A_VERSION_def

definition commands :: command_strings where
  "commands = [
     (bytes_of ''?'', A_QMARK), (bytes_of ''alloc'', A_ALLOC), (bytes_of ''asc'', A_ASC), (bytes_of ''ascii'', A_ASCII), (bytes_of ''bin'', A_BIN),
      (bytes_of ''binary'', A_BINARY), (bytes_of ''block'', A_BLOCK), (bytes_of ''bye'', A_BYE), (bytes_of ''cd'', A_CD),
      (bytes_of ''close'', A_CLOSE), (bytes_of ''date'', A_DATE), (bytes_of ''del'', A_DEL), (bytes_of ''delete'', A_DELETE),
      (bytes_of ''dir'', A_DIR), (bytes_of ''disc'', A_DISC), (bytes_of ''disconnect'', A_DISCONNECT), (bytes_of ''exit'', A_EXIT),
      (bytes_of ''get'', A_GET), (bytes_of ''help'', A_HELP), (bytes_of ''lcd'', A_LCD), (bytes_of ''lpwd'', A_LPWD), (bytes_of ''lrecl'', A_LRECL),
      (bytes_of ''ls'', A_LS), (bytes_of ''lsd'', A_LSD), (bytes_of ''md'', A_MD), (bytes_of ''mkdir'', A_MKDIR),
      (bytes_of ''modename'', A_MODENAME), (bytes_of ''open'', A_OPEN), (bytes_of ''prompt'', A_PROMPT), (bytes_of ''put'', A_PUT),
      (bytes_of ''pwd'', A_PWD), (bytes_of ''quit'', A_QUIT), (bytes_of ''rd'', A_RD), (bytes_of ''receive'', A_RECEIVE),
      (bytes_of ''recfm'', A_RECFM), (bytes_of ''recv'', A_RECV), (bytes_of ''ren'', A_REN), (bytes_of ''rename'', A_RENAME),
      (bytes_of ''rmdir'', A_RMDIR), (bytes_of ''send'', A_SEND), (bytes_of ''stat'', A_STAT), (bytes_of ''status'', A_STATUS),
      (bytes_of ''sys'', A_SYS), (bytes_of ''system'', A_SYSTEM), (bytes_of ''tpname'', A_TPNAME), (bytes_of ''trace'', A_TRACE),
      (bytes_of ''type'', A_TYPE), (bytes_of ''version'', A_VERSION), (bytes_of [], - 1)]"

definition formats :: command_strings where
  "formats = [
     (bytes_of ''0'', 0), (bytes_of ''F'', 13), (bytes_of ''FA'', 14), (bytes_of ''FB'', 15), (bytes_of ''FBA'', 17), (bytes_of ''FBM'', 18),
      (bytes_of ''FBS'', 19), (bytes_of ''FBSA'', 21), (bytes_of ''FBSM'', 20), (bytes_of ''FM'', 16), (bytes_of ''U'', 22), (bytes_of ''UA'', 23),
      (bytes_of ''UM'', 24), (bytes_of ''V'', 1), (bytes_of ''VA'', 2), (bytes_of ''VB'', 3), (bytes_of ''VBA'', 6), (bytes_of ''VBM'', 7),
      (bytes_of ''VBS'', 8), (bytes_of ''VBSA'', 11), (bytes_of ''VBSM'', 12), (bytes_of ''VM'', 4), (bytes_of ''VS'', 5), (bytes_of ''VSA'', 9),
      (bytes_of ''VSM'', 10)]"

definition help_strings :: "byte list list" where
  "help_strings = [
     help_text ''?'' ''Print local help information'',
     help_text ''alloc'' ''Sets the allocation size for created files'',
     help_text ''asc'' ''Changes the data transmission type to ASCII'',
     help_text ''ascii'' ''Changes the data transmission type to ASCII'',
     help_text ''bin'' ''Changes the data transmission type to binary'',
     help_text ''binary'' ''Changes the data transmission type to binary'',
     help_text ''block'' ''Sets the block size for created files'',
     help_text ''bye'' ''Exits the AFTP environment'',
     help_text ''cd'' ''Sets the current directory on the server'',
     help_text ''close'' ''Closes the current AFTP session'',
     help_text ''date'' ''Sets how file dates will be handles during transfers'',
     help_text ''del'' ''Deletes a file on the server'',
     help_text ''delete'' ''Deletes a file on the server'',
     help_text ''dir'' ''Provides a listing of files an attributes on the server'',
     help_text ''disc'' ''Closes the current AFTP session'',
     help_text ''disconnect'' ''Closes the current AFTP session'',
     help_text ''exit'' ''Exits the AFTP environment'',
     help_text ''get'' ''Transfers one or more files from the server'',
     help_text ''help'' ''Provides a list of help topics, or help on a specific command'',
     help_text ''lcd'' ''Changes the current directory on the local computer'',
     help_text ''lpwd'' ''Display the current diretory on the local computer'',
     help_text ''lrecl'' ''Sets the logical record length'',
     help_text ''ls'' ''Displays a short directory listing (files only) from the server'',
     help_text ''lsd'' ''Displays a short directory list from the server containing only directories'',
     help_text ''md'' ''Create a new directory on the server computer'',
     help_text ''mkdir'' ''Create a new directory on the server computer'',
     help_text ''modename'' ''Sets the mode name used for file transfers'',
     help_text ''open'' ''Opens a connection to an AFTP server'',
     help_text ''prompt'' ''Sets whether or not to use file by file confirmation'',
     help_text ''put'' ''Transfers one or more files from the client to the server'',
     help_text ''pwd'' ''Displays the current working directory on the server'',
     help_text ''quit'' ''Exits from the AFTP environment'',
     help_text ''rd'' ''Removes a directory on the server'',
     help_text ''receive'' ''Transfers one or more files from the server'',
     help_text ''recfm'' ''Sets the record format'',
     help_text ''recv'' ''Transfers one or more files from the server'',
     help_text ''ren'' ''Renames a file on the server'',
     help_text ''rename'' ''Renames a file on the server'',
     help_text ''rmdir'' ''Removes a directory on the server'',
     help_text ''send'' ''Transfers one or more files fromthe client to the server'',
     help_text ''stat'' ''Provides information about the current session characteristics'',
     help_text ''status'' ''Provides information about the current session characteristics'',
     help_text ''sys'' ''Provides information about the AFTP server'',
     help_text ''system'' ''Provides information about the AFTP server'',
     help_text ''tpname'' ''Sets the name of the transaction program on the server'',
     help_text ''trace'' ''Sets the level of trace data to be collected'',
     help_text ''type'' ''Sets the data transmission type or displays its current value'',
     help_text ''version'' ''Displays the version and maintainer information'']"

text \<open>The number of entries that \<^verbatim>\<open>initialize\<close> counts, up to the entry with a negative number.\<close>

definition commandcnt :: nat where
  "commandcnt = length (takeWhile (\<lambda>(command_text, command_num). command_num \<ge> 0) commands)"

text \<open>\<^verbatim>\<open>strcmp\<close>, and the comparison of a word with an entry: the key comes first.\<close>

definition byte_order :: "byte list \<Rightarrow> byte list \<Rightarrow> int" where
  "byte_order a b = (if a = b then 0 else if a < b then - 1 else 1)"

definition compare_command :: "byte list \<Rightarrow> byte list \<times> int \<Rightarrow> int" where
  "compare_command arg1 arg2 = byte_order arg1 (fst arg2)"

text \<open>\<^verbatim>\<open>bsearch\<close> of the C library between the indices \<open>l\<close> and \<open>u\<close>.\<close>

function bsearch :: "('k \<Rightarrow> 'e \<Rightarrow> int) \<Rightarrow> 'k \<Rightarrow> 'e list \<Rightarrow> nat \<Rightarrow> nat \<Rightarrow> 'e option option" where
  "bsearch cmp key base l u =
     (if l < u then
        case peek base ((l + u) div 2) of
          None \<Rightarrow> None
        | Some p \<Rightarrow>
            if cmp key p < 0 then bsearch cmp key base l ((l + u) div 2)
            else if cmp key p > 0 then bsearch cmp key base ((l + u) div 2 + 1) u
            else Some (Some p)
      else Some None)"
  by pat_completeness auto
termination
  by (relation "measure (\<lambda>(_, _, _, l, u). u - l)") auto

declare bsearch.simps [simp del]

definition get_command :: "byte list \<Rightarrow> command_strings \<Rightarrow> int option" where
  "get_command arg data = do {
     rc \<leftarrow> bsearch compare_command arg data 0 commandcnt;
     Some (case rc of Some (_, command_num) \<Rightarrow> command_num | None \<Rightarrow> - 1)
   }"

end
