(* ===== verification/Aftp_Commands.thy ===== *)
theory Aftp_Commands
  imports Aftp_Shell
begin

text \<open>
  The commands of the interactive file transfer program (\<^verbatim>\<open>asuite/aftp.c\<close>) and its main loop. A command
  takes the words of its line, the name of the command included, so that their number is \<^verbatim>\<open>argcnt\<close>.
  An array is a list of cells, as in the library.
\<close>

section \<open>Help and questions\<close>

definition detail_help :: "int \<Rightarrow> ('w, 'f) ftp_client \<Rightarrow> ('w, 'f) ftp_client option" where
  "detail_help cmdcode c =
     (if cmdcode < int commandcnt then do { s \<leftarrow> peek help_strings (nat cmdcode); Some (put_out (s @ nl) c) }
      else Some (note_line ''No help available'' c))"

text \<open>The table of commands, five in a row; \<open>k\<close> is \<^verbatim>\<open>nl\<close>.\<close>

fun command_list :: "command_strings \<Rightarrow> nat \<Rightarrow> byte list option" where
  "command_list [] k = None"
| "command_list ((command_text, command_num) # data) k =
     (if command_num < 0 then Some []
      else if k = 4 then do { s \<leftarrow> command_list data 0; Some (command_text @ nl @ s) }
      else do {
        s \<leftarrow> command_list data (k + 1);
        Some (command_text @ [0x09] @ (if length command_text < 8 then [0x09] else []) @ s)
      })"

definition a_help :: "byte list list \<Rightarrow> ('w, 'f) ftp_client \<Rightarrow> ('w, 'f) ftp_client option" where
  "a_help args c =
     (if length args = 1 then do { s \<leftarrow> command_list commands 0; Some (put_out (s @ nl) c) }
      else if length args = 2 then
        if A_HELP \<ge> 0 then detail_help A_HELP c
        else Some (note_name ''Unknown command '' (args ! 1) ''.'' c)
      else detail_help A_HELP c)"

definition A_ACTION_YES :: int where "A_ACTION_YES = 0"
definition A_ACTION_NO :: int where "A_ACTION_NO = 1"
definition A_ACTION_GO :: int where "A_ACTION_GO = 2"
definition A_ACTION_QUIT :: int where "A_ACTION_QUIT = 3"

definition to_upper :: "byte \<Rightarrow> byte" where
  "to_upper b = (if 0x61 \<le> b \<and> b \<le> 0x7A then b - 0x20 else b)"

partial_function (option) get_action ::
  "string \<Rightarrow> byte list \<Rightarrow> ('w, 'f) ftp_client \<Rightarrow> (int \<times> ('w, 'f) ftp_client) option" where
  "get_action prompt filename c = do {
     let c = put_out (nl @ bytes_of prompt @ [0x20] @ filename @ bytes_of ''? (Yes, No, Go, Quit) '') c;
     let (action, inp) = next_char (dropWhile blank (cl_input c));
     let c = c\<lparr>cl_input := inp\<rparr>;
     if to_upper action = 0x59 then Some (A_ACTION_YES, c)
     else if to_upper action = 0x4E then Some (A_ACTION_NO, c)
     else if to_upper action = 0x47 then Some (A_ACTION_GO, c)
     else if to_upper action = 0x51 then Some (A_ACTION_QUIT, c)
     else get_action prompt filename c
   }"

section \<open>The connection\<close>

text \<open>The result is that of the function: 1 if there is no session.\<close>

definition initialize ::
  "(nat \<Rightarrow> int + byte list) \<Rightarrow> nat option \<Rightarrow> bool \<Rightarrow> bool \<Rightarrow> ('w, 'f) ftp_client \<Rightarrow> (int \<times> ('w, 'f) ftp_client) option" where
  "initialize getcwd p ok ok' c = do {
     (rc, h, st) \<leftarrow> aftp_create getcwd p ok ok' (cl_lib c);
     rc \<leftarrow> rc;
     Some (if rc \<noteq> AFTP_RC_OK then 1 else 0,
           c\<lparr>cl_lib := st, cl_session := (case h of Some h \<Rightarrow> h | None \<Rightarrow> cl_session c)\<rparr>)
   }"

definition a_open :: "('w, 'f) ftp_host \<Rightarrow> byte list list \<Rightarrow> ('w, 'f) ftp_client \<Rightarrow> ('w, 'f) ftp_client option" where
  "a_open h args c =
     (if cl_connected c then Some (note_line ''Already connected'' c)
      else if length args \<noteq> 2 then detail_help A_OPEN c
      else do {
        let dest = args ! 1;
        (rc, _, c) \<leftarrow> by_lib (aftp_set_destination (cl_session c) (str_cells dest) (length dest)) c;
        if rc \<noteq> AFTP_RC_OK then Some (note_name ''Could not connect to destination: '' dest [] c)
        else do {
          (rc, c) \<leftarrow> over_line (aftp_connect (h_cm h) (cl_session c)) c;
          if rc \<noteq> AFTP_RC_OK then
            Some (put_out (bytes_of ''Could not connect to destination: '' @ dest @ [0x20] @ unsigned_long rc @ nl) c)
          else Some (note_name ''Connected to '' dest [] c\<lparr>cl_connected := True\<rparr>)
        }
      })"

definition a_close :: "('w, 'f) ftp_host \<Rightarrow> ('w, 'f) ftp_client \<Rightarrow> ('w, 'f) ftp_client option" where
  "a_close h c =
     (if cl_connected c then do {
        (rc, c) \<leftarrow> over_line (aftp_close (h_cm h) (cl_session c)) c;
        if rc \<noteq> AFTP_RC_OK then Some (note_line ''Could not close connection.'' c)
        else Some (note_line ''Goodbye.'' c\<lparr>cl_connected := False\<rparr>)
      }
      else Some (note_line ''Not connected.'' c))"

text \<open>\<^verbatim>\<open>a_modename\<close> and \<^verbatim>\<open>a_tpname\<close>, which only work without a connection; \<open>n\<close> is the size of the name.\<close>

definition name_setting ::
  "(cells \<Rightarrow> nat \<Rightarrow> aftp \<Rightarrow> (int option \<times> cells \<times> nat option) option) \<Rightarrow> (cells \<Rightarrow> nat \<Rightarrow> aftp \<Rightarrow> (int option \<times> unit \<times> aftp) option)
   \<Rightarrow> nat \<Rightarrow> string \<Rightarrow> string \<Rightarrow> int \<Rightarrow> byte list list \<Rightarrow> ('w, 'f) ftp_client \<Rightarrow> ('w, 'f) ftp_client option" where
  "name_setting extract store n label what cmd args c =
     (if \<not> cl_connected c then
        if length args = 1 then do {
          (rc, str, _) \<leftarrow> extract (replicate (n + 1) None) n (cl_lib c);
          rc \<leftarrow> rc;
          if rc = AFTP_RC_OK then do {
            str \<leftarrow> c_str str;
            Some (put_out (bytes_of label @ bytes_of '' name:'' @ [0x09] @ bytes_of '' '' @ str @ nl) c)
          } else None
        }
        else if length args = 2 then do {
          let name = args ! 1;
          (rc, _, c) \<leftarrow> by_lib (store (str_cells name) (length name)) c;
          if rc \<noteq> AFTP_RC_OK then Some (note_line (''Could not set '' @ what @ '' name.'') c)
          else Some (note_name (label @ '' name set to '') name ''.'' c)
        }
        else detail_help cmd c
      else Some (note_line (''Cannot set '' @ (if cmd = A_MODENAME then ''mode'' else ''TP name'') @ '' while connected.'') c))"

definition a_modename :: "byte list list \<Rightarrow> ('w, 'f) ftp_client \<Rightarrow> ('w, 'f) ftp_client option" where
  "a_modename args c = name_setting (aftp_extract_mode_name (cl_session c)) (aftp_set_mode_name (cl_session c))
     AFTP_MODE_NAME_SIZE ''Mode'' ''mode'' A_MODENAME args c"

definition a_tpname :: "byte list list \<Rightarrow> ('w, 'f) ftp_client \<Rightarrow> ('w, 'f) ftp_client option" where
  "a_tpname args c = name_setting (aftp_extract_tp_name (cl_session c)) (aftp_set_tp_name (cl_session c))
     AFTP_TP_NAME_SIZE ''TP'' ''TP'' A_TPNAME args c"

section \<open>Directories of the server\<close>

text \<open>
  The loop that reads a listing into the array \<open>dir_entry\<close> of 81 bytes, and what is done with an entry. The
  variables that the library does not write keep their values: \<open>no_more\<close> is not set before the first call.
\<close>

partial_function (option) dir_loop ::
  "'w cpic \<Rightarrow> (cells \<Rightarrow> 'a \<times> ('w, 'f) ftp_client \<Rightarrow> ('a \<times> ('w, 'f) ftp_client) option) \<Rightarrow> cells \<Rightarrow> nat option \<Rightarrow> bool option
   \<Rightarrow> 'a \<times> ('w, 'f) ftp_client \<Rightarrow> (cells \<times> 'a \<times> ('w, 'f) ftp_client) option" where
  "dir_loop cm act dir_entry len no_more acc = do {
     (rc, (dir_entry, l, m), c) \<leftarrow> from_line (aftp_dir_read cm (cl_session (snd acc)) dir_entry 80) (snd acc);
     let len = (if l = None then len else l);
     let no_more = (if m = None then no_more else m);
     if rc \<noteq> AFTP_RC_OK then Some (dir_entry, fst acc, c)
     else do {
       stop \<leftarrow> no_more;
       if stop then Some (dir_entry, fst acc, c)
       else do {
         n \<leftarrow> len;
         dir_entry \<leftarrow> poke dir_entry n (Some 0);
         acc \<leftarrow> act dir_entry (fst acc, c);
         dir_loop cm act dir_entry (Some n) (Some stop) acc
       }
     }
   }"

definition print_entry :: "cells \<Rightarrow> unit \<times> ('w, 'f) ftp_client \<Rightarrow> (unit \<times> ('w, 'f) ftp_client) option" where
  "print_entry dir_entry acc = do { s \<leftarrow> c_str dir_entry; Some ((), put_out (s @ nl) (snd acc)) }"

definition file_only :: nat where "file_only = 1"
definition directories_only :: nat where "directories_only = 2"
definition all_files :: nat where "all_files = 3"
definition native_filenames :: nat where "native_filenames = 0"
definition native_attributes :: nat where "native_attributes = 1"

text \<open>Opening a listing, with the end of the path written where its length says; the length was not written before.\<close>

definition open_listing ::
  "'w cpic \<Rightarrow> byte list \<Rightarrow> nat \<Rightarrow> nat \<Rightarrow> ('w, 'f) ftp_client \<Rightarrow> (cells option \<times> nat option \<times> ('w, 'f) ftp_client) option" where
  "open_listing cm filespec file_type style c = do {
     (rc, (path, n), c) \<leftarrow>
       from_line (aftp_dir_open cm (cl_session c) (str_cells filespec) (length filespec) file_type style (replicate 513 None) 512) c;
     if rc \<noteq> AFTP_RC_OK then Some (None, n, c)
     else do {
       l \<leftarrow> n;
       path \<leftarrow> poke path l (Some 0);
       Some (Some path, n, c)
     }
   }"

definition a_ls ::
  "('w, 'f) ftp_host \<Rightarrow> byte list list \<Rightarrow> int \<Rightarrow> bool \<Rightarrow> ('w, 'f) ftp_client \<Rightarrow> ('w, 'f) ftp_client option" where
  "a_ls h args cmdcode attr c =
     (if cl_connected c then do {
        let filespec = (if length args = 2 then args ! 1 else [0x2A]);
        let file_type = (if cmdcode = A_LS then all_files else directories_only);
        let style = (if attr then native_attributes else native_filenames);
        (path, n, c) \<leftarrow> open_listing (h_cm h) filespec file_type style c;
        case path of
          None \<Rightarrow> Some (note_line ''Directory listing failed'' c)
        | Some path \<Rightarrow> do {
            str \<leftarrow> c_str path;
            let c = note_name ''Directory for '' str ''.'' c;
            (_, _, c) \<leftarrow> dir_loop (h_cm h) print_entry (replicate 81 None) n None ((), c);
            let c = note_line ''Directory listing complete.'' (put_out nl c);
            rc \<leftarrow> aftp_dir_close (cl_session c);
            Some (if rc \<noteq> AFTP_RC_OK then note_line ''Error closing directory'' c else c)
          }
      }
      else Some (note_line ''Not connected'' c))"

definition a_md :: "('w, 'f) ftp_host \<Rightarrow> byte list list \<Rightarrow> ('w, 'f) ftp_client \<Rightarrow> ('w, 'f) ftp_client option" where
  "a_md h args c =
     (if cl_connected c then
        if length args \<noteq> 2 then detail_help A_MKDIR c
        else do {
          let dir = args ! 1;
          (rc, c) \<leftarrow> over_line (aftp_create_dir (h_cm h) (cl_session c) (str_cells dir) (length dir)) c;
          if rc \<noteq> AFTP_RC_OK then Some (note_line ''Error creating directory.'' c)
          else Some (note_name ''Directory '' dir '' created.'' c)
        }
      else Some (note_line ''Not connected.'' c))"

definition a_cd :: "('w, 'f) ftp_host \<Rightarrow> byte list list \<Rightarrow> ('w, 'f) ftp_client \<Rightarrow> ('w, 'f) ftp_client option" where
  "a_cd h args c =
     (if cl_connected c then
        if length args = 2 then do {
          let dir = args ! 1;
          (rc, c) \<leftarrow> over_line (aftp_change_dir (h_cm h) (cl_session c) (str_cells dir) (length dir)) c;
          Some (if rc \<noteq> AFTP_RC_OK then note_name ''Could not change to directory '' dir [] c else c)
        }
        else detail_help A_CD c
      else Some (note_line ''Not connected.'' c))"

text \<open>The return code is written by \<^verbatim>\<open>aftp_format_error\<close> only when the handle is bad: the message is printed when it is not zero, which it was before.\<close>

definition a_rd :: "('w, 'f) ftp_host \<Rightarrow> byte list list \<Rightarrow> ('w, 'f) ftp_client \<Rightarrow> ('w, 'f) ftp_client option" where
  "a_rd h args c =
     (if cl_connected c then
        if length args \<noteq> 2 then detail_help A_MD c
        else do {
          let dir = args ! 1;
          (rc, c) \<leftarrow> over_line (aftp_remove_dir (h_cm h) (cl_session c) (str_cells dir) (length dir)) c;
          if rc \<noteq> AFTP_RC_OK then do {
            let c = note_line ''Error removing directory.'' c;
            (frc, (error_str, _), st) \<leftarrow> aftp_format_error (cl_session c) 1 (replicate 512 None) (cl_lib c);
            let c = c\<lparr>cl_lib := st\<rparr>;
            let rc = (case frc of None \<Rightarrow> rc | Some rc \<Rightarrow> rc);
            if rc \<noteq> AFTP_RC_OK then do { s \<leftarrow> c_str error_str; Some (put_out (s @ nl) c) } else Some c
          }
          else Some (note_name ''Directory '' dir '' removed.'' c)
        }
      else Some (note_line ''Not connected.'' c))"

definition a_pwd :: "('w, 'f) ftp_host \<Rightarrow> ('w, 'f) ftp_client \<Rightarrow> ('w, 'f) ftp_client option" where
  "a_pwd h c =
     (if cl_connected c then do {
        (rc, (working_dir, _), c) \<leftarrow> from_line (aftp_query_current_dir (h_cm h) (cl_session c) (replicate 81 None) 80) c;
        if rc \<noteq> AFTP_RC_OK then Some (note_line ''Could not retrieve working directory.'' c)
        else do { s \<leftarrow> c_str working_dir; Some (note_name [] s '' is the server's current directory'' c) }
      }
      else Some (note_line ''Not connected.'' c))"

definition a_system :: "('w, 'f) ftp_host \<Rightarrow> ('w, 'f) ftp_client \<Rightarrow> ('w, 'f) ftp_client option" where
  "a_system h c =
     (if cl_connected c then do {
        (rc, (system_info, _), c) \<leftarrow> from_line (aftp_query_system_info (h_cm h) (cl_session c) (replicate 513 None) 512) c;
        if rc \<noteq> AFTP_RC_OK then Some (note_line ''Could not retrieve system information.'' c)
        else do {
          s \<leftarrow> c_str system_info;
          Some (put_out (s @ nl) (put_out nl (note_line ''Server information.'' c)))
        }
      }
      else Some (note_line ''Not connected.'' c))"

definition a_ren :: "('w, 'f) ftp_host \<Rightarrow> byte list list \<Rightarrow> ('w, 'f) ftp_client \<Rightarrow> ('w, 'f) ftp_client option" where
  "a_ren h args c =
     (if cl_connected c then
        if length args = 3 then do {
          let oldname = args ! 1;
          let newname = args ! 2;
          (rc, c) \<leftarrow> over_line (aftp_rename (h_cm h) (cl_session c) (str_cells oldname) (length oldname)
            (str_cells newname) (length newname)) c;
          if rc \<noteq> AFTP_RC_OK then Some (note_name ''Could not rename file '' oldname ''.'' c)
          else Some (put_out (bytes_of ''Renamed '' @ oldname @ bytes_of '' to '' @ newname @ bytes_of ''.'' @ nl) c)
        }
        else detail_help A_REN c
      else Some (note_line ''Not connected.'' c))"

section \<open>Settings\<close>

definition set_data_type :: "byte list \<Rightarrow> ('w, 'f) ftp_client \<Rightarrow> ('w, 'f) ftp_client option" where
  "set_data_type kind c =
     (case (if kind = bytes_of ''ascii'' then Some 0 else if kind = bytes_of ''default'' then Some 0
            else if kind = bytes_of ''binary'' then Some 1 else None) of
        None \<Rightarrow> Some (note_name ''Unknown data type '' kind [] c)
      | Some type_code \<Rightarrow> do {
          (rc, _, c) \<leftarrow> by_lib (aftp_set_data_type (cl_session c) type_code) c;
          if rc \<noteq> AFTP_RC_OK then Some (note_line ''Could not set data type.'' c)
          else do {
            (rc, str, _) \<leftarrow> aftp_get_data_type_string type_code (replicate 65 None) 64;
            rc \<leftarrow> rc;
            c \<leftarrow> (if rc \<noteq> AFTP_RC_OK then Some (note_line ''Could not get data type 2.'' c)
                 else do { s \<leftarrow> c_str str; Some (note_name ''data type: '' s [] c) });
            s \<leftarrow> c_str str;
            Some (note_name ''Data type set to '' s [] c)
          }
        })"

definition a_type_command :: "byte list list \<Rightarrow> ('w, 'f) ftp_client \<Rightarrow> ('w, 'f) ftp_client option" where
  "a_type_command args c =
     (if length args = 1 then do {
        (rc, data_type) \<leftarrow> aftp_extract_data_type (cl_session c) (cl_lib c);
        rc \<leftarrow> rc;
        if rc \<noteq> AFTP_RC_OK then Some (note_line ''Could not get data type 1.'' c)
        else do {
          (rc, str, _) \<leftarrow> aftp_get_data_type_string data_type (replicate 65 None) 64;
          rc \<leftarrow> rc;
          if rc \<noteq> AFTP_RC_OK then Some (note_line ''Could not get data type 2.'' c)
          else do { s \<leftarrow> c_str str; Some (note_name ''data type: '' s [] c) }
        }
      }
      else if length args = 2 then set_data_type (args ! 1) c
      else detail_help A_TYPE c)"

text \<open>\<^verbatim>\<open>strtol(s, &invalid, 10)\<close>: the number, clamped, and the rest.\<close>

definition text_chars :: "byte list \<Rightarrow> string" where
  "text_chars s = map (\<lambda>b. char_of (unat b)) s"

definition strtol10 :: "string \<Rightarrow> int \<times> string" where
  "strtol10 s =
     (let (neg, r) = strtol_sign (dropWhile is_space s); ds = takeWhile (is_digit 10) r
      in if ds = [] then (0, s)
         else (clamp_long (if neg then - int (digits_val 10 ds) else int (digits_val 10 ds)), dropWhile (is_digit 10) r))"

text \<open>
  \<^verbatim>\<open>a_alloc\<close>, \<^verbatim>\<open>a_block\<close> and \<^verbatim>\<open>a_lrecl\<close>: they differ in what they print and in the setting. A long becomes an
  unsigned long.
\<close>

definition size_setting ::
  "(aftp \<Rightarrow> (int option \<times> nat) option) \<Rightarrow> (nat \<Rightarrow> aftp \<Rightarrow> (int option \<times> unit \<times> aftp) option) \<Rightarrow> byte list \<Rightarrow> string \<Rightarrow> string \<Rightarrow> int
   \<Rightarrow> byte list list \<Rightarrow> ('w, 'f) ftp_client \<Rightarrow> ('w, 'f) ftp_client option" where
  "size_setting extract store shown what set_to cmd args c =
     (if cl_connected c then
        if length args = 1 then do {
          (rc, n) \<leftarrow> extract (cl_lib c);
          rc \<leftarrow> rc;
          if rc = AFTP_RC_OK then Some (put_out (shown @ decimal n @ nl) c) else None
        }
        else if length args = 2 then
          (case strtol10 (text_chars (args ! 1)) of (v, invalid) \<Rightarrow>
             if invalid \<noteq> [] then Some (note_line (''Invalid '' @ what @ ''.'') c)
             else do {
               let n = nat (v mod 2 ^ 64);
               (rc, _, c) \<leftarrow> by_lib (store n) c;
               if rc \<noteq> AFTP_RC_OK then Some (note_line (''Could not set '' @ what @ ''.'') c)
               else Some (note_name (set_to @ '' set to '') (decimal n) [] c)
             })
        else detail_help cmd c
      else Some (note_line ''Not connected.'' c))"

definition a_alloc :: "byte list list \<Rightarrow> ('w, 'f) ftp_client \<Rightarrow> ('w, 'f) ftp_client option" where
  "a_alloc args c = size_setting (aftp_extract_allocation_size (cl_session c)) (aftp_set_allocation_size (cl_session c))
     (bytes_of ''Allocation size'' @ [0x09] @ bytes_of '': '') ''allocation size'' ''Allocation size'' A_ALLOC args c"

definition a_block :: "byte list list \<Rightarrow> ('w, 'f) ftp_client \<Rightarrow> ('w, 'f) ftp_client option" where
  "a_block args c = size_setting (aftp_extract_block_size (cl_session c)) (aftp_set_block_size (cl_session c))
     (bytes_of ''Block size:'' @ [0x09] @ bytes_of '' '') ''block size'' ''Block size'' A_BLOCK args c"

definition a_lrecl :: "byte list list \<Rightarrow> ('w, 'f) ftp_client \<Rightarrow> ('w, 'f) ftp_client option" where
  "a_lrecl args c = size_setting (aftp_extract_record_length (cl_session c)) (aftp_set_record_length (cl_session c))
     (bytes_of ''Record length'' @ [0x09] @ bytes_of '': '') ''record length'' ''Record length'' A_LRECL args c"

definition AFTP_OLDDATE :: nat where "AFTP_OLDDATE = 0"
definition AFTP_NEWDATE :: nat where "AFTP_NEWDATE = 1"

definition a_date :: "byte list list \<Rightarrow> ('w, 'f) ftp_client \<Rightarrow> ('w, 'f) ftp_client option" where
  "a_date args c =
     (if cl_connected c then
        if length args = 1 then do {
          (rc, mode) \<leftarrow> aftp_extract_date_mode (cl_session c) (cl_lib c);
          rc \<leftarrow> rc;
          if rc = AFTP_RC_OK then do {
            (rc, str, _) \<leftarrow> aftp_get_date_mode_string mode (replicate 65 None) 64;
            rc \<leftarrow> rc;
            if rc = AFTP_RC_OK then do {
              s \<leftarrow> c_str str;
              Some (put_out (bytes_of ''Date mode:'' @ [0x09] @ bytes_of '' '' @ s @ nl) c)
            } else None
          } else None
        }
        else if length args = 2 then
          let date = args ! 1 in
          case (if date = bytes_of ''new'' then Some AFTP_NEWDATE else if date = bytes_of ''old'' then Some AFTP_OLDDATE else None) of
            None \<Rightarrow> Some (note_name ''Unknown date mode '' date [] c)
          | Some date_code \<Rightarrow> do {
              (rc, _, c) \<leftarrow> by_lib (aftp_set_date_mode (cl_session c) date_code) c;
              if rc \<noteq> AFTP_RC_OK then Some (note_line ''Could not set date mode.'' c)
              else Some (note_name ''Date mode set to '' date [] c)
            }
        else detail_help A_DATE c
      else Some (note_line ''Not connected.'' c))"

definition a_recfm :: "byte list list \<Rightarrow> ('w, 'f) ftp_client \<Rightarrow> ('w, 'f) ftp_client option" where
  "a_recfm args c =
     (if cl_connected c then
        if length args = 1 then do {
          (rc, fm) \<leftarrow> aftp_extract_record_format (cl_session c) (cl_lib c);
          rc \<leftarrow> rc;
          if rc = AFTP_RC_OK then do {
            (rc, str, _) \<leftarrow> aftp_get_record_format_string fm (replicate 65 None) 64;
            rc \<leftarrow> rc;
            if rc = AFTP_RC_OK then do {
              s \<leftarrow> c_str str;
              Some (put_out (bytes_of ''Record format'' @ [0x09] @ bytes_of '': '' @ s @ nl) c)
            } else None
          } else None
        }
        else if length args = 2 then do {
          let recfm = args ! 1;
          format \<leftarrow> get_command recfm formats;
          if format \<ge> 0 then do {
            (rc, _, c) \<leftarrow> by_lib (aftp_set_record_format (cl_session c) (nat format)) c;
            if rc = AFTP_RC_OK then Some (note_name ''Record format set to '' recfm [] c)
            else Some (note_line ''Could not set record format.'' c)
          }
          else Some (note_line ''Invalid format.'' c)
        }
        else detail_help A_RECFM c
      else Some (note_line ''Not connected.'' c))"

definition a_prompt :: "byte list list \<Rightarrow> ('w, 'f) ftp_client \<Rightarrow> ('w, 'f) ftp_client option" where
  "a_prompt args c =
     (if cl_connected c then
        if length args = 1 then
          Some (if cl_prompting c then note_line ''Prompting is ON'' c else note_line ''Prompting is OFF'' c)
        else if length args = 2 then
          if args ! 1 = bytes_of ''on'' then Some (note_line ''Prompting is ON'' (c\<lparr>cl_prompting := True\<rparr>))
          else if args ! 1 = bytes_of ''off'' then Some (note_line ''Prompting is OFF'' (c\<lparr>cl_prompting := False\<rparr>))
          else detail_help A_PROMPT c
        else detail_help A_PROMPT c
      else Some (note_line ''Not connected.'' c))"

text \<open>\<^verbatim>\<open>if(rc != AFTP_RC_OK) goto errout;\<close>, where the inner \<^term>\<open>None\<close> stands for the label.\<close>

definition or_errout :: "(int option \<times> 'a) option \<Rightarrow> ('a \<Rightarrow> 'b option option) \<Rightarrow> 'b option option" where
  "or_errout r k = do {
     (rc, x) \<leftarrow> r;
     rc \<leftarrow> rc;
     if rc \<noteq> AFTP_RC_OK then Some None else k x
   }"

text \<open>The lines of the status: the settings that are read first, then printed.\<close>

definition status_lines :: "('w, 'f) ftp_client \<Rightarrow> byte list option option" where
  "status_lines c =
     (let i = cl_session c; st = cl_lib c; tab_colon = [0x09] @ bytes_of '': ''; test = map Some (bytes_of ''TEST'') @ replicate 5 (Some 0) in
      or_errout (aftp_extract_tp_name i (replicate (AFTP_TP_NAME_SIZE + 1) None) AFTP_TP_NAME_SIZE st) (\<lambda>(tp, _).
      or_errout (aftp_extract_mode_name i test AFTP_MODE_NAME_SIZE st) (\<lambda>(mode, _).
      or_errout (aftp_extract_data_type i st) (\<lambda>data_type.
      or_errout (aftp_get_data_type_string data_type (replicate 65 None) 64) (\<lambda>(data_type_string, _).
      or_errout (aftp_extract_date_mode i st) (\<lambda>date_mode.
      or_errout (aftp_get_date_mode_string date_mode (replicate 65 None) 64) (\<lambda>(date_mode_string, _).
      or_errout (aftp_extract_record_format i st) (\<lambda>record_format.
      or_errout (aftp_get_record_format_string record_format (replicate 65 None) 64) (\<lambda>(record_format_string, _).
      or_errout (aftp_extract_record_length i st) (\<lambda>record_length.
      or_errout (aftp_extract_block_size i st) (\<lambda>block_size.
      or_errout (aftp_extract_allocation_size i st) (\<lambda>alloc_size. do {
        dt \<leftarrow> c_str data_type_string;
        dm \<leftarrow> c_str date_mode_string;
        rf \<leftarrow> c_str record_format_string;
        mode \<leftarrow> c_str mode;
        tp \<leftarrow> c_str tp;
        Some (Some (bytes_of ''AFTP version is 0.03'' @ nl @ bytes_of ''Operating system is Linux'' @ nl @ nl
          @ bytes_of ''Data Type'' @ tab_colon @ dt @ nl
          @ bytes_of ''Date Mode'' @ tab_colon @ dm @ nl
          @ bytes_of ''Record Format'' @ tab_colon @ rf @ nl
          @ bytes_of ''Record Length'' @ tab_colon @ decimal record_length @ nl
          @ bytes_of ''Block Size'' @ tab_colon @ decimal block_size @ nl
          @ bytes_of ''Allocation Size'' @ tab_colon @ decimal alloc_size @ nl
          @ bytes_of ''Mode Name'' @ tab_colon @ mode @ nl
          @ bytes_of ''TP Name'' @ [0x09] @ tab_colon @ tp @ nl
          @ bytes_of ''Prompting'' @ tab_colon @ (if cl_prompting c then bytes_of ''ON'' else bytes_of ''OFF'') @ nl))
      }))))))))))))"

text \<open>Whether the program ends, with status 1.\<close>

definition a_status :: "('w, 'f) ftp_client \<Rightarrow> (bool \<times> ('w, 'f) ftp_client) option" where
  "a_status c = do {
     ls \<leftarrow> status_lines c;
     Some (case ls of Some s \<Rightarrow> (False, put_out s c) | None \<Rightarrow> (True, note_line ''Fatal error!'' c))
   }"

section \<open>Files\<close>

text \<open>
  \<^verbatim>\<open>a_del\<close> and \<^verbatim>\<open>a_get\<close> read the names of a listing into one array and append that array to their list for each of
  them: the list is its length. Releasing its elements with \<^verbatim>\<open>free_single_list\<close> releases the array, a fault.
\<close>

definition count_entry :: "cells \<Rightarrow> nat \<times> ('w, 'f) ftp_client \<Rightarrow> (nat \<times> ('w, 'f) ftp_client) option" where
  "count_entry dir_entry acc = Some (fst acc + 1, snd acc)"

definition free_arrays :: "nat \<Rightarrow> unit option" where
  "free_arrays n = (if n = 0 then Some () else None)"

text \<open>What the user wants done with a file, and whether he is still asked about the next ones.\<close>

definition ask_user :: "bool \<Rightarrow> string \<Rightarrow> byte list \<Rightarrow> ('w, 'f) ftp_client \<Rightarrow> (int \<times> bool \<times> ('w, 'f) ftp_client) option" where
  "ask_user prompt_user prompt filename c = do {
     (action, c) \<leftarrow> (if prompt_user then get_action prompt filename c else Some (A_ACTION_YES, c));
     Some (if action = A_ACTION_GO then (A_ACTION_YES, False, c) else (action, prompt_user, c))
   }"

text \<open>The loop of \<^verbatim>\<open>a_del\<close> over \<open>k\<close> elements, which stays at an element that is not deleted.\<close>

partial_function (option) del_loop ::
  "('w, 'f) ftp_host \<Rightarrow> cells \<Rightarrow> nat \<Rightarrow> bool \<Rightarrow> ('w, 'f) ftp_client \<Rightarrow> ('w, 'f) ftp_client option" where
  "del_loop h dir_entry k prompt_user c =
     (if k = 0 then Some c
      else do {
        filename \<leftarrow> c_str dir_entry;
        (action, prompt_user, c) \<leftarrow> ask_user prompt_user ''Delete'' filename c;
        if action = A_ACTION_QUIT then Some c
        else if action = A_ACTION_YES then do {
          (rc, c) \<leftarrow> over_line (aftp_delete (h_cm h) (cl_session c) dir_entry (length filename)) c;
          let c = (if rc \<noteq> AFTP_RC_OK then note_name ''Error deleting '' filename [] c else c);
          del_loop h dir_entry (k - 1) prompt_user c
        }
        else del_loop h dir_entry k prompt_user c
      })"

text \<open>The names that both commands begin with: the array, the number of elements and the client.\<close>

definition read_listing ::
  "('w, 'f) ftp_host \<Rightarrow> byte list \<Rightarrow> ('w, 'f) ftp_client \<Rightarrow> ((cells \<times> nat) option \<times> ('w, 'f) ftp_client) option" where
  "read_listing h filespec c = do {
     (path, n, c) \<leftarrow> open_listing (h_cm h) filespec file_only native_filenames c;
     case path of
       None \<Rightarrow> Some (None, note_line ''File list retrieval failed.'' c)
     | Some path \<Rightarrow> do {
         (dir_entry, k, c) \<leftarrow> dir_loop (h_cm h) count_entry (replicate 81 None) n None (0, c);
         rc \<leftarrow> aftp_dir_close (cl_session c);
         Some (Some (dir_entry, k), if rc \<noteq> AFTP_RC_OK then note_line ''Error closing directory'' c else c)
       }
   }"

definition a_del :: "('w, 'f) ftp_host \<Rightarrow> byte list list \<Rightarrow> ('w, 'f) ftp_client \<Rightarrow> ('w, 'f) ftp_client option" where
  "a_del h args c =
     (if cl_connected c then
        if length args = 2 then do {
          (filelist, c) \<leftarrow> read_listing h (args ! 1) c;
          case filelist of
            None \<Rightarrow> Some c
          | Some (dir_entry, k) \<Rightarrow> do {
              c \<leftarrow> del_loop h dir_entry k (cl_prompting c) c;
              free_arrays k;
              Some c
            }
        }
        else detail_help A_DEL c
      else Some (note_line ''Not connected.'' c))"

text \<open>One file is received: its name is that of the local file as well.\<close>

definition receive_one ::
  "('w, 'f) ftp_host \<Rightarrow> byte list \<Rightarrow> cells \<Rightarrow> ('w, 'f) ftp_client \<Rightarrow> (int \<times> ('w, 'f) ftp_client) option" where
  "receive_one h filename name_cells c = do {
     (rc, file, c) \<leftarrow> from_line (aftp_receive_file (h_cm h) (cl_session c) name_cells (length filename) name_cells (length filename)
       (h_open h filename (cl_files c))) c;
     Some (rc, case file of Some f \<Rightarrow> c\<lparr>cl_files := h_write h filename (of_bytes f) (cl_files c)\<rparr> | None \<Rightarrow> c)
   }"

partial_function (option) get_loop ::
  "('w, 'f) ftp_host \<Rightarrow> cells \<Rightarrow> nat \<Rightarrow> bool \<Rightarrow> ('w, 'f) ftp_client \<Rightarrow> ('w, 'f) ftp_client option" where
  "get_loop h dir_entry k prompt_user c =
     (if k = 0 then Some c
      else do {
        filename \<leftarrow> c_str dir_entry;
        (action, prompt_user, c) \<leftarrow> ask_user prompt_user ''Receive'' filename c;
        if action = A_ACTION_QUIT then Some c
        else if action = A_ACTION_YES then do {
          (rc, c) \<leftarrow> receive_one h filename dir_entry c;
          let c = (if rc \<noteq> AFTP_RC_OK then note_name ''Error receiving '' filename [] c else c);
          get_loop h dir_entry (k - 1) prompt_user c
        }
        else get_loop h dir_entry (k - 1) prompt_user c
      })"

definition a_get :: "('w, 'f) ftp_host \<Rightarrow> byte list list \<Rightarrow> ('w, 'f) ftp_client \<Rightarrow> ('w, 'f) ftp_client option" where
  "a_get h args c =
     (if cl_connected c then
        if length args = 2 then do {
          (filelist, c) \<leftarrow> read_listing h (args ! 1) c;
          case filelist of
            None \<Rightarrow> Some c
          | Some (dir_entry, k) \<Rightarrow> do {
              c \<leftarrow> get_loop h dir_entry k (cl_prompting c) c;
              free_arrays k;
              Some c
            }
        }
        else detail_help A_GET c
      else Some (note_line ''Not connected.'' c))"

text \<open>The loop of \<^verbatim>\<open>a_put\<close>: the file is opened under its name, without its directory.\<close>

fun put_loop ::
  "('w, 'f) ftp_host \<Rightarrow> byte list list \<Rightarrow> bool \<Rightarrow> ('w, 'f) ftp_client \<Rightarrow> ('w, 'f) ftp_client option" where
  "put_loop h [] prompt_user c = Some c"
| "put_loop h (filename # filelist) prompt_user c = do {
     (action, prompt_user, c) \<leftarrow> ask_user prompt_user ''Send'' filename (note_name ''curelem->data = '' filename [] c);
     if action = A_ACTION_QUIT then Some c
     else if action = A_ACTION_YES then do {
       (rc, c) \<leftarrow> over_line (aftp_send_file (h_cm h) (cl_session c) (str_cells filename) (length filename)
         (str_cells filename) (length filename) (h_read h filename (cl_files c))) c;
       put_loop h filelist prompt_user (if rc \<noteq> AFTP_RC_OK then note_name ''Error sending '' filename [] c else c)
     }
     else put_loop h filelist prompt_user c
   }"

text \<open>
  \<^verbatim>\<open>get_local_file_list\<close> of a directory (\<^term>\<open>None\<close>: the null pointer); it leaves the list as it was when it fails, and the list was never set.
\<close>

definition matching_files ::
  "('w, 'f) ftp_host \<Rightarrow> byte list option \<Rightarrow> byte list \<Rightarrow> 'f \<Rightarrow> byte list list option" where
  "matching_files h directory filename files = do {
     directory \<leftarrow> directory;
     (rc, filelist) \<leftarrow> get_local_file_list (h_insert h) (h_readdir h directory files) (text_chars filename);
     if rc = 0 then Some (map bytes_of filelist) else None
   }"

text \<open>
  \<^verbatim>\<open>rc\<close> is unsigned, so a failure of \<^verbatim>\<open>lstat\<close> is not below zero, and the mode that is tested then was never
  written. \<^verbatim>\<open>safe_get_cwd\<close> finds memory.
\<close>

definition lstat_rc :: "bool option \<Rightarrow> nat" where
  "lstat_rc filestats = (if filestats = None then 2 ^ 64 - 1 else 0)"

definition a_put :: "('w, 'f) ftp_host \<Rightarrow> byte list list \<Rightarrow> ('w, 'f) ftp_client \<Rightarrow> ('w, 'f) ftp_client option" where
  "a_put h args c =
     (if cl_connected c then
        if length args = 2 then do {
          let filespec = args ! 1;
          let filename = h_basename h filespec;
          directory \<leftarrow>
            (if h_dirname h filespec = bytes_of ''.'' then safe_get_cwd (h_getcwd h (cl_files c)) True
             else Some (Some (h_dirname h filespec)));
          let filestats = h_lstat h filespec (cl_files c);
          filelist \<leftarrow>
            (if lstat_rc filestats < 0 then
               let filestats = Option.bind directory (\<lambda>d. h_lstat h d (cl_files c)) in
               if lstat_rc filestats < 0 then Some None
               else do {
                 is_dir \<leftarrow> filestats;
                 if is_dir then do { l \<leftarrow> matching_files h directory filename (cl_files c); Some (Some l) } else Some None
               }
             else do {
               is_dir \<leftarrow> filestats;
               l \<leftarrow> (if is_dir then matching_files h (Some filespec) (bytes_of ''*'') (cl_files c)
                    else matching_files h directory filename (cl_files c));
               Some (Some l)
             });
          case filelist of
            None \<Rightarrow> Some (complain (bytes_of ''Invalid path.'' @ nl) c)
          | Some filelist \<Rightarrow> put_loop h filelist (cl_prompting c) c
        }
        else detail_help A_PUT c
      else Some (note_line ''Not connected.'' c))"

definition local_dir :: "string \<Rightarrow> string \<Rightarrow> ('w, 'f) ftp_client \<Rightarrow> ('w, 'f) ftp_client option" where
  "local_dir shown failed c = do {
     (rc, (currentdir, _), c) \<leftarrow> by_lib (aftp_local_query_current_dir (cl_session c) (replicate 81 None) 80) c;
     if rc = AFTP_RC_OK then do { s \<leftarrow> c_str currentdir; Some (note_name [] s shown c) }
     else Some (note_line failed c)
   }"

definition a_lpwd :: "('w, 'f) ftp_client \<Rightarrow> ('w, 'f) ftp_client option" where
  "a_lpwd c = local_dir '' is the client's current directory.'' ''Could not retreive current working directory.'' c"

definition a_lcd :: "('w, 'f) ftp_host \<Rightarrow> byte list list \<Rightarrow> ('w, 'f) ftp_client \<Rightarrow> ('w, 'f) ftp_client option" where
  "a_lcd h args c =
     (if length args = 1 then a_lpwd c
      else if length args = 2 then do {
        let (ok, files) = h_chdir h (args ! 1) (cl_files c);
        let newbuf = (case h_getcwd h files 0 of Inl errno \<Rightarrow> None | Inr path \<Rightarrow> Some path);
        (rc, _, c) \<leftarrow> by_lib (aftp_local_change_dir (cl_session c) ok newbuf) (c\<lparr>cl_files := files\<rparr>);
        if rc \<noteq> AFTP_RC_OK then Some (note_line ''Could not change local working directory.'' c)
        else local_dir '' is the client's current working directory.'' ''Error retrieving current working directory.'' c
      }
      else detail_help A_LCD c)"

section \<open>The program\<close>

text \<open>What a command leads to: the next line, the end of the loop, or the end of the program.\<close>

datatype after = Next_Line | Stop | Exit_With int

definition next_line :: "('w, 'f) ftp_client option \<Rightarrow> (after \<times> ('w, 'f) ftp_client) option" where
  "next_line r = map_option (\<lambda>c. (Next_Line, c)) r"

definition ftp_version :: "byte list \<Rightarrow> byte list" where
  "ftp_version version = bytes_of ''aftp v'' @ version @ nl @ bytes_of ''Jay Schulist <jschlst@linux-sna.org>'' @ nl"

text \<open>The \<^verbatim>\<open>switch\<close> of \<^verbatim>\<open>main\<close>; \<open>version\<close> is the version the build defines.\<close>

definition dispatch_command ::
  "('w, 'f) ftp_host \<Rightarrow> byte list \<Rightarrow> int \<Rightarrow> byte list list \<Rightarrow> ('w, 'f) ftp_client \<Rightarrow> (after \<times> ('w, 'f) ftp_client) option" where
  "dispatch_command h version command args c =
     (if command \<in> {A_QUIT, A_BYE, A_EXIT} then Some (Stop, c)
      else if command \<in> {A_QMARK, A_HELP} then next_line (a_help args c)
      else if command = A_OPEN then next_line (a_open h args c)
      else if command = A_LS then next_line (a_ls h args A_LS False c)
      else if command = A_LSD then next_line (a_ls h args A_LSD False c)
      else if command \<in> {A_MKDIR, A_MD} then next_line (a_md h args c)
      else if command = A_CD then next_line (a_cd h args c)
      else if command = A_TYPE then next_line (a_type_command args c)
      else if command \<in> {A_BIN, A_BINARY} then next_line (set_data_type (bytes_of ''binary'') c)
      else if command \<in> {A_ASC, A_ASCII} then next_line (set_data_type (bytes_of ''ascii'') c)
      else if command \<in> {A_SYS, A_SYSTEM} then next_line (a_system h c)
      else if command \<in> {A_STAT, A_STATUS} then
        map_option (\<lambda>(ends, c). (if ends then Exit_With 1 else Next_Line, c)) (a_status c)
      else if command \<in> {A_RD, A_RMDIR} then next_line (a_rd h args c)
      else if command = A_PWD then next_line (a_pwd h c)
      else if command \<in> {A_REN, A_RENAME} then next_line (a_ren h args c)
      else if command = A_ALLOC then next_line (a_alloc args c)
      else if command = A_BLOCK then next_line (a_block args c)
      else if command \<in> {A_CLOSE, A_DISC, A_DISCONNECT} then next_line (a_close h c)
      else if command = A_DATE then next_line (a_date args c)
      else if command \<in> {A_DEL, A_DELETE} then next_line (a_del h args c)
      else if command = A_LRECL then next_line (a_lrecl args c)
      else if command = A_DIR then next_line (a_ls h args A_LS True c)
      else if command = A_MODENAME then next_line (a_modename args c)
      else if command = A_PROMPT then next_line (a_prompt args c)
      else if command = A_RECFM then next_line (a_recfm args c)
      else if command = A_TPNAME then next_line (a_tpname args c)
      else if command \<in> {A_PUT, A_SEND} then next_line (a_put h args c)
      else if command \<in> {A_GET, A_RECV, A_RECEIVE} then next_line (a_get h args c)
      else if command = A_LPWD then next_line (a_lpwd c)
      else if command = A_LCD then next_line (a_lcd h args c)
      else if command = A_TRACE then Some (Next_Line, c)
      else if command = A_VERSION then Some (Next_Line, put_out (ftp_version version) c)
      else Some (Next_Line, note_name ''Unknown command '' (args ! 0) [] c))"

text \<open>One turn of the loop: a line is read, split, and its command carried out. A count above zero without a list is a null pointer that is followed.\<close>

definition run_line ::
  "('w, 'f) ftp_host \<Rightarrow> byte list \<Rightarrow> ('w, 'f) ftp_client \<Rightarrow> (after \<times> ('w, 'f) ftp_client) option" where
  "run_line h version c = do {
     (buf, c) \<leftarrow> get_input h c;
     case buf of
       None \<Rightarrow> Some (Exit_With 1, c)
     | Some buf \<Rightarrow> do {
         (argcnt, argarray) \<leftarrow> parse_input (h_realloc h) buf;
         if argcnt > 0 then do {
           args \<leftarrow> argarray;
           command \<leftarrow> get_command (args ! 0) commands;
           dispatch_command h version command args c
         }
         else Some (Next_Line, c)
       }
   }"

partial_function (option) command_loop ::
  "('w, 'f) ftp_host \<Rightarrow> byte list \<Rightarrow> ('w, 'f) ftp_client \<Rightarrow> (after \<times> ('w, 'f) ftp_client) option" where
  "command_loop h version c = do {
     (next, c) \<leftarrow> run_line h version c;
     if next = Next_Line then command_loop h version c else Some (next, c)
   }"

definition aftp_main ::
  "('w, 'f) ftp_host \<Rightarrow> byte list \<Rightarrow> nat option \<Rightarrow> bool \<Rightarrow> bool \<Rightarrow> ('w, 'f) ftp_client \<Rightarrow> (int \<times> ('w, 'f) ftp_client) option" where
  "aftp_main h version p ok ok' c = do {
     (rc, c) \<leftarrow> initialize (h_getcwd h (cl_files c)) p ok ok' c;
     if rc \<noteq> 0 then Some (1, c)
     else do {
       (next, c) \<leftarrow> command_loop h version c;
       case next of
         Exit_With code \<Rightarrow> Some (code, c)
       | _ \<Rightarrow>
           if cl_connected c then do {
             (_, w, st) \<leftarrow> aftp_close (h_cm h) (cl_session c) (cl_line c) (cl_lib c);
             Some (0, c\<lparr>cl_line := w, cl_lib := st\<rparr>)
           } else Some (0, c)
     }
   }"

end
