(* ===== verification/Aftp_Console.thy ===== *)
theory Aftp_Console
  imports Aftp_Commands Aftp_Conversation
begin

text \<open>
  Theorems on the interactive file transfer program (\<^verbatim>\<open>asuite/aftp.c\<close>): the search in its tables, the
  words of a line, what a typed line does, a session that reaches the server, and the commands that end in a fault.
\<close>

section \<open>Binary search\<close>

text \<open>What \<^verbatim>\<open>bsearch\<close> relies on: the comparisons of the key with the entries change their sign once, and are zero at most once.\<close>

locale sorted_search =
  fixes cmp :: "'k \<Rightarrow> 'e \<Rightarrow> int" and base :: "'e list"
  assumes above: "i < j \<Longrightarrow> j < length base \<Longrightarrow> cmp key (base ! i) \<le> 0 \<Longrightarrow> cmp key (base ! j) < 0"
    and below: "i < j \<Longrightarrow> j < length base \<Longrightarrow> 0 \<le> cmp key (base ! j) \<Longrightarrow> 0 < cmp key (base ! i)"
begin

lemma search_between:
  "u \<le> length base \<Longrightarrow> (\<And>i. i < l \<Longrightarrow> i < length base \<Longrightarrow> 0 < cmp key (base ! i)) \<Longrightarrow>
   (\<And>i. u \<le> i \<Longrightarrow> i < length base \<Longrightarrow> cmp key (base ! i) < 0) \<Longrightarrow>
   bsearch cmp key base l u = Some (find (\<lambda>e. cmp key e = 0) base)"
proof (induction "u - l" arbitrary: l u rule: less_induct)
  case less
  let ?m = "(l + u) div 2"
  show ?case
  proof (cases "l < u")
    case False
    then have "cmp key (base ! i) \<noteq> 0" if "i < length base" for i
      using less.prems(2) [of i] less.prems(3) [of i] that by (cases "i < l") auto
    then have "\<forall>e \<in> set base. cmp key e \<noteq> 0" by (metis in_set_conv_nth)
    then have "find (\<lambda>e. cmp key e = 0) base = None" by (simp add: find_None_iff)
    with False show ?thesis by (simp add: bsearch.simps)
  next
    case True
    then have m: "l \<le> ?m" "?m < u" "?m < length base" using less.prems(1) by auto
    consider "cmp key (base ! ?m) < 0" | "0 < cmp key (base ! ?m)" | "cmp key (base ! ?m) = 0" by linarith
    then show ?thesis
    proof cases
      case 1
      have "bsearch cmp key base l ?m = Some (find (\<lambda>e. cmp key e = 0) base)"
      proof (rule less.hyps)
        show "cmp key (base ! i) < 0" if "?m \<le> i" "i < length base" for i
          using above [of ?m i] 1 that by (cases "i = ?m") auto
      qed (use m less.prems(2) in auto)
      with True m(3) 1 show ?thesis by (subst bsearch.simps) (simp add: peek_def)
    next
      case 2
      have "bsearch cmp key base (?m + 1) u = Some (find (\<lambda>e. cmp key e = 0) base)"
      proof (rule less.hyps)
        show "0 < cmp key (base ! i)" if "i < ?m + 1" "i < length base" for i
          using below [of i ?m] 2 m(3) that by (cases "i = ?m") auto
      qed (use m less.prems(1,3) in auto)
      with True m(3) 2 show ?thesis by (subst bsearch.simps) (simp add: peek_def)
    next
      case 3
      have "cmp key (base ! j) \<noteq> 0" if "j < ?m" for j
        using below [of j ?m key] m(3) 3 that by simp
      then have "find (\<lambda>e. cmp key e = 0) base = Some (base ! ?m)"
        using 3 m(3) by (auto simp: find_Some_iff)
      with True m(3) 3 show ?thesis by (subst bsearch.simps) (simp add: peek_def)
    qed
  qed
qed

lemma search_finds: "bsearch cmp key base 0 (length base) = Some (find (\<lambda>e. cmp key e = 0) base)"
  by (rule search_between) auto

end

section \<open>The tables of the program\<close>

text \<open>The part of the table that is searched.\<close>

definition command_table :: command_strings where
  "command_table = take commandcnt commands"

lemma commandcnt_48: "commandcnt = 48"
  by (simp add: commandcnt_def commands_def command_nums)

lemma bsearch_take: "u \<le> n \<Longrightarrow> n \<le> length base \<Longrightarrow> bsearch cmp key base l u = bsearch cmp key (take n base) l u"
proof (induction cmp key base l u rule: bsearch.induct)
  case (1 cmp key base l u)
  then show ?case
    by (subst (1 2) bsearch.simps) (auto simp: peek_def)
qed

text \<open>A table whose texts ascend satisfies the laws of the search.\<close>

definition ascending :: "command_strings \<Rightarrow> bool" where
  "ascending data \<longleftrightarrow> successively (\<lambda>a b. fst a < fst b) data"

lemma ascending_less:
  assumes "ascending data" "i < j" "j < length data"
  shows "fst (data ! i) < fst (data ! j)"
proof -
  have "transp (\<lambda>a b :: byte list \<times> int. fst a < fst b)" by (auto simp: transp_def)
  then have "sorted_wrt (\<lambda>a b. fst a < fst b) data"
    using assms(1) unfolding ascending_def by (simp add: successively_conv_sorted_wrt)
  with assms(2,3) show ?thesis by (simp add: sorted_wrt_iff_nth_less)
qed

lemma ascending_search: "ascending data \<Longrightarrow> sorted_search compare_command data"
  by (unfold_locales; drule (2) ascending_less; auto simp: compare_command_def byte_order_def split: if_splits)

lemma commands_ascending: "ascending command_table"
  by (simp add: ascending_def command_table_def commandcnt_48 commands_def bytes_of_def)

interpretation command_search: sorted_search compare_command command_table
  by (rule ascending_search [OF commands_ascending])

lemma find_map_of: "map_option snd (find (\<lambda>e. compare_command w e = 0) data) = map_of data w"
  by (induction data) (auto simp: compare_command_def byte_order_def)

text \<open>What a table makes of a word: its number, or -1.\<close>

definition number_in :: "command_strings \<Rightarrow> byte list \<Rightarrow> int" where
  "number_in data w = (case map_of data w of Some n \<Rightarrow> n | None \<Rightarrow> - 1)"

lemma number_of_find:
  "(case find (\<lambda>e. compare_command w e = 0) data of Some (_, n) \<Rightarrow> n | None \<Rightarrow> - 1) = number_in data w"
  unfolding number_in_def find_map_of [symmetric] by (auto split: option.split)

lemma command_lookup: "get_command w commands = Some (number_in command_table w)"
proof -
  have l: "commandcnt \<le> length commands" by (simp add: commandcnt_def length_takeWhile_le)
  then have "length command_table = commandcnt" by (simp add: command_table_def)
  then have "bsearch compare_command w commands 0 commandcnt = Some (find (\<lambda>e. compare_command w e = 0) command_table)"
    using command_search.search_finds [of w] bsearch_take [OF order.refl l, of compare_command w 0] by (simp add: command_table_def)
  then show ?thesis by (simp add: get_command_def number_of_find)
qed

text \<open>The search among the formats starts at their last one, half of the number of commands.\<close>

lemma formats_ascending: "ascending (take 24 formats)"
  by (simp add: ascending_def formats_def bytes_of_def)

lemma last_format: "peek formats 24 = Some (bytes_of ''VSM'', 10)" "length formats = 25"
  by (simp_all add: formats_def peek_def)

text \<open>
  A word is a record format exactly if the table of formats has it, and is refused otherwise, but only up to
  the last format of the table: for every word behind it, such as any in small letters, the search leaves the table.
\<close>

theorem record_format_words:
  "get_command w formats = (if bytes_of ''VSM'' < w then None else Some (number_in formats w))"
proof -
  have split: "formats = take 24 formats @ [(bytes_of ''VSM'', 10)]"
    by (simp add: formats_def)
  have step: "bsearch compare_command w formats 0 48 =
     (if compare_command w (bytes_of ''VSM'', 10) < 0 then bsearch compare_command w formats 0 24
      else if compare_command w (bytes_of ''VSM'', 10) > 0 then bsearch compare_command w formats 25 48
      else Some (Some (bytes_of ''VSM'', 10)))"
    by (subst bsearch.simps) (simp add: last_format)
  have behind: "bsearch compare_command w formats 25 48 = None"
    by (subst bsearch.simps) (simp add: peek_def last_format)
  have inside: "bsearch compare_command w formats 0 24 = Some (find (\<lambda>e. compare_command w e = 0) (take 24 formats))"
    using sorted_search.search_finds [OF ascending_search [OF formats_ascending], of w] bsearch_take [of 24 24 formats compare_command w 0]
    by (simp add: last_format)
  have number: "number_in formats w = (if w = bytes_of ''VSM'' then 10 else number_in (take 24 formats) w)"
  proof -
    have "bytes_of ''VSM'' \<notin> fst ` set (take 24 formats)" by (simp add: formats_def bytes_of_def)
    then have "map_of (take 24 formats) (bytes_of ''VSM'') = None" by (simp add: map_of_eq_None_iff)
    then show ?thesis
      by (subst split) (auto simp: number_in_def map_add_def split: option.split)
  qed
  show ?thesis
    using step behind inside number number_of_find [of w "take 24 formats"]
    by (auto simp: get_command_def commandcnt_48 compare_command_def byte_order_def)
qed

section \<open>The words of a line\<close>

function words_of :: "byte list \<Rightarrow> byte list list" where
  "words_of [] = []"
| "words_of (b # cs) =
     (if blank b then words_of cs
      else (b # takeWhile (\<lambda>b. \<not> blank b) cs) # words_of (dropWhile (\<lambda>b. \<not> blank b) cs))"
  by pat_completeness auto
termination
  by (relation "measure length") (auto intro: le_imp_less_Suc length_dropWhile_le)

text \<open>The words for which the block has room for the terminator.\<close>

definition word_fits :: "byte list \<Rightarrow> bool" where
  "word_fits w \<longleftrightarrow> length w < 50 \<or> \<not> 25 dvd length w"

definition everything :: "nat \<Rightarrow> bool" where
  "everything n \<longleftrightarrow> True"

lemma words_skip: "words_of (dropWhile blank cs) = words_of cs"
  by (induction cs) auto

text \<open>The sizes a block goes through: 26 bytes of which 25 are used, then multiples of 25 that may be used whole.\<close>

definition block_size_ok :: "nat \<Rightarrow> nat \<Rightarrow> nat \<Rightarrow> bool" where
  "block_size_ok n maxpos room \<longleftrightarrow> n \<le> maxpos \<and>
     (maxpos = 25 \<and> room = 26 \<or> maxpos = room \<and> 25 dvd maxpos \<and> 50 \<le> maxpos \<and> maxpos < n + 25)"

lemma block_full: "block_size_ok (length w) maxpos room \<Longrightarrow> length w < room \<longleftrightarrow> word_fits w"
  unfolding block_size_ok_def word_fits_def by (auto elim!: dvdE simp: nat_less_le)

lemma take_word_everything:
  "block_size_ok (length curarg) maxpos room \<Longrightarrow>
   take_word everything curarg maxpos room cs =
     (let w = curarg @ takeWhile (\<lambda>b. \<not> blank b) cs
      in if word_fits w then Some (Some w, dropWhile (\<lambda>b. \<not> blank b) cs) else None)"
proof (induction everything curarg maxpos room cs rule: take_word.induct)
  case (1 curarg maxpos room)
  then show ?case by (simp add: block_full)
next
  case (2 curarg maxpos room b cs)
  show ?case
  proof (cases "blank b")
    case True
    with 2(3) show ?thesis by (simp add: block_full)
  next
    case b: False
    show ?thesis
    proof (cases "length curarg < maxpos")
      case True
      then have "length curarg < room" "block_size_ok (length (curarg @ [b])) maxpos room"
        using 2(3) by (auto simp: block_size_ok_def)
      with 2(1) b True show ?thesis by (simp add: Let_def)
    next
      case False
      then have "block_size_ok (length (curarg @ [b])) (maxpos + DEFAULT_ARG_SIZE) (length curarg + DEFAULT_ARG_SIZE)"
        using 2(3) by (auto simp: block_size_ok_def DEFAULT_ARG_SIZE_def)
      with 2(2) b False show ?thesis by (simp add: everything_def Let_def)
    qed
  qed
qed

lemma parse_loop_words:
  "parse_loop everything acc cs =
     (if \<forall>w \<in> set (words_of cs). word_fits w then Some (length acc + length (words_of cs), Some (acc @ words_of cs)) else None)"
proof (induction "length cs" arbitrary: acc cs rule: less_induct)
  case less
  show ?case
  proof (cases cs)
    case (Cons c r)
    have start: "block_size_ok (length []) DEFAULT_ARG_SIZE (DEFAULT_ARG_SIZE + 1)"
      by (simp add: block_size_ok_def DEFAULT_ARG_SIZE_def)
    have unfold: "parse_loop everything acc cs =
       (case take_word everything [] DEFAULT_ARG_SIZE (DEFAULT_ARG_SIZE + 1) (dropWhile blank cs) of
          None \<Rightarrow> None | Some (None, _) \<Rightarrow> Some (length acc, None)
        | Some (Some curarg, rest) \<Rightarrow> parse_loop everything (if curarg = [] then acc else acc @ [curarg]) rest)"
      unfolding Cons by (rule parse_loop.simps)
    show ?thesis
    proof (cases "dropWhile blank cs")
      case Nil
      then have "words_of cs = []" using words_skip [of cs] by (metis words_of.simps(1))
      then show ?thesis
        unfolding unfold Nil take_word_everything [OF start] by (simp add: word_fits_def)
    next
      case rest: (Cons b r')
      let ?w = "b # takeWhile (\<lambda>b. \<not> blank b) r'" and ?d = "dropWhile (\<lambda>b. \<not> blank b) r'"
      have b: "\<not> blank b" using rest hd_dropWhile [of blank cs] by auto
      then have ws: "words_of cs = ?w # words_of ?d" using rest words_skip [of cs] by simp
      have "length (b # r') \<le> length cs" using rest length_dropWhile_le [of blank cs] by metis
      then have "length ?d < length cs" using length_dropWhile_le [of "\<lambda>b. \<not> blank b" r'] by simp
      from less [OF this] b show ?thesis
        unfolding unfold rest take_word_everything [OF start] ws by (simp add: Let_def)
    qed
  qed simp
qed

lemma parse_words:
  "0 \<notin> set cs \<Longrightarrow> parse_input everything cs =
     (if \<forall>w \<in> set (words_of cs). word_fits w then Some (length (words_of cs), Some (words_of cs)) else None)"
proof -
  assume "0 \<notin> set cs"
  then have whole: "takeWhile (\<lambda>b. b \<noteq> 0) cs = cs" by (subst takeWhile_eq_all_conv) auto
  show ?thesis unfolding parse_input_def whole parse_loop_words by simp
qed

section \<open>A typed line\<close>

definition line_fits :: "byte list \<Rightarrow> bool" where
  "line_fits l \<longleftrightarrow> l = [] \<or> \<not> 40 dvd length l"

lemma buffer_full:
  assumes "length buf \<le> maxbuf" "40 dvd maxbuf" "0 < maxbuf" "maxbuf < length buf + 40 \<or> maxbuf = 40"
  shows "length buf < maxbuf \<longleftrightarrow> line_fits buf"
proof (cases "length buf = maxbuf")
  case True
  with assms(2,3) show ?thesis by (auto simp: line_fits_def)
next
  case False
  have "length buf = 0" if "40 dvd length buf"
    using assms False that by (auto elim!: dvdE simp: le_Suc_eq)
  with False assms(1) show ?thesis by (auto simp: line_fits_def)
qed

lemma input_loop_line:
  assumes "0x0A \<notin> set l" "length buf \<le> maxbuf" "40 dvd maxbuf" "0 < maxbuf" "maxbuf < length buf + 40 \<or> maxbuf = 40"
  shows "input_loop everything buf maxbuf (l @ 0x0A # rest) =
    (if line_fits (buf @ l) then Some (Some (buf @ l), rest) else None)"
  using assms
proof (induction l arbitrary: buf maxbuf)
  case Nil
  have "length buf < maxbuf \<longleftrightarrow> line_fits buf"
    using buffer_full Nil.prems(2-5) .
  then show ?case by (subst input_loop.simps) simp
next
  case (Cons b l)
  show ?case
  proof (cases "length buf < maxbuf")
    case True
    then show ?thesis
      using Cons.IH [of "buf @ [b]" maxbuf] Cons.prems by (subst input_loop.simps) auto
  next
    case False
    then have "length buf = maxbuf" using Cons.prems(2) by simp
    then have "input_loop everything (buf @ [b]) (length buf + DEFAULT_BUFFER_SIZE) (l @ 0x0A # rest) =
        (if line_fits ((buf @ [b]) @ l) then Some (Some ((buf @ [b]) @ l), rest) else None)"
      using Cons.prems by (intro Cons.IH) (auto simp: DEFAULT_BUFFER_SIZE_def)
    then show ?thesis
      using Cons.prems(1) False by (subst input_loop.simps) (simp add: everything_def)
  qed
qed

text \<open>The client after it has taken a line.\<close>

definition taken :: "byte list \<Rightarrow> ('w, 'f) ftp_client \<Rightarrow> ('w, 'f) ftp_client" where
  "taken rest c = put_out (bytes_of ''aftp> '') c\<lparr>cl_input := rest\<rparr>"

lemma get_typed:
  assumes "cl_input c = l @ 0x0A # rest" "0x0A \<notin> set l" "h_realloc h = everything"
  shows "get_input h c = (if line_fits l then Some (Some l, taken rest c) else None)"
  using input_loop_line [of l "[]" DEFAULT_BUFFER_SIZE rest] assms
  by (simp add: get_input_def put_out_def taken_def DEFAULT_BUFFER_SIZE_def)

lemma run_typed:
  assumes "cl_input c = l @ 0x0A # rest" "0x0A \<notin> set l" "0 \<notin> set l" "h_realloc h = everything"
    and "line_fits l" "\<forall>w \<in> set ws. word_fits w" "words_of l = ws" "ws \<noteq> []"
  shows "run_line h version c = dispatch_command h version (number_in command_table (hd ws)) ws (taken rest c)"
  using parse_words [OF assms(3)] assms(4-8)
  by (simp add: run_line_def get_typed [OF assms(1,2,4)] command_lookup hd_conv_nth)

text \<open>
  C15. What the user types is what the program runs: for a line whose length is not a positive multiple of 40, all of
  whose words are shorter than 50 bytes or of a length that 25 does not divide, the command is the entry of the table
  that is equal to the first word, -1 if there is none, and it gets the words of the line; any other line is a fault, and a
  line without words does nothing.
\<close>

theorem typed_line_runs_command:
  assumes "cl_input c = l @ 0x0A # rest" "0x0A \<notin> set l" "0 \<notin> set l" "h_realloc h = everything"
  shows "run_line h version c =
    (if line_fits l \<and> (\<forall>w \<in> set (words_of l). word_fits w) then
       if words_of l = [] then Some (Next_Line, taken rest c)
       else dispatch_command h version (number_in command_table (hd (words_of l))) (words_of l) (taken rest c)
     else None)"
  using parse_words [OF assms(3)] assms(4)
  by (simp add: run_line_def get_typed [OF assms(1,2,4)] command_lookup hd_conv_nth)

text \<open>A client in front of the model of the server, with a file system that has nothing.\<close>

definition demo_host :: "'w cpic \<Rightarrow> ('w, unit) ftp_host" where
  "demo_host cm = \<lparr>h_cm = cm, h_realloc = everything, h_chdir = \<lambda>d f. (False, f), h_getcwd = \<lambda>f. getcwd_at [0x2F],
     h_lstat = \<lambda>d f. None, h_readdir = \<lambda>d f. None, h_insert = insert_name, h_dirname = id, h_basename = id,
     h_read = \<lambda>d f. None, h_open = \<lambda>d f. None, h_write = \<lambda>d x f. f\<rparr>"

definition demo_client :: "'w \<Rightarrow> aftp \<Rightarrow> bool \<Rightarrow> byte list \<Rightarrow> ('w, unit) ftp_client" where
  "demo_client w st b typed = \<lparr>cl_line = w, cl_lib = st, cl_session = 0, cl_connected = b, cl_prompting = False, cl_input = typed,
     cl_output = [], cl_errors = [], cl_files = ()\<rparr>"

lemma demo_simps [simp]:
  "cl_input (demo_client w st b typed) = typed" "cl_connected (demo_client w st b typed) = b" "cl_line (demo_client w st b typed) = w"
  "cl_lib (demo_client w st b typed) = st" "cl_session (demo_client w st b typed) = 0" "cl_output (demo_client w st b typed) = []"
  "h_cm (demo_host cm) = cm" "h_realloc (demo_host cm) = everything"
  by (simp_all add: demo_client_def demo_host_def)

lemma short_fits: "length l < 40 \<Longrightarrow> line_fits l" "length w < 50 \<Longrightarrow> word_fits w"
  by (auto simp: line_fits_def word_fits_def dest: dvd_imp_le)

lemma blanks: "\<not> blank 0x71" "\<not> blank 0x75" "\<not> blank 0x69" "\<not> blank 0x74" "\<not> blank 0x72" "\<not> blank 0x64" "blank 0x20"
  by (simp_all add: blank_def is_space_def)

lemma typed_rd: "bytes_of ''rd'' = [0x72, 0x64]" "bytes_of ''quit'' = [0x71, 0x75, 0x69, 0x74]"
  by (simp_all add: bytes_of_def)

lemma number_examples: "number_in command_table [0x72, 0x64] = A_RD" "number_in command_table [0x71, 0x75, 0x69, 0x74] = A_QUIT"
  by (simp_all add: number_in_def command_table_def commandcnt_48 commands_def bytes_of_def)

theorem typed_line_runs_command_witness:
  "run_line (demo_host tape_line) [] (demo_client ([], []) demo False [0x71, 0x75, 0x69, 0x74, 0x0A]) =
     Some (Stop, taken [] (demo_client ([], []) demo False [0x71, 0x75, 0x69, 0x74, 0x0A]))"
  using typed_line_runs_command [of "demo_client ([], []) demo False [0x71, 0x75, 0x69, 0x74, 0x0A]" "[0x71, 0x75, 0x69, 0x74]" "[]" "demo_host tape_line" "[]"]
  by (simp add: blanks short_fits number_examples dispatch_command_def)

section \<open>A session that reaches the server\<close>

lemma on_session_read:
  assumes "live st index = Some s" "body s = Some (rc, out, s)"
  shows "on_session index bad dflt body st = Some (rc, out, st)"
proof -
  obtain p where "slot st index = Some p" "heap st p = Some s" using assms(1) by (auto simp: live_def split: bind_splits)
  with assms(2) show ?thesis by (simp add: on_session_def fun_upd_idem)
qed

lemma strcpy_to_string:
  assumes "length s < length m" "no_nul s"
  shows "\<exists>m'. strcpy_to m s = Some m' \<and> c_str m' = Some s"
proof -
  have "strcpy_to m s = Some (map Some s @ Some 0 # drop (Suc (length s)) m)"
    using assms(1) by (simp add: strcpy_to_def poke_block_def)
  with assms(2) show ?thesis by simp
qed

lemma format_error_text:
  assumes "live st index = Some s" "msg_category s = Some 0" "msg_index s = Some n" "c_str (primary_msg s) = Some error_text"
    and "length (decimal n) \<le> 8" "no_nul (decimal n)"
  shows "\<exists>e' l. aftp_format_error index 1 (replicate 512 None) st = Some (None, (e', l), st)
    \<and> c_str e' = Some (0x30 # decimal n @ error_text)"
proof -
  have z: "decimal 0 = [0x30]" by (simp add: decimal.simps)
  obtain codes where "strcpy_to (replicate 10 None) (0x30 # decimal n) = Some codes"
    using strcpy_to_string [of "0x30 # decimal n" "replicate 10 None"] assms(5,6) by auto
  moreover obtain e' where e': "strcpy_to (replicate 512 None) (0x30 # decimal n @ error_text) = Some e'" "c_str e' = Some (0x30 # decimal n @ error_text)"
    using strcpy_to_string [of "0x30 # decimal n @ error_text" "replicate 512 None"] assms(5,6) length_error_text
    by (auto simp: no_nul_def)
  ultimately have "aftp_format_error index 1 (replicate 512 None) st
      = Some (None, (e', Some (length (decimal 0 @ decimal n @ error_text))), st)"
    using assms(2-4) unfolding aftp_format_error_def by (intro on_session_read [OF assms(1)]) (simp add: z)
  with e'(2) show ?thesis by blast
qed

lemma decimal_of_error:
  "length (decimal (unat (remove_dir_error e))) \<le> 8" "no_nul (decimal (unat (remove_dir_error e)))"
  "unat (ucast (remove_dir_error e) :: u16) = unat (remove_dir_error e)" "remove_dir_error e \<noteq> 0"
  by (simp_all add: remove_dir_error_def A_ERR_FILE_EXISTS_def A_ERR_FILE_NOT_FOUND_def A_ERR_ACCESS_DENIED_def
      A_ERR_ACTION_NOT_PERFORMED_def decimal.simps)

lemma words_no_blank: "w \<in> set (words_of cs) \<Longrightarrow> b \<in> set w \<Longrightarrow> \<not> blank b"
  by (induction cs rule: words_of.induct) (auto split: if_splits dest: set_takeWhileD)

text \<open>
  C3. A directory is removed from the keyboard to the server's disk: typing \<^verbatim>\<open>rd\<close> and a name makes the server call
  \<^verbatim>\<open>rmdir\<close> once, on that name, and the user reads that the directory is removed, or an error with the code the server gives
  the error number. The program and the server are ready for the next line and the next request.
\<close>

theorem user_removes_directory:
  assumes "cl_input c = bytes_of ''rd '' @ d @ 0x0A # rest" "words_of d = [d]" "word_fits d" "0 \<notin> set d"
    and "line_fits (bytes_of ''rd '' @ d)" "length d + 6 \<le> MAX_BUFFER_SIZE"
    and "h_cm h = linked kn gl" "h_realloc h = everything" "cl_connected c" "ready (cl_lib c) (cl_session c) cid s"
    and "has_room kn" "knows_cwd kn cwd" "server_idle (cl_line c)" "sys_rmdir kn (kern (cl_line c)) d = (rc, k)"
  shows "\<exists>c'. run_line h version c = Some (Next_Line, c') \<and> kern (cl_line c') = k \<and> server_idle (cl_line c')
    \<and> cl_connected c' \<and> cl_input c' = rest \<and> cl_output c' = cl_output c @ bytes_of ''aftp> '' @
      (case rc of None \<Rightarrow> bytes_of ''Directory '' @ d @ bytes_of '' removed.'' @ nl
       | Some e \<Rightarrow> bytes_of ''Error removing directory.'' @ nl @ [0x30] @ decimal (unat (remove_dir_error e)) @ error_text @ nl)"
proof -
  have nul: "no_nul d" using assms(4) by (simp add: no_nul_def)
  have nb: "\<forall>b \<in> set d. \<not> blank b" using words_no_blank [of d d] assms(2) by simp
  have "0x0A \<notin> set d" using nb by (auto simp: blank_def is_space_def)
  have words: "words_of (bytes_of ''rd '' @ d) = [[0x72, 0x64], d]"
    by (simp add: bytes_of_def blanks assms(2))
  have run: "run_line h version c = next_line (a_rd h [[0x72, 0x64], d] (taken rest c))"
    using run_typed [of c "bytes_of ''rd '' @ d" rest h "[[0x72, 0x64], d]" version] assms(1-5,8) words \<open>0x0A \<notin> set d\<close>
    by (simp add: number_examples dispatch_command_def command_nums short_fits bytes_of_def)
  let ?c = "taken rest c"
  have tk: "cl_lib ?c = cl_lib c" "cl_session ?c = cl_session c" "cl_line ?c = cl_line c" "cl_connected ?c" "cl_input ?c = rest"
    "cl_output ?c = cl_output c @ bytes_of ''aftp> ''"
    using assms(9) by (simp_all add: taken_def put_out_def)
  obtain sv' st' s' where sv': "aftp_remove_dir (linked kn gl) (cl_session c) (str_cells d) (length d) (cl_line c) (cl_lib c)
        = Some (Some (if rc = None then AFTP_RC_OK else AFTP_RC_FAIL_FATAL), sv', st')"
    "kern sv' = k" "server_idle sv'" "live st' (cl_session c) = Some s'"
    "after_status (case rc of None \<Rightarrow> 0 | Some e \<Rightarrow> 6) 0 (case rc of None \<Rightarrow> 0 | Some e \<Rightarrow> remove_dir_error e) s s'"
    by (rule remove_dir_over_line [OF assms(10) nul assms(6,11-14)])
  show ?thesis
  proof (cases rc)
    case None
    have "a_rd h [[0x72, 0x64], d] ?c = Some (note_name ''Directory '' d '' removed.'' (?c\<lparr>cl_line := sv', cl_lib := st'\<rparr>))"
      using tk sv'(1) assms(7) None by (simp add: a_rd_def over_line_def)
    with run tk sv'(2,3) None show ?thesis
      by (simp add: next_line_def note_name_def put_out_def)
  next
    case (Some e)
    have "msg_category s' = Some 0" "msg_index s' = Some (unat (remove_dir_error e))" "c_str (primary_msg s') = Some error_text"
      using sv'(5) Some by (simp_all add: after_status_def decimal_of_error(3))
    from format_error_text [OF sv'(4) this decimal_of_error(1,2)] obtain e' l where
      f: "aftp_format_error (cl_session c) 1 (replicate 512 None) st' = Some (None, (e', l), st')"
        "c_str e' = Some (0x30 # decimal (unat (remove_dir_error e)) @ error_text)" by blast
    have "a_rd h [[0x72, 0x64], d] ?c = Some (put_out ((0x30 # decimal (unat (remove_dir_error e)) @ error_text) @ nl)
        (note_line ''Error removing directory.'' (?c\<lparr>cl_line := sv', cl_lib := st'\<rparr>)))"
      using tk sv'(1) assms(7) Some f by (simp add: a_rd_def over_line_def note_line_def put_out_def aftp_rcs)
    with run tk sv'(2,3) Some show ?thesis
      by (simp add: next_line_def note_line_def put_out_def)
  qed
qed

theorem user_removes_directory_witness:
  "\<exists>c'. run_line (demo_host (linked small_system small_glib)) [] (demo_client with_dir demo True [0x72, 0x64, 0x20, 0x64, 0x0A]) = Some (Next_Line, c')
    \<and> tree (kern (cl_line c')) [0x64] = None
    \<and> cl_output c' = bytes_of ''aftp> '' @ bytes_of ''Directory '' @ [0x64] @ bytes_of '' removed.'' @ nl"
proof -
  let ?k = "(kern with_dir)\<lparr>tree := (tree (kern with_dir))([0x64] := None)\<rparr>"
  have "sys_rmdir small_system (kern with_dir) [0x64] = (None, ?k)"
    by (simp add: small_system_def with_dir_def)
  with user_removes_directory [where c = "demo_client with_dir demo True [0x72, 0x64, 0x20, 0x64, 0x0A]" and d = "[0x64]" and rest = "[]"
      and h = "demo_host (linked small_system small_glib)" and version = "[]", OF _ _ _ _ _ _ _ _ _ _ small_system_ok]
    with_dir_idle(1) demo_ready
  have "\<exists>c'. run_line (demo_host (linked small_system small_glib)) [] (demo_client with_dir demo True [0x72, 0x64, 0x20, 0x64, 0x0A]) = Some (Next_Line, c')
    \<and> kern (cl_line c') = ?k \<and> cl_output c' = bytes_of ''aftp> '' @ bytes_of ''Directory '' @ [0x64] @ bytes_of '' removed.'' @ nl"
    by (force simp: bytes_of_def blanks short_fits MAX_BUFFER_SIZE_def)
  then show ?thesis by fastforce
qed

section \<open>Commands that end in a fault\<close>

text \<open>A listing with any file: whatever was deleted or received, the array that held the names is then released.\<close>

lemma listed_files_fault:
  assumes "cl_connected c" "length args = 2" "read_listing h (args ! 1) c = Some (Some (dir_entry, Suc k), c')"
  shows "a_del h args c = None" "a_get h args c = None"
  using assms by (simp_all add: a_del_def a_get_def free_arrays_def bind_eq_None_conv)

text \<open>Without questions the loop of \<^verbatim>\<open>a_del\<close> deletes the last name of the listing again and again.\<close>

lemma del_loop_same_name:
  assumes "c_str dir_entry = Some filename" "over_line (aftp_delete (h_cm h) (cl_session c) dir_entry (length filename)) c = Some (AFTP_RC_OK, c')"
  shows "del_loop h dir_entry (Suc k) False c = del_loop h dir_entry k False c'"
  using assms by (subst del_loop.simps) (simp add: ask_user_def A_ACTION_YES_def A_ACTION_GO_def A_ACTION_QUIT_def)

text \<open>Sending what is not the name of one file, such as a pattern.\<close>

lemma pattern_faults:
  assumes "cl_connected c" "length args = 2" "h_lstat h (args ! 1) (cl_files c) = None"
  shows "a_put h args c = None"
  using assms by (simp add: a_put_def lstat_rc_def bind_eq_None_conv)

text \<open>A directory of the client that cannot be entered.\<close>

lemma failed_chdir_faults:
  assumes "length args = 2" "h_chdir h (args ! 1) (cl_files c) = (False, files)" "live (cl_lib c) (cl_session c) = Some s"
  shows "a_lcd h args c = None"
proof -
  have "aftp_local_change_dir (cl_session c) False newbuf (cl_lib c) = Some (None, (), cl_lib c)" for newbuf
    unfolding aftp_local_change_dir_def by (rule on_session_read [OF assms(3)]) simp
  with assms(1,2) show ?thesis by (simp add: a_lcd_def by_lib_def)
qed

end
