(* ===== verification/Acopy.thy ===== *)
theory Acopy
  imports Aftp_Shell
begin

text \<open>
  The program that copies one file (\<^verbatim>\<open>asuite/acopy.c\<close>): its arguments and the calls of the file transfer
  library it makes. What \<^verbatim>\<open>getopt\<close> returns, the local files and the calls of CPI-C are parameters.
\<close>

section \<open>The program\<close>

text \<open>
  The globals: the line, the library, the session, the last return code, which a call that does not write it leaves as it
  was, what the reads of the file that is sent return, and what the file that is received holds (\<^term>\<open>None\<close>: it cannot be opened).
\<close>

record 'w acopy =
  c_line :: 'w
  c_lib :: aftp
  c_session :: byte
  c_rc :: int
  c_reads :: "byte list option list option"
  c_target :: "out_file option"
  c_out :: "byte list"
  c_err :: "byte list"

record copy_options =
  copy_type :: nat
  copy_tp :: "byte list option"
  copy_mode :: "byte list option"

definition copy_say :: "byte list \<Rightarrow> 'w acopy \<Rightarrow> 'w acopy" where
  "copy_say s c = c\<lparr>c_out := c_out c @ s\<rparr>"

definition copy_err :: "byte list \<Rightarrow> 'w acopy \<Rightarrow> 'w acopy" where
  "copy_err s c = c\<lparr>c_err := c_err c @ s @ nl\<rparr>"

definition acopy_usage :: "byte list" where
  "acopy_usage = bytes_of ''usage: acopy -v [-M (a|e|b)] [-m mode_name] [-t tp_name]'' @ nl @ [0x09]
     @ bytes_of ''[(-n | -u userid [-p password])]'' @ nl @ [0x09]
     @ bytes_of ''(source_lu:sourcefile destfile | sourcefile dest_lu:destfile)'' @ nl"

text \<open>The end of the program with a status, or what it goes on with.\<close>

definition usage_exit :: "'w acopy \<Rightarrow> (int \<times> 'w acopy) + 'a" where
  "usage_exit c = Inl (1, copy_say acopy_usage c)"

definition copy_option :: "byte list \<Rightarrow> char \<Rightarrow> byte list option \<Rightarrow> copy_options \<Rightarrow> 'w acopy \<Rightarrow> ((int \<times> 'w acopy) + copy_options) option" where
  "copy_option version opt optarg opts c =
     (if opt = CHR ''M'' then do {
        arg \<leftarrow> optarg;
        Some (if take 1 arg = [0x61] then Inr (opts\<lparr>copy_type := 0\<rparr>)
              else if take 1 arg = [0x62] then Inr (opts\<lparr>copy_type := 1\<rparr>)
              else if take 1 arg = [0x65] then Inr (opts\<lparr>copy_type := 2\<rparr>)
              else usage_exit c)
      }
      else if opt = CHR ''v'' then
        Some (Inl (0, copy_say (bytes_of ''acopy v'' @ version @ nl @ bytes_of ''Jay Schulist <jschlst@linux-sna.org>'' @ nl) c))
      else if opt = CHR ''m'' then do {
        arg \<leftarrow> optarg;
        Some (if length arg > CM_MN_SIZE then Inl (1, copy_err (bytes_of ''Mode name is too long'') c)
              else Inr (opts\<lparr>copy_mode := Some arg\<rparr>))
      }
      else if opt = CHR ''t'' then do {
        arg \<leftarrow> optarg;
        Some (if length arg > CM_TPN_SIZE then Inl (1, copy_err (bytes_of ''TP name is too long'') c)
              else Inr (opts\<lparr>copy_tp := Some arg\<rparr>))
      }
      else Some (usage_exit c))"

fun copy_options_loop ::
  "byte list \<Rightarrow> (char \<times> byte list option) list \<Rightarrow> copy_options \<Rightarrow> 'w acopy \<Rightarrow> ((int \<times> 'w acopy) + copy_options) option" where
  "copy_options_loop version [] opts c = Some (Inr opts)"
| "copy_options_loop version ((opt, optarg) # calls) opts c = do {
     r \<leftarrow> copy_option version opt optarg opts c;
     case r of Inl e \<Rightarrow> Some (Inl e) | Inr opts \<Rightarrow> copy_options_loop version calls opts c
   }"

text \<open>A copy of a string, \<open>ok\<close>: there is memory. Without memory the program ends.\<close>

definition savestr :: "bool \<Rightarrow> byte list \<Rightarrow> 'w acopy \<Rightarrow> (int \<times> 'w acopy) + byte list" where
  "savestr ok s c = (if ok then Inr s else Inl (1, c))"

text \<open>What is copied: whether a file is sent, the logical unit, the source and the destination.\<close>

definition split_colon :: "byte list \<Rightarrow> byte list \<times> byte list" where
  "split_colon s = (takeWhile (\<lambda>b. b \<noteq> 0x3A) s, tl (dropWhile (\<lambda>b. b \<noteq> 0x3A) s))"

definition saved ::
  "bool \<Rightarrow> bool \<Rightarrow> byte list \<Rightarrow> byte list \<Rightarrow> byte list \<Rightarrow> 'w acopy \<Rightarrow> (int \<times> 'w acopy) + (bool \<times> byte list \<times> byte list \<times> byte list)" where
  "saved ok sending lu source dest c =
     (case savestr ok lu c of Inl e \<Rightarrow> Inl e | Inr dest_lu \<Rightarrow>
      case savestr ok source c of Inl e \<Rightarrow> Inl e | Inr source_filespec \<Rightarrow>
      case savestr ok dest c of Inl e \<Rightarrow> Inl e | Inr dest_filespec \<Rightarrow> Inr (sending, dest_lu, source_filespec, dest_filespec))"

definition copy_operands ::
  "bool \<Rightarrow> byte list list \<Rightarrow> 'w acopy \<Rightarrow> (int \<times> 'w acopy) + (bool \<times> byte list \<times> byte list \<times> byte list)" where
  "copy_operands ok argv c =
     (if length argv \<noteq> 2 then usage_exit c
      else if 0x3A \<in> set (argv ! 0) then
        if 0x3A \<in> set (argv ! 1) then usage_exit c
        else case split_colon (argv ! 0) of (lu, file) \<Rightarrow> saved ok False lu file (argv ! 1) c
      else if 0x3A \<in> set (argv ! 1) then
        case split_colon (argv ! 1) of (lu, file) \<Rightarrow> saved ok True lu (argv ! 0) file c
      else usage_exit c)"

text \<open>A step of \<^verbatim>\<open>main\<close>: a call, and the message with which the program ends if the return code is not that of success.\<close>

definition and_then ::
  "((int \<times> 'w acopy) + 'w acopy) option \<Rightarrow> ('w acopy \<Rightarrow> ((int \<times> 'w acopy) + 'w acopy) option) \<Rightarrow> ((int \<times> 'w acopy) + 'w acopy) option" where
  "and_then r k = do { r \<leftarrow> r; case r of Inl e \<Rightarrow> Some (Inl e) | Inr c \<Rightarrow> k c }"

definition set_rc :: "int option \<Rightarrow> 'w acopy \<Rightarrow> 'w acopy" where
  "set_rc rc c = (case rc of None \<Rightarrow> c | Some rc \<Rightarrow> c\<lparr>c_rc := rc\<rparr>)"

definition expect :: "byte list \<Rightarrow> 'w acopy \<Rightarrow> (int \<times> 'w acopy) + 'w acopy" where
  "expect msg c = (if c_rc c \<noteq> AFTP_RC_OK then Inl (1, copy_err msg c) else Inr c)"

definition lib_step :: "(aftp \<Rightarrow> (int option \<times> 'o \<times> aftp) option) \<Rightarrow> byte list \<Rightarrow> 'w acopy \<Rightarrow> ((int \<times> 'w acopy) + 'w acopy) option" where
  "lib_step f msg c = do {
     (rc, _, st) \<leftarrow> f (c_lib c);
     Some (expect msg (set_rc rc (c\<lparr>c_lib := st\<rparr>)))
   }"

definition line_step ::
  "('w \<Rightarrow> aftp \<Rightarrow> (int option \<times> 'w \<times> aftp) option) \<Rightarrow> byte list \<Rightarrow> 'w acopy \<Rightarrow> ((int \<times> 'w acopy) + 'w acopy) option" where
  "line_step f msg c = do {
     (rc, w, st) \<leftarrow> f (c_line c) (c_lib c);
     Some (expect msg (set_rc rc (c\<lparr>c_line := w, c_lib := st\<rparr>)))
   }"

definition create_step ::
  "(nat \<Rightarrow> int + byte list) \<Rightarrow> nat option \<Rightarrow> bool \<Rightarrow> bool \<Rightarrow> 'w acopy \<Rightarrow> ((int \<times> 'w acopy) + 'w acopy) option" where
  "create_step getcwd p ok ok' c = do {
     (rc, h, st) \<leftarrow> aftp_create getcwd p ok ok' (c_lib c);
     Some (expect (bytes_of ''Could not create ftp session'')
       (set_rc rc (c\<lparr>c_lib := st, c_session := (case h of Some h \<Rightarrow> h | None \<Rightarrow> c_session c)\<rparr>)))
   }"

text \<open>The names that were given as options.\<close>

definition name_step ::
  "byte list option \<Rightarrow> (byte list \<Rightarrow> 'w acopy \<Rightarrow> ((int \<times> 'w acopy) + 'w acopy) option) \<Rightarrow> 'w acopy \<Rightarrow> ((int \<times> 'w acopy) + 'w acopy) option" where
  "name_step name f c = (case name of None \<Rightarrow> Some (Inr c) | Some n \<Rightarrow> f n c)"

text \<open>The transfer. A file that cannot be received is reported, but does not end the program.\<close>

definition copy_send :: "'w cpic \<Rightarrow> byte list \<Rightarrow> byte list \<Rightarrow> 'w acopy \<Rightarrow> ((int \<times> 'w acopy) + 'w acopy) option" where
  "copy_send cm source dest c = do {
     (rc, w, st) \<leftarrow> aftp_send_file cm (c_session c) (str_cells source) (length source) (str_cells dest) (length dest)
       (c_reads c) (c_line c) (c_lib c);
     let c = set_rc rc (c\<lparr>c_line := w, c_lib := st\<rparr>);
     Some (expect (bytes_of ''Error sending file '' @ source @ bytes_of '' rc = '' @ unsigned_long (c_rc c)) c)
   }"

definition copy_receive :: "'w cpic \<Rightarrow> byte list \<Rightarrow> byte list \<Rightarrow> 'w acopy \<Rightarrow> ((int \<times> 'w acopy) + 'w acopy) option" where
  "copy_receive cm source dest c = do {
     (rc, (w, file), st) \<leftarrow> aftp_receive_file cm (c_session c) (str_cells dest) (length dest) (str_cells source) (length source)
       (c_target c) (c_line c) (c_lib c);
     let c = set_rc rc (c\<lparr>c_line := w, c_lib := st, c_target := file\<rparr>);
     Some (Inr (if c_rc c \<noteq> AFTP_RC_OK
                then copy_err (bytes_of ''Error retrieving file '' @ source @ bytes_of '' rc = '' @ unsigned_long (c_rc c)) c
                else c))
   }"

definition destroy_step :: "'w acopy \<Rightarrow> ((int \<times> 'w acopy) + 'w acopy) option" where
  "destroy_step c = do {
     (rc, st) \<leftarrow> aftp_destroy (c_session c) (c_lib c);
     Some (expect (bytes_of ''Error destroying session'') (set_rc rc (c\<lparr>c_lib := st\<rparr>)))
   }"

text \<open>\<^verbatim>\<open>main\<close> after the arguments.\<close>

definition copy_file ::
  "'w cpic \<Rightarrow> (nat \<Rightarrow> int + byte list) \<Rightarrow> nat option \<Rightarrow> bool \<Rightarrow> bool \<Rightarrow> copy_options \<Rightarrow> bool \<Rightarrow> byte list \<Rightarrow> byte list \<Rightarrow> byte list
   \<Rightarrow> 'w acopy \<Rightarrow> ((int \<times> 'w acopy) + 'w acopy) option" where
  "copy_file cm getcwd p ok ok' opts sending dest_lu source dest c =
     and_then (create_step getcwd p ok ok' c) (\<lambda>c.
     and_then (lib_step (aftp_set_destination (c_session c) (str_cells dest_lu) (length dest_lu))
       (bytes_of ''Could not set destination LU '' @ dest_lu) c) (\<lambda>c.
     and_then (name_step (copy_tp opts) (\<lambda>n c. lib_step (aftp_set_tp_name (c_session c) (str_cells n) (length n))
       (bytes_of ''Could not set TP name '' @ n) c) c) (\<lambda>c.
     and_then (name_step (copy_mode opts) (\<lambda>n c. lib_step (aftp_set_mode_name (c_session c) (str_cells n) (length n))
       (bytes_of ''Could not set mode name '' @ n) c) c) (\<lambda>c.
     and_then (line_step (aftp_connect cm (c_session c)) (bytes_of ''Could not connect to destination LU '' @ dest_lu) c) (\<lambda>c.
     and_then (lib_step (aftp_set_data_type (c_session c) (copy_type opts)) (bytes_of ''Could not set transfer mode'') c) (\<lambda>c.
     and_then (if sending then copy_send cm source dest c else copy_receive cm source dest c) (\<lambda>c.
     and_then (line_step (aftp_close cm (c_session c)) (bytes_of ''Error closing connection'') c)
       destroy_step)))))))"

definition acopy_main ::
  "'w cpic \<Rightarrow> (nat \<Rightarrow> int + byte list) \<Rightarrow> nat option \<Rightarrow> bool \<Rightarrow> bool \<Rightarrow> bool \<Rightarrow> byte list \<Rightarrow> (char \<times> byte list option) list
   \<Rightarrow> byte list list \<Rightarrow> 'w acopy \<Rightarrow> (int \<times> 'w acopy) option" where
  "acopy_main cm getcwd p ok ok' ok_str version calls argv c = do {
     r \<leftarrow> copy_options_loop version calls \<lparr>copy_type = 0, copy_tp = None, copy_mode = None\<rparr> c;
     case r of
       Inl e \<Rightarrow> Some e
     | Inr opts \<Rightarrow> (case copy_operands ok_str argv c of
         Inl e \<Rightarrow> Some e
       | Inr (sending, dest_lu, source, dest) \<Rightarrow> do {
           r \<leftarrow> copy_file cm getcwd p ok ok' opts sending dest_lu source dest c;
           Some (case r of Inl e \<Rightarrow> e | Inr c \<Rightarrow> (0, c))
         })
   }"

end
