(* ===== verification/Acopy_Run.thy ===== *)
theory Acopy_Run
  imports Acopy Aftp_Conversation
begin

text \<open>
  The program that copies one file (\<^verbatim>\<open>asuite/acopy.c\<close>) against the model of the server: its whole run, from
  its arguments to its exit, in both directions.
\<close>

section \<open>Calls keep the conversation\<close>

lemma exchange_conversation: "exchange cm w s = Some (rc, s', w') \<Longrightarrow> conversation_ID s' = conversation_ID s"
  by (auto simp: exchange_def split: bind_splits if_splits)

lemma receive_loop_conversation:
  assumes "receive_loop cm cid w s file = Some (rc, out, s')"
  shows "conversation_ID s' = conversation_ID s"
proof -
  have "conversation_ID (snd (snd (rc, out, s'))) = conversation_ID s"
    by (rule receive_loop.raw_induct [OF _ assms]) (auto simp: Let_def split: bind_splits if_splits)
  then show ?thesis by simp
qed

lemma on_session_body:
  assumes "on_session index bad dflt body st = Some (rc, out, st')" "live st index = Some s"
  obtains s' where "body s = Some (rc, out, s')" "live st' index = Some s'"
  using assms by (auto simp: on_session_def live_def split: bind_splits)

text \<open>A session that is live with its conversation stays so in both transfers.\<close>

lemma transfer_keeps_ready:
  "aftp_send_file cm i lf l rf r src w st = Some (rc, w', st') \<Longrightarrow> aftp_inv st \<Longrightarrow> ready st i cid s \<Longrightarrow> \<exists>s'. ready st' i cid s'"
  "aftp_receive_file cm i lf l rf r old w st = Some (rc, out, st') \<Longrightarrow> aftp_inv st \<Longrightarrow> ready st i cid s \<Longrightarrow> \<exists>s'. ready st' i cid s'"
proof -
  have wf: "wf_session s'" if "aftp_inv st'" "live st' i = Some s'" for st' s'
    using that by (auto simp: aftp_inv_def live_def split: bind_splits)
  show "\<exists>s'. ready st' i cid s'" if "aftp_send_file cm i lf l rf r src w st = Some (rc, w', st')" "aftp_inv st" "ready st i cid s"
  proof -
    have "live st i = Some s" using that(3) by (simp add: ready_def)
    from that(1) [unfolded aftp_send_file_def] this obtain s' where "live st' i = Some s'" "conversation_ID s' = conversation_ID s"
      by (rule on_session_body) (auto split: option.splits bind_splits if_splits dest!: exchange_conversation)
    with that requests_inv(13) [OF that(1,2)] wf show ?thesis by (auto simp: ready_def)
  qed
  show "\<exists>s'. ready st' i cid s'" if "aftp_receive_file cm i lf l rf r old w st = Some (rc, out, st')" "aftp_inv st" "ready st i cid s"
  proof -
    have "live st i = Some s" using that(3) by (simp add: ready_def)
    from that(1) [unfolded aftp_receive_file_def] this obtain s' where "live st' i = Some s'" "conversation_ID s' = conversation_ID s"
      by (rule on_session_body) (auto simp: Let_def split: option.splits bind_splits if_splits dest!: receive_loop_conversation)
    with that requests_inv(12) [OF that(1,2)] wf show ?thesis by (auto simp: ready_def)
  qed
qed

section \<open>Opening the conversation\<close>

text \<open>The names of a logical unit the library accepts: with a dot, or symbolic.\<close>

definition lu_ok :: "byte list \<Rightarrow> bool" where
  "lu_ok lu \<longleftrightarrow> no_nul lu \<and> length lu \<le> (if 0x2E \<in> set lu then CM_PLN_SIZE else CM_SDN_SIZE)"

lemma set_destination_ok:
  assumes "live st i = Some s" "wf_session s" "lu_ok lu"
  shows "\<exists>st' m b d. aftp_set_destination i (str_cells lu) (length lu) st = Some (Some AFTP_RC_OK, (), st')
    \<and> live st' i = Some (s\<lparr>destination := m, symbolic := b\<rparr>) \<and> c_str m = Some d \<and> d \<noteq> []"
proof -
  have l: "length (destination s) = 18" using assms(2) by (simp add: wf_session_def CM_PLN_SIZE_def)
  have lu: "no_nul lu" "c_str (str_cells lu) = Some lu" using assms(3) by (simp_all add: lu_ok_def)
  have tk: "take (length lu) (str_cells lu) = map Some lu" "length lu \<le> length (str_cells lu)" by (simp_all add: str_cells_def)
  show ?thesis
  proof (cases "0x2E \<in> set lu")
    case True
    let ?m = "map Some lu @ Some 0 # drop (Suc (length lu)) (destination s)"
    have "length lu \<le> 17" "lu \<noteq> []" using assms(3) True by (auto simp: lu_ok_def CM_PLN_SIZE_def)
    then have "poke_block (destination s) 0 (map Some lu) = Some (map Some lu @ drop (length lu) (destination s))"
      "poke (map Some lu @ drop (length lu) (destination s)) (length lu) (Some 0) = Some ?m"
      using l by (simp_all add: poke_block_def poke_def list_update_append upd_conv_take_nth_drop Cons_nth_drop_Suc [symmetric])
    then have "\<exists>st'. aftp_set_destination i (str_cells lu) (length lu) st = Some (Some AFTP_RC_OK, (), st')
        \<and> live st' i = Some (s\<lparr>destination := ?m, symbolic := False\<rparr>) \<and> (\<forall>j. \<not> aliases st i j \<longrightarrow> live st' j = live st j)"
      unfolding aftp_set_destination_def
      by (intro on_session_live [OF assms(1)]) (simp add: lu(2) True tk CM_PLN_SIZE_def \<open>length lu \<le> 17\<close>)
    moreover have "c_str ?m = Some lu" using lu(1) by simp
    ultimately show ?thesis using \<open>lu \<noteq> []\<close> by blast
  next
    case False
    let ?d = "lu @ replicate (8 - length lu) 0x20"
    let ?m = "map Some ?d @ Some 0 # drop 9 (destination s)"
    have n: "length lu \<le> 8" using assms(3) False by (simp add: lu_ok_def CM_SDN_SIZE_def)
    have "poke_block (destination s) 0 (replicate 8 (Some 0x20)) = Some (replicate 8 (Some 0x20) @ drop 8 (destination s))"
      "poke_block (replicate 8 (Some 0x20) @ drop 8 (destination s)) 0 (map Some lu) = Some (map Some ?d @ drop 8 (destination s))"
      "poke (map Some ?d @ drop 8 (destination s)) 8 (Some 0) = Some ?m"
      using l n by (simp_all add: poke_block_def poke_def list_update_append upd_conv_take_nth_drop)
    then have "\<exists>st'. aftp_set_destination i (str_cells lu) (length lu) st = Some (Some AFTP_RC_OK, (), st')
        \<and> live st' i = Some (s\<lparr>destination := ?m, symbolic := True\<rparr>) \<and> (\<forall>j. \<not> aliases st i j \<longrightarrow> live st' j = live st j)"
      unfolding aftp_set_destination_def
      by (intro on_session_live [OF assms(1)]) (simp add: lu(2) False tk CM_SDN_SIZE_def n)
    moreover have "no_nul ?d" using lu(1) by (auto simp: no_nul_def)
    then have "c_str ?m = Some ?d" by (simp only: c_str_append)
    moreover have "?d \<noteq> []" using n by (cases lu) auto
    ultimately show ?thesis by blast
  qed
qed

lemma linked_setup:
  "cminit (linked kn gl) w n = (0, [1], w)" "cmspln (linked kn gl) w cid x = (0, w)" "cmsmn (linked kn gl) w cid x = (0, w)"
  "cmstpn (linked kn gl) w cid x = (0, w)" "cmallc (linked kn gl) w cid = (0, w)" "cmdeal (linked kn gl) w cid = (0, w)"
  by (simp_all add: linked_def)

text \<open>\<^verbatim>\<open>aftp_connect\<close> to the server: it answers the tower request.\<close>

lemma connect_ok:
  assumes "live st i = Some s" "wf_session s" "position (rec s) = 2" "c_str (destination s) = Some d" "d \<noteq> []"
    and "c_str (mode_name s) = Some mode" "c_str (tp_name s) = Some tp"
    and "has_room kn" "knows_cwd kn cwd" "server_idle sv"
  shows "\<exists>st' sv' q. aftp_connect (linked kn gl) i sv st = Some (Some AFTP_RC_OK, sv', st')
    \<and> live st' i = Some (s\<lparr>conversation_ID := Some [1], rec := q\<rparr>) \<and> server_idle sv' \<and> kern sv' = kern sv"
proof -
  obtain r where r: "asuiterecord_settype (rec s) AFTP_TOWER_REQUEST = Some r" "holds r (map Some (be16 AFTP_TOWER_REQUEST))"
    using settype_holds [OF wf_session_rec_wf [OF assms(2)] assms(3)] by blast
  have "valid Tower" by (simp add: valid_def request_bytes_def MAX_BUFFER_SIZE_def)
  from linked_answers [OF assms(8,9) this assms(10), of gl "[1]"] obtain sv' where
    sv': "answers (linked kn gl) [1] (be16 AFTP_TOWER_REQUEST) (be16 AFTP_TOWER_RESPONSE @ tlv AFTP_TOWER_LIST []) sv sv'"
    "server_idle sv'" "kern sv' = kern sv"
    by (auto simp: request_bytes_def)
  let ?s = "s\<lparr>conversation_ID := Some [1], rec := r\<rparr>"
  obtain w1 where w1: "cmsend (linked kn gl) sv [1] (be16 AFTP_TOWER_REQUEST) = (0, w1)"
    "cmrcv (linked kn gl) w1 [1] MAX_BUFFER_SIZE = (0, be16 AFTP_TOWER_RESPONSE @ tlv AFTP_TOWER_LIST [], sv')"
    using sv'(1) by (auto simp: answers_def)
  have "\<exists>q. exchange (linked kn gl) sv ?s = Some (0, ?s\<lparr>rec := q\<rparr>, sv') \<and> wf_record q \<and> contents q = Some (be16 AFTP_TOWER_RESPONSE @ tlv AFTP_TOWER_LIST [])"
    by (rule exchange_ok [OF _ _ _ w1])
      (use assms(2) holds_wf [OF r(2)] holds_contents [OF r(2)] in \<open>simp_all add: wf_session_rec MAX_BUFFER_SIZE_def\<close>)
  then obtain q where q: "exchange (linked kn gl) sv ?s = Some (0, ?s\<lparr>rec := q\<rparr>, sv')" by blast
  have "\<exists>st'. aftp_connect (linked kn gl) i sv st = Some (Some AFTP_RC_OK, sv', st')
    \<and> live st' i = Some (s\<lparr>conversation_ID := Some [1], rec := q\<rparr>) \<and> (\<forall>j. \<not> aliases st i j \<longrightarrow> live st' j = live st j)"
    unfolding aftp_connect_def
    by (intro on_session_live [OF assms(1)])
      (use q r(1) assms(4-7) in \<open>simp add: linked_setup CM_OK_def AFTP_RC_OK_def Let_def\<close>)
  with sv'(2,3) show ?thesis by blast
qed

section \<open>The steps around the transfer\<close>

text \<open>A program that starts, and what holds when it is about to transfer its file.\<close>

definition starting :: "((queues, 'k) aftpd) acopy \<Rightarrow> bool" where
  "starting c \<longleftrightarrow> c_lib c = aftp_init \<and> c_rc c = 0 \<and> server_idle (c_line c)"

definition to_transfer :: "((queues, 'k) aftpd) acopy \<Rightarrow> ((queues, 'k) aftpd) acopy \<Rightarrow> ftpsession \<Rightarrow> bool" where
  "to_transfer c c' s \<longleftrightarrow> ready (c_lib c') (c_session c') [1] s \<and> aftp_inv (c_lib c') \<and> default_sizes s \<and> c_rc c' = 0
    \<and> server_idle (c_line c') \<and> kern (c_line c') = kern (c_line c) \<and> c_reads c' = c_reads c \<and> c_target c' = c_target c
    \<and> c_out c' = c_out c \<and> c_err c' = c_err c"

definition before_transfer ::
  "'w cpic \<Rightarrow> (nat \<Rightarrow> int + byte list) \<Rightarrow> nat option \<Rightarrow> byte list \<Rightarrow> 'w acopy \<Rightarrow> ((int \<times> 'w acopy) + 'w acopy) option" where
  "before_transfer cm getcwd p lu c =
     and_then (create_step getcwd p True True c) (\<lambda>c.
     and_then (lib_step (aftp_set_destination (c_session c) (str_cells lu) (length lu)) (bytes_of ''Could not set destination LU '' @ lu) c) (\<lambda>c.
     and_then (line_step (aftp_connect cm (c_session c)) (bytes_of ''Could not connect to destination LU '' @ lu) c)
       (\<lambda>c. lib_step (aftp_set_data_type (c_session c) 0) (bytes_of ''Could not set transfer mode'') c)))"

lemma and_then_assoc: "and_then (and_then r k) k' = and_then r (\<lambda>c. and_then (k c) k')"
  by (cases r) (auto simp: and_then_def split: sum.splits)

lemma and_then_Inr [simp]: "and_then (Some (Inr c)) k = k c"
  by (simp add: and_then_def)

lemma inv_live: "aftp_inv st \<Longrightarrow> live st i = Some s \<Longrightarrow> wf_session s"
  by (auto simp: aftp_inv_def live_def split: bind_splits)

lemma ready_after: "aftp_inv st \<Longrightarrow> live st i = Some s \<Longrightarrow> conversation_ID s = Some cid \<Longrightarrow> ready st i cid s"
  by (auto simp: ready_def aftp_inv_def live_def split: bind_splits)

lemma init_inv: "aftp_inv aftp_init"
  by (simp add: aftp_inv_def aftp_init_def MAX_FTP_SESSIONS_def)

lemma reaches_transfer:
  assumes "starting c" "length path < 64" "lu_ok lu" "has_room kn" "knows_cwd kn cwd"
  shows "\<exists>c' s. before_transfer (linked kn gl) (getcwd_at path) (Some p) lu c = Some (Inr c') \<and> to_transfer c c' s"
proof -
  let ?s = "new_session fresh_record (path @ [0x2F])"
  have ini: "unat (ftp_handle_counter aftp_init) < length (sessions aftp_init)" "ftp_handle_counter aftp_init = 0"
    by (simp_all add: aftp_init_def MAX_FTP_SESSIONS_def)
  obtain st0 where st0: "aftp_create (getcwd_at path) (Some p) True True aftp_init = Some (Some AFTP_RC_OK, Some 0, st0)"
    "live st0 0 = Some ?s"
    using create_ok [OF ini(1) assms(2), of p] ini by (auto simp: live_def slot_def MAX_FTP_SESSIONS_def)
  have inv0: "aftp_inv st0" by (rule create_inv [OF st0(1) init_inv])
  have s: "wf_session ?s" "position (rec ?s) = 2" using new_session_wf [OF fresh_record(2)] by (simp_all add: new_session_def fresh_record(3))
  from set_destination_ok [OF st0(2) s(1) assms(3)] obtain st1 m b d where
    st1: "aftp_set_destination 0 (str_cells lu) (length lu) st0 = Some (Some AFTP_RC_OK, (), st1)"
      "live st1 0 = Some (?s\<lparr>destination := m, symbolic := b\<rparr>)" "c_str m = Some d" "d \<noteq> []" by blast
  have inv1: "aftp_inv st1" by (rule settings_inv(9) [OF st1(1) inv0])
  let ?t = "?s\<lparr>destination := m, symbolic := b\<rparr>"
  have t: "wf_session ?t" by (rule inv_live [OF inv1 st1(2)])
  have names: "c_str (mode_name ?t) = Some DEFAULT_MODE_NAME" "c_str (tp_name ?t) = Some DEFAULT_TP_NAME"
    by (simp_all add: new_session_def new_string_def DEFAULT_MODE_NAME_def DEFAULT_TP_NAME_def)
  have idle: "server_idle (c_line c)" using assms(1) by (simp add: starting_def)
  have "position (rec ?t) = 2" "c_str (destination ?t) = Some d" using s(2) st1(3) by simp_all
  from connect_ok [OF st1(2) t this st1(4) names assms(4,5) idle, of gl] obtain st2 sv' q where
    st2: "aftp_connect (linked kn gl) 0 (c_line c) st1 = Some (Some AFTP_RC_OK, sv', st2)"
      "live st2 0 = Some (?t\<lparr>conversation_ID := Some [1], rec := q\<rparr>)" "server_idle sv'" "kern sv' = kern (c_line c)" by blast
  have inv2: "aftp_inv st2" by (rule requests_inv(10) [OF st2(1) inv1])
  let ?u = "?t\<lparr>conversation_ID := Some [1], rec := q, data_type := 0\<rparr>"
  obtain st3 where st3: "aftp_set_data_type 0 0 st2 = Some (Some AFTP_RC_OK, (), st3)" "live st3 0 = Some ?u"
    using on_session_live [OF st2(2), where body = "\<lambda>s. Some (Some AFTP_RC_OK, (), s\<lparr>data_type := 0\<rparr>)", OF refl, of AFTP_RC_FAIL_FATAL "()"]
    unfolding aftp_set_data_type_def by blast
  have inv3: "aftp_inv st3" by (rule settings_inv(3) [OF st3(1) inv2])
  let ?c = "c\<lparr>c_session := 0, c_lib := st3, c_line := sv'\<rparr>"
  have rc: "c_lib c = aftp_init" "c_rc c = 0" using assms(1) by (simp_all add: starting_def)
  have "before_transfer (linked kn gl) (getcwd_at path) (Some p) lu c = Some (Inr (?c\<lparr>c_rc := 0\<rparr>))"
    by (simp add: before_transfer_def create_step_def lib_step_def line_step_def rc st0(1) st1(1) st2(1) st3(1) expect_def set_rc_def AFTP_RC_OK_def)
  moreover have "ready st3 0 [1] ?u" by (rule ready_after [OF inv3 st3(2)]) simp
  then have "to_transfer c (?c\<lparr>c_rc := 0\<rparr>) ?u"
    using inv3 st2(3,4) by (simp add: to_transfer_def default_sizes_def new_session_def)
  ultimately show ?thesis by blast
qed

text \<open>Closing the conversation and destroying the session.\<close>

lemma close_ok:
  assumes "ready st i cid s"
  shows "\<exists>st'. aftp_close (linked kn gl) i sv st = Some (Some AFTP_RC_OK, sv\<lparr>line := (fst (line sv) @ [be16 AFTP_CLOSE], snd (line sv))\<rparr>, st')
    \<and> live st' i \<noteq> None"
proof -
  have s: "live st i = Some s" "wf_session s" "conversation_ID s = Some cid" using assms by (simp_all add: ready_def)
  obtain r where r: "asuiterecord_settype (asuiterecord_clear (rec s)) AFTP_CLOSE = Some r" "holds r (map Some (be16 AFTP_CLOSE))"
    using settype_holds [of "asuiterecord_clear (rec s)" AFTP_CLOSE] wf_session_rec_wf [OF s(2)]
    by (auto simp: wf_record_def asuiterecord_clear_def)
  have "\<exists>st'. aftp_close (linked kn gl) i sv st = Some (Some AFTP_RC_OK, sv\<lparr>line := (fst (line sv) @ [be16 AFTP_CLOSE], snd (line sv))\<rparr>, st')
    \<and> live st' i = Some (s\<lparr>rec := r\<rparr>) \<and> (\<forall>j. \<not> aliases st i j \<longrightarrow> live st' j = live st j)"
    unfolding aftp_close_def
    by (intro on_session_live [OF s(1)])
      (simp add: r(1) s(3) send_ok [OF holds_contents [OF r(2)] linked_send] linked_setup AFTP_RC_OK_def CM_OK_def Let_def)
  then show ?thesis by auto
qed

lemma destroy_ok: "live st i \<noteq> None \<Longrightarrow> \<exists>st'. aftp_destroy i st = Some (Some AFTP_RC_OK, st')"
  by (auto simp: aftp_destroy_def live_def split: bind_splits)

section \<open>A whole run\<close>

text \<open>The operands \<^verbatim>\<open>file lu:name\<close> and \<^verbatim>\<open>lu:name file\<close>.\<close>

lemma split_at_colon: "0x3A \<notin> set lu \<Longrightarrow> split_colon (lu @ 0x3A # name) = (lu, name)"
  by (simp add: split_colon_def takeWhile_append dropWhile_append)

lemma operands:
  "0x3A \<notin> set file \<Longrightarrow> 0x3A \<notin> set lu \<Longrightarrow> copy_operands True [file, lu @ 0x3A # name] c = Inr (True, lu, file, name)"
  "0x3A \<notin> set file \<Longrightarrow> 0x3A \<notin> set lu \<Longrightarrow> copy_operands True [lu @ 0x3A # name, file] c = Inr (False, lu, name, file)"
  by (simp_all add: copy_operands_def split_at_colon saved_def savestr_def)

lemma copy_file_steps:
  "copy_file cm getcwd p True True \<lparr>copy_type = 0, copy_tp = None, copy_mode = None\<rparr> sending lu source dest c =
     and_then (before_transfer cm getcwd p lu c) (\<lambda>c.
     and_then (if sending then copy_send cm source dest c else copy_receive cm source dest c) (\<lambda>c.
     and_then (line_step (aftp_close cm (c_session c)) (bytes_of ''Error closing connection'') c) destroy_step))"
  by (simp add: copy_file_def before_transfer_def and_then_assoc name_step_def)

lemma finish:
  assumes "ready (c_lib c) (c_session c) cid s" "c_rc c = 0"
  shows "\<exists>c'. and_then (line_step (aftp_close (linked kn gl) (c_session c)) msg c) destroy_step = Some (Inr c')
    \<and> kern (c_line c') = kern (c_line c) \<and> line (c_line c') = (fst (line (c_line c)) @ [be16 AFTP_CLOSE], snd (line (c_line c)))
    \<and> c_out c' = c_out c \<and> c_err c' = c_err c \<and> c_target c' = c_target c"
proof -
  obtain st where st: "aftp_close (linked kn gl) (c_session c) (c_line c) (c_lib c) = Some (Some AFTP_RC_OK,
      (c_line c)\<lparr>line := (fst (line (c_line c)) @ [be16 AFTP_CLOSE], snd (line (c_line c)))\<rparr>, st)" "live st (c_session c) \<noteq> None"
    using close_ok [OF assms(1), of kn gl "c_line c"] by blast
  from destroy_ok [OF st(2)] obtain st' where "aftp_destroy (c_session c) st = Some (Some AFTP_RC_OK, st')" by blast
  with st(1) show ?thesis
    by (simp add: line_step_def destroy_step_def expect_def set_rc_def AFTP_RC_OK_def)
qed

text \<open>
  C4. A file is copied to another machine by one command: \<^verbatim>\<open>acopy source lu:dest\<close> connects, makes the server create a
  file and write into it exactly the bytes of the source, however they are cut into pieces on either side, closes the conversation and exits with
  status 0, without a message. The file the server creates has the name of the source, not the one the command gives it.
\<close>

theorem acopy_sends_file:
  assumes "starting c" "length path < 64" "lu_ok lu" "0x3A \<notin> set source" "0x3A \<notin> set lu" "no_nul source" "no_nul dest"
    and "length source + length dest + 20 \<le> MAX_BUFFER_SIZE" "c_reads c = Some (map Some cs @ rest)" "pieces cs" "ends rest"
    and "has_room kn" "knows_cwd kn cwd" "sys_creat kn (kern (c_line c)) source = (Inr fd, k)" "file k = []" "writes_to kn fd file"
    and "\<forall>k. sys_close kn k fd = (None, k)"
  shows "\<exists>c'. acopy_main (linked kn gl) (getcwd_at path) (Some p) True True True version [] [source, lu @ 0x3A # dest] c = Some (0, c')
    \<and> file (kern (c_line c')) = concat cs \<and> line (c_line c') = ([be16 AFTP_CLOSE], []) \<and> c_out c' = c_out c \<and> c_err c' = c_err c"
proof -
  obtain c1 s where c1: "before_transfer (linked kn gl) (getcwd_at path) (Some p) lu c = Some (Inr c1)" and t: "to_transfer c c1 s"
    using reaches_transfer [OF assms(1-3,12,13)] by blast
  from t have t': "ready (c_lib c1) (c_session c1) [1] s" "aftp_inv (c_lib c1)" "default_sizes s" "server_idle (c_line c1)"
    "kern (c_line c1) = kern (c_line c)" "c_reads c1 = c_reads c" "c_out c1 = c_out c" "c_err c1 = c_err c" "c_rc c1 = 0"
    by (simp_all add: to_transfer_def)
  have cr: "sys_creat kn (kern (c_line c1)) source = (Inr fd, k)" using assms(14) t'(5) by simp
  obtain sv' st' where sent: "aftp_send_file (linked kn gl) (c_session c1) (str_cells source) (length source) (str_cells dest) (length dest)
        (Some (map Some cs @ rest)) (c_line c1) (c_lib c1) = Some (Some AFTP_RC_OK, sv', st')"
    "file (kern sv') = concat cs" "server_idle sv'"
    using send_file_end_to_end [where gl = gl, OF t'(1,3) assms(6-8,10,11,12) t'(4) cr assms(15-17)] by blast
  let ?c2 = "c1\<lparr>c_line := sv', c_lib := st', c_rc := 0\<rparr>"
  have "copy_send (linked kn gl) source dest c1 = Some (Inr ?c2)"
    using sent(1) t'(6) assms(9) by (simp add: copy_send_def expect_def set_rc_def AFTP_RC_OK_def)
  moreover obtain s' where "ready (c_lib ?c2) (c_session ?c2) [1] s'"
    using transfer_keeps_ready(1) [OF sent(1) t'(2,1)] by auto
  from finish [OF this, of kn gl "bytes_of ''Error closing connection''"] obtain c3 where
    "and_then (line_step (aftp_close (linked kn gl) (c_session ?c2)) (bytes_of ''Error closing connection'') ?c2) destroy_step = Some (Inr c3)"
    "kern (c_line c3) = kern sv'" "line (c_line c3) = ([be16 AFTP_CLOSE], [])" "c_out c3 = c_out c" "c_err c3 = c_err c"
    using sent(3) t'(7,8) by (auto simp: server_idle_def)
  ultimately show ?thesis
    using sent(2) by (simp add: acopy_main_def operands [OF assms(4,5)] copy_file_steps c1)
qed

definition demo_copy :: "(queues, disk) aftpd \<Rightarrow> ((queues, disk) aftpd) acopy" where
  "demo_copy sv = \<lparr>c_line = sv, c_lib = aftp_init, c_session = 0, c_rc = 0, c_reads = Some [Some [1, 2, 3], Some [4], None],
     c_target = Some \<lparr>of_bytes = [9, 9, 9, 9, 9], of_at = 0, of_answers = [1]\<rparr>, c_out = [], c_err = []\<rparr>"

lemma demo_copy: "server_idle sv \<Longrightarrow> starting (demo_copy sv)" "lu_ok [0x4C]" "c_line (demo_copy sv) = sv"
  "c_reads (demo_copy sv) = Some (map Some [[1, 2, 3], [4]] @ [None])" "c_target (demo_copy sv) = Some \<lparr>of_bytes = [9, 9, 9, 9, 9], of_at = 0, of_answers = [1]\<rparr>"
  by (simp_all add: demo_copy_def starting_def lu_ok_def CM_SDN_SIZE_def)

theorem acopy_sends_file_witness:
  "\<exists>c'. acopy_main (linked small_system small_glib) (getcwd_at []) (Some 0) True True True [] [] [[0x61], [0x4C, 0x3A, 0x62]]
      (demo_copy (demo_server ([], []))) = Some (0, c') \<and> written (kern (c_line c')) = [1, 2, 3, 4]"
proof -
  have w: "writes_to small_system 4 written"
    by (auto simp: writes_to_def small_system_def min_def Suc_le_eq)
  have cr: "sys_creat small_system (kern (c_line (demo_copy (demo_server ([], []))))) [0x61] = (Inr 4, empty_disk)"
    "\<forall>k. sys_close small_system k 4 = (None, k)" "written empty_disk = []"
    by (simp_all add: small_system_def demo_server_def empty_disk_def demo_copy(3))
  have pc: "pieces [[1, 2, 3], [4]]" "ends [None]" by (simp_all add: MAX_BUFFER_SIZE_def ends_def)
  from acopy_sends_file [where gl = small_glib and p = 0 and path = "[]" and version = "[]" and dest = "[0x62]", OF demo_copy(1) _ demo_copy(2) _ _ _ _ _ demo_copy(4) pc
      small_system_ok cr(1,3) w cr(2)] with_dir_idle(2)
  show ?thesis by (auto simp: MAX_BUFFER_SIZE_def)
qed

text \<open>
  C5. A file is copied from another machine by one command: \<^verbatim>\<open>acopy lu:source dest\<close> connects, gives every piece that the server
  reads from the file to one \<^verbatim>\<open>write\<close> of the local file, closes the conversation and exits with status 0. The local file then starts with
  the bytes that these writes have taken, in order, and keeps behind them what it held before. What \<^verbatim>\<open>write\<close>
  returns is not looked at: when every write is complete the file is whole, and when one is short or fails, bytes are missing in the middle and the program reports success all the same.
\<close>

theorem acopy_receives_file:
  assumes "starting c" "length path < 64" "lu_ok lu" "0x3A \<notin> set dest" "0x3A \<notin> set lu" "no_nul dest" "no_nul source"
    and "length dest + length source + 16 \<le> MAX_BUFFER_SIZE" "c_target c = Some old" "of_at old = 0"
    and "has_room kn" "knows_cwd kn cwd" "sys_open kn (kern (c_line c)) source = (Inr fd, k)" "reads kn fd k cs k'"
  shows "\<exists>c' new. acopy_main (linked kn gl) (getcwd_at path) (Some p) True True True version [] [lu @ 0x3A # source, dest] c = Some (0, c')
    \<and> c_target c' = Some new
    \<and> of_bytes new = stored (of_answers old) cs @ drop (length (stored (of_answers old) cs)) (of_bytes old)
    \<and> (of_answers old = [] \<longrightarrow> of_bytes new = concat cs @ drop (length (concat cs)) (of_bytes old))
    \<and> line (c_line c') = ([be16 AFTP_CLOSE], []) \<and> c_out c' = c_out c \<and> c_err c' = c_err c"
proof -
  obtain c1 s where c1: "before_transfer (linked kn gl) (getcwd_at path) (Some p) lu c = Some (Inr c1)" and t: "to_transfer c c1 s"
    using reaches_transfer [OF assms(1-3,11,12)] by blast
  from t have t': "ready (c_lib c1) (c_session c1) [1] s" "aftp_inv (c_lib c1)" "block_size s = 0" "server_idle (c_line c1)"
    "kern (c_line c1) = kern (c_line c)" "c_target c1 = c_target c" "c_out c1 = c_out c" "c_err c1 = c_err c" "c_rc c1 = 0"
    by (simp_all add: to_transfer_def default_sizes_def)
  obtain sv' st' where got: "aftp_receive_file (linked kn gl) (c_session c1) (str_cells dest) (length dest) (str_cells source) (length source)
        (Some old) (c_line c1) (c_lib c1) = Some (Some AFTP_RC_OK, (sv', Some (fold file_write cs old)), st')"
    "server_idle sv'"
    using receive_file_end_to_end [OF t'(1,3) assms(6-8,11) t'(4), where fd = fd and k = k and cs = cs and k' = k' and gl = gl and old = old] assms(13,14) t'(5) by auto
  let ?c2 = "c1\<lparr>c_line := sv', c_lib := st', c_target := Some (fold file_write cs old), c_rc := 0\<rparr>"
  have "copy_receive (linked kn gl) source dest c1 = Some (Inr ?c2)"
    using got(1) t'(6) assms(9) by (simp add: copy_receive_def set_rc_def AFTP_RC_OK_def)
  moreover obtain s' where "ready (c_lib ?c2) (c_session ?c2) [1] s'"
    using transfer_keeps_ready(2) [OF got(1) t'(2,1)] by auto
  from finish [OF this, of kn gl "bytes_of ''Error closing connection''"] obtain c3 where
    "and_then (line_step (aftp_close (linked kn gl) (c_session ?c2)) (bytes_of ''Error closing connection'') ?c2) destroy_step = Some (Inr c3)"
    "c_target c3 = Some (fold file_write cs old)" "line (c_line c3) = ([be16 AFTP_CLOSE], [])" "c_out c3 = c_out c" "c_err c3 = c_err c"
    using got(2) t'(7,8) by (auto simp: server_idle_def)
  ultimately show ?thesis
    using file_writes [OF assms(10), of cs]
    by (simp add: acopy_main_def operands [OF assms(4,5)] copy_file_steps c1)
qed

theorem acopy_receives_file_witness:
  "\<exists>c'. acopy_main (linked small_system small_glib) (getcwd_at []) (Some 0) True True True [] [] [[0x4C, 0x3A, 0x62], [0x61]]
      (demo_copy with_file) = Some (0, c') \<and> map_option of_bytes (c_target c') = Some [5, 7, 9, 9, 9]"
proof -
  have i: "server_idle with_file" by (simp add: with_file_def demo_server_def server_idle_def fresh_record(2))
  have op: "sys_open small_system (kern (c_line (demo_copy with_file))) [0x62] = (Inr 3, (kern with_file)\<lparr>unread := [5, 6, 7]\<rparr>)"
    "reads small_system 3 ((kern with_file)\<lparr>unread := [5, 6, 7]\<rparr>) [[5, 6], [7]] ((kern with_file)\<lparr>unread := []\<rparr>)"
    by (simp_all add: small_system_def with_file_def MAX_BUFFER_SIZE_def demo_copy(3))
  from acopy_receives_file [where gl = small_glib and p = 0 and path = "[]" and version = "[]" and dest = "[0x61]",
      OF demo_copy(1) _ demo_copy(2) _ _ _ _ _ demo_copy(5) _ small_system_ok op] i
  show ?thesis by (auto simp: MAX_BUFFER_SIZE_def)
qed

end
