(* ===== verification/Cpic_Syscall.thy ===== *)
theory Cpic_Syscall
  imports Sna_Prelude
begin

text \<open>
  The calls of CPI-C as system calls (\<^verbatim>\<open>libsna/libcpic.c\<close>): every call packs its pointers into a block and
  enters the kernel with the number of the call. The other side of that interface, the function that takes the block apart and calls the function of the
  kernel for that number, is in the patch of the kernel (\<^verbatim>\<open>sys_cpicall\<close> and \<^verbatim>\<open>sna_cpic_cpicall\<close>
  in \<^verbatim>\<open>patch-o-matic/net-fun.patch\<close>), with the macros that pack the block. The functions of the
  kernel that carry out a call are parameters, named by their names. \<^term>\<open>None\<close> is a fault: a null
  pointer that is used, a pointer that was never written, the release of a block that was not allocated.
\<close>

section \<open>The two sides\<close>

type_synonym ptr = nat

text \<open>\<^verbatim>\<open>cpic_args\<close>: nine pointers, not written at first.\<close>

type_synonym cpic_args = "ptr option list"

text \<open>
  The blocks of arguments that are allocated, the other memory of the program, the state of the kernel, and the number of
  copies of argument blocks that the kernel has allocated.
\<close>

record 'k call_state =
  cs_heap :: "ptr \<rightharpoonup> cpic_args"
  cs_mem :: "ptr \<rightharpoonup> byte"
  cs_kernel :: 'k
  cs_copies :: nat

text \<open>
  \<^verbatim>\<open>malloc\<close>; the address of the automatic variable of \<^verbatim>\<open>cmaccp\<close> and the process id; in the kernel: whether the
  SNA module is loaded, whether there is memory for a copy, the conversation with an index, the
  release of a conversation, and the functions \<^verbatim>\<open>sna_cpic_cm...\<close>, which get the conversation if there is one, and pointers, and give the return code.
\<close>

record ('k, 'c) call_host =
  ch_malloc :: "(ptr \<rightharpoonup> cpic_args) \<Rightarrow> ptr"
  ch_local :: ptr
  ch_pid :: u32
  ch_loaded :: "'k \<Rightarrow> bool"
  ch_memory :: "'k \<Rightarrow> bool"
  ch_lookup :: "int \<Rightarrow> 'k \<Rightarrow> 'c option"
  ch_put :: "'c \<Rightarrow> 'k \<Rightarrow> 'k"
  ch_call :: "string \<Rightarrow> 'c option \<Rightarrow> ptr list \<Rightarrow> (ptr \<rightharpoonup> byte) \<Rightarrow> 'k \<Rightarrow> u32 \<times> (ptr \<rightharpoonup> byte) \<times> 'k"

section \<open>Four bytes of memory\<close>

definition u32_bytes :: "u32 \<Rightarrow> byte list" where
  "u32_bytes v = [ucast v, ucast (drop_bit 8 v), ucast (drop_bit 16 v), ucast (drop_bit 24 v)]"

definition store_u32 :: "ptr \<Rightarrow> u32 \<Rightarrow> (ptr \<rightharpoonup> byte) \<Rightarrow> ptr \<rightharpoonup> byte" where
  "store_u32 a v mem =
     (let bs = u32_bytes v in
      mem(a \<mapsto> bs ! 0, a + 1 \<mapsto> bs ! 1, a + 2 \<mapsto> bs ! 2, a + 3 \<mapsto> bs ! 3))"

definition load_u32 :: "ptr \<Rightarrow> (ptr \<rightharpoonup> byte) \<Rightarrow> u32 option" where
  "load_u32 a mem = do {
     b0 \<leftarrow> mem a;
     b1 \<leftarrow> mem (a + 1);
     b2 \<leftarrow> mem (a + 2);
     b3 \<leftarrow> mem (a + 3);
     Some (ucast b0 OR push_bit 8 (ucast b1) OR push_bit 16 (ucast b2) OR push_bit 24 (ucast b3))
   }"

text \<open>A copy into memory of the program; it stops at the first address that the program does not have, and no caller looks at the result.\<close>

fun copy_to_user :: "ptr \<Rightarrow> byte list \<Rightarrow> (ptr \<rightharpoonup> byte) \<Rightarrow> ptr \<rightharpoonup> byte" where
  "copy_to_user a [] mem = mem"
| "copy_to_user a (b # bs) mem = (if mem a = None then mem else copy_to_user (a + 1) bs (mem(a \<mapsto> b)))"

definition ktou_u32 :: "ptr \<Rightarrow> u32 \<Rightarrow> (ptr \<rightharpoonup> byte) \<Rightarrow> ptr \<rightharpoonup> byte" where
  "ktou_u32 a v mem = copy_to_user a (u32_bytes v) mem"

section \<open>The kernel\<close>

definition CM_PRODUCT_SPECIFIC_ERROR :: u32 where "CM_PRODUCT_SPECIFIC_ERROR = 20"
definition CM_PROGRAM_PARAMETER_CHECK :: u32 where "CM_PROGRAM_PARAMETER_CHECK = 24"

text \<open>The numbers of the calls.\<close>

definition CM_CMACCI :: nat where "CM_CMACCI = 1"
definition CM_CMACCP :: nat where "CM_CMACCP = 2"
definition CM_CMALLC :: nat where "CM_CMALLC = 3"
definition CM_CMCANC :: nat where "CM_CMCANC = 4"
definition CM_CMCFM :: nat where "CM_CMCFM = 5"
definition CM_CMCFMD :: nat where "CM_CMCFMD = 6"
definition CM_CMCNVI :: nat where "CM_CMCNVI = 7"
definition CM_CMCNVO :: nat where "CM_CMCNVO = 8"
definition CM_CMDEAL :: nat where "CM_CMDEAL = 9"
definition CM_CMDFDE :: nat where "CM_CMDFDE = 10"
definition CM_CMEACN :: nat where "CM_CMEACN = 11"
definition CM_CMEAEQ :: nat where "CM_CMEAEQ = 12"
definition CM_CMEAPT :: nat where "CM_CMEAPT = 13"
definition CM_CMECS :: nat where "CM_CMECS = 14"
definition CM_CMECT :: nat where "CM_CMECT = 15"
definition CM_CMECTX :: nat where "CM_CMECTX = 16"
definition CM_CMEID :: nat where "CM_CMEID = 17"
definition CM_CMEMBS :: nat where "CM_CMEMBS = 18"
definition CM_CMEMN :: nat where "CM_CMEMN = 19"
definition CM_CMEPID :: nat where "CM_CMEPID = 20"
definition CM_CMEPLN :: nat where "CM_CMEPLN = 21"
definition CM_CMESI :: nat where "CM_CMESI = 22"
definition CM_CMESL :: nat where "CM_CMESL = 23"
definition CM_CMESRM :: nat where "CM_CMESRM = 24"
definition CM_CMESUI :: nat where "CM_CMESUI = 25"
definition CM_CMETC :: nat where "CM_CMETC = 26"
definition CM_CMETPN :: nat where "CM_CMETPN = 27"
definition CM_CMFLUS :: nat where "CM_CMFLUS = 28"
definition CM_CMINCL :: nat where "CM_CMINCL = 29"
definition CM_CMINIC :: nat where "CM_CMINIC = 30"
definition CM_CMINIT :: nat where "CM_CMINIT = 31"
definition CM_CMPREP :: nat where "CM_CMPREP = 32"
definition CM_CMPTR :: nat where "CM_CMPTR = 33"
definition CM_CMRCV :: nat where "CM_CMRCV = 34"
definition CM_CMRCVX :: nat where "CM_CMRCVX = 35"
definition CM_CMRLTP :: nat where "CM_CMRLTP = 36"
definition CM_CMRTS :: nat where "CM_CMRTS = 37"
definition CM_CMSAC :: nat where "CM_CMSAC = 38"
definition CM_CMSACN :: nat where "CM_CMSACN = 39"
definition CM_CMSAEQ :: nat where "CM_CMSAEQ = 40"
definition CM_CMSAPT :: nat where "CM_CMSAPT = 41"
definition CM_CMSBT :: nat where "CM_CMSBT = 42"
definition CM_CMSCSP :: nat where "CM_CMSCSP = 43"
definition CM_CMSCST :: nat where "CM_CMSCST = 44"
definition CM_CMSCSU :: nat where "CM_CMSCSU = 45"
definition CM_CMSCT :: nat where "CM_CMSCT = 46"
definition CM_CMSCU :: nat where "CM_CMSCU = 47"
definition CM_CMSDT :: nat where "CM_CMSDT = 48"
definition CM_CMSED :: nat where "CM_CMSED = 49"
definition CM_CMSEND :: nat where "CM_CMSEND = 50"
definition CM_CMSERR :: nat where "CM_CMSERR = 51"
definition CM_CMSF :: nat where "CM_CMSF = 52"
definition CM_CMSID :: nat where "CM_CMSID = 53"
definition CM_CMSLD :: nat where "CM_CMSLD = 54"
definition CM_CMSLTP :: nat where "CM_CMSLTP = 55"
definition CM_CMSMN :: nat where "CM_CMSMN = 56"
definition CM_CMSNDX :: nat where "CM_CMSNDX = 57"
definition CM_CMSPDP :: nat where "CM_CMSPDP = 58"
definition CM_CMSPID :: nat where "CM_CMSPID = 59"
definition CM_CMSPLN :: nat where "CM_CMSPLN = 60"
definition CM_CMSPM :: nat where "CM_CMSPM = 61"
definition CM_CMSPTR :: nat where "CM_CMSPTR = 62"
definition CM_CMSQCF :: nat where "CM_CMSQCF = 63"
definition CM_CMSQPM :: nat where "CM_CMSQPM = 64"
definition CM_CMSRC :: nat where "CM_CMSRC = 65"
definition CM_CMSRT :: nat where "CM_CMSRT = 66"
definition CM_CMSSL :: nat where "CM_CMSSL = 67"
definition CM_CMSSRM :: nat where "CM_CMSSRM = 68"
definition CM_CMSST :: nat where "CM_CMSST = 69"
definition CM_CMSTC :: nat where "CM_CMSTC = 70"
definition CM_CMSTPN :: nat where "CM_CMSTPN = 71"
definition CM_CMTRTS :: nat where "CM_CMTRTS = 72"
definition CM_CMWAIT :: nat where "CM_CMWAIT = 73"
definition CM_CMWCMP :: nat where "CM_CMWCMP = 74"

lemmas call_ids = CM_CMACCI_def CM_CMACCP_def CM_CMALLC_def CM_CMCANC_def CM_CMCFM_def CM_CMCFMD_def CM_CMCNVI_def CM_CMCNVO_def
  CM_CMDEAL_def CM_CMDFDE_def CM_CMEACN_def CM_CMEAEQ_def CM_CMEAPT_def CM_CMECS_def CM_CMECT_def CM_CMECTX_def
  CM_CMEID_def CM_CMEMBS_def CM_CMEMN_def CM_CMEPID_def CM_CMEPLN_def CM_CMESI_def CM_CMESL_def CM_CMESRM_def
  CM_CMESUI_def CM_CMETC_def CM_CMETPN_def CM_CMFLUS_def CM_CMINCL_def CM_CMINIC_def CM_CMINIT_def CM_CMPREP_def
  CM_CMPTR_def CM_CMRCV_def CM_CMRCVX_def CM_CMRLTP_def CM_CMRTS_def CM_CMSAC_def CM_CMSACN_def CM_CMSAEQ_def
  CM_CMSAPT_def CM_CMSBT_def CM_CMSCSP_def CM_CMSCST_def CM_CMSCSU_def CM_CMSCT_def CM_CMSCU_def CM_CMSDT_def
  CM_CMSED_def CM_CMSEND_def CM_CMSERR_def CM_CMSF_def CM_CMSID_def CM_CMSLD_def CM_CMSLTP_def CM_CMSMN_def
  CM_CMSNDX_def CM_CMSPDP_def CM_CMSPID_def CM_CMSPLN_def CM_CMSPM_def CM_CMSPTR_def CM_CMSQCF_def CM_CMSQPM_def
  CM_CMSRC_def CM_CMSRT_def CM_CMSSL_def CM_CMSSRM_def CM_CMSST_def CM_CMSTC_def CM_CMSTPN_def CM_CMTRTS_def
  CM_CMWAIT_def CM_CMWCMP_def

text \<open>\<^verbatim>\<open>sna_cpic_get_index_from_user\<close>: zero where nothing can be read.\<close>

definition sna_cpic_get_index_from_user :: "ptr \<Rightarrow> (ptr \<rightharpoonup> byte) \<Rightarrow> int" where
  "sna_cpic_get_index_from_user a mem = (case load_u32 a mem of Some v \<Rightarrow> sint v | None \<Rightarrow> 0)"

definition sna_cpic_error :: "ptr \<Rightarrow> u32 \<Rightarrow> 'k call_state \<Rightarrow> 'k call_state" where
  "sna_cpic_error uaddr return_code s = s\<lparr>cs_mem := ktou_u32 uaddr return_code (cs_mem s)\<rparr>"

text \<open>\<open>args->a1\<close> up to \<open>args->a\<close>\<open>n\<close>.\<close>

fun first_args :: "nat \<Rightarrow> cpic_args \<Rightarrow> ptr list option" where
  "first_args 0 args = Some []"
| "first_args (Suc n) [] = None"
| "first_args (Suc n) (a # args) = do { v \<leftarrow> a; vs \<leftarrow> first_args n args; Some (v # vs) }"

definition call_function ::
  "('k, 'c) call_host \<Rightarrow> string \<Rightarrow> 'c option \<Rightarrow> ptr list \<Rightarrow> 'k call_state \<Rightarrow> u32 \<times> 'k call_state" where
  "call_function h name cpic vs s =
     (let (rc, mem, k) = ch_call h name cpic vs (cs_mem s) (cs_kernel s)
      in (rc, s\<lparr>cs_mem := mem, cs_kernel := k\<rparr>))"

definition put_fd :: "('k, 'c) call_host \<Rightarrow> 'c \<Rightarrow> 'k call_state \<Rightarrow> 'k call_state" where
  "put_fd h cpic s = s\<lparr>cs_kernel := ch_put h cpic (cs_kernel s)\<rparr>"

text \<open>A function of the kernel with the pointers of the block behind those in \<open>pre\<close>; \<open>args\<close> may be the null pointer.\<close>

definition run_plain ::
  "('k, 'c) call_host \<Rightarrow> string \<Rightarrow> 'c option \<Rightarrow> ptr list \<Rightarrow> nat \<Rightarrow> cpic_args option \<Rightarrow> 'k call_state
   \<Rightarrow> (u32 \<times> 'k call_state) option" where
  "run_plain h name cpic pre n args s = do {
     vs \<leftarrow> (if n = 0 then Some [] else args \<bind> first_args n);
     Some (call_function h name cpic (pre @ vs) s)
   }"

text \<open>The same, and the release of the conversation.\<close>

definition run_put ::
  "('k, 'c) call_host \<Rightarrow> string \<Rightarrow> 'c option \<Rightarrow> nat \<Rightarrow> cpic_args option \<Rightarrow> 'k call_state
   \<Rightarrow> (u32 \<times> 'k call_state) option" where
  "run_put h name cpic n args s = do {
     (rc, s) \<leftarrow> run_plain h name cpic [] n args s;
     c \<leftarrow> cpic;
     Some (rc, put_fd h c s)
   }"

text \<open>The last \<^verbatim>\<open>switch\<close> of \<^verbatim>\<open>sna_cpic_cpicall\<close>.\<close>

definition process_command ::
  "('k, 'c) call_host \<Rightarrow> ptr \<Rightarrow> nat \<Rightarrow> cpic_args option \<Rightarrow> 'c option \<Rightarrow> 'k call_state
   \<Rightarrow> (u32 \<times> 'k call_state) option" where
  "process_command h conversation_id opcode args cpic s =
     (if opcode = CM_CMACCI then run_put h ''cmacci'' cpic 0 args s
     else if opcode = CM_CMACCP then run_plain h ''cmaccp'' None [conversation_id] 1 args s
     else if opcode = CM_CMALLC then run_put h ''cmallc'' cpic 0 args s
     else if opcode = CM_CMCANC then run_put h ''cmcanc'' cpic 0 args s
     else if opcode = CM_CMCFM then run_put h ''cmcfm'' cpic 1 args s
     else if opcode = CM_CMCFMD then run_put h ''cmcfmd'' cpic 0 args s
     else if opcode = CM_CMCNVI then run_plain h ''cmcnvi'' None [] 2 args s
     else if opcode = CM_CMCNVO then run_plain h ''cmcnvo'' None [] 2 args s
     else if opcode = CM_CMDEAL then run_plain h ''cmdeal'' cpic [] 0 args s
     else if opcode = CM_CMDFDE then run_put h ''cmdfde'' cpic 0 args s
     else if opcode = CM_CMEACN then run_put h ''cmeacn'' cpic 2 args s
     else if opcode = CM_CMEAEQ then run_put h ''cmeaeq'' cpic 3 args s
     else if opcode = CM_CMEAPT then run_put h ''cmeapt'' cpic 3 args s
     else if opcode = CM_CMECS then run_put h ''cmecs'' cpic 1 args s
     else if opcode = CM_CMECT then run_put h ''cmect'' cpic 1 args s
     else if opcode = CM_CMECTX then run_put h ''cmectx'' cpic 2 args s
     else if opcode = CM_CMEID then run_put h ''cmeid'' cpic 3 args s
     else if opcode = CM_CMEMBS then run_plain h ''cmembs'' None [] 1 args s
     else if opcode = CM_CMEMN then run_put h ''cmemn'' cpic 2 args s
     else if opcode = CM_CMEPID then run_put h ''cmepid'' cpic 7 args s
     else if opcode = CM_CMEPLN then run_put h ''cmepln'' cpic 2 args s
     else if opcode = CM_CMESI then run_put h ''cmesi'' cpic 4 args s
     else if opcode = CM_CMESL then run_put h ''cmesl'' cpic 1 args s
     else if opcode = CM_CMESRM then run_put h ''cmesrm'' cpic 1 args s
     else if opcode = CM_CMESUI then run_put h ''cmesui'' cpic 2 args s
     else if opcode = CM_CMETC then run_put h ''cmetc'' cpic 1 args s
     else if opcode = CM_CMETPN then run_put h ''cmetpn'' cpic 2 args s
     else if opcode = CM_CMFLUS then run_put h ''cmflus'' cpic 0 args s
     else if opcode = CM_CMINCL then run_put h ''cmincl'' cpic 0 args s
     else if opcode = CM_CMINIC then run_put h ''cminic'' cpic 0 args s
     else if opcode = CM_CMINIT then run_plain h ''cminit'' None [conversation_id] 1 args s
     else if opcode = CM_CMPREP then run_put h ''cmprep'' cpic 0 args s
     else if opcode = CM_CMPTR then run_put h ''cmptr'' cpic 0 args s
     else if opcode = CM_CMRCV then run_put h ''cmrcv'' cpic 6 args s
     else if opcode = CM_CMRCVX then run_put h ''cmrcvx'' cpic 5 args s
     else if opcode = CM_CMRLTP then run_plain h ''cmrltp'' None [] 2 args s
     else if opcode = CM_CMRTS then run_put h ''cmrts'' cpic 0 args s
     else if opcode = CM_CMSAC then run_put h ''cmsac'' cpic 1 args s
     else if opcode = CM_CMSACN then run_put h ''cmsacn'' cpic 2 args s
     else if opcode = CM_CMSAEQ then run_put h ''cmsaeq'' cpic 3 args s
     else if opcode = CM_CMSAPT then run_put h ''cmsapt'' cpic 3 args s
     else if opcode = CM_CMSBT then run_put h ''cmsbt'' cpic 1 args s
     else if opcode = CM_CMSCSP then run_put h ''cmscsp'' cpic 2 args s
     else if opcode = CM_CMSCST then run_put h ''cmscst'' cpic 1 args s
     else if opcode = CM_CMSCSU then run_put h ''cmscsu'' cpic 2 args s
     else if opcode = CM_CMSCT then run_put h ''cmsct'' cpic 1 args s
     else if opcode = CM_CMSCU then run_put h ''cmscu'' cpic 1 args s
     else if opcode = CM_CMSDT then run_put h ''cmsdt'' cpic 1 args s
     else if opcode = CM_CMSED then run_put h ''cmsed'' cpic 1 args s
     else if opcode = CM_CMSEND then run_put h ''cmsend'' cpic 3 args s
     else if opcode = CM_CMSERR then run_put h ''cmserr'' cpic 1 args s
     else if opcode = CM_CMSF then run_put h ''cmsf'' cpic 1 args s
     else if opcode = CM_CMSID then run_put h ''cmsid'' cpic 2 args s
     else if opcode = CM_CMSLD then run_put h ''cmsld'' cpic 2 args s
     else if opcode = CM_CMSLTP then run_plain h ''cmsltp'' None [] 2 args s
     else if opcode = CM_CMSMN then run_put h ''cmsmn'' cpic 2 args s
     else if opcode = CM_CMSNDX then run_put h ''cmsndx'' cpic 3 args s
     else if opcode = CM_CMSPDP then run_put h ''cmspdp'' cpic 1 args s
     else if opcode = CM_CMSPID then run_put h ''cmspid'' cpic 6 args s
     else if opcode = CM_CMSPLN then run_put h ''cmspln'' cpic 2 args s
     else if opcode = CM_CMSPM then run_put h ''cmspm'' cpic 1 args s
     else if opcode = CM_CMSPTR then run_put h ''cmsptr'' cpic 1 args s
     else if opcode = CM_CMSQCF then run_put h ''cmsqcf'' cpic 4 args s
     else if opcode = CM_CMSQPM then run_put h ''cmsqpm'' cpic 4 args s
     else if opcode = CM_CMSRC then run_put h ''cmsrc'' cpic 1 args s
     else if opcode = CM_CMSRT then run_put h ''cmsrt'' cpic 1 args s
     else if opcode = CM_CMSSL then run_put h ''cmssl'' cpic 1 args s
     else if opcode = CM_CMSSRM then run_put h ''cmssrm'' cpic 1 args s
     else if opcode = CM_CMSST then run_put h ''cmsst'' cpic 1 args s
     else if opcode = CM_CMSTC then run_put h ''cmstc'' cpic 1 args s
     else if opcode = CM_CMSTPN then run_put h ''cmstpn'' cpic 2 args s
     else if opcode = CM_CMTRTS then run_put h ''cmtrts'' cpic 1 args s
     else if opcode = CM_CMWAIT then run_put h ''cmwait'' cpic 1 args s
     else if opcode = CM_CMWCMP then map_option (\<lambda>(_, s). (CM_PROGRAM_PARAMETER_CHECK, s)) (run_plain h ''cmwcmp'' None [] 0 args s)
     else Some (CM_PROGRAM_PARAMETER_CHECK, s))"

text \<open>The calls that need no arguments, and those that have no conversation yet.\<close>

definition needs_no_args :: "nat \<Rightarrow> bool" where
  "needs_no_args opcode \<longleftrightarrow>
     opcode \<in> {CM_CMACCI, CM_CMALLC, CM_CMCANC, CM_CMCFMD, CM_CMDEAL, CM_CMDFDE, CM_CMFLUS, CM_CMINCL, CM_CMINIC, CM_CMPREP, CM_CMPTR,
       CM_CMRTS}"

definition needs_no_conversation :: "nat \<Rightarrow> bool" where
  "needs_no_conversation opcode \<longleftrightarrow>
     opcode \<in> {CM_CMINIT, CM_CMCNVI, CM_CMCNVO, CM_CMEMBS, CM_CMRLTP, CM_CMSLTP, CM_CMWCMP, CM_CMACCP}"

text \<open>The copy of the block: the outer \<^term>\<open>None\<close> is the error; the copy is never released.\<close>

definition copy_args :: "('k, 'c) call_host \<Rightarrow> ptr \<Rightarrow> 'k call_state \<Rightarrow> cpic_args option option \<times> 'k call_state" where
  "copy_args h uaddr s =
     (if uaddr = 0 then (Some None, s)
      else if \<not> ch_memory h (cs_kernel s) then (None, s)
      else (map_option Some (cs_heap s uaddr), s\<lparr>cs_copies := cs_copies s + 1\<rparr>))"

definition find_conversation :: "('k, 'c) call_host \<Rightarrow> ptr \<Rightarrow> 'k call_state \<Rightarrow> 'c option" where
  "find_conversation h conversation_id s =
     (let cv_index = sna_cpic_get_index_from_user conversation_id (cs_mem s) in
      if cv_index = 0 then None else ch_lookup h cv_index (cs_kernel s))"

definition sna_cpic_cpicall ::
  "('k, 'c) call_host \<Rightarrow> ptr \<Rightarrow> nat \<Rightarrow> ptr \<Rightarrow> ptr \<Rightarrow> 'k call_state \<Rightarrow> 'k call_state option" where
  "sna_cpic_cpicall h conversation_id opcode uaddr return_code s =
     (case copy_args h uaddr s of
        (None, s) \<Rightarrow> Some (sna_cpic_error return_code CM_PRODUCT_SPECIFIC_ERROR s)
      | (Some args, s) \<Rightarrow>
          if \<not> needs_no_args opcode \<and> args = None then
            Some (sna_cpic_error return_code CM_PROGRAM_PARAMETER_CHECK s)
          else if needs_no_conversation opcode then do {
            (rc, s) \<leftarrow> process_command h conversation_id opcode args None s;
            Some (sna_cpic_error return_code rc s)
          }
          else case find_conversation h conversation_id s of
            None \<Rightarrow> Some (sna_cpic_error return_code CM_PROGRAM_PARAMETER_CHECK s)
          | Some cpic \<Rightarrow> do {
              (rc, s) \<leftarrow> process_command h conversation_id opcode args (Some cpic) s;
              Some (sna_cpic_error return_code rc s)
            })"

text \<open>Without the SNA module an error code is written over the block of arguments, where there is one; the return code is not written.\<close>

definition sys_cpicall ::
  "('k, 'c) call_host \<Rightarrow> ptr \<Rightarrow> nat \<Rightarrow> ptr \<Rightarrow> ptr \<Rightarrow> 'k call_state \<Rightarrow> 'k call_state option" where
  "sys_cpicall h conversation_id opcode uaddr return_code s =
     (if \<not> ch_loaded h (cs_kernel s) then
        Some (case cs_heap s uaddr of
          None \<Rightarrow> s
        | Some args \<Rightarrow> s\<lparr>cs_heap := (cs_heap s)(uaddr \<mapsto> args[0 := None])\<rparr>)
      else sna_cpic_cpicall h conversation_id opcode uaddr return_code s)"

section \<open>Packing the arguments\<close>

text \<open>The macros \<^verbatim>\<open>cargo1\<close> to \<^verbatim>\<open>cargo7\<close>; they do not test what \<^verbatim>\<open>malloc\<close> gives.\<close>

fun set_args :: "nat \<Rightarrow> ptr list \<Rightarrow> cpic_args \<Rightarrow> cpic_args" where
  "set_args i [] args = args"
| "set_args i (v # vs) args = set_args (Suc i) vs (args[i := Some v])"

definition cargo :: "('k, 'c) call_host \<Rightarrow> ptr list \<Rightarrow> 'k call_state \<Rightarrow> (ptr \<times> 'k call_state) option" where
  "cargo h vs s =
     (let a = ch_malloc h (cs_heap s) in
      if a = 0 then None
      else Some (a, s\<lparr>cs_heap := (cs_heap s)(a \<mapsto> set_args 0 vs (replicate 9 None))\<rparr>))"

definition cargo1 :: "('k, 'c) call_host \<Rightarrow> ptr \<Rightarrow> 'k call_state \<Rightarrow> (ptr \<times> 'k call_state) option" where
  "cargo1 h v1 = cargo h [v1]"

definition cargo2 :: "('k, 'c) call_host \<Rightarrow> ptr \<Rightarrow> ptr \<Rightarrow> 'k call_state \<Rightarrow> (ptr \<times> 'k call_state) option" where
  "cargo2 h v1 v2 = cargo h [v1, v2]"

definition cargo3 :: "('k, 'c) call_host \<Rightarrow> ptr \<Rightarrow> ptr \<Rightarrow> ptr \<Rightarrow> 'k call_state \<Rightarrow> (ptr \<times> 'k call_state) option" where
  "cargo3 h v1 v2 v3 = cargo h [v1, v2, v3]"

definition cargo4 :: "('k, 'c) call_host \<Rightarrow> ptr \<Rightarrow> ptr \<Rightarrow> ptr \<Rightarrow> ptr \<Rightarrow> 'k call_state \<Rightarrow> (ptr \<times> 'k call_state) option" where
  "cargo4 h v1 v2 v3 v4 = cargo h [v1, v2, v3, v4]"

definition cargo5 :: "('k, 'c) call_host \<Rightarrow> ptr \<Rightarrow> ptr \<Rightarrow> ptr \<Rightarrow> ptr \<Rightarrow> ptr \<Rightarrow> 'k call_state \<Rightarrow> (ptr \<times> 'k call_state) option" where
  "cargo5 h v1 v2 v3 v4 v5 = cargo h [v1, v2, v3, v4, v5]"

definition cargo6 :: "('k, 'c) call_host \<Rightarrow> ptr \<Rightarrow> ptr \<Rightarrow> ptr \<Rightarrow> ptr \<Rightarrow> ptr \<Rightarrow> ptr \<Rightarrow> 'k call_state \<Rightarrow> (ptr \<times> 'k call_state) option" where
  "cargo6 h v1 v2 v3 v4 v5 v6 = cargo h [v1, v2, v3, v4, v5, v6]"

definition cargo7 :: "('k, 'c) call_host \<Rightarrow> ptr \<Rightarrow> ptr \<Rightarrow> ptr \<Rightarrow> ptr \<Rightarrow> ptr \<Rightarrow> ptr \<Rightarrow> ptr \<Rightarrow> 'k call_state \<Rightarrow> (ptr \<times> 'k call_state) option" where
  "cargo7 h v1 v2 v3 v4 v5 v6 v7 = cargo h [v1, v2, v3, v4, v5, v6, v7]"

lemmas cargos = cargo1_def cargo2_def cargo3_def cargo4_def cargo5_def cargo6_def cargo7_def

definition release :: "ptr \<Rightarrow> 'k call_state \<Rightarrow> 'k call_state option" where
  "release a s = (if a = 0 then Some s else if cs_heap s a = None then None else Some (s\<lparr>cs_heap := (cs_heap s)(a := None)\<rparr>))"

section \<open>The calls\<close>

type_synonym ('k, 'c) entry = "('k, 'c) call_host \<Rightarrow> ptr \<Rightarrow> ptr list \<Rightarrow> ptr \<Rightarrow> 'k call_state \<Rightarrow> 'k call_state option"

text \<open>\<^verbatim>\<open>pid_t pid = getpid()\<close>.\<close>

definition with_pid :: "('k, 'c) call_host \<Rightarrow> 'k call_state \<Rightarrow> 'k call_state" where
  "with_pid h s = s\<lparr>cs_mem := store_u32 (ch_local h) (ch_pid h) (cs_mem s)\<rparr>"

definition cmacci :: "('k, 'c) call_host \<Rightarrow> ptr \<Rightarrow> ptr \<Rightarrow> 'k call_state \<Rightarrow> 'k call_state option" where
  "cmacci h conversation_id return_code s =
     sys_cpicall h conversation_id CM_CMACCI 0 return_code s"

definition cmaccp :: "('k, 'c) call_host \<Rightarrow> ptr \<Rightarrow> ptr \<Rightarrow> 'k call_state \<Rightarrow> 'k call_state option" where
  "cmaccp h conversation_id return_code s = do {
     let s = with_pid h s;
     (args, s) \<leftarrow> cargo1 h (ch_local h) s;
     s \<leftarrow> sys_cpicall h conversation_id CM_CMACCP args return_code s;
     release args s
   }"

definition cmallc :: "('k, 'c) call_host \<Rightarrow> ptr \<Rightarrow> ptr \<Rightarrow> 'k call_state \<Rightarrow> 'k call_state option" where
  "cmallc h conversation_id return_code s =
     sys_cpicall h conversation_id CM_CMALLC 0 return_code s"

definition cmcanc :: "('k, 'c) call_host \<Rightarrow> ptr \<Rightarrow> ptr \<Rightarrow> 'k call_state \<Rightarrow> 'k call_state option" where
  "cmcanc h conversation_id return_code s =
     sys_cpicall h conversation_id CM_CMCANC 0 return_code s"

definition cmcfm :: "('k, 'c) call_host \<Rightarrow> ptr \<Rightarrow> ptr \<Rightarrow> ptr \<Rightarrow> 'k call_state \<Rightarrow> 'k call_state option" where
  "cmcfm h conversation_id control_information_received return_code s = do {
     (args, s) \<leftarrow> cargo1 h control_information_received s;
     s \<leftarrow> sys_cpicall h conversation_id CM_CMCFM args return_code s;
     release args s
   }"

definition cmcfmd :: "('k, 'c) call_host \<Rightarrow> ptr \<Rightarrow> ptr \<Rightarrow> 'k call_state \<Rightarrow> 'k call_state option" where
  "cmcfmd h conversation_id return_code s =
     sys_cpicall h conversation_id CM_CMCFMD 0 return_code s"

definition cmcnvi :: "('k, 'c) call_host \<Rightarrow> ptr \<Rightarrow> ptr \<Rightarrow> ptr \<Rightarrow> 'k call_state \<Rightarrow> 'k call_state option" where
  "cmcnvi h buffer buffer_length return_code s = do {
     (args, s) \<leftarrow> cargo2 h buffer buffer_length s;
     s \<leftarrow> sys_cpicall h 0 CM_CMCNVI args return_code s;
     release args s
   }"

definition cmcnvo :: "('k, 'c) call_host \<Rightarrow> ptr \<Rightarrow> ptr \<Rightarrow> ptr \<Rightarrow> 'k call_state \<Rightarrow> 'k call_state option" where
  "cmcnvo h buffer buffer_length return_code s = do {
     (args, s) \<leftarrow> cargo2 h buffer buffer_length s;
     s \<leftarrow> sys_cpicall h 0 CM_CMCNVO args return_code s;
     release args s
   }"

definition cmdeal :: "('k, 'c) call_host \<Rightarrow> ptr \<Rightarrow> ptr \<Rightarrow> 'k call_state \<Rightarrow> 'k call_state option" where
  "cmdeal h conversation_id return_code s =
     sys_cpicall h conversation_id CM_CMDEAL 0 return_code s"

definition cmdfde :: "('k, 'c) call_host \<Rightarrow> ptr \<Rightarrow> ptr \<Rightarrow> 'k call_state \<Rightarrow> 'k call_state option" where
  "cmdfde h conversation_id return_code s =
     sys_cpicall h conversation_id CM_CMDFDE 0 return_code s"

definition cmeaeq :: "('k, 'c) call_host \<Rightarrow> ptr \<Rightarrow> ptr \<Rightarrow> ptr \<Rightarrow> ptr \<Rightarrow> ptr \<Rightarrow> 'k call_state \<Rightarrow> 'k call_state option" where
  "cmeaeq h conversation_id ae_qualifier ae_qualifier_length ap_title_format return_code s = do {
     (args, s) \<leftarrow> cargo3 h ae_qualifier ae_qualifier_length ap_title_format s;
     s \<leftarrow> sys_cpicall h conversation_id CM_CMEAEQ args return_code s;
     release args s
   }"

definition cmeapt :: "('k, 'c) call_host \<Rightarrow> ptr \<Rightarrow> ptr \<Rightarrow> ptr \<Rightarrow> ptr \<Rightarrow> ptr \<Rightarrow> 'k call_state \<Rightarrow> 'k call_state option" where
  "cmeapt h conversation_id ap_title ap_title_length ap_title_format return_code s = do {
     (args, s) \<leftarrow> cargo3 h ap_title ap_title_length ap_title_format s;
     s \<leftarrow> sys_cpicall h conversation_id CM_CMEAPT args return_code s;
     release args s
   }"

definition cmeacn :: "('k, 'c) call_host \<Rightarrow> ptr \<Rightarrow> ptr \<Rightarrow> ptr \<Rightarrow> ptr \<Rightarrow> 'k call_state \<Rightarrow> 'k call_state option" where
  "cmeacn h conversation_id application_context_name appl_context_name_length return_code s = do {
     (args, s) \<leftarrow> cargo2 h application_context_name appl_context_name_length s;
     s \<leftarrow> sys_cpicall h conversation_id CM_CMEACN args return_code s;
     release args s
   }"

definition cmecs :: "('k, 'c) call_host \<Rightarrow> ptr \<Rightarrow> ptr \<Rightarrow> ptr \<Rightarrow> 'k call_state \<Rightarrow> 'k call_state option" where
  "cmecs h conversation_id conversation_state return_code s = do {
     (args, s) \<leftarrow> cargo1 h conversation_state s;
     s \<leftarrow> sys_cpicall h conversation_id CM_CMECS args return_code s;
     release args s
   }"

definition cmect :: "('k, 'c) call_host \<Rightarrow> ptr \<Rightarrow> ptr \<Rightarrow> ptr \<Rightarrow> 'k call_state \<Rightarrow> 'k call_state option" where
  "cmect h conversation_id conversation_type return_code s = do {
     (args, s) \<leftarrow> cargo1 h conversation_type s;
     s \<leftarrow> sys_cpicall h conversation_id CM_CMECT args return_code s;
     release args s
   }"

definition cmectx :: "('k, 'c) call_host \<Rightarrow> ptr \<Rightarrow> ptr \<Rightarrow> ptr \<Rightarrow> ptr \<Rightarrow> 'k call_state \<Rightarrow> 'k call_state option" where
  "cmectx h conversation_id context_id context_id_length return_code s = do {
     (args, s) \<leftarrow> cargo2 h context_id context_id_length s;
     s \<leftarrow> sys_cpicall h conversation_id CM_CMECTX args return_code s;
     release args s
   }"

definition cmeid :: "('k, 'c) call_host \<Rightarrow> ptr \<Rightarrow> ptr \<Rightarrow> ptr \<Rightarrow> ptr \<Rightarrow> ptr \<Rightarrow> 'k call_state \<Rightarrow> 'k call_state option" where
  "cmeid h conversation_id initialization_data requested_length initialization_data_length return_code s = do {
     (args, s) \<leftarrow> cargo3 h initialization_data requested_length initialization_data_length s;
     s \<leftarrow> sys_cpicall h conversation_id CM_CMEID args return_code s;
     release args s
   }"

definition cmembs :: "('k, 'c) call_host \<Rightarrow> ptr \<Rightarrow> ptr \<Rightarrow> 'k call_state \<Rightarrow> 'k call_state option" where
  "cmembs h maximum_buffer_size return_code s = do {
     (args, s) \<leftarrow> cargo1 h maximum_buffer_size s;
     s \<leftarrow> sys_cpicall h 0 CM_CMEMBS args return_code s;
     release args s
   }"

definition cmemn :: "('k, 'c) call_host \<Rightarrow> ptr \<Rightarrow> ptr \<Rightarrow> ptr \<Rightarrow> ptr \<Rightarrow> 'k call_state \<Rightarrow> 'k call_state option" where
  "cmemn h conversation_id mode_name mode_name_length return_code s = do {
     (args, s) \<leftarrow> cargo2 h mode_name mode_name_length s;
     s \<leftarrow> sys_cpicall h conversation_id CM_CMEMN args return_code s;
     release args s
   }"

definition cmepid :: "('k, 'c) call_host \<Rightarrow> ptr \<Rightarrow> ptr \<Rightarrow> ptr \<Rightarrow> ptr \<Rightarrow> ptr \<Rightarrow> ptr \<Rightarrow> ptr \<Rightarrow> ptr \<Rightarrow> ptr \<Rightarrow> 'k call_state \<Rightarrow> 'k call_state option" where
  "cmepid h conversation_id partner_id_type partner_id requested_length partner_id_length partner_id_scope directory_syntax directory_encoding return_code s = do {
     (args, s) \<leftarrow> cargo7 h partner_id_type partner_id requested_length partner_id_length partner_id_scope directory_syntax directory_encoding s;
     s \<leftarrow> sys_cpicall h conversation_id CM_CMEPID args return_code s;
     release args s
   }"

definition cmepln :: "('k, 'c) call_host \<Rightarrow> ptr \<Rightarrow> ptr \<Rightarrow> ptr \<Rightarrow> ptr \<Rightarrow> 'k call_state \<Rightarrow> 'k call_state option" where
  "cmepln h conversation_id partner_lu_name partner_lu_name_length return_code s = do {
     (args, s) \<leftarrow> cargo2 h partner_lu_name partner_lu_name_length s;
     s \<leftarrow> sys_cpicall h conversation_id CM_CMEPLN args return_code s;
     release args s
   }"

definition cmesi :: "('k, 'c) call_host \<Rightarrow> ptr \<Rightarrow> ptr \<Rightarrow> ptr \<Rightarrow> ptr \<Rightarrow> ptr \<Rightarrow> ptr \<Rightarrow> 'k call_state \<Rightarrow> 'k call_state option" where
  "cmesi h conversation_id call_id buffer requested_length data_received return_code s = do {
     (args, s) \<leftarrow> cargo4 h call_id buffer requested_length data_received s;
     s \<leftarrow> sys_cpicall h conversation_id CM_CMESI args return_code s;
     release args s
   }"

definition cmesl :: "('k, 'c) call_host \<Rightarrow> ptr \<Rightarrow> ptr \<Rightarrow> ptr \<Rightarrow> 'k call_state \<Rightarrow> 'k call_state option" where
  "cmesl h conversation_id sync_level return_code s = do {
     (args, s) \<leftarrow> cargo1 h sync_level s;
     s \<leftarrow> sys_cpicall h conversation_id CM_CMESL args return_code s;
     release args s
   }"

definition cmesrm :: "('k, 'c) call_host \<Rightarrow> ptr \<Rightarrow> ptr \<Rightarrow> ptr \<Rightarrow> 'k call_state \<Rightarrow> 'k call_state option" where
  "cmesrm h conversation_id send_receive_mode return_code s = do {
     (args, s) \<leftarrow> cargo1 h send_receive_mode s;
     s \<leftarrow> sys_cpicall h conversation_id CM_CMESRM args return_code s;
     release args s
   }"

definition cmesui :: "('k, 'c) call_host \<Rightarrow> ptr \<Rightarrow> ptr \<Rightarrow> ptr \<Rightarrow> ptr \<Rightarrow> 'k call_state \<Rightarrow> 'k call_state option" where
  "cmesui h conversation_id user_id user_id_length return_code s = do {
     (args, s) \<leftarrow> cargo2 h user_id user_id_length s;
     s \<leftarrow> sys_cpicall h conversation_id CM_CMESUI args return_code s;
     release args s
   }"

definition cmetc :: "('k, 'c) call_host \<Rightarrow> ptr \<Rightarrow> ptr \<Rightarrow> ptr \<Rightarrow> 'k call_state \<Rightarrow> 'k call_state option" where
  "cmetc h conversation_id transaction_control return_code s = do {
     (args, s) \<leftarrow> cargo1 h transaction_control s;
     s \<leftarrow> sys_cpicall h conversation_id CM_CMETC args return_code s;
     release args s
   }"

definition cmetpn :: "('k, 'c) call_host \<Rightarrow> ptr \<Rightarrow> ptr \<Rightarrow> ptr \<Rightarrow> ptr \<Rightarrow> 'k call_state \<Rightarrow> 'k call_state option" where
  "cmetpn h conversation_id tp_name tp_name_length return_code s = do {
     (args, s) \<leftarrow> cargo2 h tp_name tp_name_length s;
     s \<leftarrow> sys_cpicall h conversation_id CM_CMETPN args return_code s;
     release args s
   }"

definition cmflus :: "('k, 'c) call_host \<Rightarrow> ptr \<Rightarrow> ptr \<Rightarrow> 'k call_state \<Rightarrow> 'k call_state option" where
  "cmflus h conversation_id return_code s =
     sys_cpicall h conversation_id CM_CMFLUS 0 return_code s"

definition cmincl :: "('k, 'c) call_host \<Rightarrow> ptr \<Rightarrow> ptr \<Rightarrow> 'k call_state \<Rightarrow> 'k call_state option" where
  "cmincl h conversation_id return_code s =
     sys_cpicall h conversation_id CM_CMINCL 0 return_code s"

definition cminic :: "('k, 'c) call_host \<Rightarrow> ptr \<Rightarrow> ptr \<Rightarrow> 'k call_state \<Rightarrow> 'k call_state option" where
  "cminic h conversation_id return_code s =
     sys_cpicall h conversation_id CM_CMINIC 0 return_code s"

definition cminit :: "('k, 'c) call_host \<Rightarrow> ptr \<Rightarrow> ptr \<Rightarrow> ptr \<Rightarrow> 'k call_state \<Rightarrow> 'k call_state option" where
  "cminit h conversation_id sym_dest_name return_code s = do {
     (args, s) \<leftarrow> cargo1 h sym_dest_name s;
     s \<leftarrow> sys_cpicall h conversation_id CM_CMINIT args return_code s;
     release args s
   }"

definition cmprep :: "('k, 'c) call_host \<Rightarrow> ptr \<Rightarrow> ptr \<Rightarrow> 'k call_state \<Rightarrow> 'k call_state option" where
  "cmprep h conversation_id return_code s =
     sys_cpicall h conversation_id CM_CMPREP 0 return_code s"

definition cmptr :: "('k, 'c) call_host \<Rightarrow> ptr \<Rightarrow> ptr \<Rightarrow> 'k call_state \<Rightarrow> 'k call_state option" where
  "cmptr h conversation_id return_code s =
     sys_cpicall h conversation_id CM_CMPTR 0 return_code s"

definition cmrcv :: "('k, 'c) call_host \<Rightarrow> ptr \<Rightarrow> ptr \<Rightarrow> ptr \<Rightarrow> ptr \<Rightarrow> ptr \<Rightarrow> ptr \<Rightarrow> ptr \<Rightarrow> ptr \<Rightarrow> 'k call_state \<Rightarrow> 'k call_state option" where
  "cmrcv h conversation_id buffer requested_length data_received received_length status_received control_information_received return_code s = do {
     (args, s) \<leftarrow> cargo6 h buffer requested_length data_received received_length status_received control_information_received s;
     s \<leftarrow> sys_cpicall h conversation_id CM_CMRCV args return_code s;
     release args s
   }"

definition cmrcvx :: "('k, 'c) call_host \<Rightarrow> ptr \<Rightarrow> ptr \<Rightarrow> ptr \<Rightarrow> ptr \<Rightarrow> ptr \<Rightarrow> ptr \<Rightarrow> ptr \<Rightarrow> 'k call_state \<Rightarrow> 'k call_state option" where
  "cmrcvx h conversation_id buffer requested_length received_length control_information_received expedited_receive_type return_code s = do {
     (args, s) \<leftarrow> cargo5 h buffer requested_length received_length control_information_received expedited_receive_type s;
     s \<leftarrow> sys_cpicall h conversation_id CM_CMRCVX args return_code s;
     release args s
   }"

definition cmrltp :: "('k, 'c) call_host \<Rightarrow> ptr \<Rightarrow> ptr \<Rightarrow> ptr \<Rightarrow> 'k call_state \<Rightarrow> 'k call_state option" where
  "cmrltp h tp_name tp_name_length return_code s = do {
     (args, s) \<leftarrow> cargo2 h tp_name tp_name_length s;
     s \<leftarrow> sys_cpicall h 0 CM_CMRLTP args return_code s;
     release args s
   }"

definition cmrts :: "('k, 'c) call_host \<Rightarrow> ptr \<Rightarrow> ptr \<Rightarrow> 'k call_state \<Rightarrow> 'k call_state option" where
  "cmrts h conversation_id return_code s =
     sys_cpicall h conversation_id CM_CMRTS 0 return_code s"

definition cmsaeq :: "('k, 'c) call_host \<Rightarrow> ptr \<Rightarrow> ptr \<Rightarrow> ptr \<Rightarrow> ptr \<Rightarrow> ptr \<Rightarrow> 'k call_state \<Rightarrow> 'k call_state option" where
  "cmsaeq h conversation_id ae_qualifier ae_qualifier_length ap_title_format return_code s = do {
     (args, s) \<leftarrow> cargo3 h ae_qualifier ae_qualifier_length ap_title_format s;
     s \<leftarrow> sys_cpicall h conversation_id CM_CMSAEQ args return_code s;
     release args s
   }"

definition cmsac :: "('k, 'c) call_host \<Rightarrow> ptr \<Rightarrow> ptr \<Rightarrow> ptr \<Rightarrow> 'k call_state \<Rightarrow> 'k call_state option" where
  "cmsac h conversation_id allocate_confirm return_code s = do {
     (args, s) \<leftarrow> cargo1 h allocate_confirm s;
     s \<leftarrow> sys_cpicall h conversation_id CM_CMSAC args return_code s;
     release args s
   }"

definition cmsacn :: "('k, 'c) call_host \<Rightarrow> ptr \<Rightarrow> ptr \<Rightarrow> ptr \<Rightarrow> ptr \<Rightarrow> 'k call_state \<Rightarrow> 'k call_state option" where
  "cmsacn h conversation_id application_context_name appl_context_name_length return_code s = do {
     (args, s) \<leftarrow> cargo2 h application_context_name appl_context_name_length s;
     s \<leftarrow> sys_cpicall h conversation_id CM_CMSACN args return_code s;
     release args s
   }"

definition cmsapt :: "('k, 'c) call_host \<Rightarrow> ptr \<Rightarrow> ptr \<Rightarrow> ptr \<Rightarrow> ptr \<Rightarrow> ptr \<Rightarrow> 'k call_state \<Rightarrow> 'k call_state option" where
  "cmsapt h conversation_id ap_title ap_title_length ap_title_format return_code s = do {
     (args, s) \<leftarrow> cargo3 h ap_title ap_title_length ap_title_format s;
     s \<leftarrow> sys_cpicall h conversation_id CM_CMSAPT args return_code s;
     release args s
   }"

definition cmsbt :: "('k, 'c) call_host \<Rightarrow> ptr \<Rightarrow> ptr \<Rightarrow> ptr \<Rightarrow> 'k call_state \<Rightarrow> 'k call_state option" where
  "cmsbt h conversation_id begin_transaction return_code s = do {
     (args, s) \<leftarrow> cargo1 h begin_transaction s;
     s \<leftarrow> sys_cpicall h conversation_id CM_CMSBT args return_code s;
     release args s
   }"

definition cmscsp :: "('k, 'c) call_host \<Rightarrow> ptr \<Rightarrow> ptr \<Rightarrow> ptr \<Rightarrow> ptr \<Rightarrow> 'k call_state \<Rightarrow> 'k call_state option" where
  "cmscsp h conversation_id password password_length return_code s = do {
     (args, s) \<leftarrow> cargo2 h password password_length s;
     s \<leftarrow> sys_cpicall h conversation_id CM_CMSCSP args return_code s;
     release args s
   }"

definition cmscst :: "('k, 'c) call_host \<Rightarrow> ptr \<Rightarrow> ptr \<Rightarrow> ptr \<Rightarrow> 'k call_state \<Rightarrow> 'k call_state option" where
  "cmscst h conversation_id conv_security_type return_code s = do {
     (args, s) \<leftarrow> cargo1 h conv_security_type s;
     s \<leftarrow> sys_cpicall h conversation_id CM_CMSCST args return_code s;
     release args s
   }"

definition cmscsu :: "('k, 'c) call_host \<Rightarrow> ptr \<Rightarrow> ptr \<Rightarrow> ptr \<Rightarrow> ptr \<Rightarrow> 'k call_state \<Rightarrow> 'k call_state option" where
  "cmscsu h conversation_id user_id user_id_length return_code s = do {
     (args, s) \<leftarrow> cargo2 h user_id user_id_length s;
     s \<leftarrow> sys_cpicall h conversation_id CM_CMSCSU args return_code s;
     release args s
   }"

definition cmsct :: "('k, 'c) call_host \<Rightarrow> ptr \<Rightarrow> ptr \<Rightarrow> ptr \<Rightarrow> 'k call_state \<Rightarrow> 'k call_state option" where
  "cmsct h conversation_id conversation_type return_code s = do {
     (args, s) \<leftarrow> cargo1 h conversation_type s;
     s \<leftarrow> sys_cpicall h conversation_id CM_CMSCT args return_code s;
     release args s
   }"

definition cmscu :: "('k, 'c) call_host \<Rightarrow> ptr \<Rightarrow> ptr \<Rightarrow> ptr \<Rightarrow> 'k call_state \<Rightarrow> 'k call_state option" where
  "cmscu h conversation_id confirmation_urgency return_code s = do {
     (args, s) \<leftarrow> cargo1 h confirmation_urgency s;
     s \<leftarrow> sys_cpicall h conversation_id CM_CMSCU args return_code s;
     release args s
   }"

definition cmsdt :: "('k, 'c) call_host \<Rightarrow> ptr \<Rightarrow> ptr \<Rightarrow> ptr \<Rightarrow> 'k call_state \<Rightarrow> 'k call_state option" where
  "cmsdt h conversation_id deallocate_type return_code s = do {
     (args, s) \<leftarrow> cargo1 h deallocate_type s;
     s \<leftarrow> sys_cpicall h conversation_id CM_CMSDT args return_code s;
     release args s
   }"

definition cmsed :: "('k, 'c) call_host \<Rightarrow> ptr \<Rightarrow> ptr \<Rightarrow> ptr \<Rightarrow> 'k call_state \<Rightarrow> 'k call_state option" where
  "cmsed h conversation_id error_direction return_code s = do {
     (args, s) \<leftarrow> cargo1 h error_direction s;
     s \<leftarrow> sys_cpicall h conversation_id CM_CMSED args return_code s;
     release args s
   }"

definition cmsend :: "('k, 'c) call_host \<Rightarrow> ptr \<Rightarrow> ptr \<Rightarrow> ptr \<Rightarrow> ptr \<Rightarrow> ptr \<Rightarrow> 'k call_state \<Rightarrow> 'k call_state option" where
  "cmsend h conversation_id buffer send_length control_information_received return_code s = do {
     (args, s) \<leftarrow> cargo3 h buffer send_length control_information_received s;
     s \<leftarrow> sys_cpicall h conversation_id CM_CMSEND args return_code s;
     release args s
   }"

definition cmserr :: "('k, 'c) call_host \<Rightarrow> ptr \<Rightarrow> ptr \<Rightarrow> ptr \<Rightarrow> 'k call_state \<Rightarrow> 'k call_state option" where
  "cmserr h conversation_id control_information_received return_code s = do {
     (args, s) \<leftarrow> cargo1 h control_information_received s;
     s \<leftarrow> sys_cpicall h conversation_id CM_CMSERR args return_code s;
     release args s
   }"

definition cmsf :: "('k, 'c) call_host \<Rightarrow> ptr \<Rightarrow> ptr \<Rightarrow> ptr \<Rightarrow> 'k call_state \<Rightarrow> 'k call_state option" where
  "cmsf h conversation_id fill return_code s = do {
     (args, s) \<leftarrow> cargo1 h fill s;
     s \<leftarrow> sys_cpicall h conversation_id CM_CMSF args return_code s;
     release args s
   }"

definition cmsid :: "('k, 'c) call_host \<Rightarrow> ptr \<Rightarrow> ptr \<Rightarrow> ptr \<Rightarrow> ptr \<Rightarrow> 'k call_state \<Rightarrow> 'k call_state option" where
  "cmsid h conversation_id initialization_data init_data_length return_code s = do {
     (args, s) \<leftarrow> cargo2 h initialization_data init_data_length s;
     s \<leftarrow> sys_cpicall h conversation_id CM_CMSID args return_code s;
     release args s
   }"

definition cmsld :: "('k, 'c) call_host \<Rightarrow> ptr \<Rightarrow> ptr \<Rightarrow> ptr \<Rightarrow> ptr \<Rightarrow> 'k call_state \<Rightarrow> 'k call_state option" where
  "cmsld h conversation_id log_data log_data_length return_code s = do {
     (args, s) \<leftarrow> cargo2 h log_data log_data_length s;
     s \<leftarrow> sys_cpicall h conversation_id CM_CMSLD args return_code s;
     release args s
   }"

definition cmsltp :: "('k, 'c) call_host \<Rightarrow> ptr \<Rightarrow> ptr \<Rightarrow> ptr \<Rightarrow> 'k call_state \<Rightarrow> 'k call_state option" where
  "cmsltp h tp_name tp_name_length return_code s = do {
     (args, s) \<leftarrow> cargo2 h tp_name tp_name_length s;
     s \<leftarrow> sys_cpicall h 0 CM_CMSLTP args return_code s;
     release args s
   }"

definition cmsmn :: "('k, 'c) call_host \<Rightarrow> ptr \<Rightarrow> ptr \<Rightarrow> ptr \<Rightarrow> ptr \<Rightarrow> 'k call_state \<Rightarrow> 'k call_state option" where
  "cmsmn h conversation_id mode_name mode_name_length return_code s = do {
     (args, s) \<leftarrow> cargo2 h mode_name mode_name_length s;
     s \<leftarrow> sys_cpicall h conversation_id CM_CMSMN args return_code s;
     release args s
   }"

definition cmsndx :: "('k, 'c) call_host \<Rightarrow> ptr \<Rightarrow> ptr \<Rightarrow> ptr \<Rightarrow> ptr \<Rightarrow> ptr \<Rightarrow> 'k call_state \<Rightarrow> 'k call_state option" where
  "cmsndx h conversation_id buffer send_length control_information_received return_code s = do {
     (args, s) \<leftarrow> cargo3 h buffer send_length control_information_received s;
     s \<leftarrow> sys_cpicall h conversation_id CM_CMSNDX args return_code s;
     release args s
   }"

definition cmspdp :: "('k, 'c) call_host \<Rightarrow> ptr \<Rightarrow> ptr \<Rightarrow> ptr \<Rightarrow> 'k call_state \<Rightarrow> 'k call_state option" where
  "cmspdp h conversation_id prepare_data_permitted return_code s = do {
     (args, s) \<leftarrow> cargo1 h prepare_data_permitted s;
     s \<leftarrow> sys_cpicall h conversation_id CM_CMSPDP args return_code s;
     release args s
   }"

definition cmspid :: "('k, 'c) call_host \<Rightarrow> ptr \<Rightarrow> ptr \<Rightarrow> ptr \<Rightarrow> ptr \<Rightarrow> ptr \<Rightarrow> ptr \<Rightarrow> ptr \<Rightarrow> ptr \<Rightarrow> 'k call_state \<Rightarrow> 'k call_state option" where
  "cmspid h conversation_id partner_id_type partner_id partner_id_length partner_id_scope directory_syntax directory_encoding return_code s = do {
     (args, s) \<leftarrow> cargo6 h partner_id_type partner_id partner_id_length partner_id_scope directory_syntax directory_encoding s;
     s \<leftarrow> sys_cpicall h conversation_id CM_CMSPID args return_code s;
     release args s
   }"

definition cmspln :: "('k, 'c) call_host \<Rightarrow> ptr \<Rightarrow> ptr \<Rightarrow> ptr \<Rightarrow> ptr \<Rightarrow> 'k call_state \<Rightarrow> 'k call_state option" where
  "cmspln h conversation_id partner_lu_name partner_lu_name_length return_code s = do {
     (args, s) \<leftarrow> cargo2 h partner_lu_name partner_lu_name_length s;
     s \<leftarrow> sys_cpicall h conversation_id CM_CMSPLN args return_code s;
     release args s
   }"

definition cmspm :: "('k, 'c) call_host \<Rightarrow> ptr \<Rightarrow> ptr \<Rightarrow> ptr \<Rightarrow> 'k call_state \<Rightarrow> 'k call_state option" where
  "cmspm h conversation_id processing_mode return_code s = do {
     (args, s) \<leftarrow> cargo1 h processing_mode s;
     s \<leftarrow> sys_cpicall h conversation_id CM_CMSPM args return_code s;
     release args s
   }"

definition cmsptr :: "('k, 'c) call_host \<Rightarrow> ptr \<Rightarrow> ptr \<Rightarrow> ptr \<Rightarrow> 'k call_state \<Rightarrow> 'k call_state option" where
  "cmsptr h conversation_id prepare_to_receive_type return_code s = do {
     (args, s) \<leftarrow> cargo1 h prepare_to_receive_type s;
     s \<leftarrow> sys_cpicall h conversation_id CM_CMSPTR args return_code s;
     release args s
   }"

definition cmsqcf :: "('k, 'c) call_host \<Rightarrow> ptr \<Rightarrow> ptr \<Rightarrow> ptr \<Rightarrow> ptr \<Rightarrow> ptr \<Rightarrow> ptr \<Rightarrow> 'k call_state \<Rightarrow> 'k call_state option" where
  "cmsqcf h conversation_id conversation_queue callback_function callback_info user_field return_code s = do {
     (args, s) \<leftarrow> cargo4 h conversation_queue callback_function callback_info user_field s;
     s \<leftarrow> sys_cpicall h conversation_id CM_CMSQCF args return_code s;
     release args s
   }"

definition cmsqpm :: "('k, 'c) call_host \<Rightarrow> ptr \<Rightarrow> ptr \<Rightarrow> ptr \<Rightarrow> ptr \<Rightarrow> ptr \<Rightarrow> ptr \<Rightarrow> 'k call_state \<Rightarrow> 'k call_state option" where
  "cmsqpm h conversation_id conversation_queue queue_processing_mode user_field ooid return_code s = do {
     (args, s) \<leftarrow> cargo4 h conversation_queue queue_processing_mode user_field ooid s;
     s \<leftarrow> sys_cpicall h conversation_id CM_CMSQPM args return_code s;
     release args s
   }"

definition cmsrc :: "('k, 'c) call_host \<Rightarrow> ptr \<Rightarrow> ptr \<Rightarrow> ptr \<Rightarrow> 'k call_state \<Rightarrow> 'k call_state option" where
  "cmsrc h conversation_id return_control return_code s = do {
     (args, s) \<leftarrow> cargo1 h return_control s;
     s \<leftarrow> sys_cpicall h conversation_id CM_CMSRC args return_code s;
     release args s
   }"

definition cmsrt :: "('k, 'c) call_host \<Rightarrow> ptr \<Rightarrow> ptr \<Rightarrow> ptr \<Rightarrow> 'k call_state \<Rightarrow> 'k call_state option" where
  "cmsrt h conversation_id receive_type return_code s = do {
     (args, s) \<leftarrow> cargo1 h receive_type s;
     s \<leftarrow> sys_cpicall h conversation_id CM_CMSRT args return_code s;
     release args s
   }"

definition cmssl :: "('k, 'c) call_host \<Rightarrow> ptr \<Rightarrow> ptr \<Rightarrow> ptr \<Rightarrow> 'k call_state \<Rightarrow> 'k call_state option" where
  "cmssl h conversation_id sync_level return_code s = do {
     (args, s) \<leftarrow> cargo1 h sync_level s;
     s \<leftarrow> sys_cpicall h conversation_id CM_CMSSL args return_code s;
     release args s
   }"

definition cmssrm :: "('k, 'c) call_host \<Rightarrow> ptr \<Rightarrow> ptr \<Rightarrow> ptr \<Rightarrow> 'k call_state \<Rightarrow> 'k call_state option" where
  "cmssrm h conversation_id send_receive_mode return_code s = do {
     (args, s) \<leftarrow> cargo1 h send_receive_mode s;
     s \<leftarrow> sys_cpicall h conversation_id CM_CMSSRM args return_code s;
     release args s
   }"

definition cmsst :: "('k, 'c) call_host \<Rightarrow> ptr \<Rightarrow> ptr \<Rightarrow> ptr \<Rightarrow> 'k call_state \<Rightarrow> 'k call_state option" where
  "cmsst h conversation_id send_type return_code s = do {
     (args, s) \<leftarrow> cargo1 h send_type s;
     s \<leftarrow> sys_cpicall h conversation_id CM_CMSST args return_code s;
     release args s
   }"

definition cmstc :: "('k, 'c) call_host \<Rightarrow> ptr \<Rightarrow> ptr \<Rightarrow> ptr \<Rightarrow> 'k call_state \<Rightarrow> 'k call_state option" where
  "cmstc h conversation_id transaction_control return_code s = do {
     (args, s) \<leftarrow> cargo1 h transaction_control s;
     s \<leftarrow> sys_cpicall h conversation_id CM_CMSTC args return_code s;
     release args s
   }"

definition cmstpn :: "('k, 'c) call_host \<Rightarrow> ptr \<Rightarrow> ptr \<Rightarrow> ptr \<Rightarrow> ptr \<Rightarrow> 'k call_state \<Rightarrow> 'k call_state option" where
  "cmstpn h conversation_id tp_name tp_name_length return_code s = do {
     (args, s) \<leftarrow> cargo2 h tp_name tp_name_length s;
     s \<leftarrow> sys_cpicall h conversation_id CM_CMSTPN args return_code s;
     release args s
   }"

definition cmtrts :: "('k, 'c) call_host \<Rightarrow> ptr \<Rightarrow> ptr \<Rightarrow> ptr \<Rightarrow> 'k call_state \<Rightarrow> 'k call_state option" where
  "cmtrts h conversation_id control_information_received return_code s = do {
     (args, s) \<leftarrow> cargo1 h control_information_received s;
     s \<leftarrow> sys_cpicall h conversation_id CM_CMTRTS args return_code s;
     release args s
   }"

definition cmwait :: "('k, 'c) call_host \<Rightarrow> ptr \<Rightarrow> ptr \<Rightarrow> ptr \<Rightarrow> 'k call_state \<Rightarrow> 'k call_state option" where
  "cmwait h conversation_id conversation_ret_code return_code s = do {
     (args, s) \<leftarrow> cargo1 h conversation_ret_code s;
     s \<leftarrow> sys_cpicall h conversation_id CM_CMWAIT args return_code s;
     release args s
   }"

definition cmwcmp :: "('k, 'c) call_host \<Rightarrow> ptr \<Rightarrow> ptr \<Rightarrow> ptr \<Rightarrow> ptr \<Rightarrow> ptr \<Rightarrow> ptr \<Rightarrow> ptr \<Rightarrow> 'k call_state \<Rightarrow> 'k call_state option" where
  "cmwcmp h ooid_list ooid_list_count timeout completed_op_index_list completed_op_count user_field_list return_code s = do {
     (args, s) \<leftarrow> cargo6 h ooid_list ooid_list_count timeout completed_op_index_list completed_op_count user_field_list s;
     s \<leftarrow> sys_cpicall h 0 CM_CMWCMP args return_code s;
     release args s
   }"

lemmas entry_defs = cmacci_def cmaccp_def cmallc_def cmcanc_def cmcfm_def cmcfmd_def cmcnvi_def cmcnvo_def cmdeal_def cmdfde_def
  cmeaeq_def cmeapt_def cmeacn_def cmecs_def cmect_def cmectx_def cmeid_def cmembs_def cmemn_def cmepid_def
  cmepln_def cmesi_def cmesl_def cmesrm_def cmesui_def cmetc_def cmetpn_def cmflus_def cmincl_def cminic_def
  cminit_def cmprep_def cmptr_def cmrcv_def cmrcvx_def cmrltp_def cmrts_def cmsaeq_def cmsac_def cmsacn_def
  cmsapt_def cmsbt_def cmscsp_def cmscst_def cmscsu_def cmsct_def cmscu_def cmsdt_def cmsed_def cmsend_def
  cmserr_def cmsf_def cmsid_def cmsld_def cmsltp_def cmsmn_def cmsndx_def cmspdp_def cmspid_def cmspln_def
  cmspm_def cmsptr_def cmsqcf_def cmsqpm_def cmsrc_def cmsrt_def cmssl_def cmssrm_def cmsst_def cmstc_def
  cmstpn_def cmtrts_def cmwait_def cmwcmp_def

text \<open>All calls: the name, the number of pointers besides those of the conversation and of the return code, and the function.\<close>

definition cpic_calls :: "(string \<times> nat \<times> ('k, 'c) entry) list" where
  "cpic_calls = [
     (''cmacci'', 0, \<lambda>h c vs r. cmacci h c r),
     (''cmaccp'', 0, \<lambda>h c vs r. cmaccp h c r),
     (''cmallc'', 0, \<lambda>h c vs r. cmallc h c r),
     (''cmcanc'', 0, \<lambda>h c vs r. cmcanc h c r),
     (''cmcfm'', 1, \<lambda>h c vs r. cmcfm h c (vs ! 0) r),
     (''cmcfmd'', 0, \<lambda>h c vs r. cmcfmd h c r),
     (''cmcnvi'', 2, \<lambda>h c vs r. cmcnvi h (vs ! 0) (vs ! 1) r),
     (''cmcnvo'', 2, \<lambda>h c vs r. cmcnvo h (vs ! 0) (vs ! 1) r),
     (''cmdeal'', 0, \<lambda>h c vs r. cmdeal h c r),
     (''cmdfde'', 0, \<lambda>h c vs r. cmdfde h c r),
     (''cmeaeq'', 3, \<lambda>h c vs r. cmeaeq h c (vs ! 0) (vs ! 1) (vs ! 2) r),
     (''cmeapt'', 3, \<lambda>h c vs r. cmeapt h c (vs ! 0) (vs ! 1) (vs ! 2) r),
     (''cmeacn'', 2, \<lambda>h c vs r. cmeacn h c (vs ! 0) (vs ! 1) r),
     (''cmecs'', 1, \<lambda>h c vs r. cmecs h c (vs ! 0) r),
     (''cmect'', 1, \<lambda>h c vs r. cmect h c (vs ! 0) r),
     (''cmectx'', 2, \<lambda>h c vs r. cmectx h c (vs ! 0) (vs ! 1) r),
     (''cmeid'', 3, \<lambda>h c vs r. cmeid h c (vs ! 0) (vs ! 1) (vs ! 2) r),
     (''cmembs'', 1, \<lambda>h c vs r. cmembs h (vs ! 0) r),
     (''cmemn'', 2, \<lambda>h c vs r. cmemn h c (vs ! 0) (vs ! 1) r),
     (''cmepid'', 7, \<lambda>h c vs r. cmepid h c (vs ! 0) (vs ! 1) (vs ! 2) (vs ! 3) (vs ! 4) (vs ! 5) (vs ! 6) r),
     (''cmepln'', 2, \<lambda>h c vs r. cmepln h c (vs ! 0) (vs ! 1) r),
     (''cmesi'', 4, \<lambda>h c vs r. cmesi h c (vs ! 0) (vs ! 1) (vs ! 2) (vs ! 3) r),
     (''cmesl'', 1, \<lambda>h c vs r. cmesl h c (vs ! 0) r),
     (''cmesrm'', 1, \<lambda>h c vs r. cmesrm h c (vs ! 0) r),
     (''cmesui'', 2, \<lambda>h c vs r. cmesui h c (vs ! 0) (vs ! 1) r),
     (''cmetc'', 1, \<lambda>h c vs r. cmetc h c (vs ! 0) r),
     (''cmetpn'', 2, \<lambda>h c vs r. cmetpn h c (vs ! 0) (vs ! 1) r),
     (''cmflus'', 0, \<lambda>h c vs r. cmflus h c r),
     (''cmincl'', 0, \<lambda>h c vs r. cmincl h c r),
     (''cminic'', 0, \<lambda>h c vs r. cminic h c r),
     (''cminit'', 1, \<lambda>h c vs r. cminit h c (vs ! 0) r),
     (''cmprep'', 0, \<lambda>h c vs r. cmprep h c r),
     (''cmptr'', 0, \<lambda>h c vs r. cmptr h c r),
     (''cmrcv'', 6, \<lambda>h c vs r. cmrcv h c (vs ! 0) (vs ! 1) (vs ! 2) (vs ! 3) (vs ! 4) (vs ! 5) r),
     (''cmrcvx'', 5, \<lambda>h c vs r. cmrcvx h c (vs ! 0) (vs ! 1) (vs ! 2) (vs ! 3) (vs ! 4) r),
     (''cmrltp'', 2, \<lambda>h c vs r. cmrltp h (vs ! 0) (vs ! 1) r),
     (''cmrts'', 0, \<lambda>h c vs r. cmrts h c r),
     (''cmsaeq'', 3, \<lambda>h c vs r. cmsaeq h c (vs ! 0) (vs ! 1) (vs ! 2) r),
     (''cmsac'', 1, \<lambda>h c vs r. cmsac h c (vs ! 0) r),
     (''cmsacn'', 2, \<lambda>h c vs r. cmsacn h c (vs ! 0) (vs ! 1) r),
     (''cmsapt'', 3, \<lambda>h c vs r. cmsapt h c (vs ! 0) (vs ! 1) (vs ! 2) r),
     (''cmsbt'', 1, \<lambda>h c vs r. cmsbt h c (vs ! 0) r),
     (''cmscsp'', 2, \<lambda>h c vs r. cmscsp h c (vs ! 0) (vs ! 1) r),
     (''cmscst'', 1, \<lambda>h c vs r. cmscst h c (vs ! 0) r),
     (''cmscsu'', 2, \<lambda>h c vs r. cmscsu h c (vs ! 0) (vs ! 1) r),
     (''cmsct'', 1, \<lambda>h c vs r. cmsct h c (vs ! 0) r),
     (''cmscu'', 1, \<lambda>h c vs r. cmscu h c (vs ! 0) r),
     (''cmsdt'', 1, \<lambda>h c vs r. cmsdt h c (vs ! 0) r),
     (''cmsed'', 1, \<lambda>h c vs r. cmsed h c (vs ! 0) r),
     (''cmsend'', 3, \<lambda>h c vs r. cmsend h c (vs ! 0) (vs ! 1) (vs ! 2) r),
     (''cmserr'', 1, \<lambda>h c vs r. cmserr h c (vs ! 0) r),
     (''cmsf'', 1, \<lambda>h c vs r. cmsf h c (vs ! 0) r),
     (''cmsid'', 2, \<lambda>h c vs r. cmsid h c (vs ! 0) (vs ! 1) r),
     (''cmsld'', 2, \<lambda>h c vs r. cmsld h c (vs ! 0) (vs ! 1) r),
     (''cmsltp'', 2, \<lambda>h c vs r. cmsltp h (vs ! 0) (vs ! 1) r),
     (''cmsmn'', 2, \<lambda>h c vs r. cmsmn h c (vs ! 0) (vs ! 1) r),
     (''cmsndx'', 3, \<lambda>h c vs r. cmsndx h c (vs ! 0) (vs ! 1) (vs ! 2) r),
     (''cmspdp'', 1, \<lambda>h c vs r. cmspdp h c (vs ! 0) r),
     (''cmspid'', 6, \<lambda>h c vs r. cmspid h c (vs ! 0) (vs ! 1) (vs ! 2) (vs ! 3) (vs ! 4) (vs ! 5) r),
     (''cmspln'', 2, \<lambda>h c vs r. cmspln h c (vs ! 0) (vs ! 1) r),
     (''cmspm'', 1, \<lambda>h c vs r. cmspm h c (vs ! 0) r),
     (''cmsptr'', 1, \<lambda>h c vs r. cmsptr h c (vs ! 0) r),
     (''cmsqcf'', 4, \<lambda>h c vs r. cmsqcf h c (vs ! 0) (vs ! 1) (vs ! 2) (vs ! 3) r),
     (''cmsqpm'', 4, \<lambda>h c vs r. cmsqpm h c (vs ! 0) (vs ! 1) (vs ! 2) (vs ! 3) r),
     (''cmsrc'', 1, \<lambda>h c vs r. cmsrc h c (vs ! 0) r),
     (''cmsrt'', 1, \<lambda>h c vs r. cmsrt h c (vs ! 0) r),
     (''cmssl'', 1, \<lambda>h c vs r. cmssl h c (vs ! 0) r),
     (''cmssrm'', 1, \<lambda>h c vs r. cmssrm h c (vs ! 0) r),
     (''cmsst'', 1, \<lambda>h c vs r. cmsst h c (vs ! 0) r),
     (''cmstc'', 1, \<lambda>h c vs r. cmstc h c (vs ! 0) r),
     (''cmstpn'', 2, \<lambda>h c vs r. cmstpn h c (vs ! 0) (vs ! 1) r),
     (''cmtrts'', 1, \<lambda>h c vs r. cmtrts h c (vs ! 0) r),
     (''cmwait'', 1, \<lambda>h c vs r. cmwait h c (vs ! 0) r),
     (''cmwcmp'', 6, \<lambda>h c vs r. cmwcmp h (vs ! 0) (vs ! 1) (vs ! 2) (vs ! 3) (vs ! 4) (vs ! 5) r)]"
end
