(* ===== verification/Cpic_Calls.thy ===== *)
theory Cpic_Calls
  imports Cpic_Syscall
begin

text \<open>
  What a call of CPI-C does: through the block of arguments and the numbers of the calls it reaches the
  function of the kernel that has its name, with its own pointers in their order.
\<close>

section \<open>The calls without the system call\<close>

text \<open>
  The reference: the function of the name is called directly. Most calls have a conversation, which is
  released afterwards, except when the call ends it.
\<close>

definition kernel_answer :: "('k, 'c) call_host \<Rightarrow> string \<Rightarrow> ptr \<Rightarrow> ptr list \<Rightarrow> 'k call_state \<Rightarrow> u32 \<times> 'k call_state" where
  "kernel_answer h name c vs s =
     (if name = ''cmaccp'' then call_function h name None [c, ch_local h] (with_pid h s)
      else if name = ''cminit'' then call_function h name None (c # vs) s
      else if name \<in> {''cmcnvi'', ''cmcnvo'', ''cmembs'', ''cmrltp'', ''cmsltp''} then call_function h name None vs s
      else case find_conversation h c s of
        None \<Rightarrow> (CM_PROGRAM_PARAMETER_CHECK, s)
      | Some cv \<Rightarrow>
          let (rc, s) = call_function h name (Some cv) vs s
          in (rc, if name = ''cmdeal'' then s else put_fd h cv s))"

definition direct_call :: "('k, 'c) call_host \<Rightarrow> string \<Rightarrow> ptr \<Rightarrow> ptr list \<Rightarrow> ptr \<Rightarrow> 'k call_state \<Rightarrow> 'k call_state" where
  "direct_call h name c vs r s = (case kernel_answer h name c vs s of (rc, s) \<Rightarrow> sna_cpic_error r rc s)"

text \<open>The module is loaded, and there is memory for the block and for its copy.\<close>

definition ready :: "('k, 'c) call_host \<Rightarrow> 'k call_state \<Rightarrow> bool" where
  "ready h s \<longleftrightarrow> ch_loaded h (cs_kernel s) \<and> ch_memory h (cs_kernel s) \<and>
     ch_malloc h (cs_heap s) \<noteq> 0 \<and> cs_heap s (ch_malloc h (cs_heap s)) = None"

text \<open>The calls that pack a block.\<close>

definition packs :: "string \<Rightarrow> nat \<Rightarrow> bool" where
  "packs name n \<longleftrightarrow> n > 0 \<or> name = ''cmaccp''"

section \<open>Blocks of arguments\<close>

lemma set_args_spec:
  "i + length vs \<le> length args \<Longrightarrow> set_args i vs args = take i args @ map Some vs @ drop (i + length vs) args"
  by (induction i vs args rule: set_args.induct) (simp_all add: take_Suc_conv_app_nth)

lemma packed: "length vs \<le> 9 \<Longrightarrow> set_args 0 vs (replicate 9 None) = map Some vs @ replicate (9 - length vs) None"
  by (simp add: set_args_spec)

lemma first_args_packed [simp]: "length vs = n \<Longrightarrow> first_args n (map Some vs @ rest) = Some vs"
  by (induction vs arbitrary: n) auto

lemma all_nths:
  "length vs = Suc 0 \<Longrightarrow> [vs ! 0] = vs"
  "length vs = 2 \<Longrightarrow> [vs ! 0, vs ! Suc 0] = vs"
  "length vs = 3 \<Longrightarrow> [vs ! 0, vs ! Suc 0, vs ! 2] = vs"
  "length vs = 4 \<Longrightarrow> [vs ! 0, vs ! Suc 0, vs ! 2, vs ! 3] = vs"
  "length vs = 5 \<Longrightarrow> [vs ! 0, vs ! Suc 0, vs ! 2, vs ! 3, vs ! 4] = vs"
  "length vs = 6 \<Longrightarrow> [vs ! 0, vs ! Suc 0, vs ! 2, vs ! 3, vs ! 4, vs ! 5] = vs"
  "length vs = 7 \<Longrightarrow> [vs ! 0, vs ! Suc 0, vs ! 2, vs ! 3, vs ! 4, vs ! 5, vs ! 6] = vs"
  by (auto simp: eval_nat_numeral length_Suc_conv)

section \<open>Heap and copies are not the business of the functions of the kernel\<close>

lemma call_function_frame:
  "call_function h name cv vs (s\<lparr>cs_heap := x, cs_copies := y\<rparr>) =
   apsnd (\<lambda>s. s\<lparr>cs_heap := x, cs_copies := y\<rparr>) (call_function h name cv vs s)"
  by (simp add: call_function_def split: prod.splits)

lemma call_function_fields:
  "call_function h name cv vs s = (rc, s') \<Longrightarrow> cs_heap s' = cs_heap s \<and> cs_copies s' = cs_copies s"
  by (auto simp: call_function_def split: prod.splits)

lemma find_conversation_frame [simp]:
  "find_conversation h c (s\<lparr>cs_heap := x, cs_copies := y\<rparr>) = find_conversation h c s"
  by (simp add: find_conversation_def cong: if_cong)

lemma update_frames [simp]:
  "sna_cpic_error r rc (s\<lparr>cs_heap := x, cs_copies := y\<rparr>) = (sna_cpic_error r rc s)\<lparr>cs_heap := x, cs_copies := y\<rparr>"
  "put_fd h cv (s\<lparr>cs_heap := x, cs_copies := y\<rparr>) = (put_fd h cv s)\<lparr>cs_heap := x, cs_copies := y\<rparr>"
  "cs_heap (sna_cpic_error r rc s) = cs_heap s" "cs_copies (sna_cpic_error r rc s) = cs_copies s"
  "cs_heap (put_fd h cv s) = cs_heap s" "cs_copies (put_fd h cv s) = cs_copies s"
  "cs_heap (with_pid h s) = cs_heap s" "cs_copies (with_pid h s) = cs_copies s"
  "cs_kernel (with_pid h s) = cs_kernel s"
  by (simp_all add: sna_cpic_error_def put_fd_def with_pid_def)

text \<open>What the kernel does for a number, when it is the number of the function.\<close>

definition serves_put :: "('k, 'c) call_host \<Rightarrow> nat \<Rightarrow> string \<Rightarrow> nat \<Rightarrow> bool" where
  "serves_put h op name n \<longleftrightarrow>
     (\<forall>c args cv s. process_command h c op args cv s = run_put h name cv n args s) \<and> \<not> needs_no_conversation op"

definition serves_plain :: "('k, 'c) call_host \<Rightarrow> nat \<Rightarrow> string \<Rightarrow> (ptr \<Rightarrow> ptr list) \<Rightarrow> nat \<Rightarrow> bool" where
  "serves_plain h op name pre n \<longleftrightarrow>
     (\<forall>c args cv s. process_command h c op args cv s = run_plain h name None (pre c) n args s) \<and> needs_no_conversation op"

definition ordinary :: "string \<Rightarrow> bool" where
  "ordinary name \<longleftrightarrow> name \<notin> {''cmaccp'', ''cminit'', ''cmcnvi'', ''cmcnvo'', ''cmembs'', ''cmrltp'', ''cmsltp'', ''cmdeal''}"

lemma bare_call:
  assumes "ready h s" "needs_no_args op" "serves_put h op name 0" "ordinary name"
  shows "sys_cpicall h c op 0 r s = Some (direct_call h name c [] r s)"
  using assms
  by (auto simp: ready_def serves_put_def ordinary_def sys_cpicall_def sna_cpic_cpicall_def copy_args_def direct_call_def kernel_answer_def
      run_put_def run_plain_def split: option.splits prod.splits)

text \<open>A block is packed, the kernel works on its copy, and the block is released.\<close>

definition packed_call :: "('k, 'c) call_host \<Rightarrow> ptr \<Rightarrow> nat \<Rightarrow> ptr list \<Rightarrow> ptr \<Rightarrow> 'k call_state \<Rightarrow> 'k call_state option" where
  "packed_call h c op vs r s = do {
     (args, s) \<leftarrow> cargo h vs s;
     s \<leftarrow> sys_cpicall h c op args r s;
     release args s
   }"

lemma cargo_ready:
  assumes "ready h s" "length vs \<le> 9"
  shows "cargo h vs s = Some (ch_malloc h (cs_heap s),
    s\<lparr>cs_heap := (cs_heap s)(ch_malloc h (cs_heap s) \<mapsto> map Some vs @ replicate (9 - length vs) None)\<rparr>)"
  using assms by (simp add: cargo_def ready_def packed Let_def)

text \<open>The state in which the kernel works.\<close>

definition inside :: "('k, 'c) call_host \<Rightarrow> ptr list \<Rightarrow> 'k call_state \<Rightarrow> 'k call_state" where
  "inside h vs s = s\<lparr>cs_heap := (cs_heap s)(ch_malloc h (cs_heap s) \<mapsto> map Some vs @ replicate (9 - length vs) None),
     cs_copies := cs_copies s + 1\<rparr>"

lemma packed_call_inside:
  assumes "ready h s" "length vs \<le> 9"
    and "needs_no_conversation op \<Longrightarrow>
      process_command h c op (Some (map Some vs @ replicate (9 - length vs) None)) None (inside h vs s) =
      Some (rc, inside h vs s\<lparr>cs_mem := mem, cs_kernel := k\<rparr>)"
    and "\<And>cv. \<not> needs_no_conversation op \<Longrightarrow> find_conversation h c s = Some cv \<Longrightarrow>
      process_command h c op (Some (map Some vs @ replicate (9 - length vs) None)) (Some cv) (inside h vs s) =
      Some (rc, inside h vs s\<lparr>cs_mem := mem, cs_kernel := k\<rparr>)"
    and "\<not> needs_no_conversation op \<Longrightarrow> find_conversation h c s = None \<Longrightarrow>
      rc = CM_PROGRAM_PARAMETER_CHECK \<and> mem = cs_mem s \<and> k = cs_kernel s"
  shows "packed_call h c op vs r s =
    Some (sna_cpic_error r rc (s\<lparr>cs_mem := mem, cs_kernel := k, cs_copies := cs_copies s + 1\<rparr>))"
proof -
  have a: "ch_malloc h (cs_heap s) \<noteq> 0" "ch_loaded h (cs_kernel s)" "ch_memory h (cs_kernel s)"
    "cs_heap s (ch_malloc h (cs_heap s)) = None"
    using assms(1) by (auto simp: ready_def)
  have "sys_cpicall h c op (ch_malloc h (cs_heap s)) r
      (s\<lparr>cs_heap := (cs_heap s)(ch_malloc h (cs_heap s) \<mapsto> map Some vs @ replicate (9 - length vs) None)\<rparr>) =
    Some (sna_cpic_error r rc (inside h vs s\<lparr>cs_mem := mem, cs_kernel := k\<rparr>))"
    using a assms(3-5)
    by (auto simp: sys_cpicall_def sna_cpic_cpicall_def copy_args_def inside_def split: option.splits)
  then show ?thesis
    unfolding packed_call_def cargo_ready[OF assms(1,2)]
    using a by (cases s) (simp add: release_def inside_def sna_cpic_error_def fun_upd_idem)
qed

section \<open>The kinds of calls\<close>

lemma packed_put:
  assumes "ready h s" "serves_put h op name (length vs)" "vs \<noteq> []" "length vs \<le> 9" "ordinary name"
  shows "packed_call h c op vs r s = Some ((direct_call h name c vs r s)\<lparr>cs_copies := cs_copies s + 1\<rparr>)"
proof (cases "find_conversation h c s")
  case None
  have "packed_call h c op vs r s =
    Some (sna_cpic_error r CM_PROGRAM_PARAMETER_CHECK (s\<lparr>cs_mem := cs_mem s, cs_kernel := cs_kernel s, cs_copies := cs_copies s + 1\<rparr>))"
    using assms None by (intro packed_call_inside) (auto simp: serves_put_def)
  then show ?thesis
    using None assms(5) by (auto simp: direct_call_def kernel_answer_def ordinary_def sna_cpic_error_def Let_def)
next
  case (Some cv)
  obtain rc mem k where call: "ch_call h name (Some cv) vs (cs_mem s) (cs_kernel s) = (rc, mem, k)"
    by (metis prod_cases3)
  have "packed_call h c op vs r s =
    Some (sna_cpic_error r rc (s\<lparr>cs_mem := mem, cs_kernel := ch_put h cv k, cs_copies := cs_copies s + 1\<rparr>))"
    using assms Some call
    by (intro packed_call_inside)
      (auto simp: serves_put_def run_put_def run_plain_def call_function_def inside_def put_fd_def)
  then show ?thesis
    using Some call assms(5)
    by (auto simp: direct_call_def kernel_answer_def ordinary_def sna_cpic_error_def call_function_def put_fd_def Let_def)
qed

lemma packed_plain:
  assumes "ready h s" "serves_plain h op name pre n" "length vs = n" "0 < n" "n \<le> 9"
  shows "packed_call h c op vs r s =
    Some ((case call_function h name None (pre c @ vs) s of (rc, s) \<Rightarrow> sna_cpic_error r rc s)\<lparr>cs_copies := cs_copies s + 1\<rparr>)"
proof -
  obtain rc mem k where call: "ch_call h name None (pre c @ vs) (cs_mem s) (cs_kernel s) = (rc, mem, k)"
    by (metis prod_cases3)
  have "packed_call h c op vs r s =
    Some (sna_cpic_error r rc (s\<lparr>cs_mem := mem, cs_kernel := k, cs_copies := cs_copies s + 1\<rparr>))"
    using assms call
    by (intro packed_call_inside) (auto simp: serves_plain_def run_plain_def call_function_def inside_def)
  then show ?thesis
    using call by (simp add: call_function_def sna_cpic_error_def)
qed

lemma ready_with_pid [simp]: "ready h (with_pid h s) = ready h s"
  by (simp add: ready_def)

section \<open>The numbers of the two sides\<close>

lemma served_put:
  "serves_put h CM_CMACCI ''cmacci'' 0"
  "serves_put h CM_CMALLC ''cmallc'' 0"
  "serves_put h CM_CMCANC ''cmcanc'' 0"
  "serves_put h CM_CMCFM ''cmcfm'' 1"
  "serves_put h CM_CMCFMD ''cmcfmd'' 0"
  "serves_put h CM_CMDFDE ''cmdfde'' 0"
  "serves_put h CM_CMEAEQ ''cmeaeq'' 3"
  "serves_put h CM_CMEAPT ''cmeapt'' 3"
  "serves_put h CM_CMEACN ''cmeacn'' 2"
  "serves_put h CM_CMECS ''cmecs'' 1"
  "serves_put h CM_CMECT ''cmect'' 1"
  "serves_put h CM_CMECTX ''cmectx'' 2"
  "serves_put h CM_CMEID ''cmeid'' 3"
  "serves_put h CM_CMEMN ''cmemn'' 2"
  "serves_put h CM_CMEPID ''cmepid'' 7"
  "serves_put h CM_CMEPLN ''cmepln'' 2"
  "serves_put h CM_CMESI ''cmesi'' 4"
  "serves_put h CM_CMESL ''cmesl'' 1"
  "serves_put h CM_CMESRM ''cmesrm'' 1"
  "serves_put h CM_CMESUI ''cmesui'' 2"
  "serves_put h CM_CMETC ''cmetc'' 1"
  "serves_put h CM_CMETPN ''cmetpn'' 2"
  "serves_put h CM_CMFLUS ''cmflus'' 0"
  "serves_put h CM_CMINCL ''cmincl'' 0"
  "serves_put h CM_CMINIC ''cminic'' 0"
  "serves_put h CM_CMPREP ''cmprep'' 0"
  "serves_put h CM_CMPTR ''cmptr'' 0"
  "serves_put h CM_CMRCV ''cmrcv'' 6"
  "serves_put h CM_CMRCVX ''cmrcvx'' 5"
  "serves_put h CM_CMRTS ''cmrts'' 0"
  "serves_put h CM_CMSAEQ ''cmsaeq'' 3"
  "serves_put h CM_CMSAC ''cmsac'' 1"
  "serves_put h CM_CMSACN ''cmsacn'' 2"
  "serves_put h CM_CMSAPT ''cmsapt'' 3"
  "serves_put h CM_CMSBT ''cmsbt'' 1"
  "serves_put h CM_CMSCSP ''cmscsp'' 2"
  "serves_put h CM_CMSCST ''cmscst'' 1"
  "serves_put h CM_CMSCSU ''cmscsu'' 2"
  "serves_put h CM_CMSCT ''cmsct'' 1"
  "serves_put h CM_CMSCU ''cmscu'' 1"
  "serves_put h CM_CMSDT ''cmsdt'' 1"
  "serves_put h CM_CMSED ''cmsed'' 1"
  "serves_put h CM_CMSEND ''cmsend'' 3"
  "serves_put h CM_CMSERR ''cmserr'' 1"
  "serves_put h CM_CMSF ''cmsf'' 1"
  "serves_put h CM_CMSID ''cmsid'' 2"
  "serves_put h CM_CMSLD ''cmsld'' 2"
  "serves_put h CM_CMSMN ''cmsmn'' 2"
  "serves_put h CM_CMSNDX ''cmsndx'' 3"
  "serves_put h CM_CMSPDP ''cmspdp'' 1"
  "serves_put h CM_CMSPID ''cmspid'' 6"
  "serves_put h CM_CMSPLN ''cmspln'' 2"
  "serves_put h CM_CMSPM ''cmspm'' 1"
  "serves_put h CM_CMSPTR ''cmsptr'' 1"
  "serves_put h CM_CMSQCF ''cmsqcf'' 4"
  "serves_put h CM_CMSQPM ''cmsqpm'' 4"
  "serves_put h CM_CMSRC ''cmsrc'' 1"
  "serves_put h CM_CMSRT ''cmsrt'' 1"
  "serves_put h CM_CMSSL ''cmssl'' 1"
  "serves_put h CM_CMSSRM ''cmssrm'' 1"
  "serves_put h CM_CMSST ''cmsst'' 1"
  "serves_put h CM_CMSTC ''cmstc'' 1"
  "serves_put h CM_CMSTPN ''cmstpn'' 2"
  "serves_put h CM_CMTRTS ''cmtrts'' 1"
  "serves_put h CM_CMWAIT ''cmwait'' 1"
  by (simp_all add: serves_put_def serves_plain_def process_command_def needs_no_conversation_def call_ids)

lemma served_plain:
  "serves_plain h CM_CMCNVI ''cmcnvi'' (\<lambda>c. []) 2"
  "serves_plain h CM_CMCNVO ''cmcnvo'' (\<lambda>c. []) 2"
  "serves_plain h CM_CMEMBS ''cmembs'' (\<lambda>c. []) 1"
  "serves_plain h CM_CMRLTP ''cmrltp'' (\<lambda>c. []) 2"
  "serves_plain h CM_CMSLTP ''cmsltp'' (\<lambda>c. []) 2"
  by (simp_all add: serves_put_def serves_plain_def process_command_def needs_no_conversation_def call_ids)

lemma served_start:
  "serves_plain h CM_CMACCP ''cmaccp'' (\<lambda>c. [c]) 1"
  "serves_plain h CM_CMINIT ''cminit'' (\<lambda>c. [c]) 1"
  by (simp_all add: serves_put_def serves_plain_def process_command_def needs_no_conversation_def call_ids)

text \<open>An entry of the table does what the direct call of its name does, and leaves a copy of its block in the kernel.\<close>

definition entry_direct :: "('k, 'c) call_host \<Rightarrow> 'k call_state \<Rightarrow> string \<times> nat \<times> ('k, 'c) entry \<Rightarrow> bool" where
  "entry_direct h s = (\<lambda>(name, n, call). \<forall>c vs r. length vs = n \<longrightarrow>
     call h c vs r s =
       Some ((direct_call h name c vs r s)\<lparr>cs_copies := cs_copies s + (if packs name n then 1 else 0)\<rparr>))"

lemma call_function_copies [simp]: "cs_copies (snd (call_function h name cv vs s)) = cs_copies s"
  by (simp add: call_function_def split: prod.splits)

lemma direct_call_copies [simp]: "cs_copies (direct_call h name c vs r s) = cs_copies s"
  by (simp add: direct_call_def kernel_answer_def case_prod_unfold Let_def split: option.split)

lemma copies_as_before: "cs_copies s = y \<Longrightarrow> s\<lparr>cs_copies := y\<rparr> = s"
  by (cases s) simp

lemma put_entry:
  assumes "serves_put h op name n" "ordinary name" "0 < n" "n \<le> 9" "ready h s"
    and "\<And>c vs r. length vs = n \<Longrightarrow> call h c vs r s = packed_call h c op vs r s"
  shows "entry_direct h s (name, n, call)"
  using assms by (auto simp: entry_direct_def packs_def packed_put)

lemma bare_entry:
  assumes "serves_put h op name 0" "ordinary name" "needs_no_args op" "ready h s"
    and "\<And>c vs r. call h c vs r s = sys_cpicall h c op 0 r s"
  shows "entry_direct h s (name, 0, call)"
  using assms by (auto simp: entry_direct_def packs_def ordinary_def bare_call copies_as_before)

lemma plain_entry:
  assumes "serves_plain h op name (\<lambda>c. []) n" "name \<in> {''cmcnvi'', ''cmcnvo'', ''cmembs'', ''cmrltp'', ''cmsltp''}" "0 < n" "n \<le> 9" "ready h s"
    and "\<And>c vs r. length vs = n \<Longrightarrow> call h c vs r s = packed_call h 0 op vs r s"
  shows "entry_direct h s (name, n, call)"
  using assms by (auto simp: entry_direct_def packs_def packed_plain direct_call_def kernel_answer_def)

lemma cmaccp_entry:
  assumes "ready h s"
  shows "entry_direct h s (''cmaccp'', 0, \<lambda>h c vs r. cmaccp h c r)"
proof -
  have "cmaccp h c r s = packed_call h c CM_CMACCP [ch_local h] r (with_pid h s)" for c r
    by (simp add: cmaccp_def cargos packed_call_def)
  then show ?thesis
    using assms by (simp add: entry_direct_def packs_def packed_plain[OF _ served_start(1)] direct_call_def kernel_answer_def)
qed

lemma cminit_entry:
  assumes "ready h s"
  shows "entry_direct h s (''cminit'', 1, \<lambda>h c vs r. cminit h c (vs ! 0) r)"
proof -
  have "cminit h c (vs ! 0) r s = packed_call h c CM_CMINIT vs r s" if "length vs = 1" for c r vs
    using that by (simp add: cminit_def cargos packed_call_def all_nths)
  then show ?thesis
    using assms by (simp add: entry_direct_def packs_def packed_plain[OF _ served_start(2)] direct_call_def kernel_answer_def)
qed

lemma cmdeal_entry: "ready h s \<Longrightarrow> entry_direct h s (''cmdeal'', 0, \<lambda>h c vs r. cmdeal h c r)"
  by (auto simp: entry_direct_def packs_def cmdeal_def ready_def sys_cpicall_def sna_cpic_cpicall_def copy_args_def
      direct_call_def kernel_answer_def process_command_def needs_no_args_def needs_no_conversation_def call_ids run_plain_def copies_as_before
      dest: call_function_fields split: option.split prod.split)

lemma entries_direct:
  assumes "ready h s"
  shows "list_all (\<lambda>e. fst e \<noteq> ''cmwcmp'' \<longrightarrow> entry_direct h s e) cpic_calls"
  unfolding cpic_calls_def list.pred_inject fst_conv
  by (intro conjI impI TrueI cmaccp_entry[OF assms] cminit_entry[OF assms] cmdeal_entry[OF assms];
      ((rule bare_entry, rule served_put, simp add: ordinary_def, simp add: needs_no_args_def, rule assms, simp add: entry_defs)
       | (rule put_entry, rule served_put, simp add: ordinary_def, simp, simp, rule assms,
          simp add: entry_defs cargos packed_call_def all_nths)
       | (rule plain_entry, rule served_plain, simp, simp, simp, rule assms,
          simp add: entry_defs cargos packed_call_def all_nths)
       | simp))

section \<open>Return codes\<close>

lemma load_store_u32 [simp]: "load_u32 a (store_u32 a v mem) = Some v"
proof -
  have "ucast (ucast v :: byte) OR push_bit 8 (ucast (ucast (drop_bit 8 v) :: byte)) OR
      push_bit 16 (ucast (ucast (drop_bit 16 v) :: byte)) OR push_bit 24 (ucast (ucast (drop_bit 24 v) :: byte)) = v"
    (is "?w = v")
  proof (rule bit_word_eqI)
    fix n
    assume "n < LENGTH(32)"
    then show "bit ?w n \<longleftrightarrow> bit v n"
      by (cases "n < 24"; cases "n < 16") (auto simp: bit_simps)
  qed
  then show ?thesis
    by (simp add: load_u32_def store_u32_def u32_bytes_def Let_def)
qed

lemma load_other_u32 [simp]: "load_u32 (a + 4) (store_u32 a v mem) = load_u32 (a + 4) mem"
  by (simp add: load_u32_def store_u32_def Let_def)

lemma copy_to_user_u32:
  assumes "load_u32 a mem \<noteq> None"
  shows "copy_to_user a (u32_bytes v) mem = store_u32 a v mem"
proof -
  obtain b0 b1 b2 b3 where "mem a = Some b0" "mem (a + 1) = Some b1" "mem (a + 2) = Some b2" "mem (a + 3) = Some b3"
    using assms by (auto simp: load_u32_def split: Option.bind_splits)
  moreover have "a + 3 = Suc (Suc (Suc a))" by simp
  ultimately show ?thesis by (simp add: u32_bytes_def store_u32_def Let_def numeral_3_eq_3)
qed

lemma sna_cpic_error_halves:
  assumes "load_u32 r (cs_mem s) \<noteq> None"
  shows "load_u32 r (cs_mem (sna_cpic_error r rc s)) = Some rc"
    "load_u32 (r + 4) (cs_mem (sna_cpic_error r rc s)) = load_u32 (r + 4) (cs_mem s)"
  using copy_to_user_u32 [OF assms] by (simp_all add: sna_cpic_error_def ktou_u32_def)

text \<open>The null pointer that \<^verbatim>\<open>malloc\<close> gives is written to.\<close>

lemma no_memory_faults: "ch_malloc h (cs_heap s) = 0 \<Longrightarrow> packed_call h c op vs r s = None"
  by (simp add: packed_call_def cargo_def)

text \<open>Without the module of the kernel nothing but the block of arguments is written: the return code stays as it was.\<close>

lemma unloaded_keeps_memory:
  "\<not> ch_loaded h (cs_kernel s) \<Longrightarrow> sys_cpicall h c op uaddr r s = Some s' \<Longrightarrow> cs_mem s' = cs_mem s"
  by (auto simp: sys_cpicall_def split: option.splits)

text \<open>\<^verbatim>\<open>cmwcmp\<close> gives none of its pointers to the function of the kernel, and always fails.\<close>

lemma cmwcmp_gives_nothing:
  "process_command h c CM_CMWCMP args cv s =
   Some (CM_PROGRAM_PARAMETER_CHECK, snd (call_function h ''cmwcmp'' None [] s))"
  by (simp add: process_command_def call_ids run_plain_def case_prod_unfold)

section \<open>The properties\<close>

lemma entry_of_table:
  assumes "(name, n, call) \<in> set cpic_calls" "name \<noteq> ''cmwcmp''" "length vs = n" "ready h s"
  shows "call h c vs r s =
    Some ((direct_call h name c vs r s)\<lparr>cs_copies := cs_copies s + (if packs name n then 1 else 0)\<rparr>)"
  using entries_direct[OF assms(4)] assms(1-3) by (auto simp: list_all_iff entry_direct_def)

text \<open>
  C14. Every call of CPI-C but one does exactly what calling the function of the kernel with its name directly would do: that function
  gets the conversation whose number the program passes, and the pointers of the call in their order,
  and its code is what the program reads. The block of the arguments is allocated and released again, but the copy that the kernel makes of
  it is never released.
\<close>

theorem calls_reach_kernel:
  assumes "(name, n, call) \<in> set cpic_calls" "name \<noteq> ''cmwcmp''" "length vs = n" "ready h s"
  shows "call h c vs r s =
    Some ((direct_call h name c vs r s)\<lparr>cs_copies := cs_copies s + (if packs name n then 1 else 0)\<rparr>)"
  using assms by (rule entry_of_table)

text \<open>A kernel that counts what it is called with, and a program with sixteen bytes of memory.\<close>

definition sample_host :: "(nat, nat) call_host" where
  "sample_host = \<lparr>ch_malloc = (\<lambda>_. 64), ch_local = 12, ch_pid = 7, ch_loaded = (\<lambda>_. True), ch_memory = (\<lambda>_. True),
     ch_lookup = (\<lambda>i _. Some (nat i)), ch_put = (\<lambda>_ k. k + 1),
     ch_call = (\<lambda>name cv vs mem k. (3, mem, k + sum_list vs))\<rparr>"

definition sample_state :: "nat call_state" where
  "sample_state = \<lparr>cs_heap = Map.empty, cs_mem = (\<lambda>a. if a < 16 then Some 1 else None), cs_kernel = 0, cs_copies = 0\<rparr>"

lemma sample_ready: "ready sample_host sample_state"
  by (simp add: ready_def sample_host_def sample_state_def)

lemma sample_copies: "cs_copies sample_state = 0"
  by (simp add: sample_state_def)

theorem calls_reach_kernel_witness:
  "cmsend sample_host 0 10 20 30 8 sample_state =
   Some ((direct_call sample_host ''cmsend'' 0 [10, 20, 30] 8 sample_state)\<lparr>cs_copies := 1\<rparr>)"
  using calls_reach_kernel[of "''cmsend''" 3 "\<lambda>h c vs r. cmsend h c (vs ! 0) (vs ! 1) (vs ! 2) r" "[10, 20, 30]" sample_host sample_state 0 8]
  by (simp add: cpic_calls_def sample_ready packs_def sample_copies)

text \<open>
  C27. A return code of CPI-C is a \<^verbatim>\<open>long\<close>, but the kernel writes four bytes: after every call the program reads the code
  of the kernel in the lower half of its variable, and in the upper half whatever was there before.
\<close>

theorem return_code_half_written:
  assumes "(name, n, call) \<in> set cpic_calls" "name \<noteq> ''cmwcmp''" "length vs = n" "ready h s"
    and "load_u32 r (cs_mem (snd (kernel_answer h name c vs s))) \<noteq> None"
  shows "\<exists>s'. call h c vs r s = Some s' \<and>
    load_u32 r (cs_mem s') = Some (fst (kernel_answer h name c vs s)) \<and>
    load_u32 (r + 4) (cs_mem s') = load_u32 (r + 4) (cs_mem (snd (kernel_answer h name c vs s)))"
  using entry_of_table[OF assms(1-4)] sna_cpic_error_halves[OF assms(5)]
  by (simp add: direct_call_def case_prod_unfold)

theorem return_code_half_written_witness:
  "\<exists>s'. cmflus sample_host 0 8 sample_state = Some s' \<and> load_u32 8 (cs_mem s') = Some 3 \<and>
     load_u32 12 (cs_mem s') = Some 0x01010101"
proof -
  have m: "load_u32 0 (cs_mem sample_state) = Some 0x01010101" "load_u32 8 (cs_mem sample_state) = Some 0x01010101"
    "load_u32 12 (cs_mem sample_state) = Some 0x01010101"
    by (simp_all add: load_u32_def sample_state_def)
  have k: "kernel_answer sample_host ''cmflus'' 0 [] sample_state = (3, sample_state\<lparr>cs_kernel := 1\<rparr>)"
  proof -
    have "find_conversation sample_host 0 sample_state = Some 0x01010101"
      by (simp add: find_conversation_def sna_cpic_get_index_from_user_def m) (simp add: sample_host_def)
    then show ?thesis
      by (simp add: kernel_answer_def call_function_def put_fd_def) (simp add: sample_host_def sample_state_def)
  qed
  show ?thesis
    using return_code_half_written[of "''cmflus''" 0 "\<lambda>h c vs r. cmflus h c r" "[]" sample_host sample_state 8 0]
    by (simp add: cpic_calls_def sample_ready k m)
qed

end
