(* ===== verification/Tn_Start.thy ===== *)
theory Tn_Start
  imports Sna_Daemon_Conf
begin

text \<open>
  How the terminal gateway starts (\<^verbatim>\<open>main\<close> in \<^verbatim>\<open>tn3270d/tn3270_daemon.c\<close>): its options, one process for each server of
  the configuration, the file with the process id, and the signal handlers. What \<^verbatim>\<open>getopt\<close> and \<^verbatim>\<open>fork\<close>
  return are parameters. A process that runs a server does not come back from it; \<open>Tn_Gateway\<close> holds
  what it does. \<^term>\<open>None\<close> is a write behind the name of the configuration file, a null pointer that is read,
  or a fault of the configuration reader.
\<close>

section \<open>State\<close>

datatype tn_signal = Tn_SIGHUP | Tn_SIGTERM | Tn_SIGINT | Tn_SIGPIPE | Tn_SIGCHLD | Tn_SIGALRM

datatype tn_handler = Default_action | Ignore_signal | Tn_flush | Tn_goaway | Tn_reap

text \<open>
  The process that runs the code that follows, the processes that run servers, each with its server and its handlers, the file
  with the process id, the handlers of the process, the signals that may be blocked and those that are, the number of forks so far.
\<close>

record tn_start =
  tm_process :: nat
  tm_running :: "(nat \<times> server_conf \<times> (tn_signal \<Rightarrow> tn_handler)) list"
  tm_pidfile :: "nat option"
  tm_handlers :: "tn_signal \<Rightarrow> tn_handler"
  tm_blockmask :: "tn_signal set"
  tm_procmask :: "tn_signal set"
  tm_blocked :: bool
  tm_forks :: nat
  tm_output :: string

text \<open>
  \<^verbatim>\<open>fork\<close>: the process id of the child, by the number of the call; the process that \<^verbatim>\<open>daemon\<close> goes on in, and
  whether the file with the process id can be opened; and what the reader of the configuration needs.
\<close>

record tn_host =
  th_fork :: "nat \<Rightarrow> nat option"
  th_daemon :: "nat option"
  th_pid_open :: bool
  th_length_first :: bool
  th_inet_addr :: "string \<Rightarrow> u32"
  th_inet_ntoa :: "u32 \<Rightarrow> string"
  th_xml :: libxml
  th_version :: string

definition tn3270d_conf :: string where "tn3270d_conf = ''/etc/sna.xml''"
definition tn3270d_conf_max :: nat where "tn3270d_conf_max = 300"

section \<open>Signals\<close>

definition sig_handlers :: "tn_signal \<Rightarrow> tn_handler" where
  "sig_handlers = (\<lambda>_. Default_action)(Tn_SIGHUP := Tn_flush, Tn_SIGTERM := Tn_goaway, Tn_SIGINT := Tn_goaway,
     Tn_SIGPIPE := Ignore_signal, Tn_SIGCHLD := Tn_reap)"

definition tn_sig_init :: "tn_start \<Rightarrow> tn_start" where
  "tn_sig_init m = m\<lparr>tm_handlers := sig_handlers, tm_blockmask := {Tn_SIGCHLD, Tn_SIGHUP, Tn_SIGALRM}\<rparr>"

text \<open>\<^verbatim>\<open>sig_block\<close> and \<^verbatim>\<open>sig_unblock\<close>.\<close>

definition tn_sig_block :: "tn_start \<Rightarrow> tn_start" where
  "tn_sig_block m = m\<lparr>tm_procmask := tm_procmask m \<union> tm_blockmask m, tm_blocked := True\<rparr>"

definition tn_sig_unblock :: "tn_start \<Rightarrow> tn_start" where
  "tn_sig_unblock m = m\<lparr>tm_procmask := {}, tm_blocked := False\<rparr>"

text \<open>
  \<^verbatim>\<open>tn3270_signal_goaway\<close> removes the file with the process id, whichever process gets the signal, and ends the process with status 0;
  \<^verbatim>\<open>tn3270_signal_flush\<close> and \<^verbatim>\<open>tn3270_signal_child\<close> go on.
\<close>

definition tn3270_signal_goaway :: "tn_start \<Rightarrow> int \<times> tn_start" where
  "tn3270_signal_goaway m = (0, m\<lparr>tm_pidfile := None\<rparr>)"

definition run_handler :: "tn_handler \<Rightarrow> tn_start \<Rightarrow> (int \<times> tn_start) + tn_start" where
  "run_handler handler m = (if handler = Tn_goaway then Inl (tn3270_signal_goaway m) else Inr m)"

section \<open>Options\<close>

definition tn_version :: "string \<Rightarrow> string" where
  "tn_version version_s = ''tn3270d: Linux-SNA TN3270 server '' @ version_s
     @ ''\<newline>linux-SNA.ORG Jay Schulist <jschlst@linux-sna.org>\<newline>http://www.linux-sna.org\<newline>''"

definition tn_help :: string where
  "tn_help = ''Usage: tn3270d [-h] [-V] [-d level] [-f config]\<newline>''"

text \<open>The name of the configuration file, whether the program stays in the foreground, and the debug level; on the left the exit status with the output.\<close>

fun tn_options ::
  "string \<Rightarrow> (char \<times> string option) list \<Rightarrow> string \<times> int \<times> int \<Rightarrow> ((int \<times> string) + string \<times> int \<times> int) option" where
  "tn_options version_s [] r = Some (Inr r)"
| "tn_options version_s ((c, optarg) # opts) (conf_name, nodaemon, level) =
     (if c = CHR ''d'' then do {
        a \<leftarrow> optarg;
        tn_options version_s opts (conf_name, atoi a, atoi a)
      }
      else if c = CHR ''f'' then do {
        a \<leftarrow> optarg;
        if length a < tn3270d_conf_max then tn_options version_s opts (a, nodaemon, level) else None
      }
      else if c = CHR ''V'' \<or> c = CHR ''v'' then Some (Inl (1, tn_version version_s))
      else if c = CHR ''h'' then Some (Inl (1, tn_help))
      else tn_options version_s opts (conf_name, nodaemon, level))"

section \<open>One process for each server\<close>

text \<open>The parent runs the server, which sets the handlers first and does not come back; the child goes on. A failed \<^verbatim>\<open>fork\<close> is only noted.\<close>

definition tn3270_spawn_server :: "tn_host \<Rightarrow> tn_start \<Rightarrow> server_conf \<Rightarrow> tn_start" where
  "tn3270_spawn_server h m server =
     (case th_fork h (tm_forks m) of
        None \<Rightarrow> m\<lparr>tm_forks := tm_forks m + 1\<rparr>
      | Some pid \<Rightarrow> m\<lparr>tm_running := tm_running m @ [(tm_process m, server, tm_handlers (tn_sig_init m))], tm_process := pid, tm_forks := tm_forks m + 1\<rparr>)"

definition spawn_servers :: "tn_host \<Rightarrow> server_conf list \<Rightarrow> tn_start \<Rightarrow> tn_start" where
  "spawn_servers h servers m = foldl (tn3270_spawn_server h) m servers"

definition logpid :: "tn_host \<Rightarrow> tn_start \<Rightarrow> tn_start" where
  "logpid h m = (if th_pid_open h then m\<lparr>tm_pidfile := Some (tm_process m)\<rparr> else m)"

definition go_background :: "tn_host \<Rightarrow> tn_start \<Rightarrow> tn_start" where
  "go_background h m = (case th_daemon h of None \<Rightarrow> m | Some pid \<Rightarrow> m\<lparr>tm_process := pid\<rparr>)"

text \<open>The program: an exit status, or the state in which the last process sleeps for ever.\<close>

definition tn3270d_main ::
  "tn_host \<Rightarrow> (char \<times> string option) list \<Rightarrow> tn_start \<Rightarrow> ((int \<times> string) + tn_start) option" where
  "tn3270d_main h opts m = do {
     r \<leftarrow> tn_options (th_version h) opts (tn3270d_conf, 0, 1);
     case r of
       Inl e \<Rightarrow> Some (Inl e)
     | Inr (conf_name, nodaemon, level) \<Rightarrow> do {
         (err, servers) \<leftarrow> tn3270_read_config_file (th_length_first h) (th_inet_addr h) (th_xml h) conf_name [];
         if err < 0 then Some (Inl (err, []))
         else do {
           out \<leftarrow> (if level \<ge> 10 then tn3270_print_config (th_inet_ntoa h) servers else Some []);
           if servers = [] then Some (Inl (0, out))
           else
             let m = m\<lparr>tm_output := tm_output m @ out\<rparr>;
                 m = (if nodaemon = 0 then go_background h m else m);
                 m = logpid h m;
                 m = spawn_servers h servers m
             in Some (Inr (tn_sig_init m))
         }
       }
   }"

section \<open>Which process runs which server\<close>

text \<open>The processes in the order of the forks, when all forks succeed.\<close>

definition pids :: "tn_host \<Rightarrow> nat \<Rightarrow> nat \<Rightarrow> nat \<Rightarrow> nat list" where
  "pids h p k n = p # map (\<lambda>i. the (th_fork h i)) [k..<k + n]"

lemma pids_Suc: "pids h p k (Suc n) = p # pids h (the (th_fork h k)) (Suc k) n"
  by (simp add: pids_def upt_rec)

lemma spawn_servers_run:
  assumes "\<forall>i. th_fork h i \<noteq> None"
  shows "spawn_servers h servers m = m\<lparr>
    tm_running := tm_running m @ zip (pids h (tm_process m) (tm_forks m) (length servers)) (map (\<lambda>s. (s, sig_handlers)) servers),
    tm_process := pids h (tm_process m) (tm_forks m) (length servers) ! length servers,
    tm_forks := tm_forks m + length servers\<rparr>"
proof (induction servers arbitrary: m)
  case Nil
  then show ?case by (simp add: spawn_servers_def pids_def)
next
  case (Cons server servers)
  obtain pid where "th_fork h (tm_forks m) = Some pid" using assms by blast
  then show ?case
    using Cons.IH[of "tn3270_spawn_server h m server"]
    by (simp add: spawn_servers_def tn3270_spawn_server_def pids_Suc tn_sig_init_def)
qed

text \<open>
  C34. The gateway starts what is configured. When it is started without options on a file with servers, and no call fails, every server of
  the file is run by exactly one process, each by one of its own, and one process is left that runs none. All of them have the
  handlers of the program. The file with the process id names the process of the first server.
\<close>

theorem starts_configured_servers:
  assumes "tn3270_read_config_file (th_length_first h) (th_inet_addr h) (th_xml h) ''/etc/sna.xml'' [] = Some (0, servers)"
    and "servers \<noteq> []" "th_daemon h = Some p" "th_pid_open h"
    and "\<forall>i. th_fork h i \<noteq> None" "distinct (pids h p 0 (length servers))"
    and "tm_running m = []" "tm_forks m = 0"
  shows "\<exists>m'. tn3270d_main h [] m = Some (Inr m') \<and> map snd (tm_running m') = map (\<lambda>s. (s, sig_handlers)) servers
    \<and> distinct (map fst (tm_running m')) \<and> tm_process m' \<notin> set (map fst (tm_running m'))
    \<and> tm_pidfile m' = Some (fst (hd (tm_running m'))) \<and> tm_handlers m' = sig_handlers"
proof -
  let ?ps = "pids h p 0 (length servers)" and ?ss = "map (\<lambda>s. (s, sig_handlers)) servers"
  have len: "length ?ps = Suc (length ?ss)"
    by (simp add: pids_def)
  have fsts: "map fst (zip ?ps ?ss) = take (length servers) ?ps"
    using len by (simp add: map_fst_zip_take)
  have snds: "map snd (zip ?ps ?ss) = ?ss"
    using len by (simp add: map_snd_zip_take)
  have "?ps ! length servers \<notin> set (take (length servers) ?ps)"
    using assms(6) len by (metis distinct_take id_take_nth_drop length_map lessI not_distinct_conv_prefix)
  then have rest: "?ps ! length servers \<notin> fst ` set (zip ?ps ?ss)"
    using fsts by (metis set_map)
  have "fst (hd (zip ?ps ?ss)) = p"
    using assms(2) by (cases servers) (simp_all add: pids_def)
  then show ?thesis
    using assms rest fsts snds len
    by (simp add: tn3270d_main_def tn3270d_conf_def logpid_def go_background_def spawn_servers_run tn_sig_init_def Let_def)
qed

text \<open>Two servers, in the processes 100 and 200.\<close>

theorem starts_configured_servers_witness:
  "\<exists>lx servers m'. length servers = 2
     \<and> tn3270d_main \<lparr>th_fork = (\<lambda>i. Some (200 + 100 * i)), th_daemon = Some 100, th_pid_open = True, th_length_first = True,
          th_inet_addr = (\<lambda>_. 0xA), th_inet_ntoa = (\<lambda>_. []), th_xml = lx, th_version = ''1.0''\<rparr> []
        \<lparr>tm_process = 50, tm_running = [], tm_pidfile = None, tm_handlers = (\<lambda>_. Default_action), tm_blockmask = {}, tm_procmask = {}, tm_blocked = False,
          tm_forks = 0, tm_output = []\<rparr> = Some (Inr m')
     \<and> map (\<lambda>(p, s, h). (s, h Tn_SIGPIPE)) (tm_running m') = map (\<lambda>s. (s, Ignore_signal)) servers
     \<and> tm_handlers m' Tn_SIGPIPE = Ignore_signal"
proof -
  let ?s2 = "some_server\<lparr>sc_client_port := 2024\<rparr>"
  let ?xs = "[branch 0 ''tn3270'' [server_xml 0 some_server [], server_xml 0 ?s2 []]]"
  let ?lx = "daemon_xml ?xs"
  let ?h = "\<lparr>th_fork = (\<lambda>i. Some (200 + 100 * i)), th_daemon = Some 100, th_pid_open = True, th_length_first = True,
          th_inet_addr = (\<lambda>_. 0xA), th_inet_ntoa = (\<lambda>_. []), th_xml = ?lx, th_version = ''1.0''\<rparr>"
  let ?m = "\<lparr>tm_process = 50, tm_running = [], tm_pidfile = None, tm_handlers = (\<lambda>_. Default_action), tm_blockmask = {}, tm_procmask = {}, tm_blocked = False,
          tm_forks = 0, tm_output = []\<rparr>"
  let ?servers = "[some_server\<lparr>sc_allow_list := []\<rparr>, ?s2\<lparr>sc_allow_list := []\<rparr>]"
  have g: "good_server some_server" "good_server ?s2" by code_simp+
  have o: "open_config ?lx ''/etc/sna.xml'' = Inr (0, ?xs)" by (simp add: open_config_def daemon_xml_def written_xml_def)
  have "tn3270_read_config_file True (\<lambda>_. 0xA) ?lx ''/etc/sna.xml'' [] = Some (0, ?servers)"
    using fold_servers [OF daemon_xml_ok [of ?xs], of "[(some_server, []), (?s2, [])]" 0 True "\<lambda>_. 0xA" "[]"] g
    by (simp add: tn3270_read_config_file_def o del: fold_nodes.simps)
  moreover have "distinct (pids ?h 100 0 (length ?servers))" by (simp add: pids_def)
  ultimately obtain m' where m': "tn3270d_main ?h [] ?m = Some (Inr m')" "map snd (tm_running m') = map (\<lambda>s. (s, sig_handlers)) ?servers"
    "tm_handlers m' = sig_handlers"
    using starts_configured_servers [of ?h ?servers 100 ?m] by auto
  have "map (\<lambda>(p, s, h). (s, h Tn_SIGPIPE)) (tm_running m') = map (\<lambda>(s, h). (s, h Tn_SIGPIPE)) (map snd (tm_running m'))"
    by (simp add: case_prod_beta comp_def)
  then show ?thesis
    unfolding m'(2) using m'(1,3) by (intro exI [of _ ?lx] exI [of _ ?servers] exI [of _ m']) (simp add: sig_handlers_def)
qed

end
