(* ===== verification/Nof_Kernel.thy ===== *)
theory Nof_Kernel
  imports Sna_Console
begin

text \<open>
  The other end of the network operator facility: the table of nodes in the kernel (\<^verbatim>\<open>net/sna/sna_nof.c\<close>, in
  \<^verbatim>\<open>patch-o-matic/net-fun.patch\<close>), its four verbs, and the answers to queries. The other tables of the kernel are parameters; what they
  are told is recorded. The properties join the library and the program that shows nodes to it.
\<close>

unbundle bit_operations_syntax

section \<open>The table of nodes\<close>

record sna_nof_cb =
  nf_netid :: sna_netid
  nf_nodeid :: u32
  nf_flags :: u32
  nf_type :: byte
  nf_lu_seg :: u16
  nf_bind_seg :: u16
  nf_max_lus :: "64 word"

abbreviation (input) SNA_UP :: u32 where "SNA_UP \<equiv> 0x2"
abbreviation (input) SNA_RUNNING :: u32 where "SNA_RUNNING \<equiv> 0x4"
abbreviation (input) SNA_STOPPED :: u32 where "SNA_STOPPED \<equiv> 0x8"

text \<open>Calls of the other parts of the kernel; their results are not looked at.\<close>

datatype node_call =
  Asm_create | Ss_create | Ds_create | Cs_create | Trs_create | Sm_create | Cs_start | Cs_stop
  | Sm_destroy | Trs_destroy | Cs_destroy | Ds_destroy | Ss_destroy | Asm_destroy

record node_table =
  nof_list :: "sna_nof_cb list"
  nf_told :: "(node_call \<times> sna_nof_node) list"
  nf_use_count :: int

definition tell :: "node_call list \<Rightarrow> sna_nof_node \<Rightarrow> node_table \<Rightarrow> node_table" where
  "tell cs node t = t\<lparr>nf_told := nf_told t @ map (\<lambda>c. (c, node)) cs\<rparr>"

text \<open>\<^verbatim>\<open>strncmp\<close> of two arrays of nine characters.\<close>

definition cells9 :: "string \<Rightarrow> string" where
  "cells9 a = takeWhile (\<lambda>c. c \<noteq> NUL) (take 9 a)"

definition same_netid :: "sna_netid \<Rightarrow> sna_netid \<Rightarrow> bool" where
  "same_netid a b \<longleftrightarrow> cells9 (net a) = cells9 (net b) \<and> cells9 (nname a) = cells9 (nname b)"

text \<open>The place of the first node with this name.\<close>

fun sna_nof_get_by_netid :: "sna_nof_cb list \<Rightarrow> sna_netid \<Rightarrow> nat option" where
  "sna_nof_get_by_netid [] netid = None"
| "sna_nof_get_by_netid (nof # rest) netid =
     (if same_netid (nf_netid nof) netid then Some 0 else map_option Suc (sna_nof_get_by_netid rest netid))"

definition sna_nof_node_stop :: "sna_nof_node \<Rightarrow> node_table \<Rightarrow> int \<times> node_table" where
  "sna_nof_node_stop node t =
     (case sna_nof_get_by_netid (nof_list t) (nn_netid node) of
        None \<Rightarrow> (- 2, t)
      | Some i \<Rightarrow> let nof = nof_list t ! i in
          if nf_flags nof AND SNA_STOPPED \<noteq> 0 then (0, t)
          else (0, tell [Cs_stop] node (t\<lparr>nof_list := (nof_list t)[i := nof\<lparr>nf_flags := (nf_flags nof AND NOT SNA_RUNNING) OR SNA_STOPPED\<rparr>]\<rparr>)))"

definition sna_nof_node_delete :: "sna_nof_node \<Rightarrow> node_table \<Rightarrow> int \<times> node_table" where
  "sna_nof_node_delete node t =
     (case sna_nof_get_by_netid (nof_list t) (nn_netid node) of
        None \<Rightarrow> (- 2, t)
      | Some i \<Rightarrow>
          let (err, t) = (if nf_flags (nof_list t ! i) AND SNA_RUNNING \<noteq> 0 then sna_nof_node_stop node t else (0, t)) in
          if err < 0 then (err, t)
          else let t = tell [Sm_destroy, Trs_destroy, Cs_destroy, Ds_destroy, Ss_destroy, Asm_destroy] node t in
            (0, t\<lparr>nof_list := take i (nof_list t) @ drop (Suc i) (nof_list t), nf_use_count := nf_use_count t - 1\<rparr>))"

definition sna_nof_node_start :: "sna_nof_node \<Rightarrow> node_table \<Rightarrow> int \<times> node_table" where
  "sna_nof_node_start node t =
     (case sna_nof_get_by_netid (nof_list t) (nn_netid node) of
        None \<Rightarrow> (- 2, t)
      | Some i \<Rightarrow> let nof = nof_list t ! i in
          if nf_flags nof AND SNA_RUNNING \<noteq> 0 then (- 87, t)
          else (0, tell [Cs_start] node (t\<lparr>nof_list := (nof_list t)[i := nof\<lparr>nf_flags := (nf_flags nof AND NOT SNA_STOPPED) OR SNA_RUNNING\<rparr>]\<rparr>)))"

text \<open>\<^term>\<open>tdm\<close> is the answer of \<^verbatim>\<open>sna_tdm_define_node_chars\<close>, \<^term>\<open>mem\<close> whether there is memory.\<close>

definition sna_nof_node_define :: "int \<Rightarrow> bool \<Rightarrow> sna_nof_node \<Rightarrow> node_table \<Rightarrow> int \<times> node_table" where
  "sna_nof_node_define tdm mem start t =
     (if sna_nof_get_by_netid (nof_list t) (nn_netid start) \<noteq> None then (- 17, t)
      else if tdm < 0 then (tdm, t)
      else if \<not> mem then (- 12, t)
      else let nof = \<lparr>nf_netid = nn_netid start, nf_nodeid = nn_nodeid start, nf_flags = SNA_UP OR SNA_STOPPED, nf_type = nn_type start,
             nf_lu_seg = nn_lu_seg start, nf_bind_seg = nn_bind_seg start, nf_max_lus = nn_max_lus start\<rparr>;
           t = tell [Asm_create, Ss_create, Ds_create, Cs_create, Trs_create, Sm_create] start (t\<lparr>nof_list := nof_list t @ [nof]\<rparr>)
         in (0, t\<lparr>nf_use_count := nf_use_count t + 1\<rparr>))"

definition node_verb :: "int \<Rightarrow> bool \<Rightarrow> sna_nof_action \<Rightarrow> sna_nof_node \<Rightarrow> node_table \<Rightarrow> int \<times> node_table" where
  "node_verb tdm mem act node t =
     (case act of
        SNA_NOF_DEFINE \<Rightarrow> sna_nof_node_define tdm mem node t
      | SNA_NOF_START \<Rightarrow> sna_nof_node_start node t
      | SNA_NOF_STOP \<Rightarrow> sna_nof_node_stop node t
      | SNA_NOF_DELETE \<Rightarrow> sna_nof_node_delete node t
      | _ \<Rightarrow> (- 22, t))"

text \<open>The table at the start, and a history of verbs, each with what it depends on.\<close>

definition no_nodes :: node_table where
  "no_nodes = \<lparr>nof_list = [], nf_told = [], nf_use_count = 0\<rparr>"

record node_event =
  ne_action :: sna_nof_action
  ne_node :: sna_nof_node
  ne_tdm :: int
  ne_mem :: bool

fun node_events :: "node_event list \<Rightarrow> node_table \<Rightarrow> int list \<times> node_table" where
  "node_events [] t = ([], t)"
| "node_events (e # es) t =
     (let (r, t) = node_verb (ne_tdm e) (ne_mem e) (ne_action e) (ne_node e) t; (rs, t) = node_events es t in (r # rs, t))"

section \<open>Queries\<close>

text \<open>
  What all queries do: each entry is stored if it fits in what is left of the buffer; without a buffer its length is counted all the
  same. The buffer is memory of the caller, where copying does not fail.
\<close>

fun gather :: "int \<Rightarrow> ('c \<Rightarrow> 'e) \<Rightarrow> bool \<Rightarrow> int \<Rightarrow> int \<Rightarrow> 'c list \<Rightarrow> 'e list \<times> int" where
  "gather width ginfo buf len sofar [] = ([], sofar)"
| "gather width ginfo buf len sofar (cb # cbs) =
     (if \<not> buf then gather width ginfo buf len (to_int (sofar + width)) cbs
      else if to_int (len - sofar) < width then gather width ginfo buf len sofar cbs
      else let (es, t) = gather width ginfo buf len (to_int (sofar + width)) cbs in (ginfo cb # es, t))"

text \<open>The names in the block of the query are not looked at.\<close>

definition kernel_query :: "int \<Rightarrow> ('c \<Rightarrow> 'e) \<Rightarrow> 'c list \<Rightarrow> query_conf \<Rightarrow> bool \<Rightarrow> int \<Rightarrow> ('e list \<times> int) option" where
  "kernel_query width ginfo cbs names buf len = Some (gather width ginfo buf len 0 cbs)"

text \<open>\<^verbatim>\<open>strncpy\<close> of eight characters into nine zeros.\<close>

definition copied8 :: "string \<Rightarrow> string" where
  "copied8 a = (let s = takeWhile (\<lambda>c. c \<noteq> NUL) (take 8 a) in s @ replicate (9 - length s) NUL)"

definition sna_nof_ginfo :: "sna_nof_cb \<Rightarrow> snareq" where
  "sna_nof_ginfo nof = \<lparr>sq_net = copied8 (net (nf_netid nof)), sq_name = copied8 (nname (nf_netid nof)), sq_nodeid = nf_nodeid nof,
     sq_type = ucast (nf_type nof), sq_lu_seg = nf_lu_seg nof, sq_bind_seg = nf_bind_seg nof, sq_max_lus = nf_max_lus nof,
     sq_node_status = ucast (nf_flags nof)\<rparr>"

text \<open>\<^verbatim>\<open>struct snareq\<close> has 48 octets where a long has eight.\<close>

definition sna_nof_query_node :: "node_table \<Rightarrow> query_conf \<Rightarrow> bool \<Rightarrow> int \<Rightarrow> (snareq list \<times> int) option" where
  "sna_nof_query_node t = kernel_query 48 sna_nof_ginfo (nof_list t)"

section \<open>The table is a map\<close>

text \<open>What the kernel knows under a name, and the verbs on a map from names: the names of a node as far as they are compared.\<close>

record known_node =
  kn_nodeid :: u32
  kn_type :: byte
  kn_lu_seg :: u16
  kn_bind_seg :: u16
  kn_max_lus :: "64 word"
  kn_running :: bool

type_synonym node_name = "string \<times> string"

definition name_of :: "sna_netid \<Rightarrow> node_name" where
  "name_of n = (cells9 (net n), cells9 (nname n))"

definition spec_event :: "node_event \<Rightarrow> (node_name \<rightharpoonup> known_node) \<Rightarrow> int \<times> (node_name \<rightharpoonup> known_node)" where
  "spec_event e m =
     (let n = ne_node e; k = name_of (nn_netid n) in
      case (ne_action e, m k) of
        (SNA_NOF_DEFINE, Some _) \<Rightarrow> (- 17, m)
      | (SNA_NOF_DEFINE, None) \<Rightarrow>
          if ne_tdm e < 0 then (ne_tdm e, m) else if \<not> ne_mem e then (- 12, m)
          else (0, m(k \<mapsto> \<lparr>kn_nodeid = nn_nodeid n, kn_type = nn_type n, kn_lu_seg = nn_lu_seg n, kn_bind_seg = nn_bind_seg n,
                 kn_max_lus = nn_max_lus n, kn_running = False\<rparr>))
      | (SNA_NOF_START, Some s) \<Rightarrow> if kn_running s then (- 87, m) else (0, m(k \<mapsto> s\<lparr>kn_running := True\<rparr>))
      | (SNA_NOF_STOP, Some s) \<Rightarrow> (0, m(k \<mapsto> s\<lparr>kn_running := False\<rparr>))
      | (SNA_NOF_DELETE, Some _) \<Rightarrow> (0, m(k := None))
      | (SNA_NOF_START, None) \<Rightarrow> (- 2, m)
      | (SNA_NOF_STOP, None) \<Rightarrow> (- 2, m)
      | (SNA_NOF_DELETE, None) \<Rightarrow> (- 2, m)
      | _ \<Rightarrow> (- 22, m))"

fun spec_events :: "node_event list \<Rightarrow> (node_name \<rightharpoonup> known_node) \<Rightarrow> int list \<times> (node_name \<rightharpoonup> known_node)" where
  "spec_events [] m = ([], m)"
| "spec_events (e # es) m = (let (r, m) = spec_event e m; (rs, m) = spec_events es m in (r # rs, m))"

text \<open>How the list stands for the map.\<close>

definition state_of :: "sna_nof_cb \<Rightarrow> known_node" where
  "state_of c = \<lparr>kn_nodeid = nf_nodeid c, kn_type = nf_type c, kn_lu_seg = nf_lu_seg c, kn_bind_seg = nf_bind_seg c,
     kn_max_lus = nf_max_lus c, kn_running = (nf_flags c AND SNA_RUNNING \<noteq> 0)\<rparr>"

definition node_map :: "sna_nof_cb list \<Rightarrow> node_name \<rightharpoonup> known_node" where
  "node_map L = map_of (map (\<lambda>c. (name_of (nf_netid c), state_of c)) L)"

text \<open>No name twice, and a node is either stopped or running.\<close>

definition table_ok :: "sna_nof_cb list \<Rightarrow> bool" where
  "table_ok L \<longleftrightarrow> distinct (map (\<lambda>c. name_of (nf_netid c)) L) \<and> (\<forall>c \<in> set L. nf_flags c = SNA_UP OR SNA_STOPPED \<or> nf_flags c = SNA_UP OR SNA_RUNNING)"

lemma same_netid_iff: "same_netid a b \<longleftrightarrow> name_of a = name_of b"
  by (simp add: same_netid_def name_of_def)

lemma map_of_no_key: "k \<notin> f ` set L \<Longrightarrow> map_of (map (\<lambda>c. (f c, g c)) L) k = None"
  by (induction L) auto

lemma node_map_none: "sna_nof_get_by_netid L n = None \<Longrightarrow> node_map L (name_of n) = None \<and> name_of n \<notin> (\<lambda>c. name_of (nf_netid c)) ` set L"
  by (induction L) (auto simp: node_map_def same_netid_iff split: if_splits)

text \<open>A place that is found: what is known there, and the map after the node there is replaced or removed.\<close>

lemma node_map_some:
  assumes "distinct (map (\<lambda>c. name_of (nf_netid c)) L)" "sna_nof_get_by_netid L n = Some i"
  shows "i < length L \<and> name_of (nf_netid (L ! i)) = name_of n \<and> node_map L (name_of n) = Some (state_of (L ! i))
    \<and> node_map (take i L @ drop (Suc i) L) = (node_map L)(name_of n := None)
    \<and> (name_of (nf_netid c) = name_of n \<longrightarrow> node_map (L[i := c]) = (node_map L)(name_of n \<mapsto> state_of c))"
  using assms
proof (induction L arbitrary: i)
  case (Cons x L)
  show ?case
  proof (cases "same_netid (nf_netid x) n")
    case True
    have "node_map L (name_of n) = None"
      using Cons.prems(1) True map_of_no_key [of "name_of n" "\<lambda>c. name_of (nf_netid c)" L state_of] by (auto simp: node_map_def same_netid_iff)
    then show ?thesis using Cons.prems True by (auto simp: node_map_def same_netid_iff)
  next
    case False
    then obtain j where j: "i = Suc j" "sna_nof_get_by_netid L n = Some j" using Cons.prems(2) by auto
    have ne: "name_of (nf_netid x) \<noteq> name_of n" using False by (simp add: same_netid_iff)
    have "node_map (x # M) = (node_map M)(name_of (nf_netid x) \<mapsto> state_of x)" for M by (simp add: node_map_def)
    then show ?thesis using Cons.IH [of j] Cons.prems(1) j ne by (simp add: fun_upd_twist [OF ne] fun_upd_other del: fun_upd_apply)
  qed
qed simp

lemma flag_bits:
  "(SNA_UP OR SNA_STOPPED) AND SNA_RUNNING = 0" "(SNA_UP OR SNA_STOPPED) AND SNA_STOPPED \<noteq> 0"
  "(SNA_UP OR SNA_RUNNING) AND SNA_RUNNING \<noteq> 0" "(SNA_UP OR SNA_RUNNING) AND SNA_STOPPED = 0"
  "((SNA_UP OR SNA_STOPPED) AND NOT SNA_STOPPED) OR SNA_RUNNING = SNA_UP OR SNA_RUNNING"
  "((SNA_UP OR SNA_RUNNING) AND NOT SNA_RUNNING) OR SNA_STOPPED = SNA_UP OR SNA_STOPPED"
  by simp_all

lemma table_ok_replace:
  assumes "table_ok L" "i < length L" "name_of (nf_netid c) = name_of (nf_netid (L ! i))"
    and "nf_flags c = SNA_UP OR SNA_STOPPED \<or> nf_flags c = SNA_UP OR SNA_RUNNING"
  shows "table_ok (L[i := c])"
proof -
  have "map (\<lambda>c. name_of (nf_netid c)) (L[i := c]) = map (\<lambda>c. name_of (nf_netid c)) L"
    using assms(2,3) by (simp add: map_update list_update_same_conv)
  then show ?thesis using assms set_update_subset_insert [of L i c] by (auto simp: table_ok_def)
qed

lemma table_ok_remove:
  assumes "table_ok L" "i < length L" shows "table_ok (take i L @ drop (Suc i) L)"
proof -
  have "table_ok (take i L @ L ! i # drop (Suc i) L)" using assms id_take_nth_drop [of i L] by simp
  then show ?thesis by (auto simp: table_ok_def)
qed

lemma node_map_new:
  "node_map L (name_of (nf_netid c)) = None \<Longrightarrow> node_map (L @ [c]) = (node_map L)(name_of (nf_netid c) \<mapsto> state_of c)"
  by (auto simp: node_map_def map_add_def fun_eq_iff split: option.splits)

text \<open>Each verb, on a name that is not known and on one that is.\<close>

lemmas node_verbs = node_verb_def sna_nof_node_define_def sna_nof_node_start_def sna_nof_node_stop_def sna_nof_node_delete_def tell_def Let_def

lemma verb_on_new_name:
  assumes "table_ok (nof_list t)" "sna_nof_get_by_netid (nof_list t) (nn_netid (ne_node e)) = None"
    and "node_verb (ne_tdm e) (ne_mem e) (ne_action e) (ne_node e) t = (r, t')"
  shows "spec_event e (node_map (nof_list t)) = (r, node_map (nof_list t')) \<and> table_ok (nof_list t')
    \<and> nf_use_count t' - int (length (nof_list t')) = nf_use_count t - int (length (nof_list t))"
proof -
  note free = node_map_none [OF assms(2)]
  have known: "state_of \<lparr>nf_netid = i, nf_nodeid = n, nf_flags = 10, nf_type = ty, nf_lu_seg = ls, nf_bind_seg = bs, nf_max_lus = ml\<rparr>
      = \<lparr>kn_nodeid = n, kn_type = ty, kn_lu_seg = ls, kn_bind_seg = bs, kn_max_lus = ml, kn_running = False\<rparr>" for i n ty ls bs ml
    by (simp add: state_of_def)
  show ?thesis
    using assms free
    by (cases "ne_action e") (auto simp: node_verbs spec_event_def node_map_new known table_ok_def simp del: fun_upd_apply split: if_splits)
qed

lemma verb_on_known_name:
  assumes "table_ok (nof_list t)" "sna_nof_get_by_netid (nof_list t) (nn_netid (ne_node e)) = Some i"
    and "node_verb (ne_tdm e) (ne_mem e) (ne_action e) (ne_node e) t = (r, t')"
  shows "spec_event e (node_map (nof_list t)) = (r, node_map (nof_list t')) \<and> table_ok (nof_list t')
    \<and> nf_use_count t' - int (length (nof_list t')) = nf_use_count t - int (length (nof_list t))"
proof -
  let ?L = "nof_list t" and ?k = "name_of (nn_netid (ne_node e))"
  have d: "distinct (map (\<lambda>c. name_of (nf_netid c)) ?L)" using assms(1) by (simp add: table_ok_def)
  let ?on = "(?L ! i)\<lparr>nf_flags := SNA_UP OR SNA_RUNNING\<rparr>" and ?off = "(?L ! i)\<lparr>nf_flags := SNA_UP OR SNA_STOPPED\<rparr>"
  note at = node_map_some [OF d assms(2)]
  have i: "i < length ?L" "name_of (nf_netid (?L ! i)) = ?k" "node_map ?L ?k = Some (state_of (?L ! i))"
    "node_map (take i ?L @ drop (Suc i) ?L) = (node_map ?L)(?k := None)"
    "node_map (?L[i := ?on]) = (node_map ?L)(?k \<mapsto> state_of ?on)" "node_map (?L[i := ?off]) = (node_map ?L)(?k \<mapsto> state_of ?off)"
    using at [of ?on] at [of ?off] by simp_all
  have ok: "table_ok (?L[i := ?on])" "table_ok (?L[i := ?off])" "table_ok (take i ?L @ drop (Suc i) ?L)"
    using table_ok_replace [OF assms(1) i(1)] table_ok_remove [OF assms(1) i(1)] by simp_all
  have states: "state_of ?on = (state_of (?L ! i))\<lparr>kn_running := True\<rparr>" "state_of ?off = (state_of (?L ! i))\<lparr>kn_running := False\<rparr>"
    by (simp_all add: state_of_def)
  consider (stopped) "nf_flags (?L ! i) = SNA_UP OR SNA_STOPPED" | (running) "nf_flags (?L ! i) = SNA_UP OR SNA_RUNNING"
    using assms(1) nth_mem [OF i(1)] unfolding table_ok_def by blast
  then show ?thesis
  proof cases
    case stopped
    then have "kn_running (state_of (?L ! i)) = False" "state_of (?L ! i) = (state_of (?L ! i))\<lparr>kn_running := False\<rparr>" by (simp_all add: state_of_def)
    then show ?thesis
      using assms i ok states stopped
      by (cases "ne_action e") (auto simp: node_verbs spec_event_def fun_upd_idem split: if_splits)
  next
    case running
    then have "kn_running (state_of (?L ! i)) = True" by (simp add: state_of_def)
    then show ?thesis
      using assms i ok states running
      by (cases "ne_action e") (auto simp: node_verbs spec_event_def fun_upd_idem split: if_splits)
  qed
qed

lemma events_refine:
  assumes "table_ok (nof_list t)" "node_events es t = (rs, t')"
  shows "spec_events es (node_map (nof_list t)) = (rs, node_map (nof_list t')) \<and> table_ok (nof_list t')
    \<and> nf_use_count t' - int (length (nof_list t')) = nf_use_count t - int (length (nof_list t))"
  using assms
proof (induction es arbitrary: t rs)
  case (Cons e es)
  obtain r u where r: "node_verb (ne_tdm e) (ne_mem e) (ne_action e) (ne_node e) t = (r, u)" by fastforce
  obtain qs where q: "node_events es u = (qs, t')" "rs = r # qs" using Cons.prems(2) r by (auto split: prod.splits)
  have "spec_event e (node_map (nof_list t)) = (r, node_map (nof_list u)) \<and> table_ok (nof_list u)
    \<and> nf_use_count u - int (length (nof_list u)) = nf_use_count t - int (length (nof_list t))"
    using verb_on_new_name [OF Cons.prems(1) _ r] verb_on_known_name [OF Cons.prems(1) _ r]
    by (cases "sna_nof_get_by_netid (nof_list t) (nn_netid (ne_node e))") auto
  then show ?case using Cons.IH [of u qs] q by simp
qed simp


section \<open>Queries are complete\<close>

text \<open>What is stored is the beginning of the table, as far as there is room.\<close>

lemma gather_stores:
  assumes "0 < width" "0 \<le> total0" "total0 \<le> width * int n + total0" "width * int n + total0 < 2 ^ 31" "width * int (length cbs) + total0 < 2 ^ 31"
  shows "gather width ginfo True (width * int n + total0) total0 cbs = (map ginfo (take n cbs), total0 + width * int (min n (length cbs)))"
  using assms(2-5)
proof (induction cbs arbitrary: n total0)
  case (Cons cb cbs)
  have pos: "0 \<le> width * int k" for k using assms(1) by simp
  have len: "to_int (width * int n + total0 - total0) = width * int n"
    using Cons.prems(1,3) pos [of n] to_int_id [of "width * int n"] by simp
  show ?case
  proof (cases n)
    case 0
    have rest: "gather width ginfo True total0 total0 cbs = ([], total0)"
      using Cons.IH [of total0 0] Cons.prems assms(1) 0 by (simp add: algebra_simps)
    have "to_int 0 = 0" by (simp add: to_int_def)
    then show ?thesis using 0 rest assms(1) by simp
  next
    case (Suc m)
    have grow: "width * int n + total0 = width * int m + (total0 + width)" using Suc by (simp add: algebra_simps)
    have "width * int n = width + width * int m" using Suc by (simp add: algebra_simps)
    then have big: "\<not> width * int n < width" using pos [of m] by linarith
    have all: "width * int (length (cb # cbs)) + total0 = width * int (length cbs) + (total0 + width)" by (simp add: algebra_simps)
    have "to_int (total0 + width) = total0 + width" using Cons.prems(3) pos [of m] unfolding grow
      by (intro to_int_id) (use Cons.prems(1) assms(1) in linarith)+
    moreover have "gather width ginfo True (width * int m + (total0 + width)) (total0 + width) cbs
        = (map ginfo (take m cbs), total0 + width + width * int (min m (length cbs)))"
      using Cons.IH [of "total0 + width" m] Cons.prems assms(1) unfolding grow all by simp
    ultimately show ?thesis using Suc len big unfolding grow by (simp add: min_def algebra_simps)
  qed
qed simp

text \<open>A query answered by a table of the kernel, with memory that does not fail.\<close>

definition kernel_answer :: "int \<Rightarrow> ('c \<Rightarrow> 'e) \<Rightarrow> 'c list \<Rightarrow> 'e answer" where
  "kernel_answer width ginfo cbs = \<lparr>q_size = width, q_realloc = (\<lambda>_. True), q_malloc = (\<lambda>_. True), q_ioctl = kernel_query width ginfo cbs\<rparr>"

lemma kernel_serves:
  assumes "0 < width" "width * (int (length cbs) + 30) < 2 ^ 31"
  shows "serves (kernel_answer width ginfo cbs) (map ginfo cbs)"
proof -
  have "width * int (length cbs) \<le> width * (int (length cbs) + 30)" using assms(1) by (intro mult_left_mono) simp_all
  then have "width * int (length cbs) < 2 ^ 31" using assms(2) by linarith
  then have "gather width ginfo True (width * int n) 0 cbs = (map ginfo (take n cbs), width * int (min n (length cbs)))"
    if "width * int n < 2 ^ 31" for n
    using gather_stores [OF assms(1), of 0 n cbs ginfo] assms(1) that by simp
  then show ?thesis using assms by (simp add: serves_def kernel_answer_def kernel_query_def take_map)
qed



section \<open>What is shown\<close>

text \<open>The world of \<^verbatim>\<open>snaconfig show\<close> on a kernel with this table of nodes.\<close>

lemma query_nodes:
  assumes "48 * (int (length (nof_list t)) + 30) < 2 ^ 31" "8 \<le> length nt" "8 \<le> length name"
  shows "nof_query_node (kernel_answer 48 sna_nof_ginfo (nof_list t)) nt name = Some (rev (map sna_nof_ginfo (nof_list t)))"
  using assms query_loop_table [OF kernel_serves [of 48 "nof_list t" sna_nof_ginfo], of 10] by (simp add: nof_query_node_def copy8_def)

lemma gather_last_node:
  assumes "sw_node w = kernel_answer 48 sna_nof_ginfo (nof_list t)" "48 * (int (length (nof_list t)) + 30) < 2 ^ 31"
    and "nof_list t = others @ [nof]" "0 \<le> sw_socket w" "8 \<le> length (a_net sna)" "8 \<le> length (a_name sna)"
    and "sna_show_gather_info w sna = Some (err, shown)"
  shows "err = 0 \<and> a_net shown = a_net sna \<and> a_name shown = a_name sna \<and> a_nodeid shown = nf_nodeid nof \<and> a_type shown = ucast (nf_type nof)
    \<and> a_lu_seg shown = nf_lu_seg nof \<and> a_bind_seg shown = nf_bind_seg nof \<and> a_max_lus shown = nf_max_lus nof
    \<and> a_node_status shown = ucast (nf_flags nof)"
proof -
  have "nof_query_node (sw_node w) (a_net sna) (a_name sna) = Some (sna_nof_ginfo nof # rev (map sna_nof_ginfo others))"
    using query_nodes [OF assms(2,5,6)] assms(1,3) by simp
  then show ?thesis
    using assms(4,7) by (auto simp: sna_show_gather_info_def Let_def sna_nof_ginfo_def split: bind_splits if_splits)
qed

text \<open>
  C35. The program that shows the nodes mixes them up. The kernel does not look at the name in a query and the program takes the first entry of the
  answer: whatever node is asked for, and whichever nodes there are, what is gathered for it is the id, the kind, the segment flags, the
  limit and the status of the node that the kernel knows last.
\<close>

theorem last_node_is_shown:
  assumes "sw_node w = kernel_answer 48 sna_nof_ginfo (nof_list t)" "48 * (int (length (nof_list t)) + 30) < 2 ^ 31"
    and "nof_list t = others @ [nof]" "0 \<le> sw_socket w" "8 \<le> length (a_net sna)" "8 \<le> length (a_name sna)"
    and "sna_show_gather_info w sna = Some (err, shown)"
  shows "err = 0 \<and> a_net shown = a_net sna \<and> a_name shown = a_name sna \<and> a_nodeid shown = nf_nodeid nof \<and> a_type shown = ucast (nf_type nof)
    \<and> a_lu_seg shown = nf_lu_seg nof \<and> a_bind_seg shown = nf_bind_seg nof \<and> a_max_lus shown = nf_max_lus nof
    \<and> a_node_status shown = ucast (nf_flags nof)"
  by (rule gather_last_node [OF assms])

lemma no_answer_loop: "query_loop no_answer names n = Some []"
  by (rule query_loop_error) (simp add: no_answer_def)

text \<open>Two nodes; the first is asked for.\<close>

definition two_nodes :: node_table where
  "two_nodes = snd (node_events [\<lparr>ne_action = SNA_NOF_DEFINE, ne_node = \<lparr>nn_netid = \<lparr>net = cells 9 ''LNXSNA'', nname = cells 9 ''A''\<rparr>, nn_nodeid = 0x05D00001,
       nn_type = 1, nn_lu_seg = 0, nn_bind_seg = 0, nn_max_lus = 10\<rparr>, ne_tdm = 0, ne_mem = True\<rparr>,
     \<lparr>ne_action = SNA_NOF_DEFINE, ne_node = \<lparr>nn_netid = \<lparr>net = cells 9 ''LNXSNA'', nname = cells 9 ''B''\<rparr>, nn_nodeid = 0x05D00002,
       nn_type = 2, nn_lu_seg = 1, nn_bind_seg = 1, nn_max_lus = 20\<rparr>, ne_tdm = 0, ne_mem = True\<rparr>] no_nodes)"

theorem last_node_is_shown_witness:
  "\<exists>shown. sna_show_gather_info (idle_world\<lparr>sw_node := kernel_answer 48 sna_nof_ginfo (nof_list two_nodes)\<rparr>)
       (new_all_info\<lparr>a_net := cells 9 ''LNXSNA'', a_name := cells 9 ''A''\<rparr>) = Some (0, shown)
     \<and> a_name shown = cells 9 ''A'' \<and> a_nodeid shown = 0x05D00002"
proof -
  let ?w = "idle_world\<lparr>sw_node := kernel_answer 48 sna_nof_ginfo (nof_list two_nodes)\<rparr>"
  let ?n = "new_all_info\<lparr>a_net := cells 9 ''LNXSNA'', a_name := cells 9 ''A''\<rparr>"
  have "map nf_nodeid (nof_list two_nodes) = [0x05D00001, 0x05D00002]" by code_simp
  then obtain a b where two: "nof_list two_nodes = [a] @ [b]" "nf_nodeid b = 0x05D00002" by (auto simp: map_eq_Cons_conv)
  have d: "\<exists>r. sna_show_gather_info ?w ?n = Some r"
    using query_nodes [of two_nodes "cells 9 ''LNXSNA''" "cells 9 ''A''"]
    by (simp add: two sna_show_gather_info_def Let_def idle_world_def new_all_info_def cells_def nof_query_dlc_def copy8_def literal_def no_answer_loop)
  then obtain err shown where s: "sna_show_gather_info ?w ?n = Some (err, shown)" by auto
  show ?thesis
    using last_node_is_shown [OF _ _ two(1) _ _ _ s] s two by (simp add: idle_world_def new_all_info_def cells_def)
qed

section \<open>A configuration that is loaded\<close>

text \<open>The table of nodes after a list of requests, with memory that does not fail, and the kernel as the programs see it; the other tables are a
  parameter.\<close>

fun node_request :: "(sna_nof_node \<Rightarrow> int) \<Rightarrow> nof_request \<Rightarrow> node_table \<Rightarrow> (int \<times> node_table) option" where
  "node_request tdm (Nof level SNA_NOF_NODE act (Node_block n)) t = (if level = SOL_SNA_NOF then Some (node_verb (tdm n) True act n t) else None)"
| "node_request tdm _ t = None"

definition nodes_after :: "(sna_nof_node \<Rightarrow> int) \<Rightarrow> nof_request list \<Rightarrow> node_table" where
  "nodes_after tdm rs = foldl (\<lambda>t r. case node_request tdm r t of None \<Rightarrow> t | Some (_, t) \<Rightarrow> t) no_nodes rs"

definition node_kernel :: "(sna_nof_node \<Rightarrow> int) \<Rightarrow> kernel \<Rightarrow> kernel" where
  "node_kernel tdm others sent r = (case node_request tdm r (nodes_after tdm sent) of None \<Rightarrow> others sent r | Some (err, _) \<Rightarrow> err)"

lemma submit_accepted_each:
  "\<forall>i < length rs. 0 \<le> kn (s @ take i rs) (rs ! i) \<Longrightarrow> submit kn rs s = (0, s @ rs)"
proof (induction rs arbitrary: s)
  case (Cons r rs)
  have "\<forall>i < length rs. 0 \<le> kn ((s @ [r]) @ take i rs) (rs ! i)" using Cons.prems by auto
  then show ?case using Cons.IH [of "s @ [r]"] Cons.prems by (auto simp: not_less)
qed simp

lemma those_from: "those (map f xs) = Some ys \<Longrightarrow> y \<in> set ys \<Longrightarrow> \<exists>x. f x = Some y"
  by (induction xs arbitrary: ys) (auto split: option.splits)

text \<open>Only the first request of a configuration is about the node.\<close>

lemma requests_of_config:
  assumes "config_requests g = Some rs"
  shows "\<exists>rest. rs = Nof SOL_SNA_NOF SNA_NOF_NODE SNA_NOF_DEFINE (Node_block (node_block g)) # rest \<and> (\<forall>r \<in> set rest. nof_component r \<noteq> SNA_NOF_NODE)"
proof -
  obtain ds ls cs ms us xs where q: "those (map (dlc_request g) (gi_dlc_list g)) = Some ds" "those (map (link_request g) (gi_link_list g)) = Some ls"
    "those (map cos_request (gi_cos_list g)) = Some cs" "those (map (mode_request g) (gi_mode_list g)) = Some ms"
    "those (map (lu_request g) (gi_lu_list g)) = Some us" "those (map (cpic_request g) (gi_cpic_list g)) = Some xs"
    and rs: "rs = Nof SOL_SNA_NOF SNA_NOF_NODE SNA_NOF_DEFINE (Node_block (node_block g)) # ds @ ls @ cs @ ms @ us @ xs"
    using assms by (auto simp: config_requests_def split: Option.bind_splits)
  have "nof_component r \<noteq> SNA_NOF_NODE" if "r \<in> set ds \<union> set ls \<union> set cs \<union> set ms \<union> set us \<union> set xs" for r
    using that q [THEN those_from, of r]
    by (auto simp: dlc_request_def link_request_def cos_request_def mode_request_def lu_request_def cpic_request_def split: if_splits)
  then show ?thesis unfolding rs by (intro exI [of _ "ds @ ls @ cs @ ms @ us @ xs"]) auto
qed

lemma node_request_other: "nof_component r \<noteq> SNA_NOF_NODE \<Longrightarrow> node_request tdm r t = None"
  by (cases "(tdm, r, t)" rule: node_request.cases) auto

lemma nodes_after_others:
  "\<forall>r \<in> set rest. nof_component r \<noteq> SNA_NOF_NODE \<Longrightarrow> nodes_after tdm (s @ rest) = nodes_after tdm s"
  by (induction rest rule: rev_induct) (simp_all add: nodes_after_def node_request_other flip: append_assoc)

lemma good_netid_length: "good_netid n \<Longrightarrow> length (net n) = 9 \<and> length (nname n) = 9"
proof -
  have "name_part a \<Longrightarrow> length (padded a) = 9" for a by (simp add: name_part_def padded_def)
  then show "good_netid n \<Longrightarrow> length (net n) = 9 \<and> length (nname n) = 9" unfolding good_netid_def by metis
qed

text \<open>The call that defines the node, on a name that is free.\<close>

definition loaded_node :: "global_info \<Rightarrow> sna_nof_cb" where
  "loaded_node g = (let n = node_block g in \<lparr>nf_netid = nn_netid n, nf_nodeid = nn_nodeid n, nf_flags = SNA_UP OR SNA_STOPPED, nf_type = nn_type n,
     nf_lu_seg = nn_lu_seg n, nf_bind_seg = nn_bind_seg n, nf_max_lus = nn_max_lus n\<rparr>)"

lemma node_defined:
  assumes "sna_nof_get_by_netid (nof_list t) (gi_node_name g) = None" "\<And>n. 0 \<le> tdm n"
  shows "\<exists>u. node_request tdm (Nof SOL_SNA_NOF SNA_NOF_NODE SNA_NOF_DEFINE (Node_block (node_block g))) t = Some (0, u)
    \<and> nof_list u = nof_list t @ [loaded_node g]"
  using assms by (simp add: node_verb_def sna_nof_node_define_def node_block_def tell_def loaded_node_def Let_def not_less)



end
