(* ===== verification/Spec2Isabelle.thy ===== *)
theory Spec2Isabelle
  imports Tn_Clients Tn_Gateway Sna_List Asuite_Files Aftp_Conversation Sna_Console Sna_Daemon_Conf Sense_Lookup Snatchd Arexec Tdb_Walk Name_Service Aftp_Console Acopy_Run Cpic_Calls Tn_Start Nof_Kernel
begin

text \<open>
  A verification library for the user space tools of Linux-SNA.

  \<^bold>\<open>The program.\<close> The repository holds the programs with which a Linux machine takes part in an SNA
  network. \<^verbatim>\<open>libtnX\<close> is the library of the terminal gateway \<^verbatim>\<open>tn3270d\<close>: buffers, records, code pages,
  configuration, the list of permitted clients and the telnet stream; the gateway puts its host side,
  its session with the host and its table of clients on top of it. \<^verbatim>\<open>libasuite\<close> holds the APPC
  application suite: records, directory listings, CPI-C sessions and the file transfer library; the
  programs of \<^verbatim>\<open>asuite\<close> are file transfer, ping, messages, remote execution and names, each as a client
  and a server that talk over one CPI-C conversation. \<^verbatim>\<open>libsna\<close> wraps the calls of the patched kernel;
  \<^verbatim>\<open>snaconfig\<close> loads, starts, stops and shows the configuration through it, and \<^verbatim>\<open>snatchd\<close> starts
  transaction programs when they are attached. \<^verbatim>\<open>sense\<close> looks up sense codes. The development covers
  all of these parts; what it leaves out is listed below.

  \<^bold>\<open>Conventions.\<close> An operation that can touch memory out of range, use storage that was never
  written, stop in a failed assertion, divide by zero, overflow a signed integer or run for ever returns an \<open>option\<close>; \<^term>\<open>None\<close> is that
  behaviour. An early exit of a program is a value of a sum type: the exit status with the state on one side, the state that goes on at the other.
  Loops that may not end are \<^theory_text>\<open>partial_function (option)\<close>; a theorem that such a loop
  returns shows a result \<^term>\<open>Some\<close>. Other loops are recursive functions with a measure. No fuel is used. Integers have their C width where it matters (\<^typ>\<open>byte\<close>, \<^typ>\<open>u16\<close>,
  \<^typ>\<open>u32\<close>); the host is a little-endian machine with 64-bit \<^verbatim>\<open>long\<close>. Arrays of characters are lists of cells, \<^term>\<open>None\<close> where nothing was written. The C library, libxml, glib and the kernel
  enter as parameters (\<^verbatim>\<open>inet_aton\<close>, the CPI-C calls, \<^verbatim>\<open>malloc\<close>, \<^verbatim>\<open>fork\<close>, the results of \<^verbatim>\<open>getopt\<close>, which \<^verbatim>\<open>arexec\<close> alone takes from a definition of the POSIX function) or as explicit state (the socket of a stream with all answers of \<^verbatim>\<open>select\<close>, \<^verbatim>\<open>send\<close> and
  \<^verbatim>\<open>recv\<close> still to come, the results of \<^verbatim>\<open>read\<close>, the file written to with the answers of \<^verbatim>\<open>write\<close>).

  \<^bold>\<open>Libraries.\<close>
  \<^item> \<open>Sna_Prelude\<close>: widths, byte order, checked memory blocks, strings, \<^verbatim>\<open>strtol\<close>, numbers as text.
  \<^item> \<open>Asuite_Mem\<close>: character arrays whose cells may be unwritten, with the string functions on them.
  \<^item> \<open>Sna_Xml\<close>: the document as libxml hands it out, and the words of the configurations
    (\<^verbatim>\<open>snaconfig/sna_xwords.c\<close>, \<^verbatim>\<open>snatchd/snatch_xwords.c\<close>).
  \<^item> \<open>Sna_List\<close> (\<^verbatim>\<open>tn3270d/tn3270_list.c\<close> and its copies): the linked lists of the daemons, pointer by pointer on a heap; any
    history of insertions and deletions is the sequence of its nodes.

  \<^bold>\<open>The terminal gateway.\<close>
  \<^item> \<open>Tn_Buffer\<close> (\<^verbatim>\<open>libtnX/tnX_buffer.c\<close>): the growable buffer, as an instance of the locale
    \<open>byte_buffer\<close>; appending never leaves the block.
  \<^item> \<open>Tn_Record\<close> (\<^verbatim>\<open>libtnX/tnX_record.c\<close>): records on a heap in a circular doubly linked list, as an
    instance of the locale \<open>fifo\<close>; the list is a queue, removal from any place keeps the ring, destroying
    it frees every record once.
  \<^item> \<open>Tn_Table\<close>, \<open>Tn_Transmaps1\<close>, \<open>Tn_Transmaps2\<close>, \<open>Tn_Charmap\<close> (\<^verbatim>\<open>libtnX/transmaps.h\<close> and the code page
    functions of \<^verbatim>\<open>libtnX/libtnX.c\<close>): the 38 tables, checked by evaluation, as instances of the locale
    \<open>code_page\<close>; translation there and back.
  \<^item> \<open>Tn_Clients\<close> (\<^verbatim>\<open>libtnX/libtnX.c\<close>): the list of permitted clients; admission is agreement in a prefix.
  \<^item> \<open>Tn_Conf\<close> (\<^verbatim>\<open>libtnX/tnX_conf.c\<close>): the settings, as an instance of the locale \<open>setting_store\<close>, and the
    reader of configuration files; the text of a tree of settings is read back.
  \<^item> \<open>Tn_Stream\<close>, \<open>Tn_Telnet\<close> (\<^verbatim>\<open>libtnX/tnX_stream.c\<close>): the telnet stream in both roles. The receiver
    refines a specification on telnet tokens, never faults from a sound stream, and records cross the
    line through every pattern of partial sends.
  \<^item> \<open>Tn_Host\<close>, \<open>Tn_Screen\<close> (\<^verbatim>\<open>tn3270d/tn3270_host.c\<close>): the builders of 3270 data streams, and what a terminal shows of them.
  \<^item> \<open>Tn_Rui\<close> (\<^verbatim>\<open>tn3270d/tn3270_daemon.c\<close>, \<^verbatim>\<open>libsna/lua.h\<close>): the verbs of the session with the host and the bound on its restarts.
  \<^item> \<open>Tn_Daemon\<close>, \<open>Tn_Gateway\<close> (\<^verbatim>\<open>tn3270d/tn3270_daemon.c\<close>): the table of clients, the turns of the server over the descriptors
    that are ready, the invariant of the table over any sequence of turns, and a session from the connection to its end.
  \<^item> \<open>Tn_Start\<close> (\<^verbatim>\<open>tn3270d/tn3270_daemon.c\<close>): the start of the gateway, one process for each server of the configuration, each with the
    handlers of the program.
  \<^item> \<open>Sna_Daemon_Conf\<close> (\<^verbatim>\<open>tn3270d/tn3270_xml.c\<close>, \<^verbatim>\<open>snatchd/snatch_xml.c\<close>): the configurations of the daemons, written and read back.

  \<^bold>\<open>The file transfer.\<close>
  \<^item> \<open>Asuite_Files\<close> (\<^verbatim>\<open>libasuite/wildcard.c\<close>, \<^verbatim>\<open>libasuite/filemode.c\<close>, the listing in
    \<^verbatim>\<open>libasuite/asuitecommon.c\<close>): the matcher decides the usual reading of a pattern, a listing is complete,
    the mode string determines the mode.
  \<^item> \<open>Asuite_Record\<close> (\<^verbatim>\<open>libasuite/asuitecommon.c\<close>): the records of the suite. The locale \<open>tlv_reader\<close> is the contract between a record and
    the loop with which all receivers walk its parameters.
  \<^item> \<open>Aftp_Client\<close>, \<open>Aftp_Sessions\<close>, \<open>Aftp_Protocol\<close> (\<^verbatim>\<open>libasuite/libaftp.c\<close>): the client library with its table of sessions (an instance of the
    locale \<open>handle_table\<close>), all requests, both transfers and all settings; its invariant over all sequences of calls; what requests put on the line.
  \<^item> \<open>Aftp_Server\<close>, \<open>Aftp_Serving\<close> (\<^verbatim>\<open>asuite/aftpd.c\<close>): every handler of the server, the dispatch and the loops; the server
    refines a specification that maps requests to system calls and replies.
  \<^item> \<open>Aftp_Conversation\<close>: client and server at the two ends of one line: what a caller is told is what the system of the server
    answered, and files arrive: whole when every \<^verbatim>\<open>write\<close> is complete, and else as far as the writes took the bytes.
  \<^item> \<open>Aftp_Shell\<close>, \<open>Aftp_Commands\<close> (\<^verbatim>\<open>asuite/aftp.c\<close>, \<^verbatim>\<open>asuite/aftp.h\<close>): the interactive program: reading and splitting a line, the tables, every command,
    the main loop. \<open>Aftp_Console\<close> shows which command a typed line runs (an instance of the locale \<open>sorted_search\<close>, the contract of \<^verbatim>\<open>bsearch\<close>), and what the user at the keyboard makes the server do.
  \<^item> \<open>Acopy\<close>, \<open>Acopy_Run\<close> (\<^verbatim>\<open>asuite/acopy.c\<close>): the copy program from its arguments to its exit status, with the server at the other end.

  \<^bold>\<open>The other programs of the suite.\<close>
  \<^item> \<open>Cpic_Session\<close> (\<^verbatim>\<open>libasuite/cpicsession.c\<close>): the settings of a conversation, its start, and the exchange of versions. The theory
    also holds the line between two programs: what one side does determines what the other side receives. All theorems about a
    client with its server state that each receives exactly what the other sends.
  \<^item> \<open>Aping\<close> (\<^verbatim>\<open>asuite/aping.c\<close>, \<^verbatim>\<open>asuite/apingd.c\<close>), \<open>Atell\<close> (\<^verbatim>\<open>asuite/atell.c\<close>, \<^verbatim>\<open>asuite/atelld.c\<close>), \<open>Arexec\<close> (\<^verbatim>\<open>asuite/arexec.c\<close>,
    \<^verbatim>\<open>asuite/arexecd.c\<close>): ping, messages and remote execution, each from the command line of the client to the end of both programs.

  \<^bold>\<open>The name database.\<close>
  \<^item> \<open>Tdb\<close> (\<^verbatim>\<open>libasuite/tdb.c\<close>): the operations on a database without a file, which is one block of memory with a header, lists of records and records. \<open>Tdb_Layout\<close>, \<open>Tdb_Lists\<close>, \<open>Tdb_Map\<close>,
    \<open>Tdb_Operations\<close> hold the invariant of the block, on the views of its bytes, and one lemma for each function; \<open>Tdb_Store\<close> interprets the locale \<open>keyed_store\<close>, a bounded
    store that answers as a map; \<open>Tdb_Walk\<close> shows that a traversal is complete.
  \<^item> \<open>Anamed\<close>, \<open>Name_Service\<close> (\<^verbatim>\<open>asuite/anamed.c\<close>): the name server over the records and the database; for any sequence of conversations it is a set of
    entries.

  \<^bold>\<open>The calls of the kernel.\<close>
  \<^item> \<open>Cpic_Syscall\<close>, \<open>Cpic_Calls\<close> (\<^verbatim>\<open>libsna/libcpic.c\<close>, with the macros and the dispatch of the kernel in \<^verbatim>\<open>patch-o-matic/net-fun.patch\<close>): every call of CPI-C
    reaches the function of the kernel of its name with its own pointers in their order. The other theories use the calls of CPI-C
    as functions, the record \<open>cpic\<close>; the functions of the kernel that carry them out are the parameters of both.

  \<^bold>\<open>The configuration and the daemons.\<close>
  \<^item> \<open>Sna_Utility\<close> (\<^verbatim>\<open>snaconfig/sna_utility.c\<close>): conversions of names, addresses and identifiers.
  \<^item> \<open>Sna_Nof\<close> (\<^verbatim>\<open>libsna/libnof.c\<close>): the verbs and queries of the operator facility.
  \<^item> \<open>Sna_Load\<close>, \<open>Sna_Config\<close> (\<^verbatim>\<open>snaconfig/sna_load.c\<close>): the readers of resources and the requests to the kernel; a configuration that is
    written with numbers is read back and requested in order; some words of the sample file are read as zero.
  \<^item> \<open>Sna_Ctrl\<close>, \<open>Sna_Show\<close>, \<open>Sna_Console\<close> (\<^verbatim>\<open>snaconfig/sna_ctrl.c\<close>, \<^verbatim>\<open>snaconfig/sna_show.c\<close>, \<^verbatim>\<open>snaconfig/snaconfig.c\<close>): starting, stopping,
    deleting and showing; what a file defines can be started by its name.
  \<^item> \<open>Nof_Kernel\<close> (\<^verbatim>\<open>net/sna/sna_nof.c\<close> in \<^verbatim>\<open>patch-o-matic/net-fun.patch\<close>): the table of nodes at the other end of the operator facility, which is a
    map from names; the answers to queries, which are complete for tables whose length, with thirty entries more, fits into an \<^verbatim>\<open>int\<close>; and what is shown after a
    configuration is loaded.
  \<^item> \<open>Snatchd\<close> (\<^verbatim>\<open>snatchd/snatchd.c\<close>, \<^verbatim>\<open>libsna/libattach.c\<close>): the attach daemon; its programs survive every sequence of attaches and
    signals (a step relation with rule induction), and the limit on their starts.
  \<^item> \<open>Sense_Lookup\<close> (\<^verbatim>\<open>sense/getsense.c\<close>): the search in the file of sense codes against what such a file means.

  \<^bold>\<open>Faults shown.\<close> The theorems whose subject is an error state precisely when the code misbehaves: a
  prefix length of zero, a list that is not closed, an option request split by a pause, an empty record,
  an escaped byte in a sub-negotiation, a 5250 host stream, a question mark at the end of a name, a four
  byte parameter, a long current directory, a twenty-first session, a destroyed handle, the error
  replies that \<^verbatim>\<open>aftp_create_dir\<close> and \<^verbatim>\<open>aftp_delete\<close> lose, the first client of a gateway that is not a test server, a failed negotiation, an unknown word in a
  configuration, a resource in front of the element \<^verbatim>\<open>global\<close>, a symbolic destination set after the user, a
  transaction of a few milliseconds, a turn without a block, the end of \<^verbatim>\<open>atell\<close>, an eight digit sense code,
  a typed line or word that fills its block, a file pattern in \<^verbatim>\<open>aftp\<close>, a failed change of the local directory, the name of a copied file, the upper half of a return code of the kernel, a short
  or failed write of a received file, the segment flags in words, the order of the arguments in the reader of permitted networks, and the node that is shown.

  \<^bold>\<open>Not modelled.\<close> The files, locks and mappings of a database with a file, which no program opens. \<^verbatim>\<open>libasuite/libaname.c\<close>, \<^verbatim>\<open>libsna/libappc.c\<close> and \<^verbatim>\<open>libsna/liblua.c\<close> have stubs without
  behaviour, and \<^verbatim>\<open>libtnX/tnX_log.c\<close> only writes a log. The kernel patches are no
  sources of the programs; only the dispatch of the calls of CPI-C and the table of nodes are modelled from them. Of the daemons, the lines they log are left out. Null record pointers
  and the sharing of list values between settings are left out where the theories say so.

\<close>

end
